(* ===== verification/Prelude.thy ===== *)
theory Prelude
  imports Main "HOL-Library.Word" "HOL-Library.Monad_Syntax"
begin

text \<open>
  Shared vocabulary of the development: the machine integers of the C sources, memory
  as byte lists with checked loads and stores, network byte order, and the generic list
  and word lemmas that the component theories use.

  Undefined behaviour. A C function whose execution can leave defined behaviour (a load
  or store outside its buffer, a failed \<open>assert\<close>, a null pointer dereference) is
  modelled with an \<open>option\<close> result: \<open>None\<close> is the undefined or aborted execution,
  \<open>Some r\<close> the defined one. Error codes the C code returns are values inside \<open>Some\<close>.

  Sizes. A \<open>size_t\<close> that only counts elements of an object in memory is a \<open>nat\<close>;
  where the source can wrap it, it is a \<open>64 word\<close>.
\<close>

unbundle bit_operations_syntax

type_synonym u8 = "8 word"
type_synonym u16 = "16 word"
type_synonym u32 = "32 word"
type_synonym u64 = "64 word"

type_synonym bytes = "u8 list"

named_theorems wire "facts on byte order, checked loads and checked stores"

fun opt_list :: "'a option \<Rightarrow> 'a list" where
  "opt_list None = []"
| "opt_list (Some x) = [x]"

text \<open>A loop whose body may leave defined behaviour.\<close>

fun fold_opt :: "('a \<Rightarrow> 's \<Rightarrow> 's option) \<Rightarrow> 'a list \<Rightarrow> 's \<Rightarrow> 's option" where
  "fold_opt f [] s = Some s"
| "fold_opt f (x # xs) s = Option.bind (f x s) (fold_opt f xs)"

lemma fold_opt_append: "fold_opt f (xs @ ys) s = Option.bind (fold_opt f xs s) (fold_opt f ys)"
  by (induction xs arbitrary: s) (auto split: Option.bind_splits)

text \<open>A loop that runs one operation per element for which there is one.\<close>

lemma fold_opt_map_filter:
  "(\<And>x s. x \<in> set xs \<Longrightarrow> f x s = (case g x of None \<Rightarrow> Some s | Some y \<Rightarrow> h y s)) \<Longrightarrow>
   fold_opt f xs s = fold_opt h (List.map_filter g xs) s"
proof (induction xs arbitrary: s)
  case (Cons x xs)
  have "f x s = (case g x of None \<Rightarrow> Some s | Some y \<Rightarrow> h y s)" by (rule Cons.prems) simp
  moreover have "fold_opt f xs s' = fold_opt h (List.map_filter g xs) s'" for s'
    by (rule Cons.IH) (rule Cons.prems, simp)
  then have "fold_opt f xs = fold_opt h (List.map_filter g xs)" by (rule ext)
  ultimately show ?case by (simp add: List.map_filter_simps split: option.splits)
qed (simp add: List.map_filter_simps)

lemma take_append_take: "take n (xs @ take n ys) = take n (xs @ ys)"
  by simp

section \<open>Word facts\<close>

lemma word16_join_split [wire]:
  "push_bit 8 (ucast (ucast (drop_bit 8 w) :: u8)) OR ucast (ucast w :: u8) = (w :: u16)"
  by (rule bit_word_eqI) (auto simp: bit_simps)

lemma word32_join_split [wire]:
  "push_bit 24 (ucast (ucast (drop_bit 24 w) :: u8)) OR
   (push_bit 16 (ucast (ucast (drop_bit 16 w) :: u8)) OR
   (push_bit 8 (ucast (ucast (drop_bit 8 w) :: u8)) OR ucast (ucast w :: u8))) = (w :: u32)"
  (is "?l = w")
proof (rule bit_word_eqI)
  fix n
  assume n: "n < LENGTH(32)"
  consider "n < 8" | "8 \<le> n" "n < 16" | "16 \<le> n" "n < 24" | "24 \<le> n" by linarith
  then show "bit ?l n = bit w n"
    using n by cases (auto simp: bit_simps)
qed

lemma unat_bound: "unat w < 2 ^ LENGTH('a)" for w :: "'a::len word"
  by simp

lemma unat_less_shift: "unat a + 2 ^ k < unat b \<longleftrightarrow> uint a + 2 ^ k < uint b"
proof -
  have "int (unat a + 2 ^ k) = uint a + 2 ^ k" "int (unat b) = uint b" by simp_all
  then show ?thesis by linarith
qed

lemma unat_of_nat_len: "n < 2 ^ LENGTH('a) \<Longrightarrow> unat (of_nat n :: 'a::len word) = n"
  by (simp add: unsigned_of_nat take_bit_nat_eq_self)

lemma unat_ucast_mod: "unat (ucast w :: 'b::len word) = unat w mod 2 ^ LENGTH('b)" for w :: "'a::len word"
  by (simp add: unsigned_ucast_eq take_bit_eq_mod)

lemma unat_ucast_small: "unat w < 2 ^ LENGTH('b) \<Longrightarrow> unat (ucast w :: 'b::len word) = unat w"
  for w :: "'a::len word"
  by (simp add: unat_ucast_mod)

lemma unat_ucast_up [simp]:
  "LENGTH('a) \<le> LENGTH('b) \<Longrightarrow> unat (ucast w :: 'b::len word) = unat w" for w :: "'a::len word"
proof -
  assume "LENGTH('a) \<le> LENGTH('b)"
  then have "(2::nat) ^ LENGTH('a) \<le> 2 ^ LENGTH('b)" by simp
  moreover have "unat w < 2 ^ LENGTH('a)" by simp
  ultimately show ?thesis by (intro unat_ucast_small) linarith
qed

lemma unat_minus_cyclic: "unat (b - a) = (unat b + 2 ^ LENGTH('a) - unat a) mod 2 ^ LENGTH('a)"
  for a b :: "'a::len word"
proof (cases "a \<le> b")
  case True
  then have "unat a \<le> unat b" by (simp add: word_le_nat_alt)
  then have "(unat b + 2 ^ LENGTH('a) - unat a) mod 2 ^ LENGTH('a) = (unat b - unat a) mod 2 ^ LENGTH('a)"
    by (metis Nat.add_diff_assoc2 mod_add_self2)
  also have "\<dots> = unat b - unat a" by (simp add: less_imp_diff_less)
  finally show ?thesis using True by (simp add: unat_sub_if_size word_le_nat_alt)
next
  case False
  moreover have "unat a < 2 ^ LENGTH('a)" by simp
  ultimately have "unat b + 2 ^ LENGTH('a) - unat a < 2 ^ LENGTH('a)"
    unfolding word_le_nat_alt by linarith
  with False show ?thesis
    by (simp add: unat_sub_if_size word_le_nat_alt word_size)
qed

lemma uint_less_power: "uint w < 2 ^ k \<longleftrightarrow> unat w < 2 ^ k"
proof -
  have "int (unat w) = uint w" by simp
  moreover have "int (2 ^ k) = 2 ^ k" by simp
  ultimately show ?thesis by linarith
qed

lemma unat_and_mask: "unat (w AND (2 ^ n - 1)) = unat w mod 2 ^ n" for w :: "'a::len word"
proof -
  have "w AND (2 ^ n - 1) = take_bit n w"
    by (simp add: take_bit_eq_mask mask_eq_exp_minus_1)
  then have "unat (w AND (2 ^ n - 1)) = take_bit n (unat w)"
    by (simp only: unsigned_take_bit_eq)
  then show ?thesis by (simp only: take_bit_eq_mod)
qed

lemma unat_drop_bit: "unat (drop_bit n w) = unat w div 2 ^ n" for w :: "'a::len word"
proof -
  have "unat (drop_bit n w) = drop_bit n (take_bit LENGTH('a) (unat w))"
    by (simp only: unsigned_drop_bit_eq)
  then show ?thesis by (simp add: drop_bit_eq_div take_bit_nat_eq_self)
qed

lemma mod_pow2_mod_pow2: "m \<le> n \<Longrightarrow> x mod 2 ^ n mod 2 ^ m = x mod 2 ^ m" for x :: nat
  by (simp add: mod_mod_cancel le_imp_power_dvd)

lemma u8_bit_beyond: "8 \<le> n \<Longrightarrow> \<not> bit (w :: u8) n"
  by (auto dest: bit_imp_le_length)

lemma u8_bitwise_eq:
  "(a :: u8) = b \<longleftrightarrow> bit a 0 = bit b 0 \<and> bit a 1 = bit b 1 \<and> bit a 2 = bit b 2 \<and> bit a 3 = bit b 3
     \<and> bit a 4 = bit b 4 \<and> bit a 5 = bit b 5 \<and> bit a 6 = bit b 6 \<and> bit a 7 = bit b 7" (is "_ = ?r")
proof
  assume r: ?r
  show "a = b"
  proof (rule bit_word_eqI)
    fix n assume "n < LENGTH(8)"
    then have "n = 0 \<or> n = 1 \<or> n = 2 \<or> n = 3 \<or> n = 4 \<or> n = 5 \<or> n = 6 \<or> n = 7" by auto
    with r show "bit a n = bit b n" by auto
  qed
qed simp

lemma ucast_word_of_int_down:
  "LENGTH('b) \<le> LENGTH('a) \<Longrightarrow> (ucast (word_of_int x :: 'a::len word) :: 'b::len word) = word_of_int x"
  by (rule bit_word_eqI) (simp add: bit_simps)

lemma ucast_down_add:
  "LENGTH('b) \<le> LENGTH('a) \<Longrightarrow> (ucast (a + b) :: 'b::len word) = ucast a + ucast b"
  for a b :: "'a::len word"
proof -
  assume l: "LENGTH('b) \<le> LENGTH('a)"
  have "a + b = word_of_int (uint a + uint b)" by simp
  then have "(ucast (a + b) :: 'b word) = word_of_int (uint a + uint b)" by (simp only: ucast_word_of_int_down [OF l])
  then show ?thesis by simp
qed

lemma ucast_down_minus:
  "LENGTH('b) \<le> LENGTH('a) \<Longrightarrow> (ucast (a - b) :: 'b::len word) = ucast a - ucast b"
  for a b :: "'a::len word"
proof -
  assume l: "LENGTH('b) \<le> LENGTH('a)"
  have "a - b = word_of_int (uint a - uint b)" by simp
  then have "(ucast (a - b) :: 'b word) = word_of_int (uint a - uint b)" by (simp only: ucast_word_of_int_down [OF l])
  then show ?thesis by simp
qed

lemma ucast_of_nat_down:
  "LENGTH('b) \<le> LENGTH('a) \<Longrightarrow> (ucast (of_nat n :: 'a::len word) :: 'b::len word) = of_nat n"
  using ucast_word_of_int_down [where 'a = 'a and 'b = 'b, of "int n"] by simp

section \<open>Sums of sizes\<close>

text \<open>The sum of two \<open>size_t\<close> or \<open>uint64_t\<close> values, where the source can wrap it.\<close>

definition u64_add :: "nat \<Rightarrow> nat \<Rightarrow> nat" where
  "u64_add a b = (a + b) mod 2 ^ 64"

text \<open>The difference of two \<open>size_t\<close> values, where the source can wrap it.\<close>

definition u64_sub :: "nat \<Rightarrow> nat \<Rightarrow> nat" where
  "u64_sub a b = (if b \<le> a then a - b else a + 2 ^ 64 - b)"

lemma u64_add_small: "a + b < 2 ^ 64 \<Longrightarrow> u64_add a b = a + b"
  by (simp add: u64_add_def)

section \<open>Checked memory\<close>

definition load8 :: "bytes \<Rightarrow> nat \<Rightarrow> u8 option" where
  "load8 buf i = (if i < length buf then Some (buf ! i) else None)"

text \<open>\<open>ntohs\<close> and \<open>ntohl\<close> of an unaligned load: the first byte is the most significant.\<close>

definition load16be :: "bytes \<Rightarrow> nat \<Rightarrow> u16 option" where
  "load16be buf i = do {
     a \<leftarrow> load8 buf i;
     b \<leftarrow> load8 buf (i + 1);
     Some (push_bit 8 (ucast a) OR ucast b) }"

definition load32be :: "bytes \<Rightarrow> nat \<Rightarrow> u32 option" where
  "load32be buf i = do {
     a \<leftarrow> load8 buf i;
     b \<leftarrow> load8 buf (i + 1);
     c \<leftarrow> load8 buf (i + 2);
     d \<leftarrow> load8 buf (i + 3);
     Some (push_bit 24 (ucast a) OR (push_bit 16 (ucast b) OR (push_bit 8 (ucast c) OR ucast d))) }"

text \<open>The \<open>n\<close> bytes at offset \<open>i\<close>, as \<open>memcpy\<close> reads them.\<close>

definition load_bytes :: "bytes \<Rightarrow> nat \<Rightarrow> nat \<Rightarrow> bytes option" where
  "load_bytes buf i n = (if i + n \<le> length buf then Some (take n (drop i buf)) else None)"

definition store_bytes :: "bytes \<Rightarrow> nat \<Rightarrow> bytes \<Rightarrow> bytes option" where
  "store_bytes buf i bs =
     (if i + length bs \<le> length buf then Some (take i buf @ bs @ drop (i + length bs) buf) else None)"

definition htons_bytes :: "u16 \<Rightarrow> bytes" where
  "htons_bytes w = [ucast (drop_bit 8 w), ucast w]"

definition htonl_bytes :: "u32 \<Rightarrow> bytes" where
  "htonl_bytes w = [ucast (drop_bit 24 w), ucast (drop_bit 16 w), ucast (drop_bit 8 w), ucast w]"

text \<open>A 32-bit store without \<open>htonl\<close> on a little-endian host.\<close>

definition host32_bytes :: "u32 \<Rightarrow> bytes" where
  "host32_bytes w = [ucast w, ucast (drop_bit 8 w), ucast (drop_bit 16 w), ucast (drop_bit 24 w)]"

lemma load8_Some_iff [wire]: "load8 buf i = Some b \<longleftrightarrow> i < length buf \<and> buf ! i = b"
  by (auto simp: load8_def)

lemma load8_defined [wire]: "i < length buf \<Longrightarrow> load8 buf i = Some (buf ! i)"
  by (simp add: load8_def)

lemma load16be_defined: "i + 1 < length buf \<Longrightarrow> \<exists>w. load16be buf i = Some w"
  by (simp add: load16be_def load8_def)

lemma load32be_defined: "i + 3 < length buf \<Longrightarrow> \<exists>w. load32be buf i = Some w"
  by (simp add: load32be_def load8_def)

lemma length_htons_bytes [simp]: "length (htons_bytes w) = 2"
  by (simp add: htons_bytes_def)

lemma length_htonl_bytes [simp]: "length (htonl_bytes w) = 4"
  by (simp add: htonl_bytes_def)

lemma load16be_htons [wire]:
  "i = length xs \<Longrightarrow> load16be (xs @ htons_bytes w @ ys) i = Some w"
  by (simp add: load16be_def htons_bytes_def load8_def nth_append word16_join_split)

lemma load32be_htonl [wire]:
  "i = length xs \<Longrightarrow> load32be (xs @ htonl_bytes w @ ys) i = Some w"
  by (simp add: load32be_def htonl_bytes_def load8_def nth_append word32_join_split)

lemma load_bytes_Some_iff [wire]:
  "load_bytes buf i n = Some bs \<longleftrightarrow> i + n \<le> length buf \<and> bs = take n (drop i buf)"
  by (auto simp: load_bytes_def)

lemma store_bytes_defined [wire]:
  "i + length bs \<le> length buf \<Longrightarrow>
   store_bytes buf i bs = Some (take i buf @ bs @ drop (i + length bs) buf)"
  by (simp add: store_bytes_def)

lemma length_store_bytes: "store_bytes buf i bs = Some buf' \<Longrightarrow> length buf' = length buf"
  by (auto simp: store_bytes_def split: if_splits)

lemma store_bytes_same:
  "store_bytes buf i bs = Some buf' \<Longrightarrow> take (length bs) (drop i buf') = bs"
  by (auto simp: store_bytes_def split: if_splits)


text \<open>A store leaves every slice that it does not overlap, and extends a prefix it starts at.\<close>

lemma store_bytes_elsewhere:
  assumes "store_bytes buf i bs = Some buf'" "k + n \<le> i \<or> i + length bs \<le> k"
  shows "take n (drop k buf') = take n (drop k buf)"
proof -
  have buf': "buf' = take i buf @ bs @ drop (i + length bs) buf" and le: "i + length bs \<le> length buf"
    using assms(1) by (auto simp: store_bytes_def split: if_splits)
  show ?thesis
  proof (rule nth_equalityI)
    show "length (take n (drop k buf')) = length (take n (drop k buf))"
      by (simp add: length_store_bytes [OF assms(1)])
  next
    fix j assume "j < length (take n (drop k buf'))"
    then have "j < n" "k + j < length buf'" by auto
    then show "take n (drop k buf') ! j = take n (drop k buf) ! j"
      using assms(2) le by (auto simp: buf' nth_append)
  qed
qed

lemma store_bytes_prefix:
  assumes "store_bytes buf i bs = Some buf'"
  shows "take (i + length bs) buf' = take i buf @ bs"
  using assms by (auto simp: store_bytes_def split: if_splits)

end
