(* ===== verification/Seqnum.thy ===== *)
theory Seqnum
  imports Prelude
begin

text \<open>
  Serial number arithmetic (\<open>lib/include/chiaki/seqnum.h\<close>): the macro
  \<open>CHIAKI_DEFINE_SEQNUM\<close> at any width, its 16 and 32 bit instances, and the facts that
  make them the comparison of RFC 1982. The macro's \<open>greater_sint\<close> is wide enough for
  every difference it computes, so the signed subtraction is the one of \<open>int\<close>.
\<close>

definition chiaki_seq_num_lt :: "'a::len word \<Rightarrow> 'a word \<Rightarrow> bool" where
  "chiaki_seq_num_lt a b =
     (if a = b then False
      else let d = uint b - uint a
           in (a < b \<and> d < 2 ^ (LENGTH('a) - 1)) \<or> (a > b \<and> - d > 2 ^ (LENGTH('a) - 1)))"

definition chiaki_seq_num_gt :: "'a::len word \<Rightarrow> 'a word \<Rightarrow> bool" where
  "chiaki_seq_num_gt a b =
     (if a = b then False
      else let d = uint b - uint a
           in (a < b \<and> d > 2 ^ (LENGTH('a) - 1)) \<or> (a > b \<and> - d < 2 ^ (LENGTH('a) - 1)))"

definition chiaki_seq_num_16_lt :: "u16 \<Rightarrow> u16 \<Rightarrow> bool" where
  "chiaki_seq_num_16_lt = chiaki_seq_num_lt"

definition chiaki_seq_num_16_gt :: "u16 \<Rightarrow> u16 \<Rightarrow> bool" where
  "chiaki_seq_num_16_gt = chiaki_seq_num_gt"

definition chiaki_seq_num_32_lt :: "u32 \<Rightarrow> u32 \<Rightarrow> bool" where
  "chiaki_seq_num_32_lt = chiaki_seq_num_lt"

definition chiaki_seq_num_32_gt :: "u32 \<Rightarrow> u32 \<Rightarrow> bool" where
  "chiaki_seq_num_32_gt = chiaki_seq_num_gt"

section \<open>The comparison is the cyclic order of RFC 1982\<close>

lemma half_modulus: "(2::int) ^ LENGTH('a::len) = 2 * 2 ^ (LENGTH('a) - 1)"
  by (metis len_gt_0 Suc_diff_1 power_Suc)

lemma uint_minus_cyclic:
  "uint (b - a) = (if a \<le> b then uint b - uint a else uint b - uint a + 2 ^ LENGTH('a))"
  for a b :: "'a::len word"
  by (auto simp: uint_sub_if' word_le_def)

lemma seq_num_lt_cyclic:
  "chiaki_seq_num_lt a b \<longleftrightarrow> a \<noteq> b \<and> uint (b - a) < 2 ^ (LENGTH('a) - 1)"
  for a b :: "'a::len word"
proof (cases "a = b")
  case True
  then show ?thesis by (simp add: chiaki_seq_num_lt_def)
next
  case False
  then have "uint a \<noteq> uint b" by (simp add: word_uint_eq_iff)
  moreover have "uint a < 2 ^ LENGTH('a)" "uint b < 2 ^ LENGTH('a)" by simp_all
  moreover have "0 \<le> uint a" "0 \<le> uint b" by simp_all
  ultimately show ?thesis
    using False half_modulus [where 'a = 'a]
    by (auto simp: chiaki_seq_num_lt_def Let_def uint_minus_cyclic word_less_def word_le_def)
qed

lemma seq_num_gt_cyclic:
  "chiaki_seq_num_gt a b \<longleftrightarrow> a \<noteq> b \<and> uint (a - b) < 2 ^ (LENGTH('a) - 1)"
  for a b :: "'a::len word"
proof (cases "a = b")
  case True
  then show ?thesis by (simp add: chiaki_seq_num_gt_def)
next
  case False
  then have "uint a \<noteq> uint b" by (simp add: word_uint_eq_iff)
  moreover have "uint a < 2 ^ LENGTH('a)" "uint b < 2 ^ LENGTH('a)" by simp_all
  moreover have "0 \<le> uint a" "0 \<le> uint b" by simp_all
  ultimately show ?thesis
    using False half_modulus [where 'a = 'a]
    by (auto simp: chiaki_seq_num_gt_def Let_def uint_minus_cyclic word_less_def word_le_def)
qed

lemma seq_num_gt_is_lt: "chiaki_seq_num_gt a b = chiaki_seq_num_lt b a"
  by (auto simp: seq_num_gt_cyclic seq_num_lt_cyclic)

lemma seq_num_lt_irrefl [simp]: "\<not> chiaki_seq_num_lt a a"
  by (simp add: seq_num_lt_cyclic)

lemma uint_minus_swap:
  "a \<noteq> b \<Longrightarrow> uint (b - a) = 2 ^ LENGTH('a) - uint (a - b)"
  for a b :: "'a::len word"
  by (auto simp: uint_minus_cyclic)

lemma seq_num_lt_asym: "chiaki_seq_num_lt a b \<Longrightarrow> \<not> chiaki_seq_num_lt b a"
  for a b :: "'a::len word"
  using half_modulus [where 'a = 'a] uint_minus_swap [of a b]
  by (auto simp: seq_num_lt_cyclic)

lemma seq_num_incomparable_iff:
  "(\<not> chiaki_seq_num_lt a b \<and> \<not> chiaki_seq_num_lt b a \<and> a \<noteq> b) \<longleftrightarrow>
   a \<noteq> b \<and> uint (b - a) = 2 ^ (LENGTH('a) - 1)"
  for a b :: "'a::len word"
  using half_modulus [where 'a = 'a] uint_minus_swap [of a b]
  by (auto simp: seq_num_lt_cyclic)

lemma seq_num_lt_shift: "chiaki_seq_num_lt (a + c) (b + c) = chiaki_seq_num_lt a b"
  by (simp add: seq_num_lt_cyclic)

lemmas seq_num_32_defs = chiaki_seq_num_32_lt_def chiaki_seq_num_32_gt_def
lemmas seq_num_16_defs = chiaki_seq_num_16_lt_def chiaki_seq_num_16_gt_def

end
