(* ===== verification/Reorder_Queue.thy ===== *)
theory Reorder_Queue
  imports Seqnum "HOL-Library.Multiset"
begin

text \<open>
  The reorder queue (\<open>lib/src/reorderqueue.c\<close>, \<open>lib/include/chiaki/reorderqueue.h\<close>): a ring
  buffer that puts packets back into the order of their sequence numbers.

  The record is the struct; the three sequence number operations are function pointers of
  the struct and stay fields of the record. The struct's drop callback is modelled by its
  calls: every operation that may call it returns the list of its argument pairs, in call
  order, and \<open>rq_drop_cb\<close> says whether the callback is set. A failed \<open>assert\<close> is \<open>None\<close>.
  \<open>count\<close> never exceeds \<open>2 ^ size_exp + 1\<close> between two asserts, so it is a \<open>nat\<close>.

  The lemmas first refine the ring buffer to a window (the begin number and a list of
  optional elements), in the locale \<open>seq_arith\<close> of the sequence number interface; the
  properties of whole runs follow from the window operations.
\<close>

section \<open>Data\<close>

datatype ChiakiReorderQueueDropStrategy =
    CHIAKI_REORDER_QUEUE_DROP_STRATEGY_BEGIN
  | CHIAKI_REORDER_QUEUE_DROP_STRATEGY_END

record 'u rq_entry =
  entry_user :: 'u
  entry_set :: bool

record 'u reorder_queue =
  rq_size_exp :: nat
  rq_queue :: "'u rq_entry list"
  rq_begin :: u64
  rq_count :: nat
  rq_seq_num_gt :: "u64 \<Rightarrow> u64 \<Rightarrow> bool"
  rq_seq_num_lt :: "u64 \<Rightarrow> u64 \<Rightarrow> bool"
  rq_seq_num_add :: "u64 \<Rightarrow> u64 \<Rightarrow> u64"
  rq_drop_strategy :: ChiakiReorderQueueDropStrategy
  rq_drop_cb :: bool

type_synonym 'u drops = "(u64 \<times> 'u) list"

definition rq_QUEUE_SIZE :: "'u reorder_queue \<Rightarrow> nat" where
  "rq_QUEUE_SIZE q = 2 ^ rq_size_exp q"

definition rq_idx :: "'u reorder_queue \<Rightarrow> u64 \<Rightarrow> nat" where
  "rq_idx q seq_num = unat (seq_num AND (push_bit (rq_size_exp q) 1 - 1))"

definition rq_ge :: "'u reorder_queue \<Rightarrow> u64 \<Rightarrow> u64 \<Rightarrow> bool" where
  "rq_ge q a b \<longleftrightarrow> a = b \<or> rq_seq_num_gt q a b"

definition rq_end :: "'u reorder_queue \<Rightarrow> u64" where
  "rq_end q = rq_seq_num_add q (rq_begin q) (of_nat (rq_count q))"

definition rq_entry_at :: "'u reorder_queue \<Rightarrow> u64 \<Rightarrow> 'u rq_entry" where
  "rq_entry_at q seq_num = rq_queue q ! rq_idx q seq_num"

definition rq_call_drop :: "'u reorder_queue \<Rightarrow> u64 \<Rightarrow> 'u \<Rightarrow> 'u drops" where
  "rq_call_drop q seq_num user = (if rq_drop_cb q then [(seq_num, user)] else [])"

section \<open>Operations\<close>

text \<open>
  \<open>calloc_ok\<close> says whether \<open>calloc\<close> returned memory; its zeroed entries hold the null
  user pointer \<open>null\<close>. \<open>None\<close> is \<open>CHIAKI_ERR_MEMORY\<close>.
\<close>

definition chiaki_reorder_queue_init ::
  "bool \<Rightarrow> 'u \<Rightarrow> nat \<Rightarrow> u64 \<Rightarrow> (u64 \<Rightarrow> u64 \<Rightarrow> bool) \<Rightarrow> (u64 \<Rightarrow> u64 \<Rightarrow> bool) \<Rightarrow> (u64 \<Rightarrow> u64 \<Rightarrow> u64)
   \<Rightarrow> 'u reorder_queue option" where
  "chiaki_reorder_queue_init calloc_ok null size_exp seq_num_start gt lt add =
     (if \<not> calloc_ok then None
      else Some \<lparr>rq_size_exp = size_exp,
                 rq_queue = replicate (2 ^ size_exp) \<lparr>entry_user = null, entry_set = False\<rparr>,
                 rq_begin = seq_num_start, rq_count = 0,
                 rq_seq_num_gt = gt, rq_seq_num_lt = lt, rq_seq_num_add = add,
                 rq_drop_strategy = CHIAKI_REORDER_QUEUE_DROP_STRATEGY_END,
                 rq_drop_cb = False\<rparr>)"

text \<open>
  \<open>REORDER_QUEUE_INIT(16)\<close>: both operands of the C addition are promoted to \<open>int\<close>, so
  the sum is not reduced modulo \<open>2 ^ 16\<close>. \<open>REORDER_QUEUE_INIT(32)\<close>: the sum of two
  \<open>uint32_t\<close> wraps.
\<close>

definition seq_num_16_gt :: "u64 \<Rightarrow> u64 \<Rightarrow> bool" where
  "seq_num_16_gt a b = chiaki_seq_num_16_gt (ucast a) (ucast b)"

definition seq_num_16_lt :: "u64 \<Rightarrow> u64 \<Rightarrow> bool" where
  "seq_num_16_lt a b = chiaki_seq_num_16_lt (ucast a) (ucast b)"

definition seq_num_16_add :: "u64 \<Rightarrow> u64 \<Rightarrow> u64" where
  "seq_num_16_add a b = ucast (ucast (ucast a :: u16) + ucast (ucast b :: u16) :: u32)"

definition seq_num_32_gt :: "u64 \<Rightarrow> u64 \<Rightarrow> bool" where
  "seq_num_32_gt a b = chiaki_seq_num_32_gt (ucast a) (ucast b)"

definition seq_num_32_lt :: "u64 \<Rightarrow> u64 \<Rightarrow> bool" where
  "seq_num_32_lt a b = chiaki_seq_num_32_lt (ucast a) (ucast b)"

definition seq_num_32_add :: "u64 \<Rightarrow> u64 \<Rightarrow> u64" where
  "seq_num_32_add a b = ucast ((ucast a :: u32) + (ucast b :: u32))"

definition chiaki_reorder_queue_init_16 ::
  "bool \<Rightarrow> 'u \<Rightarrow> nat \<Rightarrow> u16 \<Rightarrow> 'u reorder_queue option" where
  "chiaki_reorder_queue_init_16 calloc_ok null size_exp seq_num_start =
     chiaki_reorder_queue_init calloc_ok null size_exp (ucast seq_num_start)
       seq_num_16_gt seq_num_16_lt seq_num_16_add"

definition chiaki_reorder_queue_init_32 ::
  "bool \<Rightarrow> 'u \<Rightarrow> nat \<Rightarrow> u32 \<Rightarrow> 'u reorder_queue option" where
  "chiaki_reorder_queue_init_32 calloc_ok null size_exp seq_num_start =
     chiaki_reorder_queue_init calloc_ok null size_exp (ucast seq_num_start)
       seq_num_32_gt seq_num_32_lt seq_num_32_add"

definition chiaki_reorder_queue_set_drop_strategy ::
  "'u reorder_queue \<Rightarrow> ChiakiReorderQueueDropStrategy \<Rightarrow> 'u reorder_queue" where
  "chiaki_reorder_queue_set_drop_strategy q s = q\<lparr>rq_drop_strategy := s\<rparr>"

definition chiaki_reorder_queue_set_drop_cb :: "'u reorder_queue \<Rightarrow> bool \<Rightarrow> 'u reorder_queue" where
  "chiaki_reorder_queue_set_drop_cb q cb = q\<lparr>rq_drop_cb := cb\<rparr>"

definition chiaki_reorder_queue_fini :: "'u reorder_queue \<Rightarrow> 'u drops" where
  "chiaki_reorder_queue_fini q =
     (if rq_drop_cb q
      then concat (map (\<lambda>i. let seq_num = rq_seq_num_add q (rq_begin q) (of_nat i);
                                entry = rq_entry_at q seq_num
                            in if entry_set entry then [(seq_num, entry_user entry)] else [])
                       [0..<rq_count q])
      else [])"

text \<open>The loop \<open>drop first until empty or enough space\<close>; \<open>end\<close> is not recomputed in it.\<close>

function rq_drop_first ::
  "'u reorder_queue \<Rightarrow> u64 \<Rightarrow> u64 \<Rightarrow> u64 \<Rightarrow> 'u drops \<Rightarrow> 'u reorder_queue \<times> 'u drops" where
  "rq_drop_first q end' total_end new_end dropped =
     (if rq_count q > 0 \<and> rq_seq_num_lt q total_end new_end
      then let entry = rq_entry_at q (rq_begin q);
               dropped' = dropped @ (if entry_set entry
                                     then rq_call_drop q (rq_begin q) (entry_user entry) else []);
               q' = q\<lparr>rq_begin := rq_seq_num_add q (rq_begin q) 1, rq_count := rq_count q - 1\<rparr>;
               free_elems = rq_QUEUE_SIZE q' - rq_count q'
           in rq_drop_first q' end' (rq_seq_num_add q' end' (of_nat free_elems)) new_end dropped'
      else (q, dropped))"
  by pat_completeness auto
termination
  by (relation "measure (\<lambda>(q, _). rq_count q)") (auto simp: Let_def)

text \<open>The loop \<open>move end until new_end\<close>, with the \<open>assert\<close> of its body.\<close>

function rq_extend :: "'u reorder_queue \<Rightarrow> u64 \<Rightarrow> u64 \<Rightarrow> 'u reorder_queue option" where
  "rq_extend q end' new_end =
     (if rq_seq_num_lt q end' new_end
      then let q' = q\<lparr>rq_count := rq_count q + 1,
                      rq_queue := (rq_queue q)[rq_idx q end' := (rq_entry_at q end')\<lparr>entry_set := False\<rparr>]\<rparr>
           in if rq_count q' \<le> rq_QUEUE_SIZE q' then rq_extend q' (rq_end q') new_end else None
      else Some q)"
  by pat_completeness auto
termination
  by (relation "measure (\<lambda>(q, _). rq_QUEUE_SIZE q + 1 - rq_count q)")
    (auto simp: Let_def rq_QUEUE_SIZE_def)

declare rq_drop_first.simps [simp del] rq_extend.simps [simp del]

definition chiaki_reorder_queue_push ::
  "'u reorder_queue \<Rightarrow> u64 \<Rightarrow> 'u \<Rightarrow> ('u reorder_queue \<times> 'u drops) option" where
  "chiaki_reorder_queue_push q seq_num user =
     (if \<not> rq_count q \<le> rq_QUEUE_SIZE q then None else
      let end' = rq_end q in
      if rq_ge q seq_num (rq_begin q) \<and> rq_seq_num_lt q seq_num end' then
        (let entry = rq_entry_at q seq_num in
         if entry_set entry then Some (q, rq_call_drop q seq_num user)
         else Some (q\<lparr>rq_queue := (rq_queue q)[rq_idx q seq_num := \<lparr>entry_user = user, entry_set = True\<rparr>]\<rparr>, []))
      else if rq_seq_num_lt q seq_num (rq_begin q) then Some (q, rq_call_drop q seq_num user)
      else if \<not> rq_ge q seq_num end' then None
      else
        let free_elems = rq_QUEUE_SIZE q - rq_count q;
            total_end = rq_seq_num_add q end' (of_nat free_elems);
            new_end = rq_seq_num_add q seq_num 1
        in if rq_seq_num_lt q total_end new_end
              \<and> rq_drop_strategy q = CHIAKI_REORDER_QUEUE_DROP_STRATEGY_END
           then Some (q, rq_call_drop q seq_num user)
           else
             let (q1, dropped) =
                   (if rq_seq_num_lt q total_end new_end
                    then (let (q', dropped) = rq_drop_first q end' total_end new_end []
                          in (if rq_count q' = 0 then q'\<lparr>rq_begin := seq_num\<rparr> else q', dropped))
                    else (q, []))
             in case rq_extend q1 (rq_end q1) new_end of
                  None \<Rightarrow> None
                | Some q2 \<Rightarrow>
                    Some (q2\<lparr>rq_queue := (rq_queue q2)[rq_idx q2 seq_num := \<lparr>entry_user = user, entry_set = True\<rparr>]\<rparr>,
                          dropped))"

text \<open>\<open>pull\<close>: the inner \<open>None\<close> is the return value \<open>false\<close>.\<close>

definition chiaki_reorder_queue_pull ::
  "'u reorder_queue \<Rightarrow> ('u reorder_queue \<times> (u64 \<times> 'u) option) option" where
  "chiaki_reorder_queue_pull q =
     (if \<not> rq_count q \<le> rq_QUEUE_SIZE q then None
      else if rq_count q = 0 then Some (q, None)
      else let entry = rq_entry_at q (rq_begin q) in
        if \<not> entry_set entry then Some (q, None)
        else Some (q\<lparr>rq_begin := rq_seq_num_add q (rq_begin q) 1, rq_count := rq_count q - 1\<rparr>,
                   Some (rq_begin q, entry_user entry)))"

text \<open>
  \<open>peek\<close> writes through its \<open>seq_num\<close> pointer without the null check that \<open>pull\<close> has:
  with \<open>seq_num_null\<close> the write is undefined behaviour.
\<close>

definition chiaki_reorder_queue_peek ::
  "'u reorder_queue \<Rightarrow> bool \<Rightarrow> nat \<Rightarrow> (u64 \<times> 'u) option option" where
  "chiaki_reorder_queue_peek q seq_num_null index =
     (if index \<ge> rq_count q then Some None
      else let seq_num_val = rq_seq_num_add q (rq_begin q) (of_nat index);
               entry = rq_entry_at q seq_num_val
           in if \<not> entry_set entry then Some None
              else if seq_num_null then None
              else Some (Some (seq_num_val, entry_user entry)))"

text \<open>The loop \<open>reduce count if necessary\<close> of \<open>drop\<close>.\<close>

function rq_shrink :: "'u reorder_queue \<Rightarrow> nat \<Rightarrow> 'u reorder_queue" where
  "rq_shrink q i =
     (if \<not> entry_set (rq_queue q ! i)
      then let q' = q\<lparr>rq_count := rq_count q - 1\<rparr>
           in if rq_count q' = 0 then q'
              else rq_shrink q' (rq_idx q' (rq_seq_num_add q' (rq_begin q') (of_nat (rq_count q' - 1))))
      else q)"
  by pat_completeness auto
termination
  by (relation "measure (\<lambda>(q, _). rq_count q)") (auto simp: Let_def)

declare rq_shrink.simps [simp del]

definition chiaki_reorder_queue_drop :: "'u reorder_queue \<Rightarrow> nat \<Rightarrow> 'u reorder_queue \<times> 'u drops" where
  "chiaki_reorder_queue_drop q index =
     (if index \<ge> rq_count q then (q, [])
      else let seq_num = rq_seq_num_add q (rq_begin q) (of_nat index);
               entry = rq_entry_at q seq_num
           in if \<not> entry_set entry then (q, [])
              else let dropped = rq_call_drop q seq_num (entry_user entry)
                   in (if index = rq_count q - 1 then rq_shrink q (rq_idx q seq_num) else q, dropped))"

section \<open>Window specification and refinement\<close>

definition seq_at :: "nat \<Rightarrow> u64 \<Rightarrow> nat \<Rightarrow> u64" where
  "seq_at bits b i = of_nat ((unat b + i) mod 2 ^ bits)"

definition seq_dist :: "nat \<Rightarrow> u64 \<Rightarrow> u64 \<Rightarrow> nat" where
  "seq_dist bits a b = (unat b + 2 ^ bits - unat a) mod 2 ^ bits"

fun win_elems :: "nat \<Rightarrow> u64 \<Rightarrow> 'u option list \<Rightarrow> 'u drops" where
  "win_elems bits b [] = []"
| "win_elems bits b (None # w) = win_elems bits (seq_at bits b 1) w"
| "win_elems bits b (Some u # w) = (b, u) # win_elems bits (seq_at bits b 1) w"

definition win_push :: "nat \<Rightarrow> nat \<Rightarrow> ChiakiReorderQueueDropStrategy \<Rightarrow> u64 \<times> 'u option list \<Rightarrow> u64 \<Rightarrow> 'u
    \<Rightarrow> (u64 \<times> 'u option list) \<times> 'u drops" where
  "win_push bits cap strategy bw s u = (case bw of (b, w) \<Rightarrow>
     let d = seq_dist bits b s in
     if d < length w then
       (case w ! d of Some _ \<Rightarrow> ((b, w), [(s, u)]) | None \<Rightarrow> ((b, w[d := Some u]), []))
     else if 2 ^ (bits - 1) \<le> d then ((b, w), [(s, u)])
     else if d < cap then ((b, w @ replicate (d - length w) None @ [Some u]), [])
     else if strategy = CHIAKI_REORDER_QUEUE_DROP_STRATEGY_END then ((b, w), [(s, u)])
     else if length w \<le> d + 1 - cap then ((s, [Some u]), win_elems bits b w)
     else ((seq_at bits b (d + 1 - cap),
            drop (d + 1 - cap) w @ replicate (d - length w) None @ [Some u]),
           win_elems bits b (take (d + 1 - cap) w)))"

fun win_pull :: "nat \<Rightarrow> u64 \<times> 'u option list \<Rightarrow> (u64 \<times> 'u option list) \<times> (u64 \<times> 'u) option" where
  "win_pull bits (b, Some u # w) = ((seq_at bits b 1, w), Some (b, u))"
| "win_pull bits (b, w) = ((b, w), None)"

definition rq_cell :: "'u reorder_queue \<Rightarrow> nat \<Rightarrow> 'u option" where
  "rq_cell q i = (let e = rq_queue q ! ((unat (rq_begin q) + i) mod 2 ^ rq_size_exp q)
                  in if entry_set e then Some (entry_user e) else None)"

definition rq_window :: "'u reorder_queue \<Rightarrow> 'u option list" where
  "rq_window q = map (rq_cell q) [0..<rq_count q]"

definition rq_inv :: "nat \<Rightarrow> (u64 \<Rightarrow> u64 \<Rightarrow> bool) \<Rightarrow> (u64 \<Rightarrow> u64 \<Rightarrow> bool) \<Rightarrow> (u64 \<Rightarrow> u64 \<Rightarrow> u64)
    \<Rightarrow> 'u reorder_queue \<Rightarrow> bool" where
  "rq_inv bits gt lt add q \<longleftrightarrow>
     rq_seq_num_gt q = gt \<and> rq_seq_num_lt q = lt \<and> rq_seq_num_add q = add \<and>
     Suc (rq_size_exp q) < bits \<and> unat (rq_begin q) < 2 ^ bits \<and>
     length (rq_queue q) = 2 ^ rq_size_exp q \<and> rq_count q \<le> 2 ^ rq_size_exp q"

datatype 'u rq_op = RqPush u64 'u | RqPull

fun rq_pushed :: "'u rq_op list \<Rightarrow> (u64 \<times> 'u) list" where
  "rq_pushed [] = []"
| "rq_pushed (RqPush s u # ops) = (s, u) # rq_pushed ops"
| "rq_pushed (RqPull # ops) = rq_pushed ops"

fun rq_run :: "'u reorder_queue \<Rightarrow> 'u rq_op list \<Rightarrow> ('u reorder_queue \<times> (u64 \<times> 'u) list \<times> 'u drops) option" where
  "rq_run q [] = Some (q, [], [])"
| "rq_run q (RqPush s u # ops) =
     (case chiaki_reorder_queue_push q s u of None \<Rightarrow> None
      | Some (q1, dr) \<Rightarrow>
         (case rq_run q1 ops of None \<Rightarrow> None
          | Some (q', pulled, dropped) \<Rightarrow> Some (q', pulled, dr @ dropped)))"
| "rq_run q (RqPull # ops) =
     (case chiaki_reorder_queue_pull q of None \<Rightarrow> None
      | Some (q1, r) \<Rightarrow>
         (case rq_run q1 ops of None \<Rightarrow> None
          | Some (q', pulled, dropped) \<Rightarrow>
              Some (q', opt_list r @ pulled, dropped)))"

lemma mod_offset_inj:
  "\<lbrakk>(B + i) mod m = (B + j) mod m; i < m; j < m\<rbrakk> \<Longrightarrow> i = j" for B i j m :: nat
proof (rule ccontr)
  have *: False if eq: "(B + i) mod m = (B + j) mod m" and "j < m" "i < j" for i j
  proof -
    have "m dvd (B + j) - (B + i)"
      using eq [symmetric] \<open>i < j\<close> by (subst (asm) mod_eq_dvd_iff_nat) auto
    then have "m dvd j - i" by simp
    then show False using that by (auto dest: dvd_imp_le)
  qed
  assume "(B + i) mod m = (B + j) mod m" "i < m" "j < m" "i \<noteq> j"
  then show False using * [of i j] * [of j i] by (cases "i < j") auto
qed

locale seq_arith =
  fixes bits :: nat
    and gt lt :: "u64 \<Rightarrow> u64 \<Rightarrow> bool"
    and add :: "u64 \<Rightarrow> u64 \<Rightarrow> u64"
  assumes bits_pos: "0 < bits"
    and bits_le: "bits < 64"
    and unat_add: "unat (add a b) = (unat a + unat b) mod 2 ^ bits"
    and lt_iff: "unat a < 2 ^ bits \<Longrightarrow> unat b < 2 ^ bits \<Longrightarrow>
      lt a b \<longleftrightarrow> a \<noteq> b \<and> seq_dist bits a b < 2 ^ (bits - 1)"
    and gt_iff: "unat a < 2 ^ bits \<Longrightarrow> unat b < 2 ^ bits \<Longrightarrow>
      gt a b \<longleftrightarrow> a \<noteq> b \<and> seq_dist bits b a < 2 ^ (bits - 1)"
begin

lemma modulus_half: "(2::nat) ^ bits = 2 * 2 ^ (bits - 1)"
  by (metis bits_pos Suc_diff_1 power_Suc)

lemma modulus_lt_64: "n < 2 ^ bits \<Longrightarrow> n < 18446744073709551616" for n :: nat
proof -
  assume "n < 2 ^ bits"
  also have "(2::nat) ^ bits < 2 ^ 64" using bits_le by (intro power_strict_increasing) auto
  finally show ?thesis by simp
qed

lemma unat_seq_at [simp]: "unat (seq_at bits b i) = (unat b + i) mod 2 ^ bits"
  using modulus_lt_64 [of "(unat b + i) mod 2 ^ bits"]
  by (simp add: seq_at_def unat_of_nat_len)

lemma seq_at_eqI: "(unat a + i) mod 2 ^ bits = (unat b + j) mod 2 ^ bits \<Longrightarrow> seq_at bits a i = seq_at bits b j"
  by (simp add: seq_at_def)

lemma add_seq_at: "k < 2 ^ 64 \<Longrightarrow> add (seq_at bits b i) (of_nat k) = seq_at bits b (i + k)"
  by (rule word_unat_eq_iff [THEN iffD2]) (simp add: unat_add unat_of_nat_len mod_add_left_eq add.assoc)

lemma add_begin: "k < 2 ^ 64 \<Longrightarrow> add b (of_nat k) = seq_at bits b k"
  by (rule word_unat_eq_iff [THEN iffD2]) (simp add: unat_add unat_of_nat_len)

lemma seq_at_0 [simp]: "unat b < 2 ^ bits \<Longrightarrow> seq_at bits b 0 = b"
  by (rule word_unat_eq_iff [THEN iffD2]) simp

lemma seq_at_seq_at [simp]: "seq_at bits (seq_at bits b i) j = seq_at bits b (i + j)"
  by (rule seq_at_eqI) (simp add: mod_add_left_eq add.assoc)

lemma seq_dist_seq_at: "i \<le> j \<Longrightarrow> seq_dist bits (seq_at bits b i) (seq_at bits b j) = (j - i) mod 2 ^ bits"
proof -
  assume ij: "i \<le> j"
  let ?M = "(2::nat) ^ bits"
  have "seq_dist bits (seq_at bits b i) (seq_at bits b j)
      = ((unat b + i + (j - i)) mod ?M + ?M - (unat b + i) mod ?M) mod ?M"
    using ij by (simp add: seq_dist_def)
  also have "\<dots> = (j - i) mod ?M"
  proof -
    let ?x = "(unat b + i) mod ?M"
    have x: "?x < ?M" by simp
    have "((?x + (j - i)) mod ?M + (?M - ?x)) mod ?M = ((?x + (j - i)) + (?M - ?x)) mod ?M"
      by (rule mod_add_left_eq)
    also have "(?x + (j - i)) + (?M - ?x) = (j - i) + ?M" using x by simp
    finally show ?thesis using x by (simp add: mod_add_left_eq)
  qed
  finally show ?thesis .
qed

lemma seq_dist_lt: "seq_dist bits a b < 2 ^ bits"
  by (simp add: seq_dist_def)

lemma seq_at_dist: "unat b < 2 ^ bits \<Longrightarrow> unat s < 2 ^ bits \<Longrightarrow> seq_at bits b (seq_dist bits b s) = s"
proof (rule word_unat_eq_iff [THEN iffD2])
  assume b: "unat b < 2 ^ bits" and s: "unat s < 2 ^ bits"
  have "(unat b + seq_dist bits b s) mod 2 ^ bits = (unat b + (unat s + 2 ^ bits - unat b)) mod 2 ^ bits"
    unfolding seq_dist_def by (rule mod_add_right_eq)
  also have "unat b + (unat s + 2 ^ bits - unat b) = unat s + 2 ^ bits" using b by simp
  finally show "unat (seq_at bits b (seq_dist bits b s)) = unat s" using s by simp
qed

lemma seq_at_neq: "i < j \<Longrightarrow> j < i + 2 ^ bits \<Longrightarrow> seq_at bits b i \<noteq> seq_at bits b j"
proof
  assume ij: "i < j" "j < i + 2 ^ bits" and eq: "seq_at bits b i = seq_at bits b j"
  have "seq_dist bits (seq_at bits b i) (seq_at bits b j) = j - i"
    using ij by (simp add: seq_dist_seq_at)
  moreover have "seq_dist bits (seq_at bits b j) (seq_at bits b j) = 0"
    by (simp add: seq_dist_seq_at)
  ultimately show False using ij eq by simp
qed

lemma seq_dist_seq_at_back:
  "i < j \<Longrightarrow> j < i + 2 ^ bits \<Longrightarrow> seq_dist bits (seq_at bits b j) (seq_at bits b i) = 2 ^ bits - (j - i)"
proof -
  assume ij: "i < j" "j < i + 2 ^ bits"
  have "seq_at bits b i = seq_at bits b (i + 2 ^ bits)"
    by (rule seq_at_eqI) (simp add: add.assoc [symmetric])
  then have "seq_dist bits (seq_at bits b j) (seq_at bits b i) = (i + 2 ^ bits - j) mod 2 ^ bits"
    using ij by (simp add: seq_dist_seq_at)
  then show ?thesis using ij by simp
qed

lemma lt_seq_at:
  "i \<le> j \<Longrightarrow> j < i + 2 ^ bits \<Longrightarrow>
   lt (seq_at bits b i) (seq_at bits b j) \<longleftrightarrow> i < j \<and> j - i < 2 ^ (bits - 1)"
  by (cases "i = j") (auto simp: lt_iff seq_dist_seq_at seq_at_neq)

lemma lt_seq_at_back:
  "i \<le> j \<Longrightarrow> j < i + 2 ^ bits \<Longrightarrow>
   lt (seq_at bits b j) (seq_at bits b i) \<longleftrightarrow> 2 ^ (bits - 1) < j - i"
  using modulus_half
  by (cases "i = j") (auto simp: lt_iff seq_dist_seq_at_back seq_at_neq [THEN not_sym])

lemma gt_seq_at:
  "i \<le> j \<Longrightarrow> j < i + 2 ^ bits \<Longrightarrow>
   gt (seq_at bits b j) (seq_at bits b i) \<longleftrightarrow> i < j \<and> j - i < 2 ^ (bits - 1)"
  by (cases "i = j") (auto simp: gt_iff seq_dist_seq_at seq_at_neq [THEN not_sym])

lemma size_lt_half: "Suc n < bits \<Longrightarrow> (2::nat) ^ n < 2 ^ (bits - 1)"
  by (rule power_strict_increasing) auto

lemma size_lt_64: "Suc n < bits \<Longrightarrow> (2::nat) ^ n < 18446744073709551616"
  by (rule modulus_lt_64) (rule power_strict_increasing, auto)

lemma rq_idx_seq_at:
  "Suc (rq_size_exp q) < bits \<Longrightarrow>
   rq_idx q (seq_at bits b i) = (unat b + i) mod 2 ^ rq_size_exp q"
  by (simp add: rq_idx_def unat_and_mask mod_pow2_mod_pow2)

lemma rq_entry_at_seq_at:
  "Suc (rq_size_exp q) < bits \<Longrightarrow>
   rq_entry_at q (seq_at bits b i) = rq_queue q ! ((unat b + i) mod 2 ^ rq_size_exp q)"
  by (simp add: rq_entry_at_def rq_idx_seq_at)

lemma rq_entry_cell:
  "Suc (rq_size_exp q) < bits \<Longrightarrow>
   rq_cell q i = (let e = rq_entry_at q (seq_at bits (rq_begin q) i)
                  in if entry_set e then Some (entry_user e) else None)"
  by (simp add: rq_entry_at_seq_at rq_cell_def)

lemma rq_cell_store:
  "\<lbrakk>Suc (rq_size_exp q) < bits; length (rq_queue q) = 2 ^ rq_size_exp q;
    i < 2 ^ rq_size_exp q; j < 2 ^ rq_size_exp q\<rbrakk> \<Longrightarrow>
   rq_cell (q\<lparr>rq_queue := (rq_queue q)[rq_idx q (seq_at bits (rq_begin q) j) := e]\<rparr>) i =
     (if i = j then if entry_set e then Some (entry_user e) else None else rq_cell q i)"
  using mod_offset_inj [of "unat (rq_begin q)" i "2 ^ rq_size_exp q" j]
  by (auto simp: rq_cell_def rq_idx_seq_at Let_def nth_list_update)

lemma rq_cell_advance:
  "\<lbrakk>Suc (rq_size_exp q) < bits; rq_begin q' = seq_at bits (rq_begin q) n;
    rq_queue q' = rq_queue q; rq_size_exp q' = rq_size_exp q\<rbrakk> \<Longrightarrow>
   rq_cell q' i = rq_cell q (n + i)"
proof -
  assume a: "Suc (rq_size_exp q) < bits" "rq_begin q' = seq_at bits (rq_begin q) n"
    "rq_queue q' = rq_queue q" "rq_size_exp q' = rq_size_exp q"
  have "((unat (rq_begin q) + n) mod 2 ^ bits + i) mod 2 ^ rq_size_exp q
      = ((unat (rq_begin q) + n) mod 2 ^ bits mod 2 ^ rq_size_exp q + i) mod 2 ^ rq_size_exp q"
    by (simp add: mod_add_left_eq)
  also have "\<dots> = (unat (rq_begin q) + (n + i)) mod 2 ^ rq_size_exp q"
    using a by (simp add: mod_pow2_mod_pow2 mod_add_left_eq add.assoc)
  finally show ?thesis using a by (simp add: rq_cell_def)
qed

lemma count_lt_64: "rq_inv bits gt lt add q \<Longrightarrow> rq_count q < 18446744073709551616"
proof -
  assume "rq_inv bits gt lt add q"
  then have "rq_count q \<le> 2 ^ rq_size_exp q" "Suc (rq_size_exp q) < bits"
    by (auto simp: rq_inv_def)
  then have "rq_count q < 2 ^ bits"
    by (meson le_less_trans less_SucI lessI power_strict_increasing one_less_numeral_iff
        semiring_norm(76) Suc_lessD)
  then show ?thesis by (rule modulus_lt_64)
qed

lemma rq_end_seq_at: "rq_inv bits gt lt add q \<Longrightarrow> rq_end q = seq_at bits (rq_begin q) (rq_count q)"
  using count_lt_64 [of q] by (simp add: rq_end_def rq_inv_def add_begin)

lemma rq_window_store_last:
  assumes "Suc (rq_size_exp q) < bits" "length (rq_queue q) = 2 ^ rq_size_exp q"
    "rq_count q \<le> 2 ^ rq_size_exp q" "j < 2 ^ rq_size_exp q"
  shows "rq_window (q\<lparr>rq_queue := (rq_queue q)[rq_idx q (seq_at bits (rq_begin q) j) := e]\<rparr>) =
    (rq_window q)[j := if entry_set e then Some (entry_user e) else None]"
  by (rule nth_equalityI)
    (use assms in \<open>auto simp: rq_window_def rq_cell_store nth_list_update\<close>)

lemma rq_extend_window:
  assumes "rq_inv bits gt lt add q" "rq_count q \<le> n" "n \<le> 2 ^ rq_size_exp q"
  shows "\<exists>q'. rq_extend q (rq_end q) (seq_at bits (rq_begin q) n) = Some q' \<and>
     rq_inv bits gt lt add q' \<and> rq_begin q' = rq_begin q \<and> rq_size_exp q' = rq_size_exp q \<and>
     rq_drop_strategy q' = rq_drop_strategy q \<and> rq_drop_cb q' = rq_drop_cb q \<and> rq_count q' = n \<and>
     rq_window q' = rq_window q @ replicate (n - rq_count q) None"
  using assms
proof (induction "n - rq_count q" arbitrary: q)
  case 0
  then have "rq_count q = n" by simp
  with 0 show ?case
    by (auto simp: rq_extend.simps rq_end_seq_at lt_seq_at) (auto simp: rq_inv_def lt_seq_at)
next
  case (Suc m)
  note inv = Suc.prems(1) and lt = Suc.hyps(2)
  let ?c = "rq_count q" and ?S = "(2::nat) ^ rq_size_exp q"
  let ?q' = "q\<lparr>rq_count := ?c + 1,
     rq_queue := (rq_queue q)[rq_idx q (rq_end q) := (rq_entry_at q (rq_end q))\<lparr>entry_set := False\<rparr>]\<rparr>"
  let ?qs = "q\<lparr>rq_queue := (rq_queue q)[rq_idx q (rq_end q) := (rq_entry_at q (rq_end q))\<lparr>entry_set := False\<rparr>]\<rparr>"
  have q: "Suc (rq_size_exp q) < bits" "length (rq_queue q) = ?S" "?c \<le> ?S" "rq_seq_num_lt q = lt"
    using inv by (auto simp: rq_inv_def)
  have half: "?S < 2 ^ (bits - 1)" using q by (intro size_lt_half)
  have less: "?c < n" using Suc.hyps Suc.prems by simp
  have "n < ?c + 2 ^ bits" "n - ?c < 2 ^ (bits - 1)"
    using half Suc.prems(3) modulus_half by linarith+
  then have "lt (rq_end q) (seq_at bits (rq_begin q) n)"
    using less by (simp add: rq_end_seq_at [OF inv] lt_seq_at)
  moreover have "?c + 1 \<le> ?S" using less Suc.prems by simp
  ultimately have step: "rq_extend q (rq_end q) (seq_at bits (rq_begin q) n)
      = rq_extend ?q' (rq_end ?q') (seq_at bits (rq_begin q) n)"
    using q by (subst rq_extend.simps) (simp add: Let_def rq_QUEUE_SIZE_def)
  have inv': "rq_inv bits gt lt add ?q'"
    using inv less Suc.prems(3) by (auto simp: rq_inv_def)
  have "rq_window ?q' = rq_window ?qs @ [rq_cell ?qs ?c]"
    by (simp add: rq_window_def rq_cell_def)
  also have "rq_cell ?qs ?c = None"
    using q less Suc.prems(3) by (simp add: rq_end_seq_at [OF inv] rq_cell_store)
  also have "rq_window ?qs = rq_window q"
    using q less Suc.prems(3)
    by (simp add: rq_end_seq_at [OF inv] rq_window_store_last) (simp add: rq_window_def list_update_beyond)
  finally have win: "rq_window ?q' = rq_window q @ [None]" .
  have m: "m = n - rq_count ?q'" and le: "rq_count ?q' \<le> n" "n \<le> 2 ^ rq_size_exp ?q'"
    using Suc.hyps(2) less Suc.prems(3) by simp_all
  note IH = Suc.hyps(1) [OF m inv' le]
  obtain q'' where
    "rq_extend ?q' (rq_end ?q') (seq_at bits (rq_begin ?q') n) = Some q''"
    "rq_inv bits gt lt add q''" "rq_begin q'' = rq_begin ?q'" "rq_size_exp q'' = rq_size_exp ?q'"
    "rq_drop_strategy q'' = rq_drop_strategy ?q'" "rq_drop_cb q'' = rq_drop_cb ?q'" "rq_count q'' = n"
    "rq_window q'' = rq_window ?q' @ replicate (n - rq_count ?q') None"
    using IH by blast
  then show ?case
    using step win less
    by (intro exI [of _ q'']) (simp add: Suc_diff_Suc [symmetric] replicate_append_same [symmetric])
qed

lemma rq_drop_first_window:
  assumes "rq_inv bits gt lt add q" "d + 1 < 2 ^ (bits - 1) + 2 ^ rq_size_exp q" "2 ^ rq_size_exp q \<le> d + 1"
  shows "\<exists>q'. rq_drop_first q (rq_end q) (seq_at bits (rq_begin q) (2 ^ rq_size_exp q))
        (seq_at bits (rq_begin q) (d + 1)) dr =
      (q', dr @ (if rq_drop_cb q
                 then win_elems bits (rq_begin q) (take (d + 1 - 2 ^ rq_size_exp q) (rq_window q)) else [])) \<and>
     rq_inv bits gt lt add q' \<and>
     rq_begin q' = seq_at bits (rq_begin q) (min (rq_count q) (d + 1 - 2 ^ rq_size_exp q)) \<and>
     rq_size_exp q' = rq_size_exp q \<and> rq_drop_strategy q' = rq_drop_strategy q \<and>
     rq_drop_cb q' = rq_drop_cb q \<and>
     rq_count q' = rq_count q - (d + 1 - 2 ^ rq_size_exp q) \<and>
     rq_window q' = drop (d + 1 - 2 ^ rq_size_exp q) (rq_window q)"
  using assms
proof (induction "rq_count q" arbitrary: q d dr)
  case 0
  then have "rq_window q = []" "unat (rq_begin q) < 2 ^ bits"
    by (simp_all add: rq_window_def rq_inv_def)
  with 0 show ?case by (simp add: rq_drop_first.simps)
next
  case (Suc c)
  note inv = Suc.prems(1)
  let ?S = "(2::nat) ^ rq_size_exp q" and ?b = "rq_begin q"
  have q: "Suc (rq_size_exp q) < bits" "length (rq_queue q) = ?S" "rq_count q \<le> ?S"
    "rq_seq_num_lt q = lt" "rq_seq_num_add q = add" "unat ?b < 2 ^ bits"
    using inv by (auto simp: rq_inv_def)
  have guard: "lt (seq_at bits ?b ?S) (seq_at bits ?b (d + 1)) \<longleftrightarrow> ?S < d + 1"
  proof -
    have "d + 1 < ?S + 2 ^ bits" "d + 1 - ?S < 2 ^ (bits - 1)"
      using Suc.prems modulus_half one_le_power [of "2::nat" "rq_size_exp q"] by linarith+
    then show ?thesis using Suc.prems by (simp add: lt_seq_at)
  qed
  show ?case
  proof (cases "?S < d + 1")
    case False
    then show ?thesis
      using guard q inv by (subst rq_drop_first.simps) (simp add: rq_window_def)
  next
    case True
    let ?e = "rq_entry_at q ?b"
    define q' where "q' = q\<lparr>rq_begin := add ?b 1, rq_count := rq_count q - 1\<rparr>"
    define dr' where "dr' = dr @ (if entry_set ?e then rq_call_drop q ?b (entry_user ?e) else [])"
    have b1: "rq_begin q' = seq_at bits ?b 1" using add_begin [of 1 ?b] by (simp add: q'_def)
    have c: "rq_count q = Suc c" "rq_count q' = c" using Suc.hyps(2) by (simp_all add: q'_def)
    have q': "rq_size_exp q' = rq_size_exp q" "rq_drop_strategy q' = rq_drop_strategy q"
      "rq_drop_cb q' = rq_drop_cb q" "rq_queue q' = rq_queue q" "rq_seq_num_lt q' = lt"
      "rq_seq_num_add q' = add"
      using q by (simp_all add: q'_def)
    have inv': "rq_inv bits gt lt add q'" using inv b1 c by (auto simp: rq_inv_def q'_def)
    have win: "rq_window q = rq_cell q 0 # rq_window q'"
      unfolding rq_window_def c map_upt_Suc using q q' b1 by (simp add: rq_cell_advance [where n = 1])
    have cell: "rq_cell q 0 = (if entry_set ?e then Some (entry_user ?e) else None)"
      using q by (simp add: rq_entry_cell Let_def)
    have end': "rq_end q = rq_end q'"
      using c b1 by (simp add: rq_end_seq_at [OF inv] rq_end_seq_at [OF inv'])
    have total: "add (rq_end q') (of_nat (?S - c)) = seq_at bits (rq_begin q') (2 ^ rq_size_exp q')"
    proof -
      have "add (rq_end q') (of_nat (?S - c)) = seq_at bits (rq_begin q') (c + (?S - c))"
        unfolding rq_end_seq_at [OF inv'] c(2) by (rule add_seq_at) (use size_lt_64 [OF q(1)] in simp)
      then show ?thesis using q(3) q' c by simp
    qed
    have "0 < d" using True one_le_power [of "2::nat" "rq_size_exp q"] by linarith
    then have new': "seq_at bits ?b (d + 1) = seq_at bits (rq_begin q') (d - 1 + 1)"
      using b1 by simp
    have step: "rq_drop_first q (rq_end q) (seq_at bits ?b ?S) (seq_at bits ?b (d + 1)) dr =
      rq_drop_first q' (rq_end q') (seq_at bits (rq_begin q') (2 ^ rq_size_exp q'))
        (seq_at bits (rq_begin q') (d - 1 + 1)) dr'"
      unfolding new' [symmetric] total [symmetric] end' [symmetric]
      using guard True q c q'
      by (subst rq_drop_first.simps)
        (simp add: Let_def rq_QUEUE_SIZE_def q'_def dr'_def del: of_nat_diff)
    have n: "d + 1 - ?S = Suc (d - 1 + 1 - 2 ^ rq_size_exp q')" using True \<open>0 < d\<close> q' by simp
    have pre: "c = rq_count q'" "d - 1 + 1 < 2 ^ (bits - 1) + 2 ^ rq_size_exp q'" "2 ^ rq_size_exp q' \<le> d - 1 + 1"
      using c q' Suc.prems True by simp_all
    obtain q'' where q'':
      "rq_drop_first q' (rq_end q') (seq_at bits (rq_begin q') (2 ^ rq_size_exp q'))
         (seq_at bits (rq_begin q') (d - 1 + 1)) dr' =
       (q'', dr' @ (if rq_drop_cb q'
          then win_elems bits (rq_begin q') (take (d - 1 + 1 - 2 ^ rq_size_exp q') (rq_window q')) else []))"
      "rq_inv bits gt lt add q''"
      "rq_begin q'' = seq_at bits (rq_begin q') (min (rq_count q') (d - 1 + 1 - 2 ^ rq_size_exp q'))"
      "rq_size_exp q'' = rq_size_exp q'" "rq_drop_strategy q'' = rq_drop_strategy q'"
      "rq_drop_cb q'' = rq_drop_cb q'" "rq_count q'' = rq_count q' - (d - 1 + 1 - 2 ^ rq_size_exp q')"
      "rq_window q'' = drop (d - 1 + 1 - 2 ^ rq_size_exp q') (rq_window q')"
      using Suc.hyps(1) [OF pre(1) inv' pre(2,3), of dr'] by blast
    show ?thesis
      unfolding step n q''(1) using q''(2-) q' win cell b1 c
      by (intro exI [of _ q'']) (simp add: rq_call_drop_def dr'_def)
  qed
qed

lemma rq_push_window:
  assumes inv: "rq_inv bits gt lt add q" and s: "unat s < 2 ^ bits"
    and d: "seq_dist bits (rq_begin q) s \<noteq> 2 ^ (bits - 1)"
  shows "\<exists>q' dr. chiaki_reorder_queue_push q s u = Some (q', if rq_drop_cb q then dr else []) \<and>
     win_push bits (2 ^ rq_size_exp q) (rq_drop_strategy q) (rq_begin q, rq_window q) s u =
       ((rq_begin q', rq_window q'), dr) \<and>
     rq_inv bits gt lt add q' \<and> rq_size_exp q' = rq_size_exp q \<and>
     rq_drop_strategy q' = rq_drop_strategy q \<and> rq_drop_cb q' = rq_drop_cb q"
proof -
  let ?b = "rq_begin q" and ?S = "(2::nat) ^ rq_size_exp q" and ?c = "rq_count q"
  let ?half = "(2::nat) ^ (bits - 1)"
  define d where "d = seq_dist bits ?b s"
  have q: "Suc (rq_size_exp q) < bits" "length (rq_queue q) = ?S" "?c \<le> ?S"
    "rq_seq_num_lt q = lt" "rq_seq_num_gt q = gt" "rq_seq_num_add q = add" "unat ?b < 2 ^ bits"
    using inv by (auto simp: rq_inv_def)
  have S: "?S < ?half" and S1: "1 \<le> ?S" using q by (auto intro: size_lt_half)
  have dM: "d < 2 ^ bits" by (simp add: d_def seq_dist_lt)
  have dn: "d \<noteq> ?half" using d by (simp add: d_def)
  have s_at: "s = seq_at bits ?b d" using q s by (simp add: d_def seq_at_dist)
  have len: "length (rq_window q) = ?c" by (simp add: rq_window_def)
  have ge_begin: "rq_ge q s ?b \<longleftrightarrow> d < ?half"
  proof -
    have "rq_ge q s ?b \<longleftrightarrow> d = 0 \<or> (0 < d \<and> d < ?half)"
      using gt_seq_at [of 0 d ?b] seq_at_neq [of 0 d ?b] dM q
      by (cases "d = 0") (auto simp: rq_ge_def s_at)
    then show ?thesis by auto
  qed
  have lt_end: "lt s (rq_end q) \<longleftrightarrow> d < ?c" if "d < ?half"
  proof (cases "d < ?c")
    case True
    then have "?c < d + 2 ^ bits" "?c - d < ?half" using S q(3) modulus_half by linarith+
    with True show ?thesis
      using lt_seq_at [of d ?c ?b] by (simp add: s_at rq_end_seq_at [OF inv])
  next
    case False
    then show ?thesis
      using lt_seq_at_back [of ?c d ?b] that dM by (simp add: s_at rq_end_seq_at [OF inv])
  qed
  have lt_begin: "lt s ?b \<longleftrightarrow> ?half < d"
    using lt_seq_at_back [of 0 d ?b] dM q by (simp add: s_at)
  have ge_end: "rq_ge q s (rq_end q)" if "d < ?half" "?c \<le> d"
    using gt_seq_at [of ?c d ?b] that dM q
    by (cases "d = ?c") (auto simp: rq_ge_def s_at rq_end_seq_at [OF inv])
  have total: "add (rq_end q) (of_nat (?S - ?c)) = seq_at bits ?b ?S"
  proof -
    have "add (rq_end q) (of_nat (?S - ?c)) = seq_at bits ?b (?c + (?S - ?c))"
      unfolding rq_end_seq_at [OF inv] by (rule add_seq_at) (use size_lt_64 [OF q(1)] in simp)
    then show ?thesis using q by simp
  qed
  have new: "add s 1 = seq_at bits ?b (d + 1)"
    using add_seq_at [of 1 ?b d] by (simp add: s_at)
  have full: "lt (seq_at bits ?b ?S) (seq_at bits ?b (d + 1)) \<longleftrightarrow> ?S \<le> d" if "d < ?half"
  proof (cases "?S \<le> d")
    case True
    then have "?S < d + 1" "d + 1 < ?S + 2 ^ bits" "d + 1 - ?S < ?half"
      using that S1 modulus_half by linarith+
    with True show ?thesis using lt_seq_at [of ?S "d + 1" ?b] by simp
  next
    case False
    then have "d + 1 \<le> ?S" "?S < d + 1 + 2 ^ bits" "\<not> ?half < ?S - (d + 1)"
      using S modulus_half by linarith+
    with False show ?thesis using lt_seq_at_back [of "d + 1" ?S ?b] by simp
  qed
  have push_dropped: "chiaki_reorder_queue_push q s u = Some (q, rq_call_drop q s u)"
    if "?half < d"
    using that q ge_begin lt_begin
    by (simp add: chiaki_reorder_queue_push_def rq_QUEUE_SIZE_def Let_def)
  have store: "\<lbrakk>rq_inv bits gt lt add q2; rq_begin q2 = seq_at bits ?b n; rq_size_exp q2 = rq_size_exp q;
      n + rq_count q2 = d + 1; 0 < rq_count q2\<rbrakk> \<Longrightarrow>
    rq_inv bits gt lt add (q2\<lparr>rq_queue := (rq_queue q2)[rq_idx q2 s := \<lparr>entry_user = u, entry_set = True\<rparr>]\<rparr>) \<and>
    rq_window (q2\<lparr>rq_queue := (rq_queue q2)[rq_idx q2 s := \<lparr>entry_user = u, entry_set = True\<rparr>]\<rparr>)
      = (rq_window q2)[rq_count q2 - 1 := Some u]" for q2 n
  proof -
    assume a: "rq_inv bits gt lt add q2" "rq_begin q2 = seq_at bits ?b n"
      "rq_size_exp q2 = rq_size_exp q" "n + rq_count q2 = d + 1" "0 < rq_count q2"
    have "s = seq_at bits (rq_begin q2) (rq_count q2 - 1)"
      using a by (simp add: s_at)
    then show ?thesis
      using a rq_window_store_last [of q2 "rq_count q2 - 1" "\<lparr>entry_user = u, entry_set = True\<rparr>"]
      by (auto simp: rq_inv_def)
  qed
  consider (dup) "d < ?c" | (old) "?c \<le> d" "?half < d" | (fit) "?c \<le> d" "d < ?S"
    | (new_drop) "?S \<le> d" "d < ?half" "rq_drop_strategy q = CHIAKI_REORDER_QUEUE_DROP_STRATEGY_END"
    | (shift) "?S \<le> d" "d < ?half" "rq_drop_strategy q = CHIAKI_REORDER_QUEUE_DROP_STRATEGY_BEGIN"
    using dn by (cases "rq_drop_strategy q") linarith+
  then show ?thesis
  proof cases
    case dup
    then have dh: "d < ?half" and dS: "d < ?S" using S q(3) by linarith+
    let ?e = "rq_entry_at q s"
    have win: "rq_window q ! d = (if entry_set ?e then Some (entry_user ?e) else None)"
      using dup q by (simp add: rq_window_def rq_entry_cell s_at Let_def)
    have st: "rq_window (q\<lparr>rq_queue := (rq_queue q)[rq_idx q s := \<lparr>entry_user = u, entry_set = True\<rparr>]\<rparr>)
      = (rq_window q)[d := Some u]"
      using rq_window_store_last [OF q(1,2,3) dS] by (simp add: s_at)
    show ?thesis
      using dup dh q ge_begin lt_end win st inv
      by (cases "entry_set ?e")
        (auto simp: chiaki_reorder_queue_push_def rq_QUEUE_SIZE_def Let_def win_push_def len
          rq_call_drop_def rq_inv_def simp flip: d_def)
  next
    case old
    then show ?thesis
      using push_dropped [OF old(2)] inv
      by (auto simp: win_push_def Let_def len rq_call_drop_def simp flip: d_def)
  next
    case fit
    then have dh: "d < ?half" using S by linarith
    obtain q2 where q2: "rq_extend q (rq_end q) (seq_at bits ?b (d + 1)) = Some q2"
      "rq_inv bits gt lt add q2" "rq_begin q2 = ?b" "rq_size_exp q2 = rq_size_exp q"
      "rq_drop_strategy q2 = rq_drop_strategy q" "rq_drop_cb q2 = rq_drop_cb q" "rq_count q2 = d + 1"
      "rq_window q2 = rq_window q @ replicate (d + 1 - ?c) None"
      using rq_extend_window [OF inv, of "d + 1"] fit by auto
    have win: "(rq_window q2)[d := Some u] = rq_window q @ replicate (d - ?c) None @ [Some u]"
      using fit q2(8) len by (simp add: list_update_append Suc_diff_le replicate_append_same [symmetric])
    show ?thesis
      using fit dh q q2 ge_begin lt_end lt_begin ge_end total new full store [of q2 0] win
      by (auto simp: chiaki_reorder_queue_push_def rq_QUEUE_SIZE_def Let_def win_push_def len
          rq_call_drop_def simp flip: d_def)
  next
    case new_drop
    then have cd: "?c \<le> d" using q(3) by linarith
    show ?thesis
      using new_drop cd q ge_begin lt_end lt_begin ge_end total new full inv
      by (auto simp: chiaki_reorder_queue_push_def rq_QUEUE_SIZE_def Let_def win_push_def len
          rq_call_drop_def simp flip: d_def)
  next
    case shift
    then have cd: "?c \<le> d" using q(3) by linarith
    let ?n = "d + 1 - ?S"
    have pre: "d + 1 < ?half + ?S" "?S \<le> d + 1" using shift(1,2) S1 by linarith+
    obtain q1 where q1: "rq_drop_first q (rq_end q) (seq_at bits ?b ?S) (seq_at bits ?b (d + 1)) [] =
        (q1, if rq_drop_cb q then win_elems bits ?b (take ?n (rq_window q)) else [])"
      "rq_inv bits gt lt add q1" "rq_begin q1 = seq_at bits ?b (min ?c ?n)"
      "rq_size_exp q1 = rq_size_exp q" "rq_drop_strategy q1 = rq_drop_strategy q"
      "rq_drop_cb q1 = rq_drop_cb q" "rq_count q1 = ?c - ?n" "rq_window q1 = drop ?n (rq_window q)"
      using rq_drop_first_window [OF inv pre, of "[]"] by auto
    define q1' where "q1' = (if rq_count q1 = 0 then q1\<lparr>rq_begin := s\<rparr> else q1)"
    define k where "k = (if ?c \<le> ?n then d else ?n)"
    have inv1: "rq_inv bits gt lt add q1'"
      using q1(2) s by (simp add: rq_inv_def q1'_def)
    have b1: "rq_begin q1' = seq_at bits ?b k"
      using q1(3,7) by (auto simp: s_at q1'_def k_def)
    have q1': "rq_window q1' = drop ?n (rq_window q)" "rq_size_exp q1' = rq_size_exp q"
      "rq_drop_strategy q1' = rq_drop_strategy q" "rq_drop_cb q1' = rq_drop_cb q" "rq_count q1' = ?c - ?n"
      using q1(4-8) by (simp_all add: rq_window_def q1'_def)
    have "?n \<le> d" using S1 by linarith
    then have kd: "k \<le> d" by (simp add: k_def)
    have new1: "seq_at bits ?b (d + 1) = seq_at bits (rq_begin q1') (d + 1 - k)"
      using b1 kd by simp
    have "rq_count q1' \<le> d + 1 - k" "d + 1 - k \<le> 2 ^ rq_size_exp q1'"
      using q1'(2,5) cd shift(1) S1 q(3) by (auto simp: k_def)
    from rq_extend_window [OF inv1 this]
    obtain q2 where ext: "rq_extend q1' (rq_end q1') (seq_at bits ?b (d + 1)) = Some q2"
      and q2: "rq_inv bits gt lt add q2" "rq_begin q2 = seq_at bits ?b k" "rq_size_exp q2 = rq_size_exp q"
        "rq_drop_strategy q2 = rq_drop_strategy q" "rq_drop_cb q2 = rq_drop_cb q"
        "rq_count q2 = d + 1 - k"
        "rq_window q2 = drop ?n (rq_window q) @ replicate (d + 1 - k - (?c - ?n)) None"
      unfolding b1 [symmetric] new1 q1' by blast
    have win: "(rq_window q2)[rq_count q2 - 1 := Some u] =
        (if ?c \<le> ?n then [Some u]
         else drop ?n (rq_window q) @ replicate (d - ?c) None @ [Some u])"
    proof (cases "?c \<le> ?n")
      case True
      then show ?thesis using q2(6,7) len by (simp add: k_def)
    next
      case False
      then have "d + 1 - k - (?c - ?n) = Suc (d - ?c)" using cd by (simp add: k_def)
      moreover have "rq_count q2 - 1 = length (drop ?n (rq_window q)) + (d - ?c)"
        using False q2(6) len cd shift(1) by (simp add: k_def)
      ultimately show ?thesis
        using False q2(7) by (simp add: list_update_append replicate_append_same [symmetric])
    qed
    have st: "rq_inv bits gt lt add (q2\<lparr>rq_queue := (rq_queue q2)[rq_idx q2 s := \<lparr>entry_user = u, entry_set = True\<rparr>]\<rparr>)"
      "rq_window (q2\<lparr>rq_queue := (rq_queue q2)[rq_idx q2 s := \<lparr>entry_user = u, entry_set = True\<rparr>]\<rparr>)
        = (rq_window q2)[rq_count q2 - 1 := Some u]"
      using store [OF q2(1,2,3)] q2(6) kd by auto
    have push: "chiaki_reorder_queue_push q s u =
        Some (q2\<lparr>rq_queue := (rq_queue q2)[rq_idx q2 s := \<lparr>entry_user = u, entry_set = True\<rparr>]\<rparr>,
              if rq_drop_cb q then win_elems bits ?b (take ?n (rq_window q)) else [])"
      using shift cd q q1(1) ext ge_begin lt_end lt_begin ge_end total new full
      by (simp add: chiaki_reorder_queue_push_def rq_QUEUE_SIZE_def Let_def q1'_def)
    have spec: "win_push bits ?S (rq_drop_strategy q) (?b, rq_window q) s u =
        ((if ?c \<le> ?n then s else seq_at bits ?b ?n, (rq_window q2)[rq_count q2 - 1 := Some u]),
         win_elems bits ?b (take ?n (rq_window q)))"
      unfolding win using shift cd len by (simp add: win_push_def Let_def flip: d_def)
    have beg: "rq_begin q2 = (if ?c \<le> ?n then s else seq_at bits ?b ?n)"
      using q2(2) by (simp add: k_def s_at)
    let ?r = "q2\<lparr>rq_queue := (rq_queue q2)[rq_idx q2 s := \<lparr>entry_user = u, entry_set = True\<rparr>]\<rparr>"
    have "win_push bits ?S (rq_drop_strategy q) (?b, rq_window q) s u =
        ((rq_begin ?r, rq_window ?r), win_elems bits ?b (take ?n (rq_window q)))"
      unfolding spec st(2) using beg by simp
    with push st(1) q2(3-5) show ?thesis
      by (intro exI [of _ ?r] exI [of _ "win_elems bits ?b (take ?n (rq_window q))"] conjI) simp_all
  qed
qed

text \<open>At exactly half the number space neither comparison holds, and an empty queue aborts.\<close>

lemma rq_push_half:
  assumes inv: "rq_inv bits gt lt add q" and s: "unat s < 2 ^ bits"
    and d: "seq_dist bits (rq_begin q) s = 2 ^ (bits - 1)"
  shows "chiaki_reorder_queue_push q s u = None \<longleftrightarrow> rq_count q = 0"
proof -
  let ?b = "rq_begin q" and ?S = "(2::nat) ^ rq_size_exp q" and ?c = "rq_count q"
  let ?half = "(2::nat) ^ (bits - 1)"
  have q: "Suc (rq_size_exp q) < bits" "?c \<le> ?S"
    "rq_seq_num_lt q = lt" "rq_seq_num_gt q = gt" "rq_seq_num_add q = add" "unat ?b < 2 ^ bits"
    using inv by (auto simp: rq_inv_def)
  have S: "2 * ?S \<le> ?half"
    using power_increasing [of "Suc (rq_size_exp q)" "bits - 1" "2::nat"] q(1) by simp
  have S1: "1 \<le> ?S" by simp
  have s_at: "s = seq_at bits ?b ?half" using seq_at_dist [OF q(6) s] d by simp
  have ge_begin: "\<not> rq_ge q s ?b"
    using gt_seq_at [of 0 ?half ?b] seq_at_neq [of 0 ?half ?b] modulus_half q by (simp add: rq_ge_def s_at)
  have lt_begin: "\<not> lt s ?b"
    using lt_seq_at_back [of 0 ?half ?b] modulus_half q by (simp add: s_at)
  have ge_end: "rq_ge q s (rq_end q) \<longleftrightarrow> 0 < ?c"
  proof -
    have "?c < ?half" "?half < ?c + 2 ^ bits" using S S1 q(2) modulus_half by linarith+
    then show ?thesis
      using gt_seq_at [of ?c ?half ?b] seq_at_neq [of ?c ?half ?b] q(4) by (auto simp: rq_ge_def s_at rq_end_seq_at [OF inv])
  qed
  have total: "add (rq_end q) (of_nat (?S - ?c)) = seq_at bits ?b ?S"
  proof -
    have "add (rq_end q) (of_nat (?S - ?c)) = seq_at bits ?b (?c + (?S - ?c))"
      unfolding rq_end_seq_at [OF inv] by (rule add_seq_at) (use size_lt_64 [OF q(1)] in simp)
    then show ?thesis using q by simp
  qed
  have new: "add s 1 = seq_at bits ?b (?half + 1)"
    using add_seq_at [of 1 ?b ?half] by (simp add: s_at)
  have full: "lt (seq_at bits ?b ?S) (seq_at bits ?b (?half + 1)) \<longleftrightarrow> 2 \<le> ?S"
  proof -
    have "?S \<le> ?half + 1" "?half + 1 < ?S + 2 ^ bits" using S S1 modulus_half by linarith+
    then have "lt (seq_at bits ?b ?S) (seq_at bits ?b (?half + 1)) \<longleftrightarrow> ?S < ?half + 1 \<and> ?half + 1 - ?S < ?half" by (rule lt_seq_at)
    also have "\<dots> \<longleftrightarrow> 2 \<le> ?S" using S S1 by linarith
    finally show ?thesis .
  qed
  show ?thesis
  proof (cases "?c = 0")
    case True
    then show ?thesis
      using q ge_begin lt_begin ge_end by (simp add: chiaki_reorder_queue_push_def rq_QUEUE_SIZE_def Let_def)
  next
    case False
    note push = chiaki_reorder_queue_push_def rq_QUEUE_SIZE_def Let_def
    show ?thesis
    proof (cases "2 \<le> ?S")
      case True
      obtain q1 dr where q1: "rq_drop_first q (rq_end q) (seq_at bits ?b ?S) (seq_at bits ?b (?half + 1)) [] = (q1, dr)"
          "rq_inv bits gt lt add q1" "rq_count q1 = ?c - (?half + 1 - ?S)" "rq_size_exp q1 = rq_size_exp q"
        using rq_drop_first_window [OF inv, of ?half "[]"] True S by fastforce
      have c1: "rq_count q1 = 0" using q1(3) q(2) S by linarith
      have inv1: "rq_inv bits gt lt add (q1\<lparr>rq_begin := s\<rparr>)" using q1(2) s by (simp add: rq_inv_def)
      have new1: "seq_at bits ?b (?half + 1) = seq_at bits (rq_begin (q1\<lparr>rq_begin := s\<rparr>)) 1" by (simp add: s_at)
      obtain q2 where "rq_extend (q1\<lparr>rq_begin := s\<rparr>) (rq_end (q1\<lparr>rq_begin := s\<rparr>)) (seq_at bits ?b (?half + 1)) = Some q2"
        unfolding new1 using rq_extend_window [OF inv1, of 1] c1 by auto
      then show ?thesis
        using False True q ge_begin lt_begin ge_end total new full q1(1) c1
        by (cases "rq_drop_strategy q") (simp_all add: push)
    next
      case one: False
      then have "?c = ?S" using False q(2) S1 by linarith
      then have "rq_extend q (rq_end q) (seq_at bits ?b (?half + 1)) = Some q"
        using full one q(3) by (simp add: rq_extend.simps rq_end_seq_at [OF inv])
      then show ?thesis
        using False one q ge_begin lt_begin ge_end total new full by (simp add: push)
    qed
  qed
qed

lemma rq_pull_window:
  assumes inv: "rq_inv bits gt lt add q"
  shows "\<exists>q' r. chiaki_reorder_queue_pull q = Some (q', r) \<and>
     win_pull bits (rq_begin q, rq_window q) = ((rq_begin q', rq_window q'), r) \<and>
     rq_inv bits gt lt add q' \<and> rq_size_exp q' = rq_size_exp q \<and>
     rq_drop_strategy q' = rq_drop_strategy q \<and> rq_drop_cb q' = rq_drop_cb q"
proof -
  have q: "Suc (rq_size_exp q) < bits" "rq_count q \<le> 2 ^ rq_size_exp q"
    "rq_seq_num_add q = add" "unat (rq_begin q) < 2 ^ bits"
    using inv by (auto simp: rq_inv_def)
  show ?thesis
  proof (cases "rq_count q")
    case 0
    then show ?thesis
      using inv by (simp add: chiaki_reorder_queue_pull_def rq_QUEUE_SIZE_def rq_window_def)
  next
    case (Suc c)
    let ?e = "rq_entry_at q (rq_begin q)"
    define q' where "q' = q\<lparr>rq_begin := add (rq_begin q) 1, rq_count := rq_count q - 1\<rparr>"
    have b1: "rq_begin q' = seq_at bits (rq_begin q) 1"
      using add_begin [of 1 "rq_begin q"] by (simp add: q'_def)
    have c: "rq_count q' = c" using Suc by (simp add: q'_def)
    have inv': "rq_inv bits gt lt add q'" using inv b1 by (auto simp: rq_inv_def q'_def)
    have win: "rq_window q = rq_cell q 0 # rq_window q'"
      unfolding rq_window_def Suc map_upt_Suc c using q b1
      by (simp add: rq_cell_advance [where n = 1] q'_def)
    have cell: "rq_cell q 0 = (if entry_set ?e then Some (entry_user ?e) else None)"
      using q by (simp add: rq_entry_cell Let_def)
    show ?thesis
    proof (cases "entry_set ?e")
      case True
      then have "chiaki_reorder_queue_pull q = Some (q', Some (rq_begin q, entry_user ?e))"
        using q Suc by (simp add: chiaki_reorder_queue_pull_def rq_QUEUE_SIZE_def Let_def q'_def)
      then show ?thesis using win cell True b1 inv' by (simp add: q'_def)
    next
      case False
      then show ?thesis
        using q Suc win cell inv
        by (simp add: chiaki_reorder_queue_pull_def rq_QUEUE_SIZE_def Let_def)
    qed
  qed
qed

lemma rq_push_window_END:
  assumes inv: "rq_inv bits gt lt add q" and s: "unat s < 2 ^ bits"
    and END: "rq_drop_strategy q = CHIAKI_REORDER_QUEUE_DROP_STRATEGY_END" and size: "0 < rq_size_exp q"
    and push: "chiaki_reorder_queue_push q s u = Some (q', dr')"
  obtains dr where "dr' = (if rq_drop_cb q then dr else [])"
    "win_push bits (2 ^ rq_size_exp q) CHIAKI_REORDER_QUEUE_DROP_STRATEGY_END (rq_begin q, rq_window q) s u =
       ((rq_begin q', rq_window q'), dr)"
    "rq_inv bits gt lt add q'" "rq_size_exp q' = rq_size_exp q"
    "rq_drop_strategy q' = CHIAKI_REORDER_QUEUE_DROP_STRATEGY_END" "rq_drop_cb q' = rq_drop_cb q"
proof (cases "seq_dist bits (rq_begin q) s = 2 ^ (bits - 1)")
  case False
  from rq_push_window [OF inv s False, of u] obtain q1 dr where q1:
    "chiaki_reorder_queue_push q s u = Some (q1, if rq_drop_cb q then dr else [])"
    "win_push bits (2 ^ rq_size_exp q) (rq_drop_strategy q) (rq_begin q, rq_window q) s u =
       ((rq_begin q1, rq_window q1), dr)"
    "rq_inv bits gt lt add q1" "rq_size_exp q1 = rq_size_exp q"
    "rq_drop_strategy q1 = rq_drop_strategy q" "rq_drop_cb q1 = rq_drop_cb q" by blast
  have "q' = q1" "dr' = (if rq_drop_cb q then dr else [])"
    using push q1(1) by simp_all
  with q1(2-) END show thesis by (intro that [of dr]) simp_all
next
  case True
  let ?b = "rq_begin q" and ?S = "(2::nat) ^ rq_size_exp q" and ?half = "(2::nat) ^ (bits - 1)"
  have q: "Suc (rq_size_exp q) < bits" "rq_count q \<le> ?S"
    "rq_seq_num_lt q = lt" "rq_seq_num_gt q = gt" "rq_seq_num_add q = add" "unat ?b < 2 ^ bits"
    using inv by (auto simp: rq_inv_def)
  have S: "?S < ?half" using q by (intro size_lt_half)
  have S2: "2 \<le> ?S" using power_increasing [of 1 "rq_size_exp q" "2::nat"] size by simp
  have s_at: "s = seq_at bits ?b ?half" using seq_at_dist [of ?b s] True q s by simp
  have nge: "\<not> rq_ge q s ?b" and nlt: "\<not> lt s ?b"
    using gt_seq_at [of 0 ?half ?b] lt_seq_at_back [of 0 ?half ?b] seq_at_neq [of 0 ?half ?b] modulus_half q
    by (auto simp: rq_ge_def s_at)
  have "rq_count q \<noteq> 0"
  proof
    assume 0: "rq_count q = 0"
    then have "rq_end q = ?b" using q by (simp add: rq_end_seq_at [OF inv])
    then show False
      using push nge nlt q 0 by (simp add: chiaki_reorder_queue_push_def Let_def)
  qed
  then have cnt: "0 < rq_count q" "rq_count q < ?half" using S q(2) by linarith+
  have end': "rq_ge q s (rq_end q)"
    using gt_seq_at [of "rq_count q" ?half ?b] cnt q modulus_half
    by (simp add: rq_ge_def s_at rq_end_seq_at [OF inv])
  have total: "add (rq_end q) (of_nat (?S - rq_count q)) = seq_at bits ?b ?S"
  proof -
    have "add (rq_end q) (of_nat (?S - rq_count q)) = seq_at bits ?b (rq_count q + (?S - rq_count q))"
      unfolding rq_end_seq_at [OF inv] by (rule add_seq_at) (use size_lt_64 [OF q(1)] in simp)
    then show ?thesis using q by simp
  qed
  have new: "add s 1 = seq_at bits ?b (?half + 1)"
    using add_seq_at [of 1 ?b ?half] by (simp add: s_at)
  have "lt (seq_at bits ?b ?S) (seq_at bits ?b (?half + 1))"
  proof -
    have "?S < ?half + 1" "?half + 1 < ?S + 2 ^ bits" "?half + 1 - ?S < ?half"
      using S S2 modulus_half by linarith+
    then show ?thesis using lt_seq_at [of ?S "?half + 1" ?b] by simp
  qed
  then have "chiaki_reorder_queue_push q s u = Some (q, rq_call_drop q s u)"
    using q nge nlt end' END total new
    by (simp add: chiaki_reorder_queue_push_def rq_QUEUE_SIZE_def Let_def)
  moreover have "win_push bits ?S CHIAKI_REORDER_QUEUE_DROP_STRATEGY_END (?b, rq_window q) s u
      = ((?b, rq_window q), [(s, u)])"
    using cnt True by (simp add: win_push_def Let_def rq_window_def)
  ultimately show thesis using push inv END that by (auto simp: rq_call_drop_def)
qed

lemma win_elems_store:
  "d < length w \<Longrightarrow> w ! d = None \<Longrightarrow> unat b < 2 ^ bits \<Longrightarrow>
   mset (win_elems bits b (w[d := Some u])) = add_mset (seq_at bits b d, u) (mset (win_elems bits b w))"
proof (induction w arbitrary: b d)
  case (Cons x w)
  then show ?case by (cases d; cases x) simp_all
qed simp

lemma win_elems_append:
  "unat b < 2 ^ bits \<Longrightarrow>
   win_elems bits b (w @ v) = win_elems bits b w @ win_elems bits (seq_at bits b (length w)) v"
proof (induction w arbitrary: b)
  case (Cons x w)
  then show ?case by (cases x) simp_all
qed simp

lemma win_elems_gap: "unat b < 2 ^ bits \<Longrightarrow> win_elems bits b (replicate n None) = []"
  by (induction n arbitrary: b) simp_all

lemma win_push_END_conserves:
  assumes "win_push bits cap CHIAKI_REORDER_QUEUE_DROP_STRATEGY_END (b, w) s u = ((b', w'), dr)"
    and "unat b < 2 ^ bits" "unat s < 2 ^ bits"
  shows "b' = b" "mset (win_elems bits b w') + mset dr = add_mset (s, u) (mset (win_elems bits b w))"
  using assms seq_at_dist [of b s]
  by (auto simp: win_push_def Let_def win_elems_store win_elems_append win_elems_gap
      split: if_splits option.splits)

lemma win_elems_index:
  "unat b < 2 ^ bits \<Longrightarrow> win_elems bits b w =
   concat (map (\<lambda>i. map (Pair (seq_at bits b i)) (opt_list (w ! i))) [0..<length w])"
proof (induction w arbitrary: b)
  case (Cons x w)
  have "win_elems bits (seq_at bits b 1) w =
      concat (map (\<lambda>i. map (Pair (seq_at bits b (1 + i))) (opt_list (w ! i))) [0..<length w])"
    using Cons.IH [of "seq_at bits b 1"] by simp
  then show ?case
    using Cons.prems by (cases x) (simp_all add: map_upt_Suc del: upt_Suc)
qed simp

lemma rq_fini_window:
  assumes inv: "rq_inv bits gt lt add q"
  shows "chiaki_reorder_queue_fini q =
    (if rq_drop_cb q then win_elems bits (rq_begin q) (rq_window q) else [])"
proof -
  have q: "Suc (rq_size_exp q) < bits" "unat (rq_begin q) < 2 ^ bits" "rq_seq_num_add q = add"
    using inv by (auto simp: rq_inv_def)
  have "(let seq_num = add (rq_begin q) (of_nat i); entry = rq_entry_at q seq_num
         in if entry_set entry then [(seq_num, entry_user entry)] else [])
      = map (Pair (seq_at bits (rq_begin q) i)) (opt_list (rq_window q ! i))"
    if "i < rq_count q" for i
    using that q count_lt_64 [OF inv] by (simp add: rq_window_def rq_entry_cell add_begin Let_def)
  then show ?thesis
    using q by (auto simp: chiaki_reorder_queue_fini_def win_elems_index rq_window_def
        intro!: arg_cong [of _ _ concat])
qed

lemma win_pull_conserves:
  assumes "win_pull bits (b, w) = ((b', w'), r)" and "unat b < 2 ^ bits"
  shows "mset (opt_list r) + mset (win_elems bits b' w') = mset (win_elems bits b w)"
    and "r = None \<longrightarrow> b' = b" and "\<forall>p. r = Some p \<longrightarrow> fst p = b \<and> b' = seq_at bits b 1"
  using assms by (cases w; cases "hd w"; force)+

lemma mset_exchange:
  assumes "W1 + D = add_mset x W" "P + E + W' = W1 + R"
  shows "P + (D + E) + W' = W + add_mset x R"
proof -
  have "P + (D + E) + W' = (P + E + W') + D" by (simp add: ac_simps)
  also have "\<dots> = (W1 + R) + D" by (simp only: assms(2))
  also have "\<dots> = (W1 + D) + R" by (simp only: ac_simps)
  also have "\<dots> = W + add_mset x R" by (simp add: assms(1))
  finally show ?thesis .
qed

lemma rq_run_END:
  assumes "rq_inv bits gt lt add q" "rq_drop_strategy q = CHIAKI_REORDER_QUEUE_DROP_STRATEGY_END"
    "0 < rq_size_exp q" "rq_drop_cb q" "rq_run q ops = Some (q', pulled, dropped)"
    "\<forall>(s, u) \<in> set (rq_pushed ops). unat s < 2 ^ bits"
  shows "rq_inv bits gt lt add q' \<and> rq_drop_cb q' \<and>
    map fst pulled = map (seq_at bits (rq_begin q)) [0..<length pulled] \<and>
    rq_begin q' = seq_at bits (rq_begin q) (length pulled) \<and>
    mset pulled + mset dropped + mset (win_elems bits (rq_begin q') (rq_window q')) =
      mset (win_elems bits (rq_begin q) (rq_window q)) + mset (rq_pushed ops)"
  using assms
proof (induction ops arbitrary: q pulled dropped)
  case Nil
  then show ?case by (simp add: rq_inv_def)
next
  case (Cons op ops)
  have b: "unat (rq_begin q) < 2 ^ bits" using Cons.prems(1) by (simp add: rq_inv_def)
  show ?case
  proof (cases op)
    case (RqPush s u)
    then obtain q1 dr1 dr2 where push: "chiaki_reorder_queue_push q s u = Some (q1, dr1)"
      and run: "rq_run q1 ops = Some (q', pulled, dr2)" and dr: "dropped = dr1 @ dr2"
      using Cons.prems(5) by (auto split: option.splits prod.splits)
    have s: "unat s < 2 ^ bits" using RqPush Cons.prems(6) by auto
    obtain dr where w: "dr1 = dr"
      "win_push bits (2 ^ rq_size_exp q) CHIAKI_REORDER_QUEUE_DROP_STRATEGY_END (rq_begin q, rq_window q) s u =
       ((rq_begin q1, rq_window q1), dr)"
      "rq_inv bits gt lt add q1" "rq_size_exp q1 = rq_size_exp q"
      "rq_drop_strategy q1 = CHIAKI_REORDER_QUEUE_DROP_STRATEGY_END" "rq_drop_cb q1"
      using rq_push_window_END [OF Cons.prems(1) s Cons.prems(2,3) push] Cons.prems(4) by auto
    have "rq_inv bits gt lt add q' \<and> rq_drop_cb q' \<and>
      map fst pulled = map (seq_at bits (rq_begin q1)) [0..<length pulled] \<and>
      rq_begin q' = seq_at bits (rq_begin q1) (length pulled) \<and>
      mset pulled + mset dr2 + mset (win_elems bits (rq_begin q') (rq_window q')) =
        mset (win_elems bits (rq_begin q1) (rq_window q1)) + mset (rq_pushed ops)"
    proof -
      have ops: "\<forall>(s, u) \<in> set (rq_pushed ops). unat s < 2 ^ bits" using Cons.prems(6) RqPush by simp
      have "0 < rq_size_exp q1" using w(4) Cons.prems(3) by simp
      from Cons.IH [OF w(3,5) this w(6) run ops] show ?thesis .
    qed
    then show ?thesis
      using win_push_END_conserves(1) [OF w(2) b s] RqPush dr w(1)
        mset_exchange [OF win_push_END_conserves(2) [OF w(2) b s], of "mset pulled" "mset dr2"
          "mset (win_elems bits (rq_begin q') (rq_window q'))" "mset (rq_pushed ops)"]
      by clarsimp
  next
    case RqPull
    then obtain q1 r pulled' where pull: "chiaki_reorder_queue_pull q = Some (q1, r)"
      and run: "rq_run q1 ops = Some (q', pulled', dropped)"
      and pulled: "pulled = opt_list r @ pulled'"
      using Cons.prems(5) by (auto split: option.splits prod.splits)
    have w: "win_pull bits (rq_begin q, rq_window q) = ((rq_begin q1, rq_window q1), r)"
      "rq_inv bits gt lt add q1" "rq_size_exp q1 = rq_size_exp q"
      "rq_drop_strategy q1 = CHIAKI_REORDER_QUEUE_DROP_STRATEGY_END" "rq_drop_cb q1"
      using rq_pull_window [OF Cons.prems(1)] pull Cons.prems(2,4) by auto
    have IH: "rq_inv bits gt lt add q' \<and> rq_drop_cb q' \<and>
      map fst pulled' = map (seq_at bits (rq_begin q1)) [0..<length pulled'] \<and>
      rq_begin q' = seq_at bits (rq_begin q1) (length pulled') \<and>
      mset pulled' + mset dropped + mset (win_elems bits (rq_begin q') (rq_window q')) =
        mset (win_elems bits (rq_begin q1) (rq_window q1)) + mset (rq_pushed ops)"
    proof -
      have ops: "\<forall>(s, u) \<in> set (rq_pushed ops). unat s < 2 ^ bits" using Cons.prems(6) RqPull by simp
      have "0 < rq_size_exp q1" using w(3) Cons.prems(3) by simp
      from Cons.IH [OF w(2,4) this w(5) run ops] show ?thesis .
    qed
    show ?thesis
    proof (cases r)
      case None
      then show ?thesis using IH win_pull_conserves [OF w(1) b] RqPull pulled by clarsimp
    next
      case (Some p)
      then have p: "fst p = rq_begin q" "rq_begin q1 = seq_at bits (rq_begin q) 1"
        using win_pull_conserves(3) [OF w(1) b] by auto
      have "map (seq_at bits (rq_begin q)) [0..<Suc (length pulled')] =
          rq_begin q # map (seq_at bits (rq_begin q1)) [0..<length pulled']"
        using b p by (simp add: map_upt_Suc del: upt_Suc)
      then show ?thesis
        using IH win_pull_conserves(1) [OF w(1) b] Some p RqPull pulled by (auto simp del: upt_Suc)
    qed
  qed
qed

end

lemma seq_dist_word:
  "LENGTH('a) < 64 \<Longrightarrow> unat a < 2 ^ LENGTH('a) \<Longrightarrow> unat b < 2 ^ LENGTH('a) \<Longrightarrow>
   seq_dist LENGTH('a) a b = unat (ucast b - ucast a :: 'a::len word)"
  for a b :: u64
  by (simp add: seq_dist_def unat_minus_cyclic unat_ucast_small)

lemma ucast_inj_small:
  "unat a < 2 ^ LENGTH('a) \<Longrightarrow> unat b < 2 ^ LENGTH('a) \<Longrightarrow>
   (ucast a :: 'a::len word) = ucast b \<longleftrightarrow> a = b" for a b :: u64
  by (metis unat_ucast_small word_unat_eq_iff)

text \<open>The 32 bit sequence numbers of Takion satisfy the interface.\<close>

interpretation rq32: seq_arith 32 seq_num_32_gt seq_num_32_lt seq_num_32_add
proof
  fix a b :: u64
  show "unat (seq_num_32_add a b) = (unat a + unat b) mod 2 ^ 32"
    by (simp add: seq_num_32_add_def unat_ucast_mod unat_word_ariths mod_add_eq)
  assume ab: "unat a < 2 ^ 32" "unat b < 2 ^ 32"
  show "seq_num_32_lt a b = (a \<noteq> b \<and> seq_dist 32 a b < 2 ^ (32 - 1))"
    using ab seq_dist_word [where 'a = 32, of a b] ucast_inj_small [where 'a = 32, of a b]
      uint_less_power [of "ucast b - ucast a :: 32 word" 31]
    by (simp add: seq_num_32_lt_def seq_num_32_defs seq_num_lt_cyclic)
  show "seq_num_32_gt a b = (a \<noteq> b \<and> seq_dist 32 b a < 2 ^ (32 - 1))"
    using ab seq_dist_word [where 'a = 32, of b a] ucast_inj_small [where 'a = 32, of a b]
      uint_less_power [of "ucast a - ucast b :: 32 word" 31]
    by (simp add: seq_num_32_gt_def seq_num_32_defs seq_num_gt_cyclic)
qed auto

section \<open>Properties\<close>

definition rq32_inv :: "'u reorder_queue \<Rightarrow> bool" where
  "rq32_inv = rq_inv 32 seq_num_32_gt seq_num_32_lt seq_num_32_add"

lemma rq32_init_inv:
  "chiaki_reorder_queue_init_32 ok null n start = Some q \<Longrightarrow> n < 31 \<Longrightarrow> rq32_inv q"
  using unsigned_less [of start]
  by (auto simp: chiaki_reorder_queue_init_32_def chiaki_reorder_queue_init_def rq32_inv_def rq_inv_def
      split: if_splits)

lemma rq32_init_fields:
  "chiaki_reorder_queue_init_32 ok null n start = Some q \<Longrightarrow>
   rq_begin q = ucast start \<and> rq_window q = [] \<and> rq_size_exp q = n \<and>
   rq_drop_strategy q = CHIAKI_REORDER_QUEUE_DROP_STRATEGY_END"
  by (auto simp: chiaki_reorder_queue_init_32_def chiaki_reorder_queue_init_def rq_window_def
      split: if_splits)

lemma rq_inv_set_drop_cb:
  "rq_inv bits gt lt add q \<Longrightarrow> rq_inv bits gt lt add (chiaki_reorder_queue_set_drop_cb q cb)"
  by (simp add: rq_inv_def chiaki_reorder_queue_set_drop_cb_def)

lemma rq32_run_from_init:
  assumes "chiaki_reorder_queue_init_32 True null n start = Some q" "0 < n" "n < 31"
    and "rq_run (chiaki_reorder_queue_set_drop_cb q True) ops = Some (q', pulled, dropped)"
    and "\<forall>(s, u) \<in> set (rq_pushed ops). unat s < 2 ^ 32"
  shows "rq32_inv q' \<and> rq_drop_cb q' \<and>
    map fst pulled = map (seq_at 32 (ucast start)) [0..<length pulled] \<and>
    mset pulled + mset dropped + mset (win_elems 32 (rq_begin q') (rq_window q')) = mset (rq_pushed ops)"
proof -
  let ?q = "chiaki_reorder_queue_set_drop_cb q True"
  have inv: "rq_inv 32 seq_num_32_gt seq_num_32_lt seq_num_32_add ?q"
    using rq32_init_inv [OF assms(1,3)] by (simp add: rq32_inv_def rq_inv_set_drop_cb)
  have "rq_window ?q = rq_window q"
    by (simp add: rq_window_def rq_cell_def chiaki_reorder_queue_set_drop_cb_def)
  then have fields: "rq_begin ?q = ucast start" "rq_window ?q = []" "rq_size_exp ?q = n" "rq_drop_cb ?q"
    "rq_drop_strategy ?q = CHIAKI_REORDER_QUEUE_DROP_STRATEGY_END"
    using rq32_init_fields [OF assms(1)] by (simp_all add: chiaki_reorder_queue_set_drop_cb_def)
  have "0 < rq_size_exp (chiaki_reorder_queue_set_drop_cb q True)" using fields(3) assms(2) by simp
  from rq32.rq_run_END [OF inv fields(5) this fields(4) assms(4) assms(5)] show ?thesis
    unfolding rq32_inv_def fields(1,2) by clarsimp
qed

text \<open>
  C22. Ownership of the queued packets. Whatever sequence of pushes and pulls is run on a
  queue that Takion initialises (32 bit numbers, drop strategy END, drop callback set),
  every pushed packet is, with its sequence number, in exactly one of three places: handed
  out by \<open>pull\<close>, passed to the drop callback by \<open>push\<close>, or passed to it by \<open>fini\<close>. So no
  packet is leaked and none is freed twice.
\<close>

theorem reorder_queue_ownership:
  assumes "chiaki_reorder_queue_init_32 True null n start = Some q" "0 < n" "n < 31"
    and "rq_run (chiaki_reorder_queue_set_drop_cb q True) ops = Some (q', pulled, dropped)"
    and "\<forall>(s, u) \<in> set (rq_pushed ops). unat s < 2 ^ 32"
  shows "mset pulled + mset dropped + mset (chiaki_reorder_queue_fini q') = mset (rq_pushed ops)"
  using rq32_run_from_init [OF assms] rq32.rq_fini_window [of q'] by (simp add: rq32_inv_def)

text \<open>
  In-order delivery: the packets that \<open>pull\<close> hands out carry the sequence numbers
  \<open>start\<close>, \<open>start + 1\<close>, and so on, modulo \<open>2 ^ 32\<close>, without a gap or a repetition,
  whatever order they were pushed in.
\<close>

theorem reorder_queue_in_order:
  assumes "chiaki_reorder_queue_init_32 True null n start = Some q" "0 < n" "n < 31"
    and "rq_run (chiaki_reorder_queue_set_drop_cb q True) ops = Some (q', pulled, dropped)"
    and "\<forall>(s, u) \<in> set (rq_pushed ops). unat s < 2 ^ 32"
  shows "map fst pulled = map (\<lambda>i. of_nat ((unat start + i) mod 2 ^ 32)) [0..<length pulled]"
  using rq32_run_from_init [OF assms] by (simp add: seq_at_def [abs_def])

text \<open>
  C23. \<open>push\<close> refines the window operation \<open>win_push\<close> under both drop strategies, wrap-around
  included, for every sequence number that is not exactly half the number space away from the
  next expected one. At that distance neither comparison holds: an empty queue fails its
  assertion there, and in no other case does \<open>push\<close> fail one.
\<close>

theorem reorder_queue_push_refines:
  assumes "rq32_inv q" "unat s < 2 ^ 32"
  shows "(chiaki_reorder_queue_push q s u = None \<longleftrightarrow> rq_count q = 0 \<and> seq_dist 32 (rq_begin q) s = 2 ^ 31) \<and>
    (seq_dist 32 (rq_begin q) s \<noteq> 2 ^ 31 \<longrightarrow>
      (\<exists>q' dr. chiaki_reorder_queue_push q s u = Some (q', if rq_drop_cb q then dr else []) \<and>
        win_push 32 (2 ^ rq_size_exp q) (rq_drop_strategy q) (rq_begin q, rq_window q) s u =
          ((rq_begin q', rq_window q'), dr) \<and> rq32_inv q'))"
proof (cases "seq_dist 32 (rq_begin q) s = 2 ^ 31")
  case True
  then show ?thesis using rq32.rq_push_half [of q s u] assms unfolding rq32_inv_def by simp
next
  case False
  then show ?thesis using rq32.rq_push_window [of q s u] assms unfolding rq32_inv_def by auto
qed

text \<open>
  \<open>drop\<close> calls the drop callback and leaves the queue as it was: the dropped element
  stays set, so its freed packet is handed out by the next \<open>pull\<close> that reaches it.
\<close>

theorem reorder_queue_drop_keeps_element:
  "fst (chiaki_reorder_queue_drop q index) = q"
  by (auto simp: chiaki_reorder_queue_drop_def Let_def rq_shrink.simps rq_entry_at_def)

definition rq16_wrap_run :: "(u64 \<times> nat) list option" where
  "rq16_wrap_run = (case chiaki_reorder_queue_init_16 True 0 4 65535 of None \<Rightarrow> None
     | Some q \<Rightarrow> map_option (fst \<circ> snd)
        (rq_run q [RqPush 65535 1, RqPull, RqPush 0 2, RqPush 0 3]))"

text \<open>
  The 16 bit instance adds without reducing modulo \<open>2 ^ 16\<close>. After the wrap of its
  begin number, a packet that is received twice runs \<open>push\<close> into a failed assertion.
\<close>

lemma reorder_queue_16_wrap_aborts: "rq16_wrap_run = None \<and> seq_num_16_add 65535 1 = 65536"
  by code_simp

definition rq32_sample_ops :: "nat rq_op list" where
  "rq32_sample_ops = [RqPush 0 10, RqPull, RqPush 4294967295 11, RqPush 0 12, RqPull, RqPull, RqPush 9 13, RqPush 2 14]"

lemma rq32_sample_run:
  "\<exists>q q'. chiaki_reorder_queue_init_32 True (0::nat) 2 4294967295 = Some q \<and>
    rq_run (chiaki_reorder_queue_set_drop_cb q True) rq32_sample_ops
      = Some (q', [(4294967295, 11), (0, 10)], [(0, 12), (9, 13)])"
proof -
  obtain q where q: "chiaki_reorder_queue_init_32 True (0::nat) 2 4294967295 = Some q"
    by (simp add: chiaki_reorder_queue_init_32_def chiaki_reorder_queue_init_def)
  have "map_option snd (case chiaki_reorder_queue_init_32 True (0::nat) 2 4294967295 of None \<Rightarrow> None
      | Some q \<Rightarrow> rq_run (chiaki_reorder_queue_set_drop_cb q True) rq32_sample_ops)
    = Some ([(4294967295, 11), (0, 10)], [(0, 12), (9, 13)])"
    by code_simp
  then show ?thesis using q by auto
qed

theorem reorder_queue_ownership_witness:
  "\<exists>q q' pulled dropped. chiaki_reorder_queue_init_32 True (0::nat) 2 4294967295 = Some q \<and>
    rq_run (chiaki_reorder_queue_set_drop_cb q True) rq32_sample_ops = Some (q', pulled, dropped) \<and>
    mset pulled + mset dropped + mset (chiaki_reorder_queue_fini q') = mset (rq_pushed rq32_sample_ops)"
proof -
  obtain q q' where run: "chiaki_reorder_queue_init_32 True (0::nat) 2 4294967295 = Some q"
    "rq_run (chiaki_reorder_queue_set_drop_cb q True) rq32_sample_ops
      = Some (q', [(4294967295, 11), (0, 10)], [(0, 12), (9, 13)])"
    using rq32_sample_run by blast
  have "\<forall>(s, u) \<in> set (rq_pushed rq32_sample_ops). unat s < 2 ^ 32"
    by (simp add: rq32_sample_ops_def)
  from reorder_queue_ownership [OF run(1) _ _ run(2) this] run show ?thesis by auto
qed

theorem reorder_queue_in_order_witness:
  "\<exists>q q' pulled dropped. chiaki_reorder_queue_init_32 True (0::nat) 2 4294967295 = Some q \<and>
    rq_run (chiaki_reorder_queue_set_drop_cb q True) rq32_sample_ops = Some (q', pulled, dropped) \<and>
    map fst pulled = map (\<lambda>i. of_nat ((unat (4294967295::u32) + i) mod 2 ^ 32)) [0..<length pulled]"
proof -
  obtain q q' where run: "chiaki_reorder_queue_init_32 True (0::nat) 2 4294967295 = Some q"
    "rq_run (chiaki_reorder_queue_set_drop_cb q True) rq32_sample_ops
      = Some (q', [(4294967295, 11), (0, 10)], [(0, 12), (9, 13)])"
    using rq32_sample_run by blast
  have "\<forall>(s, u) \<in> set (rq_pushed rq32_sample_ops). unat s < 2 ^ 32"
    by (simp add: rq32_sample_ops_def)
  moreover have "0 < (2::nat)" "(2::nat) < 31" by simp_all
  ultimately show ?thesis
    using run reorder_queue_in_order [of 0 2 4294967295 q rq32_sample_ops q'] by blast
qed

theorem reorder_queue_push_refines_witness:
  "\<exists>q. chiaki_reorder_queue_init_32 True (0::nat) 2 4294967295 = Some q \<and>
     (\<exists>q' dr. chiaki_reorder_queue_push q 1 7 = Some (q', if rq_drop_cb q then dr else []) \<and>
      win_push 32 (2 ^ rq_size_exp q) (rq_drop_strategy q) (rq_begin q, rq_window q) 1 7 =
        ((rq_begin q', rq_window q'), dr) \<and> rq32_inv q') \<and>
     chiaki_reorder_queue_push q 2147483647 7 = None"
proof -
  obtain q where q: "chiaki_reorder_queue_init_32 True (0::nat) 2 4294967295 = Some q"
    by (simp add: chiaki_reorder_queue_init_32_def chiaki_reorder_queue_init_def)
  have "seq_dist 32 (rq_begin q) 1 \<noteq> 2 ^ 31" "rq_count q = 0" "seq_dist 32 (rq_begin q) 2147483647 = 2 ^ 31"
    using rq32_init_fields [OF q] q
    by (auto simp: seq_dist_def chiaki_reorder_queue_init_32_def chiaki_reorder_queue_init_def)
  with reorder_queue_push_refines [OF rq32_init_inv [OF q], of 1 7] reorder_queue_push_refines [OF rq32_init_inv [OF q], of 2147483647 7] q
  show ?thesis by auto
qed

end
