(* ===== verification/Common.thy ===== *)
theory Common
  imports Prelude
begin

text \<open>
  \<open>lib/include/chiaki/common.h\<close> and \<open>lib/src/common.c\<close>: the error codes every operation of the
  library returns, the console generations (targets), which the code compares by their
  numeric values, and the video codecs.
\<close>

datatype ChiakiErrorCode =
    CHIAKI_ERR_SUCCESS | CHIAKI_ERR_UNKNOWN | CHIAKI_ERR_PARSE_ADDR | CHIAKI_ERR_THREAD
  | CHIAKI_ERR_MEMORY | CHIAKI_ERR_OVERFLOW | CHIAKI_ERR_NETWORK | CHIAKI_ERR_CONNECTION_REFUSED
  | CHIAKI_ERR_HOST_DOWN | CHIAKI_ERR_HOST_UNREACH | CHIAKI_ERR_DISCONNECTED
  | CHIAKI_ERR_INVALID_DATA | CHIAKI_ERR_BUF_TOO_SMALL | CHIAKI_ERR_MUTEX_LOCKED
  | CHIAKI_ERR_CANCELED | CHIAKI_ERR_TIMEOUT | CHIAKI_ERR_INVALID_RESPONSE
  | CHIAKI_ERR_INVALID_MAC | CHIAKI_ERR_UNINITIALIZED | CHIAKI_ERR_FEC_FAILED
  | CHIAKI_ERR_VERSION_MISMATCH

text \<open>The codes that fall to the \<open>default\<close> label are those with no case of their own.\<close>

fun chiaki_error_string :: "ChiakiErrorCode \<Rightarrow> string" where
  "chiaki_error_string CHIAKI_ERR_SUCCESS = ''Success''"
| "chiaki_error_string CHIAKI_ERR_PARSE_ADDR = ''Failed to parse host address''"
| "chiaki_error_string CHIAKI_ERR_THREAD = ''Thread error''"
| "chiaki_error_string CHIAKI_ERR_MEMORY = ''Memory error''"
| "chiaki_error_string CHIAKI_ERR_NETWORK = ''Network error''"
| "chiaki_error_string CHIAKI_ERR_CONNECTION_REFUSED = ''Connection Refused''"
| "chiaki_error_string CHIAKI_ERR_HOST_DOWN = ''Host is down''"
| "chiaki_error_string CHIAKI_ERR_HOST_UNREACH = ''No route to host''"
| "chiaki_error_string CHIAKI_ERR_DISCONNECTED = ''Disconnected''"
| "chiaki_error_string CHIAKI_ERR_INVALID_DATA = ''Invalid data''"
| "chiaki_error_string CHIAKI_ERR_BUF_TOO_SMALL = ''Buffer too small''"
| "chiaki_error_string CHIAKI_ERR_MUTEX_LOCKED = ''Mutex is locked''"
| "chiaki_error_string CHIAKI_ERR_CANCELED = ''Canceled''"
| "chiaki_error_string CHIAKI_ERR_TIMEOUT = ''Timeout''"
| "chiaki_error_string CHIAKI_ERR_INVALID_RESPONSE = ''Invalid Response''"
| "chiaki_error_string CHIAKI_ERR_INVALID_MAC = ''Invalid MAC''"
| "chiaki_error_string CHIAKI_ERR_UNINITIALIZED = ''Uninitialized''"
| "chiaki_error_string CHIAKI_ERR_FEC_FAILED = ''FEC failed''"
| "chiaki_error_string CHIAKI_ERR_UNKNOWN = ''Unknown''"
| "chiaki_error_string CHIAKI_ERR_OVERFLOW = ''Unknown''"
| "chiaki_error_string CHIAKI_ERR_VERSION_MISMATCH = ''Unknown''"

text \<open>
  \<open>chiaki_lib_init\<close> on a POSIX system. \<open>galois_r\<close> is what \<open>galois_init_default_field\<close> (jerasure)
  returned; \<open>ENOMEM\<close> is 12.
\<close>

definition chiaki_lib_init :: "int \<Rightarrow> ChiakiErrorCode" where
  "chiaki_lib_init galois_r =
     (if galois_r \<noteq> 0 then (if galois_r = 12 then CHIAKI_ERR_MEMORY else CHIAKI_ERR_UNKNOWN)
      else CHIAKI_ERR_SUCCESS)"

section \<open>Targets\<close>

datatype ChiakiTarget =
    CHIAKI_TARGET_PS4_UNKNOWN | CHIAKI_TARGET_PS4_8 | CHIAKI_TARGET_PS4_9
  | CHIAKI_TARGET_PS4_10 | CHIAKI_TARGET_PS5_UNKNOWN | CHIAKI_TARGET_PS5_1

fun target_value :: "ChiakiTarget \<Rightarrow> nat" where
  "target_value CHIAKI_TARGET_PS4_UNKNOWN = 0"
| "target_value CHIAKI_TARGET_PS4_8 = 800"
| "target_value CHIAKI_TARGET_PS4_9 = 900"
| "target_value CHIAKI_TARGET_PS4_10 = 1000"
| "target_value CHIAKI_TARGET_PS5_UNKNOWN = 1000000"
| "target_value CHIAKI_TARGET_PS5_1 = 1000100"

lemma target_value_inj: "target_value s = target_value t \<longleftrightarrow> s = t"
  by (cases s; cases t; simp)

text \<open>The C code compares targets with \<open><\<close> and \<open>>=\<close>: the order is that of the values.\<close>

instantiation ChiakiTarget :: linorder
begin

definition less_eq_ChiakiTarget_def: "s \<le> t \<longleftrightarrow> target_value s \<le> target_value t"

definition less_ChiakiTarget_def: "s < t \<longleftrightarrow> target_value s < target_value t"

instance
  by standard (auto simp: less_eq_ChiakiTarget_def less_ChiakiTarget_def target_value_inj)

end

lemmas target_order = less_eq_ChiakiTarget_def less_ChiakiTarget_def

definition chiaki_target_is_unknown :: "ChiakiTarget \<Rightarrow> bool" where
  "chiaki_target_is_unknown target \<longleftrightarrow>
     target = CHIAKI_TARGET_PS5_UNKNOWN \<or> target = CHIAKI_TARGET_PS4_UNKNOWN"

definition chiaki_target_is_ps5 :: "ChiakiTarget \<Rightarrow> bool" where
  "chiaki_target_is_ps5 target \<longleftrightarrow> target \<ge> CHIAKI_TARGET_PS5_UNKNOWN"

lemma target_is_ps5_iff:
  "chiaki_target_is_ps5 t \<longleftrightarrow> t = CHIAKI_TARGET_PS5_UNKNOWN \<or> t = CHIAKI_TARGET_PS5_1"
  by (cases t) (simp_all add: chiaki_target_is_ps5_def target_order)

section \<open>Codecs\<close>

datatype ChiakiCodec = CHIAKI_CODEC_H264 | CHIAKI_CODEC_H265 | CHIAKI_CODEC_H265_HDR

definition chiaki_codec_is_h265 :: "ChiakiCodec \<Rightarrow> bool" where
  "chiaki_codec_is_h265 codec \<longleftrightarrow> codec = CHIAKI_CODEC_H265 \<or> codec = CHIAKI_CODEC_H265_HDR"

definition chiaki_codec_is_hdr :: "ChiakiCodec \<Rightarrow> bool" where
  "chiaki_codec_is_hdr codec \<longleftrightarrow> codec = CHIAKI_CODEC_H265_HDR"

fun chiaki_codec_name :: "ChiakiCodec \<Rightarrow> string" where
  "chiaki_codec_name CHIAKI_CODEC_H264 = ''H264''"
| "chiaki_codec_name CHIAKI_CODEC_H265 = ''H265''"
| "chiaki_codec_name CHIAKI_CODEC_H265_HDR = ''H265/HDR''"

end
