(* ===== verification/Hex_Utils.thy ===== *)
theory Hex_Utils
  imports Common
begin

text \<open>
  The helpers of \<open>lib/src/utils.h\<close>: the port of a socket address, the exclusive or of two byte
  ranges and the hexadecimal codec. Socket calls are not modelled. A buffer written front
  to back is the list of the bytes written so far.
\<close>

datatype sa_family = AF_INET | AF_INET6 | AF_OTHER

record sockaddr =
  sa_family :: sa_family
  sin_port :: u16
  sin6_port :: u16

definition set_port :: "sockaddr \<Rightarrow> u16 \<Rightarrow> ChiakiErrorCode \<times> sockaddr" where
  "set_port sa port =
     (if sa_family sa = AF_INET then (CHIAKI_ERR_SUCCESS, sa\<lparr>sin_port := port\<rparr>)
      else if sa_family sa = AF_INET6 then (CHIAKI_ERR_SUCCESS, sa\<lparr>sin6_port := port\<rparr>)
      else (CHIAKI_ERR_INVALID_DATA, sa))"

text \<open>\<open>None\<close>: one of the ranges is shorter than \<open>sz\<close>.\<close>

fun xor_bytes :: "bytes \<Rightarrow> bytes \<Rightarrow> nat \<Rightarrow> bytes option" where
  "xor_bytes dst src 0 = Some dst"
| "xor_bytes (d # dst) (s # src) (Suc sz) = map_option (\<lambda>r. (d XOR s) # r) (xor_bytes dst src sz)"
| "xor_bytes _ _ (Suc sz) = None"

section \<open>Hexadecimal\<close>

definition nibble_value :: "u8 \<Rightarrow> int" where
  "nibble_value c =
     (if c \<ge> 0x30 \<and> c \<le> 0x39 then uint c - 0x30
      else if c \<ge> 0x61 \<and> c \<le> 0x66 then uint c - 0x61 + 0xa
      else if c \<ge> 0x41 \<and> c \<le> 0x46 then uint c - 0x41 + 0xa
      else - 1)"

definition nibble_char :: "u8 \<Rightarrow> u8" where
  "nibble_char v = (if v > 0xf then 0x30 else if v < 0xa then 0x30 + v else 0x61 + v)"

fun parse_hex_loop :: "bytes \<Rightarrow> bytes \<Rightarrow> ChiakiErrorCode \<times> bytes" where
  "parse_hex_loop (a # b # rest) buf =
     (let h = nibble_value a in
      if h < 0 then (CHIAKI_ERR_INVALID_DATA, buf)
      else let l = nibble_value b in
        if l < 0 then (CHIAKI_ERR_INVALID_DATA, buf)
        else parse_hex_loop rest (buf @ [push_bit 4 (word_of_int h) OR word_of_int l]))"
| "parse_hex_loop _ buf = (CHIAKI_ERR_SUCCESS, buf)"

text \<open>The error code, the bytes written to \<open>buf\<close> and the final \<open>*buf_size\<close>.\<close>

definition parse_hex :: "nat \<Rightarrow> bytes \<Rightarrow> ChiakiErrorCode \<times> bytes \<times> nat" where
  "parse_hex buf_size hex =
     (if length hex mod 2 \<noteq> 0 then (CHIAKI_ERR_INVALID_DATA, [], buf_size)
      else if length hex div 2 > buf_size then (CHIAKI_ERR_BUF_TOO_SMALL, [], buf_size)
      else let (err, buf) = parse_hex_loop hex []
           in if err \<noteq> CHIAKI_ERR_SUCCESS then (err, buf, buf_size)
              else (CHIAKI_ERR_SUCCESS, buf, length hex div 2))"

definition format_hex :: "nat \<Rightarrow> bytes \<Rightarrow> ChiakiErrorCode \<times> bytes" where
  "format_hex hex_buf_size buf =
     (if hex_buf_size < length buf * 2 + 1 then (CHIAKI_ERR_BUF_TOO_SMALL, [])
      else (CHIAKI_ERR_SUCCESS,
            concat (map (\<lambda>v. [nibble_char (drop_bit 4 v), nibble_char (v AND 0xf)]) buf) @ [0]))"

section \<open>Facts\<close>

lemma xor_bytes_defined:
  "sz \<le> length dst \<Longrightarrow> sz \<le> length src \<Longrightarrow>
   xor_bytes dst src sz = Some (map2 (XOR) (take sz dst) (take sz src) @ drop sz dst)"
  by (induction dst src sz rule: xor_bytes.induct) auto

text \<open>A nibble is printed so that it can be read exactly when it is a decimal digit.\<close>

lemma nibble_cases:
  assumes "v \<le> (0xf :: u8)"
  shows "v \<in> set (map of_nat [0..<16])"
proof -
  have "unat v \<in> set [0..<16]" using assms by (simp add: word_le_nat_alt)
  then have "(of_nat (unat v) :: u8) \<in> set (map of_nat [0..<16])" unfolding set_map by (rule imageI)
  then show ?thesis by simp
qed

lemma nibble_value_char_all:
  "list_all (\<lambda>v. nibble_value (nibble_char v) = (if v < 0xa then uint v else - 1)) (map of_nat [0..<16])"
  by (simp add: upt_rec nibble_value_def nibble_char_def)

lemma nibble_value_char:
  "v \<le> 0xf \<Longrightarrow> nibble_value (nibble_char v) = (if v < 0xa then uint v else - 1)"
  using nibble_value_char_all nibble_cases unfolding list_all_iff by blast

lemma byte_nibbles: "drop_bit 4 v \<le> (0xf :: u8)" "v AND 0xf \<le> (0xf :: u8)"
proof -
  show "v AND 0xf \<le> (0xf :: u8)" by (simp add: word_and_le1)
  have "unat (drop_bit 4 v) = unat v div 16" by (simp only: unat_drop_bit) simp
  moreover have "unat v < 256" using unsigned_less [of v] by simp
  ultimately show "drop_bit 4 v \<le> (0xf :: u8)" by (simp add: word_le_nat_alt)
qed

lemma byte_join: "push_bit 4 (drop_bit 4 v) OR (v AND 0xf) = (v :: u8)"
  by (simp add: u8_bitwise_eq bit_simps)

definition decimal_nibbles :: "u8 \<Rightarrow> bool" where
  "decimal_nibbles v = (drop_bit 4 v < 0xa \<and> v AND 0xf < 0xa)"

lemma parse_hex_loop_format:
  "parse_hex_loop (concat (map (\<lambda>v. [nibble_char (drop_bit 4 v), nibble_char (v AND 0xf)]) bs)) out =
     (if list_all decimal_nibbles bs then (CHIAKI_ERR_SUCCESS, out @ bs)
      else (CHIAKI_ERR_INVALID_DATA, out @ takeWhile decimal_nibbles bs))"
proof (induction bs arbitrary: out)
  case (Cons v bs)
  have h: "nibble_value (nibble_char (drop_bit 4 v)) = (if drop_bit 4 v < 0xa then uint (drop_bit 4 v) else - 1)"
    and l: "nibble_value (nibble_char (v AND 0xf)) = (if v AND 0xf < 0xa then uint (v AND 0xf) else - 1)"
    by (rule nibble_value_char, rule byte_nibbles)+
  show ?case
    using Cons byte_join [of v]
    by (cases "drop_bit 4 v < 0xa"; cases "v AND 0xf < 0xa")
      (simp_all add: h l Let_def decimal_nibbles_def [of v])
qed simp

text \<open>
  \<open>format_hex\<close> prints a string that \<open>parse_hex\<close> reads back as the same bytes exactly when every
  nibble is a decimal digit: \<open>nibble_char\<close> adds the whole value to \<open>'a'\<close>, so that ten is
  printed as \<open>k\<close>, which \<open>parse_hex\<close> rejects.
\<close>

theorem hex_roundtrip_iff:
  assumes "format_hex n bs = (CHIAKI_ERR_SUCCESS, txt @ [0])"
  shows "fst (parse_hex (length bs) txt) =
           (if list_all decimal_nibbles bs then CHIAKI_ERR_SUCCESS else CHIAKI_ERR_INVALID_DATA)
         \<and> (list_all decimal_nibbles bs \<longrightarrow> snd (parse_hex (length bs) txt) = (bs, length bs))"
proof -
  have t: "txt = concat (map (\<lambda>v. [nibble_char (drop_bit 4 v), nibble_char (v AND 0xf)]) bs)"
    using assms by (simp add: format_hex_def split: if_splits)
  have "length txt = 2 * length bs"
    unfolding t by (induction bs) simp_all
  then show ?thesis
    unfolding parse_hex_def by (simp add: t parse_hex_loop_format)
qed

lemma hex_roundtrip_iff_witness:
  "fst (parse_hex 1 [0x6b, 0x30]) = CHIAKI_ERR_INVALID_DATA"
  using hex_roundtrip_iff [of 3 "[0xa0]" "[0x6b, 0x30]"]
  by (simp add: format_hex_def nibble_char_def decimal_nibbles_def)

end
