(* ===== verification/GKCrypt.thy ===== *)
theory GKCrypt
  imports Common Seqnum Hex_Utils
begin

text \<open>
  \<open>lib/src/gkcrypt.c\<close> (OpenSSL build): the key stream, the packet authentication codes and the
  key position of a connection. The cryptographic primitives are not part of the sources:
  the record \<open>crypto\<close> is the parameter that holds what the calls return, \<open>None\<close> being a
  failure. Key positions and sizes are \<open>uint64_t\<close> and \<open>size_t\<close>: natural numbers whose sums
  are reduced modulo \<open>2^64\<close>. A failed \<open>assert\<close> and a signed overflow are \<open>None\<close>.
\<close>

abbreviation "CHIAKI_GKCRYPT_BLOCK_SIZE \<equiv> 0x10 :: nat"
abbreviation "CHIAKI_GKCRYPT_GMAC_SIZE \<equiv> 4 :: nat"
abbreviation "CHIAKI_GKCRYPT_GMAC_KEY_REFRESH_KEY_POS \<equiv> 45000 :: nat"
abbreviation "CHIAKI_GKCRYPT_GMAC_KEY_REFRESH_IV_OFFSET \<equiv> 44910 :: nat"
abbreviation "CHIAKI_HANDSHAKE_KEY_SIZE \<equiv> 0x10 :: nat"
abbreviation "KEY_BUF_CHUNK_SIZE \<equiv> 0x1000 :: nat"

text \<open>
  \<open>cr_ctx\<close>: a cipher context can be allocated. \<open>cr_hmac key data\<close>: HMAC-SHA256. \<open>cr_ecb key data\<close>:
  AES-128 in ECB mode without padding. \<open>cr_gcm key iv aad\<close>: the first four bytes of the AES-128
  GCM tag of the additional data.
\<close>

record crypto =
  cr_ctx :: bool
  cr_hmac :: "bytes \<Rightarrow> bytes \<Rightarrow> bytes option"
  cr_sha256 :: "bytes \<Rightarrow> bytes"
  cr_ecb :: "bytes \<Rightarrow> bytes \<Rightarrow> bytes option"
  cr_gcm :: "bytes \<Rightarrow> bytes \<Rightarrow> bytes \<Rightarrow> bytes option"

record gkcrypt =
  gk_index :: u8
  key_buf :: "bytes option"
  key_buf_size :: nat
  key_buf_populated :: nat
  key_buf_key_pos_min :: nat
  key_buf_start_offset :: nat
  last_key_pos :: nat
  key_buf_thread_stop :: bool
  gk_iv :: bytes
  key_base :: bytes
  key_gmac_base :: bytes
  key_gmac_current :: bytes
  key_gmac_index_current :: nat

section \<open>Keys\<close>

definition gkcrypt_gen_key_iv ::
  "crypto \<Rightarrow> gkcrypt \<Rightarrow> u8 \<Rightarrow> bytes \<Rightarrow> bytes \<Rightarrow> (ChiakiErrorCode \<times> gkcrypt) option" where
  "gkcrypt_gen_key_iv cr gk index handshake_key ecdh_secret =
     (let data = [1, index, 0] @ take CHIAKI_HANDSHAKE_KEY_SIZE handshake_key @ [1, 0] in
      case cr_hmac cr ecdh_secret data of
        None \<Rightarrow> Some (CHIAKI_ERR_UNKNOWN, gk)
      | Some hmac \<Rightarrow>
          if length hmac \<noteq> 2 * CHIAKI_GKCRYPT_BLOCK_SIZE then None
          else Some (CHIAKI_ERR_SUCCESS,
                 gk\<lparr>key_base := take CHIAKI_GKCRYPT_BLOCK_SIZE hmac,
                    gk_iv := take CHIAKI_GKCRYPT_BLOCK_SIZE (drop CHIAKI_GKCRYPT_BLOCK_SIZE hmac)\<rparr>))"

text \<open>The little-endian addition of \<open>v\<close> to the block \<open>base\<close>: the bytes after the last carry are copied.\<close>

fun counter_add :: "bytes \<Rightarrow> nat \<Rightarrow> bytes" where
  "counter_add [] v = []"
| "counter_add (b # base) v =
     (let r = u64_add (unat b) v; v = r div 256
      in of_nat (r mod 256) # (if v \<noteq> 0 then counter_add base v else base))"

definition chiaki_gkcrypt_gen_gmac_key :: "crypto \<Rightarrow> nat \<Rightarrow> bytes \<Rightarrow> bytes \<Rightarrow> bytes option" where
  "chiaki_gkcrypt_gen_gmac_key cr index key iv =
     (let data = take 0x10 key
                 @ counter_add iv (index * CHIAKI_GKCRYPT_GMAC_KEY_REFRESH_IV_OFFSET mod 2 ^ 64);
          md = cr_sha256 cr data
      in map_option (take CHIAKI_GKCRYPT_BLOCK_SIZE) (xor_bytes md (drop 0x10 md) 0x10))"

definition chiaki_gkcrypt_gen_new_gmac_key :: "crypto \<Rightarrow> gkcrypt \<Rightarrow> nat \<Rightarrow> gkcrypt option" where
  "chiaki_gkcrypt_gen_new_gmac_key cr gk index =
     (if \<not> index > 0 then None
      else map_option (\<lambda>k. gk\<lparr>key_gmac_current := k, key_gmac_index_current := index\<rparr>)
             (chiaki_gkcrypt_gen_gmac_key cr index (key_gmac_base gk) (gk_iv gk)))"

definition chiaki_gkcrypt_gen_tmp_gmac_key :: "crypto \<Rightarrow> gkcrypt \<Rightarrow> nat \<Rightarrow> bytes option" where
  "chiaki_gkcrypt_gen_tmp_gmac_key cr gk index =
     (if index \<noteq> 0 then chiaki_gkcrypt_gen_gmac_key cr index (key_gmac_base gk) (gk_iv gk)
      else Some (key_gmac_base gk))"

text \<open>
  The resources that \<open>init\<close> holds when it returns are part of the result. \<open>alloc\<close>, \<open>mutex_r\<close>,
  \<open>cond_r\<close>, \<open>thread_r\<close>: what the platform calls return.
\<close>

datatype gk_resource = GK_Key_Buf | GK_Mutex | GK_Cond | GK_Thread

definition chiaki_gkcrypt_init ::
  "crypto \<Rightarrow> bool \<Rightarrow> ChiakiErrorCode \<Rightarrow> ChiakiErrorCode \<Rightarrow> ChiakiErrorCode \<Rightarrow>
   gkcrypt \<Rightarrow> nat \<Rightarrow> u8 \<Rightarrow> bytes \<Rightarrow> bytes \<Rightarrow> (ChiakiErrorCode \<times> gkcrypt \<times> gk_resource list) option" where
  "chiaki_gkcrypt_init cr alloc mutex_r cond_r thread_r gk key_buf_chunks index handshake_key ecdh_secret =
     (let buf_size = key_buf_chunks * KEY_BUF_CHUNK_SIZE mod 2 ^ 64;
          threaded = (buf_size \<noteq> 0);
          gk = gk\<lparr>gk_index := index, key_buf_size := buf_size,
                  key_buf_populated := 0, key_buf_key_pos_min := 0, key_buf_start_offset := 0,
                  last_key_pos := 0, key_buf_thread_stop := False,
                  key_buf := (if threaded \<and> alloc then Some (replicate buf_size 0) else None)\<rparr>
      in if threaded \<and> \<not> alloc then Some (CHIAKI_ERR_MEMORY, gk, [])
         else if threaded \<and> mutex_r \<noteq> CHIAKI_ERR_SUCCESS then
           Some (mutex_r, gk, removeAll GK_Key_Buf [GK_Key_Buf])
         else if threaded \<and> cond_r \<noteq> CHIAKI_ERR_SUCCESS then
           Some (cond_r, gk, removeAll GK_Key_Buf (removeAll GK_Mutex [GK_Key_Buf, GK_Mutex]))
         else let res = (if threaded then [GK_Key_Buf, GK_Mutex, GK_Cond] else []);
                  undo = (\<lambda>res. removeAll GK_Key_Buf (if threaded then removeAll GK_Mutex (removeAll GK_Cond res) else res))
              in do {
                (err, gk) \<leftarrow> gkcrypt_gen_key_iv cr gk index handshake_key ecdh_secret;
                if err \<noteq> CHIAKI_ERR_SUCCESS then Some (err, gk, undo res)
                else do {
                  gmac_base \<leftarrow> chiaki_gkcrypt_gen_gmac_key cr 0 (key_base gk) (gk_iv gk);
                  let gk = gk\<lparr>key_gmac_base := gmac_base, key_gmac_index_current := 0,
                             key_gmac_current := gmac_base\<rparr> in
                  if threaded then
                    (if thread_r \<noteq> CHIAKI_ERR_SUCCESS then Some (thread_r, gk, undo res)
                     else Some (CHIAKI_ERR_SUCCESS, gk, res @ [GK_Thread]))
                  else Some (CHIAKI_ERR_SUCCESS, gk, res) } })"

text \<open>What \<open>fini\<close> does to the shared state before it joins the thread.\<close>

definition chiaki_gkcrypt_fini :: "gkcrypt \<Rightarrow> gkcrypt" where
  "chiaki_gkcrypt_fini gk = (if key_buf gk = None then gk else gk\<lparr>key_buf_thread_stop := True\<rparr>)"

section \<open>Key stream\<close>

text \<open>
  The loop that writes the counter blocks; \<open>c\<close> is the \<open>int\<close> variable \<open>counter_offset\<close>, which is
  converted to \<open>uint64_t\<close> for \<open>counter_add\<close> and incremented once per block.
\<close>

fun key_stream_counters :: "bytes \<Rightarrow> int \<Rightarrow> nat \<Rightarrow> bytes option" where
  "key_stream_counters iv c 0 = Some []"
| "key_stream_counters iv c (Suc n) =
     (let block = counter_add iv (nat (c mod 2 ^ 64)) in
      if c = 2 ^ 31 - 1 then None
      else map_option (\<lambda>rest. block @ rest) (key_stream_counters iv (c + 1) n))"

text \<open>The error code and the contents of \<open>buf\<close>, whose length is \<open>buf_size\<close>.\<close>

definition chiaki_gkcrypt_gen_key_stream ::
  "crypto \<Rightarrow> gkcrypt \<Rightarrow> nat \<Rightarrow> bytes \<Rightarrow> (ChiakiErrorCode \<times> bytes) option" where
  "chiaki_gkcrypt_gen_key_stream cr gk key_pos buf =
     (let buf_size = length buf in
      if \<not> (key_pos mod CHIAKI_GKCRYPT_BLOCK_SIZE = 0 \<and> buf_size mod CHIAKI_GKCRYPT_BLOCK_SIZE = 0) then None
      else if \<not> cr_ctx cr then Some (CHIAKI_ERR_UNKNOWN, buf)
      else let counter_offset = sint (of_nat (key_pos div CHIAKI_GKCRYPT_BLOCK_SIZE) :: u32) in do {
        buf \<leftarrow> key_stream_counters (gk_iv gk) counter_offset (buf_size div CHIAKI_GKCRYPT_BLOCK_SIZE);
        case cr_ecb cr (key_base gk) buf of
          None \<Rightarrow> Some (CHIAKI_ERR_UNKNOWN, buf)
        | Some out \<Rightarrow> if length out \<noteq> buf_size then Some (CHIAKI_ERR_UNKNOWN, buf)
                      else Some (CHIAKI_ERR_SUCCESS, out) })"

definition gkcrypt_key_buf_should_generate :: "gkcrypt \<Rightarrow> bool" where
  "gkcrypt_key_buf_should_generate gk \<longleftrightarrow>
     last_key_pos gk > u64_add (key_buf_key_pos_min gk) (key_buf_populated gk div 2)"

text \<open>
  The copy out of the ring, in one or two pieces.
\<close>

definition key_buf_copy :: "gkcrypt \<Rightarrow> bytes \<Rightarrow> nat \<Rightarrow> nat \<Rightarrow> bytes option" where
  "key_buf_copy gk kb key_pos buf_size =
     (let offset_in_buf = u64_add (key_pos - key_buf_key_pos_min gk) (key_buf_start_offset gk) mod key_buf_size gk;
          end = u64_add offset_in_buf buf_size
      in if end > key_buf_size gk then
           (let excess = end - key_buf_size gk in do {
              a \<leftarrow> load_bytes kb offset_in_buf (buf_size - excess);
              b \<leftarrow> load_bytes kb 0 excess;
              Some (a @ b) })
         else load_bytes kb offset_in_buf buf_size)"

text \<open>
  The result holds the error code, the contents of \<open>buf\<close>, whether the thread is signalled and
  the new state.
\<close>

definition chiaki_gkcrypt_get_key_stream ::
  "crypto \<Rightarrow> gkcrypt \<Rightarrow> nat \<Rightarrow> bytes \<Rightarrow> (ChiakiErrorCode \<times> bytes \<times> bool \<times> gkcrypt) option" where
  "chiaki_gkcrypt_get_key_stream cr gk key_pos buf =
     (case key_buf gk of
        None \<Rightarrow> map_option (\<lambda>(err, buf). (err, buf, False, gk)) (chiaki_gkcrypt_gen_key_stream cr gk key_pos buf)
      | Some kb \<Rightarrow>
          (let end = u64_add key_pos (length buf);
               gk = (if end > last_key_pos gk then gk\<lparr>last_key_pos := end\<rparr> else gk);
               signal = gkcrypt_key_buf_should_generate gk
           in if key_pos < key_buf_key_pos_min gk \<or>
                 end \<ge> u64_add (key_buf_key_pos_min gk) (key_buf_populated gk)
              then map_option (\<lambda>(err, buf). (err, buf, signal, gk))
                     (chiaki_gkcrypt_gen_key_stream cr gk key_pos buf)
              else map_option (\<lambda>out. (CHIAKI_ERR_SUCCESS, out, signal, gk))
                     (key_buf_copy gk kb key_pos (length buf))))"

text \<open>\<open>alloc\<close>: whether \<open>malloc\<close> succeeds.\<close>

definition chiaki_gkcrypt_decrypt ::
  "crypto \<Rightarrow> bool \<Rightarrow> gkcrypt \<Rightarrow> nat \<Rightarrow> bytes \<Rightarrow> (ChiakiErrorCode \<times> bytes \<times> gkcrypt) option" where
  "chiaki_gkcrypt_decrypt cr alloc gk key_pos buf =
     (let padding_pre = key_pos mod CHIAKI_GKCRYPT_BLOCK_SIZE;
          full_size = ((padding_pre + length buf + CHIAKI_GKCRYPT_BLOCK_SIZE - 1)
                        div CHIAKI_GKCRYPT_BLOCK_SIZE) * CHIAKI_GKCRYPT_BLOCK_SIZE
      in if \<not> alloc then Some (CHIAKI_ERR_MEMORY, buf, gk)
         else do {
           (err, key_stream, signal, gk) \<leftarrow>
             chiaki_gkcrypt_get_key_stream cr gk (key_pos - padding_pre) (replicate full_size 0);
           if err \<noteq> CHIAKI_ERR_SUCCESS then Some (err, buf, gk)
           else do {
             buf \<leftarrow> xor_bytes buf (drop padding_pre key_stream) (length buf);
             Some (CHIAKI_ERR_SUCCESS, buf, gk) } })"

definition chiaki_gkcrypt_encrypt ::
  "crypto \<Rightarrow> bool \<Rightarrow> gkcrypt \<Rightarrow> nat \<Rightarrow> bytes \<Rightarrow> (ChiakiErrorCode \<times> bytes \<times> gkcrypt) option" where
  "chiaki_gkcrypt_encrypt cr alloc gk key_pos buf = chiaki_gkcrypt_decrypt cr alloc gk key_pos buf"

section \<open>Authentication\<close>

definition gmac_key_index :: "nat \<Rightarrow> nat" where
  "gmac_key_index key_pos = (if key_pos > 0 then key_pos - 1 else 0) div CHIAKI_GKCRYPT_GMAC_KEY_REFRESH_KEY_POS"

text \<open>The error code, the code computed (when there is one) and the new state.\<close>

definition chiaki_gkcrypt_gmac ::
  "crypto \<Rightarrow> gkcrypt \<Rightarrow> nat \<Rightarrow> bytes \<Rightarrow> (ChiakiErrorCode \<times> bytes option \<times> gkcrypt) option" where
  "chiaki_gkcrypt_gmac cr gk key_pos buf =
     (let iv = counter_add (gk_iv gk) (key_pos div 0x10);
          key_index = gmac_key_index key_pos
      in do {
        (gmac_key, gk) \<leftarrow>
          (if key_index > key_gmac_index_current gk then
             map_option (\<lambda>gk. (key_gmac_current gk, gk)) (chiaki_gkcrypt_gen_new_gmac_key cr gk key_index)
           else if key_index < key_gmac_index_current gk then
             map_option (\<lambda>k. (k, gk)) (chiaki_gkcrypt_gen_tmp_gmac_key cr gk key_index)
           else Some (key_gmac_current gk, gk));
        Some (if \<not> cr_ctx cr then (CHIAKI_ERR_MEMORY, None, gk)
              else case cr_gcm cr gmac_key iv buf of
                     None \<Rightarrow> (CHIAKI_ERR_UNKNOWN, None, gk)
                   | Some tag \<Rightarrow> (CHIAKI_ERR_SUCCESS, Some (take CHIAKI_GKCRYPT_GMAC_SIZE tag), gk)) })"

section \<open>The thread\<close>

definition key_buf_mutex_pred :: "gkcrypt \<Rightarrow> bool" where
  "key_buf_mutex_pred gk \<longleftrightarrow>
     key_buf_thread_stop gk \<or> key_buf_populated gk < key_buf_size gk \<or> gkcrypt_key_buf_should_generate gk"

text \<open>The chunk is chosen under the mutex, generated without it, and committed under it again.\<close>

definition next_chunk_begin :: "gkcrypt \<Rightarrow> (nat \<times> nat) option" where
  "next_chunk_begin gk =
     (if \<not> (key_buf_populated gk + KEY_BUF_CHUNK_SIZE \<le> key_buf_size gk) then None
      else Some (u64_add (key_buf_start_offset gk) (key_buf_populated gk) mod key_buf_size gk,
                 u64_add (key_buf_key_pos_min gk) (key_buf_populated gk)))"

definition next_chunk_store :: "nat \<Rightarrow> bytes \<Rightarrow> gkcrypt \<Rightarrow> gkcrypt option" where
  "next_chunk_store buf_offset chunk gk = do {
     kb \<leftarrow> key_buf gk;
     kb \<leftarrow> store_bytes kb buf_offset chunk;
     Some (gk\<lparr>key_buf := Some kb\<rparr>) }"

definition next_chunk_commit :: "ChiakiErrorCode \<Rightarrow> gkcrypt \<Rightarrow> gkcrypt" where
  "next_chunk_commit err gk =
     (if err = CHIAKI_ERR_SUCCESS then gk\<lparr>key_buf_populated := key_buf_populated gk + KEY_BUF_CHUNK_SIZE\<rparr> else gk)"

definition gkcrypt_generate_next_chunk :: "crypto \<Rightarrow> gkcrypt \<Rightarrow> (ChiakiErrorCode \<times> gkcrypt) option" where
  "gkcrypt_generate_next_chunk cr gk = do {
     (buf_offset, key_pos) \<leftarrow> next_chunk_begin gk;
     kb \<leftarrow> key_buf gk;
     buf \<leftarrow> load_bytes kb buf_offset KEY_BUF_CHUNK_SIZE;
     (err, chunk) \<leftarrow> chiaki_gkcrypt_gen_key_stream cr gk key_pos buf;
     gk \<leftarrow> next_chunk_store buf_offset chunk gk;
     Some (err, next_chunk_commit err gk) }"

text \<open>The loop body up to the call of \<open>gkcrypt_generate_next_chunk\<close>.\<close>

definition gkcrypt_thread_advance :: "gkcrypt \<Rightarrow> gkcrypt" where
  "gkcrypt_thread_advance gk =
     (if last_key_pos gk > u64_add (key_buf_key_pos_min gk) (key_buf_populated gk) then
        gk\<lparr>key_buf_key_pos_min := (last_key_pos gk div KEY_BUF_CHUNK_SIZE) * KEY_BUF_CHUNK_SIZE,
           key_buf_start_offset := 0, key_buf_populated := 0\<rparr>
      else if key_buf_populated gk = key_buf_size gk then
        gk\<lparr>key_buf_start_offset := (key_buf_start_offset gk + KEY_BUF_CHUNK_SIZE) mod key_buf_size gk,
           key_buf_key_pos_min := u64_add (key_buf_key_pos_min gk) KEY_BUF_CHUNK_SIZE,
           key_buf_populated := key_buf_populated gk - KEY_BUF_CHUNK_SIZE\<rparr>
      else gk)"

text \<open>
  One iteration after the wait returned \<open>err\<close>; the first component of the result tells whether
  the loop goes on.
\<close>

definition gkcrypt_thread_iteration :: "crypto \<Rightarrow> ChiakiErrorCode \<Rightarrow> gkcrypt \<Rightarrow> (bool \<times> gkcrypt) option" where
  "gkcrypt_thread_iteration cr err gk =
     (if key_buf_thread_stop gk \<or> err \<noteq> CHIAKI_ERR_SUCCESS then Some (False, gk)
      else do {
        (err, gk) \<leftarrow> gkcrypt_generate_next_chunk cr (gkcrypt_thread_advance gk);
        Some (err = CHIAKI_ERR_SUCCESS, gk) })"

section \<open>Key positions\<close>

record key_state =
  ks_prev :: u64

definition chiaki_key_state_init :: key_state where
  "chiaki_key_state_init = \<lparr>ks_prev = 0\<rparr>"

definition chiaki_key_state_request_pos :: "key_state \<Rightarrow> u32 \<Rightarrow> bool \<Rightarrow> u64 \<times> key_state" where
  "chiaki_key_state_request_pos state low commit =
     (let prev_low = ucast (ks_prev state) :: u32;
          high = ucast (drop_bit 32 (ks_prev state)) :: u32;
          high = (if chiaki_seq_num_32_gt low prev_low \<and> low < prev_low then high + 1
                  else if chiaki_seq_num_32_lt low prev_low \<and> low > prev_low \<and> high \<noteq> 0 then high - 1
                  else high);
          res = push_bit 32 (ucast high) OR ucast low
      in (res, if commit then state\<lparr>ks_prev := res\<rparr> else state))"

definition chiaki_key_state_commit :: "key_state \<Rightarrow> u64 \<Rightarrow> key_state" where
  "chiaki_key_state_commit state prev = state\<lparr>ks_prev := prev\<rparr>"


section \<open>Facts: key positions\<close>

lemma unat_join32: "unat (push_bit 32 (ucast hi) OR ucast lo :: u64) = unat hi * 2 ^ 32 + unat lo"
  for hi lo :: u32
proof -
  have "push_bit 32 (ucast hi) OR ucast lo = push_bit 32 (ucast hi) + (ucast lo :: u64)"
    by (rule disjunctive_add_eq_or [symmetric], rule bit_word_eqI) (auto simp: bit_simps dest: bit_imp_le_length)
  moreover have "unat (push_bit 32 (ucast hi) :: u64) = unat hi * 2 ^ 32"
  proof -
    have lt: "unat hi * 2 ^ 32 < 2 ^ 64" using unat_bound [of hi] by simp
    have "unat (push_bit 32 (ucast hi) :: u64) = (unat hi * 2 ^ 32) mod 2 ^ 64"
      by (simp add: push_bit_eq_mult unat_word_ariths)
    with lt show ?thesis by simp
  qed
  moreover have "unat hi * 2 ^ 32 + unat lo < 2 ^ 64"
    using unat_bound [of hi] unat_bound [of lo] by simp
  ultimately show ?thesis by (simp add: unat_word_ariths)
qed

lemma unat_high32: "unat (ucast (drop_bit 32 p) :: u32) = unat p div 2 ^ 32" for p :: u64
proof -
  have "unat p div 2 ^ 32 < 2 ^ 32" using unat_bound [of p] by simp
  then show ?thesis by (simp only: unat_ucast_mod unat_drop_bit) simp
qed

lemma unat_low32: "unat (ucast p :: u32) = unat p mod 2 ^ 32" for p :: u64
  by (simp add: unat_ucast_mod)

lemma seq_num_32_gt_wrap:
  "chiaki_seq_num_32_gt a b \<and> a < b \<longleftrightarrow> unat a + 2 ^ 31 < unat b"
  unfolding chiaki_seq_num_32_gt_def chiaki_seq_num_gt_def
  unfolding unat_less_shift by (auto simp: word_less_def Let_def)

lemma seq_num_32_lt_wrap:
  "chiaki_seq_num_32_lt a b \<and> a > b \<longleftrightarrow> unat b + 2 ^ 31 < unat a"
  unfolding chiaki_seq_num_32_lt_def chiaki_seq_num_lt_def
  unfolding unat_less_shift by (auto simp: word_less_def Let_def)

lemma key_state_request_nat:
  assumes near: "int (unat p) - int (unat (ks_prev state)) < 2 ^ 31"
    "int (unat (ks_prev state)) - int (unat p) < 2 ^ 31"
  shows "fst (chiaki_key_state_request_pos state (ucast p) commit) = p"
proof -
  define h l h' l' where "h = unat (ks_prev state) div 2 ^ 32" and "l = unat (ks_prev state) mod 2 ^ 32"
    and "h' = unat p div 2 ^ 32" and "l' = unat p mod 2 ^ 32"
  have eq: "unat (ks_prev state) = h * 2 ^ 32 + l" "unat p = h' * 2 ^ 32 + l'" "l < 2 ^ 32" "l' < 2 ^ 32"
    by (simp_all add: h_def l_def h'_def l'_def)
  have hb: "h < 2 ^ 32" "h' < 2 ^ 32"
    using unat_bound [of "ks_prev state"] unat_bound [of p] by (simp_all add: h_def h'_def)
  define high low where "high = (ucast (drop_bit 32 (ks_prev state)) :: u32)" and "low = (ucast p :: u32)"
  have u: "unat high = h" "unat low = l'" "unat (ucast (ks_prev state) :: u32) = l"
    unfolding high_def low_def h_def l_def l'_def by (rule unat_high32, rule unat_low32, rule unat_low32)
  have near': "h' * 2 ^ 32 + l' < h * 2 ^ 32 + l + 2 ^ 31" "h * 2 ^ 32 + l < h' * 2 ^ 32 + l' + 2 ^ 31"
    using near eq(1,2) by (simp_all add: algebra_simps)
  have up: "l' + 2 ^ 31 < l \<Longrightarrow> h' = h + 1" and down: "l + 2 ^ 31 < l' \<Longrightarrow> h = h' + 1"
    and same: "\<not> l' + 2 ^ 31 < l \<Longrightarrow> \<not> l + 2 ^ 31 < l' \<Longrightarrow> h' = h"
    using near' eq(3,4) by auto
  have "unat (if chiaki_seq_num_32_gt low (ucast (ks_prev state)) \<and> low < ucast (ks_prev state) then high + 1
     else if chiaki_seq_num_32_lt low (ucast (ks_prev state)) \<and> low > ucast (ks_prev state) \<and> high \<noteq> 0 then high - 1
     else high) = h'"
  proof (cases "l' + 2 ^ 31 < l")
    case True
    then have "unat (high + 1) = h'" using up hb u by (simp add: unat_word_ariths)
    then show ?thesis using True seq_num_32_gt_wrap [of low "ucast (ks_prev state)"] u by simp
  next
    case F: False
    show ?thesis
    proof (cases "l + 2 ^ 31 < l'")
      case True
      then have "h = h' + 1" by (rule down)
      then have nz: "high \<noteq> 0" using u by (intro notI) simp
      with \<open>h = h' + 1\<close> have "unat (high - 1) = h'" using u unat_minus_one [OF nz] by simp
      then show ?thesis
        using F True seq_num_32_gt_wrap [of low "ucast (ks_prev state)"]
          seq_num_32_lt_wrap [of low "ucast (ks_prev state)"] u nz by auto
    next
      case False
      then show ?thesis
        using F same seq_num_32_gt_wrap [of low "ucast (ks_prev state)"]
          seq_num_32_lt_wrap [of low "ucast (ks_prev state)"] u by auto
    qed
  qed
  then have "unat (fst (chiaki_key_state_request_pos state low commit)) = h' * 2 ^ 32 + l'"
    unfolding chiaki_key_state_request_pos_def Let_def fst_conv unat_join32 high_def [symmetric] u by simp
  then show ?thesis
    by (simp add: word_unat_eq_iff eq(2) low_def)
qed


lemma key_state_request_eq:
  assumes "int (unat p) - int (unat (ks_prev state)) < 2 ^ 31"
    and "int (unat (ks_prev state)) - int (unat p) < 2 ^ 31"
  shows "chiaki_key_state_request_pos state (ucast p) commit = (p, if commit then \<lparr>ks_prev = p\<rparr> else state)"
proof -
  have "fst (chiaki_key_state_request_pos state (ucast p) commit) = p"
    by (rule key_state_request_nat [OF assms])
  moreover have "snd (chiaki_key_state_request_pos state (ucast p) commit)
      = (if commit then \<lparr>ks_prev = fst (chiaki_key_state_request_pos state (ucast p) commit)\<rparr> else state)"
    by (cases state) (simp add: chiaki_key_state_request_pos_def Let_def)
  ultimately show ?thesis by (metis prod.collapse)
qed

section \<open>Facts: authentication keys\<close>

text \<open>The key of an index, without any state.\<close>

definition gmac_key_of :: "crypto \<Rightarrow> gkcrypt \<Rightarrow> nat \<Rightarrow> bytes" where
  "gmac_key_of cr gk index =
     (if index = 0 then key_gmac_base gk
      else the (chiaki_gkcrypt_gen_gmac_key cr index (key_gmac_base gk) (gk_iv gk)))"

definition sha256_ok :: "crypto \<Rightarrow> bool" where
  "sha256_ok cr \<longleftrightarrow> (\<forall>data. length (cr_sha256 cr data) = 32)"

definition gmac_inv :: "crypto \<Rightarrow> gkcrypt \<Rightarrow> bool" where
  "gmac_inv cr gk \<longleftrightarrow> key_gmac_current gk = gmac_key_of cr gk (key_gmac_index_current gk)"

lemma gen_gmac_key_defined:
  "sha256_ok cr \<Longrightarrow> \<exists>k. chiaki_gkcrypt_gen_gmac_key cr index key iv = Some k"
  by (simp add: sha256_ok_def chiaki_gkcrypt_gen_gmac_key_def Let_def xor_bytes_defined)

text \<open>The key that \<open>gmac\<close> uses is the key of the index of the position, whatever came before.\<close>

lemma gmac_result:
  assumes sha: "sha256_ok cr" and inv: "gmac_inv cr gk"
  shows "\<exists>gk'. chiaki_gkcrypt_gmac cr gk key_pos buf =
      Some (if \<not> cr_ctx cr then (CHIAKI_ERR_MEMORY, None, gk')
            else case cr_gcm cr (gmac_key_of cr gk (gmac_key_index key_pos)) (counter_add (gk_iv gk) (key_pos div 0x10)) buf of
                   None \<Rightarrow> (CHIAKI_ERR_UNKNOWN, None, gk')
                 | Some tag \<Rightarrow> (CHIAKI_ERR_SUCCESS, Some (take CHIAKI_GKCRYPT_GMAC_SIZE tag), gk')) \<and>
    gmac_inv cr gk' \<and> gk_iv gk' = gk_iv gk \<and> key_gmac_base gk' = key_gmac_base gk"
proof -
  let ?i = "gmac_key_index key_pos"
  obtain k where k: "chiaki_gkcrypt_gen_gmac_key cr ?i (key_gmac_base gk) (gk_iv gk) = Some k"
    using gen_gmac_key_defined [OF sha] by blast
  show ?thesis
    using inv k
    by (auto simp: chiaki_gkcrypt_gmac_def Let_def chiaki_gkcrypt_gen_new_gmac_key_def
        chiaki_gkcrypt_gen_tmp_gmac_key_def gmac_inv_def gmac_key_of_def)
qed

lemma gmac_key_of_cong:
  "gk_iv gk' = gk_iv gk \<Longrightarrow> key_gmac_base gk' = key_gmac_base gk \<Longrightarrow> gmac_key_of cr gk' i = gmac_key_of cr gk i"
  by (simp add: gmac_key_of_def)

text \<open>A sequence of authentications, as the packets of a connection arrive.\<close>

fun gmac_run :: "crypto \<Rightarrow> gkcrypt \<Rightarrow> (nat \<times> bytes) list \<Rightarrow> bytes option list option" where
  "gmac_run cr gk [] = Some []"
| "gmac_run cr gk ((key_pos, buf) # reqs) = do {
     (err, tag, gk) \<leftarrow> chiaki_gkcrypt_gmac cr gk key_pos buf;
     rest \<leftarrow> gmac_run cr gk reqs;
     Some (tag # rest) }"

section \<open>Properties\<close>

text \<open>
  C26. The key position of a packet is recovered from its low half. If the true position lies
  less than \<open>2^31\<close> bytes from the last committed one, in either direction and across the wrap
  of the low half, \<open>request_pos\<close> returns it; it remembers it exactly when told to commit.
\<close>

theorem key_state_recovers_position:
  assumes "int (unat p) - int (unat (ks_prev state)) < 2 ^ 31"
    and "int (unat (ks_prev state)) - int (unat p) < 2 ^ 31"
  shows "chiaki_key_state_request_pos state (ucast p) commit = (p, if commit then \<lparr>ks_prev = p\<rparr> else state)"
  by (rule key_state_request_eq [OF assms])

lemma key_state_recovers_position_witness:
  "chiaki_key_state_request_pos \<lparr>ks_prev = 0x1FFFFFFF0\<rparr> 0x10 True = (0x200000010, \<lparr>ks_prev = 0x200000010\<rparr>)"
proof -
  have "(ucast (0x200000010 :: u64) :: u32) = 0x10" by code_simp
  moreover have "chiaki_key_state_request_pos \<lparr>ks_prev = 0x1FFFFFFF0\<rparr> (ucast (0x200000010 :: u64)) True
      = (0x200000010, if True then \<lparr>ks_prev = 0x200000010\<rparr> else \<lparr>ks_prev = 0x1FFFFFFF0\<rparr>)"
    by (rule key_state_recovers_position) simp_all
  ultimately show ?thesis by (simp only: if_True)
qed

text \<open>
  C25. Authentication does not depend on the order of the packets. Over any sequence of calls
  starting from a state whose current key is the key of its current index, the code of
  each packet is the GCM tag under the key of its own index, which is a function of its key
  position only: the key cache and the temporary keys are invisible, and no assertion fails.
\<close>

theorem gkcrypt_gmac_order_independent:
  assumes "sha256_ok cr" "gmac_inv cr gk" "cr_ctx cr"
  shows "gmac_run cr gk reqs = Some (map (\<lambda>(key_pos, buf).
     map_option (take CHIAKI_GKCRYPT_GMAC_SIZE)
       (cr_gcm cr (gmac_key_of cr gk (gmac_key_index key_pos)) (counter_add (gk_iv gk) (key_pos div 0x10)) buf)) reqs)"
  using assms(2)
proof (induction reqs arbitrary: gk)
  case (Cons req reqs)
  obtain key_pos buf where req: "req = (key_pos, buf)" by (cases req)
  from gmac_result [OF assms(1) Cons.prems, of key_pos buf] obtain gk' where
    gk': "gmac_inv cr gk'" "gk_iv gk' = gk_iv gk" "key_gmac_base gk' = key_gmac_base gk"
    and r: "chiaki_gkcrypt_gmac cr gk key_pos buf = Some (
      case cr_gcm cr (gmac_key_of cr gk (gmac_key_index key_pos)) (counter_add (gk_iv gk) (key_pos div 0x10)) buf of
                   None \<Rightarrow> (CHIAKI_ERR_UNKNOWN, None, gk')
                 | Some tag \<Rightarrow> (CHIAKI_ERR_SUCCESS, Some (take CHIAKI_GKCRYPT_GMAC_SIZE tag), gk'))"
    using assms(3) by auto
  show ?case
    using Cons.IH [OF gk'(1)] gk'(2) gmac_key_of_cong [OF gk'(2,3), of cr]
    by (simp add: req r split: option.splits)
qed simp


text \<open>A concrete instance of the primitives (no cryptography), for runs.\<close>

definition example_crypto :: crypto where
  "example_crypto = \<lparr>cr_ctx = True, cr_hmac = \<lambda>key data. Some (replicate 32 (key ! 0)),
     cr_sha256 = \<lambda>data. take 32 (data @ replicate 32 0),
     cr_ecb = \<lambda>key data. Some (map (\<lambda>b. b XOR 0x5a) data),
     cr_gcm = \<lambda>key iv aad. Some aad\<rparr>"

definition example_gkcrypt :: gkcrypt where
  "example_gkcrypt = \<lparr>gk_index = 2, key_buf = None, key_buf_size = 0, key_buf_populated = 0,
     key_buf_key_pos_min = 0, key_buf_start_offset = 0, last_key_pos = 0, key_buf_thread_stop = False,
     gk_iv = replicate 16 0xff, key_base = replicate 16 1, key_gmac_base = replicate 16 2,
     key_gmac_current = replicate 16 2, key_gmac_index_current = 0\<rparr>"

lemma example_crypto_sha: "sha256_ok example_crypto"
  by (simp add: sha256_ok_def example_crypto_def min_def)

lemma gkcrypt_gmac_order_independent_witness:
  "gmac_run example_crypto example_gkcrypt [(100000, [1, 2, 3, 4, 5]), (7, [6, 7, 8, 9])] =
     Some [Some [1, 2, 3, 4], Some [6, 7, 8, 9]]"
proof -
  have "gmac_inv example_crypto example_gkcrypt" "cr_ctx example_crypto"
    by (simp_all add: gmac_inv_def gmac_key_of_def example_gkcrypt_def example_crypto_def)
  from gkcrypt_gmac_order_independent [OF example_crypto_sha this]
  have "gmac_run example_crypto example_gkcrypt [(100000, [1, 2, 3, 4, 5]), (7, [6, 7, 8, 9])] =
     Some (map (\<lambda>(key_pos, buf). Some (take CHIAKI_GKCRYPT_GMAC_SIZE buf)) [(100000 :: nat, [1, 2, 3, 4, 5]), (7, [6, 7, 8, 9])])"
    by (simp only: example_crypto_def crypto.simps option.map)
  then show ?thesis by (simp only: list.map prod.case) simp
qed

end
