(* ===== verification/GKCrypt_Stream.thy ===== *)
theory GKCrypt_Stream
  imports GKCrypt
begin

text \<open>
  The key stream of \<open>lib/src/gkcrypt.c\<close> against its specification. The specification is a
  function from positions to bytes (\<open>ks\<close>); the ring buffer, filled by a thread while other
  threads read, gives exactly its bytes. The interleaving of the thread with its clients is
  the step relation \<open>gk_step\<close>: the chunk is written while the mutex is not held, so every
  intermediate content of the region being written is a state of its own.
\<close>

section \<open>The specification\<close>

text \<open>What the code relies on of the cipher: ECB mode encrypts block by block.\<close>

definition ecb_ok :: "crypto \<Rightarrow> bool" where
  "ecb_ok cr \<longleftrightarrow>
     (\<forall>key. cr_ecb cr key [] = Some []) \<and>
     (\<forall>key b. length b = 16 \<longrightarrow> (\<exists>e. cr_ecb cr key b = Some e \<and> length e = 16)) \<and>
     (\<forall>key b d. length b = 16 \<longrightarrow>
        cr_ecb cr key (b @ d) = Option.bind (cr_ecb cr key b) (\<lambda>x. map_option ((@) x) (cr_ecb cr key d)))"

text \<open>The number that is added to the IV for block \<open>j\<close>: the \<open>int\<close> counter as \<open>uint64_t\<close>.\<close>

definition ctr_of :: "nat \<Rightarrow> nat" where
  "ctr_of j = nat (sint (of_nat j :: u32) mod 2 ^ 64)"

definition ks_block :: "crypto \<Rightarrow> gkcrypt \<Rightarrow> nat \<Rightarrow> bytes" where
  "ks_block cr gk j = the (cr_ecb cr (key_base gk) (counter_add (gk_iv gk) (ctr_of j)))"

definition ks :: "crypto \<Rightarrow> gkcrypt \<Rightarrow> nat \<Rightarrow> u8" where
  "ks cr gk p = ks_block cr gk (p div 16) ! (p mod 16)"

definition ks_range :: "crypto \<Rightarrow> gkcrypt \<Rightarrow> nat \<Rightarrow> nat \<Rightarrow> bytes" where
  "ks_range cr gk pos n = map (ks cr gk) [pos..<pos + n]"

lemma ks_cong:
  "key_base gk' = key_base gk \<Longrightarrow> gk_iv gk' = gk_iv gk \<Longrightarrow> ks cr gk' = ks cr gk"
  by (rule ext) (simp add: ks_def ks_block_def)

section \<open>Generation\<close>

lemma length_counter_add [simp]: "length (counter_add b v) = length b"
  by (induction b v rule: counter_add.induct) (simp_all add: Let_def)

lemma sint_of_nat_Suc:
  assumes "sint (of_nat b :: u32) \<noteq> 2 ^ 31 - 1"
  shows "sint (of_nat (Suc b) :: u32) = sint (of_nat b :: u32) + 1"
proof -
  have s: "sint (of_nat n :: u32) = signed_take_bit 31 (int n)" for n
    by (simp add: signed_of_nat)
  let ?k = "signed_take_bit 31 (int b)"
  have "- (2 ^ 31) \<le> ?k" "?k < 2 ^ 31" by (rule signed_take_bit_int_greater_eq_minus_exp, rule signed_take_bit_int_less_exp)
  then have "- (2 ^ 31) \<le> ?k + 1" "?k + 1 < 2 ^ 31" using assms s [of b] by simp_all
  then have "signed_take_bit 31 (?k + 1) = ?k + 1" by (rule signed_take_bit_int_eq_self)
  moreover have "signed_take_bit 31 (?k + signed_take_bit 31 1) = signed_take_bit 31 (int b + 1)"
    by (rule signed_take_bit_add)
  ultimately show ?thesis unfolding s by (simp add: add.commute)
qed

lemma key_stream_counters_spec:
  "key_stream_counters iv (sint (of_nat b :: u32)) n = Some cs \<Longrightarrow>
   cs = concat (map (\<lambda>j. counter_add iv (ctr_of j)) [b..<b + n])"
proof (induction n arbitrary: b cs)
  case (Suc n)
  then have ne: "sint (of_nat b :: u32) \<noteq> 2 ^ 31 - 1"
    by (auto simp: Let_def split: if_splits)
  with Suc.prems obtain rest where r: "key_stream_counters iv (sint (of_nat b :: u32) + 1) n = Some rest"
    "cs = counter_add iv (ctr_of b) @ rest"
    by (auto simp: Let_def ctr_of_def)
  then have "rest = concat (map (\<lambda>j. counter_add iv (ctr_of j)) [Suc b..<Suc b + n])"
    using Suc.IH [of "Suc b" rest] sint_of_nat_Suc [OF ne] by simp
  moreover have "[b..<b + Suc n] = b # [Suc b..<Suc b + n]" by (simp add: upt_conv_Cons)
  ultimately show ?case using r(2) by (simp del: upt_Suc)
qed simp

lemma key_stream_counters_defined:
  "b + n < 2 ^ 31 \<Longrightarrow> \<exists>cs. key_stream_counters iv (sint (of_nat b :: u32)) n = Some cs"
proof (induction n arbitrary: b)
  case (Suc n)
  have "sint (of_nat b :: u32) = int b"
  proof -
    have "signed_take_bit 31 (int b) = int b"
      using Suc.prems by (intro signed_take_bit_int_eq_self) simp_all
    then show ?thesis by (simp add: signed_of_nat)
  qed
  with Suc.prems have ne: "sint (of_nat b :: u32) \<noteq> 2 ^ 31 - 1" by simp
  then show ?case
    using Suc.IH [of "Suc b"] Suc.prems sint_of_nat_Suc [OF ne] by (auto simp: Let_def)
qed simp

lemma ks_block_ok: "ecb_ok cr \<Longrightarrow> length (gk_iv gk) = 16 \<Longrightarrow> length (ks_block cr gk j) = 16 \<and>
   cr_ecb cr (key_base gk) (counter_add (gk_iv gk) (ctr_of j)) = Some (ks_block cr gk j)"
proof -
  assume "ecb_ok cr" "length (gk_iv gk) = 16"
  then have "\<exists>e. cr_ecb cr (key_base gk) (counter_add (gk_iv gk) (ctr_of j)) = Some e \<and> length e = 16"
    by (simp add: ecb_ok_def)
  then show ?thesis by (auto simp: ks_block_def)
qed

lemma ecb_counters:
  assumes "ecb_ok cr" "length (gk_iv gk) = 16"
  shows "cr_ecb cr (key_base gk) (concat (map (\<lambda>j. counter_add (gk_iv gk) (ctr_of j)) js)) =
     Some (concat (map (ks_block cr gk) js))"
proof (induction js)
  case Nil
  then show ?case using assms(1) by (simp add: ecb_ok_def)
next
  case (Cons j js)
  have "length (counter_add (gk_iv gk) (ctr_of j)) = 16" using assms by simp
  then have "cr_ecb cr (key_base gk) (counter_add (gk_iv gk) (ctr_of j) @ d) =
      Option.bind (cr_ecb cr (key_base gk) (counter_add (gk_iv gk) (ctr_of j)))
        (\<lambda>x. map_option ((@) x) (cr_ecb cr (key_base gk) d))" for d
    using assms(1) unfolding ecb_ok_def by blast
  then show ?case using ks_block_ok [OF assms, of j] Cons by simp
qed

lemma ks_blocks_range:
  assumes "ecb_ok cr" "length (gk_iv gk) = 16"
  shows "concat (map (ks_block cr gk) [b..<b + n]) = ks_range cr gk (16 * b) (16 * n)"
proof (induction n)
  case 0
  then show ?case by (simp add: ks_range_def)
next
  case (Suc n)
  have "ks_block cr gk (b + n) = map (ks cr gk) [16 * (b + n)..<16 * (b + n) + 16]"
  proof (rule nth_equalityI)
    show "length (ks_block cr gk (b + n)) = length (map (ks cr gk) [16 * (b + n)..<16 * (b + n) + 16])"
      using ks_block_ok [OF assms] by simp
  next
    fix i assume "i < length (ks_block cr gk (b + n))"
    then have "i < 16" using ks_block_ok [OF assms] by simp
    then have "(16 * k + i) div 16 = k" "(16 * k + i) mod 16 = i" for k by simp_all
    moreover have "map (ks cr gk) [16 * (b + n)..<16 * (b + n) + 16] ! i = ks cr gk (16 * (b + n) + i)"
      using \<open>i < 16\<close> by (intro nth_map_upt) simp
    ultimately show "ks_block cr gk (b + n) ! i = map (ks cr gk) [16 * (b + n)..<16 * (b + n) + 16] ! i"
      by (simp only: ks_def)
  qed
  moreover have "[16 * b..<16 * b + 16 * Suc n] = [16 * b..<16 * b + 16 * n] @ [16 * (b + n)..<16 * (b + n) + 16]"
    using upt_add_eq_append [of "16 * b" "16 * b + 16 * n" 16] by (simp add: algebra_simps)
  moreover have "[b..<b + Suc n] = [b..<b + n] @ [b + n]" by simp
  ultimately show ?case using Suc unfolding ks_range_def by simp
qed

definition crypto_ok :: "crypto \<Rightarrow> gkcrypt \<Rightarrow> bool" where
  "crypto_ok cr gk \<longleftrightarrow> ecb_ok cr \<and> cr_ctx cr \<and> length (gk_iv gk) = 16"

lemma length_ks_range [simp]: "length (ks_range cr gk pos n) = n"
  by (simp add: ks_range_def)

lemma gen_key_stream_spec:
  assumes ok: "crypto_ok cr gk" and gen: "chiaki_gkcrypt_gen_key_stream cr gk pos buf = Some r"
  shows "r = (CHIAKI_ERR_SUCCESS, ks_range cr gk pos (length buf))"
proof -
  let ?b = "pos div 16" and ?n = "length buf div 16"
  from gen have al: "pos mod 16 = 0" "length buf mod 16 = 0"
    by (auto simp: chiaki_gkcrypt_gen_key_stream_def Let_def split: if_splits)
  then have eq: "16 * ?b = pos" "16 * ?n = length buf" by (simp_all add: mod_0_imp_dvd)
  from gen al ok obtain cs where cs: "key_stream_counters (gk_iv gk) (sint (of_nat ?b :: u32)) ?n = Some cs"
    by (auto simp: chiaki_gkcrypt_gen_key_stream_def Let_def crypto_ok_def split: Option.bind_splits)
  have "cr_ecb cr (key_base gk) cs = Some (ks_range cr gk pos (length buf))"
    using key_stream_counters_spec [OF cs] ecb_counters [of cr gk] ks_blocks_range [of cr gk ?b ?n] ok eq
    by (simp add: crypto_ok_def)
  with gen al cs ok show ?thesis
    by (simp add: chiaki_gkcrypt_gen_key_stream_def Let_def crypto_ok_def)
qed

lemma gen_key_stream_counters:
  assumes "pos mod 16 = 0" "length buf mod 16 = 0"
    "\<exists>cs. key_stream_counters (gk_iv gk) (sint (of_nat (pos div 16) :: u32)) (length buf div 16) = Some cs"
  shows "\<exists>r. chiaki_gkcrypt_gen_key_stream cr gk pos buf = Some r"
  using assms by (auto simp: chiaki_gkcrypt_gen_key_stream_def Let_def split: option.splits)

lemma gen_key_stream_defined:
  assumes "pos mod 16 = 0" "length buf mod 16 = 0" "pos + length buf < 2 ^ 35"
  shows "\<exists>r. chiaki_gkcrypt_gen_key_stream cr gk pos buf = Some r"
proof -
  have "pos div 16 + length buf div 16 = (pos + length buf) div 16"
    using assms(1,2) by (simp add: div_add mod_0_imp_dvd)
  also have "\<dots> < 2 ^ 31" using assms(3) by simp
  finally obtain cs where
    "key_stream_counters (gk_iv gk) (sint (of_nat (pos div 16) :: u32)) (length buf div 16) = Some cs"
    using key_stream_counters_defined by blast
  then show ?thesis
    using assms by (auto simp: chiaki_gkcrypt_gen_key_stream_def Let_def split: option.splits)
qed


section \<open>The ring\<close>

text \<open>All positions and sizes stay below this bound, so that no sum of the code wraps.\<close>

abbreviation "POS_BOUND \<equiv> 2 ^ 61 :: nat"

text \<open>The \<open>pop\<close> bytes from ring index \<open>start\<close> on are the bytes of the stream from \<open>mn\<close> on.\<close>

definition ring_window :: "(nat \<Rightarrow> u8) \<Rightarrow> bytes \<Rightarrow> nat \<Rightarrow> nat \<Rightarrow> nat \<Rightarrow> bool" where
  "ring_window f kb start mn pop \<longleftrightarrow> (\<forall>i < pop. kb ! ((start + i) mod length kb) = f (mn + i))"

lemma load_bytes_ring:
  assumes "o1 < length kb" "n \<le> length kb"
  shows "(if o1 + n > length kb
      then do { a \<leftarrow> load_bytes kb o1 (n - (o1 + n - length kb)); b \<leftarrow> load_bytes kb 0 (o1 + n - length kb); Some (a @ b) }
      else load_bytes kb o1 n) = Some (map (\<lambda>j. kb ! ((o1 + j) mod length kb)) [0..<n])"
proof (cases "o1 + n > length kb")
  case True
  then have "take (length kb - o1) (drop o1 kb) @ take (o1 + n - length kb) kb
      = map (\<lambda>j. kb ! ((o1 + j) mod length kb)) [0..<n]"
    using assms by (intro nth_equalityI) (auto simp: nth_append mod_if add.commute)
  then show ?thesis using True assms by (simp add: load_bytes_def)
next
  case False
  then have "take n (drop o1 kb) = map (\<lambda>j. kb ! ((o1 + j) mod length kb)) [0..<n]"
    using assms by (intro nth_equalityI) auto
  then show ?thesis using False by (simp add: load_bytes_def)
qed

lemma ring_window_read:
  assumes "ring_window f kb start mn pop" "0 < length kb" "mn \<le> pos" "pos + n \<le> mn + pop"
  shows "map (\<lambda>j. kb ! (((pos - mn + start) mod length kb + j) mod length kb)) [0..<n] = map f [pos..<pos + n]"
proof (rule nth_equalityI)
  fix i assume "i < length (map (\<lambda>j. kb ! (((pos - mn + start) mod length kb + j) mod length kb)) [0..<n])"
  then have i: "i < n" by simp
  obtain d where d: "pos = mn + d" using assms(3) by (auto simp: le_iff_add)
  have "((pos - mn + start) mod length kb + i) mod length kb = (pos - mn + start + i) mod length kb"
    by (rule mod_add_left_eq)
  also have "pos - mn + start + i = start + (pos - mn + i)" by simp
  finally have "kb ! (((pos - mn + start) mod length kb + i) mod length kb) = f (mn + (pos - mn + i))"
    using assms i unfolding d by (simp add: ring_window_def)
  then show "map (\<lambda>j. kb ! (((pos - mn + start) mod length kb + j) mod length kb)) [0..<n] ! i = map f [pos..<pos + n] ! i"
    using i assms(3) by simp
qed simp

text \<open>A store behind the window leaves it alone, and extends it when it stores the right bytes.\<close>

lemma mod_shift_inj:
  fixes s i j n :: nat
  assumes "(s + i) mod n = (s + j) mod n" "i < n" "j < n"
  shows "i = j"
proof -
  have le: "i \<le> j" if "(s + i) mod n = (s + j) mod n" "i < n" for i j
  proof (rule ccontr)
    assume "\<not> i \<le> j"
    then have "n dvd s + i - (s + j)"
      using that(1) by (subst mod_eq_dvd_iff_nat [symmetric]) simp_all
    then have "n dvd i - j" by simp
    moreover have "0 < i - j" "i - j < n" using \<open>\<not> i \<le> j\<close> that(2) by simp_all
    ultimately show False by (auto dest: nat_dvd_not_less)
  qed
  from le [OF assms(1,2)] le [OF assms(1) [symmetric] assms(3)] show ?thesis by simp
qed

lemma ring_window_store:
  assumes "ring_window f kb start mn pop" "store_bytes kb ((start + pop) mod length kb) chunk = Some kb'"
    "pop + length chunk \<le> length kb"
  shows "ring_window f kb' start mn pop"
    and "chunk = map f [mn + pop..<mn + pop + length chunk] \<Longrightarrow> ring_window f kb' start mn (pop + length chunk)"
proof -
  let ?o = "(start + pop) mod length kb"
  have len: "length kb' = length kb" by (rule length_store_bytes [OF assms(2)])
  have kb': "kb' = take ?o kb @ chunk @ drop (?o + length chunk) kb" and fit: "?o + length chunk \<le> length kb"
    using assms(2) by (auto simp: store_bytes_def split: if_splits)
  have new: "kb' ! (?o + j) = chunk ! j" if "j < length chunk" for j
    using that fit unfolding kb' by (simp add: nth_append)
  have old: "kb' ! k = kb ! k" if "k < ?o \<or> ?o + length chunk \<le> k" "k < length kb" for k
    using that fit unfolding kb' by (auto simp: nth_append)
  have pos: "(start + (pop + j)) mod length kb = ?o + j" if "j < length chunk" for j
  proof -
    have "(start + (pop + j)) mod length kb = (?o + j) mod length kb"
      by (simp add: mod_add_left_eq add.assoc)
    then show ?thesis using fit that by simp
  qed
  have apart: "(start + i) mod length kb < ?o \<or> ?o + length chunk \<le> (start + i) mod length kb" if "i < pop" for i
  proof (rule ccontr)
    assume "\<not> ?thesis"
    then obtain j where j: "(start + i) mod length kb = ?o + j" "j < length chunk"
      by (metis le_add_diff_inverse less_diff_conv2 not_le add.commute)
    then have "(start + i) mod length kb = (start + (pop + j)) mod length kb" using pos by simp
    then have "i = pop + j" by (rule mod_shift_inj) (use j that assms(3) in linarith)+
    then show False using that by simp
  qed
  have keep: "kb' ! ((start + i) mod length kb) = kb ! ((start + i) mod length kb)" if "i < pop" for i
    using apart [OF that] that assms(3) by (intro old) (auto intro: mod_less_divisor simp: less_le_trans)
  then show 1: "ring_window f kb' start mn pop"
    using assms(1) by (simp add: ring_window_def len)
  assume c: "chunk = map f [mn + pop..<mn + pop + length chunk]"
  show "ring_window f kb' start mn (pop + length chunk)"
    unfolding ring_window_def len
  proof (intro allI impI)
    fix i assume i: "i < pop + length chunk"
    show "kb' ! ((start + i) mod length kb) = f (mn + i)"
    proof (cases "i < pop")
      case True
      then show ?thesis using 1 by (simp add: ring_window_def len)
    next
      case False
      define j where "j = i - pop"
      have j: "i = pop + j" "j < length chunk" using False i by (simp_all add: j_def)
      then have "kb' ! ((start + i) mod length kb) = chunk ! j" using pos new by simp
      also have "\<dots> = f (mn + pop + j)" using j(2) by (subst c) simp
      finally show ?thesis by (simp add: j(1) add.assoc)
    qed
  qed
qed

lemma ring_window_advance:
  assumes "ring_window f kb start mn pop" "k \<le> pop"
  shows "ring_window f kb ((start + k) mod length kb) (mn + k) (pop - k)"
  unfolding ring_window_def
proof (intro allI impI)
  fix i assume "i < pop - k"
  then have "kb ! ((start + (k + i)) mod length kb) = f (mn + (k + i))"
    using assms by (simp add: ring_window_def)
  moreover have "((start + k) mod length kb + i) mod length kb = (start + (k + i)) mod length kb"
    by (simp add: mod_add_left_eq add.assoc)
  ultimately show "kb ! (((start + k) mod length kb + i) mod length kb) = f (mn + k + i)"
    by (simp add: add.assoc)
qed

lemma ring_window_empty: "ring_window f kb start mn 0"
  by (simp add: ring_window_def)


definition ring_inv :: "crypto \<Rightarrow> gkcrypt \<Rightarrow> bytes \<Rightarrow> bool" where
  "ring_inv cr gk kb \<longleftrightarrow>
     key_buf gk = Some kb \<and> length kb = key_buf_size gk \<and> 0 < key_buf_size gk \<and>
     KEY_BUF_CHUNK_SIZE dvd key_buf_size gk \<and>
     key_buf_populated gk \<le> key_buf_size gk \<and> KEY_BUF_CHUNK_SIZE dvd key_buf_populated gk \<and>
     key_buf_start_offset gk < key_buf_size gk \<and> KEY_BUF_CHUNK_SIZE dvd key_buf_start_offset gk \<and>
     KEY_BUF_CHUNK_SIZE dvd key_buf_key_pos_min gk \<and>
     ring_window (ks cr gk) kb (key_buf_start_offset gk) (key_buf_key_pos_min gk) (key_buf_populated gk) \<and>
     key_buf_size gk \<le> POS_BOUND \<and> last_key_pos gk \<le> POS_BOUND \<and>
     key_buf_key_pos_min gk \<le> last_key_pos gk + KEY_BUF_CHUNK_SIZE"

definition stream_inv :: "crypto \<Rightarrow> gkcrypt \<Rightarrow> bool" where
  "stream_inv cr gk \<longleftrightarrow> crypto_ok cr gk \<and> (key_buf gk = None \<or> (\<exists>kb. ring_inv cr gk kb))"

lemma ring_inv_request:
  "ring_inv cr gk kb \<Longrightarrow> last_key_pos gk \<le> p \<Longrightarrow> p \<le> POS_BOUND \<Longrightarrow> ring_inv cr (gk\<lparr>last_key_pos := p\<rparr>) kb"
  by (auto simp: ring_inv_def ks_cong [of "gk\<lparr>last_key_pos := p\<rparr>" gk])

lemma key_buf_copy_spec:
  assumes inv: "ring_inv cr gk kb" and pos: "key_buf_key_pos_min gk \<le> pos"
    "pos + n \<le> key_buf_key_pos_min gk + key_buf_populated gk"
  shows "key_buf_copy gk kb pos n = Some (ks_range cr gk pos n)"
proof -
  let ?o = "(pos - key_buf_key_pos_min gk + key_buf_start_offset gk) mod length kb"
  have l: "length kb = key_buf_size gk" "0 < length kb" "key_buf_size gk \<le> POS_BOUND"
    "key_buf_populated gk \<le> key_buf_size gk" "key_buf_start_offset gk < key_buf_size gk"
    using inv by (auto simp: ring_inv_def)
  have n: "n \<le> length kb" and o: "?o < length kb" using l pos by simp_all
  have b: "POS_BOUND + POS_BOUND < 2 ^ 64" by simp
  have "pos - key_buf_key_pos_min gk + key_buf_start_offset gk < 2 ^ 64"
    using l pos b by linarith
  moreover have "?o + n < 2 ^ 64" using l n o b by linarith
  ultimately have e: "u64_add (pos - key_buf_key_pos_min gk) (key_buf_start_offset gk) mod key_buf_size gk = ?o"
    "u64_add ?o n = ?o + n"
    by (simp_all add: u64_add_small l(1))
  have "ring_window (ks cr gk) kb (key_buf_start_offset gk) (key_buf_key_pos_min gk) (key_buf_populated gk)"
    using inv by (simp add: ring_inv_def)
  from ring_window_read [OF this l(2) pos] load_bytes_ring [OF o n]
  show ?thesis
    unfolding key_buf_copy_def Let_def ks_range_def e(1) unfolding e(2) unfolding l(1) [symmetric] by simp
qed

lemma get_key_stream_spec:
  assumes inv: "stream_inv cr gk" and b: "pos + length buf \<le> POS_BOUND"
    and get: "chiaki_gkcrypt_get_key_stream cr gk pos buf = Some (err, out, signal, gk')"
  shows "err = CHIAKI_ERR_SUCCESS \<and> out = ks_range cr gk pos (length buf) \<and>
    gk' = gk\<lparr>last_key_pos := last_key_pos gk'\<rparr> \<and>
    stream_inv cr gk' \<and> (\<forall>kb. ring_inv cr gk kb \<longrightarrow> ring_inv cr gk' kb)"
proof (cases "key_buf gk")
  case None
  with get inv gen_key_stream_spec [of cr gk pos buf] show ?thesis
    by (auto simp: chiaki_gkcrypt_get_key_stream_def stream_inv_def)
next
  case (Some kb)
  with inv have rinv: "ring_inv cr gk kb" and ok: "crypto_ok cr gk"
    by (auto simp: stream_inv_def ring_inv_def)
  have small: "u64_add pos (length buf) = pos + length buf"
    using b by (intro u64_add_small) simp
  have small2: "u64_add (key_buf_key_pos_min gk) (key_buf_populated gk) = key_buf_key_pos_min gk + key_buf_populated gk"
    using rinv by (intro u64_add_small) (auto simp: ring_inv_def)
  define gk1 where "gk1 = (if pos + length buf > last_key_pos gk then gk\<lparr>last_key_pos := pos + length buf\<rparr> else gk)"
  have rinv1: "ring_inv cr gk1 kb"
    using ring_inv_request [OF rinv, of "pos + length buf"] rinv b by (auto simp: gk1_def)
  have f: "key_base gk1 = key_base gk" "gk_iv gk1 = gk_iv gk" "key_buf_key_pos_min gk1 = key_buf_key_pos_min gk"
    "key_buf_populated gk1 = key_buf_populated gk" "gk1 = gk\<lparr>last_key_pos := last_key_pos gk1\<rparr>"
    by (simp_all add: gk1_def)
  have k: "ks_range cr gk1 = ks_range cr gk"
    using ks_cong [OF f(1,2), of cr] by (intro ext) (simp add: ks_range_def)
  have ok1: "crypto_ok cr gk1" using ok f by (simp add: crypto_ok_def)
  define sig where "sig = gkcrypt_key_buf_should_generate gk1"
  have eq: "chiaki_gkcrypt_get_key_stream cr gk pos buf =
     (if pos < key_buf_key_pos_min gk \<or> pos + length buf \<ge> key_buf_key_pos_min gk + key_buf_populated gk
      then map_option (\<lambda>(err, buf). (err, buf, sig, gk1)) (chiaki_gkcrypt_gen_key_stream cr gk1 pos buf)
      else map_option (\<lambda>out. (CHIAKI_ERR_SUCCESS, out, sig, gk1)) (key_buf_copy gk1 kb pos (length buf)))"
    unfolding chiaki_gkcrypt_get_key_stream_def Some option.case Let_def small gk1_def [symmetric]
      f(3,4) small2 sig_def by (rule refl)
  have g: "gk' = gk1 \<and> (err, out) = (CHIAKI_ERR_SUCCESS, ks_range cr gk1 pos (length buf))"
  proof (cases "pos < key_buf_key_pos_min gk \<or> pos + length buf \<ge> key_buf_key_pos_min gk + key_buf_populated gk")
    case True
    with get eq have "chiaki_gkcrypt_gen_key_stream cr gk1 pos buf = Some (err, out) \<and> gk' = gk1"
      by auto
    with gen_key_stream_spec [OF ok1] show ?thesis by blast
  next
    case False
    with get eq have "err = CHIAKI_ERR_SUCCESS" "key_buf_copy gk1 kb pos (length buf) = Some out" "gk' = gk1"
      by auto
    with key_buf_copy_spec [OF rinv1, of pos "length buf"] f False show ?thesis by auto
  qed
  have "stream_inv cr gk1" using rinv1 ok1 by (auto simp: stream_inv_def)
  moreover have "ring_inv cr gk1 kb'" if "ring_inv cr gk kb'" for kb'
  proof -
    have "kb' = kb" using that rinv by (simp add: ring_inv_def)
    with rinv1 show ?thesis by simp
  qed
  ultimately show ?thesis using g f k by auto
qed

lemma get_key_stream_defined:
  assumes "stream_inv cr gk" "pos mod 16 = 0" "length buf mod 16 = 0" "pos + length buf < 2 ^ 35"
  shows "\<exists>r. chiaki_gkcrypt_get_key_stream cr gk pos buf = Some r"
proof (cases "key_buf gk")
  case None
  then show ?thesis
    using gen_key_stream_defined [OF assms(2-4), of cr gk] by (auto simp: chiaki_gkcrypt_get_key_stream_def)
next
  case (Some kb)
  with assms(1) have rinv: "ring_inv cr gk kb" by (auto simp: stream_inv_def ring_inv_def)
  have small: "u64_add pos (length buf) = pos + length buf"
    using assms(4) by (intro u64_add_small) simp
  have small2: "u64_add (key_buf_key_pos_min gk) (key_buf_populated gk) = key_buf_key_pos_min gk + key_buf_populated gk"
    using rinv by (intro u64_add_small) (auto simp: ring_inv_def)
  have rinv1: "ring_inv cr (if pos + length buf > last_key_pos gk then gk\<lparr>last_key_pos := pos + length buf\<rparr> else gk) kb"
    using ring_inv_request [OF rinv, of "pos + length buf"] rinv assms(4) by auto
  have gen: "\<exists>r. chiaki_gkcrypt_gen_key_stream cr g pos buf = Some r" for g
    by (rule gen_key_stream_defined [OF assms(2-4)])
  show ?thesis
    using Some key_buf_copy_spec [OF rinv1, of pos "length buf"] gen
    unfolding chiaki_gkcrypt_get_key_stream_def by (auto simp: Let_def small small2)
qed


section \<open>The thread and its clients\<close>

datatype gk_pc =
    GK_Waiting
  | GK_Generating nat nat \<comment> \<open>ring offset and key position of the chunk\<close>
  | GK_Stopped

datatype gk_label =
    GK_Request nat nat ChiakiErrorCode bytes \<comment> \<open>position, size, error code and bytes returned\<close>
  | GK_Internal

text \<open>
  \<open>request\<close>: a call of \<open>get_key_stream\<close> by any thread, at any time. \<open>wake\<close>: the wait returns with
  its predicate true, the loop body runs up to the unlock. \<open>store\<close>: while the mutex is not
  held, the region of the chunk takes arbitrary contents. \<open>commit\<close>: the chunk is complete and
  \<open>populated\<close> is updated under the mutex. \<open>fini\<close> sets the stop flag.
\<close>

inductive gk_step :: "crypto \<Rightarrow> gkcrypt \<times> gk_pc \<Rightarrow> gk_label \<Rightarrow> gkcrypt \<times> gk_pc \<Rightarrow> bool" for cr where
  request: "chiaki_gkcrypt_get_key_stream cr gk pos buf = Some (err, out, signal, gk') \<Longrightarrow>
     gk_step cr (gk, pc) (GK_Request pos (length buf) err out) (gk', pc)"
| wake: "key_buf_mutex_pred gk \<Longrightarrow> \<not> key_buf_thread_stop gk \<Longrightarrow>
     next_chunk_begin (gkcrypt_thread_advance gk) = Some (off, pos) \<Longrightarrow>
     gk_step cr (gk, GK_Waiting) GK_Internal (gkcrypt_thread_advance gk, GK_Generating off pos)"
| store: "length chunk = KEY_BUF_CHUNK_SIZE \<Longrightarrow> next_chunk_store off chunk gk = Some gk' \<Longrightarrow>
     gk_step cr (gk, GK_Generating off pos) GK_Internal (gk', GK_Generating off pos)"
| commit: "chiaki_gkcrypt_gen_key_stream cr gk pos buf = Some (err, chunk) \<Longrightarrow>
     length buf = KEY_BUF_CHUNK_SIZE \<Longrightarrow> next_chunk_store off chunk gk = Some gk' \<Longrightarrow>
     gk_step cr (gk, GK_Generating off pos) GK_Internal
       (next_chunk_commit err gk', if err = CHIAKI_ERR_SUCCESS then GK_Waiting else GK_Stopped)"
| stop: "key_buf_thread_stop gk \<Longrightarrow> gk_step cr (gk, GK_Waiting) GK_Internal (gk, GK_Stopped)"
| fini: "gk_step cr (gk, pc) GK_Internal (chiaki_gkcrypt_fini gk, pc)"

inductive_cases gk_step_requestE: "gk_step cr s (GK_Request pos n err out) s'"
inductive_cases gk_step_internalE: "gk_step cr s GK_Internal s'"

inductive gk_exec :: "crypto \<Rightarrow> gkcrypt \<times> gk_pc \<Rightarrow> gk_label list \<Rightarrow> gkcrypt \<times> gk_pc \<Rightarrow> bool" for cr where
  nil: "gk_exec cr s [] s"
| cons: "gk_step cr s l s' \<Longrightarrow> gk_exec cr s' ls s'' \<Longrightarrow> gk_exec cr s (l # ls) s''"

definition gk_state_inv :: "crypto \<Rightarrow> gkcrypt \<times> gk_pc \<Rightarrow> bool" where
  "gk_state_inv cr s = (case s of (gk, pc) \<Rightarrow>
     crypto_ok cr gk \<and>
     (case pc of GK_Waiting \<Rightarrow> \<exists>kb. ring_inv cr gk kb
      | GK_Generating off pos \<Rightarrow> (\<exists>kb. ring_inv cr gk kb) \<and> next_chunk_begin gk = Some (off, pos)
      | GK_Stopped \<Rightarrow> stream_inv cr gk))"

lemma chunk_dvd_less:
  fixes a b :: nat
  assumes "KEY_BUF_CHUNK_SIZE dvd a" "KEY_BUF_CHUNK_SIZE dvd b" "a < b"
  shows "a + KEY_BUF_CHUNK_SIZE \<le> b"
proof -
  obtain k l where "a = KEY_BUF_CHUNK_SIZE * k" "b = KEY_BUF_CHUNK_SIZE * l" using assms by (auto elim!: dvdE)
  with assms(3) show ?thesis by simp
qed

text \<open>The state that the loop body has chosen a chunk for satisfies the invariant.\<close>

lemma thread_advance_inv:
  assumes inv: "ring_inv cr gk kb" and pred: "key_buf_mutex_pred gk" "\<not> key_buf_thread_stop gk"
  shows "ring_inv cr (gkcrypt_thread_advance gk) kb"
proof -
  have i: "key_buf gk = Some kb" "length kb = key_buf_size gk" "0 < key_buf_size gk"
     "KEY_BUF_CHUNK_SIZE dvd key_buf_size gk" "key_buf_populated gk \<le> key_buf_size gk"
     "KEY_BUF_CHUNK_SIZE dvd key_buf_populated gk" "key_buf_start_offset gk < key_buf_size gk"
     "KEY_BUF_CHUNK_SIZE dvd key_buf_start_offset gk" "KEY_BUF_CHUNK_SIZE dvd key_buf_key_pos_min gk"
     "ring_window (ks cr gk) kb (key_buf_start_offset gk) (key_buf_key_pos_min gk) (key_buf_populated gk)"
     "key_buf_size gk \<le> POS_BOUND" "last_key_pos gk \<le> POS_BOUND"
     "key_buf_key_pos_min gk \<le> last_key_pos gk + KEY_BUF_CHUNK_SIZE"
    using inv by (simp_all add: ring_inv_def)
  have sm: "u64_add (key_buf_key_pos_min gk) (key_buf_populated gk) = key_buf_key_pos_min gk + key_buf_populated gk"
    "u64_add (key_buf_key_pos_min gk) (key_buf_populated gk div 2) = key_buf_key_pos_min gk + key_buf_populated gk div 2"
    "u64_add (key_buf_key_pos_min gk) KEY_BUF_CHUNK_SIZE = key_buf_key_pos_min gk + KEY_BUF_CHUNK_SIZE"
    using i by (intro u64_add_small; simp)+
  let ?g = "gkcrypt_thread_advance gk"
  have k: "ks cr ?g = ks cr gk" by (rule ks_cong) (simp_all add: gkcrypt_thread_advance_def)
  consider "last_key_pos gk > key_buf_key_pos_min gk + key_buf_populated gk"
    | "\<not> last_key_pos gk > key_buf_key_pos_min gk + key_buf_populated gk" "key_buf_populated gk = key_buf_size gk"
    | "\<not> last_key_pos gk > key_buf_key_pos_min gk + key_buf_populated gk" "key_buf_populated gk \<noteq> key_buf_size gk"
    by blast
  then show ?thesis
  proof cases
    case 1
    have "last_key_pos gk div KEY_BUF_CHUNK_SIZE * KEY_BUF_CHUNK_SIZE \<le> last_key_pos gk" by (rule div_times_less_eq_dividend)
    then show ?thesis
      using i 1 unfolding ring_inv_def k by (simp add: gkcrypt_thread_advance_def sm ring_window_empty)
  next
    case 2
    have le: "KEY_BUF_CHUNK_SIZE \<le> key_buf_size gk" using i(3,4) by (auto intro: dvd_imp_le)
    have "key_buf_key_pos_min gk < last_key_pos gk"
      using pred 2 sm(2) unfolding key_buf_mutex_pred_def gkcrypt_key_buf_should_generate_def by simp
    moreover have "ring_window (ks cr gk) kb ((key_buf_start_offset gk + KEY_BUF_CHUNK_SIZE) mod length kb)
        (key_buf_key_pos_min gk + KEY_BUF_CHUNK_SIZE) (key_buf_populated gk - KEY_BUF_CHUNK_SIZE)"
      by (rule ring_window_advance [OF i(10)]) (use 2 le in simp)
    ultimately show ?thesis
      using i 2 le sm unfolding ring_inv_def k by (simp add: gkcrypt_thread_advance_def dvd_mod)
  next
    case 3
    then have "?g = gk" by (simp add: gkcrypt_thread_advance_def sm)
    with inv show ?thesis by simp
  qed
qed

lemma next_chunk_store_inv:
  assumes inv: "ring_inv cr gk kb" and b: "next_chunk_begin gk = Some (off, pos)"
    and len: "length chunk = KEY_BUF_CHUNK_SIZE" and st: "next_chunk_store off chunk gk = Some gk'"
  shows "(\<exists>kb'. ring_inv cr gk' kb') \<and> next_chunk_begin gk' = Some (off, pos) \<and>
     key_base gk' = key_base gk \<and> gk_iv gk' = gk_iv gk"
    and "chunk = ks_range cr gk pos KEY_BUF_CHUNK_SIZE \<Longrightarrow> \<exists>kb'. ring_inv cr (next_chunk_commit CHIAKI_ERR_SUCCESS gk') kb'"
proof -
  obtain kb' where kb': "store_bytes kb off chunk = Some kb'" "gk' = gk\<lparr>key_buf := Some kb'\<rparr>"
    using st inv by (auto simp: next_chunk_store_def ring_inv_def split: Option.bind_splits)
  have l: "length kb = key_buf_size gk" "length kb' = length kb"
    using inv length_store_bytes [OF kb'(1)] by (simp_all add: ring_inv_def)
  have fit: "key_buf_populated gk + KEY_BUF_CHUNK_SIZE \<le> key_buf_size gk"
    and o: "off = (key_buf_start_offset gk + key_buf_populated gk) mod length kb"
    and p: "pos = key_buf_key_pos_min gk + key_buf_populated gk"
    using b inv by (auto simp: next_chunk_begin_def ring_inv_def u64_add_small split: if_splits)
  have w: "ring_window (ks cr gk) kb (key_buf_start_offset gk) (key_buf_key_pos_min gk) (key_buf_populated gk)"
    using inv by (simp add: ring_inv_def)
  have k: "ks cr gk' = ks cr gk" by (rule ks_cong) (simp_all add: kb'(2))
  have k2: "ks cr (next_chunk_commit CHIAKI_ERR_SUCCESS gk') = ks cr gk"
    by (rule ks_cong) (simp_all add: kb'(2) next_chunk_commit_def)
  note st = ring_window_store [OF w kb'(1) [unfolded o]]
  have "ring_inv cr gk' kb'"
    using inv st(1) fit l len unfolding ring_inv_def k by (simp add: kb'(2))
  then show "(\<exists>kb'. ring_inv cr gk' kb') \<and> next_chunk_begin gk' = Some (off, pos) \<and>
     key_base gk' = key_base gk \<and> gk_iv gk' = gk_iv gk"
    using b fit by (auto simp: kb'(2) next_chunk_begin_def)
  assume c: "chunk = ks_range cr gk pos KEY_BUF_CHUNK_SIZE"
  have "ring_inv cr (next_chunk_commit CHIAKI_ERR_SUCCESS gk') kb'"
    using inv st(2) fit l len c unfolding ring_inv_def k2 ks_range_def p
    by (simp add: kb'(2) next_chunk_commit_def)
  then show "\<exists>kb'. ring_inv cr (next_chunk_commit CHIAKI_ERR_SUCCESS gk') kb'" ..
qed


lemma fini_inv:
  "ring_inv cr gk kb \<Longrightarrow> ring_inv cr (chiaki_gkcrypt_fini gk) kb"
  "stream_inv cr gk \<Longrightarrow> stream_inv cr (chiaki_gkcrypt_fini gk)"
  "crypto_ok cr gk \<Longrightarrow> crypto_ok cr (chiaki_gkcrypt_fini gk)"
  "next_chunk_begin (chiaki_gkcrypt_fini gk) = next_chunk_begin gk"
proof -
  have k: "ks cr (gk\<lparr>key_buf_thread_stop := True\<rparr>) = ks cr gk" for gk by (rule ks_cong) simp_all
  show r: "ring_inv cr gk kb \<Longrightarrow> ring_inv cr (chiaki_gkcrypt_fini gk) kb" for kb
    by (simp add: ring_inv_def chiaki_gkcrypt_fini_def k)
  show c: "crypto_ok cr gk \<Longrightarrow> crypto_ok cr (chiaki_gkcrypt_fini gk)"
    by (simp add: crypto_ok_def chiaki_gkcrypt_fini_def)
  show "stream_inv cr gk \<Longrightarrow> stream_inv cr (chiaki_gkcrypt_fini gk)"
    using r c by (auto simp: stream_inv_def chiaki_gkcrypt_fini_def)
  show "next_chunk_begin (chiaki_gkcrypt_fini gk) = next_chunk_begin gk"
    by (simp add: next_chunk_begin_def chiaki_gkcrypt_fini_def)
qed

definition label_ok :: "crypto \<Rightarrow> gkcrypt \<Rightarrow> gk_label \<Rightarrow> bool" where
  "label_ok cr gk l = (case l of
     GK_Request pos n err out \<Rightarrow> err = CHIAKI_ERR_SUCCESS \<and> out = ks_range cr gk pos n
   | GK_Internal \<Rightarrow> True)"

definition label_bounded :: "gk_label \<Rightarrow> bool" where
  "label_bounded l = (case l of GK_Request pos n err out \<Rightarrow> pos + n \<le> POS_BOUND | GK_Internal \<Rightarrow> True)"

lemma gk_state_inv_stream: "gk_state_inv cr (gk, pc) \<Longrightarrow> stream_inv cr gk"
  by (auto simp: gk_state_inv_def stream_inv_def split: gk_pc.splits)

lemma gk_step_inv:
  assumes "gk_step cr s l s'" "gk_state_inv cr s" "label_bounded l"
  shows "gk_state_inv cr s' \<and> label_ok cr (fst s) l \<and> key_base (fst s') = key_base (fst s) \<and> gk_iv (fst s') = gk_iv (fst s)"
  using assms
proof (induction rule: gk_step.induct)
  case (request gk pos buf err out signal gk' pc)
  have b: "pos + length buf \<le> POS_BOUND" using request.prems by (simp add: label_bounded_def)
  note sp = get_key_stream_spec [OF gk_state_inv_stream [OF request.prems(1)] b request.hyps]
  obtain p where p: "gk' = gk\<lparr>last_key_pos := p\<rparr>" using sp by blast
  have "next_chunk_begin gk' = next_chunk_begin gk" by (simp add: p next_chunk_begin_def)
  then show ?case
    using sp request.prems p by (auto simp: gk_state_inv_def label_ok_def crypto_ok_def split: gk_pc.splits)
next
  case (wake gk off pos)
  then obtain kb where "ring_inv cr gk kb" by (auto simp: gk_state_inv_def)
  from thread_advance_inv [OF this wake.hyps(1,2)] wake show ?case
    by (auto simp: gk_state_inv_def crypto_ok_def label_ok_def gkcrypt_thread_advance_def)
next
  case (store chunk off gk gk' pos)
  then obtain kb where "ring_inv cr gk kb" "next_chunk_begin gk = Some (off, pos)"
    by (auto simp: gk_state_inv_def)
  from next_chunk_store_inv(1) [OF this store.hyps] store.prems show ?case
    by (auto simp: gk_state_inv_def crypto_ok_def label_ok_def)
next
  case (commit gk pos buf err chunk off gk')
  then obtain kb where kb: "ring_inv cr gk kb" "next_chunk_begin gk = Some (off, pos)" and ok: "crypto_ok cr gk"
    by (auto simp: gk_state_inv_def)
  from gen_key_stream_spec [OF ok commit.hyps(1)] commit.hyps(2)
  have c: "err = CHIAKI_ERR_SUCCESS" "chunk = ks_range cr gk pos KEY_BUF_CHUNK_SIZE" by simp_all
  then have "length chunk = KEY_BUF_CHUNK_SIZE" by simp
  from next_chunk_store_inv [OF kb this commit.hyps(3)] c commit.prems show ?case
    by (auto simp: gk_state_inv_def crypto_ok_def label_ok_def next_chunk_commit_def)
next
  case (stop gk)
  then show ?case by (auto simp: gk_state_inv_def stream_inv_def label_ok_def)
next
  case (fini gk pc)
  have "gk_state_inv cr (chiaki_gkcrypt_fini gk, pc)"
    using fini.prems(1) fini_inv(1-3) [of cr gk] fini_inv(4) [of gk]
    unfolding gk_state_inv_def by (cases pc) (simp_all, blast+)
  then show ?case
    by (simp add: label_ok_def chiaki_gkcrypt_fini_def)
qed

lemma gk_exec_inv:
  "gk_exec cr s ls s' \<Longrightarrow> gk_state_inv cr s \<Longrightarrow> \<forall>l \<in> set ls. label_bounded l \<Longrightarrow>
   gk_state_inv cr s' \<and> (\<forall>l \<in> set ls. label_ok cr (fst s) l)"
proof (induction rule: gk_exec.induct)
  case (cons s l s' ls s'')
  from gk_step_inv [OF cons.hyps(1) cons.prems(1)] cons.prems(2)
  have 1: "gk_state_inv cr s'" "label_ok cr (fst s) l" "key_base (fst s') = key_base (fst s)" "gk_iv (fst s') = gk_iv (fst s)"
    by simp_all
  have "ks cr (fst s') = ks cr (fst s)" by (rule ks_cong) (rule 1)+
  then have "label_ok cr (fst s') = label_ok cr (fst s)"
    by (intro ext) (simp add: label_ok_def ks_range_def split: gk_label.splits)
  with cons.IH [OF 1(1)] cons.prems(2) 1(2) show ?case by simp
qed simp

lemma init_state_inv:
  assumes "chiaki_gkcrypt_init cr alloc m c t gk0 chunks idx hk secret = Some (CHIAKI_ERR_SUCCESS, gk, res)"
    and "ecb_ok cr" "cr_ctx cr" "chunks * KEY_BUF_CHUNK_SIZE \<le> POS_BOUND"
  shows "gk_state_inv cr (gk, if key_buf gk = None then GK_Stopped else GK_Waiting)"
proof -
  have bm: "chunks * KEY_BUF_CHUNK_SIZE mod 2 ^ 64 = chunks * KEY_BUF_CHUNK_SIZE"
    using assms(4) by simp
  have iv: "length (gk_iv gk) = 16"
    using assms(1)
    by (auto simp: chiaki_gkcrypt_init_def Let_def gkcrypt_gen_key_iv_def split: if_splits option.splits Option.bind_splits)
  have st: "key_buf gk = (if chunks = 0 then None else Some (replicate (chunks * KEY_BUF_CHUNK_SIZE) 0))"
    "key_buf_size gk = chunks * KEY_BUF_CHUNK_SIZE" "key_buf_populated gk = 0" "key_buf_key_pos_min gk = 0"
    "key_buf_start_offset gk = 0" "last_key_pos gk = 0"
    using assms(1) bm
    by (auto simp: chiaki_gkcrypt_init_def Let_def gkcrypt_gen_key_iv_def split: if_splits option.splits Option.bind_splits)
  have "ring_inv cr gk (replicate (chunks * KEY_BUF_CHUNK_SIZE) 0)" if "chunks \<noteq> 0"
    using that st assms(4) by (simp add: ring_inv_def ring_window_def)
  then show ?thesis
    using assms(2,3) iv st(1) by (auto simp: gk_state_inv_def crypto_ok_def stream_inv_def)
qed


text \<open>The sequential loop body is a wake-up followed by the commit.\<close>

lemma thread_iteration_steps:
  assumes "key_buf_mutex_pred gk" "gkcrypt_thread_iteration cr CHIAKI_ERR_SUCCESS gk = Some (True, gk')"
  shows "gk_exec cr (gk, GK_Waiting) [GK_Internal, GK_Internal] (gk', GK_Waiting)"
proof -
  let ?g = "gkcrypt_thread_advance gk"
  from assms(2) obtain off pos kb buf chunk gk1 where
    1: "\<not> key_buf_thread_stop gk" "next_chunk_begin ?g = Some (off, pos)"
    and 2: "key_buf ?g = Some kb" "load_bytes kb off KEY_BUF_CHUNK_SIZE = Some buf"
    and 3: "chiaki_gkcrypt_gen_key_stream cr ?g pos buf = Some (CHIAKI_ERR_SUCCESS, chunk)"
      "next_chunk_store off chunk ?g = Some gk1" "gk' = next_chunk_commit CHIAKI_ERR_SUCCESS gk1"
    by (auto simp: gkcrypt_thread_iteration_def gkcrypt_generate_next_chunk_def Let_def
        split: if_splits Option.bind_splits prod.splits)
  have l: "length buf = KEY_BUF_CHUNK_SIZE"
    using 2(2) by (auto simp: load_bytes_Some_iff)
  have "gk_step cr (gk, GK_Waiting) GK_Internal (?g, GK_Generating off pos)"
    by (rule gk_step.wake [OF assms(1) 1])
  moreover have "gk_step cr (?g, GK_Generating off pos) GK_Internal (gk', GK_Waiting)"
    using gk_step.commit [OF 3(1) l 3(2)] by (simp add: 3(3))
  ultimately show ?thesis by (auto intro: gk_exec.intros)
qed

section \<open>A source of key stream and its clients\<close>

text \<open>
  What encryption needs of a key stream: a request for an aligned range that returns, returns
  the bytes of a stream that only depends on the state and is not changed by requests.
\<close>

locale key_source =
  fixes request :: "'s \<Rightarrow> nat \<Rightarrow> nat \<Rightarrow> (bytes \<times> 's) option"
    and inv :: "'s \<Rightarrow> bool"
    and stream :: "'s \<Rightarrow> nat \<Rightarrow> u8"
    and ready :: "'s \<Rightarrow> nat \<Rightarrow> nat \<Rightarrow> bool"
  assumes request_ok: "inv s \<Longrightarrow> ready s pos n \<Longrightarrow>
      \<exists>s'. request s pos n = Some (map (stream s) [pos..<pos + n], s') \<and> inv s' \<and> stream s' = stream s"
begin

lemma request_twice:
  assumes "inv s" "ready s pos n" "request s pos n = Some (out, s1)" "inv t" "ready t pos n"
    "stream t = stream s"
  shows "\<exists>t1. request t pos n = Some (out, t1)"
  using request_ok [OF assms(1,2)] request_ok [OF assms(4,5)] assms(3,6) by auto

lemma request_slice:
  assumes "inv s" "ready s pos n" "request s pos n = Some (out, s1)" "k + m \<le> n"
  shows "take m (drop k out) = map (stream s) [pos + k..<pos + k + m]"
  using request_ok [OF assms(1,2)] assms(3,4) by (auto simp: take_map drop_map)

end

definition gk_request :: "crypto \<Rightarrow> gkcrypt \<Rightarrow> nat \<Rightarrow> nat \<Rightarrow> (bytes \<times> gkcrypt) option" where
  "gk_request cr gk pos n =
     map_option (\<lambda>(err, out, signal, gk'). (out, gk')) (chiaki_gkcrypt_get_key_stream cr gk pos (replicate n 0))"

definition gk_ready :: "gkcrypt \<Rightarrow> nat \<Rightarrow> nat \<Rightarrow> bool" where
  "gk_ready gk pos n \<longleftrightarrow> pos mod 16 = 0 \<and> n mod 16 = 0 \<and> pos + n < 2 ^ 35"

lemma get_key_stream_total:
  assumes inv: "stream_inv cr gk" and r: "gk_ready gk pos n"
  shows "\<exists>signal gk'. chiaki_gkcrypt_get_key_stream cr gk pos (replicate n 0)
      = Some (CHIAKI_ERR_SUCCESS, ks_range cr gk pos n, signal, gk') \<and> stream_inv cr gk' \<and> ks cr gk' = ks cr gk"
proof -
  obtain err out signal gk' where g: "chiaki_gkcrypt_get_key_stream cr gk pos (replicate n 0) = Some (err, out, signal, gk')"
    using get_key_stream_defined [OF inv, of pos "replicate n 0"] r by (auto simp: gk_ready_def)
  have b: "pos + length (replicate n (0 :: u8)) \<le> POS_BOUND" using r by (simp add: gk_ready_def)
  note sp = get_key_stream_spec [OF inv b g]
  then obtain p where p: "gk' = gk\<lparr>last_key_pos := p\<rparr>" by blast
  have "ks cr gk' = ks cr gk" by (rule ks_cong) (simp_all add: p)
  then show ?thesis using g sp by simp
qed

interpretation gks: key_source "gk_request cr" "stream_inv cr" "ks cr" gk_ready for cr
proof
  fix s pos n assume "stream_inv cr s" "gk_ready s pos n"
  from get_key_stream_total [OF this]
  show "\<exists>s'. gk_request cr s pos n = Some (map (ks cr s) [pos..<pos + n], s') \<and> stream_inv cr s' \<and> ks cr s' = ks cr s"
    by (auto simp: gk_request_def ks_range_def)
qed

text \<open>The region of the stream that a packet at \<open>key_pos\<close> is combined with.\<close>

lemma decrypt_spec:
  assumes inv: "stream_inv cr gk" and b: "key_pos + length buf + 16 < 2 ^ 35"
  shows "\<exists>gk'. chiaki_gkcrypt_decrypt cr True gk key_pos buf =
      Some (CHIAKI_ERR_SUCCESS, map2 (XOR) buf (ks_range cr gk key_pos (length buf)), gk') \<and>
    stream_inv cr gk' \<and> ks cr gk' = ks cr gk"
proof -
  define pad where "pad = key_pos mod 16"
  define full where "full = (pad + length buf + 16 - 1) div 16 * 16"
  have pad: "pad < 16" "key_pos - pad + pad = key_pos" "(key_pos - pad) mod 16 = 0"
    by (simp_all add: pad_def minus_mod_eq_mult_div)
  have "full + (pad + length buf + 16 - 1) mod 16 = pad + length buf + 16 - 1"
    unfolding full_def by (rule div_mult_mod_eq)
  moreover have "(pad + length buf + 16 - 1) mod 16 < 16" by simp
  moreover have "full mod 16 = 0" unfolding full_def by (rule mod_mult_self2_is_0)
  ultimately have full: "pad + length buf \<le> full" "full \<le> pad + length buf + 15" "full mod 16 = 0"
    by simp_all
  have r: "gk_ready gk (key_pos - pad) full"
    using pad full b by (simp add: gk_ready_def)
  obtain signal gk' where g: "chiaki_gkcrypt_get_key_stream cr gk (key_pos - pad) (replicate full 0)
      = Some (CHIAKI_ERR_SUCCESS, ks_range cr gk (key_pos - pad) full, signal, gk')" "stream_inv cr gk'" "ks cr gk' = ks cr gk"
    using get_key_stream_total [OF inv r] by blast
  have "gk_request cr gk (key_pos - pad) full = Some (ks_range cr gk (key_pos - pad) full, gk')"
    by (simp add: gk_request_def g(1))
  from gks.request_slice [OF inv r this full(1)]
  have t: "take (length buf) (drop pad (ks_range cr gk (key_pos - pad) full)) = ks_range cr gk key_pos (length buf)"
    by (simp add: ks_range_def pad(2))
  have "xor_bytes buf (drop pad (ks_range cr gk (key_pos - pad) full)) (length buf)
      = Some (map2 (XOR) buf (ks_range cr gk key_pos (length buf)))"
    using full(1) by (subst xor_bytes_defined) (simp_all add: t)
  then show ?thesis
    unfolding chiaki_gkcrypt_decrypt_def Let_def pad_def [symmetric] full_def [symmetric]
    using g by simp
qed


lemma xor_cancel: "length a = length k \<Longrightarrow> map2 (XOR) (map2 (XOR) a k) k = (a :: bytes)"
  by (induction a k rule: list_induct2) (simp_all add: xor.assoc)

section \<open>Properties\<close>

text \<open>
  C6. The buffered key stream is the generated one, under every interleaving. Start from a
  successful \<open>init\<close> with any number of chunks; let the thread advance, skip ahead, write its
  chunks byte by byte and commit them, and let any requests come in between: each request
  that returns has succeeded and its bytes are those of the key stream at its position, as
  if they had been generated directly.
\<close>

theorem gkcrypt_stream_interleaved:
  assumes "chiaki_gkcrypt_init cr alloc m c t gk0 chunks idx hk secret = Some (CHIAKI_ERR_SUCCESS, gk, res)"
    and "ecb_ok cr" "cr_ctx cr" "chunks * KEY_BUF_CHUNK_SIZE \<le> POS_BOUND"
    and "gk_exec cr (gk, if key_buf gk = None then GK_Stopped else GK_Waiting) ls s"
    and "\<forall>l \<in> set ls. label_bounded l"
    and "GK_Request pos n err out \<in> set ls"
  shows "err = CHIAKI_ERR_SUCCESS \<and> out = ks_range cr gk pos n"
  using gk_exec_inv [OF assms(5) init_state_inv [OF assms(1-4)] assms(6)] assms(7)
  by (fastforce simp: label_ok_def)

text \<open>
  C24. Round trip of a packet. A packet encrypted at a key position by one endpoint is decrypted
  to the original bytes by any endpoint with the same key and IV, whichever of them keeps a
  ring buffer and whatever the rings hold, for every alignment of position and length, up
  to the position \<open>2^35\<close> at which the signed block counter overflows.
\<close>

theorem gkcrypt_roundtrip:
  assumes "stream_inv cr gk" "stream_inv cr gk'"
    and "key_base gk' = key_base gk" "gk_iv gk' = gk_iv gk"
    and "key_pos + length buf + 16 < 2 ^ 35"
  shows "\<exists>c gk1 gk2. chiaki_gkcrypt_encrypt cr True gk key_pos buf = Some (CHIAKI_ERR_SUCCESS, c, gk1) \<and>
     length c = length buf \<and>
     chiaki_gkcrypt_decrypt cr True gk' key_pos c = Some (CHIAKI_ERR_SUCCESS, buf, gk2)"
proof -
  have k: "ks cr gk' = ks cr gk" by (rule ks_cong) (rule assms(3,4))+
  let ?c = "map2 (XOR) buf (ks_range cr gk key_pos (length buf))"
  obtain gk1 where 1: "chiaki_gkcrypt_decrypt cr True gk key_pos buf = Some (CHIAKI_ERR_SUCCESS, ?c, gk1)"
    using decrypt_spec [OF assms(1,5)] by blast
  have "key_pos + length ?c + 16 < 2 ^ 35" using assms(5) by simp
  from decrypt_spec [OF assms(2) this] obtain gk2 where
    "chiaki_gkcrypt_decrypt cr True gk' key_pos ?c
       = Some (CHIAKI_ERR_SUCCESS, map2 (XOR) ?c (ks_range cr gk' key_pos (length ?c)), gk2)" by blast
  moreover have "ks_range cr gk' key_pos (length ?c) = ks_range cr gk key_pos (length buf)"
    by (simp add: ks_range_def k)
  ultimately show ?thesis
    using 1 by (simp add: chiaki_gkcrypt_encrypt_def xor_cancel)
qed

lemma sint_of_nat_high:
  assumes "2 ^ 31 \<le> j" "j < 2 ^ 32"
  shows "sint (of_nat j :: u32) = int j - 2 ^ 32"
proof -
  have "signed_take_bit 31 (int j - 2 ^ 32) = int j - 2 ^ 32"
    using assms by (intro signed_take_bit_int_eq_self) simp_all
  moreover have "signed_take_bit 31 (signed_take_bit 31 (int j - 2 ^ 32) + signed_take_bit 31 (2 ^ 32))
      = signed_take_bit 31 (int j - 2 ^ 32 + 2 ^ 32)"
    by (rule signed_take_bit_add)
  ultimately show ?thesis by (simp add: signed_of_nat)
qed

lemma ctr_of_high: "2 ^ 31 \<le> j \<Longrightarrow> j < 2 ^ 32 \<Longrightarrow> ctr_of j = j + 2 ^ 64 - 2 ^ 32"
proof -
  assume j: "2 ^ 31 \<le> j" "j < 2 ^ 32"
  have "(int j - 2 ^ 32) mod 2 ^ 64 = (int j - 2 ^ 32 + 2 ^ 64) mod 2 ^ 64" by (rule mod_add_self2 [symmetric])
  also have "\<dots> = int j - 2 ^ 32 + 2 ^ 64" using j by (intro mod_pos_pos_trivial) simp_all
  finally show ?thesis unfolding ctr_of_def sint_of_nat_high [OF j] by simp
qed

text \<open>
  Beyond \<open>2^35\<close> the counter is not the block number: the conversion to \<open>int\<close> makes it
  negative and the conversion to \<open>uint64_t\<close> extends the sign, so that the block number
  \<open>2^31\<close>, at position \<open>2^35\<close>, is the encryption of the IV plus \<open>2^64 - 2^31\<close>; \<open>gmac\<close> adds the
  true block number to the IV.
\<close>

theorem gkcrypt_counter_sign_extended:
  assumes "crypto_ok cr gk"
  shows "chiaki_gkcrypt_gen_key_stream cr gk (2 ^ 35) (replicate 16 0)
     = Some (CHIAKI_ERR_SUCCESS, the (cr_ecb cr (key_base gk) (counter_add (gk_iv gk) (2 ^ 64 - 2 ^ 31))))"
proof -
  have s: "sint (of_nat (2 ^ 31) :: u32) = - (2 ^ 31)" using sint_of_nat_high [of "2 ^ 31"] by simp
  have "key_stream_counters (gk_iv gk) (sint (of_nat (2 ^ 31) :: u32)) (Suc 0) \<noteq> None"
    unfolding s key_stream_counters.simps Let_def by simp
  moreover have "(2 ^ 35) div 16 = (2 ^ 31 :: nat)" "length (replicate 16 (0 :: u8)) div 16 = Suc 0" by simp_all
  ultimately obtain r where r: "chiaki_gkcrypt_gen_key_stream cr gk (2 ^ 35) (replicate 16 0) = Some r"
    using gen_key_stream_counters [of "2 ^ 35" "replicate 16 0" gk cr] by auto
  have "ks_range cr gk (16 * 2 ^ 31) (16 * 1) = concat (map (ks_block cr gk) [2 ^ 31..<2 ^ 31 + 1])"
    by (rule ks_blocks_range [symmetric]) (use assms in \<open>simp_all add: crypto_ok_def\<close>)
  also have "\<dots> = ks_block cr gk (2 ^ 31)" by simp
  also have "\<dots> = the (cr_ecb cr (key_base gk) (counter_add (gk_iv gk) (2 ^ 64 - 2 ^ 31)))"
    by (simp add: ks_block_def ctr_of_high)
  finally show ?thesis
    using r gen_key_stream_spec [OF assms r] by simp
qed

lemma example_crypto_ok: "ecb_ok example_crypto" "cr_ctx example_crypto"
  by (simp_all add: example_crypto_def ecb_ok_def)

lemma gkcrypt_counter_sign_extended_witness:
  "chiaki_gkcrypt_gen_key_stream example_crypto example_gkcrypt (2 ^ 35) (replicate 16 0)
     = Some (CHIAKI_ERR_SUCCESS, map (\<lambda>b. b XOR 0x5a) (counter_add (replicate 16 0xff) (2 ^ 64 - 2 ^ 31)))"
proof -
  have "crypto_ok example_crypto example_gkcrypt"
    using example_crypto_ok by (simp add: crypto_ok_def example_gkcrypt_def)
  from gkcrypt_counter_sign_extended [OF this] show ?thesis
    by (simp only: example_crypto_def example_gkcrypt_def crypto.simps gkcrypt.simps option.sel)
qed

lemma gkcrypt_roundtrip_witness:
  "\<exists>c gk1 gk2. chiaki_gkcrypt_encrypt example_crypto True example_gkcrypt 21 [1, 2, 3] = Some (CHIAKI_ERR_SUCCESS, c, gk1) \<and>
     length c = 3 \<and>
     chiaki_gkcrypt_decrypt example_crypto True (example_gkcrypt\<lparr>gk_index := 3\<rparr>) 21 c = Some (CHIAKI_ERR_SUCCESS, [1, 2, 3], gk2)"
proof -
  have "stream_inv example_crypto example_gkcrypt" "stream_inv example_crypto (example_gkcrypt\<lparr>gk_index := 3\<rparr>)"
    using example_crypto_ok by (simp_all add: stream_inv_def crypto_ok_def example_gkcrypt_def)
  from gkcrypt_roundtrip [OF this, of 21 "[1, 2, 3]"] show ?thesis by (simp add: numeral_3_eq_3)
qed

lemma gkcrypt_stream_interleaved_witness:
  "\<exists>gk gk1. chiaki_gkcrypt_init example_crypto True CHIAKI_ERR_SUCCESS CHIAKI_ERR_SUCCESS CHIAKI_ERR_SUCCESS
       example_gkcrypt 0 2 (replicate 16 7) (replicate 32 9) = Some (CHIAKI_ERR_SUCCESS, gk, []) \<and>
     gk_exec example_crypto (gk, GK_Stopped) [GK_Request 32 16 CHIAKI_ERR_SUCCESS (ks_range example_crypto gk 32 16)] (gk1, GK_Stopped)"
proof -
  obtain gk where i: "chiaki_gkcrypt_init example_crypto True CHIAKI_ERR_SUCCESS CHIAKI_ERR_SUCCESS CHIAKI_ERR_SUCCESS
       example_gkcrypt 0 2 (replicate 16 7) (replicate 32 9) = Some (CHIAKI_ERR_SUCCESS, gk, [])"
    and n: "key_buf gk = None"
  proof -
    obtain k where k: "chiaki_gkcrypt_gen_gmac_key example_crypto 0 (replicate 16 9) (replicate 16 9) = Some k"
      using gen_gmac_key_defined [OF example_crypto_sha] by blast
    have "cr_hmac example_crypto key data = Some (replicate 32 (key ! 0))" for key data
      by (simp add: example_crypto_def)
    then show ?thesis
      using that by (simp add: chiaki_gkcrypt_init_def gkcrypt_gen_key_iv_def Let_def k)
  qed
  have inv: "stream_inv example_crypto gk"
    using gk_state_inv_stream init_state_inv [OF i example_crypto_ok] by simp
  have r: "gk_ready gk 32 16" by (simp add: gk_ready_def)
  obtain err out sig gk' where g: "chiaki_gkcrypt_get_key_stream example_crypto gk 32 (replicate 16 0) = Some (err, out, sig, gk')"
    using get_key_stream_total [OF inv r] by blast
  from gk_step.request [OF g, of GK_Stopped] have e: "gk_exec example_crypto (gk, GK_Stopped) [GK_Request 32 16 err out] (gk', GK_Stopped)"
    by (auto intro: gk_exec.intros)
  have "err = CHIAKI_ERR_SUCCESS \<and> out = ks_range example_crypto gk 32 16"
    by (rule gkcrypt_stream_interleaved [OF i example_crypto_ok, where ls = "[GK_Request 32 16 err out]" and s = "(gk', GK_Stopped)"])
      (use e n in \<open>simp_all add: label_bounded_def\<close>)
  with e i show ?thesis by auto
qed

end
