(* ===== verification/Base64.thy ===== *)
theory Base64
  imports Common
begin

text \<open>
  \<open>lib/src/base64.c\<close>. An output buffer is the list of the bytes written so far together with
  its capacity, since both routines write their output front to back. The decoder indexes its
  table with \<open>(size_t)(*in++)\<close>: where \<open>char\<close> is signed, a byte from \<open>0x80\<close> on is an index far
  outside the table, which is the undefined result \<open>None\<close>.
\<close>

section \<open>Encoding\<close>

definition base64chars :: bytes where
  "base64chars = map (of_nat \<circ> of_char)
     ''ABCDEFGHIJKLMNOPQRSTUVWXYZabcdefghijklmnopqrstuvwxyz0123456789+/''"

text \<open>One guarded write \<open>if(result_index >= out_size) return ...; out[result_index++] = c;\<close>\<close>

fun base64_put :: "nat \<Rightarrow> u8 \<Rightarrow> ChiakiErrorCode \<times> bytes \<Rightarrow> ChiakiErrorCode \<times> bytes" where
  "base64_put out_size c (err, out) =
     (if err \<noteq> CHIAKI_ERR_SUCCESS then (err, out)
      else if length out \<ge> out_size then (CHIAKI_ERR_BUF_TOO_SMALL, out)
      else (err, out @ [c]))"

definition base64_digit :: "u32 \<Rightarrow> nat \<Rightarrow> u8" where
  "base64_digit n s = base64chars ! unat ((ucast (drop_bit s n) :: u8) AND 63)"

text \<open>The loop over \<open>x\<close>, whose guards test how many bytes are left from \<open>x\<close> on.\<close>

fun base64_encode_loop :: "nat \<Rightarrow> bytes \<Rightarrow> ChiakiErrorCode \<times> bytes \<Rightarrow> ChiakiErrorCode \<times> bytes" where
  "base64_encode_loop out_size [] st = st"
| "base64_encode_loop out_size [a] st =
     (let n = push_bit 16 (ucast a)
      in base64_put out_size (base64_digit n 12) (base64_put out_size (base64_digit n 18) st))"
| "base64_encode_loop out_size [a, b] st =
     (let n = push_bit 16 (ucast a) + push_bit 8 (ucast b)
      in base64_put out_size (base64_digit n 6)
          (base64_put out_size (base64_digit n 12) (base64_put out_size (base64_digit n 18) st)))"
| "base64_encode_loop out_size (a # b # c # rest) st =
     (let n = push_bit 16 (ucast a) + push_bit 8 (ucast b) + ucast c
      in base64_encode_loop out_size rest
          (base64_put out_size (base64_digit n 0) (base64_put out_size (base64_digit n 6)
            (base64_put out_size (base64_digit n 12) (base64_put out_size (base64_digit n 18) st)))))"

definition chiaki_base64_encode :: "bytes \<Rightarrow> nat \<Rightarrow> ChiakiErrorCode \<times> bytes" where
  "chiaki_base64_encode inp out_size =
     (let pad_count = length inp mod 3;
          st = base64_encode_loop out_size inp (CHIAKI_ERR_SUCCESS, []);
          st = (base64_put out_size 0x3d ^^ (if pad_count > 0 then 3 - pad_count else 0)) st
      in base64_put out_size 0 st)"

section \<open>Decoding\<close>

definition base64_d :: "nat list" where
  "base64_d = [
    66, 66, 66, 66, 66, 66, 66, 66, 66, 66, 64, 66, 66, 66, 66, 66, 66, 66, 66, 66, 66, 66, 66, 66, 66,
    66, 66, 66, 66, 66, 66, 66, 66, 66, 66, 66, 66, 66, 66, 66, 66, 66, 66, 62, 66, 66, 66, 63, 52, 53,
    54, 55, 56, 57, 58, 59, 60, 61, 66, 66, 66, 65, 66, 66, 66, 0, 1, 2, 3, 4, 5, 6, 7, 8, 9,
    10, 11, 12, 13, 14, 15, 16, 17, 18, 19, 20, 21, 22, 23, 24, 25, 66, 66, 66, 66, 66, 66, 26, 27, 28,
    29, 30, 31, 32, 33, 34, 35, 36, 37, 38, 39, 40, 41, 42, 43, 44, 45, 46, 47, 48, 49, 50, 51, 66, 66,
    66, 66, 66, 66, 66, 66, 66, 66, 66, 66, 66, 66, 66, 66, 66, 66, 66, 66, 66, 66, 66, 66, 66, 66, 66,
    66, 66, 66, 66, 66, 66, 66, 66, 66, 66, 66, 66, 66, 66, 66, 66, 66, 66, 66, 66, 66, 66, 66, 66, 66,
    66, 66, 66, 66, 66, 66, 66, 66, 66, 66, 66, 66, 66, 66, 66, 66, 66, 66, 66, 66, 66, 66, 66, 66, 66,
    66, 66, 66, 66, 66, 66, 66, 66, 66, 66, 66, 66, 66, 66, 66, 66, 66, 66, 66, 66, 66, 66, 66, 66, 66,
    66, 66, 66, 66, 66, 66, 66, 66, 66, 66, 66, 66, 66, 66, 66, 66, 66, 66, 66, 66, 66, 66, 66, 66, 66,
    66, 66, 66, 66, 66, 66]"

text \<open>The state of the loop: \<open>iter\<close>, \<open>buf\<close> and the bytes written; \<open>len\<close> is their number.\<close>

fun base64_decode_loop ::
  "nat \<Rightarrow> bytes \<Rightarrow> nat \<Rightarrow> u32 \<Rightarrow> bytes \<Rightarrow> (ChiakiErrorCode \<times> nat \<times> u32 \<times> bytes) option" where
  "base64_decode_loop out_size [] iter buf out = Some (CHIAKI_ERR_SUCCESS, iter, buf, out)"
| "base64_decode_loop out_size (ch # rest) iter buf out =
     (if ch \<ge> 0x80 then None
      else let c = base64_d ! unat ch in
        if c = 64 then base64_decode_loop out_size rest iter buf out
        else if c = 66 then Some (CHIAKI_ERR_INVALID_DATA, iter, buf, out)
        else if c = 65 then Some (CHIAKI_ERR_SUCCESS, iter, buf, out)
        else let buf = push_bit 6 buf OR of_nat c; iter = iter + 1 in
          if iter = 4 then
            (if length out + 3 > out_size then Some (CHIAKI_ERR_BUF_TOO_SMALL, iter, buf, out)
             else base64_decode_loop out_size rest 0 0
               (out @ [ucast (drop_bit 16 buf AND 0xff), ucast (drop_bit 8 buf AND 0xff), ucast (buf AND 0xff)]))
          else base64_decode_loop out_size rest iter buf out)"

fun base64_decode_end ::
  "nat \<Rightarrow> ChiakiErrorCode \<times> nat \<times> u32 \<times> bytes \<Rightarrow> (ChiakiErrorCode \<times> bytes \<times> nat) option" where
  "base64_decode_end out_size (err, iter, buf, out) =
     (if err \<noteq> CHIAKI_ERR_SUCCESS then Some (err, out, out_size)
      else if iter = 3 then
        (if length out + 2 > out_size then Some (CHIAKI_ERR_BUF_TOO_SMALL, out, out_size)
         else let out = out @ [ucast (drop_bit 10 buf AND 0xff), ucast (drop_bit 2 buf AND 0xff)]
              in Some (CHIAKI_ERR_SUCCESS, out, length out))
      else if iter = 2 then
        (if length out + 1 > out_size then Some (CHIAKI_ERR_BUF_TOO_SMALL, out, out_size)
         else let out = out @ [ucast (drop_bit 4 buf AND 0xff)]
              in Some (CHIAKI_ERR_SUCCESS, out, length out))
      else Some (CHIAKI_ERR_SUCCESS, out, length out))"

text \<open>The result is the error code, the bytes written to \<open>out\<close> and the final \<open>*out_size\<close>.\<close>

definition chiaki_base64_decode :: "bytes \<Rightarrow> nat \<Rightarrow> (ChiakiErrorCode \<times> bytes \<times> nat) option" where
  "chiaki_base64_decode inp out_size =
     Option.bind (base64_decode_loop out_size inp 0 0 []) (base64_decode_end out_size)"

section \<open>The encoder writes one text\<close>

text \<open>The digits and the padding, without the buffer.\<close>

fun base64_digits :: "bytes \<Rightarrow> bytes" where
  "base64_digits [] = []"
| "base64_digits [a] = (let n = push_bit 16 (ucast a) in [base64_digit n 18, base64_digit n 12])"
| "base64_digits [a, b] =
     (let n = push_bit 16 (ucast a) + push_bit 8 (ucast b)
      in [base64_digit n 18, base64_digit n 12, base64_digit n 6])"
| "base64_digits (a # b # c # rest) =
     (let n = push_bit 16 (ucast a) + push_bit 8 (ucast b) + ucast c
      in [base64_digit n 18, base64_digit n 12, base64_digit n 6, base64_digit n 0]
         @ base64_digits rest)"

definition base64_text :: "bytes \<Rightarrow> bytes" where
  "base64_text inp = base64_digits inp @ replicate ((3 - length inp mod 3) mod 3) 0x3d"

lemma base64_loop_fold: "base64_encode_loop n inp st = fold (base64_put n) (base64_digits inp) st"
  by (induction n inp st rule: base64_encode_loop.induct) (simp_all add: Let_def)

lemma funpow_put_fold: "(base64_put n c ^^ k) st = fold (base64_put n) (replicate k c) st"
  by (induction k arbitrary: st) (simp_all add: funpow_swap1)

lemma base64_encode_fold:
  "chiaki_base64_encode inp n = fold (base64_put n) (base64_text inp @ [0]) (CHIAKI_ERR_SUCCESS, [])"
proof -
  have e: "(3 - k mod 3) mod 3 = (if k mod 3 > 0 then 3 - k mod 3 else 0)" for k :: nat
    by simp
  show ?thesis
    unfolding chiaki_base64_encode_def base64_text_def base64_loop_fold funpow_put_fold Let_def e
      fold_append fold_simps comp_apply by (rule refl)
qed

lemma fold_put_error: "err \<noteq> CHIAKI_ERR_SUCCESS \<Longrightarrow> fold (base64_put n) cs (err, out) = (err, out)"
  by (induction cs) simp_all

lemma fold_put:
  "length out \<le> n \<Longrightarrow> fold (base64_put n) cs (CHIAKI_ERR_SUCCESS, out) =
     (if length out + length cs \<le> n then (CHIAKI_ERR_SUCCESS, out @ cs)
      else (CHIAKI_ERR_BUF_TOO_SMALL, take n (out @ cs)))"
proof (induction cs arbitrary: out)
  case (Cons c cs)
  then show ?case
    by (cases "length out = n") (simp_all add: fold_put_error)
qed simp

lemma base64_encode_result:
  "chiaki_base64_encode inp n =
     (if length (base64_text inp) < n then (CHIAKI_ERR_SUCCESS, base64_text inp @ [0])
      else (CHIAKI_ERR_BUF_TOO_SMALL, take n (base64_text inp @ [0])))"
  unfolding base64_encode_fold by (subst fold_put) auto

lemma length_base64_text: "length (base64_text inp) = 4 * ((length inp + 2) div 3)"
  unfolding base64_text_def
proof (induction inp rule: base64_digits.induct)
  case (4 a b c rest)
  have "(length rest + 5) div 3 = Suc ((length rest + 2) div 3)" by presburger
  with 4 show ?case by (simp add: Let_def add.commute)
qed (simp_all add: Let_def)

section \<open>The decoder reads it back\<close>

lemma length_base64chars: "length base64chars = 64"
  by (simp add: base64chars_def)

lemma base64chars_ascii:
  "base64chars = [65, 66, 67, 68, 69, 70, 71, 72, 73, 74, 75, 76, 77, 78, 79, 80, 81, 82, 83, 84, 85, 86,
     87, 88, 89, 90, 97, 98, 99, 100, 101, 102, 103, 104, 105, 106, 107, 108, 109, 110, 111, 112, 113, 114,
     115, 116, 117, 118, 119, 120, 121, 122, 48, 49, 50, 51, 52, 53, 54, 55, 56, 57, 43, 47]"
  by (simp add: base64chars_def)

lemma base64_table_all:
  "list_all2 (\<lambda>c i. c < 0x80 \<and> base64_d ! unat c = i) base64chars [0..<64]"
  by (simp add: base64chars_ascii base64_d_def upt_rec)

lemma base64_table: "i < 64 \<Longrightarrow> base64chars ! i < 0x80 \<and> base64_d ! unat (base64chars ! i) = i"
  using list_all2_nthD2 [OF base64_table_all, of i] by simp

lemma base64_table_digit:
  "base64_digit n s < 0x80 \<and> base64_d ! unat (base64_digit n s) = unat (drop_bit s n AND 63)"
proof -
  have m: "(63::u8) = 2 ^ 6 - 1" "(63::u32) = 2 ^ 6 - 1" by simp_all
  have e: "unat ((ucast (drop_bit s n) :: u8) AND 63) = unat (drop_bit s n AND 63)"
    unfolding m unat_and_mask by (simp add: unat_ucast_mod mod_mod_cancel)
  have "unat (drop_bit s n AND 63) < 64"
    unfolding m unat_and_mask by simp
  then show ?thesis
    using base64_table unfolding base64_digit_def e by blast
qed

lemma base64_decode_digit:
  "base64_decode_loop m (base64_digit n s # rest) iter buf out =
     (let buf = push_bit 6 buf OR (drop_bit s n AND 63); iter = iter + 1 in
      if iter = 4 then
        (if length out + 3 > m then Some (CHIAKI_ERR_BUF_TOO_SMALL, iter, buf, out)
         else base64_decode_loop m rest 0 0
           (out @ [ucast (drop_bit 16 buf AND 0xff), ucast (drop_bit 8 buf AND 0xff), ucast (buf AND 0xff)]))
      else base64_decode_loop m rest iter buf out)"
proof -
  have m: "(63::u32) = 2 ^ 6 - 1" by simp
  have "unat (drop_bit s n AND 63) < 64"
    unfolding m unat_and_mask by simp
  then show ?thesis
    using base64_table_digit [of n s] by (auto simp: Let_def not_le)
qed

lemma base64_sum3:
  "push_bit 16 (ucast (a::u8)) + push_bit 8 (ucast (b::u8)) + ucast (c::u8) =
     (push_bit 16 (ucast a) OR (push_bit 8 (ucast b) OR ucast c) :: u32)"
proof -
  have "(push_bit 16 (ucast a) :: u32) + push_bit 8 (ucast b) = push_bit 16 (ucast a) OR push_bit 8 (ucast b)"
    by (rule disjunctive_add_eq_or, rule bit_word_eqI) (auto simp: bit_simps u8_bit_beyond)
  moreover have "(push_bit 16 (ucast a) OR push_bit 8 (ucast b) :: u32) + ucast c
      = (push_bit 16 (ucast a) OR push_bit 8 (ucast b)) OR ucast c"
    by (rule disjunctive_add_eq_or, rule bit_word_eqI) (auto simp: bit_simps u8_bit_beyond)
  ultimately show ?thesis by (simp add: or.assoc)
qed

lemma base64_sum2:
  "push_bit 16 (ucast (a::u8)) + push_bit 8 (ucast (b::u8)) =
     (push_bit 16 (ucast a) OR push_bit 8 (ucast b) :: u32)"
  using base64_sum3 [of a b 0] by simp

lemma base64_decode_digit_lt3:
  "base64_decode_loop m (base64_digit n s # rest) 0 buf out =
     base64_decode_loop m rest 1 (push_bit 6 buf OR (drop_bit s n AND 63)) out"
  "base64_decode_loop m (base64_digit n s # rest) 1 buf out =
     base64_decode_loop m rest 2 (push_bit 6 buf OR (drop_bit s n AND 63)) out"
  "base64_decode_loop m (base64_digit n s # rest) 2 buf out =
     base64_decode_loop m rest 3 (push_bit 6 buf OR (drop_bit s n AND 63)) out"
  unfolding base64_decode_digit Let_def by (simp_all add: numeral_2_eq_2 numeral_3_eq_3)

lemma base64_decode_digit_3:
  assumes "length out + 3 \<le> m" and "buf' = push_bit 6 buf OR (drop_bit s n AND 63)"
  shows "base64_decode_loop m (base64_digit n s # rest) 3 buf out =
     base64_decode_loop m rest 0 0
       (out @ [ucast (drop_bit 16 buf' AND 0xff), ucast (drop_bit 8 buf' AND 0xff), ucast (buf' AND 0xff)])"
  using assms unfolding base64_decode_digit Let_def by simp

lemma base64_decode_pad:
  "base64_decode_loop m (0x3d # rest) iter buf out = Some (CHIAKI_ERR_SUCCESS, iter, buf, out)"
  by (simp add: base64_d_def)

lemmas base64_decode_step = base64_decode_digit_lt3 base64_decode_pad

lemma base64_mask: "(63 :: u32) = mask 6" "(255 :: u32) = mask 8"
  by (simp_all add: mask_eq_exp_minus_1)

text \<open>The end of the decoder on the text of one last group of one, two or three bytes.\<close>

lemma base64_decode_group:
  fixes a b c :: u8
  assumes n: "n = push_bit 16 (ucast a) + push_bit 8 (ucast b) + (ucast c :: u32)"
    and room: "length out + 3 \<le> m"
  shows "base64_decode_loop m (base64_digit n 18 # base64_digit n 12 # base64_digit n 6
           # base64_digit n 0 # rest) 0 0 out = base64_decode_loop m rest 0 0 (out @ [a, b, c])"
proof -
  define buf where "buf = push_bit 6 (push_bit 6 (push_bit 6 (push_bit 6 0 OR drop_bit 18 n AND 63) OR
      drop_bit 12 n AND 63) OR drop_bit 6 n AND 63) OR drop_bit 0 n AND 63"
  have "ucast (drop_bit 16 buf AND 0xff) = a" "ucast (drop_bit 8 buf AND 0xff) = b"
    "ucast (buf AND 0xff) = c"
    unfolding n base64_sum3 base64_mask buf_def
    by (simp_all add: u8_bitwise_eq bit_simps u8_bit_beyond)
  then show ?thesis
    unfolding base64_decode_step
    by (subst base64_decode_digit_3 [OF room buf_def]) simp
qed

lemma base64_decode_digits:
  assumes "length out + length bs \<le> m"
  shows "Option.bind
       (base64_decode_loop m (base64_digits bs @ replicate ((3 - length bs mod 3) mod 3) 0x3d) 0 0 out)
       (base64_decode_end m) = Some (CHIAKI_ERR_SUCCESS, out @ bs, length out + length bs)"
  using assms
proof (induction bs arbitrary: out rule: base64_digits.induct)
  case 1
  then show ?case by simp
next
  case (2 a)
  define buf where "buf = push_bit 6 (push_bit 6 0 OR drop_bit 18 (push_bit 16 (ucast a)) AND 63)
     OR drop_bit 12 (push_bit 16 (ucast a)) AND (63 :: u32)"
  have "ucast (drop_bit 4 buf AND 0xff) = a"
    unfolding base64_mask buf_def by (simp add: u8_bitwise_eq bit_simps u8_bit_beyond)
  moreover have "replicate ((3 - length [a] mod 3) mod 3) 0x3d = [0x3d, 0x3d :: u8]"
    by (simp add: numeral_2_eq_2)
  ultimately show ?case
    using 2 unfolding base64_digits.simps Let_def append_Cons append_Nil
    by (simp only: base64_decode_step buf_def [symmetric]) simp
next
  case (3 a b)
  define n :: u32 where "n = push_bit 16 (ucast a) + push_bit 8 (ucast b)"
  define buf where "buf = push_bit 6 (push_bit 6 (push_bit 6 0 OR drop_bit 18 n AND 63) OR
      drop_bit 12 n AND 63) OR drop_bit 6 n AND 63"
  have "ucast (drop_bit 10 buf AND 0xff) = a" "ucast (drop_bit 2 buf AND 0xff) = b"
    unfolding base64_mask buf_def n_def base64_sum2
    by (simp_all add: u8_bitwise_eq bit_simps u8_bit_beyond)
  with 3 show ?case
    unfolding base64_digits.simps Let_def append_Cons n_def [symmetric] base64_decode_step
      buf_def [symmetric]
    by (simp add: base64_d_def)
next
  case (4 a b c rest)
  have p: "(3 - length (a # b # c # rest) mod 3) mod 3 = (3 - length rest mod 3) mod 3" by simp
  have room: "length out + 3 \<le> m" using "4.prems" by simp
  have "Option.bind
       (base64_decode_loop m (base64_digits rest @ replicate ((3 - length rest mod 3) mod 3) 0x3d) 0 0
          (out @ [a, b, c]))
       (base64_decode_end m) = Some (CHIAKI_ERR_SUCCESS, (out @ [a, b, c]) @ rest, length (out @ [a, b, c]) + length rest)"
    by (rule "4.IH" [OF refl]) (use "4.prems" in simp)
  then show ?case
    unfolding p base64_digits.simps Let_def append_Cons append_Nil append_assoc
      base64_decode_group [OF refl room]
    by simp
qed

lemma base64_decode_text:
  "length bs \<le> m \<Longrightarrow> chiaki_base64_decode (base64_text bs) m = Some (CHIAKI_ERR_SUCCESS, bs, length bs)"
  using base64_decode_digits [of "[]" bs m] by (simp add: chiaki_base64_decode_def base64_text_def)

section \<open>Properties\<close>

text \<open>
  Round trip and exact size requirement. The encoder succeeds exactly when the output buffer
  has room for \<open>4 * ceil(n / 3)\<close> characters and the terminating zero; then it has written the
  text and a zero, and the decoder, given a buffer of the original size or more, returns
  the original bytes and their number. Otherwise the encoder reports that the buffer is too
  small and has not written past it.
\<close>

theorem base64_roundtrip:
  assumes "length bs \<le> m"
  shows "if 4 * ((length bs + 2) div 3) < n
     then \<exists>txt. chiaki_base64_encode bs n = (CHIAKI_ERR_SUCCESS, txt @ [0]) \<and>
            chiaki_base64_decode txt m = Some (CHIAKI_ERR_SUCCESS, bs, length bs)
     else fst (chiaki_base64_encode bs n) = CHIAKI_ERR_BUF_TOO_SMALL \<and>
            length (snd (chiaki_base64_encode bs n)) = n"
  using base64_decode_text [OF assms]
  by (auto simp: base64_encode_result length_base64_text)

lemma base64_roundtrip_witness:
  "\<exists>txt. chiaki_base64_encode [0xfb] 5 = (CHIAKI_ERR_SUCCESS, txt @ [0]) \<and>
     chiaki_base64_decode txt 1 = Some (CHIAKI_ERR_SUCCESS, [0xfb], 1)"
  using base64_roundtrip [of "[0xfb]" 1 5] by simp

text \<open>
  Bounds of the decoder on any input: it leaves the table only on a byte from \<open>0x80\<close> on, it
  never writes more than the capacity it was given, and on success reports exactly the
  number of bytes it wrote.
\<close>

theorem base64_decode_bounds:
  assumes "\<forall>ch \<in> set inp. ch < 0x80"
  shows "\<exists>err out len. chiaki_base64_decode inp m = Some (err, out, len) \<and> length out \<le> m \<and>
           (err = CHIAKI_ERR_SUCCESS \<longrightarrow> len = length out) \<and> (err \<noteq> CHIAKI_ERR_SUCCESS \<longrightarrow> len = m)"
proof -
  have loop: "\<exists>err it b out'. base64_decode_loop m inp iter buf out = Some (err, it, b, out') \<and> length out' \<le> m"
    if "length out \<le> m" for iter buf and out :: bytes
    using assms that
  proof (induction m inp iter buf out rule: base64_decode_loop.induct)
    case (2 m ch rest iter buf out)
    then show ?case by (auto simp: Let_def)
  qed simp
  obtain err it b out where "base64_decode_loop m inp 0 0 [] = Some (err, it, b, out)" "length out \<le> m"
    using loop [of "[]" 0 0] by auto
  then show ?thesis by (simp add: chiaki_base64_decode_def Let_def)
qed

lemma base64_decode_bounds_witness:
  "\<exists>err out len. chiaki_base64_decode [0x41, 0x21] 0 = Some (err, out, len) \<and> length out \<le> (0::nat)"
  using base64_decode_bounds [of "[0x41, 0x21]" 0] by auto
end
