(* ===== verification/Floats.thy ===== *)
theory Floats
  imports Prelude
begin

text \<open>
  The floating point operations of the C language that the sources use, as a parameter: the
  record holds the operations of the platform's \<open>float\<close> (\<open>'f\<close>) and \<open>double\<close> (\<open>'d\<close>), which
  the definitions take as an argument. A literal is named by its exact value as a fraction.
\<close>

record ('f, 'd) float_ops =
  f_lit :: "int \<Rightarrow> nat \<Rightarrow> 'f"
  f_add :: "'f \<Rightarrow> 'f \<Rightarrow> 'f"
  f_sub :: "'f \<Rightarrow> 'f \<Rightarrow> 'f"
  f_mul :: "'f \<Rightarrow> 'f \<Rightarrow> 'f"
  f_div :: "'f \<Rightarrow> 'f \<Rightarrow> 'f"
  f_less :: "'f \<Rightarrow> 'f \<Rightarrow> bool"
  f_to_u16 :: "'f \<Rightarrow> u16"
  f_to_u32 :: "'f \<Rightarrow> u32"
  f_to_d :: "'f \<Rightarrow> 'd"
  d_to_f :: "'d \<Rightarrow> 'f"
  d_sqrt1_2 :: 'd
  d_zero :: 'd
  d_neg :: "'d \<Rightarrow> 'd"
  d_abs :: "'d \<Rightarrow> 'd"
  d_add :: "'d \<Rightarrow> 'd \<Rightarrow> 'd"
  d_mul :: "'d \<Rightarrow> 'd \<Rightarrow> 'd"
  d_div :: "'d \<Rightarrow> 'd \<Rightarrow> 'd"
  d_less :: "'d \<Rightarrow> 'd \<Rightarrow> bool"

text \<open>An instance on one value, for runs in which motion plays no part.\<close>

definition unit_float_ops :: "(unit, unit) float_ops" where
  "unit_float_ops = \<lparr>f_lit = \<lambda>_ _. (), f_add = \<lambda>_ _. (), f_sub = \<lambda>_ _. (), f_mul = \<lambda>_ _. (),
     f_div = \<lambda>_ _. (), f_less = \<lambda>_ _. False, f_to_u16 = \<lambda>_. 0, f_to_u32 = \<lambda>_. 0, f_to_d = \<lambda>_. (),
     d_to_f = \<lambda>_. (), d_sqrt1_2 = (), d_zero = (), d_neg = \<lambda>_. (), d_abs = \<lambda>_. (),
     d_add = \<lambda>_ _. (), d_mul = \<lambda>_ _. (), d_div = \<lambda>_ _. (), d_less = \<lambda>_ _. False\<rparr>"

end
