(* ===== verification/Controller.thy ===== *)
theory Controller
  imports Common Floats
begin

text \<open>
  \<open>lib/src/controller.c\<close>: the state of the game controller and its two touch slots. Signed
  fields (\<open>int8_t id\<close>, the \<open>int16_t\<close> sticks) are words read with \<open>sint\<close>; the floating
  point fields have the type \<open>'f\<close> of the operations passed in.
\<close>

section \<open>Data\<close>

abbreviation "CHIAKI_CONTROLLER_BUTTON_CROSS \<equiv> 0x1 :: u32"
abbreviation "CHIAKI_CONTROLLER_BUTTON_MOON \<equiv> 0x2 :: u32"
abbreviation "CHIAKI_CONTROLLER_BUTTON_BOX \<equiv> 0x4 :: u32"
abbreviation "CHIAKI_CONTROLLER_BUTTON_PYRAMID \<equiv> 0x8 :: u32"
abbreviation "CHIAKI_CONTROLLER_BUTTON_DPAD_LEFT \<equiv> 0x10 :: u32"
abbreviation "CHIAKI_CONTROLLER_BUTTON_DPAD_RIGHT \<equiv> 0x20 :: u32"
abbreviation "CHIAKI_CONTROLLER_BUTTON_DPAD_UP \<equiv> 0x40 :: u32"
abbreviation "CHIAKI_CONTROLLER_BUTTON_DPAD_DOWN \<equiv> 0x80 :: u32"
abbreviation "CHIAKI_CONTROLLER_BUTTON_L1 \<equiv> 0x100 :: u32"
abbreviation "CHIAKI_CONTROLLER_BUTTON_R1 \<equiv> 0x200 :: u32"
abbreviation "CHIAKI_CONTROLLER_BUTTON_L3 \<equiv> 0x400 :: u32"
abbreviation "CHIAKI_CONTROLLER_BUTTON_R3 \<equiv> 0x800 :: u32"
abbreviation "CHIAKI_CONTROLLER_BUTTON_OPTIONS \<equiv> 0x1000 :: u32"
abbreviation "CHIAKI_CONTROLLER_BUTTON_SHARE \<equiv> 0x2000 :: u32"
abbreviation "CHIAKI_CONTROLLER_BUTTON_TOUCHPAD \<equiv> 0x4000 :: u32"
abbreviation "CHIAKI_CONTROLLER_BUTTON_PS \<equiv> 0x8000 :: u32"
abbreviation "CHIAKI_CONTROLLER_ANALOG_BUTTON_L2 \<equiv> 0x10000 :: u32"
abbreviation "CHIAKI_CONTROLLER_ANALOG_BUTTON_R2 \<equiv> 0x20000 :: u32"

definition CHIAKI_CONTROLLER_BUTTONS_COUNT :: nat where
  "CHIAKI_CONTROLLER_BUTTONS_COUNT = 16"

definition CHIAKI_CONTROLLER_TOUCHES_MAX :: nat where
  "CHIAKI_CONTROLLER_TOUCHES_MAX = 2"

record controller_touch =
  touch_x :: u16
  touch_y :: u16
  touch_id :: u8

record 'f controller_state =
  buttons :: u32
  l2_state :: u8
  r2_state :: u8
  left_x :: u16
  left_y :: u16
  right_x :: u16
  right_y :: u16
  touch_id_next :: u8
  touches :: "controller_touch list"
  gyro_x :: 'f
  gyro_y :: 'f
  gyro_z :: 'f
  accel_x :: 'f
  accel_y :: 'f
  accel_z :: 'f
  orient_x :: 'f
  orient_y :: 'f
  orient_z :: 'f
  orient_w :: 'f

definition touch_up :: "controller_touch \<Rightarrow> bool" where
  "touch_up t \<longleftrightarrow> sint (touch_id t) < 0"

section \<open>Operations\<close>

definition chiaki_controller_state_set_idle :: "('f, 'd) float_ops \<Rightarrow> 'f controller_state" where
  "chiaki_controller_state_set_idle fp = \<lparr>
     buttons = 0, l2_state = 0, r2_state = 0, left_x = 0, left_y = 0, right_x = 0, right_y = 0,
     touch_id_next = 0,
     touches = replicate CHIAKI_CONTROLLER_TOUCHES_MAX \<lparr>touch_x = 0, touch_y = 0, touch_id = - 1\<rparr>,
     gyro_x = f_lit fp 0 1, gyro_y = f_lit fp 0 1, gyro_z = f_lit fp 0 1,
     accel_x = f_lit fp 0 1, accel_y = f_lit fp 1 1, accel_z = f_lit fp 0 1,
     orient_x = f_lit fp 0 1, orient_y = f_lit fp 0 1, orient_z = f_lit fp 0 1,
     orient_w = f_lit fp 1 1\<rparr>"

text \<open>The first slot with \<open>P\<close> is replaced, as the loops with \<open>break\<close> do.\<close>

fun update_first :: "('a \<Rightarrow> bool) \<Rightarrow> ('a \<Rightarrow> 'a) \<Rightarrow> 'a list \<Rightarrow> 'a list" where
  "update_first P f [] = []"
| "update_first P f (t # ts) = (if P t then f t # ts else t # update_first P f ts)"

definition chiaki_controller_state_start_touch ::
  "'f controller_state \<Rightarrow> u16 \<Rightarrow> u16 \<Rightarrow> u8 \<times> 'f controller_state" where
  "chiaki_controller_state_start_touch st x y =
     (if \<exists>t \<in> set (touches st). touch_up t then
        (touch_id_next st,
         st\<lparr>touches := update_first touch_up
               (\<lambda>t. t\<lparr>touch_id := touch_id_next st, touch_x := x, touch_y := y\<rparr>) (touches st),
            touch_id_next := (touch_id_next st + 1) AND 0x7f\<rparr>)
      else (- 1, st))"

text \<open>
  \<open>touches[i].id == id\<close> compares an \<open>int8_t\<close> with a \<open>uint8_t\<close> after the promotion of both to
  \<open>int\<close>.
\<close>

definition touch_has_id :: "u8 \<Rightarrow> controller_touch \<Rightarrow> bool" where
  "touch_has_id i t \<longleftrightarrow> sint (touch_id t) = uint i"

definition chiaki_controller_state_stop_touch :: "'f controller_state \<Rightarrow> u8 \<Rightarrow> 'f controller_state" where
  "chiaki_controller_state_stop_touch st i =
     st\<lparr>touches := update_first (touch_has_id i) (\<lambda>t. t\<lparr>touch_id := - 1\<rparr>) (touches st)\<rparr>"

definition chiaki_controller_state_set_touch_pos ::
  "'f controller_state \<Rightarrow> u8 \<Rightarrow> u16 \<Rightarrow> u16 \<Rightarrow> 'f controller_state" where
  "chiaki_controller_state_set_touch_pos st i x y =
     (let i = i AND 0x7f in
      st\<lparr>touches := update_first (touch_has_id i) (\<lambda>t. t\<lparr>touch_x := x, touch_y := y\<rparr>) (touches st)\<rparr>)"

text \<open>\<open>CHECKF\<close>: whether the test lets the comparison go on.\<close>

definition CHECKF :: "('f, 'd) float_ops \<Rightarrow> 'f \<Rightarrow> 'f \<Rightarrow> bool" where
  "CHECKF fp a b \<longleftrightarrow> \<not> (f_less fp a (f_sub fp b (f_lit fp 1 10000000)) \<or>
                       f_less fp (f_add fp b (f_lit fp 1 10000000)) a)"

definition touch_equals :: "controller_touch \<Rightarrow> controller_touch \<Rightarrow> bool" where
  "touch_equals a b \<longleftrightarrow>
     \<not> (touch_id a \<noteq> touch_id b) \<and>
     \<not> (\<not> touch_up a \<and> (touch_x a \<noteq> touch_x b \<or> touch_y a \<noteq> touch_y b))"

definition chiaki_controller_state_equals ::
  "('f, 'd) float_ops \<Rightarrow> 'f controller_state \<Rightarrow> 'f controller_state \<Rightarrow> bool" where
  "chiaki_controller_state_equals fp a b \<longleftrightarrow>
     buttons a = buttons b \<and> l2_state a = l2_state b \<and> r2_state a = r2_state b \<and>
     left_x a = left_x b \<and> left_y a = left_y b \<and> right_x a = right_x b \<and> right_y a = right_y b \<and>
     list_all2 touch_equals (touches a) (touches b) \<and>
     CHECKF fp (gyro_x a) (gyro_x b) \<and> CHECKF fp (gyro_y a) (gyro_y b) \<and>
     CHECKF fp (gyro_z a) (gyro_z b) \<and> CHECKF fp (accel_x a) (accel_x b) \<and>
     CHECKF fp (accel_y a) (accel_y b) \<and> CHECKF fp (accel_z a) (accel_z b) \<and>
     CHECKF fp (orient_x a) (orient_x b) \<and> CHECKF fp (orient_y a) (orient_y b) \<and>
     CHECKF fp (orient_z a) (orient_z b) \<and> CHECKF fp (orient_w a) (orient_w b)"

definition MAX_ABS :: "u16 \<Rightarrow> u16 \<Rightarrow> u16" where
  "MAX_ABS a b = (if \<bar>sint a\<bar> > \<bar>sint b\<bar> then a else b)"

definition touch_or :: "controller_touch \<Rightarrow> controller_touch \<Rightarrow> controller_touch" where
  "touch_or a b =
     (if \<not> touch_up a then a else if \<not> touch_up b then b
      else \<lparr>touch_x = 0, touch_y = 0, touch_id = - 1\<rparr>)"

text \<open>
  \<open>out\<close> may be the same object as \<open>a\<close> or \<open>b\<close>: every field is written after the last read of
  that field of \<open>a\<close> and \<open>b\<close>. The motion fields keep the values of \<open>out\<close>.
\<close>

definition chiaki_controller_state_or ::
  "'f controller_state \<Rightarrow> 'f controller_state \<Rightarrow> 'f controller_state \<Rightarrow> 'f controller_state" where
  "chiaki_controller_state_or out a b =
     out\<lparr>buttons := buttons a OR buttons b,
         l2_state := max (l2_state a) (l2_state b),
         r2_state := max (r2_state a) (r2_state b),
         left_x := MAX_ABS (left_x a) (left_x b),
         left_y := MAX_ABS (left_y a) (left_y b),
         right_x := MAX_ABS (right_x a) (right_x b),
         right_y := MAX_ABS (right_y a) (right_y b),
         touch_id_next := 0,
         touches := map2 touch_or (touches a) (touches b)\<rparr>"

section \<open>Touch slots\<close>

text \<open>Two slots, ids that are \<open>-1\<close> or below 128, and a next id below 128.\<close>

definition touch_wf :: "'f controller_state \<Rightarrow> bool" where
  "touch_wf st \<longleftrightarrow>
     length (touches st) = CHIAKI_CONTROLLER_TOUCHES_MAX \<and>
     (\<forall>t \<in> set (touches st). touch_id t = - 1 \<or> touch_id t < 0x80) \<and> touch_id_next st < 0x80"

lemma set_update_first: "set (update_first P f ts) \<subseteq> set ts \<union> f ` set ts"
  by (induction ts) auto

lemma length_update_first [simp]: "length (update_first P f ts) = length ts"
  by (induction ts) auto

lemma sint_u8_small: "w < 0x80 \<Longrightarrow> sint w = uint w" for w :: u8
proof -
  assume "w < 0x80"
  then have "uint w < 128" by (simp add: word_less_def)
  then have lt: "uint w < 2 ^ 7" by simp
  have "- (2 ^ 7) \<le> uint w" by (rule order_trans [of _ 0]) simp_all
  from signed_take_bit_int_eq_self [OF this lt] have "signed_take_bit 7 (uint w) = uint w" .
  then show ?thesis by (simp add: sint_uint)
qed

lemma touch_up_iff: "touch_id t = - 1 \<or> touch_id t < 0x80 \<Longrightarrow> touch_up t \<longleftrightarrow> touch_id t = - 1"
  by (auto simp: touch_up_def sint_u8_small)

lemma idle_touch_wf: "touch_wf (chiaki_controller_state_set_idle fp)"
  by (simp add: touch_wf_def chiaki_controller_state_set_idle_def)

lemma mask_7f_less: "w AND 0x7f < (0x80 :: u8)"
  by (rule le_less_trans [of _ "0x7f"]) (simp_all add: word_and_le1)

lemma start_touch_wf:
  "touch_wf st \<Longrightarrow> touch_wf (snd (chiaki_controller_state_start_touch st x y))"
  using set_update_first [of touch_up _ "touches st"]
  by (fastforce simp: touch_wf_def chiaki_controller_state_start_touch_def mask_7f_less)

lemma stop_touch_wf: "touch_wf st \<Longrightarrow> touch_wf (chiaki_controller_state_stop_touch st i)"
  using set_update_first [of "touch_has_id i" _ "touches st"]
  by (fastforce simp: touch_wf_def chiaki_controller_state_stop_touch_def)

lemma set_touch_pos_wf: "touch_wf st \<Longrightarrow> touch_wf (chiaki_controller_state_set_touch_pos st i x y)"
  using set_update_first [of "touch_has_id (i AND 0x7f)" _ "touches st"]
  by (fastforce simp: touch_wf_def chiaki_controller_state_set_touch_pos_def Let_def)

lemma touch_or_wf:
  "touch_id a = - 1 \<or> touch_id a < 0x80 \<Longrightarrow> touch_id b = - 1 \<or> touch_id b < 0x80 \<Longrightarrow>
   touch_id (touch_or a b) = - 1 \<or> touch_id (touch_or a b) < 0x80"
  by (simp add: touch_or_def)

lemma or_touch_wf:
  "touch_wf a \<Longrightarrow> touch_wf b \<Longrightarrow> touch_wf (chiaki_controller_state_or out a b)"
  unfolding touch_wf_def chiaki_controller_state_or_def
  by (auto simp del: word_less_no elim!: in_set_zipE) (meson touch_or_wf)+

lemma update_first_map:
  "(\<And>t. t \<in> set ts \<Longrightarrow> P t \<Longrightarrow> g (f t) = g t) \<Longrightarrow> map g (update_first P f ts) = map g ts"
  by (induction ts) auto

lemma update_first_twice:
  "(\<And>t. P t \<Longrightarrow> Q (f t)) \<Longrightarrow> (\<forall>t \<in> set ts. \<not> Q t) \<Longrightarrow>
   update_first Q h (update_first P f ts) = update_first P (\<lambda>t. h (f t)) ts"
  by (induction ts) auto

lemma touch_overwrite:
  "t\<lparr>touch_id := i, touch_x := x, touch_y := y\<rparr> = \<lparr>touch_x = x, touch_y = y, touch_id = i\<rparr>"
  for t :: controller_touch
  by (cases t) simp

section \<open>Properties\<close>

text \<open>
  Life of a touch. While a slot is free, \<open>start_touch\<close> hands out the next id, which lies
  between 0 and 127, and puts the touch in a slot; if no held touch has that id, then
  \<open>set_touch_pos\<close> and \<open>stop_touch\<close> with it act on that touch only: after the stop the ids of the
  slots are what they were before the start. Without a free slot the result is \<open>-1\<close> and
  the state is unchanged. The result is well-formed in all cases.
\<close>

theorem controller_touch_lifecycle:
  fixes x' y' :: u16
  assumes wf: "touch_wf st"
    and fresh: "\<forall>t \<in> set (touches st). touch_id t \<noteq> touch_id_next st"
    and start: "chiaki_controller_state_start_touch st x y = (i, st1)"
  defines "st2 \<equiv> chiaki_controller_state_set_touch_pos st1 i x' y'"
  defines "st3 \<equiv> chiaki_controller_state_stop_touch st2 i"
  shows "touch_wf st1 \<and> touch_wf st2 \<and> touch_wf st3 \<and>
    (if \<exists>t \<in> set (touches st). touch_id t = - 1
     then i = touch_id_next st \<and> i < 0x80 \<and>
       touches st2 = update_first touch_up (\<lambda>_. \<lparr>touch_x = x', touch_y = y', touch_id = i\<rparr>) (touches st) \<and>
       map touch_id (touches st3) = map touch_id (touches st)
     else i = - 1 \<and> st1 = st)"
proof -
  have wf1: "touch_wf st1" using start_touch_wf [OF wf, of x y] start by simp
  have up: "touch_up t \<longleftrightarrow> touch_id t = - 1" if "t \<in> set (touches st)" for t
    using wf that touch_up_iff unfolding touch_wf_def by blast
  show ?thesis
  proof (cases "\<exists>t \<in> set (touches st). touch_id t = - 1")
    case False
    then have "\<not> (\<exists>t \<in> set (touches st). touch_up t)" using up by blast
    then show ?thesis
      using False start wf1 wf unfolding st3_def st2_def
      by (auto simp: chiaki_controller_state_start_touch_def intro!: stop_touch_wf set_touch_pos_wf)
  next
    case True
    define i0 where "i0 = touch_id_next st"
    have i0: "i0 < 0x80" using wf by (simp add: i0_def touch_wf_def)
    have mask: "i0 AND 0x7f = i0"
    proof (rule word_unat_eq_iff [THEN iffD2])
      have "(0x7f :: u8) = 2 ^ 7 - 1" by simp
      then have "unat (i0 AND 0x7f) = unat i0 mod 2 ^ 7" by (simp only: unat_and_mask)
      then show "unat (i0 AND 0x7f) = unat i0" using i0 by (simp add: word_less_nat_alt)
    qed
    have s1: "i = i0" "touches st1 = update_first touch_up
        (\<lambda>t. t\<lparr>touch_id := i0, touch_x := x, touch_y := y\<rparr>) (touches st)"
      using start True up by (auto simp: chiaki_controller_state_start_touch_def i0_def)
    have no: "\<forall>t \<in> set (touches st). \<not> touch_has_id i0 t"
    proof
      fix t assume t: "t \<in> set (touches st)"
      then have "touch_id t = - 1 \<or> touch_id t < 0x80" using wf by (simp add: touch_wf_def)
      then show "\<not> touch_has_id i0 t"
      proof
        assume "touch_id t = - 1"
        moreover have "- 1 < uint i0" by (rule less_le_trans [of _ 0]) simp_all
        ultimately show ?thesis unfolding touch_has_id_def by simp
      next
        assume "touch_id t < 0x80"
        moreover have "touch_id t \<noteq> i0" using fresh t by (simp add: i0_def)
        ultimately show ?thesis by (simp add: touch_has_id_def sint_u8_small word_uint_eq_iff)
      qed
    qed
    have has: "touch_has_id i0 (t\<lparr>touch_id := i0, touch_x := p, touch_y := q\<rparr>)" for t p q
      by (simp add: touch_has_id_def sint_u8_small i0)
    have s2: "touches st2 = update_first touch_up
        (\<lambda>_. \<lparr>touch_x = x', touch_y = y', touch_id = i0\<rparr>) (touches st)"
      unfolding st2_def chiaki_controller_state_set_touch_pos_def s1(1) mask Let_def
      by (simp add: s1(2) update_first_twice [OF has no]) (simp only: touch_overwrite)
    have "touches st3 = update_first touch_up
        (\<lambda>_. \<lparr>touch_x = x', touch_y = y', touch_id = - 1\<rparr>) (touches st)"
      unfolding st3_def chiaki_controller_state_stop_touch_def s1(1)
      using no by (simp add: s2 update_first_twice touch_has_id_def sint_u8_small i0)
    then have "map touch_id (touches st3) = map touch_id (touches st)"
      by (simp only:) (rule update_first_map, simp add: up)
    with s1 s2 True i0 wf1 show ?thesis
      unfolding st3_def st2_def i0_def by (auto intro!: stop_touch_wf set_touch_pos_wf)
  qed
qed

text \<open>A concrete state type for the runs: \<open>'f\<close> is \<open>unit\<close>, the motion fields play no part.\<close>

definition touch_start_st :: "unit controller_state" where
  "touch_start_st = \<lparr>buttons = 0, l2_state = 0, r2_state = 0, left_x = 0, left_y = 0, right_x = 0,
     right_y = 0, touch_id_next = 0,
     touches = replicate CHIAKI_CONTROLLER_TOUCHES_MAX \<lparr>touch_x = 0, touch_y = 0, touch_id = - 1\<rparr>,
     gyro_x = (), gyro_y = (), gyro_z = (), accel_x = (), accel_y = (), accel_z = (),
     orient_x = (), orient_y = (), orient_z = (), orient_w = ()\<rparr>"

lemma controller_touch_lifecycle_witness:
  "map touch_id (touches (chiaki_controller_state_stop_touch
     (chiaki_controller_state_set_touch_pos
        (snd (chiaki_controller_state_start_touch touch_start_st 5 6)) 0 7 8) 0)) = [- 1, - 1]"
proof -
  have "touch_wf touch_start_st" "\<forall>t \<in> set (touches touch_start_st). touch_id t \<noteq> touch_id_next touch_start_st"
    "chiaki_controller_state_start_touch touch_start_st 5 6
       = (0, snd (chiaki_controller_state_start_touch touch_start_st 5 6))"
    "\<exists>t \<in> set (touches touch_start_st). touch_id t = - 1"
    "map touch_id (touches touch_start_st) = [- 1, - 1]"
    by code_simp+
  then show ?thesis
    using controller_touch_lifecycle [of touch_start_st 5 6 0 _ 7 8] by metis
qed

text \<open>A tap: a touch that starts and stops at once.\<close>

definition touch_tap :: "'f controller_state \<Rightarrow> 'f controller_state" where
  "touch_tap st = (let (i, st1) = chiaki_controller_state_start_touch st 0 0
                   in chiaki_controller_state_stop_touch st1 i)"

lemma touch_tap_step:
  fixes st :: "'f controller_state"
  assumes "touches st = [\<lparr>touch_x = 1, touch_y = 2, touch_id = 0\<rparr>, \<lparr>touch_x = 0, touch_y = 0, touch_id = - 1\<rparr>]"
    and i: "touch_id_next st = i" "i < 0x80" "i \<noteq> 0"
  shows "touches (touch_tap st) = touches st" "touch_id_next (touch_tap st) = (i + 1) AND 0x7f"
proof -
  have "sint i = uint i" using i by (simp add: sint_u8_small)
  moreover have "uint i \<noteq> 0" using i by (simp add: word_uint_eq_iff)
  ultimately show "touches (touch_tap st) = touches st" "touch_id_next (touch_tap st) = (i + 1) AND 0x7f"
    using assms by (simp_all add: touch_tap_def chiaki_controller_state_start_touch_def
      chiaki_controller_state_stop_touch_def touch_up_def touch_has_id_def)
qed

lemma touch_next_unat: "unat ((i + 1) AND 0x7f) = Suc (unat i) mod 128" for i :: u8
proof -
  have "(0x7f :: u8) = 2 ^ 7 - 1" by simp
  then have "unat ((i + 1) AND 0x7f) = unat (i + 1) mod 2 ^ 7" by (simp only: unat_and_mask)
  then show ?thesis by (simp add: unat_word_ariths mod_mod_cancel)
qed

text \<open>
  The ids wrap after 128 touches without a check that the next one is free: while one
  touch is held and 127 others come and go, the next touch gets the id of the held one, so
  both slots carry the same id although the state is well-formed throughout.
\<close>

theorem controller_touch_id_collision:
  "let st = (touch_tap ^^ 127) (snd (chiaki_controller_state_start_touch touch_start_st 1 2));
       (i, st') = chiaki_controller_state_start_touch st 3 4
   in i = 0 \<and> touches st' = [\<lparr>touch_x = 1, touch_y = 2, touch_id = 0\<rparr>,
                            \<lparr>touch_x = 3, touch_y = 4, touch_id = 0\<rparr>]"
proof -
  let ?st = "snd (chiaki_controller_state_start_touch touch_start_st 1 2)"
  have held: "touches ?st = [\<lparr>touch_x = 1, touch_y = 2, touch_id = 0\<rparr>, \<lparr>touch_x = 0, touch_y = 0, touch_id = - 1\<rparr>]"
    "touch_id_next ?st = 1"
    by code_simp+
  have tap: "touches ((touch_tap ^^ k) ?st) = touches ?st \<and>
        unat (touch_id_next ((touch_tap ^^ k) ?st)) = Suc k mod 128" if "k \<le> 127" for k
    using that
  proof (induction k)
    case 0
    then show ?case by (simp add: held)
  next
    case (Suc k)
    let ?i = "touch_id_next ((touch_tap ^^ k) ?st)"
    from Suc have IH: "touches ((touch_tap ^^ k) ?st) = touches ?st" "unat ?i = Suc k" by simp_all
    then have i: "?i < 0x80" "?i \<noteq> 0" using Suc.prems by (auto simp: word_less_nat_alt)
    show ?case
      using touch_tap_step [OF trans [OF IH(1) held(1)] refl i] IH Suc.prems
      by (simp add: touch_next_unat)
  qed
  define st where "st = (touch_tap ^^ 127) ?st"
  have "touches st = touches ?st" "unat (touch_id_next st) = Suc 127 mod 128"
    unfolding st_def using tap [OF order_refl] by blast+
  then have "touches st = [\<lparr>touch_x = 1, touch_y = 2, touch_id = 0\<rparr>, \<lparr>touch_x = 0, touch_y = 0, touch_id = - 1\<rparr>]"
    "touch_id_next st = 0"
    unfolding held by (simp_all add: unat_eq_0)
  then show ?thesis
    unfolding st_def [symmetric]
    by (simp add: Let_def chiaki_controller_state_start_touch_def touch_up_def)
qed

end
