(* ===== verification/Feedback.thy ===== *)
theory Feedback
  imports Controller
begin

text \<open>
  \<open>lib/src/feedback.c\<close>: the wire format of the controller state, the history events and the
  ring buffer of the latest events. Floating point arithmetic is the parameter \<open>fp\<close>.
\<close>

section \<open>Feedback state\<close>

record 'f feedback_state =
  fs_gyro_x :: 'f
  fs_gyro_y :: 'f
  fs_gyro_z :: 'f
  fs_accel_x :: 'f
  fs_accel_y :: 'f
  fs_accel_z :: 'f
  fs_orient_x :: 'f
  fs_orient_y :: 'f
  fs_orient_z :: 'f
  fs_orient_w :: 'f
  fs_left_x :: u16
  fs_left_y :: u16
  fs_right_x :: u16
  fs_right_y :: u16

abbreviation "CHIAKI_FEEDBACK_STATE_BUF_SIZE_V9 \<equiv> 0x19 :: nat"
abbreviation "CHIAKI_FEEDBACK_STATE_BUF_SIZE_V12 \<equiv> 0x1c :: nat"

text \<open>The search for the component of the largest absolute value, from index \<open>i\<close> on.\<close>

fun quat_largest :: "('f, 'd) float_ops \<Rightarrow> 'f list \<Rightarrow> nat \<Rightarrow> nat list \<Rightarrow> nat" where
  "quat_largest fp q largest_i [] = largest_i"
| "quat_largest fp q largest_i (i # is) =
     quat_largest fp q
       (if d_less fp (d_abs fp (f_to_d fp (q ! largest_i))) (d_abs fp (f_to_d fp (q ! i))) then i
        else largest_i) is"

text \<open>One component: clamped to \<open>+-sqrt(1/2)\<close>, shifted and scaled to 9 bits.\<close>

definition quat_component :: "('f, 'd) float_ops \<Rightarrow> 'f \<Rightarrow> u32" where
  "quat_component fp v =
     (let v = (if d_less fp (f_to_d fp v) (d_neg fp (d_sqrt1_2 fp)) then d_to_f fp (d_neg fp (d_sqrt1_2 fp)) else v);
          v = (if d_less fp (d_sqrt1_2 fp) (f_to_d fp v) then d_to_f fp (d_sqrt1_2 fp) else v);
          v = d_to_f fp (d_add fp (f_to_d fp v) (d_sqrt1_2 fp));
          v = d_to_f fp (d_mul fp (f_to_d fp v)
                (d_div fp (f_to_d fp (f_lit fp 0x1ff 1))
                   (d_mul fp (f_to_d fp (f_lit fp 2 1)) (d_sqrt1_2 fp))))
      in f_to_u32 fp v)"

definition compress_quat :: "('f, 'd) float_ops \<Rightarrow> 'f list \<Rightarrow> u32" where
  "compress_quat fp q =
     (let largest_i = quat_largest fp q 0 [1..<4];
          r = (if d_less fp (f_to_d fp (q ! largest_i)) (d_zero fp) then 1 else 0)
                OR push_bit 1 (of_nat largest_i)
      in fold (\<lambda>i r. let qi = (if i < largest_i then i else i + 1)
                     in r OR push_bit (3 + i * 9) (quat_component fp (q ! qi))) [0..<3] r)"

text \<open>\<open>(uint16_t)(0xffff * ((float)v - MIN) / (MAX - MIN))\<close>\<close>

definition scale_u16 :: "('f, 'd) float_ops \<Rightarrow> 'f \<Rightarrow> 'f \<Rightarrow> 'f \<Rightarrow> u16" where
  "scale_u16 fp v mn mx =
     f_to_u16 fp (f_div fp (f_mul fp (f_lit fp 0xffff 1) (f_sub fp v mn)) (f_sub fp mx mn))"

definition le16_bytes :: "u16 \<Rightarrow> bytes" where
  "le16_bytes v = [ucast v, ucast (drop_bit 8 v)]"

definition feedback_state_bytes_v9 :: "('f, 'd) float_ops \<Rightarrow> 'f feedback_state \<Rightarrow> bytes" where
  "feedback_state_bytes_v9 fp st =
     (let gyro = (\<lambda>v. le16_bytes (scale_u16 fp v (f_lit fp (- 30) 1) (f_lit fp 30 1)));
          accel = (\<lambda>v. le16_bytes (scale_u16 fp v (f_lit fp (- 5) 1) (f_lit fp 5 1)));
          qc = compress_quat fp [fs_orient_x st, fs_orient_y st, fs_orient_z st, fs_orient_w st]
      in [0xa0] @ gyro (fs_gyro_x st) @ gyro (fs_gyro_y st) @ gyro (fs_gyro_z st)
         @ accel (fs_accel_x st) @ accel (fs_accel_y st) @ accel (fs_accel_z st)
         @ [ucast qc, ucast (drop_bit 8 qc), ucast (drop_bit 16 qc), ucast (drop_bit 24 qc)]
         @ htons_bytes (fs_left_x st) @ htons_bytes (fs_left_y st)
         @ htons_bytes (fs_right_x st) @ htons_bytes (fs_right_y st))"

definition chiaki_feedback_state_format_v9 ::
  "('f, 'd) float_ops \<Rightarrow> bytes \<Rightarrow> 'f feedback_state \<Rightarrow> bytes option" where
  "chiaki_feedback_state_format_v9 fp buf st = store_bytes buf 0 (feedback_state_bytes_v9 fp st)"

definition chiaki_feedback_state_format_v12 ::
  "('f, 'd) float_ops \<Rightarrow> bytes \<Rightarrow> 'f feedback_state \<Rightarrow> bool \<Rightarrow> bytes option" where
  "chiaki_feedback_state_format_v12 fp buf st enable_dualsense = do {
     buf \<leftarrow> chiaki_feedback_state_format_v9 fp buf st;
     store_bytes buf 0x19 [0, 0, if enable_dualsense then 1 else 0] }"

section \<open>History events\<close>

abbreviation "CHIAKI_HISTORY_EVENT_SIZE_MAX \<equiv> 5 :: nat"

record history_event =
  ev_buf :: bytes
  ev_len :: nat

text \<open>The buttons with a third byte, and those whose code tells the state.\<close>

definition button_code3 :: "u64 \<Rightarrow> u8 option" where
  "button_code3 button =
     (if button = ucast CHIAKI_CONTROLLER_BUTTON_CROSS then Some 0x88
      else if button = ucast CHIAKI_CONTROLLER_BUTTON_MOON then Some 0x89
      else if button = ucast CHIAKI_CONTROLLER_BUTTON_BOX then Some 0x8a
      else if button = ucast CHIAKI_CONTROLLER_BUTTON_PYRAMID then Some 0x8b
      else if button = ucast CHIAKI_CONTROLLER_BUTTON_DPAD_LEFT then Some 0x82
      else if button = ucast CHIAKI_CONTROLLER_BUTTON_DPAD_RIGHT then Some 0x83
      else if button = ucast CHIAKI_CONTROLLER_BUTTON_DPAD_UP then Some 0x80
      else if button = ucast CHIAKI_CONTROLLER_BUTTON_DPAD_DOWN then Some 0x81
      else if button = ucast CHIAKI_CONTROLLER_BUTTON_L1 then Some 0x84
      else if button = ucast CHIAKI_CONTROLLER_BUTTON_R1 then Some 0x85
      else if button = ucast CHIAKI_CONTROLLER_ANALOG_BUTTON_L2 then Some 0x86
      else if button = ucast CHIAKI_CONTROLLER_ANALOG_BUTTON_R2 then Some 0x87
      else None)"

definition button_code2 :: "u64 \<Rightarrow> u8 \<Rightarrow> u8 option" where
  "button_code2 button state =
     (if button = ucast CHIAKI_CONTROLLER_BUTTON_L3 then Some (if state \<noteq> 0 then 0xaf else 0x8f)
      else if button = ucast CHIAKI_CONTROLLER_BUTTON_R3 then Some (if state \<noteq> 0 then 0xb0 else 0x90)
      else if button = ucast CHIAKI_CONTROLLER_BUTTON_OPTIONS then Some (if state \<noteq> 0 then 0xac else 0x8c)
      else if button = ucast CHIAKI_CONTROLLER_BUTTON_SHARE then Some (if state \<noteq> 0 then 0xad else 0x8d)
      else if button = ucast CHIAKI_CONTROLLER_BUTTON_TOUCHPAD then Some (if state \<noteq> 0 then 0xb1 else 0x91)
      else if button = ucast CHIAKI_CONTROLLER_BUTTON_PS then Some (if state \<noteq> 0 then 0xae else 0x8e)
      else None)"

definition chiaki_feedback_history_event_set_button ::
  "history_event \<Rightarrow> u64 \<Rightarrow> u8 \<Rightarrow> ChiakiErrorCode \<times> history_event" where
  "chiaki_feedback_history_event_set_button event button state =
     (let event = event\<lparr>ev_buf := (ev_buf event)[0 := 0x80], ev_len := 2\<rparr> in
      case button_code3 button of
        Some c \<Rightarrow> (CHIAKI_ERR_SUCCESS, event\<lparr>ev_buf := (ev_buf event)[1 := c, 2 := state], ev_len := 3\<rparr>)
      | None \<Rightarrow> (case button_code2 button state of
            Some c \<Rightarrow> (CHIAKI_ERR_SUCCESS, event\<lparr>ev_buf := (ev_buf event)[1 := c]\<rparr>)
          | None \<Rightarrow> (CHIAKI_ERR_INVALID_DATA, event)))"

definition chiaki_feedback_history_event_set_touchpad ::
  "history_event \<Rightarrow> bool \<Rightarrow> u8 \<Rightarrow> u16 \<Rightarrow> u16 \<Rightarrow> history_event" where
  "chiaki_feedback_history_event_set_touchpad event down pointer_id x y =
     event\<lparr>ev_len := 5,
       ev_buf := (ev_buf event)
         [0 := if down then 0xd0 else 0xc0,
          1 := pointer_id AND 0x7f,
          2 := ucast (drop_bit 4 x),
          3 := ucast (push_bit 4 (x AND 0xf)) OR ucast (drop_bit 8 y),
          4 := ucast y]\<rparr>"

section \<open>History buffer\<close>

record history_buffer =
  hb_events :: "history_event list"
  hb_size :: nat
  hb_begin :: nat
  hb_len :: nat

text \<open>\<open>alloc\<close>: whether \<open>calloc\<close> succeeds.\<close>

definition chiaki_feedback_history_buffer_init ::
  "bool \<Rightarrow> nat \<Rightarrow> ChiakiErrorCode \<times> history_buffer option" where
  "chiaki_feedback_history_buffer_init alloc n =
     (if \<not> alloc then (CHIAKI_ERR_MEMORY, None)
      else (CHIAKI_ERR_SUCCESS,
        Some \<lparr>hb_events = replicate n \<lparr>ev_buf = replicate CHIAKI_HISTORY_EVENT_SIZE_MAX 0, ev_len = 0\<rparr>,
              hb_size = n, hb_begin = 0, hb_len = 0\<rparr>))"

text \<open>The loop from the \<open>i\<close>-th event on; the result is the error code and the bytes written.\<close>

fun history_format_loop ::
  "history_buffer \<Rightarrow> nat \<Rightarrow> nat list \<Rightarrow> bytes \<Rightarrow> ChiakiErrorCode \<times> bytes" where
  "history_format_loop hb size_max [] buf = (CHIAKI_ERR_SUCCESS, buf)"
| "history_format_loop hb size_max (i # is) buf =
     (let event = hb_events hb ! ((hb_begin hb + i) mod hb_size hb) in
      if length buf + ev_len event > size_max then (CHIAKI_ERR_BUF_TOO_SMALL, buf)
      else history_format_loop hb size_max is (buf @ take (ev_len event) (ev_buf event)))"

text \<open>The error code, the bytes written and the final \<open>*buf_size\<close>.\<close>

definition chiaki_feedback_history_buffer_format ::
  "history_buffer \<Rightarrow> nat \<Rightarrow> ChiakiErrorCode \<times> bytes \<times> nat" where
  "chiaki_feedback_history_buffer_format hb buf_size =
     (let (err, buf) = history_format_loop hb buf_size [0..<hb_len hb] []
      in if err \<noteq> CHIAKI_ERR_SUCCESS then (err, buf, buf_size) else (err, buf, length buf))"

text \<open>\<open>None\<close>: the division by a size of zero.\<close>

definition chiaki_feedback_history_buffer_push ::
  "history_buffer \<Rightarrow> history_event \<Rightarrow> history_buffer option" where
  "chiaki_feedback_history_buffer_push hb event =
     (if hb_size hb = 0 then None
      else let b = (hb_begin hb + hb_size hb - 1) mod hb_size hb;
               l = hb_len hb + 1
           in Some (hb\<lparr>hb_begin := b,
                       hb_len := (if l \<ge> hb_size hb then hb_size hb else l),
                       hb_events := (hb_events hb)[b := event]\<rparr>))"

section \<open>The ring holds the latest events, newest first\<close>

definition event_ok :: "history_event \<Rightarrow> bool" where
  "event_ok e \<longleftrightarrow> length (ev_buf e) = CHIAKI_HISTORY_EVENT_SIZE_MAX \<and> ev_len e \<le> CHIAKI_HISTORY_EVENT_SIZE_MAX"

definition event_bytes :: "history_event \<Rightarrow> bytes" where
  "event_bytes e = take (ev_len e) (ev_buf e)"

definition hb_inv :: "history_buffer \<Rightarrow> bool" where
  "hb_inv hb \<longleftrightarrow> length (hb_events hb) = hb_size hb \<and> 0 < hb_size hb \<and> hb_begin hb < hb_size hb \<and>
     hb_len hb \<le> hb_size hb \<and> (\<forall>e \<in> set (hb_events hb). event_ok e)"

definition hb_list :: "history_buffer \<Rightarrow> history_event list" where
  "hb_list hb = map (\<lambda>i. hb_events hb ! ((hb_begin hb + i) mod hb_size hb)) [0..<hb_len hb]"

lemma hb_init_inv:
  "0 < n \<Longrightarrow> chiaki_feedback_history_buffer_init True n = (err, Some hb) \<Longrightarrow> hb_inv hb \<and> hb_list hb = []"
  by (auto simp: chiaki_feedback_history_buffer_init_def hb_inv_def hb_list_def event_ok_def)

lemma event_ok_button:
  "event_ok e \<Longrightarrow> event_ok (snd (chiaki_feedback_history_event_set_button e b s))"
  by (simp add: event_ok_def chiaki_feedback_history_event_set_button_def Let_def split: option.splits)

lemma event_ok_touchpad:
  "event_ok e \<Longrightarrow> event_ok (chiaki_feedback_history_event_set_touchpad e d p x y)"
  by (simp add: event_ok_def chiaki_feedback_history_event_set_touchpad_def)

text \<open>Stepping the start of the ring back makes every old element the next one.\<close>

lemma ring_back:
  fixes b i n :: nat
  assumes "b < n"
  shows "((b + n - 1) mod n + Suc i) mod n = (b + i) mod n"
proof -
  have "((b + n - 1) mod n + Suc i) mod n = (b + n - 1 + Suc i) mod n" by (rule mod_add_left_eq)
  also have "b + n - 1 + Suc i = (b + i) + n" using assms by simp
  finally show ?thesis by simp
qed

lemma ring_back_neq:
  fixes b i n :: nat
  assumes "b < n" "Suc i < n"
  shows "(b + i) mod n \<noteq> (b + n - 1) mod n"
proof (cases "b = 0")
  case True
  with assms show ?thesis by simp
next
  case False
  then have p: "(b + n - 1) mod n = b - 1" using assms by (simp add: mod_if)
  show ?thesis
  proof (cases "b + i < n")
    case True
    then show ?thesis unfolding p using False by simp
  next
    case F: False
    then have "(b + i) mod n = b + i - n" using assms by (simp add: mod_if)
    then show ?thesis unfolding p using assms False F by simp
  qed
qed

lemma hb_push:
  assumes inv: "hb_inv hb" and e: "event_ok e"
  shows "\<exists>hb'. chiaki_feedback_history_buffer_push hb e = Some hb' \<and> hb_inv hb' \<and>
           hb_size hb' = hb_size hb \<and> hb_list hb' = take (hb_size hb) (e # hb_list hb)"
proof -
  let ?n = "hb_size hb"
  let ?b = "(hb_begin hb + ?n - 1) mod ?n"
  let ?l = "if hb_len hb + 1 \<ge> ?n then ?n else hb_len hb + 1"
  define hb' where "hb' = hb\<lparr>hb_begin := ?b, hb_len := ?l, hb_events := (hb_events hb)[?b := e]\<rparr>"
  have n: "0 < ?n" "hb_begin hb < ?n" "hb_len hb \<le> ?n" "length (hb_events hb) = ?n"
    using inv by (simp_all add: hb_inv_def)
  have push: "chiaki_feedback_history_buffer_push hb e = Some hb'"
    using n by (simp add: chiaki_feedback_history_buffer_push_def hb'_def Let_def)
  have inv': "hb_inv hb'"
    using inv e set_update_subset_insert [of "hb_events hb" ?b e]
    unfolding hb_inv_def hb'_def by auto
  have "hb_list hb' = take ?n (e # hb_list hb)"
  proof (rule nth_equalityI)
    show "length (hb_list hb') = length (take ?n (e # hb_list hb))"
      using n by (simp add: hb_list_def hb'_def)
  next
    fix i assume "i < length (hb_list hb')"
    then have i: "i < ?l" by (simp add: hb_list_def hb'_def)
    show "hb_list hb' ! i = take ?n (e # hb_list hb) ! i"
    proof (cases i)
      case 0
      then show ?thesis using n i by (simp add: hb_list_def hb'_def)
    next
      case (Suc j)
      then have "Suc j < ?n" "j < hb_len hb" using i n by (auto split: if_splits)
      then show ?thesis
        using n i Suc ring_back [of "hb_begin hb" ?n j] ring_back_neq [of "hb_begin hb" ?n j]
        by (simp add: hb_list_def hb'_def)
    qed
  qed
  with push inv' show ?thesis by (auto simp: hb'_def)
qed

lemma hb_format_loop:
  assumes ok: "\<forall>e \<in> set (map (\<lambda>i. hb_events hb ! ((hb_begin hb + i) mod hb_size hb)) is). event_ok e"
  shows "length buf + (\<Sum>e\<leftarrow>map (\<lambda>i. hb_events hb ! ((hb_begin hb + i) mod hb_size hb)) is. ev_len e) \<le> m \<Longrightarrow>
    history_format_loop hb m is buf =
     (CHIAKI_ERR_SUCCESS, buf @ concat (map (\<lambda>i. event_bytes (hb_events hb ! ((hb_begin hb + i) mod hb_size hb))) is))"
  using ok
proof (induction "is" arbitrary: buf)
  case (Cons i "is")
  then have "ev_len (hb_events hb ! ((hb_begin hb + i) mod hb_size hb))
      \<le> length (ev_buf (hb_events hb ! ((hb_begin hb + i) mod hb_size hb)))"
    by (simp add: event_ok_def)
  with Cons show ?case
    by (simp add: Let_def event_bytes_def min_absorb2)
qed simp

lemma hb_list_ok: "hb_inv hb \<Longrightarrow> e \<in> set (hb_list hb) \<Longrightarrow> event_ok e"
  by (auto simp: hb_inv_def hb_list_def)

lemma hb_format:
  assumes inv: "hb_inv hb" and m: "5 * hb_size hb \<le> m"
  shows "chiaki_feedback_history_buffer_format hb m =
     (CHIAKI_ERR_SUCCESS, concat (map event_bytes (hb_list hb)), length (concat (map event_bytes (hb_list hb))))"
proof -
  have "(\<Sum>e\<leftarrow>es. ev_len e) \<le> 5 * length es" if "\<forall>e \<in> set es. event_ok e" for es
    using that by (induction es) (auto simp: event_ok_def)
  from this [of "hb_list hb"] have "(\<Sum>e\<leftarrow>hb_list hb. ev_len e) \<le> 5 * hb_len hb"
    using hb_list_ok [OF inv] by (simp add: hb_list_def)
  moreover have "hb_len hb \<le> hb_size hb" using inv by (simp add: hb_inv_def)
  ultimately have "(\<Sum>e\<leftarrow>hb_list hb. ev_len e) \<le> m" using m by linarith
  then have "history_format_loop hb m [0..<hb_len hb] [] =
     (CHIAKI_ERR_SUCCESS, concat (map event_bytes (hb_list hb)))"
    using hb_format_loop [of hb "[0..<hb_len hb]" "[]" m] hb_list_ok [OF inv]
    by (simp add: hb_list_def comp_def)
  then show ?thesis by (simp add: chiaki_feedback_history_buffer_format_def)
qed

section \<open>Properties\<close>

fun hb_run :: "history_event list \<Rightarrow> history_buffer \<Rightarrow> history_buffer option" where
  "hb_run [] hb = Some hb"
| "hb_run (e # es) hb = Option.bind (chiaki_feedback_history_buffer_push hb e) (hb_run es)"

lemma hb_run_list:
  "hb_inv hb \<Longrightarrow> \<forall>e \<in> set es. event_ok e \<Longrightarrow>
   \<exists>hb'. hb_run es hb = Some hb' \<and> hb_inv hb' \<and> hb_size hb' = hb_size hb \<and>
         hb_list hb' = take (hb_size hb) (rev es @ hb_list hb)"
proof (induction es arbitrary: hb)
  case Nil
  then show ?case by (auto simp: hb_inv_def hb_list_def)
next
  case (Cons e es)
  then obtain hb1 where 1: "chiaki_feedback_history_buffer_push hb e = Some hb1" "hb_inv hb1"
    "hb_size hb1 = hb_size hb" "hb_list hb1 = take (hb_size hb) (e # hb_list hb)"
    using hb_push [of hb e] by auto
  from Cons.IH [OF 1(2)] Cons.prems obtain hb' where 2: "hb_run es hb1 = Some hb'" "hb_inv hb'"
    "hb_size hb' = hb_size hb" "hb_list hb' = take (hb_size hb) (rev es @ hb_list hb1)"
    using 1(3) by auto
  have "take (hb_size hb) (rev es @ take (hb_size hb) (e # hb_list hb))
      = take (hb_size hb) (rev es @ e # hb_list hb)"
    by (simp add: take_append min_def)
  with 1 2 show ?case by auto
qed

text \<open>
  C32. The history buffer against its specification: after any pushes into a fresh buffer of \<open>n\<close>
  slots, \<open>format\<close> succeeds for every output buffer of at least \<open>5 * n\<close> bytes and writes
  the last \<open>n\<close> events, newest first, and the size it reports is what it wrote.
\<close>

theorem feedback_history_newest_first:
  assumes "0 < n" and "\<forall>e \<in> set es. event_ok e" and "5 * n \<le> m"
    and "chiaki_feedback_history_buffer_init True n = (CHIAKI_ERR_SUCCESS, Some hb)"
  shows "\<exists>hb'. hb_run es hb = Some hb' \<and>
     chiaki_feedback_history_buffer_format hb' m =
       (let out = concat (map event_bytes (take n (rev es))) in (CHIAKI_ERR_SUCCESS, out, length out))"
proof -
  from hb_init_inv [OF assms(1,4)] have "hb_inv hb" "hb_list hb = []" by simp_all
  moreover have "hb_size hb = n"
    using assms(4) by (auto simp: chiaki_feedback_history_buffer_init_def)
  ultimately obtain hb' where "hb_run es hb = Some hb'" "hb_inv hb'" "hb_size hb' = n"
    "hb_list hb' = take n (rev es)"
    using hb_run_list [of hb es] assms(2) by auto
  with assms(3) show ?thesis by (simp add: hb_format Let_def)
qed


lemma feedback_history_newest_first_witness:
  "\<exists>hb'. hb_run [\<lparr>ev_buf = [1, 2, 0, 0, 0], ev_len = 2\<rparr>, \<lparr>ev_buf = [3, 0, 0, 0, 0], ev_len = 1\<rparr>,
                \<lparr>ev_buf = [4, 5, 6, 0, 0], ev_len = 3\<rparr>]
          (the (snd (chiaki_feedback_history_buffer_init True 2))) = Some hb' \<and>
     chiaki_feedback_history_buffer_format hb' 10 = (CHIAKI_ERR_SUCCESS, [4, 5, 6, 3], length [4, 5, 6, 3 :: u8])"
  using feedback_history_newest_first [of 2
      "[\<lparr>ev_buf = [1, 2, 0, 0, 0], ev_len = 2\<rparr>, \<lparr>ev_buf = [3, 0, 0, 0, 0], ev_len = 1\<rparr>,
        \<lparr>ev_buf = [4, 5, 6, 0, 0], ev_len = 3\<rparr>]" 10
      "the (snd (chiaki_feedback_history_buffer_init True 2))"]
  by (simp add: chiaki_feedback_history_buffer_init_def event_ok_def event_bytes_def Let_def)

text \<open>The button a code byte stands for.\<close>

definition code_button :: "u8 \<Rightarrow> (u64 \<times> bool) option" where
  "code_button c = map_of
     [(0xaf, 0x400, True), (0x8f, 0x400, False), (0xb0, 0x800, True), (0x90, 0x800, False),
      (0xac, 0x1000, True), (0x8c, 0x1000, False), (0xad, 0x2000, True), (0x8d, 0x2000, False),
      (0xb1, 0x4000, True), (0x91, 0x4000, False), (0xae, 0x8000, True), (0x8e, 0x8000, False)] c"

definition code_button3 :: "u8 \<Rightarrow> u64 option" where
  "code_button3 c = map_of
     [(0x88, 0x1), (0x89, 0x2), (0x8a, 0x4), (0x8b, 0x8), (0x82, 0x10), (0x83, 0x20),
      (0x80, 0x40), (0x81, 0x80), (0x84, 0x100), (0x85, 0x200), (0x86, 0x10000), (0x87, 0x20000)] c"

lemma code_button3: "button_code3 b = Some c \<Longrightarrow> code_button3 c = Some b \<and> button_code2 b s = None"
  unfolding button_code3_def code_button3_def button_code2_def
  by (auto split: if_splits)

lemma code_button2: "button_code2 b s = Some c \<Longrightarrow> code_button c = Some (b, s \<noteq> 0) \<and> button_code3 b = None"
  unfolding button_code3_def code_button_def button_code2_def
  by (auto split: if_splits)

definition event_decode :: "bytes \<Rightarrow> (u64 \<times> bool) option" where
  "event_decode bs = (if length bs = 3 then map_option (\<lambda>b. (b, bs ! 2 \<noteq> 0)) (code_button3 (bs ! 1))
                      else code_button (bs ! 1))"

lemma button_codes_iff:
  "button_code3 b = None \<and> button_code2 b s = None \<longleftrightarrow> b \<notin> set (map (\<lambda>i. 2 ^ i) [0..<18])"
  by (simp add: button_code3_def button_code2_def upt_rec)

lemma set_button_success_iff:
  "fst (chiaki_feedback_history_event_set_button e b s) = CHIAKI_ERR_SUCCESS \<longleftrightarrow>
   b \<in> set (map (\<lambda>i. 2 ^ i) [0..<18])"
  using button_codes_iff [of b s] code_button3 [of b] code_button2 [of b s]
  by (auto simp: chiaki_feedback_history_event_set_button_def Let_def split: option.splits)

text \<open>
  Button events determine their button: whenever \<open>set_button\<close> succeeds, the bytes of
  the event decode to the button and to whether it is pressed, so two events with equal
  bytes report the same press; and it succeeds exactly for the eighteen ids \<open>1 << 0\<close> to
  \<open>1 << 17\<close>.
\<close>

theorem feedback_button_events:
  assumes "event_ok e"
  shows "(let (err, e') = chiaki_feedback_history_event_set_button e b s in
     (err = CHIAKI_ERR_SUCCESS \<longleftrightarrow> b \<in> set (map (\<lambda>i. 2 ^ i) [0..<18])) \<and>
     (err = CHIAKI_ERR_SUCCESS \<longrightarrow> event_decode (event_bytes e') = Some (b, s \<noteq> 0)))"
proof -
  have "fst (chiaki_feedback_history_event_set_button e b s) = CHIAKI_ERR_SUCCESS \<longleftrightarrow>
   b \<in> set (map (\<lambda>i. 2 ^ i) [0..<18])" by (rule set_button_success_iff)
  moreover obtain a0 a1 a2 a3 a4 where "ev_buf e = [a0, a1, a2, a3, a4]"
    using assms by (auto simp: event_ok_def length_Suc_conv numeral_eq_Suc)
  ultimately show ?thesis
    using code_button3 [of b] code_button2 [of b s]
    by (auto simp: chiaki_feedback_history_event_set_button_def Let_def event_decode_def event_bytes_def
        split: option.splits)
qed

lemma feedback_button_events_witness:
  "chiaki_feedback_history_event_set_button \<lparr>ev_buf = [0, 0, 0, 0, 0], ev_len = 0\<rparr> 0x10000 7
     = (CHIAKI_ERR_SUCCESS, \<lparr>ev_buf = [0x80, 0x86, 7, 0, 0], ev_len = 3\<rparr>) \<and>
   event_decode [0x80, 0x86, 7] = Some (0x10000, True)"
proof -
  have e: "chiaki_feedback_history_event_set_button \<lparr>ev_buf = [0, 0, 0, 0, 0], ev_len = 0\<rparr> 0x10000 7
     = (CHIAKI_ERR_SUCCESS, \<lparr>ev_buf = [0x80, 0x86, 7, 0, 0], ev_len = 3\<rparr>)"
    by code_simp
  have "event_ok \<lparr>ev_buf = [0, 0, 0, 0, 0], ev_len = 0\<rparr>" by code_simp
  from feedback_button_events [OF this, of "0x10000" 7] show ?thesis
    by (simp add: e event_bytes_def)
qed

end
