(* ===== verification/Feedback_Sender.thy ===== *)
theory Feedback_Sender
  imports Feedback
begin

text \<open>
  \<open>lib/src/feedbacksender.c\<close>: the thread that turns changes of the controller state into
  feedback state and feedback history packets. The mutex serialises the operations, so each
  is one step on the shared state; what the thread hands to Takion is a list of sends. The
  calls to the platform (allocation, mutex, condition variable, thread) are their results.
  The stack variable \<open>event\<close> is not initialised by the code: its contents are the argument
  \<open>ev0\<close>.
\<close>

section \<open>State\<close>

datatype 'f feedback_send =
    SendFeedbackState u16 "'f feedback_state"
  | SendFeedbackHistory u16 bytes

record 'f feedback_sender =
  state_seq_num :: u16
  history_seq_num :: u16
  history_buf :: history_buffer
  should_stop :: bool
  controller_state_prev :: "'f controller_state"
  controller_state :: "'f controller_state"
  controller_state_changed :: bool

abbreviation "FEEDBACK_STATE_TIMEOUT_MAX_MS \<equiv> 200 :: nat"
abbreviation "FEEDBACK_HISTORY_BUFFER_SIZE \<equiv> 0x10 :: nat"

datatype fs_resource = FS_History | FS_Mutex | FS_Cond | FS_Thread

text \<open>
  The resources held after \<open>init\<close> are part of the result. The flags \<open>should_stop\<close> and
  \<open>controller_state_changed\<close> are not written: they keep what the memory \<open>fs\<close> held.
\<close>

definition chiaki_feedback_sender_init ::
  "('f, 'd) float_ops \<Rightarrow> bool \<Rightarrow> ChiakiErrorCode \<Rightarrow> ChiakiErrorCode \<Rightarrow> ChiakiErrorCode \<Rightarrow>
   'f feedback_sender \<Rightarrow> ChiakiErrorCode \<times> 'f feedback_sender \<times> fs_resource list" where
  "chiaki_feedback_sender_init fp alloc mutex_r cond_r thread_r fs =
     (let idle = chiaki_controller_state_set_idle fp;
          fs = fs\<lparr>controller_state_prev := idle, controller_state := idle,
                  state_seq_num := 0, history_seq_num := 0\<rparr>
      in case chiaki_feedback_history_buffer_init alloc FEEDBACK_HISTORY_BUFFER_SIZE of
           (err, None) \<Rightarrow> (err, fs, [])
         | (_, Some hb) \<Rightarrow>
             (let fs = fs\<lparr>history_buf := hb\<rparr> in
              if mutex_r \<noteq> CHIAKI_ERR_SUCCESS then (mutex_r, fs, removeAll FS_History [FS_History])
              else if cond_r \<noteq> CHIAKI_ERR_SUCCESS then
                (cond_r, fs, removeAll FS_History (removeAll FS_Mutex [FS_History, FS_Mutex]))
              else if thread_r \<noteq> CHIAKI_ERR_SUCCESS then
                (thread_r, fs, removeAll FS_History (removeAll FS_Mutex (removeAll FS_Cond
                                 [FS_History, FS_Mutex, FS_Cond])))
              else (CHIAKI_ERR_SUCCESS, fs, [FS_History, FS_Mutex, FS_Cond, FS_Thread])))"

text \<open>What \<open>fini\<close> does before it joins the thread.\<close>

definition chiaki_feedback_sender_fini :: "'f feedback_sender \<Rightarrow> 'f feedback_sender" where
  "chiaki_feedback_sender_fini fs = fs\<lparr>should_stop := True\<rparr>"

definition chiaki_feedback_sender_set_controller_state ::
  "('f, 'd) float_ops \<Rightarrow> ChiakiErrorCode \<Rightarrow> 'f feedback_sender \<Rightarrow> 'f controller_state \<Rightarrow>
   ChiakiErrorCode \<times> 'f feedback_sender" where
  "chiaki_feedback_sender_set_controller_state fp mutex_r fs st =
     (if mutex_r \<noteq> CHIAKI_ERR_SUCCESS then (mutex_r, fs)
      else if chiaki_controller_state_equals fp (controller_state fs) st then (CHIAKI_ERR_SUCCESS, fs)
      else (CHIAKI_ERR_SUCCESS, fs\<lparr>controller_state := st, controller_state_changed := True\<rparr>))"

section \<open>The thread\<close>

definition controller_state_equals_for_feedback_state ::
  "('f, 'd) float_ops \<Rightarrow> 'f controller_state \<Rightarrow> 'f controller_state \<Rightarrow> bool" where
  "controller_state_equals_for_feedback_state fp a b \<longleftrightarrow>
     left_x a = left_x b \<and> left_y a = left_y b \<and> right_x a = right_x b \<and> right_y a = right_y b \<and>
     CHECKF fp (gyro_x a) (gyro_x b) \<and> CHECKF fp (gyro_y a) (gyro_y b) \<and>
     CHECKF fp (gyro_z a) (gyro_z b) \<and> CHECKF fp (accel_x a) (accel_x b) \<and>
     CHECKF fp (accel_y a) (accel_y b) \<and> CHECKF fp (accel_z a) (accel_z b) \<and>
     CHECKF fp (orient_x a) (orient_x b) \<and> CHECKF fp (orient_y a) (orient_y b) \<and>
     CHECKF fp (orient_z a) (orient_z b) \<and> CHECKF fp (orient_w a) (orient_w b)"

definition feedback_sender_send_state ::
  "'f feedback_sender \<Rightarrow> 'f feedback_sender \<times> 'f feedback_send list" where
  "feedback_sender_send_state fs =
     (let c = controller_state fs;
          st = \<lparr>fs_gyro_x = gyro_x c, fs_gyro_y = gyro_y c, fs_gyro_z = gyro_z c,
                fs_accel_x = accel_x c, fs_accel_y = accel_y c, fs_accel_z = accel_z c,
                fs_orient_x = orient_x c, fs_orient_y = orient_y c, fs_orient_z = orient_z c,
                fs_orient_w = orient_w c,
                fs_left_x = left_x c, fs_left_y = left_y c,
                fs_right_x = right_x c, fs_right_y = right_y c\<rparr>
      in (fs\<lparr>state_seq_num := state_seq_num fs + 1\<rparr>, [SendFeedbackState (state_seq_num fs) st]))"

definition controller_state_equals_for_feedback_history ::
  "'f controller_state \<Rightarrow> 'f controller_state \<Rightarrow> bool" where
  "controller_state_equals_for_feedback_history a b \<longleftrightarrow>
     buttons a = buttons b \<and> l2_state a = l2_state b \<and> r2_state a = r2_state b \<and>
     list_all2 touch_equals (touches a) (touches b)"

definition feedback_sender_send_history_packet ::
  "'f feedback_sender \<Rightarrow> 'f feedback_sender \<times> 'f feedback_send list" where
  "feedback_sender_send_history_packet fs =
     (case chiaki_feedback_history_buffer_format (history_buf fs) 0x300 of
        (err, buf, buf_size) \<Rightarrow>
          if err \<noteq> CHIAKI_ERR_SUCCESS then (fs, [])
          else (fs\<lparr>history_seq_num := history_seq_num fs + 1\<rparr>,
                [SendFeedbackHistory (history_seq_num fs) (take buf_size buf)]))"

text \<open>The push of an event followed by the packet, on the state and the sends so far.\<close>

definition history_emit ::
  "history_event \<Rightarrow> 'f feedback_sender \<times> 'f feedback_send list \<Rightarrow>
   ('f feedback_sender \<times> 'f feedback_send list) option" where
  "history_emit event s = (case s of (fs, out) \<Rightarrow> do {
     hb \<leftarrow> chiaki_feedback_history_buffer_push (history_buf fs) event;
     (case feedback_sender_send_history_packet (fs\<lparr>history_buf := hb\<rparr>) of
        (fs, sends) \<Rightarrow> Some (fs, out @ sends)) })"

definition send_button_step ::
  "history_event \<Rightarrow> 'f controller_state \<Rightarrow> 'f controller_state \<Rightarrow> nat \<Rightarrow>
   'f feedback_sender \<times> 'f feedback_send list \<Rightarrow>
   ('f feedback_sender \<times> 'f feedback_send list) option" where
  "send_button_step ev0 state_prev state_now i s =
     (let button_id = push_bit i 1 :: u64;
          prev = (ucast (buttons state_prev) AND button_id \<noteq> 0);
          now = (ucast (buttons state_now) AND button_id \<noteq> 0)
      in if prev \<noteq> now then
           (case chiaki_feedback_history_event_set_button ev0 button_id (if now then 0xff else 0) of
              (err, event) \<Rightarrow> if err \<noteq> CHIAKI_ERR_SUCCESS then Some s else history_emit event s)
         else Some s)"

definition send_analog_step ::
  "history_event \<Rightarrow> u32 \<Rightarrow> u8 \<Rightarrow> u8 \<Rightarrow> 'f feedback_sender \<times> 'f feedback_send list \<Rightarrow>
   ('f feedback_sender \<times> 'f feedback_send list) option" where
  "send_analog_step ev0 button prev now s =
     (if prev \<noteq> now then
        (case chiaki_feedback_history_event_set_button ev0 (ucast button) now of
           (err, event) \<Rightarrow> if err = CHIAKI_ERR_SUCCESS then history_emit event s else Some s)
      else Some s)"

definition send_touch_step ::
  "history_event \<Rightarrow> controller_touch list \<Rightarrow> controller_touch list \<Rightarrow> nat \<Rightarrow>
   'f feedback_sender \<times> 'f feedback_send list \<Rightarrow>
   ('f feedback_sender \<times> 'f feedback_send list) option" where
  "send_touch_step ev0 prevs nows i s =
     (let prev = prevs ! i; now = nows ! i in
      if touch_id prev \<noteq> touch_id now \<and> \<not> touch_up prev then
        history_emit (chiaki_feedback_history_event_set_touchpad ev0 False (touch_id prev)
                        (touch_x prev) (touch_y prev)) s
      else if \<not> touch_up now \<and>
              (touch_id prev \<noteq> touch_id now \<or> touch_x prev \<noteq> touch_x now \<or> touch_y prev \<noteq> touch_y now) then
        history_emit (chiaki_feedback_history_event_set_touchpad ev0 True (touch_id now)
                        (touch_x now) (touch_y now)) s
      else Some s)"

definition feedback_sender_send_history ::
  "history_event \<Rightarrow> 'f feedback_sender \<Rightarrow> ('f feedback_sender \<times> 'f feedback_send list) option" where
  "feedback_sender_send_history ev0 fs =
     (let state_prev = controller_state_prev fs; state_now = controller_state fs in do {
        s \<leftarrow> fold_opt (send_button_step ev0 state_prev state_now) [0..<CHIAKI_CONTROLLER_BUTTONS_COUNT] (fs, []);
        s \<leftarrow> send_analog_step ev0 CHIAKI_CONTROLLER_ANALOG_BUTTON_L2 (l2_state state_prev) (l2_state state_now) s;
        s \<leftarrow> send_analog_step ev0 CHIAKI_CONTROLLER_ANALOG_BUTTON_R2 (r2_state state_prev) (r2_state state_now) s;
        fold_opt (send_touch_step ev0 (touches state_prev) (touches state_now))
          [0..<CHIAKI_CONTROLLER_TOUCHES_MAX] s })"

definition state_cond_check :: "'f feedback_sender \<Rightarrow> bool" where
  "state_cond_check fs \<longleftrightarrow> should_stop fs \<or> controller_state_changed fs"

text \<open>
  One iteration of the loop: \<open>err\<close> is what the timed wait returned. The first component of the
  result tells whether the loop goes on.
\<close>

definition feedback_sender_iteration ::
  "('f, 'd) float_ops \<Rightarrow> history_event \<Rightarrow> ChiakiErrorCode \<Rightarrow> 'f feedback_sender \<Rightarrow>
   (bool \<times> 'f feedback_sender \<times> 'f feedback_send list) option" where
  "feedback_sender_iteration fp ev0 err fs =
     (if err \<noteq> CHIAKI_ERR_SUCCESS \<and> err \<noteq> CHIAKI_ERR_TIMEOUT then Some (False, fs, [])
      else if should_stop fs then Some (False, fs, [])
      else let changed = controller_state_changed fs;
               fs = (if changed then fs\<lparr>controller_state_changed := False\<rparr> else fs);
               send_feedback_state = (if changed then
                  \<not> controller_state_equals_for_feedback_state fp (controller_state fs) (controller_state_prev fs)
                  else True);
               send_feedback_history = (if changed then
                  \<not> controller_state_equals_for_feedback_history (controller_state fs) (controller_state_prev fs)
                  else False);
               (fs, out1) = (if send_feedback_state then feedback_sender_send_state fs else (fs, []))
           in do {
             (fs, out2) \<leftarrow> (if send_feedback_history then feedback_sender_send_history ev0 fs else Some (fs, []));
             Some (True, fs\<lparr>controller_state_prev := controller_state fs\<rparr>, out1 @ out2) })"

text \<open>The thread over what its waits return and what other threads do meanwhile.\<close>

datatype 'f fs_event =
    FS_SetState "'f controller_state"
  | FS_Stop
  | FS_Wake ChiakiErrorCode

fun feedback_sender_thread_func ::
  "('f, 'd) float_ops \<Rightarrow> history_event \<Rightarrow> 'f fs_event list \<Rightarrow> 'f feedback_sender \<Rightarrow>
   ('f feedback_sender \<times> 'f feedback_send list) option" where
  "feedback_sender_thread_func fp ev0 [] fs = Some (fs, [])"
| "feedback_sender_thread_func fp ev0 (FS_SetState st # evs) fs =
     feedback_sender_thread_func fp ev0 evs
       (snd (chiaki_feedback_sender_set_controller_state fp CHIAKI_ERR_SUCCESS fs st))"
| "feedback_sender_thread_func fp ev0 (FS_Stop # evs) fs =
     feedback_sender_thread_func fp ev0 evs (chiaki_feedback_sender_fini fs)"
| "feedback_sender_thread_func fp ev0 (FS_Wake err # evs) fs = do {
     (go, fs, out) \<leftarrow> feedback_sender_iteration fp ev0 err fs;
     if go then do {
       (fs, out') \<leftarrow> feedback_sender_thread_func fp ev0 evs fs;
       Some (fs, out @ out') }
     else Some (fs, out) }"


section \<open>The events of a change\<close>

text \<open>The specification: the events that a change from \<open>prev\<close> to \<open>now\<close> produces, in order.\<close>

definition button_event ::
  "history_event \<Rightarrow> 'f controller_state \<Rightarrow> 'f controller_state \<Rightarrow> nat \<Rightarrow> history_event option" where
  "button_event ev0 prev now i =
     (if bit (buttons prev) i = bit (buttons now) i then None
      else Some (snd (chiaki_feedback_history_event_set_button ev0 (2 ^ i)
                        (if bit (buttons now) i then 0xff else 0))))"

definition analog_event :: "history_event \<Rightarrow> u32 \<Rightarrow> u8 \<Rightarrow> u8 \<Rightarrow> history_event option" where
  "analog_event ev0 button prev now =
     (if prev = now then None
      else Some (snd (chiaki_feedback_history_event_set_button ev0 (ucast button) now)))"

definition touch_event ::
  "history_event \<Rightarrow> controller_touch \<Rightarrow> controller_touch \<Rightarrow> history_event option" where
  "touch_event ev0 prev now =
     (if \<not> touch_up prev \<and> touch_id prev \<noteq> touch_id now then
        Some (chiaki_feedback_history_event_set_touchpad ev0 False (touch_id prev) (touch_x prev) (touch_y prev))
      else if \<not> touch_up now \<and> prev \<noteq> now then
        Some (chiaki_feedback_history_event_set_touchpad ev0 True (touch_id now) (touch_x now) (touch_y now))
      else None)"

definition history_delta ::
  "history_event \<Rightarrow> 'f controller_state \<Rightarrow> 'f controller_state \<Rightarrow> history_event list" where
  "history_delta ev0 prev now =
     List.map_filter (button_event ev0 prev now) [0..<16]
     @ opt_list (analog_event ev0 CHIAKI_CONTROLLER_ANALOG_BUTTON_L2 (l2_state prev) (l2_state now))
     @ opt_list (analog_event ev0 CHIAKI_CONTROLLER_ANALOG_BUTTON_R2 (r2_state prev) (r2_state now))
     @ List.map_filter (\<lambda>i. touch_event ev0 (touches prev ! i) (touches now ! i)) [0..<2]"

lemma set_button_ok:
  "i < 18 \<Longrightarrow> fst (chiaki_feedback_history_event_set_button ev0 (2 ^ i) s) = CHIAKI_ERR_SUCCESS"
  unfolding set_button_success_iff by (simp add: imageI)

lemma ucast_and_bit: "ucast (w :: u32) AND push_bit i (1 :: u64) \<noteq> 0 \<longleftrightarrow> bit w i" if "i < 32"
proof -
  have "ucast w AND push_bit i (1 :: u64) = (if bit w i then push_bit i 1 else 0)"
    using that by (intro bit_word_eqI) (auto simp: bit_simps)
  moreover have "push_bit i (1 :: u64) \<noteq> 0"
    using that by (simp add: push_bit_eq_mult bit_eq_iff exI [of _ i] bit_simps)
  ultimately show ?thesis by simp
qed

lemma send_button_step_event:
  assumes "i < 16"
  shows "send_button_step ev0 prev now i s =
     (case button_event ev0 prev now i of None \<Rightarrow> Some s | Some e \<Rightarrow> history_emit e s)"
proof -
  have "push_bit i (1 :: u64) = 2 ^ i" by (simp add: push_bit_eq_mult)
  then show ?thesis
    using ucast_and_bit [of i] set_button_ok [of i ev0] assms
    by (auto simp: send_button_step_def button_event_def Let_def split: prod.splits)
       (metis (full_types) fst_conv)+
qed


lemma send_analog_step_event:
  assumes "button = 0x10000 \<or> button = 0x20000"
  shows "send_analog_step ev0 button prev now s = fold_opt history_emit (opt_list (analog_event ev0 button prev now)) s"
proof -
  have "fst (chiaki_feedback_history_event_set_button ev0 (2 ^ 16) now) = CHIAKI_ERR_SUCCESS"
    "fst (chiaki_feedback_history_event_set_button ev0 (2 ^ 17) now) = CHIAKI_ERR_SUCCESS"
    by (rule set_button_ok; simp)+
  then have "fst (chiaki_feedback_history_event_set_button ev0 (ucast button) now) = CHIAKI_ERR_SUCCESS"
    using assms by auto
  then show ?thesis
    by (auto simp: send_analog_step_def analog_event_def split: prod.splits Option.bind_splits)
qed

lemma send_touch_step_event:
  "send_touch_step ev0 prevs nows i s =
     (case touch_event ev0 (prevs ! i) (nows ! i) of None \<Rightarrow> Some s | Some e \<Rightarrow> history_emit e s)"
  by (cases "prevs ! i"; cases "nows ! i")
    (simp add: send_touch_step_def touch_event_def Let_def touch_up_def)

text \<open>\<open>send_history\<close> runs the emission over the events of the change.\<close>

lemma send_history_delta:
  "feedback_sender_send_history ev0 fs =
     fold_opt history_emit (history_delta ev0 (controller_state_prev fs) (controller_state fs)) (fs, [])"
proof -
  let ?p = "controller_state_prev fs" and ?n = "controller_state fs"
  have b: "fold_opt (send_button_step ev0 ?p ?n) [0..<16] s
      = fold_opt history_emit (List.map_filter (button_event ev0 ?p ?n) [0..<16]) s" for s
    by (rule fold_opt_map_filter) (simp add: send_button_step_event)
  have t: "fold_opt (send_touch_step ev0 (touches ?p) (touches ?n)) [0..<2] s
      = fold_opt history_emit (List.map_filter (\<lambda>i. touch_event ev0 (touches ?p ! i) (touches ?n ! i)) [0..<2]) s" for s
    by (rule fold_opt_map_filter) (rule send_touch_step_event)
  show ?thesis
    unfolding feedback_sender_send_history_def history_delta_def fold_opt_append Let_def
      CHIAKI_CONTROLLER_BUTTONS_COUNT_def CHIAKI_CONTROLLER_TOUCHES_MAX_def b t
    by (simp add: send_analog_step_event cong: bind_option_cong)
qed

text \<open>The packets that the emission of some events produces, from a ring and a sequence number.\<close>

fun history_packets :: "nat \<Rightarrow> history_event list \<Rightarrow> u16 \<Rightarrow> history_event list \<Rightarrow> 'f feedback_send list" where
  "history_packets n ring seq [] = []"
| "history_packets n ring seq (e # es) =
     SendFeedbackHistory seq (concat (map event_bytes (take n (e # ring))))
     # history_packets n (take n (e # ring)) (seq + 1) es"

lemma history_emit_spec:
  assumes "hb_inv (history_buf fs)" "hb_size (history_buf fs) = 16" "event_ok e"
  shows "\<exists>hb. history_emit e (fs, out) = Some (fs\<lparr>history_buf := hb, history_seq_num := history_seq_num fs + 1\<rparr>,
            out @ [SendFeedbackHistory (history_seq_num fs) (concat (map event_bytes (take 16 (e # hb_list (history_buf fs)))))])
          \<and> hb_inv hb \<and> hb_size hb = 16 \<and> hb_list hb = take 16 (e # hb_list (history_buf fs))"
proof -
  obtain hb where hb: "chiaki_feedback_history_buffer_push (history_buf fs) e = Some hb" "hb_inv hb"
    "hb_size hb = 16" "hb_list hb = take 16 (e # hb_list (history_buf fs))"
    using hb_push [OF assms(1,3)] assms(2) by auto
  then show ?thesis
    using hb_format [OF hb(2), of "0x300"]
    by (intro exI [of _ hb]) (simp add: history_emit_def feedback_sender_send_history_packet_def)
qed

lemma history_emit_all:
  assumes "hb_inv (history_buf fs)" "hb_size (history_buf fs) = 16" "\<forall>e \<in> set es. event_ok e"
  shows "\<exists>hb. fold_opt history_emit es (fs, out) =
            Some (fs\<lparr>history_buf := hb, history_seq_num := history_seq_num fs + of_nat (length es)\<rparr>,
                  out @ history_packets 16 (hb_list (history_buf fs)) (history_seq_num fs) es)
          \<and> hb_inv hb \<and> hb_size hb = 16 \<and> hb_list hb = take 16 (rev es @ hb_list (history_buf fs))"
  using assms
proof (induction es arbitrary: fs out)
  case Nil
  have "length (hb_list (history_buf fs)) \<le> 16"
    using Nil by (simp add: hb_inv_def hb_list_def)
  with Nil show ?case by (intro exI [of _ "history_buf fs"]) simp
next
  case (Cons e es)
  from history_emit_spec [of fs e out] Cons.prems obtain hb where
    1: "history_emit e (fs, out) = Some (fs\<lparr>history_buf := hb, history_seq_num := history_seq_num fs + 1\<rparr>,
            out @ [SendFeedbackHistory (history_seq_num fs) (concat (map event_bytes (take 16 (e # hb_list (history_buf fs)))))])"
       "hb_inv hb" "hb_size hb = 16" "hb_list hb = take 16 (e # hb_list (history_buf fs))" by auto
  note ring = take_append_take [of 16 "rev es" "e # hb_list (history_buf fs)"]
  with Cons.IH [of "fs\<lparr>history_buf := hb, history_seq_num := history_seq_num fs + 1\<rparr>"
      "out @ [SendFeedbackHistory (history_seq_num fs) (concat (map event_bytes (take 16 (e # hb_list (history_buf fs)))))]"]
    1 Cons.prems ring
  show ?case by (auto simp del: take_append simp: algebra_simps)
qed

lemma history_delta_ok: "event_ok ev0 \<Longrightarrow> e \<in> set (history_delta ev0 prev now) \<Longrightarrow> event_ok e"
  by (auto simp: history_delta_def map_filter_def button_event_def analog_event_def touch_event_def
      intro: event_ok_button event_ok_touchpad split: if_splits)


section \<open>Properties\<close>

text \<open>
  The invariant of the sender: a ring of 16 slots, two touch slots in both states, and a
  previous state that lags behind only while a change is pending.
\<close>

definition sender_inv :: "'f feedback_sender \<Rightarrow> bool" where
  "sender_inv fs \<longleftrightarrow> hb_inv (history_buf fs) \<and> hb_size (history_buf fs) = FEEDBACK_HISTORY_BUFFER_SIZE \<and>
     length (touches (controller_state fs)) = 2 \<and> length (touches (controller_state_prev fs)) = 2 \<and>
     (\<not> controller_state_changed fs \<longrightarrow> controller_state_prev fs = controller_state fs)"

lemma sender_init_inv:
  "chiaki_feedback_sender_init fp alloc m c t fs = (CHIAKI_ERR_SUCCESS, fs', res) \<Longrightarrow> sender_inv fs'"
  by (auto simp: chiaki_feedback_sender_init_def sender_inv_def hb_inv_def event_ok_def Let_def
      chiaki_feedback_history_buffer_init_def chiaki_controller_state_set_idle_def
      CHIAKI_CONTROLLER_TOUCHES_MAX_def split: if_splits)

lemma sender_init_no_leak:
  "chiaki_feedback_sender_init fp alloc m c t fs = (err, fs', res) \<Longrightarrow> err \<noteq> CHIAKI_ERR_SUCCESS \<Longrightarrow> res = []"
  by (auto simp: chiaki_feedback_sender_init_def Let_def
      chiaki_feedback_history_buffer_init_def split: if_splits)

lemma sender_set_state_inv:
  "sender_inv fs \<Longrightarrow> length (touches st) = 2 \<Longrightarrow>
   sender_inv (snd (chiaki_feedback_sender_set_controller_state fp err fs st))"
  by (simp add: sender_inv_def chiaki_feedback_sender_set_controller_state_def)

lemma history_delta_equal:
  assumes "controller_state_equals_for_feedback_history now prev"
    "length (touches now) = 2" "length (touches prev) = 2"
  shows "history_delta ev0 prev now = []"
proof -
  have t: "touch_equals (touches now ! i) (touches prev ! i)" if "i < 2" for i
    using assms that by (auto simp: controller_state_equals_for_feedback_history_def list_all2_conv_all_nth)
  have "touch_event ev0 (touches prev ! i) (touches now ! i) = None" if "i < 2" for i
    using t [OF that] by (cases "touches prev ! i"; cases "touches now ! i")
      (auto simp: touch_event_def touch_equals_def touch_up_def)
  then show ?thesis
    using assms
    by (simp add: history_delta_def map_filter_def button_event_def analog_event_def
        controller_state_equals_for_feedback_history_def)
qed

lemma history_delta_refl [simp]: "history_delta ev0 st st = []"
  by (simp add: history_delta_def map_filter_def button_event_def analog_event_def touch_event_def)

definition feedback_state_of :: "'f controller_state \<Rightarrow> 'f feedback_state" where
  "feedback_state_of c =
     \<lparr>fs_gyro_x = gyro_x c, fs_gyro_y = gyro_y c, fs_gyro_z = gyro_z c,
      fs_accel_x = accel_x c, fs_accel_y = accel_y c, fs_accel_z = accel_z c,
      fs_orient_x = orient_x c, fs_orient_y = orient_y c, fs_orient_z = orient_z c,
      fs_orient_w = orient_w c, fs_left_x = left_x c, fs_left_y = left_y c,
      fs_right_x = right_x c, fs_right_y = right_y c\<rparr>"

text \<open>
  C31. One wake-up of the sender thread that is not told to stop. It sends a feedback state
  unless a change is pending that leaves sticks and motion as they were (as that of a button
  does), so on a timeout or when sticks or motion changed; then one history
  packet per event of the change from the previous to the current state (buttons in bit
  order, L2, R2, the two touch slots), each carrying the latest sixteen events, newest
  first, under consecutive 16 bit sequence numbers; the shortcut that skips an unchanged
  history loses no event. Afterwards nothing is pending and the invariant holds.
\<close>

theorem feedback_sender_wakeup:
  assumes inv: "sender_inv fs" and ev0: "event_ok ev0" and run: "\<not> should_stop fs"
    and err: "err = CHIAKI_ERR_SUCCESS \<or> err = CHIAKI_ERR_TIMEOUT"
  defines "delta \<equiv> history_delta ev0 (controller_state_prev fs) (controller_state fs)"
  shows "\<exists>fs'. feedback_sender_iteration fp ev0 err fs = Some (True, fs',
       (if controller_state_changed fs \<and>
           controller_state_equals_for_feedback_state fp (controller_state fs) (controller_state_prev fs)
        then [] else [SendFeedbackState (state_seq_num fs) (feedback_state_of (controller_state fs))])
       @ history_packets 16 (hb_list (history_buf fs)) (history_seq_num fs) delta) \<and>
     sender_inv fs' \<and> \<not> controller_state_changed fs' \<and> controller_state_prev fs' = controller_state fs \<and>
     controller_state fs' = controller_state fs \<and>
     hb_list (history_buf fs') = take 16 (rev delta @ hb_list (history_buf fs)) \<and>
     history_seq_num fs' = history_seq_num fs + of_nat (length delta)"
proof -
  define fs1 where "fs1 = (if controller_state_changed fs then fs\<lparr>controller_state_changed := False\<rparr> else fs)"
  define s1 where "s1 = (if controller_state_changed fs \<and>
           controller_state_equals_for_feedback_state fp (controller_state fs) (controller_state_prev fs)
        then (fs1, []) else feedback_sender_send_state fs1)"
  have s1: "controller_state (fst s1) = controller_state fs" "history_buf (fst s1) = history_buf fs"
    "controller_state_prev (fst s1) = controller_state_prev fs" "history_seq_num (fst s1) = history_seq_num fs"
    "\<not> controller_state_changed (fst s1)" "hb_inv (history_buf fs)" "hb_size (history_buf fs) = 16"
    "snd s1 = (if controller_state_changed fs \<and>
           controller_state_equals_for_feedback_state fp (controller_state fs) (controller_state_prev fs)
        then [] else [SendFeedbackState (state_seq_num fs) (feedback_state_of (controller_state fs))])"
    using inv by (simp_all add: s1_def fs1_def feedback_sender_send_state_def feedback_state_of_def sender_inv_def Let_def)
  obtain hb where hb: "fold_opt history_emit delta (fst s1, []) =
      Some ((fst s1)\<lparr>history_buf := hb, history_seq_num := history_seq_num fs + of_nat (length delta)\<rparr>,
            history_packets 16 (hb_list (history_buf fs)) (history_seq_num fs) delta)"
    "hb_inv hb" "hb_size hb = 16" "hb_list hb = take 16 (rev delta @ hb_list (history_buf fs))"
    using history_emit_all [of "fst s1" delta "[]"] history_delta_ok [OF ev0] s1 unfolding delta_def by auto
  have gate: "(if controller_state_changed fs \<and>
         \<not> controller_state_equals_for_feedback_history (controller_state fs) (controller_state_prev fs)
      then feedback_sender_send_history ev0 (fst s1) else Some (fst s1, []))
      = fold_opt history_emit delta (fst s1, [])"
    using inv history_delta_equal [of "controller_state fs" "controller_state_prev fs" ev0] s1
    by (auto simp: send_history_delta delta_def sender_inv_def)
  have "feedback_sender_iteration fp ev0 err fs = Option.bind (fold_opt history_emit delta (fst s1, []))
      (\<lambda>(fs, out2). Some (True, fs\<lparr>controller_state_prev := controller_state fs\<rparr>, snd s1 @ out2))"
    using err run unfolding gate [symmetric]
    by (auto simp: feedback_sender_iteration_def Let_def s1_def fs1_def feedback_sender_send_state_def)
  then show ?thesis
    using hb s1 inv by (simp add: sender_inv_def)
qed


definition example_sender :: "unit feedback_sender" where
  "example_sender =
     (let st = chiaki_controller_state_set_idle unit_float_ops in
      \<lparr>state_seq_num = 7, history_seq_num = 0xffff,
       history_buf = the (snd (chiaki_feedback_history_buffer_init True 16)), should_stop = False,
       controller_state_prev = st, controller_state = st\<lparr>l2_state := 5\<rparr>, controller_state_changed = True\<rparr>)"

lemma feedback_sender_wakeup_witness:
  "\<exists>fs'. feedback_sender_iteration unit_float_ops \<lparr>ev_buf = [1, 2, 3, 4, 5], ev_len = 0\<rparr>
           CHIAKI_ERR_SUCCESS example_sender = Some (True, fs', [SendFeedbackHistory 0xffff [0x80, 0x86, 5]])
         \<and> history_seq_num fs' = 0"
proof -
  let ?ev = "\<lparr>ev_buf = [1, 2, 3, 4, 5 :: u8], ev_len = 0\<rparr>"
  have 1: "sender_inv example_sender"
    by (simp add: example_sender_def sender_inv_def hb_inv_def event_ok_def Let_def
      chiaki_feedback_history_buffer_init_def chiaki_controller_state_set_idle_def
      CHIAKI_CONTROLLER_TOUCHES_MAX_def)
  have 2: "event_ok ?ev" "\<not> should_stop example_sender" "controller_state_changed example_sender"
    "history_seq_num example_sender = 0xffff"
    by (simp_all add: event_ok_def example_sender_def Let_def)
  have 3: "controller_state_equals_for_feedback_state unit_float_ops (controller_state example_sender)
      (controller_state_prev example_sender)"
    by (simp add: example_sender_def Let_def controller_state_equals_for_feedback_state_def CHECKF_def unit_float_ops_def)
  have 4: "hb_list (history_buf example_sender) = []"
    by (simp add: example_sender_def Let_def chiaki_feedback_history_buffer_init_def hb_list_def)
  have 5: "history_delta ?ev (controller_state_prev example_sender) (controller_state example_sender)
      = [\<lparr>ev_buf = [0x80, 0x86, 5, 4, 5], ev_len = 3\<rparr>]"
    by (simp add: example_sender_def Let_def history_delta_def map_filter_def button_event_def analog_event_def
      touch_event_def chiaki_feedback_history_event_set_button_def button_code3_def chiaki_controller_state_set_idle_def)
  from feedback_sender_wakeup [OF 1 2(1,2) disjI1 [OF refl], where fp = unit_float_ops] show ?thesis
    unfolding 4 5 by (auto simp: 2 3 event_bytes_def)
qed

text \<open>
  A touch slot that goes straight from one id to another between two wake-ups reports only
  the end of the old touch: the change produces the single event \<open>up\<close> of the old id, the down
  event of the new touch is never sent, and once the states agree again a wake-up has
  nothing more to report.
\<close>

theorem feedback_touch_swap_loses_down:
  assumes "touches prev = [t, u]" and "touches now = [t', u]"
    and "\<not> touch_up t" and "\<not> touch_up t'" and "touch_id t \<noteq> touch_id t'"
    and "buttons prev = buttons now" "l2_state prev = l2_state now" "r2_state prev = r2_state now"
  shows "history_delta ev0 prev now =
      [chiaki_feedback_history_event_set_touchpad ev0 False (touch_id t) (touch_x t) (touch_y t)]
    \<and> history_delta ev0 now now = []"
proof -
  have "[0..<2] = [0, Suc 0]" by (simp add: upt_rec)
  then show ?thesis
    using assms by (simp add: history_delta_def map_filter_def button_event_def analog_event_def touch_event_def)
qed

lemma feedback_touch_swap_loses_down_witness:
  "history_delta \<lparr>ev_buf = [0, 0, 0, 0, 0], ev_len = 0\<rparr>
     (touch_start_st\<lparr>touches := [\<lparr>touch_x = 1, touch_y = 2, touch_id = 0\<rparr>, \<lparr>touch_x = 0, touch_y = 0, touch_id = - 1\<rparr>]\<rparr>)
     (touch_start_st\<lparr>touches := [\<lparr>touch_x = 9, touch_y = 8, touch_id = 1\<rparr>, \<lparr>touch_x = 0, touch_y = 0, touch_id = - 1\<rparr>]\<rparr>)
   = [\<lparr>ev_buf = [0xc0, 0, 0, 0x10, 2], ev_len = 5\<rparr>]"
  using feedback_touch_swap_loses_down [of
      "touch_start_st\<lparr>touches := [\<lparr>touch_x = 1, touch_y = 2, touch_id = 0\<rparr>, \<lparr>touch_x = 0, touch_y = 0, touch_id = - 1\<rparr>]\<rparr>"
      "\<lparr>touch_x = 1, touch_y = 2, touch_id = 0\<rparr>" "\<lparr>touch_x = 0, touch_y = 0, touch_id = - 1\<rparr>"
      "touch_start_st\<lparr>touches := [\<lparr>touch_x = 9, touch_y = 8, touch_id = 1\<rparr>, \<lparr>touch_x = 0, touch_y = 0, touch_id = - 1\<rparr>]\<rparr>"
      "\<lparr>touch_x = 9, touch_y = 8, touch_id = 1\<rparr>" "\<lparr>ev_buf = [0, 0, 0, 0, 0], ev_len = 0\<rparr>"]
  by (simp add: touch_up_def touch_start_st_def chiaki_feedback_history_event_set_touchpad_def)

end
