(* ===== verification/Takion_Types.thy ===== *)
theory Takion_Types
  imports Common
begin

text \<open>
  The data types of \<open>lib/include/chiaki/takion.h\<close> that the receivers share with Takion. The data
  of an AV packet is a pointer into the received buffer: \<open>av_data\<close> is the memory from that
  pointer to the end of the buffer, and \<open>av_data_size\<close> the size the packet claims.
\<close>

record av_packet =
  packet_index :: u16
  frame_index :: u16
  uses_nalu_info_structs :: bool
  is_video :: bool
  is_haptics :: bool
  unit_index :: u16
  units_in_frame_total :: u16
  units_in_frame_fec :: u16
  av_codec :: u8
  word_at_0x18 :: u16
  adaptive_stream_index :: u8
  byte_at_0x2c :: u8
  av_key_pos :: u64
  av_data :: bytes
  av_data_size :: nat

definition chiaki_takion_av_packet_audio_unit_size :: "av_packet \<Rightarrow> nat" where
  "chiaki_takion_av_packet_audio_unit_size packet = unat (ucast (drop_bit 8 (units_in_frame_fec packet)) :: u8)"

definition chiaki_takion_av_packet_audio_source_units_count :: "av_packet \<Rightarrow> nat" where
  "chiaki_takion_av_packet_audio_source_units_count packet = unat (ucast (units_in_frame_fec packet AND 0xf) :: u8)"

definition chiaki_takion_av_packet_audio_fec_units_count :: "av_packet \<Rightarrow> nat" where
  "chiaki_takion_av_packet_audio_fec_units_count packet =
     unat (ucast (drop_bit 4 (units_in_frame_fec packet) AND 0xf) :: u8)"

record congestion_packet =
  word_0 :: u16
  cp_received :: u16
  cp_lost :: u16

end
