(* ===== verification/Packet_Stats.thy ===== *)
theory Packet_Stats
  imports Takion_Types Seqnum
begin

text \<open>
  \<open>lib/src/packetstats.c\<close> and \<open>lib/src/congestioncontrol.c\<close>: the counters of received and lost
  packets, and the thread that reports them every 200 ms. The mutex serialises the
  operations but \<open>push_seq\<close>, which only the Takion thread calls.
\<close>

record packet_stats =
  gen_received :: u64
  gen_lost :: u64
  seq_min :: u16
  seq_max :: u16
  seq_received :: u64

definition chiaki_packet_stats_init :: packet_stats where
  "chiaki_packet_stats_init =
     \<lparr>gen_received = 0, gen_lost = 0, seq_min = 0, seq_max = 0, seq_received = 0\<rparr>"

definition reset_stats :: "packet_stats \<Rightarrow> packet_stats" where
  "reset_stats stats =
     stats\<lparr>gen_received := 0, gen_lost := 0, seq_min := seq_max stats, seq_received := 0\<rparr>"

definition chiaki_packet_stats_reset :: "packet_stats \<Rightarrow> packet_stats" where
  "chiaki_packet_stats_reset stats = reset_stats stats"

definition chiaki_packet_stats_push_generation :: "packet_stats \<Rightarrow> u64 \<Rightarrow> u64 \<Rightarrow> packet_stats" where
  "chiaki_packet_stats_push_generation stats received lost =
     stats\<lparr>gen_received := gen_received stats + received, gen_lost := gen_lost stats + lost\<rparr>"

definition chiaki_packet_stats_push_seq :: "packet_stats \<Rightarrow> u16 \<Rightarrow> packet_stats" where
  "chiaki_packet_stats_push_seq stats seq_num =
     (let stats = stats\<lparr>seq_received := seq_received stats + 1\<rparr>
      in if chiaki_seq_num_16_gt seq_num (seq_max stats) then stats\<lparr>seq_max := seq_num\<rparr> else stats)"

text \<open>
  \<open>*received\<close>, \<open>*lost\<close> and the new state. The operands of \<open>seq_max - seq_min\<close> are promoted to
  \<open>int\<close>; the difference is converted to \<open>uint64_t\<close>.
\<close>

definition chiaki_packet_stats_get :: "packet_stats \<Rightarrow> bool \<Rightarrow> u64 \<times> u64 \<times> packet_stats" where
  "chiaki_packet_stats_get stats reset =
     (let seq_diff = word_of_int (uint (seq_max stats) - uint (seq_min stats)) :: u64;
          seq_lost = (if seq_received stats > seq_diff then seq_diff else seq_diff - seq_received stats)
      in (gen_received stats + seq_received stats, gen_lost stats + seq_lost,
          if reset then reset_stats stats else stats))"

section \<open>Congestion control\<close>

text \<open>
  One turn of the loop; \<open>err\<close> is what the timed wait returned. \<open>None\<close> in the first component:
  the thread ends.
\<close>

definition congestion_control_iteration ::
  "ChiakiErrorCode \<Rightarrow> packet_stats \<Rightarrow> congestion_packet option \<times> packet_stats" where
  "congestion_control_iteration err stats =
     (if err \<noteq> CHIAKI_ERR_TIMEOUT then (None, stats)
      else let (received, lost, stats) = chiaki_packet_stats_get stats True
           in (Some \<lparr>word_0 = 0, cp_received = ucast received, cp_lost = ucast lost\<rparr>, stats))"

text \<open>The thread, over what its waits return and what is pushed meanwhile.\<close>

datatype congestion_event =
    CC_Push_Seq u16
  | CC_Push_Generation u64 u64
  | CC_Wait ChiakiErrorCode

fun congestion_control_loop ::
  "congestion_event list \<Rightarrow> packet_stats \<Rightarrow> congestion_packet list" where
  "congestion_control_loop [] stats = []"
| "congestion_control_loop (CC_Push_Seq s # evs) stats =
     congestion_control_loop evs (chiaki_packet_stats_push_seq stats s)"
| "congestion_control_loop (CC_Push_Generation r l # evs) stats =
     congestion_control_loop evs (chiaki_packet_stats_push_generation stats r l)"
| "congestion_control_loop (CC_Wait err # evs) stats =
     (case congestion_control_iteration err stats of
        (None, _) \<Rightarrow> []
      | (Some packet, stats) \<Rightarrow> packet # congestion_control_loop evs stats)"

text \<open>\<open>lock_r\<close>: what locking the stop condition returns.\<close>

definition congestion_control_thread_func ::
  "ChiakiErrorCode \<Rightarrow> congestion_event list \<Rightarrow> packet_stats \<Rightarrow> congestion_packet list" where
  "congestion_control_thread_func lock_r evs stats =
     (if lock_r \<noteq> CHIAKI_ERR_SUCCESS then [] else congestion_control_loop evs stats)"

text \<open>
  \<open>start\<close> and \<open>stop\<close>: the error code and whether the condition variable and the thread are
  left alive, from what the platform calls return.
\<close>

definition chiaki_congestion_control_start ::
  "ChiakiErrorCode \<Rightarrow> ChiakiErrorCode \<Rightarrow> ChiakiErrorCode \<times> bool \<times> bool" where
  "chiaki_congestion_control_start cond_r thread_r =
     (if cond_r \<noteq> CHIAKI_ERR_SUCCESS then (cond_r, False, False)
      else if thread_r \<noteq> CHIAKI_ERR_SUCCESS then (thread_r, False, False)
      else (CHIAKI_ERR_SUCCESS, True, True))"

definition chiaki_congestion_control_stop ::
  "ChiakiErrorCode \<Rightarrow> ChiakiErrorCode \<Rightarrow> ChiakiErrorCode \<Rightarrow> ChiakiErrorCode \<times> bool \<times> bool" where
  "chiaki_congestion_control_stop signal_r join_r fini_r =
     (if signal_r \<noteq> CHIAKI_ERR_SUCCESS then (signal_r, True, True)
      else if join_r \<noteq> CHIAKI_ERR_SUCCESS then (join_r, True, True)
      else (fini_r, False, False))"

section \<open>One reporting interval\<close>

text \<open>The stream is described by offsets from the sequence number of the last report.\<close>

definition push_offsets :: "nat list \<Rightarrow> packet_stats \<Rightarrow> packet_stats" where
  "push_offsets ds stats =
     fold (\<lambda>d st. chiaki_packet_stats_push_seq st (seq_min stats + of_nat d)) ds stats"

lemma seq_16_gt_offset:
  assumes "d < 2 ^ 15" "e < 2 ^ 15"
  shows "chiaki_seq_num_16_gt (m + of_nat d) (m + of_nat e) \<longleftrightarrow> e < d"
proof -
  let ?d = "of_nat d :: u16" and ?e = "of_nat e :: u16"
  have u: "unat ?d = d" "unat ?e = e" using assms by (simp_all add: unat_of_nat_len)
  have "chiaki_seq_num_16_gt (m + ?d) (m + ?e) \<longleftrightarrow> m + ?d \<noteq> m + ?e \<and> uint (m + ?d - (m + ?e)) < 2 ^ (16 - 1)"
    unfolding seq_num_16_defs seq_num_gt_cyclic by simp
  also have "\<dots> \<longleftrightarrow> d \<noteq> e \<and> unat (?d - ?e) < 2 ^ 15"
    using u uint_less_power [of "?d - ?e" 15] by (auto simp: algebra_simps dest: arg_cong [where f = unat])
  also have "\<dots> \<longleftrightarrow> e < d"
    using assms u unat_minus_cyclic [of ?d ?e] by (auto simp: mod_if)
  finally show ?thesis .
qed

lemma push_offsets_state:
  assumes "\<forall>d \<in> set ds. d < 2 ^ 15"
    and "seq_max stats = seq_min stats" "seq_received stats = 0"
  shows "push_offsets ds stats =
     stats\<lparr>seq_max := seq_min stats + of_nat (Max (set (0 # ds))), seq_received := of_nat (length ds)\<rparr>"
  using assms(1)
proof (induction ds rule: rev_induct)
  case Nil
  then show ?case using assms(2,3) by (cases stats) (simp add: push_offsets_def)
next
  case (snoc d ds)
  define mx where "mx = Max (set (0 # ds))"
  have "mx < 2 ^ 15" using snoc.prems unfolding mx_def by (subst Max_less_iff) auto
  moreover have "d < 2 ^ 15" using snoc.prems by simp
  ultimately have gt: "chiaki_seq_num_16_gt (seq_min stats + of_nat d) (seq_min stats + of_nat mx) \<longleftrightarrow> mx < d"
    by (intro seq_16_gt_offset)
  have m: "Max (set (0 # ds @ [d])) = max mx d"
  proof -
    have "set (0 # ds @ [d]) = insert d (set (0 # ds))" by auto
    then show ?thesis by (simp only: mx_def Max_insert finite_set) (simp add: max.commute)
  qed
  have "push_offsets (ds @ [d]) stats = chiaki_packet_stats_push_seq (push_offsets ds stats) (seq_min stats + of_nat d)"
    by (simp add: push_offsets_def)
  also have "push_offsets ds stats = stats\<lparr>seq_max := seq_min stats + of_nat mx, seq_received := of_nat (length ds)\<rparr>"
    using snoc unfolding mx_def by simp
  finally show ?case
    unfolding m
    by (cases "mx < d") (simp_all add: chiaki_packet_stats_push_seq_def gt max_def Let_def add.commute [of _ 1])
qed

text \<open>The 16 bits of the reported loss, with and without a wrap of the sequence numbers.\<close>

lemma seq_diff_cases:
  fixes m M :: u16
  assumes "mx < 2 ^ 15" "M = m + of_nat mx"
  shows "(word_of_int (uint M - uint m) :: u64) = of_nat mx \<and> uint M - uint m = int mx
    \<or> 2 ^ 63 \<le> unat (word_of_int (uint M - uint m) :: u64) \<and> 2 ^ 16 \<le> uint m + int mx"
proof -
  have u: "uint (of_nat mx :: u16) = int mx"
    unfolding uint_nat using assms(1) by (subst unat_of_nat_len) simp_all
  have M: "uint M = (if uint m + int mx < 2 ^ 16 then uint m + int mx else uint m + int mx - 2 ^ 16)"
  proof -
    have e: "uint M = (uint m + int mx) mod 2 ^ 16" using assms(2) u by (simp add: uint_word_ariths)
    have b: "0 \<le> uint m" "uint m < 2 ^ 16" "int mx < 2 ^ 15" using assms(1) uint_bounded [of m] by simp_all
    show ?thesis
    proof (cases "uint m + int mx < 2 ^ 16")
      case True
      then show ?thesis using b unfolding e by simp
    next
      case False
      have "(uint m + int mx) mod 2 ^ 16 = (uint m + int mx - 2 ^ 16) mod 2 ^ 16" by (rule minus_mod_self2 [symmetric])
      also have "\<dots> = uint m + int mx - 2 ^ 16" using b False by (intro mod_pos_pos_trivial) simp_all
      finally show ?thesis using False unfolding e by simp
    qed
  qed
  show ?thesis
  proof (cases "uint m + int mx < 2 ^ 16")
    case True
    then show ?thesis by (simp add: M)
  next
    case False
    define W where "W = (word_of_int (int mx - 2 ^ 16) :: u64)"
    have "uint W = (int mx - 2 ^ 16) mod 2 ^ 64"
      unfolding W_def by (subst unsigned_of_int) (simp add: take_bit_eq_mod)
    also have "\<dots> = (int mx - 2 ^ 16 + 2 ^ 64) mod 2 ^ 64" by (rule mod_add_self2 [symmetric])
    also have "\<dots> = int mx - 2 ^ 16 + 2 ^ 64" using assms(1) by (intro mod_pos_pos_trivial) simp_all
    finally have "2 ^ 63 \<le> nat (uint W)" by simp
    moreover have "nat (uint W) = unat W" by simp
    moreover have "word_of_int (uint M - uint m) = W" using False by (simp add: M W_def)
    ultimately have "2 ^ 63 \<le> unat (word_of_int (uint M - uint m) :: u64)" by metis
    then show ?thesis using False by simp
  qed
qed

lemma get_lost_16:
  assumes "mx < 2 ^ 15" "n \<le> mx"
    and "seq_max stats = seq_min stats + of_nat mx" "seq_received stats = of_nat n"
  shows "(ucast (fst (snd (chiaki_packet_stats_get stats reset))) :: u16) = ucast (gen_lost stats) + of_nat (mx - n)"
proof -
  let ?diff = "word_of_int (uint (seq_max stats) - uint (seq_min stats)) :: u64"
  have n: "unat (of_nat n :: u64) = n" "unat (of_nat mx :: u64) = mx"
    using assms(1,2) by (simp_all add: unat_of_nat_len)
  have "\<not> seq_received stats > ?diff"
    using seq_diff_cases [OF assms(1,3)] assms(1,2) n unfolding assms(4) word_less_nat_alt by auto
  then have "fst (snd (chiaki_packet_stats_get stats reset)) = gen_lost stats + (?diff - seq_received stats)"
    by (simp add: chiaki_packet_stats_get_def Let_def)
  then have "(ucast (fst (snd (chiaki_packet_stats_get stats reset))) :: u16)
      = ucast (gen_lost stats) + (ucast ?diff - ucast (seq_received stats))"
    by (simp add: ucast_down_add ucast_down_minus)
  also have "(ucast ?diff :: u16) = seq_max stats - seq_min stats"
    by (subst ucast_word_of_int_down) simp_all
  also have "\<dots> = of_nat mx" by (simp add: assms(3))
  also have "(ucast (seq_received stats) :: u16) = of_nat n" by (simp add: assms(4) ucast_of_nat_down)
  finally show ?thesis using assms(2) by simp
qed

lemma Max_ge_length_distinct:
  assumes "distinct ds" "0 \<notin> set ds"
  shows "length ds \<le> Max (set (0 # ds))"
    and "card ({1..Max (set (0 # ds))} - set ds) = Max (set (0 # ds)) - length ds"
proof -
  have sub: "set ds \<subseteq> {1..Max (set (0 # ds))}"
  proof
    fix d assume "d \<in> set ds"
    moreover have "d \<le> Max (set (0 # ds))" using calculation by (intro Max_ge) auto
    ultimately show "d \<in> {1..Max (set (0 # ds))}" using assms(2) \<open>d \<in> set ds\<close> by (cases "d = 0") auto
  qed
  have c: "card (set ds) = length ds" using assms(1) by (rule distinct_card)
  show "length ds \<le> Max (set (0 # ds))" using card_mono [OF _ sub] c by simp
  show "card ({1..Max (set (0 # ds))} - set ds) = Max (set (0 # ds)) - length ds"
    using card_Diff_subset [OF _ sub] c by simp
qed

section \<open>Properties\<close>

text \<open>
  C30. The congestion packet of an interval is exact under three conditions: no packet is
  duplicated, every packet is between 1 and \<open>2^15 - 1\<close> numbers after the largest one of the
  last report, so that none of an earlier interval arrives late, and no video generation was
  counted. Then, in any order of the packets, it carries the number of packets received and the
  number of offsets up to the largest that are missing, both modulo \<open>2^16\<close>, also when the
  sequence numbers wrap in between; and the next interval starts from the largest number seen.
\<close>

theorem congestion_report_exact:
  assumes "distinct ds" "\<forall>d \<in> set ds. 0 < d \<and> d < 2 ^ 15"
    and "seq_max stats = seq_min stats" "seq_received stats = 0" "gen_received stats = 0" "gen_lost stats = 0"
  shows "congestion_control_iteration CHIAKI_ERR_TIMEOUT (push_offsets ds stats) =
     (Some \<lparr>word_0 = 0, cp_received = of_nat (length ds),
            cp_lost = of_nat (card ({1..Max (set (0 # ds))} - set ds))\<rparr>,
      \<lparr>gen_received = 0, gen_lost = 0, seq_min = seq_min stats + of_nat (Max (set (0 # ds))),
       seq_max = seq_min stats + of_nat (Max (set (0 # ds))), seq_received = 0\<rparr>)"
proof -
  define mx where "mx = Max (set (0 # ds))"
  have mx: "mx < 2 ^ 15" using assms(2) unfolding mx_def by (subst Max_less_iff) auto
  have n: "length ds \<le> mx" "card ({1..mx} - set ds) = mx - length ds"
    unfolding mx_def using assms(1,2) by (intro Max_ge_length_distinct; auto)+
  define st where "st = push_offsets ds stats"
  have st: "st = stats\<lparr>seq_max := seq_min stats + of_nat mx, seq_received := of_nat (length ds)\<rparr>"
    unfolding st_def mx_def using assms(2) by (intro push_offsets_state assms) auto
  have lost: "(ucast (fst (snd (chiaki_packet_stats_get st True))) :: u16) = of_nat (mx - length ds)"
    using get_lost_16 [OF mx n(1), of st] by (simp add: st assms)
  have received: "(ucast (fst (chiaki_packet_stats_get st True)) :: u16) = of_nat (length ds)"
    by (simp add: chiaki_packet_stats_get_def Let_def st assms ucast_of_nat_down)
  have reset: "snd (snd (chiaki_packet_stats_get st True)) = \<lparr>gen_received = 0, gen_lost = 0,
      seq_min = seq_min stats + of_nat mx, seq_max = seq_min stats + of_nat mx, seq_received = 0\<rparr>"
    by (cases stats) (simp add: chiaki_packet_stats_get_def Let_def st reset_stats_def)
  show ?thesis
    unfolding st_def [symmetric] mx_def [symmetric] n(2) congestion_control_iteration_def
    using lost received reset by (cases "chiaki_packet_stats_get st True") simp
qed

lemma congestion_report_exact_witness:
  "fst (congestion_control_iteration CHIAKI_ERR_TIMEOUT
     (push_offsets [2, 1, 5] \<lparr>gen_received = 0, gen_lost = 0, seq_min = 0xfffe, seq_max = 0xfffe, seq_received = 0\<rparr>))
   = Some \<lparr>word_0 = 0, cp_received = 3, cp_lost = 2\<rparr>"
proof -
  have "{Suc 0..5} - {2, Suc 0, 5} = {3, 4 :: nat}" by auto
  then show ?thesis
    using congestion_report_exact [of "[2, 1, 5]"
      "\<lparr>gen_received = 0, gen_lost = 0, seq_min = 0xfffe, seq_max = 0xfffe, seq_received = 0\<rparr>"]
    by simp
qed

text \<open>
  One duplicate makes a complete interval count as lost: after the offsets \<open>1 .. n\<close> and one
  of them a second time, with no wrap in between, nothing is missing, and the packet
  reports \<open>n\<close> lost packets.
\<close>

theorem congestion_duplicate_counts_all_lost:
  assumes "d \<in> {1..n}" "n < 2 ^ 15" "unat (seq_min stats) + n < 2 ^ 16"
    and "seq_max stats = seq_min stats" "seq_received stats = 0" "gen_received stats = 0" "gen_lost stats = 0"
  shows "map_option cp_lost (fst (congestion_control_iteration CHIAKI_ERR_TIMEOUT
           (push_offsets ([1..<Suc n] @ [d]) stats))) = Some (of_nat n)"
proof -
  have mx: "Max (set (0 # [1..<Suc n] @ [d])) = n"
    using assms(1) by (intro Max_eqI) auto
  have st: "push_offsets ([1..<Suc n] @ [d]) stats =
      stats\<lparr>seq_max := seq_min stats + of_nat n, seq_received := of_nat (Suc n)\<rparr>"
    using push_offsets_state [of "[1..<Suc n] @ [d]" stats] assms mx by (auto simp del: upt_Suc)
  have "uint (seq_min stats) + int n < 2 ^ 16"
    using assms(3) by (simp add: uint_nat del: of_nat_unat)
  then have diff: "(word_of_int (uint (seq_min stats + of_nat n) - uint (seq_min stats)) :: u64) = of_nat n"
    using seq_diff_cases [OF assms(2) refl, of "seq_min stats"] by auto
  have "(of_nat (Suc n) :: u64) > of_nat n"
    using assms(2) by (simp add: word_less_nat_alt unat_of_nat_len del: of_nat_Suc)
  then have "chiaki_packet_stats_get (stats\<lparr>seq_max := seq_min stats + of_nat n, seq_received := of_nat (Suc n)\<rparr>) True
      = (of_nat (Suc n), of_nat n, reset_stats (stats\<lparr>seq_max := seq_min stats + of_nat n, seq_received := of_nat (Suc n)\<rparr>))"
    using diff by (simp add: chiaki_packet_stats_get_def Let_def assms del: of_nat_Suc)
  then show ?thesis
    unfolding congestion_control_iteration_def st by (simp add: ucast_of_nat_down del: of_nat_Suc)
qed

lemma congestion_duplicate_counts_all_lost_witness:
  "map_option cp_lost (fst (congestion_control_iteration CHIAKI_ERR_TIMEOUT
     (push_offsets ([1..<Suc 100] @ [42])
        \<lparr>gen_received = 0, gen_lost = 0, seq_min = 7, seq_max = 7, seq_received = 0\<rparr>))) = Some (of_nat 100)"
  by (rule congestion_duplicate_counts_all_lost) simp_all

end
