(* ===== verification/Frame_Processor.thy ===== *)
theory Frame_Processor
  imports Packet_Stats
begin

text \<open>
  \<open>lib/src/frameprocessor.c\<close> and \<open>lib/src/fec.c\<close>: the units of a video frame are collected in
  equal slots of one buffer, missing ones are reconstructed by forward error correction,
  and the frame is assembled in place. Memory is checked: a null pointer, an access outside
  the slots or the buffer, a division by zero and a failed \<open>assert\<close> are \<open>None\<close>. The results
  of the allocations are arguments; the decoder of the jerasure library is a parameter.
\<close>

abbreviation "CHIAKI_VIDEO_BUFFER_PADDING_SIZE \<equiv> 64 :: nat"
abbreviation "UNIT_SLOTS_MAX \<equiv> 256 :: nat"
abbreviation "SIZE_MAX \<equiv> 2 ^ 64 - 1 :: nat"

section \<open>Forward error correction\<close>

text \<open>
  \<open>jerasure k m erasures units\<close>: what \<open>jerasure_matrix_decode\<close> with the original Cauchy matrix
  makes of the \<open>k + m\<close> units, \<open>None\<close> being a negative result. \<open>matrix\<close> and the list \<open>allocs\<close>
  tell whether the matrix and the three arrays can be allocated.
\<close>

type_synonym jerasure = "nat \<Rightarrow> nat \<Rightarrow> nat list \<Rightarrow> bytes list \<Rightarrow> bytes list option"

fun store_units :: "nat \<Rightarrow> nat \<Rightarrow> bytes list \<Rightarrow> bytes \<Rightarrow> bytes option" where
  "store_units stride i [] buf = Some buf"
| "store_units stride i (u # us) buf =
     Option.bind (store_bytes buf (stride * i) u) (store_units stride (Suc i) us)"

fun load_units :: "bytes \<Rightarrow> nat \<Rightarrow> nat \<Rightarrow> nat list \<Rightarrow> bytes list option" where
  "load_units buf unit_size stride [] = Some []"
| "load_units buf unit_size stride (i # is) = do {
     u \<leftarrow> load_bytes buf (stride * i) unit_size;
     us \<leftarrow> load_units buf unit_size stride is;
     Some (u # us) }"

definition chiaki_fec_decode ::
  "jerasure \<Rightarrow> bool \<Rightarrow> bool \<times> bool \<times> bool \<Rightarrow> bytes \<Rightarrow> nat \<Rightarrow> nat \<Rightarrow> nat \<Rightarrow> nat \<Rightarrow> nat list \<Rightarrow>
   (ChiakiErrorCode \<times> bytes) option" where
  "chiaki_fec_decode jerasure matrix allocs frame_buf unit_size stride k m erasures =
     (if stride < unit_size then Some (CHIAKI_ERR_INVALID_DATA, frame_buf)
      else if \<not> matrix then Some (CHIAKI_ERR_MEMORY, frame_buf)
      else if \<not> fst allocs then Some (CHIAKI_ERR_MEMORY, frame_buf)
      else if \<not> fst (snd allocs) then Some (CHIAKI_ERR_MEMORY, frame_buf)
      else if \<not> snd (snd allocs) then Some (CHIAKI_ERR_MEMORY, frame_buf)
      else do {
        units \<leftarrow> load_units frame_buf unit_size stride [0..<k + m];
        (case jerasure k m erasures units of
           None \<Rightarrow> Some (CHIAKI_ERR_FEC_FAILED, frame_buf)
         | Some units \<Rightarrow> map_option (\<lambda>buf. (CHIAKI_ERR_SUCCESS, buf)) (store_units stride 0 units frame_buf)) })"

section \<open>State\<close>

record stream_stats =
  st_frames :: u64
  st_bytes :: u64

definition chiaki_stream_stats_reset :: "stream_stats \<Rightarrow> stream_stats" where
  "chiaki_stream_stats_reset stats = stats\<lparr>st_frames := 0, st_bytes := 0\<rparr>"

definition chiaki_stream_stats_frame :: "stream_stats \<Rightarrow> u64 \<Rightarrow> stream_stats" where
  "chiaki_stream_stats_frame stats n =
     stats\<lparr>st_frames := st_frames stats + 1, st_bytes := st_bytes stats + n\<rparr>"

text \<open>\<open>None\<close>: no frame yet, a division by zero.\<close>

definition chiaki_stream_stats_bitrate :: "stream_stats \<Rightarrow> u64 \<Rightarrow> u64 option" where
  "chiaki_stream_stats_bitrate stats framerate =
     (if st_frames stats = 0 then None else Some ((st_bytes stats * 8 * framerate) div st_frames stats))"

text \<open>The unit slots are the sizes \<open>data_size\<close>; \<open>None\<close> is the null pointer.\<close>

record frame_processor =
  frame_buf :: "bytes option"
  frame_buf_size :: nat
  buf_size_per_unit :: nat
  buf_stride_per_unit :: nat
  units_source_expected :: nat
  units_fec_expected :: nat
  units_source_received :: nat
  units_fec_received :: nat
  unit_slots :: "nat list option"
  unit_slots_size :: nat
  flushed :: bool
  stream_stats :: stream_stats

datatype flush_result =
    CHIAKI_FRAME_PROCESSOR_FLUSH_RESULT_SUCCESS
  | CHIAKI_FRAME_PROCESSOR_FLUSH_RESULT_FEC_SUCCESS
  | CHIAKI_FRAME_PROCESSOR_FLUSH_RESULT_FEC_FAILED
  | CHIAKI_FRAME_PROCESSOR_FLUSH_RESULT_FAILED

definition chiaki_frame_processor_init :: frame_processor where
  "chiaki_frame_processor_init =
     \<lparr>frame_buf = None, frame_buf_size = 0, buf_size_per_unit = 0, buf_stride_per_unit = 0,
      units_source_expected = 0, units_fec_expected = 0, units_source_received = 0,
      units_fec_received = 0, unit_slots = None, unit_slots_size = 0, flushed = True,
      stream_stats = \<lparr>st_frames = 0, st_bytes = 0\<rparr>\<rparr>"

section \<open>Operations\<close>

text \<open>The slots of a frame, zeroed; \<open>slots_ok\<close>: their (re)allocation succeeds.\<close>

definition alloc_unit_slots :: "bool \<Rightarrow> nat \<Rightarrow> frame_processor \<Rightarrow> ChiakiErrorCode \<times> frame_processor" where
  "alloc_unit_slots slots_ok required fp =
     (if required \<noteq> unit_slots_size fp \<and> \<not> slots_ok then
        (CHIAKI_ERR_MEMORY, fp\<lparr>unit_slots := None, unit_slots_size := 0\<rparr>)
      else (CHIAKI_ERR_SUCCESS, fp\<lparr>unit_slots := Some (replicate required 0), unit_slots_size := required\<rparr>))"

text \<open>The buffer of a frame, zeroed; it is only allocated again when it must grow.\<close>

definition alloc_frame_buf :: "bool \<Rightarrow> frame_processor \<Rightarrow> (ChiakiErrorCode \<times> frame_processor) option" where
  "alloc_frame_buf buf_ok fp =
     (if buf_stride_per_unit fp = 0 then None
      else if unit_slots_size fp > SIZE_MAX div buf_stride_per_unit fp then Some (CHIAKI_ERR_OVERFLOW, fp)
      else let n = unit_slots_size fp * buf_stride_per_unit fp
           in if n + CHIAKI_VIDEO_BUFFER_PADDING_SIZE > SIZE_MAX then None
              else if frame_buf_size fp < n then
                (if \<not> buf_ok then Some (CHIAKI_ERR_MEMORY, fp\<lparr>frame_buf := None, frame_buf_size := 0\<rparr>)
                 else Some (CHIAKI_ERR_SUCCESS,
                   fp\<lparr>frame_buf := Some (replicate (n + CHIAKI_VIDEO_BUFFER_PADDING_SIZE) 0), frame_buf_size := n\<rparr>))
              else do {
                buf \<leftarrow> frame_buf fp;
                buf \<leftarrow> store_bytes buf 0 (replicate (n + CHIAKI_VIDEO_BUFFER_PADDING_SIZE) 0);
                Some (CHIAKI_ERR_SUCCESS, fp\<lparr>frame_buf := Some buf\<rparr>) })"

definition chiaki_frame_processor_alloc_frame ::
  "bool \<Rightarrow> bool \<Rightarrow> frame_processor \<Rightarrow> av_packet \<Rightarrow> (ChiakiErrorCode \<times> frame_processor) option" where
  "chiaki_frame_processor_alloc_frame slots_ok buf_ok fp packet =
     (if units_in_frame_total packet < units_in_frame_fec packet then Some (CHIAKI_ERR_INVALID_DATA, fp)
      else let source = unat (units_in_frame_total packet) - unat (units_in_frame_fec packet);
               fec = (if unat (units_in_frame_fec packet) < 1 then 1 else unat (units_in_frame_fec packet));
               fp = fp\<lparr>flushed := False, units_source_expected := source, units_fec_expected := fec,
                       buf_size_per_unit := av_data_size packet\<rparr>;
               extend = (is_video packet \<and> unat (unit_index packet) < source)
           in if extend \<and> av_data_size packet < 2 then Some (CHIAKI_ERR_BUF_TOO_SMALL, fp)
              else do {
                extension \<leftarrow> (if extend then map_option unat (load16be (av_data packet) 0) else Some 0);
                let size_per_unit = u64_add (av_data_size packet) extension;
                    stride = (u64_add size_per_unit 0xf div 0x10) * 0x10;
                    fp = fp\<lparr>buf_size_per_unit := size_per_unit, buf_stride_per_unit := stride\<rparr>
                in if size_per_unit = 0 then Some (CHIAKI_ERR_BUF_TOO_SMALL, fp)
                   else let fp = fp\<lparr>units_source_received := 0, units_fec_received := 0\<rparr>
                        in if source + fec > UNIT_SLOTS_MAX then Some (CHIAKI_ERR_INVALID_DATA, fp)
                           else (case alloc_unit_slots slots_ok (source + fec) fp of (err, fp) \<Rightarrow>
                             if err \<noteq> CHIAKI_ERR_SUCCESS then Some (err, fp) else alloc_frame_buf buf_ok fp) })"

definition chiaki_frame_processor_put_unit ::
  "frame_processor \<Rightarrow> av_packet \<Rightarrow> (ChiakiErrorCode \<times> frame_processor) option" where
  "chiaki_frame_processor_put_unit fp packet =
     (let i = unat (unit_index packet); n = av_data_size packet in
      if i > unit_slots_size fp then Some (CHIAKI_ERR_INVALID_DATA, fp)
      else if n = 0 then Some (CHIAKI_ERR_INVALID_DATA, fp)
      else if n > buf_size_per_unit fp then Some (CHIAKI_ERR_INVALID_DATA, fp)
      else do {
        slots \<leftarrow> unit_slots fp;
        if \<not> i < length slots then None
        else if slots ! i \<noteq> 0 then Some (CHIAKI_ERR_INVALID_DATA, fp)
        else do {
          let fp = fp\<lparr>unit_slots := Some (slots[i := n])\<rparr>;
          fp \<leftarrow> (if \<not> flushed fp then do {
                   buf \<leftarrow> frame_buf fp;
                   data \<leftarrow> load_bytes (av_data packet) 0 n;
                   buf \<leftarrow> store_bytes buf (i * buf_stride_per_unit fp) data;
                   Some (fp\<lparr>frame_buf := Some buf\<rparr>) }
                 else Some fp);
          Some (CHIAKI_ERR_SUCCESS,
            if i < units_source_expected fp
            then fp\<lparr>units_source_received := units_source_received fp + 1\<rparr>
            else fp\<lparr>units_fec_received := units_fec_received fp + 1\<rparr>) } })"

definition chiaki_frame_processor_report_packet_stats :: "frame_processor \<Rightarrow> packet_stats \<Rightarrow> packet_stats" where
  "chiaki_frame_processor_report_packet_stats fp stats =
     (let received = of_nat (units_source_received fp + units_fec_received fp) :: u64;
          expected = of_nat (units_source_expected fp + units_fec_expected fp)
      in chiaki_packet_stats_push_generation stats received (expected - received))"

text \<open>The indices of the empty slots; \<open>None\<close>: more than \<open>erasures_count\<close> of them.\<close>

fun fec_erasures :: "nat list \<Rightarrow> nat \<Rightarrow> nat list \<Rightarrow> nat list \<Rightarrow> nat list option" where
  "fec_erasures slots erasures_count [] acc = (if length acc = erasures_count then Some acc else None)"
| "fec_erasures slots erasures_count (i # is) acc =
     (if \<not> i < length slots then None
      else if slots ! i = 0 then
        (if length acc \<ge> erasures_count then None else fec_erasures slots erasures_count is (acc @ [i]))
      else fec_erasures slots erasures_count is acc)"

text \<open>The restored sizes: the first two bytes of a unit are the number of padding bytes.\<close>

fun restore_sizes :: "bytes \<Rightarrow> nat \<Rightarrow> nat \<Rightarrow> nat list \<Rightarrow> nat list \<Rightarrow> nat list option" where
  "restore_sizes buf unit_size stride [] slots = Some slots"
| "restore_sizes buf unit_size stride (i # is) slots = do {
     padding \<leftarrow> map_option unat (load16be buf (stride * i));
     restore_sizes buf unit_size stride is
       (if padding \<ge> unit_size then slots else slots[i := unit_size - padding]) }"

text \<open>The counts are \<open>unsigned int\<close>. \<open>erasures_ok\<close>: the array of erasures can be allocated.\<close>

definition chiaki_frame_processor_fec ::
  "jerasure \<Rightarrow> bool \<Rightarrow> bool \<Rightarrow> bool \<times> bool \<times> bool \<Rightarrow> frame_processor \<Rightarrow>
   (ChiakiErrorCode \<times> frame_processor) option" where
  "chiaki_frame_processor_fec jerasure erasures_ok matrix allocs fp =
     (let expected = units_source_expected fp + units_fec_expected fp;
          received = units_source_received fp + units_fec_received fp;
          erasures_count = (expected + 2 ^ 32 - received) mod 2 ^ 32
      in if \<not> erasures_ok then Some (CHIAKI_ERR_MEMORY, fp)
         else do {
           slots \<leftarrow> unit_slots fp;
           erasures \<leftarrow> fec_erasures slots erasures_count [0..<expected] [];
           buf \<leftarrow> frame_buf fp;
           (err, buf) \<leftarrow> chiaki_fec_decode jerasure matrix allocs buf (buf_size_per_unit fp)
              (buf_stride_per_unit fp) (units_source_expected fp) (units_fec_expected fp) erasures;
           let fp = fp\<lparr>frame_buf := Some buf\<rparr> in
           if err \<noteq> CHIAKI_ERR_SUCCESS then Some (CHIAKI_ERR_FEC_FAILED, fp)
           else do {
             slots \<leftarrow> restore_sizes buf (buf_size_per_unit fp) (buf_stride_per_unit fp)
               [0..<units_source_expected fp] slots;
             Some (CHIAKI_ERR_SUCCESS, fp\<lparr>unit_slots := Some slots\<rparr>) } })"

text \<open>The loop that moves the units together; \<open>cur\<close> is the size of the frame so far.\<close>

fun flush_loop :: "nat list \<Rightarrow> nat \<Rightarrow> nat list \<Rightarrow> bytes \<times> nat \<Rightarrow> (bytes \<times> nat) option" where
  "flush_loop slots stride [] (buf, cur) = Some (buf, cur)"
| "flush_loop slots stride (i # is) (buf, cur) =
     (if \<not> i < length slots then None
      else if slots ! i = 0 then flush_loop slots stride is (buf, cur)
      else if slots ! i < 2 then flush_loop slots stride is (buf, cur)
      else let part_size = slots ! i - 2 in do {
        part \<leftarrow> load_bytes buf (i * stride + 2) part_size;
        buf \<leftarrow> store_bytes buf cur part;
        flush_loop slots stride is (buf, cur + part_size) })"

text \<open>The result, the frame handed out (a copy of the buffer up to \<open>frame_size\<close>) and the state.\<close>

definition chiaki_frame_processor_flush ::
  "jerasure \<Rightarrow> bool \<Rightarrow> bool \<Rightarrow> bool \<times> bool \<times> bool \<Rightarrow> frame_processor \<Rightarrow>
   (flush_result \<times> bytes \<times> frame_processor) option" where
  "chiaki_frame_processor_flush jerasure erasures_ok matrix allocs fp =
     (if units_source_expected fp = 0 \<or> flushed fp then
        Some (CHIAKI_FRAME_PROCESSOR_FLUSH_RESULT_FAILED, [], fp)
      else do {
        (result, fp) \<leftarrow>
          (if units_source_received fp < units_source_expected fp then
             map_option (\<lambda>(err, fp). (if err = CHIAKI_ERR_SUCCESS then CHIAKI_FRAME_PROCESSOR_FLUSH_RESULT_FEC_SUCCESS
                                     else CHIAKI_FRAME_PROCESSOR_FLUSH_RESULT_FEC_FAILED, fp))
               (chiaki_frame_processor_fec jerasure erasures_ok matrix allocs fp)
           else Some (CHIAKI_FRAME_PROCESSOR_FLUSH_RESULT_SUCCESS, fp));
        slots \<leftarrow> unit_slots fp;
        buf \<leftarrow> frame_buf fp;
        (buf, cur) \<leftarrow> flush_loop slots (buf_stride_per_unit fp) [0..<units_source_expected fp] (buf, 0);
        Some (result, take cur buf,
          fp\<lparr>frame_buf := Some buf,
             stream_stats := chiaki_stream_stats_frame (stream_stats fp) (of_nat cur)\<rparr>) })"

definition chiaki_frame_processor_flush_possible :: "frame_processor \<Rightarrow> bool" where
  "chiaki_frame_processor_flush_possible fp \<longleftrightarrow>
     units_source_received fp + units_fec_received fp \<ge> units_source_expected fp"


section \<open>Assembly\<close>

lemma flush_loop_spec:
  assumes "j \<le> k" "k \<le> length slots" "k * stride \<le> length buf" "cur \<le> j * stride"
    and "\<forall>i. j \<le> i \<and> i < k \<longrightarrow> slots ! i = length (U i) \<and> length (U i) \<le> stride \<and>
           take (length (U i)) (drop (i * stride) buf) = U i"
  shows "\<exists>buf' cur'. flush_loop slots stride [j..<k] (buf, cur) = Some (buf', cur') \<and>
     length buf' = length buf \<and> take cur' buf' = take cur buf @ concat (map (\<lambda>i. drop 2 (U i)) [j..<k])"
  using assms
proof (induction "k - j" arbitrary: j buf cur)
  case 0
  then show ?case by simp
next
  case (Suc d)
  then have jk: "j < k" by simp
  then have upt: "[j..<k] = j # [Suc j..<k]" by (rule upt_conv_Cons)
  have u: "slots ! j = length (U j)" "length (U j) \<le> stride" "take (length (U j)) (drop (j * stride) buf) = U j"
    using Suc.prems(5) jk by auto
  have jl: "j < length slots" using jk Suc.prems(2) by simp
  have sj: "Suc j * stride \<le> k * stride" using jk by (intro mult_right_mono) simp_all
  show ?case
  proof (cases "length (U j) < 2")
    case True
    have "cur \<le> Suc j * stride" using Suc.prems(4) by simp
    then have "\<exists>buf' cur'. flush_loop slots stride [Suc j..<k] (buf, cur) = Some (buf', cur') \<and>
     length buf' = length buf \<and> take cur' buf' = take cur buf @ concat (map (\<lambda>i. drop 2 (U i)) [Suc j..<k])"
      using Suc.prems Suc.hyps(2) jk by (intro Suc.hyps(1)) auto
    then show ?thesis using True u jl by (auto simp: upt simp del: upt_Suc)
  next
    case False
    let ?n = "length (U j) - 2"
    have part: "load_bytes buf (j * stride + 2) ?n = Some (drop 2 (U j))"
    proof -
      have "drop 2 (U j) = drop 2 (take (length (U j)) (drop (j * stride) buf))" using u(3) by simp
      also have "\<dots> = take ?n (drop (j * stride + 2) buf)" by (simp add: drop_take add.commute)
      finally show ?thesis
        using u(2) sj Suc.prems(3) False by (auto simp: load_bytes_def)
    qed
    have fit: "cur + length (drop 2 (U j)) \<le> length buf"
      using u(2) sj Suc.prems(3,4) by simp
    then obtain buf1 where st: "store_bytes buf cur (drop 2 (U j)) = Some buf1"
      by (simp add: store_bytes_def)
    have len1: "length buf1 = length buf" by (rule length_store_bytes [OF st])
    have keep: "take (length (U i)) (drop (i * stride) buf1) = U i" if "Suc j \<le> i" "i < k" for i
    proof -
      have "Suc j * stride \<le> i * stride" using that by (intro mult_right_mono) simp_all
      then have "cur + length (drop 2 (U j)) \<le> i * stride" using u(2) Suc.prems(4) by simp
      with store_bytes_elsewhere [OF st] have
        "take (length (U i)) (drop (i * stride) buf1) = take (length (U i)) (drop (i * stride) buf)" by blast
      with Suc.prems(5) that show ?thesis by auto
    qed
    have "\<exists>buf' cur'. flush_loop slots stride [Suc j..<k] (buf1, cur + ?n) = Some (buf', cur') \<and>
       length buf' = length buf1 \<and> take cur' buf' = take (cur + ?n) buf1 @ concat (map (\<lambda>i. drop 2 (U i)) [Suc j..<k])"
      using Suc.prems Suc.hyps(2) jk u(2) keep len1 by (intro Suc.hyps(1)) auto
    moreover have "take (cur + ?n) buf1 = take cur buf @ drop 2 (U j)"
      using store_bytes_prefix [OF st] by simp
    ultimately show ?thesis
      using False u(1) jl part st len1 by (auto simp: upt Let_def simp del: upt_Suc)
  qed
qed

text \<open>
  What the processor holds of a frame: \<open>U i\<close> is the unit received for slot \<open>i\<close>, empty while it
  is missing; the slot's memory is the unit padded with zeros.
\<close>

definition pad_unit :: "nat \<Rightarrow> bytes \<Rightarrow> bytes" where
  "pad_unit n u = u @ replicate (n - length u) 0"

definition fp_holds :: "frame_processor \<Rightarrow> (nat \<Rightarrow> bytes) \<Rightarrow> bool" where
  "fp_holds fp U \<longleftrightarrow> (\<exists>slots buf.
     unit_slots fp = Some slots \<and> frame_buf fp = Some buf \<and> \<not> flushed fp \<and>
     length slots = units_source_expected fp + units_fec_expected fp \<and> length slots \<le> UNIT_SLOTS_MAX \<and>
     unit_slots_size fp = length slots \<and>
     0 < buf_size_per_unit fp \<and> buf_size_per_unit fp \<le> buf_stride_per_unit fp \<and>
     length slots * buf_stride_per_unit fp \<le> length buf \<and>
     (\<forall>i < length slots. slots ! i = length (U i) \<and> length (U i) \<le> buf_size_per_unit fp \<and>
        take (buf_size_per_unit fp) (drop (i * buf_stride_per_unit fp) buf) = pad_unit (buf_size_per_unit fp) (U i)) \<and>
     units_source_received fp = card {i. i < units_source_expected fp \<and> U i \<noteq> []} \<and>
     units_fec_received fp = card {i. units_source_expected fp \<le> i \<and> i < length slots \<and> U i \<noteq> []})"

lemma length_pad_unit: "length u \<le> n \<Longrightarrow> length (pad_unit n u) = n"
  by (simp add: pad_unit_def)

lemma take_pad_unit [simp]: "take (length u) (pad_unit n u) = u"
  by (simp add: pad_unit_def)

lemma slot_take:
  assumes "take n (drop o1 buf) = pad_unit n u" "length u \<le> n"
  shows "take (length u) (drop o1 buf) = u"
proof -
  have "take (length u) (drop o1 buf) = take (length u) (take n (drop o1 buf))"
    using assms(2) by (simp add: min_absorb1)
  then show ?thesis using assms(1) by simp
qed


text \<open>The buffer of the processor keeps the size it was allocated with.\<close>

definition fp_buf_ok :: "frame_processor \<Rightarrow> bool" where
  "fp_buf_ok fp \<longleftrightarrow> (case frame_buf fp of
     None \<Rightarrow> frame_buf_size fp = 0
   | Some buf \<Rightarrow> length buf = frame_buf_size fp + CHIAKI_VIDEO_BUFFER_PADDING_SIZE)"

lemma alloc_frame_buf_success:
  assumes "alloc_frame_buf buf_ok fp = Some (CHIAKI_ERR_SUCCESS, fp')" "fp_buf_ok fp"
  shows "\<exists>buf n. fp' = fp\<lparr>frame_buf := Some buf, frame_buf_size := n\<rparr> \<and>
     length buf = n + CHIAKI_VIDEO_BUFFER_PADDING_SIZE \<and> unit_slots_size fp * buf_stride_per_unit fp \<le> n \<and>
     take (unit_slots_size fp * buf_stride_per_unit fp) buf = replicate (unit_slots_size fp * buf_stride_per_unit fp) 0"
proof -
  define n where "n = unit_slots_size fp * buf_stride_per_unit fp"
  show ?thesis
  proof (cases "frame_buf_size fp < n")
    case True
    then have "fp' = fp\<lparr>frame_buf := Some (replicate (n + CHIAKI_VIDEO_BUFFER_PADDING_SIZE) 0), frame_buf_size := n\<rparr>"
      using assms(1) unfolding alloc_frame_buf_def Let_def n_def [symmetric] by (simp split: if_splits)
    then show ?thesis
      unfolding n_def [symmetric]
      by (intro exI [of _ "replicate (n + CHIAKI_VIDEO_BUFFER_PADDING_SIZE) 0"] exI [of _ n]) simp
  next
    case False
    then obtain b buf where b: "frame_buf fp = Some b"
      "store_bytes b 0 (replicate (n + CHIAKI_VIDEO_BUFFER_PADDING_SIZE) 0) = Some buf" "fp' = fp\<lparr>frame_buf := Some buf\<rparr>"
      using assms(1) unfolding alloc_frame_buf_def Let_def n_def [symmetric] by (auto split: if_splits Option.bind_splits)
    have "length buf = frame_buf_size fp + CHIAKI_VIDEO_BUFFER_PADDING_SIZE"
      using assms(2) b(1) length_store_bytes [OF b(2)] by (simp add: fp_buf_ok_def)
    moreover have "take n buf = replicate n 0"
      using b(2) by (auto simp: store_bytes_def split: if_splits)
    ultimately show ?thesis
      using False b(3) unfolding n_def [symmetric] by (intro exI [of _ buf] exI [of _ "frame_buf_size fp"]) simp
  qed
qed

lemma stride_ge:
  "n < 2 ^ 63 \<Longrightarrow> n \<le> u64_add n 0xf div 0x10 * 0x10"
proof -
  assume "n < 2 ^ 63"
  then have "u64_add n 0xf = n + 15" by (simp add: u64_add_small)
  moreover have "(n + 15) div 16 * 16 + (n + 15) mod 16 = n + 15" by (rule div_mult_mod_eq)
  moreover have "(n + 15) mod 16 < 16" by simp
  ultimately show ?thesis by simp
qed

lemma alloc_frame_holds:
  assumes r: "chiaki_frame_processor_alloc_frame slots_ok buf_ok fp packet = Some (CHIAKI_ERR_SUCCESS, fp')"
    and ok: "fp_buf_ok fp" and small: "av_data_size packet < 2 ^ 62"
  shows "fp_holds fp' (\<lambda>_. []) \<and> fp_buf_ok fp' \<and> av_data_size packet \<le> buf_size_per_unit fp' \<and>
     units_source_expected fp' = unat (units_in_frame_total packet) - unat (units_in_frame_fec packet)"
proof -
  define source where "source = unat (units_in_frame_total packet) - unat (units_in_frame_fec packet)"
  define fec where "fec = (if unat (units_in_frame_fec packet) < 1 then 1 else unat (units_in_frame_fec packet))"
  define extend where "extend \<longleftrightarrow> is_video packet \<and> unat (unit_index packet) < source"
  from r obtain ext where ext: "(if extend then map_option unat (load16be (av_data packet) 0) else Some 0) = Some ext"
    unfolding chiaki_frame_processor_alloc_frame_def Let_def source_def [symmetric] fec_def [symmetric] extend_def [symmetric]
    by (cases "if extend then map_option unat (load16be (av_data packet) 0) else Some 0") (simp_all split: if_splits)
  define size_pu where "size_pu = u64_add (av_data_size packet) ext"
  define stride where "stride = u64_add size_pu 0xf div 0x10 * 0x10"
  have e16: "ext < 2 ^ 16"
    using ext unat_bound [where 'a = 16] by (auto split: if_splits)
  then have s: "size_pu = av_data_size packet + ext" "size_pu < 2 ^ 63"
    using small by (simp_all add: size_pu_def u64_add_small)
  define fp1 where "fp1 = fp\<lparr>flushed := False, units_source_expected := source, units_fec_expected := fec,
       buf_size_per_unit := size_pu, buf_stride_per_unit := stride, units_source_received := 0, units_fec_received := 0,
       unit_slots := Some (replicate (source + fec) 0), unit_slots_size := source + fec\<rparr>"
  note r' = r [unfolded chiaki_frame_processor_alloc_frame_def Let_def source_def [symmetric] fec_def [symmetric]
      extend_def [symmetric] ext Option.bind.bind_lunit size_pu_def [symmetric] stride_def [symmetric]]
  have 1: "size_pu \<noteq> 0" "source + fec \<le> UNIT_SLOTS_MAX" "alloc_frame_buf buf_ok fp1 = Some (CHIAKI_ERR_SUCCESS, fp')"
    using r' by (simp_all add: alloc_unit_slots_def fp1_def split: if_splits)
  have "fp_buf_ok fp1" using ok by (cases "frame_buf fp") (simp_all add: fp_buf_ok_def fp1_def)
  from alloc_frame_buf_success [OF 1(3) this] obtain buf n where
    b: "fp' = fp1\<lparr>frame_buf := Some buf, frame_buf_size := n\<rparr>" "length buf = n + CHIAKI_VIDEO_BUFFER_PADDING_SIZE"
      "(source + fec) * stride \<le> n" "take ((source + fec) * stride) buf = replicate ((source + fec) * stride) 0"
    by (auto simp: fp1_def)
  have st: "size_pu \<le> stride" unfolding stride_def by (rule stride_ge [OF s(2)])
  have zero: "take size_pu (drop (i * stride) buf) = replicate size_pu 0" if "i < source + fec" for i
  proof -
    have "Suc i * stride \<le> (source + fec) * stride" using that by (intro mult_right_mono) simp_all
    then have le: "i * stride + size_pu \<le> (source + fec) * stride" using st by simp
    have "take size_pu (drop (i * stride) buf) = take size_pu (drop (i * stride) (take ((source + fec) * stride) buf))"
      using le by (simp add: drop_take min_def)
    also have "\<dots> = replicate size_pu 0" using le by (simp add: b(4) min_def)
    finally show ?thesis .
  qed
  have "fp_holds fp' (\<lambda>_. [])"
    unfolding fp_holds_def using 1 b st zero by (simp add: fp1_def pad_unit_def)
  moreover have "fp_buf_ok fp'" using b by (simp add: fp_buf_ok_def)
  ultimately show ?thesis using s(1) by (simp add: b(1) fp1_def source_def)
qed

lemma put_unit_holds:
  assumes h: "fp_holds fp U" and i: "unat (unit_index packet) = i" "i < units_source_expected fp + units_fec_expected fp"
    and d: "load_bytes (av_data packet) 0 (av_data_size packet) = Some data" "data \<noteq> []" "length data \<le> buf_size_per_unit fp"
    and new: "U i = []"
  shows "\<exists>fp'. chiaki_frame_processor_put_unit fp packet = Some (CHIAKI_ERR_SUCCESS, fp') \<and>
     fp_holds fp' (U(i := data)) \<and> units_source_expected fp' = units_source_expected fp \<and>
     units_fec_expected fp' = units_fec_expected fp \<and> buf_size_per_unit fp' = buf_size_per_unit fp"
proof -
  from h obtain slots buf where
    s: "unit_slots fp = Some slots" "frame_buf fp = Some buf" "\<not> flushed fp"
     "length slots = units_source_expected fp + units_fec_expected fp" "length slots \<le> UNIT_SLOTS_MAX"
     "unit_slots_size fp = length slots" "0 < buf_size_per_unit fp" "buf_size_per_unit fp \<le> buf_stride_per_unit fp"
     "length slots * buf_stride_per_unit fp \<le> length buf"
    and u: "\<forall>i < length slots. slots ! i = length (U i) \<and> length (U i) \<le> buf_size_per_unit fp \<and>
        take (buf_size_per_unit fp) (drop (i * buf_stride_per_unit fp) buf) = pad_unit (buf_size_per_unit fp) (U i)"
    and r: "units_source_received fp = card {i. i < units_source_expected fp \<and> U i \<noteq> []}"
      "units_fec_received fp = card {i. units_source_expected fp \<le> i \<and> i < length slots \<and> U i \<noteq> []}"
    unfolding fp_holds_def by blast
  let ?n = "buf_size_per_unit fp" and ?s = "buf_stride_per_unit fp"
  have il: "i < length slots" using i s(4) by simp
  have len: "length data = av_data_size packet"
    using d(1) by (auto simp: load_bytes_Some_iff)
  then have pos: "0 < av_data_size packet" using d(2) by (cases data) simp_all
  have "Suc i * ?s \<le> length slots * ?s" using il by (intro mult_right_mono) simp_all
  then have fit: "i * ?s + length data \<le> length buf" using s(8,9) d(3) by simp
  then obtain buf1 where st: "store_bytes buf (i * ?s) data = Some buf1" by (simp add: store_bytes_def)
  have len1: "length buf1 = length buf" by (rule length_store_bytes [OF st])
  have other: "take ?n (drop (j * ?s) buf1) = take ?n (drop (j * ?s) buf)" if "j \<noteq> i" for j
  proof -
    have "j * ?s + ?n \<le> i * ?s \<or> i * ?s + length data \<le> j * ?s"
    proof (cases "j < i")
      case True
      then have "Suc j * ?s \<le> i * ?s" by (intro mult_right_mono) simp_all
      then show ?thesis using s(8) by simp
    next
      case False
      then have "Suc i * ?s \<le> j * ?s" using that by (intro mult_right_mono) simp_all
      then show ?thesis using s(8) d(3) by simp
    qed
    then show ?thesis by (rule store_bytes_elsewhere [OF st])
  qed
  have self: "take ?n (drop (i * ?s) buf1) = pad_unit ?n data"
  proof -
    have z: "take ?n (drop (i * ?s) buf) = replicate ?n 0"
      using u il new by (simp add: pad_unit_def)
    have b1: "drop (i * ?s) buf1 = data @ drop (i * ?s + length data) buf"
      using st by (auto simp: store_bytes_def split: if_splits)
    have "take (?n - length data) (drop (i * ?s + length data) buf)
        = drop (length data) (take ?n (drop (i * ?s) buf))"
      by (simp add: drop_take add.commute)
    also have "\<dots> = replicate (?n - length data) 0" by (simp add: z)
    finally show ?thesis using d(3) by (simp add: b1 pad_unit_def)
  qed
  define fp' where "fp' = (let fp1 = fp\<lparr>unit_slots := Some (slots[i := length data]), frame_buf := Some buf1\<rparr> in
     if i < units_source_expected fp then fp1\<lparr>units_source_received := units_source_received fp + 1\<rparr>
     else fp1\<lparr>units_fec_received := units_fec_received fp + 1\<rparr>)"
  have put: "chiaki_frame_processor_put_unit fp packet = Some (CHIAKI_ERR_SUCCESS, fp')"
    using i il s u new d st len pos
    by (simp add: chiaki_frame_processor_put_unit_def Let_def fp'_def)
  have c1: "card {j. j < units_source_expected fp \<and> (U(i := data)) j \<noteq> []}
      = card {j. j < units_source_expected fp \<and> U j \<noteq> []} + (if i < units_source_expected fp then 1 else 0)"
  proof (cases "i < units_source_expected fp")
    case True
    then have "{j. j < units_source_expected fp \<and> (U(i := data)) j \<noteq> []}
        = insert i {j. j < units_source_expected fp \<and> U j \<noteq> []}" using d(2) by auto
    then show ?thesis using True new by (simp add: card_insert_if)
  next
    case False
    then have "{j. j < units_source_expected fp \<and> (U(i := data)) j \<noteq> []}
        = {j. j < units_source_expected fp \<and> U j \<noteq> []}" by auto
    then show ?thesis using False by simp
  qed
  have c2: "card {j. units_source_expected fp \<le> j \<and> j < length slots \<and> (U(i := data)) j \<noteq> []}
      = card {j. units_source_expected fp \<le> j \<and> j < length slots \<and> U j \<noteq> []} + (if i < units_source_expected fp then 0 else 1)"
  proof (cases "i < units_source_expected fp")
    case False
    then have "{j. units_source_expected fp \<le> j \<and> j < length slots \<and> (U(i := data)) j \<noteq> []}
        = insert i {j. units_source_expected fp \<le> j \<and> j < length slots \<and> U j \<noteq> []}" using d(2) il by auto
    then show ?thesis using False new by (simp add: card_insert_if)
  next
    case True
    then have "{j. units_source_expected fp \<le> j \<and> j < length slots \<and> (U(i := data)) j \<noteq> []}
        = {j. units_source_expected fp \<le> j \<and> j < length slots \<and> U j \<noteq> []}" by auto
    then show ?thesis using True by simp
  qed
  have "fp_holds fp' (U(i := data))"
    unfolding fp_holds_def
  proof (intro exI conjI)
    show "unit_slots fp' = Some (slots[i := length data])" "frame_buf fp' = Some buf1"
      by (simp_all add: fp'_def Let_def)
    show "\<forall>j < length (slots[i := length data]). slots[i := length data] ! j = length ((U(i := data)) j) \<and>
        length ((U(i := data)) j) \<le> buf_size_per_unit fp' \<and>
        take (buf_size_per_unit fp') (drop (j * buf_stride_per_unit fp') buf1) = pad_unit (buf_size_per_unit fp') ((U(i := data)) j)"
      using u other self d(3) il by (auto simp: fp'_def Let_def nth_list_update)
    show "units_source_received fp' = card {j. j < units_source_expected fp' \<and> (U(i := data)) j \<noteq> []}"
      using c1 r by (simp add: fp'_def Let_def)
    show "units_fec_received fp' = card {j. units_source_expected fp' \<le> j \<and> j < length (slots[i := length data]) \<and> (U(i := data)) j \<noteq> []}"
      using c2 r by (simp add: fp'_def Let_def)
  qed (use s len1 in \<open>simp_all add: fp'_def Let_def\<close>)
  with put show ?thesis by (simp add: fp'_def Let_def)
qed


text \<open>Any packet: the first acceptable unit of a slot is kept, all others change nothing.\<close>

fun first_unit :: "nat \<Rightarrow> av_packet list \<Rightarrow> nat \<Rightarrow> bytes" where
  "first_unit n [] i = []"
| "first_unit n (p # ps) i =
     (if unat (unit_index p) = i \<and> 0 < av_data_size p \<and> av_data_size p \<le> n
      then take (av_data_size p) (av_data p) else first_unit n ps i)"

definition packet_in_memory :: "nat \<Rightarrow> av_packet \<Rightarrow> bool" where
  "packet_in_memory slots p \<longleftrightarrow> unat (unit_index p) \<noteq> slots \<and> av_data_size p \<le> length (av_data p)"

text \<open>The receiver puts the units of a frame one after the other and ignores the error codes.\<close>

definition put_units :: "av_packet list \<Rightarrow> frame_processor \<Rightarrow> frame_processor option" where
  "put_units = fold_opt (\<lambda>p fp. map_option snd (chiaki_frame_processor_put_unit fp p))"

lemma fp_holds_cong:
  assumes "\<And>i. i < units_source_expected fp + units_fec_expected fp \<Longrightarrow> U i = V i" "fp_holds fp U"
  shows "fp_holds fp V"
proof -
  have 1: "{i. i < units_source_expected fp \<and> V i \<noteq> []} = {i. i < units_source_expected fp \<and> U i \<noteq> []}"
    using assms(1) by auto
  have 2: "{i. units_source_expected fp \<le> i \<and> i < units_source_expected fp + units_fec_expected fp \<and> V i \<noteq> []}
     = {i. units_source_expected fp \<le> i \<and> i < units_source_expected fp + units_fec_expected fp \<and> U i \<noteq> []}"
    using assms(1) by auto
  from assms(2) obtain slots buf where h: "unit_slots fp = Some slots" "frame_buf fp = Some buf" "\<not> flushed fp"
     "length slots = units_source_expected fp + units_fec_expected fp" "length slots \<le> UNIT_SLOTS_MAX"
     "unit_slots_size fp = length slots"
     "0 < buf_size_per_unit fp" "buf_size_per_unit fp \<le> buf_stride_per_unit fp"
     "length slots * buf_stride_per_unit fp \<le> length buf"
     "\<forall>i < length slots. slots ! i = length (U i) \<and> length (U i) \<le> buf_size_per_unit fp \<and>
        take (buf_size_per_unit fp) (drop (i * buf_stride_per_unit fp) buf) = pad_unit (buf_size_per_unit fp) (U i)"
     "units_source_received fp = card {i. i < units_source_expected fp \<and> U i \<noteq> []}"
     "units_fec_received fp = card {i. units_source_expected fp \<le> i \<and> i < length slots \<and> U i \<noteq> []}"
    unfolding fp_holds_def by blast
  show ?thesis
    unfolding fp_holds_def
    by (intro exI [of _ slots] exI [of _ buf]) (use h assms(1) 1 2 in auto)
qed

lemma put_unit_any:
  assumes h: "fp_holds fp U" and p: "packet_in_memory (unit_slots_size fp) packet"
  shows "\<exists>err fp'. chiaki_frame_processor_put_unit fp packet = Some (err, fp') \<and>
     fp_holds fp' (\<lambda>i. if U i = [] then first_unit (buf_size_per_unit fp) [packet] i else U i) \<and>
     units_source_expected fp' = units_source_expected fp \<and>
     units_fec_expected fp' = units_fec_expected fp \<and> buf_size_per_unit fp' = buf_size_per_unit fp"
proof -
  let ?i = "unat (unit_index packet)" and ?n = "av_data_size packet"
  from h obtain slots where s: "unit_slots fp = Some slots"
     "length slots = units_source_expected fp + units_fec_expected fp" "unit_slots_size fp = length slots"
     "\<forall>i < length slots. slots ! i = length (U i)"
    unfolding fp_holds_def by blast
  show ?thesis
  proof (cases "?i < length slots \<and> 0 < ?n \<and> ?n \<le> buf_size_per_unit fp \<and> U ?i = []")
    case True
    let ?d = "take ?n (av_data packet)"
    have len: "length ?d = ?n" using p by (simp add: packet_in_memory_def)
    have ne: "?d \<noteq> []" using True len by (metis length_greater_0_conv)
    have "\<exists>fp'. chiaki_frame_processor_put_unit fp packet = Some (CHIAKI_ERR_SUCCESS, fp') \<and>
     fp_holds fp' (U(?i := ?d)) \<and> units_source_expected fp' = units_source_expected fp \<and>
     units_fec_expected fp' = units_fec_expected fp \<and> buf_size_per_unit fp' = buf_size_per_unit fp"
    proof (rule put_unit_holds [OF h refl])
      show "?i < units_source_expected fp + units_fec_expected fp" using True s(2) by simp
      show "load_bytes (av_data packet) 0 ?n = Some ?d" using p by (simp add: load_bytes_def packet_in_memory_def)
    qed (use True ne len in simp_all)
    then obtain fp' where f: "chiaki_frame_processor_put_unit fp packet = Some (CHIAKI_ERR_SUCCESS, fp')"
      "fp_holds fp' (U(?i := ?d))" "units_source_expected fp' = units_source_expected fp"
      "units_fec_expected fp' = units_fec_expected fp" "buf_size_per_unit fp' = buf_size_per_unit fp" by blast
    have "fp_holds fp' (\<lambda>i. if U i = [] then first_unit (buf_size_per_unit fp) [packet] i else U i)"
      by (rule fp_holds_cong [OF _ f(2)]) (use True in auto)
    with f show ?thesis by blast
  next
    case False
    have "chiaki_frame_processor_put_unit fp packet = Some (CHIAKI_ERR_INVALID_DATA, fp)"
      using False s p by (auto simp: chiaki_frame_processor_put_unit_def packet_in_memory_def Let_def)
    moreover have "fp_holds fp (\<lambda>i. if U i = [] then first_unit (buf_size_per_unit fp) [packet] i else U i)"
      by (rule fp_holds_cong [OF _ h]) (use False s in auto)
    ultimately show ?thesis by blast
  qed
qed

lemma put_units_holds:
  assumes "fp_holds fp U" "\<forall>p \<in> set packets. packet_in_memory (units_source_expected fp + units_fec_expected fp) p"
  shows "\<exists>fp'. put_units packets fp = Some fp' \<and>
     fp_holds fp' (\<lambda>i. if U i = [] then first_unit (buf_size_per_unit fp) packets i else U i) \<and>
     units_source_expected fp' = units_source_expected fp \<and>
     units_fec_expected fp' = units_fec_expected fp \<and> buf_size_per_unit fp' = buf_size_per_unit fp"
  using assms
proof (induction packets arbitrary: fp U)
  case Nil
  have "fp_holds fp (\<lambda>i. if U i = [] then first_unit (buf_size_per_unit fp) [] i else U i)"
    by (rule fp_holds_cong [OF _ Nil.prems(1)]) simp
  moreover have "put_units [] fp = Some fp" by (simp add: put_units_def)
  ultimately show ?case by blast
next
  case (Cons p ps)
  have "unit_slots_size fp = units_source_expected fp + units_fec_expected fp"
    using Cons.prems(1) unfolding fp_holds_def by force
  with Cons.prems have "packet_in_memory (unit_slots_size fp) p" by simp
  from put_unit_any [OF Cons.prems(1) this] obtain err fp1 where
    1: "chiaki_frame_processor_put_unit fp p = Some (err, fp1)"
      "fp_holds fp1 (\<lambda>i. if U i = [] then first_unit (buf_size_per_unit fp) [p] i else U i)"
      "units_source_expected fp1 = units_source_expected fp"
      "units_fec_expected fp1 = units_fec_expected fp" "buf_size_per_unit fp1 = buf_size_per_unit fp" by blast
  have all: "\<forall>p \<in> set ps. packet_in_memory (units_source_expected fp1 + units_fec_expected fp1) p"
    using Cons.prems(2) 1 by simp
  from Cons.IH [OF 1(2) all] obtain fp2 where
    2: "put_units ps fp1 = Some fp2"
      "fp_holds fp2 (\<lambda>i. if (if U i = [] then first_unit (buf_size_per_unit fp) [p] i else U i) = []
          then first_unit (buf_size_per_unit fp1) ps i
          else (if U i = [] then first_unit (buf_size_per_unit fp) [p] i else U i))"
      "units_source_expected fp2 = units_source_expected fp1"
      "units_fec_expected fp2 = units_fec_expected fp1" "buf_size_per_unit fp2 = buf_size_per_unit fp1" by blast
  have len: "av_data_size p \<le> length (av_data p)"
    using Cons.prems(2) by (simp add: packet_in_memory_def)
  have "fp_holds fp2 (\<lambda>i. if U i = [] then first_unit (buf_size_per_unit fp) (p # ps) i else U i)"
    by (rule fp_holds_cong [OF _ 2(2)]) (use 1(5) len in auto)
  with 1 2 show ?case by (simp add: put_units_def)
qed


section \<open>Flushing a frame\<close>

lemma flush_holds:
  assumes h: "fp_holds fp U" and k: "0 < units_source_expected fp"
    and all: "\<forall>i < units_source_expected fp. U i \<noteq> []"
  shows "\<exists>fp'. chiaki_frame_processor_flush jerasure erasures_ok matrix allocs fp =
     Some (CHIAKI_FRAME_PROCESSOR_FLUSH_RESULT_SUCCESS,
       concat (map (\<lambda>i. drop 2 (U i)) [0..<units_source_expected fp]), fp')"
proof -
  let ?k = "units_source_expected fp"
  from h obtain slots buf where s: "unit_slots fp = Some slots" "frame_buf fp = Some buf" "\<not> flushed fp"
     "length slots = ?k + units_fec_expected fp" "buf_size_per_unit fp \<le> buf_stride_per_unit fp"
     "length slots * buf_stride_per_unit fp \<le> length buf"
    and u: "\<forall>i < length slots. slots ! i = length (U i) \<and> length (U i) \<le> buf_size_per_unit fp \<and>
        take (buf_size_per_unit fp) (drop (i * buf_stride_per_unit fp) buf) = pad_unit (buf_size_per_unit fp) (U i)"
    and r: "units_source_received fp = card {i. i < ?k \<and> U i \<noteq> []}"
    unfolding fp_holds_def by blast
  have "{i. i < ?k \<and> U i \<noteq> []} = {..<?k}" using all by auto
  then have full: "units_source_received fp = ?k" using r by simp
  have kl: "?k \<le> length slots" using s(4) by simp
  have "?k * buf_stride_per_unit fp \<le> length slots * buf_stride_per_unit fp" using kl by (rule mult_right_mono) simp
  then have fit: "?k * buf_stride_per_unit fp \<le> length buf" using s(6) by (rule le_trans)
  have "\<exists>buf' cur'. flush_loop slots (buf_stride_per_unit fp) [0..<?k] (buf, 0) = Some (buf', cur') \<and>
     length buf' = length buf \<and> take cur' buf' = take 0 buf @ concat (map (\<lambda>i. drop 2 (U i)) [0..<?k])"
  proof (rule flush_loop_spec)
    show "\<forall>i. 0 \<le> i \<and> i < ?k \<longrightarrow> slots ! i = length (U i) \<and> length (U i) \<le> buf_stride_per_unit fp \<and>
        take (length (U i)) (drop (i * buf_stride_per_unit fp) buf) = U i"
    proof (intro allI impI)
      fix i assume "0 \<le> i \<and> i < ?k"
      then have il: "i < length slots" using kl by simp
      with u have x: "slots ! i = length (U i)" "length (U i) \<le> buf_size_per_unit fp"
        "take (buf_size_per_unit fp) (drop (i * buf_stride_per_unit fp) buf) = pad_unit (buf_size_per_unit fp) (U i)" by auto
      with slot_take [OF x(3,2)] s(5)
      show "slots ! i = length (U i) \<and> length (U i) \<le> buf_stride_per_unit fp \<and>
        take (length (U i)) (drop (i * buf_stride_per_unit fp) buf) = U i" by auto
    qed
  qed (use kl fit in simp_all)
  then show ?thesis
    using s k full by (auto simp: chiaki_frame_processor_flush_def)
qed

text \<open>
  Forward error correction: \<open>D i\<close> are the units the console sent. \<open>jerasure_recovers\<close> states what
  the erasure code promises: from the padded units of which at most \<open>m\<close> are erased (and zero),
  it restores all of them. \<open>source_unit_ok\<close>: a source unit begins with its number of padding bytes.
\<close>

definition jerasure_recovers :: "jerasure \<Rightarrow> nat \<Rightarrow> nat \<Rightarrow> nat \<Rightarrow> (nat \<Rightarrow> bytes) \<Rightarrow> bool" where
  "jerasure_recovers jerasure k m n D \<longleftrightarrow>
     (\<forall>E \<in> set (subseqs [0..<k + m]). length E \<le> m \<longrightarrow>
        jerasure k m E (map (\<lambda>i. pad_unit n (if i \<in> set E then [] else D i)) [0..<k + m])
          = Some (map (\<lambda>i. pad_unit n (D i)) [0..<k + m]))"

definition source_unit_ok :: "nat \<Rightarrow> bytes \<Rightarrow> bool" where
  "source_unit_ok n u \<longleftrightarrow> 2 \<le> length u \<and> length u \<le> n \<and> map_option unat (load16be u 0) = Some (n - length u)"

lemma fec_erasures_spec:
  assumes "\<forall>i \<in> set is. i < length slots" "length acc + length (filter (\<lambda>i. slots ! i = 0) is) = n"
  shows "fec_erasures slots n is acc = Some (acc @ filter (\<lambda>i. slots ! i = 0) is)"
  using assms by (induction "is" arbitrary: acc) (auto split: if_splits)

lemma load_units_spec:
  assumes "\<forall>i \<in> set is. stride * i + n \<le> length buf"
  shows "load_units buf n stride is = Some (map (\<lambda>i. take n (drop (stride * i) buf)) is)"
  using assms by (induction "is") (simp_all add: load_bytes_def)

lemma store_units_spec:
  assumes "\<forall>u \<in> set us. length u = n" "n \<le> stride" "stride * (j + length us) \<le> length buf"
  shows "\<exists>buf'. store_units stride j us buf = Some buf' \<and> length buf' = length buf \<and>
     (\<forall>i. take n (drop (stride * i) buf') =
        (if j \<le> i \<and> i < j + length us then us ! (i - j) else take n (drop (stride * i) buf)))"
  using assms
proof (induction us arbitrary: j buf)
  case Nil
  then show ?case by auto
next
  case (Cons u us)
  have "stride * j + n \<le> length buf" using Cons.prems(2,3) by (simp add: algebra_simps)
  then have "stride * j + length u \<le> length buf" using Cons.prems(1) by simp
  then obtain buf1 where st: "store_bytes buf (stride * j) u = Some buf1" by (simp add: store_bytes_def)
  have len: "length buf1 = length buf" by (rule length_store_bytes [OF st])
  have lu: "length u = n" using Cons.prems(1) by simp
  have other: "take n (drop (stride * i) buf1) = take n (drop (stride * i) buf)" if "i \<noteq> j" for i
  proof (rule store_bytes_elsewhere [OF st])
    show "stride * i + n \<le> stride * j \<or> stride * j + length u \<le> stride * i"
    proof (cases "i < j")
      case True
      then have "stride * Suc i \<le> stride * j" by (intro mult_left_mono) simp_all
      then show ?thesis using Cons.prems(2) by simp
    next
      case False
      then have "stride * Suc j \<le> stride * i" using that by (intro mult_left_mono) simp_all
      then show ?thesis using Cons.prems(2) lu by simp
    qed
  qed
  have self: "take n (drop (stride * j) buf1) = u" using store_bytes_same [OF st] lu by simp
  have "\<exists>buf'. store_units stride (Suc j) us buf1 = Some buf' \<and> length buf' = length buf1 \<and>
     (\<forall>i. take n (drop (stride * i) buf') =
        (if Suc j \<le> i \<and> i < Suc j + length us then us ! (i - Suc j) else take n (drop (stride * i) buf1)))"
    by (rule Cons.IH) (use Cons.prems len in simp_all)
  then obtain buf' where b: "store_units stride (Suc j) us buf1 = Some buf'" "length buf' = length buf1"
    "\<forall>i. take n (drop (stride * i) buf') =
        (if Suc j \<le> i \<and> i < Suc j + length us then us ! (i - Suc j) else take n (drop (stride * i) buf1))" by blast
  have "take n (drop (stride * i) buf') =
      (if j \<le> i \<and> i < j + length (u # us) then (u # us) ! (i - j) else take n (drop (stride * i) buf))" for i
  proof (cases "i = j")
    case True
    then show ?thesis using b(3) self by simp
  next
    case False
    then show ?thesis using b(3) other [OF False] by (auto simp: nth_Cons')
  qed
  then show ?case using st b len by auto
qed

lemma restore_sizes_spec:
  assumes "\<forall>i \<in> set is. map_option unat (load16be buf (stride * i)) = Some (n - L i) \<and> 0 < L i \<and> L i \<le> n \<and> i < length slots"
  shows "\<exists>slots'. restore_sizes buf n stride is slots = Some slots' \<and> length slots' = length slots \<and>
     (\<forall>i < length slots. slots' ! i = (if i \<in> set is then L i else slots ! i))"
  using assms
proof (induction "is" arbitrary: slots)
  case (Cons i "is")
  have i: "map_option unat (load16be buf (stride * i)) = Some (n - L i)" "0 < L i" "L i \<le> n" "i < length slots"
    using Cons.prems by auto
  then have "\<not> n - L i \<ge> n" "n - (n - L i) = L i" by simp_all
  moreover have "\<exists>slots'. restore_sizes buf n stride is (slots[i := L i]) = Some slots' \<and>
     length slots' = length (slots[i := L i]) \<and>
     (\<forall>j < length (slots[i := L i]). slots' ! j = (if j \<in> set is then L j else slots[i := L i] ! j))"
    by (rule Cons.IH) (use Cons.prems in simp)
  ultimately show ?case using i by (auto simp: nth_list_update)
qed simp


lemma filter_in_subseqs: "filter P xs \<in> set (subseqs xs)"
  by (induction xs) (auto simp: Let_def)

lemma missing_count:
  assumes "length slots = k + m" "\<forall>i < length slots. slots ! i = length (U i)"
  shows "length (filter (\<lambda>i. slots ! i = 0) [0..<k + m]) + card {i. i < k \<and> U i \<noteq> []} +
     card {i. k \<le> i \<and> i < length slots \<and> U i \<noteq> []} = k + m"
proof -
  let ?A = "{i. i < k \<and> U i \<noteq> []}" and ?B = "{i. k \<le> i \<and> i < length slots \<and> U i \<noteq> []}" and ?C = "{i. i < k + m \<and> U i = []}"
  have "length (filter (\<lambda>i. slots ! i = 0) [0..<k + m]) = card (set (filter (\<lambda>i. slots ! i = 0) [0..<k + m]))"
    by (rule distinct_card [symmetric]) simp
  also have "set (filter (\<lambda>i. slots ! i = 0) [0..<k + m]) = ?C" using assms by auto
  finally have 1: "length (filter (\<lambda>i. slots ! i = 0) [0..<k + m]) = card ?C" .
  have fin: "finite ?A" "finite ?B" "finite ?C" by simp_all
  have "card (?C \<union> (?A \<union> ?B)) = card ?C + (card ?A + card ?B)"
    using fin by (subst card_Un_disjoint; (subst card_Un_disjoint)?) auto
  moreover have "?C \<union> (?A \<union> ?B) = {..<k + m}" using assms(1) by auto
  ultimately show ?thesis using 1 by simp
qed

lemma flush_fec_holds:
  assumes h: "fp_holds fp U" and k: "k = units_source_expected fp" and m: "m = units_fec_expected fp"
    and n: "n = buf_size_per_unit fp"
    and recv: "\<forall>i < k + m. U i = [] \<or> U i = D i"
    and miss: "\<exists>i < k. U i = []" and enough: "length (filter (\<lambda>i. U i = []) [0..<k + m]) \<le> m"
    and src: "\<forall>i < k. source_unit_ok n (D i)" and coded: "\<forall>i < k + m. length (D i) \<le> n"
    and jer: "jerasure_recovers jerasure k m n D"
  shows "\<exists>fp'. chiaki_frame_processor_flush jerasure True True (True, True, True) fp =
     Some (CHIAKI_FRAME_PROCESSOR_FLUSH_RESULT_FEC_SUCCESS, concat (map (\<lambda>i. drop 2 (D i)) [0..<k]), fp')"
proof -
  define stride where "stride = buf_stride_per_unit fp"
  from h obtain slots buf where s: "unit_slots fp = Some slots" "frame_buf fp = Some buf" "\<not> flushed fp"
     "length slots = k + m" "length slots \<le> UNIT_SLOTS_MAX" "n \<le> stride" "length slots * stride \<le> length buf"
    and u: "\<forall>i < length slots. slots ! i = length (U i) \<and> length (U i) \<le> n \<and>
        take n (drop (i * stride) buf) = pad_unit n (U i)"
    and r: "units_source_received fp = card {i. i < k \<and> U i \<noteq> []}"
      "units_fec_received fp = card {i. k \<le> i \<and> i < length slots \<and> U i \<noteq> []}"
    unfolding fp_holds_def k m n stride_def by blast
  define E where "E = filter (\<lambda>i. slots ! i = 0) [0..<k + m]"
  have E': "E = filter (\<lambda>i. U i = []) [0..<k + m]"
    unfolding E_def using u s(4) by (intro filter_cong) auto
  have cnt: "length E + units_source_received fp + units_fec_received fp = k + m"
    using missing_count [of slots k m U] u s(4) r unfolding E_def by simp
  have kpos: "0 < k" using miss by auto
  have "{i. i < k \<and> U i \<noteq> []} \<subset> {..<k}" using miss by auto
  then have "card {i. i < k \<and> U i \<noteq> []} < card {..<k}" by (rule psubset_card_mono [rotated]) simp
  then have lt: "units_source_received fp < k" using r by simp
  have "(k + m + 2 ^ 32 - (units_source_received fp + units_fec_received fp)) = length E + 2 ^ 32" using cnt by linarith
  moreover have "length E < 2 ^ 32"
    using s(4,5) cnt by simp
  ultimately have ec: "(k + m + 2 ^ 32 - (units_source_received fp + units_fec_received fp)) mod 2 ^ 32 = length E" by simp
  have er: "fec_erasures slots (length E) [0..<k + m] [] = Some E"
    using fec_erasures_spec [of "[0..<k + m]" slots "[]" "length E"] s(4) by (simp add: E_def)
  have slotfit: "stride * i + n \<le> length buf" if "i < k + m" for i
  proof -
    have "Suc i * stride \<le> length slots * stride" using that s(4) by (intro mult_right_mono) simp_all
    then show ?thesis using s(6,7) by (simp add: algebra_simps)
  qed
  have units: "load_units buf n stride [0..<k + m] = Some (map (\<lambda>i. pad_unit n (if i \<in> set E then [] else D i)) [0..<k + m])"
  proof -
    have "load_units buf n stride [0..<k + m] = Some (map (\<lambda>i. take n (drop (stride * i) buf)) [0..<k + m])"
      by (rule load_units_spec) (use slotfit in simp)
    moreover have "take n (drop (stride * i) buf) = pad_unit n (if i \<in> set E then [] else D i)" if "i < k + m" for i
      using u recv that s(4) by (auto simp: E' mult.commute)
    ultimately show ?thesis by simp
  qed
  have "E \<in> set (subseqs [0..<k + m])" unfolding E_def by (rule filter_in_subseqs)
  then have dec: "jerasure k m E (map (\<lambda>i. pad_unit n (if i \<in> set E then [] else D i)) [0..<k + m])
      = Some (map (\<lambda>i. pad_unit n (D i)) [0..<k + m])"
    using jer enough unfolding jerasure_recovers_def E' by blast
  have "\<exists>buf'. store_units stride 0 (map (\<lambda>i. pad_unit n (D i)) [0..<k + m]) buf = Some buf' \<and> length buf' = length buf \<and>
     (\<forall>i. take n (drop (stride * i) buf') =
        (if 0 \<le> i \<and> i < 0 + length (map (\<lambda>i. pad_unit n (D i)) [0..<k + m])
         then map (\<lambda>i. pad_unit n (D i)) [0..<k + m] ! (i - 0) else take n (drop (stride * i) buf)))"
    by (rule store_units_spec) (use coded s in \<open>auto simp: length_pad_unit mult.commute\<close>)
  then obtain buf' where st: "store_units stride 0 (map (\<lambda>i. pad_unit n (D i)) [0..<k + m]) buf = Some buf'"
    "length buf' = length buf" "\<forall>i < k + m. take n (drop (stride * i) buf') = pad_unit n (D i)" by auto
  have fec: "chiaki_fec_decode jerasure True (True, True, True) buf n stride k m E = Some (CHIAKI_ERR_SUCCESS, buf')"
    using s(6) units dec st(1) by (simp add: chiaki_fec_decode_def)
  have pad: "map_option unat (load16be buf' (stride * i)) = Some (n - length (D i)) \<and> 0 < length (D i) \<and> length (D i) \<le> n \<and> i < length slots"
    if "i < k" for i
  proof -
    from src that have ok: "2 \<le> length (D i)" "length (D i) \<le> n" "map_option unat (load16be (D i) 0) = Some (n - length (D i))"
      by (auto simp: source_unit_ok_def)
    have t: "take (length (D i)) (drop (stride * i) buf') = D i"
      using slot_take [OF st(3) [rule_format] ok(2)] that by simp
    have ne: "D i \<noteq> []" using ok(1) by auto
    have "load16be buf' (stride * i) = load16be (take (length (D i)) (drop (stride * i) buf')) 0"
      using ne ok(1,2) slotfit [of i] that st(2) by (simp add: load16be_def load8_def)
    with t ok ne that s(4) show ?thesis by simp
  qed
  have "\<exists>slots'. restore_sizes buf' n stride [0..<k] slots = Some slots' \<and> length slots' = length slots \<and>
     (\<forall>i < length slots. slots' ! i = (if i \<in> set [0..<k] then length (D i) else slots ! i))"
    by (rule restore_sizes_spec) (use pad in simp)
  then obtain slots' where rs: "restore_sizes buf' n stride [0..<k] slots = Some slots'" "length slots' = length slots"
     "\<forall>i < k. slots' ! i = length (D i)" using s(4) by auto
  define fp' where "fp' = fp\<lparr>frame_buf := Some buf', unit_slots := Some slots'\<rparr>"
  have f: "chiaki_frame_processor_fec jerasure True True (True, True, True) fp = Some (CHIAKI_ERR_SUCCESS, fp')"
    using s(1,2) ec er fec rs(1)
    by (simp add: chiaki_frame_processor_fec_def Let_def k [symmetric] m [symmetric] n [symmetric] stride_def [symmetric] fp'_def)
  have "k * stride \<le> length slots * stride" using s(4) by (intro mult_right_mono) simp_all
  then have fit: "k * stride \<le> length buf" using s(7) by (rule le_trans)
  have "\<exists>buf'' cur'. flush_loop slots' stride [0..<k] (buf', 0) = Some (buf'', cur') \<and>
     length buf'' = length buf' \<and> take cur' buf'' = take 0 buf' @ concat (map (\<lambda>i. drop 2 (D i)) [0..<k])"
  proof (rule flush_loop_spec)
    show "\<forall>i. 0 \<le> i \<and> i < k \<longrightarrow> slots' ! i = length (D i) \<and> length (D i) \<le> stride \<and>
        take (length (D i)) (drop (i * stride) buf') = D i"
    proof (intro allI impI)
      fix i assume i: "0 \<le> i \<and> i < k"
      then have di: "take n (drop (i * stride) buf') = pad_unit n (D i)" "length (D i) \<le> n"
        using st(3) coded by (simp_all add: mult.commute)
      then have "length (D i) \<le> stride" using s(6) by linarith
      with slot_take [OF di] i rs(3)
      show "slots' ! i = length (D i) \<and> length (D i) \<le> stride \<and> take (length (D i)) (drop (i * stride) buf') = D i" by auto
    qed
  qed (use s(4) rs(2) fit st(2) in simp_all)
  then show ?thesis
    using f lt kpos s(3) by (auto simp: chiaki_frame_processor_flush_def k [symmetric] stride_def [symmetric] fp'_def)
qed


lemma fp_buf_ok_init: "fp_buf_ok chiaki_frame_processor_init"
  by (simp add: fp_buf_ok_def chiaki_frame_processor_init_def)

lemma put_unit_buf_ok:
  "chiaki_frame_processor_put_unit fp packet = Some (err, fp') \<Longrightarrow> fp_buf_ok fp \<Longrightarrow> fp_buf_ok fp'"
  by (auto simp: chiaki_frame_processor_put_unit_def fp_buf_ok_def Let_def
      split: if_splits Option.bind_splits option.splits dest!: length_store_bytes)

text \<open>
  C21. Reassembly. Once \<open>alloc_frame\<close> has prepared the frame of the packet \<open>p0\<close>, the units may
  arrive in any order, with duplicates, empty ones and ones that are too large among them:
  if each source unit is there, \<open>flush\<close> succeeds without error correction and hands out the
  payloads (the units without their two-byte headers) in the order of their indices, the first
  acceptable copy of each.
\<close>

theorem frame_reassembled:
  assumes "fp_buf_ok fp" "av_data_size p0 < 2 ^ 62"
    and "chiaki_frame_processor_alloc_frame slots_ok buf_ok fp p0 = Some (CHIAKI_ERR_SUCCESS, fp0)"
    and "k = unat (units_in_frame_total p0) - unat (units_in_frame_fec p0)" "0 < k"
    and "\<forall>p \<in> set packets. packet_in_memory (units_source_expected fp0 + units_fec_expected fp0) p"
    and "\<forall>i < k. first_unit (buf_size_per_unit fp0) packets i \<noteq> []"
  shows "\<exists>fp1 fp2. put_units packets fp0 = Some fp1 \<and>
     chiaki_frame_processor_flush jerasure erasures_ok matrix allocs fp1 =
       Some (CHIAKI_FRAME_PROCESSOR_FLUSH_RESULT_SUCCESS,
         concat (map (\<lambda>i. drop 2 (first_unit (buf_size_per_unit fp0) packets i)) [0..<k]), fp2)"
proof -
  from alloc_frame_holds [OF assms(3,1,2)] have 0: "fp_holds fp0 (\<lambda>_. [])" "units_source_expected fp0 = k"
    using assms(4) by auto
  from put_units_holds [OF 0(1) assms(6)] obtain fp1 where 1: "put_units packets fp0 = Some fp1"
    "fp_holds fp1 (first_unit (buf_size_per_unit fp0) packets)" "units_source_expected fp1 = k"
    using 0(2) by auto
  from flush_holds [OF 1(2)] show ?thesis using 1 assms(5,7) by simp
qed

text \<open>
  C20. Recovery. If units are missing, but no more than there are redundant ones, and those that
  arrived are what the console sent (\<open>D\<close>), \<open>flush\<close> reconstructs the frame: provided that the
  erasure code keeps its promise, the payloads handed out are those of the units that were sent,
  the lost ones included, with the padding removed that the first two bytes of each announce.
\<close>

theorem frame_recovered:
  assumes "fp_buf_ok fp" "av_data_size p0 < 2 ^ 62"
    and "chiaki_frame_processor_alloc_frame slots_ok buf_ok fp p0 = Some (CHIAKI_ERR_SUCCESS, fp0)"
    and "k = units_source_expected fp0" "m = units_fec_expected fp0" "n = buf_size_per_unit fp0"
    and "\<forall>p \<in> set packets. packet_in_memory (k + m) p"
    and "\<forall>i < k + m. first_unit n packets i = [] \<or> first_unit n packets i = D i"
    and "\<exists>i < k. first_unit n packets i = []"
    and "length (filter (\<lambda>i. first_unit n packets i = []) [0..<k + m]) \<le> m"
    and "\<forall>i < k. source_unit_ok n (D i)" "\<forall>i < k + m. length (D i) \<le> n"
    and "jerasure_recovers jerasure k m n D"
  shows "\<exists>fp1 fp2. put_units packets fp0 = Some fp1 \<and>
     chiaki_frame_processor_flush jerasure True True (True, True, True) fp1 =
       Some (CHIAKI_FRAME_PROCESSOR_FLUSH_RESULT_FEC_SUCCESS, concat (map (\<lambda>i. drop 2 (D i)) [0..<k]), fp2)"
proof -
  from alloc_frame_holds [OF assms(3,1,2)] have 0: "fp_holds fp0 (\<lambda>_. [])" by auto
  have all: "\<forall>p \<in> set packets. packet_in_memory (units_source_expected fp0 + units_fec_expected fp0) p"
    using assms(4,5,7) by simp
  have "fp_holds fp1 (\<lambda>i. if [] = [] then first_unit (buf_size_per_unit fp0) packets i else []) \<longleftrightarrow>
      fp_holds fp1 (first_unit n packets)" for fp1
    by (simp add: assms(6))
  with put_units_holds [OF 0 all] obtain fp1 where 1: "put_units packets fp0 = Some fp1"
    "fp_holds fp1 (first_unit n packets)" "units_source_expected fp1 = units_source_expected fp0"
    "units_fec_expected fp1 = units_fec_expected fp0" "buf_size_per_unit fp1 = buf_size_per_unit fp0" by blast
  have eqs: "k = units_source_expected fp1" "m = units_fec_expected fp1" "n = buf_size_per_unit fp1"
    by (simp_all only: assms(4-6) 1(3-5))
  from flush_fec_holds [OF 1(2) eqs assms(8-13)] 1(1) show ?thesis by blast
qed


section \<open>Memory safety\<close>

text \<open>The weaker invariant that also holds once a frame was flushed.\<close>

definition fp_safe :: "frame_processor \<Rightarrow> bool" where
  "fp_safe fp \<longleftrightarrow> (\<exists>slots buf. unit_slots fp = Some slots \<and> frame_buf fp = Some buf \<and>
     length slots = unit_slots_size fp \<and> buf_size_per_unit fp \<le> buf_stride_per_unit fp \<and>
     unit_slots_size fp * buf_stride_per_unit fp \<le> length buf)"

lemma fp_holds_safe: "fp_holds fp U \<Longrightarrow> fp_safe fp"
  unfolding fp_holds_def fp_safe_def by metis

lemma put_unit_safe:
  assumes "fp_safe fp" "packet_in_memory (unit_slots_size fp) packet"
  shows "\<exists>err fp'. chiaki_frame_processor_put_unit fp packet = Some (err, fp') \<and> fp_safe fp' \<and>
     unit_slots_size fp' = unit_slots_size fp"
proof -
  let ?i = "unat (unit_index packet)" and ?n = "av_data_size packet"
  from assms(1) obtain slots buf where s: "unit_slots fp = Some slots" "frame_buf fp = Some buf"
    "length slots = unit_slots_size fp" "buf_size_per_unit fp \<le> buf_stride_per_unit fp"
    "unit_slots_size fp * buf_stride_per_unit fp \<le> length buf"
    unfolding fp_safe_def by blast
  show ?thesis
  proof (cases "?i < length slots \<and> 0 < ?n \<and> ?n \<le> buf_size_per_unit fp \<and> slots ! ?i = 0")
    case False
    then have "chiaki_frame_processor_put_unit fp packet = Some (CHIAKI_ERR_INVALID_DATA, fp)"
      using s assms(2) by (auto simp: chiaki_frame_processor_put_unit_def packet_in_memory_def Let_def)
    then show ?thesis using assms(1) by blast
  next
    case True
    then have "Suc ?i * buf_stride_per_unit fp \<le> unit_slots_size fp * buf_stride_per_unit fp"
      using s(3) by (intro mult_right_mono) simp_all
    then have fit: "?i * buf_stride_per_unit fp + ?n \<le> length buf" using True s(4,5) by simp
    have d: "load_bytes (av_data packet) 0 ?n = Some (take ?n (av_data packet))"
      "length (take ?n (av_data packet)) = ?n"
      using assms(2) by (simp_all add: load_bytes_def packet_in_memory_def)
    then obtain buf' where st: "store_bytes buf (?i * buf_stride_per_unit fp) (take ?n (av_data packet)) = Some buf'"
      using fit by (simp add: store_bytes_def)
    have "length buf' = length buf" by (rule length_store_bytes [OF st])
    then show ?thesis
      using True s d(1) st by (simp add: chiaki_frame_processor_put_unit_def fp_safe_def Let_def)
  qed
qed

lemma flush_loop_length: "flush_loop slots stride is (buf, cur) = Some (buf', cur') \<Longrightarrow> length buf' = length buf"
  by (induction "is" arbitrary: buf cur)
    (auto simp: Let_def split: if_splits Option.bind_splits dest: length_store_bytes)

lemma store_units_length: "store_units stride i us buf = Some buf' \<Longrightarrow> length buf' = length buf"
  by (induction us arbitrary: i buf) (auto split: Option.bind_splits dest: length_store_bytes)

lemma fec_decode_length:
  "chiaki_fec_decode jerasure matrix allocs buf n stride k m E = Some (err, buf') \<Longrightarrow> length buf' = length buf"
  by (auto simp: chiaki_fec_decode_def split: if_splits Option.bind_splits option.splits dest: store_units_length)

lemma restore_sizes_length: "restore_sizes buf n stride is slots = Some slots' \<Longrightarrow> length slots' = length slots"
  by (induction "is" arbitrary: slots) (auto split: Option.bind_splits if_splits)

lemma fec_safe:
  assumes "chiaki_frame_processor_fec jerasure erasures_ok matrix allocs fp = Some (err, fp')" "fp_safe fp"
  shows "fp_safe fp' \<and> unit_slots_size fp' = unit_slots_size fp \<and> units_source_expected fp' = units_source_expected fp \<and>
     units_fec_expected fp' = units_fec_expected fp"
  using assms
  by (auto simp: chiaki_frame_processor_fec_def fp_safe_def Let_def
      split: if_splits Option.bind_splits prod.splits dest!: fec_decode_length restore_sizes_length)

lemma flush_safe:
  assumes "chiaki_frame_processor_flush jerasure erasures_ok matrix allocs fp = Some (r, frame, fp')" "fp_safe fp"
  shows "fp_safe fp' \<and> unit_slots_size fp' = unit_slots_size fp"
proof (cases "units_source_expected fp = 0 \<or> flushed fp")
  case True
  with assms show ?thesis by (auto simp: chiaki_frame_processor_flush_def)
next
  case False
  define flushes where "flushes fp1 \<longleftrightarrow> (\<exists>slots buf buf' cur. unit_slots fp1 = Some slots \<and> frame_buf fp1 = Some buf \<and>
    flush_loop slots (buf_stride_per_unit fp1) [0..<units_source_expected fp1] (buf, 0) = Some (buf', cur) \<and>
    fp' = fp1\<lparr>frame_buf := Some buf', stream_stats := chiaki_stream_stats_frame (stream_stats fp1) (of_nat cur)\<rparr>)" for fp1
  have "\<exists>fp1. flushes fp1 \<and> fp_safe fp1 \<and> unit_slots_size fp1 = unit_slots_size fp"
  proof (cases "units_source_received fp < units_source_expected fp")
    case True
    then obtain err fp1 where "chiaki_frame_processor_fec jerasure erasures_ok matrix allocs fp = Some (err, fp1)" "flushes fp1"
      using assms(1) False unfolding chiaki_frame_processor_flush_def flushes_def
      by (auto split: Option.bind_splits)
    with fec_safe [OF this(1) assms(2)] show ?thesis by blast
  next
    case complete: False
    then have "flushes fp"
      using assms(1) False unfolding chiaki_frame_processor_flush_def flushes_def
      by (auto split: Option.bind_splits)
    with assms(2) show ?thesis by blast
  qed
  then obtain fp1 slots buf buf' cur where 1:
    "fp_safe fp1 \<and> unit_slots_size fp1 = unit_slots_size fp"
    "unit_slots fp1 = Some slots" "frame_buf fp1 = Some buf"
    "flush_loop slots (buf_stride_per_unit fp1) [0..<units_source_expected fp1] (buf, 0) = Some (buf', cur)"
    "fp' = fp1\<lparr>frame_buf := Some buf', stream_stats := chiaki_stream_stats_frame (stream_stats fp1) (of_nat cur)\<rparr>"
    unfolding flushes_def by blast
  have "length buf' = length buf" by (rule flush_loop_length [OF 1(4)])
  with 1 show ?thesis by (auto simp: fp_safe_def)
qed

text \<open>
  Memory safety of \<open>put_unit\<close>. In a frame that was allocated, the only packets that make
  \<open>put_unit\<close> leave its memory are those whose unit index is exactly the number of slots: the
  guard \<open>unit_index > unit_slots_size\<close> lets them through, and they are written behind the slots.
  All others are stored or rejected with an error code, and the processor stays safe.
\<close>

theorem put_unit_defined_iff:
  assumes "fp_safe fp" "av_data_size packet \<le> length (av_data packet)"
    "0 < av_data_size packet" "av_data_size packet \<le> buf_size_per_unit fp"
  shows "(case chiaki_frame_processor_put_unit fp packet of
            None \<Rightarrow> unat (unit_index packet) = unit_slots_size fp
          | Some (err, fp') \<Rightarrow> unat (unit_index packet) \<noteq> unit_slots_size fp \<and> fp_safe fp')"
proof (cases "unat (unit_index packet) = unit_slots_size fp")
  case True
  from assms(1) obtain slots where "unit_slots fp = Some slots" "length slots = unit_slots_size fp"
    unfolding fp_safe_def by blast
  with True assms(3,4) show ?thesis by (simp add: chiaki_frame_processor_put_unit_def Let_def)
next
  case False
  then have "packet_in_memory (unit_slots_size fp) packet" using assms(2) by (simp add: packet_in_memory_def)
  from put_unit_safe [OF assms(1) this] False show ?thesis by auto
qed

text \<open>A frame of two source units and one redundant unit, which is their sum by XOR.\<close>

definition example_av_packet :: "nat \<Rightarrow> bytes \<Rightarrow> av_packet" where
  "example_av_packet i data =
     \<lparr>packet_index = of_nat i, frame_index = 1, uses_nalu_info_structs = False, is_video = True, is_haptics = False,
      unit_index = of_nat i, units_in_frame_total = 3, units_in_frame_fec = 1, av_codec = 3, word_at_0x18 = 0,
      adaptive_stream_index = 0, byte_at_0x2c = 0, av_key_pos = 0, av_data = data, av_data_size = length data\<rparr>"

definition example_units :: "nat \<Rightarrow> bytes" where
  "example_units i = (if i = 0 then [0, 1, 10, 11] else if i = 1 then [0, 0, 20, 21, 22]
     else if i = 2 then [0, 1, 30, 30, 22] else [])"

definition xor_units :: jerasure where
  "xor_units k m E units = Some (map (\<lambda>i. if i \<in> set E
     then map (\<lambda>j. foldr (\<lambda>u acc. (u ! j) XOR acc) (map (\<lambda>l. if l = i then replicate 5 0 else units ! l) [0..<k + m]) 0) [0..<5]
     else units ! i) [0..<k + m])"

lemma frame_reassembled_witness:
  "\<exists>fp0 fp1 fp2. chiaki_frame_processor_alloc_frame True True chiaki_frame_processor_init
       (example_av_packet 1 (example_units 1)) = Some (CHIAKI_ERR_SUCCESS, fp0) \<and>
     put_units [example_av_packet 1 (example_units 1), example_av_packet 1 [0, 0, 99], example_av_packet 0 (example_units 0)] fp0
       = Some fp1 \<and>
     chiaki_frame_processor_flush xor_units True True (True, True, True) fp1
       = Some (CHIAKI_FRAME_PROCESSOR_FLUSH_RESULT_SUCCESS, [10, 11, 20, 21, 22], fp2)"
proof -
  let ?p0 = "example_av_packet 1 (example_units 1)"
  let ?ps = "[?p0, example_av_packet 1 [0, 0, 99], example_av_packet 0 (example_units 0)]"
  obtain fp0 where fp0: "chiaki_frame_processor_alloc_frame True True chiaki_frame_processor_init ?p0 = Some (CHIAKI_ERR_SUCCESS, fp0)"
    "units_source_expected fp0 = 2" "units_fec_expected fp0 = 1" "buf_size_per_unit fp0 = 5"
    by (simp add: chiaki_frame_processor_alloc_frame_def chiaki_frame_processor_init_def example_av_packet_def example_units_def
        u64_add_def load16be_def load8_def alloc_unit_slots_def alloc_frame_buf_def Let_def)
  have two: "i < 2 \<longleftrightarrow> i = 0 \<or> i = 1" for i :: nat by auto
  have u: "[0..<2] = [0, 1::nat]" by (simp add: upt_rec)
  have "\<exists>fp1 fp2. put_units ?ps fp0 = Some fp1 \<and>
     chiaki_frame_processor_flush xor_units True True (True, True, True) fp1 =
       Some (CHIAKI_FRAME_PROCESSOR_FLUSH_RESULT_SUCCESS,
         concat (map (\<lambda>i. drop 2 (first_unit (buf_size_per_unit fp0) ?ps i)) [0..<2]), fp2)"
    by (rule frame_reassembled [OF fp_buf_ok_init _ fp0(1)])
      (simp_all add: fp0 two example_av_packet_def example_units_def packet_in_memory_def)
  then show ?thesis
    using fp0(1) by (auto simp: fp0(4) u example_av_packet_def example_units_def)
qed

lemma frame_recovered_witness:
  "\<exists>fp0 fp1 fp2. chiaki_frame_processor_alloc_frame True True chiaki_frame_processor_init
       (example_av_packet 1 (example_units 1)) = Some (CHIAKI_ERR_SUCCESS, fp0) \<and>
     put_units [example_av_packet 1 (example_units 1), example_av_packet 2 (example_units 2)] fp0 = Some fp1 \<and>
     chiaki_frame_processor_flush xor_units True True (True, True, True) fp1
       = Some (CHIAKI_FRAME_PROCESSOR_FLUSH_RESULT_FEC_SUCCESS, [10, 11, 20, 21, 22], fp2)"
proof -
  let ?p0 = "example_av_packet 1 (example_units 1)"
  let ?ps = "[?p0, example_av_packet 2 (example_units 2)]"
  obtain fp0 where fp0: "chiaki_frame_processor_alloc_frame True True chiaki_frame_processor_init ?p0 = Some (CHIAKI_ERR_SUCCESS, fp0)"
    "units_source_expected fp0 = 2" "units_fec_expected fp0 = 1" "buf_size_per_unit fp0 = 5"
    by (simp add: chiaki_frame_processor_alloc_frame_def chiaki_frame_processor_init_def example_av_packet_def example_units_def
        u64_add_def load16be_def load8_def alloc_unit_slots_def alloc_frame_buf_def Let_def)
  have two: "i < 2 \<longleftrightarrow> i = 0 \<or> i = 1" and three: "i < 2 + 1 \<longleftrightarrow> i = 0 \<or> i = 1 \<or> i = 2" for i :: nat by auto
  have u: "[0..<2] = [0, 1::nat]" "[0..<3] = [0, 1, 2::nat]" "[0..<5] = [0, 1, 2, 3, 4::nat]" by (simp_all add: upt_rec)
  have lost: "\<exists>i < 2. first_unit 5 ?ps i = []"
    by (rule exI [of _ 0]) (simp add: example_av_packet_def example_units_def)
  have j: "jerasure_recovers xor_units 2 1 5 example_units"
    unfolding jerasure_recovers_def by (simp add: u Let_def) (simp add: xor_units_def u pad_unit_def example_units_def)
  have "\<exists>fp1 fp2. put_units ?ps fp0 = Some fp1 \<and>
     chiaki_frame_processor_flush xor_units True True (True, True, True) fp1 =
       Some (CHIAKI_FRAME_PROCESSOR_FLUSH_RESULT_FEC_SUCCESS, concat (map (\<lambda>i. drop 2 (example_units i)) [0..<2]), fp2)"
    by (rule frame_recovered [OF fp_buf_ok_init _ fp0(1) fp0(2) [symmetric] fp0(3) [symmetric] fp0(4) [symmetric] _ _ lost _ _ _ j])
      (simp_all add: u two three example_av_packet_def example_units_def packet_in_memory_def source_unit_ok_def load16be_def load8_def)
  then show ?thesis
    using fp0(1) by (auto simp: u example_units_def)
qed


lemma put_unit_defined_iff_witness:
  "\<exists>fp0. chiaki_frame_processor_alloc_frame True True chiaki_frame_processor_init
       (example_av_packet 1 (example_units 1)) = Some (CHIAKI_ERR_SUCCESS, fp0) \<and>
     chiaki_frame_processor_put_unit fp0 (example_av_packet 3 [0, 0, 7]) = None"
proof -
  let ?p0 = "example_av_packet 1 (example_units 1)"
  obtain fp0 where fp0: "chiaki_frame_processor_alloc_frame True True chiaki_frame_processor_init ?p0 = Some (CHIAKI_ERR_SUCCESS, fp0)"
    "unit_slots_size fp0 = 3" "buf_size_per_unit fp0 = 5" "fp_safe fp0"
    by (simp add: chiaki_frame_processor_alloc_frame_def chiaki_frame_processor_init_def example_av_packet_def example_units_def
        u64_add_def load16be_def load8_def alloc_unit_slots_def alloc_frame_buf_def Let_def fp_safe_def)
  from put_unit_defined_iff [OF fp0(4), of "example_av_packet 3 [0, 0, 7]"] fp0(2,3)
  have "chiaki_frame_processor_put_unit fp0 (example_av_packet 3 [0, 0, 7]) = None"
    by (simp add: example_av_packet_def split: option.splits prod.splits)
  with fp0(1) show ?thesis by blast
qed

end
