(* ===== verification/Video_Receiver.thy ===== *)
theory Video_Receiver
  imports Frame_Processor
begin

text \<open>
  \<open>lib/src/videoreceiver.c\<close>: the packets of the video stream become frames for the sample
  callback. The operations return what they send: samples and reports of corrupt frames.
  \<open>None\<close> is an execution that leaves defined behaviour.
\<close>

abbreviation "CHIAKI_VIDEO_PROFILES_MAX \<equiv> 8 :: nat"

record video_profile =
  vp_width :: u32
  vp_height :: u32
  vp_header :: bytes

text \<open>
  The array of profiles is the list of the \<open>profiles_count\<close> profiles that were copied into it;
  a null \<open>packet_stats\<close> is \<open>None\<close>. Frame indices are -1 while there is none.
\<close>

record video_receiver =
  profiles :: "video_profile list"
  profile_cur :: int
  frame_index_cur :: int
  frame_index_prev :: int
  frame_index_prev_complete :: int
  frame_proc :: frame_processor
  vr_packet_stats :: "packet_stats option"

datatype vr_event =
    VR_Sample bytes
  | VR_Corrupt u16 u16

text \<open>
  What the receiver depends on: the sample callback of the session (\<open>None\<close>: not set), the
  decoder of the erasure code, and whether the memory asked for is there.
\<close>

record vr_env =
  video_sample_cb :: "(bytes \<Rightarrow> bool) option"
  env_jerasure :: jerasure
  env_slots_ok :: bool
  env_buf_ok :: bool
  env_erasures_ok :: bool
  env_matrix :: bool
  env_allocs :: "bool \<times> bool \<times> bool"

definition chiaki_video_receiver_init :: "packet_stats option \<Rightarrow> video_receiver" where
  "chiaki_video_receiver_init stats =
     \<lparr>profiles = [], profile_cur = -1, frame_index_cur = -1, frame_index_prev = -1,
      frame_index_prev_complete = 0, frame_proc = chiaki_frame_processor_init, vr_packet_stats = stats\<rparr>"

text \<open>The copy has no check against the size of the array.\<close>

definition chiaki_video_receiver_stream_info ::
  "video_receiver \<Rightarrow> video_profile list \<Rightarrow> video_receiver option" where
  "chiaki_video_receiver_stream_info vr new_profiles =
     (if length (profiles vr) > 0 then Some vr
      else if length new_profiles > CHIAKI_VIDEO_PROFILES_MAX then None
      else Some (vr\<lparr>profiles := new_profiles\<rparr>))"

definition chiaki_video_receiver_flush_frame ::
  "vr_env \<Rightarrow> video_receiver \<Rightarrow> (ChiakiErrorCode \<times> video_receiver \<times> vr_event list) option" where
  "chiaki_video_receiver_flush_frame env vr = do {
     (flush_result, frame, fp) \<leftarrow> chiaki_frame_processor_flush (env_jerasure env) (env_erasures_ok env)
        (env_matrix env) (env_allocs env) (frame_proc vr);
     let vr = vr\<lparr>frame_proc := fp\<rparr> in
     if flush_result = CHIAKI_FRAME_PROCESSOR_FLUSH_RESULT_FAILED then Some (CHIAKI_ERR_UNKNOWN, vr, [])
     else
       let succ = flush_result \<noteq> CHIAKI_FRAME_PROCESSOR_FLUSH_RESULT_FEC_FAILED;
           (succ, evs) = (case video_sample_cb env of
               None \<Rightarrow> (succ, [])
             | Some cb \<Rightarrow> (if cb frame then succ else False, [VR_Sample frame]));
           vr = vr\<lparr>frame_index_prev := frame_index_cur vr\<rparr>
       in Some (CHIAKI_ERR_SUCCESS,
            if succ then vr\<lparr>frame_index_prev_complete := frame_index_cur vr\<rparr> else vr, evs) }"

text \<open>The parts of \<open>chiaki_video_receiver_av_packet\<close>: the switch of the profile, \<open>None\<close> if the packet is dropped.\<close>

definition vr_check_profile :: "vr_env \<Rightarrow> video_receiver \<Rightarrow> av_packet \<Rightarrow> (video_receiver \<times> vr_event list) option" where
  "vr_check_profile env vr packet =
     (if profile_cur vr < 0 \<or> profile_cur vr \<noteq> uint (adaptive_stream_index packet) then
        (if unat (adaptive_stream_index packet) \<ge> length (profiles vr) then None
         else Some (vr\<lparr>profile_cur := uint (adaptive_stream_index packet)\<rparr>,
           case video_sample_cb env of
             None \<Rightarrow> []
           | Some cb \<Rightarrow> [VR_Sample (vp_header (profiles vr ! unat (adaptive_stream_index packet)))]))
      else Some (vr, []))"

text \<open>The start of a new frame. The results of the flush and of \<open>alloc_frame\<close> are not looked at.\<close>

definition vr_next_frame :: "vr_env \<Rightarrow> video_receiver \<Rightarrow> av_packet \<Rightarrow> (video_receiver \<times> vr_event list) option" where
  "vr_next_frame env vr packet =
     (if frame_index_cur vr < 0 \<or> chiaki_seq_num_16_gt (av_packet.frame_index packet) (word_of_int (frame_index_cur vr)) then do {
        let vr = vr\<lparr>vr_packet_stats := map_option (chiaki_frame_processor_report_packet_stats (frame_proc vr)) (vr_packet_stats vr)\<rparr>;
        (vr, evs) \<leftarrow> (if frame_index_cur vr \<ge> 0 \<and> frame_index_prev vr \<noteq> frame_index_cur vr
          then map_option snd (chiaki_video_receiver_flush_frame env vr) else Some (vr, []));
        let next_frame_expected = (word_of_int (frame_index_prev_complete vr + 1) :: u16);
        let evs = evs @ (if chiaki_seq_num_16_gt (av_packet.frame_index packet) next_frame_expected \<and>
                \<not> (av_packet.frame_index packet = 1 \<and> frame_index_cur vr < 0)
              then [VR_Corrupt next_frame_expected (av_packet.frame_index packet - 1)] else []);
        let vr = vr\<lparr>frame_index_cur := uint (av_packet.frame_index packet)\<rparr>;
        (_, fp) \<leftarrow> chiaki_frame_processor_alloc_frame (env_slots_ok env) (env_buf_ok env) (frame_proc vr) packet;
        Some (vr\<lparr>frame_proc := fp\<rparr>, evs) }
      else Some (vr, []))"

definition vr_put_unit :: "vr_env \<Rightarrow> video_receiver \<Rightarrow> av_packet \<Rightarrow> (video_receiver \<times> vr_event list) option" where
  "vr_put_unit env vr packet = do {
     (_, fp) \<leftarrow> chiaki_frame_processor_put_unit (frame_proc vr) packet;
     let vr = vr\<lparr>frame_proc := fp\<rparr> in
     if frame_index_cur vr \<noteq> frame_index_prev vr \<and> chiaki_frame_processor_flush_possible fp
     then map_option snd (chiaki_video_receiver_flush_frame env vr) else Some (vr, []) }"

definition chiaki_video_receiver_av_packet ::
  "vr_env \<Rightarrow> video_receiver \<Rightarrow> av_packet \<Rightarrow> (video_receiver \<times> vr_event list) option" where
  "chiaki_video_receiver_av_packet env vr packet =
     (if frame_index_cur vr \<ge> 0 \<and> chiaki_seq_num_16_lt (av_packet.frame_index packet) (word_of_int (frame_index_cur vr))
      then Some (vr, [])
      else (case vr_check_profile env vr packet of
          None \<Rightarrow> Some (vr, [])
        | Some (vr, evs1) \<Rightarrow> do {
            (vr, evs2) \<leftarrow> vr_next_frame env vr packet;
            (vr, evs3) \<leftarrow> vr_put_unit env vr packet;
            Some (vr, evs1 @ evs2 @ evs3) }))"

fun vr_run :: "vr_env \<Rightarrow> av_packet list \<Rightarrow> video_receiver \<Rightarrow> (video_receiver \<times> vr_event list) option" where
  "vr_run env [] vr = Some (vr, [])"
| "vr_run env (p # ps) vr = do {
     (vr, evs) \<leftarrow> chiaki_video_receiver_av_packet env vr p;
     (vr, evs') \<leftarrow> vr_run env ps vr;
     Some (vr, evs @ evs') }"

section \<open>One frame\<close>

lemma flush_sent:
  assumes h: "fp_holds fp U" and k: "k = units_source_expected fp" and m: "m = units_fec_expected fp"
    and n: "n = buf_size_per_unit fp" and kpos: "0 < k"
    and recv: "\<forall>i < k + m. U i = [] \<or> U i = D i"
    and enough: "length (filter (\<lambda>i. U i = []) [0..<k + m]) \<le> m"
    and src: "\<forall>i < k. source_unit_ok n (D i)" and coded: "\<forall>i < k + m. length (D i) \<le> n"
    and jer: "jerasure_recovers jerasure k m n D"
  shows "\<exists>fp' r. chiaki_frame_processor_flush jerasure True True (True, True, True) fp =
     Some (r, concat (map (\<lambda>i. drop 2 (D i)) [0..<k]), fp') \<and> fp_safe fp' \<and> unit_slots_size fp' = unit_slots_size fp \<and>
     r \<in> {CHIAKI_FRAME_PROCESSOR_FLUSH_RESULT_SUCCESS, CHIAKI_FRAME_PROCESSOR_FLUSH_RESULT_FEC_SUCCESS}"
proof -
  have "\<exists>fp' r. chiaki_frame_processor_flush jerasure True True (True, True, True) fp =
     Some (r, concat (map (\<lambda>i. drop 2 (D i)) [0..<k]), fp') \<and>
     r \<in> {CHIAKI_FRAME_PROCESSOR_FLUSH_RESULT_SUCCESS, CHIAKI_FRAME_PROCESSOR_FLUSH_RESULT_FEC_SUCCESS}"
  proof (cases "\<exists>i < k. U i = []")
    case True
    from flush_fec_holds [OF h k m n recv True enough src coded jer] show ?thesis by blast
  next
    case False
    have "U i = D i" if "i < k" for i
      using False recv [rule_format, of i] that by auto
    then have eq: "map (\<lambda>i. drop 2 (U i)) [0..<k] = map (\<lambda>i. drop 2 (D i)) [0..<k]" by simp
    have x: "\<exists>fp'. chiaki_frame_processor_flush jerasure True True (True, True, True) fp =
       Some (CHIAKI_FRAME_PROCESSOR_FLUSH_RESULT_SUCCESS, concat (map (\<lambda>i. drop 2 (U i)) [0..<k]), fp')"
      unfolding k by (rule flush_holds [OF h]) (use False kpos k in auto)
    show ?thesis using x unfolding eq by blast
  qed
  with flush_safe [OF _ fp_holds_safe [OF h]] show ?thesis by blast
qed

lemma received_count:
  assumes "fp_holds fp U" "k = units_source_expected fp" "m = units_fec_expected fp"
  shows "units_source_received fp + units_fec_received fp + length (filter (\<lambda>i. U i = []) [0..<k + m]) = k + m"
proof -
  from assms obtain slots where s: "length slots = k + m" "\<forall>i < length slots. slots ! i = length (U i)"
    "units_source_received fp = card {i. i < k \<and> U i \<noteq> []}"
    "units_fec_received fp = card {i. k \<le> i \<and> i < length slots \<and> U i \<noteq> []}"
    unfolding fp_holds_def by blast
  have "filter (\<lambda>i. slots ! i = 0) [0..<k + m] = filter (\<lambda>i. U i = []) [0..<k + m]"
    using s(1,2) by (intro filter_cong) auto
  with missing_count [OF s(1,2)] s(3,4) show ?thesis by simp
qed

lemma flush_frame_sent:
  assumes "chiaki_frame_processor_flush (env_jerasure env) (env_erasures_ok env) (env_matrix env) (env_allocs env) (frame_proc vr)
      = Some (r, frame, fp')"
    and "r \<in> {CHIAKI_FRAME_PROCESSOR_FLUSH_RESULT_SUCCESS, CHIAKI_FRAME_PROCESSOR_FLUSH_RESULT_FEC_SUCCESS}"
    and "video_sample_cb env = Some cb" "cb frame"
  shows "chiaki_video_receiver_flush_frame env vr =
    Some (CHIAKI_ERR_SUCCESS, vr\<lparr>frame_proc := fp', frame_index_prev := frame_index_cur vr,
       frame_index_prev_complete := frame_index_cur vr\<rparr>, [VR_Sample frame])"
  using assms by (auto simp: chiaki_video_receiver_flush_frame_def Let_def)

text \<open>A packet of the current frame and the current profile only goes to the frame processor.\<close>

lemma seq_irrefl: "\<not> chiaki_seq_num_16_lt f f" "\<not> chiaki_seq_num_16_gt f f"
  by (simp_all add: seq_num_16_defs chiaki_seq_num_lt_def chiaki_seq_num_gt_def)

lemma av_packet_current:
  assumes "frame_index_cur vr = uint (av_packet.frame_index p)" "profile_cur vr = uint (adaptive_stream_index p)"
  shows "chiaki_video_receiver_av_packet env vr p = vr_put_unit env vr p"
  using assms seq_irrefl
  by (auto simp: chiaki_video_receiver_av_packet_def vr_check_profile_def vr_next_frame_def split: Option.bind_splits)

lemma run_flushed:
  assumes "frame_index_cur vr = uint f" "frame_index_prev vr = uint f" "fp_safe (frame_proc vr)"
    and "\<forall>p \<in> set ps. av_packet.frame_index p = f \<and> profile_cur vr = uint (adaptive_stream_index p) \<and>
           packet_in_memory (unit_slots_size (frame_proc vr)) p"
  shows "\<exists>vr'. vr_run env ps vr = Some (vr', []) \<and> frame_index_cur vr' = uint f \<and> frame_index_prev vr' = uint f \<and>
     frame_index_prev_complete vr' = frame_index_prev_complete vr"
  using assms
proof (induction ps arbitrary: vr)
  case (Cons p ps)
  then have p: "av_packet.frame_index p = f" "profile_cur vr = uint (adaptive_stream_index p)"
    "packet_in_memory (unit_slots_size (frame_proc vr)) p" by auto
  from put_unit_safe [OF Cons.prems(3) p(3)] obtain err fp' where
    put: "chiaki_frame_processor_put_unit (frame_proc vr) p = Some (err, fp')" "fp_safe fp'"
      "unit_slots_size fp' = unit_slots_size (frame_proc vr)" by blast
  have step: "chiaki_video_receiver_av_packet env vr p = Some (vr\<lparr>frame_proc := fp'\<rparr>, [])"
    using put(1) Cons.prems(1,2) p by (simp add: av_packet_current vr_put_unit_def Let_def)
  have "\<exists>vr'. vr_run env ps (vr\<lparr>frame_proc := fp'\<rparr>) = Some (vr', []) \<and> frame_index_cur vr' = uint f \<and>
     frame_index_prev vr' = uint f \<and> frame_index_prev_complete vr' = frame_index_prev_complete (vr\<lparr>frame_proc := fp'\<rparr>)"
    by (rule Cons.IH) (use Cons.prems put in auto)
  then show ?case using step by auto
qed simp


text \<open>
  The units of one frame, as the console sent them: \<open>D i\<close> is unit \<open>i\<close> of \<open>k\<close> source and \<open>m\<close> redundant
  units that are padded to \<open>n\<close> bytes for the erasure code.
\<close>

definition frame_sent :: "jerasure \<Rightarrow> nat \<Rightarrow> nat \<Rightarrow> nat \<Rightarrow> (nat \<Rightarrow> bytes) \<Rightarrow> bool" where
  "frame_sent jerasure k m n D \<longleftrightarrow>
     0 < k \<and> (\<forall>i < k. source_unit_ok n (D i)) \<and> (\<forall>i < k + m. 0 < length (D i) \<and> length (D i) \<le> n) \<and>
     jerasure_recovers jerasure k m n D"

definition packet_of_frame :: "u16 \<Rightarrow> int \<Rightarrow> nat \<Rightarrow> (nat \<Rightarrow> bytes) \<Rightarrow> av_packet \<Rightarrow> bool" where
  "packet_of_frame f profile units D p \<longleftrightarrow>
     av_packet.frame_index p = f \<and> uint (adaptive_stream_index p) = profile \<and> unat (unit_index p) < units \<and>
     av_data_size p = length (D (unat (unit_index p))) \<and>
     take (av_data_size p) (av_data p) = D (unat (unit_index p))"

definition vr_env_ok :: "vr_env \<Rightarrow> bool" where
  "vr_env_ok env \<longleftrightarrow> env_slots_ok env \<and> env_buf_ok env \<and> env_erasures_ok env \<and> env_matrix env \<and> env_allocs env = (True, True, True)"

lemma packet_of_frame_in_memory:
  assumes "packet_of_frame f profile units D p" shows "packet_in_memory units p"
proof -
  have "length (take (av_data_size p) (av_data p)) = av_data_size p" using assms unfolding packet_of_frame_def by metis
  then show ?thesis using assms by (simp add: packet_of_frame_def packet_in_memory_def)
qed

lemma missing_update:
  assumes "i < n" "U i = []" "d \<noteq> []"
  shows "length (filter (\<lambda>j. U j = []) [0..<n]) = Suc (length (filter (\<lambda>j. (U(i := d)) j = []) [0..<n]))"
proof -
  have "{j. j < n \<and> U j = []} = insert i {j. j < n \<and> (U(i := d)) j = []}" using assms by auto
  moreover have "length (filter P [0..<n]) = card {j. j < n \<and> P j}" for P
    using distinct_card [of "filter P [0..<n]"] by (simp add: conj_commute)
  ultimately show ?thesis using assms by (simp add: card_insert_if)
qed

lemma run_building:
  assumes sent: "frame_sent (env_jerasure env) k m n D" and env: "vr_env_ok env"
    and cb: "video_sample_cb env = Some cb" "cb (concat (map (\<lambda>i. drop 2 (D i)) [0..<k]))"
  shows "fp_holds (frame_proc vr) U \<Longrightarrow> k = units_source_expected (frame_proc vr) \<Longrightarrow>
     m = units_fec_expected (frame_proc vr) \<Longrightarrow> n = buf_size_per_unit (frame_proc vr) \<Longrightarrow>
     frame_index_cur vr = uint f \<Longrightarrow> frame_index_prev vr \<noteq> uint f \<Longrightarrow>
     \<forall>i < k + m. U i = [] \<or> U i = D i \<Longrightarrow>
     m < length (filter (\<lambda>i. U i = []) [0..<k + m]) \<Longrightarrow>
     length (filter (\<lambda>i. U i = []) [0..<k + m]) \<le> m + length ps \<Longrightarrow>
     \<forall>p \<in> set ps. packet_of_frame f (profile_cur vr) (k + m) D p \<and> U (unat (unit_index p)) = [] \<Longrightarrow>
     distinct (map unit_index ps) \<Longrightarrow>
     \<exists>vr'. vr_run env ps vr = Some (vr', [VR_Sample (concat (map (\<lambda>i. drop 2 (D i)) [0..<k]))]) \<and>
       frame_index_cur vr' = uint f \<and> frame_index_prev vr' = uint f \<and> frame_index_prev_complete vr' = uint f"
proof (induction ps arbitrary: vr U)
  case Nil
  then show ?case by simp
next
  case (Cons p ps)
  let ?i = "unat (unit_index p)" and ?fp = "frame_proc vr"
  let ?frame = "concat (map (\<lambda>i. drop 2 (D i)) [0..<k])"
  from Cons.prems(10) have p: "packet_of_frame f (profile_cur vr) (k + m) D p" "U ?i = []" by simp_all
  have i: "?i < k + m" and pf: "av_packet.frame_index p = f" "profile_cur vr = uint (adaptive_stream_index p)"
    using p(1) by (simp_all add: packet_of_frame_def)
  have size: "av_data_size p = length (D ?i)" using p(1) unfolding packet_of_frame_def by blast
  have dat: "take (av_data_size p) (av_data p) = D ?i" using p(1) unfolding packet_of_frame_def by blast
  have "length (take (av_data_size p) (av_data p)) = av_data_size p" using dat size by simp
  then have mem: "av_data_size p \<le> length (av_data p)" by simp
  have dl: "D ?i \<noteq> []" "length (D ?i) \<le> n" using sent i by (auto simp: frame_sent_def)
  have i': "?i < units_source_expected ?fp + units_fec_expected ?fp" using i Cons.prems(2,3) by simp
  have ld: "load_bytes (av_data p) 0 (av_data_size p) = Some (D ?i)" using dat mem by (simp add: load_bytes_def)
  have "length (D ?i) \<le> buf_size_per_unit ?fp" using dl(2) Cons.prems(4) by simp
  from put_unit_holds [OF Cons.prems(1) refl i' ld dl(1) this p(2)] obtain fp' where
    put: "chiaki_frame_processor_put_unit ?fp p = Some (CHIAKI_ERR_SUCCESS, fp')" "fp_holds fp' (U(?i := D ?i))"
      "k = units_source_expected fp'" "m = units_fec_expected fp'" "n = buf_size_per_unit fp'"
    using Cons.prems(2-4) by auto
  let ?U = "U(?i := D ?i)" and ?miss = "length (filter (\<lambda>j. (U(?i := D ?i)) j = []) [0..<k + m])"
  have miss: "length (filter (\<lambda>j. U j = []) [0..<k + m]) = Suc ?miss" 
    using missing_update [of ?i "k + m" U "D ?i"] i p(2) dl(1) by blast
  have got: "units_source_received fp' + units_fec_received fp' + ?miss = k + m"
    by (rule received_count [OF put(2-4)])
  have possible: "chiaki_frame_processor_flush_possible fp' \<longleftrightarrow> ?miss \<le> m"
    unfolding chiaki_frame_processor_flush_possible_def put(3) [symmetric] using got by linarith
  have recv: "\<forall>j < k + m. ?U j = [] \<or> ?U j = D j" using Cons.prems(7) by simp
  have av: "chiaki_video_receiver_av_packet env vr p = vr_put_unit env vr p"
    by (rule av_packet_current) (use Cons.prems(5) pf in simp_all)
  have rest: "\<forall>q \<in> set ps. packet_of_frame f (profile_cur vr) (k + m) D q \<and> ?U (unat (unit_index q)) = []"
    using Cons.prems(10,11) by (auto simp: image_iff word_unat_eq_iff)
  show ?case
  proof (cases "?miss \<le> m")
    case True
    have "\<exists>fp2 r. chiaki_frame_processor_flush (env_jerasure env) True True (True, True, True) fp' = Some (r, ?frame, fp2) \<and>
       fp_safe fp2 \<and> unit_slots_size fp2 = unit_slots_size fp' \<and>
       r \<in> {CHIAKI_FRAME_PROCESSOR_FLUSH_RESULT_SUCCESS, CHIAKI_FRAME_PROCESSOR_FLUSH_RESULT_FEC_SUCCESS}"
      by (rule flush_sent [OF put(2-5) _ recv True]) (use sent in \<open>auto simp: frame_sent_def\<close>)
    then obtain fp2 r where fl: "chiaki_frame_processor_flush (env_jerasure env) True True (True, True, True) fp' = Some (r, ?frame, fp2)"
      "fp_safe fp2" "unit_slots_size fp2 = unit_slots_size fp'"
      "r \<in> {CHIAKI_FRAME_PROCESSOR_FLUSH_RESULT_SUCCESS, CHIAKI_FRAME_PROCESSOR_FLUSH_RESULT_FEC_SUCCESS}" by blast
    define vr1 where "vr1 = vr\<lparr>frame_proc := fp2, frame_index_prev := frame_index_cur vr, frame_index_prev_complete := frame_index_cur vr\<rparr>"
    have "chiaki_video_receiver_flush_frame env (vr\<lparr>frame_proc := fp'\<rparr>) = Some (CHIAKI_ERR_SUCCESS,
        (vr\<lparr>frame_proc := fp'\<rparr>)\<lparr>frame_proc := fp2, frame_index_prev := frame_index_cur (vr\<lparr>frame_proc := fp'\<rparr>),
          frame_index_prev_complete := frame_index_cur (vr\<lparr>frame_proc := fp'\<rparr>)\<rparr>, [VR_Sample ?frame])"
      by (rule flush_frame_sent [OF _ fl(4) cb]) (use fl(1) env in \<open>simp add: vr_env_ok_def\<close>)
    then have step: "chiaki_video_receiver_av_packet env vr p = Some (vr1, [VR_Sample ?frame])"
      using put(1) Cons.prems(5,6) possible True by (simp add: av vr_put_unit_def Let_def vr1_def)
    have slots: "unit_slots_size fp2 = k + m" using fl(3) put(2-4) unfolding fp_holds_def by auto
    have "\<exists>vr'. vr_run env ps vr1 = Some (vr', []) \<and> frame_index_cur vr' = uint f \<and> frame_index_prev vr' = uint f \<and>
       frame_index_prev_complete vr' = frame_index_prev_complete vr1"
      by (rule run_flushed)
        (use Cons.prems(5) fl(2) rest slots packet_of_frame_in_memory in \<open>auto simp: vr1_def packet_of_frame_def packet_in_memory_def\<close>)
    then show ?thesis using step Cons.prems(5) by (auto simp: vr1_def)
  next
    case False
    have step: "chiaki_video_receiver_av_packet env vr p = Some (vr\<lparr>frame_proc := fp'\<rparr>, [])"
      using put(1) possible False by (simp add: av vr_put_unit_def Let_def)
    have "\<exists>vr'. vr_run env ps (vr\<lparr>frame_proc := fp'\<rparr>) = Some (vr', [VR_Sample ?frame]) \<and>
       frame_index_cur vr' = uint f \<and> frame_index_prev vr' = uint f \<and> frame_index_prev_complete vr' = uint f"
    proof (rule Cons.IH [of _ ?U])
      show "m < ?miss" using False by simp
      show "?miss \<le> m + length ps" using Cons.prems(9) miss by simp
      show "distinct (map unit_index ps)" using Cons.prems(11) by simp
      show "\<forall>q \<in> set ps. packet_of_frame f (profile_cur (vr\<lparr>frame_proc := fp'\<rparr>)) (k + m) D q \<and> ?U (unat (unit_index q)) = []"
        using rest by simp
      show "frame_index_cur (vr\<lparr>frame_proc := fp'\<rparr>) = uint f" "frame_index_prev (vr\<lparr>frame_proc := fp'\<rparr>) \<noteq> uint f"
        using Cons.prems(5,6) by simp_all
      show "\<forall>j < k + m. ?U j = [] \<or> ?U j = D j" by (rule recv)
    next
      have fp: "frame_proc (vr\<lparr>frame_proc := fp'\<rparr>) = fp'" by simp
      show "fp_holds (frame_proc (vr\<lparr>frame_proc := fp'\<rparr>)) ?U" unfolding fp by (rule put(2))
      show "k = units_source_expected (frame_proc (vr\<lparr>frame_proc := fp'\<rparr>))" unfolding fp by (rule put(3))
      show "m = units_fec_expected (frame_proc (vr\<lparr>frame_proc := fp'\<rparr>))" unfolding fp by (rule put(4))
      show "n = buf_size_per_unit (frame_proc (vr\<lparr>frame_proc := fp'\<rparr>))" unfolding fp by (rule put(5))
    qed
    then show ?thesis using step by auto
  qed
qed


section \<open>Properties\<close>

text \<open>
  C19. Delivery. While no frame is being built, the units of a newer frame \<open>f\<close> arrive, any \<open>k\<close> or more
  of its \<open>k + m\<close> units, each once and in any order. Then the sample callback gets the frame the
  console sent exactly once: the payloads of the source units in order, reconstructed where units were lost. The
  only other event is the report of the frames that were skipped since the last complete one.
  The receiver then counts \<open>f\<close> as decoded and complete.
\<close>

theorem video_frame_delivered:
  assumes "frame_sent (env_jerasure env) k m n D" "vr_env_ok env" "video_sample_cb env = Some cb"
    and "cb (concat (map (\<lambda>i. drop 2 (D i)) [0..<k]))"
    and "frame_index_cur vr < 0 \<or>
      frame_index_prev vr = frame_index_cur vr \<and> chiaki_seq_num_16_gt f (word_of_int (frame_index_cur vr))"
    and "frame_index_prev vr \<noteq> uint f" "fp_buf_ok (frame_proc vr)" "av_data_size p < 2 ^ 62"
    and "chiaki_frame_processor_alloc_frame True True (frame_proc vr) p = Some (CHIAKI_ERR_SUCCESS, fp0)"
    and "k = units_source_expected fp0" "m = units_fec_expected fp0" "n = buf_size_per_unit fp0"
    and "\<forall>q \<in> set (p # ps). packet_of_frame f (profile_cur vr) (k + m) D q"
    and "distinct (map unit_index (p # ps))" "k \<le> length (p # ps)"
    and "expected = word_of_int (frame_index_prev_complete vr + 1)"
  shows "\<exists>vr'. vr_run env (p # ps) vr = Some (vr',
       (if chiaki_seq_num_16_gt f expected \<and> \<not> (f = 1 \<and> frame_index_cur vr < 0) then [VR_Corrupt expected (f - 1)] else [])
       @ [VR_Sample (concat (map (\<lambda>i. drop 2 (D i)) [0..<k]))]) \<and>
     frame_index_cur vr' = uint f \<and> frame_index_prev vr' = uint f \<and> frame_index_prev_complete vr' = uint f"
proof -
  let ?frame = "concat (map (\<lambda>i. drop 2 (D i)) [0..<k])"
  define evs where "evs = (if chiaki_seq_num_16_gt f expected \<and> \<not> (f = 1 \<and> frame_index_cur vr < 0) then [VR_Corrupt expected (f - 1)] else [])"
  define vr1 where "vr1 = vr\<lparr>vr_packet_stats := map_option (chiaki_frame_processor_report_packet_stats (frame_proc vr)) (vr_packet_stats vr),
     frame_index_cur := uint f, frame_proc := fp0\<rparr>"
  from assms(13) have pf: "av_packet.frame_index p = f" "profile_cur vr = uint (adaptive_stream_index p)"
    by (simp_all add: packet_of_frame_def)
  have envs: "env_slots_ok env" "env_buf_ok env" using assms(2) by (simp_all add: vr_env_ok_def)
  have old: "\<not> (frame_index_cur vr \<ge> 0 \<and> chiaki_seq_num_16_lt f (word_of_int (frame_index_cur vr)))"
    using assms(5) seq_num_lt_asym by (auto simp: seq_num_16_defs seq_num_gt_is_lt)
  have new: "vr_next_frame env vr p = Some (vr1, evs)"
    using assms(5,9,16) pf(1) envs by (auto simp: vr_next_frame_def vr1_def evs_def)
  have prof: "vr_check_profile env vr p = Some (vr, [])" using pf(2) by (simp add: vr_check_profile_def)
  have first: "chiaki_video_receiver_av_packet env vr p = map_option (\<lambda>(vr, e). (vr, evs @ e)) (vr_put_unit env vr1 p)"
    using old prof new pf(1) by (auto simp: chiaki_video_receiver_av_packet_def split: Option.bind_splits)
  have cur: "chiaki_video_receiver_av_packet env vr1 p = vr_put_unit env vr1 p"
    by (rule av_packet_current) (use pf in \<open>simp_all add: vr1_def\<close>)
  from alloc_frame_holds [OF assms(9,7,8)] have "fp_holds (frame_proc vr1) (\<lambda>_. [])" by (simp add: vr1_def)
  then have "\<exists>vr'. vr_run env (p # ps) vr1 = Some (vr', [VR_Sample ?frame]) \<and>
     frame_index_cur vr' = uint f \<and> frame_index_prev vr' = uint f \<and> frame_index_prev_complete vr' = uint f"
    by (rule run_building [OF assms(1-4)])
      (use assms(1,6,10-15) in \<open>simp_all add: vr1_def frame_sent_def\<close>)
  then show ?thesis
    using first cur unfolding evs_def by (auto split: Option.bind_splits option.splits)
qed


text \<open>A frame of more units than there are slots.\<close>

definition oversized_frame :: "frame_processor \<Rightarrow> av_packet \<Rightarrow> bool" where
  "oversized_frame fp p \<longleftrightarrow>
     UNIT_SLOTS_MAX < unat (units_in_frame_total p) - unat (units_in_frame_fec p) \<and> unit_slots_size fp < unat (unit_index p) \<and>
     2 \<le> av_data_size p \<and> av_data_size p < 2 ^ 62 \<and> av_data_size p \<le> length (av_data p)"

definition slots_ok :: "frame_processor \<Rightarrow> bool" where
  "slots_ok fp \<longleftrightarrow> unit_slots_size fp \<le> UNIT_SLOTS_MAX \<and> (\<forall>slots. unit_slots fp = Some slots \<longrightarrow> length slots = unit_slots_size fp)"

lemma fec_erasures_beyond: "\<exists>i \<in> set is. length slots \<le> i \<Longrightarrow> fec_erasures slots n is acc = None"
  by (induction "is" arbitrary: acc) auto

lemma flush_loop_beyond: "\<exists>i \<in> set is. length slots \<le> i \<Longrightarrow> flush_loop slots stride is (buf, cur) = None"
  by (induction "is" arbitrary: buf cur) (auto simp: Let_def split: Option.bind_splits)

lemma alloc_frame_oversized:
  assumes "oversized_frame fp p" "slots_ok fp"
  shows "\<exists>fp1. chiaki_frame_processor_alloc_frame slots buf fp p = Some (CHIAKI_ERR_INVALID_DATA, fp1) \<and>
     unit_slots fp1 = unit_slots fp \<and> unit_slots_size fp1 = unit_slots_size fp \<and> \<not> flushed fp1 \<and>
     UNIT_SLOTS_MAX < units_source_expected fp1 \<and> units_source_received fp1 = 0 \<and> units_fec_received fp1 = 0"
proof -
  obtain ext where e: "load16be (av_data p) 0 = Some ext"
    using assms(1) load16be_defined [of 0 "av_data p"] by (auto simp: oversized_frame_def)
  have "unat ext < 2 ^ 16" using unat_bound [of ext] by simp
  then have n: "u64_add (av_data_size p) (unat ext) \<noteq> 0" "u64_add (av_data_size p) 0 \<noteq> 0"
    using assms(1) by (simp_all add: u64_add_small oversized_frame_def)
  have "\<not> units_in_frame_total p < units_in_frame_fec p"
    using assms(1) by (auto simp: oversized_frame_def word_less_nat_alt)
  then show ?thesis
    using assms(1) e n by (simp add: chiaki_frame_processor_alloc_frame_def oversized_frame_def Let_def)
qed

text \<open>
  An oversized frame makes the receiver leave its memory. When a packet announces a frame of more than 256 units,
  \<open>alloc_frame\<close> fails after it has set the new number of units, and the receiver ignores the
  error. The slots are still those of the frame before, so the packet of the next frame, which makes the receiver
  flush the oversized one, lets it walk behind the end of the slots.
\<close>

theorem oversized_frame_undefined:
  assumes "oversized_frame (frame_proc vr) p" "slots_ok (frame_proc vr)"
    and "frame_index_cur vr < 0 \<or> frame_index_prev vr = frame_index_cur vr \<and>
      chiaki_seq_num_16_gt (av_packet.frame_index p) (word_of_int (frame_index_cur vr))"
    and "frame_index_prev vr \<noteq> uint (av_packet.frame_index p)"
    and "chiaki_seq_num_16_gt (av_packet.frame_index q) (av_packet.frame_index p)"
    and "profile_cur vr = uint (adaptive_stream_index p)" "adaptive_stream_index q = adaptive_stream_index p"
  shows "vr_run env [p, q] vr = None"
proof -
  let ?fp = "frame_proc vr"
  from alloc_frame_oversized [OF assms(1,2)] obtain fp1 where
    a: "chiaki_frame_processor_alloc_frame (env_slots_ok env) (env_buf_ok env) ?fp p = Some (CHIAKI_ERR_INVALID_DATA, fp1)"
      "unit_slots fp1 = unit_slots ?fp" "unit_slots_size fp1 = unit_slots_size ?fp" "\<not> flushed fp1"
      "UNIT_SLOTS_MAX < units_source_expected fp1" "units_source_received fp1 = 0" "units_fec_received fp1 = 0" by blast
  have put: "chiaki_frame_processor_put_unit fp1 p = Some (CHIAKI_ERR_INVALID_DATA, fp1)"
    using assms(1) a(3) by (simp add: chiaki_frame_processor_put_unit_def oversized_frame_def Let_def)
  have flush: "chiaki_frame_processor_flush j e m al fp1 = None" for j e m al
  proof (cases "unit_slots fp1")
    case None
    then show ?thesis
      using a by (auto simp: chiaki_frame_processor_flush_def chiaki_frame_processor_fec_def Let_def split: if_splits)
  next
    case (Some slots)
    have l: "length slots \<le> UNIT_SLOTS_MAX" using Some assms(2) a(2) by (auto simp: slots_ok_def)
    have "fec_erasures slots n [0..<units_source_expected fp1 + units_fec_expected fp1] [] = None" for n
      by (rule fec_erasures_beyond) (use l a(5) in \<open>auto intro: bexI [of _ UNIT_SLOTS_MAX]\<close>)
    moreover have "flush_loop slots stride [0..<units_source_expected fp1] (buf, cur) = None" for stride buf cur
      by (rule flush_loop_beyond) (use l a(5) in \<open>auto intro: bexI [of _ UNIT_SLOTS_MAX]\<close>)
    ultimately show ?thesis
      using Some a by (auto simp: chiaki_frame_processor_flush_def chiaki_frame_processor_fec_def Let_def split: Option.bind_splits)
  qed
  let ?stats = "map_option (chiaki_frame_processor_report_packet_stats ?fp) (vr_packet_stats vr)"
  define vr1 where "vr1 = vr\<lparr>vr_packet_stats := ?stats, frame_index_cur := uint (av_packet.frame_index p), frame_proc := fp1\<rparr>"
  have new: "\<exists>evs. vr_next_frame env vr p = Some (vr1, evs)"
    using assms(3) a(1) by (auto simp: vr_next_frame_def vr1_def Let_def)
  have "vr_put_unit env vr1 p = Some (vr1, [])"
    using put a(5-7) by (simp add: vr_put_unit_def vr1_def chiaki_frame_processor_flush_possible_def Let_def)
  moreover have "\<not> (frame_index_cur vr \<ge> 0 \<and> chiaki_seq_num_16_lt (av_packet.frame_index p) (word_of_int (frame_index_cur vr)))"
    using assms(3) seq_num_lt_asym by (auto simp: seq_num_16_defs seq_num_gt_is_lt)
  moreover have "vr_check_profile env vr p = Some (vr, [])" using assms(6) by (simp add: vr_check_profile_def)
  ultimately obtain evs where p: "chiaki_video_receiver_av_packet env vr p = Some (vr1, evs)"
    using new by (auto simp: chiaki_video_receiver_av_packet_def)
  have vr1: "frame_proc vr1 = fp1" "frame_index_cur vr1 = uint (av_packet.frame_index p)"
    "frame_index_prev vr1 \<noteq> uint (av_packet.frame_index p)" "profile_cur vr1 = uint (adaptive_stream_index q)"
    using assms(4,6,7) by (simp_all add: vr1_def)
  have "vr_next_frame env vr1 q = None"
    using vr1 assms(5) flush by (simp add: vr_next_frame_def chiaki_video_receiver_flush_frame_def)
  moreover have "\<not> chiaki_seq_num_16_lt (av_packet.frame_index q) (word_of_int (frame_index_cur vr1))"
    using assms(5) vr1(2) seq_num_lt_asym by (auto simp: seq_num_16_defs seq_num_gt_is_lt)
  moreover have "vr_check_profile env vr1 q = Some (vr1, [])" using vr1(4) by (simp add: vr_check_profile_def)
  ultimately have "chiaki_video_receiver_av_packet env vr1 q = None"
    by (simp add: chiaki_video_receiver_av_packet_def)
  with p show ?thesis by simp
qed

text \<open>The frame of the example with its first unit lost, at a receiver that has switched to its profile.\<close>

definition example_vr :: video_receiver where
  "example_vr = (chiaki_video_receiver_init None)\<lparr>profile_cur := 0, profiles := [\<lparr>vp_width = 1280, vp_height = 720, vp_header = []\<rparr>]\<rparr>"

definition example_vr_env :: vr_env where
  "example_vr_env = \<lparr>video_sample_cb = Some (\<lambda>_. True), env_jerasure = xor_units, env_slots_ok = True, env_buf_ok = True,
     env_erasures_ok = True, env_matrix = True, env_allocs = (True, True, True)\<rparr>"

lemma video_frame_delivered_witness:
  "\<exists>vr'. vr_run example_vr_env [example_av_packet 1 (example_units 1), example_av_packet 2 (example_units 2)] example_vr =
     Some (vr', [VR_Sample [10, 11, 20, 21, 22]]) \<and> frame_index_prev_complete vr' = 1"
proof -
  let ?p = "example_av_packet 1 (example_units 1)" and ?q = "example_av_packet 2 (example_units 2)"
  have vr: "frame_proc example_vr = chiaki_frame_processor_init" "frame_index_cur example_vr = -1"
    "frame_index_prev example_vr = -1" "frame_index_prev_complete example_vr = 0" "profile_cur example_vr = 0"
    by (simp_all add: example_vr_def chiaki_video_receiver_init_def)
  obtain fp0 where fp0: "chiaki_frame_processor_alloc_frame True True (frame_proc example_vr) ?p = Some (CHIAKI_ERR_SUCCESS, fp0)"
    "units_source_expected fp0 = 2" "units_fec_expected fp0 = 1" "buf_size_per_unit fp0 = 5"
    unfolding vr(1)
    by (simp add: chiaki_frame_processor_alloc_frame_def chiaki_frame_processor_init_def example_av_packet_def example_units_def
        u64_add_def load16be_def load8_def alloc_unit_slots_def alloc_frame_buf_def Let_def)
  have two: "i < 2 \<longleftrightarrow> i = 0 \<or> i = 1" and three: "i < 2 + 1 \<longleftrightarrow> i = 0 \<or> i = 1 \<or> i = 2" for i :: nat by auto
  have u: "[0..<2] = [0, 1::nat]" "[0..<3] = [0, 1, 2::nat]" "[0..<5] = [0, 1, 2, 3, 4::nat]" by (simp_all add: upt_rec)
  have j: "jerasure_recovers xor_units 2 1 5 example_units"
    unfolding jerasure_recovers_def by (simp add: u Let_def) (simp add: xor_units_def u pad_unit_def example_units_def)
  have sent: "frame_sent (env_jerasure example_vr_env) 2 1 5 example_units"
    using j by (simp add: frame_sent_def example_vr_env_def two three source_unit_ok_def example_units_def load16be_def load8_def)
  have env: "vr_env_ok example_vr_env" "video_sample_cb example_vr_env = Some (\<lambda>_. True)"
    by (simp_all add: example_vr_env_def vr_env_ok_def)
  have pk: "\<forall>x \<in> set [?p, ?q]. packet_of_frame 1 (profile_cur example_vr) (2 + 1) example_units x"
    by (simp add: packet_of_frame_def example_av_packet_def vr)
  have frames: "frame_index_cur example_vr < 0 \<or> frame_index_prev example_vr = frame_index_cur example_vr \<and>
      chiaki_seq_num_16_gt 1 (word_of_int (frame_index_cur example_vr))"
    "frame_index_prev example_vr \<noteq> uint (1 :: u16)" "fp_buf_ok (frame_proc example_vr)"
    "(1 :: u16) = word_of_int (frame_index_prev_complete example_vr + 1)"
    by (simp_all add: vr fp_buf_ok_init)
  have args: "av_data_size ?p < 2 ^ 62" "distinct (map unit_index [?p, ?q])" "2 \<le> length [?p, ?q]"
    by (simp_all add: example_av_packet_def example_units_def)
  from video_frame_delivered [OF sent env TrueI frames(1-3) args(1) fp0(1) fp0(2-4) [symmetric] pk args(2,3) frames(4)]
  show ?thesis by (auto simp: u example_units_def vr(2))
qed

lemma oversized_frame_undefined_witness:
  "vr_run example_vr_env
     [(example_av_packet 1 [0, 0])\<lparr>units_in_frame_total := 301\<rparr>, (example_av_packet 0 [0, 0])\<lparr>av_packet.frame_index := 2\<rparr>]
     example_vr = None"
  by (rule oversized_frame_undefined)
    (simp_all add: oversized_frame_def slots_ok_def example_vr_def chiaki_video_receiver_init_def
      chiaki_frame_processor_init_def example_av_packet_def seq_num_16_defs chiaki_seq_num_gt_def)

end
