(* ===== verification/Audio.thy ===== *)
theory Audio
  imports Packet_Stats
begin

text \<open>
  \<open>lib/src/audio.c\<close> and \<open>lib/src/audioreceiver.c\<close>: the audio header of the stream info and the
  packets of the audio and haptics streams, whose units go to the sinks in the order of
  their frame indices.
\<close>

section \<open>The audio header\<close>

record audio_header =
  channels :: u8
  bits :: u8
  rate :: u32
  frame_size :: u32
  unknown :: u32

definition chiaki_audio_header_load :: "bytes \<Rightarrow> audio_header option" where
  "chiaki_audio_header_load buf = do {
     channels \<leftarrow> load8 buf 0;
     bits \<leftarrow> load8 buf 1;
     rate \<leftarrow> load32be buf 2;
     frame_size \<leftarrow> load32be buf 6;
     unknown \<leftarrow> load32be buf 0xa;
     Some \<lparr>channels = channels, bits = bits, rate = rate, frame_size = frame_size, unknown = unknown\<rparr> }"

definition chiaki_audio_header_save :: "audio_header \<Rightarrow> bytes \<Rightarrow> bytes option" where
  "chiaki_audio_header_save h buf = do {
     buf \<leftarrow> store_bytes buf 0 [bits h];
     buf \<leftarrow> store_bytes buf 1 [channels h];
     buf \<leftarrow> store_bytes buf 2 (htonl_bytes (rate h));
     buf \<leftarrow> store_bytes buf 6 (htonl_bytes (frame_size h));
     store_bytes buf 0xa (htonl_bytes (unknown h)) }"

text \<open>The product \<open>frame_size * channels\<close> is one of \<open>uint32_t\<close>.\<close>

definition chiaki_audio_header_frame_buf_size :: "audio_header \<Rightarrow> nat" where
  "chiaki_audio_header_frame_buf_size h = unat (frame_size h * ucast (channels h)) * 2"

section \<open>The receiver\<close>

record audio_receiver =
  ar_frame_index_prev :: u16
  frame_index_startup :: bool
  ar_packet_stats :: "packet_stats option"

text \<open>Which callbacks of the session's sinks are set, and what the receiver calls them with.\<close>

record audio_sinks =
  audio_header_cb :: bool
  audio_frame_cb :: bool
  haptics_frame_cb :: bool

datatype audio_event =
    Audio_Header audio_header
  | Audio_Frame bytes
  | Haptics_Frame bytes

definition chiaki_audio_receiver_init :: "packet_stats option \<Rightarrow> ChiakiErrorCode \<Rightarrow> ChiakiErrorCode \<times> audio_receiver" where
  "chiaki_audio_receiver_init stats mutex_r =
     (mutex_r, \<lparr>ar_frame_index_prev = 0, frame_index_startup = True, ar_packet_stats = stats\<rparr>)"

definition chiaki_audio_receiver_stream_info :: "audio_sinks \<Rightarrow> audio_header \<Rightarrow> audio_event list" where
  "chiaki_audio_receiver_stream_info sinks h = (if audio_header_cb sinks then [Audio_Header h] else [])"

definition chiaki_audio_receiver_frame ::
  "audio_sinks \<Rightarrow> u16 \<Rightarrow> bool \<Rightarrow> bytes \<Rightarrow> audio_receiver \<Rightarrow> audio_receiver \<times> audio_event list" where
  "chiaki_audio_receiver_frame sinks index haptics buf ar =
     (if \<not> chiaki_seq_num_16_gt index (ar_frame_index_prev ar) then (ar, [])
      else (ar\<lparr>ar_frame_index_prev := index\<rparr>,
        if haptics \<and> haptics_frame_cb sinks then [Haptics_Frame buf]
        else if \<not> haptics \<and> audio_frame_cb sinks then [Audio_Frame buf] else []))"

text \<open>
  The loop over the units of a packet: \<open>s\<close> source units, then \<open>fec\<close> redundant ones. The memory
  of a unit is read by the callback; \<open>None\<close> if it is not there.
\<close>

fun audio_units ::
  "audio_sinks \<Rightarrow> av_packet \<Rightarrow> nat \<Rightarrow> nat \<Rightarrow> nat \<Rightarrow> nat list \<Rightarrow> audio_receiver \<times> audio_event list \<Rightarrow>
   (audio_receiver \<times> audio_event list) option" where
  "audio_units sinks packet s fec unit_size [] (ar, evs) = Some (ar, evs)"
| "audio_units sinks packet s fec unit_size (i # is) (ar, evs) =
     (if i \<ge> s \<and> frame_index_startup ar \<and> unat (frame_index packet) + (i - s) < fec + 1
      then audio_units sinks packet s fec unit_size is (ar, evs)
      else
        let index = (if i < s then frame_index packet + of_nat i
                     else frame_index packet - of_nat fec + of_nat (i - s))
        in do {
          buf \<leftarrow> load_bytes (av_data packet) (unit_size * i) unit_size;
          let (ar, evs') = chiaki_audio_receiver_frame sinks index (is_haptics packet) buf ar;
          audio_units sinks packet s fec unit_size is (ar, evs @ evs') })"

definition chiaki_audio_receiver_av_packet ::
  "audio_sinks \<Rightarrow> audio_receiver \<Rightarrow> av_packet \<Rightarrow> (audio_receiver \<times> audio_event list) option" where
  "chiaki_audio_receiver_av_packet sinks ar packet =
     (let s = chiaki_takion_av_packet_audio_source_units_count packet;
          fec = chiaki_takion_av_packet_audio_fec_units_count packet;
          unit_size = chiaki_takion_av_packet_audio_unit_size packet
      in if av_codec packet \<noteq> 5 then Some (ar, [])
         else if av_data_size packet = 0 then Some (ar, [])
         else if fec + s \<noteq> unat (units_in_frame_total packet) then Some (ar, [])
         else if av_data_size packet \<noteq> unit_size * unat (units_in_frame_total packet) then Some (ar, [])
         else
           let ar = (if unat (frame_index packet) > 2 ^ 15 then ar\<lparr>frame_index_startup := False\<rparr> else ar)
           in map_option
                (\<lambda>(ar, evs). (ar\<lparr>ar_packet_stats :=
                    map_option (\<lambda>st. chiaki_packet_stats_push_seq st (frame_index packet)) (ar_packet_stats ar)\<rparr>, evs))
                (audio_units sinks packet s fec unit_size [0..<s + fec] (ar, [])))"

fun audio_run :: "audio_sinks \<Rightarrow> av_packet list \<Rightarrow> audio_receiver \<Rightarrow> (audio_receiver \<times> audio_event list) option" where
  "audio_run sinks [] ar = Some (ar, [])"
| "audio_run sinks (p # ps) ar = do {
     (ar, evs) \<leftarrow> chiaki_audio_receiver_av_packet sinks ar p;
     (ar, evs') \<leftarrow> audio_run sinks ps ar;
     Some (ar, evs @ evs') }"

section \<open>The header is not read back\<close>

text \<open>
  \<open>save\<close> writes the two leading bytes in the other order than \<open>load\<close> reads them: what is read
  back is the header with \<open>channels\<close> and \<open>bits\<close> exchanged. Reading back is the identity exactly
  for headers in which they are equal.
\<close>

theorem audio_header_swapped:
  assumes "14 \<le> length buf"
  shows "\<exists>buf'. chiaki_audio_header_save h buf = Some buf' \<and> length buf' = length buf \<and>
     chiaki_audio_header_load buf' = Some (h\<lparr>channels := bits h, bits := channels h\<rparr>) \<and>
     (chiaki_audio_header_load buf' = Some h \<longleftrightarrow> channels h = bits h)"
proof -
  have s: "chiaki_audio_header_save h buf = Some ([bits h, channels h] @ htonl_bytes (rate h) @ htonl_bytes (frame_size h) @
      htonl_bytes (unknown h) @ drop 14 buf)" (is "_ = Some ?b")
    using assms by (auto simp: chiaki_audio_header_save_def store_bytes_def)
  have r: "load32be ?b 2 = Some (rate h)"
    using load32be_htonl [of 2 "[bits h, channels h]" "rate h"] by simp
  have f: "load32be ?b 6 = Some (frame_size h)"
    using load32be_htonl [of 6 "[bits h, channels h] @ htonl_bytes (rate h)" "frame_size h"] by simp
  have u: "load32be ?b 0xa = Some (unknown h)"
    using load32be_htonl [of "0xa" "[bits h, channels h] @ htonl_bytes (rate h) @ htonl_bytes (frame_size h)" "unknown h"] by simp
  have "chiaki_audio_header_load ?b = Some (h\<lparr>channels := bits h, bits := channels h\<rparr>)"
    using r f u by (simp add: chiaki_audio_header_load_def load8_def)
  moreover have "h\<lparr>channels := bits h, bits := channels h\<rparr> = h \<longleftrightarrow> channels h = bits h"
    by (cases h) auto
  ultimately show ?thesis using s assms by simp
qed

lemma audio_header_swapped_witness:
  "\<exists>buf'. chiaki_audio_header_save \<lparr>channels = 2, bits = 16, rate = 48000, frame_size = 480, unknown = 1\<rparr> (replicate 14 0) = Some buf' \<and>
     chiaki_audio_header_load buf' = Some \<lparr>channels = 16, bits = 2, rate = 48000, frame_size = 480, unknown = 1\<rparr>"
  using audio_header_swapped [of "replicate 14 0" "\<lparr>channels = 2, bits = 16, rate = 48000, frame_size = 480, unknown = 1\<rparr>"]
  by auto

section \<open>The order of the frames\<close>

text \<open>A well-formed packet: its sizes agree, its data is in memory.\<close>

definition audio_packet_ok :: "av_packet \<Rightarrow> bool" where
  "audio_packet_ok p \<longleftrightarrow>
     av_codec p = 5 \<and> 0 < chiaki_takion_av_packet_audio_source_units_count p \<and> 0 < chiaki_takion_av_packet_audio_unit_size p \<and>
     chiaki_takion_av_packet_audio_fec_units_count p + chiaki_takion_av_packet_audio_source_units_count p
       = unat (units_in_frame_total p) \<and>
     av_data_size p = chiaki_takion_av_packet_audio_unit_size p * unat (units_in_frame_total p) \<and>
     av_data_size p \<le> length (av_data p)"

definition audio_unit :: "av_packet \<Rightarrow> nat \<Rightarrow> bytes" where
  "audio_unit p i = take (chiaki_takion_av_packet_audio_unit_size p) (drop (chiaki_takion_av_packet_audio_unit_size p * i) (av_data p))"

definition audio_last_frame :: "av_packet \<Rightarrow> u16" where
  "audio_last_frame p = frame_index p + of_nat (chiaki_takion_av_packet_audio_source_units_count p - 1)"

definition audio_event_of :: "audio_sinks \<Rightarrow> av_packet \<Rightarrow> bytes \<Rightarrow> audio_event list" where
  "audio_event_of sinks p buf =
     (if is_haptics p \<and> haptics_frame_cb sinks then [Haptics_Frame buf]
      else if \<not> is_haptics p \<and> audio_frame_cb sinks then [Audio_Frame buf] else [])"

lemma audio_unit_counts_bound:
  "chiaki_takion_av_packet_audio_source_units_count p < 16" "chiaki_takion_av_packet_audio_fec_units_count p < 16"
proof -
  have m: "unat (w AND 0xf) < 16" for w :: u16
    using unat_and_mask [of w 4] by simp
  have "unat (ucast (w AND 0xf) :: u8) = unat (w AND 0xf)" for w :: u16
    using m [of w] by (intro unat_ucast_small) simp
  with m show "chiaki_takion_av_packet_audio_source_units_count p < 16" "chiaki_takion_av_packet_audio_fec_units_count p < 16"
    by (simp_all add: chiaki_takion_av_packet_audio_source_units_count_def chiaki_takion_av_packet_audio_fec_units_count_def)
qed

lemma frame_newer:
  "0 < unat (i - ar_frame_index_prev ar) \<Longrightarrow> unat (i - ar_frame_index_prev ar) < 2 ^ 15 \<Longrightarrow>
   chiaki_audio_receiver_frame sinks i h buf ar = (ar\<lparr>ar_frame_index_prev := i\<rparr>,
     if h \<and> haptics_frame_cb sinks then [Haptics_Frame buf]
     else if \<not> h \<and> audio_frame_cb sinks then [Audio_Frame buf] else [])"
  using uint_less_power [of "i - ar_frame_index_prev ar" 15]
  by (auto simp: chiaki_audio_receiver_frame_def seq_num_16_defs seq_num_gt_cyclic)

lemma frame_not_newer:
  "unat (ar_frame_index_prev ar - i) < 2 ^ 15 \<Longrightarrow> chiaki_audio_receiver_frame sinks i h buf ar = (ar, [])"
  using uint_less_power [of "ar_frame_index_prev ar - i" 15] seq_num_lt_asym [of "ar_frame_index_prev ar" i]
  by (auto simp: chiaki_audio_receiver_frame_def seq_num_16_defs seq_num_gt_is_lt seq_num_lt_cyclic)


lemma audio_units_append:
  "audio_units sinks p s fec u (xs @ ys) st = Option.bind (audio_units sinks p s fec u xs st) (audio_units sinks p s fec u ys)"
proof (induction xs arbitrary: st)
  case Nil
  show ?case by (cases st) simp
next
  case (Cons x xs)
  obtain ar evs where st: "st = (ar, evs)" by (cases st)
  show ?case
  proof (cases "x \<ge> s \<and> frame_index_startup ar \<and> unat (frame_index p) + (x - s) < fec + 1")
    case True
    show ?thesis unfolding st append_Cons audio_units.simps if_P [OF True] by (rule Cons.IH)
  next
    case False
    show ?thesis
      unfolding st append_Cons audio_units.simps Let_def case_prod_beta if_not_P [OF False] Cons.IH Option.bind_assoc ..
  qed
qed

lemma unit_loaded:
  assumes "audio_packet_ok p" "i < chiaki_takion_av_packet_audio_source_units_count p + chiaki_takion_av_packet_audio_fec_units_count p"
  shows "load_bytes (av_data p) (chiaki_takion_av_packet_audio_unit_size p * i) (chiaki_takion_av_packet_audio_unit_size p)
     = Some (audio_unit p i)"
proof -
  let ?u = "chiaki_takion_av_packet_audio_unit_size p"
  have "?u * Suc i \<le> ?u * unat (units_in_frame_total p)"
    using assms by (intro mult_left_mono) (simp_all add: audio_packet_ok_def)
  then have "?u * i + ?u \<le> length (av_data p)" using assms(1) by (simp add: audio_packet_ok_def)
  then show ?thesis by (simp add: load_bytes_def audio_unit_def)
qed

lemma source_units_loop:
  fixes p :: av_packet
  defines "s \<equiv> chiaki_takion_av_packet_audio_source_units_count p"
    and "fec \<equiv> chiaki_takion_av_packet_audio_fec_units_count p"
    and "u \<equiv> chiaki_takion_av_packet_audio_unit_size p"
  assumes ok: "audio_packet_ok p"
  shows "j < s \<Longrightarrow> 0 < unat (frame_index p + of_nat j - ar_frame_index_prev ar) \<Longrightarrow>
     unat (frame_index p + of_nat j - ar_frame_index_prev ar) < 2 ^ 15 \<Longrightarrow>
     audio_units sinks p s fec u [j..<s] (ar, evs) =
       Some (ar\<lparr>ar_frame_index_prev := audio_last_frame p\<rparr>, evs @ concat (map (\<lambda>i. audio_event_of sinks p (audio_unit p i)) [j..<s]))"
proof (induction "s - j" arbitrary: j ar evs)
  case (Suc d)
  have upt: "[j..<s] = j # [Suc j..<s]" using Suc.prems(1) by (rule upt_conv_Cons)
  have load: "load_bytes (av_data p) (u * j) u = Some (audio_unit p j)"
    using unit_loaded [OF ok, of j] Suc.prems(1) by (simp add: s_def u_def)
  let ?ar = "ar\<lparr>ar_frame_index_prev := frame_index p + of_nat j\<rparr>"
  have fr: "chiaki_audio_receiver_frame sinks (frame_index p + of_nat j) (is_haptics p) (audio_unit p j) ar
      = (?ar, audio_event_of sinks p (audio_unit p j))"
    by (simp add: frame_newer [OF Suc.prems(2,3)] audio_event_of_def)
  have step: "audio_units sinks p s fec u [j..<s] (ar, evs)
      = audio_units sinks p s fec u [Suc j..<s] (?ar, evs @ audio_event_of sinks p (audio_unit p j))"
    using Suc.prems(1) load fr by (simp add: upt del: upt_Suc)
  show ?case
  proof (cases "Suc j < s")
    case True
    have "frame_index p + of_nat (Suc j) - ar_frame_index_prev ?ar = 1" by simp
    then have "audio_units sinks p s fec u [Suc j..<s] (?ar, evs @ audio_event_of sinks p (audio_unit p j)) =
       Some (?ar\<lparr>ar_frame_index_prev := audio_last_frame p\<rparr>, (evs @ audio_event_of sinks p (audio_unit p j)) @
         concat (map (\<lambda>i. audio_event_of sinks p (audio_unit p i)) [Suc j..<s]))"
      using Suc.hyps(2) True by (intro Suc.hyps(1)) simp_all
    then show ?thesis using step by (simp add: upt del: upt_Suc)
  next
    case False
    then have "s - 1 = j" "[Suc j..<s] = []" using Suc.prems(1) by simp_all
    then show ?thesis using step by (simp add: upt audio_last_frame_def s_def [symmetric] del: upt_Suc)
  qed
qed simp

lemma fec_units_loop:
  fixes p :: av_packet
  defines "s \<equiv> chiaki_takion_av_packet_audio_source_units_count p"
    and "fec \<equiv> chiaki_takion_av_packet_audio_fec_units_count p"
    and "u \<equiv> chiaki_takion_av_packet_audio_unit_size p"
  assumes ok: "audio_packet_ok p" and last: "ar_frame_index_prev ar = audio_last_frame p"
  shows "\<forall>i \<in> set is. s \<le> i \<and> i < s + fec \<Longrightarrow> audio_units sinks p s fec u is (ar, evs) = Some (ar, evs)"
proof (induction "is")
  case (Cons i "is")
  have i: "s \<le> i" "i < s + fec" using Cons.prems by simp_all
  have load: "load_bytes (av_data p) (u * i) u = Some (audio_unit p i)"
    using unit_loaded [OF ok, of i] i by (simp add: s_def fec_def u_def)
  have pos: "0 < s" using ok by (simp add: audio_packet_ok_def s_def)
  have "ar_frame_index_prev ar - (frame_index p - of_nat fec + of_nat (i - s))
      = (of_nat (s - 1) + of_nat fec - of_nat (i - s) :: u16)"
    by (simp add: last audio_last_frame_def s_def)
  also have "\<dots> = of_nat (s - 1 + fec - (i - s))"
    using i pos by (subst of_nat_diff) simp_all
  finally have eq: "ar_frame_index_prev ar - (frame_index p - of_nat fec + of_nat (i - s)) = of_nat (s - 1 + fec - (i - s))" .
  have "unat (ar_frame_index_prev ar - (frame_index p - of_nat fec + of_nat (i - s))) = s - 1 + fec - (i - s)"
    unfolding eq using audio_unit_counts_bound [of p] by (intro unat_of_nat_len) (simp add: s_def fec_def)
  then have "unat (ar_frame_index_prev ar - (frame_index p - of_nat fec + of_nat (i - s))) < 2 ^ 15"
    using audio_unit_counts_bound [of p] by (simp add: s_def fec_def)
  from frame_not_newer [OF this] Cons show ?case using load i by simp
qed simp

lemma audio_av_packet_newer:
  assumes ok: "audio_packet_ok p" and new: "0 < unat (frame_index p - ar_frame_index_prev ar)" "unat (frame_index p - ar_frame_index_prev ar) < 2 ^ 15"
  shows "\<exists>ar'. chiaki_audio_receiver_av_packet sinks ar p =
     Some (ar', concat (map (\<lambda>i. audio_event_of sinks p (audio_unit p i)) [0..<chiaki_takion_av_packet_audio_source_units_count p])) \<and>
     ar_frame_index_prev ar' = audio_last_frame p"
proof -
  let ?s = "chiaki_takion_av_packet_audio_source_units_count p" and ?fec = "chiaki_takion_av_packet_audio_fec_units_count p"
    and ?u = "chiaki_takion_av_packet_audio_unit_size p"
  let ?evs = "concat (map (\<lambda>i. audio_event_of sinks p (audio_unit p i)) [0..<?s])"
  define ar0 where "ar0 = (if unat (frame_index p) > 2 ^ 15 then ar\<lparr>frame_index_startup := False\<rparr> else ar)"
  have new0: "0 < unat (frame_index p + of_nat 0 - ar_frame_index_prev ar0)" "unat (frame_index p + of_nat 0 - ar_frame_index_prev ar0) < 2 ^ 15"
    using new by (simp_all add: ar0_def)
  have pos: "0 < ?s" using ok by (simp add: audio_packet_ok_def)
  have "[0..<?s + ?fec] = [0..<?s] @ [?s..<?s + ?fec]" by (rule upt_add_eq_append) simp
  moreover have "audio_units sinks p ?s ?fec ?u [?s..<?s + ?fec] (ar0\<lparr>ar_frame_index_prev := audio_last_frame p\<rparr>, ?evs)
      = Some (ar0\<lparr>ar_frame_index_prev := audio_last_frame p\<rparr>, ?evs)"
    by (rule fec_units_loop [OF ok]) simp_all
  moreover have "audio_units sinks p ?s ?fec ?u [0..<?s] (ar0, []) = Some (ar0\<lparr>ar_frame_index_prev := audio_last_frame p\<rparr>, ?evs)"
    using source_units_loop [OF ok pos new0, of sinks "[]"] by (simp only: append_Nil)
  ultimately have units: "audio_units sinks p ?s ?fec ?u [0..<?s + ?fec] (ar0, [])
      = Some (ar0\<lparr>ar_frame_index_prev := audio_last_frame p\<rparr>, ?evs)"
    by (simp only: audio_units_append Option.bind.bind_lunit)
  have guards: "\<not> av_codec p \<noteq> 5" "av_data_size p \<noteq> 0" "\<not> ?fec + ?s \<noteq> unat (units_in_frame_total p)"
    "\<not> av_data_size p \<noteq> ?u * unat (units_in_frame_total p)"
    using ok pos unfolding audio_packet_ok_def by (blast, smt (verit) add_is_0 mult_is_0 not_gr_zero, blast, blast)
  show ?thesis
    unfolding chiaki_audio_receiver_av_packet_def Let_def ar0_def [symmetric] units if_not_P [OF guards(1)] if_not_P [OF guards(2)]
      if_not_P [OF guards(3)] if_not_P [OF guards(4)]
    by simp
qed

text \<open>Each packet is newer than the last frame of the one before, by less than half of the sequence numbers.\<close>

fun audio_newer :: "u16 \<Rightarrow> av_packet list \<Rightarrow> bool" where
  "audio_newer prev [] \<longleftrightarrow> True"
| "audio_newer prev (p # ps) \<longleftrightarrow>
     0 < unat (frame_index p - prev) \<and> unat (frame_index p - prev) < 2 ^ 15 \<and> audio_newer (audio_last_frame p) ps"

text \<open>
  C27. In-order audio. Well-formed packets whose frame indices increase, with gaps where packets
  were lost and across the wrap of the index, hand exactly their source units to the sink, each once and in order. The
  redundant units are never used: at the time they are looked at, the source units of their own
  packet have already moved the receiver past the frames they repeat, so a frame lost
  with an earlier packet is not filled in.
\<close>

theorem audio_in_order:
  assumes "\<forall>p \<in> set ps. audio_packet_ok p" "audio_newer (ar_frame_index_prev ar) ps"
  shows "map_option snd (audio_run sinks ps ar) = Some (concat (map (\<lambda>p. concat (map (\<lambda>i. audio_event_of sinks p (audio_unit p i))
     [0..<chiaki_takion_av_packet_audio_source_units_count p])) ps))"
  using assms
proof (induction ps arbitrary: ar)
  case (Cons p ps)
  then have p: "audio_packet_ok p" "0 < unat (frame_index p - ar_frame_index_prev ar)"
    "unat (frame_index p - ar_frame_index_prev ar) < 2 ^ 15" by simp_all
  from audio_av_packet_newer [OF this, of sinks] obtain ar' where
    step: "chiaki_audio_receiver_av_packet sinks ar p = Some (ar', concat (map (\<lambda>i. audio_event_of sinks p (audio_unit p i))
       [0..<chiaki_takion_av_packet_audio_source_units_count p]))" "ar_frame_index_prev ar' = audio_last_frame p" by blast
  have "map_option snd (audio_run sinks ps ar') = Some (concat (map (\<lambda>p. concat (map (\<lambda>i. audio_event_of sinks p (audio_unit p i))
     [0..<chiaki_takion_av_packet_audio_source_units_count p])) ps))"
    using Cons.prems step(2) by (intro Cons.IH) simp_all
  then show ?case using step(1) by (auto split: Option.bind_splits)
qed simp

text \<open>Two source frames with a lost packet between them: the second carries the lost frame as redundancy.\<close>

definition example_audio_packet :: "nat \<Rightarrow> bytes \<Rightarrow> av_packet" where
  "example_audio_packet f data =
     \<lparr>packet_index = 0, frame_index = of_nat f, uses_nalu_info_structs = False, is_video = False, is_haptics = False,
      unit_index = 0, units_in_frame_total = 2, units_in_frame_fec = 0x0211, av_codec = 5, word_at_0x18 = 0,
      adaptive_stream_index = 0, byte_at_0x2c = 0, av_key_pos = 0, av_data = data, av_data_size = 4\<rparr>"

lemma audio_in_order_witness:
  "map_option snd (audio_run \<lparr>audio_header_cb = True, audio_frame_cb = True, haptics_frame_cb = True\<rparr>
     [example_audio_packet 1 [1, 1, 0, 0], example_audio_packet 3 [3, 3, 2, 2]] (snd (chiaki_audio_receiver_init None CHIAKI_ERR_SUCCESS)))
   = Some [Audio_Frame [1, 1], Audio_Frame [3, 3]]"
proof -
  let ?ar = "snd (chiaki_audio_receiver_init None CHIAKI_ERR_SUCCESS)"
  let ?sinks = "\<lparr>audio_header_cb = True, audio_frame_cb = True, haptics_frame_cb = True\<rparr>"
  let ?ps = "[example_audio_packet 1 [1, 1, 0, 0], example_audio_packet 3 [3, 3, 2, 2]]"
  have s: "chiaki_takion_av_packet_audio_source_units_count (example_audio_packet f d) = 1"
    "chiaki_takion_av_packet_audio_fec_units_count (example_audio_packet f d) = 1"
    "chiaki_takion_av_packet_audio_unit_size (example_audio_packet f d) = 2" for f d
    by (simp_all add: chiaki_takion_av_packet_audio_source_units_count_def chiaki_takion_av_packet_audio_fec_units_count_def
        chiaki_takion_av_packet_audio_unit_size_def example_audio_packet_def drop_bit_eq_div)
  have "\<forall>p \<in> set ?ps. audio_packet_ok p"
    by (simp add: audio_packet_ok_def s) (simp add: example_audio_packet_def)
  moreover have "audio_newer (ar_frame_index_prev ?ar) ?ps"
    by (simp add: audio_last_frame_def s) (simp add: example_audio_packet_def chiaki_audio_receiver_init_def)
  ultimately have "map_option snd (audio_run ?sinks ?ps ?ar) = Some (concat (map (\<lambda>p. concat (map (\<lambda>i. audio_event_of ?sinks p (audio_unit p i))
     [0..<chiaki_takion_av_packet_audio_source_units_count p])) ?ps))"
    by (rule audio_in_order)
  moreover have "concat (map (\<lambda>p. concat (map (\<lambda>i. audio_event_of ?sinks p (audio_unit p i))
     [0..<chiaki_takion_av_packet_audio_source_units_count p])) ?ps) = [Audio_Frame [1, 1], Audio_Frame [3, 3]]"
    by (simp add: s audio_unit_def audio_event_of_def) (simp add: example_audio_packet_def)
  ultimately show ?thesis by simp
qed

end
