(* ===== verification/Send_Buffer.thy ===== *)
theory Send_Buffer
  imports Common Seqnum "HOL-Library.Multiset"
begin

text \<open>
  \<open>lib/src/takionsendbuffer.c\<close>: the data packets that wait for their acknowledgement, and the
  thread that sends them again. The array of packets is a list of \<open>packets_size\<close> slots of
  which the first \<open>packets_count\<close> are in use; a move outside of it is \<open>None\<close>. The operations
  return the buffers they free. The mutex serialises them; what it and the other platform
  calls return are arguments, and so is the time.
\<close>

abbreviation "TAKION_DATA_RESEND_TIMEOUT_MS \<equiv> 200 :: u64"

record sb_packet =
  sb_seq_num :: u32
  tries :: u64
  last_send_ms :: u64
  sb_buf :: bytes

record send_buffer =
  sb_packets :: "sb_packet list"
  packets_count :: nat
  should_stop :: bool

abbreviation packets_size :: "send_buffer \<Rightarrow> nat" where
  "packets_size sb \<equiv> length (sb_packets sb)"

definition zero_packet :: sb_packet where
  "zero_packet = \<lparr>sb_seq_num = 0, tries = 0, last_send_ms = 0, sb_buf = []\<rparr>"

text \<open>\<open>init\<close>: whether the array can be allocated, and what the mutex, the condition and the thread return.\<close>

definition chiaki_takion_send_buffer_init ::
  "nat \<Rightarrow> bool \<Rightarrow> ChiakiErrorCode \<Rightarrow> ChiakiErrorCode \<Rightarrow> ChiakiErrorCode \<Rightarrow> ChiakiErrorCode \<times> send_buffer option" where
  "chiaki_takion_send_buffer_init n calloc_ok mutex_r cond_r thread_r =
     (if \<not> calloc_ok then (CHIAKI_ERR_MEMORY, None)
      else if mutex_r \<noteq> CHIAKI_ERR_SUCCESS then (mutex_r, None)
      else if cond_r \<noteq> CHIAKI_ERR_SUCCESS then (cond_r, None)
      else if thread_r \<noteq> CHIAKI_ERR_SUCCESS then (thread_r, None)
      else (CHIAKI_ERR_SUCCESS,
        Some \<lparr>sb_packets = replicate n zero_packet, packets_count = 0, should_stop = False\<rparr>))"

text \<open>\<open>fini\<close>: the buffers that are freed, \<open>None\<close> if an assertion on the platform calls fails.\<close>

definition chiaki_takion_send_buffer_fini ::
  "ChiakiErrorCode \<Rightarrow> ChiakiErrorCode \<Rightarrow> ChiakiErrorCode \<Rightarrow> send_buffer \<Rightarrow> bytes list option" where
  "chiaki_takion_send_buffer_fini lock_r signal_r join_r sb =
     (if lock_r \<noteq> CHIAKI_ERR_SUCCESS \<or> signal_r \<noteq> CHIAKI_ERR_SUCCESS \<or> join_r \<noteq> CHIAKI_ERR_SUCCESS then None
      else if packets_count sb > packets_size sb then None
      else Some (map sb_buf (take (packets_count sb) (sb_packets sb))))"

text \<open>
  \<open>push\<close>: the error code, the new state, the buffers freed and whether the thread is woken. When the mutex
  cannot be locked the buffer is not freed.
\<close>

definition chiaki_takion_send_buffer_push ::
  "ChiakiErrorCode \<Rightarrow> u64 \<Rightarrow> u32 \<Rightarrow> bytes \<Rightarrow> send_buffer \<Rightarrow> ChiakiErrorCode \<times> send_buffer \<times> bytes list \<times> bool" where
  "chiaki_takion_send_buffer_push lock_r now seq_num buf sb =
     (if lock_r \<noteq> CHIAKI_ERR_SUCCESS then (lock_r, sb, [], False)
      else if packets_count sb \<ge> packets_size sb then (CHIAKI_ERR_OVERFLOW, sb, [buf], False)
      else if list_ex (\<lambda>p. sb_seq_num p = seq_num) (take (packets_count sb) (sb_packets sb))
        then (CHIAKI_ERR_INVALID_DATA, sb, [buf], False)
      else
        let packet = \<lparr>sb_seq_num = seq_num, tries = 0, last_send_ms = now, sb_buf = buf\<rparr>;
            sb = sb\<lparr>sb_packets := (sb_packets sb)[packets_count sb := packet], packets_count := packets_count sb + 1\<rparr>
        in (CHIAKI_ERR_SUCCESS, sb, [], packets_count sb = 1))"

section \<open>Acknowledgement\<close>

definition sb_acked :: "u32 \<Rightarrow> sb_packet \<Rightarrow> bool" where
  "sb_acked seq_num p \<longleftrightarrow> sb_seq_num p = seq_num \<or> chiaki_seq_num_32_lt (sb_seq_num p) seq_num"

definition memmove_packets :: "sb_packet list \<Rightarrow> nat \<Rightarrow> nat \<Rightarrow> nat \<Rightarrow> sb_packet list option" where
  "memmove_packets ps dst src n =
     (if src + n \<le> length ps \<and> dst + n \<le> length ps
      then Some (take dst ps @ take n (drop src ps) @ drop (dst + n) ps) else None)"

text \<open>
  The loop: the array, \<open>shift_start\<close> (\<open>None\<close>: \<open>SIZE_MAX\<close>) and \<open>shift\<close>, the acknowledged numbers and the freed
  buffers. \<open>acked_size\<close> is the size of the array \<open>acked_seq_nums\<close>, \<open>None\<close> if it is a null pointer.
\<close>

fun ack_loop ::
  "u32 \<Rightarrow> nat option \<Rightarrow> nat list \<Rightarrow> sb_packet list \<times> nat option \<times> nat \<times> u32 list \<times> bytes list \<Rightarrow>
   (sb_packet list \<times> nat option \<times> nat \<times> u32 list \<times> bytes list) option" where
  "ack_loop seq_num acked_size [] st = Some st"
| "ack_loop seq_num acked_size (i # is) (ps, shift_start, shift, acked, freed) =
     (if \<not> i < length ps then None
      else if \<not> sb_acked seq_num (ps ! i) then ack_loop seq_num acked_size is (ps, shift_start, shift, acked, freed)
      else do {
        acked \<leftarrow> (case acked_size of None \<Rightarrow> Some acked
                | Some n \<Rightarrow> if length acked < n then Some (acked @ [sb_seq_num (ps ! i)]) else None);
        let freed = freed @ [sb_buf (ps ! i)];
        (case shift_start of
           None \<Rightarrow> ack_loop seq_num acked_size is (ps, Some i, 1, acked, freed)
         | Some s \<Rightarrow>
             if s + shift = i then ack_loop seq_num acked_size is (ps, Some s, shift + 1, acked, freed)
             else do {
               ps \<leftarrow> memmove_packets ps s (s + shift) (i - (s + shift));
               ack_loop seq_num acked_size is (ps, Some (i - shift), shift + 1, acked, freed) }) })"

definition chiaki_takion_send_buffer_ack ::
  "ChiakiErrorCode \<Rightarrow> u32 \<Rightarrow> nat option \<Rightarrow> send_buffer \<Rightarrow> (ChiakiErrorCode \<times> send_buffer \<times> u32 list \<times> bytes list) option" where
  "chiaki_takion_send_buffer_ack lock_r seq_num acked_size sb =
     (if lock_r \<noteq> CHIAKI_ERR_SUCCESS then Some (lock_r, sb, [], [])
      else do {
        (ps, shift_start, shift, acked, freed) \<leftarrow>
          ack_loop seq_num acked_size [0..<packets_count sb] (sb_packets sb, None, 0, [], []);
        (case shift_start of
           None \<Rightarrow> Some (CHIAKI_ERR_SUCCESS, sb\<lparr>sb_packets := ps\<rparr>, acked, freed)
         | Some s \<Rightarrow> do {
             ps \<leftarrow> (if s + shift < packets_count sb
                then memmove_packets ps s (s + shift) (packets_count sb - (s + shift)) else Some ps);
             Some (CHIAKI_ERR_SUCCESS, sb\<lparr>sb_packets := ps, packets_count := packets_count sb - shift\<rparr>, acked, freed) }) })"

section \<open>The thread\<close>

definition takion_send_buffer_check_pred_packets :: "send_buffer \<Rightarrow> bool" where
  "takion_send_buffer_check_pred_packets sb \<longleftrightarrow> should_stop sb"

definition takion_send_buffer_check_pred_no_packets :: "send_buffer \<Rightarrow> bool" where
  "takion_send_buffer_check_pred_no_packets sb \<longleftrightarrow> should_stop sb \<or> packets_count sb \<noteq> 0"

text \<open>One packet of \<open>resend\<close>: the packet and the buffers sent.\<close>

definition resend_packet :: "u64 \<Rightarrow> sb_packet \<Rightarrow> sb_packet \<times> bytes list" where
  "resend_packet now p =
     (if now - last_send_ms p > TAKION_DATA_RESEND_TIMEOUT_MS
      then (p\<lparr>last_send_ms := now, tries := tries p + 1\<rparr>, [sb_buf p]) else (p, []))"

definition takion_send_buffer_resend :: "bool \<Rightarrow> u64 \<Rightarrow> send_buffer \<Rightarrow> send_buffer \<times> bytes list" where
  "takion_send_buffer_resend takion now sb =
     (if \<not> takion then (sb, [])
      else
        let ps = take (packets_count sb) (sb_packets sb)
        in (sb\<lparr>sb_packets := map (\<lambda>p. fst (resend_packet now p)) ps @ drop (packets_count sb) (sb_packets sb)\<rparr>,
            concat (map (\<lambda>p. snd (resend_packet now p)) ps)))"

text \<open>
  One turn of the thread after its wait has returned \<open>err\<close>; \<open>None\<close>: the thread ends. The wait is the one
  with a timeout exactly when there are packets.
\<close>

definition takion_send_buffer_iteration ::
  "bool \<Rightarrow> ChiakiErrorCode \<Rightarrow> u64 \<Rightarrow> send_buffer \<Rightarrow> (send_buffer \<times> bytes list) option" where
  "takion_send_buffer_iteration takion err now sb =
     (if err \<noteq> CHIAKI_ERR_SUCCESS \<and> err \<noteq> CHIAKI_ERR_TIMEOUT then None
      else if should_stop sb then None
      else Some (takion_send_buffer_resend takion now sb))"

definition send_buffer_wait_has_timeout :: "send_buffer \<Rightarrow> bool" where
  "send_buffer_wait_has_timeout sb \<longleftrightarrow> packets_count sb \<noteq> 0"

section \<open>What the buffer holds\<close>

definition sb_list :: "send_buffer \<Rightarrow> sb_packet list" where
  "sb_list sb = take (packets_count sb) (sb_packets sb)"

definition sb_inv :: "send_buffer \<Rightarrow> bool" where
  "sb_inv sb \<longleftrightarrow> packets_count sb \<le> packets_size sb \<and> distinct (map sb_seq_num (sb_list sb))"

lemma memmove_packets_defined:
  "src + n \<le> length ps \<Longrightarrow> dst \<le> src \<Longrightarrow>
   memmove_packets ps dst src n = Some (take dst ps @ take n (drop src ps) @ drop (dst + n) ps)"
  by (simp add: memmove_packets_def)

text \<open>
  The invariant of the loop: behind the gap of \<open>shift\<close> slots the array is still the original
  one, before it are the packets that stay.
\<close>

definition ack_inv ::
  "u32 \<Rightarrow> nat option \<Rightarrow> sb_packet list \<Rightarrow> nat \<Rightarrow> sb_packet list \<times> nat option \<times> nat \<times> u32 list \<times> bytes list \<Rightarrow> bool" where
  "ack_inv n asz xs i st \<longleftrightarrow> (case st of (ps, shift_start, shift, acked, freed) \<Rightarrow>
     length ps = length xs \<and>
     acked = (if asz = None then [] else map sb_seq_num (filter (sb_acked n) (take i xs))) \<and>
     freed = map sb_buf (filter (sb_acked n) (take i xs)) \<and>
     (case shift_start of
        None \<Rightarrow> ps = xs \<and> (\<forall>j < i. \<not> sb_acked n (xs ! j))
      | Some s \<Rightarrow> s + shift \<le> i \<and> take s ps = filter (\<lambda>p. \<not> sb_acked n p) (take (s + shift) xs) \<and>
          length (filter (sb_acked n) (take (s + shift) xs)) = shift \<and> 0 < shift \<and>
          drop (s + shift) ps = drop (s + shift) xs \<and> (\<forall>j. s + shift \<le> j \<and> j < i \<longrightarrow> \<not> sb_acked n (xs ! j))))"

lemma filter_take_extend:
  assumes "a \<le> i" "i \<le> length xs" "\<forall>j. a \<le> j \<and> j < i \<longrightarrow> P (xs ! j)"
  shows "filter P (take i xs) = filter P (take a xs) @ take (i - a) (drop a xs)"
    and "filter (\<lambda>x. \<not> P x) (take i xs) = filter (\<lambda>x. \<not> P x) (take a xs)"
proof -
  have split: "take i xs = take a xs @ take (i - a) (drop a xs)"
    using assms(1) by (metis le_add_diff_inverse take_add)
  have all: "\<forall>x \<in> set (take (i - a) (drop a xs)). P x"
    using assms by (auto simp: in_set_conv_nth)
  then show "filter P (take i xs) = filter P (take a xs) @ take (i - a) (drop a xs)"
    unfolding split by (simp add: filter_id_conv)
  show "filter (\<lambda>x. \<not> P x) (take i xs) = filter (\<lambda>x. \<not> P x) (take a xs)"
    unfolding split using all by (simp add: filter_empty_conv)
qed


lemma take_Suc_filter:
  "i < length xs \<Longrightarrow> filter P (take (Suc i) xs) = filter P (take i xs) @ (if P (xs ! i) then [xs ! i] else [])"
  by (simp add: take_Suc_conv_app_nth)

lemma drop_eq_mono: "drop a xs = drop a ys \<Longrightarrow> a \<le> b \<Longrightarrow> drop b xs = drop b ys"
proof -
  assume "drop a xs = drop a ys" "a \<le> b"
  moreover have "drop b zs = drop (b - a) (drop a zs)" for zs :: "'a list" using \<open>a \<le> b\<close> by simp
  ultimately show ?thesis by metis
qed

lemma ack_loop_step:
  assumes inv: "ack_inv n asz xs i st" and i: "i < length xs" and cap: "\<forall>m. asz = Some m \<longrightarrow> length xs \<le> m"
  shows "\<exists>st'. (\<forall>is. ack_loop n asz (i # is) st = ack_loop n asz is st') \<and> ack_inv n asz xs (Suc i) st'"
proof -
  obtain ps ss sh acked freed where st: "st = (ps, ss, sh, acked, freed)" by (cases st) auto
  let ?P = "sb_acked n" and ?N = "\<lambda>p. \<not> sb_acked n p"
  have inv': "length ps = length xs" "acked = (if asz = None then [] else map sb_seq_num (filter ?P (take i xs)))"
    "freed = map sb_buf (filter ?P (take i xs))"
    using inv by (auto simp: st ack_inv_def)
  have psi: "ps ! i = xs ! i"
  proof (cases ss)
    case None then show ?thesis using inv by (simp add: st ack_inv_def)
  next
    case (Some s)
    then have "s + sh \<le> i" "drop (s + sh) ps = drop (s + sh) xs" using inv by (simp_all add: st ack_inv_def)
    then have "drop i ps = drop i xs" using drop_eq_mono by blast
    moreover have "hd (drop i ps) = ps ! i" "hd (drop i xs) = xs ! i"
      using i inv'(1) by (simp_all add: hd_drop_conv_nth)
    ultimately show ?thesis by simp
  qed
  show ?thesis
  proof (cases "?P (xs ! i)")
    case False
    have "ack_inv n asz xs (Suc i) st"
      using inv i False by (cases ss) (simp_all add: st ack_inv_def take_Suc_filter less_Suc_eq, blast+)
    moreover have "ack_loop n asz (i # is) st = ack_loop n asz is st" for "is"
      using False i inv'(1) psi by (simp add: st)
    ultimately show ?thesis by blast
  next
    case True
    define acked' where "acked' = (if asz = None then [] else map sb_seq_num (filter ?P (take (Suc i) xs)))"
    define freed' where "freed' = map sb_buf (filter ?P (take (Suc i) xs))"
    have len: "length (filter ?P (take i xs)) < length xs"
      using i length_filter_le [of ?P "take i xs"] by simp
    have ack: "(case asz of None \<Rightarrow> Some acked | Some m \<Rightarrow> if length acked < m then Some (acked @ [sb_seq_num (ps ! i)]) else None) = Some acked'"
      using True i len cap by (auto simp: acked'_def inv'(2) take_Suc_filter psi split: option.splits)
    have fr: "freed @ [sb_buf (ps ! i)] = freed'"
      using True i by (simp add: freed'_def inv'(3) take_Suc_filter psi)
    show ?thesis
    proof (cases ss)
      case None
      then have none: "ps = xs" "\<forall>j < i. ?N (xs ! j)" using inv by (simp_all add: st ack_inv_def)
      have "filter ?N (take i xs) = take i xs" "filter ?P (take i xs) = []"
        using none(2) i by (auto simp: filter_id_conv filter_empty_conv in_set_conv_nth)
      then have "ack_inv n asz xs (Suc i) (ps, Some i, 1, acked', freed')"
        using none i True by (simp add: ack_inv_def acked'_def freed'_def take_Suc_filter)
      moreover have "ack_loop n asz (i # is) st = ack_loop n asz is (ps, Some i, 1, acked', freed')" for "is"
        using True i inv'(1) psi ack fr None by (simp add: st)
      ultimately show ?thesis by blast
    next
      case (Some s)
      then have some: "s + sh \<le> i" "take s ps = filter ?N (take (s + sh) xs)" "length (filter ?P (take (s + sh) xs)) = sh" "0 < sh"
        "drop (s + sh) ps = drop (s + sh) xs" "\<forall>j. s + sh \<le> j \<and> j < i \<longrightarrow> ?N (xs ! j)"
        using inv by (simp_all add: st ack_inv_def)
      show ?thesis
      proof (cases "s + sh = i")
        case gap: True
        have d: "drop (Suc i) ps = drop (Suc i) xs" using drop_eq_mono [OF some(5), of "Suc i"] gap by simp
        have t: "take s ps = filter ?N (take (Suc i) xs)" using some(2) gap True i by (simp add: take_Suc_filter)
        have l: "length (filter ?P (take (Suc i) xs)) = sh + 1" using some(3) gap True i by (simp add: take_Suc_filter)
        have e: "s + (sh + 1) = Suc i" using gap by simp
        have "ack_inv n asz xs (Suc i) (ps, Some s, sh + 1, acked', freed')"
          unfolding ack_inv_def case_prod_conv option.case e using d t l inv'(1) by (auto simp: acked'_def freed'_def)
        moreover have "ack_loop n asz (i # is) st = ack_loop n asz is (ps, Some s, sh + 1, acked', freed')" for "is"
          using True i inv'(1) psi ack fr Some gap by (simp add: st)
        ultimately show ?thesis by blast
      next
        case False
        let ?l = "i - (s + sh)"
        define ps' where "ps' = take s ps @ take ?l (drop (s + sh) ps) @ drop (s + ?l) ps"
        have mv: "memmove_packets ps s (s + sh) ?l = Some ps'"
          unfolding ps'_def using some(1) i inv'(1) by (intro memmove_packets_defined) simp_all
        have lens: "length (take s ps) = s" "length (take ?l (drop (s + sh) ps)) = ?l" "s + ?l = i - sh" "i - sh + sh = i"
          using some(1) i inv'(1) by simp_all
        have ext: "filter ?N (take i xs) = filter ?N (take (s + sh) xs) @ take ?l (drop (s + sh) xs)"
          "filter ?P (take i xs) = filter ?P (take (s + sh) xs)"
          using filter_take_extend [OF some(1), of xs ?N] some(6) i by simp_all
        have t: "take (i - sh) ps' = filter ?N (take (Suc i) xs)"
          using True i lens by (simp add: ps'_def take_Suc_filter ext some(2,5) add.commute [of sh s])
        have "ps' = (take s ps @ take ?l (drop (s + sh) ps)) @ drop (i - sh) ps"
          using lens(3) by (simp add: ps'_def)
        moreover have "length (take s ps @ take ?l (drop (s + sh) ps)) = i - sh" using lens by simp
        ultimately have "drop (Suc i) ps' = drop (Suc i - (i - sh)) (drop (i - sh) ps)"
          using some(1) by (simp only: drop_append) simp
        also have "\<dots> = drop (Suc i) ps" using lens(4) by simp
        also have "drop (Suc i) ps = drop (Suc i) xs" by (rule drop_eq_mono [OF some(5)]) (use some(1) in simp)
        finally have d: "drop (Suc i) ps' = drop (Suc i) xs" .
        have "length ps' = length ps" using lens some(1) i inv'(1) by (simp add: ps'_def)
        then have lp: "length ps' = length xs" using inv'(1) by simp
        have l: "length (filter ?P (take (Suc i) xs)) = sh + 1" using some(3) ext(2) True i by (simp add: take_Suc_filter)
        have e: "i - sh + (sh + 1) = Suc i" using lens(4) by simp
        have "ack_inv n asz xs (Suc i) (ps', Some (i - sh), sh + 1, acked', freed')"
          unfolding ack_inv_def case_prod_conv option.case e using d t l lp by (auto simp: acked'_def freed'_def)
        moreover have "ack_loop n asz (i # is) st = ack_loop n asz is (ps', Some (i - sh), sh + 1, acked', freed')" for "is"
          using True i inv'(1) psi ack fr Some False mv by (simp add: st)
        ultimately show ?thesis by blast
      qed
    qed
  qed
qed


lemma ack_loop_all:
  assumes "k \<le> length xs" "\<forall>m. asz = Some m \<longrightarrow> length xs \<le> m"
  shows "j \<le> k \<Longrightarrow> ack_inv n asz xs j st \<Longrightarrow> \<exists>st'. ack_loop n asz [j..<k] st = Some st' \<and> ack_inv n asz xs k st'"
proof (induction "k - j" arbitrary: j st)
  case (Suc d)
  then have jk: "j < k" by simp
  then have "j < length xs" using assms(1) by simp
  from ack_loop_step [OF Suc.prems(2) this assms(2)] obtain st' where
    st': "\<forall>is. ack_loop n asz (j # is) st = ack_loop n asz is st'" "ack_inv n asz xs (Suc j) st'" by blast
  have "\<exists>st''. ack_loop n asz [Suc j..<k] st' = Some st'' \<and> ack_inv n asz xs k st''"
    by (rule Suc.hyps(1)) (use Suc.hyps(2) jk st' in simp_all)
  then show ?case using st'(1) jk by (simp add: upt_conv_Cons)
qed simp

lemma send_buffer_ack_defined:
  assumes "packets_count sb \<le> packets_size sb" "\<forall>m. asz = Some m \<longrightarrow> packets_size sb \<le> m"
  shows "\<exists>sb'. chiaki_takion_send_buffer_ack CHIAKI_ERR_SUCCESS n asz sb =
       Some (CHIAKI_ERR_SUCCESS, sb', if asz = None then [] else map sb_seq_num (filter (sb_acked n) (sb_list sb)),
         map sb_buf (filter (sb_acked n) (sb_list sb))) \<and>
     sb_list sb' = filter (\<lambda>p. \<not> sb_acked n p) (sb_list sb) \<and>
     packets_size sb' = packets_size sb \<and> packets_count sb' \<le> packets_size sb' \<and> should_stop sb' = should_stop sb"
proof -
  let ?xs = "sb_packets sb" and ?k = "packets_count sb" and ?P = "sb_acked n" and ?N = "\<lambda>p. \<not> sb_acked n p"
  have "ack_inv n asz ?xs 0 (?xs, None, 0, [], [])" by (simp add: ack_inv_def)
  from ack_loop_all [OF assms le0 this] obtain st where
    "ack_loop n asz [0..<?k] (?xs, None, 0, [], []) = Some st" "ack_inv n asz ?xs ?k st" by blast
  then obtain ps ss sh acked freed where l: "ack_loop n asz [0..<?k] (?xs, None, 0, [], []) = Some (ps, ss, sh, acked, freed)"
    and inv: "ack_inv n asz ?xs ?k (ps, ss, sh, acked, freed)" by (cases st) auto
  from inv have r: "length ps = length ?xs" "acked = (if asz = None then [] else map sb_seq_num (filter ?P (sb_list sb)))"
    "freed = map sb_buf (filter ?P (sb_list sb))"
    by (auto simp: ack_inv_def sb_list_def)
  show ?thesis
  proof (cases ss)
    case None
    then have n: "ps = ?xs" "\<forall>j < ?k. ?N (?xs ! j)" using inv by (simp_all add: ack_inv_def)
    then have "filter ?N (sb_list sb) = sb_list sb"
      using assms(1) by (auto simp: sb_list_def filter_id_conv in_set_conv_nth)
    then show ?thesis
      using l None n(1) r(2,3) assms(1) by (simp add: chiaki_takion_send_buffer_ack_def sb_list_def)
  next
    case (Some s)
    then have i: "s + sh \<le> ?k" "take s ps = filter ?N (take (s + sh) ?xs)" "length (filter ?P (take (s + sh) ?xs)) = sh"
      "drop (s + sh) ps = drop (s + sh) ?xs" "\<forall>j. s + sh \<le> j \<and> j < ?k \<longrightarrow> ?N (?xs ! j)"
      using inv by (simp_all add: ack_inv_def)
    have ext: "filter ?N (take ?k ?xs) = filter ?N (take (s + sh) ?xs) @ take (?k - (s + sh)) (drop (s + sh) ?xs)"
      using filter_take_extend(1) [OF i(1) assms(1), of ?N] i(5) by simp
    define ps' where "ps' = (if s + sh < ?k
      then take s ps @ take (?k - (s + sh)) (drop (s + sh) ps) @ drop (s + (?k - (s + sh))) ps else ps)"
    have mv: "(if s + sh < ?k then memmove_packets ps s (s + sh) (?k - (s + sh)) else Some ps) = Some ps'"
    proof (cases "s + sh < ?k")
      case True
      have "memmove_packets ps s (s + sh) (?k - (s + sh)) = Some (take s ps @ take (?k - (s + sh)) (drop (s + sh) ps) @ drop (s + (?k - (s + sh))) ps)"
        by (rule memmove_packets_defined) (use i(1) assms(1) r(1) in simp_all)
      with True show ?thesis by (simp add: ps'_def)
    qed (simp add: ps'_def)
    have lens: "length (take s ps) = s" "length (take (?k - (s + sh)) (drop (s + sh) ps)) = ?k - (s + sh)"
      using i(1) assms(1) r(1) by simp_all
    have "take (?k - sh) ps' = filter ?N (take ?k ?xs)"
    proof (cases "s + sh < ?k")
      case True
      have "?k - sh = s + (?k - (s + sh))" using i(1) by simp
      then have "take (?k - sh) ps' = take s ps @ take (?k - (s + sh)) (drop (s + sh) ps)"
        using True lens by (simp add: ps'_def add.commute [of sh s])
      then show ?thesis using i(2,4) ext by simp
    next
      case False
      then have "s + sh = ?k" "?k - sh = s" using i(1) by simp_all
      then show ?thesis using False i(2) by (simp add: ps'_def)
    qed
    moreover have "s + (?k - (s + sh)) \<le> length ps" using i(1) assms(1) r(1) by linarith
    then have "length ps' = length ?xs" using lens r(1) unfolding ps'_def length_append length_drop by (cases "s + sh < ?k") simp_all
    moreover have "?k - sh \<le> packets_size sb" using assms(1) by linarith
    ultimately show ?thesis
      using l Some mv r(2,3) by (simp add: chiaki_takion_send_buffer_ack_def sb_list_def)
  qed
qed

section \<open>Properties\<close>

text \<open>
  C29. Acknowledgement is a filter. The in-place loop with its moves of gaps removes exactly the packets
  whose number is the acknowledged one or before it, keeps the others in their order,
  reports the removed numbers in order, frees exactly their buffers, and never moves memory outside the array; provided
  the array for the reported numbers, if there is one, has room for \<open>packets_size\<close> of them.
\<close>

theorem send_buffer_ack_filters:
  assumes "sb_inv sb" "\<forall>m. asz = Some m \<longrightarrow> packets_size sb \<le> m"
  shows "\<exists>sb'. chiaki_takion_send_buffer_ack CHIAKI_ERR_SUCCESS n asz sb =
       Some (CHIAKI_ERR_SUCCESS, sb', if asz = None then [] else map sb_seq_num (filter (sb_acked n) (sb_list sb)),
         map sb_buf (filter (sb_acked n) (sb_list sb))) \<and>
     sb_list sb' = filter (\<lambda>p. \<not> sb_acked n p) (sb_list sb) \<and> sb_inv sb'"
proof -
  have "packets_count sb \<le> packets_size sb" using assms(1) by (simp add: sb_inv_def)
  from send_buffer_ack_defined [OF this assms(2), of n] assms(1) show ?thesis
    unfolding sb_inv_def by (metis distinct_map_filter)
qed

text \<open>The operations that the other components call, as a run.\<close>

datatype sb_op =
    SB_Push u64 u32 bytes
  | SB_Ack u32
  | SB_Resend u64

text \<open>One operation: the buffers it was given, the buffers it freed, and the state.\<close>

fun sb_step :: "sb_op \<Rightarrow> send_buffer \<Rightarrow> (bytes list \<times> bytes list \<times> send_buffer) option" where
  "sb_step (SB_Push now n buf) sb =
     (case chiaki_takion_send_buffer_push CHIAKI_ERR_SUCCESS now n buf sb of (_, sb', freed, _) \<Rightarrow> Some ([buf], freed, sb'))"
| "sb_step (SB_Ack n) sb =
     map_option (\<lambda>(_, sb', _, freed). ([], freed, sb')) (chiaki_takion_send_buffer_ack CHIAKI_ERR_SUCCESS n None sb)"
| "sb_step (SB_Resend now) sb = Some ([], [], fst (takion_send_buffer_resend True now sb))"

fun sb_run :: "sb_op list \<Rightarrow> send_buffer \<Rightarrow> (bytes list \<times> bytes list \<times> send_buffer) option" where
  "sb_run [] sb = Some ([], [], sb)"
| "sb_run (op # ops) sb = do {
     (given, freed, sb) \<leftarrow> sb_step op sb;
     (given', freed', sb) \<leftarrow> sb_run ops sb;
     Some (given @ given', freed @ freed', sb) }"

lemma push_list:
  assumes "sb_inv sb" "chiaki_takion_send_buffer_push CHIAKI_ERR_SUCCESS now n buf sb = (err, sb', freed, wake)"
  shows "sb_inv sb' \<and> packets_size sb' = packets_size sb \<and>
     (if err = CHIAKI_ERR_SUCCESS then sb_list sb' = sb_list sb @ [\<lparr>sb_seq_num = n, tries = 0, last_send_ms = now, sb_buf = buf\<rparr>] \<and> freed = []
      else sb' = sb \<and> freed = [buf])"
proof (cases "packets_count sb < packets_size sb \<and> \<not> list_ex (\<lambda>p. sb_seq_num p = n) (sb_list sb)")
  case True
  then have "sb_list (sb\<lparr>sb_packets := (sb_packets sb)[packets_count sb := p], packets_count := packets_count sb + 1\<rparr>) = sb_list sb @ [p]" for p
    by (simp add: sb_list_def take_Suc_conv_app_nth take_update_cancel)
  moreover have "Suc (packets_count sb) \<le> packets_size sb" using True by simp
  moreover have "sb' = sb\<lparr>sb_packets := (sb_packets sb)[packets_count sb := \<lparr>sb_seq_num = n, tries = 0, last_send_ms = now, sb_buf = buf\<rparr>],
      packets_count := packets_count sb + 1\<rparr>" "err = CHIAKI_ERR_SUCCESS" "freed = []"
    using True assms(2) by (auto simp: chiaki_takion_send_buffer_push_def sb_list_def [symmetric] Let_def)
  ultimately show ?thesis
    using True assms(1) by (simp add: sb_inv_def list_ex_iff image_iff) metis
next
  case False
  with assms show ?thesis
    by (auto simp: chiaki_takion_send_buffer_push_def sb_list_def [symmetric] Let_def split: if_splits)
qed

lemma resend_list:
  assumes "sb_inv sb"
  shows "sb_list (fst (takion_send_buffer_resend True now sb)) = map (\<lambda>p. fst (resend_packet now p)) (sb_list sb)"
    and "sb_inv (fst (takion_send_buffer_resend True now sb))"
    and "map sb_buf (map (\<lambda>p. fst (resend_packet now p)) (sb_list sb)) = map sb_buf (sb_list sb)"
proof -
  have k: "packets_count sb \<le> packets_size sb" using assms by (simp add: sb_inv_def)
  then show l: "sb_list (fst (takion_send_buffer_resend True now sb)) = map (\<lambda>p. fst (resend_packet now p)) (sb_list sb)"
    by (simp add: takion_send_buffer_resend_def sb_list_def Let_def)
  have "sb_seq_num (fst (resend_packet now p)) = sb_seq_num p" for p by (simp add: resend_packet_def)
  then show "sb_inv (fst (takion_send_buffer_resend True now sb))"
    using assms k unfolding sb_inv_def l by (simp add: takion_send_buffer_resend_def Let_def comp_def)
  show "map sb_buf (map (\<lambda>p. fst (resend_packet now p)) (sb_list sb)) = map sb_buf (sb_list sb)"
    by (simp add: resend_packet_def)
qed

lemma sb_step_owner:
  assumes "sb_inv sb"
  shows "\<exists>given freed sb'. sb_step op sb = Some (given, freed, sb') \<and> sb_inv sb' \<and>
     mset (map sb_buf (sb_list sb)) + mset given = mset (map sb_buf (sb_list sb')) + mset freed"
proof (cases op)
  case (SB_Push now n buf)
  obtain err sb' freed wake where p: "chiaki_takion_send_buffer_push CHIAKI_ERR_SUCCESS now n buf sb = (err, sb', freed, wake)"
    by (metis prod_cases4)
  from push_list [OF assms p] show ?thesis by (auto simp: SB_Push p split: if_splits)
next
  case (SB_Ack n)
  have "packets_count sb \<le> packets_size sb" using assms by (simp add: sb_inv_def)
  from send_buffer_ack_defined [OF this, of None n] obtain sb' where
    a: "chiaki_takion_send_buffer_ack CHIAKI_ERR_SUCCESS n None sb = Some (CHIAKI_ERR_SUCCESS, sb', [],
        map sb_buf (filter (sb_acked n) (sb_list sb)))" "sb_list sb' = filter (\<lambda>p. \<not> sb_acked n p) (sb_list sb)"
      "packets_count sb' \<le> packets_size sb'" by auto
  have "sb_inv sb'" using a(2,3) assms by (simp add: sb_inv_def distinct_map_filter)
  moreover have "mset (map sb_buf (sb_list sb)) = mset (map sb_buf (sb_list sb')) + mset (map sb_buf (filter (sb_acked n) (sb_list sb)))"
    unfolding a(2) mset_map mset_filter by (simp add: add.commute flip: image_mset_union multiset_partition)
  ultimately show ?thesis using a(1) by (simp add: SB_Ack)
next
  case (SB_Resend now)
  have "mset (map sb_buf (sb_list (fst (takion_send_buffer_resend True now sb)))) = mset (map sb_buf (sb_list sb))"
    unfolding resend_list(1) [OF assms] resend_list(3) [OF assms] by (rule refl)
  with resend_list(2) [OF assms] show ?thesis by (simp add: SB_Resend del: mset_map)
qed

text \<open>
  C28. Ownership of the buffers. Over any run of pushes, acknowledgements and resends from a fresh buffer, followed by
  \<open>fini\<close>, every buffer that was pushed is freed exactly once: by the push that failed, by the
  acknowledgement, or by \<open>fini\<close>. No operation leaves the array, and no number is in the buffer twice.
\<close>

theorem send_buffer_ownership:
  assumes "chiaki_takion_send_buffer_init n True CHIAKI_ERR_SUCCESS CHIAKI_ERR_SUCCESS CHIAKI_ERR_SUCCESS = (CHIAKI_ERR_SUCCESS, Some sb)"
  shows "\<exists>given freed sb' rest. sb_run ops sb = Some (given, freed, sb') \<and> sb_inv sb' \<and>
     chiaki_takion_send_buffer_fini CHIAKI_ERR_SUCCESS CHIAKI_ERR_SUCCESS CHIAKI_ERR_SUCCESS sb' = Some rest \<and>
     mset given = mset freed + mset rest"
proof -
  have run: "sb_inv s \<Longrightarrow> \<exists>given freed s'. sb_run ops s = Some (given, freed, s') \<and> sb_inv s' \<and>
     mset (map sb_buf (sb_list s)) + mset given = mset (map sb_buf (sb_list s')) + mset freed" for s
  proof (induction ops arbitrary: s)
    case (Cons op ops)
    from sb_step_owner [OF Cons.prems, of op] obtain g f s1 where 1: "sb_step op s = Some (g, f, s1)" "sb_inv s1"
      "mset (map sb_buf (sb_list s)) + mset g = mset (map sb_buf (sb_list s1)) + mset f" by blast
    from Cons.IH [OF 1(2)] obtain g' f' s2 where 2: "sb_run ops s1 = Some (g', f', s2)" "sb_inv s2"
      "mset (map sb_buf (sb_list s1)) + mset g' = mset (map sb_buf (sb_list s2)) + mset f'" by blast
    have "mset (map sb_buf (sb_list s)) + mset (g @ g') = mset (map sb_buf (sb_list s2)) + mset (f @ f')"
      using 1(3) 2(3) by (metis (no_types, lifting) mset_append union_assoc union_commute)
    with 1 2 show ?case by auto
  qed simp
  have sb: "sb = \<lparr>sb_packets = replicate n zero_packet, packets_count = 0, should_stop = False\<rparr>"
    using assms by (simp add: chiaki_takion_send_buffer_init_def)
  then have "sb_inv sb" "sb_list sb = []" by (simp_all add: sb_inv_def sb_list_def)
  with run [of sb] obtain given freed sb' where r: "sb_run ops sb = Some (given, freed, sb')" "sb_inv sb'"
    "mset given = mset (map sb_buf (sb_list sb')) + mset freed" by auto
  then have "chiaki_takion_send_buffer_fini CHIAKI_ERR_SUCCESS CHIAKI_ERR_SUCCESS CHIAKI_ERR_SUCCESS sb' = Some (map sb_buf (sb_list sb'))"
    by (simp add: chiaki_takion_send_buffer_fini_def sb_inv_def sb_list_def)
  with r show ?thesis by (metis add.commute)
qed

text \<open>
  Resending. A turn of the thread at the time \<open>now\<close> sends exactly the packets whose last transmission is more than
  200 ms ago, counts the try and leaves the others alone; afterwards no packet that is still
  in the buffer was last sent more than 200 ms ago. Nothing bounds the number of tries.
\<close>

theorem send_buffer_resend:
  assumes "sb_inv sb" "err \<in> {CHIAKI_ERR_SUCCESS, CHIAKI_ERR_TIMEOUT}" "\<not> should_stop sb"
  shows "\<exists>sb'. takion_send_buffer_iteration True err now sb = Some (sb',
       map sb_buf (filter (\<lambda>p. now - last_send_ms p > TAKION_DATA_RESEND_TIMEOUT_MS) (sb_list sb))) \<and>
     sb_inv sb' \<and> (\<forall>p \<in> set (sb_list sb'). now - last_send_ms p \<le> TAKION_DATA_RESEND_TIMEOUT_MS) \<and>
     list_all2 (\<lambda>p p'. if now - last_send_ms p > TAKION_DATA_RESEND_TIMEOUT_MS
        then p' = p\<lparr>last_send_ms := now, tries := tries p + 1\<rparr> else p' = p) (sb_list sb) (sb_list sb')"
proof -
  let ?sb' = "fst (takion_send_buffer_resend True now sb)"
  have l: "sb_list ?sb' = map (\<lambda>p. fst (resend_packet now p)) (sb_list sb)" "sb_inv ?sb'"
    using resend_list [OF assms(1)] by simp_all
  have "concat (map (\<lambda>p. snd (resend_packet now p)) ps)
      = map sb_buf (filter (\<lambda>p. now - last_send_ms p > TAKION_DATA_RESEND_TIMEOUT_MS) ps)" for ps
    by (induction ps) (simp_all add: resend_packet_def)
  then have s: "snd (takion_send_buffer_resend True now sb) =
      map sb_buf (filter (\<lambda>p. now - last_send_ms p > TAKION_DATA_RESEND_TIMEOUT_MS) (sb_list sb))"
    by (simp add: takion_send_buffer_resend_def sb_list_def Let_def)
  have "takion_send_buffer_iteration True err now sb = Some (?sb', snd (takion_send_buffer_resend True now sb))"
    using assms(2,3) by (auto simp: takion_send_buffer_iteration_def)
  moreover have "\<forall>p \<in> set (sb_list ?sb'). now - last_send_ms p \<le> TAKION_DATA_RESEND_TIMEOUT_MS"
    unfolding l by (auto simp: resend_packet_def)
  moreover have "list_all2 (\<lambda>p p'. if now - last_send_ms p > TAKION_DATA_RESEND_TIMEOUT_MS
        then p' = p\<lparr>last_send_ms := now, tries := tries p + 1\<rparr> else p' = p) (sb_list sb) (sb_list ?sb')"
    unfolding l by (simp add: list_all2_conv_all_nth resend_packet_def)
  ultimately show ?thesis using l(2) unfolding s [symmetric] by blast
qed

text \<open>Numbers around the wrap, acknowledged out of order.\<close>

definition example_sb :: send_buffer where
  "example_sb = \<lparr>sb_packets = map (\<lambda>(n, t). \<lparr>sb_seq_num = n, tries = 0, last_send_ms = t, sb_buf = [ucast n]\<rparr>)
     [(0xfffffffe, 0), (1, 100), (0xffffffff, 400), (2, 450), (0, 500)] @ [zero_packet], packets_count = 5, should_stop = False\<rparr>"

lemma example_sb_inv: "sb_inv example_sb"
  by (simp add: example_sb_def sb_inv_def sb_list_def)

lemma send_buffer_ack_filters_witness:
  "\<exists>sb'. chiaki_takion_send_buffer_ack CHIAKI_ERR_SUCCESS 0 (Some 6) example_sb =
     Some (CHIAKI_ERR_SUCCESS, sb', [0xfffffffe, 0xffffffff, 0], [[0xfe], [0xff], [0]]) \<and> map sb_seq_num (sb_list sb') = [1, 2]"
proof -
  have f: "filter (sb_acked 0) (sb_list example_sb) = [sb_packets example_sb ! 0, sb_packets example_sb ! 2, sb_packets example_sb ! 4]"
    "filter (\<lambda>p. \<not> sb_acked 0 p) (sb_list example_sb) = [sb_packets example_sb ! 1, sb_packets example_sb ! 3]"
    by (simp_all add: example_sb_def sb_list_def sb_acked_def chiaki_seq_num_32_lt_def chiaki_seq_num_lt_def)
  from send_buffer_ack_filters [OF example_sb_inv, of "Some 6" 0] obtain sb' where
    r: "chiaki_takion_send_buffer_ack CHIAKI_ERR_SUCCESS 0 (Some 6) example_sb =
       Some (CHIAKI_ERR_SUCCESS, sb', map sb_seq_num (filter (sb_acked 0) (sb_list example_sb)),
         map sb_buf (filter (sb_acked 0) (sb_list example_sb)))" "sb_list sb' = filter (\<lambda>p. \<not> sb_acked 0 p) (sb_list example_sb)"
    by (auto simp: example_sb_def)
  have "map sb_seq_num [sb_packets example_sb ! 0, sb_packets example_sb ! 2, sb_packets example_sb ! 4] = [0xfffffffe, 0xffffffff, 0]"
    "map sb_buf [sb_packets example_sb ! 0, sb_packets example_sb ! 2, sb_packets example_sb ! 4] = [[0xfe], [0xff], [0]]"
    "map sb_seq_num [sb_packets example_sb ! 1, sb_packets example_sb ! 3] = [1, 2]"
    by (simp_all add: example_sb_def)
  with r f show ?thesis by metis
qed

lemma send_buffer_ownership_witness:
  "\<exists>sb given freed sb' rest. chiaki_takion_send_buffer_init 2 True CHIAKI_ERR_SUCCESS CHIAKI_ERR_SUCCESS CHIAKI_ERR_SUCCESS = (CHIAKI_ERR_SUCCESS, Some sb) \<and>
     sb_run [SB_Push 0 5 [1], SB_Push 0 5 [2], SB_Push 0 7 [3], SB_Ack 5] sb = Some (given, freed, sb') \<and>
     chiaki_takion_send_buffer_fini CHIAKI_ERR_SUCCESS CHIAKI_ERR_SUCCESS CHIAKI_ERR_SUCCESS sb' = Some rest \<and>
     mset given = mset freed + mset rest"
proof -
  let ?sb = "\<lparr>sb_packets = replicate 2 zero_packet, packets_count = 0, should_stop = False\<rparr>"
  have i: "chiaki_takion_send_buffer_init 2 True CHIAKI_ERR_SUCCESS CHIAKI_ERR_SUCCESS CHIAKI_ERR_SUCCESS = (CHIAKI_ERR_SUCCESS, Some ?sb)"
    by (simp add: chiaki_takion_send_buffer_init_def)
  from send_buffer_ownership [OF i, of "[SB_Push 0 5 [1], SB_Push 0 5 [2], SB_Push 0 7 [3], SB_Ack 5]"] i show ?thesis by blast
qed

lemma send_buffer_resend_witness:
  "\<exists>sb'. takion_send_buffer_iteration True CHIAKI_ERR_TIMEOUT 500 example_sb = Some (sb', [[0xfe], [1]])"
proof -
  have f: "map sb_buf (filter (\<lambda>p. 500 - last_send_ms p > TAKION_DATA_RESEND_TIMEOUT_MS) (sb_list example_sb)) = [[0xfe], [1]]"
    by (simp add: example_sb_def sb_list_def)
  have "\<not> should_stop example_sb" by (simp add: example_sb_def)
  from send_buffer_resend [OF example_sb_inv _ this, of CHIAKI_ERR_TIMEOUT 500] f show ?thesis by auto
qed

end
