(* ===== verification/Takion_Packet.thy ===== *)
theory Takion_Packet
  imports Takion_Types GKCrypt
begin

text \<open>
  The packet formats of \<open>lib/src/takion.c\<close>: authentication codes, message headers, the data of
  the handshake, AV packets in the versions 7, 9 and 12, and congestion packets. A buffer that is passed with its size
  is the list of its bytes; an access outside of it is \<open>None\<close>.
\<close>

abbreviation "TAKION_PACKET_TYPE_CONTROL \<equiv> 0 :: u8"
abbreviation "TAKION_PACKET_TYPE_FEEDBACK_HISTORY \<equiv> 1 :: u8"
abbreviation "TAKION_PACKET_TYPE_VIDEO \<equiv> 2 :: u8"
abbreviation "TAKION_PACKET_TYPE_AUDIO \<equiv> 3 :: u8"
abbreviation "TAKION_PACKET_TYPE_CONGESTION \<equiv> 5 :: u8"
abbreviation "TAKION_PACKET_TYPE_FEEDBACK_STATE \<equiv> 6 :: u8"

abbreviation "TAKION_CHUNK_TYPE_DATA \<equiv> 0 :: u8"
abbreviation "TAKION_CHUNK_TYPE_INIT \<equiv> 1 :: u8"
abbreviation "TAKION_CHUNK_TYPE_INIT_ACK \<equiv> 2 :: u8"
abbreviation "TAKION_CHUNK_TYPE_DATA_ACK \<equiv> 3 :: u8"
abbreviation "TAKION_CHUNK_TYPE_COOKIE \<equiv> 0xa :: u8"
abbreviation "TAKION_CHUNK_TYPE_COOKIE_ACK \<equiv> 0xb :: u8"

abbreviation "TAKION_MESSAGE_HEADER_SIZE \<equiv> 0x10 :: nat"
abbreviation "TAKION_COOKIE_SIZE \<equiv> 0x20 :: nat"
abbreviation "CHIAKI_TAKION_CONGESTION_PACKET_SIZE \<equiv> 0xf :: nat"

definition takion_base_type :: "u8 \<Rightarrow> u8" where
  "takion_base_type b = b AND 0xf"

definition takion_packet_type_mac_offset :: "u8 \<Rightarrow> nat option" where
  "takion_packet_type_mac_offset t =
     (if t = TAKION_PACKET_TYPE_CONTROL then Some 5
      else if t = TAKION_PACKET_TYPE_VIDEO \<or> t = TAKION_PACKET_TYPE_AUDIO then Some 0xa
      else if t = TAKION_PACKET_TYPE_CONGESTION then Some 7
      else None)"

definition takion_packet_type_key_pos_offset :: "u8 \<Rightarrow> nat option" where
  "takion_packet_type_key_pos_offset t =
     (if t = TAKION_PACKET_TYPE_CONTROL then Some 0x9
      else if t = TAKION_PACKET_TYPE_VIDEO \<or> t = TAKION_PACKET_TYPE_AUDIO then Some 0xe
      else if t = TAKION_PACKET_TYPE_CONGESTION then Some 0xb
      else None)"

section \<open>Authentication\<close>

text \<open>The error code and \<open>*key_pos_out\<close>.\<close>

definition chiaki_takion_packet_read_key_pos :: "key_state \<Rightarrow> bytes \<Rightarrow> (ChiakiErrorCode \<times> u64) option" where
  "chiaki_takion_packet_read_key_pos ks buf =
     (if length buf < 1 then Some (CHIAKI_ERR_BUF_TOO_SMALL, 0)
      else case takion_packet_type_key_pos_offset (takion_base_type (buf ! 0)) of
        None \<Rightarrow> Some (CHIAKI_ERR_INVALID_DATA, 0)
      | Some off \<Rightarrow>
          if length buf < off + 4 then Some (CHIAKI_ERR_BUF_TOO_SMALL, 0)
          else do {
            key_pos_low \<leftarrow> load32be buf off;
            Some (CHIAKI_ERR_SUCCESS, fst (chiaki_key_state_request_pos ks key_pos_low False)) })"

text \<open>
  \<open>chiaki_takion_packet_mac\<close>: the error code, the buffer, \<open>*mac_out\<close>, \<open>*mac_old_out\<close> and the cipher state (the key of the
  authentication moves on). The result of \<open>chiaki_gkcrypt_gmac\<close> is not looked at: on failure the code in the buffer stays zero.
\<close>

definition chiaki_takion_packet_mac ::
  "crypto \<Rightarrow> gkcrypt option \<Rightarrow> bytes \<Rightarrow> nat \<Rightarrow>
   (ChiakiErrorCode \<times> bytes \<times> bytes \<times> bytes \<times> gkcrypt option) option" where
  "chiaki_takion_packet_mac cr crypt buf key_pos =
     (if length buf < 1 then Some (CHIAKI_ERR_BUF_TOO_SMALL, buf, [], [], crypt)
      else let base_type = takion_base_type (buf ! 0) in
        case (takion_packet_type_mac_offset base_type, takion_packet_type_key_pos_offset base_type) of
          (Some mac_offset, Some key_pos_offset) \<Rightarrow>
            if length buf < mac_offset + CHIAKI_GKCRYPT_GMAC_SIZE \<or> length buf < key_pos_offset + 4
            then Some (CHIAKI_ERR_BUF_TOO_SMALL, buf, [], [], crypt)
            else do {
              mac_old \<leftarrow> load_bytes buf mac_offset CHIAKI_GKCRYPT_GMAC_SIZE;
              buf \<leftarrow> store_bytes buf mac_offset [0, 0, 0, 0];
              (buf, crypt) \<leftarrow> (case crypt of
                  None \<Rightarrow> Some (buf, None)
                | Some gk \<Rightarrow> do {
                    let clear = (base_type = TAKION_PACKET_TYPE_CONTROL \<or> base_type = TAKION_PACKET_TYPE_CONGESTION);
                    key_pos_tmp \<leftarrow> load_bytes buf key_pos_offset 4;
                    buf \<leftarrow> (if clear then store_bytes buf key_pos_offset [0, 0, 0, 0] else Some buf);
                    (err, tag, gk) \<leftarrow> chiaki_gkcrypt_gmac cr gk key_pos buf;
                    buf \<leftarrow> (case tag of None \<Rightarrow> Some buf | Some mac \<Rightarrow> store_bytes buf mac_offset mac);
                    buf \<leftarrow> (if clear then store_bytes buf key_pos_offset key_pos_tmp else Some buf);
                    Some (buf, Some gk) });
              mac \<leftarrow> load_bytes buf mac_offset CHIAKI_GKCRYPT_GMAC_SIZE;
              Some (CHIAKI_ERR_SUCCESS, buf, mac, mac_old, crypt) }
        | _ \<Rightarrow> Some (CHIAKI_ERR_INVALID_DATA, buf, [], [], crypt))"

section \<open>Messages\<close>

record takion_message =
  msg_tag :: u32
  msg_key_pos :: u64
  msg_chunk_type :: u8
  msg_chunk_flags :: u8
  msg_payload_size :: nat
  msg_payload :: "bytes option"

text \<open>The sixteen bytes of a message header.\<close>

definition takion_write_message_header :: "u32 \<Rightarrow> u64 \<Rightarrow> u8 \<Rightarrow> u8 \<Rightarrow> nat \<Rightarrow> bytes" where
  "takion_write_message_header tag key_pos chunk_type chunk_flags payload_data_size =
     htonl_bytes tag @ [0, 0, 0, 0] @ htonl_bytes (ucast key_pos) @ [chunk_type, chunk_flags] @
     htons_bytes (of_nat (payload_data_size + 4))"

text \<open>
  \<open>takion_parse_message\<close>: the error code, the message if there is one, and the state of the key
  position, which is committed before the checks. The payload is the rest of the buffer, \<open>None\<close> the null pointer.
\<close>

definition takion_parse_message ::
  "u32 \<Rightarrow> key_state \<Rightarrow> bytes \<Rightarrow> (ChiakiErrorCode \<times> takion_message option \<times> key_state) option" where
  "takion_parse_message tag_local ks buf =
     (if length buf < TAKION_MESSAGE_HEADER_SIZE then Some (CHIAKI_ERR_INVALID_DATA, None, ks)
      else do {
        tag \<leftarrow> load32be buf 0;
        key_pos_low \<leftarrow> load32be buf 0x8;
        let (key_pos, ks) = chiaki_key_state_request_pos ks key_pos_low True;
        chunk_type \<leftarrow> load8 buf 0xc;
        chunk_flags \<leftarrow> load8 buf 0xd;
        payload_size \<leftarrow> load16be buf 0xe;
        if tag \<noteq> tag_local then Some (CHIAKI_ERR_INVALID_DATA, None, ks)
        else if length buf \<noteq> unat payload_size + 0xc then Some (CHIAKI_ERR_INVALID_DATA, None, ks)
        else let size = unat (payload_size - 4) in
          Some (CHIAKI_ERR_SUCCESS,
            Some \<lparr>msg_tag = tag, msg_key_pos = key_pos, msg_chunk_type = chunk_type, msg_chunk_flags = chunk_flags,
              msg_payload_size = size, msg_payload = (if size > 0 then Some (drop 0x10 buf) else None)\<rparr>, ks) })"

record takion_payload_init =
  init_tag :: u32
  init_a_rwnd :: u32
  init_outbound_streams :: u16
  init_inbound_streams :: u16
  init_initial_seq_num :: u32

record takion_payload_init_ack = takion_payload_init +
  init_cookie :: bytes

definition takion_init_payload_bytes :: "takion_payload_init \<Rightarrow> bytes" where
  "takion_init_payload_bytes p =
     htonl_bytes (init_tag p) @ htonl_bytes (init_a_rwnd p) @ htons_bytes (init_outbound_streams p) @
     htons_bytes (init_inbound_streams p) @ htonl_bytes (init_initial_seq_num p)"

definition takion_parse_init_ack_payload :: "bytes \<Rightarrow> takion_payload_init_ack option" where
  "takion_parse_init_ack_payload pl = do {
     tag \<leftarrow> load32be pl 0;
     a_rwnd \<leftarrow> load32be pl 4;
     outbound \<leftarrow> load16be pl 8;
     inbound \<leftarrow> load16be pl 0xa;
     seq \<leftarrow> load32be pl 0xc;
     cookie \<leftarrow> load_bytes pl 0x10 TAKION_COOKIE_SIZE;
     Some \<lparr>init_tag = tag, init_a_rwnd = a_rwnd, init_outbound_streams = outbound,
        init_inbound_streams = inbound, init_initial_seq_num = seq, init_cookie = cookie\<rparr> }"

text \<open>The messages that are sent, from the first byte of the datagram on.\<close>

definition takion_data_message :: "u32 \<Rightarrow> u64 \<Rightarrow> u8 \<Rightarrow> u32 \<Rightarrow> u16 \<Rightarrow> bytes \<Rightarrow> bytes" where
  "takion_data_message tag key_pos chunk_flags seq_num channel buf =
     TAKION_PACKET_TYPE_CONTROL # takion_write_message_header tag key_pos TAKION_CHUNK_TYPE_DATA chunk_flags (9 + length buf) @
     htonl_bytes seq_num @ htons_bytes channel @ [0, 0] @ [0] @ buf"

definition takion_data_ack_message :: "u32 \<Rightarrow> u64 \<Rightarrow> u32 \<Rightarrow> u32 \<Rightarrow> bytes" where
  "takion_data_ack_message tag key_pos seq_num a_rwnd =
     TAKION_PACKET_TYPE_CONTROL # takion_write_message_header tag key_pos TAKION_CHUNK_TYPE_DATA_ACK 0 0xc @
     htonl_bytes seq_num @ htonl_bytes a_rwnd @ [0, 0] @ [0, 0]"

definition takion_init_message :: "u32 \<Rightarrow> takion_payload_init \<Rightarrow> bytes" where
  "takion_init_message tag payload =
     TAKION_PACKET_TYPE_CONTROL # takion_write_message_header tag 0 TAKION_CHUNK_TYPE_INIT 0 0x10 @ takion_init_payload_bytes payload"

definition takion_cookie_message :: "u32 \<Rightarrow> bytes \<Rightarrow> bytes" where
  "takion_cookie_message tag cookie =
     TAKION_PACKET_TYPE_CONTROL # takion_write_message_header tag 0 TAKION_CHUNK_TYPE_COOKIE 0 TAKION_COOKIE_SIZE @
     take TAKION_COOKIE_SIZE cookie"

definition chiaki_takion_format_congestion :: "bytes \<Rightarrow> congestion_packet \<Rightarrow> u64 \<Rightarrow> bytes option" where
  "chiaki_takion_format_congestion buf packet key_pos = store_bytes buf 0
     ([TAKION_PACKET_TYPE_CONGESTION] @ htons_bytes (word_0 packet) @ htons_bytes (cp_received packet) @
      htons_bytes (cp_lost packet) @ [0, 0, 0, 0] @ htonl_bytes (ucast key_pos))"

section \<open>AV packets\<close>

definition av_packet_zero :: av_packet where
  "av_packet_zero =
     \<lparr>packet_index = 0, frame_index = 0, uses_nalu_info_structs = False, is_video = False, is_haptics = False,
      unit_index = 0, units_in_frame_total = 0, units_in_frame_fec = 0, av_codec = 0, word_at_0x18 = 0,
      adaptive_stream_index = 0, byte_at_0x2c = 0, av_key_pos = 0, av_data = [], av_data_size = 0\<rparr>"

text \<open>The units of a frame as the 32 bits that carry them, for video and for audio.\<close>

definition av_units_video :: "u32 \<Rightarrow> av_packet \<Rightarrow> av_packet" where
  "av_units_video dword_2 packet =
     packet\<lparr>unit_index := ucast (drop_bit 0x15 dword_2 AND 0x7ff),
            units_in_frame_total := ucast ((drop_bit 0xa dword_2 AND 0x7ff) + 1),
            units_in_frame_fec := ucast (dword_2 AND 0x3ff)\<rparr>"

definition av_units_audio :: "u32 \<Rightarrow> av_packet \<Rightarrow> av_packet" where
  "av_units_audio dword_2 packet =
     packet\<lparr>unit_index := ucast (drop_bit 0x18 dword_2 AND 0xff),
            units_in_frame_total := ucast ((drop_bit 0x10 dword_2 AND 0xff) + 1),
            units_in_frame_fec := ucast (dword_2 AND 0xffff)\<rparr>"

definition av_header_size :: "bool \<Rightarrow> bool \<Rightarrow> nat" where
  "av_header_size v12 video = (if video then 0x17 else if v12 then 0x13 else 0x12)"

text \<open>
  \<open>av_packet_parse\<close> of the versions 9 and 12: the error code, the packet and the state of the key position.
  \<open>av\<close> is the offset in the buffer of the pointer of that name, \<open>av_size\<close> wraps as a \<open>size_t\<close>.
\<close>

definition av_packet_parse ::
  "bool \<Rightarrow> key_state \<Rightarrow> bytes \<Rightarrow> (ChiakiErrorCode \<times> av_packet \<times> key_state) option" where
  "av_packet_parse v12 ks buf =
     (if length buf < 1 then Some (CHIAKI_ERR_BUF_TOO_SMALL, av_packet_zero, ks)
      else let base_type = takion_base_type (buf ! 0) in
        if base_type \<noteq> TAKION_PACKET_TYPE_VIDEO \<and> base_type \<noteq> TAKION_PACKET_TYPE_AUDIO
        then Some (CHIAKI_ERR_INVALID_DATA, av_packet_zero, ks)
        else
          let video = (base_type = TAKION_PACKET_TYPE_VIDEO);
              nalu = (drop_bit 4 (buf ! 0) AND 1 \<noteq> 0);
              packet = av_packet_zero\<lparr>is_video := video, uses_nalu_info_structs := nalu\<rparr>;
              av_size = length buf - 1
          in if av_size < av_header_size v12 video + 1 then Some (CHIAKI_ERR_BUF_TOO_SMALL, packet, ks)
             else do {
               packet_index \<leftarrow> load16be buf 1;
               frame_index \<leftarrow> load16be buf 3;
               dword_2 \<leftarrow> load32be buf 5;
               let packet = packet\<lparr>packet_index := packet_index, frame_index := frame_index\<rparr>;
               let packet = (if video then av_units_video dword_2 packet else av_units_audio dword_2 packet);
               codec \<leftarrow> load8 buf 9;
               key_pos_low \<leftarrow> load32be buf 0xe;
               let (key_pos, ks) = chiaki_key_state_request_pos ks key_pos_low True;
               let packet = packet\<lparr>av_codec := codec, av_key_pos := key_pos\<rparr>;
               unknown_1 \<leftarrow> load8 buf 0x12;
               let av = 0x12;
               let av_size = u64_sub av_size 0x11;
               (packet, av, av_size) \<leftarrow>
                 (if video then do {
                    w \<leftarrow> load16be buf av;
                    s \<leftarrow> load8 buf (av + 2);
                    b \<leftarrow> load8 buf (av + 3);
                    Some (packet\<lparr>word_at_0x18 := w, adaptive_stream_index := drop_bit 5 s, byte_at_0x2c := b\<rparr>,
                      av + 3, u64_sub av_size 3) }
                  else Some (packet, av + 1, u64_sub av_size 1));
               let (av, av_size) = (if nalu then (av + 3, u64_sub av_size 3) else (av, av_size));
               (packet, av, av_size) \<leftarrow>
                 (if v12 \<and> \<not> video then do {
                    h \<leftarrow> load8 buf av;
                    Some (packet\<lparr>is_haptics := (h = 0x02)\<rparr>, av + 1, u64_sub av_size 1) }
                  else Some (packet, av, av_size));
               Some (CHIAKI_ERR_SUCCESS, packet\<lparr>av_data := drop av buf, av_data_size := av_size\<rparr>, ks) })"

definition chiaki_takion_v9_av_packet_parse ::
  "key_state \<Rightarrow> bytes \<Rightarrow> (ChiakiErrorCode \<times> av_packet \<times> key_state) option" where
  "chiaki_takion_v9_av_packet_parse = av_packet_parse False"

definition chiaki_takion_v12_av_packet_parse ::
  "key_state \<Rightarrow> bytes \<Rightarrow> (ChiakiErrorCode \<times> av_packet \<times> key_state) option" where
  "chiaki_takion_v12_av_packet_parse = av_packet_parse True"

definition v7_header_size :: "bool \<Rightarrow> bool \<Rightarrow> nat" where
  "v7_header_size video nalu = 0x12 + (if video then 0x3 else 0) + (if nalu then 0x3 else 0)"

text \<open>
  The header of version 7. The unsigned word combines \<open>int\<close> operands; the shift of the unit index by 21 bits can
  overflow an \<open>int\<close>, which is \<open>None\<close>. The key position is stored in the byte order of the (little-endian) host.
\<close>

definition chiaki_takion_v7_av_packet_format_header ::
  "bytes \<Rightarrow> av_packet \<Rightarrow> (ChiakiErrorCode \<times> nat \<times> bytes) option" where
  "chiaki_takion_v7_av_packet_format_header buf packet =
     (let header_size = v7_header_size (is_video packet) (uses_nalu_info_structs packet)
      in if header_size > length buf then Some (CHIAKI_ERR_BUF_TOO_SMALL, header_size, buf)
         else if unat (unit_index packet) * 2 ^ 0x15 \<ge> 2 ^ 31 then None
         else
           let type = (if is_video packet then TAKION_PACKET_TYPE_VIDEO else TAKION_PACKET_TYPE_AUDIO) OR
                 (if uses_nalu_info_structs packet then 0x10 else 0);
               dword_2 = (ucast (units_in_frame_fec packet) AND 0x3ff) OR
                 push_bit 0xa ((ucast (units_in_frame_total packet) - 1) AND 0x7ff) OR
                 push_bit 0x15 (ucast (unit_index packet)) :: u32
           in map_option (\<lambda>buf. (CHIAKI_ERR_SUCCESS, header_size, buf))
                (store_bytes buf 0
                  ([type] @ htons_bytes (packet_index packet) @ htons_bytes (frame_index packet) @ htonl_bytes dword_2 @
                   [av_codec packet] @ [0, 0, 0, 0] @ host32_bytes (ucast (av_key_pos packet)) @
                   (if is_video packet then htons_bytes (word_at_0x18 packet) @ [push_bit 5 (adaptive_stream_index packet)] else []) @
                   (if uses_nalu_info_structs packet then [0, 0, 0] else []))))"

definition chiaki_takion_v7_av_packet_parse :: "bytes \<Rightarrow> (ChiakiErrorCode \<times> av_packet) option" where
  "chiaki_takion_v7_av_packet_parse buf =
     (if length buf < 1 then Some (CHIAKI_ERR_BUF_TOO_SMALL, av_packet_zero)
      else let base_type = takion_base_type (buf ! 0) in
        if base_type \<noteq> TAKION_PACKET_TYPE_VIDEO \<and> base_type \<noteq> TAKION_PACKET_TYPE_AUDIO
        then Some (CHIAKI_ERR_INVALID_DATA, av_packet_zero)
        else
          let video = (base_type = TAKION_PACKET_TYPE_VIDEO);
              nalu = (drop_bit 4 (buf ! 0) AND 1 \<noteq> 0);
              packet = av_packet_zero\<lparr>is_video := video, uses_nalu_info_structs := nalu\<rparr>
          in if length buf < v7_header_size video nalu then Some (CHIAKI_ERR_BUF_TOO_SMALL, packet)
             else do {
               packet_index \<leftarrow> load16be buf 1;
               frame_index \<leftarrow> load16be buf 3;
               dword_2 \<leftarrow> load32be buf 5;
               codec \<leftarrow> load8 buf 9;
               key_pos \<leftarrow> load32be buf 0xe;
               let packet = (av_units_video dword_2 packet)\<lparr>packet_index := packet_index, frame_index := frame_index,
                 av_codec := codec, av_key_pos := ucast key_pos\<rparr>;
               (packet, pos) \<leftarrow>
                 (if video then do {
                    w \<leftarrow> load16be buf 0x12;
                    s \<leftarrow> load8 buf 0x14;
                    Some (packet\<lparr>word_at_0x18 := w, adaptive_stream_index := drop_bit 5 s\<rparr>, 0x15) }
                  else Some (packet, 0x12));
               let pos = (if nalu then pos + 3 else pos);
               Some (CHIAKI_ERR_SUCCESS, packet\<lparr>av_data := drop pos buf, av_data_size := length buf - pos\<rparr>) })"


section \<open>Facts: authentication\<close>

text \<open>In every authenticated packet the key position follows the authentication code.\<close>

lemma packet_offsets:
  "takion_packet_type_mac_offset t = Some m \<Longrightarrow> takion_packet_type_key_pos_offset t = Some (m + 4) \<and> 0 < m"
  by (auto simp: takion_packet_type_mac_offset_def takion_packet_type_key_pos_offset_def split: if_splits)

lemma packet_offsets_None:
  "takion_packet_type_mac_offset t = None \<longleftrightarrow> takion_packet_type_key_pos_offset t = None"
  by (auto simp: takion_packet_type_mac_offset_def takion_packet_type_key_pos_offset_def)

lemma store_mid: "i = length pre \<Longrightarrow> length new = length old \<Longrightarrow> store_bytes (pre @ old @ post) i new = Some (pre @ new @ post)"
  by (simp add: store_bytes_def)

lemma load_mid: "i = length pre \<Longrightarrow> n = length mid \<Longrightarrow> load_bytes (pre @ mid @ post) i n = Some mid"
  by (simp add: load_bytes_def)

definition mac_cleared :: "u8 \<Rightarrow> bytes \<Rightarrow> bytes \<Rightarrow> bytes \<Rightarrow> bytes" where
  "mac_cleared t pre k post =
     pre @ [0, 0, 0, 0] @ (if t = TAKION_PACKET_TYPE_CONTROL \<or> t = TAKION_PACKET_TYPE_CONGESTION then [0, 0, 0, 0] else k) @ post"

definition gcm_ok :: "crypto \<Rightarrow> bool" where
  "gcm_ok cr \<longleftrightarrow> (\<forall>key iv aad tag. cr_gcm cr key iv aad = Some tag \<longrightarrow> 4 \<le> length tag)"

lemma gmac_tag_length:
  "gcm_ok cr \<Longrightarrow> chiaki_gkcrypt_gmac cr gk kp buf = Some (err, Some tag, gk') \<Longrightarrow> length tag = 4"
  by (auto simp: chiaki_gkcrypt_gmac_def Let_def gcm_ok_def split: Option.bind_splits option.splits if_splits)

lemma packet_mac_split:
  assumes t: "takion_packet_type_mac_offset (takion_base_type (pre ! 0)) = Some (length pre)"
    and len: "length m = 4" "length k = 4" and cr: "gcm_ok cr"
    and g: "chiaki_gkcrypt_gmac cr gk kp (mac_cleared (takion_base_type (pre ! 0)) pre k post) = Some (err, tag, gk')"
  shows "chiaki_takion_packet_mac cr (Some gk) (pre @ m @ k @ post) kp =
     (let mac = (case tag of None \<Rightarrow> [0, 0, 0, 0] | Some mac \<Rightarrow> mac)
      in Some (CHIAKI_ERR_SUCCESS, pre @ mac @ k @ post, mac, m, Some gk'))"
proof -
  let ?z = "[0, 0, 0, 0] :: bytes"
  define b where "b = takion_base_type (pre ! 0)"
  define clear where "clear \<longleftrightarrow> b = TAKION_PACKET_TYPE_CONTROL \<or> b = TAKION_PACKET_TYPE_CONGESTION"
  define kz where "kz = (if clear then ?z else k)"
  define mac where "mac = (case tag of None \<Rightarrow> ?z | Some mac \<Rightarrow> mac)"
  have pre: "pre \<noteq> []" using packet_offsets [OF t] by auto
  have first: "(pre @ m @ k @ post) ! 0 = pre ! 0" using pre by (simp add: nth_append)
  have ko: "takion_packet_type_key_pos_offset b = Some (length pre + 4)" using packet_offsets [OF t] by (simp add: b_def)
  have lmac: "length mac = 4" using gmac_tag_length [OF cr] g by (cases tag) (auto simp: mac_def)
  have lkz: "length kz = 4" using len(2) by (simp add: kz_def)
  have 1: "load_bytes (pre @ m @ k @ post) (length pre) 4 = Some m" "store_bytes (pre @ m @ k @ post) (length pre) ?z = Some (pre @ ?z @ k @ post)"
    using len by (simp_all add: load_mid store_mid)
  have 2: "load_bytes (pre @ ?z @ k @ post) (length pre + 4) 4 = Some k"
    using load_mid [of "length pre + 4" "pre @ ?z" "length k" k post] len(2) by simp
  have 3: "(if clear then store_bytes (pre @ ?z @ k @ post) (length pre + 4) ?z else Some (pre @ ?z @ k @ post)) = Some (pre @ ?z @ kz @ post)"
    using store_mid [of "length pre + 4" "pre @ ?z" ?z k post] len by (simp add: kz_def)
  have 4: "chiaki_gkcrypt_gmac cr gk kp (pre @ ?z @ kz @ post) = Some (err, tag, gk')"
    using g by (simp add: mac_cleared_def b_def [symmetric] clear_def [symmetric] kz_def)
  have 5: "(case tag of None \<Rightarrow> Some (pre @ ?z @ kz @ post) | Some mac \<Rightarrow> store_bytes (pre @ ?z @ kz @ post) (length pre) mac) = Some (pre @ mac @ kz @ post)"
  proof -
    have "store_bytes (pre @ ?z @ kz @ post) (length pre) mac = Some (pre @ mac @ kz @ post)"
      by (rule store_mid) (use lmac in simp_all)
    then show ?thesis unfolding mac_def by (cases tag) (simp_all only: option.case)
  qed
  have 6: "(if clear then store_bytes (pre @ mac @ kz @ post) (length pre + 4) k else Some (pre @ mac @ kz @ post)) = Some (pre @ mac @ k @ post)"
    using store_mid [of "length pre + 4" "pre @ mac" k kz post] len lmac lkz by (cases clear) (simp_all add: kz_def)
  have 7: "load_bytes (pre @ mac @ k @ post) (length pre) 4 = Some mac" using lmac by (simp add: load_mid)
  have big: "\<not> (length (pre @ m @ k @ post) < length pre + CHIAKI_GKCRYPT_GMAC_SIZE \<or> length (pre @ m @ k @ post) < length pre + 4 + 4)"
    "\<not> length (pre @ m @ k @ post) < 1" using len by simp_all
  show ?thesis
    unfolding chiaki_takion_packet_mac_def first b_def [symmetric] Let_def if_not_P [OF big(2)] t [folded b_def] ko prod.case option.case
      if_not_P [OF big(1)] 1 Option.bind.bind_lunit 2 clear_def [symmetric] 3 4 5 6 7 mac_def [symmetric] by simp
qed

lemma packet_mac_defined:
  assumes "sha256_ok cr" "gcm_ok cr" "gmac_inv cr gk" "length m = 4" "length k = 4"
    and "takion_packet_type_mac_offset (takion_base_type (pre ! 0)) = Some (length pre)"
  shows "\<exists>mac gk'. chiaki_takion_packet_mac cr (Some gk) (pre @ m @ k @ post) kp =
       Some (CHIAKI_ERR_SUCCESS, pre @ mac @ k @ post, mac, m, Some gk') \<and> length mac = 4 \<and>
     gmac_inv cr gk' \<and> gk_iv gk' = gk_iv gk \<and> key_gmac_base gk' = key_gmac_base gk"
proof -
  from gmac_result [OF assms(1,3), of kp "mac_cleared (takion_base_type (pre ! 0)) pre k post"] obtain err tag gk' where
    g: "chiaki_gkcrypt_gmac cr gk kp (mac_cleared (takion_base_type (pre ! 0)) pre k post) = Some (err, tag, gk')"
      "gmac_inv cr gk'" "gk_iv gk' = gk_iv gk" "key_gmac_base gk' = key_gmac_base gk"
    by (auto split: if_splits option.splits)
  define mac where "mac = (case tag of None \<Rightarrow> [0, 0, 0, 0] | Some mac \<Rightarrow> mac)"
  have "length mac = 4" using gmac_tag_length [OF assms(2)] g(1) by (cases tag) (auto simp: mac_def)
  moreover have "chiaki_takion_packet_mac cr (Some gk) (pre @ m @ k @ post) kp =
       Some (CHIAKI_ERR_SUCCESS, pre @ mac @ k @ post, mac, m, Some gk')"
    using packet_mac_split [OF assms(6,4,5,2) g(1), folded mac_def] unfolding Let_def .
  ultimately show ?thesis using g by blast
qed

lemma packet_mac_success_split:
  assumes "chiaki_takion_packet_mac cr c buf kp = Some (CHIAKI_ERR_SUCCESS, buf', mac, old, c')"
  shows "\<exists>pre m k post. buf = pre @ m @ k @ post \<and> length m = 4 \<and> length k = 4 \<and>
     takion_packet_type_mac_offset (takion_base_type (pre ! 0)) = Some (length pre)"
proof -
  from assms obtain mo where t: "takion_packet_type_mac_offset (takion_base_type (buf ! 0)) = Some mo" "mo + 8 \<le> length buf"
    by (auto simp: chiaki_takion_packet_mac_def Let_def dest!: packet_offsets split: if_splits option.splits)
  let ?pre = "take mo buf" and ?m = "take 4 (drop mo buf)" and ?k = "take 4 (drop (mo + 4) buf)" and ?post = "drop (mo + 8) buf"
  have "buf = ?pre @ ?m @ ?k @ ?post"
    by (metis (no_types, lifting) add.assoc append_take_drop_id drop_drop numeral_Bit0 add.commute)
  moreover have "?pre ! 0 = buf ! 0" using packet_offsets [OF t(1)] by simp
  ultimately show ?thesis
    using t by (intro exI [of _ ?pre] exI [of _ ?m] exI [of _ ?k] exI [of _ ?post]) simp
qed

text \<open>
  Authentication of a packet is accepted by the other end. The receiver with the same keys, whatever packets both
  ends have authenticated before, computes at the same key position the code that the sender wrote into the
  packet, leaves the packet as it was, and finds the two equal; for every packet type that
  is authenticated.
\<close>

theorem takion_mac_accepted:
  assumes "sha256_ok cr" "gcm_ok cr" "gmac_inv cr gk1" "gmac_inv cr gk2"
    and "gk_iv gk2 = gk_iv gk1" "key_gmac_base gk2 = key_gmac_base gk1"
    and "chiaki_takion_packet_mac cr (Some gk1) buf kp = Some (CHIAKI_ERR_SUCCESS, buf', mac, old, gk1')"
  shows "\<exists>gk2'. chiaki_takion_packet_mac cr (Some gk2) buf' kp = Some (CHIAKI_ERR_SUCCESS, buf', mac, mac, Some gk2') \<and>
     gmac_inv cr gk2'"
proof -
  from packet_mac_success_split [OF assms(7)] obtain pre m k post where b: "buf = pre @ m @ k @ post" "length m = 4" "length k = 4"
    "takion_packet_type_mac_offset (takion_base_type (pre ! 0)) = Some (length pre)" by blast
  let ?c = "mac_cleared (takion_base_type (pre ! 0)) pre k post"
  from gmac_result [OF assms(1,3), of kp ?c] obtain err tag g1 where 1: "chiaki_gkcrypt_gmac cr gk1 kp ?c = Some (err, tag, g1)"
    "tag = (if \<not> cr_ctx cr then None else map_option (take CHIAKI_GKCRYPT_GMAC_SIZE)
       (cr_gcm cr (gmac_key_of cr gk1 (gmac_key_index kp)) (counter_add (gk_iv gk1) (kp div 0x10)) ?c))"
    by (auto split: if_splits option.splits)
  from gmac_result [OF assms(1,4), of kp ?c] obtain err2 g2 where 2: "chiaki_gkcrypt_gmac cr gk2 kp ?c = Some (err2, tag, g2)" "gmac_inv cr g2"
    using 1(2) gmac_key_of_cong [OF assms(5,6), of cr] assms(5) by (auto split: if_splits option.splits)
  define mac1 where "mac1 = (case tag of None \<Rightarrow> [0, 0, 0, 0] | Some mac \<Rightarrow> mac)"
  have l: "length mac1 = 4" using gmac_tag_length [OF assms(2)] 1(1) by (cases tag) (auto simp: mac1_def)
  have s: "buf' = pre @ mac1 @ k @ post" "mac = mac1"
    using packet_mac_split [OF b(4,2,3) assms(2) 1(1), folded mac1_def] assms(7) unfolding b(1) Let_def by simp_all
  show ?thesis
    using packet_mac_split [OF b(4) l b(3) assms(2) 2(1), folded mac1_def] 2(2) unfolding s Let_def by blast
qed


section \<open>Facts: messages\<close>

lemma length_message_header [simp]: "length (takion_write_message_header tag kp ct cf n) = 0x10"
  by (simp add: takion_write_message_header_def)

lemma message_header_loads:
  fixes tag n kp ct cf and rest :: bytes
  defines "buf \<equiv> takion_write_message_header tag kp ct cf n @ rest"
  shows "load32be buf 0 = Some tag" "load32be buf 8 = Some (ucast kp)" "load8 buf 0xc = Some ct" "load8 buf 0xd = Some cf"
    "load16be buf 0xe = Some (of_nat (n + 4))"
proof -
  have buf: "buf = htonl_bytes tag @ [0, 0, 0, 0] @ htonl_bytes (ucast kp) @ [ct, cf] @ htons_bytes (of_nat (n + 4)) @ rest"
    by (simp add: buf_def takion_write_message_header_def)
  show "load32be buf 0 = Some tag" using load32be_htonl [of 0 "[]" tag] by (simp add: buf)
  show "load32be buf 8 = Some (ucast kp)" using load32be_htonl [of 8 "htonl_bytes tag @ [0, 0, 0, 0]" "ucast kp"] by (simp add: buf)
  show "load8 buf 0xc = Some ct" "load8 buf 0xd = Some cf" by (simp_all add: buf load8_def nth_append)
  show "load16be buf 0xe = Some (of_nat (n + 4))"
    using load16be_htons [of "0xe" "htonl_bytes tag @ [0, 0, 0, 0] @ htonl_bytes (ucast kp) @ [ct, cf]" "of_nat (n + 4)"] by (simp add: buf)
qed

lemma parse_written_message:
  assumes "length payload + 4 < 2 ^ 16"
  shows "takion_parse_message tag ks (takion_write_message_header tag kp ct cf (length payload) @ payload) =
     (case chiaki_key_state_request_pos ks (ucast kp) True of (kp', ks') \<Rightarrow>
        Some (CHIAKI_ERR_SUCCESS, Some \<lparr>msg_tag = tag, msg_key_pos = kp', msg_chunk_type = ct, msg_chunk_flags = cf,
           msg_payload_size = length payload, msg_payload = (if payload = [] then None else Some payload)\<rparr>, ks'))"
proof -
  have u: "unat (of_nat (length payload + 4) :: u16) = length payload + 4" using assms by (intro unat_of_nat_len) simp
  have m: "(of_nat (length payload + 4) :: u16) - 4 = of_nat (length payload)" by simp
  have u2: "unat (of_nat (length payload) :: u16) = length payload" using assms by (intro unat_of_nat_len) simp
  show ?thesis
    unfolding takion_parse_message_def message_header_loads Option.bind.bind_lunit u m u2
    by (simp add: Let_def split: prod.splits)
qed

text \<open>
  Messages are read back. A header followed by its payload parses at the end whose tag it carries: the type, the flags, the
  payload and its size are the ones that were written, and the key position is the one of
  the sender if it lies within \<open>2^31\<close> of the last one committed there. At any other tag the message is refused.
\<close>

theorem takion_message_roundtrip:
  assumes "length payload + 4 < 2 ^ 16"
    and "int (unat kp) - int (unat (ks_prev ks)) < 2 ^ 31" "int (unat (ks_prev ks)) - int (unat kp) < 2 ^ 31"
  shows "takion_parse_message tag_local ks (takion_write_message_header tag kp ct cf (length payload) @ payload) =
     Some (if tag = tag_local
       then (CHIAKI_ERR_SUCCESS, Some \<lparr>msg_tag = tag, msg_key_pos = kp, msg_chunk_type = ct, msg_chunk_flags = cf,
           msg_payload_size = length payload, msg_payload = (if payload = [] then None else Some payload)\<rparr>, \<lparr>ks_prev = kp\<rparr>)
       else (CHIAKI_ERR_INVALID_DATA, None, \<lparr>ks_prev = kp\<rparr>))"
proof (cases "tag = tag_local")
  case True
  then show ?thesis
    using parse_written_message [OF assms(1), of tag ks kp ct cf] key_state_request_eq [OF assms(2,3)] by simp
next
  case False
  then show ?thesis
    unfolding takion_parse_message_def message_header_loads Option.bind.bind_lunit key_state_request_eq [OF assms(2,3)]
    by simp
qed

lemma takion_message_roundtrip_witness:
  "takion_parse_message 0x4823 \<lparr>ks_prev = 0x1fffffff0\<rparr>
     (takion_write_message_header 0x4823 0x200000010 TAKION_CHUNK_TYPE_DATA 1 3 @ [7, 8, 9]) =
   Some (CHIAKI_ERR_SUCCESS, Some \<lparr>msg_tag = 0x4823, msg_key_pos = 0x200000010, msg_chunk_type = TAKION_CHUNK_TYPE_DATA,
      msg_chunk_flags = 1, msg_payload_size = 3, msg_payload = Some [7, 8, 9]\<rparr>, \<lparr>ks_prev = 0x200000010\<rparr>)"
  using takion_message_roundtrip [of "[7, 8, 9]" "0x200000010" "\<lparr>ks_prev = 0x1fffffff0\<rparr>" "0x4823" "0x4823" TAKION_CHUNK_TYPE_DATA 1]
  by (simp add: numeral_3_eq_3)

text \<open>One packet sent with keys that have moved on, received with fresh ones.\<close>

definition example_mac_crypto :: crypto where
  "example_mac_crypto = example_crypto\<lparr>cr_gcm := \<lambda>key iv aad. Some (take 16 (aad @ replicate 16 0))\<rparr>"

lemma example_mac_sha: "sha256_ok example_mac_crypto"
  using example_crypto_sha by (simp add: sha256_ok_def example_mac_crypto_def)

lemma takion_mac_accepted_witness:
  "\<exists>buf' mac gk1' gk2'. chiaki_takion_packet_mac example_mac_crypto (Some example_gkcrypt)
       (takion_data_ack_message 1 0x20 5 0x19000) 0x20 = Some (CHIAKI_ERR_SUCCESS, buf', mac, [0, 0, 0, 0], gk1') \<and>
     chiaki_takion_packet_mac example_mac_crypto (Some example_gkcrypt) buf' 0x20 = Some (CHIAKI_ERR_SUCCESS, buf', mac, mac, gk2')"
proof -
  let ?pre = "[0] @ htonl_bytes 1" and ?k = "htonl_bytes (ucast (0x20 :: u64))"
  let ?post = "[TAKION_CHUNK_TYPE_DATA_ACK, 0] @ htons_bytes (of_nat (0xc + 4)) @ htonl_bytes 5 @ htonl_bytes 0x19000 @ [0, 0] @ [0, 0]"
  have buf: "takion_data_ack_message 1 0x20 5 0x19000 = ?pre @ [0, 0, 0, 0] @ ?k @ ?post"
    by (simp add: takion_data_ack_message_def takion_write_message_header_def)
  have gcm: "gcm_ok example_mac_crypto" by (auto simp: gcm_ok_def example_mac_crypto_def)
  have inv: "gmac_inv example_mac_crypto example_gkcrypt" by (simp add: gmac_inv_def gmac_key_of_def example_gkcrypt_def)
  have t: "takion_packet_type_mac_offset (takion_base_type (?pre ! 0)) = Some (length ?pre)"
    by (simp add: takion_packet_type_mac_offset_def takion_base_type_def)
  have "length [0 :: u8, 0, 0, 0] = 4" "length ?k = 4" by simp_all
  from packet_mac_defined [OF example_mac_sha gcm inv this t, of ?post "0x20"] obtain mac gk1' where
    1: "chiaki_takion_packet_mac example_mac_crypto (Some example_gkcrypt) (takion_data_ack_message 1 0x20 5 0x19000) 0x20 =
      Some (CHIAKI_ERR_SUCCESS, ?pre @ mac @ ?k @ ?post, mac, [0, 0, 0, 0], Some gk1')"
    unfolding buf by blast
  from takion_mac_accepted [OF example_mac_sha gcm inv inv refl refl 1] 1 show ?thesis by blast
qed

section \<open>Facts: AV packets\<close>

text \<open>The size of the headers that the versions 9 and 12 skip, from the first byte of the datagram on.\<close>

definition av_skipped :: "bool \<Rightarrow> av_packet \<Rightarrow> nat" where
  "av_skipped v12 p = 0x12 + (if is_video p then 3 else 1) + (if uses_nalu_info_structs p then 3 else 0) +
     (if v12 \<and> \<not> is_video p then 1 else 0)"

text \<open>What a successful parse leaves: the flags, and the data with its size, which is subtracted with wrap-around.\<close>

lemma u64_sub_0: "u64_sub a 0 = a"
  by (simp add: u64_sub_def)

lemma av_packet_parse_success:
  assumes "av_packet_parse v12 ks buf = Some (CHIAKI_ERR_SUCCESS, p, ks')"
  shows "av_header_size v12 (is_video p) + 2 \<le> length buf \<and> av_data p = drop (av_skipped v12 p) buf \<and>
     av_data_size p = u64_sub (u64_sub (u64_sub (length buf - 0x12) (if is_video p then 3 else 1))
       (if uses_nalu_info_structs p then 3 else 0)) (if v12 \<and> \<not> is_video p then 1 else 0)"
proof -
  define video nalu where "video \<longleftrightarrow> takion_base_type (buf ! 0) = TAKION_PACKET_TYPE_VIDEO"
    and "nalu \<longleftrightarrow> drop_bit 4 (buf ! 0) AND 1 \<noteq> 0"
  have guard: "av_header_size v12 video + 2 \<le> length buf"
    using assms by (auto simp: av_packet_parse_def Let_def video_def split: if_splits)
  then have big: "0x14 \<le> length buf" by (auto simp: av_header_size_def split: if_splits)
  then have ne: "buf \<noteq> []" by auto
  from load16be_defined [of 1 buf] load16be_defined [of 3 buf] load32be_defined [of 5 buf] load32be_defined [of "0xe" buf] big
  obtain a1 a2 a3 a5 where l: "load16be buf 1 = Some a1" "load16be buf 3 = Some a2" "load32be buf 5 = Some a3"
    "load32be buf 0xe = Some a5" "load8 buf 9 = Some (buf ! 9)" "load8 buf 0x12 = Some (buf ! 0x12)" by (auto simp: load8_def)
  note l = l [unfolded One_nat_def]
  obtain kp ks2 where k: "chiaki_key_state_request_pos ks a5 True = (kp, ks2)" by fastforce
  have sub: "u64_sub (length buf - Suc 0) 0x11 = length buf - 0x12" using big by (simp add: u64_sub_def)
  have sz: "\<not> length buf - Suc 0 < Suc (av_header_size v12 video)" using guard by simp
  show ?thesis
  proof (cases video)
    case True
    with guard have "0x19 \<le> length buf" by (simp add: av_header_size_def)
    then obtain w where "load16be buf 0x12 = Some w" "load8 buf 0x14 = Some (buf ! 0x14)" "load8 buf 0x15 = Some (buf ! 0x15)"
      using load16be_defined [of "0x12" buf] by (auto simp: load8_def)
    with assms guard sz True show ?thesis
      unfolding video_def by (cases nalu) (auto simp add: av_packet_parse_def Let_def l k sub u64_sub_0 ne nalu_def av_units_video_def av_skipped_def)
  next
    case False
    with assms have "takion_base_type (buf ! 0) = TAKION_PACKET_TYPE_AUDIO"
      by (auto simp: av_packet_parse_def Let_def video_def split: if_splits)
    with assms guard sz False show ?thesis
      unfolding video_def
      by (cases nalu; cases v12) (auto simp: av_packet_parse_def Let_def l k sub u64_sub_0 ne nalu_def av_units_audio_def av_skipped_def bind_eq_Some_conv)
  qed
qed

text \<open>
  C36. The data of an AV packet. A packet that the versions 9 and 12 accept has its data inside the datagram exactly if the
  datagram holds all headers that are skipped. The check of the size does not count the three
  bytes that an audio packet may have for the NALU information, so short audio packets are accepted with a data size that has
  wrapped around, more than the memory can hold.
\<close>

theorem av_packet_data_bounds:
  assumes "av_packet_parse v12 ks buf = Some (CHIAKI_ERR_SUCCESS, p, ks')" "length buf < 2 ^ 32"
  shows "if av_skipped v12 p \<le> length buf
     then av_data p = drop (av_skipped v12 p) buf \<and> av_data_size p = length (av_data p)
     else \<not> is_video p \<and> uses_nalu_info_structs p \<and> length buf \<le> 0x16 \<and> 2 ^ 63 < av_data_size p"
proof -
  from av_packet_parse_success [OF assms(1)] have g: "av_header_size v12 (is_video p) + 2 \<le> length buf"
    and d: "av_data p = drop (av_skipped v12 p) buf"
    and z: "av_data_size p = u64_sub (u64_sub (u64_sub (length buf - 0x12) (if is_video p then 3 else 1))
       (if uses_nalu_info_structs p then 3 else 0)) (if v12 \<and> \<not> is_video p then 1 else 0)" by blast+
  show ?thesis
    using g z assms(2) unfolding d
    by (cases "is_video p"; cases "uses_nalu_info_structs p"; cases v12) (auto simp: av_header_size_def av_skipped_def u64_sub_def)
qed

text \<open>An audio packet of version 9 with the NALU flag and twenty bytes.\<close>

lemma av_packet_data_bounds_witness:
  "\<exists>p ks'. chiaki_takion_v9_av_packet_parse \<lparr>ks_prev = 0\<rparr> (0x13 # replicate 0x13 0) = Some (CHIAKI_ERR_SUCCESS, p, ks') \<and>
     \<not> is_video p \<and> 2 ^ 63 < av_data_size p"
proof -
  let ?b = "0x13 # replicate 0x13 0 :: bytes"
  have "\<exists>p ks'. av_packet_parse False \<lparr>ks_prev = 0\<rparr> ?b = Some (CHIAKI_ERR_SUCCESS, p, ks') \<and> \<not> is_video p \<and> uses_nalu_info_structs p"
    by (simp add: av_packet_parse_def takion_base_type_def drop_bit_eq_div av_header_size_def Let_def load16be_def load32be_def
        load8_def av_units_audio_def av_packet_zero_def split: prod.splits)
  then obtain p ks' where p: "av_packet_parse False \<lparr>ks_prev = 0\<rparr> ?b = Some (CHIAKI_ERR_SUCCESS, p, ks')"
    "\<not> is_video p" "uses_nalu_info_structs p" by blast
  from av_packet_data_bounds [OF p(1)] p show ?thesis
    by (auto simp: chiaki_takion_v9_av_packet_parse_def av_skipped_def)
qed

section \<open>Facts: the headers of version 7\<close>

lemma small_bits:
  fixes u :: "'a :: len word"
  assumes "unat u < 2 ^ k" "bit u n"
  shows "n < k"
proof -
  have "take_bit k u = u" using assms(1) by (metis word_unat_eq_iff unsigned_take_bit_eq take_bit_nat_eq_self)
  then have "bit (take_bit k u) n" using assms(2) by simp
  then show ?thesis by (simp add: bit_take_bit_iff)
qed

lemma dword_2_fields:
  fixes u t f :: u16
  assumes "unat u < 2 ^ 10" "unat f < 2 ^ 10" "0 < t" "unat t \<le> 2 ^ 11"
  defines "w \<equiv> (ucast f AND 0x3ff) OR push_bit 0xa ((ucast t - 1) AND 0x7ff) OR push_bit 0x15 (ucast u) :: u32"
  shows "ucast (drop_bit 0x15 w AND 0x7ff) = u" "ucast ((drop_bit 0xa w AND 0x7ff) + 1) = t" "ucast (w AND 0x3ff) = f"
proof -
  have m: "(0x3ff :: u32) = mask 10" "(0x7ff :: u32) = mask 11" by (simp_all add: mask_eq_exp_minus_1)
  define T :: u32 where "T = ucast t - 1"
  have uT: "unat (ucast t :: u32) = unat t" using assms(4) by (simp add: unsigned_ucast_eq take_bit_nat_eq_self)
  have "unat T = unat t - 1" unfolding T_def using assms(3) uT by (subst unat_minus_one) (auto simp: word_gt_0 uT word_unat_eq_iff)
  with assms(4) have "unat T < 2 ^ 11" using assms(3) by (simp add: word_less_nat_alt)
  note b = small_bits [OF assms(1)] small_bits [OF assms(2)] small_bits [OF this]
  have 1: "drop_bit 0x15 w AND 0x7ff = ucast u" "drop_bit 0xa w AND 0x7ff = T" "w AND 0x3ff = ucast f"
    unfolding w_def T_def [symmetric] m by (rule bit_word_eqI; auto simp: bit_simps dest: b)+
  have 2: "T + 1 = ucast t" by (simp add: T_def)
  have c: "ucast (ucast x :: u32) = x" for x :: u16 by (rule bit_word_eqI) (simp add: bit_simps)
  show "ucast (drop_bit 0x15 w AND 0x7ff) = u" "ucast ((drop_bit 0xa w AND 0x7ff) + 1) = t" "ucast (w AND 0x3ff) = f"
    unfolding 1 2 c by simp_all
qed

definition bswap32 :: "u32 \<Rightarrow> u32" where
  "bswap32 w = push_bit 24 w OR (push_bit 16 (drop_bit 8 w AND 0xff) OR (push_bit 8 (drop_bit 16 w AND 0xff) OR drop_bit 24 w))"

lemma load32be_host32:
  assumes "i = length xs"
  shows "load32be (xs @ host32_bytes w @ ys) i = Some (bswap32 w)"
proof -
  have m: "(0xff :: u32) = mask 8" by (simp add: mask_eq_exp_minus_1)
  have "push_bit 24 (ucast (ucast w :: u8)) OR (push_bit 16 (ucast (ucast (drop_bit 8 w) :: u8)) OR
      (push_bit 8 (ucast (ucast (drop_bit 16 w) :: u8)) OR ucast (ucast (drop_bit 24 w) :: u8))) = bswap32 w"
    unfolding bswap32_def m by (rule bit_word_eqI) (auto simp: bit_simps dest: bit_imp_le_length)
  then show ?thesis using assms by (simp add: load32be_def host32_bytes_def load8_def nth_append)
qed

lemma length_host32_bytes [simp]: "length (host32_bytes w) = 4"
  by (simp add: host32_bytes_def)

lemma shift5: "unat (a :: u8) < 8 \<Longrightarrow> drop_bit 5 (push_bit 5 a) = a"
  using small_bits [of a 3] by (intro bit_word_eqI) (auto simp: bit_simps)

text \<open>
  The headers of version 7. The parser reads back every field of a packet whose fields fit the bits of the header, except the
  key position: its low half comes back with the bytes in the opposite order on a
  little-endian host, since it is stored without \<open>htonl\<close> and loaded with \<open>ntohl\<close>.
\<close>

theorem av_packet_v7_roundtrip:
  assumes "unat (unit_index p) < 2 ^ 10" "unat (units_in_frame_fec p) < 2 ^ 10"
    and "0 < units_in_frame_total p" "unat (units_in_frame_total p) \<le> 2 ^ 11"
    and "unat (adaptive_stream_index p) < 8" "byte_at_0x2c p = 0" "\<not> is_haptics p"
    and "\<not> is_video p \<Longrightarrow> word_at_0x18 p = 0 \<and> adaptive_stream_index p = 0"
    and "length buf = v7_header_size (is_video p) (uses_nalu_info_structs p)"
  shows "\<exists>hdr. chiaki_takion_v7_av_packet_format_header buf p = Some (CHIAKI_ERR_SUCCESS, length buf, hdr) \<and>
     chiaki_takion_v7_av_packet_parse (hdr @ data) = Some (CHIAKI_ERR_SUCCESS,
       p\<lparr>av_key_pos := ucast (bswap32 (ucast (av_key_pos p))), av_data := data, av_data_size := length data\<rparr>)"
proof -
  define w :: u32 where "w = (ucast (units_in_frame_fec p) AND 0x3ff) OR push_bit 0xa ((ucast (units_in_frame_total p) - 1) AND 0x7ff) OR
     push_bit 0x15 (ucast (unit_index p))"
  note f = dword_2_fields [OF assms(1-4), folded w_def]
  define type where "type = (if is_video p then TAKION_PACKET_TYPE_VIDEO else TAKION_PACKET_TYPE_AUDIO) OR (if uses_nalu_info_structs p then 0x10 else 0)"
  have t: "takion_base_type type = (if is_video p then TAKION_PACKET_TYPE_VIDEO else TAKION_PACKET_TYPE_AUDIO)"
    "(drop_bit 4 type AND 1 \<noteq> 0) = uses_nalu_info_structs p"
    by (auto simp: type_def takion_base_type_def drop_bit_eq_div)
  define v where "v = (if is_video p then htons_bytes (word_at_0x18 p) @ [push_bit 5 (adaptive_stream_index p)] else [])"
  define n where "n = (if uses_nalu_info_structs p then [0, 0, 0 :: u8] else [])"
  define pre where "pre = [type] @ htons_bytes (packet_index p) @ htons_bytes (av_packet.frame_index p) @ htonl_bytes w @ [av_codec p] @ [0, 0, 0, 0] @
     host32_bytes (ucast (av_key_pos p))"
  have lp: "length pre = 0x12" by (simp add: pre_def)
  have lv: "length v = (if is_video p then 3 else 0)" "length n = (if uses_nalu_info_structs p then 3 else 0)"
    by (simp_all add: v_def n_def)
  have len: "length (pre @ v @ n) = length buf" using assms(9) by (simp add: lp lv v7_header_size_def)
  have fmt: "chiaki_takion_v7_av_packet_format_header buf p = Some (CHIAKI_ERR_SUCCESS, length buf, pre @ v @ n)"
  proof -
    have "store_bytes buf 0 (pre @ v @ n) = Some (pre @ v @ n)" using len by (simp add: store_bytes_def)
    then show ?thesis
      using assms(1,9) unfolding chiaki_takion_v7_av_packet_format_header_def Let_def w_def [symmetric] type_def [symmetric]
        v_def [symmetric] n_def [symmetric] by (simp add: pre_def)
  qed
  let ?b = "pre @ v @ n @ data"
  have l: "load16be ?b (Suc 0) = Some (packet_index p)" "load16be ?b 3 = Some (av_packet.frame_index p)" "load32be ?b 5 = Some w"
    "load8 ?b 9 = Some (av_codec p)" "load32be ?b 0xe = Some (bswap32 (ucast (av_key_pos p)))" "?b ! 0 = type"
    using load16be_htons [of "Suc 0" "[type]" "packet_index p"] load16be_htons [of 3 "[type] @ htons_bytes (packet_index p)" "av_packet.frame_index p"]
      load32be_htonl [of 5 "[type] @ htons_bytes (packet_index p) @ htons_bytes (av_packet.frame_index p)" w]
      load32be_host32 [of "0xe" "[type] @ htons_bytes (packet_index p) @ htons_bytes (av_packet.frame_index p) @ htonl_bytes w @ [av_codec p] @ [0, 0, 0, 0]" "ucast (av_key_pos p)"]
    by (simp_all add: pre_def load8_def nth_append)
  have vl: "load16be ?b 0x12 = Some (word_at_0x18 p)" "load8 ?b 0x14 = Some (push_bit 5 (adaptive_stream_index p))" if "is_video p"
    using load16be_htons [of "0x12" pre "word_at_0x18 p"] that lp by (simp_all add: v_def load8_def nth_append)
  have d: "drop (v7_header_size (is_video p) (uses_nalu_info_structs p)) ?b = data" using lp lv by (simp add: v7_header_size_def)
  have ne: "\<not> length ?b < 1" "\<not> length ?b < v7_header_size (is_video p) (uses_nalu_info_structs p)"
    using lp lv by (simp_all add: v7_header_size_def)
  have "chiaki_takion_v7_av_packet_parse ?b = Some (CHIAKI_ERR_SUCCESS,
       p\<lparr>av_key_pos := ucast (bswap32 (ucast (av_key_pos p))), av_data := data, av_data_size := length data\<rparr>)"
  proof (cases "is_video p")
    case True
    show ?thesis
      using ne d l vl [OF True] assms(5-7) True lp lv
      by (cases p; cases "uses_nalu_info_structs p")
        (simp_all add: chiaki_takion_v7_av_packet_parse_def Let_def t f shift5 v7_header_size_def av_units_video_def av_packet_zero_def)
  next
    case False
    show ?thesis
      using ne d l assms(6-8) False lp lv
      by (cases p; cases "uses_nalu_info_structs p")
        (simp_all add: chiaki_takion_v7_av_packet_parse_def Let_def t f v7_header_size_def av_units_video_def av_packet_zero_def)
  qed
  with fmt show ?thesis by auto
qed

text \<open>A header that the bandwidth test writes.\<close>

lemma av_packet_v7_roundtrip_witness:
  "\<exists>hdr. chiaki_takion_v7_av_packet_format_header (replicate 0x12 0) (av_packet_zero\<lparr>units_in_frame_total := 0x800, unit_index := 0x1ff, av_key_pos := 1\<rparr>) =
       Some (CHIAKI_ERR_SUCCESS, 0x12, hdr) \<and>
     chiaki_takion_v7_av_packet_parse (hdr @ [1]) = Some (CHIAKI_ERR_SUCCESS,
       av_packet_zero\<lparr>units_in_frame_total := 0x800, unit_index := 0x1ff, av_key_pos := 0x1000000, av_data := [1], av_data_size := 1\<rparr>)"
proof -
  have b: "bswap32 1 = 0x1000000" by (simp add: bswap32_def drop_bit_eq_div push_bit_eq_mult)
  show ?thesis
    using av_packet_v7_roundtrip [of "av_packet_zero\<lparr>units_in_frame_total := 0x800, unit_index := 0x1ff, av_key_pos := 1\<rparr>" "replicate 0x12 0" "[1]"]
    by (simp add: av_packet_zero_def v7_header_size_def b)
qed

end
