(* ===== verification/Takion.thy ===== *)
theory Takion
  imports Reorder_Queue Send_Buffer Takion_Packet Feedback
begin

text \<open>
  The connection of \<open>lib/src/takion.c\<close>: sending, the handshake, the receiving thread with its
  reorder queue of data packets, and the packets postponed until the keys are known.

  Every operation returns what it does to the outside in the order in which it happens: the datagrams it sends, the calls of the
  callback and the packet buffers it frees. The record \<open>takion_env\<close> holds what the platform returns during
  an operation, and the callback: any function of the event and the state, of which it can change what the functions
  of \<open>takion.h\<close> change.
\<close>

abbreviation "TAKION_A_RWND \<equiv> 0x19000 :: u32"
abbreviation "TAKION_OUTBOUND_STREAMS \<equiv> 0x64 :: u16"
abbreviation "TAKION_INBOUND_STREAMS \<equiv> 0x64 :: u16"
abbreviation "TAKION_REORDER_QUEUE_SIZE_EXP \<equiv> 4 :: nat"
abbreviation "TAKION_SEND_BUFFER_SIZE \<equiv> 16 :: nat"
abbreviation "TAKION_POSTPONE_PACKETS_SIZE \<equiv> 32 :: nat"

abbreviation "CHIAKI_TAKION_MESSAGE_DATA_TYPE_PROTOBUF \<equiv> 0 :: u8"
abbreviation "CHIAKI_TAKION_MESSAGE_DATA_TYPE_RUMBLE \<equiv> 7 :: u8"
abbreviation "CHIAKI_TAKION_MESSAGE_DATA_TYPE_9 \<equiv> 9 :: u8"
abbreviation "CHIAKI_TAKION_MESSAGE_DATA_TYPE_TRIGGER_EFFECTS \<equiv> 11 :: u8"

section \<open>State\<close>

text \<open>The payload is a pointer into the packet: the bytes from there on, \<open>None\<close> the null pointer.\<close>

record data_packet_entry =
  de_packet_buf :: bytes
  de_type_b :: u8
  de_payload :: "bytes option"
  de_payload_size :: nat
  de_channel :: u16

text \<open>\<open>postponed_packets\<close> is \<open>None\<close> while the array is not allocated, else its used part.\<close>

record takion =
  tk_version :: u8
  tk_enable_crypt :: bool
  postponed_packets :: "bytes list option"
  gkcrypt_local :: "gkcrypt option"
  key_pos_local :: nat
  gkcrypt_remote :: "gkcrypt option"
  data_queue :: "data_packet_entry reorder_queue"
  tk_send_buffer :: send_buffer
  tk_has_cb :: bool
  tag_local :: u32
  tag_remote :: u32
  seq_num_local :: u32
  tk_a_rwnd :: u32
  tk_key_state :: key_state
  tk_enable_dualsense :: bool

datatype takion_event =
    TE_CONNECTED
  | TE_DISCONNECT
  | TE_DATA u8 bytes
  | TE_DATA_ACK u32
  | TE_AV av_packet

datatype takion_out = Out_Send bytes | Out_Event takion_event | Out_Free bytes

record takion_env =
  te_crypto :: crypto
  te_alloc :: bool
  te_gk_lock :: ChiakiErrorCode
  te_seq_lock :: ChiakiErrorCode
  te_sb_lock :: ChiakiErrorCode
  te_send :: "bytes \<Rightarrow> bool"
  te_now :: u64
  te_cb :: "takion_event \<Rightarrow> takion \<Rightarrow> takion \<times> takion_out list"

text \<open>The fields that the functions of \<open>takion.h\<close> change: what another thread or the callback can do to the state.\<close>

definition takion_shared :: "takion \<Rightarrow> takion \<Rightarrow> takion" where
  "takion_shared tk tk' =
     tk\<lparr>gkcrypt_local := gkcrypt_local tk', key_pos_local := key_pos_local tk', gkcrypt_remote := gkcrypt_remote tk',
        tk_send_buffer := tk_send_buffer tk', seq_num_local := seq_num_local tk'\<rparr>"

definition takion_call_cb :: "takion_env \<Rightarrow> takion_event \<Rightarrow> takion \<Rightarrow> takion \<times> takion_out list" where
  "takion_call_cb env event tk =
     (if tk_has_cb tk then (case te_cb env event tk of (tk', outs) \<Rightarrow> (takion_shared tk tk', Out_Event event # outs))
      else (tk, []))"

definition chiaki_takion_set_crypt :: "takion \<Rightarrow> gkcrypt option \<Rightarrow> gkcrypt option \<Rightarrow> takion" where
  "chiaki_takion_set_crypt tk local remote = tk\<lparr>gkcrypt_local := local, gkcrypt_remote := remote\<rparr>"

section \<open>Connecting\<close>

datatype takion_resource = TR_GKCrypt_Mutex | TR_Seq_Num_Mutex | TR_Stop_Pipe | TR_Socket | TR_Thread

record connect_info =
  ci_ip_dontfrag :: bool
  ci_cb :: bool
  ci_enable_crypt :: bool
  ci_enable_dualsense :: bool
  ci_protocol_version :: u8

text \<open>What the calls of \<open>connect\<close> return: the \<open>bool\<close>s say whether the socket calls succeed.\<close>

record connect_results =
  cr_mutex1 :: ChiakiErrorCode
  cr_random :: u32
  cr_mutex2 :: ChiakiErrorCode
  cr_stop_pipe :: ChiakiErrorCode
  cr_socket :: bool
  cr_rcvbuf :: bool
  cr_dontfrag :: bool
  cr_connect :: bool
  cr_thread :: ChiakiErrorCode

text \<open>
  \<open>connect\<close>: what it returns, the state and the resources that are held afterwards. The failure of the stop pipe leaves
  \<open>ret\<close> as it was, and after \<open>chiaki_thread_create\<close> it is \<open>r\<close>, the result of the socket call, that is tested.
\<close>

definition chiaki_takion_connect ::
  "takion \<Rightarrow> connect_info \<Rightarrow> connect_results \<Rightarrow> ChiakiErrorCode \<times> takion \<times> takion_resource list" where
  "chiaki_takion_connect tk info r =
     (let tk = tk\<lparr>tk_version := ci_protocol_version info\<rparr>
      in if ci_protocol_version info \<notin> {7, 9, 12} then (CHIAKI_ERR_INVALID_DATA, tk, [])
         else let tk = tk\<lparr>gkcrypt_local := None\<rparr>
      in if cr_mutex1 r \<noteq> CHIAKI_ERR_SUCCESS then (cr_mutex1 r, tk, [])
         else let tk = tk\<lparr>key_pos_local := 0, gkcrypt_remote := None, tk_has_cb := ci_cb info, tk_a_rwnd := TAKION_A_RWND,
                     tag_local := cr_random r, seq_num_local := cr_random r\<rparr>
      in if cr_mutex2 r \<noteq> CHIAKI_ERR_SUCCESS then (cr_mutex2 r, tk, [])
         else let tk = tk\<lparr>tag_remote := 0, tk_enable_crypt := ci_enable_crypt info, postponed_packets := None,
                     tk_enable_dualsense := ci_enable_dualsense info\<rparr>
      in if cr_stop_pipe r \<noteq> CHIAKI_ERR_SUCCESS then (CHIAKI_ERR_SUCCESS, tk, [])
         else if \<not> cr_socket r then (CHIAKI_ERR_NETWORK, tk, [])
         else if \<not> cr_rcvbuf r then (CHIAKI_ERR_NETWORK, tk, [])
         else if ci_ip_dontfrag info \<and> \<not> cr_dontfrag r then (CHIAKI_ERR_NETWORK, tk, [])
         else if \<not> cr_connect r then (CHIAKI_ERR_NETWORK, tk, [])
         else (CHIAKI_ERR_SUCCESS, tk,
           [TR_GKCrypt_Mutex, TR_Seq_Num_Mutex, TR_Stop_Pipe, TR_Socket] @ (if cr_thread r = CHIAKI_ERR_SUCCESS then [TR_Thread] else [])))"

text \<open>\<open>close\<close>: the thread is stopped and joined; it closes the socket itself.\<close>

definition chiaki_takion_close :: "takion_resource list \<Rightarrow> takion_resource list" where
  "chiaki_takion_close held = filter (\<lambda>r. r \<notin> {TR_Thread, TR_Stop_Pipe, TR_Seq_Num_Mutex, TR_GKCrypt_Mutex}) held"

section \<open>Sending\<close>

text \<open>The error code, \<open>*key_pos\<close> and the state.\<close>

definition chiaki_takion_crypt_advance_key_pos :: "takion_env \<Rightarrow> takion \<Rightarrow> nat \<Rightarrow> ChiakiErrorCode \<times> nat \<times> takion" where
  "chiaki_takion_crypt_advance_key_pos env tk data_size =
     (if te_gk_lock env \<noteq> CHIAKI_ERR_SUCCESS then (te_gk_lock env, 0, tk)
      else if gkcrypt_local tk \<noteq> None then
        (let cur = key_pos_local tk
         in if 2 ^ 64 - 1 - cur < data_size then (CHIAKI_ERR_OVERFLOW, 0, tk)
            else (CHIAKI_ERR_SUCCESS, cur, tk\<lparr>key_pos_local := cur + data_size\<rparr>))
      else (CHIAKI_ERR_SUCCESS, 0, tk))"

definition chiaki_takion_send_raw :: "takion_env \<Rightarrow> bytes \<Rightarrow> ChiakiErrorCode \<times> takion_out list" where
  "chiaki_takion_send_raw env buf =
     (if te_send env buf then (CHIAKI_ERR_SUCCESS, [Out_Send buf]) else (CHIAKI_ERR_NETWORK, []))"

text \<open>\<open>send\<close>: the error code, the buffer with its authentication code, the state and the outputs.\<close>

definition chiaki_takion_send ::
  "takion_env \<Rightarrow> takion \<Rightarrow> bytes \<Rightarrow> nat \<Rightarrow> (ChiakiErrorCode \<times> bytes \<times> takion \<times> takion_out list) option" where
  "chiaki_takion_send env tk buf key_pos =
     (if te_gk_lock env \<noteq> CHIAKI_ERR_SUCCESS then Some (te_gk_lock env, buf, tk, [])
      else do {
        (err, buf, mac, mac_old, crypt) \<leftarrow> chiaki_takion_packet_mac (te_crypto env) (gkcrypt_local tk) buf key_pos;
        let tk = tk\<lparr>gkcrypt_local := crypt\<rparr>;
        if err \<noteq> CHIAKI_ERR_SUCCESS then Some (err, buf, tk, [])
        else let (err, outs) = chiaki_takion_send_raw env buf in Some (err, buf, tk, outs) })"

text \<open>\<open>send_message_data\<close>: the error code, the sequence number if it is reported, the state and the outputs.\<close>

definition chiaki_takion_send_message_data ::
  "takion_env \<Rightarrow> takion \<Rightarrow> u8 \<Rightarrow> u16 \<Rightarrow> bytes \<Rightarrow> (ChiakiErrorCode \<times> u32 option \<times> takion \<times> takion_out list) option" where
  "chiaki_takion_send_message_data env tk chunk_flags channel buf =
     (let (err, key_pos, tk) = chiaki_takion_crypt_advance_key_pos env tk (length buf)
      in if err \<noteq> CHIAKI_ERR_SUCCESS then Some (err, None, tk, [])
         else if \<not> te_alloc env then Some (CHIAKI_ERR_MEMORY, None, tk, [])
         else if te_seq_lock env \<noteq> CHIAKI_ERR_SUCCESS then Some (te_seq_lock env, None, tk, [])
         else let seq_num_val = seq_num_local tk;
                  packet_buf = takion_data_message (tag_remote tk) (of_nat key_pos) chunk_flags seq_num_val channel buf
           in do {
             (err, packet_buf, tk, outs) \<leftarrow> chiaki_takion_send env (tk\<lparr>seq_num_local := seq_num_val + 1\<rparr>) packet_buf key_pos;
             if err \<noteq> CHIAKI_ERR_SUCCESS then Some (err, None, tk, outs @ [Out_Free packet_buf])
             else let (_, sb, freed, _) = chiaki_takion_send_buffer_push (te_sb_lock env) (te_now env) seq_num_val packet_buf (tk_send_buffer tk)
               in Some (CHIAKI_ERR_SUCCESS, Some seq_num_val, tk\<lparr>tk_send_buffer := sb\<rparr>, outs @ map Out_Free freed) })"

definition chiaki_takion_send_message_data_ack ::
  "takion_env \<Rightarrow> takion \<Rightarrow> u32 \<Rightarrow> (ChiakiErrorCode \<times> takion \<times> takion_out list) option" where
  "chiaki_takion_send_message_data_ack env tk seq_num =
     (let (err, key_pos, tk) = chiaki_takion_crypt_advance_key_pos env tk (1 + TAKION_MESSAGE_HEADER_SIZE + 0xc)
      in if err \<noteq> CHIAKI_ERR_SUCCESS then Some (err, tk, [])
         else map_option (\<lambda>(err, _, tk, outs). (err, tk, outs))
           (chiaki_takion_send env tk (takion_data_ack_message (tag_remote tk) (of_nat key_pos) seq_num (tk_a_rwnd tk)) key_pos))"

definition chiaki_takion_send_congestion ::
  "takion_env \<Rightarrow> takion \<Rightarrow> congestion_packet \<Rightarrow> (ChiakiErrorCode \<times> takion \<times> takion_out list) option" where
  "chiaki_takion_send_congestion env tk packet =
     (let (err, key_pos, tk) = chiaki_takion_crypt_advance_key_pos env tk CHIAKI_TAKION_CONGESTION_PACKET_SIZE
      in if err \<noteq> CHIAKI_ERR_SUCCESS then Some (err, tk, [])
         else do {
           buf \<leftarrow> chiaki_takion_format_congestion (replicate CHIAKI_TAKION_CONGESTION_PACKET_SIZE 0) packet (of_nat key_pos);
           (err, _, tk, outs) \<leftarrow> chiaki_takion_send env tk buf key_pos;
           Some (err, tk, outs) })"

text \<open>Without a key \<open>chiaki_gkcrypt_encrypt\<close> is called on the null pointer.\<close>

definition takion_send_feedback_packet ::
  "takion_env \<Rightarrow> takion \<Rightarrow> bytes \<Rightarrow> (ChiakiErrorCode \<times> takion \<times> takion_out list) option" where
  "takion_send_feedback_packet env tk buf =
     (if length buf < 0xc then None
      else if te_gk_lock env \<noteq> CHIAKI_ERR_SUCCESS then Some (te_gk_lock env, tk, [])
      else let payload_size = length buf - 0xc;
               (err, key_pos, tk) = chiaki_takion_crypt_advance_key_pos env tk (payload_size + CHIAKI_GKCRYPT_BLOCK_SIZE)
        in if err \<noteq> CHIAKI_ERR_SUCCESS then Some (err, tk, [])
           else do {
             gk \<leftarrow> gkcrypt_local tk;
             (err, payload, gk) \<leftarrow> chiaki_gkcrypt_encrypt (te_crypto env) (te_alloc env) gk (key_pos + CHIAKI_GKCRYPT_BLOCK_SIZE) (drop 0xc buf);
             let tk = tk\<lparr>gkcrypt_local := Some gk\<rparr>;
             if err \<noteq> CHIAKI_ERR_SUCCESS then Some (err, tk, [])
             else do {
               buf \<leftarrow> store_bytes (take 0xc buf @ payload) 4 (htonl_bytes (of_nat key_pos));
               (err, tag, gk) \<leftarrow> chiaki_gkcrypt_gmac (te_crypto env) gk key_pos buf;
               let tk = tk\<lparr>gkcrypt_local := Some gk\<rparr>;
               if err \<noteq> CHIAKI_ERR_SUCCESS then Some (err, tk, [])
               else do {
                 buf \<leftarrow> (case tag of None \<Rightarrow> Some buf | Some mac \<Rightarrow> store_bytes buf 8 mac);
                 Some (CHIAKI_ERR_SUCCESS, tk, snd (chiaki_takion_send_raw env buf)) } } })"

definition takion_feedback_header :: "u8 \<Rightarrow> u16 \<Rightarrow> bytes" where
  "takion_feedback_header type seq_num = [type] @ htons_bytes seq_num @ [0] @ [0, 0, 0, 0] @ [0, 0, 0, 0]"

definition chiaki_takion_send_feedback_state ::
  "('f, 'd) float_ops \<Rightarrow> takion_env \<Rightarrow> takion \<Rightarrow> u16 \<Rightarrow> 'f feedback_state \<Rightarrow> (ChiakiErrorCode \<times> takion \<times> takion_out list) option" where
  "chiaki_takion_send_feedback_state fp env tk seq_num st = do {
     pl \<leftarrow> (if tk_version tk \<le> 9
       then chiaki_feedback_state_format_v9 fp (replicate CHIAKI_FEEDBACK_STATE_BUF_SIZE_V9 0) st
       else chiaki_feedback_state_format_v12 fp (replicate CHIAKI_FEEDBACK_STATE_BUF_SIZE_V12 0) st (tk_enable_dualsense tk));
     takion_send_feedback_packet env tk (takion_feedback_header TAKION_PACKET_TYPE_FEEDBACK_STATE seq_num @ pl) }"

definition chiaki_takion_send_feedback_history ::
  "takion_env \<Rightarrow> takion \<Rightarrow> u16 \<Rightarrow> bytes \<Rightarrow> (ChiakiErrorCode \<times> takion \<times> takion_out list) option" where
  "chiaki_takion_send_feedback_history env tk seq_num payload =
     (if \<not> te_alloc env then Some (CHIAKI_ERR_MEMORY, tk, [])
      else takion_send_feedback_packet env tk (takion_feedback_header TAKION_PACKET_TYPE_FEEDBACK_HISTORY seq_num @ payload))"

section \<open>Received packets\<close>

text \<open>The error code, the packet, which then holds the code that was computed, and the state.\<close>

definition takion_handle_packet_mac :: "crypto \<Rightarrow> takion \<Rightarrow> bytes \<Rightarrow> (ChiakiErrorCode \<times> bytes \<times> takion) option" where
  "takion_handle_packet_mac cr tk buf =
     (case gkcrypt_remote tk of
        None \<Rightarrow> Some (CHIAKI_ERR_SUCCESS, buf, tk)
      | Some gk \<Rightarrow> do {
          (err, key_pos) \<leftarrow> chiaki_takion_packet_read_key_pos (tk_key_state tk) buf;
          if err \<noteq> CHIAKI_ERR_SUCCESS then Some (err, buf, tk)
          else do {
            (err, buf, mac_expected, mac, crypt) \<leftarrow> chiaki_takion_packet_mac cr (Some gk) buf (unat key_pos);
            let tk = tk\<lparr>gkcrypt_remote := crypt\<rparr>;
            if err \<noteq> CHIAKI_ERR_SUCCESS then Some (err, buf, tk)
            else if mac_expected \<noteq> mac then Some (CHIAKI_ERR_INVALID_MAC, buf, tk)
            else Some (CHIAKI_ERR_SUCCESS, buf, tk\<lparr>tk_key_state := chiaki_key_state_commit (tk_key_state tk) key_pos\<rparr>) } })"

text \<open>Neither failure to keep the packet frees it.\<close>

definition takion_postpone_packet :: "bool \<Rightarrow> takion \<Rightarrow> bytes \<Rightarrow> takion" where
  "takion_postpone_packet calloc_ok tk buf =
     (case (if postponed_packets tk = None \<and> calloc_ok then Some [] else postponed_packets tk) of
        None \<Rightarrow> tk
      | Some ps \<Rightarrow> if length ps \<ge> TAKION_POSTPONE_PACKETS_SIZE then tk\<lparr>postponed_packets := Some ps\<rparr>
                   else tk\<lparr>postponed_packets := Some (ps @ [buf])\<rparr>)"

definition takion_handle_packet_av :: "takion_env \<Rightarrow> takion \<Rightarrow> bytes \<Rightarrow> (takion \<times> takion_out list) option" where
  "takion_handle_packet_av env tk buf = do {
     (err, packet, ks) \<leftarrow> (if tk_version tk = 7 then map_option (\<lambda>(err, p). (err, p, tk_key_state tk)) (chiaki_takion_v7_av_packet_parse buf)
       else if tk_version tk = 9 then chiaki_takion_v9_av_packet_parse (tk_key_state tk) buf
       else chiaki_takion_v12_av_packet_parse (tk_key_state tk) buf);
     let tk = tk\<lparr>tk_key_state := ks\<rparr>;
     Some (if err \<noteq> CHIAKI_ERR_SUCCESS then (tk, []) else takion_call_cb env (TE_AV packet) tk) }"

subsection \<open>Data messages\<close>

text \<open>One entry that was pulled from the queue: it is handed to the callback and freed.\<close>

definition takion_flush_entry :: "takion_env \<Rightarrow> takion \<Rightarrow> data_packet_entry \<Rightarrow> (takion \<times> takion_out list) option" where
  "takion_flush_entry env tk entry =
     (if de_payload_size entry < 9 then Some (tk, [Out_Free (de_packet_buf entry)])
      else do {
        payload \<leftarrow> de_payload entry;
        zero_a \<leftarrow> load16be payload 6;
        data_type \<leftarrow> load8 payload 8;
        let (tk, outs) =
          (if data_type \<notin> {CHIAKI_TAKION_MESSAGE_DATA_TYPE_PROTOBUF, CHIAKI_TAKION_MESSAGE_DATA_TYPE_RUMBLE,
               CHIAKI_TAKION_MESSAGE_DATA_TYPE_TRIGGER_EFFECTS, CHIAKI_TAKION_MESSAGE_DATA_TYPE_9} then (tk, [])
           else takion_call_cb env (TE_DATA data_type (take (de_payload_size entry - 9) (drop 9 payload))) tk);
        Some (tk, outs @ [Out_Free (de_packet_buf entry)]) })"

lemma pull_count: "chiaki_reorder_queue_pull q = Some (q', Some x) \<Longrightarrow> rq_count q' < rq_count q"
  by (auto simp: chiaki_reorder_queue_pull_def Let_def split: if_splits)

lemma flush_entry_queue:
  "takion_flush_entry env tk entry = Some (tk', outs) \<Longrightarrow> data_queue tk' = data_queue tk \<and> postponed_packets tk' = postponed_packets tk"
  by (auto simp: takion_flush_entry_def takion_call_cb_def takion_shared_def bind_eq_Some_conv split: if_splits prod.splits)

text \<open>The loop: the state, \<open>seq_num\<close>, \<open>ack\<close> and the outputs.\<close>

function takion_flush_loop :: "takion_env \<Rightarrow> takion \<Rightarrow> u64 \<Rightarrow> bool \<Rightarrow> (takion \<times> u64 \<times> bool \<times> takion_out list) option" where
  "takion_flush_loop env tk seq_num ack =
     (case chiaki_reorder_queue_pull (data_queue tk) of
        None \<Rightarrow> None
      | Some (q, None) \<Rightarrow> Some (tk\<lparr>data_queue := q\<rparr>, seq_num, ack, [])
      | Some (q, Some (seq_num, entry)) \<Rightarrow>
          (case takion_flush_entry env (tk\<lparr>data_queue := q\<rparr>) entry of
             None \<Rightarrow> None
           | Some (tk, outs) \<Rightarrow> map_option (\<lambda>(tk, seq_num, ack, outs'). (tk, seq_num, ack, outs @ outs')) (takion_flush_loop env tk seq_num True)))"
  by pat_completeness auto
termination
  by (relation "measure (\<lambda>(env, tk, _). rq_count (data_queue tk))") (auto dest!: flush_entry_queue pull_count)

declare takion_flush_loop.simps [simp del]

definition takion_flush_data_queue :: "takion_env \<Rightarrow> takion \<Rightarrow> (takion \<times> takion_out list) option" where
  "takion_flush_data_queue env tk = do {
     (tk, seq_num, ack, outs) \<leftarrow> takion_flush_loop env tk 0 False;
     if ack then do {
       (_, tk, outs') \<leftarrow> chiaki_takion_send_message_data_ack env tk (ucast seq_num);
       Some (tk, outs @ outs') }
     else Some (tk, outs) }"

definition takion_data_drop :: "u64 \<times> data_packet_entry \<Rightarrow> takion_out" where
  "takion_data_drop d = Out_Free (de_packet_buf (snd d))"

text \<open>A message that is too short or for which there is no memory is not freed.\<close>

definition takion_handle_packet_message_data ::
  "takion_env \<Rightarrow> takion \<Rightarrow> bytes \<Rightarrow> u8 \<Rightarrow> bytes option \<Rightarrow> nat \<Rightarrow> (takion \<times> takion_out list) option" where
  "takion_handle_packet_message_data env tk packet_buf type_b payload payload_size =
     (if payload_size < 9 then Some (tk, [])
      else if \<not> te_alloc env then Some (tk, [])
      else do {
        pl \<leftarrow> payload;
        channel \<leftarrow> load16be pl 4;
        seq_num \<leftarrow> load32be pl 0;
        let entry = \<lparr>de_packet_buf = packet_buf, de_type_b = type_b, de_payload = payload, de_payload_size = payload_size,
          de_channel = channel\<rparr>;
        (q, drops) \<leftarrow> chiaki_reorder_queue_push (data_queue tk) (ucast seq_num) entry;
        (tk, outs) \<leftarrow> takion_flush_data_queue env (tk\<lparr>data_queue := q\<rparr>);
        Some (tk, map takion_data_drop drops @ outs) })"

text \<open>The callback of an acknowledgement is called without a check that there is one.\<close>

fun takion_ack_events :: "takion_env \<Rightarrow> u32 list \<Rightarrow> takion \<Rightarrow> (takion \<times> takion_out list) option" where
  "takion_ack_events env [] tk = Some (tk, [])"
| "takion_ack_events env (n # ns) tk =
     (if \<not> tk_has_cb tk then None
      else let (tk, outs) = takion_call_cb env (TE_DATA_ACK n) tk
        in map_option (\<lambda>(tk, outs'). (tk, outs @ outs')) (takion_ack_events env ns tk))"

definition takion_handle_packet_message_data_ack ::
  "takion_env \<Rightarrow> takion \<Rightarrow> bytes option \<Rightarrow> nat \<Rightarrow> (takion \<times> takion_out list) option" where
  "takion_handle_packet_message_data_ack env tk payload payload_size =
     (if payload_size \<noteq> 0xc then Some (tk, [])
      else do {
        buf \<leftarrow> payload;
        cumulative_seq_num \<leftarrow> load32be buf 0;
        a_rwnd \<leftarrow> load32be buf 4;
        gap_ack_blocks_count \<leftarrow> load16be buf 8;
        dup_tsns_count \<leftarrow> load16be buf 0xa;
        if payload_size \<noteq> unat gap_ack_blocks_count * 4 + 0xc then Some (tk, [])
        else do {
          (_, sb, acked, freed) \<leftarrow> chiaki_takion_send_buffer_ack (te_sb_lock env) cumulative_seq_num (Some TAKION_SEND_BUFFER_SIZE) (tk_send_buffer tk);
          (tk, outs) \<leftarrow> takion_ack_events env acked (tk\<lparr>tk_send_buffer := sb\<rparr>);
          Some (tk, map Out_Free freed @ outs) } })"

definition takion_handle_packet_message :: "takion_env \<Rightarrow> takion \<Rightarrow> bytes \<Rightarrow> (takion \<times> takion_out list) option" where
  "takion_handle_packet_message env tk buf = do {
     (err, msg, ks) \<leftarrow> takion_parse_message (tag_local tk) (tk_key_state tk) (drop 1 buf);
     let tk = tk\<lparr>tk_key_state := ks\<rparr>;
     if err \<noteq> CHIAKI_ERR_SUCCESS then Some (tk, [Out_Free buf])
     else do {
       msg \<leftarrow> msg;
       if msg_chunk_type msg = TAKION_CHUNK_TYPE_DATA
       then takion_handle_packet_message_data env tk buf (msg_chunk_flags msg) (msg_payload msg) (msg_payload_size msg)
       else if msg_chunk_type msg = TAKION_CHUNK_TYPE_DATA_ACK
       then map_option (\<lambda>(tk, outs). (tk, outs @ [Out_Free buf]))
         (takion_handle_packet_message_data_ack env tk (msg_payload msg) (msg_payload_size msg))
       else Some (tk, [Out_Free buf]) } }"

definition takion_handle_packet :: "takion_env \<Rightarrow> takion \<Rightarrow> bytes \<Rightarrow> (takion \<times> takion_out list) option" where
  "takion_handle_packet env tk buf =
     (if buf = [] then None
      else let base_type = takion_base_type (buf ! 0) in do {
        (err, buf, tk) \<leftarrow> takion_handle_packet_mac (te_crypto env) tk buf;
        if err \<noteq> CHIAKI_ERR_SUCCESS then Some (tk, [Out_Free buf])
        else if base_type = TAKION_PACKET_TYPE_CONTROL then takion_handle_packet_message env tk buf
        else if base_type = TAKION_PACKET_TYPE_VIDEO \<or> base_type = TAKION_PACKET_TYPE_AUDIO then
          (if tk_enable_crypt tk \<and> gkcrypt_remote tk = None then Some (takion_postpone_packet (te_alloc env) tk buf, [])
           else map_option (\<lambda>(tk, outs). (tk, outs @ [Out_Free buf])) (takion_handle_packet_av env tk buf))
        else Some (tk, [Out_Free buf]) })"

section \<open>The thread\<close>

text \<open>
  One receive: what \<open>select\<close> on the stop pipe and the socket returns, what \<open>recv\<close> returns (\<open>None\<close>: an error)
  and the size of the buffer. The result is the error code and the datagram, cut off at the size.
\<close>

definition takion_recv :: "ChiakiErrorCode \<Rightarrow> bytes option \<Rightarrow> nat \<Rightarrow> ChiakiErrorCode \<times> bytes" where
  "takion_recv select_r recv_r buf_size =
     (if select_r \<noteq> CHIAKI_ERR_SUCCESS then (select_r, [])
      else case recv_r of
        None \<Rightarrow> (CHIAKI_ERR_NETWORK, [])
      | Some d \<Rightarrow> if d = [] then (CHIAKI_ERR_NETWORK, []) else (CHIAKI_ERR_SUCCESS, take buf_size d))"

definition takion_send_message_init :: "takion_env \<Rightarrow> takion \<Rightarrow> takion_payload_init \<Rightarrow> ChiakiErrorCode \<times> takion_out list" where
  "takion_send_message_init env tk payload = chiaki_takion_send_raw env (takion_init_message (tag_remote tk) payload)"

definition takion_send_message_cookie :: "takion_env \<Rightarrow> takion \<Rightarrow> bytes \<Rightarrow> ChiakiErrorCode \<times> takion_out list" where
  "takion_send_message_cookie env tk cookie = chiaki_takion_send_raw env (takion_cookie_message (tag_remote tk) cookie)"

text \<open>The message that answers during the handshake: its size, type and flags are checked before its payload is looked at.\<close>

definition takion_recv_expected ::
  "takion \<Rightarrow> ChiakiErrorCode \<Rightarrow> bytes option \<Rightarrow> nat \<Rightarrow> u8 \<Rightarrow> (ChiakiErrorCode \<times> takion_message option \<times> takion) option" where
  "takion_recv_expected tk select_r recv_r expected_size chunk_type =
     (case takion_recv select_r recv_r expected_size of (err, message) \<Rightarrow>
        if err \<noteq> CHIAKI_ERR_SUCCESS then Some (err, None, tk)
        else if length message < expected_size then Some (CHIAKI_ERR_INVALID_RESPONSE, None, tk)
        else if message ! 0 \<noteq> TAKION_PACKET_TYPE_CONTROL then Some (CHIAKI_ERR_INVALID_RESPONSE, None, tk)
        else do {
          (err, msg, ks) \<leftarrow> takion_parse_message (tag_local tk) (tk_key_state tk) (drop 1 message);
          let tk = tk\<lparr>tk_key_state := ks\<rparr>;
          if err \<noteq> CHIAKI_ERR_SUCCESS then Some (CHIAKI_ERR_INVALID_RESPONSE, None, tk)
          else do {
            msg \<leftarrow> msg;
            if msg_chunk_type msg \<noteq> chunk_type \<or> msg_chunk_flags msg \<noteq> 0
            then Some (CHIAKI_ERR_INVALID_RESPONSE, None, tk)
            else Some (CHIAKI_ERR_SUCCESS, Some msg, tk) } })"

definition takion_recv_message_init_ack ::
  "takion \<Rightarrow> ChiakiErrorCode \<Rightarrow> bytes option \<Rightarrow> (ChiakiErrorCode \<times> takion_payload_init_ack option \<times> takion) option" where
  "takion_recv_message_init_ack tk select_r recv_r = do {
     (err, msg, tk) \<leftarrow> takion_recv_expected tk select_r recv_r (1 + TAKION_MESSAGE_HEADER_SIZE + 0x10 + TAKION_COOKIE_SIZE) TAKION_CHUNK_TYPE_INIT_ACK;
     if err \<noteq> CHIAKI_ERR_SUCCESS then Some (err, None, tk)
     else do {
       msg \<leftarrow> msg;
       if msg_payload_size msg \<noteq> 0x10 + TAKION_COOKIE_SIZE then None
       else do {
         pl \<leftarrow> msg_payload msg;
         payload \<leftarrow> takion_parse_init_ack_payload pl;
         Some (CHIAKI_ERR_SUCCESS, Some payload, tk) } } }"

definition takion_recv_message_cookie_ack ::
  "takion \<Rightarrow> ChiakiErrorCode \<Rightarrow> bytes option \<Rightarrow> (ChiakiErrorCode \<times> takion) option" where
  "takion_recv_message_cookie_ack tk select_r recv_r = do {
     (err, msg, tk) \<leftarrow> takion_recv_expected tk select_r recv_r (1 + TAKION_MESSAGE_HEADER_SIZE) TAKION_CHUNK_TYPE_COOKIE_ACK;
     if err \<noteq> CHIAKI_ERR_SUCCESS then Some (err, tk)
     else do {
       msg \<leftarrow> msg;
       if msg_payload_size msg \<noteq> 0 then None else Some (CHIAKI_ERR_SUCCESS, tk) } }"

text \<open>The error code, \<open>*seq_num_remote_initial\<close>, the state and the outputs; the inputs are the two receives.\<close>

definition takion_handshake ::
  "takion_env \<Rightarrow> takion \<Rightarrow> ChiakiErrorCode \<times> bytes option \<Rightarrow> ChiakiErrorCode \<times> bytes option \<Rightarrow>
   (ChiakiErrorCode \<times> u32 \<times> takion \<times> takion_out list) option" where
  "takion_handshake env tk recv1 recv2 =
     (let (err, outs) = takion_send_message_init env tk \<lparr>init_tag = tag_local tk, init_a_rwnd = TAKION_A_RWND,
             init_outbound_streams = TAKION_OUTBOUND_STREAMS, init_inbound_streams = TAKION_INBOUND_STREAMS, init_initial_seq_num = seq_num_local tk\<rparr>
      in if err \<noteq> CHIAKI_ERR_SUCCESS then Some (err, 0, tk, outs)
         else do {
           (err, payload, tk) \<leftarrow> takion_recv_message_init_ack tk (fst recv1) (snd recv1);
           if err \<noteq> CHIAKI_ERR_SUCCESS then Some (err, 0, tk, outs)
           else do {
             payload \<leftarrow> payload;
             if init_tag payload = 0 then Some (CHIAKI_ERR_INVALID_RESPONSE, 0, tk, outs)
             else let tk = tk\<lparr>tag_remote := init_tag payload\<rparr>; seq_num_remote_initial = init_tag payload
               in if init_outbound_streams payload = 0 \<or> init_inbound_streams payload = 0 \<or>
                     init_outbound_streams payload > TAKION_INBOUND_STREAMS \<or> init_inbound_streams payload < TAKION_OUTBOUND_STREAMS
                  then Some (CHIAKI_ERR_INVALID_RESPONSE, seq_num_remote_initial, tk, outs)
                  else let (err, outs') = takion_send_message_cookie env tk (init_cookie payload)
                    in if err \<noteq> CHIAKI_ERR_SUCCESS then Some (err, seq_num_remote_initial, tk, outs @ outs')
                       else map_option (\<lambda>(err, tk). (err, seq_num_remote_initial, tk, outs @ outs'))
                         (takion_recv_message_cookie_ack tk (fst recv2) (snd recv2)) } })"

text \<open>
  The check of the codes of the packets in the queue when the keys arrive. \<open>peek\<close> gets a null pointer for the sequence number. One
  packet, whose buffer then holds the code that was computed, and the loop.
\<close>

definition takion_recheck_packet :: "crypto \<Rightarrow> takion \<Rightarrow> nat \<Rightarrow> u64 \<Rightarrow> data_packet_entry \<Rightarrow> (takion \<times> takion_out list) option" where
  "takion_recheck_packet cr tk i seq_num packet =
     (if de_packet_buf packet = [] then Some (tk, [])
      else do {
        (err, buf, tk) \<leftarrow> takion_handle_packet_mac cr tk (de_packet_buf packet);
        let q = data_queue tk;
        let q = q\<lparr>rq_queue := (rq_queue q)[rq_idx q seq_num := (rq_entry_at q seq_num)\<lparr>entry_user := packet\<lparr>de_packet_buf := buf\<rparr>\<rparr>]\<rparr>;
        if err \<noteq> CHIAKI_ERR_SUCCESS
        then (let (q, drops) = chiaki_reorder_queue_drop q i in Some (tk\<lparr>data_queue := q\<rparr>, map takion_data_drop drops))
        else Some (tk\<lparr>data_queue := q\<rparr>, []) })"

lemma handle_mac_state:
  "takion_handle_packet_mac cr tk buf = Some (err, buf', tk') \<Longrightarrow>
   tk' = tk\<lparr>gkcrypt_remote := gkcrypt_remote tk', tk_key_state := tk_key_state tk'\<rparr>"
  by (cases tk) (auto simp: takion_handle_packet_mac_def Let_def bind_eq_Some_conv split: option.splits if_splits prod.splits)

lemma handle_mac_fields:
  assumes "takion_handle_packet_mac cr tk buf = Some (err, buf', tk')"
  shows "data_queue tk' = data_queue tk" "postponed_packets tk' = postponed_packets tk" "tk_has_cb tk' = tk_has_cb tk"
    "tag_local tk' = tag_local tk" "tk_enable_crypt tk' = tk_enable_crypt tk"
  by (subst handle_mac_state [OF assms], simp)+

lemma rq_drop_id: "fst (chiaki_reorder_queue_drop q index) = q"
  by (auto simp: chiaki_reorder_queue_drop_def Let_def rq_shrink.simps rq_entry_at_def)

lemma rq_drop_eq: "chiaki_reorder_queue_drop q index = (q', d) \<Longrightarrow> q' = q"
  by (metis fst_conv rq_drop_id)

lemma recheck_packet_count:
  "takion_recheck_packet cr tk i s p = Some (tk', outs) \<Longrightarrow> rq_count (data_queue tk') = rq_count (data_queue tk)"
  by (auto simp: takion_recheck_packet_def Let_def bind_eq_Some_conv handle_mac_fields dest!: rq_drop_eq split: if_splits prod.splits)

function takion_recheck :: "crypto \<Rightarrow> takion \<Rightarrow> nat \<Rightarrow> (takion \<times> takion_out list) option" where
  "takion_recheck cr tk i =
     (if i < rq_count (data_queue tk) then
        (case chiaki_reorder_queue_peek (data_queue tk) True i of
           None \<Rightarrow> None
         | Some None \<Rightarrow> takion_recheck cr tk (i + 1)
         | Some (Some (seq_num, packet)) \<Rightarrow>
             (case takion_recheck_packet cr tk i seq_num packet of
                None \<Rightarrow> None
              | Some (tk, outs) \<Rightarrow> map_option (\<lambda>(tk, outs'). (tk, outs @ outs')) (takion_recheck cr tk (i + 1))))
      else Some (tk, []))"
  by pat_completeness auto
termination
  by (relation "measure (\<lambda>(cr, tk, i). rq_count (data_queue tk) - i)") (auto dest: recheck_packet_count)

declare takion_recheck.simps [simp del]

text \<open>The packets that were postponed: at most as many as the array has slots.\<close>

function takion_flush_postponed :: "takion_env \<Rightarrow> takion \<Rightarrow> nat \<Rightarrow> (takion \<times> takion_out list) option" where
  "takion_flush_postponed env tk i =
     (case postponed_packets tk of
        None \<Rightarrow> Some (tk, [])
      | Some ps \<Rightarrow>
          if \<not> i < length ps then Some (tk\<lparr>postponed_packets := None\<rparr>, [])
          else if \<not> i < TAKION_POSTPONE_PACKETS_SIZE then None
          else (case takion_handle_packet env tk (ps ! i) of
                  None \<Rightarrow> None
                | Some (tk, outs) \<Rightarrow> map_option (\<lambda>(tk, outs'). (tk, outs @ outs')) (takion_flush_postponed env tk (i + 1))))"
  by pat_completeness auto
termination
  by (relation "measure (\<lambda>(env, tk, i). TAKION_POSTPONE_PACKETS_SIZE - i)") auto

declare takion_flush_postponed.simps [simp del]

text \<open>
  What happens in one turn of the thread: what the platform returns, what the other threads do while it waits, and what it receives.
\<close>

record takion_input =
  ti_env :: takion_env
  ti_others :: "takion \<Rightarrow> takion"
  ti_select :: ChiakiErrorCode
  ti_recv :: "bytes option"
  ti_realloc :: bool

text \<open>One turn: whether the loop goes on, the state, \<open>crypt_available\<close> and the outputs.\<close>

definition takion_thread_turn :: "takion_input \<Rightarrow> takion \<Rightarrow> bool \<Rightarrow> (bool \<times> takion \<times> bool \<times> takion_out list) option" where
  "takion_thread_turn inp tk crypt_available =
     (let env = ti_env inp; recheck = (tk_enable_crypt tk \<and> \<not> crypt_available \<and> gkcrypt_remote tk \<noteq> None); crypt_available = (crypt_available \<or> recheck) in do {
       (tk, outs1) \<leftarrow> (if recheck then takion_recheck (te_crypto env) tk 0 else Some (tk, []));
       (tk, outs2) \<leftarrow> (if postponed_packets tk \<noteq> None \<and> gkcrypt_remote tk \<noteq> None then takion_flush_postponed env tk 0 else Some (tk, []));
       if \<not> te_alloc env then Some (False, tk, crypt_available, outs1 @ outs2)
       else
         let tk = takion_shared tk (ti_others inp tk);
             (err, buf) = takion_recv (ti_select inp) (ti_recv inp) 1500
         in if err \<noteq> CHIAKI_ERR_SUCCESS then Some (False, tk, crypt_available, outs1 @ outs2)
            else if \<not> ti_realloc inp then Some (True, tk, crypt_available, outs1 @ outs2)
            else do {
              (tk, outs3) \<leftarrow> takion_handle_packet env tk buf;
              Some (True, tk, crypt_available, outs1 @ outs2 @ outs3) } })"

text \<open>The turns for a list of inputs: whether the loop has ended, the state and the outputs.\<close>

fun takion_thread_loop :: "takion_input list \<Rightarrow> takion \<Rightarrow> bool \<Rightarrow> (bool \<times> takion \<times> takion_out list) option" where
  "takion_thread_loop [] tk crypt_available = Some (False, tk, [])"
| "takion_thread_loop (inp # inps) tk crypt_available = do {
     (go_on, tk, crypt_available, outs) \<leftarrow> takion_thread_turn inp tk crypt_available;
     if \<not> go_on then Some (True, tk, outs)
     else map_option (\<lambda>(ended, tk, outs'). (ended, tk, outs @ outs')) (takion_thread_loop inps tk crypt_available) }"

text \<open>What the calls at the start and the end of the thread return.\<close>

record thread_results =
  tr_recv1 :: "ChiakiErrorCode \<times> bytes option"
  tr_recv2 :: "ChiakiErrorCode \<times> bytes option"
  tr_queue_alloc :: bool
  tr_sb_alloc :: bool
  tr_sb_init :: "ChiakiErrorCode \<times> ChiakiErrorCode \<times> ChiakiErrorCode"
  tr_sb_fini :: "ChiakiErrorCode \<times> ChiakiErrorCode \<times> ChiakiErrorCode"

definition null_entry :: data_packet_entry where
  "null_entry = \<lparr>de_packet_buf = [], de_type_b = 0, de_payload = None, de_payload_size = 0, de_channel = 0\<rparr>"

text \<open>The end of the thread: the queue is torn down if it was set up, and the callback learns of the end.\<close>

definition takion_thread_end :: "takion_env \<Rightarrow> bool \<Rightarrow> takion \<Rightarrow> takion_out list \<Rightarrow> bool \<times> takion \<times> takion_out list" where
  "takion_thread_end env queue tk outs =
     (let drops = (if queue then map takion_data_drop (chiaki_reorder_queue_fini (data_queue tk)) else []);
          (tk, outs') = takion_call_cb env TE_DISCONNECT tk
      in (True, tk, outs @ drops @ outs'))"

definition takion_thread_func ::
  "takion_env \<Rightarrow> thread_results \<Rightarrow> takion_input list \<Rightarrow> takion \<Rightarrow> (bool \<times> takion \<times> takion_out list) option" where
  "takion_thread_func env r inps tk = do {
     (err, seq_num_remote_initial, tk, outs) \<leftarrow> takion_handshake env tk (tr_recv1 r) (tr_recv2 r);
     if err \<noteq> CHIAKI_ERR_SUCCESS then Some (takion_thread_end env False tk outs)
     else case chiaki_reorder_queue_init_32 (tr_queue_alloc r) null_entry TAKION_REORDER_QUEUE_SIZE_EXP seq_num_remote_initial of
       None \<Rightarrow> Some (takion_thread_end env False tk outs)
     | Some q \<Rightarrow>
         let tk = tk\<lparr>data_queue := chiaki_reorder_queue_set_drop_cb q True\<rparr>
         in case (case tr_sb_init r of (m, c, t) \<Rightarrow> snd (chiaki_takion_send_buffer_init TAKION_SEND_BUFFER_SIZE (tr_sb_alloc r) m c t)) of
              None \<Rightarrow> Some (takion_thread_end env True tk outs)
            | Some sb \<Rightarrow>
                let (tk, outs1) = takion_call_cb env TE_CONNECTED (tk\<lparr>tk_send_buffer := sb\<rparr>)
                in do {
                  (ended, tk, outs2) \<leftarrow> takion_thread_loop inps tk (gkcrypt_remote tk \<noteq> None);
                  if \<not> ended then Some (False, tk, outs @ outs1 @ outs2)
                  else do {
                    freed \<leftarrow> (case tr_sb_fini r of (l, s, j) \<Rightarrow> chiaki_takion_send_buffer_fini l s j (tk_send_buffer tk));
                    Some (takion_thread_end env True tk (outs @ outs1 @ outs2 @ map Out_Free freed)) } } }"

end
