(* ===== verification/Takion_Facts.thy ===== *)
theory Takion_Facts
  imports Takion
begin

text \<open>
  What the receiving side of Takion guarantees: the data messages reach the callback in the
  order of their sequence numbers, only authentic packets have an effect, what one end sends the other
  end delivers; and where it fails.
\<close>

section \<open>Delivered data\<close>

text \<open>The event for the payload of a data message.\<close>

definition takion_data_event :: "bytes \<Rightarrow> takion_event option" where
  "takion_data_event d =
     (if d ! 8 \<in> {CHIAKI_TAKION_MESSAGE_DATA_TYPE_PROTOBUF, CHIAKI_TAKION_MESSAGE_DATA_TYPE_RUMBLE,
        CHIAKI_TAKION_MESSAGE_DATA_TYPE_TRIGGER_EFFECTS, CHIAKI_TAKION_MESSAGE_DATA_TYPE_9}
      then Some (TE_DATA (d ! 8) (drop 9 d)) else None)"

fun data_out :: "takion_out \<Rightarrow> takion_event option" where
  "data_out (Out_Event (TE_DATA t b)) = Some (TE_DATA t b)"
| "data_out _ = None"

definition data_events :: "takion_out list \<Rightarrow> takion_event list" where
  "data_events outs = List.map_filter data_out outs"

text \<open>The callback does not report data on its own.\<close>

definition cb_quiet :: "takion_env \<Rightarrow> bool" where
  "cb_quiet env \<longleftrightarrow> (\<forall>ev tk. data_events (snd (te_cb env ev tk)) = [])"

lemma map_filter_append: "List.map_filter f (xs @ ys) = List.map_filter f xs @ List.map_filter f ys"
  by (simp add: List.map_filter_def)

lemma data_events_simps [simp]:
  "data_events [] = []" "data_events (x # xs) = opt_list (data_out x) @ data_events xs"
  "data_events (xs @ ys) = data_events xs @ data_events ys"
  by (simp_all add: data_events_def map_filter_append List.map_filter_simps split: option.split)

lemma data_events_free [simp]: "data_events (map Out_Free bs) = []" "data_events (map takion_data_drop ds) = []"
proof -
  show "data_events (map Out_Free bs) = []" by (induction bs) simp_all
  show "data_events (map takion_data_drop ds) = []" by (induction ds) (simp_all add: takion_data_drop_def)
qed

lemma call_cb_other:
  "cb_quiet env \<Longrightarrow> takion_call_cb env ev tk = (tk', outs) \<Longrightarrow> data_out (Out_Event ev) = None \<Longrightarrow> data_events outs = []"
  by (auto simp: takion_call_cb_def cb_quiet_def split: if_splits prod.splits) (metis snd_conv)

lemma call_cb_data:
  "cb_quiet env \<Longrightarrow> tk_has_cb tk \<Longrightarrow> takion_call_cb env (TE_DATA t b) tk = (tk', outs) \<Longrightarrow> data_events outs = [TE_DATA t b]"
  by (auto simp: takion_call_cb_def cb_quiet_def split: if_splits prod.splits) (metis snd_conv)

text \<open>What stays as it is while the callback and the sending side work.\<close>

definition same_receiver :: "takion \<Rightarrow> takion \<Rightarrow> bool" where
  "same_receiver tk tk' \<longleftrightarrow> data_queue tk' = data_queue tk \<and> postponed_packets tk' = postponed_packets tk \<and>
     tk_has_cb tk' = tk_has_cb tk \<and> tag_local tk' = tag_local tk \<and> tk_enable_crypt tk' = tk_enable_crypt tk"

lemma same_receiver_refl [simp]: "same_receiver tk tk"
  by (simp add: same_receiver_def)

lemma same_receiver_trans: "same_receiver a b \<Longrightarrow> same_receiver b c \<Longrightarrow> same_receiver a c"
  by (simp add: same_receiver_def)

lemma same_receiver_shared [simp]: "same_receiver tk (takion_shared tk tk')"
  by (simp add: same_receiver_def takion_shared_def)

lemma call_cb_receiver: "takion_call_cb env ev tk = (tk', outs) \<Longrightarrow> same_receiver tk tk'"
  by (auto simp: takion_call_cb_def split: if_splits prod.splits)

lemma send_quiet:
  "chiaki_takion_send env tk buf kp = Some (err, buf', tk', outs) \<Longrightarrow> data_events outs = [] \<and> same_receiver tk tk'"
  by (auto simp: chiaki_takion_send_def chiaki_takion_send_raw_def Let_def bind_eq_Some_conv same_receiver_def split: if_splits prod.splits)

lemma advance_receiver:
  "chiaki_takion_crypt_advance_key_pos env tk n = (err, kp, tk') \<Longrightarrow> same_receiver tk tk'"
  by (auto simp: chiaki_takion_crypt_advance_key_pos_def Let_def same_receiver_def split: if_splits)

lemma send_data_ack_quiet:
  "chiaki_takion_send_message_data_ack env tk n = Some (err, tk', outs) \<Longrightarrow> data_events outs = [] \<and> same_receiver tk tk'"
  by (auto simp: chiaki_takion_send_message_data_ack_def split: if_splits prod.splits
      dest!: send_quiet advance_receiver intro: same_receiver_trans)

section \<open>In-order delivery\<close>

text \<open>An entry of the queue: the payload of a received datagram whose sequence number is the one it is filed under.\<close>

definition entry_ok :: "bytes set \<Rightarrow> u64 \<Rightarrow> data_packet_entry \<Rightarrow> bool" where
  "entry_ok R s u \<longleftrightarrow> (\<exists>d \<in> R. \<exists>n. de_payload u = Some d \<and> de_payload_size u = length d \<and> 9 \<le> length d \<and>
     load32be d 0 = Some n \<and> s = ucast n)"

definition rq_elems :: "'u reorder_queue \<Rightarrow> (u64 \<times> 'u) set" where
  "rq_elems q = set (win_elems 32 (rq_begin q) (rq_window q))"

definition receiver_inv :: "bytes set \<Rightarrow> u32 \<Rightarrow> nat \<Rightarrow> takion \<Rightarrow> bool" where
  "receiver_inv R start n tk \<longleftrightarrow>
     rq32_inv (data_queue tk) \<and> rq_drop_strategy (data_queue tk) = CHIAKI_REORDER_QUEUE_DROP_STRATEGY_END \<and>
     rq_size_exp (data_queue tk) = TAKION_REORDER_QUEUE_SIZE_EXP \<and> rq_begin (data_queue tk) = seq_at 32 (ucast start) n \<and>
     (\<forall>x \<in> rq_elems (data_queue tk). entry_ok R (fst x) (snd x)) \<and>
     (\<forall>ps. postponed_packets tk = Some ps \<longrightarrow> (\<forall>p \<in> set ps. drop 17 p \<in> R)) \<and> tk_has_cb tk"

lemma receiver_inv_queue:
  "receiver_inv R start n tk \<Longrightarrow> rq32_inv q \<Longrightarrow> rq_drop_strategy q = rq_drop_strategy (data_queue tk) \<Longrightarrow>
   rq_size_exp q = rq_size_exp (data_queue tk) \<Longrightarrow> rq_begin q = seq_at 32 (ucast start) n' \<Longrightarrow>
   \<forall>x \<in> rq_elems q. entry_ok R (fst x) (snd x) \<Longrightarrow> receiver_inv R start n' (tk\<lparr>data_queue := q\<rparr>)"
  by (simp add: receiver_inv_def)

lemma receiver_inv_same: "same_receiver tk tk' \<Longrightarrow> receiver_inv R start n tk' = receiver_inv R start n tk"
  by (simp add: same_receiver_def receiver_inv_def)

text \<open>The outputs hand out the payloads \<open>ds\<close>, whose sequence numbers follow on \<open>start + n\<close>.\<close>

definition delivers :: "bytes set \<Rightarrow> u32 \<Rightarrow> nat \<Rightarrow> bytes list \<Rightarrow> takion_out list \<Rightarrow> bool" where
  "delivers R start n ds outs \<longleftrightarrow> set ds \<subseteq> R \<and>
     (\<forall>k < length ds. 9 \<le> length (ds ! k) \<and> load32be (ds ! k) 0 = Some (start + of_nat (n + k))) \<and>
     data_events outs = List.map_filter takion_data_event ds"

lemma delivers_nil: "data_events outs = [] \<Longrightarrow> delivers R start n [] outs"
  by (simp add: delivers_def List.map_filter_def)

lemma delivers_append:
  "delivers R start n ds outs \<Longrightarrow> delivers R start (n + length ds) ds' outs' \<Longrightarrow> delivers R start n (ds @ ds') (outs @ outs')"
proof -
  assume a: "delivers R start n ds outs" and b: "delivers R start (n + length ds) ds' outs'"
  have "9 \<le> length ((ds @ ds') ! k) \<and> load32be ((ds @ ds') ! k) 0 = Some (start + of_nat (n + k))" if "k < length (ds @ ds')" for k
  proof (cases "k < length ds")
    case True
    with a show ?thesis by (simp add: delivers_def nth_append)
  next
    case False
    with that have "k - length ds < length ds'" "n + length ds + (k - length ds) = n + k" by auto
    with b False show ?thesis by (auto simp: delivers_def nth_append)
  qed
  with a b show ?thesis by (auto simp: delivers_def map_filter_append)
qed

lemma delivers_quiet: "delivers R start n ds outs \<Longrightarrow> data_events outs' = [] \<Longrightarrow> delivers R start n ds (outs @ outs')"
  "delivers R start n ds outs \<Longrightarrow> data_events outs' = [] \<Longrightarrow> delivers R start n ds (outs' @ outs)"
  by (simp_all add: delivers_def)

lemma seq_at_word: "ucast (m :: u32) = seq_at 32 (ucast start) n \<Longrightarrow> m = start + of_nat n"
proof -
  assume "ucast m = seq_at 32 (ucast start) n"
  then have "unat (ucast m :: u64) = unat (seq_at 32 (ucast start) n)" by simp
  then have "unat m = (unat start + n) mod 2 ^ 32" by simp
  also have "\<dots> = unat (start + of_nat n)" by (simp add: unat_word_ariths unsigned_of_nat take_bit_eq_mod mod_simps)
  finally show ?thesis by (simp add: word_unat_eq_iff)
qed

lemma flush_entry_delivers:
  assumes "takion_flush_entry env tk u = Some (tk', outs)" "entry_ok R (seq_at 32 (ucast start) n) u" "cb_quiet env" "tk_has_cb tk"
  shows "same_receiver tk tk' \<and> (\<exists>d. delivers R start n [d] outs)"
proof -
  from assms(2) obtain d m where d: "d \<in> R" "de_payload u = Some d" "de_payload_size u = length d" "9 \<le> length d"
    "load32be d 0 = Some m" "seq_at 32 (ucast start) n = ucast m" by (auto simp: entry_ok_def)
  have m: "m = start + of_nat n" using seq_at_word d(6) by metis
  have l: "load8 d 8 = Some (d ! 8)" using d(4) by (simp add: load8_def)
  obtain z where z: "load16be d 6 = Some z" using load16be_defined [of 6 d] d(4) by auto
  have "same_receiver tk tk' \<and> data_events outs = opt_list (takion_data_event d)"
    using assms(1,3,4) d(2-4) l z call_cb_data [OF assms(3,4)] call_cb_receiver
    by (auto simp: takion_flush_entry_def takion_data_event_def split: if_splits prod.splits)
  with d m show ?thesis
    by (auto simp: delivers_def List.map_filter_simps split: option.split intro!: exI [of _ d])
qed

lemma flush_loop_delivers:
  assumes "takion_flush_loop env tk s a = Some (tk', s', a', outs)" "receiver_inv R start n tk" "cb_quiet env"
  shows "\<exists>ds. delivers R start n ds outs \<and> receiver_inv R start (n + length ds) tk'"
  using assms
proof (induction env tk s a arbitrary: n outs rule: takion_flush_loop.induct)
  case (1 env tk s a)
  let ?q = "data_queue tk" and ?b = "rq_begin (data_queue tk)"
  have inv: "rq_inv 32 seq_num_32_gt seq_num_32_lt seq_num_32_add ?q" using "1.prems"(2) by (simp add: receiver_inv_def rq32_inv_def)
  from rq32.rq_pull_window [OF inv] obtain q' r where p: "chiaki_reorder_queue_pull ?q = Some (q', r)"
    "win_pull 32 (?b, rq_window ?q) = ((rq_begin q', rq_window q'), r)" "rq32_inv q'" "rq_size_exp q' = rq_size_exp ?q"
    "rq_drop_strategy q' = rq_drop_strategy ?q" by (auto simp: rq32_inv_def)
  have b: "unat ?b < 2 ^ 32" using inv by (simp add: rq_inv_def)
  note c = rq32.win_pull_conserves [OF p(2) b]
  show ?case
  proof (cases r)
    case None
    then have w: "rq_elems q' = rq_elems ?q" "rq_begin q' = ?b"
      using arg_cong [OF c(1), of set_mset] c(2) by (simp_all add: rq_elems_def)
    have "receiver_inv R start n (tk\<lparr>data_queue := q'\<rparr>)"
      by (rule receiver_inv_queue [OF "1.prems"(2) p(3,5,4)]) (use "1.prems"(2) w in \<open>simp_all add: receiver_inv_def\<close>)
    with "1.prems"(1) show ?thesis
      using None p(1) by (subst (asm) takion_flush_loop.simps) (auto intro!: exI [of _ "[]"] delivers_nil)
  next
    case (Some su)
    obtain s1 u where su: "su = (s1, u)" by fastforce
    have e: "s1 = ?b" "rq_begin q' = seq_at 32 ?b 1" using c(3) Some su by auto
    have sub: "insert (s1, u) (rq_elems q') = rq_elems ?q"
      using arg_cong [OF c(1), of set_mset] Some su by (simp add: rq_elems_def)
    have n: "?b = seq_at 32 (ucast start) n" and all: "\<forall>x \<in> rq_elems ?q. entry_ok R (fst x) (snd x)"
      using "1.prems"(2) by (simp_all add: receiver_inv_def)
    have q: "receiver_inv R start (Suc n) (tk\<lparr>data_queue := q'\<rparr>)"
      by (rule receiver_inv_queue [OF "1.prems"(2) p(3,5,4)]) (use e n all sub in auto)
    have ok: "entry_ok R (seq_at 32 (ucast start) n) u" using all sub e n by fastforce
    from "1.prems"(1) obtain tk1 outs1 outs2 where f: "takion_flush_entry env (tk\<lparr>data_queue := q'\<rparr>) u = Some (tk1, outs1)"
      "takion_flush_loop env tk1 s1 True = Some (tk', s', a', outs2)" "outs = outs1 @ outs2"
      by (subst (asm) takion_flush_loop.simps) (auto simp: p(1) Some su split: option.splits)
    from flush_entry_delivers [OF f(1) ok "1.prems"(3)] q obtain d where d: "same_receiver (tk\<lparr>data_queue := q'\<rparr>) tk1" "delivers R start n [d] outs1"
      by (auto simp: receiver_inv_def)
    have "receiver_inv R start (Suc n) tk1" using receiver_inv_same [OF d(1)] q by simp
    from "1.IH" [OF p(1) refl Some su [symmetric] f(1) refl f(2) this "1.prems"(3)] obtain ds where
      "delivers R start (Suc n) ds outs2" "receiver_inv R start (Suc n + length ds) tk'" by blast
    with delivers_append [OF d(2), of ds outs2] f(3) show ?thesis by (intro exI [of _ "d # ds"]) simp
  qed
qed

lemma flush_queue_delivers:
  assumes "takion_flush_data_queue env tk = Some (tk', outs)" "receiver_inv R start n tk" "cb_quiet env"
  shows "\<exists>ds. delivers R start n ds outs \<and> receiver_inv R start (n + length ds) tk'"
proof -
  from assms(1) obtain tk1 s a outs1 where f: "takion_flush_loop env tk 0 False = Some (tk1, s, a, outs1)"
    and r: "if a then \<exists>err outs2. chiaki_takion_send_message_data_ack env tk1 (ucast s) = Some (err, tk', outs2) \<and> outs = outs1 @ outs2
            else tk' = tk1 \<and> outs = outs1"
    by (auto simp: takion_flush_data_queue_def bind_eq_Some_conv split: if_splits)
  from flush_loop_delivers [OF f assms(2,3)] obtain ds where ds: "delivers R start n ds outs1" "receiver_inv R start (n + length ds) tk1" by blast
  show ?thesis
  proof (cases a)
    case True
    with r obtain err outs2 where 2: "chiaki_takion_send_message_data_ack env tk1 (ucast s) = Some (err, tk', outs2)" "outs = outs1 @ outs2" by auto
    from send_data_ack_quiet [OF 2(1)] have "data_events outs2 = []" "same_receiver tk1 tk'" by simp_all
    with ds 2(2) show ?thesis using delivers_quiet(1) [OF ds(1)] receiver_inv_same by metis
  next
    case False
    with r ds show ?thesis by auto
  qed
qed

lemma push_entries:
  assumes "rq32_inv q" "rq_drop_strategy q = CHIAKI_REORDER_QUEUE_DROP_STRATEGY_END" "0 < rq_size_exp q" "unat s < 2 ^ 32"
    and "chiaki_reorder_queue_push q s u = Some (q', dr)"
  shows "rq32_inv q' \<and> rq_drop_strategy q' = CHIAKI_REORDER_QUEUE_DROP_STRATEGY_END \<and> rq_size_exp q' = rq_size_exp q \<and>
     rq_begin q' = rq_begin q \<and>
     rq_elems q' \<subseteq> insert (s, u) (rq_elems q)"
proof -
  have inv: "rq_inv 32 seq_num_32_gt seq_num_32_lt seq_num_32_add q" using assms(1) by (simp add: rq32_inv_def)
  have b: "unat (rq_begin q) < 2 ^ 32" using inv by (simp add: rq_inv_def)
  from rq32.rq_push_window_END [OF inv assms(4,2,3,5)] obtain dr' where
    w: "win_push 32 (2 ^ rq_size_exp q) CHIAKI_REORDER_QUEUE_DROP_STRATEGY_END (rq_begin q, rq_window q) s u = ((rq_begin q', rq_window q'), dr')"
      "rq_inv 32 seq_num_32_gt seq_num_32_lt seq_num_32_add q'" "rq_size_exp q' = rq_size_exp q"
      "rq_drop_strategy q' = CHIAKI_REORDER_QUEUE_DROP_STRATEGY_END" by blast
  note c = rq32.win_push_END_conserves [OF w(1) b assms(4)]
  have "set (win_elems 32 (rq_begin q) (rq_window q')) \<subseteq> insert (s, u) (set (win_elems 32 (rq_begin q) (rq_window q)))"
    using arg_cong [OF c(2), of set_mset] by auto
  with w c(1) show ?thesis by (simp add: rq32_inv_def rq_elems_def)
qed

lemma message_data_delivers:
  assumes "takion_handle_packet_message_data env tk buf tb payload sz = Some (tk', outs)" "receiver_inv R start n tk" "cb_quiet env"
    and "\<forall>pl. payload = Some pl \<longrightarrow> pl \<in> R \<and> sz = length pl"
  shows "\<exists>ds. delivers R start n ds outs \<and> receiver_inv R start (n + length ds) tk'"
proof (cases "sz < 9 \<or> \<not> te_alloc env")
  case True
  with assms show ?thesis
    by (auto simp: takion_handle_packet_message_data_def split: if_splits intro!: exI [of _ "[]"] delivers_nil)
next
  case False
  with assms(1) obtain pl ch s q dr outs2 where h: "payload = Some pl" "load16be pl 4 = Some ch" "load32be pl 0 = Some s"
    "chiaki_reorder_queue_push (data_queue tk) (ucast s) \<lparr>de_packet_buf = buf, de_type_b = tb, de_payload = payload, de_payload_size = sz,
       de_channel = ch\<rparr> = Some (q, dr)"
    "takion_flush_data_queue env (tk\<lparr>data_queue := q\<rparr>) = Some (tk', outs2)" "outs = map takion_data_drop dr @ outs2"
    by (auto simp: takion_handle_packet_message_data_def Let_def bind_eq_Some_conv)
  let ?e = "\<lparr>de_packet_buf = buf, de_type_b = tb, de_payload = payload, de_payload_size = sz, de_channel = ch\<rparr>"
  have ok: "entry_ok R (ucast s) ?e" using assms(4) h(1,3) False by (auto simp: entry_ok_def)
  have "unat (ucast s :: u64) < 2 ^ 32" using unsigned_less [of s] by simp
  with push_entries [OF _ _ _ _ h(4)] assms(2) have q: "rq32_inv q \<and> rq_drop_strategy q = CHIAKI_REORDER_QUEUE_DROP_STRATEGY_END \<and>
     rq_size_exp q = rq_size_exp (data_queue tk) \<and> rq_begin q = rq_begin (data_queue tk) \<and>
     rq_elems q \<subseteq> insert (ucast s, ?e) (rq_elems (data_queue tk))"
    by (simp add: receiver_inv_def)
  have "receiver_inv R start n (tk\<lparr>data_queue := q\<rparr>)"
    by (rule receiver_inv_queue [OF assms(2)]) (use q assms(2) ok in \<open>auto simp: receiver_inv_def\<close>)
  from flush_queue_delivers [OF h(5) this assms(3)] h(6) delivers_quiet(2) [where outs' = "map takion_data_drop dr"]
  show ?thesis by fastforce
qed

lemma ack_events_quiet:
  "takion_ack_events env ns tk = Some (tk', outs) \<Longrightarrow> cb_quiet env \<Longrightarrow> data_events outs = [] \<and> same_receiver tk tk'"
proof (induction ns arbitrary: tk outs)
  case (Cons n ns)
  from Cons.prems(1) obtain tk1 o1 o2 where c: "takion_call_cb env (TE_DATA_ACK n) tk = (tk1, o1)"
    "takion_ack_events env ns tk1 = Some (tk', o2)" "outs = o1 @ o2"
    by (auto simp: Let_def split: if_splits prod.splits)
  from Cons.IH [OF c(2) Cons.prems(2)] call_cb_other [OF Cons.prems(2) c(1)] call_cb_receiver [OF c(1)] c(3)
  show ?case by (auto intro: same_receiver_trans)
qed simp

lemma message_data_ack_quiet:
  assumes "takion_handle_packet_message_data_ack env tk payload sz = Some (tk', outs)" "cb_quiet env"
  shows "data_events outs = [] \<and> same_receiver tk tk'"
proof (cases "same_receiver tk tk' \<and> outs = []")
  case False
  with assms(1) obtain sb acked freed o1 where "takion_ack_events env acked (tk\<lparr>tk_send_buffer := sb\<rparr>) = Some (tk', o1)"
    "outs = map Out_Free freed @ o1"
    by (auto simp: takion_handle_packet_message_data_ack_def bind_eq_Some_conv split: if_splits)
  with ack_events_quiet [OF this(1) assms(2)] show ?thesis by (auto simp: same_receiver_def)
qed simp

lemma parse_message_payload:
  assumes "takion_parse_message tag ks buf = Some (CHIAKI_ERR_SUCCESS, Some msg, ks')" "msg_payload msg = Some pl"
  shows "pl = drop 16 buf \<and> msg_payload_size msg = length pl"
proof -
  have len: "\<not> length buf < 16" using assms(1) by (auto simp: takion_parse_message_def)
  obtain low where low: "load32be buf 8 = Some low" using load32be_defined [of 8 buf] len by auto
  obtain kp ks2 where "chiaki_key_state_request_pos ks low True = (kp, ks2)" by fastforce
  with assms low len obtain w :: u16 where w: "length buf = unat w + 0xc" "16 \<le> length buf" "pl = drop 16 buf" "msg_payload_size msg = unat (w - 4)"
    by (auto simp: takion_parse_message_def Let_def bind_eq_Some_conv split: if_split_asm)
  then have "(4 :: u16) \<le> w" by (simp add: word_le_nat_alt)
  then have "unat (w - 4) = unat w - 4" by (simp add: unat_sub_if_size word_le_nat_alt)
  with w show ?thesis by simp
qed

lemma message_delivers:
  assumes "takion_handle_packet_message env tk buf = Some (tk', outs)" "receiver_inv R start n tk" "cb_quiet env" "drop 17 buf \<in> R"
  shows "\<exists>ds. delivers R start n ds outs \<and> receiver_inv R start (n + length ds) tk'"
proof -
  from assms(1) obtain err msg ks where p: "takion_parse_message (tag_local tk) (tk_key_state tk) (drop 1 buf) = Some (err, msg, ks)"
    by (auto simp: takion_handle_packet_message_def bind_eq_Some_conv)
  let ?tk = "tk\<lparr>tk_key_state := ks\<rparr>"
  have inv: "receiver_inv R start n ?tk" using assms(2) by (simp add: receiver_inv_def)
  consider (quiet) "data_events outs = [] \<and> same_receiver ?tk tk'"
    | (data) m where "err = CHIAKI_ERR_SUCCESS" "msg = Some m"
        "takion_handle_packet_message_data env ?tk buf (msg_chunk_flags m) (msg_payload m) (msg_payload_size m) = Some (tk', outs)"
    using assms(1,3) p
    by (auto simp: takion_handle_packet_message_def Let_def bind_eq_Some_conv split: if_split_asm dest!: message_data_ack_quiet)
  then show ?thesis
  proof cases
    case quiet
    then show ?thesis using inv receiver_inv_same [of ?tk tk'] by (intro exI [of _ "[]"]) (simp add: delivers_nil)
  next
    case data
    have "\<forall>pl. msg_payload m = Some pl \<longrightarrow> pl \<in> R \<and> msg_payload_size m = length pl"
      using parse_message_payload [of _ _ _ m] p data(1,2) assms(4) by fastforce
    from message_data_delivers [OF data(3) inv assms(3) this] show ?thesis .
  qed
qed

section \<open>Authentication leaves the payload alone\<close>

lemma store_bytes_beyond: "store_bytes b i bs = Some b' \<Longrightarrow> i + length bs \<le> n \<Longrightarrow> drop n b' = drop n b \<and> length b' = length b"
  by (auto simp: store_bytes_def split: if_splits)

lemma gmac_tag_le: "chiaki_gkcrypt_gmac cr gk kp buf = Some (err, Some mac, gk') \<Longrightarrow> length mac \<le> 4"
  by (auto simp: chiaki_gkcrypt_gmac_def Let_def bind_eq_Some_conv split: if_splits option.splits)

lemma mac_offset_le:
  "takion_packet_type_mac_offset t = Some m \<Longrightarrow> m \<le> 10"
  "takion_packet_type_key_pos_offset t = Some k \<Longrightarrow> t = TAKION_PACKET_TYPE_CONTROL \<or> t = TAKION_PACKET_TYPE_CONGESTION \<Longrightarrow> k \<le> 11"
  by (auto simp: takion_packet_type_mac_offset_def takion_packet_type_key_pos_offset_def split: if_splits)

lemma packet_mac_beyond:
  assumes "chiaki_takion_packet_mac cr c buf kp = Some (err, buf', mac, old, c')"
  shows "drop 17 buf' = drop 17 buf"
proof (cases "buf' = buf")
  case False
  let ?t = "takion_base_type (buf ! 0)"
  define clear where "clear \<longleftrightarrow> ?t = TAKION_PACKET_TYPE_CONTROL \<or> ?t = TAKION_PACKET_TYPE_CONGESTION"
  from assms False obtain mo ko where o: "takion_packet_type_mac_offset ?t = Some mo" "takion_packet_type_key_pos_offset ?t = Some ko"
    by (auto simp: chiaki_takion_packet_mac_def Let_def split: if_splits option.splits)
  have le: "mo + 4 \<le> 17" "clear \<Longrightarrow> ko + 4 \<le> 17"
    using mac_offset_le(1) [OF o(1)] mac_offset_le(2) [OF o(2)] by (auto simp: clear_def)
  have big: "buf \<noteq> []" "\<not> length buf < mo + 4" "\<not> length buf < ko + 4"
    using assms False o by (auto simp: chiaki_takion_packet_mac_def Let_def split: if_split_asm)
  show ?thesis
  proof (cases c)
    case None
    with assms False o obtain b1 where "store_bytes buf mo [0, 0, 0, 0] = Some b1" "buf' = b1"
      by (auto simp: chiaki_takion_packet_mac_def Let_def bind_eq_Some_conv split: if_split_asm)
    with store_bytes_beyond [OF this(1), of 17] le show ?thesis by simp
  next
    case (Some gk)
    with assms False o obtain b1 kt b3 e tag gk' b4 where b1: "store_bytes buf mo [0, 0, 0, 0] = Some b1"
      and k: "load_bytes b1 ko 4 = Some kt" and 3: "(if clear then store_bytes b1 ko [0, 0, 0, 0] else Some b1) = Some b3"
      and g: "chiaki_gkcrypt_gmac cr gk kp b3 = Some (e, tag, gk')"
      and 4: "(case tag of None \<Rightarrow> Some b3 | Some mac \<Rightarrow> store_bytes b3 mo mac) = Some b4"
      and 5: "(if clear then store_bytes b4 ko kt else Some b4) = Some buf'"
      using big unfolding clear_def
      by (auto simp: chiaki_takion_packet_mac_def Let_def bind_eq_Some_conv)
    have d1: "drop 17 b1 = drop 17 buf" using store_bytes_beyond [OF b1, of 17] le by simp
    have "length kt = 4" using k by (auto simp: load_bytes_def split: if_splits)
    have "drop 17 b3 = drop 17 b1" using 3 le(2) by (auto dest!: store_bytes_beyond [where n = 17] split: if_splits)
    moreover have "drop 17 b4 = drop 17 b3"
    proof (cases tag)
      case (Some mac)
      have "mo + length mac \<le> 17" using gmac_tag_le [of cr gk kp b3 e mac gk'] g Some le(1) by simp
      then show ?thesis using 4 Some store_bytes_beyond [of b3 mo mac b4 17] by simp
    qed (use 4 in simp)
    moreover have "drop 17 buf' = drop 17 b4"
      using 5 le(2) \<open>length kt = 4\<close> by (auto dest!: store_bytes_beyond [where n = 17] split: if_splits)
    ultimately show ?thesis using d1 by simp
  qed
qed simp

lemma handle_mac_beyond:
  "takion_handle_packet_mac cr tk buf = Some (err, buf', tk') \<Longrightarrow> drop 17 buf' = drop 17 buf"
  by (auto simp: takion_handle_packet_mac_def Let_def bind_eq_Some_conv dest!: packet_mac_beyond split: if_split_asm option.split_asm)

section \<open>Every turn of the thread\<close>

lemma handle_mac_receiver: "takion_handle_packet_mac cr tk buf = Some (err, buf', tk') \<Longrightarrow> same_receiver tk tk'"
  by (simp add: same_receiver_def handle_mac_fields)

lemma postpone_inv: "receiver_inv R start n tk \<Longrightarrow> drop 17 buf \<in> R \<Longrightarrow> receiver_inv R start n (takion_postpone_packet ok tk buf)"
  by (auto simp: receiver_inv_def takion_postpone_packet_def split: option.splits if_splits)

lemma handle_av_quiet:
  assumes "takion_handle_packet_av env tk buf = Some (tk', outs)" "cb_quiet env"
  shows "data_events outs = [] \<and> same_receiver tk tk'"
proof -
  from assms(1) obtain ks err p where "(if err \<noteq> CHIAKI_ERR_SUCCESS then (tk\<lparr>tk_key_state := ks\<rparr>, []) else takion_call_cb env (TE_AV p) (tk\<lparr>tk_key_state := ks\<rparr>)) = (tk', outs)"
    by (auto simp: takion_handle_packet_av_def Let_def bind_eq_Some_conv)
  then show ?thesis
    using call_cb_other [OF assms(2)] call_cb_receiver by (auto simp: same_receiver_def split: if_splits)
qed

lemma packet_delivers:
  assumes "takion_handle_packet env tk buf = Some (tk', outs)" "receiver_inv R start n tk" "cb_quiet env" "drop 17 buf \<in> R"
  shows "\<exists>ds. delivers R start n ds outs \<and> receiver_inv R start (n + length ds) tk'"
proof -
  from assms(1) obtain err buf1 tk1 where m: "takion_handle_packet_mac (te_crypto env) tk buf = Some (err, buf1, tk1)"
    by (auto simp: takion_handle_packet_def Let_def bind_eq_Some_conv split: if_split_asm)
  have inv: "receiver_inv R start n tk1" using receiver_inv_same [OF handle_mac_receiver [OF m]] assms(2) by simp
  have d: "drop 17 buf1 \<in> R" using handle_mac_beyond [OF m] assms(4) by simp
  let ?t = "takion_base_type (buf ! 0)"
  have "buf \<noteq> []" using assms(1) by (auto simp: takion_handle_packet_def)
  then have eq: "(if err \<noteq> CHIAKI_ERR_SUCCESS then Some (tk1, [Out_Free buf1])
      else if ?t = TAKION_PACKET_TYPE_CONTROL then takion_handle_packet_message env tk1 buf1
      else if ?t = TAKION_PACKET_TYPE_VIDEO \<or> ?t = TAKION_PACKET_TYPE_AUDIO then
        (if tk_enable_crypt tk1 \<and> gkcrypt_remote tk1 = None then Some (takion_postpone_packet (te_alloc env) tk1 buf1, [])
         else map_option (\<lambda>(tk, outs). (tk, outs @ [Out_Free buf1])) (takion_handle_packet_av env tk1 buf1))
      else Some (tk1, [Out_Free buf1])) = Some (tk', outs)"
    using assms(1) m by (simp add: takion_handle_packet_def Let_def)
  have av: "data_events outs = [] \<and> same_receiver tk1 tk'"
    if a: "map_option (\<lambda>(tk, outs). (tk, outs @ [Out_Free buf1])) (takion_handle_packet_av env tk1 buf1) = Some (tk', outs)"
  proof -
    from a obtain o1 where "takion_handle_packet_av env tk1 buf1 = Some (tk', o1)" "outs = o1 @ [Out_Free buf1]" by auto
    with handle_av_quiet [OF this(1) assms(3)] show ?thesis by simp
  qed
  from eq consider (msg) "takion_handle_packet_message env tk1 buf1 = Some (tk', outs)"
    | (quiet) "data_events outs = [] \<and> same_receiver tk1 tk'"
    | (postpone) "tk' = takion_postpone_packet (te_alloc env) tk1 buf1 \<and> outs = []"
    using av by (fastforce split: if_split_asm)
  then show ?thesis
  proof cases
    case msg
    from message_delivers [OF msg inv assms(3) d] show ?thesis .
  next
    case quiet
    then show ?thesis using inv receiver_inv_same [of tk1 tk'] by (intro exI [of _ "[]"]) (simp add: delivers_nil)
  next
    case postpone
    then show ?thesis using postpone_inv [OF inv d] by (intro exI [of _ "[]"]) (simp add: delivers_nil)
  qed
qed

text \<open>\<open>peek\<close> with a null pointer never returns an element: it finds none, or the behaviour is undefined.\<close>

lemma peek_null: "chiaki_reorder_queue_peek q True i = Some r \<Longrightarrow> r = None"
  by (auto simp: chiaki_reorder_queue_peek_def Let_def split: if_splits)

lemma recheck_quiet: "takion_recheck cr tk i = Some (tk', outs) \<Longrightarrow> tk' = tk \<and> outs = []"
proof (induction cr tk i arbitrary: outs rule: takion_recheck.induct)
  case (1 cr tk i)
  show ?case
  proof (cases "i < rq_count (data_queue tk)")
    case True
    with "1.prems" obtain r where r: "chiaki_reorder_queue_peek (data_queue tk) True i = Some r"
      by (subst (asm) takion_recheck.simps) (auto split: option.splits)
    with peek_null [OF r] have n: "chiaki_reorder_queue_peek (data_queue tk) True i = Some None" by simp
    show ?thesis
      using "1.prems" by (intro "1.IH"(1) [OF True n refl]) (simp add: takion_recheck.simps [of cr tk i] True n)
  next
    case False
    with "1.prems" show ?thesis by (simp add: takion_recheck.simps)
  qed
qed

lemma flush_postponed_delivers:
  assumes "takion_flush_postponed env tk i = Some (tk', outs)" "receiver_inv R start n tk" "cb_quiet env"
  shows "\<exists>ds. delivers R start n ds outs \<and> receiver_inv R start (n + length ds) tk'"
  using assms
proof (induction env tk i arbitrary: n outs rule: takion_flush_postponed.induct)
  case (1 env tk i)
  show ?case
  proof (cases "\<exists>ps. postponed_packets tk = Some ps \<and> i < length ps")
    case False
    then have "outs = [] \<and> (tk' = tk \<or> tk' = tk\<lparr>postponed_packets := None\<rparr>)"
      using "1.prems"(1) by (subst (asm) takion_flush_postponed.simps) (auto split: option.splits)
    then show ?thesis using "1.prems"(2) by (intro exI [of _ "[]"]) (auto simp: receiver_inv_def delivers_nil)
  next
    case True
    then obtain ps where ps: "postponed_packets tk = Some ps" "i < length ps" by blast
    with "1.prems"(1) have i: "i < TAKION_POSTPONE_PACKETS_SIZE"
      by (subst (asm) takion_flush_postponed.simps) (auto split: if_splits)
    with "1.prems"(1) ps obtain tk1 o1 o2 where s: "takion_handle_packet env tk (ps ! i) = Some (tk1, o1)"
      "takion_flush_postponed env tk1 (i + 1) = Some (tk', o2)" "outs = o1 @ o2"
      by (subst (asm) takion_flush_postponed.simps) (auto split: option.splits)
    have "drop 17 (ps ! i) \<in> R" using "1.prems"(2) ps by (simp add: receiver_inv_def)
    from packet_delivers [OF s(1) "1.prems"(2,3) this] obtain ds where
      ds: "delivers R start n ds o1" "receiver_inv R start (n + length ds) tk1" by blast
    have "\<not> \<not> i < length ps" "\<not> \<not> i < TAKION_POSTPONE_PACKETS_SIZE" using ps(2) i by simp_all
    from "1.IH" [OF ps(1) this s(1) refl s(2) ds(2) "1.prems"(3)] obtain ds' where
      "delivers R start (n + length ds) ds' o2" "receiver_inv R start (n + length ds + length ds') tk'" by blast
    with delivers_append [OF ds(1)] s(3) show ?thesis by (intro exI [of _ "ds @ ds'"]) (simp add: add.assoc)
  qed
qed

text \<open>The payloads of the datagrams that are received.\<close>

fun input_payload :: "takion_input \<Rightarrow> bytes set" where
  "input_payload inp = (case ti_recv inp of None \<Rightarrow> {} | Some d \<Rightarrow> {drop 17 (take 1500 d)})"

lemma turn_delivers:
  assumes "takion_thread_turn inp tk avail = Some (go_on, tk', avail', outs)" "receiver_inv R start n tk" "cb_quiet (ti_env inp)"
    and "input_payload inp \<subseteq> R"
  shows "\<exists>ds. delivers R start n ds outs \<and> receiver_inv R start (n + length ds) tk'"
proof -
  let ?env = "ti_env inp"
  define re where "re \<longleftrightarrow> tk_enable_crypt tk \<and> \<not> avail \<and> gkcrypt_remote tk \<noteq> None"
  from assms(1) obtain tk1 o1 tk2 o2 where
    1: "(if re then takion_recheck (te_crypto ?env) tk 0 else Some (tk, [])) = Some (tk1, o1)"
    and 2: "(if postponed_packets tk1 \<noteq> None \<and> gkcrypt_remote tk1 \<noteq> None then takion_flush_postponed ?env tk1 0 else Some (tk1, [])) = Some (tk2, o2)"
    and 3: "(if \<not> te_alloc ?env then Some (False, tk2, avail \<or> re, o1 @ o2)
       else let tk = takion_shared tk2 (ti_others inp tk2); (err, buf) = takion_recv (ti_select inp) (ti_recv inp) 1500
         in if err \<noteq> CHIAKI_ERR_SUCCESS then Some (False, tk, avail \<or> re, o1 @ o2)
            else if \<not> ti_realloc inp then Some (True, tk, avail \<or> re, o1 @ o2)
            else do { (tk, outs3) \<leftarrow> takion_handle_packet ?env tk buf; Some (True, tk, avail \<or> re, o1 @ o2 @ outs3) }) = Some (go_on, tk', avail', outs)"
    unfolding takion_thread_turn_def Let_def re_def [symmetric] by (auto simp: bind_eq_Some_conv simp del: if_split)
  have e: "tk1 = tk" "o1 = []" using 1 recheck_quiet by (auto split: if_splits)
  have "\<exists>ds. delivers R start n ds o2 \<and> receiver_inv R start (n + length ds) tk2"
  proof (cases "postponed_packets tk1 \<noteq> None \<and> gkcrypt_remote tk1 \<noteq> None")
    case True
    with 2 e flush_postponed_delivers [of ?env tk 0] assms(2,3) show ?thesis by simp
  next
    case False
    then have "tk2 = tk1" "o2 = []" using 2 by (auto split: if_splits)
    with e assms(2) show ?thesis by (intro exI [of _ "[]"]) (simp add: delivers_nil)
  qed
  then obtain ds where ds: "delivers R start n ds o2" "receiver_inv R start (n + length ds) tk2" by blast
  let ?tk = "takion_shared tk2 (ti_others inp tk2)"
  have inv: "receiver_inv R start (n + length ds) ?tk" using ds(2) receiver_inv_same [OF same_receiver_shared] by simp
  obtain err buf where r: "takion_recv (ti_select inp) (ti_recv inp) 1500 = (err, buf)" by fastforce
  show ?thesis
  proof (cases "te_alloc ?env \<and> err = CHIAKI_ERR_SUCCESS \<and> ti_realloc inp")
    case True
    then obtain d where d: "ti_recv inp = Some d" "buf = take 1500 d"
      using r by (auto simp: takion_recv_def split: if_splits option.splits)
    from True 3 r obtain o3 where h: "takion_handle_packet ?env ?tk buf = Some (tk', o3)" "outs = o2 @ o3"
      by (auto simp: e bind_eq_Some_conv)
    have "drop 17 buf \<in> R" using assms(4) d by simp
    from packet_delivers [OF h(1) inv assms(3) this] obtain ds' where
      "delivers R start (n + length ds) ds' o3" "receiver_inv R start (n + length ds + length ds') tk'" by blast
    with delivers_append [OF ds(1)] h(2) show ?thesis by (intro exI [of _ "ds @ ds'"]) (simp add: add.assoc)
  next
    case False
    with 3 r have "outs = o2 \<and> (tk' = tk2 \<or> tk' = ?tk)" by (auto simp: e Let_def split: if_splits)
    with ds inv show ?thesis by blast
  qed
qed

lemma loop_delivers:
  assumes "takion_thread_loop inps tk avail = Some (ended, tk', outs)" "receiver_inv R start n tk"
    and "\<forall>inp \<in> set inps. cb_quiet (ti_env inp) \<and> input_payload inp \<subseteq> R"
  shows "\<exists>ds. delivers R start n ds outs"
  using assms
proof (induction inps arbitrary: n tk avail outs)
  case Nil
  then show ?case by (auto intro!: exI [of _ "[]"] delivers_nil)
next
  case (Cons inp inps)
  from Cons.prems(1) obtain go_on tk1 avail1 o1 where t: "takion_thread_turn inp tk avail = Some (go_on, tk1, avail1, o1)"
    and r: "(if \<not> go_on then Some (True, tk1, o1) else map_option (\<lambda>(ended, tk, outs'). (ended, tk, o1 @ outs')) (takion_thread_loop inps tk1 avail1)) = Some (ended, tk', outs)"
    by (auto simp: bind_eq_Some_conv)
  have "cb_quiet (ti_env inp)" "input_payload inp \<subseteq> R" using Cons.prems(3) by auto
  from turn_delivers [OF t Cons.prems(2) this] obtain ds where ds: "delivers R start n ds o1" "receiver_inv R start (n + length ds) tk1" by blast
  show ?case
  proof (cases go_on)
    case True
    with r obtain o2 where "takion_thread_loop inps tk1 avail1 = Some (ended, tk', o2)" "outs = o1 @ o2" by auto
    with Cons.IH [OF this(1) ds(2)] Cons.prems(3) delivers_append [OF ds(1)] show ?thesis by fastforce
  next
    case False
    with r ds show ?thesis by auto
  qed
qed

text \<open>
  C4. In-order delivery. Whatever datagrams arrive, in whatever order, duplicated, lost, cut off or forged, and whatever the other
  threads and the callback do in between, as long as the thread stays within defined
  behaviour: the data events it reports are those of payloads that did arrive, whose sequence numbers
  are \<open>start\<close>, \<open>start + 1\<close>, and so on modulo \<open>2^32\<close>, without a gap or a repetition, each reported in this order, unless its
  type is not one that is reported.
\<close>

theorem takion_data_in_order:
  assumes "chiaki_reorder_queue_init_32 True null_entry TAKION_REORDER_QUEUE_SIZE_EXP start = Some q"
    and "data_queue tk = chiaki_reorder_queue_set_drop_cb q True" "postponed_packets tk = None" "tk_has_cb tk"
    and "\<forall>inp \<in> set inps. cb_quiet (ti_env inp)"
    and "takion_thread_loop inps tk avail = Some (ended, tk', outs)"
  shows "\<exists>ds. set ds \<subseteq> (\<Union>inp \<in> set inps. input_payload inp) \<and>
     (\<forall>k < length ds. 9 \<le> length (ds ! k) \<and> load32be (ds ! k) 0 = Some (start + of_nat k)) \<and>
     data_events outs = List.map_filter takion_data_event ds"
proof -
  let ?R = "\<Union>inp \<in> set inps. input_payload inp"
  have b: "unat (ucast start :: u64) < 2 ^ 32" using unsigned_less [of start] by simp
  have w: "rq_window (chiaki_reorder_queue_set_drop_cb q True) = []" "rq_begin (chiaki_reorder_queue_set_drop_cb q True) = seq_at 32 (ucast start) 0"
    "rq_size_exp (chiaki_reorder_queue_set_drop_cb q True) = 4"
    "rq_drop_strategy (chiaki_reorder_queue_set_drop_cb q True) = CHIAKI_REORDER_QUEUE_DROP_STRATEGY_END"
    using rq32_init_fields [OF assms(1)] b
    by (simp_all add: rq32.seq_at_0 chiaki_reorder_queue_set_drop_cb_def rq_window_def rq_cell_def)
  have "rq32_inv (data_queue tk)"
    using rq32_init_inv [OF assms(1)] rq_inv_set_drop_cb unfolding assms(2) rq32_inv_def by simp
  then have "receiver_inv ?R start 0 tk"
    using w assms(3,4) by (simp add: receiver_inv_def assms(2) rq_elems_def)
  moreover have "\<forall>inp \<in> set inps. cb_quiet (ti_env inp) \<and> input_payload inp \<subseteq> ?R" using assms(5) by blast
  ultimately obtain ds where "delivers ?R start 0 ds outs" using loop_delivers [OF assms(6)] by blast
  then show ?thesis unfolding delivers_def add_0 by blast
qed

text \<open>Two data messages that arrive in the wrong order, and a duplicate.\<close>

definition example_queue :: "data_packet_entry reorder_queue" where
  "example_queue = (case chiaki_reorder_queue_init_32 True null_entry TAKION_REORDER_QUEUE_SIZE_EXP 0xffffffff of Some q \<Rightarrow> q | None \<Rightarrow> undefined)"

definition example_takion :: takion where
  "example_takion = \<lparr>tk_version = 9, tk_enable_crypt = False, postponed_packets = None, gkcrypt_local = None, key_pos_local = 0,
     gkcrypt_remote = None, data_queue = chiaki_reorder_queue_set_drop_cb example_queue True,
     tk_send_buffer = \<lparr>sb_packets = [], packets_count = 0, should_stop = False\<rparr>, tk_has_cb = True, tag_local = 0x4823, tag_remote = 7,
     seq_num_local = 1, tk_a_rwnd = TAKION_A_RWND, tk_key_state = chiaki_key_state_init, tk_enable_dualsense = False\<rparr>"

definition example_env :: takion_env where
  "example_env = \<lparr>te_crypto = example_crypto, te_alloc = True, te_gk_lock = CHIAKI_ERR_SUCCESS, te_seq_lock = CHIAKI_ERR_SUCCESS,
     te_sb_lock = CHIAKI_ERR_SUCCESS, te_send = (\<lambda>_. True), te_now = 0, te_cb = (\<lambda>_ tk. (tk, []))\<rparr>"

definition example_input :: "bytes \<Rightarrow> takion_input" where
  "example_input d = \<lparr>ti_env = example_env, ti_others = (\<lambda>tk. tk), ti_select = CHIAKI_ERR_SUCCESS, ti_recv = Some d, ti_realloc = True\<rparr>"

definition example_inputs :: "takion_input list" where
  "example_inputs = map (\<lambda>n. example_input (takion_data_message 0x4823 0 1 n 1 [ucast n])) [0, 0xffffffff, 0]"

lemma example_loop:
  "map_option (\<lambda>(ended, tk, outs). (ended, data_events outs)) (takion_thread_loop example_inputs example_takion False) =
     Some (False, [TE_DATA 0 [0xff], TE_DATA 0 [0]])"
  by code_simp

lemma example_queue_init: "chiaki_reorder_queue_init_32 True null_entry TAKION_REORDER_QUEUE_SIZE_EXP 0xffffffff = Some example_queue"
  by (simp add: example_queue_def chiaki_reorder_queue_init_32_def chiaki_reorder_queue_init_def)

lemma example_env_quiet: "cb_quiet example_env"
  by (simp add: cb_quiet_def example_env_def)

lemma takion_data_in_order_witness:
  "\<exists>tk' outs ds. takion_thread_loop example_inputs example_takion False = Some (False, tk', outs) \<and> data_events outs = [TE_DATA 0 [0xff], TE_DATA 0 [0]] \<and>
     set ds \<subseteq> (\<Union>inp \<in> set example_inputs. input_payload inp) \<and>
     (\<forall>k < length ds. 9 \<le> length (ds ! k) \<and> load32be (ds ! k) 0 = Some (0xffffffff + of_nat k)) \<and>
     [TE_DATA 0 [0xff], TE_DATA 0 [0]] = List.map_filter takion_data_event ds"
proof -
  from example_loop obtain tk' outs where l: "takion_thread_loop example_inputs example_takion False = Some (False, tk', outs)"
    "data_events outs = [TE_DATA 0 [0xff], TE_DATA 0 [0]]" by auto
  have "\<forall>inp \<in> set example_inputs. cb_quiet (ti_env inp)"
    using example_env_quiet by (simp add: example_inputs_def example_input_def)
  from takion_data_in_order [OF example_queue_init _ _ _ this l(1)] l show ?thesis by (simp add: example_takion_def)
qed

section \<open>When the keys arrive\<close>

lemma recheck_undefined:
  assumes "j \<le> i" "i < rq_count (data_queue tk)"
    and "entry_set (rq_entry_at (data_queue tk) (rq_seq_num_add (data_queue tk) (rq_begin (data_queue tk)) (of_nat i)))"
  shows "takion_recheck cr tk j = None"
  using assms(1)
proof (induction "i - j" arbitrary: j)
  case 0
  then have "chiaki_reorder_queue_peek (data_queue tk) True j = None" using assms by (simp add: chiaki_reorder_queue_peek_def Let_def)
  then show ?case using 0 assms(2) by (subst takion_recheck.simps) simp
next
  case (Suc n)
  then have "takion_recheck cr tk (j + 1) = None" "j < rq_count (data_queue tk)" using assms(2) by auto
  then show ?case
    using peek_null by (subst takion_recheck.simps) (auto split: option.split)
qed

text \<open>
  When the keys become available while a data packet waits in the queue for an earlier one, the thread leaves defined
  behaviour: \<open>peek\<close> writes the sequence number of the packet through the null pointer it is given.
\<close>

theorem takion_recheck_undefined:
  assumes "tk_enable_crypt tk" "gkcrypt_remote tk \<noteq> None" "i < rq_count (data_queue tk)"
    and "entry_set (rq_entry_at (data_queue tk) (rq_seq_num_add (data_queue tk) (rq_begin (data_queue tk)) (of_nat i)))"
  shows "takion_thread_turn inp tk False = None"
  using recheck_undefined [OF _ assms(3,4)] assms(1,2) by (simp add: takion_thread_turn_def Let_def)

lemma takion_recheck_undefined_witness:
  "\<exists>tk outs. takion_thread_turn (example_input (takion_data_message 0x4823 0 1 0 1 [7])) (example_takion\<lparr>tk_enable_crypt := True\<rparr>) False = Some (True, tk, False, outs) \<and>
     takion_thread_turn (example_input []) (chiaki_takion_set_crypt tk (Some example_gkcrypt) (Some example_gkcrypt)) False = None"
proof -
  let ?t = "takion_thread_turn (example_input (takion_data_message 0x4823 0 1 0 1 [7])) (example_takion\<lparr>tk_enable_crypt := True\<rparr>) False"
  have "map_option (\<lambda>(go_on, tk, avail, outs). (go_on, avail, tk_enable_crypt tk, rq_count (data_queue tk),
      entry_set (rq_entry_at (data_queue tk) (rq_seq_num_add (data_queue tk) (rq_begin (data_queue tk)) 1)))) ?t = Some (True, False, True, 2, True)"
    by code_simp
  then obtain tk outs where t: "?t = Some (True, tk, False, outs)" "tk_enable_crypt tk" "rq_count (data_queue tk) = 2"
    "entry_set (rq_entry_at (data_queue tk) (rq_seq_num_add (data_queue tk) (rq_begin (data_queue tk)) 1))"
    by auto
  have "takion_thread_turn (example_input []) (chiaki_takion_set_crypt tk (Some example_gkcrypt) (Some example_gkcrypt)) False = None"
    using takion_recheck_undefined [of "chiaki_takion_set_crypt tk (Some example_gkcrypt) (Some example_gkcrypt)" 1] t
    by (simp add: chiaki_takion_set_crypt_def)
  with t show ?thesis by blast
qed

end
