(* ===== verification/Takion_Ends.thy ===== *)
theory Takion_Ends
  imports Takion_Facts
begin

text \<open>
  Two ends of a Takion connection, and a forger between them: what one end sends the other end
  delivers, and packets whose code is not the one of the shared key have no effect.
\<close>

section \<open>The code of a packet\<close>

lemma htonl_bytes_surj: "length k = 4 \<Longrightarrow> \<exists>w. k = htonl_bytes w"
proof -
  assume "length k = 4"
  then obtain a b c d where k: "k = [a, b, c, d]"
    by (auto simp: numeral_eq_Suc length_Suc_conv)
  let ?w = "push_bit 24 (ucast a) OR (push_bit 16 (ucast b) OR (push_bit 8 (ucast c) OR ucast d)) :: u32"
  have "ucast (drop_bit 24 ?w) = a" "ucast (drop_bit 16 ?w) = b" "ucast (drop_bit 8 ?w) = c" "ucast ?w = d"
    by (rule bit_word_eqI; auto simp: bit_simps u8_bit_beyond)+
  then show ?thesis unfolding k htonl_bytes_def by metis
qed

definition packet_tag :: "crypto \<Rightarrow> gkcrypt \<Rightarrow> nat \<Rightarrow> bytes \<Rightarrow> bytes \<Rightarrow> bytes \<Rightarrow> bytes" where
  "packet_tag cr gk kp pre k post =
     (case (if cr_ctx cr then map_option (take CHIAKI_GKCRYPT_GMAC_SIZE)
          (cr_gcm cr (gmac_key_of cr gk (gmac_key_index kp)) (counter_add (gk_iv gk) (kp div 0x10))
             (mac_cleared (takion_base_type (pre ! 0)) pre k post)) else None) of
        None \<Rightarrow> [0, 0, 0, 0] | Some tag \<Rightarrow> tag)"

lemma packet_tag_cong:
  "gk_iv gk' = gk_iv gk \<Longrightarrow> key_gmac_base gk' = key_gmac_base gk \<Longrightarrow> packet_tag cr gk' kp pre k post = packet_tag cr gk kp pre k post"
  unfolding packet_tag_def by (simp only: gmac_key_of_cong [of gk' gk])

definition crypto_mac_ok :: "crypto \<Rightarrow> bool" where
  "crypto_mac_ok cr \<longleftrightarrow> sha256_ok cr \<and> gcm_ok cr"

lemma length_packet_tag: "crypto_mac_ok cr \<Longrightarrow> length (packet_tag cr gk kp pre k post) = 4"
  by (auto simp: packet_tag_def crypto_mac_ok_def gcm_ok_def split: option.splits)

lemma packet_mac_tag:
  assumes "crypto_mac_ok cr" "gmac_inv cr gk" "length m = 4" "length k = 4"
    and "takion_packet_type_mac_offset (takion_base_type (pre ! 0)) = Some (length pre)"
  shows "\<exists>gk'. chiaki_takion_packet_mac cr (Some gk) (pre @ m @ k @ post) kp =
       Some (CHIAKI_ERR_SUCCESS, pre @ packet_tag cr gk kp pre k post @ k @ post, packet_tag cr gk kp pre k post, m, Some gk') \<and>
     gmac_inv cr gk' \<and> gk_iv gk' = gk_iv gk \<and> key_gmac_base gk' = key_gmac_base gk"
proof -
  let ?c = "mac_cleared (takion_base_type (pre ! 0)) pre k post"
  from gmac_result [of cr gk kp ?c] assms(1,2) obtain err tag gk' where
    g: "chiaki_gkcrypt_gmac cr gk kp ?c = Some (err, tag, gk')"
      "tag = (if cr_ctx cr then map_option (take CHIAKI_GKCRYPT_GMAC_SIZE) (cr_gcm cr (gmac_key_of cr gk (gmac_key_index kp)) (counter_add (gk_iv gk) (kp div 0x10)) ?c) else None)"
      "gmac_inv cr gk'" "gk_iv gk' = gk_iv gk" "key_gmac_base gk' = key_gmac_base gk"
    by (auto simp: crypto_mac_ok_def split: if_splits option.splits)
  have "(case tag of None \<Rightarrow> [0, 0, 0, 0] | Some mac \<Rightarrow> mac) = packet_tag cr gk kp pre k post" by (simp add: packet_tag_def g(2))
  with packet_mac_split [OF assms(5,3,4) _ g(1)] g(3-) assms(1) show ?thesis by (auto simp: crypto_mac_ok_def Let_def)
qed

lemma packet_mac_no_key:
  assumes "length m = 4" "length k = 4" "takion_packet_type_mac_offset (takion_base_type (pre ! 0)) = Some (length pre)"
  shows "chiaki_takion_packet_mac cr None (pre @ m @ k @ post) kp = Some (CHIAKI_ERR_SUCCESS, pre @ [0, 0, 0, 0] @ k @ post, [0, 0, 0, 0], m, None)"
proof -
  have pre: "pre \<noteq> []" using packet_offsets [OF assms(3)] by auto
  have first: "(pre @ m @ k @ post) ! 0 = pre ! 0" using pre by (simp add: nth_append)
  have ko: "takion_packet_type_key_pos_offset (takion_base_type (pre ! 0)) = Some (length pre + 4)" using packet_offsets [OF assms(3)] by simp
  have l: "load_bytes (pre @ m @ k @ post) (length pre) 4 = Some m" "store_bytes (pre @ m @ k @ post) (length pre) [0, 0, 0, 0] = Some (pre @ [0, 0, 0, 0] @ k @ post)"
    "load_bytes (pre @ [0, 0, 0, 0] @ k @ post) (length pre) 4 = Some [0, 0, 0, 0]"
    using assms(1,2) load_mid [of "length pre" pre 4 "[0, 0, 0, 0]" "k @ post"] by (simp_all add: load_mid store_mid)
  show ?thesis
    unfolding chiaki_takion_packet_mac_def first Let_def assms(3) ko prod.case option.case using l assms(1,2) by simp
qed

text \<open>What the check of a code returns, for a packet taken apart at its code.\<close>

lemma handle_mac_tag:
  fixes low :: u32 and post :: bytes
  assumes "crypto_mac_ok cr" "gmac_inv cr gk" "gkcrypt_remote tk = Some gk" "length m = 4"
    and "takion_packet_type_mac_offset (takion_base_type (pre ! 0)) = Some (length pre)"
  defines "kp \<equiv> fst (chiaki_key_state_request_pos (tk_key_state tk) low False)"
  defines "tag \<equiv> packet_tag cr gk (unat kp) pre (htonl_bytes low) post"
  shows "\<exists>gk'. takion_handle_packet_mac cr tk (pre @ m @ htonl_bytes low @ post) =
       Some (if m = tag then CHIAKI_ERR_SUCCESS else CHIAKI_ERR_INVALID_MAC, pre @ tag @ htonl_bytes low @ post,
         if m = tag then tk\<lparr>gkcrypt_remote := Some gk', tk_key_state := \<lparr>ks_prev = kp\<rparr>\<rparr> else tk\<lparr>gkcrypt_remote := Some gk'\<rparr>) \<and>
     gmac_inv cr gk' \<and> gk_iv gk' = gk_iv gk \<and> key_gmac_base gk' = key_gmac_base gk"
proof -
  let ?buf = "pre @ m @ htonl_bytes low @ post"
  have pre: "pre \<noteq> []" using packet_offsets [OF assms(5)] by auto
  then have first: "?buf ! 0 = pre ! 0" by (simp add: nth_append)
  have l: "load32be ?buf (length pre + 4) = Some low"
    using load32be_htonl [of "length pre + 4" "pre @ m" low post] assms(4) by simp
  have r: "chiaki_takion_packet_read_key_pos (tk_key_state tk) ?buf = Some (CHIAKI_ERR_SUCCESS, kp)"
    unfolding chiaki_takion_packet_read_key_pos_def first using packet_offsets [OF assms(5)] l pre assms(4) by (simp add: kp_def)
  have "length (htonl_bytes low) = 4" by simp
  from packet_mac_tag [OF assms(1,2,4) this assms(5), of post "unat kp", folded tag_def] obtain gk' where
    g: "chiaki_takion_packet_mac cr (Some gk) ?buf (unat kp) = Some (CHIAKI_ERR_SUCCESS, pre @ tag @ htonl_bytes low @ post, tag, m, Some gk')"
      "gmac_inv cr gk'" "gk_iv gk' = gk_iv gk" "key_gmac_base gk' = key_gmac_base gk" by blast
  have ks: "chiaki_key_state_commit (tk_key_state tk) kp = \<lparr>ks_prev = kp\<rparr>" by (cases "tk_key_state tk") (simp add: chiaki_key_state_commit_def)
  have "takion_handle_packet_mac cr tk ?buf =
       Some (if m = tag then CHIAKI_ERR_SUCCESS else CHIAKI_ERR_INVALID_MAC, pre @ tag @ htonl_bytes low @ post,
         if m = tag then tk\<lparr>gkcrypt_remote := Some gk', tk_key_state := \<lparr>ks_prev = kp\<rparr>\<rparr> else tk\<lparr>gkcrypt_remote := Some gk'\<rparr>)"
    by (simp add: takion_handle_packet_mac_def assms(3) r g(1) ks Let_def eq_commute)
  with g(2-) show ?thesis by blast
qed

section \<open>Forged packets\<close>

lemma packet_parts:
  assumes "takion_packet_type_mac_offset (takion_base_type (buf ! 0)) = Some mo" "mo + 8 \<le> length buf"
  obtains pre m low post where "buf = pre @ m @ htonl_bytes low @ post" "length m = 4"
    "takion_packet_type_mac_offset (takion_base_type (pre ! 0)) = Some (length pre)"
proof -
  let ?pre = "take mo buf" and ?m = "take 4 (drop mo buf)" and ?k = "take 4 (drop (mo + 4) buf)" and ?post = "drop (mo + 8) buf"
  have "buf = ?pre @ ?m @ ?k @ ?post"
    by (metis (no_types, lifting) add.assoc append_take_drop_id drop_drop numeral_Bit0 add.commute)
  moreover obtain low where "?k = htonl_bytes low" using htonl_bytes_surj [of ?k] assms(2) by auto
  moreover have "?pre ! 0 = buf ! 0" "length ?pre = mo" "length ?m = 4" using packet_offsets [OF assms(1)] assms(2) by simp_all
  ultimately show thesis using that [of ?pre ?m low ?post] assms(1) by simp
qed

lemma read_key_pos_parts:
  assumes "chiaki_takion_packet_read_key_pos ks buf = Some (CHIAKI_ERR_SUCCESS, kp)"
  obtains mo where "takion_packet_type_mac_offset (takion_base_type (buf ! 0)) = Some mo" "mo + 8 \<le> length buf"
proof -
  from assms obtain off where off: "takion_packet_type_key_pos_offset (takion_base_type (buf ! 0)) = Some off" "off + 4 \<le> length buf"
    by (auto simp: chiaki_takion_packet_read_key_pos_def split: if_splits option.splits)
  then obtain mo where mo: "takion_packet_type_mac_offset (takion_base_type (buf ! 0)) = Some mo"
    using packet_offsets_None by (metis not_None_eq)
  with off show thesis using that packet_offsets [OF mo] by simp
qed

text \<open>A packet that carries the code of the key at its key position.\<close>

definition packet_authentic :: "crypto \<Rightarrow> gkcrypt \<Rightarrow> key_state \<Rightarrow> bytes \<Rightarrow> bool" where
  "packet_authentic cr gk ks buf \<longleftrightarrow> (\<exists>pre m low post. buf = pre @ m @ htonl_bytes low @ post \<and> length m = 4 \<and>
     takion_packet_type_mac_offset (takion_base_type (pre ! 0)) = Some (length pre) \<and>
     m = packet_tag cr gk (unat (fst (chiaki_key_state_request_pos ks low False))) pre (htonl_bytes low) post)"

text \<open>
  C5. Forged packets have no effect. Once the key of the other end is known, a packet that does not carry the code that this key
  gives at the key position it names is freed, and nothing else happens: no event, no datagram, and of the
  state only the derived key of the authentication can change.
\<close>

theorem takion_forgery_ignored:
  assumes "crypto_mac_ok (te_crypto env)" "gkcrypt_remote tk = Some gk" "gmac_inv (te_crypto env) gk"
    and "takion_handle_packet env tk buf = Some (tk', outs)" "\<not> packet_authentic (te_crypto env) gk (tk_key_state tk) buf"
  shows "\<exists>b gk'. outs = [Out_Free b] \<and> tk' = tk\<lparr>gkcrypt_remote := Some gk'\<rparr> \<and>
     gmac_inv (te_crypto env) gk' \<and> gk_iv gk' = gk_iv gk \<and> key_gmac_base gk' = key_gmac_base gk"
proof -
  let ?cr = "te_crypto env"
  obtain err buf1 tk1 where m: "takion_handle_packet_mac ?cr tk buf = Some (err, buf1, tk1)"
    using assms(4) by (auto simp: takion_handle_packet_def Let_def bind_eq_Some_conv split: if_split_asm)
  obtain e kp where r: "chiaki_takion_packet_read_key_pos (tk_key_state tk) buf = Some (e, kp)"
    using m assms(2) by (auto simp: takion_handle_packet_mac_def bind_eq_Some_conv)
  have "err \<noteq> CHIAKI_ERR_SUCCESS \<and> (\<exists>gk'. tk1 = tk\<lparr>gkcrypt_remote := Some gk'\<rparr> \<and> gmac_inv ?cr gk' \<and> gk_iv gk' = gk_iv gk \<and>
     key_gmac_base gk' = key_gmac_base gk)"
  proof (cases "e = CHIAKI_ERR_SUCCESS")
    case True
    from read_key_pos_parts [OF r [unfolded True]] obtain mo where
      mo: "takion_packet_type_mac_offset (takion_base_type (buf ! 0)) = Some mo" "mo + 8 \<le> length buf" .
    from packet_parts [OF mo] obtain pre mac low post where p: "buf = pre @ mac @ htonl_bytes low @ post" "length mac = 4"
      "takion_packet_type_mac_offset (takion_base_type (pre ! 0)) = Some (length pre)" .
    from handle_mac_tag [OF assms(1,3,2) p(2,3), of low post] assms(5) m p show ?thesis
      unfolding packet_authentic_def by (auto split: if_split_asm)
  next
    case False
    then have "err = e" "tk1 = tk" using m assms(2) r by (simp_all add: takion_handle_packet_mac_def)
    then show ?thesis using False assms(2,3) by (auto intro!: exI [of _ gk])
  qed
  with m assms(4) show ?thesis by (auto simp: takion_handle_packet_def Let_def split: if_split_asm)
qed

section \<open>From one end to the other\<close>

lemma gmac_total: "sha256_ok cr \<Longrightarrow> \<exists>err tag gk'. chiaki_gkcrypt_gmac cr gk kp buf = Some (err, tag, gk')"
proof -
  assume sha: "sha256_ok cr"
  obtain k where k: "chiaki_gkcrypt_gen_gmac_key cr (gmac_key_index kp) (key_gmac_base gk) (gk_iv gk) = Some k"
    using gen_gmac_key_defined [OF sha] by blast
  then have "chiaki_gkcrypt_gmac cr gk kp buf \<noteq> None"
    by (auto simp: chiaki_gkcrypt_gmac_def Let_def chiaki_gkcrypt_gen_new_gmac_key_def chiaki_gkcrypt_gen_tmp_gmac_key_def split: option.split)
  then show ?thesis by auto
qed

lemma packet_mac_total:
  assumes "crypto_mac_ok cr" "length m = 4" "length k = 4"
    and "takion_packet_type_mac_offset (takion_base_type (pre ! 0)) = Some (length pre)"
  shows "\<exists>r. chiaki_takion_packet_mac cr c (pre @ m @ k @ post) kp = Some r"
proof (cases c)
  case None
  then show ?thesis using packet_mac_no_key [OF assms(2-4)] by simp
next
  case (Some gk)
  from gmac_total [of cr gk kp "mac_cleared (takion_base_type (pre ! 0)) pre k post"] assms(1) obtain err tag gk' where
    "chiaki_gkcrypt_gmac cr gk kp (mac_cleared (takion_base_type (pre ! 0)) pre k post) = Some (err, tag, gk')"
    by (auto simp: crypto_mac_ok_def)
  from packet_mac_split [OF assms(4,2,3) _ this] assms(1) Some show ?thesis by (simp add: crypto_mac_ok_def Let_def)
qed

text \<open>A control packet, taken apart at its code.\<close>

definition control_pre :: "u32 \<Rightarrow> bytes" where
  "control_pre tag = TAKION_PACKET_TYPE_CONTROL # htonl_bytes tag"

definition control_post :: "u8 \<Rightarrow> u8 \<Rightarrow> bytes \<Rightarrow> bytes" where
  "control_post ct cf payload = [ct, cf] @ htons_bytes (of_nat (length payload + 4)) @ payload"

lemma control_packet:
  "TAKION_PACKET_TYPE_CONTROL # takion_write_message_header tag kp ct cf (length payload) @ payload =
     control_pre tag @ [0, 0, 0, 0] @ htonl_bytes (ucast kp) @ control_post ct cf payload"
  by (simp add: control_pre_def control_post_def takion_write_message_header_def)

lemma control_pre_facts:
  "takion_packet_type_mac_offset (takion_base_type (control_pre tag ! 0)) = Some (length (control_pre tag))" "length (control_pre tag) = 5"
  by (simp_all add: control_pre_def takion_packet_type_mac_offset_def takion_base_type_def)

lemma parse_control:
  assumes "length mac = 4" "length payload + 4 < 2 ^ 16"
  shows "takion_parse_message tag ks (drop 1 (control_pre tag @ mac @ htonl_bytes low @ control_post ct cf payload)) =
     (case chiaki_key_state_request_pos ks low True of (kp', ks') \<Rightarrow>
        Some (CHIAKI_ERR_SUCCESS, Some \<lparr>msg_tag = tag, msg_key_pos = kp', msg_chunk_type = ct, msg_chunk_flags = cf,
           msg_payload_size = length payload, msg_payload = (if payload = [] then None else Some payload)\<rparr>, ks'))"
proof -
  let ?n = "of_nat (length payload + 4) :: u16"
  let ?b = "htonl_bytes tag @ mac @ htonl_bytes low @ [ct, cf] @ htons_bytes ?n @ payload"
  have b: "drop 1 (control_pre tag @ mac @ htonl_bytes low @ control_post ct cf payload) = ?b"
    by (simp add: control_pre_def control_post_def)
  have l: "load32be ?b 0 = Some tag" "load32be ?b 8 = Some low" "load8 ?b 0xc = Some ct" "load8 ?b 0xd = Some cf" "load16be ?b 0xe = Some ?n"
    using load32be_htonl [of 0 "[]" tag] load32be_htonl [of 8 "htonl_bytes tag @ mac" low]
      load16be_htons [of "0xe" "htonl_bytes tag @ mac @ htonl_bytes low @ [ct, cf]" ?n] assms(1)
    by (simp_all add: load8_def nth_append)
  have u: "unat ?n = length payload + 4" using assms(2) by (intro unat_of_nat_len) simp
  have m: "?n - 4 = of_nat (length payload)" by simp
  have u2: "unat (of_nat (length payload) :: u16) = length payload" using assms(2) by (intro unat_of_nat_len) simp
  show ?thesis
    unfolding b takion_parse_message_def l Option.bind.bind_lunit u m u2 using assms(1) by (simp add: Let_def split: prod.splits)
qed

lemma data_message_parts:
  "takion_data_message tag kp cf seq ch buf =
     control_pre tag @ [0, 0, 0, 0] @ htonl_bytes (ucast kp) @
     control_post TAKION_CHUNK_TYPE_DATA cf (htonl_bytes seq @ htons_bytes ch @ [0, 0] @ [0] @ buf)"
  using control_packet [of tag kp TAKION_CHUNK_TYPE_DATA cf "htonl_bytes seq @ htons_bytes ch @ [0, 0] @ [0] @ buf"]
  by (simp add: takion_data_message_def)

lemma data_ack_message_parts:
  "takion_data_ack_message tag kp seq rwnd =
     control_pre tag @ [0, 0, 0, 0] @ htonl_bytes (ucast kp) @
     control_post TAKION_CHUNK_TYPE_DATA_ACK 0 (htonl_bytes seq @ htonl_bytes rwnd @ [0, 0] @ [0, 0])"
  using control_packet [of tag kp TAKION_CHUNK_TYPE_DATA_ACK 0 "htonl_bytes seq @ htonl_bytes rwnd @ [0, 0] @ [0, 0]"]
  by (simp add: takion_data_ack_message_def)

lemma send_data_ack_defined:
  assumes "crypto_mac_ok (te_crypto env)"
  shows "\<exists>r. chiaki_takion_send_message_data_ack env tk seq = Some r"
proof -
  obtain err kp tk1 where a: "chiaki_takion_crypt_advance_key_pos env tk (1 + TAKION_MESSAGE_HEADER_SIZE + 0xc) = (err, kp, tk1)" by (rule prod_cases3)
  have "\<exists>r. chiaki_takion_packet_mac (te_crypto env) (gkcrypt_local tk1) (takion_data_ack_message (tag_remote tk1) (of_nat kp) seq (tk_a_rwnd tk1)) kp = Some r"
    unfolding data_ack_message_parts by (rule packet_mac_total [OF assms]) (simp_all add: control_pre_facts)
  then have "\<exists>r. chiaki_takion_send env tk1 (takion_data_ack_message (tag_remote tk1) (of_nat kp) seq (tk_a_rwnd tk1)) kp = Some r"
    by (auto simp: chiaki_takion_send_def chiaki_takion_send_raw_def Let_def split: prod.splits)
  then show ?thesis using a by (auto simp: chiaki_takion_send_message_data_ack_def)
qed

text \<open>The datagram of a data message that is sent with a key.\<close>

lemma send_data_datagram:
  assumes "crypto_mac_ok (te_crypto env)" "gkcrypt_local tk = Some gk" "gmac_inv (te_crypto env) gk"
    and "chiaki_takion_send_message_data env tk cf ch buf = Some (CHIAKI_ERR_SUCCESS, n, tk', outs)" "Out_Send d \<in> set outs"
  defines "post \<equiv> control_post TAKION_CHUNK_TYPE_DATA cf (htonl_bytes (seq_num_local tk) @ htons_bytes ch @ [0, 0] @ [0] @ buf)"
    and "low \<equiv> ucast (of_nat (key_pos_local tk) :: u64)"
  shows "d = control_pre (tag_remote tk) @ packet_tag (te_crypto env) gk (key_pos_local tk) (control_pre (tag_remote tk)) (htonl_bytes low) post @ htonl_bytes low @ post"
proof -
  obtain err kp tk1 where a: "chiaki_takion_crypt_advance_key_pos env tk (length buf) = (err, kp, tk1)" by (rule prod_cases3)
  with assms(4) have e: "err = CHIAKI_ERR_SUCCESS" by (auto simp: chiaki_takion_send_message_data_def split: if_splits)
  with a assms(2) have k: "kp = key_pos_local tk" "gkcrypt_local tk1 = Some gk" "tag_remote tk1 = tag_remote tk" "seq_num_local tk1 = seq_num_local tk"
    by (auto simp: chiaki_takion_crypt_advance_key_pos_def Let_def split: if_splits)
  let ?m = "takion_data_message (tag_remote tk) (of_nat (key_pos_local tk)) cf (seq_num_local tk) ch buf"
  have m: "?m = control_pre (tag_remote tk) @ [0, 0, 0, 0] @ htonl_bytes low @ post"
    unfolding data_message_parts post_def low_def by simp
  let ?tag = "packet_tag (te_crypto env) gk (key_pos_local tk) (control_pre (tag_remote tk)) (htonl_bytes low) post"
  have "length ([0, 0, 0, 0] :: bytes) = 4" "length (htonl_bytes low) = 4" by simp_all
  from packet_mac_tag [OF assms(1,3) this control_pre_facts(1), of "tag_remote tk" post "key_pos_local tk"] obtain gk' where
    g: "chiaki_takion_packet_mac (te_crypto env) (Some gk) ?m (key_pos_local tk) =
       Some (CHIAKI_ERR_SUCCESS, control_pre (tag_remote tk) @ ?tag @ htonl_bytes low @ post, ?tag, [0, 0, 0, 0], Some gk')"
    unfolding m by blast
  show ?thesis
    using assms(4,5) a e k g
    by (auto simp: chiaki_takion_send_message_data_def chiaki_takion_send_def chiaki_takion_send_raw_def Let_def bind_eq_Some_conv
        split: if_splits prod.splits)
qed

lemma pull_none: "rq_count q = 0 \<Longrightarrow> chiaki_reorder_queue_pull q = Some (q, None)"
  by (simp add: chiaki_reorder_queue_pull_def rq_QUEUE_SIZE_def)

text \<open>The next expected element in an empty queue is pulled again at once.\<close>

lemma push_pull_next:
  assumes "rq32_inv q" "rq_count q = 0" "rq_begin q = ucast (n :: u32)"
  shows "\<exists>q1 q2. chiaki_reorder_queue_push q (ucast n) u = Some (q1, []) \<and>
     chiaki_reorder_queue_pull q1 = Some (q2, Some (ucast n, u)) \<and> rq32_inv q2 \<and> rq_count q2 = 0 \<and> rq_begin q2 = ucast (n + 1) \<and>
     rq_drop_strategy q2 = rq_drop_strategy q \<and> rq_size_exp q2 = rq_size_exp q"
proof -
  let ?n = "ucast n :: u64"
  have inv: "rq_inv 32 seq_num_32_gt seq_num_32_lt seq_num_32_add q" using assms(1) by (simp add: rq32_inv_def)
  have n: "unat ?n < 2 ^ 32" using unsigned_less [of n] by simp
  have d: "seq_dist 32 (rq_begin q) ?n = 0" using assms(3) by (simp add: seq_dist_def)
  have w: "rq_window q = []" using assms(2) by (simp add: rq_window_def)
  have "seq_dist 32 (rq_begin q) ?n \<noteq> 2 ^ (32 - 1)" using d by simp
  from rq32.rq_push_window [OF inv n this, of u] obtain q1 dr where
    1: "chiaki_reorder_queue_push q ?n u = Some (q1, if rq_drop_cb q then dr else [])"
    "win_push 32 (2 ^ rq_size_exp q) (rq_drop_strategy q) (rq_begin q, rq_window q) ?n u = ((rq_begin q1, rq_window q1), dr)"
    "rq_inv 32 seq_num_32_gt seq_num_32_lt seq_num_32_add q1" "rq_size_exp q1 = rq_size_exp q" "rq_drop_strategy q1 = rq_drop_strategy q" by blast
  have w1: "rq_begin q1 = ?n" "rq_window q1 = [Some u]" "dr = []"
    using 1(2) d w assms(3) by (simp_all add: win_push_def Let_def)
  from rq32.rq_pull_window [OF 1(3)] obtain q2 r where 2: "chiaki_reorder_queue_pull q1 = Some (q2, r)"
    "win_pull 32 (rq_begin q1, rq_window q1) = ((rq_begin q2, rq_window q2), r)" "rq_inv 32 seq_num_32_gt seq_num_32_lt seq_num_32_add q2"
    "rq_size_exp q2 = rq_size_exp q1" "rq_drop_strategy q2 = rq_drop_strategy q1" by blast
  have w2: "rq_begin q2 = seq_at 32 ?n 1" "rq_window q2 = []" "r = Some (?n, u)" using 2(2) w1 by simp_all
  have "seq_at 32 ?n 1 = ucast (n + 1)"
  proof -
    have "unat (seq_at 32 ?n 1) = (unat n + 1) mod 2 ^ 32" by simp
    also have "\<dots> = unat (n + 1)" by (simp add: unat_word_ariths)
    also have "\<dots> = unat (ucast (n + 1) :: u64)" by simp
    finally show ?thesis by (simp only: word_unat_eq_iff)
  qed
  with 1 2 w1 w2 show ?thesis by (intro exI [of _ q1] exI [of _ q2]) (simp add: rq32_inv_def rq_window_def)
qed

text \<open>The next data message with an empty queue: it is reported and acknowledged.\<close>

lemma message_data_next:
  fixes seq :: u32 and ch :: u16 and buf :: bytes
  defines "pl \<equiv> htonl_bytes seq @ htons_bytes ch @ [0, 0] @ [0] @ buf"
  assumes "rq32_inv (data_queue tk)" "rq_count (data_queue tk) = 0" "rq_begin (data_queue tk) = ucast seq"
    and "te_alloc env" "tk_has_cb tk" "cb_quiet env" "crypto_mac_ok (te_crypto env)"
  shows "\<exists>tk' outs. takion_handle_packet_message_data env tk packet cf (Some pl) (length pl) = Some (tk', outs) \<and>
     data_events outs = [TE_DATA 0 buf] \<and> rq32_inv (data_queue tk') \<and> rq_count (data_queue tk') = 0 \<and>
     rq_begin (data_queue tk') = ucast (seq + 1)"
proof -
  let ?e = "\<lparr>de_packet_buf = packet, de_type_b = cf, de_payload = Some pl, de_payload_size = length pl, de_channel = ch\<rparr>"
  from push_pull_next [OF assms(2-4), of ?e] obtain q1 q2 where q: "chiaki_reorder_queue_push (data_queue tk) (ucast seq) ?e = Some (q1, [])"
    "chiaki_reorder_queue_pull q1 = Some (q2, Some (ucast seq, ?e))" "rq32_inv q2" "rq_count q2 = 0" "rq_begin q2 = ucast (seq + 1)" by blast
  have l: "load16be pl 4 = Some ch" "load32be pl 0 = Some seq" "load8 pl 8 = Some 0" "\<not> length pl < 9" "drop 9 pl = buf" "length pl = 9 + length buf"
    using load16be_htons [of 4 "htonl_bytes seq" ch "[0, 0] @ [0] @ buf"] load32be_htonl [of 0 "[]" seq]
    by (simp_all add: pl_def load8_def nth_append)
  obtain z where z: "load16be pl 6 = Some z" using load16be_defined [of 6 pl] l(4) by auto
  let ?tk = "tk\<lparr>data_queue := q2\<rparr>"
  obtain tk1 o1 where c: "takion_call_cb env (TE_DATA 0 buf) ?tk = (tk1, o1)" by fastforce
  have ev: "data_events o1 = [TE_DATA 0 buf]" using call_cb_data [OF assms(7) _ c] assms(6) by simp
  have q1: "data_queue tk1 = q2" using call_cb_receiver [OF c] by (simp add: same_receiver_def)
  have fe: "takion_flush_entry env ?tk ?e = Some (tk1, o1 @ [Out_Free packet])"
    using l z c by (simp add: takion_flush_entry_def)
  have "takion_flush_loop env tk1 (ucast seq) True = Some (tk1\<lparr>data_queue := q2\<rparr>, ucast seq, True, [])"
    by (subst takion_flush_loop.simps) (simp add: q1 pull_none q(4))
  then have fl: "takion_flush_loop env (tk\<lparr>data_queue := q1\<rparr>) 0 False = Some (tk1\<lparr>data_queue := q2\<rparr>, ucast seq, True, o1 @ [Out_Free packet])"
    by (subst takion_flush_loop.simps) (simp add: q(2) fe)
  obtain err tk2 o2 where a: "chiaki_takion_send_message_data_ack env (tk1\<lparr>data_queue := q2\<rparr>) (ucast (ucast seq :: u64)) = Some (err, tk2, o2)"
    using send_data_ack_defined [OF assms(8)] by (metis prod_cases3)
  have "data_events o2 = [] \<and> data_queue tk2 = q2" using send_data_ack_quiet [OF a] by (simp add: same_receiver_def)
  moreover have "takion_handle_packet_message_data env tk packet cf (Some pl) (length pl) = Some (tk2, (o1 @ [Out_Free packet]) @ o2)"
    using l q(1) fl a assms(5) by (simp add: takion_handle_packet_message_data_def takion_flush_data_queue_def Let_def)
  ultimately show ?thesis using ev q by auto
qed

lemma send_data_defined:
  assumes "crypto_mac_ok (te_crypto env)" "gkcrypt_local tk = Some gk" "gmac_inv (te_crypto env) gk"
    and "te_gk_lock env = CHIAKI_ERR_SUCCESS" "te_alloc env" "te_seq_lock env = CHIAKI_ERR_SUCCESS" "\<forall>d. te_send env d"
    and "key_pos_local tk + length buf < 2 ^ 64"
  shows "\<exists>n tk' d outs. chiaki_takion_send_message_data env tk cf ch buf = Some (CHIAKI_ERR_SUCCESS, n, tk', Out_Send d # outs)"
proof -
  let ?m = "takion_data_message (tag_remote tk) (of_nat (key_pos_local tk)) cf (seq_num_local tk) ch buf"
  let ?post = "control_post TAKION_CHUNK_TYPE_DATA cf (htonl_bytes (seq_num_local tk) @ htons_bytes ch @ [0, 0] @ [0] @ buf)"
  have "length ([0, 0, 0, 0] :: bytes) = 4" "length (htonl_bytes (ucast (of_nat (key_pos_local tk) :: u64))) = 4" by simp_all
  from packet_mac_tag [OF assms(1,3) this control_pre_facts(1), of "tag_remote tk" ?post "key_pos_local tk"] obtain b mac gk' where
    g: "chiaki_takion_packet_mac (te_crypto env) (Some gk) ?m (key_pos_local tk) = Some (CHIAKI_ERR_SUCCESS, b, mac, [0, 0, 0, 0], Some gk')"
    unfolding data_message_parts by blast
  have a: "chiaki_takion_crypt_advance_key_pos env tk (length buf) = (CHIAKI_ERR_SUCCESS, key_pos_local tk, tk\<lparr>key_pos_local := key_pos_local tk + length buf\<rparr>)"
    using assms(2,4,8) by (simp add: chiaki_takion_crypt_advance_key_pos_def Let_def)
  show ?thesis
    using a g assms(2,4-7) by (simp add: chiaki_takion_send_message_data_def chiaki_takion_send_def chiaki_takion_send_raw_def Let_def split: prod.splits)
qed

text \<open>
  C1. From one end to the other. The next data message that one end sends with its key is accepted, reported with its contents and
  acknowledged by the other end when that has the same key, is waiting for this sequence number, and its last key
  position is less than \<open>2^31\<close> away; it then waits for the following number.
\<close>

theorem takion_end_to_end:
  assumes crypto: "crypto_mac_ok cr" "te_crypto env1 = cr" "te_crypto env2 = cr"
    and keys: "gkcrypt_local tk1 = Some gk1" "gkcrypt_remote tk2 = Some gk2" "gmac_inv cr gk1" "gmac_inv cr gk2"
      "gk_iv gk2 = gk_iv gk1" "key_gmac_base gk2 = key_gmac_base gk1"
    and tags: "tag_remote tk1 = tag_local tk2"
    and queue: "rq32_inv (data_queue tk2)" "rq_count (data_queue tk2) = 0" "rq_begin (data_queue tk2) = ucast (seq_num_local tk1)"
    and pos: "key_pos_local tk1 < 2 ^ 64" "int (key_pos_local tk1) - int (unat (ks_prev (tk_key_state tk2))) < 2 ^ 31"
      "int (unat (ks_prev (tk_key_state tk2))) - int (key_pos_local tk1) < 2 ^ 31"
    and recv: "te_alloc env2" "tk_has_cb tk2" "cb_quiet env2" "length data + 13 < 2 ^ 16"
    and send: "chiaki_takion_send_message_data env1 tk1 cf ch data = Some (CHIAKI_ERR_SUCCESS, n, tk1', outs1)" "Out_Send d \<in> set outs1"
  shows "\<exists>tk2' outs2. takion_handle_packet env2 tk2 d = Some (tk2', outs2) \<and> data_events outs2 = [TE_DATA 0 data] \<and>
     rq32_inv (data_queue tk2') \<and> rq_count (data_queue tk2') = 0 \<and> rq_begin (data_queue tk2') = ucast (seq_num_local tk1 + 1)"
proof -
  let ?kp = "of_nat (key_pos_local tk1) :: u64" and ?pre = "control_pre (tag_local tk2)"
  let ?pl = "htonl_bytes (seq_num_local tk1) @ htons_bytes ch @ [0, 0] @ [0] @ data"
  let ?post = "control_post TAKION_CHUNK_TYPE_DATA cf ?pl"
  let ?tag = "packet_tag cr gk1 (key_pos_local tk1) ?pre (htonl_bytes (ucast ?kp)) ?post"
  have d: "d = ?pre @ ?tag @ htonl_bytes (ucast ?kp) @ ?post"
    using send_data_datagram [of env1 tk1 gk1 cf ch data n tk1' outs1 d] crypto keys send tags by simp
  have u: "unat ?kp = key_pos_local tk1" using pos(1) by (intro unat_of_nat_len) simp
  have ks: "chiaki_key_state_request_pos (tk_key_state tk2) (ucast ?kp) False = (?kp, tk_key_state tk2)"
    using key_state_request_eq [of ?kp "tk_key_state tk2" False] pos(2,3) u by simp
  have l4: "length ?tag = 4" by (rule length_packet_tag [OF crypto(1)])
  have t: "packet_tag cr gk2 (key_pos_local tk1) ?pre (htonl_bytes (ucast ?kp)) ?post = ?tag" using packet_tag_cong keys(5,6) .
  have "\<exists>gk'. takion_handle_packet_mac cr tk2 d = Some (CHIAKI_ERR_SUCCESS, d, tk2\<lparr>gkcrypt_remote := Some gk', tk_key_state := \<lparr>ks_prev = ?kp\<rparr>\<rparr>)"
    using handle_mac_tag [OF crypto(1) keys(4,2) l4 control_pre_facts(1), of "tag_local tk2" "ucast ?kp" ?post]
    unfolding ks fst_conv u t d by auto
  then obtain gk' where m: "takion_handle_packet_mac cr tk2 d = Some (CHIAKI_ERR_SUCCESS, d, tk2\<lparr>gkcrypt_remote := Some gk', tk_key_state := \<lparr>ks_prev = ?kp\<rparr>\<rparr>)" by blast
  let ?tk = "tk2\<lparr>gkcrypt_remote := Some gk', tk_key_state := \<lparr>ks_prev = ?kp\<rparr>\<rparr>"
  have ks2: "chiaki_key_state_request_pos \<lparr>ks_prev = ?kp\<rparr> (ucast ?kp) True = (?kp, \<lparr>ks_prev = ?kp\<rparr>)"
    using key_state_request_eq [of ?kp "\<lparr>ks_prev = ?kp\<rparr>" True] by simp
  have "length ?pl + 4 < 2 ^ 16" using recv(4) by simp
  then have p: "takion_parse_message (tag_local tk2) \<lparr>ks_prev = ?kp\<rparr> (drop 1 d) =
     Some (CHIAKI_ERR_SUCCESS, Some \<lparr>msg_tag = tag_local tk2, msg_key_pos = ?kp, msg_chunk_type = TAKION_CHUNK_TYPE_DATA, msg_chunk_flags = cf,
       msg_payload_size = length ?pl, msg_payload = Some ?pl\<rparr>, \<lparr>ks_prev = ?kp\<rparr>)"
    using parse_control [of ?tag ?pl "tag_local tk2" "\<lparr>ks_prev = ?kp\<rparr>" "ucast ?kp" TAKION_CHUNK_TYPE_DATA cf] length_packet_tag [OF crypto(1)]
    unfolding ks2 d by simp
  have c2: "crypto_mac_ok (te_crypto env2)" using crypto by simp
  have "rq32_inv (data_queue ?tk)" "rq_count (data_queue ?tk) = 0" "rq_begin (data_queue ?tk) = ucast (seq_num_local tk1)" "tk_has_cb ?tk"
    using queue recv(2) by simp_all
  from message_data_next [where env = env2 and ch = ch and buf = data and packet = d and cf = cf, OF this(1-3) recv(1) this(4) recv(3) c2]
  obtain tk' outs where
    h: "takion_handle_packet_message_data env2 ?tk d cf (Some ?pl) (length ?pl) = Some (tk', outs)" "data_events outs = [TE_DATA 0 data]"
      "rq32_inv (data_queue tk')" "rq_count (data_queue tk') = 0" "rq_begin (data_queue tk') = ucast (seq_num_local tk1 + 1)" by blast
  have "takion_base_type (d ! 0) = TAKION_PACKET_TYPE_CONTROL" "d \<noteq> []" by (simp_all add: d control_pre_def takion_base_type_def)
  then have "takion_handle_packet env2 tk2 d = Some (tk', outs)"
    using m p h(1) crypto(3) by (simp add: takion_handle_packet_def takion_handle_packet_message_def Let_def del: append.simps)
  with h(2-) show ?thesis by blast
qed

text \<open>Two ends with the keys of the example, one of which waits for the message that the other one sends.\<close>

definition example_mac_env :: takion_env where
  "example_mac_env = example_env\<lparr>te_crypto := example_mac_crypto\<rparr>"

definition example_receiver :: takion where
  "example_receiver = example_takion\<lparr>tk_enable_crypt := True, gkcrypt_local := Some example_gkcrypt, gkcrypt_remote := Some example_gkcrypt,
     tag_local := 7, tag_remote := 0x4823\<rparr>"

definition example_sender :: takion where
  "example_sender = example_takion\<lparr>tk_enable_crypt := True, gkcrypt_local := Some example_gkcrypt, seq_num_local := 0xffffffff,
     key_pos_local := 0x30\<rparr>"

lemma example_mac_ok: "crypto_mac_ok example_mac_crypto" "gmac_inv example_mac_crypto example_gkcrypt"
  using example_mac_sha
  by (auto simp: crypto_mac_ok_def gcm_ok_def example_mac_crypto_def gmac_inv_def gmac_key_of_def example_gkcrypt_def)

lemma example_mac_env_simps: "te_crypto example_mac_env = example_mac_crypto" "te_alloc example_mac_env" "cb_quiet example_mac_env"
  using example_env_quiet by (simp_all add: example_mac_env_def example_env_def cb_quiet_def)

lemma example_queue_facts:
  "rq32_inv (chiaki_reorder_queue_set_drop_cb example_queue True)" "rq_count (chiaki_reorder_queue_set_drop_cb example_queue True) = 0"
  "rq_begin (chiaki_reorder_queue_set_drop_cb example_queue True) = 0xffffffff"
  using rq32_init_inv [OF example_queue_init] rq_inv_set_drop_cb rq32_init_fields [OF example_queue_init]
  by (simp_all add: rq32_inv_def chiaki_reorder_queue_set_drop_cb_def rq_window_def rq_inv_def)

lemma takion_end_to_end_witness:
  "\<exists>n tk1' outs1 d tk2' outs2. chiaki_takion_send_message_data example_mac_env example_sender 1 1 [1, 2, 3] = Some (CHIAKI_ERR_SUCCESS, n, tk1', outs1) \<and>
     Out_Send d \<in> set outs1 \<and> takion_handle_packet example_mac_env example_receiver d = Some (tk2', outs2) \<and>
     data_events outs2 = [TE_DATA 0 [1, 2, 3]] \<and> rq_begin (data_queue tk2') = 0"
proof -
  let ?s = "chiaki_takion_send_message_data example_mac_env example_sender 1 1 [1, 2, 3]"
  have "gkcrypt_local example_sender = Some example_gkcrypt" "gmac_inv (te_crypto example_mac_env) example_gkcrypt"
    using example_mac_ok by (simp_all add: example_sender_def example_mac_env_simps)
  from send_data_defined [OF _ this, of "[1, 2, 3]" 1 1] example_mac_ok obtain n tk1' d outs where
    s: "?s = Some (CHIAKI_ERR_SUCCESS, n, tk1', Out_Send d # outs)"
    by (auto simp: example_mac_env_def example_env_def example_sender_def)
  have "\<exists>tk2' outs2. takion_handle_packet example_mac_env example_receiver d = Some (tk2', outs2) \<and>
     data_events outs2 = [TE_DATA 0 [1, 2, 3]] \<and> rq32_inv (data_queue tk2') \<and> rq_count (data_queue tk2') = 0 \<and>
     rq_begin (data_queue tk2') = ucast (seq_num_local example_sender + 1)"
  proof (rule takion_end_to_end [OF example_mac_ok(1) example_mac_env_simps(1,1) _ _ example_mac_ok(2,2) refl refl])
    show "chiaki_takion_send_message_data example_mac_env example_sender 1 1 [1, 2, 3] = Some (CHIAKI_ERR_SUCCESS, n, tk1', Out_Send d # outs)" by (rule s)
  qed (use example_queue_facts example_mac_env_simps in
      \<open>simp_all add: example_sender_def example_receiver_def example_takion_def chiaki_key_state_init_def\<close>)
  then show ?thesis using s by (auto simp: example_sender_def)
qed

text \<open>A data acknowledgement without its code.\<close>

lemma takion_forgery_ignored_witness:
  "\<exists>tk' b. takion_handle_packet example_mac_env example_receiver (takion_data_ack_message 0x01020304 0x20 0 5) = Some (tk', [Out_Free b]) \<and>
     data_queue tk' = data_queue example_receiver"
proof -
  let ?d = "takion_data_ack_message 0x01020304 0x20 0 5" and ?pre = "control_pre 0x01020304"
  let ?post = "control_post TAKION_CHUNK_TYPE_DATA_ACK 0 (htonl_bytes 0 @ htonl_bytes 5 @ [0, 0] @ [0, 0])"
  have d: "?d = ?pre @ [0, 0, 0, 0] @ htonl_bytes 0x20 @ ?post" unfolding data_ack_message_parts by simp
  have tag: "packet_tag example_mac_crypto example_gkcrypt kp ?pre k post = [0, 1, 2, 3]" for kp k post
    by (simp add: packet_tag_def example_mac_crypto_def example_crypto_def mac_cleared_def control_pre_def htonl_bytes_def drop_bit_eq_div)
  have "\<not> packet_authentic example_mac_crypto example_gkcrypt (tk_key_state example_receiver) ?d"
  proof
    assume "packet_authentic example_mac_crypto example_gkcrypt (tk_key_state example_receiver) ?d"
    then obtain pre m low post kp where p: "?d = pre @ m @ htonl_bytes low @ post" "length m = 4"
      "takion_packet_type_mac_offset (takion_base_type (pre ! 0)) = Some (length pre)"
      "m = packet_tag example_mac_crypto example_gkcrypt kp pre (htonl_bytes low) post"
      unfolding packet_authentic_def by blast
    have "pre \<noteq> []" using packet_offsets [OF p(3)] by auto
    then have "pre ! 0 = ?d ! 0" using p(1) by (simp add: nth_append)
    then have "length pre = length ?pre" using p(3) d control_pre_facts [of "0x01020304"] by (simp add: nth_append)
    then have "pre = ?pre" using p(1) d by simp
    moreover have "take 4 (drop (length pre) ?d) = m" using p(1,2) by simp
    moreover have "take 4 (drop (length ?pre) ?d) = [0, 0, 0, 0]" unfolding d by simp
    ultimately have "pre = ?pre" "m = [0, 0, 0, 0]" by simp_all
    with p(4) tag show False by simp
  qed
  moreover have r: "gkcrypt_remote example_receiver = Some example_gkcrypt" by (simp add: example_receiver_def)
  moreover have "takion_handle_packet example_mac_env example_receiver ?d \<noteq> None"
  proof -
    have "length ([0, 0, 0, 0] :: bytes) = 4" by simp
    from handle_mac_tag [OF example_mac_ok r this control_pre_facts(1), of "0x01020304" "0x20" ?post] d tag show ?thesis
      by (auto simp: takion_handle_packet_def Let_def example_mac_env_simps takion_data_ack_message_def)
  qed
  ultimately show ?thesis
    using takion_forgery_ignored [of example_mac_env example_receiver example_gkcrypt ?d] example_mac_ok
    by (fastforce simp: example_mac_env_simps)
qed

end
