(* ===== verification/Http.thy ===== *)
theory Http
  imports Common "HOL-Library.Sublist"
begin

text \<open>
  \<open>lib/src/http.c\<close>: the parser of HTTP headers and responses, which works in place on the received
  buffer, and the reception of a header. A pointer into the buffer is its offset; a string is what is
  at an offset up to the next zero byte.
\<close>

abbreviation "CR \<equiv> 0x0d :: u8"
abbreviation "LF \<equiv> 0x0a :: u8"
abbreviation "COLON \<equiv> 0x3a :: u8"
abbreviation "SPACE \<equiv> 0x20 :: u8"

definition c_string :: "bytes \<Rightarrow> nat \<Rightarrow> bytes" where
  "c_string buf offset = takeWhile (\<lambda>b. b \<noteq> 0) (drop offset buf)"

section \<open>Headers\<close>

text \<open>
  The loop of \<open>chiaki_http_header_parse\<close>: \<open>i\<close> is the offset of \<open>buf\<close>, \<open>key\<close> and \<open>value\<close> those of \<open>key_ptr\<close> and
  \<open>value_ptr\<close>, \<open>mallocs\<close> the number of allocations that still succeed. The result is the error code, the buffer
  and the entries, the last one first; on failure they have been freed.
\<close>

function http_header_loop ::
  "nat \<Rightarrow> bytes \<Rightarrow> nat \<Rightarrow> nat \<Rightarrow> nat option \<Rightarrow> (nat \<times> nat) list \<Rightarrow> ChiakiErrorCode \<times> bytes \<times> (nat \<times> nat) list" where
  "http_header_loop mallocs buf i key value header =
     (if \<not> i < length buf then (CHIAKI_ERR_SUCCESS, buf, header)
      else let c = buf ! i in
        if c = 0 then (CHIAKI_ERR_SUCCESS, buf, header)
        else case value of
          None \<Rightarrow>
            if c = COLON then
              if key = i then (CHIAKI_ERR_INVALID_DATA, buf, [])
              else let buf = buf[i := 0] in
                if i + 1 = length buf then (CHIAKI_ERR_INVALID_DATA, buf, [])
                else let j = (if buf ! (i + 1) = SPACE then i + 2 else i + 1) in
                  if j = length buf then (CHIAKI_ERR_INVALID_DATA, buf, [])
                  else http_header_loop mallocs buf (j + 1) key (Some j) header
            else if c = CR \<or> c = LF then
              if key + 1 < i then (CHIAKI_ERR_INVALID_DATA, buf, [])
              else http_header_loop mallocs buf (i + 1) (i + 1) None header
            else http_header_loop mallocs buf (i + 1) key None header
        | Some v \<Rightarrow>
            if c = CR \<or> c = LF then
              if v = i then (CHIAKI_ERR_INVALID_DATA, buf, [])
              else let buf = buf[i := 0] in
                if mallocs = 0 then (CHIAKI_ERR_MEMORY, buf, [])
                else http_header_loop (mallocs - 1) buf (i + 1) (i + 1) None ((key, v) # header)
            else http_header_loop mallocs buf (i + 1) key value header)"
  by pat_completeness auto
termination
  by (relation "measure (\<lambda>(mallocs, buf, i, _). length buf - i)") auto

declare http_header_loop.simps [simp del]

definition chiaki_http_header_parse :: "nat \<Rightarrow> bytes \<Rightarrow> ChiakiErrorCode \<times> bytes \<times> (nat \<times> nat) list" where
  "chiaki_http_header_parse mallocs buf = http_header_loop mallocs buf 0 0 None []"

text \<open>The keys and values that the entries point to.\<close>

definition header_strings :: "bytes \<Rightarrow> (nat \<times> nat) list \<Rightarrow> (bytes \<times> bytes) list" where
  "header_strings buf header = map (\<lambda>(k, v). (c_string buf k, c_string buf v)) header"

section \<open>Responses\<close>

definition c_isspace :: "u8 \<Rightarrow> bool" where
  "c_isspace c \<longleftrightarrow> c = SPACE \<or> (9 \<le> c \<and> c \<le> 13)"

definition c_isdigit :: "u8 \<Rightarrow> bool" where
  "c_isdigit c \<longleftrightarrow> 0x30 \<le> c \<and> c \<le> 0x39"

definition digits_value :: "bytes \<Rightarrow> int" where
  "digits_value ds = fold (\<lambda>d n. n * 10 + int (unat d - 0x30)) ds 0"

text \<open>\<open>strtol\<close> with base 10, for a \<open>long\<close> of 64 bits.\<close>

definition strtol10 :: "bytes \<Rightarrow> int" where
  "strtol10 s =
     (let s = dropWhile c_isspace s;
          neg = (s \<noteq> [] \<and> hd s = 0x2d);
          s = (if s \<noteq> [] \<and> (hd s = 0x2d \<or> hd s = 0x2b) then tl s else s);
          n = digits_value (takeWhile c_isdigit s);
          n = (if neg then - n else n)
      in max (- (2 ^ 63)) (min (2 ^ 63 - 1) n))"

definition http_version :: bytes where
  "http_version = [0x48, 0x54, 0x54, 0x50, 0x2f, 0x31, 0x2e, 0x31, 0x20]"

fun memchr :: "u8 \<Rightarrow> bytes \<Rightarrow> nat option" where
  "memchr c [] = None"
| "memchr c (b # bs) = (if b = c then Some 0 else map_option Suc (memchr c bs))"

text \<open>The error code, \<open>response->code\<close>, the buffer from the first header on, and the headers.\<close>

definition chiaki_http_response_parse :: "nat \<Rightarrow> bytes \<Rightarrow> ChiakiErrorCode \<times> int \<times> bytes \<times> (nat \<times> nat) list" where
  "chiaki_http_response_parse mallocs buf =
     (if length buf < 9 then (CHIAKI_ERR_INVALID_DATA, 0, buf, [])
      else if take 9 buf \<noteq> http_version then (CHIAKI_ERR_INVALID_DATA, 0, buf, [])
      else let buf = drop 9 buf in
        case memchr LF buf of
          None \<Rightarrow> (CHIAKI_ERR_INVALID_DATA, 0, buf, [])
        | Some line_end \<Rightarrow>
            let line_length = line_end + 1 in
            if length buf \<le> line_length then (CHIAKI_ERR_INVALID_DATA, 0, buf, [])
            else let buf = (if line_length > 1 \<and> buf ! (line_end - 1) = CR then buf[line_end - 1 := 0] else buf[line_end := 0]);
                     code = sint (word_of_int (strtol10 (c_string buf 0)) :: 32 word)
              in if code = 0 then (CHIAKI_ERR_INVALID_DATA, code, buf, [])
                 else case chiaki_http_header_parse mallocs (drop line_length buf) of (err, buf, header) \<Rightarrow> (err, code, buf, header))"

section \<open>Receiving a header\<close>

definition transitions_r :: "nat list" where
  "transitions_r = [1, 1, 3, 1]"

definition transitions_n :: "nat list" where
  "transitions_n = [0, 2, 0, 4]"

definition http_nl_step :: "nat \<Rightarrow> u8 \<Rightarrow> nat" where
  "http_nl_step nl_state c = (if c = CR then transitions_r ! nl_state else if c = LF then transitions_n ! nl_state else 0)"

text \<open>The bytes of one \<open>recv\<close>: the state afterwards and the bytes that are left.\<close>

fun http_scan :: "nat \<Rightarrow> bytes \<Rightarrow> nat \<times> bytes" where
  "http_scan nl_state [] = (nl_state, [])"
| "http_scan nl_state (c # cs) =
     (let nl_state = http_nl_step nl_state c in if nl_state = 4 then (nl_state, cs) else http_scan nl_state cs)"

text \<open>The result, the bytes received and \<open>*header_size\<close>; or more input is waited for.\<close>

datatype http_recv = Http_Waiting bytes | Http_Done ChiakiErrorCode bytes nat

text \<open>
  The loop for a list of inputs, each what \<open>select\<close> on the stop pipe and what \<open>recv\<close> return (\<open>None\<close>: an error). \<open>buf\<close> moves
  on with the bytes that are received, but every \<open>recv\<close> is allowed \<open>buf_size\<close> bytes: what it writes beyond the
  buffer is \<open>None\<close>.
\<close>

fun recv_http_header_loop ::
  "bool \<Rightarrow> nat \<Rightarrow> (ChiakiErrorCode \<times> bytes option) list \<Rightarrow> nat \<Rightarrow> bytes \<Rightarrow> http_recv option" where
  "recv_http_header_loop stop_pipe buf_size [] nl_state received = Some (Http_Waiting received)"
| "recv_http_header_loop stop_pipe buf_size ((select_r, recv_r) # inputs) nl_state received =
     (if stop_pipe \<and> select_r \<noteq> CHIAKI_ERR_SUCCESS then Some (Http_Done select_r received 0)
      else case recv_r of
        None \<Rightarrow> Some (Http_Done CHIAKI_ERR_NETWORK received 0)
      | Some d \<Rightarrow>
          let d = take buf_size d in
          if d = [] then Some (Http_Done CHIAKI_ERR_DISCONNECTED received 0)
          else if length received + length d > buf_size then None
          else case http_scan nl_state d of (nl_state, rest) \<Rightarrow>
            if nl_state = 4 then Some (Http_Done CHIAKI_ERR_SUCCESS (received @ d) (length (received @ d) - length rest))
            else recv_http_header_loop stop_pipe buf_size inputs nl_state (received @ d))"

definition chiaki_recv_http_header :: "bool \<Rightarrow> nat \<Rightarrow> (ChiakiErrorCode \<times> bytes option) list \<Rightarrow> http_recv option" where
  "chiaki_recv_http_header stop_pipe buf_size inputs = recv_http_header_loop stop_pipe buf_size inputs 0 []"

section \<open>Facts: headers\<close>

definition header_line :: "bytes \<times> bytes \<Rightarrow> bytes" where
  "header_line h = fst h @ [COLON, SPACE] @ snd h @ [CR, LF]"

definition header_ok :: "bytes \<times> bytes \<Rightarrow> bool" where
  "header_ok h \<longleftrightarrow> fst h \<noteq> [] \<and> snd h \<noteq> [] \<and> set (fst h) \<inter> {0, CR, LF, COLON} = {} \<and> set (snd h) \<inter> {0, CR, LF} = {}"

text \<open>What the parser makes of a line.\<close>

definition parsed_line :: "bytes \<times> bytes \<Rightarrow> bytes" where
  "parsed_line h = fst h @ [0, SPACE] @ snd h @ [0, LF]"

lemma length_lines: "length (header_line h) = length (fst h) + length (snd h) + 4" "length (parsed_line h) = length (header_line h)"
  by (simp_all add: header_line_def parsed_line_def)

lemma scan_key:
  "set xs \<inter> {0, CR, LF, COLON} = {} \<Longrightarrow>
   http_header_loop m (pre @ xs @ post) (length pre) key None es = http_header_loop m (pre @ xs @ post) (length pre + length xs) key None es"
proof (induction xs arbitrary: pre)
  case (Cons x xs)
  from Cons.IH [of "pre @ [x]"] Cons.prems show ?case
    by (subst http_header_loop.simps) (simp add: nth_append)
qed simp

lemma scan_value:
  "set xs \<inter> {0, CR, LF} = {} \<Longrightarrow>
   http_header_loop m (pre @ xs @ post) (length pre) key (Some v) es = http_header_loop m (pre @ xs @ post) (length pre + length xs) key (Some v) es"
proof (induction xs arbitrary: pre)
  case (Cons x xs)
  from Cons.IH [of "pre @ [x]"] Cons.prems show ?case
    by (subst http_header_loop.simps) (simp add: nth_append)
qed simp

lemma Suc_offsets: "n + 3 = Suc (Suc (Suc n))" "n + 4 = Suc (Suc (Suc (Suc n)))" "n + 5 = Suc (Suc (Suc (Suc (Suc n))))"
  for n :: nat
  by simp_all

lemma parse_colon:
  assumes "key \<noteq> length p"
  shows "http_header_loop m (p @ COLON # SPACE # c # rest) (length p) key None es =
     http_header_loop m ((p @ [0, SPACE, c]) @ rest) (length p + 3) key (Some (length p + 2)) es"
proof -
  show ?thesis
    using assms by (subst http_header_loop.simps) (simp add: nth_append list_update_append Suc_offsets)
qed

lemma parse_line:
  assumes "header_ok (k, v)" "0 < m"
  shows "http_header_loop m (pre @ header_line (k, v) @ rest) (length pre) (length pre) None es =
     http_header_loop (m - 1) (pre @ parsed_line (k, v) @ rest) (length pre + length (header_line (k, v))) (length pre + length (header_line (k, v)))
       None ((length pre, length pre + length k + 2) # es)"
proof -
  let ?l = "length pre + length k"
  have k: "k \<noteq> []" "set k \<inter> {0, CR, LF, COLON} = {}" and v: "set v \<inter> {0, CR, LF} = {}"
    using assms(1) by (auto simp: header_ok_def)
  obtain c w where vw: "v = c # w" using assms(1) by (cases v) (auto simp: header_ok_def)
  have 1: "http_header_loop m (pre @ header_line (k, v) @ rest) (length pre) (length pre) None es =
     http_header_loop m ((pre @ k) @ COLON # SPACE # v @ CR # LF # rest) ?l (length pre) None es"
    using scan_key [OF k(2), of m pre "[COLON, SPACE] @ v @ [CR, LF] @ rest" "length pre" es] by (simp add: header_line_def)
  have 2: "http_header_loop m ((pre @ k) @ COLON # SPACE # v @ CR # LF # rest) ?l (length pre) None es =
     http_header_loop m ((pre @ k @ [0, SPACE, c]) @ w @ CR # LF # rest) (?l + 3) (length pre) (Some (?l + 2)) es"
    using parse_colon [of "length pre" "pre @ k" m c "w @ CR # LF # rest" es] k(1) by (simp add: vw)
  have 3: "http_header_loop m ((pre @ k @ [0, SPACE, c]) @ w @ CR # LF # rest) (?l + 3) (length pre) (Some (?l + 2)) es =
     http_header_loop m ((pre @ k @ [0, SPACE, c] @ w) @ CR # LF # rest) (?l + 3 + length w) (length pre) (Some (?l + 2)) es"
    using scan_value [of w m "pre @ k @ [0, SPACE, c]" "CR # LF # rest" "length pre" "?l + 2" es] v by (simp add: vw Suc_offsets)
  have 4: "http_header_loop m ((pre @ k @ [0, SPACE, c] @ w) @ CR # LF # rest) (?l + 3 + length w) (length pre) (Some (?l + 2)) es =
     http_header_loop (m - 1) ((pre @ k @ [0, SPACE, c] @ w @ [0]) @ LF # rest) (?l + 4 + length w) (?l + 4 + length w) None ((length pre, ?l + 2) # es)"
    using assms(2) by (subst http_header_loop.simps) (simp add: nth_append list_update_append Suc_offsets)
  have 5: "http_header_loop (m - 1) ((pre @ k @ [0, SPACE, c] @ w @ [0]) @ LF # rest) (?l + 4 + length w) (?l + 4 + length w) None ((length pre, ?l + 2) # es) =
     http_header_loop (m - 1) ((pre @ k @ [0, SPACE, c] @ w @ [0]) @ LF # rest) (?l + 5 + length w) (?l + 5 + length w) None ((length pre, ?l + 2) # es)"
    by (subst http_header_loop.simps) (simp add: nth_append Suc_offsets)
  show ?thesis
    using 1 2 3 4 5 by (simp add: parsed_line_def header_line_def vw Suc_offsets add.commute add.left_commute)
qed

lemma c_string_at: "0 \<notin> set s \<Longrightarrow> i = length pre \<Longrightarrow> c_string (pre @ s @ 0 # post) i = s"
  by (simp add: c_string_def takeWhile_append2 takeWhile_tail) (metis takeWhile_eq_all_conv takeWhile_append2 append_Nil2)

lemma parse_lines:
  assumes "\<forall>h \<in> set hs. header_ok h" "length hs \<le> m"
  shows "\<exists>es'. http_header_loop m (pre @ concat (map header_line hs) @ [CR, LF]) (length pre) (length pre) None es =
       (CHIAKI_ERR_SUCCESS, pre @ concat (map parsed_line hs) @ [CR, LF], es' @ es) \<and>
     header_strings (pre @ concat (map parsed_line hs) @ [CR, LF]) es' = rev hs"
  using assms
proof (induction hs arbitrary: m pre es)
  case Nil
  have "http_header_loop m (pre @ [CR, LF]) (length pre) (length pre) None es =
     http_header_loop m (pre @ [CR, LF]) (Suc (length pre)) (Suc (length pre)) None es"
    by (subst http_header_loop.simps) (simp add: nth_append)
  also have "\<dots> = http_header_loop m (pre @ [CR, LF]) (Suc (Suc (length pre))) (Suc (Suc (length pre))) None es"
    by (subst http_header_loop.simps) (simp add: nth_append)
  also have "\<dots> = (CHIAKI_ERR_SUCCESS, pre @ [CR, LF], es)"
    by (subst http_header_loop.simps) simp
  finally show ?case by (simp add: header_strings_def)
next
  case (Cons h hs)
  obtain k v where h: "h = (k, v)" by fastforce
  let ?n = "length pre + length (header_line h)" and ?e = "(length pre, length pre + length k + 2)"
  let ?t = "concat (map header_line hs) @ [CR, LF]" and ?t' = "concat (map parsed_line hs) @ [CR, LF]"
  have ok: "header_ok (k, v)" "0 < m" using Cons.prems h by auto
  have n: "?n = length (pre @ parsed_line h)" by (simp add: length_lines)
  have "\<forall>h \<in> set hs. header_ok h" "length hs \<le> m - 1" using Cons.prems by auto
  from Cons.IH [OF this, of "pre @ parsed_line h" "?e # es"] obtain es' where
    ih: "http_header_loop (m - 1) ((pre @ parsed_line h) @ ?t) ?n ?n None (?e # es) =
       (CHIAKI_ERR_SUCCESS, (pre @ parsed_line h) @ ?t', es' @ ?e # es)"
      "header_strings ((pre @ parsed_line h) @ ?t') es' = rev hs"
    unfolding n by blast
  have z: "0 \<notin> set k" "0 \<notin> set v" using ok by (auto simp: header_ok_def)
  let ?b = "pre @ parsed_line h @ ?t'"
  have "c_string ?b (length pre) = k"
    using c_string_at [OF z(1) refl, of pre "SPACE # v @ [0, LF] @ ?t'"] by (simp add: parsed_line_def h)
  moreover have "c_string ?b (length pre + length k + 2) = v"
    using c_string_at [OF z(2), of "length pre + length k + 2" "pre @ k @ [0, SPACE]" "LF # ?t'"]
    by (simp add: parsed_line_def h)
  ultimately have "header_strings ?b (es' @ [?e]) = rev (h # hs)"
    using ih(2) by (simp add: header_strings_def h)
  then show ?case
    using parse_line [OF ok, of pre ?t es] ih(1) by (intro exI [of _ "es' @ [?e]"]) (simp add: h)
qed

section \<open>Facts: responses\<close>

text \<open>A status line and headers as a server sends them.\<close>

definition response_text :: "bytes \<Rightarrow> bytes \<Rightarrow> (bytes \<times> bytes) list \<Rightarrow> bytes" where
  "response_text digits reason hs = http_version @ digits @ SPACE # reason @ [CR, LF] @ concat (map header_line hs) @ [CR, LF]"

lemma memchr_append: "c \<notin> set xs \<Longrightarrow> memchr c (xs @ c # ys) = Some (length xs)"
  by (induction xs) auto

lemma digit_not_special: "c_isdigit d \<Longrightarrow> d \<noteq> 0 \<and> d \<noteq> LF \<and> d \<noteq> 0x2d \<and> d \<noteq> 0x2b \<and> \<not> c_isspace d"
  by (auto simp: c_isdigit_def c_isspace_def word_le_nat_alt)

lemma digits_value_nonneg: "0 \<le> digits_value ds"
proof -
  have "0 \<le> n \<Longrightarrow> 0 \<le> fold (\<lambda>d n. n * 10 + int (unat d - 0x30)) ds n" for n :: int
    by (induction ds arbitrary: n) auto
  then show ?thesis by (simp add: digits_value_def)
qed

lemma strtol10_digits:
  assumes "ds \<noteq> []" "\<forall>d \<in> set ds. c_isdigit d" "digits_value ds < 2 ^ 31"
  shows "strtol10 (c_string (ds @ SPACE # more) 0) = digits_value ds"
proof -
  obtain e es where e: "ds = e # es" using assms(1) by (cases ds) auto
  have sp: "\<not> c_isdigit SPACE" by (simp add: c_isdigit_def)
  have c: "c_string (ds @ SPACE # more) 0 = ds @ SPACE # takeWhile (\<lambda>b. b \<noteq> 0) more"
    using assms(2) digit_not_special by (simp add: c_string_def takeWhile_append2)
  have "dropWhile c_isspace (ds @ SPACE # m) = ds @ SPACE # m" for m
    using assms(2) digit_not_special by (simp add: e)
  moreover have "takeWhile c_isdigit (ds @ SPACE # m) = ds" for m
    using assms(2) sp by (simp add: takeWhile_append2)
  moreover have "e \<noteq> 0x2d" "e \<noteq> 0x2b" using assms(2) digit_not_special [of e] by (auto simp: e)
  ultimately show ?thesis
    using assms(3) digits_value_nonneg [of ds] by (simp add: c strtol10_def Let_def) (simp add: e)
qed

lemma response_parse_line:
  assumes "LF \<notin> set line" "t \<noteq> []"
  shows "chiaki_http_response_parse m (http_version @ line @ CR # LF # t) =
     (let code = sint (word_of_int (strtol10 (c_string (line @ 0 # LF # t) 0)) :: 32 word)
      in if code = 0 then (CHIAKI_ERR_INVALID_DATA, code, line @ 0 # LF # t, [])
         else case chiaki_http_header_parse m t of (err, buf, header) \<Rightarrow> (err, code, buf, header))"
proof -
  have v: "length http_version = 9" by (simp add: http_version_def)
  have l: "memchr LF (line @ CR # LF # t) = Some (Suc (length line))"
    using memchr_append [of LF "line @ [CR]" t] assms(1) by simp
  have d: "drop (Suc (Suc (length line))) (line @ 0 # LF # t) = t"
    by (metis append_Cons append_Nil append_assoc append_eq_conv_conj length_append_singleton)
  show ?thesis
    using assms(2) by (simp add: chiaki_http_response_parse_def v l d Let_def list_update_append nth_append)
qed

lemma http_response_parsed:
  assumes "\<forall>h \<in> set hs. header_ok h" "length hs \<le> mallocs"
    and "\<forall>d \<in> set digits. c_isdigit d" "0 < digits_value digits" "digits_value digits < 2 ^ 31" "LF \<notin> set reason"
  shows "\<exists>buf entries. chiaki_http_response_parse mallocs (response_text digits reason hs) = (CHIAKI_ERR_SUCCESS, digits_value digits, buf, entries) \<and>
     header_strings buf entries = rev hs"
proof -
  let ?t = "concat (map header_line hs) @ [CR, LF]"
  let ?line = "digits @ SPACE # reason"
  have ne: "digits \<noteq> []" using assms(4) by (auto simp: digits_value_def)
  have "LF \<notin> set ?line" using assms(3,6) digit_not_special by auto
  then have p: "chiaki_http_response_parse mallocs (response_text digits reason hs) =
     (let code = sint (word_of_int (strtol10 (c_string (?line @ 0 # LF # ?t) 0)) :: 32 word)
      in if code = 0 then (CHIAKI_ERR_INVALID_DATA, code, ?line @ 0 # LF # ?t, [])
         else case chiaki_http_header_parse mallocs ?t of (err, buf, header) \<Rightarrow> (err, code, buf, header))"
    using response_parse_line [of ?line ?t mallocs] by (simp add: response_text_def)
  have i: "sint (word_of_int (digits_value digits) :: 32 word) = digits_value digits"
    using assms(4,5) by (simp add: sint_sbintrunc' signed_take_bit_int_eq_self)
  obtain es where "http_header_loop mallocs ?t 0 0 None [] = (CHIAKI_ERR_SUCCESS, concat (map parsed_line hs) @ [CR, LF], es)"
      "header_strings (concat (map parsed_line hs) @ [CR, LF]) es = rev hs"
    using parse_lines [OF assms(1,2), of "[]" "[]"] by auto
  then show ?thesis
    using assms(4) by (simp add: p strtol10_digits [OF ne assms(3,5)] i chiaki_http_header_parse_def)
qed

text \<open>
  C35. Responses are read back. A response with a status code between 1 and \<open>INT_MAX\<close>, a reason without a line break and
  header lines that have a key without a colon and a value, neither of them empty nor with a line break or a zero byte, parses
  successfully when memory suffices; the code is the number that the digits denote and the entries point to exactly the keys
  and values, the last line first.
\<close>

theorem http_response_roundtrip:
  assumes "\<forall>h \<in> set hs. header_ok h" "length hs \<le> mallocs"
    and "\<forall>d \<in> set digits. c_isdigit d" "0 < digits_value digits" "digits_value digits < 2 ^ 31" "LF \<notin> set reason"
  shows "\<exists>buf entries. chiaki_http_response_parse mallocs (response_text digits reason hs) = (CHIAKI_ERR_SUCCESS, digits_value digits, buf, entries) \<and>
     header_strings buf entries = rev hs"
  using assms by (rule http_response_parsed)

theorem http_response_roundtrip_witness:
  "\<exists>buf entries. chiaki_http_response_parse 2 (response_text [0x32, 0x30, 0x30] [0x4f, 0x4b] [([0x52, 0x50], [0x31]), ([0x4e], [0x3a])]) =
       (CHIAKI_ERR_SUCCESS, 200, buf, entries) \<and>
     header_strings buf entries = [([0x4e], [0x3a]), ([0x52, 0x50], [0x31])]"
  using http_response_roundtrip [of "[([0x52, 0x50], [0x31]), ([0x4e], [0x3a])]" 2 "[0x32, 0x30, 0x30]" "[0x4f, 0x4b]"]
  by (simp add: header_ok_def c_isdigit_def digits_value_def)

section \<open>Facts: receiving\<close>

definition recv_ok :: "bytes \<Rightarrow> ChiakiErrorCode \<times> bytes option" where
  "recv_ok d = (CHIAKI_ERR_SUCCESS, Some d)"

text \<open>Where the first blank line ends.\<close>

abbreviation "blank_line \<equiv> [CR, LF, CR, LF]"

fun header_end :: "bytes \<Rightarrow> nat option" where
  "header_end [] = None"
| "header_end (b # bs) = (if take 4 (b # bs) = blank_line then Some 4 else map_option Suc (header_end bs))"

text \<open>In state \<open>s\<close>, the last bytes were the first \<open>s\<close> of the blank line.\<close>

lemma header_end_step:
  assumes "s < 4"
  shows "http_nl_step s c \<le> s + 1"
    and "header_end (take s blank_line @ c # cs) =
       (if http_nl_step s c = 4 then Some (s + 1)
        else map_option (\<lambda>n. n + (s + 1 - http_nl_step s c)) (header_end (take (http_nl_step s c) blank_line @ cs)))"
proof -
  have s: "s = 0 \<or> s = 1 \<or> s = 2 \<or> s = 3" using assms by linarith
  show "http_nl_step s c \<le> s + 1"
    using s by (auto simp: http_nl_step_def transitions_r_def transitions_n_def)
  have "c = CR \<or> c = LF \<or> (c \<noteq> CR \<and> c \<noteq> LF)" by blast
  then show "header_end (take s blank_line @ c # cs) =
       (if http_nl_step s c = 4 then Some (s + 1)
        else map_option (\<lambda>n. n + (s + 1 - http_nl_step s c)) (header_end (take (http_nl_step s c) blank_line @ cs)))"
    using s
    by (elim disjE conjE; simp add: http_nl_step_def transitions_r_def transitions_n_def option.map_comp comp_def option.map_ident;
        auto intro!: option.map_cong0)
qed

lemma http_nl_step_bound: "s < 4 \<Longrightarrow> http_nl_step s c \<le> 4"
  using header_end_step(1) [of s c] by simp

lemma header_end_scan:
  assumes "s < 4" "http_scan s cs = (s', rest)"
  shows "if s' = 4 then length rest < length cs \<and> (\<forall>more. header_end (take s blank_line @ cs @ more) = Some (s + length cs - length rest))
     else s' < 4 \<and> s' \<le> s + length cs \<and>
       (\<forall>more. header_end (take s blank_line @ cs @ more) =
          map_option (\<lambda>n. n + (s + length cs - s')) (header_end (take s' blank_line @ more)))"
  using assms
proof (induction cs arbitrary: s)
  case Nil
  then show ?case by (auto simp: option.map_ident)
next
  case (Cons c cs)
  let ?t = "http_nl_step s c"
  note step = header_end_step [OF Cons.prems(1), of c]
  show ?case
  proof (cases "?t = 4")
    case True
    then show ?thesis using Cons.prems(2) step(2) by (auto simp: Let_def)
  next
    case False
    then have t: "?t < 4" and sc: "http_scan ?t cs = (s', rest)"
      using http_nl_step_bound [OF Cons.prems(1), of c] Cons.prems(2) by (auto simp: Let_def)
    from Cons.IH [OF t sc] False step show ?thesis
      by (auto simp: option.map_comp comp_def split: if_splits intro!: option.map_cong)
  qed
qed

lemma recv_loop_end:
  assumes "s < 4" "s \<le> length received" "\<forall>d \<in> set ds. d \<noteq> []" "length received + length (concat ds) \<le> buf_size"
    and inv: "\<forall>more. header_end (received @ more) = map_option (\<lambda>n. n + (length received - s)) (header_end (take s blank_line @ more))"
  shows "case header_end (received @ concat ds) of
        None \<Rightarrow> recv_http_header_loop stop buf_size (map recv_ok ds) s received = Some (Http_Waiting (received @ concat ds))
      | Some n \<Rightarrow> \<exists>j < length ds.
          recv_http_header_loop stop buf_size (map recv_ok ds) s received = Some (Http_Done CHIAKI_ERR_SUCCESS (received @ concat (take (Suc j) ds)) n) \<and>
          length received + length (concat (take j ds)) < n \<and> n \<le> length received + length (concat (take (Suc j) ds))"
  using assms
proof (induction ds arbitrary: s received)
  case Nil
  have "s = 0 \<or> s = 1 \<or> s = 2 \<or> s = 3" using Nil.prems(1) by linarith
  then have "header_end (take s blank_line) = None" by (elim disjE) simp_all
  then have "header_end received = None" using spec [OF Nil.prems(5), of "[]"] by simp
  then show ?case by simp
next
  case (Cons d ds)
  obtain s' rest where sc: "http_scan s d = (s', rest)" by fastforce
  have d: "d \<noteq> []" "take buf_size d = d" "\<not> buf_size < length received + length d" using Cons.prems(3,4) by auto
  note scan = header_end_scan [OF Cons.prems(1) sc]
  have inv: "header_end (received @ d @ more) = map_option (\<lambda>n. n + (length received - s)) (header_end (take s blank_line @ d @ more))" for more
    using Cons.prems(5) by simp
  show ?case
  proof (cases "s' = 4")
    case True
    then have r: "length rest < length d" and "header_end (received @ d @ concat ds) = Some (s + length d - length rest + (length received - s))"
      using scan inv by auto
    then have "header_end (received @ concat (d # ds)) = Some (length received + length d - length rest)"
      using Cons.prems(2) by simp
    then show ?thesis
      using r d by (auto simp: recv_ok_def sc True intro!: exI [of _ 0])
  next
    case False
    have "s' < 4" "s' \<le> length (received @ d)" "\<forall>d \<in> set ds. d \<noteq> []" "length (received @ d) + length (concat ds) \<le> buf_size"
      using scan False Cons.prems by auto
    moreover have "\<forall>more. header_end ((received @ d) @ more) =
       map_option (\<lambda>n. n + (length (received @ d) - s')) (header_end (take s' blank_line @ more))"
      using scan False Cons.prems(2) by (auto simp: inv option.map_comp comp_def intro!: option.map_cong)
    ultimately have IH: "case header_end ((received @ d) @ concat ds) of
        None \<Rightarrow> recv_http_header_loop stop buf_size (map recv_ok ds) s' (received @ d) = Some (Http_Waiting ((received @ d) @ concat ds))
      | Some n \<Rightarrow> \<exists>j < length ds.
          recv_http_header_loop stop buf_size (map recv_ok ds) s' (received @ d) = Some (Http_Done CHIAKI_ERR_SUCCESS ((received @ d) @ concat (take (Suc j) ds)) n) \<and>
          length (received @ d) + length (concat (take j ds)) < n \<and> n \<le> length (received @ d) + length (concat (take (Suc j) ds))"
      by (rule Cons.IH)
    have step: "recv_http_header_loop stop buf_size (map recv_ok (d # ds)) s received = recv_http_header_loop stop buf_size (map recv_ok ds) s' (received @ d)"
      using d False by (simp add: recv_ok_def sc)
    show ?thesis
    proof (cases "header_end (received @ concat (d # ds))")
      case None
      then show ?thesis using IH step by simp
    next
      case (Some n)
      then obtain j where "j < length ds" "recv_http_header_loop stop buf_size (map recv_ok ds) s' (received @ d) = Some (Http_Done CHIAKI_ERR_SUCCESS ((received @ d) @ concat (take (Suc j) ds)) n)"
          "length (received @ d) + length (concat (take j ds)) < n" "n \<le> length (received @ d) + length (concat (take (Suc j) ds))"
        using IH by auto
      then show ?thesis
        unfolding Some step by (auto simp: intro!: exI [of _ "Suc j"])
    qed
  qed
qed

lemma recv_header_found:
  assumes "\<forall>d \<in> set ds. d \<noteq> []" "length (concat ds) \<le> buf_size"
  shows "case header_end (concat ds) of
        None \<Rightarrow> chiaki_recv_http_header stop buf_size (map recv_ok ds) = Some (Http_Waiting (concat ds))
      | Some n \<Rightarrow> \<exists>j < length ds.
          chiaki_recv_http_header stop buf_size (map recv_ok ds) = Some (Http_Done CHIAKI_ERR_SUCCESS (concat (take (Suc j) ds)) n) \<and>
          length (concat (take j ds)) < n \<and> n \<le> length (concat (take (Suc j) ds))"
  using recv_loop_end [of 0 "[]" ds buf_size stop] assms
  by (simp add: chiaki_recv_http_header_def option.map_ident split: option.split_asm)

text \<open>
  C34. The end of a header is found. However the bytes of a response are split into the parts that \<open>recv\<close> returns, as long as
  all of them fit into the buffer, the reception succeeds with the part that completes the first blank line and \<open>*header_size\<close>
  is where that line ends; without a blank line it waits for more.
\<close>

theorem http_header_end_found:
  assumes "\<forall>d \<in> set ds. d \<noteq> []" "length (concat ds) \<le> buf_size"
  shows "case header_end (concat ds) of
        None \<Rightarrow> chiaki_recv_http_header stop buf_size (map recv_ok ds) = Some (Http_Waiting (concat ds))
      | Some n \<Rightarrow> \<exists>j < length ds.
          chiaki_recv_http_header stop buf_size (map recv_ok ds) = Some (Http_Done CHIAKI_ERR_SUCCESS (concat (take (Suc j) ds)) n) \<and>
          length (concat (take j ds)) < n \<and> n \<le> length (concat (take (Suc j) ds))"
  using assms by (rule recv_header_found)

theorem http_header_end_found_witness:
  "chiaki_recv_http_header True 16 (map recv_ok [[0x41, CR], [LF, CR, CR], [LF, CR, LF, 0x42]]) =
     Some (Http_Done CHIAKI_ERR_SUCCESS [0x41, CR, LF, CR, CR, LF, CR, LF, 0x42] 8)"
proof -
  let ?ds = "[[0x41, CR], [LF, CR, CR], [LF, CR, LF, 0x42]] :: bytes list"
  have e: "header_end (concat ?ds) = Some 8" by simp
  have "\<exists>j < length ?ds. chiaki_recv_http_header True 16 (map recv_ok ?ds) = Some (Http_Done CHIAKI_ERR_SUCCESS (concat (take (Suc j) ?ds)) 8) \<and>
       length (concat (take j ?ds)) < 8 \<and> 8 \<le> length (concat (take (Suc j) ?ds))"
    using http_header_end_found [of ?ds 16 True] unfolding e option.case by simp
  then obtain j where j: "j < length ?ds" "length (concat (take j ?ds)) < 8" "8 \<le> length (concat (take (Suc j) ?ds))"
      "chiaki_recv_http_header True 16 (map recv_ok ?ds) = Some (Http_Done CHIAKI_ERR_SUCCESS (concat (take (Suc j) ?ds)) 8)"
    by blast
  from j(1) have "j = 0 \<or> j = 1 \<or> j = 2" by auto
  then show ?thesis using j(2-4) by (elim disjE) simp_all
qed

text \<open>Every \<open>recv\<close> may write \<open>buf_size\<close> bytes at a pointer that has moved on: two parts suffice to write beyond the buffer.\<close>

lemma recv_header_overflow:
  assumes "d \<noteq> []" "header_end d = None" "length d \<le> buf_size" "length e = buf_size" "0 < buf_size"
  shows "chiaki_recv_http_header stop buf_size [recv_ok d, recv_ok e] = None"
proof -
  obtain s rest where sc: "http_scan 0 d = (s, rest)" by fastforce
  have "s \<noteq> 4"
  proof
    assume "s = 4"
    then have "\<forall>more. header_end (d @ more) = Some (length d - length rest)" using header_end_scan [OF _ sc] by simp
    then have "header_end (d @ []) = Some (length d - length rest)" by blast
    then show False using assms(2) by simp
  qed
  moreover have "e \<noteq> []" using assms(4,5) by auto
  ultimately show ?thesis using assms by (simp add: chiaki_recv_http_header_def recv_ok_def sc)
qed

text \<open>An empty value is not rejected: the loop steps over the position that the check compares with.\<close>

lemma empty_value_accepted:
  "chiaki_http_header_parse 1 [0x41, COLON, SPACE, CR, LF] = (CHIAKI_ERR_SUCCESS, [0x41, 0, SPACE, CR, 0], [(0, 3)])"
  "header_strings [0x41, 0, SPACE, CR, 0] [(0, 3)] = [([0x41], [CR])]"
  by (simp_all add: chiaki_http_header_parse_def http_header_loop.simps header_strings_def c_string_def numeral_3_eq_3)

end
