(* ===== verification/RPCrypt.thy ===== *)
theory RPCrypt
  imports RPCrypt_Keys
begin

text \<open>
  \<open>lib/src/rpcrypt.c\<close> (OpenSSL build): the keys of a session and of a registration and the encryption of the
  control messages. The cryptographic primitives are not part of the sources: the record \<open>rp_crypto\<close> is the
  parameter that holds what the calls return, \<open>None\<close> being a failure.
\<close>

abbreviation "CHIAKI_RPCRYPT_KEY_SIZE \<equiv> 0x10 :: nat"

text \<open>
  \<open>rp_ctx\<close>: a cipher context can be allocated. \<open>rp_hmac key data\<close>: HMAC-SHA256. \<open>rp_cfb encrypt key iv data\<close>: AES-128 in CFB mode.
\<close>

record rp_crypto =
  rp_ctx :: bool
  rp_hmac :: "bytes \<Rightarrow> bytes \<Rightarrow> bytes option"
  rp_cfb :: "bool \<Rightarrow> bytes \<Rightarrow> bytes \<Rightarrow> bytes \<Rightarrow> bytes option"

record rpcrypt =
  rp_target :: ChiakiTarget
  rp_bright :: bytes
  rp_ambassador :: bytes

section \<open>Keys of a session\<close>

definition echo_b :: bytes where
  "echo_b = [0xe1, 0xec, 0x9c, 0x3a, 0xdd, 0xbd, 0x08, 0x85, 0xfc, 0x0e, 0x1d, 0x78, 0x90, 0x32, 0xc0, 0x04]"

definition echo_a :: bytes where
  "echo_a = [0x01, 0x49, 0x87, 0x9b, 0x65, 0x39, 0x8b, 0x39, 0x4b, 0x3a, 0x8d, 0x48, 0xc3, 0x0a, 0xef, 0x51]"

text \<open>The results are \<open>bright\<close> and \<open>ambassador\<close>. The nonce and the morning have \<open>0x10\<close> bytes.\<close>

definition bright_ambassador_ps4_pre10 :: "bytes \<Rightarrow> bytes \<Rightarrow> bytes \<times> bytes" where
  "bright_ambassador_ps4_pre10 nonce morning =
     (map (\<lambda>i. (morning ! i - of_nat i + 0x34) XOR echo_b ! i XOR nonce ! i) [0..<CHIAKI_RPCRYPT_KEY_SIZE],
      map (\<lambda>i. (nonce ! i - of_nat i - 0x27) XOR echo_a ! i) [0..<CHIAKI_RPCRYPT_KEY_SIZE])"

definition bright_ambassador :: "ChiakiTarget \<Rightarrow> bytes \<Rightarrow> bytes \<Rightarrow> (ChiakiErrorCode + bytes \<times> bytes) option" where
  "bright_ambassador target nonce morning =
     (if target < CHIAKI_TARGET_PS4_10 then Some (Inl CHIAKI_ERR_INVALID_DATA)
      else let ps5 = chiaki_target_is_ps5 target;
               keys_a = (if ps5 then keys_a_ps5 else keys_a_ps4);
               keys_b = (if ps5 then keys_b_ps5 else keys_b_ps4)
        in do {
          key \<leftarrow> load_bytes keys_a (unat (drop_bit 3 (nonce ! 0)) * 0x70) CHIAKI_RPCRYPT_KEY_SIZE;
          let ambassador = map (\<lambda>i. (if ps5 then nonce ! i - 0x2d - of_nat i else nonce ! i + 0x36 + of_nat i) XOR key ! i)
                [0..<CHIAKI_RPCRYPT_KEY_SIZE];
          key \<leftarrow> load_bytes keys_b (unat (drop_bit 3 (nonce ! 7)) * 0x70) CHIAKI_RPCRYPT_KEY_SIZE;
          let bright = (if ps5 then map (\<lambda>i. (morning ! i + 0x18 + of_nat i) XOR nonce ! i XOR key ! i) [0..<CHIAKI_RPCRYPT_KEY_SIZE]
                else map (\<lambda>i. ((key ! i XOR morning ! i) + 0x21 + of_nat i) XOR nonce ! i) [0..<CHIAKI_RPCRYPT_KEY_SIZE]);
          Some (Inr (bright, ambassador)) })"

definition chiaki_rpcrypt_bright_ambassador :: "ChiakiTarget \<Rightarrow> bytes \<Rightarrow> bytes \<Rightarrow> (bytes \<times> bytes) option" where
  "chiaki_rpcrypt_bright_ambassador target nonce morning =
     (if target = CHIAKI_TARGET_PS4_8 \<or> target = CHIAKI_TARGET_PS4_9 then Some (bright_ambassador_ps4_pre10 nonce morning)
      else do {
        r \<leftarrow> bright_ambassador target nonce morning;
        case r of Inl err \<Rightarrow> None | Inr keys \<Rightarrow> Some keys })"

definition chiaki_rpcrypt_init_auth :: "ChiakiTarget \<Rightarrow> bytes \<Rightarrow> bytes \<Rightarrow> rpcrypt option" where
  "chiaki_rpcrypt_init_auth target nonce morning = do {
     (bright, ambassador) \<leftarrow> chiaki_rpcrypt_bright_ambassador target nonce morning;
     Some \<lparr>rp_target = target, rp_bright = bright, rp_ambassador = ambassador\<rparr> }"

section \<open>Keys of a registration\<close>

definition chiaki_rpcrypt_aeropause_ps4_pre10 :: "bytes \<Rightarrow> bytes" where
  "chiaki_rpcrypt_aeropause_ps4_pre10 ambassador =
     map (\<lambda>i. (ambassador ! i - of_nat i - 0x29) XOR echo_b ! i) [0..<CHIAKI_RPCRYPT_KEY_SIZE]"

text \<open>Every sixteenth byte of a table is a column: the bytes at \<open>i * 0x20 + off\<close>.\<close>

definition key_column :: "bytes \<Rightarrow> nat \<Rightarrow> bytes option" where
  "key_column keys off =
     (if 0xf * 0x20 + off < length keys then Some (map (\<lambda>i. keys ! (i * 0x20 + off)) [0..<CHIAKI_RPCRYPT_KEY_SIZE]) else None)"

definition chiaki_rpcrypt_aeropause :: "ChiakiTarget \<Rightarrow> nat \<Rightarrow> bytes \<Rightarrow> (ChiakiErrorCode + bytes) option" where
  "chiaki_rpcrypt_aeropause target key_1_off ambassador =
     (if target < CHIAKI_TARGET_PS4_10 then Some (Inl CHIAKI_ERR_INVALID_DATA)
      else let wurzelbert = (if chiaki_target_is_ps5 target then - 0x2d else 0x29)
        in do {
          k \<leftarrow> key_column (if chiaki_target_is_ps5 target then ps5_keys_1 else ps4_keys_1) key_1_off;
          Some (Inr (map (\<lambda>i. (ambassador ! i XOR k ! i) + wurzelbert + of_nat i) [0..<CHIAKI_RPCRYPT_KEY_SIZE])) })"

definition regist_aes_key :: bytes where
  "regist_aes_key = [0x3f, 0x1c, 0xc4, 0xb6, 0xdc, 0xbb, 0x3e, 0xcc, 0x50, 0xba, 0xed, 0xef, 0x97, 0x34, 0xc7, 0xc9]"

text \<open>The four bytes of the PIN, xored to those from \<open>at\<close> on.\<close>

definition xor_pin :: "nat \<Rightarrow> u32 \<Rightarrow> bytes \<Rightarrow> bytes" where
  "xor_pin at pin bright =
     bright[at := bright ! at XOR ucast (drop_bit 0x18 pin AND 0xff),
            at + 1 := bright ! (at + 1) XOR ucast (drop_bit 0x10 pin AND 0xff),
            at + 2 := bright ! (at + 2) XOR ucast (drop_bit 0x08 pin AND 0xff),
            at + 3 := bright ! (at + 3) XOR ucast (pin AND 0xff)]"

definition chiaki_rpcrypt_init_regist_ps4_pre10 :: "bytes \<Rightarrow> u32 \<Rightarrow> rpcrypt" where
  "chiaki_rpcrypt_init_regist_ps4_pre10 ambassador pin =
     \<lparr>rp_target = CHIAKI_TARGET_PS4_9, rp_bright = xor_pin 0 pin regist_aes_key, rp_ambassador = take CHIAKI_RPCRYPT_KEY_SIZE ambassador\<rparr>"

definition chiaki_rpcrypt_init_regist :: "ChiakiTarget \<Rightarrow> bytes \<Rightarrow> nat \<Rightarrow> u32 \<Rightarrow> (ChiakiErrorCode + rpcrypt) option" where
  "chiaki_rpcrypt_init_regist target ambassador key_0_off pin =
     (if target < CHIAKI_TARGET_PS4_10 then Some (Inl CHIAKI_ERR_INVALID_DATA)
      else if key_0_off \<ge> 0x20 then Some (Inl CHIAKI_ERR_INVALID_DATA)
      else do {
        bright \<leftarrow> key_column (if chiaki_target_is_ps5 target then ps5_keys_0 else ps4_keys_0) key_0_off;
        Some (Inr \<lparr>rp_target = target, rp_bright = xor_pin 0xc pin bright, rp_ambassador = take CHIAKI_RPCRYPT_KEY_SIZE ambassador\<rparr>) })"

section \<open>Encryption\<close>

definition hmac_key_ps5 :: bytes where
  "hmac_key_ps5 = [0x46, 0x46, 0x87, 0xb3, 0x49, 0xca, 0x8c, 0xe8, 0x59, 0xc5, 0x27, 0x0f, 0x5d, 0x7a, 0x69, 0xd6]"

definition hmac_key_ps4 :: bytes where
  "hmac_key_ps4 = [0x20, 0xd6, 0x6f, 0x59, 0x04, 0xea, 0x7c, 0x14, 0xe5, 0x57, 0xff, 0xc5, 0x2e, 0x48, 0x8a, 0xc8]"

definition hmac_key_ps4_pre10 :: bytes where
  "hmac_key_ps4_pre10 = [0xac, 0x07, 0x88, 0x83, 0xc8, 0x3a, 0x1f, 0xe8, 0x11, 0x46, 0x3a, 0xf3, 0x9e, 0xe3, 0xe3, 0x77]"

definition rpcrypt_hmac_key :: "rpcrypt \<Rightarrow> bytes" where
  "rpcrypt_hmac_key rp =
     (case rp_target rp of
        CHIAKI_TARGET_PS5_1 \<Rightarrow> hmac_key_ps5
      | CHIAKI_TARGET_PS4_8 \<Rightarrow> hmac_key_ps4_pre10
      | CHIAKI_TARGET_PS4_9 \<Rightarrow> hmac_key_ps4_pre10
      | _ \<Rightarrow> hmac_key_ps4)"

definition counter_bytes :: "u64 \<Rightarrow> bytes" where
  "counter_bytes counter =
     [ucast (drop_bit 0x38 counter AND 0xff), ucast (drop_bit 0x30 counter AND 0xff), ucast (drop_bit 0x28 counter AND 0xff),
      ucast (drop_bit 0x20 counter AND 0xff), ucast (drop_bit 0x18 counter AND 0xff), ucast (drop_bit 0x10 counter AND 0xff),
      ucast (drop_bit 0x08 counter AND 0xff), ucast (counter AND 0xff)]"

definition chiaki_rpcrypt_generate_iv :: "rp_crypto \<Rightarrow> rpcrypt \<Rightarrow> u64 \<Rightarrow> ChiakiErrorCode + bytes" where
  "chiaki_rpcrypt_generate_iv cr rp counter =
     (case rp_hmac cr (rpcrypt_hmac_key rp) (take CHIAKI_RPCRYPT_KEY_SIZE (rp_ambassador rp) @ counter_bytes counter) of
        None \<Rightarrow> Inl CHIAKI_ERR_UNKNOWN
      | Some hmac \<Rightarrow>
          if length hmac < CHIAKI_RPCRYPT_KEY_SIZE then Inl CHIAKI_ERR_UNKNOWN
          else Inr (take CHIAKI_RPCRYPT_KEY_SIZE hmac))"

text \<open>
  The calls of OpenSSL take the size as an \<open>int\<close> and refuse a negative one, as those of OpenSSL 1.1 do without saying so in their documentation; otherwise they read that many bytes. \<open>outl\<close> is the length of
  their output.
\<close>

definition chiaki_rpcrypt_crypt :: "rp_crypto \<Rightarrow> rpcrypt \<Rightarrow> u64 \<Rightarrow> bytes \<Rightarrow> nat \<Rightarrow> bool \<Rightarrow> (ChiakiErrorCode + bytes) option" where
  "chiaki_rpcrypt_crypt cr rp counter inp sz encrypt =
     (if \<not> rp_ctx cr then Some (Inl CHIAKI_ERR_UNKNOWN)
      else case chiaki_rpcrypt_generate_iv cr rp counter of
        Inl err \<Rightarrow> Some (Inl err)
      | Inr iv \<Rightarrow>
          let n = sint (of_nat sz :: u32) in
          if n < 0 then Some (Inl CHIAKI_ERR_UNKNOWN)
          else do {
            data \<leftarrow> load_bytes inp 0 (nat n);
            Some (case rp_cfb cr encrypt (rp_bright rp) iv data of
              None \<Rightarrow> Inl CHIAKI_ERR_UNKNOWN
            | Some out \<Rightarrow> if int (length out) \<noteq> n then Inl CHIAKI_ERR_UNKNOWN else Inr out) })"

definition chiaki_rpcrypt_encrypt :: "rp_crypto \<Rightarrow> rpcrypt \<Rightarrow> u64 \<Rightarrow> bytes \<Rightarrow> nat \<Rightarrow> (ChiakiErrorCode + bytes) option" where
  "chiaki_rpcrypt_encrypt cr rp counter inp sz = chiaki_rpcrypt_crypt cr rp counter inp sz True"

definition chiaki_rpcrypt_decrypt :: "rp_crypto \<Rightarrow> rpcrypt \<Rightarrow> u64 \<Rightarrow> bytes \<Rightarrow> nat \<Rightarrow> (ChiakiErrorCode + bytes) option" where
  "chiaki_rpcrypt_decrypt cr rp counter inp sz = chiaki_rpcrypt_crypt cr rp counter inp sz False"

section \<open>Facts: which keys are defined\<close>

lemmas length_tables = length_keys_a_ps4 length_keys_a_ps5 length_keys_b_ps4 length_keys_b_ps5
  length_ps4_keys_0 length_ps5_keys_0 length_ps4_keys_1 length_ps5_keys_1

lemma drop_bit_3_u8: "unat (drop_bit 3 (b :: u8)) \<le> 31"
proof -
  have "unat b < 256" using unat_bound [of b] by simp
  then show ?thesis by (simp add: unat_drop_bit)
qed

lemma key_loads:
  "length keys = 0x70 * 0x20 \<Longrightarrow> load_bytes keys (unat (drop_bit 3 (b :: u8)) * 0x70) 0x10 = Some (take 0x10 (drop (unat (drop_bit 3 b) * 0x70) keys))"
proof -
  assume l: "length keys = 0x70 * 0x20"
  have "unat (drop_bit 3 b) * 0x70 + 0x10 \<le> 31 * 0x70 + 0x10" using drop_bit_3_u8 [of b] by (intro add_mono mult_mono) auto
  then show ?thesis by (simp add: load_bytes_def l)
qed

text \<open>Key derivation for a session is defined, with keys of the right size, for every target but the unknown PS4.\<close>

lemma bright_ambassador_defined:
  assumes "target \<noteq> CHIAKI_TARGET_PS4_UNKNOWN"
  shows "\<exists>rp. chiaki_rpcrypt_init_auth target nonce morning = Some rp \<and> rp_target rp = target \<and> length (rp_bright rp) = 0x10 \<and> length (rp_ambassador rp) = 0x10"
proof (cases "target = CHIAKI_TARGET_PS4_8 \<or> target = CHIAKI_TARGET_PS4_9")
  case True
  then show ?thesis by (auto simp: chiaki_rpcrypt_init_auth_def chiaki_rpcrypt_bright_ambassador_def bright_ambassador_ps4_pre10_def)
next
  case False
  then have "\<not> target < CHIAKI_TARGET_PS4_10" using assms by (cases target) (auto simp: target_order)
  moreover have "length (if chiaki_target_is_ps5 target then keys_a_ps5 else keys_a_ps4) = 0x70 * 0x20"
    "length (if chiaki_target_is_ps5 target then keys_b_ps5 else keys_b_ps4) = 0x70 * 0x20"
    by (simp_all add: length_tables)
  ultimately show ?thesis
    using False by (simp add: chiaki_rpcrypt_init_auth_def chiaki_rpcrypt_bright_ambassador_def bright_ambassador_def Let_def key_loads)
qed

section \<open>Facts: the keys of a registration determine the secrets\<close>

lemma length_xor_pin [simp]: "length (xor_pin at pin bright) = length bright"
  by (simp add: xor_pin_def)

lemma key_column_defined: "length keys = 512 \<Longrightarrow> key_column keys off = None \<longleftrightarrow> 0x20 \<le> off"
  by (auto simp: key_column_def)

lemma length_key_column: "key_column keys off = Some k \<Longrightarrow> length k = 0x10"
  by (auto simp: key_column_def split: if_splits)

lemma length_key_tables:
  "length (if ps5 then ps5_keys_0 else ps4_keys_0) = 512" "length (if ps5 then ps5_keys_1 else ps4_keys_1) = 512"
  by (simp_all add: length_tables)

text \<open>The offset into the table is checked for a registration but not for the aeropause, where it must come from five bits.\<close>

lemma aeropause_defined_iff:
  "chiaki_rpcrypt_aeropause target off ambassador = None \<longleftrightarrow> \<not> target < CHIAKI_TARGET_PS4_10 \<and> 0x20 \<le> off"
proof -
  let ?k = "if chiaki_target_is_ps5 target then ps5_keys_1 else ps4_keys_1"
  have "key_column ?k off = None \<longleftrightarrow> 0x20 \<le> off" by (rule key_column_defined) (rule length_key_tables)
  then show ?thesis by (cases "key_column ?k off") (auto simp: chiaki_rpcrypt_aeropause_def Let_def)
qed

lemma init_regist_defined: "chiaki_rpcrypt_init_regist target ambassador off pin \<noteq> None"
proof -
  let ?k = "if chiaki_target_is_ps5 target then ps5_keys_0 else ps4_keys_0"
  have "key_column ?k off = None \<longleftrightarrow> 0x20 \<le> off" by (rule key_column_defined) (rule length_key_tables)
  then show ?thesis by (cases "key_column ?k off") (auto simp: chiaki_rpcrypt_init_regist_def)
qed

lemma xor_right_cancel: "(a XOR c = b XOR c) = (a = b)" for a b c :: "'a::len word"
  by (metis xor.right_neutral xor.assoc xor_self_eq)

lemma xor_left_cancel: "(c XOR a = c XOR b) = (a = b)" for a b c :: "'a::len word"
  by (metis xor.left_neutral xor.assoc xor_self_eq)

lemma pin_bytes_inj:
  assumes "(ucast (drop_bit 0x18 p AND 0xff) :: u8) = ucast (drop_bit 0x18 q AND 0xff)"
    "(ucast (drop_bit 0x10 p AND 0xff) :: u8) = ucast (drop_bit 0x10 q AND 0xff)"
    "(ucast (drop_bit 0x08 p AND 0xff) :: u8) = ucast (drop_bit 0x08 q AND 0xff)"
    "(ucast (p AND 0xff) :: u8) = ucast (q AND 0xff)"
  shows "p = (q :: u32)"
proof -
  have "(0xff :: u32) = mask 8" by (simp add: mask_eq_exp_minus_1)
  then have "w AND 0xff = take_bit 8 w" for w :: u32 by (simp only: take_bit_eq_mask)
  then have m: "(ucast (w AND 0xff) :: u8) = ucast w" for w :: u32
    by (simp add: bit_eq_iff bit_simps)
  note b = assms [unfolded m]
  show ?thesis
    using word32_join_split [of p] unfolding b word32_join_split by (rule sym)
qed

lemma xor_pin_inj:
  assumes "xor_pin at p b = xor_pin at q b" "at + 3 < length b"
  shows "p = q"
proof (rule pin_bytes_inj)
  have n: "xor_pin at p b ! i = xor_pin at q b ! i" for i using assms(1) by simp
  from n [of at] n [of "at + 1"] n [of "at + 2"] n [of "at + 3"] assms(2)
  show "(ucast (drop_bit 0x18 p AND 0xff) :: u8) = ucast (drop_bit 0x18 q AND 0xff)"
    "(ucast (drop_bit 0x10 p AND 0xff) :: u8) = ucast (drop_bit 0x10 q AND 0xff)"
    "(ucast (drop_bit 0x08 p AND 0xff) :: u8) = ucast (drop_bit 0x08 q AND 0xff)"
    "(ucast (p AND 0xff) :: u8) = ucast (q AND 0xff)"
    by (simp_all add: xor_pin_def xor_left_cancel)
qed

text \<open>
  The secrets of a registration can be recovered. For a target from PS4 10 on and offsets below \<open>0x20\<close>, the aeropause and
  the encryption keys of a registration are defined; equal aeropauses come from equal ambassadors and equal keys from equal PINs.
\<close>

theorem rpcrypt_regist_secrets:
  assumes "\<not> target < CHIAKI_TARGET_PS4_10" "key_0_off < 0x20" "key_1_off < 0x20" "length a = 0x10" "length b = 0x10"
  shows "\<exists>x y rp rp'. chiaki_rpcrypt_aeropause target key_1_off a = Some (Inr x) \<and> chiaki_rpcrypt_aeropause target key_1_off b = Some (Inr y) \<and>
     chiaki_rpcrypt_init_regist target a key_0_off p = Some (Inr rp) \<and> chiaki_rpcrypt_init_regist target b key_0_off q = Some (Inr rp') \<and>
     (x = y \<longrightarrow> a = b) \<and> (rp_bright rp = rp_bright rp' \<longrightarrow> p = q)"
proof -
  let ?k0 = "if chiaki_target_is_ps5 target then ps5_keys_0 else ps4_keys_0" and ?k1 = "if chiaki_target_is_ps5 target then ps5_keys_1 else ps4_keys_1"
  obtain k0 where k0: "key_column ?k0 key_0_off = Some k0" "length k0 = 0x10"
    using key_column_defined [OF length_key_tables(1)] assms(2) length_key_column by (metis leD option.exhaust)
  obtain k1 where k1: "key_column ?k1 key_1_off = Some k1" "length k1 = 0x10"
    using key_column_defined [OF length_key_tables(2)] assms(3) length_key_column by (metis leD option.exhaust)
  let ?x = "\<lambda>a. map (\<lambda>i. (a ! i XOR k1 ! i) + (if chiaki_target_is_ps5 target then - 0x2d else 0x29) + of_nat i) [0..<0x10] :: bytes"
  have "a = b" if "?x a = ?x b"
  proof (rule nth_equalityI)
    fix i assume "i < length a"
    then have "i < 0x10" by (simp only: assms(4))
    then have "?x a ! i = (a ! i XOR k1 ! i) + (if chiaki_target_is_ps5 target then - 0x2d else 0x29) + of_nat i"
      "?x b ! i = (b ! i XOR k1 ! i) + (if chiaki_target_is_ps5 target then - 0x2d else 0x29) + of_nat i"
      by (simp_all del: upt_rec_numeral)
    then show "a ! i = b ! i" using that by (simp add: xor_right_cancel del: upt_rec_numeral)
  qed (simp only: assms(4,5))
  moreover have "p = q" if "xor_pin 0xc p k0 = xor_pin 0xc q k0" using that by (rule xor_pin_inj) (simp add: k0(2))
  ultimately show ?thesis
    using assms(1,2) k0 k1 by (simp add: chiaki_rpcrypt_aeropause_def chiaki_rpcrypt_init_regist_def Let_def del: upt_rec_numeral)
qed

theorem rpcrypt_regist_secrets_witness:
  "\<exists>x y rp rp'. chiaki_rpcrypt_aeropause CHIAKI_TARGET_PS5_1 31 (replicate 16 7) = Some (Inr x) \<and>
     chiaki_rpcrypt_aeropause CHIAKI_TARGET_PS5_1 31 (replicate 16 8) = Some (Inr y) \<and>
     chiaki_rpcrypt_init_regist CHIAKI_TARGET_PS5_1 (replicate 16 7) 30 78703893 = Some (Inr rp) \<and>
     chiaki_rpcrypt_init_regist CHIAKI_TARGET_PS5_1 (replicate 16 8) 30 78703894 = Some (Inr rp') \<and> x \<noteq> y \<and> rp_bright rp \<noteq> rp_bright rp'"
proof -
  have "\<not> CHIAKI_TARGET_PS5_1 < CHIAKI_TARGET_PS4_10" by (simp add: target_order)
  moreover have "replicate 16 7 \<noteq> (replicate 16 8 :: bytes)" by simp
  ultimately show ?thesis
    using rpcrypt_regist_secrets [of CHIAKI_TARGET_PS5_1 30 31 "replicate 16 7" "replicate 16 8" 78703893 78703894]
    by (simp only: length_replicate) fastforce
qed

section \<open>Facts: encryption\<close>

text \<open>What the code relies on: the primitives succeed, keep lengths, and decryption inverts encryption.\<close>

definition rp_crypto_ok :: "rp_crypto \<Rightarrow> bool" where
  "rp_crypto_ok cr \<longleftrightarrow> rp_ctx cr \<and> (\<forall>k d. \<exists>h. rp_hmac cr k d = Some h \<and> length h = 32) \<and>
     (\<forall>k iv m. \<exists>c. rp_cfb cr True k iv m = Some c \<and> length c = length m \<and> rp_cfb cr False k iv c = Some m)"

lemma generate_iv_ok: "rp_crypto_ok cr \<Longrightarrow> \<exists>iv. chiaki_rpcrypt_generate_iv cr rp counter = Inr iv"
proof -
  assume ok: "rp_crypto_ok cr"
  obtain h where "rp_hmac cr (rpcrypt_hmac_key rp) (take CHIAKI_RPCRYPT_KEY_SIZE (rp_ambassador rp) @ counter_bytes counter) = Some h" "length h = 32"
    using ok unfolding rp_crypto_ok_def by blast
  then show ?thesis by (simp add: chiaki_rpcrypt_generate_iv_def)
qed

lemma sint_of_size: "n < 2 ^ 31 \<Longrightarrow> sint (of_nat n :: u32) = int n"
  by (simp add: signed_of_nat signed_take_bit_int_eq_self)

lemma crypt_roundtrip:
  assumes "rp_crypto_ok cr" "length m < 2 ^ 31"
  shows "\<exists>c. chiaki_rpcrypt_encrypt cr rp counter m (length m) = Some (Inr c) \<and> length c = length m \<and>
     chiaki_rpcrypt_decrypt cr rp counter c (length m) = Some (Inr m)"
proof -
  obtain iv where iv: "chiaki_rpcrypt_generate_iv cr rp counter = Inr iv" using generate_iv_ok [OF assms(1)] by blast
  obtain c where c: "rp_cfb cr True (rp_bright rp) iv m = Some c" "length c = length m" "rp_cfb cr False (rp_bright rp) iv c = Some m"
    using assms(1) unfolding rp_crypto_ok_def by blast
  show ?thesis
    using assms(1) c sint_of_size [OF assms(2)]
    by (simp add: chiaki_rpcrypt_encrypt_def chiaki_rpcrypt_decrypt_def chiaki_rpcrypt_crypt_def iv rp_crypto_ok_def load_bytes_def)
qed

text \<open>Encryption and decryption read no more than they are given.\<close>

lemma crypt_defined: "sz \<le> length inp \<Longrightarrow> sz < 2 ^ 31 \<Longrightarrow> chiaki_rpcrypt_crypt cr rp counter inp sz encrypt \<noteq> None"
  using sint_of_size [of sz] by (auto simp: chiaki_rpcrypt_crypt_def load_bytes_def Let_def split: sum.splits)

lemma crypt_length: "chiaki_rpcrypt_crypt cr rp counter inp sz encrypt = Some (Inr out) \<Longrightarrow> sz < 2 ^ 31 \<Longrightarrow> length out = sz"
  using sint_of_size [of sz] by (auto simp: chiaki_rpcrypt_crypt_def Let_def split: sum.splits option.splits if_splits Option.bind_splits)

section \<open>The vectors of \<open>test/rpcrypt.c\<close>\<close>

lemma upt_key_size: "[0..<0x10] = [0, 1, 2, 3, 4, 5, 6, 7, 8, 9, 10, 11, 12, 13, 14, 15]"
  by (simp add: upt_rec)

lemma test_bright_ambassador_ps4_pre10:
  "chiaki_rpcrypt_bright_ambassador CHIAKI_TARGET_PS4_9
     [0x43, 0x09, 0x67, 0xae, 0x36, 0x4b, 0x1c, 0x45, 0x26, 0x62, 0x37, 0x7a, 0xbf, 0x3f, 0xe9, 0x39]
     [0xd2, 0x78, 0x9f, 0x51, 0x85, 0xa7, 0x99, 0xa2, 0x44, 0x52, 0x77, 0x9c, 0x2b, 0x83, 0xcf, 0x07] =
   Some ([0xa4, 0x4e, 0x2a, 0x16, 0x5e, 0x20, 0xd3, 0x0f, 0xaa, 0x11, 0x8b, 0xc7, 0x7c, 0xa7, 0xdc, 0x11],
     [0x1d, 0xa8, 0xb9, 0x1f, 0x6e, 0x26, 0x64, 0x2e, 0xbc, 0x08, 0x8b, 0x00, 0x4f, 0x01, 0x5b, 0x52])"
  by (simp add: chiaki_rpcrypt_bright_ambassador_def bright_ambassador_ps4_pre10_def echo_a_def echo_b_def upt_key_size)

lemma test_bright_ambassador:
  "chiaki_rpcrypt_bright_ambassador CHIAKI_TARGET_PS4_10
     [0xae, 0x92, 0xe7, 0x64, 0x88, 0x26, 0x51, 0xef, 0x89, 0x01, 0x8c, 0xfa, 0x69, 0x6c, 0x69, 0x38]
     [0x74, 0xa5, 0x9c, 0x96, 0x93, 0xc2, 0x08, 0x3b, 0xa6, 0xa8, 0x4b, 0xa0, 0x50, 0xfa, 0x8e, 0x5a] =
   Some ([0x67, 0x40, 0x8c, 0x5e, 0x65, 0x66, 0x5a, 0xd2, 0x91, 0xa8, 0x32, 0xeb, 0xe2, 0xd9, 0x0a, 0xbb],
     [0x92, 0xbe, 0xe2, 0x19, 0xb9, 0xd5, 0xb1, 0xab, 0xc6, 0x49, 0x45, 0x77, 0xa4, 0x21, 0xe9, 0xbd])"
  by (simp add: chiaki_rpcrypt_bright_ambassador_def bright_ambassador_def target_order target_is_ps5_iff Let_def load_bytes_def
        length_tables keys_a_ps4_def keys_b_ps4_def keys_a_ps4_sizes keys_b_ps4_sizes keys_a_ps4_21_def keys_b_ps4_29_def upt_key_size)

lemma test_bright_regist:
  "\<exists>rp. chiaki_rpcrypt_init_regist CHIAKI_TARGET_PS4_10 (replicate 16 0) 0x1e 78703893 = Some (Inr rp) \<and> rp_bright rp =
     [0xed, 0xfc, 0x1d, 0xc5, 0xa2, 0xfe, 0x2d, 0x7f, 0x09, 0x19, 0x85, 0x75, 0x33, 0x6c, 0x13, 0x16]"
  "\<exists>rp. chiaki_rpcrypt_init_regist CHIAKI_TARGET_PS5_1 (replicate 16 0) 0x1e 78703893 = Some (Inr rp) \<and> rp_bright rp =
     [0xe2, 0x9d, 0x64, 0x4c, 0x14, 0x1b, 0x9d, 0x61, 0x74, 0x31, 0xa5, 0x6d, 0x34, 0xcf, 0xc1, 0x7f]"
  by (simp_all add: chiaki_rpcrypt_init_regist_def target_order target_is_ps5_iff key_column_def length_tables xor_pin_def
        ps4_keys_0_def ps4_keys_0_0_def ps4_keys_0_1_def ps4_keys_0_2_def ps4_keys_0_3_def
        ps5_keys_0_def ps5_keys_0_0_def ps5_keys_0_1_def ps5_keys_0_2_def ps5_keys_0_3_def upt_key_size)

end
