(* ===== verification/Stop_Pipe.thy ===== *)
theory Stop_Pipe
  imports Common
begin

text \<open>
  \<open>lib/src/stoppipe.c\<close> and the timed waits of \<open>lib/src/thread.c\<close> (POSIX). A stop pipe is the number of bytes in it. What
  the calls of the platform return is an argument.
\<close>

section \<open>Stop pipes\<close>

type_synonym stop_pipe = nat

text \<open>\<open>pipe_r\<close> and \<open>fcntl_r\<close> are the results of \<open>pipe\<close> and \<open>fcntl\<close>.\<close>

definition chiaki_stop_pipe_init :: "int \<Rightarrow> int \<Rightarrow> ChiakiErrorCode \<times> stop_pipe" where
  "chiaki_stop_pipe_init pipe_r fcntl_r =
     (if pipe_r < 0 then (CHIAKI_ERR_UNKNOWN, 0)
      else if fcntl_r = - 1 then (CHIAKI_ERR_UNKNOWN, 0)
      else (CHIAKI_ERR_SUCCESS, 0))"

definition chiaki_stop_pipe_stop :: "stop_pipe \<Rightarrow> stop_pipe" where
  "chiaki_stop_pipe_stop pipe = pipe + 1"

text \<open>
  \<open>select_r\<close> is the result of \<open>select\<close>; \<open>fd\<close> is \<open>None\<close> for an invalid socket and otherwise whether it is ready. The read end
  of the pipe is ready when there are bytes in it.
\<close>

definition chiaki_stop_pipe_select_single :: "stop_pipe \<Rightarrow> int \<Rightarrow> bool option \<Rightarrow> ChiakiErrorCode" where
  "chiaki_stop_pipe_select_single pipe select_r fd =
     (if select_r < 0 then CHIAKI_ERR_UNKNOWN
      else if pipe > 0 then CHIAKI_ERR_CANCELED
      else if fd = Some True then CHIAKI_ERR_SUCCESS
      else CHIAKI_ERR_TIMEOUT)"

definition chiaki_stop_pipe_sleep :: "stop_pipe \<Rightarrow> int \<Rightarrow> ChiakiErrorCode" where
  "chiaki_stop_pipe_sleep pipe select_r = chiaki_stop_pipe_select_single pipe select_r None"

text \<open>The last \<open>read\<close> of the loop finds the pipe empty and, the pipe being non-blocking, fails.\<close>

fun drain_pipe :: "stop_pipe \<Rightarrow> int \<times> stop_pipe" where
  "drain_pipe 0 = (- 1, 0)"
| "drain_pipe (Suc n) = drain_pipe n"

definition chiaki_stop_pipe_reset :: "stop_pipe \<Rightarrow> ChiakiErrorCode \<times> stop_pipe" where
  "chiaki_stop_pipe_reset pipe =
     (case drain_pipe pipe of (r, pipe) \<Rightarrow> (if r < 0 then CHIAKI_ERR_UNKNOWN else CHIAKI_ERR_SUCCESS, pipe))"

text \<open>The error numbers that the code distinguishes.\<close>

datatype errno = EINPROGRESS | ECONNREFUSED | ENOTCONN | ETIMEDOUT | EHOSTDOWN | EHOSTUNREACH | E_other

text \<open>
  \<open>connect_r\<close> is the error of \<open>connect\<close>, \<open>select_r\<close> and \<open>ready\<close> are those of the wait for the socket, \<open>peer_r\<close> is the error of
  \<open>getpeername\<close>, \<open>sockerr\<close> the socket's error (\<open>None\<close>: \<open>getsockopt\<close> failed).
\<close>

definition chiaki_stop_pipe_connect ::
  "stop_pipe \<Rightarrow> errno option \<Rightarrow> int \<Rightarrow> bool \<Rightarrow> errno option \<Rightarrow> errno option \<Rightarrow> ChiakiErrorCode" where
  "chiaki_stop_pipe_connect pipe connect_r select_r ready peer_r sockerr =
     (case connect_r of
        None \<Rightarrow> CHIAKI_ERR_SUCCESS
      | Some EINPROGRESS \<Rightarrow>
          let err = chiaki_stop_pipe_select_single pipe select_r (Some ready) in
          if err \<noteq> CHIAKI_ERR_SUCCESS then err
          else (case peer_r of
            None \<Rightarrow> CHIAKI_ERR_SUCCESS
          | Some e \<Rightarrow>
              if e \<noteq> ENOTCONN then CHIAKI_ERR_UNKNOWN
              else case sockerr of
                Some ETIMEDOUT \<Rightarrow> CHIAKI_ERR_TIMEOUT
              | Some ECONNREFUSED \<Rightarrow> CHIAKI_ERR_CONNECTION_REFUSED
              | Some EHOSTDOWN \<Rightarrow> CHIAKI_ERR_HOST_DOWN
              | Some EHOSTUNREACH \<Rightarrow> CHIAKI_ERR_HOST_UNREACH
              | _ \<Rightarrow> CHIAKI_ERR_UNKNOWN)
      | Some ECONNREFUSED \<Rightarrow> CHIAKI_ERR_CONNECTION_REFUSED
      | Some _ \<Rightarrow> CHIAKI_ERR_NETWORK)"

section \<open>Timed waits\<close>

text \<open>A \<open>timespec\<close>: seconds and nanoseconds.\<close>

type_synonym timespec = "nat \<times> nat"

definition set_timeout :: "timespec \<Rightarrow> nat \<Rightarrow> timespec" where
  "set_timeout now ms_from_now =
     (let tv_sec = fst now + ms_from_now div 1000;
          tv_nsec = snd now + (ms_from_now mod 1000) * 1000000
      in if tv_nsec > 1000000000 then (tv_sec + tv_nsec div 1000000000, tv_nsec mod 1000000000) else (tv_sec, tv_nsec))"

text \<open>
  \<open>pthread_cond_timedwait\<close> refuses a time whose nanoseconds are not below a second (\<open>EINVAL\<close>); otherwise it returns when it
  is woken or when the time is over.
\<close>

datatype wakeup = Wake_Signal | Wake_Timeout

definition chiaki_cond_timedwait_abs :: "timespec \<Rightarrow> wakeup \<Rightarrow> ChiakiErrorCode" where
  "chiaki_cond_timedwait_abs timeout w =
     (if snd timeout \<ge> 1000000000 then CHIAKI_ERR_UNKNOWN
      else case w of Wake_Signal \<Rightarrow> CHIAKI_ERR_SUCCESS | Wake_Timeout \<Rightarrow> CHIAKI_ERR_TIMEOUT)"

text \<open>
  The wait for a predicate. Each wakeup comes with the state as the other threads have left it; \<open>None\<close>: still waiting.
\<close>

fun timedwait_pred_loop :: "timespec \<Rightarrow> ('s \<Rightarrow> bool) \<Rightarrow> 's \<Rightarrow> (wakeup \<times> 's) list \<Rightarrow> (ChiakiErrorCode \<times> 's) option" where
  "timedwait_pred_loop timeout check_pred s wakeups =
     (if check_pred s then Some (CHIAKI_ERR_SUCCESS, s)
      else case wakeups of
        [] \<Rightarrow> if snd timeout \<ge> 1000000000 then Some (CHIAKI_ERR_UNKNOWN, s) else None
      | (w, s') # wakeups \<Rightarrow>
          if snd timeout \<ge> 1000000000 then Some (CHIAKI_ERR_UNKNOWN, s)
          else let err = chiaki_cond_timedwait_abs timeout w in
            if err \<noteq> CHIAKI_ERR_SUCCESS then Some (err, s')
            else timedwait_pred_loop timeout check_pred s' wakeups)"

declare timedwait_pred_loop.simps [simp del]

definition chiaki_cond_timedwait_pred ::
  "timespec \<Rightarrow> nat \<Rightarrow> ('s \<Rightarrow> bool) \<Rightarrow> 's \<Rightarrow> (wakeup \<times> 's) list \<Rightarrow> (ChiakiErrorCode \<times> 's) option" where
  "chiaki_cond_timedwait_pred now timeout_ms check_pred s wakeups =
     timedwait_pred_loop (set_timeout now timeout_ms) check_pred s wakeups"

section \<open>Facts\<close>

text \<open>Resetting empties the pipe, but its result is always an error.\<close>

lemma drain_pipe_simp [simp]: "drain_pipe pipe = (- 1, 0)"
  by (induction pipe) auto

lemma stop_pipe_reset [simp]: "chiaki_stop_pipe_reset pipe = (CHIAKI_ERR_UNKNOWN, 0)"
  by (simp add: chiaki_stop_pipe_reset_def)

lemma stop_pipe_select_canceled [simp]:
  "0 \<le> r \<Longrightarrow> chiaki_stop_pipe_select_single pipe r fd = CHIAKI_ERR_CANCELED \<longleftrightarrow> 0 < pipe"
  by (auto simp: chiaki_stop_pipe_select_single_def)

lemma set_timeout_ns:
  assumes "snd now < 1000000000"
  shows "fst (set_timeout now ms) * 1000000000 + snd (set_timeout now ms) = fst now * 1000000000 + snd now + ms * 1000000"
proof -
  have "ms div 1000 * 1000 + ms mod 1000 = ms" by simp
  then have ms: "ms * 1000000 = ms div 1000 * 1000000000 + ms mod 1000 * 1000000" by linarith
  show ?thesis by (simp add: set_timeout_def Let_def ms add_mult_distrib)
qed

lemma set_timeout_valid_iff:
  assumes "snd now < 1000000000"
  shows "snd (set_timeout now ms) < 1000000000 \<longleftrightarrow> snd now + ms mod 1000 * 1000000 \<noteq> 1000000000"
  by (auto simp: set_timeout_def Let_def)

text \<open>Waiting until the predicate holds or the time is over.\<close>

fun wait_until :: "('s \<Rightarrow> bool) \<Rightarrow> (wakeup \<times> 's) list \<Rightarrow> (ChiakiErrorCode \<times> 's) option" where
  "wait_until check_pred [] = None"
| "wait_until check_pred ((Wake_Timeout, s) # wakeups) = Some (CHIAKI_ERR_TIMEOUT, s)"
| "wait_until check_pred ((Wake_Signal, s) # wakeups) = (if check_pred s then Some (CHIAKI_ERR_SUCCESS, s) else wait_until check_pred wakeups)"

lemma timedwait_pred_loop_valid:
  "snd timeout < 1000000000 \<Longrightarrow> \<not> check_pred s \<Longrightarrow> timedwait_pred_loop timeout check_pred s wakeups = wait_until check_pred wakeups"
proof (induction wakeups arbitrary: s)
  case (Cons x wakeups)
  obtain w s' where x: "x = (w, s')" by fastforce
  have "timedwait_pred_loop timeout check_pred s' wakeups = (if check_pred s' then Some (CHIAKI_ERR_SUCCESS, s') else wait_until check_pred wakeups)"
    using Cons.IH [of s'] Cons.prems(1) by (cases "check_pred s'") (simp_all add: timedwait_pred_loop.simps)
  then show ?case
    using Cons.prems by (subst timedwait_pred_loop.simps) (cases w; simp add: x chiaki_cond_timedwait_abs_def)
qed (simp add: timedwait_pred_loop.simps)

text \<open>
  C40. A timed wait waits until its predicate holds or the time, which is that of its start plus the timeout, is over; except
  when the nanoseconds add up to exactly a second: then it fails at once with \<open>CHIAKI_ERR_UNKNOWN\<close>, its predicate not holding.
\<close>

theorem timed_wait_whole_second:
  assumes "snd now < 1000000000" "\<not> check_pred s"
  shows "chiaki_cond_timedwait_pred now ms check_pred s wakeups =
       (if snd now + ms mod 1000 * 1000000 = 1000000000 then Some (CHIAKI_ERR_UNKNOWN, s) else wait_until check_pred wakeups) \<and>
     fst (set_timeout now ms) * 1000000000 + snd (set_timeout now ms) = fst now * 1000000000 + snd now + ms * 1000000"
proof (cases "snd now + ms mod 1000 * 1000000 = 1000000000")
  case True
  then have "\<not> snd (set_timeout now ms) < 1000000000" using set_timeout_valid_iff [OF assms(1)] by blast
  then have "chiaki_cond_timedwait_pred now ms check_pred s wakeups = Some (CHIAKI_ERR_UNKNOWN, s)"
    using assms(2) by (cases wakeups) (auto simp: chiaki_cond_timedwait_pred_def timedwait_pred_loop.simps)
  then show ?thesis using True set_timeout_ns [OF assms(1)] by simp
next
  case False
  then show ?thesis
    using timedwait_pred_loop_valid [of "set_timeout now ms" check_pred s] set_timeout_valid_iff [OF assms(1)] assms(2)
      set_timeout_ns [OF assms(1)]
    by (simp add: chiaki_cond_timedwait_pred_def)
qed

theorem timed_wait_whole_second_witness:
  "chiaki_cond_timedwait_pred (7, 800000000) 5200 id False [(Wake_Signal, True)] = Some (CHIAKI_ERR_UNKNOWN, False) \<and>
   chiaki_cond_timedwait_pred (7, 800000001) 5200 id False [(Wake_Signal, True)] = Some (CHIAKI_ERR_SUCCESS, True)"
  using timed_wait_whole_second [of "(7, 800000000)" id False 5200 "[(Wake_Signal, True)]"]
    timed_wait_whole_second [of "(7, 800000001)" id False 5200 "[(Wake_Signal, True)]"]
  by simp

end
