(* ===== verification/Session_Types.thy ===== *)
theory Session_Types
  imports RPCrypt Stop_Pipe
begin

text \<open>
  \<open>lib/include/chiaki/session.h\<close>: the data of a session that its threads share, with the functions of \<open>lib/src/session.c\<close> on versions,
  video profiles and reasons. A C string is the list of its bytes without the terminating zero.
\<close>

definition ascii :: "string \<Rightarrow> bytes" where
  "ascii s = map of_char s"

lemma ascii_simps [simp]: "ascii [] = []" "ascii (c # s) = of_char c # ascii s"
  by (simp_all add: ascii_def)

section \<open>Reasons\<close>

definition chiaki_rp_application_reason_string :: "u32 \<Rightarrow> string" where
  "chiaki_rp_application_reason_string reason =
     (if reason = 0x80108b09 then ''Regist failed, probably invalid PIN''
      else if reason = 0x80108b02 then ''Invalid PSN ID''
      else if reason = 0x80108b10 then ''Remote is already in use''
      else if reason = 0x80108b15 then ''Remote Play on Console crashed''
      else if reason = 0x80108b11 then ''RP-Version mismatch''
      else ''unknown'')"

abbreviation "CHIAKI_RP_APPLICATION_REASON_IN_USE \<equiv> 0x80108b10 :: u32"
abbreviation "CHIAKI_RP_APPLICATION_REASON_CRASH \<equiv> 0x80108b15 :: u32"
abbreviation "CHIAKI_RP_APPLICATION_REASON_RP_VERSION \<equiv> 0x80108b11 :: u32"
abbreviation "CHIAKI_RP_APPLICATION_REASON_UNKNOWN \<equiv> 0x80108bff :: u32"

datatype ChiakiQuitReason =
    CHIAKI_QUIT_REASON_NONE | CHIAKI_QUIT_REASON_STOPPED | CHIAKI_QUIT_REASON_SESSION_REQUEST_UNKNOWN
  | CHIAKI_QUIT_REASON_SESSION_REQUEST_CONNECTION_REFUSED | CHIAKI_QUIT_REASON_SESSION_REQUEST_RP_IN_USE
  | CHIAKI_QUIT_REASON_SESSION_REQUEST_RP_CRASH | CHIAKI_QUIT_REASON_SESSION_REQUEST_RP_VERSION_MISMATCH
  | CHIAKI_QUIT_REASON_CTRL_UNKNOWN | CHIAKI_QUIT_REASON_CTRL_CONNECT_FAILED | CHIAKI_QUIT_REASON_CTRL_CONNECTION_REFUSED
  | CHIAKI_QUIT_REASON_STREAM_CONNECTION_UNKNOWN | CHIAKI_QUIT_REASON_STREAM_CONNECTION_REMOTE_DISCONNECTED

fun chiaki_quit_reason_string :: "ChiakiQuitReason \<Rightarrow> string" where
  "chiaki_quit_reason_string CHIAKI_QUIT_REASON_STOPPED = ''Stopped''"
| "chiaki_quit_reason_string CHIAKI_QUIT_REASON_SESSION_REQUEST_UNKNOWN = ''Unknown Session Request Error''"
| "chiaki_quit_reason_string CHIAKI_QUIT_REASON_SESSION_REQUEST_CONNECTION_REFUSED = ''Connection Refused in Session Request''"
| "chiaki_quit_reason_string CHIAKI_QUIT_REASON_SESSION_REQUEST_RP_IN_USE = ''Remote Play on Console is already in use''"
| "chiaki_quit_reason_string CHIAKI_QUIT_REASON_SESSION_REQUEST_RP_CRASH = ''Remote Play on Console has crashed''"
| "chiaki_quit_reason_string CHIAKI_QUIT_REASON_SESSION_REQUEST_RP_VERSION_MISMATCH = ''RP-Version mismatch''"
| "chiaki_quit_reason_string CHIAKI_QUIT_REASON_CTRL_UNKNOWN = ''Unknown Ctrl Error''"
| "chiaki_quit_reason_string CHIAKI_QUIT_REASON_CTRL_CONNECTION_REFUSED = ''Connection Refused in Ctrl''"
| "chiaki_quit_reason_string CHIAKI_QUIT_REASON_CTRL_CONNECT_FAILED = ''Ctrl failed to connect''"
| "chiaki_quit_reason_string CHIAKI_QUIT_REASON_STREAM_CONNECTION_UNKNOWN = ''Unknown Error in Stream Connection''"
| "chiaki_quit_reason_string CHIAKI_QUIT_REASON_STREAM_CONNECTION_REMOTE_DISCONNECTED = ''Remote has disconnected from Stream Connection''"
| "chiaki_quit_reason_string CHIAKI_QUIT_REASON_NONE = ''Unknown''"

section \<open>Versions\<close>

fun chiaki_rp_version_string :: "ChiakiTarget \<Rightarrow> string option" where
  "chiaki_rp_version_string CHIAKI_TARGET_PS4_8 = Some ''8.0''"
| "chiaki_rp_version_string CHIAKI_TARGET_PS4_9 = Some ''9.0''"
| "chiaki_rp_version_string CHIAKI_TARGET_PS4_10 = Some ''10.0''"
| "chiaki_rp_version_string CHIAKI_TARGET_PS5_1 = Some ''1.0''"
| "chiaki_rp_version_string _ = None"

definition chiaki_rp_version_parse :: "bytes \<Rightarrow> bool \<Rightarrow> ChiakiTarget" where
  "chiaki_rp_version_parse rp_version_str is_ps5 =
     (if is_ps5 then if rp_version_str = ascii ''1.0'' then CHIAKI_TARGET_PS5_1 else CHIAKI_TARGET_PS5_UNKNOWN
      else if rp_version_str = ascii ''8.0'' then CHIAKI_TARGET_PS4_8
      else if rp_version_str = ascii ''9.0'' then CHIAKI_TARGET_PS4_9
      else if rp_version_str = ascii ''10.0'' then CHIAKI_TARGET_PS4_10
      else CHIAKI_TARGET_PS4_UNKNOWN)"

lemma rp_version_roundtrip:
  "chiaki_rp_version_string target = Some v \<Longrightarrow> chiaki_rp_version_parse (ascii v) (chiaki_target_is_ps5 target) = target"
  by (cases target) (auto simp: chiaki_rp_version_parse_def target_is_ps5_iff)

section \<open>Video profiles\<close>

record connect_video_profile =
  vp_width :: nat
  vp_height :: nat
  vp_max_fps :: nat
  vp_bitrate :: nat
  vp_codec :: ChiakiCodec

datatype ChiakiVideoResolutionPreset =
    CHIAKI_VIDEO_RESOLUTION_PRESET_360p | CHIAKI_VIDEO_RESOLUTION_PRESET_540p | CHIAKI_VIDEO_RESOLUTION_PRESET_720p
  | CHIAKI_VIDEO_RESOLUTION_PRESET_1080p | CHIAKI_VIDEO_RESOLUTION_PRESET_2160p

datatype ChiakiVideoFPSPreset = CHIAKI_VIDEO_FPS_PRESET_30 | CHIAKI_VIDEO_FPS_PRESET_60

definition chiaki_connect_video_profile_preset :: "ChiakiVideoResolutionPreset \<Rightarrow> ChiakiVideoFPSPreset \<Rightarrow> connect_video_profile" where
  "chiaki_connect_video_profile_preset resolution fps =
     (case (case resolution of
          CHIAKI_VIDEO_RESOLUTION_PRESET_360p \<Rightarrow> (640, 360, 2000)
        | CHIAKI_VIDEO_RESOLUTION_PRESET_540p \<Rightarrow> (960, 540, 6000)
        | CHIAKI_VIDEO_RESOLUTION_PRESET_720p \<Rightarrow> (1280, 720, 10000)
        | CHIAKI_VIDEO_RESOLUTION_PRESET_1080p \<Rightarrow> (1920, 1080, 15000)
        | CHIAKI_VIDEO_RESOLUTION_PRESET_2160p \<Rightarrow> (3840, 2160, 40000))
      of (width, height, bitrate) \<Rightarrow>
        \<lparr>vp_width = width, vp_height = height,
         vp_max_fps = (case fps of CHIAKI_VIDEO_FPS_PRESET_30 \<Rightarrow> 30 | CHIAKI_VIDEO_FPS_PRESET_60 \<Rightarrow> 60),
         vp_bitrate = bitrate, vp_codec = CHIAKI_CODEC_H264\<rparr>)"

section \<open>Events\<close>

text \<open>A text is the bytes of a string, or \<open>None\<close> for a null pointer.\<close>

datatype ChiakiEvent =
    CHIAKI_EVENT_CONNECTED
  | CHIAKI_EVENT_LOGIN_PIN_REQUEST bool
  | CHIAKI_EVENT_KEYBOARD_OPEN "bytes option"
  | CHIAKI_EVENT_KEYBOARD_TEXT_CHANGE "bytes option"
  | CHIAKI_EVENT_KEYBOARD_REMOTE_CLOSE
  | CHIAKI_EVENT_RUMBLE u8 u8 u8
  | CHIAKI_EVENT_QUIT ChiakiQuitReason "bytes option"
  | CHIAKI_EVENT_TRIGGER_EFFECTS u8 u8 bytes bytes

section \<open>The session\<close>

abbreviation "CHIAKI_RP_DID_SIZE \<equiv> 32 :: nat"
abbreviation "CHIAKI_SESSION_ID_SIZE_MAX \<equiv> 80 :: nat"

text \<open>
  \<open>connect_info\<close> first. The control connection, the stream connection, the sinks and the callbacks are not part of it; \<open>session_id\<close>
  is the buffer, \<open>hostname\<close> a string.
\<close>

record session =
  s_ps5 :: bool
  s_hostname :: bytes
  s_regist_key :: bytes
  s_morning :: bytes
  s_did :: bytes
  s_video_profile :: connect_video_profile
  s_video_profile_auto_downgrade :: bool
  s_enable_keyboard :: bool
  s_enable_dualsense :: bool
  s_target :: ChiakiTarget
  s_nonce :: bytes
  s_rpcrypt :: rpcrypt
  s_session_id :: bytes
  s_handshake_key :: bytes
  s_mtu_in :: u32
  s_mtu_out :: u32
  s_rtt_us :: u64
  s_quit_reason :: ChiakiQuitReason
  s_quit_reason_str :: "bytes option"
  s_stop_pipe :: stop_pipe
  s_should_stop :: bool
  s_ctrl_failed :: bool
  s_ctrl_session_id_received :: bool
  s_ctrl_login_pin_requested :: bool
  s_login_pin_entered :: bool
  s_login_pin :: "bytes option"

end
