(* ===== verification/Ctrl.thy ===== *)
theory Ctrl
  imports Session_Types
begin

text \<open>
  \<open>lib/src/ctrl.c\<close>: the control connection without its establishment (theory \<open>Ctrl_Connect\<close>): its messages, what the other
  threads ask of it, and a turn of its thread. Logging is left out. A payload is \<open>None\<close> for a null pointer.
\<close>

abbreviation "CTRL_MESSAGE_TYPE_SESSION_ID \<equiv> 0x33 :: u16"
abbreviation "CTRL_MESSAGE_TYPE_HEARTBEAT_REQ \<equiv> 0xfe :: u16"
abbreviation "CTRL_MESSAGE_TYPE_HEARTBEAT_REP \<equiv> 0x1fe :: u16"
abbreviation "CTRL_MESSAGE_TYPE_LOGIN_PIN_REQ \<equiv> 0x4 :: u16"
abbreviation "CTRL_MESSAGE_TYPE_LOGIN_PIN_REP \<equiv> 0x8004 :: u16"
abbreviation "CTRL_MESSAGE_TYPE_LOGIN \<equiv> 0x5 :: u16"
abbreviation "CTRL_MESSAGE_TYPE_GOTO_BED \<equiv> 0x50 :: u16"
abbreviation "CTRL_MESSAGE_TYPE_KEYBOARD_ENABLE_TOGGLE \<equiv> 0x20 :: u16"
abbreviation "CTRL_MESSAGE_TYPE_KEYBOARD_OPEN \<equiv> 0x21 :: u16"
abbreviation "CTRL_MESSAGE_TYPE_KEYBOARD_CLOSE_REMOTE \<equiv> 0x22 :: u16"
abbreviation "CTRL_MESSAGE_TYPE_KEYBOARD_TEXT_CHANGE_REQ \<equiv> 0x23 :: u16"
abbreviation "CTRL_MESSAGE_TYPE_KEYBOARD_TEXT_CHANGE_RES \<equiv> 0x24 :: u16"
abbreviation "CTRL_MESSAGE_TYPE_KEYBOARD_CLOSE_REQ \<equiv> 0x25 :: u16"

abbreviation "CTRL_LOGIN_STATE_SUCCESS \<equiv> 0x0 :: u8"
abbreviation "CTRL_LOGIN_STATE_PIN_INCORRECT \<equiv> 0x1 :: u8"

abbreviation "CTRL_RECV_BUF_SIZE \<equiv> 512 :: nat"

type_synonym ctrl_message = "u16 \<times> bytes option"

record ctrl =
  c_should_stop :: bool
  c_login_pin_entered :: bool
  c_login_pin :: "bytes option"
  c_msg_queue :: "ctrl_message list"
  c_notif_pipe :: stop_pipe
  c_login_pin_requested :: bool
  c_recv_buf :: bytes
  c_recv_buf_size :: nat
  c_counter_local :: u64
  c_counter_remote :: u64
  c_keyboard_text_counter :: u32

text \<open>
  What the platform calls of a turn return: \<open>ce_alloc\<close> for a size, \<open>ce_send\<close> how many of the bytes are sent (\<open>None\<close>: an error);
  \<open>ce_event_cb\<close>: there is an event callback.
\<close>

record ctrl_env =
  ce_crypto :: rp_crypto
  ce_alloc :: "nat \<Rightarrow> bool"
  ce_send :: "bytes \<Rightarrow> nat option"
  ce_event_cb :: bool

text \<open>Bytes on the socket, events for the callback, signals of the session's condition variable.\<close>

datatype ctrl_out = Ctrl_Wire bytes | Ctrl_Event ChiakiEvent | Ctrl_Signal

type_synonym ctrl_state = "ctrl \<times> session"

section \<open>Operations of other threads\<close>

text \<open>\<open>pipe_r\<close>, \<open>pipe_size\<close>: the result of \<open>chiaki_stop_pipe_init\<close>; \<open>mutex_r\<close> that of \<open>chiaki_mutex_init\<close>. Fields that are not initialised keep their values.\<close>

definition chiaki_ctrl_init :: "ChiakiErrorCode \<times> stop_pipe \<Rightarrow> ChiakiErrorCode \<Rightarrow> ctrl \<Rightarrow> ChiakiErrorCode \<times> ctrl" where
  "chiaki_ctrl_init pipe_r mutex_r c =
     (let c = c\<lparr>c_should_stop := False, c_login_pin_entered := False, c_login_pin_requested := False, c_login_pin := None,
               c_msg_queue := [], c_keyboard_text_counter := 0\<rparr>
      in if fst pipe_r \<noteq> CHIAKI_ERR_SUCCESS then (fst pipe_r, c)
         else (mutex_r, c\<lparr>c_notif_pipe := snd pipe_r\<rparr>))"

definition chiaki_ctrl_stop :: "ctrl \<Rightarrow> ctrl" where
  "chiaki_ctrl_stop c = c\<lparr>c_should_stop := True, c_notif_pipe := chiaki_stop_pipe_stop (c_notif_pipe c)\<rparr>"

text \<open>The message is queued with the mutex held; the notification follows without it, so other steps can come in between.\<close>

definition ctrl_queue_message :: "u16 \<Rightarrow> bytes option \<Rightarrow> ctrl \<Rightarrow> ctrl" where
  "ctrl_queue_message type payload c = c\<lparr>c_msg_queue := c_msg_queue c @ [(type, payload)]\<rparr>"

definition ctrl_notify :: "ctrl \<Rightarrow> ctrl" where
  "ctrl_notify c = c\<lparr>c_notif_pipe := chiaki_stop_pipe_stop (c_notif_pipe c)\<rparr>"

text \<open>\<open>alloc_queue\<close> and \<open>alloc_payload\<close>: the allocations succeed.\<close>

definition chiaki_ctrl_send_message :: "bool \<Rightarrow> bool \<Rightarrow> u16 \<Rightarrow> bytes option \<Rightarrow> ctrl \<Rightarrow> ChiakiErrorCode \<times> ctrl" where
  "chiaki_ctrl_send_message alloc_queue alloc_payload type payload c =
     (if \<not> alloc_queue then (CHIAKI_ERR_MEMORY, c)
      else if payload \<noteq> None \<and> \<not> alloc_payload then (CHIAKI_ERR_MEMORY, c)
      else (CHIAKI_ERR_SUCCESS, ctrl_notify (ctrl_queue_message type payload c)))"

definition chiaki_ctrl_set_login_pin :: "bool \<Rightarrow> bytes \<Rightarrow> ctrl \<Rightarrow> ctrl" where
  "chiaki_ctrl_set_login_pin alloc pin c =
     (if \<not> alloc then c
      else c\<lparr>c_login_pin_entered := True, c_login_pin := Some pin, c_notif_pipe := chiaki_stop_pipe_stop (c_notif_pipe c)\<rparr>)"

definition chiaki_ctrl_goto_bed :: "bool \<Rightarrow> ctrl \<Rightarrow> ChiakiErrorCode \<times> ctrl" where
  "chiaki_ctrl_goto_bed alloc_queue c = chiaki_ctrl_send_message alloc_queue True CTRL_MESSAGE_TYPE_GOTO_BED None c"

text \<open>\<open>CtrlKeyboardTextRequestMessage\<close> has 36 bytes: counter, length, 24 zero bytes and the length again.\<close>

definition keyboard_text_request :: "u32 \<Rightarrow> bytes \<Rightarrow> bytes" where
  "keyboard_text_request counter text =
     htonl_bytes counter @ htonl_bytes (of_nat (length text)) @ replicate 24 0 @ htonl_bytes (of_nat (length text)) @ text"

definition chiaki_ctrl_keyboard_set_text :: "bool \<Rightarrow> bool \<Rightarrow> bool \<Rightarrow> bytes \<Rightarrow> ctrl \<Rightarrow> ChiakiErrorCode \<times> ctrl" where
  "chiaki_ctrl_keyboard_set_text alloc alloc_queue alloc_payload text c =
     (if \<not> alloc then (CHIAKI_ERR_MEMORY, c)
      else let c = c\<lparr>c_keyboard_text_counter := c_keyboard_text_counter c + 1\<rparr>
        in chiaki_ctrl_send_message alloc_queue alloc_payload CTRL_MESSAGE_TYPE_KEYBOARD_TEXT_CHANGE_REQ
             (Some (keyboard_text_request (c_keyboard_text_counter c) text)) c)"

definition chiaki_ctrl_keyboard_accept :: "bool \<Rightarrow> bool \<Rightarrow> ctrl \<Rightarrow> ChiakiErrorCode \<times> ctrl" where
  "chiaki_ctrl_keyboard_accept alloc_queue alloc_payload c =
     chiaki_ctrl_send_message alloc_queue alloc_payload CTRL_MESSAGE_TYPE_KEYBOARD_CLOSE_REQ (Some [0, 0, 0, 0]) c"

definition chiaki_ctrl_keyboard_reject :: "bool \<Rightarrow> bool \<Rightarrow> ctrl \<Rightarrow> ChiakiErrorCode \<times> ctrl" where
  "chiaki_ctrl_keyboard_reject alloc_queue alloc_payload c =
     chiaki_ctrl_send_message alloc_queue alloc_payload CTRL_MESSAGE_TYPE_KEYBOARD_CLOSE_REQ (Some [0, 0, 0, 1]) c"

section \<open>Sending\<close>

definition ctrl_failed :: "ChiakiQuitReason \<Rightarrow> session \<Rightarrow> session \<times> ctrl_out list" where
  "ctrl_failed reason s = (s\<lparr>s_quit_reason := reason, s_ctrl_failed := True\<rparr>, [Ctrl_Signal])"

text \<open>The encryption of a payload: the error or the ciphertext, if there is one to send.\<close>

definition ctrl_encrypt :: "ctrl_env \<Rightarrow> rpcrypt \<Rightarrow> ctrl \<Rightarrow> bytes option \<Rightarrow> ((ChiakiErrorCode + bytes option) \<times> ctrl) option" where
  "ctrl_encrypt env rp c payload =
     (case payload of
        None \<Rightarrow> Some (Inr None, c)
      | Some p \<Rightarrow>
          if p = [] then Some (Inr None, c)
          else if \<not> ce_alloc env (length p) then Some (Inl CHIAKI_ERR_MEMORY, c)
          else do {
            r \<leftarrow> chiaki_rpcrypt_encrypt (ce_crypto env) rp (c_counter_local c) p (length p);
            Some (map_sum id Some r, c\<lparr>c_counter_local := c_counter_local c + 1\<rparr>) })"

definition ctrl_header :: "u16 \<Rightarrow> nat \<Rightarrow> bytes" where
  "ctrl_header type payload_size = htonl_bytes (of_nat payload_size) @ htons_bytes type @ [0, 0]"

fun payload_length :: "bytes option \<Rightarrow> nat" where
  "payload_length None = 0"
| "payload_length (Some p) = length p"

definition ctrl_message_send :: "ctrl_env \<Rightarrow> rpcrypt \<Rightarrow> ctrl_message \<Rightarrow> ctrl \<Rightarrow> (ChiakiErrorCode \<times> ctrl \<times> ctrl_out list) option" where
  "ctrl_message_send env rp msg c = do {
     (enc, c) \<leftarrow> ctrl_encrypt env rp c (snd msg);
     case enc of
       Inl err \<Rightarrow> Some (err, c, [])
     | Inr enc \<Rightarrow>
         let header = ctrl_header (fst msg) (payload_length (snd msg)) in
         Some (case ce_send env header of
           None \<Rightarrow> (CHIAKI_ERR_NETWORK, c, [])
         | Some n \<Rightarrow>
             case enc of
               None \<Rightarrow> (CHIAKI_ERR_SUCCESS, c, [Ctrl_Wire (take n header)])
             | Some e \<Rightarrow>
                 case ce_send env e of
                   None \<Rightarrow> (CHIAKI_ERR_NETWORK, c, [Ctrl_Wire (take n header)])
                 | Some m \<Rightarrow> (CHIAKI_ERR_SUCCESS, c, [Ctrl_Wire (take n header), Ctrl_Wire (take m e)])) }"

text \<open>A sequence of messages, as the callers send them: whatever the result of one, the next follows.\<close>

fun ctrl_sends :: "ctrl_env \<Rightarrow> rpcrypt \<Rightarrow> ctrl_message list \<Rightarrow> ctrl \<Rightarrow> (ctrl \<times> ctrl_out list) option" where
  "ctrl_sends env rp [] c = Some (c, [])"
| "ctrl_sends env rp (msg # msgs) c = do {
     (err, c, outs) \<leftarrow> ctrl_message_send env rp msg c;
     (c, outs') \<leftarrow> ctrl_sends env rp msgs c;
     Some (c, outs @ outs') }"

section \<open>Received messages\<close>

definition ctrl_optional_features :: "session \<Rightarrow> ctrl_message list" where
  "ctrl_optional_features s =
     (if s_enable_dualsense s then [(0x13, Some [0x00, 0x40, 0x00])] else []) @
     (if s_enable_keyboard s then
        [(0xd, Some [0x00, 0x00, 0x00, 0x01, 0x00, 0x00, 0x05, 0xae, 0x00, 0x00, 0x00, 0x00, 0x00, 0x00, 0x00, 0x00]),
         (0x36, Some [0x00, 0x01, 0x01, 0x80]),
         (CTRL_MESSAGE_TYPE_KEYBOARD_ENABLE_TOGGLE, Some [1]),
         (0x36, Some [0x00, 0x01, 0x01, 0x80])]
      else [])"

definition ctrl_enable_optional_features :: "ctrl_env \<Rightarrow> ctrl_state \<Rightarrow> (ctrl_state \<times> ctrl_out list) option" where
  "ctrl_enable_optional_features env st = do {
     (c, outs) \<leftarrow> ctrl_sends env (s_rpcrypt (snd st)) (ctrl_optional_features (snd st)) (fst st);
     Some ((c, snd st), outs) }"

definition session_id_char :: "u8 \<Rightarrow> bool" where
  "session_id_char c \<longleftrightarrow> (0x61 \<le> c \<and> c \<le> 0x7a) \<or> (0x41 \<le> c \<and> c \<le> 0x5a) \<or> (0x30 \<le> c \<and> c \<le> 0x39)"

definition ctrl_message_received_session_id :: "bytes \<Rightarrow> session \<Rightarrow> (session \<times> ctrl_out list) option" where
  "ctrl_message_received_session_id payload s =
     (if s_ctrl_session_id_received s then Some (s, [])
      else if length payload < 2 then Some (s, [])
      else let payload = tl payload in
        if length payload \<ge> CHIAKI_SESSION_ID_SIZE_MAX - 1 then Some (s, [])
        else if \<not> list_all session_id_char payload then Some (s, [])
        else do {
          sid \<leftarrow> store_bytes (s_session_id s) 0 (payload @ [0]);
          Some (s\<lparr>s_session_id := sid, s_ctrl_session_id_received := True\<rparr>, [Ctrl_Signal]) })"

definition ctrl_message_received_login_pin_req :: "ctrl_state \<Rightarrow> ctrl_state \<times> ctrl_out list" where
  "ctrl_message_received_login_pin_req st =
     (((fst st)\<lparr>c_login_pin_requested := True\<rparr>, (snd st)\<lparr>s_ctrl_login_pin_requested := True\<rparr>), [Ctrl_Signal])"

definition ctrl_message_received_login :: "bytes \<Rightarrow> ctrl_state \<Rightarrow> ctrl_state \<times> ctrl_out list" where
  "ctrl_message_received_login payload st =
     (if payload = [] then (st, [])
      else if hd payload = CTRL_LOGIN_STATE_SUCCESS then (((fst st)\<lparr>c_login_pin_requested := False\<rparr>, snd st), [])
      else if hd payload = CTRL_LOGIN_STATE_PIN_INCORRECT \<and> c_login_pin_requested (fst st) then
        ((fst st, (snd st)\<lparr>s_ctrl_login_pin_requested := True\<rparr>), [Ctrl_Signal])
      else (st, []))"

definition ctrl_send_event :: "ctrl_env \<Rightarrow> ChiakiEvent \<Rightarrow> ctrl_out list" where
  "ctrl_send_event env event = (if ce_event_cb env then [Ctrl_Event event] else [])"

text \<open>
  The two keyboard messages: a structure of \<open>fixed\<close> bytes that has the length of the text at \<open>offset\<close>, and the text. Both
  assertions on the size are part of the code.
\<close>

definition keyboard_text :: "ctrl_env \<Rightarrow> nat \<Rightarrow> nat \<Rightarrow> bytes \<Rightarrow> bytes option option" where
  "keyboard_text env fixed offset payload =
     (if \<not> length payload \<ge> fixed then None
      else do {
        text_length \<leftarrow> load32be payload offset;
        if length payload \<noteq> fixed + unat text_length then None
        else Some (if text_length > 0 \<and> ce_alloc env (unat text_length + 1) then Some (drop fixed payload) else None) })"

definition ctrl_message_received_keyboard_open :: "ctrl_env \<Rightarrow> bytes \<Rightarrow> ctrl_out list option" where
  "ctrl_message_received_keyboard_open env payload =
     map_option (\<lambda>text. ctrl_send_event env (CHIAKI_EVENT_KEYBOARD_OPEN text)) (keyboard_text env 0x20 0x1c payload)"

definition ctrl_message_received_keyboard_close :: "ctrl_env \<Rightarrow> ctrl_out list" where
  "ctrl_message_received_keyboard_close env = ctrl_send_event env CHIAKI_EVENT_KEYBOARD_REMOTE_CLOSE"

definition ctrl_message_received_keyboard_text_change :: "ctrl_env \<Rightarrow> bytes \<Rightarrow> ctrl_out list option" where
  "ctrl_message_received_keyboard_text_change env payload =
     map_option (\<lambda>text. ctrl_send_event env (CHIAKI_EVENT_KEYBOARD_TEXT_CHANGE text)) (keyboard_text env 0x28 8 payload)"

definition ctrl_dispatch :: "ctrl_env \<Rightarrow> u16 \<Rightarrow> bytes \<Rightarrow> ctrl_state \<Rightarrow> (ctrl_state \<times> ctrl_out list) option" where
  "ctrl_dispatch env msg_type payload st =
     (if msg_type = CTRL_MESSAGE_TYPE_SESSION_ID then do {
        (s, outs) \<leftarrow> ctrl_message_received_session_id payload (snd st);
        (st, outs') \<leftarrow> ctrl_enable_optional_features env (fst st, s);
        Some (st, outs @ outs') }
      else if msg_type = CTRL_MESSAGE_TYPE_HEARTBEAT_REQ then do {
        (err, c, outs) \<leftarrow> ctrl_message_send env (s_rpcrypt (snd st)) (CTRL_MESSAGE_TYPE_HEARTBEAT_REP, None) (fst st);
        Some ((c, snd st), outs) }
      else if msg_type = CTRL_MESSAGE_TYPE_LOGIN_PIN_REQ then Some (ctrl_message_received_login_pin_req st)
      else if msg_type = CTRL_MESSAGE_TYPE_LOGIN then Some (ctrl_message_received_login payload st)
      else if msg_type = CTRL_MESSAGE_TYPE_KEYBOARD_OPEN then map_option (Pair st) (ctrl_message_received_keyboard_open env payload)
      else if msg_type = CTRL_MESSAGE_TYPE_KEYBOARD_TEXT_CHANGE_RES then map_option (Pair st) (ctrl_message_received_keyboard_text_change env payload)
      else if msg_type = CTRL_MESSAGE_TYPE_KEYBOARD_CLOSE_REMOTE then Some (st, ctrl_message_received_keyboard_close env)
      else Some (st, []))"

text \<open>\<open>payload\<close> is the memory from the payload on. The message is decrypted in place; it is not looked at again.\<close>

definition ctrl_message_received :: "ctrl_env \<Rightarrow> u16 \<Rightarrow> bytes \<Rightarrow> nat \<Rightarrow> ctrl_state \<Rightarrow> (ctrl_state \<times> ctrl_out list) option" where
  "ctrl_message_received env msg_type payload payload_size st =
     (if payload_size > 0 then do {
        r \<leftarrow> chiaki_rpcrypt_decrypt (ce_crypto env) (s_rpcrypt (snd st)) (c_counter_remote (fst st)) payload payload_size;
        let st = ((fst st)\<lparr>c_counter_remote := c_counter_remote (fst st) + 1\<rparr>, snd st);
        case r of
          Inl err \<Rightarrow> Some (st, [])
        | Inr payload \<Rightarrow> ctrl_dispatch env msg_type payload st }
      else ctrl_dispatch env msg_type [] st)"

section \<open>The thread\<close>

text \<open>
  The loop that takes the complete messages from the buffer, with fuel. The first component of the result is whether the
  buffer is too small for the next message, \<open>None\<close> when the fuel does not suffice. The sum of the header and the payload size is
  one of 32 bits.
\<close>

fun ctrl_process :: "nat \<Rightarrow> ctrl_env \<Rightarrow> ctrl_state \<Rightarrow> (bool option \<times> ctrl_state \<times> ctrl_out list) option" where
  "ctrl_process 0 env st = Some (None, st, [])"
| "ctrl_process (Suc fuel) env st =
     (let c = fst st in
      if \<not> c_recv_buf_size c \<ge> 8 then Some (Some False, st, [])
      else do {
        payload_size \<leftarrow> load32be (c_recv_buf c) 0;
        let total = unat (8 + payload_size);
        if c_recv_buf_size c < total then Some (Some (total > CTRL_RECV_BUF_SIZE), st, [])
        else do {
          msg_type \<leftarrow> load16be (c_recv_buf c) 4;
          ((c, s), outs) \<leftarrow> ctrl_message_received env msg_type (drop 8 (c_recv_buf c)) (unat payload_size) st;
          let size = c_recv_buf_size c - total;
          buf \<leftarrow> store_bytes (c_recv_buf c) 0 (take size (drop total (c_recv_buf c)));
          (r, st, outs') \<leftarrow> ctrl_process fuel env (c\<lparr>c_recv_buf := buf, c_recv_buf_size := size\<rparr>, s);
          Some (r, st, outs @ outs') } })"

datatype ctrl_status = Ctrl_Waiting | Ctrl_Ended | Ctrl_Looping

text \<open>From the head of the loop of \<open>ctrl_thread_func\<close> to its wait; the fuel is as much as the buffer can need.\<close>

definition ctrl_loop_head :: "ctrl_env \<Rightarrow> ctrl_state \<Rightarrow> (ctrl_status \<times> ctrl_state \<times> ctrl_out list) option" where
  "ctrl_loop_head env st = do {
     (r, st, outs) \<leftarrow> ctrl_process (c_recv_buf_size (fst st) + 1) env st;
     Some (case r of
       None \<Rightarrow> (Ctrl_Looping, st, outs)
     | Some overflow \<Rightarrow>
         if overflow then (case ctrl_failed CHIAKI_QUIT_REASON_CTRL_UNKNOWN (snd st) of (s, outs') \<Rightarrow> (Ctrl_Ended, (fst st, s), outs @ outs'))
         else (Ctrl_Waiting, st, outs)) }"

text \<open>The loop over the queued messages.\<close>

fun ctrl_flush_queue :: "ctrl_env \<Rightarrow> rpcrypt \<Rightarrow> ctrl_message list \<Rightarrow> ctrl \<Rightarrow> (ctrl \<times> ctrl_out list) option" where
  "ctrl_flush_queue env rp [] c = Some (c, [])"
| "ctrl_flush_queue env rp (msg # queue) c = do {
     (err, c, outs) \<leftarrow> ctrl_message_send env rp msg c;
     (c, outs') \<leftarrow> ctrl_flush_queue env rp queue (c\<lparr>c_msg_queue := queue\<rparr>);
     Some (c, outs @ outs') }"

text \<open>What follows a wait that was canceled through the pipe: whether the loop goes on.\<close>

definition ctrl_canceled :: "ctrl_env \<Rightarrow> ctrl_state \<Rightarrow> (bool \<times> ctrl_state \<times> ctrl_out list) option" where
  "ctrl_canceled env st = do {
     let rp = s_rpcrypt (snd st);
     let msg_queue_updated = (c_msg_queue (fst st) \<noteq> []);
     (c, outs) \<leftarrow> ctrl_flush_queue env rp (c_msg_queue (fst st)) (fst st);
     if c_login_pin_entered c then do {
       (err, c, outs') \<leftarrow> ctrl_message_send env rp (CTRL_MESSAGE_TYPE_LOGIN_PIN_REP, c_login_pin c) c;
       let c = c\<lparr>c_login_pin_entered := False, c_login_pin := None, c_notif_pipe := snd (chiaki_stop_pipe_reset (c_notif_pipe c))\<rparr>;
       Some (True, (c, snd st), outs @ outs') }
     else if c_should_stop c then Some (False, (c, snd st), outs)
     else if msg_queue_updated then
       Some (True, (c\<lparr>c_notif_pipe := snd (chiaki_stop_pipe_reset (c_notif_pipe c))\<rparr>, snd st), outs)
     else Some (True, (c, snd st), outs) }"

text \<open>
  A wakeup: the result of \<open>select\<close>, whether the socket is ready, and the bytes that \<open>recv\<close> finds (\<open>None\<close>: an error), of which it
  takes as many as there is space for.
\<close>

record ctrl_wakeup =
  w_select :: int
  w_ready :: bool
  w_recv :: "bytes option"

definition ctrl_recv :: "bytes option \<Rightarrow> ctrl_state \<Rightarrow> (bool \<times> ctrl_state \<times> ctrl_out list) option" where
  "ctrl_recv recv_r st =
     (case recv_r of
        None \<Rightarrow> (case ctrl_failed CHIAKI_QUIT_REASON_CTRL_UNKNOWN (snd st) of (s, outs) \<Rightarrow> Some (False, (fst st, s), outs))
      | Some d \<Rightarrow>
          let c = fst st; d = take (CTRL_RECV_BUF_SIZE - c_recv_buf_size c) d in
          if d = [] then Some (False, st, [])
          else do {
            buf \<leftarrow> store_bytes (c_recv_buf c) (c_recv_buf_size c) d;
            Some (True, (c\<lparr>c_recv_buf := buf, c_recv_buf_size := c_recv_buf_size c + length d\<rparr>, snd st), []) })"

text \<open>A turn of the loop, from a wakeup to the next wait.\<close>

definition ctrl_turn :: "ctrl_env \<Rightarrow> ctrl_wakeup \<Rightarrow> ctrl_state \<Rightarrow> (ctrl_status \<times> ctrl_state \<times> ctrl_out list) option" where
  "ctrl_turn env w st =
     (let err = chiaki_stop_pipe_select_single (c_notif_pipe (fst st)) (w_select w) (Some (w_ready w)) in
      if err \<noteq> CHIAKI_ERR_CANCELED \<and> err \<noteq> CHIAKI_ERR_SUCCESS then Some (Ctrl_Ended, st, [])
      else do {
        (go_on, st, outs) \<leftarrow> (if err = CHIAKI_ERR_CANCELED then ctrl_canceled env st else ctrl_recv (w_recv w) st);
        if \<not> go_on then Some (Ctrl_Ended, st, outs)
        else do {
          (status, st, outs') \<leftarrow> ctrl_loop_head env st;
          Some (status, st, outs @ outs') } })"

end
