(* ===== verification/Ctrl_Facts.thy ===== *)
theory Ctrl_Facts
  imports Ctrl
begin

text \<open>
  What the control connection guarantees: its messages survive any division of the stream, what one end sends the other handles, the
  state stays well-formed whatever arrives, and how its loop can be brought to a halt.
\<close>

section \<open>The receive buffer and the messages\<close>

abbreviation set_buf :: "bytes \<Rightarrow> nat \<Rightarrow> ctrl \<Rightarrow> ctrl" where
  "set_buf b k c \<equiv> c\<lparr>c_recv_buf := b, c_recv_buf_size := k\<rparr>"

lemma ctrl_encrypt_buf:
  "ctrl_encrypt env rp (set_buf b k c) p = map_option (apsnd (set_buf b k)) (ctrl_encrypt env rp c p)"
  by (auto simp: ctrl_encrypt_def split: option.splits Option.bind_splits)

lemma ctrl_message_send_buf:
  "ctrl_message_send env rp msg (set_buf b k c) = map_option (apsnd (apfst (set_buf b k))) (ctrl_message_send env rp msg c)"
  by (auto simp: ctrl_message_send_def ctrl_encrypt_buf Let_def split: option.splits Option.bind_splits sum.splits)

lemma ctrl_sends_buf:
  "ctrl_sends env rp msgs (set_buf b k c) = map_option (apfst (set_buf b k)) (ctrl_sends env rp msgs c)"
proof (induction msgs arbitrary: c)
  case (Cons msg msgs)
  show ?case
  proof (cases "ctrl_message_send env rp msg c")
    case (Some r)
    obtain err c' outs where r: "r = (err, c', outs)" by (cases r)
    show ?thesis
      by (cases "ctrl_sends env rp msgs c'") (auto simp: ctrl_message_send_buf Some r Cons.IH)
  qed (simp add: ctrl_message_send_buf)
qed simp

lemma map_option_if: "x = map_option f y \<Longrightarrow> x' = map_option f y' \<Longrightarrow> (if b then x else x') = map_option f (if b then y else y')"
  by simp

lemma apfst_if: "b' = b \<Longrightarrow> x = apfst f y \<Longrightarrow> x' = apfst f y' \<Longrightarrow> (if b' then x else x') = apfst f (if b then y else y')"
  by simp

lemma ctrl_received_login_pin_req_buf:
  "ctrl_message_received_login_pin_req (set_buf b k c, s) = apfst (apfst (set_buf b k)) (ctrl_message_received_login_pin_req (c, s))"
  by (simp add: ctrl_message_received_login_pin_req_def)

lemma ctrl_received_login_buf:
  "ctrl_message_received_login p (set_buf b k c, s) = apfst (apfst (set_buf b k)) (ctrl_message_received_login p (c, s))"
  unfolding ctrl_message_received_login_def fst_conv snd_conv by (intro apfst_if) simp_all

lemma map_option_Pair_buf:
  "map_option (Pair (set_buf b k c, s)) x = map_option (apfst (apfst (set_buf b k))) (map_option (Pair (c, s)) x)"
  by (cases x) simp_all

lemma ctrl_dispatch_buf:
  "ctrl_dispatch env t p (set_buf b k c, s) = map_option (apfst (apfst (set_buf b k))) (ctrl_dispatch env t p (c, s))"
proof -
  consider (sid) "t = CTRL_MESSAGE_TYPE_SESSION_ID" | (hb) "t = CTRL_MESSAGE_TYPE_HEARTBEAT_REQ"
    | (other) "t \<noteq> CTRL_MESSAGE_TYPE_SESSION_ID" "t \<noteq> CTRL_MESSAGE_TYPE_HEARTBEAT_REQ" by blast
  then show ?thesis
  proof cases
    case sid
    show ?thesis
    proof (cases "ctrl_message_received_session_id p s")
      case (Some r)
      then show ?thesis
        by (cases r; cases "ctrl_sends env (s_rpcrypt (fst r)) (ctrl_optional_features (fst r)) c")
          (auto simp: ctrl_dispatch_def sid ctrl_enable_optional_features_def ctrl_sends_buf)
    qed (simp add: ctrl_dispatch_def sid)
  next
    case hb
    show ?thesis
      by (cases "ctrl_message_send env (s_rpcrypt s) (CTRL_MESSAGE_TYPE_HEARTBEAT_REP, None) c")
        (auto simp: ctrl_dispatch_def hb ctrl_message_send_buf)
  next
    case other
    then show ?thesis
      unfolding ctrl_dispatch_def fst_conv snd_conv if_not_P [OF other(1)] if_not_P [OF other(2)]
      by (intro map_option_if) (simp_all only: ctrl_received_login_pin_req_buf ctrl_received_login_buf map_option_Pair_buf option.map apfst_conv)
  qed
qed

lemma ctrl_message_received_buf:
  "ctrl_message_received env t m n (set_buf b k c, s) = map_option (apfst (apfst (set_buf b k))) (ctrl_message_received env t m n (c, s))"
proof (cases "chiaki_rpcrypt_decrypt (ce_crypto env) (s_rpcrypt s) (c_counter_remote c) m n")
  case (Some r)
  have "ctrl_dispatch env t p (set_buf b k (c\<lparr>c_counter_remote := x\<rparr>), s) =
      map_option (apfst (apfst (set_buf b k))) (ctrl_dispatch env t p (c\<lparr>c_counter_remote := x\<rparr>, s))" for p x
    by (rule ctrl_dispatch_buf)
  moreover have "(set_buf b k c)\<lparr>c_counter_remote := x\<rparr> = set_buf b k (c\<lparr>c_counter_remote := x\<rparr>)" for x
    by simp
  ultimately have "ctrl_dispatch env t p ((set_buf b k c)\<lparr>c_counter_remote := x\<rparr>, s) =
      map_option (apfst (apfst (set_buf b k))) (ctrl_dispatch env t p (c\<lparr>c_counter_remote := x\<rparr>, s))" for p x
    by metis
  then show ?thesis
    by (cases r) (simp_all add: ctrl_message_received_def ctrl_dispatch_buf Some Let_def)
qed (simp add: ctrl_message_received_def ctrl_dispatch_buf)


lemma ctrl_encrypt_frame:
  "ctrl_encrypt env rp c p = Some (r, c') \<Longrightarrow> \<exists>n. c' = c\<lparr>c_counter_local := n\<rparr>"
  by (auto simp: ctrl_encrypt_def split: option.splits if_splits Option.bind_splits intro: exI [of _ "c_counter_local c"])

lemma ctrl_message_send_frame:
  "ctrl_message_send env rp msg c = Some (err, c', outs) \<Longrightarrow> \<exists>n. c' = c\<lparr>c_counter_local := n\<rparr>"
  by (auto simp: ctrl_message_send_def Let_def dest!: ctrl_encrypt_frame split: option.splits sum.splits Option.bind_splits)

lemma ctrl_sends_frame:
  "ctrl_sends env rp msgs c = Some (c', outs) \<Longrightarrow> \<exists>n. c' = c\<lparr>c_counter_local := n\<rparr>"
proof (induction msgs arbitrary: c outs)
  case Nil
  then show ?case by (auto intro: exI [of _ "c_counter_local c"])
next
  case (Cons msg msgs)
  then obtain err c1 o1 o2 where "ctrl_message_send env rp msg c = Some (err, c1, o1)" "ctrl_sends env rp msgs c1 = Some (c', o2)"
    by (auto split: Option.bind_splits)
  with ctrl_message_send_frame [of env rp msg c] Cons.IH [of c1] show ?case by fastforce
qed

text \<open>What handling a message leaves unchanged.\<close>

definition same_link :: "ctrl_state \<Rightarrow> ctrl_state \<Rightarrow> bool" where
  "same_link st st' \<longleftrightarrow> c_notif_pipe (fst st') = c_notif_pipe (fst st) \<and> s_rpcrypt (snd st') = s_rpcrypt (snd st) \<and>
     c_recv_buf (fst st') = c_recv_buf (fst st) \<and> c_recv_buf_size (fst st') = c_recv_buf_size (fst st) \<and>
     c_counter_remote (fst st') = c_counter_remote (fst st) \<and> c_should_stop (fst st') = c_should_stop (fst st) \<and>
     c_msg_queue (fst st') = c_msg_queue (fst st) \<and> c_login_pin_entered (fst st') = c_login_pin_entered (fst st)"

lemma received_session_id_cases:
  assumes "ctrl_message_received_session_id p s = Some (s', outs)"
  shows "s' = s \<and> outs = [] \<or>
     (\<exists>sid. store_bytes (s_session_id s) 0 (tl p @ [0]) = Some sid \<and> 2 \<le> length p \<and> length p < CHIAKI_SESSION_ID_SIZE_MAX \<and>
        list_all session_id_char (tl p) \<and> s' = s\<lparr>s_session_id := sid, s_ctrl_session_id_received := True\<rparr> \<and> outs = [Ctrl_Signal])"
  using assms by (auto simp: ctrl_message_received_session_id_def Let_def split: if_splits Option.bind_splits)

lemma ctrl_dispatch_link:
  assumes "ctrl_dispatch env t p st = Some (st', outs)"
  shows "same_link st st'"
proof -
  have "same_link st st'" if "t = CTRL_MESSAGE_TYPE_SESSION_ID"
    using assms that
    by (fastforce simp: ctrl_dispatch_def same_link_def ctrl_enable_optional_features_def
        dest!: received_session_id_cases ctrl_sends_frame split: Option.bind_splits)
  moreover have "same_link st st'" if "t = CTRL_MESSAGE_TYPE_HEARTBEAT_REQ"
    using assms that by (fastforce simp: ctrl_dispatch_def same_link_def dest!: ctrl_message_send_frame split: Option.bind_splits)
  moreover have "same_link st st'" if "t \<noteq> CTRL_MESSAGE_TYPE_SESSION_ID" "t \<noteq> CTRL_MESSAGE_TYPE_HEARTBEAT_REQ"
    using assms unfolding ctrl_dispatch_def if_not_P [OF that(1)] if_not_P [OF that(2)] ctrl_message_received_login_pin_req_def ctrl_message_received_login_def
    by (auto simp: same_link_def split: if_split_asm)
  ultimately show ?thesis by blast
qed

section \<open>Messages in the stream\<close>

text \<open>A message as it is on the wire: its type and its payload, which is encrypted.\<close>

definition ctrl_frame :: "u16 \<times> bytes \<Rightarrow> bytes" where
  "ctrl_frame f = ctrl_header (fst f) (length (snd f)) @ snd f"

definition frame_ok :: "u16 \<times> bytes \<Rightarrow> bool" where
  "frame_ok f \<longleftrightarrow> length (snd f) \<le> CTRL_RECV_BUF_SIZE - 8"

text \<open>Handling messages one after the other, as if each had been received alone.\<close>

fun ctrl_handle_all :: "ctrl_env \<Rightarrow> (u16 \<times> bytes) list \<Rightarrow> ctrl_state \<Rightarrow> (ctrl_state \<times> ctrl_out list) option" where
  "ctrl_handle_all env [] st = Some (st, [])"
| "ctrl_handle_all env (f # fs) st = do {
     (st, outs) \<leftarrow> ctrl_message_received env (fst f) (snd f) (length (snd f)) st;
     (st, outs') \<leftarrow> ctrl_handle_all env fs st;
     Some (st, outs @ outs') }"

lemma ctrl_handle_all_append:
  "ctrl_handle_all env (fs @ gs) st =
     Option.bind (ctrl_handle_all env fs st) (\<lambda>(st, outs). map_option (\<lambda>(st, outs'). (st, outs @ outs')) (ctrl_handle_all env gs st))"
  by (induction fs arbitrary: st) (auto simp: option.map_id0 split: Option.bind_splits option.splits)

lemma length_ctrl_frame: "length (ctrl_frame f) = 8 + length (snd f)"
  by (simp add: ctrl_frame_def ctrl_header_def)

lemma received_prefix:
  assumes "n \<le> length enc" "n < 2 ^ 31"
  shows "ctrl_message_received env t (enc @ rest) n st = ctrl_message_received env t enc n st"
proof -
  have "chiaki_rpcrypt_decrypt cr rp k (enc @ rest) n = chiaki_rpcrypt_decrypt cr rp k enc n" for cr rp k
    using assms sint_of_size [OF assms(2)]
    by (auto simp: chiaki_rpcrypt_decrypt_def chiaki_rpcrypt_crypt_def load_bytes_def Let_def split: sum.splits)
  then show ?thesis by (simp add: ctrl_message_received_def)
qed

lemma received_link:
  assumes "ctrl_message_received env t p n st = Some (st', outs)"
  shows "c_recv_buf (fst st') = c_recv_buf (fst st)" "c_recv_buf_size (fst st') = c_recv_buf_size (fst st)"
    "c_notif_pipe (fst st') = c_notif_pipe (fst st)" "s_rpcrypt (snd st') = s_rpcrypt (snd st)"
    "c_should_stop (fst st') = c_should_stop (fst st)" "c_msg_queue (fst st') = c_msg_queue (fst st)"
    "c_login_pin_entered (fst st') = c_login_pin_entered (fst st)"
  using assms
  by (auto simp: ctrl_message_received_def Let_def same_link_def dest!: ctrl_dispatch_link split: if_split_asm sum.splits Option.bind_splits)

lemma frame_size_word:
  assumes "frame_ok f"
  shows "unat (of_nat (length (snd f)) :: u32) = length (snd f)" "unat (8 + of_nat (length (snd f)) :: u32) = 8 + length (snd f)"
proof -
  have l: "length (snd f) \<le> 504" using assms by (simp add: frame_ok_def)
  then show "unat (of_nat (length (snd f)) :: u32) = length (snd f)" by (intro unat_of_nat_len) simp
  have "(8 + of_nat (length (snd f)) :: u32) = of_nat (8 + length (snd f))" by simp
  also have "unat \<dots> = 8 + length (snd f)" using l by (intro unat_of_nat_len) simp
  finally show "unat (8 + of_nat (length (snd f)) :: u32) = 8 + length (snd f)" .
qed

lemma frame_loads:
  assumes "frame_ok f"
  shows "load32be (ctrl_frame f @ rest) 0 = Some (of_nat (length (snd f)))" "load16be (ctrl_frame f @ rest) 4 = Some (fst f)"
  using load32be_htonl [of 0 "[]" "of_nat (length (snd f))" "htons_bytes (fst f) @ [0, 0] @ snd f @ rest"]
    load16be_htons [of 4 "htonl_bytes (of_nat (length (snd f)))" "fst f" "[0, 0] @ snd f @ rest"]
  by (simp_all add: ctrl_frame_def ctrl_header_def)

lemma ctrl_process_frame:
  assumes "frame_ok f" "c_recv_buf c = ctrl_frame f @ rest" "length (ctrl_frame f) \<le> c_recv_buf_size c"
    "c_recv_buf_size c \<le> length (c_recv_buf c)"
  shows "ctrl_process (Suc fuel) env (c, s) =
     Option.bind (ctrl_message_received env (fst f) (snd f) (length (snd f)) (c, s)) (\<lambda>((c', s'), outs).
       Option.bind (ctrl_process fuel env (set_buf (take (c_recv_buf_size c - length (ctrl_frame f)) rest @ drop (c_recv_buf_size c - length (ctrl_frame f)) (c_recv_buf c))
           (c_recv_buf_size c - length (ctrl_frame f)) c', s'))
         (\<lambda>(r, st, outs'). Some (r, st, outs @ outs')))"
proof -
  let ?n = "length (snd f)"
  have n: "?n \<le> 504" using assms(1) by (simp add: frame_ok_def)
  have "drop 8 (ctrl_frame f @ rest) = snd f @ rest" by (simp add: ctrl_frame_def ctrl_header_def)
  moreover have "ctrl_message_received env (fst f) (snd f @ rest) ?n (c, s) = ctrl_message_received env (fst f) (snd f) ?n (c, s)"
    using n by (intro received_prefix) auto
  moreover have "store_bytes (c_recv_buf c) 0 (take (c_recv_buf_size c - (8 + ?n)) (drop (8 + ?n) (c_recv_buf c))) =
     Some (take (c_recv_buf_size c - (8 + ?n)) rest @ drop (c_recv_buf_size c - (8 + ?n)) (c_recv_buf c))"
    using assms(2-4) by (simp add: store_bytes_def length_ctrl_frame)
  ultimately have eqs: "drop 8 (c_recv_buf c) = snd f @ rest" "ctrl_message_received env (fst f) (snd f @ rest) ?n (c, s) = ctrl_message_received env (fst f) (snd f) ?n (c, s)"
    "store_bytes (c_recv_buf c) 0 (take (c_recv_buf_size c - (8 + ?n)) (drop (8 + ?n) (c_recv_buf c))) =
     Some (take (c_recv_buf_size c - (8 + ?n)) rest @ drop (c_recv_buf_size c - (8 + ?n)) (c_recv_buf c))"
    using assms(2) by simp_all
  note loads = frame_loads [OF assms(1), of rest, folded assms(2)]
  have size: "8 \<le> c_recv_buf_size c" "\<not> c_recv_buf_size c < 8 + ?n" using assms(3) by (simp_all add: length_ctrl_frame)
  show ?thesis
  proof (cases "ctrl_message_received env (fst f) (snd f) ?n (c, s)")
    case None
    then show ?thesis using size by (simp add: loads frame_size_word [OF assms(1)] eqs Let_def)
  next
    case (Some r)
    obtain c' s' outs where r: "r = ((c', s'), outs)" by (metis surj_pair)
    from received_link [OF Some [unfolded r]] show ?thesis
      using size by (simp add: loads frame_size_word [OF assms(1)] eqs Some r Let_def length_ctrl_frame)
  qed
qed

lemma ctrl_handle_all_buf:
  "ctrl_handle_all env fs (set_buf b k c, s) = map_option (apfst (apfst (set_buf b k))) (ctrl_handle_all env fs (c, s))"
proof (induction fs arbitrary: c s)
  case (Cons f fs)
  show ?case
  proof (cases "ctrl_message_received env (fst f) (snd f) (length (snd f)) (c, s)")
    case (Some r)
    obtain c' s' outs where r: "r = ((c', s'), outs)" by (metis surj_pair)
    show ?thesis
      by (cases "ctrl_handle_all env fs (c', s')") (auto simp: ctrl_message_received_buf Some r Cons.IH)
  qed (simp add: ctrl_message_received_buf)
qed simp

text \<open>The beginning of a message that is not complete.\<close>

definition incomplete :: "bytes \<Rightarrow> bool" where
  "incomplete p \<longleftrightarrow> (\<exists>f rest. frame_ok f \<and> rest \<noteq> [] \<and> p @ rest = ctrl_frame f)"

lemma incomplete_Nil: "incomplete []"
  unfolding incomplete_def by (intro exI [of _ "(0, [])"] exI [of _ "ctrl_frame (0, [])"]) (auto simp: frame_ok_def dest: arg_cong [of _ _ length] simp: length_ctrl_frame)

lemma load32be_take: "4 \<le> n \<Longrightarrow> load32be (take n buf) 0 = load32be buf 0"
  by (simp add: load32be_def load8_def)

lemma ctrl_process_incomplete:
  assumes "incomplete part" "take (c_recv_buf_size c) (c_recv_buf c) = part" "c_recv_buf_size c \<le> length (c_recv_buf c)"
  shows "ctrl_process (Suc fuel) env (c, s) = Some (Some False, (c, s), [])"
proof -
  obtain f rest where f: "frame_ok f" "rest \<noteq> []" "part @ rest = ctrl_frame f" using assms(1) unfolding incomplete_def by blast
  have len: "length part = c_recv_buf_size c" using assms(2,3) by auto
  have "length part + length rest = 8 + length (snd f)" using arg_cong [OF f(3), of length] by (simp add: length_ctrl_frame)
  then have less: "c_recv_buf_size c < 8 + length (snd f)" using f(2) len by (metis add_less_cancel_left length_greater_0_conv less_add_same_cancel1)
  show ?thesis
  proof (cases "8 \<le> c_recv_buf_size c")
    case True
    have "load32be (c_recv_buf c) 0 = load32be (take (c_recv_buf_size c) (c_recv_buf c)) 0" using True by (simp add: load32be_take)
    also have "\<dots> = load32be (take (c_recv_buf_size c) (part @ rest)) 0" using assms(2) len by simp
    also have "\<dots> = load32be (part @ rest) 0" by (rule load32be_take) (use True in simp)
    also have "\<dots> = Some (of_nat (length (snd f)))" using frame_loads(1) [OF f(1), of "[]"] f(3) by simp
    finally show ?thesis
      using True less f(1) by (simp add: frame_size_word [OF f(1)] frame_ok_def Let_def)
  qed simp
qed

lemma ctrl_process_frames:
  assumes "\<forall>f \<in> set fs. frame_ok f" "incomplete part" "length fs < fuel" "c_recv_buf_size c \<le> length (c_recv_buf c)"
    and "take (c_recv_buf_size c) (c_recv_buf c) = concat (map ctrl_frame fs) @ part"
  shows "case ctrl_handle_all env fs (c, s) of
       None \<Rightarrow> ctrl_process fuel env (c, s) = None
     | Some ((c', s'), outs) \<Rightarrow> \<exists>buf. length buf = length (c_recv_buf c) \<and> take (length part) buf = part \<and>
         ctrl_process fuel env (c, s) = Some (Some False, (set_buf buf (length part) c', s'), outs)"
  using assms
proof (induction fs arbitrary: c s fuel)
  case Nil
  then obtain k where k: "fuel = Suc k" by (cases fuel) auto
  have t: "take (c_recv_buf_size c) (c_recv_buf c) = part" using Nil.prems(5) by simp
  then have "length part = c_recv_buf_size c" using Nil.prems(4) by auto
  moreover have "set_buf (c_recv_buf c) (c_recv_buf_size c) c = c" by simp
  ultimately show ?case
    using ctrl_process_incomplete [OF Nil.prems(2) t Nil.prems(4), of k env s] t k by (auto intro!: exI [of _ "c_recv_buf c"])
next
  case (Cons f fs)
  obtain k where k: "fuel = Suc k" "length fs < k" using Cons.prems(3) by (cases fuel) auto
  let ?len = "length (ctrl_frame f)" and ?size = "c_recv_buf_size c"
  define rest where "rest = drop ?len (c_recv_buf c)"
  have "take ?len (take ?size (c_recv_buf c)) = ctrl_frame f" unfolding Cons.prems(5) by simp
  moreover have le: "?len \<le> ?size" using arg_cong [OF Cons.prems(5), of length] Cons.prems(4) by simp
  ultimately have "take ?len (c_recv_buf c) = ctrl_frame f" by (simp add: min_absorb1)
  then have buf: "c_recv_buf c = ctrl_frame f @ rest" unfolding rest_def by (metis append_take_drop_id)
  define B where "B = take (?size - ?len) rest @ drop (?size - ?len) (c_recv_buf c)"
  have B: "length B = length (c_recv_buf c)" using le Cons.prems(4) buf by (simp add: B_def)
  have "?size - ?len \<le> length rest" using Cons.prems(4) by (simp add: buf)
  then have "take (?size - ?len) B = take (?size - ?len) rest" by (simp add: B_def min_absorb2)
  also have "\<dots> = concat (map ctrl_frame fs) @ part" using Cons.prems(5) le unfolding buf by simp
  finally have tB: "take (?size - ?len) B = concat (map ctrl_frame fs) @ part" .
  have fo: "frame_ok f" using Cons.prems(1) by simp
  note step = ctrl_process_frame [OF fo buf le Cons.prems(4), of k env s, folded B_def, folded k(1)]
  show ?case
  proof (cases "ctrl_message_received env (fst f) (snd f) (length (snd f)) (c, s)")
    case None
    then show ?thesis using step by simp
  next
    case (Some r)
    obtain c1 s1 o1 where r: "r = ((c1, s1), o1)" by (metis surj_pair)
    have "case ctrl_handle_all env fs (set_buf B (?size - ?len) c1, s1) of
         None \<Rightarrow> ctrl_process k env (set_buf B (?size - ?len) c1, s1) = None
       | Some ((c', s'), outs) \<Rightarrow> \<exists>buf. length buf = length B \<and> take (length part) buf = part \<and>
           ctrl_process k env (set_buf B (?size - ?len) c1, s1) = Some (Some False, (set_buf buf (length part) c', s'), outs)"
      using Cons.IH [of k "set_buf B (?size - ?len) c1" s1] Cons.prems(1,2,4) k(2) B tB le by (simp cong: option.case_cong)
    then show ?thesis
      using step B by (auto simp: Some r ctrl_handle_all_buf split: option.splits) blast
  qed
qed

text \<open>
  Receiving from a stream: \<open>recv\<close> finds the given numbers of bytes, one after the other (none of them zero), and takes as many of
  them as there is space for. The result has the bytes that are left in the stream.
\<close>

definition ready :: "bytes \<Rightarrow> ctrl_wakeup" where
  "ready d = \<lparr>w_select = 1, w_ready = True, w_recv = Some d\<rparr>"

fun ctrl_receive :: "ctrl_env \<Rightarrow> nat list \<Rightarrow> bytes \<Rightarrow> ctrl_state \<Rightarrow> (ctrl_status \<times> ctrl_state \<times> ctrl_out list \<times> bytes) option" where
  "ctrl_receive env [] stream st = Some (Ctrl_Waiting, st, [], stream)"
| "ctrl_receive env (k # ks) stream st =
     (if stream = [] then Some (Ctrl_Waiting, st, [], [])
      else do {
        let d = take (Suc k) stream;
        let n = min (CTRL_RECV_BUF_SIZE - c_recv_buf_size (fst st)) (length d);
        (status, st, outs) \<leftarrow> ctrl_turn env (ready d) st;
        if status \<noteq> Ctrl_Waiting then Some (status, st, outs, drop n stream)
        else do {
          (status, st, outs', rest) \<leftarrow> ctrl_receive env ks (drop n stream) st;
          Some (status, st, outs @ outs', rest) } })"

lemma prefix_frames:
  assumes "p @ r = concat (map ctrl_frame fs)" "\<forall>f \<in> set fs. frame_ok f"
  shows "\<exists>fs1 fs2 part. fs = fs1 @ fs2 \<and> p = concat (map ctrl_frame fs1) @ part \<and> part @ r = concat (map ctrl_frame fs2) \<and> incomplete part"
  using assms
proof (induction fs arbitrary: p)
  case Nil
  then show ?case using incomplete_Nil by auto
next
  case (Cons f fs)
  show ?case
  proof (cases "length (ctrl_frame f) \<le> length p")
    case True
    have "take (length (ctrl_frame f)) (p @ r) = ctrl_frame f" using Cons.prems(1) by simp
    then have "take (length (ctrl_frame f)) p = ctrl_frame f" using True by simp
    then have p: "p = ctrl_frame f @ drop (length (ctrl_frame f)) p" by (metis append_take_drop_id)
    have "drop (length (ctrl_frame f)) p @ r = concat (map ctrl_frame fs)"
      using arg_cong [OF Cons.prems(1), of "drop (length (ctrl_frame f))"] True by simp
    then obtain fs1 fs2 part where "fs = fs1 @ fs2" "drop (length (ctrl_frame f)) p = concat (map ctrl_frame fs1) @ part"
        "part @ r = concat (map ctrl_frame fs2)" "incomplete part"
      using Cons.IH Cons.prems(2) by (metis list.set_intros(2))
    then show ?thesis using p by (intro exI [of _ "f # fs1"] exI [of _ fs2] exI [of _ part]) auto
  next
    case False
    have "p = take (length p) (ctrl_frame f)" using arg_cong [OF Cons.prems(1), of "take (length p)"] False by simp
    then have "p @ drop (length p) (ctrl_frame f) = ctrl_frame f" by (metis append_take_drop_id)
    then have "incomplete p"
      unfolding incomplete_def using False Cons.prems(2) by (intro exI [of _ f] exI [of _ "drop (length p) (ctrl_frame f)"]) auto
    then show ?thesis using Cons.prems(1) by (intro exI [of _ "[]"] exI [of _ "f # fs"] exI [of _ p]) auto
  qed
qed

lemma incomplete_length: "incomplete p \<Longrightarrow> length p < CTRL_RECV_BUF_SIZE"
proof -
  assume "incomplete p"
  then obtain f rest where f: "frame_ok f" "rest \<noteq> []" "p @ rest = ctrl_frame f" unfolding incomplete_def by blast
  have "length p + length rest = 8 + length (snd f)" using arg_cong [OF f(3), of length] by (simp add: length_ctrl_frame)
  with f show ?thesis by (cases rest) (auto simp: frame_ok_def)
qed

text \<open>A turn that receives part of the stream of messages.\<close>

lemma ctrl_turn_frames:
  assumes "c_notif_pipe c = 0" "length (c_recv_buf c) = CTRL_RECV_BUF_SIZE" "\<forall>f \<in> set fs. frame_ok f" "incomplete p"
    and "take (c_recv_buf_size c) (c_recv_buf c) = p" "c_recv_buf_size c = length p" "d \<noteq> []"
    and "p @ take (CTRL_RECV_BUF_SIZE - c_recv_buf_size c) d = concat (map ctrl_frame fs) @ part" "incomplete part"
  shows "case ctrl_handle_all env fs (c, s) of
       None \<Rightarrow> ctrl_turn env (ready d) (c, s) = None
     | Some ((c', s'), outs) \<Rightarrow> \<exists>buf. length buf = CTRL_RECV_BUF_SIZE \<and> take (length part) buf = part \<and>
         ctrl_turn env (ready d) (c, s) = Some (Ctrl_Waiting, (set_buf buf (length part) c', s'), outs)"
proof -
  let ?d = "take (CTRL_RECV_BUF_SIZE - c_recv_buf_size c) d"
  have lp: "c_recv_buf_size c < CTRL_RECV_BUF_SIZE" using incomplete_length [OF assms(4)] assms(6) by simp
  then have d: "?d \<noteq> []" using assms(7) by simp
  have fits: "c_recv_buf_size c + length ?d \<le> CTRL_RECV_BUF_SIZE" using lp by simp
  define B where "B = p @ ?d @ drop (c_recv_buf_size c + length ?d) (c_recv_buf c)"
  have store: "store_bytes (c_recv_buf c) (c_recv_buf_size c) ?d = Some B"
    using fits assms(2,5) by (simp add: store_bytes_def B_def)
  have B: "length B = CTRL_RECV_BUF_SIZE" using length_store_bytes [OF store] assms(2) by simp
  let ?n = "c_recv_buf_size c + length ?d"
  have size: "?n = length (concat (map ctrl_frame fs) @ part)" using arg_cong [OF assms(8), of length] assms(6) by simp
  have taken: "take ?n B = concat (map ctrl_frame fs) @ part"
    unfolding assms(8) [symmetric] by (metis B_def append_assoc append_eq_conv_conj assms(6) length_append)
  have "length fs \<le> length (concat (map ctrl_frame fs))" by (induction fs) (simp_all add: length_ctrl_frame)
  then have fuel: "length fs < Suc ?n" using size by simp
  have "case ctrl_handle_all env fs (set_buf B ?n c, s) of
       None \<Rightarrow> ctrl_process (Suc ?n) env (set_buf B ?n c, s) = None
     | Some ((c', s'), outs) \<Rightarrow> \<exists>buf. length buf = CTRL_RECV_BUF_SIZE \<and> take (length part) buf = part \<and>
         ctrl_process (Suc ?n) env (set_buf B ?n c, s) = Some (Some False, (set_buf buf (length part) c', s'), outs)"
    using ctrl_process_frames [OF assms(3,9) fuel, of "set_buf B ?n c" env s] B fits taken by (simp cong: option.case_cong)
  moreover have "ctrl_turn env (ready d) (c, s) =
     Option.bind (ctrl_process (Suc ?n) env (set_buf B ?n c, s)) (\<lambda>(r, st, outs). Some (case r of
       None \<Rightarrow> (Ctrl_Looping, st, outs)
     | Some overflow \<Rightarrow>
         if overflow then (case ctrl_failed CHIAKI_QUIT_REASON_CTRL_UNKNOWN (snd st) of (s, outs') \<Rightarrow> (Ctrl_Ended, (fst st, s), outs @ outs'))
         else (Ctrl_Waiting, st, outs)))"
    using d store assms(1)
    by (cases "ctrl_process (Suc ?n) env (set_buf B ?n c, s)")
      (simp_all add: ctrl_turn_def ready_def chiaki_stop_pipe_select_single_def ctrl_recv_def Let_def ctrl_loop_head_def split_beta
        del: ctrl_process.simps length_take)
  ultimately show ?thesis
    by (auto simp: ctrl_handle_all_buf split: option.splits) blast+
qed

lemma incomplete_no_frame:
  assumes "incomplete (ctrl_frame f @ q)" "frame_ok f"
  shows False
proof -
  obtain g rest where g: "frame_ok g" "rest \<noteq> []" "ctrl_frame f @ q @ rest = ctrl_frame g" using assms(1) unfolding incomplete_def by auto
  have "load32be (ctrl_frame g) 0 = Some (of_nat (length (snd f)))" using frame_loads(1) [OF assms(2), of "q @ rest"] unfolding g(3) .
  moreover have "load32be (ctrl_frame g) 0 = Some (of_nat (length (snd g)))" using frame_loads(1) [OF g(1), of "[]"] unfolding append_Nil2 .
  ultimately have "(of_nat (length (snd f)) :: u32) = of_nat (length (snd g))" by (metis option.inject)
  then have "length (snd f) = length (snd g)" by (metis frame_size_word(1) assms(2) g(1))
  moreover have "length (ctrl_frame f) + length q + length rest = length (ctrl_frame g)" using arg_cong [OF g(3), of length] by simp
  ultimately show False using g(2) by (simp add: length_ctrl_frame)
qed

lemma incomplete_frames: "incomplete (concat (map ctrl_frame fs)) \<Longrightarrow> \<forall>f \<in> set fs. frame_ok f \<Longrightarrow> fs = []"
  using incomplete_no_frame by (cases fs) auto

lemma handle_all_link:
  "ctrl_handle_all env fs st = Some (st', outs) \<Longrightarrow>
     c_notif_pipe (fst st') = c_notif_pipe (fst st) \<and> s_rpcrypt (snd st') = s_rpcrypt (snd st)"
proof (induction fs arbitrary: st outs)
  case (Cons f fs)
  then obtain st1 o1 o2 where r: "ctrl_message_received env (fst f) (snd f) (length (snd f)) st = Some (st1, o1)" "ctrl_handle_all env fs st1 = Some (st', o2)"
    by (auto split: Option.bind_splits)
  from Cons.IH [OF r(2)] received_link [OF r(1)] show ?case by simp
qed simp

lemma ctrl_receive_frames:
  assumes "c_notif_pipe c = 0" "length (c_recv_buf c) = CTRL_RECV_BUF_SIZE" "\<forall>f \<in> set fs. frame_ok f" "incomplete p"
    and "take (c_recv_buf_size c) (c_recv_buf c) = p" "c_recv_buf_size c = length p"
    and "p @ stream = concat (map ctrl_frame fs)" "length stream \<le> length ks"
  shows "case ctrl_handle_all env fs (c, s) of
       None \<Rightarrow> ctrl_receive env ks stream (c, s) = None
     | Some ((c', s'), outs) \<Rightarrow> \<exists>buf. length buf = CTRL_RECV_BUF_SIZE \<and>
         ctrl_receive env ks stream (c, s) = Some (Ctrl_Waiting, (set_buf buf 0 c', s'), outs, [])"
  using assms
proof (induction ks arbitrary: c s p stream fs)
  case (Cons k ks)
  show ?case
  proof (cases "stream = []")
    case True
    then have fs: "fs = []" using incomplete_frames [of fs] Cons.prems(3,4,7) by simp
    then have "set_buf (c_recv_buf c) 0 c = c" using Cons.prems(6,7) True by simp
    then show ?thesis using Cons.prems(2) fs True by (auto intro!: exI [of _ "c_recv_buf c"])
  next
    case False
    let ?d = "take (Suc k) stream"
    let ?t = "take (CTRL_RECV_BUF_SIZE - c_recv_buf_size c) ?d" and ?n = "min (CTRL_RECV_BUF_SIZE - c_recv_buf_size c) (length ?d)"
    have d: "?d \<noteq> []" using False by simp
    have t: "?t = take ?n stream" by (simp add: min_def)
    have lp: "c_recv_buf_size c < CTRL_RECV_BUF_SIZE" using incomplete_length [OF Cons.prems(4)] Cons.prems(6) by simp
    have n: "0 < ?n" using lp False by simp
    have "(p @ ?t) @ drop ?n stream = concat (map ctrl_frame fs)" unfolding t using Cons.prems(7) by simp
    from prefix_frames [OF this Cons.prems(3)] obtain fs1 fs2 part where f:
        "fs = fs1 @ fs2" "p @ ?t = concat (map ctrl_frame fs1) @ part" "part @ drop ?n stream = concat (map ctrl_frame fs2)" "incomplete part"
      by blast
    have ok: "\<forall>f \<in> set fs1. frame_ok f" "\<forall>f \<in> set fs2. frame_ok f" using Cons.prems(3) f(1) by auto
    note turn = ctrl_turn_frames [OF Cons.prems(1,2) ok(1) Cons.prems(4,5,6) d f(2,4), of env s]
    have len: "length (drop ?n stream) \<le> length ks" using Cons.prems(8) n by simp linarith
    show ?thesis
    proof (cases "ctrl_handle_all env fs1 (c, s)")
      case None
      then show ?thesis using turn False by (simp add: f(1) ctrl_handle_all_append)
    next
      case (Some r)
      obtain c1 s1 o1 where r: "r = ((c1, s1), o1)" by (metis surj_pair)
      obtain buf where buf: "length buf = CTRL_RECV_BUF_SIZE" "take (length part) buf = part"
          "ctrl_turn env (ready ?d) (c, s) = Some (Ctrl_Waiting, (set_buf buf (length part) c1, s1), o1)"
        using turn by (auto simp: Some r)
      have "c_notif_pipe c1 = 0" using handle_all_link [OF Some [unfolded r]] Cons.prems(1) by simp
      then have "case ctrl_handle_all env fs2 (set_buf buf (length part) c1, s1) of
           None \<Rightarrow> ctrl_receive env ks (drop ?n stream) (set_buf buf (length part) c1, s1) = None
         | Some ((c', s'), outs) \<Rightarrow> \<exists>buf'. length buf' = CTRL_RECV_BUF_SIZE \<and>
             ctrl_receive env ks (drop ?n stream) (set_buf buf (length part) c1, s1) = Some (Ctrl_Waiting, (set_buf buf' 0 c', s'), outs, [])"
        using Cons.IH [of "set_buf buf (length part) c1" fs2 part "drop ?n stream" s1] buf(1,2) ok(2) f(3,4) len by simp
      then show ?thesis
        using False buf(3)
        by (auto simp: f(1) ctrl_handle_all_append Some r ctrl_handle_all_buf Let_def split: option.splits) blast+
    qed
  qed
next
  case Nil
  then have fs: "fs = []" using incomplete_frames [of fs] by simp
  then have "set_buf (c_recv_buf c) 0 c = c" using Nil.prems(6,7) by simp
  then show ?case using Nil.prems(2,8) fs by (auto intro!: exI [of _ "c_recv_buf c"])
qed

end
