(* ===== verification/Ctrl_Ends.thy ===== *)
theory Ctrl_Ends
  imports Ctrl_Facts
begin

text \<open>
  The properties of the control connection.
\<close>

section \<open>End to end\<close>

fun ctrl_wire :: "ctrl_out list \<Rightarrow> bytes" where
  "ctrl_wire [] = []"
| "ctrl_wire (Ctrl_Wire b # outs) = b @ ctrl_wire outs"
| "ctrl_wire (_ # outs) = ctrl_wire outs"

lemma ctrl_wire_append: "ctrl_wire (xs @ ys) = ctrl_wire xs @ ctrl_wire ys"
  by (induction xs rule: ctrl_wire.induct) auto

text \<open>Handling messages whose payloads are not encrypted.\<close>

fun payload_bytes :: "bytes option \<Rightarrow> bytes" where
  "payload_bytes None = []"
| "payload_bytes (Some p) = p"

fun ctrl_deliver_all :: "ctrl_env \<Rightarrow> ctrl_message list \<Rightarrow> ctrl_state \<Rightarrow> (ctrl_state \<times> ctrl_out list) option" where
  "ctrl_deliver_all env [] st = Some (st, [])"
| "ctrl_deliver_all env (msg # msgs) st = do {
     let p = payload_bytes (snd msg);
     let st = (if p = [] then st else ((fst st)\<lparr>c_counter_remote := c_counter_remote (fst st) + 1\<rparr>, snd st));
     (st, outs) \<leftarrow> ctrl_dispatch env (fst msg) p st;
     (st, outs') \<leftarrow> ctrl_deliver_all env msgs st;
     Some (st, outs @ outs') }"

text \<open>Platform calls that succeed, every byte being sent.\<close>

definition env_ok :: "ctrl_env \<Rightarrow> bool" where
  "env_ok env \<longleftrightarrow> rp_crypto_ok (ce_crypto env) \<and> (\<forall>n. ce_alloc env n) \<and> (\<forall>b. ce_send env b = Some (length b))"

definition message_ok :: "ctrl_message \<Rightarrow> bool" where
  "message_ok msg \<longleftrightarrow> length (payload_bytes (snd msg)) \<le> CTRL_RECV_BUF_SIZE - 8"

lemma payload_length: "payload_length p = length (payload_bytes p)"
  by (cases p) auto

text \<open>A message that is sent is one frame, which the other end handles as the message.\<close>

lemma ctrl_message_send_frame_sent:
  assumes "env_ok env" "message_ok msg"
  shows "\<exists>e c' outs. ctrl_message_send env rp msg c = Some (CHIAKI_ERR_SUCCESS, c', outs) \<and> ctrl_wire outs = ctrl_frame (fst msg, e) \<and> frame_ok (fst msg, e) \<and>
     c_counter_local c' = (if payload_bytes (snd msg) = [] then c_counter_local c else c_counter_local c + 1) \<and>
     (\<forall>env' st. ce_crypto env' = ce_crypto env \<longrightarrow> s_rpcrypt (snd st) = rp \<longrightarrow> c_counter_remote (fst st) = c_counter_local c \<longrightarrow>
        ctrl_message_received env' (fst msg) e (length e) st =
        ctrl_dispatch env' (fst msg) (payload_bytes (snd msg))
          (if payload_bytes (snd msg) = [] then st else ((fst st)\<lparr>c_counter_remote := c_counter_remote (fst st) + 1\<rparr>, snd st)))"
proof (cases "payload_bytes (snd msg) = []")
  case True
  then have "ctrl_encrypt env rp c (snd msg) = Some (Inr None, c)" by (cases "snd msg") (auto simp: ctrl_encrypt_def)
  then show ?thesis
    using assms(1) True
    by (auto simp: ctrl_message_send_def payload_length env_ok_def ctrl_frame_def frame_ok_def ctrl_message_received_def Let_def
        intro!: exI [of _ "[]"])
next
  case False
  obtain p where p: "snd msg = Some p" "payload_bytes (snd msg) = p" using False by (cases "snd msg") auto
  have len: "length p \<le> 504" using assms(2) p by (simp add: message_ok_def)
  obtain e where e: "chiaki_rpcrypt_encrypt (ce_crypto env) rp (c_counter_local c) p (length p) = Some (Inr e)" "length e = length p"
      "chiaki_rpcrypt_decrypt (ce_crypto env) rp (c_counter_local c) e (length p) = Some (Inr p)"
    using crypt_roundtrip [of "ce_crypto env" p rp "c_counter_local c"] assms(1) len by (auto simp: env_ok_def)
  have "ctrl_encrypt env rp c (snd msg) = Some (Inr (Some e), c\<lparr>c_counter_local := c_counter_local c + 1\<rparr>)"
    using assms(1) e(1) False p by (simp add: ctrl_encrypt_def env_ok_def)
  then have send: "ctrl_message_send env rp msg c =
      Some (CHIAKI_ERR_SUCCESS, c\<lparr>c_counter_local := c_counter_local c + 1\<rparr>, [Ctrl_Wire (ctrl_header (fst msg) (length e)), Ctrl_Wire e])"
    using assms(1) e(2) p by (simp add: ctrl_message_send_def payload_length env_ok_def Let_def)
  have "e \<noteq> []" using e(2) False p by auto
  with e have recv: "ctrl_message_received env' (fst msg) e (length e) st =
        ctrl_dispatch env' (fst msg) p ((fst st)\<lparr>c_counter_remote := c_counter_remote (fst st) + 1\<rparr>, snd st)"
    if "ce_crypto env' = ce_crypto env" "s_rpcrypt (snd st) = rp" "c_counter_remote (fst st) = c_counter_local c" for env' st
    using that False p by (simp add: ctrl_message_received_def Let_def)
  show ?thesis
    using len e(2) False recv unfolding send p(2)
    by (intro exI [of _ e] exI [of _ "c\<lparr>c_counter_local := c_counter_local c + 1\<rparr>"] exI conjI)
      (auto simp: ctrl_frame_def frame_ok_def)
qed

lemma ctrl_sends_frames:
  assumes "env_ok env" "\<forall>msg \<in> set msgs. message_ok msg"
  shows "\<exists>c' outs fs. ctrl_sends env rp msgs c = Some (c', outs) \<and> ctrl_wire outs = concat (map ctrl_frame fs) \<and> (\<forall>f \<in> set fs. frame_ok f) \<and>
     (\<forall>env' st. ce_crypto env' = ce_crypto env \<longrightarrow> s_rpcrypt (snd st) = rp \<longrightarrow> c_counter_remote (fst st) = c_counter_local c \<longrightarrow>
        ctrl_handle_all env' fs st = ctrl_deliver_all env' msgs st)"
  using assms(2)
proof (induction msgs arbitrary: c)
  case Nil
  show ?case by (intro exI [of _ c] exI [of _ "[]"]) auto
next
  case (Cons msg msgs)
  let ?p = "payload_bytes (snd msg)"
  let ?st = "\<lambda>st :: ctrl_state. (if ?p = [] then st else ((fst st)\<lparr>c_counter_remote := c_counter_remote (fst st) + 1\<rparr>, snd st))"
  have "message_ok msg" using Cons.prems by simp
  from ctrl_message_send_frame_sent [OF assms(1) this, of rp c] obtain e c1 o1 where
      m: "ctrl_message_send env rp msg c = Some (CHIAKI_ERR_SUCCESS, c1, o1)" "ctrl_wire o1 = ctrl_frame (fst msg, e)" "frame_ok (fst msg, e)"
        "c_counter_local c1 = (if ?p = [] then c_counter_local c else c_counter_local c + 1)"
      and r: "\<And>env' st. ce_crypto env' = ce_crypto env \<Longrightarrow> s_rpcrypt (snd st) = rp \<Longrightarrow> c_counter_remote (fst st) = c_counter_local c \<Longrightarrow>
        ctrl_message_received env' (fst msg) e (length e) st = ctrl_dispatch env' (fst msg) ?p (?st st)"
    by blast
  obtain c2 o2 fs where ms: "ctrl_sends env rp msgs c1 = Some (c2, o2)" "ctrl_wire o2 = concat (map ctrl_frame fs)" "\<forall>f \<in> set fs. frame_ok f"
      and h: "\<And>env' st. ce_crypto env' = ce_crypto env \<Longrightarrow> s_rpcrypt (snd st) = rp \<Longrightarrow> c_counter_remote (fst st) = c_counter_local c1 \<Longrightarrow>
        ctrl_handle_all env' fs st = ctrl_deliver_all env' msgs st"
    using Cons.IH [of c1] Cons.prems by auto
  have "ctrl_handle_all env' ((fst msg, e) # fs) st = ctrl_deliver_all env' (msg # msgs) st"
    if a: "ce_crypto env' = ce_crypto env" "s_rpcrypt (snd st) = rp" "c_counter_remote (fst st) = c_counter_local c" for env' st
  proof (cases "ctrl_dispatch env' (fst msg) ?p (?st st)")
    case (Some x)
    obtain st1 o3 where x: "x = (st1, o3)" by (cases x)
    have "same_link (?st st) st1" using ctrl_dispatch_link Some unfolding x .
    then have "ctrl_handle_all env' fs st1 = ctrl_deliver_all env' msgs st1"
      by (intro h) (use a m(4) in \<open>auto simp: same_link_def\<close>)
    then show ?thesis using Some by (simp add: r [OF a] x Let_def)
  qed (simp add: r [OF a] Let_def)
  then show ?case
    using m ms by (intro exI [of _ c2] exI [of _ "o1 @ o2"] exI [of _ "(fst msg, e) # fs"]) (auto simp: ctrl_wire_append)
qed

text \<open>
  C11. From one end to the other. Messages that one end sends, with payloads of at most 504 bytes, are handled by an end with the same
  keys, whose counter of received messages is the sender's of sent ones, exactly as the messages that they are, in their order, whatever
  parts of the stream its turns receive, as long as there are enough turns; its buffer is empty then.
\<close>

theorem ctrl_end_to_end:
  assumes "env_ok env" "ce_crypto env' = ce_crypto env" "\<forall>msg \<in> set msgs. message_ok msg"
    and "s_rpcrypt s = rp" "c_counter_remote c = c_counter_local c0"
    and "c_notif_pipe c = 0" "length (c_recv_buf c) = CTRL_RECV_BUF_SIZE" "c_recv_buf_size c = 0"
  shows "\<exists>c0' sent. ctrl_sends env rp msgs c0 = Some (c0', sent) \<and> (\<forall>ks. length (ctrl_wire sent) \<le> length ks \<longrightarrow>
     (case ctrl_deliver_all env' msgs (c, s) of
        None \<Rightarrow> ctrl_receive env' ks (ctrl_wire sent) (c, s) = None
      | Some ((c', s'), outs) \<Rightarrow> \<exists>buf. length buf = CTRL_RECV_BUF_SIZE \<and>
          ctrl_receive env' ks (ctrl_wire sent) (c, s) = Some (Ctrl_Waiting, (set_buf buf 0 c', s'), outs, [])))"
proof -
  obtain c0' sent fs where ms: "ctrl_sends env rp msgs c0 = Some (c0', sent)" "ctrl_wire sent = concat (map ctrl_frame fs)" "\<forall>f \<in> set fs. frame_ok f"
      and "\<And>env' st. ce_crypto env' = ce_crypto env \<Longrightarrow> s_rpcrypt (snd st) = rp \<Longrightarrow> c_counter_remote (fst st) = c_counter_local c0 \<Longrightarrow>
        ctrl_handle_all env' fs st = ctrl_deliver_all env' msgs st"
    using ctrl_sends_frames [OF assms(1,3)] by blast
  then have "ctrl_handle_all env' fs (c, s) = ctrl_deliver_all env' msgs (c, s)" using assms by simp
  then show ?thesis
    using ctrl_receive_frames [OF assms(6,7) ms(3) incomplete_Nil, of "ctrl_wire sent" _ env' s] assms(8) ms by auto
qed

text \<open>An example: a cipher that is its own inverse.\<close>

definition example_rp_crypto :: rp_crypto where
  "example_rp_crypto = \<lparr>rp_ctx = True, rp_hmac = (\<lambda>k d. Some (replicate 32 0)), rp_cfb = (\<lambda>e k iv m. Some (map (\<lambda>b. b XOR 0x55) m))\<rparr>"

definition example_ctrl_env :: ctrl_env where
  "example_ctrl_env = \<lparr>ce_crypto = example_rp_crypto, ce_alloc = (\<lambda>n. True), ce_send = (\<lambda>b. Some (length b)), ce_event_cb = True\<rparr>"

definition example_ctrl :: ctrl where
  "example_ctrl =
     \<lparr>c_should_stop = False, c_login_pin_entered = False, c_login_pin = None, c_msg_queue = [], c_notif_pipe = 0, c_login_pin_requested = False,
      c_recv_buf = replicate 512 0, c_recv_buf_size = 0, c_counter_local = 4, c_counter_remote = 4, c_keyboard_text_counter = 0\<rparr>"

definition example_session :: session where
  "example_session =
     \<lparr>s_ps5 = True, s_hostname = ascii ''ps5'', s_regist_key = replicate 16 1, s_morning = replicate 16 2, s_did = replicate 32 3,
      s_video_profile = chiaki_connect_video_profile_preset CHIAKI_VIDEO_RESOLUTION_PRESET_720p CHIAKI_VIDEO_FPS_PRESET_60,
      s_video_profile_auto_downgrade = True, s_enable_keyboard = False, s_enable_dualsense = False, s_target = CHIAKI_TARGET_PS5_1,
      s_nonce = replicate 16 0,
      s_rpcrypt = \<lparr>rp_target = CHIAKI_TARGET_PS5_1, rp_bright = replicate 16 4, rp_ambassador = replicate 16 5\<rparr>,
      s_session_id = replicate 80 0, s_handshake_key = replicate 16 0, s_mtu_in = 0, s_mtu_out = 0, s_rtt_us = 0,
      s_quit_reason = CHIAKI_QUIT_REASON_NONE, s_quit_reason_str = None, s_stop_pipe = 0, s_should_stop = False, s_ctrl_failed = False,
      s_ctrl_session_id_received = False, s_ctrl_login_pin_requested = False, s_login_pin_entered = False, s_login_pin = None\<rparr>"

lemma example_env_ok: "env_ok example_ctrl_env"
  by (auto simp: env_ok_def rp_crypto_ok_def example_ctrl_env_def example_rp_crypto_def comp_def xor.assoc)

theorem ctrl_end_to_end_witness:
  "\<exists>c0' sent c' s'. ctrl_sends example_ctrl_env (s_rpcrypt example_session) [(CTRL_MESSAGE_TYPE_KEYBOARD_CLOSE_REMOTE, Some [1, 2]), (CTRL_MESSAGE_TYPE_HEARTBEAT_REQ, None)] example_ctrl =
       Some (c0', sent) \<and>
     ctrl_receive example_ctrl_env (replicate (length (ctrl_wire sent)) 2) (ctrl_wire sent) (example_ctrl, example_session) =
       Some (Ctrl_Waiting, (c', s'), [Ctrl_Event CHIAKI_EVENT_KEYBOARD_REMOTE_CLOSE, Ctrl_Wire (ctrl_header CTRL_MESSAGE_TYPE_HEARTBEAT_REP 0)], [])"
proof -
  let ?msgs = "[(CTRL_MESSAGE_TYPE_KEYBOARD_CLOSE_REMOTE, Some [1, 2]), (CTRL_MESSAGE_TYPE_HEARTBEAT_REQ, None)]"
  have "\<forall>msg \<in> set ?msgs. message_ok msg" by (simp add: message_ok_def)
  then obtain c0' sent where s: "ctrl_sends example_ctrl_env (s_rpcrypt example_session) ?msgs example_ctrl = Some (c0', sent)"
      "\<And>ks. length (ctrl_wire sent) \<le> length ks \<Longrightarrow>
     (case ctrl_deliver_all example_ctrl_env ?msgs (example_ctrl, example_session) of
        None \<Rightarrow> ctrl_receive example_ctrl_env ks (ctrl_wire sent) (example_ctrl, example_session) = None
      | Some ((c', s'), outs) \<Rightarrow> \<exists>buf. length buf = CTRL_RECV_BUF_SIZE \<and>
          ctrl_receive example_ctrl_env ks (ctrl_wire sent) (example_ctrl, example_session) = Some (Ctrl_Waiting, (set_buf buf 0 c', s'), outs, []))"
    using ctrl_end_to_end [of example_ctrl_env example_ctrl_env ?msgs example_session "s_rpcrypt example_session" example_ctrl example_ctrl]
      example_env_ok by (auto simp: example_ctrl_def)
  have d: "\<exists>c' s'. ctrl_deliver_all example_ctrl_env ?msgs (example_ctrl, example_session) =
      Some ((c', s'), [Ctrl_Event CHIAKI_EVENT_KEYBOARD_REMOTE_CLOSE, Ctrl_Wire (ctrl_header CTRL_MESSAGE_TYPE_HEARTBEAT_REP 0)])"
    by (simp add: ctrl_dispatch_def ctrl_message_received_keyboard_close_def ctrl_send_event_def ctrl_message_send_def ctrl_encrypt_def
        example_ctrl_env_def Let_def ctrl_header_def)
  show ?thesis using s(1) s(2) [of "replicate (length (ctrl_wire sent)) 2"] d by fastforce
qed

section \<open>The state stays well-formed\<close>

text \<open>
  The buffers have their sizes; a received session id has from one to 78 letters and digits, and a zero follows it; an entered PIN
  is there.
\<close>

definition session_id_ok :: "bytes \<Rightarrow> bool" where
  "session_id_ok sid \<longleftrightarrow> (\<exists>n. 0 < n \<and> n < CHIAKI_SESSION_ID_SIZE_MAX - 1 \<and> (\<forall>i < n. session_id_char (sid ! i)) \<and> sid ! n = 0)"

definition ctrl_wf :: "ctrl_state \<Rightarrow> bool" where
  "ctrl_wf st \<longleftrightarrow> length (c_recv_buf (fst st)) = CTRL_RECV_BUF_SIZE \<and> c_recv_buf_size (fst st) \<le> CTRL_RECV_BUF_SIZE \<and>
     (c_login_pin_entered (fst st) \<longrightarrow> c_login_pin (fst st) \<noteq> None) \<and>
     length (s_session_id (snd st)) = CHIAKI_SESSION_ID_SIZE_MAX \<and> (s_ctrl_session_id_received (snd st) \<longrightarrow> session_id_ok (s_session_id (snd st)))"

lemma session_id_stored:
  assumes "store_bytes sid 0 (p @ [0]) = Some sid'" "list_all session_id_char p" "p \<noteq> []" "length p < CHIAKI_SESSION_ID_SIZE_MAX - 1"
  shows "session_id_ok sid'"
proof -
  have "sid' = p @ 0 # drop (Suc (length p)) sid" using assms(1) by (auto simp: store_bytes_def split: if_splits)
  then show ?thesis
    unfolding session_id_ok_def using assms(2-4) by (intro exI [of _ "length p"]) (auto simp: nth_append list_all_length)
qed

lemma received_session_id_wf:
  assumes "ctrl_message_received_session_id p s = Some (s', outs)" "ctrl_wf (c, s)"
  shows "ctrl_wf (c, s')"
  using received_session_id_cases [OF assms(1)] assms(2)
proof (elim disjE exE conjE)
  fix sid assume a: "store_bytes (s_session_id s) 0 (tl p @ [0]) = Some sid" "2 \<le> length p" "length p < CHIAKI_SESSION_ID_SIZE_MAX"
    "list_all session_id_char (tl p)" "s' = s\<lparr>s_session_id := sid, s_ctrl_session_id_received := True\<rparr>"
  have "0 < length (tl p)" "length (tl p) < CHIAKI_SESSION_ID_SIZE_MAX - 1" using a(2,3) unfolding length_tl by linarith+
  then have "session_id_ok sid" by (intro session_id_stored [OF a(1,4)]) (simp_all only: length_greater_0_conv not_False_eq_True)
  then show ?thesis using assms(2) a length_store_bytes [OF a(1)] by (simp add: ctrl_wf_def)
qed simp

lemma counter_wf: "ctrl_wf (c\<lparr>c_counter_local := n\<rparr>, s) = ctrl_wf (c, s)"
  by (simp add: ctrl_wf_def)

lemma ctrl_dispatch_wf:
  assumes "ctrl_dispatch env t p st = Some (st', outs)" "ctrl_wf st"
  shows "ctrl_wf st'"
proof -
  obtain c s where st: "st = (c, s)" by (cases st)
  have "ctrl_wf st'" if "t = CTRL_MESSAGE_TYPE_SESSION_ID"
    using assms that st
    by (fastforce simp: ctrl_dispatch_def ctrl_enable_optional_features_def counter_wf dest!: ctrl_sends_frame
        dest: received_session_id_wf split: Option.bind_splits)
  moreover have "ctrl_wf st'" if "t = CTRL_MESSAGE_TYPE_HEARTBEAT_REQ"
    using assms that st by (fastforce simp: ctrl_dispatch_def counter_wf dest!: ctrl_message_send_frame split: Option.bind_splits)
  moreover have "ctrl_wf st'" if "t \<noteq> CTRL_MESSAGE_TYPE_SESSION_ID" "t \<noteq> CTRL_MESSAGE_TYPE_HEARTBEAT_REQ"
    using assms unfolding ctrl_dispatch_def if_not_P [OF that(1)] if_not_P [OF that(2)] ctrl_message_received_login_pin_req_def ctrl_message_received_login_def
    by (auto simp: ctrl_wf_def split: if_split_asm)
  ultimately show ?thesis by blast
qed

lemma ctrl_received_wf:
  assumes "ctrl_message_received env t p n st = Some (st', outs)" "ctrl_wf st"
  shows "ctrl_wf st'"
proof -
  have "ctrl_wf ((fst st)\<lparr>c_counter_remote := k\<rparr>, snd st)" for k using assms(2) by (simp add: ctrl_wf_def)
  then show ?thesis
    using assms by (auto simp: ctrl_message_received_def Let_def dest: ctrl_dispatch_wf split: if_split_asm sum.splits Option.bind_splits)
qed

lemma set_buf_wf: "ctrl_wf (c, s) \<Longrightarrow> store_bytes (c_recv_buf c) i d = Some buf \<Longrightarrow> k \<le> CTRL_RECV_BUF_SIZE \<Longrightarrow> ctrl_wf (set_buf buf k c, s)"
  by (auto simp: ctrl_wf_def dest: length_store_bytes)

lemma ctrl_process_wf:
  "ctrl_process fuel env st = Some (r, st', outs) \<Longrightarrow> ctrl_wf st \<Longrightarrow> ctrl_wf st'"
proof (induction fuel arbitrary: st outs)
  case (Suc fuel)
  have step: "ctrl_wf st'" if "ctrl_message_received env t p n st = Some ((c, s), o1)" "store_bytes (c_recv_buf c) 0 d = Some buf"
      "ctrl_process fuel env (set_buf buf (c_recv_buf_size c - k) c, s) = Some (r, st', o2)" for t p n c s o1 d buf k o2
  proof -
    have w: "ctrl_wf (c, s)" using ctrl_received_wf [OF that(1)] Suc.prems(2) by simp
    have "ctrl_wf (set_buf buf (c_recv_buf_size c - k) c, s)" by (rule set_buf_wf [OF w that(2)]) (use w in \<open>auto simp: ctrl_wf_def\<close>)
    from Suc.IH [OF that(3) this] show ?thesis .
  qed
  from Suc.prems show ?case
    by (auto simp: Let_def dest: step split: if_split_asm Option.bind_split_asm)
qed simp

lemma ctrl_failed_wf: "ctrl_wf (c, s) \<Longrightarrow> ctrl_failed reason s = (s', outs) \<Longrightarrow> ctrl_wf (c, s')"
  by (auto simp: ctrl_failed_def ctrl_wf_def)

lemma ctrl_loop_head_wf:
  assumes "ctrl_loop_head env st = Some (status, st', outs)" "ctrl_wf st"
  shows "ctrl_wf st'"
proof -
  from assms(1) obtain r st1 o1 where p: "ctrl_process (c_recv_buf_size (fst st) + 1) env st = Some (r, st1, o1)"
      and e: "st' = st1 \<or> (\<exists>o2. ctrl_failed CHIAKI_QUIT_REASON_CTRL_UNKNOWN (snd st1) = (snd st', o2) \<and> fst st' = fst st1)"
    by (auto simp: ctrl_loop_head_def split: Option.bind_split_asm option.split_asm if_split_asm prod.split_asm simp del: ctrl_process.simps)
  have "ctrl_wf st1" using ctrl_process_wf [OF p assms(2)] .
  then show ?thesis using e ctrl_failed_wf [of "fst st1" "snd st1"] by (metis prod.collapse)
qed

lemma ctrl_flush_queue_frame:
  "ctrl_flush_queue env rp msgs c = Some (c', outs) \<Longrightarrow> \<exists>n. c' = c\<lparr>c_counter_local := n, c_msg_queue := (if msgs = [] then c_msg_queue c else [])\<rparr>"
proof (induction msgs arbitrary: c outs)
  case Nil
  then show ?case by (auto intro: exI [of _ "c_counter_local c"])
next
  case (Cons msg msgs)
  then obtain err c1 o1 o2 where m: "ctrl_message_send env rp msg c = Some (err, c1, o1)" and r: "ctrl_flush_queue env rp msgs (c1\<lparr>c_msg_queue := msgs\<rparr>) = Some (c', o2)"
    by (auto split: Option.bind_split_asm)
  obtain n where "c1 = c\<lparr>c_counter_local := n\<rparr>" using ctrl_message_send_frame [OF m] ..
  with Cons.IH [OF r] show ?case by (cases "msgs = []") auto
qed

lemma ctrl_canceled_cases:
  assumes "ctrl_canceled env (c, s) = Some (go_on, st', outs)"
  shows "\<exists>n. snd st' = s \<and>
     (c_login_pin_entered c \<and> go_on \<and> fst st' = c\<lparr>c_counter_local := n, c_msg_queue := [], c_login_pin_entered := False, c_login_pin := None, c_notif_pipe := 0\<rparr> \<or>
      \<not> c_login_pin_entered c \<and> go_on = (\<not> c_should_stop c) \<and>
        fst st' = c\<lparr>c_counter_local := n, c_msg_queue := [], c_notif_pipe := (if \<not> c_should_stop c \<and> c_msg_queue c \<noteq> [] then 0 else c_notif_pipe c)\<rparr>)"
proof -
  obtain c1 o1 where f: "ctrl_flush_queue env (s_rpcrypt s) (c_msg_queue c) c = Some (c1, o1)"
    using assms by (auto simp: ctrl_canceled_def Let_def split: Option.bind_split_asm)
  obtain n where c1: "c1 = c\<lparr>c_counter_local := n, c_msg_queue := []\<rparr>" using ctrl_flush_queue_frame [OF f] by (cases "c_msg_queue c = []") auto
  show ?thesis
  proof (cases "c_login_pin_entered c")
    case True
    then obtain err c2 o2 where m: "ctrl_message_send env (s_rpcrypt s) (CTRL_MESSAGE_TYPE_LOGIN_PIN_REP, c_login_pin c1) c1 = Some (err, c2, o2)"
      using assms f c1 by (auto simp: ctrl_canceled_def Let_def split: Option.bind_split_asm)
    obtain k where "c2 = c1\<lparr>c_counter_local := k\<rparr>" using ctrl_message_send_frame [OF m] ..
    then show ?thesis using assms f c1 m True by (auto simp: ctrl_canceled_def Let_def intro!: exI [of _ k])
  next
    case False
    then show ?thesis using assms f c1 by (auto simp: ctrl_canceled_def Let_def intro!: exI [of _ n] split: if_split_asm)
  qed
qed

lemma ctrl_recv_wf: "ctrl_recv r (c, s) = Some (go_on, st', outs) \<Longrightarrow> ctrl_wf (c, s) \<Longrightarrow> ctrl_wf st'"
  by (auto simp: ctrl_recv_def Let_def ctrl_failed_def ctrl_wf_def dest!: length_store_bytes split: option.split_asm if_split_asm Option.bind_split_asm)

lemma ctrl_turn_wf:
  assumes "ctrl_turn env w st = Some (status, st', outs)" "ctrl_wf st"
  shows "ctrl_wf st'"
proof -
  obtain c s where st: "st = (c, s)" by (cases st)
  have c: "ctrl_wf st1" if "ctrl_canceled env (c, s) = Some (go_on, st1, o1)" for go_on st1 o1
    using ctrl_canceled_cases [OF that] assms(2) st by (cases st1) (auto simp: ctrl_wf_def)
  show ?thesis
    using assms st
    by (auto simp: ctrl_turn_def Let_def dest!: c ctrl_recv_wf ctrl_loop_head_wf split: if_split_asm Option.bind_split_asm)
qed

text \<open>What can happen while the thread waits: it is woken, or another thread calls an operation.\<close>

datatype ctrl_action =
    Act_Turn ctrl_env ctrl_wakeup
  | Act_Stop
  | Act_Queue u16 "bytes option"
  | Act_Notify
  | Act_Login_Pin bytes

fun ctrl_act :: "ctrl_action \<Rightarrow> ctrl_state \<Rightarrow> (ctrl_status \<times> ctrl_state \<times> ctrl_out list) option" where
  "ctrl_act (Act_Turn env w) st = ctrl_turn env w st"
| "ctrl_act Act_Stop (c, s) = Some (Ctrl_Waiting, (chiaki_ctrl_stop c, s), [])"
| "ctrl_act (Act_Queue type payload) (c, s) = Some (Ctrl_Waiting, (ctrl_queue_message type payload c, s), [])"
| "ctrl_act Act_Notify (c, s) = Some (Ctrl_Waiting, (ctrl_notify c, s), [])"
| "ctrl_act (Act_Login_Pin pin) (c, s) = Some (Ctrl_Waiting, (chiaki_ctrl_set_login_pin True pin c, s), [])"

fun ctrl_run :: "ctrl_action list \<Rightarrow> ctrl_state \<Rightarrow> (ctrl_status \<times> ctrl_state \<times> ctrl_out list) option" where
  "ctrl_run [] st = Some (Ctrl_Waiting, st, [])"
| "ctrl_run (a # as) st = do {
     (status, st, outs) \<leftarrow> ctrl_act a st;
     if status \<noteq> Ctrl_Waiting then Some (status, st, outs)
     else do {
       (status, st, outs') \<leftarrow> ctrl_run as st;
       Some (status, st, outs @ outs') } }"

lemma ctrl_act_wf: "ctrl_act a st = Some (status, st', outs) \<Longrightarrow> ctrl_wf st \<Longrightarrow> ctrl_wf st'"
  using ctrl_turn_wf
  by (induction a st rule: ctrl_act.induct)
    (auto simp: ctrl_wf_def chiaki_ctrl_stop_def ctrl_queue_message_def ctrl_notify_def chiaki_ctrl_set_login_pin_def)

lemma example_crypt:
  "n \<le> length p \<Longrightarrow> n < 2 ^ 31 \<Longrightarrow>
   chiaki_rpcrypt_encrypt example_rp_crypto rp k p n = Some (Inr (map (\<lambda>b. b XOR 0x55) (take n p))) \<and>
   chiaki_rpcrypt_decrypt example_rp_crypto rp k p n = Some (Inr (map (\<lambda>b. b XOR 0x55) (take n p)))"
  using sint_of_size [of n]
  by (simp add: chiaki_rpcrypt_encrypt_def chiaki_rpcrypt_decrypt_def chiaki_rpcrypt_crypt_def chiaki_rpcrypt_generate_iv_def
      example_rp_crypto_def load_bytes_def Let_def)

section \<open>Termination\<close>

lemma decrypt_wrapped: "\<exists>err. chiaki_rpcrypt_decrypt cr rp k p 0xfffffff8 = Some (Inl err)"
  by (cases "chiaki_rpcrypt_generate_iv cr rp k") (auto simp: chiaki_rpcrypt_decrypt_def chiaki_rpcrypt_crypt_def)

text \<open>A message of this size stands at the beginning of the buffer for ever.\<close>

definition stands_still :: "ctrl \<Rightarrow> bool" where
  "stands_still c \<longleftrightarrow> 8 \<le> c_recv_buf_size c \<and> load32be (c_recv_buf c) 0 = Some 0xfffffff8"

lemma ctrl_process_stands_still:
  "stands_still c \<Longrightarrow> c_recv_buf_size c \<le> length (c_recv_buf c) \<Longrightarrow>
   ctrl_process fuel env (c, s) = Some (None, (c\<lparr>c_counter_remote := c_counter_remote c + of_nat fuel\<rparr>, s), [])"
proof (induction fuel arbitrary: c)
  case (Suc fuel)
  let ?c = "c\<lparr>c_counter_remote := c_counter_remote c + 1\<rparr>"
  obtain err where d: "chiaki_rpcrypt_decrypt (ce_crypto env) (s_rpcrypt s) (c_counter_remote c) (drop 8 (c_recv_buf c)) 0xfffffff8 = Some (Inl err)"
    using decrypt_wrapped by blast
  have m: "ctrl_message_received env t (drop 8 (c_recv_buf c)) 0xfffffff8 (c, s) = Some ((?c, s), [])" for t
    by (simp add: ctrl_message_received_def d)
  have st: "store_bytes (c_recv_buf c) 0 (take (c_recv_buf_size c) (c_recv_buf c)) = Some (c_recv_buf c)"
    using Suc.prems(2) by (simp add: store_bytes_def min_absorb2)
  obtain t where t: "load16be (c_recv_buf c) 4 = Some t" using load16be_defined [of 4 "c_recv_buf c"] Suc.prems by (auto simp: stands_still_def)
  have "stands_still ?c" "c_recv_buf_size ?c \<le> length (c_recv_buf ?c)" using Suc.prems by (simp_all add: stands_still_def)
  note ih = Suc.IH [OF this]
  have "set_buf (c_recv_buf c) (c_recv_buf_size c) ?c = ?c" by simp
  then show ?case
    using Suc.prems ih by (simp add: stands_still_def Let_def t m st add.assoc)
qed simp

lemma total_zero: "unat (8 + p :: u32) = 0 \<longleftrightarrow> p = 0xfffffff8"
proof -
  have "unat (8 + p) = 0 \<longleftrightarrow> 8 + p = 0" by (simp add: unat_eq_0)
  also have "\<dots> \<longleftrightarrow> p = - 8" by (metis add.commute eq_neg_iff_add_eq_0)
  also have "(- 8 :: u32) = 0xfffffff8" by simp
  finally show ?thesis .
qed

lemma ctrl_process_stops:
  "ctrl_process fuel env st = Some (r, st', outs) \<Longrightarrow> c_recv_buf_size (fst st) < fuel \<Longrightarrow> ctrl_wf st \<Longrightarrow> r = None \<longleftrightarrow> stands_still (fst st')"
proof (induction fuel arbitrary: st outs)
  case (Suc fuel)
  obtain c s where st: "st = (c, s)" by (cases st)
  consider (idle) "c_recv_buf_size c < 8" | (still) "stands_still c" | (go) "8 \<le> c_recv_buf_size c" "\<not> stands_still c" by linarith
  then show ?case
  proof cases
    case idle
    then show ?thesis using Suc.prems(1) st by (auto simp: stands_still_def)
  next
    case still
    then show ?thesis
      using Suc.prems ctrl_process_stands_still [OF still, of "Suc fuel" env s] st
      by (auto simp: ctrl_wf_def stands_still_def simp del: ctrl_process.simps)
  next
    case go
    have l: "3 < length (c_recv_buf c)" using Suc.prems(3) st by (simp add: ctrl_wf_def)
    obtain p where p: "load32be (c_recv_buf c) 0 = Some p" using load32be_defined [of 0 "c_recv_buf c"] l by auto
    let ?t = "unat (8 + p)"
    have t: "0 < ?t" using go p total_zero [of p] by (auto simp: stands_still_def)
    show ?thesis
    proof (cases "c_recv_buf_size c < ?t")
      case True
      then show ?thesis using Suc.prems(1) go p st by (auto simp: Let_def)
    next
      case False
      obtain y c1 s1 o1 buf o2 where
          y: "load16be (c_recv_buf c) 4 = Some y" "ctrl_message_received env y (drop 8 (c_recv_buf c)) (unat p) (c, s) = Some ((c1, s1), o1)"
            "store_bytes (c_recv_buf c1) 0 (take (c_recv_buf_size c1 - ?t) (drop ?t (c_recv_buf c1))) = Some buf"
            "ctrl_process fuel env (set_buf buf (c_recv_buf_size c1 - ?t) c1, s1) = Some (r, st', o2)"
        using Suc.prems(1) go(1) False p st by (auto simp: Let_def split: Option.bind_split_asm)
      have "ctrl_wf (c1, s1)" using ctrl_received_wf [OF y(2)] Suc.prems(3) st by simp
      then have "ctrl_wf (set_buf buf (c_recv_buf_size c1 - ?t) c1, s1)"
        by (intro set_buf_wf [OF _ y(3)]) (auto simp: ctrl_wf_def)
      moreover have "c_recv_buf_size c1 = c_recv_buf_size c" using received_link(2) [OF y(2)] by simp
      then have "c_recv_buf_size c1 - ?t < fuel" using t go(1) Suc.prems(2) st by simp
      ultimately show ?thesis using Suc.IH [OF y(4)] by simp
    qed
  qed
qed simp

lemma ctrl_process_add:
  "ctrl_process n env st = Some (None, st', outs) \<Longrightarrow>
   ctrl_process (n + k) env st = map_option (\<lambda>(r, st'', outs'). (r, st'', outs @ outs')) (ctrl_process k env st')"
proof (induction n arbitrary: st outs)
  case 0
  then show ?case by (cases "ctrl_process k env st") auto
next
  case (Suc n)
  then obtain p y c1 s1 o1 buf o2 where
      y: "8 \<le> c_recv_buf_size (fst st)" "load32be (c_recv_buf (fst st)) 0 = Some p" "\<not> c_recv_buf_size (fst st) < unat (8 + p)"
        "load16be (c_recv_buf (fst st)) 4 = Some y" "ctrl_message_received env y (drop 8 (c_recv_buf (fst st))) (unat p) st = Some ((c1, s1), o1)"
        "store_bytes (c_recv_buf c1) 0 (take (c_recv_buf_size c1 - unat (8 + p)) (drop (unat (8 + p)) (c_recv_buf c1))) = Some buf"
        "ctrl_process n env (set_buf buf (c_recv_buf_size c1 - unat (8 + p)) c1, s1) = Some (None, st', o2)" "outs = o1 @ o2"
    by (auto simp: Let_def not_le split: Option.bind_split_asm if_split_asm)
  from Suc.IH [OF y(7)] show ?case
    using y by (cases "ctrl_process k env st'") (auto simp: Let_def)
qed



section \<open>Stopping and waking\<close>

text \<open>Sending always has a result when the payloads have less than 2 GiB.\<close>

definition small_payload :: "bytes option \<Rightarrow> bool" where
  "small_payload p \<longleftrightarrow> length (payload_bytes p) < 2 ^ 31"

lemma ctrl_message_send_defined: "small_payload (snd msg) \<Longrightarrow> \<exists>err n outs. ctrl_message_send env rp msg c = Some (err, c\<lparr>c_counter_local := n\<rparr>, outs)"
proof -
  assume p: "small_payload (snd msg)"
  have enc: "\<exists>r. chiaki_rpcrypt_encrypt cr rp k p (length p) = Some r" if "snd msg = Some p" for cr k p
  proof -
    have "length p < 2 ^ 31" using p unfolding that small_payload_def payload_bytes.simps .
    from crypt_defined [OF order_refl this] show ?thesis unfolding chiaki_rpcrypt_encrypt_def by (metis option.exhaust)
  qed
  have "ctrl_encrypt env rp c (snd msg) \<noteq> None"
  proof (cases "snd msg")
    case (Some p)
    obtain r where "chiaki_rpcrypt_encrypt (ce_crypto env) rp (c_counter_local c) p (length p) = Some r" using enc [OF Some] by blast
    then show ?thesis by (simp add: ctrl_encrypt_def Some)
  qed (simp add: ctrl_encrypt_def)
  then obtain x where "ctrl_encrypt env rp c (snd msg) = Some x" by blast
  then have "ctrl_message_send env rp msg c \<noteq> None" by (cases x; cases "fst x") (simp_all add: ctrl_message_send_def Let_def)
  then obtain err c' outs where "ctrl_message_send env rp msg c = Some (err, c', outs)" by auto
  with ctrl_message_send_frame [OF this] show ?thesis by blast
qed

lemma ctrl_flush_queue_defined:
  "\<forall>msg \<in> set msgs. small_payload (snd msg) \<Longrightarrow> \<exists>c' outs. ctrl_flush_queue env rp msgs c = Some (c', outs)"
proof (induction msgs arbitrary: c)
  case (Cons msg msgs)
  obtain err n outs where m: "ctrl_message_send env rp msg c = Some (err, c\<lparr>c_counter_local := n\<rparr>, outs)"
    using ctrl_message_send_defined Cons.prems by (metis list.set_intros(1))
  obtain c' o2 where "ctrl_flush_queue env rp msgs (c\<lparr>c_counter_local := n, c_msg_queue := msgs\<rparr>) = Some (c', o2)" using Cons by fastforce
  with m show ?case by simp
qed simp

lemma ctrl_canceled_defined:
  assumes "\<forall>msg \<in> set (c_msg_queue c). small_payload (snd msg)" "small_payload (c_login_pin c)"
  shows "ctrl_canceled env (c, s) \<noteq> None"
proof -
  obtain c' outs where f: "ctrl_flush_queue env (s_rpcrypt s) (c_msg_queue c) c = Some (c', outs)" using ctrl_flush_queue_defined [OF assms(1)] by blast
  have "small_payload (c_login_pin c')" using ctrl_flush_queue_frame [OF f] assms(2) by auto
  then obtain err n o2 where "ctrl_message_send env (s_rpcrypt s) (CTRL_MESSAGE_TYPE_LOGIN_PIN_REP, c_login_pin c') c' = Some (err, c'\<lparr>c_counter_local := n\<rparr>, o2)"
    using ctrl_message_send_defined [of "(CTRL_MESSAGE_TYPE_LOGIN_PIN_REP, c_login_pin c')"] by fastforce
  then show ?thesis using f by (auto simp: ctrl_canceled_def Let_def)
qed

lemma ctrl_loop_head_empty: "c_recv_buf_size c = 0 \<Longrightarrow> ctrl_loop_head env (c, s) = Some (Ctrl_Waiting, (c, s), [])"
  by (simp add: ctrl_loop_head_def)

text \<open>A turn that is woken through the pipe, nothing having been received that is not complete.\<close>

lemma ctrl_turn_woken:
  assumes "0 < c_notif_pipe c" "0 \<le> w_select w" "c_recv_buf_size c = 0"
    and "\<forall>msg \<in> set (c_msg_queue c). small_payload (snd msg)" "small_payload (c_login_pin c)"
  shows "\<exists>n outs. ctrl_turn env w (c, s) =
     Some (if c_login_pin_entered c \<or> \<not> c_should_stop c then Ctrl_Waiting else Ctrl_Ended,
       (c\<lparr>c_counter_local := n, c_msg_queue := [], c_login_pin_entered := False,
          c_login_pin := (if c_login_pin_entered c then None else c_login_pin c),
          c_notif_pipe := (if c_login_pin_entered c \<or> \<not> c_should_stop c \<and> c_msg_queue c \<noteq> [] then 0 else c_notif_pipe c)\<rparr>, s), outs)"
proof -
  obtain go_on st' outs where r: "ctrl_canceled env (c, s) = Some (go_on, st', outs)" using ctrl_canceled_defined [OF assms(4,5)] by fastforce
  obtain c' where st': "st' = (c', s)" using ctrl_canceled_cases [OF r] by (cases st') auto
  have t: "ctrl_turn env w (c, s) = Some (if go_on then Ctrl_Waiting else Ctrl_Ended, (c', s), outs)" if "c_recv_buf_size c' = 0"
    using assms(1,2) r st' that by (simp add: ctrl_turn_def Let_def ctrl_loop_head_empty)
  show ?thesis
  proof (cases "c_login_pin_entered c")
    case True
    then obtain n where "go_on" "c' = c\<lparr>c_counter_local := n, c_msg_queue := [], c_login_pin_entered := False, c_login_pin := None, c_notif_pipe := 0\<rparr>"
      using ctrl_canceled_cases [OF r] st' by auto
    then show ?thesis using t assms(3) True by auto
  next
    case False
    then obtain n where n: "go_on = (\<not> c_should_stop c)"
        "c' = c\<lparr>c_counter_local := n, c_msg_queue := [], c_notif_pipe := (if \<not> c_should_stop c \<and> c_msg_queue c \<noteq> [] then 0 else c_notif_pipe c)\<rparr>"
      using ctrl_canceled_cases [OF r] st' by auto
    have "c = c\<lparr>c_login_pin_entered := False, c_login_pin := c_login_pin c\<rparr>" using False by (cases c) simp
    then have "c' = c\<lparr>c_counter_local := n, c_msg_queue := [], c_login_pin_entered := False, c_login_pin := c_login_pin c,
        c_notif_pipe := (if \<not> c_should_stop c \<and> c_msg_queue c \<noteq> [] then 0 else c_notif_pipe c)\<rparr>"
      unfolding n(2) by (cases c) simp
    then show ?thesis using t assms(3) False n(1) by auto
  qed
qed

text \<open>
  C15. A stop that meets an entered PIN is lost. When the thread is asked to stop and wakes up, it ends exactly when no login PIN has
  been entered; otherwise it sends the PIN, empties the pipe and waits again, with the stop requested and nothing left to wake it.
\<close>

theorem ctrl_stop_ends_iff:
  assumes "0 \<le> w_select w" "c_recv_buf_size c = 0"
    and "\<forall>msg \<in> set (c_msg_queue c). small_payload (snd msg)" "small_payload (c_login_pin c)"
  shows "\<exists>status c' outs. ctrl_run [Act_Stop, Act_Turn env w] (c, s) = Some (status, (c', s), outs) \<and> c_should_stop c' \<and>
     (if c_login_pin_entered c then status = Ctrl_Waiting \<and> c_notif_pipe c' = 0 \<and> c_msg_queue c' = [] \<and> \<not> c_login_pin_entered c'
      else status = Ctrl_Ended)"
proof -
  let ?c = "chiaki_ctrl_stop c"
  have "0 < c_notif_pipe ?c" "c_recv_buf_size ?c = 0" "c_msg_queue ?c = c_msg_queue c" "c_login_pin ?c = c_login_pin c"
    "c_should_stop ?c" "c_login_pin_entered ?c = c_login_pin_entered c"
    using assms(2) by (simp_all add: chiaki_ctrl_stop_def chiaki_stop_pipe_stop_def)
  with ctrl_turn_woken [of ?c w env s] assms show ?thesis by fastforce
qed

theorem ctrl_stop_ends_iff_witness:
  "\<exists>c' outs. ctrl_run [Act_Stop, Act_Turn example_ctrl_env \<lparr>w_select = 1, w_ready = False, w_recv = None\<rparr>]
       (chiaki_ctrl_set_login_pin True [1, 2, 3, 4] example_ctrl, example_session) = Some (Ctrl_Waiting, (c', example_session), outs) \<and>
     c_should_stop c' \<and> c_notif_pipe c' = 0"
  using ctrl_stop_ends_iff [of "\<lparr>w_select = 1, w_ready = False, w_recv = None\<rparr>" "chiaki_ctrl_set_login_pin True [1, 2, 3, 4] example_ctrl" example_ctrl_env example_session]
  by (auto simp: chiaki_ctrl_set_login_pin_def small_payload_def example_ctrl_def)

text \<open>Woken without anything to do, the thread does nothing and leaves the pipe as it is.\<close>

lemma ctrl_turn_spins:
  assumes "0 < c_notif_pipe c" "0 \<le> w_select w" "c_recv_buf_size c = 0" "c_msg_queue c = []" "\<not> c_login_pin_entered c" "\<not> c_should_stop c"
  shows "ctrl_turn env w (c, s) = Some (Ctrl_Waiting, (c, s), [])"
  using assms by (simp add: ctrl_turn_def Let_def ctrl_canceled_def ctrl_loop_head_empty)

lemma ctrl_run_spins:
  assumes "0 < c_notif_pipe c" "c_recv_buf_size c = 0" "c_msg_queue c = []" "\<not> c_login_pin_entered c" "\<not> c_should_stop c"
    and "\<forall>w \<in> set ws. 0 \<le> w_select w"
  shows "ctrl_run (map (Act_Turn env) ws) (c, s) = Some (Ctrl_Waiting, (c, s), [])"
  using assms(6) by (induction ws) (simp_all add: ctrl_turn_spins [OF assms(1) _ assms(2-5)])

text \<open>
  A message that is sent while the thread wakes up starves the connection. The message is queued first and notified later; when the
  thread, woken by an earlier message, sends both in between, the notification stays in the pipe: from then on every turn finds the
  pipe ready and nothing to do, and whatever the console sends is never received.
\<close>

theorem ctrl_notify_race_starves:
  assumes "c_notif_pipe c = 0" "c_recv_buf_size c = 0" "c_msg_queue c = []" "\<not> c_login_pin_entered c" "\<not> c_should_stop c" "c_login_pin c = None"
    and "small_payload p" "small_payload q" "0 \<le> w_select w" "\<forall>w \<in> set ws. 0 \<le> w_select w"
  shows "\<exists>c' outs. ctrl_run [Act_Queue t p, Act_Notify, Act_Queue u q, Act_Turn env w, Act_Notify] (c, s) = Some (Ctrl_Waiting, (c', s), outs) \<and>
     c_msg_queue c' = [] \<and> ctrl_run (map (Act_Turn env) ws) (c', s) = Some (Ctrl_Waiting, (c', s), [])"
proof -
  let ?c = "ctrl_queue_message u q (ctrl_notify (ctrl_queue_message t p c))"
  have pre: "0 < c_notif_pipe ?c" "c_recv_buf_size ?c = 0" "\<forall>msg \<in> set (c_msg_queue ?c). small_payload (snd msg)" "small_payload (c_login_pin ?c)"
    "\<not> c_login_pin_entered ?c" "\<not> c_should_stop ?c" "c_msg_queue ?c \<noteq> []"
    using assms by (auto simp: ctrl_queue_message_def ctrl_notify_def chiaki_stop_pipe_stop_def small_payload_def)
  obtain n outs where t: "ctrl_turn env w (?c, s) = Some (Ctrl_Waiting, (?c\<lparr>c_counter_local := n, c_msg_queue := [], c_login_pin_entered := False,
      c_login_pin := c_login_pin ?c, c_notif_pipe := 0\<rparr>, s), outs)"
    using ctrl_turn_woken [OF pre(1) assms(9) pre(2-4), of env s] pre(5-7) by auto
  let ?c' = "ctrl_notify (?c\<lparr>c_counter_local := n, c_msg_queue := [], c_login_pin_entered := False, c_login_pin := c_login_pin ?c, c_notif_pipe := 0\<rparr>)"
  have "0 < c_notif_pipe ?c'" "c_recv_buf_size ?c' = 0" "c_msg_queue ?c' = []" "\<not> c_login_pin_entered ?c'" "\<not> c_should_stop ?c'"
    using pre(2,6) by (simp_all add: ctrl_notify_def chiaki_stop_pipe_stop_def)
  from ctrl_run_spins [OF this assms(10), of env s] t show ?thesis
    by (intro exI [of _ ?c'] exI [of _ outs]) (simp add: ctrl_notify_def)
qed

theorem ctrl_notify_race_starves_witness:
  "\<exists>c' outs. ctrl_run [Act_Queue CTRL_MESSAGE_TYPE_GOTO_BED None, Act_Notify, Act_Queue CTRL_MESSAGE_TYPE_KEYBOARD_CLOSE_REQ (Some [0, 0, 0, 0]),
        Act_Turn example_ctrl_env (ready []), Act_Notify] (example_ctrl, example_session) = Some (Ctrl_Waiting, (c', example_session), outs) \<and>
     ctrl_run (map (Act_Turn example_ctrl_env) (replicate 1000 (ready [1, 2, 3]))) (c', example_session) = Some (Ctrl_Waiting, (c', example_session), [])"
  using ctrl_notify_race_starves [of example_ctrl None "Some [0, 0, 0, 0]" "ready []" "replicate 1000 (ready [1, 2, 3])"
      CTRL_MESSAGE_TYPE_GOTO_BED CTRL_MESSAGE_TYPE_KEYBOARD_CLOSE_REQ example_ctrl_env example_session]
  by (auto simp: example_ctrl_def small_payload_def ready_def simp del: map_replicate)

section \<open>Which messages abort\<close>

lemma ctrl_sends_defined: "\<forall>msg \<in> set msgs. small_payload (snd msg) \<Longrightarrow> ctrl_sends env rp msgs c \<noteq> None"
proof (induction msgs arbitrary: c)
  case (Cons msg msgs)
  obtain err n outs where "ctrl_message_send env rp msg c = Some (err, c\<lparr>c_counter_local := n\<rparr>, outs)"
    using ctrl_message_send_defined Cons.prems by (metis list.set_intros(1))
  then show ?case using Cons.IH [of "c\<lparr>c_counter_local := n\<rparr>"] Cons.prems by auto
qed simp

text \<open>A keyboard message whose size does not fit its text.\<close>

definition keyboard_size_wrong :: "nat \<Rightarrow> nat \<Rightarrow> bytes \<Rightarrow> bool" where
  "keyboard_size_wrong fixed offset payload \<longleftrightarrow>
     length payload < fixed \<or> (\<forall>n. load32be payload offset = Some n \<longrightarrow> length payload \<noteq> fixed + unat n)"

lemma keyboard_text_None: "offset + 4 \<le> fixed \<Longrightarrow> keyboard_text env fixed offset payload = None \<longleftrightarrow> keyboard_size_wrong fixed offset payload"
proof -
  assume "offset + 4 \<le> fixed"
  then have "fixed \<le> length payload \<Longrightarrow> \<exists>n. load32be payload offset = Some n" by (intro load32be_defined) linarith
  then show ?thesis by (auto simp: keyboard_text_def keyboard_size_wrong_def)
qed

text \<open>The assertions on a message, by its type and its decrypted payload.\<close>

definition message_asserts :: "u16 \<Rightarrow> bytes \<Rightarrow> bool" where
  "message_asserts msg_type payload \<longleftrightarrow>
     msg_type = CTRL_MESSAGE_TYPE_KEYBOARD_OPEN \<and> keyboard_size_wrong 0x20 0x1c payload \<or>
     msg_type = CTRL_MESSAGE_TYPE_KEYBOARD_TEXT_CHANGE_RES \<and> keyboard_size_wrong 0x28 8 payload"

text \<open>Encryption and decryption do not read beyond the bytes they are given, whatever the size becomes as an \<open>int\<close>.\<close>

lemma nat_sint_of_nat_le: "nat (sint (of_nat sz :: u32)) \<le> sz"
proof -
  have e: "sint (of_nat sz :: u32) = signed_take_bit 31 (int sz)" by (simp add: signed_of_nat)
  show ?thesis
  proof (cases "bit (int sz) 31")
    case True
    then have "signed_take_bit 31 (int sz) < 0" by (simp add: signed_take_bit_negative_iff)
    then show ?thesis unfolding e nat_le_iff by linarith
  next
    case False
    then have "sint (of_nat sz :: u32) = take_bit 31 (int sz)" unfolding e by (rule signed_take_bit_eq_if_positive)
    also have "\<dots> \<le> int sz" by (simp add: take_bit_int_less_eq_self_iff)
    finally show ?thesis by simp
  qed
qed

lemma crypt_total: "sz \<le> length inp \<Longrightarrow> chiaki_rpcrypt_crypt cr rp counter inp sz encrypt \<noteq> None"
  using nat_sint_of_nat_le [of sz] by (auto simp: chiaki_rpcrypt_crypt_def load_bytes_def Let_def split: sum.splits)

lemma crypt_negative: "sz = 0xfffffff8 + k \<Longrightarrow> k < 8 \<Longrightarrow> chiaki_rpcrypt_crypt cr rp counter inp sz encrypt \<noteq> None"
proof -
  assume sz: "sz = 0xfffffff8 + k" "k < 8"
  have "k = 0 \<or> k = 1 \<or> k = 2 \<or> k = 3 \<or> k = 4 \<or> k = 5 \<or> k = 6 \<or> k = 7" using sz(2) by linarith
  then have "sint (of_nat sz :: u32) < 0" using sz(1) by (elim disjE) simp_all
  then show ?thesis using sz by (auto simp: chiaki_rpcrypt_crypt_def Let_def split: sum.splits)
qed

lemma ctrl_message_send_total: "ctrl_message_send env rp msg c \<noteq> None"
proof -
  have "ctrl_encrypt env rp c (snd msg) \<noteq> None"
    using crypt_total [OF order_refl, of "ce_crypto env" rp "c_counter_local c" "the (snd msg)" True]
    by (auto simp: ctrl_encrypt_def chiaki_rpcrypt_encrypt_def split: option.split Option.bind_split)
  then obtain x where "ctrl_encrypt env rp c (snd msg) = Some x" by blast
  then show ?thesis by (cases x; cases "fst x") (simp_all add: ctrl_message_send_def Let_def)
qed

lemma ctrl_flush_queue_total: "ctrl_flush_queue env rp msgs c \<noteq> None"
proof (induction msgs arbitrary: c)
  case (Cons msg msgs)
  obtain err c1 outs where "ctrl_message_send env rp msg c = Some (err, c1, outs)" using ctrl_message_send_total by (metis option.exhaust prod_cases3)
  with Cons.IH [of "c1\<lparr>c_msg_queue := msgs\<rparr>"] show ?case by auto
qed simp

lemma ctrl_canceled_total: "ctrl_canceled env st \<noteq> None"
proof -
  obtain c1 o1 where "ctrl_flush_queue env (s_rpcrypt (snd st)) (c_msg_queue (fst st)) (fst st) = Some (c1, o1)" using ctrl_flush_queue_total by (metis option.exhaust prod.exhaust)
  moreover obtain err c2 o2 where "ctrl_message_send env (s_rpcrypt (snd st)) (CTRL_MESSAGE_TYPE_LOGIN_PIN_REP, c_login_pin c1) c1 = Some (err, c2, o2)"
    using ctrl_message_send_total by (metis option.exhaust prod_cases3)
  ultimately show ?thesis by (auto simp: ctrl_canceled_def Let_def)
qed

text \<open>Receiving writes only into the free part of the buffer.\<close>

lemma ctrl_recv_total: "ctrl_wf st \<Longrightarrow> ctrl_recv r st \<noteq> None"
  by (auto simp: ctrl_recv_def ctrl_failed_def ctrl_wf_def store_bytes_def Let_def split: option.split)

lemma ctrl_canceled_wf: "ctrl_canceled env st = Some (go_on, st', outs) \<Longrightarrow> ctrl_wf st \<Longrightarrow> ctrl_wf st'"
  using ctrl_canceled_cases [of env "fst st" "snd st" go_on st' outs] by (cases st; cases st') (auto simp: ctrl_wf_def)

text \<open>A message is undefined exactly if it violates an assertion.\<close>

lemma ctrl_dispatch_None:
  assumes "ctrl_wf st"
  shows "ctrl_dispatch env msg_type payload st = None \<longleftrightarrow> message_asserts msg_type payload"
proof -
  obtain c s where st: "st = (c, s)" by (cases st)
  have "ctrl_dispatch env msg_type payload st \<noteq> None" if t: "msg_type = CTRL_MESSAGE_TYPE_SESSION_ID"
  proof -
    have "ctrl_message_received_session_id payload s \<noteq> None"
      using assms st by (auto simp: ctrl_message_received_session_id_def ctrl_wf_def Let_def store_bytes_def)
    then obtain s' o1 where "ctrl_message_received_session_id payload s = Some (s', o1)" by fastforce
    moreover have "ctrl_sends env (s_rpcrypt s') (ctrl_optional_features s') c \<noteq> None"
      by (rule ctrl_sends_defined) (auto simp: ctrl_optional_features_def small_payload_def)
    ultimately show ?thesis using t st by (auto simp: ctrl_dispatch_def ctrl_enable_optional_features_def)
  qed
  moreover have "ctrl_dispatch env msg_type payload st \<noteq> None" if t: "msg_type = CTRL_MESSAGE_TYPE_HEARTBEAT_REQ"
    using ctrl_message_send_total [of env "s_rpcrypt s" "(CTRL_MESSAGE_TYPE_HEARTBEAT_REP, None)" c] t st by (auto simp: ctrl_dispatch_def)
  moreover have "ctrl_dispatch env msg_type payload st = None \<longleftrightarrow> message_asserts msg_type payload"
    if t: "msg_type \<noteq> CTRL_MESSAGE_TYPE_SESSION_ID" "msg_type \<noteq> CTRL_MESSAGE_TYPE_HEARTBEAT_REQ"
    unfolding ctrl_dispatch_def if_not_P [OF t(1)] if_not_P [OF t(2)] message_asserts_def
    by (auto simp: ctrl_message_received_keyboard_open_def ctrl_message_received_keyboard_text_change_def keyboard_text_None)
  ultimately show ?thesis
    by (cases "msg_type = CTRL_MESSAGE_TYPE_SESSION_ID \<or> msg_type = CTRL_MESSAGE_TYPE_HEARTBEAT_REQ") (auto simp: message_asserts_def)
qed

text \<open>
  C39. A message of the console aborts the program in exactly two cases: it opens the keyboard or changes its text and its size is not
  that of its fixed part and its text, which the code asserts.
\<close>

theorem ctrl_message_aborts_iff:
  assumes "ctrl_wf st"
  shows "ctrl_dispatch env msg_type payload st = None \<longleftrightarrow>
     msg_type = CTRL_MESSAGE_TYPE_KEYBOARD_OPEN \<and> keyboard_size_wrong 0x20 0x1c payload \<or>
     msg_type = CTRL_MESSAGE_TYPE_KEYBOARD_TEXT_CHANGE_RES \<and> keyboard_size_wrong 0x28 8 payload"
  using ctrl_dispatch_None [OF assms] unfolding message_asserts_def .

theorem ctrl_message_aborts_iff_witness:
  "ctrl_dispatch example_ctrl_env CTRL_MESSAGE_TYPE_KEYBOARD_OPEN [1, 2, 3] (example_ctrl, example_session) = None"
proof -
  have "ctrl_wf (example_ctrl, example_session)" by (simp add: ctrl_wf_def example_ctrl_def example_session_def)
  from ctrl_message_aborts_iff [OF this, of example_ctrl_env CTRL_MESSAGE_TYPE_KEYBOARD_OPEN "[1, 2, 3]"] show ?thesis
    by (simp add: keyboard_size_wrong_def)
qed

section \<open>The type of the state\<close>

text \<open>The decrypted payload of a message of \<open>n\<close> bytes, if it can be decrypted.\<close>

definition message_payload :: "ctrl_env \<Rightarrow> ctrl_state \<Rightarrow> bytes \<Rightarrow> nat \<Rightarrow> bytes option" where
  "message_payload env st enc n =
     (if n = 0 then Some []
      else case chiaki_rpcrypt_decrypt (ce_crypto env) (s_rpcrypt (snd st)) (c_counter_remote (fst st)) enc n of
        Some (Inr p) \<Rightarrow> Some p
      | _ \<Rightarrow> None)"

text \<open>The complete message at the front of the buffer violates an assertion; the loop comes to such a message.\<close>

definition front_asserts :: "ctrl_env \<Rightarrow> ctrl_state \<Rightarrow> bool" where
  "front_asserts env st \<longleftrightarrow> 8 \<le> c_recv_buf_size (fst st) \<and>
     (\<exists>n t p. load32be (c_recv_buf (fst st)) 0 = Some n \<and> unat (8 + n) \<le> c_recv_buf_size (fst st) \<and> load16be (c_recv_buf (fst st)) 4 = Some t \<and>
        message_payload env st (drop 8 (c_recv_buf (fst st))) (unat n) = Some p \<and> message_asserts t p)"

definition loop_asserts :: "ctrl_env \<Rightarrow> ctrl_state \<Rightarrow> bool" where
  "loop_asserts env st \<longleftrightarrow> (\<exists>k st' outs. ctrl_process k env st = Some (None, st', outs) \<and> front_asserts env st')"

text \<open>What a wakeup does before the loop over the messages.\<close>

definition ctrl_woken :: "ctrl_env \<Rightarrow> ctrl_wakeup \<Rightarrow> ctrl_state \<Rightarrow> (bool \<times> ctrl_state \<times> ctrl_out list) option" where
  "ctrl_woken env w st =
     (let err = chiaki_stop_pipe_select_single (c_notif_pipe (fst st)) (w_select w) (Some (w_ready w)) in
      if err = CHIAKI_ERR_CANCELED then ctrl_canceled env st
      else if err = CHIAKI_ERR_SUCCESS then ctrl_recv (w_recv w) st
      else Some (False, st, []))"

text \<open>A run comes to a turn that reaches a message that violates an assertion.\<close>

definition run_asserts :: "ctrl_action list \<Rightarrow> ctrl_state \<Rightarrow> bool" where
  "run_asserts as st \<longleftrightarrow>
     (\<exists>as1 env w as2 st1 outs1 st2 outs2. as = as1 @ Act_Turn env w # as2 \<and> ctrl_run as1 st = Some (Ctrl_Waiting, st1, outs1) \<and>
        ctrl_woken env w st1 = Some (True, st2, outs2) \<and> loop_asserts env st2)"

lemma ctrl_woken_total: "ctrl_wf st \<Longrightarrow> ctrl_woken env w st \<noteq> None"
  using ctrl_canceled_total [of env st] ctrl_recv_total [of st "w_recv w"] by (simp add: ctrl_woken_def Let_def del: not_None_eq)

lemma ctrl_woken_wf: "ctrl_woken env w st = Some (go_on, st', outs) \<Longrightarrow> ctrl_wf st \<Longrightarrow> ctrl_wf st'"
  by (cases st) (auto simp: ctrl_woken_def Let_def dest: ctrl_canceled_wf ctrl_recv_wf split: if_split_asm)

lemma ctrl_turn_woken_head:
  "ctrl_turn env w st = do {
     (go_on, st, outs) \<leftarrow> ctrl_woken env w st;
     if \<not> go_on then Some (Ctrl_Ended, st, outs)
     else do {
       (status, st, outs') \<leftarrow> ctrl_loop_head env st;
       Some (status, st, outs @ outs') } }"
  by (auto simp: ctrl_turn_def ctrl_woken_def Let_def)

lemma ctrl_message_received_None:
  assumes "ctrl_wf st" "n = 0 \<or> n \<le> length enc \<or> n = 0xfffffff8 + k \<and> k < 8"
  shows "ctrl_message_received env t enc n st = None \<longleftrightarrow> (\<exists>p. message_payload env st enc n = Some p \<and> message_asserts t p)"
proof (cases "n = 0")
  case True
  then show ?thesis using ctrl_dispatch_None [OF assms(1)] by (simp add: ctrl_message_received_def message_payload_def)
next
  case False
  let ?st = "((fst st)\<lparr>c_counter_remote := c_counter_remote (fst st) + 1\<rparr>, snd st)"
  have "ctrl_wf ?st" using assms(1) by (simp add: ctrl_wf_def)
  note dispatch = ctrl_dispatch_None [OF this, of env t]
  have "chiaki_rpcrypt_decrypt (ce_crypto env) (s_rpcrypt (snd st)) (c_counter_remote (fst st)) enc n \<noteq> None"
    using assms(2) False crypt_total crypt_negative unfolding chiaki_rpcrypt_decrypt_def by metis
  then obtain r where "chiaki_rpcrypt_decrypt (ce_crypto env) (s_rpcrypt (snd st)) (c_counter_remote (fst st)) enc n = Some r" by blast
  then show ?thesis
    using False dispatch by (cases r) (simp_all add: ctrl_message_received_def message_payload_def Let_def)
qed

text \<open>The loop over the messages is undefined exactly if it comes to such a message.\<close>

lemma front_received:
  assumes "ctrl_wf st" "8 \<le> c_recv_buf_size (fst st)" "load32be (c_recv_buf (fst st)) 0 = Some n" "unat (8 + n) \<le> c_recv_buf_size (fst st)"
    and "load16be (c_recv_buf (fst st)) 4 = Some t"
  shows "ctrl_message_received env t (drop 8 (c_recv_buf (fst st))) (unat n) st = None \<longleftrightarrow> front_asserts env st"
proof -
  let ?enc = "drop 8 (c_recv_buf (fst st))"
  have front: "front_asserts env st \<longleftrightarrow> (\<exists>p. message_payload env st ?enc (unat n) = Some p \<and> message_asserts t p)"
    using assms(2-5) by (simp add: front_asserts_def)
  have b: "unat n < 0x100000000" using unat_bound [of n] by simp
  have "unat n \<le> length ?enc \<or> unat n = 0xfffffff8 + (unat n - 0xfffffff8) \<and> unat n - 0xfffffff8 < 8"
  proof (cases "unat n < 0xfffffff8")
    case True
    then have "unat (8 + n) = 8 + unat n" by (simp add: unat_word_ariths)
    then show ?thesis using assms(1,4) by (simp add: ctrl_wf_def)
  next
    case False
    then show ?thesis using b by linarith
  qed
  then have "unat n = 0 \<or> unat n \<le> length ?enc \<or> unat n = 0xfffffff8 + (unat n - 0xfffffff8) \<and> unat n - 0xfffffff8 < 8" by blast
  from ctrl_message_received_None [OF assms(1) this, of env t] front show ?thesis by blast
qed

lemma ctrl_process_step:
  assumes "8 \<le> c_recv_buf_size c" "load32be (c_recv_buf c) 0 = Some n" "unat (8 + n) \<le> c_recv_buf_size c" "load16be (c_recv_buf c) 4 = Some t"
    and "ctrl_message_received env t (drop 8 (c_recv_buf c)) (unat n) (c, s) = Some ((c1, s1), o1)"
    and "store_bytes (c_recv_buf c1) 0 (take (c_recv_buf_size c1 - unat (8 + n)) (drop (unat (8 + n)) (c_recv_buf c1))) = Some buf"
  shows "ctrl_process (Suc fuel) env (c, s) =
    map_option (\<lambda>(r, st, o2). (r, st, o1 @ o2)) (ctrl_process fuel env (set_buf buf (c_recv_buf_size c1 - unat (8 + n)) c1, s1))"
proof -
  have "(c_recv_buf_size c < unat (8 + n)) = False" using assms(3) by simp
  then show ?thesis
    by (simp only: ctrl_process.simps(2) Let_def fst_conv assms(1,2,4-6) not_True_eq_False if_False Option.bind.simps prod.case map_conv_bind_option comp_def)
      (simp only: split_def)
qed

lemma ctrl_process_None: "ctrl_process fuel env st = None \<Longrightarrow> ctrl_wf st \<Longrightarrow> loop_asserts env st"
proof (induction fuel arbitrary: st)
  case (Suc fuel)
  obtain c s where st: "st = (c, s)" by (cases st)
  have l: "length (c_recv_buf c) = 512" using Suc.prems(2) st by (simp add: ctrl_wf_def)
  obtain n where n: "load32be (c_recv_buf c) 0 = Some n" using load32be_defined [of 0 "c_recv_buf c"] l by auto
  obtain t where t: "load16be (c_recv_buf c) 4 = Some t" using load16be_defined [of 4 "c_recv_buf c"] l by auto
  have g: "8 \<le> c_recv_buf_size c" "unat (8 + n) \<le> c_recv_buf_size c"
    using Suc.prems(1) st n by (auto simp: Let_def not_le split: if_split_asm)
  show ?case
  proof (cases "ctrl_message_received env t (drop 8 (c_recv_buf c)) (unat n) (c, s)")
    case None
    then have "front_asserts env st" using front_received [of st n t env] Suc.prems(2) g n t st by simp
    then show ?thesis unfolding loop_asserts_def by (intro exI [of _ 0]) simp
  next
    case (Some x)
    obtain c1 s1 o1 where x: "x = ((c1, s1), o1)" by (cases x) auto
    have w1: "ctrl_wf (c1, s1)" using ctrl_received_wf Some Suc.prems(2) st x by blast
    let ?k = "c_recv_buf_size c1 - unat (8 + n)"
    obtain buf where b: "store_bytes (c_recv_buf c1) 0 (take ?k (drop (unat (8 + n)) (c_recv_buf c1))) = Some buf"
      using w1 by (simp add: store_bytes_def ctrl_wf_def min_le_iff_disj)
    have w: "ctrl_wf (set_buf buf ?k c1, s1)" by (rule set_buf_wf [OF w1 b]) (use w1 in \<open>auto simp: ctrl_wf_def\<close>)
    note step = ctrl_process_step [OF g(1) n g(2) t Some [unfolded x] b]
    have "ctrl_process fuel env (set_buf buf ?k c1, s1) = None" using Suc.prems(1) unfolding st step by simp
    then obtain k st' o2 where k: "ctrl_process k env (set_buf buf ?k c1, s1) = Some (None, st', o2)" "front_asserts env st'"
      using Suc.IH [OF _ w] unfolding loop_asserts_def by blast
    have "ctrl_process (Suc k) env st = Some (None, st', o1 @ o2)" unfolding st step k(1) by simp
    then show ?thesis using k(2) unfolding loop_asserts_def by blast
  qed
qed simp

lemma front_asserts_None:
  assumes "front_asserts env st" "ctrl_wf st"
  shows "ctrl_process (Suc k) env st = None"
proof -
  obtain n t where a: "8 \<le> c_recv_buf_size (fst st)" "load32be (c_recv_buf (fst st)) 0 = Some n" "unat (8 + n) \<le> c_recv_buf_size (fst st)"
      "load16be (c_recv_buf (fst st)) 4 = Some t"
    using assms(1) unfolding front_asserts_def by blast
  have "ctrl_message_received env t (drop 8 (c_recv_buf (fst st))) (unat n) st = None" using front_received [OF assms(2) a] assms(1) by blast
  then show ?thesis using a by (simp add: Let_def)
qed

lemma front_asserts_moves: "front_asserts env st \<Longrightarrow> \<not> stands_still (fst st)"
  using decrypt_wrapped [of "ce_crypto env" "s_rpcrypt (snd st)" "c_counter_remote (fst st)" "drop 8 (c_recv_buf (fst st))"]
  by (auto simp: front_asserts_def stands_still_def message_payload_def)

lemma ctrl_loop_head_None:
  assumes "ctrl_wf st"
  shows "ctrl_loop_head env st = None \<longleftrightarrow> loop_asserts env st"
proof
  assume "ctrl_loop_head env st = None"
  then have "ctrl_process (c_recv_buf_size (fst st) + 1) env st = None"
    by (auto simp: ctrl_loop_head_def split: Option.bind_split_asm simp del: ctrl_process.simps)
  then show "loop_asserts env st" using ctrl_process_None assms by blast
next
  assume "loop_asserts env st"
  then obtain k st' outs where k: "ctrl_process k env st = Some (None, st', outs)" "front_asserts env st'" unfolding loop_asserts_def by blast
  have "ctrl_wf st'" using ctrl_process_wf k(1) assms by blast
  have "k \<le> c_recv_buf_size (fst st)"
    using ctrl_process_stops [OF k(1) _ assms] front_asserts_moves [OF k(2)] by fastforce
  then obtain j where "c_recv_buf_size (fst st) + 1 = k + Suc j" by (metis Suc_eq_plus1 add_Suc_right le_iff_add)
  then have "ctrl_process (c_recv_buf_size (fst st) + 1) env st = None"
    using ctrl_process_add [OF k(1), of "Suc j"] front_asserts_None [OF k(2) \<open>ctrl_wf st'\<close>, of j] by (simp del: ctrl_process.simps)
  then show "ctrl_loop_head env st = None" by (simp add: ctrl_loop_head_def del: ctrl_process.simps)
qed

lemma ctrl_turn_None:
  assumes "ctrl_wf st"
  shows "ctrl_turn env w st = None \<longleftrightarrow> (\<exists>st' outs. ctrl_woken env w st = Some (True, st', outs) \<and> loop_asserts env st')"
proof -
  obtain go_on st1 o1 where r: "ctrl_woken env w st = Some (go_on, st1, o1)" using ctrl_woken_total [OF assms] by (metis option.exhaust prod_cases3)
  have "ctrl_loop_head env st1 = None \<longleftrightarrow> loop_asserts env st1" using ctrl_loop_head_None ctrl_woken_wf [OF r assms] by blast
  then show ?thesis unfolding ctrl_turn_woken_head r by (cases go_on) (auto split: Option.bind_split)
qed

lemma run_asserts_Cons:
  "run_asserts (a # as) st \<longleftrightarrow>
     (\<exists>env w st2 outs2. a = Act_Turn env w \<and> ctrl_woken env w st = Some (True, st2, outs2) \<and> loop_asserts env st2) \<or>
     (\<exists>st1 outs1. ctrl_act a st = Some (Ctrl_Waiting, st1, outs1) \<and> run_asserts as st1)" (is "?l \<longleftrightarrow> ?now \<or> ?later")
proof
  assume ?l
  then obtain as1 env w as2 st1 outs1 st2 outs2 where r: "a # as = as1 @ Act_Turn env w # as2" "ctrl_run as1 st = Some (Ctrl_Waiting, st1, outs1)"
      "ctrl_woken env w st1 = Some (True, st2, outs2)" "loop_asserts env st2"
    unfolding run_asserts_def by blast
  show "?now \<or> ?later"
  proof (cases as1)
    case Nil
    then have "a = Act_Turn env w" "st1 = st" using r(1,2) by auto
    then have ?now using r(3,4) by blast
    then show ?thesis by blast
  next
    case (Cons b bs)
    then obtain st0 o0 o1 where "ctrl_act a st = Some (Ctrl_Waiting, st0, o0)" "ctrl_run bs st0 = Some (Ctrl_Waiting, st1, o1)"
      using r(1,2) by (auto split: Option.bind_split_asm if_split_asm)
    moreover have "b = a" "as = bs @ Act_Turn env w # as2" using r(1) Cons by simp_all
    ultimately have ?later using r(3,4) unfolding run_asserts_def by blast
    then show ?thesis by blast
  qed
next
  assume "?now \<or> ?later"
  then show ?l
  proof
    assume ?now
    then show ?l unfolding run_asserts_def by (metis append_Nil ctrl_run.simps(1))
  next
    assume ?later
    then obtain st0 o0 as1 env w as2 st1 outs1 st2 outs2 where r: "ctrl_act a st = Some (Ctrl_Waiting, st0, o0)" "as = as1 @ Act_Turn env w # as2"
        "ctrl_run as1 st0 = Some (Ctrl_Waiting, st1, outs1)" "ctrl_woken env w st1 = Some (True, st2, outs2)" "loop_asserts env st2"
      unfolding run_asserts_def by blast
    have "ctrl_run (a # as1) st = Some (Ctrl_Waiting, st1, o0 @ outs1)" using r(1,3) by simp
    then show ?l unfolding run_asserts_def using r(2,4,5) by (metis append_Cons)
  qed
qed

lemma ctrl_act_None:
  "ctrl_wf st \<Longrightarrow> ctrl_act a st = None \<longleftrightarrow> (\<exists>env w st2 outs2. a = Act_Turn env w \<and> ctrl_woken env w st = Some (True, st2, outs2) \<and> loop_asserts env st2)"
  using ctrl_turn_None by (cases st; cases a) simp_all

lemma ctrl_run_None: "ctrl_wf st \<Longrightarrow> ctrl_run as st = None \<longleftrightarrow> run_asserts as st"
proof (induction as arbitrary: st)
  case Nil
  then show ?case by (simp add: run_asserts_def)
next
  case (Cons a as)
  note now = ctrl_act_None [OF Cons.prems, of a]
  show ?case
  proof (cases "ctrl_act a st")
    case None
    then show ?thesis using now unfolding run_asserts_Cons by simp
  next
    case (Some x)
    obtain status st1 o1 where x: "x = (status, st1, o1)" by (cases x)
    have "ctrl_run as st1 = None \<longleftrightarrow> run_asserts as st1" using Cons.IH ctrl_act_wf [OF Some [unfolded x] Cons.prems] .
    then show ?thesis using Some x now unfolding run_asserts_Cons by (auto split: Option.bind_split)
  qed
qed

lemma ctrl_run_wf: "ctrl_run as st = Some (status, st', outs) \<Longrightarrow> ctrl_wf st \<Longrightarrow> ctrl_wf st'"
proof (induction as arbitrary: st outs)
  case (Cons a as)
  obtain status1 st1 o1 where a: "ctrl_act a st = Some (status1, st1, o1)" using Cons.prems(1) by (auto split: Option.bind_split_asm)
  have w: "ctrl_wf st1" using ctrl_act_wf [OF a Cons.prems(2)] .
  then show ?case
    using Cons.IH [OF _ w] Cons.prems(1) a by (cases "status1 = Ctrl_Waiting") (auto split: Option.bind_split_asm)
qed simp



end
