(* ===== verification/Ctrl_Connect.thy ===== *)
theory Ctrl_Connect
  imports Ctrl_Ends Http Base64 Hex_Utils
begin

text \<open>
  \<open>lib/src/ctrl.c\<close>: how the control connection is established, up to the first wait of its thread. Arguments are what the platform
  calls return and what the other threads do while the thread does not hold its mutex.
\<close>

section \<open>The request\<close>

text \<open>
  The fields that are sent encrypted, each with its length and the size of its buffer for base 64: the registration key, the device id, the
  name of the system with its terminating zero, the bitrate and the type of the stream, least significant byte first.
\<close>

definition ctrl_have_bitrate :: "session \<Rightarrow> bool" where
  "ctrl_have_bitrate s \<longleftrightarrow> \<not> s_target s < CHIAKI_TARGET_PS4_10"

definition streaming_type :: "ChiakiCodec \<Rightarrow> u8" where
  "streaming_type codec = (case codec of CHIAKI_CODEC_H265 \<Rightarrow> 2 | CHIAKI_CODEC_H265_HDR \<Rightarrow> 3 | _ \<Rightarrow> 1)"

definition ctrl_request_data :: "session \<Rightarrow> (bytes \<times> nat \<times> nat) list" where
  "ctrl_request_data s =
     [(s_regist_key s, CHIAKI_RPCRYPT_KEY_SIZE, 32), (s_did s, CHIAKI_RP_DID_SIZE, 64), (ascii ''Win10.0.0'' @ [0], 10, 256)] @
     (if ctrl_have_bitrate s then [([0, 0, 0, 0], 4, 256)] else []) @
     (if chiaki_target_is_ps5 (s_target s) then [([streaming_type (vp_codec (s_video_profile s)), 0, 0, 0], 4, 256)] else [])"

definition ctrl_request_field :: "rp_crypto \<Rightarrow> rpcrypt \<Rightarrow> bytes \<times> nat \<times> nat \<Rightarrow> ctrl \<Rightarrow> ((ChiakiErrorCode + bytes) \<times> ctrl) option" where
  "ctrl_request_field cr rp field c = (case field of (data, sz, b64_size) \<Rightarrow> do {
     r \<leftarrow> chiaki_rpcrypt_encrypt cr rp (c_counter_local c) data sz;
     let c = c\<lparr>c_counter_local := c_counter_local c + 1\<rparr>;
     Some (case r of
       Inl err \<Rightarrow> (Inl err, c)
     | Inr enc \<Rightarrow> (case chiaki_base64_encode enc b64_size of (err, b64) \<Rightarrow>
         (if err \<noteq> CHIAKI_ERR_SUCCESS then Inl err else Inr (c_string b64 0), c))) })"

fun ctrl_request_fields :: "rp_crypto \<Rightarrow> rpcrypt \<Rightarrow> (bytes \<times> nat \<times> nat) list \<Rightarrow> ctrl \<Rightarrow> ((ChiakiErrorCode + bytes list) \<times> ctrl) option" where
  "ctrl_request_fields cr rp [] c = Some (Inr [], c)"
| "ctrl_request_fields cr rp (field # fs) c = do {
     (r, c) \<leftarrow> ctrl_request_field cr rp field c;
     case r of
       Inl err \<Rightarrow> Some (Inl err, c)
     | Inr txt \<Rightarrow> do {
         (r, c) \<leftarrow> ctrl_request_fields cr rp fs c;
         Some (map_sum id (\<lambda>txts. txt # txts) r, c) } }"

definition ctrl_path :: "ChiakiTarget \<Rightarrow> string" where
  "ctrl_path target =
     (if target = CHIAKI_TARGET_PS4_8 \<or> target = CHIAKI_TARGET_PS4_9 then ''/sce/rp/session/ctrl''
      else if chiaki_target_is_ps5 target then ''/sie/ps5/rp/sess/ctrl''
      else ''/sie/ps4/rp/sess/ctrl'')"

text \<open>\<open>txts\<close>: the fields in base 64, in their order.\<close>

definition ctrl_request :: "session \<Rightarrow> bytes list \<Rightarrow> bytes" where
  "ctrl_request s txts =
     ascii ''GET '' @ ascii (ctrl_path (s_target s)) @ ascii '' HTTP/1.1'' @ [CR, LF] @
     ascii ''Host: '' @ s_hostname s @ ascii '':9295'' @ [CR, LF] @
     ascii ''User-Agent: remoteplay Windows'' @ [CR, LF] @
     ascii ''Connection: keep-alive'' @ [CR, LF] @
     ascii ''Content-Length: 0'' @ [CR, LF] @
     ascii ''RP-Auth: '' @ txts ! 0 @ [CR, LF] @
     ascii ''RP-Version: '' @ (case chiaki_rp_version_string (s_target s) of None \<Rightarrow> [] | Some v \<Rightarrow> ascii v) @ [CR, LF] @
     ascii ''RP-Did: '' @ txts ! 1 @ [CR, LF] @
     ascii ''RP-ControllerType: 3'' @ [CR, LF] @
     ascii ''RP-ClientType: 11'' @ [CR, LF] @
     ascii ''RP-OSType: '' @ txts ! 2 @ [CR, LF] @
     ascii ''RP-ConPath: 1'' @ [CR, LF] @
     (if ctrl_have_bitrate s then ascii ''RP-StartBitrate: '' @ txts ! 3 @ [CR, LF] else []) @
     (if chiaki_target_is_ps5 (s_target s) then ascii ''RP-StreamingType: '' @ last txts @ [CR, LF] else []) @
     [CR, LF]"

section \<open>The response\<close>

text \<open>\<open>success\<close>, \<open>server_type_valid\<close> and \<open>rp_server_type\<close>. The result of the decoder is not looked at, only the size.\<close>

fun parse_server_type :: "(bytes \<times> bytes) list \<Rightarrow> bool \<times> bytes \<Rightarrow> (bool \<times> bytes) option" where
  "parse_server_type [] r = Some r"
| "parse_server_type ((key, val) # headers) (valid, server_type) =
     (if key = ascii ''RP-Server-Type'' then do {
        (err, out, len) \<leftarrow> chiaki_base64_decode (val @ [0]) 0x10;
        parse_server_type headers (len = 0x10, out @ drop (length out) server_type) }
      else parse_server_type headers (valid, server_type))"

definition parse_ctrl_response :: "int \<Rightarrow> (bytes \<times> bytes) list \<Rightarrow> (bool \<times> bool \<times> bytes) option" where
  "parse_ctrl_response code headers =
     (if code \<noteq> 200 then Some (False, False, replicate 0x10 0)
      else map_option (Pair True) (parse_server_type headers (False, replicate 0x10 0)))"

text \<open>A regular PS4 does not do 1080p, and only a PS5 does other codecs than H264.\<close>

definition ctrl_downgrade :: "u8 \<Rightarrow> session \<Rightarrow> session" where
  "ctrl_downgrade server_type s =
     (let s = (if server_type = 0 \<and> s_video_profile_auto_downgrade s \<and> vp_height (s_video_profile s) = 1080
               then s\<lparr>s_video_profile := chiaki_connect_video_profile_preset CHIAKI_VIDEO_RESOLUTION_PRESET_720p
                 (if vp_max_fps (s_video_profile s) = 60 then CHIAKI_VIDEO_FPS_PRESET_60 else CHIAKI_VIDEO_FPS_PRESET_30)\<rparr>
               else s)
      in if (server_type = 0 \<or> server_type = 1) \<and> vp_codec (s_video_profile s) \<noteq> CHIAKI_CODEC_H264
         then s\<lparr>s_video_profile := (s_video_profile s)\<lparr>vp_codec := CHIAKI_CODEC_H264\<rparr>\<rparr>
         else s)"

definition ctrl_server_type :: "rp_crypto \<Rightarrow> bool \<Rightarrow> bytes \<Rightarrow> ctrl_state \<Rightarrow> ctrl_state option" where
  "ctrl_server_type cr valid server_type st =
     (case st of (c, s) \<Rightarrow>
        if \<not> valid then Some (c, s)
        else do {
          r \<leftarrow> chiaki_rpcrypt_decrypt cr (s_rpcrypt s) (c_counter_remote c) server_type 0x10;
          let c = c\<lparr>c_counter_remote := c_counter_remote c + 1\<rparr>;
          Some (case r of Inl err \<Rightarrow> (c, s) | Inr t \<Rightarrow> (c, ctrl_downgrade (hd t) s)) })"

section \<open>Connecting\<close>

text \<open>
  \<open>cn_alloc\<close>: the address is allocated; \<open>cn_socket\<close>: there is a socket; \<open>cn_during\<close>: what the other threads do while it connects;
  \<open>cn_connect_r\<close> to \<open>cn_sockerr\<close>: the arguments of \<open>chiaki_stop_pipe_connect\<close>; \<open>cn_send\<close>: how many bytes of the request are sent, if it does
  not fail; \<open>cn_inputs\<close>: what the waits and \<open>recv\<close> return; \<open>cn_mallocs\<close>: the allocations of headers that succeed.
\<close>

record connect_env =
  cn_alloc :: bool
  cn_family :: sa_family
  cn_socket :: bool
  cn_during :: "ctrl_state \<Rightarrow> ctrl_state"
  cn_connect_r :: "errno option"
  cn_select :: int
  cn_ready :: bool
  cn_peer_r :: "errno option"
  cn_sockerr :: "errno option"
  cn_send :: "nat option"
  cn_inputs :: "(ChiakiErrorCode \<times> bytes option) list"
  cn_mallocs :: nat

text \<open>The function waits for the console, has failed and returns a code, or has assigned the socket and succeeded.\<close>

datatype connect_status = Connect_Waiting | Connect_Failed ChiakiErrorCode | Connect_Done

datatype connect_out = Conn_Out ctrl_out | Conn_Close

abbreviation "CTRL_HTTP_BUF_SIZE \<equiv> 512 :: nat"

definition ctrl_connect_response :: "ctrl_env \<Rightarrow> connect_env \<Rightarrow> ctrl_state \<Rightarrow> (connect_status \<times> ctrl_state \<times> connect_out list) option" where
  "ctrl_connect_response env cn st = do {
     r \<leftarrow> chiaki_recv_http_header True CTRL_HTTP_BUF_SIZE (cn_inputs cn);
     case r of
       Http_Waiting received \<Rightarrow> Some (Connect_Waiting, st, [])
     | Http_Done err received header_size \<Rightarrow>
         if err \<noteq> CHIAKI_ERR_SUCCESS then Some (Connect_Failed err, st, [Conn_Close])
         else case chiaki_http_response_parse (cn_mallocs cn) (take header_size received) of (err, code, buf, header) \<Rightarrow>
           if err \<noteq> CHIAKI_ERR_SUCCESS then Some (Connect_Failed err, st, [Conn_Close])
           else do {
             (success, server_type_valid, server_type) \<leftarrow> parse_ctrl_response code (header_strings buf header);
             if \<not> success then Some (Connect_Failed CHIAKI_ERR_UNKNOWN, st, [Conn_Close])
             else do {
               (c, s) \<leftarrow> ctrl_server_type (ce_crypto env) server_type_valid server_type st;
               recv_buf \<leftarrow> store_bytes (c_recv_buf c) 0 (drop header_size received);
               Some (Connect_Done, (c\<lparr>c_recv_buf := recv_buf, c_recv_buf_size := length received - header_size\<rparr>, s), []) } } }"

definition ctrl_connect_request :: "ctrl_env \<Rightarrow> connect_env \<Rightarrow> ctrl_state \<Rightarrow> (connect_status \<times> ctrl_state \<times> connect_out list) option" where
  "ctrl_connect_request env cn st = (case st of (c, s) \<Rightarrow> do {
     (r, c) \<leftarrow> ctrl_request_fields (ce_crypto env) (s_rpcrypt s) (ctrl_request_data s) c;
     case r of
       Inl err \<Rightarrow> Some (Connect_Failed err, (c, s), [Conn_Close])
     | Inr txts \<Rightarrow>
         let request = ctrl_request s txts in
         if length request \<ge> CTRL_HTTP_BUF_SIZE then Some (Connect_Failed CHIAKI_ERR_SUCCESS, (c, s), [Conn_Close])
         else case cn_send cn of
           None \<Rightarrow> Some (Connect_Failed CHIAKI_ERR_SUCCESS, (c, s), [Conn_Close])
         | Some n \<Rightarrow> do {
             (status, st, outs) \<leftarrow> ctrl_connect_response env cn (c, s);
             Some (status, st, Conn_Out (Ctrl_Wire (take n request)) # outs) } })"

definition ctrl_connect :: "ctrl_env \<Rightarrow> connect_env \<Rightarrow> ctrl_state \<Rightarrow> (connect_status \<times> ctrl_state \<times> connect_out list) option" where
  "ctrl_connect env cn st =
     (let c = (fst st)\<lparr>c_counter_local := 0, c_counter_remote := 0\<rparr>; s = snd st in
      if \<not> cn_alloc cn then Some (Connect_Failed CHIAKI_ERR_MEMORY, (c, s), [])
      else if cn_family cn \<noteq> AF_INET \<and> cn_family cn \<noteq> AF_INET6 then Some (Connect_Failed CHIAKI_ERR_INVALID_DATA, (c, s), [])
      else if \<not> cn_socket cn then
        (case ctrl_failed CHIAKI_QUIT_REASON_CTRL_UNKNOWN s of (s, outs) \<Rightarrow> Some (Connect_Failed CHIAKI_ERR_NETWORK, (c, s), map Conn_Out outs))
      else case cn_during cn (c, s) of (c, s) \<Rightarrow>
        let err = chiaki_stop_pipe_connect (c_notif_pipe c) (cn_connect_r cn) (cn_select cn) (cn_ready cn) (cn_peer_r cn) (cn_sockerr cn) in
        if err = CHIAKI_ERR_CANCELED then Some (Connect_Failed err, (c, s), [Conn_Close, Conn_Close])
        else if err \<noteq> CHIAKI_ERR_SUCCESS then
          (case ctrl_failed (if err = CHIAKI_ERR_CONNECTION_REFUSED then CHIAKI_QUIT_REASON_CTRL_CONNECTION_REFUSED else CHIAKI_QUIT_REASON_CTRL_UNKNOWN) s of
             (s, outs) \<Rightarrow> Some (Connect_Failed err, (c, s), map Conn_Out outs @ [Conn_Close]))
        else ctrl_connect_request env cn (c, s))"

text \<open>
  The beginning of \<open>ctrl_thread_func\<close>, to its first wait. \<open>Thread_Running\<close> has whether the socket has been assigned.
\<close>

datatype thread_status = Thread_Connecting | Thread_Ended | Thread_Running bool ctrl_status

definition ctrl_thread_start :: "ctrl_env \<Rightarrow> connect_env \<Rightarrow> ctrl_state \<Rightarrow> (thread_status \<times> ctrl_state \<times> connect_out list) option" where
  "ctrl_thread_start env cn st = do {
     (status, st, outs) \<leftarrow> ctrl_connect env cn st;
     case status of
       Connect_Waiting \<Rightarrow> Some (Thread_Connecting, st, outs)
     | _ \<Rightarrow>
         let err = (case status of Connect_Failed err \<Rightarrow> err | _ \<Rightarrow> CHIAKI_ERR_SUCCESS) in
         if err \<noteq> CHIAKI_ERR_SUCCESS then
           (case ctrl_failed CHIAKI_QUIT_REASON_CTRL_CONNECT_FAILED (snd st) of (s, outs') \<Rightarrow> Some (Thread_Ended, (fst st, s), outs @ map Conn_Out outs'))
         else do {
           (loop, st, outs') \<leftarrow> ctrl_loop_head env st;
           Some (Thread_Running (status = Connect_Done) loop, st, outs @ map Conn_Out outs') } }"

end
