(* ===== verification/Session.thy ===== *)
theory Session
  imports Ctrl_Connect
begin

text \<open>
  \<open>lib/src/session.c\<close>: the life of a session: its initialisation, what the other threads ask of it, the request of a session from the console
  with the negotiation of the version, and its thread. The connection test (senkusha), the stream connection, random numbers and the key exchange
  are represented by what their calls return.
\<close>

section \<open>Initialisation\<close>

text \<open>The resources of a session, in the order in which they are acquired.\<close>

datatype session_resource = Res_Cond | Res_Mutex | Res_Pipe | Res_Ctrl | Res_Stream | Res_Addrinfos

text \<open>What \<open>chiaki_session_fini\<close> releases; memory is left out.\<close>

definition session_fini_resources :: "session_resource list" where
  "session_fini_resources = [Res_Stream, Res_Ctrl, Res_Pipe, Res_Cond, Res_Mutex, Res_Addrinfos]"

record connect_info =
  ci_ps5 :: bool
  ci_regist_key :: bytes
  ci_morning :: bytes
  ci_video_profile :: connect_video_profile
  ci_video_profile_auto_downgrade :: bool
  ci_enable_keyboard :: bool
  ci_enable_dualsense :: bool

definition session_did :: "bytes \<Rightarrow> bytes" where
  "session_did random = [0x00, 0x18, 0x00, 0x00, 0x00, 0x07, 0x00, 0x40, 0x00, 0x80] @ random @ [0x00, 0x00, 0x00, 0x00, 0x00, 0x00]"

text \<open>A session whose memory is zero but for the target, the pipe being empty.\<close>

definition session_zero :: "bool \<Rightarrow> session" where
  "session_zero ps5 =
     \<lparr>s_ps5 = False, s_hostname = [], s_regist_key = replicate 0x10 0, s_morning = replicate 0x10 0, s_did = replicate 32 0,
      s_video_profile = \<lparr>vp_width = 0, vp_height = 0, vp_max_fps = 0, vp_bitrate = 0, vp_codec = CHIAKI_CODEC_H264\<rparr>,
      s_video_profile_auto_downgrade = False, s_enable_keyboard = False, s_enable_dualsense = False,
      s_target = (if ps5 then CHIAKI_TARGET_PS5_1 else CHIAKI_TARGET_PS4_10), s_nonce = replicate 0x10 0,
      s_rpcrypt = \<lparr>rp_target = CHIAKI_TARGET_PS4_UNKNOWN, rp_bright = replicate 0x10 0, rp_ambassador = replicate 0x10 0\<rparr>,
      s_session_id = replicate 80 0, s_handshake_key = replicate 0x10 0, s_mtu_in = 0, s_mtu_out = 0, s_rtt_us = 0,
      s_quit_reason = CHIAKI_QUIT_REASON_NONE, s_quit_reason_str = None, s_stop_pipe = 0, s_should_stop = False, s_ctrl_failed = False,
      s_ctrl_session_id_received = False, s_ctrl_login_pin_requested = False, s_login_pin_entered = False, s_login_pin = None\<rparr>"

text \<open>
  The arguments are the results of the calls and 16 random bytes; \<open>addr_ok\<close>: the address is found. The result has the resources that were
  acquired and those that were released again.
\<close>

definition chiaki_session_init ::
  "connect_info \<Rightarrow> ChiakiErrorCode \<Rightarrow> ChiakiErrorCode \<Rightarrow> ChiakiErrorCode \<Rightarrow> ChiakiErrorCode \<Rightarrow> ChiakiErrorCode \<Rightarrow> bool \<Rightarrow> bytes \<Rightarrow>
   ChiakiErrorCode \<times> session \<times> session_resource list \<times> session_resource list" where
  "chiaki_session_init info cond_r mutex_r pipe_r ctrl_r stream_r addr_ok random =
     (let s = session_zero (ci_ps5 info) in
      if cond_r \<noteq> CHIAKI_ERR_SUCCESS then (cond_r, s, [], [])
      else if mutex_r \<noteq> CHIAKI_ERR_SUCCESS then (mutex_r, s, [Res_Cond], [Res_Cond])
      else if pipe_r \<noteq> CHIAKI_ERR_SUCCESS then (pipe_r, s, [Res_Cond, Res_Mutex], [Res_Mutex, Res_Cond])
      else if ctrl_r \<noteq> CHIAKI_ERR_SUCCESS then (ctrl_r, s, [Res_Cond, Res_Mutex, Res_Pipe], [Res_Pipe, Res_Ctrl, Res_Mutex, Res_Cond])
      else if stream_r \<noteq> CHIAKI_ERR_SUCCESS then (stream_r, s, [Res_Cond, Res_Mutex, Res_Pipe, Res_Ctrl], [Res_Ctrl, Res_Mutex, Res_Cond])
      else if \<not> addr_ok then (CHIAKI_ERR_PARSE_ADDR, s, [Res_Cond, Res_Mutex, Res_Pipe, Res_Ctrl, Res_Stream], session_fini_resources)
      else (CHIAKI_ERR_SUCCESS,
        s\<lparr>s_ps5 := ci_ps5 info, s_regist_key := ci_regist_key info, s_morning := ci_morning info, s_did := session_did random,
          s_video_profile := ci_video_profile info, s_video_profile_auto_downgrade := ci_video_profile_auto_downgrade info,
          s_enable_keyboard := ci_enable_keyboard info, s_enable_dualsense := ci_enable_dualsense info\<rparr>,
        [Res_Cond, Res_Mutex, Res_Pipe, Res_Ctrl, Res_Stream, Res_Addrinfos], []))"

section \<open>Operations of other threads\<close>

definition chiaki_session_stop :: "session \<Rightarrow> session" where
  "chiaki_session_stop s = s\<lparr>s_should_stop := True, s_stop_pipe := chiaki_stop_pipe_stop (s_stop_pipe s)\<rparr>"

definition chiaki_session_set_login_pin :: "bool \<Rightarrow> bytes \<Rightarrow> session \<Rightarrow> ChiakiErrorCode \<times> session" where
  "chiaki_session_set_login_pin alloc pin s =
     (if \<not> alloc then (CHIAKI_ERR_MEMORY, s)
      else (CHIAKI_ERR_SUCCESS, s\<lparr>s_login_pin_entered := True, s_login_pin := Some pin\<rparr>))"

text \<open>What other threads do to a session while its thread does not hold the mutex.\<close>

datatype session_op = Op_Stop | Op_Set_Login_Pin bool bytes

fun session_act :: "session_op \<Rightarrow> session \<Rightarrow> session" where
  "session_act Op_Stop s = chiaki_session_stop s"
| "session_act (Op_Set_Login_Pin alloc pin) s = snd (chiaki_session_set_login_pin alloc pin s)"

definition chiaki_session_goto_bed :: "bool \<Rightarrow> ctrl_state \<Rightarrow> ChiakiErrorCode \<times> ctrl_state" where
  "chiaki_session_goto_bed alloc_queue st = map_prod id (\<lambda>c. (c, snd st)) (chiaki_ctrl_goto_bed alloc_queue (fst st))"

definition chiaki_session_keyboard_set_text :: "bool \<Rightarrow> bool \<Rightarrow> bool \<Rightarrow> bytes \<Rightarrow> ctrl_state \<Rightarrow> ChiakiErrorCode \<times> ctrl_state" where
  "chiaki_session_keyboard_set_text alloc alloc_queue alloc_payload text st =
     map_prod id (\<lambda>c. (c, snd st)) (chiaki_ctrl_keyboard_set_text alloc alloc_queue alloc_payload text (fst st))"

definition chiaki_session_keyboard_reject :: "bool \<Rightarrow> bool \<Rightarrow> ctrl_state \<Rightarrow> ChiakiErrorCode \<times> ctrl_state" where
  "chiaki_session_keyboard_reject alloc_queue alloc_payload st =
     map_prod id (\<lambda>c. (c, snd st)) (chiaki_ctrl_keyboard_reject alloc_queue alloc_payload (fst st))"

definition chiaki_session_keyboard_accept :: "bool \<Rightarrow> bool \<Rightarrow> ctrl_state \<Rightarrow> ChiakiErrorCode \<times> ctrl_state" where
  "chiaki_session_keyboard_accept alloc_queue alloc_payload st =
     map_prod id (\<lambda>c. (c, snd st)) (chiaki_ctrl_keyboard_accept alloc_queue alloc_payload (fst st))"

section \<open>What the thread waits for\<close>

definition session_check_state_pred :: "session \<Rightarrow> bool" where
  "session_check_state_pred s \<longleftrightarrow> s_should_stop s \<or> s_ctrl_failed s"

definition session_check_state_pred_ctrl_start :: "session \<Rightarrow> bool" where
  "session_check_state_pred_ctrl_start s \<longleftrightarrow>
     s_should_stop s \<or> s_ctrl_failed s \<or> s_ctrl_session_id_received s \<or> s_ctrl_login_pin_requested s"

definition session_check_state_pred_pin :: "session \<Rightarrow> bool" where
  "session_check_state_pred_pin s \<longleftrightarrow> s_should_stop s \<or> s_ctrl_failed s \<or> s_login_pin_entered s"

section \<open>The response to a session request\<close>

text \<open>\<open>strtoul\<close> with base 16 for an \<open>unsigned long\<close> of 64 bits, which saturates.\<close>

definition strtoul16 :: "bytes \<Rightarrow> nat" where
  "strtoul16 s =
     (let s = dropWhile c_isspace s;
          neg = (s \<noteq> [] \<and> hd s = 0x2d);
          s = (if s \<noteq> [] \<and> (hd s = 0x2d \<or> hd s = 0x2b) then tl s else s);
          s = (if take 2 s = [0x30, 0x78] \<or> take 2 s = [0x30, 0x58] then drop 2 s else s);
          n = fold (\<lambda>d n. n * 16 + nat (nibble_value d)) (takeWhile (\<lambda>d. 0 \<le> nibble_value d) s) 0
      in if n \<ge> 2 ^ 64 then 2 ^ 64 - 1 else if neg \<and> n > 0 then 2 ^ 64 - n else n)"

definition c_tolower :: "u8 \<Rightarrow> u8" where
  "c_tolower c = (if 0x41 \<le> c \<and> c \<le> 0x5a then c + 0x20 else c)"

definition strcaseeq :: "bytes \<Rightarrow> bytes \<Rightarrow> bool" where
  "strcaseeq a b \<longleftrightarrow> map c_tolower a = map c_tolower b"

record session_response =
  sr_error_code :: u32
  sr_nonce :: "bytes option"
  sr_rp_version :: "bytes option"
  sr_success :: bool

definition session_response_header :: "bytes \<times> bytes \<Rightarrow> session_response \<Rightarrow> session_response" where
  "session_response_header header r =
     (case header of (key, val) \<Rightarrow>
        if key = ascii ''RP-Nonce'' then r\<lparr>sr_nonce := Some val\<rparr>
        else if strcaseeq key (ascii ''RP-Version'') then r\<lparr>sr_rp_version := Some val\<rparr>
        else if key = ascii ''RP-Application-Reason'' then r\<lparr>sr_error_code := of_nat (strtoul16 val)\<rparr>
        else r)"

definition parse_session_response :: "int \<Rightarrow> (bytes \<times> bytes) list \<Rightarrow> session_response" where
  "parse_session_response code headers =
     (let r = fold session_response_header headers \<lparr>sr_error_code = 0, sr_nonce = None, sr_rp_version = None, sr_success = False\<rparr>
      in if code = 200 then r\<lparr>sr_success := (sr_nonce r \<noteq> None)\<rparr> else r\<lparr>sr_success := False\<rparr>)"

text \<open>The last case of the following, by the reason that the console gives.\<close>

definition session_refused :: "session_response \<Rightarrow> ChiakiTarget option \<Rightarrow> session \<Rightarrow> ChiakiErrorCode \<times> ChiakiTarget option \<times> session" where
  "session_refused response target_out s =
     (if sr_error_code response = CHIAKI_RP_APPLICATION_REASON_IN_USE
      then (CHIAKI_ERR_UNKNOWN, target_out, s\<lparr>s_quit_reason := CHIAKI_QUIT_REASON_SESSION_REQUEST_RP_IN_USE\<rparr>)
      else if sr_error_code response = CHIAKI_RP_APPLICATION_REASON_CRASH
      then (CHIAKI_ERR_UNKNOWN, target_out, s\<lparr>s_quit_reason := CHIAKI_QUIT_REASON_SESSION_REQUEST_RP_CRASH\<rparr>)
      else if sr_error_code response = CHIAKI_RP_APPLICATION_REASON_RP_VERSION
      then (CHIAKI_ERR_VERSION_MISMATCH, target_out, s\<lparr>s_quit_reason := CHIAKI_QUIT_REASON_SESSION_REQUEST_RP_VERSION_MISMATCH\<rparr>)
      else (CHIAKI_ERR_UNKNOWN, target_out, s\<lparr>s_quit_reason := CHIAKI_QUIT_REASON_SESSION_REQUEST_UNKNOWN\<rparr>))"

text \<open>
  What follows the parser: the error code, \<open>*target_out\<close> (\<open>None\<close>: a null pointer), the session. \<open>None\<close>: the decoder is given a character outside
  its table. \<open>rp_version_str\<close> is the version that was requested.
\<close>

definition session_handle_response ::
  "session_response \<Rightarrow> string \<Rightarrow> ChiakiTarget option \<Rightarrow> session \<Rightarrow> (ChiakiErrorCode \<times> ChiakiTarget option \<times> session) option" where
  "session_handle_response response rp_version_str target_out s =
     (if sr_success response then do {
        (err, out, nonce_len) \<leftarrow> chiaki_base64_decode (the (sr_nonce response)) CHIAKI_RPCRYPT_KEY_SIZE;
        let s = s\<lparr>s_nonce := out @ drop (length out) (s_nonce s)\<rparr>;
        if err \<noteq> CHIAKI_ERR_SUCCESS \<or> nonce_len \<noteq> CHIAKI_RPCRYPT_KEY_SIZE
        then Some (CHIAKI_ERR_UNKNOWN, target_out, s\<lparr>s_quit_reason := CHIAKI_QUIT_REASON_SESSION_REQUEST_UNKNOWN\<rparr>)
        else Some (CHIAKI_ERR_SUCCESS, target_out, s) }
      else case (target_out, sr_rp_version response) of
        (Some _, Some version) \<Rightarrow>
          if (sr_error_code response = CHIAKI_RP_APPLICATION_REASON_RP_VERSION \<or> sr_error_code response = CHIAKI_RP_APPLICATION_REASON_UNKNOWN) \<and>
             version \<noteq> ascii rp_version_str
          then let target = chiaki_rp_version_parse version (s_ps5 s) in
            Some (if \<not> chiaki_target_is_unknown target then (CHIAKI_ERR_VERSION_MISMATCH, Some target, s)
              else if version = ascii ''5.0'' then (CHIAKI_ERR_VERSION_MISMATCH, Some CHIAKI_TARGET_PS4_9, s)
              else (CHIAKI_ERR_VERSION_MISMATCH, Some target, s\<lparr>s_quit_reason := CHIAKI_QUIT_REASON_SESSION_REQUEST_RP_VERSION_MISMATCH\<rparr>))
          else Some (session_refused response target_out s)
      | _ \<Rightarrow> Some (session_refused response target_out s))"

section \<open>The request\<close>

text \<open>
  For an address of the console: \<open>ad_alloc\<close>: it is allocated; \<open>ad_name\<close>: the host name that \<open>getnameinfo\<close> gives; \<open>ad_socket\<close>: there is a socket;
  \<open>ad_during\<close>: what the other threads do while it connects; and the arguments of \<open>chiaki_stop_pipe_connect\<close>.
\<close>

record addr_env =
  ad_alloc :: bool
  ad_family :: sa_family
  ad_name :: "bytes option"
  ad_socket :: bool
  ad_during :: "session_op list"
  ad_connect_r :: "errno option"
  ad_select :: int
  ad_ready :: bool
  ad_peer_r :: "errno option"
  ad_sockerr :: "errno option"

text \<open>Sockets opened and closed, and what is sent.\<close>

datatype request_out = Req_Open | Req_Close | Req_Sent bytes

fun session_connect :: "addr_env list \<Rightarrow> session \<Rightarrow> bool \<times> session \<times> request_out list" where
  "session_connect [] s = (False, s, [])"
| "session_connect (ad # ads) s =
     (if \<not> ad_alloc ad then session_connect ads s
      else if ad_family ad \<noteq> AF_INET \<and> ad_family ad \<noteq> AF_INET6 then session_connect ads s
      else let s = s\<lparr>s_hostname := (case ad_name ad of Some name \<Rightarrow> name | None \<Rightarrow> ascii ''unknown'')\<rparr> in
        if \<not> ad_socket ad then session_connect ads s
        else let s = fold session_act (ad_during ad) s;
                 err = chiaki_stop_pipe_connect (s_stop_pipe s) (ad_connect_r ad) (ad_select ad) (ad_ready ad) (ad_peer_r ad) (ad_sockerr ad) in
          if err = CHIAKI_ERR_CANCELED then (False, s\<lparr>s_quit_reason := CHIAKI_QUIT_REASON_STOPPED\<rparr>, [Req_Open, Req_Close])
          else if err \<noteq> CHIAKI_ERR_SUCCESS then
            (case session_connect ads (s\<lparr>s_quit_reason := (if err = CHIAKI_ERR_CONNECTION_REFUSED
                 then CHIAKI_QUIT_REASON_SESSION_REQUEST_CONNECTION_REFUSED else CHIAKI_QUIT_REASON_NONE)\<rparr>) of
               (connected, s, outs) \<Rightarrow> (connected, s, [Req_Open, Req_Close] @ outs))
          else (True, s, [Req_Open]))"

definition session_path :: "ChiakiTarget \<Rightarrow> string" where
  "session_path target =
     (if target = CHIAKI_TARGET_PS4_8 \<or> target = CHIAKI_TARGET_PS4_9 then ''/sce/rp/session''
      else if chiaki_target_is_ps5 target then ''/sie/ps5/rp/sess/init''
      else ''/sie/ps4/rp/sess/init'')"

definition session_request :: "session \<Rightarrow> bytes \<Rightarrow> string \<Rightarrow> bytes" where
  "session_request s regist_key_hex rp_version_str =
     ascii ''GET '' @ ascii (session_path (s_target s)) @ ascii '' HTTP/1.1'' @ [CR, LF] @
     ascii ''Host: '' @ s_hostname s @ ascii '':9295'' @ [CR, LF] @
     ascii ''User-Agent: remoteplay Windows'' @ [CR, LF] @
     ascii ''Connection: close'' @ [CR, LF] @
     ascii ''Content-Length: 0'' @ [CR, LF] @
     ascii ''RP-Registkey: '' @ regist_key_hex @ [CR, LF] @
     ascii ''Rp-Version: '' @ ascii rp_version_str @ [CR, LF] @
     [CR, LF]"

text \<open>
  \<open>rq_addrs\<close>: the addresses; \<open>rq_send\<close>: how many bytes are sent, if it does not fail; \<open>rq_during\<close>: what the other threads do until the response is
  received; \<open>rq_inputs\<close>: what the waits and \<open>recv\<close> return; \<open>rq_mallocs\<close>: the allocations of headers that succeed.
\<close>

record request_env =
  rq_addrs :: "addr_env list"
  rq_send :: "nat option"
  rq_during :: "session_op list"
  rq_inputs :: "(ChiakiErrorCode \<times> bytes option) list"
  rq_mallocs :: nat

text \<open>
  From the connection on. The error code (\<open>None\<close>: still waiting for the console), \<open>*target_out\<close>, the session, sockets and what is sent.
\<close>

definition session_receive ::
  "request_env \<Rightarrow> string \<Rightarrow> ChiakiTarget option \<Rightarrow> session \<Rightarrow> (ChiakiErrorCode option \<times> ChiakiTarget option \<times> session \<times> request_out list) option" where
  "session_receive rq rp_version_str target_out s = do {
     r \<leftarrow> chiaki_recv_http_header True CTRL_HTTP_BUF_SIZE (rq_inputs rq);
     let s = fold session_act (rq_during rq) s;
     case r of
       Http_Waiting _ \<Rightarrow> Some (None, target_out, s, [])
     | Http_Done err received header_size \<Rightarrow>
         if err \<noteq> CHIAKI_ERR_SUCCESS then
           Some (Some CHIAKI_ERR_NETWORK, target_out,
             s\<lparr>s_quit_reason := (if err = CHIAKI_ERR_CANCELED then CHIAKI_QUIT_REASON_STOPPED else CHIAKI_QUIT_REASON_SESSION_REQUEST_UNKNOWN)\<rparr>, [Req_Close])
         else case chiaki_http_response_parse (rq_mallocs rq) (take header_size received) of (err, code, buf, header) \<Rightarrow>
           if err \<noteq> CHIAKI_ERR_SUCCESS then
             Some (Some CHIAKI_ERR_NETWORK, target_out, s\<lparr>s_quit_reason := CHIAKI_QUIT_REASON_SESSION_REQUEST_UNKNOWN\<rparr>, [Req_Close])
           else do {
             (err, target_out, s) \<leftarrow> session_handle_response (parse_session_response code (header_strings buf header)) rp_version_str target_out s;
             Some (Some err, target_out, s, [Req_Close]) } }"

definition session_thread_request_session ::
  "request_env \<Rightarrow> ChiakiTarget option \<Rightarrow> session \<Rightarrow> (ChiakiErrorCode option \<times> ChiakiTarget option \<times> session \<times> request_out list) option" where
  "session_thread_request_session rq target_out s =
     (case session_connect (rq_addrs rq) s of (connected, s, outs) \<Rightarrow>
        if \<not> connected then
          Some (Some CHIAKI_ERR_NETWORK, target_out,
            (if s_quit_reason s = CHIAKI_QUIT_REASON_NONE then s\<lparr>s_quit_reason := CHIAKI_QUIT_REASON_SESSION_REQUEST_UNKNOWN\<rparr> else s), outs)
        else let unknown = s\<lparr>s_quit_reason := CHIAKI_QUIT_REASON_SESSION_REQUEST_UNKNOWN\<rparr> in
          case format_hex 33 (takeWhile (\<lambda>b. b \<noteq> 0) (s_regist_key s)) of (err, regist_key_hex) \<Rightarrow>
            if err \<noteq> CHIAKI_ERR_SUCCESS then Some (Some CHIAKI_ERR_UNKNOWN, target_out, unknown, outs @ [Req_Close])
            else case chiaki_rp_version_string (s_target s) of
              None \<Rightarrow> Some (Some CHIAKI_ERR_INVALID_DATA, target_out, unknown, outs)
            | Some rp_version_str \<Rightarrow>
                let request = session_request s (c_string regist_key_hex 0) rp_version_str in
                if length request \<ge> CTRL_HTTP_BUF_SIZE then Some (Some CHIAKI_ERR_UNKNOWN, target_out, unknown, outs @ [Req_Close])
                else case rq_send rq of
                  None \<Rightarrow> Some (Some CHIAKI_ERR_NETWORK, target_out, unknown, outs @ [Req_Close])
                | Some n \<Rightarrow> do {
                    (err, target_out, s, outs') \<leftarrow> session_receive rq rp_version_str target_out s;
                    Some (err, target_out, s, outs @ Req_Sent (take n request) # outs') })"

section \<open>The thread\<close>

text \<open>
  A wait: the time at its start and the wakeups, each with the state that the other threads have left. The result is the state in which the thread
  goes on, \<open>None\<close> while it still waits; the code of the wait is not looked at.
\<close>

type_synonym session_wait_env = "timespec \<times> (wakeup \<times> ctrl_state) list"

definition session_wait :: "session_wait_env \<Rightarrow> nat \<Rightarrow> (session \<Rightarrow> bool) \<Rightarrow> ctrl_state \<Rightarrow> ctrl_state option" where
  "session_wait w timeout_ms pred st = map_option snd (chiaki_cond_timedwait_pred (fst w) timeout_ms (\<lambda>st. pred (snd st)) st (snd w))"

abbreviation "SESSION_EXPECT_TIMEOUT_MS \<equiv> 5000 :: nat"
abbreviation "UINT64_MAX \<equiv> 18446744073709551615 :: nat"

text \<open>A request for a PIN: the wait for it, whether the control connection can copy it, and the wait for its acceptance.\<close>

record pin_env =
  pn_wait :: session_wait_env
  pn_alloc :: bool
  pn_accept :: session_wait_env

record session_env =
  se_event_cb :: bool
  se_requests :: "nat \<Rightarrow> request_env"
  se_sleep :: session_wait_env
  se_ctrl_start :: ChiakiErrorCode
  se_start :: session_wait_env
  se_pins :: "pin_env list"
  se_senkusha_init :: ChiakiErrorCode
  se_senkusha_run :: "ChiakiErrorCode \<times> u32 \<times> u32 \<times> u64"
  se_random :: "ChiakiErrorCode \<times> bytes"
  se_ecdh_init :: ChiakiErrorCode
  se_stream_during :: "ctrl_state \<Rightarrow> ctrl_state"
  se_stream_run :: ChiakiErrorCode
  se_remote_disconnect_reason :: bytes
  se_join :: "ctrl_state \<Rightarrow> ctrl_state"

datatype session_out = Sess_Req request_out | Sess_Event ChiakiEvent | Sess_Ctrl_Start | Sess_Ctrl_Stop

definition chiaki_session_send_event :: "bool \<Rightarrow> ChiakiEvent \<Rightarrow> session_out list" where
  "chiaki_session_send_event event_cb event = (if event_cb then [Sess_Event event] else [])"

text \<open>The request, repeated at most twice with the version that the console has named.\<close>

definition request_retry :: "ChiakiErrorCode option \<Rightarrow> ChiakiTarget option \<Rightarrow> bool" where
  "request_retry err server_target \<longleftrightarrow> err = Some CHIAKI_ERR_VERSION_MISMATCH \<and> \<not> chiaki_target_is_unknown (the server_target)"

definition session_negotiate :: "session_env \<Rightarrow> session \<Rightarrow> (ChiakiErrorCode option \<times> session \<times> request_out list) option" where
  "session_negotiate env s = do {
     (err, server_target, s, outs1) \<leftarrow> session_thread_request_session (se_requests env 0) (Some CHIAKI_TARGET_PS4_UNKNOWN) s;
     if \<not> request_retry err server_target then Some (err, s, outs1)
     else do {
       (err, server_target, s, outs2) \<leftarrow> session_thread_request_session (se_requests env 1) server_target (s\<lparr>s_target := the server_target\<rparr>);
       if \<not> request_retry err server_target then Some (err, s, outs1 @ outs2)
       else do {
         (err, _, s, outs3) \<leftarrow> session_thread_request_session (se_requests env 2) None (s\<lparr>s_target := the server_target\<rparr>);
         Some (err, s, outs1 @ outs2 @ outs3) } } }"

datatype pin_status = Pin_Waiting | Pin_Stopped | Pin_Failed | Pin_Done

text \<open>\<open>None\<close>: the assertion that there is a PIN fails.\<close>

fun session_pin_loop :: "bool \<Rightarrow> pin_env list \<Rightarrow> bool \<Rightarrow> ctrl_state \<Rightarrow> (pin_status \<times> ctrl_state \<times> session_out list) option" where
  "session_pin_loop cb pins pin_incorrect (c, s) =
     (if \<not> s_ctrl_login_pin_requested s then Some (Pin_Done, (c, s), [])
      else let s = s\<lparr>s_ctrl_login_pin_requested := False\<rparr>;
               outs = chiaki_session_send_event cb (CHIAKI_EVENT_LOGIN_PIN_REQUEST pin_incorrect) in
        case pins of
          [] \<Rightarrow> Some (Pin_Waiting, (c, s), outs)
        | pin # pins \<Rightarrow>
            case session_wait (pn_wait pin) UINT64_MAX session_check_state_pred_pin (c, s) of
              None \<Rightarrow> Some (Pin_Waiting, (c, s), outs)
            | Some (c, s) \<Rightarrow>
                if s_should_stop s then Some (Pin_Stopped, (c, s\<lparr>s_quit_reason := CHIAKI_QUIT_REASON_STOPPED\<rparr>), outs)
                else if s_ctrl_failed s then Some (Pin_Failed, (c, s), outs)
                else if \<not> (s_login_pin_entered s \<and> s_login_pin s \<noteq> None) then None
                else
                  let c = chiaki_ctrl_set_login_pin (pn_alloc pin) (the (s_login_pin s)) c;
                      s = s\<lparr>s_login_pin_entered := False, s_login_pin := None\<rparr> in
                  case session_wait (pn_accept pin) SESSION_EXPECT_TIMEOUT_MS session_check_state_pred_ctrl_start (c, s) of
                    None \<Rightarrow> Some (Pin_Waiting, (c, s), outs)
                  | Some (c, s) \<Rightarrow>
                      if s_should_stop s then Some (Pin_Stopped, (c, s\<lparr>s_quit_reason := CHIAKI_QUIT_REASON_STOPPED\<rparr>), outs)
                      else map_option (\<lambda>(status, st, outs'). (status, st, outs @ outs')) (session_pin_loop cb pins True (c, s)))"

declare session_pin_loop.simps [simp del]

text \<open>The label \<open>ctrl_failed\<close>.\<close>

definition session_ctrl_failed :: "session \<Rightarrow> session" where
  "session_ctrl_failed s = (if s_quit_reason s = CHIAKI_QUIT_REASON_NONE then s\<lparr>s_quit_reason := CHIAKI_QUIT_REASON_CTRL_UNKNOWN\<rparr> else s)"

text \<open>The connection test and the stream connection, up to the label \<open>quit_ctrl\<close>.\<close>

definition session_stream :: "session_env \<Rightarrow> ctrl_state \<Rightarrow> ctrl_state" where
  "session_stream env st = (case st of (c, s) \<Rightarrow>
     if se_senkusha_init env \<noteq> CHIAKI_ERR_SUCCESS then (c, s)
     else case se_senkusha_run env of (err, mtu_in, mtu_out, rtt_us) \<Rightarrow>
       if err = CHIAKI_ERR_CANCELED then (c, s\<lparr>s_mtu_in := mtu_in, s_mtu_out := mtu_out, s_rtt_us := rtt_us\<rparr>)
       else
         let s = (if err = CHIAKI_ERR_SUCCESS then s\<lparr>s_mtu_in := mtu_in, s_mtu_out := mtu_out, s_rtt_us := rtt_us\<rparr>
                  else s\<lparr>s_mtu_in := 1454, s_mtu_out := 1454, s_rtt_us := 1000\<rparr>) in
         if fst (se_random env) \<noteq> CHIAKI_ERR_SUCCESS then (c, s)
         else let s = s\<lparr>s_handshake_key := snd (se_random env)\<rparr> in
           if se_ecdh_init env \<noteq> CHIAKI_ERR_SUCCESS then (c, s)
           else case se_stream_during env (c, s) of (c, s) \<Rightarrow>
             (c, if se_stream_run env = CHIAKI_ERR_DISCONNECTED
                 then s\<lparr>s_quit_reason := CHIAKI_QUIT_REASON_STREAM_CONNECTION_REMOTE_DISCONNECTED, s_quit_reason_str := Some (se_remote_disconnect_reason env)\<rparr>
                 else if se_stream_run env \<noteq> CHIAKI_ERR_SUCCESS \<and> se_stream_run env \<noteq> CHIAKI_ERR_CANCELED
                 then s\<lparr>s_quit_reason := CHIAKI_QUIT_REASON_STREAM_CONNECTION_UNKNOWN\<rparr>
                 else s\<lparr>s_quit_reason := CHIAKI_QUIT_REASON_STOPPED\<rparr>))"

text \<open>From the start of the control connection to the label \<open>quit_ctrl\<close>: whether the thread gets there, and its state.\<close>

definition session_after_ctrl :: "session_env \<Rightarrow> ctrl_state \<Rightarrow> (bool \<times> ctrl_state \<times> session_out list) option" where
  "session_after_ctrl env st =
     (case session_wait (se_start env) SESSION_EXPECT_TIMEOUT_MS session_check_state_pred_ctrl_start st of
        None \<Rightarrow> Some (False, st, [])
      | Some (c, s) \<Rightarrow>
          if s_should_stop s then Some (True, (c, s\<lparr>s_quit_reason := CHIAKI_QUIT_REASON_STOPPED\<rparr>), [])
          else if s_ctrl_failed s then Some (True, (c, session_ctrl_failed s), [])
          else do {
            (status, (c, s), outs) \<leftarrow> session_pin_loop (se_event_cb env) (se_pins env) False (c, s);
            Some (case status of
              Pin_Waiting \<Rightarrow> (False, (c, s), outs)
            | Pin_Stopped \<Rightarrow> (True, (c, s), outs)
            | Pin_Failed \<Rightarrow> (True, (c, session_ctrl_failed s), outs)
            | Pin_Done \<Rightarrow>
                if \<not> s_ctrl_session_id_received s then (True, (c, session_ctrl_failed s), outs)
                else (True, session_stream env (c, s), outs)) })"

text \<open>The label \<open>quit\<close>.\<close>

definition session_quit_event :: "session_env \<Rightarrow> session \<Rightarrow> session_out list" where
  "session_quit_event env s = chiaki_session_send_event (se_event_cb env) (CHIAKI_EVENT_QUIT (s_quit_reason s) (s_quit_reason_str s))"

text \<open>Whether the thread has ended, the state and what it has done.\<close>

definition session_thread_func :: "session_env \<Rightarrow> ctrl_state \<Rightarrow> (bool \<times> ctrl_state \<times> session_out list) option" where
  "session_thread_func env st = (case st of (c, s) \<Rightarrow>
     if s_should_stop s then
       let s = s\<lparr>s_quit_reason := CHIAKI_QUIT_REASON_STOPPED\<rparr> in Some (True, (c, s), session_quit_event env s)
     else do {
       (err, s, req_outs) \<leftarrow> session_negotiate env s;
       let outs = map Sess_Req req_outs;
       if err = None then Some (False, (c, s), outs)
       else if err \<noteq> Some CHIAKI_ERR_SUCCESS then Some (True, (c, s), outs @ session_quit_event env s)
       else do {
         rp \<leftarrow> chiaki_rpcrypt_init_auth (s_target s) (s_nonce s) (s_morning s);
         let s = s\<lparr>s_rpcrypt := rp\<rparr>;
         case session_wait (se_sleep env) 10 session_check_state_pred (c, s) of
           None \<Rightarrow> Some (False, (c, s), outs)
         | Some (c, s) \<Rightarrow>
             if se_ctrl_start env \<noteq> CHIAKI_ERR_SUCCESS then Some (True, (c, s), outs @ session_quit_event env s)
             else do {
               (ended, (c, s), outs') \<leftarrow> session_after_ctrl env (c, s);
               if \<not> ended then Some (False, (c, s), outs @ Sess_Ctrl_Start # outs')
               else case se_join env (chiaki_ctrl_stop c, s) of (c, s) \<Rightarrow>
                 Some (True, (c, s), outs @ Sess_Ctrl_Start # outs' @ Sess_Ctrl_Stop # session_quit_event env s) } } })"

end
