(* ===== verification/Ctrl_Connect_Ends.thy ===== *)
theory Ctrl_Connect_Ends
  imports Ctrl_Connect
begin

text \<open>
  The properties of establishing the control connection.
\<close>

section \<open>The request is read back\<close>

lemma ascii_append: "ascii (xs @ ys) = ascii xs @ ascii ys"
  by (simp add: ascii_def)

definition ctrl_request_headers :: "session \<Rightarrow> bytes list \<Rightarrow> (bytes \<times> bytes) list" where
  "ctrl_request_headers s txts =
     [(ascii ''Host'', s_hostname s @ ascii '':9295''), (ascii ''User-Agent'', ascii ''remoteplay Windows''),
      (ascii ''Connection'', ascii ''keep-alive''), (ascii ''Content-Length'', ascii ''0''), (ascii ''RP-Auth'', txts ! 0),
      (ascii ''RP-Version'', (case chiaki_rp_version_string (s_target s) of None \<Rightarrow> [] | Some v \<Rightarrow> ascii v)), (ascii ''RP-Did'', txts ! 1),
      (ascii ''RP-ControllerType'', ascii ''3''), (ascii ''RP-ClientType'', ascii ''11''), (ascii ''RP-OSType'', txts ! 2), (ascii ''RP-ConPath'', ascii ''1'')] @
     (if ctrl_have_bitrate s then [(ascii ''RP-StartBitrate'', txts ! 3)] else []) @
     (if chiaki_target_is_ps5 (s_target s) then [(ascii ''RP-StreamingType'', last txts)] else [])"

definition ctrl_request_line :: "session \<Rightarrow> bytes" where
  "ctrl_request_line s = ascii ''GET '' @ ascii (ctrl_path (s_target s)) @ ascii '' HTTP/1.1'' @ [CR, LF]"

lemma ctrl_request_lines: "ctrl_request s txts = ctrl_request_line s @ concat (map header_line (ctrl_request_headers s txts)) @ [CR, LF]"
  by (simp add: ctrl_request_def ctrl_request_headers_def ctrl_request_line_def header_line_def)

text \<open>The names of the encrypted fields, in the order in which they are encrypted.\<close>

definition ctrl_field_names :: "session \<Rightarrow> bytes list" where
  "ctrl_field_names s =
     [ascii ''RP-Auth'', ascii ''RP-Did'', ascii ''RP-OSType''] @ (if ctrl_have_bitrate s then [ascii ''RP-StartBitrate''] else []) @
     (if chiaki_target_is_ps5 (s_target s) then [ascii ''RP-StreamingType''] else [])"

text \<open>The text of a field decodes and decrypts to its data.\<close>

definition field_sent :: "rp_crypto \<Rightarrow> rpcrypt \<Rightarrow> u64 \<Rightarrow> bytes \<times> nat \<times> nat \<Rightarrow> bytes \<Rightarrow> bool" where
  "field_sent cr rp counter field txt = (case field of (data, sz, _) \<Rightarrow>
     \<exists>enc. txt = base64_text enc \<and> length enc = sz \<and> chiaki_rpcrypt_decrypt cr rp counter enc sz = Some (Inr data))"

definition field_ok :: "bytes \<times> nat \<times> nat \<Rightarrow> bool" where
  "field_ok field = (case field of (data, sz, b64_size) \<Rightarrow> length data = sz \<and> sz < 2 ^ 31 \<and> 0 < sz \<and> 4 * ((sz + 2) div 3) < b64_size)"

lemma base64_digit_in: "base64_digit n s \<in> set base64chars"
proof -
  have m: "(63::u8) = 2 ^ 6 - 1" by simp
  have "unat ((ucast (drop_bit s n) :: u8) AND 63) < length base64chars"
    unfolding m unat_and_mask by (simp add: length_base64chars)
  then show ?thesis unfolding base64_digit_def by (rule nth_mem)
qed

lemma base64_text_chars: "set (base64_text bs) \<subseteq> set (0x3d # base64chars)"
proof -
  have "set (base64_digits bs) \<subseteq> set base64chars"
    by (induction bs rule: base64_digits.induct) (auto simp: Let_def base64_digit_in)
  then show ?thesis by (auto simp: base64_text_def)
qed

lemma base64_text_plain: "set (base64_text bs) \<inter> {0, CR, LF} = {}"
proof -
  have "\<forall>c \<in> set (0x3d # base64chars). c \<noteq> 0 \<and> c \<noteq> CR \<and> c \<noteq> LF" by (simp add: base64chars_ascii)
  then show ?thesis using base64_text_chars [of bs] by blast
qed

lemma c_string_text: "0 \<notin> set s \<Longrightarrow> c_string (s @ [0]) 0 = s"
  using c_string_at [of s 0 "[]" "[]"] by simp

lemma request_field_sent:
  assumes "rp_crypto_ok cr" "field_ok field"
  shows "\<exists>txt. ctrl_request_field cr rp field c = Some (Inr txt, c\<lparr>c_counter_local := c_counter_local c + 1\<rparr>) \<and>
     field_sent cr rp (c_counter_local c) field txt"
proof -
  obtain data sz b64_size where f: "field = (data, sz, b64_size)" by (cases field)
  have sz: "length data = sz" "sz < 2 ^ 31" "4 * ((sz + 2) div 3) < b64_size" using assms(2) by (simp_all add: field_ok_def f)
  obtain enc where "chiaki_rpcrypt_encrypt cr rp (c_counter_local c) data sz = Some (Inr enc)" "length enc = sz"
      "chiaki_rpcrypt_decrypt cr rp (c_counter_local c) enc sz = Some (Inr data)"
    using crypt_roundtrip [OF assms(1), of data rp "c_counter_local c"] sz(1,2) by auto
  moreover have "0 \<notin> set (base64_text enc)" using base64_text_plain [of enc] by blast
  ultimately show ?thesis
    using sz by (auto simp: ctrl_request_field_def f base64_encode_result length_base64_text c_string_text field_sent_def)
qed

lemma request_fields_sent:
  assumes "rp_crypto_ok cr" "\<forall>field \<in> set fs. field_ok field"
  shows "\<exists>txts. ctrl_request_fields cr rp fs c = Some (Inr txts, c\<lparr>c_counter_local := c_counter_local c + of_nat (length fs)\<rparr>) \<and>
     length txts = length fs \<and> (\<forall>k < length fs. field_sent cr rp (c_counter_local c + of_nat k) (fs ! k) (txts ! k))"
  using assms(2)
proof (induction fs arbitrary: c)
  case (Cons field fs)
  obtain tx where t: "ctrl_request_field cr rp field c = Some (Inr tx, c\<lparr>c_counter_local := c_counter_local c + 1\<rparr>)"
      "field_sent cr rp (c_counter_local c) field tx"
    using request_field_sent [OF assms(1), of field rp c] Cons.prems by auto
  let ?c = "c\<lparr>c_counter_local := c_counter_local c + 1\<rparr>"
  obtain txts where ts: "ctrl_request_fields cr rp fs ?c = Some (Inr txts, ?c\<lparr>c_counter_local := c_counter_local ?c + of_nat (length fs)\<rparr>)"
      "length txts = length fs" "\<forall>k < length fs. field_sent cr rp (c_counter_local ?c + of_nat k) (fs ! k) (txts ! k)"
    using Cons.IH [of ?c] Cons.prems by auto
  have "field_sent cr rp (c_counter_local c + of_nat k) ((field # fs) ! k) ((tx # txts) ! k)" if "k < Suc (length fs)" for k
    using that t(2) ts(3) by (cases k) (auto simp: add.assoc)
  then show ?case using t(1) ts(1,2) by (intro exI [of _ "tx # txts"]) (simp add: add.assoc)
qed simp

lemma request_data_ok:
  "length (s_regist_key s) = 0x10 \<Longrightarrow> length (s_did s) = 32 \<Longrightarrow> field \<in> set (ctrl_request_data s) \<Longrightarrow> field_ok field"
  by (auto simp: ctrl_request_data_def field_ok_def split: if_splits)

lemma length_request_data: "length (ctrl_request_data s) = length (ctrl_field_names s)"
  by (simp add: ctrl_request_data_def ctrl_field_names_def)

text \<open>Each encrypted field stands under its name in the request.\<close>

lemma request_header_field:
  assumes "k < length (ctrl_field_names s)" "length txts = length (ctrl_field_names s)"
  shows "map_of (rev (ctrl_request_headers s txts)) (ctrl_field_names s ! k) = Some (txts ! k)"
proof -
  have "last txts = txts ! (length (ctrl_field_names s) - 1)" using assms by (metis last_conv_nth length_0_conv not_less_zero)
  moreover have "chiaki_target_is_ps5 (s_target s) \<Longrightarrow> ctrl_have_bitrate s"
    by (cases "s_target s") (auto simp: target_is_ps5_iff ctrl_have_bitrate_def target_order)
  ultimately show ?thesis
    using assms by (cases "chiaki_target_is_ps5 (s_target s)"; cases "ctrl_have_bitrate s")
      (auto simp: ctrl_field_names_def ctrl_request_headers_def nth_Cons eval_nat_numeral split: nat.splits)
qed

lemma field_sent_length: "field_sent cr rp n (data, sz, b) txt \<Longrightarrow> length txt = 4 * ((sz + 2) div 3)"
  by (auto simp: field_sent_def length_base64_text)

lemma field_sent_value: "field_sent cr rp n field txt \<Longrightarrow> field_ok field \<Longrightarrow> set txt \<inter> {0, CR, LF} = {} \<and> txt \<noteq> []"
proof -
  assume f: "field_sent cr rp n field txt" "field_ok field"
  obtain data sz b where field: "field = (data, sz, b)" by (cases field)
  obtain enc where e: "txt = base64_text enc" using f(1) field by (auto simp: field_sent_def)
  have "length txt = 4 * ((sz + 2) div 3)" "0 < sz" using f field_sent_length field by (auto simp: field_ok_def)
  then have "txt \<noteq> []" by auto
  then show ?thesis using base64_text_plain [of enc] e by simp
qed

lemma length_ascii [simp]: "length (ascii s) = length s"
  by (simp add: ascii_def)

lemma request_length_sum:
  "length (ctrl_request s txts) =
     209 + length (ctrl_path (s_target s)) + length (s_hostname s) + (case chiaki_rp_version_string (s_target s) of None \<Rightarrow> 0 | Some v \<Rightarrow> length v) +
     length (txts ! 0) + length (txts ! 1) + length (txts ! 2) + (if ctrl_have_bitrate s then 19 + length (txts ! 3) else 0) +
     (if chiaki_target_is_ps5 (s_target s) then 20 + length (last txts) else 0)"
  by (simp add: ctrl_request_def del: ascii_simps split: option.split)

lemma request_length:
  assumes "\<forall>k < length (ctrl_request_data s). field_sent cr rp (n + of_nat k) (ctrl_request_data s ! k) (txts ! k)"
    and "length txts = length (ctrl_request_data s)"
  shows "length (ctrl_request s txts) \<le> 376 + length (s_hostname s)"
proof -
  let ?d = "ctrl_request_data s"
  have l: "length (txts ! k) = 4 * ((fst (snd (?d ! k)) + 2) div 3)" if "k < length ?d" for k
    using assms(1) that field_sent_length by (metis prod.collapse)
  have "length (txts ! 0) = 24" "length (txts ! 1) = 44" "length (txts ! 2) = 16"
    using l [of 0] l [of 1] l [of 2] by (simp_all add: ctrl_request_data_def)
  moreover have "length (txts ! 3) = 8" if "ctrl_have_bitrate s"
    using l [of 3] that by (simp add: ctrl_request_data_def)
  moreover have "length (last txts) = 8" if "chiaki_target_is_ps5 (s_target s)"
  proof -
    have "last txts = txts ! (length ?d - 1)" using assms(2) by (metis last_conv_nth length_0_conv ctrl_request_data_def append_is_Nil_conv list.distinct(1))
    then show ?thesis using l [of "length ?d - 1"] that by (simp add: ctrl_request_data_def nth_append split: if_splits)
  qed
  moreover have "length (ctrl_path (s_target s)) \<le> 24" by (simp add: ctrl_path_def)
  moreover have "(case chiaki_rp_version_string (s_target s) of None \<Rightarrow> 0 | Some v \<Rightarrow> length v) \<le> 4" by (cases "s_target s") auto
  ultimately show ?thesis unfolding request_length_sum by simp
qed

definition name_ok :: "bytes \<Rightarrow> bool" where
  "name_ok n \<longleftrightarrow> n \<noteq> [] \<and> set n \<inter> {0, CR, LF, COLON} = {}"

definition value_ok :: "bytes \<Rightarrow> bool" where
  "value_ok v \<longleftrightarrow> v \<noteq> [] \<and> set v \<inter> {0, CR, LF} = {}"

lemma header_ok_pair: "header_ok (n, v) \<longleftrightarrow> name_ok n \<and> value_ok v"
  by (auto simp: header_ok_def name_ok_def value_ok_def)

lemma request_names:
  "name_ok (ascii ''Host'')" "name_ok (ascii ''User-Agent'')" "name_ok (ascii ''Connection'')" "name_ok (ascii ''Content-Length'')"
  "name_ok (ascii ''RP-Auth'')" "name_ok (ascii ''RP-Version'')" "name_ok (ascii ''RP-Did'')" "name_ok (ascii ''RP-ControllerType'')"
  "name_ok (ascii ''RP-ClientType'')" "name_ok (ascii ''RP-OSType'')" "name_ok (ascii ''RP-ConPath'')" "name_ok (ascii ''RP-StartBitrate'')"
  "name_ok (ascii ''RP-StreamingType'')" "name_ok (ascii ''RP-Server-Type'')"
  by (simp_all add: name_ok_def)

lemma request_values:
  "value_ok (ascii ''remoteplay Windows'')" "value_ok (ascii ''keep-alive'')" "value_ok (ascii ''0'')" "value_ok (ascii ''3'')"
  "value_ok (ascii ''11'')" "value_ok (ascii ''1'')"
  by (simp_all add: value_ok_def)

lemma host_value: "set h \<inter> {0, CR, LF} = {} \<Longrightarrow> value_ok (h @ ascii '':9295'')"
  by (auto simp: value_ok_def)

lemma version_string_value: "chiaki_rp_version_string t = Some v \<Longrightarrow> value_ok (ascii v)"
  by (cases t) (auto simp: value_ok_def)

lemma request_headers_ok:
  assumes "length (s_regist_key s) = CHIAKI_RPCRYPT_KEY_SIZE" "length (s_did s) = CHIAKI_RP_DID_SIZE"
    and "chiaki_rp_version_string (s_target s) = Some v" "set (s_hostname s) \<inter> {0, CR, LF} = {}"
    and "\<forall>k < length (ctrl_request_data s). field_sent cr rp (n + of_nat k) (ctrl_request_data s ! k) (txts ! k)"
    and "length txts = length (ctrl_request_data s)"
  shows "\<forall>h \<in> set (ctrl_request_headers s txts). header_ok h"
proof -
  let ?d = "ctrl_request_data s"
  have p: "value_ok (txts ! k)" if "k < length ?d" for k
    using field_sent_value assms(5) request_data_ok [OF assms(1,2)] that nth_mem unfolding value_ok_def by meson
  have t: "value_ok (txts ! 0)" "value_ok (txts ! 1)" "value_ok (txts ! 2)" "ctrl_have_bitrate s \<Longrightarrow> value_ok (txts ! 3)"
    using p [of 0] p [of 1] p [of 2] p [of 3] by (simp_all add: ctrl_request_data_def)
  have "txts \<noteq> []" using assms(6) by (auto simp: ctrl_request_data_def)
  then have tl: "value_ok (last txts)" using p [of "length ?d - 1"] assms(6) by (cases "?d = []") (simp_all add: last_conv_nth)
  show ?thesis
    using t tl unfolding ctrl_request_headers_def assms(3)
    by (cases "ctrl_have_bitrate s"; cases "chiaki_target_is_ps5 (s_target s)")
      (simp_all add: header_ok_pair request_names request_values host_value assms(4) version_string_value [OF assms(3)] del: ascii_simps)
qed

text \<open>
  C37. The request says what it is to say. With known version and a host name without line breaks, all fields are encrypted, one counter
  each, the request has at most 376 bytes besides the host name, and its headers parse so that under the name of each encrypted field there is a
  text that decodes and, with the counter of the field, decrypts to the data of the field.
\<close>

theorem ctrl_request_read_back:
  assumes "rp_crypto_ok cr" "length (s_regist_key s) = CHIAKI_RPCRYPT_KEY_SIZE" "length (s_did s) = CHIAKI_RP_DID_SIZE"
    and "chiaki_rp_version_string (s_target s) = Some v" "set (s_hostname s) \<inter> {0, CR, LF} = {}" "13 \<le> mallocs"
  shows "\<exists>txts headers buf entries.
     ctrl_request_fields cr rp (ctrl_request_data s) c = Some (Inr txts, c\<lparr>c_counter_local := c_counter_local c + of_nat (length (ctrl_request_data s))\<rparr>) \<and>
     length (ctrl_request s txts) \<le> 376 + length (s_hostname s) \<and>
     ctrl_request s txts = ctrl_request_line s @ headers \<and>
     chiaki_http_header_parse mallocs headers = (CHIAKI_ERR_SUCCESS, buf, entries) \<and>
     (\<forall>k < length (ctrl_field_names s). case ctrl_request_data s ! k of (data, sz, _) \<Rightarrow>
        \<exists>txt enc. map_of (header_strings buf entries) (ctrl_field_names s ! k) = Some txt \<and>
          chiaki_base64_decode txt sz = Some (CHIAKI_ERR_SUCCESS, enc, sz) \<and>
          chiaki_rpcrypt_decrypt cr rp (c_counter_local c + of_nat k) enc sz = Some (Inr data))"
proof -
  let ?d = "ctrl_request_data s"
  have "\<forall>field \<in> set ?d. field_ok field" using request_data_ok [OF assms(2,3)] by blast
  then obtain txts where t: "ctrl_request_fields cr rp ?d c = Some (Inr txts, c\<lparr>c_counter_local := c_counter_local c + of_nat (length ?d)\<rparr>)"
      "length txts = length ?d" "\<forall>k < length ?d. field_sent cr rp (c_counter_local c + of_nat k) (?d ! k) (txts ! k)"
    using request_fields_sent [OF assms(1)] by blast
  let ?h = "concat (map header_line (ctrl_request_headers s txts)) @ [CR, LF]"
  have "length (ctrl_request_headers s txts) \<le> mallocs" using assms(6) by (simp add: ctrl_request_headers_def del: ascii_simps)
  then obtain buf es where p: "chiaki_http_header_parse mallocs ?h = (CHIAKI_ERR_SUCCESS, buf, es)" "header_strings buf es = rev (ctrl_request_headers s txts)"
    using parse_lines [OF request_headers_ok [OF assms(2-5) t(3,2)], of mallocs "[]" "[]"] by (auto simp: chiaki_http_header_parse_def)
  have "case ?d ! k of (data, sz, _) \<Rightarrow> \<exists>txt enc. map_of (header_strings buf es) (ctrl_field_names s ! k) = Some txt \<and>
          chiaki_base64_decode txt sz = Some (CHIAKI_ERR_SUCCESS, enc, sz) \<and>
          chiaki_rpcrypt_decrypt cr rp (c_counter_local c + of_nat k) enc sz = Some (Inr data)" if k: "k < length (ctrl_field_names s)" for k
  proof -
    have "map_of (header_strings buf es) (ctrl_field_names s ! k) = Some (txts ! k)"
      using request_header_field [OF k] t(2) length_request_data [of s] p(2) by simp
    moreover have "field_sent cr rp (c_counter_local c + of_nat k) (?d ! k) (txts ! k)" using t(3) k length_request_data [of s] by simp
    ultimately show ?thesis by (auto simp: field_sent_def base64_decode_text split: prod.splits)
  qed
  then show ?thesis
    using t(1) p(1) request_length [OF t(3,2)] ctrl_request_lines [of s txts] by blast
qed

theorem ctrl_request_read_back_witness:
  "\<exists>txts headers buf entries txt enc.
     ctrl_request_fields example_rp_crypto (s_rpcrypt example_session) (ctrl_request_data example_session) example_ctrl =
       Some (Inr txts, example_ctrl\<lparr>c_counter_local := 9\<rparr>) \<and>
     ctrl_request example_session txts = ctrl_request_line example_session @ headers \<and>
     chiaki_http_header_parse 13 headers = (CHIAKI_ERR_SUCCESS, buf, entries) \<and>
     map_of (header_strings buf entries) (ascii ''RP-StreamingType'') = Some txt \<and> chiaki_base64_decode txt 4 = Some (CHIAKI_ERR_SUCCESS, enc, 4) \<and>
     chiaki_rpcrypt_decrypt example_rp_crypto (s_rpcrypt example_session) 8 enc 4 = Some (Inr [1, 0, 0, 0])"
proof -
  have cr: "rp_crypto_ok example_rp_crypto" using example_env_ok by (simp add: env_ok_def example_ctrl_env_def)
  have t: "s_target example_session = CHIAKI_TARGET_PS5_1" "c_counter_local example_ctrl = 4" by (simp_all add: example_session_def example_ctrl_def)
  have b: "ctrl_have_bitrate example_session" by (simp add: ctrl_have_bitrate_def t target_order)
  have d: "length (ctrl_request_data example_session) = 5" "length (ctrl_field_names example_session) = 5"
    "ctrl_request_data example_session ! 4 = ([1, 0, 0, 0], 4, 256)" "ctrl_field_names example_session ! 4 = ascii ''RP-StreamingType''"
    by (simp_all add: ctrl_request_data_def ctrl_field_names_def b t target_is_ps5_iff streaming_type_def del: ascii_simps)
      (simp add: example_session_def chiaki_connect_video_profile_preset_def)
  have "length (s_regist_key example_session) = CHIAKI_RPCRYPT_KEY_SIZE" "length (s_did example_session) = CHIAKI_RP_DID_SIZE"
    "chiaki_rp_version_string (s_target example_session) = Some ''1.0''" "set (s_hostname example_session) \<inter> {0, CR, LF} = {}" "13 \<le> (13 :: nat)"
    by (simp_all add: example_session_def)
  from ctrl_request_read_back [OF cr this, of "s_rpcrypt example_session" example_ctrl]
  obtain txts headers buf entries where
    "ctrl_request_fields example_rp_crypto (s_rpcrypt example_session) (ctrl_request_data example_session) example_ctrl =
       Some (Inr txts, example_ctrl\<lparr>c_counter_local := 9\<rparr>)"
    "ctrl_request example_session txts = ctrl_request_line example_session @ headers"
    "chiaki_http_header_parse 13 headers = (CHIAKI_ERR_SUCCESS, buf, entries)"
    and k: "\<forall>k < 5. case ctrl_request_data example_session ! k of (data, sz, _) \<Rightarrow>
        \<exists>txt enc. map_of (header_strings buf entries) (ctrl_field_names example_session ! k) = Some txt \<and>
          chiaki_base64_decode txt sz = Some (CHIAKI_ERR_SUCCESS, enc, sz) \<and>
          chiaki_rpcrypt_decrypt example_rp_crypto (s_rpcrypt example_session) (4 + of_nat k) enc sz = Some (Inr data)"
    unfolding d(1,2) t(2) by (simp del: ascii_simps) blast
  moreover have "\<exists>txt enc. map_of (header_strings buf entries) (ascii ''RP-StreamingType'') = Some txt \<and>
      chiaki_base64_decode txt 4 = Some (CHIAKI_ERR_SUCCESS, enc, 4) \<and>
      chiaki_rpcrypt_decrypt example_rp_crypto (s_rpcrypt example_session) 8 enc 4 = Some (Inr [1, 0, 0, 0])"
    using k [rule_format, of 4] by (simp add: d del: ascii_simps)
  ultimately show ?thesis by blast
qed

section \<open>The response is understood\<close>

text \<open>The first blank line of lines.\<close>

lemma header_end_line:
  "LF \<notin> set l \<Longrightarrow> take 2 ys \<noteq> [CR, LF] \<Longrightarrow> header_end (l @ CR # LF # ys) = map_option (\<lambda>n. n + length l + 2) (header_end ys)"
proof (induction l)
  case Nil
  have "take 2 ys = [CR, LF]" if "take 4 (CR # LF # ys) = blank_line" using that by (simp add: eval_nat_numeral)
  then show ?case using Nil by (cases "header_end ys") auto
next
  case (Cons x l)
  have "take 4 (x # l @ CR # LF # ys) \<noteq> blank_line" using Cons.prems by (cases l) (auto simp: eval_nat_numeral)
  then show ?case using Cons by (cases "header_end ys") auto
qed

lemma header_end_blank: "LF \<notin> set l \<Longrightarrow> header_end (l @ blank_line @ ys) = Some (length l + 4)"
proof (induction l)
  case (Cons x l)
  have "take 4 (x # l @ blank_line @ ys) \<noteq> blank_line" using Cons.prems by (cases l) (auto simp: eval_nat_numeral)
  then show ?case using Cons by auto
qed simp

lemma header_end_lines:
  "LF \<notin> set l \<Longrightarrow> \<forall>l \<in> set ls. l \<noteq> [] \<and> LF \<notin> set l \<Longrightarrow>
   header_end (l @ [CR, LF] @ concat (map (\<lambda>l. l @ [CR, LF]) ls) @ [CR, LF] @ ys) =
     Some (length (l @ [CR, LF] @ concat (map (\<lambda>l. l @ [CR, LF]) ls) @ [CR, LF]))"
proof (induction ls arbitrary: l)
  case Nil
  then show ?case using header_end_blank [of l ys] by simp
next
  case (Cons m ls)
  have "take 2 (m @ CR # LF # more) \<noteq> [CR, LF]" for more
    using Cons.prems(2) by (cases m; cases "tl m") (auto simp: eval_nat_numeral)
  then show ?case
    using header_end_line [OF Cons.prems(1)] Cons.IH [of m] Cons.prems(2) by simp
qed

lemma response_end:
  assumes "\<forall>h \<in> set hs. header_ok h" "\<forall>d \<in> set digits. c_isdigit d" "LF \<notin> set reason"
  shows "header_end (response_text digits reason hs @ rest) = Some (length (response_text digits reason hs))"
proof -
  let ?l = "http_version @ digits @ SPACE # reason" and ?ls = "map (\<lambda>h. fst h @ [COLON, SPACE] @ snd h) hs"
  have "LF \<notin> set ?l" using assms(2,3) digit_not_special by (auto simp: http_version_def)
  moreover have "\<forall>l \<in> set ?ls. l \<noteq> [] \<and> LF \<notin> set l" using assms(1) by (fastforce simp: header_ok_def)
  moreover have "header_line = (\<lambda>h. fst h @ [COLON, SPACE] @ snd h @ [CR, LF])" by (rule ext) (simp add: header_line_def)
  then have "concat (map header_line hs) = concat (map (\<lambda>l. l @ [CR, LF]) ?ls)" by (simp add: comp_def)
  then have "response_text digits reason hs = ?l @ [CR, LF] @ concat (map (\<lambda>l. l @ [CR, LF]) ?ls) @ [CR, LF]"
    by (simp add: response_text_def)
  ultimately show ?thesis using header_end_lines [of ?l ?ls rest] by simp
qed

text \<open>The decoder stops at the padding.\<close>

lemma base64_d_padding: "base64_d ! unat (0x3d :: u8) = 65"
  by (simp add: base64_d_def)

lemma decode_loop_padding: "base64_decode_loop m (xs @ 0x3d # ys) it b out = base64_decode_loop m (xs @ 0x3d # zs) it b out"
proof (induction xs arbitrary: it b out)
  case Nil
  show ?case using base64_d_padding by simp
next
  case (Cons x xs)
  show ?case unfolding append_Cons base64_decode_loop.simps(2) Let_def Cons.IH by (rule refl)
qed

lemma decode_server_type:
  assumes "length enc = 0x10"
  shows "chiaki_base64_decode (base64_text enc @ [0]) 0x10 = Some (CHIAKI_ERR_SUCCESS, enc, 0x10)"
proof -
  have "(3 - length enc mod 3) mod 3 = Suc (Suc 0)" using assms by simp
  then have t: "base64_text enc = base64_digits enc @ [0x3d, 0x3d]" by (simp only: base64_text_def replicate.simps)
  have "chiaki_base64_decode (base64_text enc @ [0]) 0x10 = chiaki_base64_decode (base64_text enc) 0x10"
    unfolding chiaki_base64_decode_def t append_assoc append_Cons append_Nil
    using decode_loop_padding [of "0x10" "base64_digits enc" "[0x3d, 0]" 0 0 "[]" "[0x3d]"] by (rule arg_cong)
  then show ?thesis using base64_decode_text [of enc "0x10"] assms by simp
qed

lemma parse_server_type_none: "filter (\<lambda>h. fst h = ascii ''RP-Server-Type'') hs = [] \<Longrightarrow> parse_server_type hs r = Some r"
  by (induction hs r rule: parse_server_type.induct) (auto split: if_splits)

lemma parse_server_type_one:
  assumes "filter (\<lambda>h. fst h = ascii ''RP-Server-Type'') hs = [(k, base64_text enc)]" "length enc = 0x10" "length z = 0x10"
  shows "parse_server_type hs (valid, z) = Some (True, enc)"
  using assms(1)
proof (induction hs)
  case (Cons h hs)
  obtain key val where h: "h = (key, val)" by fastforce
  show ?case
  proof (cases "key = ascii ''RP-Server-Type''")
    case True
    then have "filter (\<lambda>h. fst h = ascii ''RP-Server-Type'') (h # hs) = (key, val) # filter (\<lambda>h. fst h = ascii ''RP-Server-Type'') hs"
      by (simp add: h del: ascii_simps)
    with Cons.prems have v: "val = base64_text enc" and n: "filter (\<lambda>h. fst h = ascii ''RP-Server-Type'') hs = []" by simp_all
    show ?thesis
      unfolding h parse_server_type.simps if_P [OF True] v decode_server_type [OF assms(2)]
      using parse_server_type_none [OF n] assms(2,3) by simp
  next
    case False
    then show ?thesis using Cons by (simp add: h del: ascii_simps)
  qed
qed simp

text \<open>The connection has been made, the other threads having left the state \<open>st'\<close>.\<close>

definition cn_connected :: "connect_env \<Rightarrow> ctrl_state \<Rightarrow> ctrl_state \<Rightarrow> bool" where
  "cn_connected cn st st' \<longleftrightarrow>
     cn_alloc cn \<and> (cn_family cn = AF_INET \<or> cn_family cn = AF_INET6) \<and> cn_socket cn \<and>
     cn_during cn ((fst st)\<lparr>c_counter_local := 0, c_counter_remote := 0\<rparr>, snd st) = st' \<and>
     chiaki_stop_pipe_connect (c_notif_pipe (fst st')) (cn_connect_r cn) (cn_select cn) (cn_ready cn) (cn_peer_r cn) (cn_sockerr cn) = CHIAKI_ERR_SUCCESS"

lemma ctrl_connect_connected: "cn_connected cn st st' \<Longrightarrow> ctrl_connect env cn st = ctrl_connect_request env cn st'"
  by (auto simp: cn_connected_def ctrl_connect_def Let_def split: prod.splits)

text \<open>A console's answer: status 200, well-formed headers and among them one with the encrypted type of the console.\<close>

definition server_response :: "bytes \<Rightarrow> (bytes \<times> bytes) list \<Rightarrow> bytes \<Rightarrow> bool" where
  "server_response reason hs enc \<longleftrightarrow>
     LF \<notin> set reason \<and> (\<forall>h \<in> set hs. header_ok h) \<and> length enc = 0x10 \<and>
     filter (\<lambda>h. fst h = ascii ''RP-Server-Type'') hs = [(ascii ''RP-Server-Type'', base64_text enc)]"

lemma longer_prefix: "xs @ ys = r @ rest \<Longrightarrow> length r \<le> length xs \<Longrightarrow> \<exists>more. xs = r @ more"
  by (auto simp: append_eq_append_conv2)

text \<open>Whatever parts it arrives in, a response is received to the end of its headers.\<close>

lemma recv_response:
  assumes "\<forall>h \<in> set hs. header_ok h" "\<forall>d \<in> set digits. c_isdigit d" "LF \<notin> set reason"
    and "\<forall>d \<in> set ds. d \<noteq> []" "length (concat ds) \<le> n" "concat ds = response_text digits reason hs @ rest"
  shows "\<exists>j < length ds. \<exists>more. response_text digits reason hs @ more = concat (take (Suc j) ds) \<and> length (response_text digits reason hs @ more) \<le> n \<and>
     chiaki_recv_http_header stop n (map recv_ok ds) =
       Some (Http_Done CHIAKI_ERR_SUCCESS (response_text digits reason hs @ more) (length (response_text digits reason hs)))"
proof -
  let ?r = "response_text digits reason hs"
  have e: "header_end (concat ds) = Some (length ?r)" using response_end [OF assms(1-3), of rest] assms(6) by simp
  have "\<exists>j < length ds. chiaki_recv_http_header stop n (map recv_ok ds) = Some (Http_Done CHIAKI_ERR_SUCCESS (concat (take (Suc j) ds)) (length ?r)) \<and>
      length (concat (take j ds)) < length ?r \<and> length ?r \<le> length (concat (take (Suc j) ds))"
    using recv_header_found [OF assms(4,5), of stop] unfolding e option.case .
  then obtain j where j: "j < length ds" "length ?r \<le> length (concat (take (Suc j) ds))"
      "chiaki_recv_http_header stop n (map recv_ok ds) = Some (Http_Done CHIAKI_ERR_SUCCESS (concat (take (Suc j) ds)) (length ?r))"
    by blast
  have c: "concat ds = concat (take (Suc j) ds) @ concat (drop (Suc j) ds)" by (metis append_take_drop_id concat_append)
  then obtain more where more: "concat (take (Suc j) ds) = ?r @ more"
    using longer_prefix [of "concat (take (Suc j) ds)" "concat (drop (Suc j) ds)" ?r rest] assms(6) j(2) by auto
  have "length (?r @ more) \<le> n" using c more assms(5) by simp
  then show ?thesis using j more by (intro exI [of _ j]) auto
qed

lemma ctrl_connect_response_ok:
  assumes "server_response reason hs enc" "length hs \<le> cn_mallocs cn"
    and "chiaki_rpcrypt_decrypt (ce_crypto env) (s_rpcrypt s) (c_counter_remote c) enc 0x10 = Some (Inr t)"
    and "length (c_recv_buf c) = CTRL_RECV_BUF_SIZE"
    and "cn_inputs cn = map recv_ok ds" "\<forall>d \<in> set ds. d \<noteq> []" "length (concat ds) \<le> CTRL_HTTP_BUF_SIZE"
    and "concat ds = response_text (ascii ''200'') reason hs @ rest"
  shows "\<exists>j < length ds. \<exists>recv_buf more.
     response_text (ascii ''200'') reason hs @ more = concat (take (Suc j) ds) \<and>
     recv_buf = more @ drop (length more) (c_recv_buf c) \<and>
     ctrl_connect_response env cn (c, s) =
       Some (Connect_Done, (c\<lparr>c_counter_remote := c_counter_remote c + 1, c_recv_buf := recv_buf, c_recv_buf_size := length more\<rparr>, ctrl_downgrade (hd t) s), [])"
proof -
  let ?r = "response_text (ascii ''200'') reason hs"
  have h: "LF \<notin> set reason" "\<forall>h \<in> set hs. header_ok h" "length enc = 0x10"
    and f: "filter (\<lambda>h. fst h = ascii ''RP-Server-Type'') (rev hs) = [(ascii ''RP-Server-Type'', base64_text enc)]"
    using assms(1) by (simp_all add: server_response_def flip: rev_filter)
  have dg: "\<forall>d \<in> set (ascii ''200''). c_isdigit d" "digits_value (ascii ''200'') = 200"
    by (simp_all add: c_isdigit_def digits_value_def)
  obtain j more where j: "j < length ds" "?r @ more = concat (take (Suc j) ds)" "length (?r @ more) \<le> CTRL_HTTP_BUF_SIZE"
      "chiaki_recv_http_header True CTRL_HTTP_BUF_SIZE (cn_inputs cn) = Some (Http_Done CHIAKI_ERR_SUCCESS (?r @ more) (length ?r))"
    using recv_response [OF h(2) dg(1) h(1) assms(6-8), of True] unfolding assms(5) by blast
  have m: "length more \<le> CTRL_RECV_BUF_SIZE" using j(3) by simp
  obtain buf entries where p: "chiaki_http_response_parse (cn_mallocs cn) ?r = (CHIAKI_ERR_SUCCESS, 200, buf, entries)" "header_strings buf entries = rev hs"
    using http_response_parsed [OF h(2) assms(2) dg(1) _ _ h(1)] dg(2) by auto
  have ps: "parse_ctrl_response 200 (rev hs) = Some (True, True, enc)"
    using parse_server_type_one [OF f h(3), of "replicate 0x10 0" False] by (simp add: parse_ctrl_response_def)
  have st: "store_bytes (c_recv_buf c) 0 more = Some (more @ drop (length more) (c_recv_buf c))"
    using m assms(4) by (simp add: store_bytes_def)
  have "ctrl_connect_response env cn (c, s) =
       Some (Connect_Done, (c\<lparr>c_counter_remote := c_counter_remote c + 1, c_recv_buf := more @ drop (length more) (c_recv_buf c), c_recv_buf_size := length more\<rparr>, ctrl_downgrade (hd t) s), [])"
    using p ps st by (simp add: ctrl_connect_response_def j(4) ctrl_server_type_def assms(3))
  then show ?thesis using j(1,2) by (intro exI [of _ j]) auto
qed

text \<open>
  C12. The connection is established. Connected to a console that answers, in whatever parts, with status 200, well-formed headers and its encrypted
  type, the function sends its request and succeeds: the video profile is reduced as the type demands, the counters have advanced by the number
  of fields and by one, and what has already been received after the headers is at the beginning of the buffer of received messages.
\<close>

theorem ctrl_connect_established:
  assumes "cn_connected cn st (c, s)" "rp_crypto_ok (ce_crypto env)" "cn_send cn = Some n"
    and "length (s_regist_key s) = CHIAKI_RPCRYPT_KEY_SIZE" "length (s_did s) = CHIAKI_RP_DID_SIZE" "length (s_hostname s) < 136"
    and "server_response reason hs enc" "length hs \<le> cn_mallocs cn" "length (c_recv_buf c) = CTRL_RECV_BUF_SIZE"
    and "chiaki_rpcrypt_decrypt (ce_crypto env) (s_rpcrypt s) (c_counter_remote c) enc 0x10 = Some (Inr t)"
    and "cn_inputs cn = map recv_ok ds" "\<forall>d \<in> set ds. d \<noteq> []" "length (concat ds) \<le> CTRL_HTTP_BUF_SIZE"
    and "concat ds = response_text (ascii ''200'') reason hs @ rest"
  shows "\<exists>j < length ds. \<exists>txts more.
     response_text (ascii ''200'') reason hs @ more = concat (take (Suc j) ds) \<and>
     ctrl_connect env cn st = Some (Connect_Done,
       (c\<lparr>c_counter_local := c_counter_local c + of_nat (length (ctrl_request_data s)), c_counter_remote := c_counter_remote c + 1,
         c_recv_buf := more @ drop (length more) (c_recv_buf c), c_recv_buf_size := length more\<rparr>, ctrl_downgrade (hd t) s),
       [Conn_Out (Ctrl_Wire (take n (ctrl_request s txts)))])"
proof -
  let ?d = "ctrl_request_data s" and ?c = "c\<lparr>c_counter_local := c_counter_local c + of_nat (length (ctrl_request_data s))\<rparr>"
  have "\<forall>field \<in> set ?d. field_ok field" using request_data_ok [OF assms(4,5)] by blast
  then obtain txts where tx: "ctrl_request_fields (ce_crypto env) (s_rpcrypt s) ?d c = Some (Inr txts, ?c)"
      "length txts = length ?d" "\<forall>k < length ?d. field_sent (ce_crypto env) (s_rpcrypt s) (c_counter_local c + of_nat k) (?d ! k) (txts ! k)"
    using request_fields_sent [OF assms(2)] by blast
  have l: "length (ctrl_request s txts) < CTRL_HTTP_BUF_SIZE" using request_length [OF tx(3,2)] assms(6) by simp
  obtain j more where r: "j < length ds" "response_text (ascii ''200'') reason hs @ more = concat (take (Suc j) ds)"
      "ctrl_connect_response env cn (?c, s) = Some (Connect_Done, (?c\<lparr>c_counter_remote := c_counter_remote ?c + 1, c_recv_buf := more @ drop (length more) (c_recv_buf ?c),
         c_recv_buf_size := length more\<rparr>, ctrl_downgrade (hd t) s), [])"
    using ctrl_connect_response_ok [OF assms(7,8), of env s ?c t ds rest] assms by auto
  have "ctrl_connect env cn st = Some (Connect_Done,
       (c\<lparr>c_counter_local := c_counter_local c + of_nat (length (ctrl_request_data s)), c_counter_remote := c_counter_remote c + 1,
         c_recv_buf := more @ drop (length more) (c_recv_buf c), c_recv_buf_size := length more\<rparr>, ctrl_downgrade (hd t) s),
       [Conn_Out (Ctrl_Wire (take n (ctrl_request s txts)))])"
    using l r(3) by (simp add: ctrl_connect_connected [OF assms(1)] ctrl_connect_request_def tx(1) assms(3) Let_def)
  then show ?thesis using r(1,2) by blast
qed

definition example_response :: bytes where
  "example_response = response_text (ascii ''200'') (ascii ''OK'') [(ascii ''RP-Server-Type'', base64_text (replicate 0x10 0x55))]"

definition example_connect_env :: connect_env where
  "example_connect_env =
     \<lparr>cn_alloc = True, cn_family = AF_INET, cn_socket = True, cn_during = (\<lambda>st. st), cn_connect_r = None, cn_select = 1, cn_ready = True, cn_peer_r = None,
      cn_sockerr = None, cn_send = Some 512, cn_inputs = map recv_ok [example_response @ [9]], cn_mallocs = 5\<rparr>"

definition example_ps4_session :: session where
  "example_ps4_session = example_session\<lparr>s_target := CHIAKI_TARGET_PS4_10,
     s_video_profile := chiaki_connect_video_profile_preset CHIAKI_VIDEO_RESOLUTION_PRESET_1080p CHIAKI_VIDEO_FPS_PRESET_60\<rparr>"

theorem ctrl_connect_established_witness:
  "\<exists>txts. ctrl_connect example_ctrl_env example_connect_env (example_ctrl, example_ps4_session) = Some (Connect_Done,
     (example_ctrl\<lparr>c_counter_local := 4, c_counter_remote := 1, c_recv_buf := 9 # replicate 511 0, c_recv_buf_size := 1\<rparr>,
      example_ps4_session\<lparr>s_video_profile := chiaki_connect_video_profile_preset CHIAKI_VIDEO_RESOLUTION_PRESET_720p CHIAKI_VIDEO_FPS_PRESET_60\<rparr>),
     [Conn_Out (Ctrl_Wire (take 512 (ctrl_request example_ps4_session txts)))])"
proof -
  let ?c = "example_ctrl\<lparr>c_counter_local := 0, c_counter_remote := 0\<rparr>" and ?enc = "replicate 0x10 0x55 :: bytes" and ?s = example_ps4_session
  let ?hs = "[(ascii ''RP-Server-Type'', base64_text ?enc)]"
  have cr: "rp_crypto_ok (ce_crypto example_ctrl_env)" using example_env_ok by (simp add: env_ok_def)
  have con: "cn_connected example_connect_env (example_ctrl, ?s) (?c, ?s)"
    by (simp add: cn_connected_def example_connect_env_def chiaki_stop_pipe_connect_def)
  have send: "cn_send example_connect_env = Some 512" by (simp add: example_connect_env_def)
  have lens: "length (s_regist_key ?s) = CHIAKI_RPCRYPT_KEY_SIZE" "length (s_did ?s) = CHIAKI_RP_DID_SIZE" "length (s_hostname ?s) < 136"
    by (simp_all add: example_ps4_session_def example_session_def)
  have sr: "server_response (ascii ''OK'') ?hs ?enc"
    using base64_text_plain [of ?enc] length_base64_text [of ?enc]
    by (auto simp: server_response_def header_ok_pair request_names value_ok_def simp del: ascii_simps) (simp add: ascii_def)
  have mal: "length ?hs \<le> cn_mallocs example_connect_env" by (simp add: example_connect_env_def)
  have buf: "length (c_recv_buf ?c) = CTRL_RECV_BUF_SIZE" by (simp add: example_ctrl_def)
  have dec: "chiaki_rpcrypt_decrypt (ce_crypto example_ctrl_env) (s_rpcrypt ?s) (c_counter_remote ?c) ?enc 0x10 = Some (Inr (replicate 0x10 0))"
    by (simp add: example_ctrl_env_def example_rp_crypto_def chiaki_rpcrypt_decrypt_def chiaki_rpcrypt_crypt_def chiaki_rpcrypt_generate_iv_def load_bytes_def)
  have inp: "cn_inputs example_connect_env = map recv_ok [example_response @ [9]]" "\<forall>d \<in> set [example_response @ [9]]. d \<noteq> []"
    by (simp_all add: example_connect_env_def)
  have len: "length (concat [example_response @ [9]]) \<le> CTRL_HTTP_BUF_SIZE"
    by (simp add: example_response_def response_text_def header_line_def length_base64_text http_version_def del: ascii_simps)
  have r: "concat [example_response @ [9]] = response_text (ascii ''200'') (ascii ''OK'') ?hs @ [9]" by (simp add: example_response_def)
  have d: "length (ctrl_request_data ?s) = 4" "ctrl_downgrade 0 ?s = ?s\<lparr>s_video_profile := chiaki_connect_video_profile_preset CHIAKI_VIDEO_RESOLUTION_PRESET_720p CHIAKI_VIDEO_FPS_PRESET_60\<rparr>"
    by (simp_all add: ctrl_request_data_def ctrl_have_bitrate_def ctrl_downgrade_def example_ps4_session_def target_order target_is_ps5_iff
        example_session_def chiaki_connect_video_profile_preset_def)
  obtain txts more where "example_response @ more = example_response @ [9]"
    "ctrl_connect example_ctrl_env example_connect_env (example_ctrl, ?s) = Some (Connect_Done,
       (?c\<lparr>c_counter_local := c_counter_local ?c + of_nat (length (ctrl_request_data ?s)), c_counter_remote := c_counter_remote ?c + 1,
         c_recv_buf := more @ drop (length more) (c_recv_buf ?c), c_recv_buf_size := length more\<rparr>, ctrl_downgrade (hd (replicate 0x10 0)) ?s),
       [Conn_Out (Ctrl_Wire (take 512 (ctrl_request ?s txts)))])"
    using ctrl_connect_established [OF con cr send lens sr mal buf dec inp len r] by (auto simp: example_response_def simp del: ascii_simps)
  then show ?thesis by (auto simp: d example_ctrl_def)
qed

section \<open>Failures\<close>

lemma ctrl_connect_response_err: "ctrl_connect_response env cn st = Some (Connect_Failed err, st', outs) \<Longrightarrow> err \<noteq> CHIAKI_ERR_SUCCESS"
  by (auto simp: ctrl_connect_response_def split: http_recv.splits if_splits prod.splits Option.bind_split_asm)

lemma crypt_err: "chiaki_rpcrypt_crypt cr rp n p sz e \<noteq> Some (Inl CHIAKI_ERR_SUCCESS)"
  by (auto simp: chiaki_rpcrypt_crypt_def chiaki_rpcrypt_generate_iv_def Let_def split: sum.splits option.splits if_splits Option.bind_split_asm)

lemma request_field_err: "ctrl_request_field cr rp field c \<noteq> Some (Inl CHIAKI_ERR_SUCCESS, c')"
  using crypt_err
  by (auto simp: ctrl_request_field_def chiaki_rpcrypt_encrypt_def Let_def split: prod.splits sum.splits if_splits Option.bind_split_asm)

lemma map_sum_Inl: "map_sum id g r = Inl e \<longleftrightarrow> r = Inl e"
  by (cases r) auto

lemma request_fields_err: "ctrl_request_fields cr rp fs c \<noteq> Some (Inl CHIAKI_ERR_SUCCESS, c')"
proof (induction fs arbitrary: c)
  case (Cons field fs)
  then show ?case by (auto simp: map_sum_Inl request_field_err split: sum.splits Option.bind_split_asm)
qed simp

text \<open>
  C38. How a failed connection is reported. If the function returns an error, the session ends with the reason \<open>CTRL_CONNECT_FAILED\<close>, a more precise
  one that the function has set being overwritten. If the request does not fit into its buffer or cannot be sent, and in no other case, a
  failure is returned as success: the thread goes on with a socket that was never assigned, the new one being closed.
\<close>

theorem ctrl_connect_failure:
  assumes "ctrl_connect env cn st = Some (Connect_Failed err, (c, s), outs)"
  shows "if err \<noteq> CHIAKI_ERR_SUCCESS
     then ctrl_thread_start env cn st =
       Some (Thread_Ended, (c, s\<lparr>s_quit_reason := CHIAKI_QUIT_REASON_CTRL_CONNECT_FAILED, s_ctrl_failed := True\<rparr>), outs @ [Conn_Out Ctrl_Signal])
     else (\<exists>c' txts. cn_connected cn st (c', s) \<and> ctrl_request_fields (ce_crypto env) (s_rpcrypt s) (ctrl_request_data s) c' = Some (Inr txts, c) \<and>
         (CTRL_HTTP_BUF_SIZE \<le> length (ctrl_request s txts) \<or> cn_send cn = None)) \<and>
       outs = [Conn_Close] \<and>
       ctrl_thread_start env cn st =
         map_option (\<lambda>(loop, st, outs'). (Thread_Running False loop, st, Conn_Close # map Conn_Out outs')) (ctrl_loop_head env (c, s))"
proof (cases "err = CHIAKI_ERR_SUCCESS")
  case False
  then show ?thesis using assms by (simp add: ctrl_thread_start_def ctrl_failed_def)
next
  case True
  let ?st = "((fst st)\<lparr>c_counter_local := 0, c_counter_remote := 0\<rparr>, snd st)"
  obtain c' s' where d: "cn_during cn ?st = (c', s')" by fastforce
  have con: "cn_connected cn st (c', s')" and r: "ctrl_connect_request env cn (c', s') = Some (Connect_Failed CHIAKI_ERR_SUCCESS, (c, s), outs)"
    using assms True d by (auto simp: ctrl_connect_def cn_connected_def Let_def ctrl_failed_def split: if_splits)
  have "s' = s \<and> (\<exists>txts. ctrl_request_fields (ce_crypto env) (s_rpcrypt s) (ctrl_request_data s) c' = Some (Inr txts, c) \<and>
      (CTRL_HTTP_BUF_SIZE \<le> length (ctrl_request s txts) \<or> cn_send cn = None)) \<and> outs = [Conn_Close]"
  proof -
    obtain f c1 where f: "ctrl_request_fields (ce_crypto env) (s_rpcrypt s') (ctrl_request_data s') c' = Some (f, c1)"
      using r by (auto simp: ctrl_connect_request_def split: Option.bind_split_asm)
    obtain txts where tx: "f = Inr txts" using r f request_fields_err by (cases f) (auto simp: ctrl_connect_request_def request_fields_err)
    note tx1 = f [unfolded tx]
    have "c1 = c \<and> s' = s \<and> outs = [Conn_Close] \<and> (CTRL_HTTP_BUF_SIZE \<le> length (ctrl_request s txts) \<or> cn_send cn = None)"
      using r by (auto simp: ctrl_connect_request_def tx1 Let_def dest: ctrl_connect_response_err split: if_splits option.splits Option.bind_split_asm)
    then show ?thesis using tx1 by auto
  qed
  then show ?thesis
    using con True assms
    by (cases "ctrl_loop_head env (c, s)") (auto simp: ctrl_thread_start_def)
qed

theorem ctrl_connect_failure_witness:
  "ctrl_thread_start example_ctrl_env (example_connect_env\<lparr>cn_connect_r := Some ECONNREFUSED\<rparr>) (example_ctrl, example_session) =
     Some (Thread_Ended,
       (example_ctrl\<lparr>c_counter_local := 0, c_counter_remote := 0\<rparr>,
        example_session\<lparr>s_quit_reason := CHIAKI_QUIT_REASON_CTRL_CONNECT_FAILED, s_ctrl_failed := True\<rparr>),
       [Conn_Out Ctrl_Signal, Conn_Close, Conn_Out Ctrl_Signal])"
proof -
  have "ctrl_connect example_ctrl_env (example_connect_env\<lparr>cn_connect_r := Some ECONNREFUSED\<rparr>) (example_ctrl, example_session) =
     Some (Connect_Failed CHIAKI_ERR_CONNECTION_REFUSED,
       (example_ctrl\<lparr>c_counter_local := 0, c_counter_remote := 0\<rparr>,
        example_session\<lparr>s_quit_reason := CHIAKI_QUIT_REASON_CTRL_CONNECTION_REFUSED, s_ctrl_failed := True\<rparr>),
       [Conn_Out Ctrl_Signal, Conn_Close])"
    by (simp add: ctrl_connect_def example_connect_env_def chiaki_stop_pipe_connect_def ctrl_failed_def)
  from ctrl_connect_failure [OF this] show ?thesis by simp
qed

text \<open>When the wait for the connection is canceled, the socket is closed twice.\<close>

lemma connect_canceled_closes_twice:
  assumes "cn_alloc cn" "cn_family cn = AF_INET" "cn_socket cn"
    and "cn_during cn ((fst st)\<lparr>c_counter_local := 0, c_counter_remote := 0\<rparr>, snd st) = (c, s)" "0 < c_notif_pipe c" "0 \<le> cn_select cn"
    and "cn_connect_r cn = Some EINPROGRESS"
  shows "ctrl_connect env cn st = Some (Connect_Failed CHIAKI_ERR_CANCELED, (c, s), [Conn_Close, Conn_Close])"
  using assms by (simp add: ctrl_connect_def chiaki_stop_pipe_connect_def chiaki_stop_pipe_select_single_def)

end
