(* ===== verification/Session_Ends.thy ===== *)
theory Session_Ends
  imports Session Ctrl_Connect_Ends
begin

text \<open>
  The properties of a session.
\<close>

section \<open>Sockets\<close>

lemma session_op_frame [simp]:
  "s_target (session_act a s) = s_target s" "s_ps5 (session_act a s) = s_ps5 s" "s_hostname (session_act a s) = s_hostname s"
  "s_nonce (session_act a s) = s_nonce s" "s_quit_reason (session_act a s) = s_quit_reason s"
  by (cases a; simp add: chiaki_session_stop_def chiaki_session_set_login_pin_def)+

lemma session_ops_frame [simp]:
  "s_target (fold session_act as s) = s_target s" "s_ps5 (fold session_act as s) = s_ps5 s" "s_hostname (fold session_act as s) = s_hostname s"
  "s_nonce (fold session_act as s) = s_nonce s" "s_quit_reason (fold session_act as s) = s_quit_reason s"
  by (induction as arbitrary: s) simp_all

fun open_sockets :: "request_out list \<Rightarrow> int" where
  "open_sockets [] = 0"
| "open_sockets (Req_Open # outs) = 1 + open_sockets outs"
| "open_sockets (Req_Close # outs) = open_sockets outs - 1"
| "open_sockets (Req_Sent b # outs) = open_sockets outs"

lemma open_sockets_append [simp]: "open_sockets (xs @ ys) = open_sockets xs + open_sockets ys"
  by (induction xs rule: open_sockets.induct) auto

text \<open>One address: it is skipped, tried in vain or connected.\<close>

lemma session_connect_cases:
  "(\<exists>s1. s_target s1 = s_target s \<and> session_connect (ad # ads) s = session_connect ads s1) \<or>
   (\<exists>s1. s_target s1 = s_target s \<and> session_connect (ad # ads) s = (case session_connect ads s1 of (connected, s, outs) \<Rightarrow> (connected, s, [Req_Open, Req_Close] @ outs))) \<or>
   (\<exists>s1. s_target s1 = s_target s \<and> session_connect (ad # ads) s = (False, s1, [Req_Open, Req_Close])) \<or>
   (\<exists>s1. s_target s1 = s_target s \<and> session_connect (ad # ads) s = (True, s1, [Req_Open]))"
proof -
  let ?s = "s\<lparr>s_hostname := (case ad_name ad of Some name \<Rightarrow> name | None \<Rightarrow> ascii ''unknown'')\<rparr>"
  let ?s1 = "fold session_act (ad_during ad) ?s"
  let ?err = "chiaki_stop_pipe_connect (s_stop_pipe ?s1) (ad_connect_r ad) (ad_select ad) (ad_ready ad) (ad_peer_r ad) (ad_sockerr ad)"
  consider "\<not> ad_alloc ad" | "ad_alloc ad" "ad_family ad \<noteq> AF_INET \<and> ad_family ad \<noteq> AF_INET6"
    | "ad_alloc ad" "\<not> (ad_family ad \<noteq> AF_INET \<and> ad_family ad \<noteq> AF_INET6)" "\<not> ad_socket ad"
    | "ad_alloc ad" "\<not> (ad_family ad \<noteq> AF_INET \<and> ad_family ad \<noteq> AF_INET6)" "ad_socket ad" by blast
  then show ?thesis
  proof cases
    case 4
    have t: "s_target ?s1 = s_target s" by simp
    have e: "session_connect (ad # ads) s =
      (if ?err = CHIAKI_ERR_CANCELED then (False, ?s1\<lparr>s_quit_reason := CHIAKI_QUIT_REASON_STOPPED\<rparr>, [Req_Open, Req_Close])
          else if ?err \<noteq> CHIAKI_ERR_SUCCESS then
            (case session_connect ads (?s1\<lparr>s_quit_reason := (if ?err = CHIAKI_ERR_CONNECTION_REFUSED
                 then CHIAKI_QUIT_REASON_SESSION_REQUEST_CONNECTION_REFUSED else CHIAKI_QUIT_REASON_NONE)\<rparr>) of
               (connected, s, outs) \<Rightarrow> (connected, s, [Req_Open, Req_Close] @ outs))
          else (True, ?s1, [Req_Open]))"
      by (simp only: session_connect.simps(2) Let_def 4 not_True_eq_False if_False)
    have u: "s_target (?s1\<lparr>s_quit_reason := r\<rparr>) = s_target s" for r using t by simp
    show ?thesis unfolding e using t u by (simp only: split: if_split) blast
  next
    case 3
    then have "session_connect (ad # ads) s = session_connect ads ?s" by (simp only: session_connect.simps(2) Let_def not_True_eq_False if_False simp_thms if_True)
    then show ?thesis by (intro disjI1 exI [of _ ?s]) simp
  qed auto
qed

lemma session_connect_sockets:
  "session_connect ads s = (connected, s', outs) \<Longrightarrow> open_sockets outs = (if connected then 1 else 0) \<and> s_target s' = s_target s"
proof (induction ads arbitrary: s connected s' outs)
  case (Cons ad ads)
  from session_connect_cases [of s ad ads] consider
      (skip) s1 where "s_target s1 = s_target s" "session_connect (ad # ads) s = session_connect ads s1"
    | (again) s1 c1 s2 o1 where "s_target s1 = s_target s" "session_connect ads s1 = (c1, s2, o1)" "session_connect (ad # ads) s = (c1, s2, [Req_Open, Req_Close] @ o1)"
    | (ended) c1 s1 where "s_target s1 = s_target s" "session_connect (ad # ads) s = (c1, s1, if c1 then [Req_Open] else [Req_Open, Req_Close])"
    by (auto simp del: session_connect.simps split: prod.splits) (metis prod_cases3)+
  then show ?case
  proof cases
    case skip
    then show ?thesis using Cons.IH [of s1 connected s' outs] Cons.prems by (simp del: session_connect.simps)
  next
    case again
    then show ?thesis using Cons.IH [of s1 c1 s2 o1] Cons.prems by (simp del: session_connect.simps)
  next
    case ended
    then show ?thesis using Cons.prems by (cases c1) (simp_all del: session_connect.simps)
  qed
qed simp

lemma session_handle_response_target:
  "session_handle_response response v target_out s = Some (err, t, s') \<Longrightarrow> s_target s' = s_target s"
  by (auto simp: session_handle_response_def session_refused_def Let_def split: if_splits option.splits Option.bind_split_asm)

lemma session_receive_sockets:
  "session_receive rq v target_out s = Some (err, t, s', outs) \<Longrightarrow> open_sockets outs = (if err = None then 0 else - 1) \<and> s_target s' = s_target s"
  by (auto simp: session_receive_def Let_def dest: session_handle_response_target
      split: http_recv.splits if_splits prod.splits Option.bind_split_asm)

text \<open>A request closes the socket that it has opened, whatever happens, if the target has a version.\<close>

lemma session_request_sockets:
  assumes "session_thread_request_session rq target_out s = Some (err, t, s', outs)" "chiaki_rp_version_string (s_target s) \<noteq> None"
  shows "open_sockets outs = (if err = None then 1 else 0) \<and> s_target s' = s_target s"
proof -
  obtain connected s1 o1 where c: "session_connect (rq_addrs rq) s = (connected, s1, o1)" by (cases "session_connect (rq_addrs rq) s")
  note co = session_connect_sockets [OF c]
  show ?thesis
    using assms co
    by (auto simp: session_thread_request_session_def c Let_def dest!: session_receive_sockets
        split: if_splits prod.splits option.splits Option.bind_split_asm)
qed

lemma known_target_version: "\<not> chiaki_target_is_unknown t \<Longrightarrow> chiaki_rp_version_string t \<noteq> None"
  by (cases t) (simp_all add: chiaki_target_is_unknown_def)

lemma session_negotiate_sockets:
  assumes "session_negotiate env s = Some (err, s', outs)" "\<not> chiaki_target_is_unknown (s_target s)"
  shows "open_sockets outs = (if err = None then 1 else 0)"
proof -
  obtain e1 t1 s1 o1 where 1: "session_thread_request_session (se_requests env 0) (Some CHIAKI_TARGET_PS4_UNKNOWN) s = Some (e1, t1, s1, o1)"
    using assms(1) by (auto simp: session_negotiate_def split: Option.bind_split_asm)
  note b1 = session_request_sockets [OF 1 known_target_version [OF assms(2)]]
  show ?thesis
  proof (cases "request_retry e1 t1")
    case False
    then show ?thesis using assms(1) b1 by (simp add: session_negotiate_def 1)
  next
    case True
    obtain e2 t2 s2 o2 where 2: "session_thread_request_session (se_requests env 1) t1 (s1\<lparr>s_target := the t1\<rparr>) = Some (e2, t2, s2, o2)"
      using assms(1) True by (auto simp: session_negotiate_def 1 simp del: One_nat_def split: Option.bind_split_asm)
    have "chiaki_rp_version_string (s_target (s1\<lparr>s_target := the t1\<rparr>)) \<noteq> None"
      using known_target_version True by (simp add: request_retry_def)
    note b2 = session_request_sockets [OF 2 this]
    have e1: "e1 \<noteq> None" using True by (auto simp: request_retry_def)
    show ?thesis
    proof (cases "request_retry e2 t2")
      case False
      then show ?thesis using assms(1) True b1 b2 e1 by (auto simp: session_negotiate_def 1 2 simp del: One_nat_def)
    next
      case r2: True
      obtain e3 t3 s3 o3 where 3: "session_thread_request_session (se_requests env 2) None (s2\<lparr>s_target := the t2\<rparr>) = Some (e3, t3, s3, o3)"
        using assms(1) True r2 by (auto simp: session_negotiate_def 1 2 simp del: One_nat_def split: Option.bind_split_asm)
      have "chiaki_rp_version_string (s_target (s2\<lparr>s_target := the t2\<rparr>)) \<noteq> None"
        using known_target_version r2 by (simp add: request_retry_def)
      note b3 = session_request_sockets [OF 3 this]
      have "e2 \<noteq> None" using r2 by (auto simp: request_retry_def)
      then show ?thesis using assms(1) True r2 b1 b2 b3 e1 by (auto simp: session_negotiate_def 1 2 3 simp del: One_nat_def)
    qed
  qed
qed

section \<open>What a session does\<close>

text \<open>The requests for a PIN: only the first does not say that the last PIN was wrong.\<close>

definition pin_requests :: "bool \<Rightarrow> bool \<Rightarrow> nat \<Rightarrow> session_out list" where
  "pin_requests cb pin_incorrect k =
     (if cb then map (\<lambda>i. Sess_Event (CHIAKI_EVENT_LOGIN_PIN_REQUEST (pin_incorrect \<or> 0 < i))) [0..<k] else [])"

lemma pin_requests_Suc: "pin_requests cb pin_incorrect (Suc k) = chiaki_session_send_event cb (CHIAKI_EVENT_LOGIN_PIN_REQUEST pin_incorrect) @ pin_requests cb True k"
  by (simp add: pin_requests_def chiaki_session_send_event_def map_Suc_upt [symmetric] upt_conv_Cons comp_def del: upt_Suc)

lemma pin_requests_0 [simp]: "pin_requests cb p 0 = []"
  by (simp add: pin_requests_def)

lemma pin_requests_1: "\<exists>k. chiaki_session_send_event cb (CHIAKI_EVENT_LOGIN_PIN_REQUEST p) = pin_requests cb p k"
  using pin_requests_Suc [of cb p 0] by (intro exI [of _ "Suc 0"]) simp

lemma session_pin_loop_outs:
  "session_pin_loop cb pins pin_incorrect st = Some (status, st', outs) \<Longrightarrow> \<exists>k. outs = pin_requests cb pin_incorrect k"
proof (induction pins arbitrary: pin_incorrect st status st' outs)
  case Nil
  obtain c s where st: "st = (c, s)" by fastforce
  show ?case using Nil pin_requests_1 by (auto simp: st session_pin_loop.simps Let_def intro: exI [of _ "0 :: nat"] split: if_splits)
next
  case (Cons pin pins)
  obtain c s where st: "st = (c, s)" by fastforce
  have more: "\<exists>k. chiaki_session_send_event cb (CHIAKI_EVENT_LOGIN_PIN_REQUEST pin_incorrect) @ o1 = pin_requests cb pin_incorrect k"
    if "session_pin_loop cb pins True st1 = Some (status1, st2, o1)" for st1 status1 st2 o1
    using Cons.IH [OF that] pin_requests_Suc by metis
  show ?case
    using Cons.prems pin_requests_1 more unfolding st session_pin_loop.simps [of cb "pin # pins"]
    by (auto simp: Let_def intro: exI [of _ "0 :: nat"] split: if_splits option.splits)
qed

lemma pin_requests_none: "\<exists>k. [] = pin_requests cb p k"
  by (rule exI [of _ "0 :: nat"]) simp

lemma session_after_ctrl_outs:
  "session_after_ctrl env st = Some (ended, st', outs) \<Longrightarrow> \<exists>k. outs = pin_requests (se_event_cb env) False k"
  by (auto simp: session_after_ctrl_def dest!: session_pin_loop_outs
      split: option.splits if_splits pin_status.splits Option.bind_split_asm) (metis pin_requests_0)+

text \<open>
  C10. What a session does. Its thread, started with a known version, makes requests, whose sockets are all closed when it ends, then possibly starts the
  control connection, asks for PINs, all but the first time as wrong ones, and stops the control connection exactly if it was started; the last
  thing that it does is to report, once, that it has quit, with the reason that the session has then.
\<close>

theorem session_thread_protocol:
  assumes "session_thread_func env (c, s) = Some (ended, (c', s'), outs)" "\<not> chiaki_target_is_unknown (s_target s)"
  shows "\<exists>reqs k.
     if ended
     then open_sockets reqs = 0 \<and>
       (outs = map Sess_Req reqs @ session_quit_event env s' \<or>
        outs = map Sess_Req reqs @ Sess_Ctrl_Start # pin_requests (se_event_cb env) False k @ Sess_Ctrl_Stop # session_quit_event env s')
     else outs = map Sess_Req reqs \<or> outs = map Sess_Req reqs @ Sess_Ctrl_Start # pin_requests (se_event_cb env) False k"
proof (cases "s_should_stop s")
  case True
  then show ?thesis using assms(1) by (intro exI [of _ "[]"]) (auto simp: session_thread_func_def Let_def)
next
  case False
  obtain err s1 reqs where n: "session_negotiate env s = Some (err, s1, reqs)"
    using assms(1) False by (auto simp: session_thread_func_def split: Option.bind_split_asm)
  note sockets = session_negotiate_sockets [OF n assms(2)]
  show ?thesis
  proof (cases "err = Some CHIAKI_ERR_SUCCESS")
    case False
    then show ?thesis
      using assms(1) \<open>\<not> s_should_stop s\<close> sockets by (intro exI [of _ reqs]) (auto simp: session_thread_func_def n Let_def split: if_splits)
  next
    case True
    show ?thesis
      using assms(1) \<open>\<not> s_should_stop s\<close> sockets True
      by (intro exI [of _ reqs]) (auto simp: session_thread_func_def n Let_def dest!: session_after_ctrl_outs
          split: if_splits option.splits prod.splits Option.bind_split_asm)
  qed
qed

text \<open>An example: the console refuses the connection.\<close>

definition example_wait :: session_wait_env where
  "example_wait = ((0, 0), [])"

definition refused_addr :: addr_env where
  "refused_addr = \<lparr>ad_alloc = True, ad_family = AF_INET, ad_name = None, ad_socket = True, ad_during = [], ad_connect_r = Some ECONNREFUSED, ad_select = 0,
     ad_ready = False, ad_peer_r = None, ad_sockerr = None\<rparr>"

definition example_session_env :: session_env where
  "example_session_env =
     \<lparr>se_event_cb = True, se_requests = (\<lambda>i. \<lparr>rq_addrs = [refused_addr], rq_send = None, rq_during = [], rq_inputs = [], rq_mallocs = 0\<rparr>), se_sleep = example_wait,
      se_ctrl_start = CHIAKI_ERR_SUCCESS, se_start = example_wait, se_pins = [], se_senkusha_init = CHIAKI_ERR_SUCCESS,
      se_senkusha_run = (CHIAKI_ERR_SUCCESS, 0, 0, 0), se_random = (CHIAKI_ERR_SUCCESS, []), se_ecdh_init = CHIAKI_ERR_SUCCESS, se_stream_during = (\<lambda>st. st),
      se_stream_run = CHIAKI_ERR_SUCCESS, se_remote_disconnect_reason = [], se_join = (\<lambda>st. st)\<rparr>"

theorem session_thread_protocol_witness:
  "\<exists>s' reqs. session_thread_func example_session_env (example_ctrl, example_session) =
       Some (True, (example_ctrl, s'), map Sess_Req reqs @ [Sess_Event (CHIAKI_EVENT_QUIT CHIAKI_QUIT_REASON_SESSION_REQUEST_CONNECTION_REFUSED None)]) \<and>
     open_sockets reqs = 0"
proof -
  have "\<exists>s'. session_thread_func example_session_env (example_ctrl, example_session) =
       Some (True, (example_ctrl, s'), [Sess_Req Req_Open, Sess_Req Req_Close, Sess_Event (CHIAKI_EVENT_QUIT CHIAKI_QUIT_REASON_SESSION_REQUEST_CONNECTION_REFUSED None)]) \<and>
     s_quit_reason s' = CHIAKI_QUIT_REASON_SESSION_REQUEST_CONNECTION_REFUSED \<and> s_quit_reason_str s' = None"
    by (simp add: session_thread_func_def session_negotiate_def session_thread_request_session_def example_session_env_def refused_addr_def
        chiaki_stop_pipe_connect_def request_retry_def session_quit_event_def chiaki_session_send_event_def example_session_def)
  then obtain s' where r: "session_thread_func example_session_env (example_ctrl, example_session) =
       Some (True, (example_ctrl, s'), [Sess_Req Req_Open, Sess_Req Req_Close, Sess_Event (CHIAKI_EVENT_QUIT CHIAKI_QUIT_REASON_SESSION_REQUEST_CONNECTION_REFUSED None)])"
    and q: "session_quit_event example_session_env s' = [Sess_Event (CHIAKI_EVENT_QUIT CHIAKI_QUIT_REASON_SESSION_REQUEST_CONNECTION_REFUSED None)]"
    by (auto simp: session_quit_event_def chiaki_session_send_event_def example_session_env_def)
  have "\<not> chiaki_target_is_unknown (s_target example_session)" by (simp add: example_session_def chiaki_target_is_unknown_def)
  from session_thread_protocol [OF r this] obtain reqs k where p: "open_sockets reqs = 0"
    "[Sess_Req Req_Open, Sess_Req Req_Close, Sess_Event (CHIAKI_EVENT_QUIT CHIAKI_QUIT_REASON_SESSION_REQUEST_CONNECTION_REFUSED None)] = map Sess_Req reqs @ session_quit_event example_session_env s' \<or>
     Sess_Ctrl_Start \<in> set [Sess_Req Req_Open, Sess_Req Req_Close, Sess_Event (CHIAKI_EVENT_QUIT CHIAKI_QUIT_REASON_SESSION_REQUEST_CONNECTION_REFUSED None)]"
    unfolding if_True by (elim exE conjE disjE) (metis, metis in_set_conv_decomp)
  then have "[Sess_Req Req_Open, Sess_Req Req_Close, Sess_Event (CHIAKI_EVENT_QUIT CHIAKI_QUIT_REASON_SESSION_REQUEST_CONNECTION_REFUSED None)] =
      map Sess_Req reqs @ [Sess_Event (CHIAKI_EVENT_QUIT CHIAKI_QUIT_REASON_SESSION_REQUEST_CONNECTION_REFUSED None)]"
    unfolding q by simp
  then show ?thesis using r p(1) by (intro exI [of _ s'] exI [of _ reqs]) simp
qed

section \<open>The negotiation of the version\<close>

text \<open>A console with version \<open>tv\<close>, asked for a session with version \<open>t\<close>.\<close>

definition console_answer :: "ChiakiTarget \<Rightarrow> bytes \<Rightarrow> ChiakiTarget \<Rightarrow> bytes" where
  "console_answer tv nonce t =
     (if t = tv then response_text (ascii ''200'') (ascii ''OK'') [(ascii ''RP-Nonce'', base64_text nonce)]
      else response_text (ascii ''403'') (ascii ''Forbidden'')
        [(ascii ''RP-Version'', ascii (the (chiaki_rp_version_string tv))), (ascii ''RP-Application-Reason'', ascii ''80108b11'')])"

text \<open>The console is reached at once and its answer is received, in whatever parts.\<close>

definition request_answered :: "request_env \<Rightarrow> bytes \<Rightarrow> bool" where
  "request_answered rq r \<longleftrightarrow>
     (\<forall>s. \<exists>h. session_connect (rq_addrs rq) s = (True, s\<lparr>s_hostname := h\<rparr>, [Req_Open]) \<and> length h < 256) \<and>
     rq_send rq \<noteq> None \<and> rq_during rq = [] \<and> 2 \<le> rq_mallocs rq \<and>
     (\<exists>ds. rq_inputs rq = map recv_ok ds \<and> (\<forall>d \<in> set ds. d \<noteq> []) \<and> length (concat ds) \<le> CTRL_HTTP_BUF_SIZE \<and> concat ds = r)"

lemma session_answer_values:
  "digits_value (ascii ''200'') = 200" "digits_value (ascii ''403'') = 403" "\<forall>d \<in> set (ascii ''200''). c_isdigit d" "\<forall>d \<in> set (ascii ''403''). c_isdigit d"
  "LF \<notin> set (ascii ''OK'')" "LF \<notin> set (ascii ''Forbidden'')" "strtoul16 (ascii ''80108b11'') = 0x80108b11"
  by (simp_all add: digits_value_def c_isdigit_def strtoul16_def c_isspace_def nibble_value_def)

lemma session_answer_names:
  "name_ok (ascii ''RP-Nonce'')" "name_ok (ascii ''RP-Application-Reason'')" "value_ok (ascii ''80108b11'')"
  "ascii ''RP-Version'' \<noteq> ascii ''RP-Nonce''" "ascii ''RP-Application-Reason'' \<noteq> ascii ''RP-Nonce''"
  "strcaseeq (ascii ''RP-Version'') (ascii ''RP-Version'')" "\<not> strcaseeq (ascii ''RP-Application-Reason'') (ascii ''RP-Version'')"
  by (simp_all add: name_ok_def value_ok_def strcaseeq_def c_tolower_def)

lemma console_answer_received:
  assumes "request_answered rq (response_text digits reason hs)" "\<forall>h \<in> set hs. header_ok h" "\<forall>d \<in> set digits. c_isdigit d" "LF \<notin> set reason"
    and "0 < digits_value digits" "digits_value digits < 2 ^ 31" "length hs \<le> 2"
  shows "\<exists>buf entries received. chiaki_recv_http_header True CTRL_HTTP_BUF_SIZE (rq_inputs rq) =
       Some (Http_Done CHIAKI_ERR_SUCCESS received (length (response_text digits reason hs))) \<and>
     chiaki_http_response_parse (rq_mallocs rq) (take (length (response_text digits reason hs)) received) =
       (CHIAKI_ERR_SUCCESS, digits_value digits, buf, entries) \<and> header_strings buf entries = rev hs"
proof -
  obtain ds where ds: "rq_inputs rq = map recv_ok ds" "\<forall>d \<in> set ds. d \<noteq> []" "length (concat ds) \<le> CTRL_HTTP_BUF_SIZE"
      "concat ds = response_text digits reason hs @ []"
    using assms(1) by (auto simp: request_answered_def)
  have "length hs \<le> rq_mallocs rq" using assms(1,7) by (simp add: request_answered_def)
  then obtain buf entries where p: "chiaki_http_response_parse (rq_mallocs rq) (response_text digits reason hs) = (CHIAKI_ERR_SUCCESS, digits_value digits, buf, entries)"
      "header_strings buf entries = rev hs"
    using http_response_parsed [OF assms(2) _ assms(3,5,6,4)] by blast
  obtain more where "chiaki_recv_http_header True CTRL_HTTP_BUF_SIZE (rq_inputs rq) =
       Some (Http_Done CHIAKI_ERR_SUCCESS (response_text digits reason hs @ more) (length (response_text digits reason hs)))"
    using recv_response [OF assms(2-4) ds(2-4), of True] unfolding ds(1) by blast
  then show ?thesis using p by (intro exI [of _ buf] exI [of _ entries] exI [of _ "response_text digits reason hs @ more"]) simp
qed

lemma session_request_short: "length h < 256 \<Longrightarrow> length k \<le> 32 \<Longrightarrow> length v \<le> 4 \<Longrightarrow> length (session_request (s\<lparr>s_hostname := h\<rparr>) k v) < CTRL_HTTP_BUF_SIZE"
proof -
  assume "length h < 256" "length k \<le> 32" "length v \<le> 4"
  moreover have "length (session_path t) \<le> 21" for t by (simp add: session_path_def)
  from this [of "s_target s"] have "length (session_path (s_target s)) \<le> 21" .
  ultimately show ?thesis by (simp add: session_request_def del: ascii_simps)
qed

lemma version_string_length: "chiaki_rp_version_string t = Some v \<Longrightarrow> length v \<le> 4"
  by (cases t) auto

lemma regist_key_hex:
  assumes "length k = 0x10"
  shows "\<exists>hex. format_hex 33 (takeWhile (\<lambda>b. b \<noteq> 0) k) = (CHIAKI_ERR_SUCCESS, hex) \<and> length (c_string hex 0) \<le> 32"
proof -
  have l: "length (takeWhile (\<lambda>b. b \<noteq> 0) k) \<le> 16" using length_takeWhile_le [of "\<lambda>b. b \<noteq> 0" k] assms by simp
  let ?x = "concat (map (\<lambda>v. [nibble_char (drop_bit 4 v), nibble_char (v AND 0xf)]) (takeWhile (\<lambda>b. b \<noteq> 0) k)) :: bytes"
  have "length ?x \<le> 32" using l by (simp add: length_concat comp_def sum_list_triv)
  moreover have "length (takeWhile (\<lambda>b. b \<noteq> 0) (x @ [0])) \<le> length x" for x :: bytes by (induction x) auto
  then have "length (c_string (?x @ [0]) 0) \<le> length ?x" by (simp only: c_string_def drop_0)
  ultimately show ?thesis using l by (simp add: format_hex_def)
qed

text \<open>A request that is answered goes on to the handling of the response.\<close>

lemma session_request_answered:
  assumes "request_answered rq (response_text digits reason hs)" "\<forall>h \<in> set hs. header_ok h" "\<forall>d \<in> set digits. c_isdigit d" "LF \<notin> set reason"
    and "0 < digits_value digits" "digits_value digits < 2 ^ 31" "length hs \<le> 2"
    and "chiaki_rp_version_string (s_target s) = Some v" "length (s_regist_key s) = 0x10"
  shows "\<exists>h sent. \<forall>err t s'.
     session_handle_response (parse_session_response (digits_value digits) (rev hs)) v target_out (s\<lparr>s_hostname := h\<rparr>) = Some (err, t, s') \<longrightarrow>
     session_thread_request_session rq target_out s = Some (Some err, t, s', [Req_Open, Req_Sent sent, Req_Close])"
proof -
  obtain h where h: "session_connect (rq_addrs rq) s = (True, s\<lparr>s_hostname := h\<rparr>, [Req_Open])" "length h < 256"
    using assms(1) by (auto simp: request_answered_def)
  obtain n where n: "rq_send rq = Some n" "rq_during rq = []" using assms(1) by (auto simp: request_answered_def)
  obtain hex where hex: "format_hex 33 (takeWhile (\<lambda>b. b \<noteq> 0) (s_regist_key s)) = (CHIAKI_ERR_SUCCESS, hex)" "length (c_string hex 0) \<le> 32"
    using regist_key_hex [OF assms(9)] by blast
  have short: "length (session_request (s\<lparr>s_hostname := h\<rparr>) (c_string hex 0) v) < CTRL_HTTP_BUF_SIZE"
    using session_request_short [OF h(2) hex(2) version_string_length [OF assms(8)]] .
  obtain buf entries received where r: "chiaki_recv_http_header True CTRL_HTTP_BUF_SIZE (rq_inputs rq) =
       Some (Http_Done CHIAKI_ERR_SUCCESS received (length (response_text digits reason hs)))"
     "chiaki_http_response_parse (rq_mallocs rq) (take (length (response_text digits reason hs)) received) = (CHIAKI_ERR_SUCCESS, digits_value digits, buf, entries)"
     "header_strings buf entries = rev hs"
    using console_answer_received [OF assms(1-7)] by blast
  show ?thesis
    using short
    by (intro exI [of _ h] exI [of _ "take n (session_request (s\<lparr>s_hostname := h\<rparr>) (c_string hex 0) v)"])
      (simp add: session_thread_request_session_def h(1) hex(1) assms(8) Let_def n session_receive_def r)
qed

lemma answer_accepted:
  assumes "length nonce = 0x10" "length (s_nonce s) = 0x10"
  shows "session_handle_response (parse_session_response 200 [(ascii ''RP-Nonce'', base64_text nonce)]) v t s = Some (CHIAKI_ERR_SUCCESS, t, s\<lparr>s_nonce := nonce\<rparr>)"
  using assms base64_decode_text [of nonce "0x10"]
  by (simp add: parse_session_response_def session_response_header_def session_handle_response_def del: ascii_simps)

lemma version_strings_distinct:
  "chiaki_rp_version_string t = Some v \<Longrightarrow> chiaki_rp_version_string t' = Some v' \<Longrightarrow> v \<noteq> v' \<Longrightarrow> ascii v \<noteq> ascii v'"
  by (cases t; cases t') auto

lemma answer_mismatch:
  assumes "chiaki_rp_version_string tv = Some v" "v \<noteq> v0" "chiaki_target_is_ps5 tv = s_ps5 s" "chiaki_rp_version_string t0 = Some v0"
  shows "session_handle_response (parse_session_response 403 [(ascii ''RP-Application-Reason'', ascii ''80108b11''), (ascii ''RP-Version'', ascii v)]) v0 (Some t) s =
     Some (CHIAKI_ERR_VERSION_MISMATCH, Some tv, s)"
proof -
  have "parse_session_response 403 [(ascii ''RP-Application-Reason'', ascii ''80108b11''), (ascii ''RP-Version'', ascii v)] =
     \<lparr>sr_error_code = CHIAKI_RP_APPLICATION_REASON_RP_VERSION, sr_nonce = None, sr_rp_version = Some (ascii v), sr_success = False\<rparr>"
    by (simp add: parse_session_response_def session_response_header_def session_answer_names session_answer_values del: ascii_simps)
  moreover have "ascii v \<noteq> ascii v0" using version_strings_distinct [OF assms(1,4,2)] .
  moreover have "chiaki_rp_version_parse (ascii v) (s_ps5 s) = tv" using rp_version_roundtrip [OF assms(1)] assms(3) by simp
  moreover have "\<not> chiaki_target_is_unknown tv" using assms(1) by (cases tv) (auto simp: chiaki_target_is_unknown_def)
  ultimately show ?thesis by (simp add: session_handle_response_def Let_def del: ascii_simps)
qed

lemma version_string_inj: "chiaki_rp_version_string t = Some v \<Longrightarrow> chiaki_rp_version_string t' = Some v \<Longrightarrow> chiaki_target_is_ps5 t = chiaki_target_is_ps5 t' \<Longrightarrow> t = t'"
  by (cases t; cases t') (auto simp: target_is_ps5_iff)

text \<open>
  C7. The version is negotiated. A console with a version of the same kind as the session, which is reached at once and answers a request for its own
  version with a nonce and any other with its version, gets at most two requests, all sockets being closed; then the session has the version and the
  nonce of the console.
\<close>

theorem session_version_negotiated:
  assumes "chiaki_rp_version_string tv = Some v" "chiaki_rp_version_string (s_target s) = Some v0"
    and "chiaki_target_is_ps5 tv = s_ps5 s" "chiaki_target_is_ps5 (s_target s) = s_ps5 s"
    and "length nonce = 0x10" "length (s_nonce s) = 0x10" "length (s_regist_key s) = 0x10"
    and "request_answered (se_requests env 0) (console_answer tv nonce (s_target s))"
    and "request_answered (se_requests env 1) (console_answer tv nonce tv)"
  shows "\<exists>h outs. session_negotiate env s = Some (Some CHIAKI_ERR_SUCCESS, s\<lparr>s_hostname := h, s_target := tv, s_nonce := nonce\<rparr>, outs) \<and>
     open_sockets outs = 0 \<and> length (filter (\<lambda>out. out = Req_Open) outs) = (if s_target s = tv then 1 else 2)"
proof -
  have plain: "header_ok (ascii ''RP-Nonce'', base64_text nonce)"
    using base64_text_plain [of nonce] length_base64_text [of nonce] assms(5) by (auto simp: header_ok_pair session_answer_names value_ok_def simp del: ascii_simps)
  have ok: "\<exists>h sent. session_thread_request_session rq t s = Some (Some CHIAKI_ERR_SUCCESS, t, s\<lparr>s_hostname := h, s_nonce := nonce\<rparr>, [Req_Open, Req_Sent sent, Req_Close])"
    if "request_answered rq (console_answer tv nonce tv)" "s_target s = tv" "length (s_nonce s) = 0x10" "length (s_regist_key s) = 0x10" for rq t s
    using session_request_answered [of rq "ascii ''200''" "ascii ''OK''" "[(ascii ''RP-Nonce'', base64_text nonce)]" s v t]
      plain answer_accepted [OF assms(5), of "s\<lparr>s_hostname := h\<rparr>" v t for h] that assms(1)
    by (simp add: console_answer_def session_answer_values del: ascii_simps)
  show ?thesis
  proof (cases "s_target s = tv")
    case True
    then obtain h sent where "session_thread_request_session (se_requests env 0) (Some CHIAKI_TARGET_PS4_UNKNOWN) s =
        Some (Some CHIAKI_ERR_SUCCESS, Some CHIAKI_TARGET_PS4_UNKNOWN, s\<lparr>s_hostname := h, s_nonce := nonce\<rparr>, [Req_Open, Req_Sent sent, Req_Close])"
      using ok assms(6-8) by metis
    then show ?thesis using True by (intro exI [of _ h]) (simp add: session_negotiate_def request_retry_def)
  next
    case False
    then have "v \<noteq> v0" using version_string_inj [OF assms(1), of "s_target s"] assms(2-4) by auto
    have hs: "\<forall>h \<in> set [(ascii ''RP-Version'', ascii v), (ascii ''RP-Application-Reason'', ascii ''80108b11'')]. header_ok h"
      using version_string_value [OF assms(1)] by (simp add: header_ok_pair request_names session_answer_names del: ascii_simps)
    obtain h sent where 1: "session_thread_request_session (se_requests env 0) (Some CHIAKI_TARGET_PS4_UNKNOWN) s =
        Some (Some CHIAKI_ERR_VERSION_MISMATCH, Some tv, s\<lparr>s_hostname := h\<rparr>, [Req_Open, Req_Sent sent, Req_Close])"
      using session_request_answered [OF _ hs session_answer_values(4,6), of "se_requests env 0" s v0 "Some CHIAKI_TARGET_PS4_UNKNOWN"]
        answer_mismatch [OF assms(1) \<open>v \<noteq> v0\<close> _ assms(2), of "s\<lparr>s_hostname := h\<rparr>" CHIAKI_TARGET_PS4_UNKNOWN for h] assms False
      by (simp add: console_answer_def session_answer_values del: ascii_simps) blast
    have r: "request_retry (Some CHIAKI_ERR_VERSION_MISMATCH) (Some tv)"
      using assms(1) by (cases tv) (auto simp: request_retry_def chiaki_target_is_unknown_def)
    obtain h2 sent2 where 2: "session_thread_request_session (se_requests env 1) (Some tv) (s\<lparr>s_hostname := h, s_target := tv\<rparr>) =
        Some (Some CHIAKI_ERR_SUCCESS, Some tv, s\<lparr>s_hostname := h, s_target := tv, s_hostname := h2, s_nonce := nonce\<rparr>, [Req_Open, Req_Sent sent2, Req_Close])"
      using ok [OF assms(9), of "s\<lparr>s_hostname := h, s_target := tv\<rparr>" "Some tv"] assms(6,7) by auto
    show ?thesis
      using 1 2 r False by (intro exI [of _ h2]) (simp add: session_negotiate_def request_retry_def [of "Some CHIAKI_ERR_SUCCESS"] del: One_nat_def)
  qed
qed

definition open_addr :: addr_env where
  "open_addr = \<lparr>ad_alloc = True, ad_family = AF_INET6, ad_name = Some (ascii ''::1''), ad_socket = True, ad_during = [], ad_connect_r = None, ad_select = 0,
     ad_ready = True, ad_peer_r = None, ad_sockerr = None\<rparr>"

definition answered_request :: "bytes \<Rightarrow> request_env" where
  "answered_request r = \<lparr>rq_addrs = [open_addr], rq_send = Some 512, rq_during = [], rq_inputs = [recv_ok r], rq_mallocs = 2\<rparr>"

lemma answered_request: "r \<noteq> [] \<Longrightarrow> length r \<le> CTRL_HTTP_BUF_SIZE \<Longrightarrow> request_answered (answered_request r) r"
  by (auto simp: request_answered_def answered_request_def open_addr_def chiaki_stop_pipe_connect_def intro!: exI [of _ "ascii ''::1''"] exI [of _ "[r]"]
      split: option.split)

theorem session_version_negotiated_witness:
  "\<exists>env s h outs. s_target s = CHIAKI_TARGET_PS4_10 \<and> s_nonce s = replicate 16 0 \<and>
     session_negotiate env s = Some (Some CHIAKI_ERR_SUCCESS, s\<lparr>s_hostname := h, s_target := CHIAKI_TARGET_PS4_9, s_nonce := replicate 16 7\<rparr>, outs) \<and>
     length (filter (\<lambda>out. out = Req_Open) outs) = 2"
proof -
  let ?n = "replicate 16 7 :: bytes" and ?s = "example_ps4_session\<lparr>s_ps5 := False\<rparr>"
  let ?a = "\<lambda>t. console_answer CHIAKI_TARGET_PS4_9 ?n t"
  let ?env = "example_session_env\<lparr>se_requests := \<lambda>i. answered_request (?a (if i = 0 then CHIAKI_TARGET_PS4_10 else CHIAKI_TARGET_PS4_9))\<rparr>"
  have s: "s_target ?s = CHIAKI_TARGET_PS4_10" "length (s_nonce ?s) = 0x10" "length (s_regist_key ?s) = 0x10" "s_ps5 ?s = False" "s_nonce ?s = replicate 16 0"
    by (simp_all add: example_ps4_session_def example_session_def)
  have l: "?a t \<noteq> [] \<and> length (?a t) \<le> CTRL_HTTP_BUF_SIZE" for t
    by (auto simp: console_answer_def response_text_def header_line_def http_version_def length_base64_text simp del: ascii_simps)
  have "request_answered (se_requests ?env 0) (?a (s_target ?s))" "request_answered (se_requests ?env 1) (?a CHIAKI_TARGET_PS4_9)"
    using answered_request l by (simp_all add: s)
  from session_version_negotiated [OF _ _ _ _ _ s(2,3) this, of "''9.0''" "''10.0''"] show ?thesis
    by (simp add: s target_is_ps5_iff) (metis s(1,5))
qed

text \<open>
  Only a failure in the last two steps of the initialisation that can fail before the addresses is not undone properly: a connection that was
  not initialised is finished, or the pipe is left open.
\<close>

lemma session_init_cleanup:
  assumes "chiaki_session_init info cond_r mutex_r pipe_r ctrl_r stream_r True random = (err, s, acquired, released)" "err \<noteq> CHIAKI_ERR_SUCCESS"
  shows "set released = set acquired \<longleftrightarrow> cond_r \<noteq> CHIAKI_ERR_SUCCESS \<or> mutex_r \<noteq> CHIAKI_ERR_SUCCESS \<or> pipe_r \<noteq> CHIAKI_ERR_SUCCESS"
  using assms by (auto simp: chiaki_session_init_def Let_def split: if_splits)

end
