(* ===== verification/Discovery.thy ===== *)
theory Discovery
  imports Session
begin

text \<open>
  \<open>lib/src/discovery.c\<close>: the search for consoles in the network. A packet of text is sent to them and they answer with an HTTP
  response that describes the console. A string is the list of its bytes, a null pointer is \<open>None\<close>.
\<close>

section \<open>Hosts\<close>

datatype ChiakiDiscoveryHostState =
    CHIAKI_DISCOVERY_HOST_STATE_UNKNOWN | CHIAKI_DISCOVERY_HOST_STATE_READY | CHIAKI_DISCOVERY_HOST_STATE_STANDBY

fun chiaki_discovery_host_state_string :: "ChiakiDiscoveryHostState \<Rightarrow> string" where
  "chiaki_discovery_host_state_string CHIAKI_DISCOVERY_HOST_STATE_READY = ''ready''"
| "chiaki_discovery_host_state_string CHIAKI_DISCOVERY_HOST_STATE_STANDBY = ''standby''"
| "chiaki_discovery_host_state_string CHIAKI_DISCOVERY_HOST_STATE_UNKNOWN = ''unknown''"

record discovery_host =
  dh_state :: ChiakiDiscoveryHostState
  dh_host_request_port :: u16
  dh_host_addr :: "bytes option"
  dh_system_version :: "bytes option"
  dh_device_discovery_protocol_version :: "bytes option"
  dh_host_name :: "bytes option"
  dh_host_type :: "bytes option"
  dh_host_id :: "bytes option"
  dh_running_app_titleid :: "bytes option"
  dh_running_app_name :: "bytes option"

definition discovery_host_zero :: discovery_host where
  "discovery_host_zero =
     \<lparr>dh_state = CHIAKI_DISCOVERY_HOST_STATE_UNKNOWN, dh_host_request_port = 0, dh_host_addr = None, dh_system_version = None,
      dh_device_discovery_protocol_version = None, dh_host_name = None, dh_host_type = None, dh_host_id = None,
      dh_running_app_titleid = None, dh_running_app_name = None\<rparr>"

abbreviation "CHIAKI_DISCOVERY_PORT_PS4 \<equiv> 987 :: u16"
abbreviation "CHIAKI_DISCOVERY_PROTOCOL_VERSION_PS4 \<equiv> ascii ''00020020''"
abbreviation "CHIAKI_DISCOVERY_PORT_PS5 \<equiv> 9302 :: u16"
abbreviation "CHIAKI_DISCOVERY_PROTOCOL_VERSION_PS5 \<equiv> ascii ''00030010''"
abbreviation "CHIAKI_DISCOVERY_PORT_LOCAL_MIN \<equiv> 9303 :: u16"
abbreviation "CHIAKI_DISCOVERY_PORT_LOCAL_MAX \<equiv> 9319 :: u16"

definition chiaki_discovery_host_is_ps5 :: "discovery_host \<Rightarrow> bool" where
  "chiaki_discovery_host_is_ps5 host \<longleftrightarrow>
     (case dh_device_discovery_protocol_version host of None \<Rightarrow> False | Some v \<Rightarrow> v = CHIAKI_DISCOVERY_PROTOCOL_VERSION_PS5)"

text \<open>\<open>atoi\<close> is \<open>strtol\<close>, converted to an \<open>int\<close>.\<close>

definition c_atoi :: "bytes \<Rightarrow> int" where
  "c_atoi s = sint (word_of_int (strtol10 s) :: 32 word)"

text \<open>\<open>None\<close>: the host has not sent its version and a null pointer is read.\<close>

definition chiaki_discovery_host_system_version_target :: "discovery_host \<Rightarrow> ChiakiTarget option" where
  "chiaki_discovery_host_system_version_target host = do {
     v \<leftarrow> dh_system_version host;
     let version = c_atoi v;
     let is_ps5 = chiaki_discovery_host_is_ps5 host;
     Some (if version \<ge> 8050001 \<and> is_ps5 then CHIAKI_TARGET_PS5_1
       else if version \<ge> 8050000 \<and> is_ps5 then CHIAKI_TARGET_PS5_UNKNOWN
       else if version \<ge> 8000000 then CHIAKI_TARGET_PS4_10
       else if version \<ge> 7000000 then CHIAKI_TARGET_PS4_9
       else if version > 0 then CHIAKI_TARGET_PS4_8
       else CHIAKI_TARGET_PS4_UNKNOWN) }"

section \<open>Packets\<close>

datatype ChiakiDiscoveryCmd = CHIAKI_DISCOVERY_CMD_SRCH | CHIAKI_DISCOVERY_CMD_WAKEUP

record discovery_packet =
  dp_cmd :: ChiakiDiscoveryCmd
  dp_protocol_version :: "bytes option"
  dp_user_credential :: u64

text \<open>A number as \<open>%llu\<close> prints it.\<close>

fun decimal :: "nat \<Rightarrow> bytes" where
  "decimal n = (if n < 10 then [of_nat (0x30 + n)] else decimal (n div 10) @ [of_nat (0x30 + n mod 10)])"

declare decimal.simps [simp del]

text \<open>The result of \<open>snprintf\<close>, which is the length of the whole text, and what is then in the buffer.\<close>

definition c_snprintf :: "nat \<Rightarrow> bytes \<Rightarrow> int \<times> bytes" where
  "c_snprintf buf_size s = (int (length s), if buf_size = 0 then [] else take (buf_size - 1) s @ [0])"

definition chiaki_discovery_packet_fmt :: "nat \<Rightarrow> discovery_packet \<Rightarrow> int \<times> bytes" where
  "chiaki_discovery_packet_fmt buf_size packet =
     (case dp_protocol_version packet of
        None \<Rightarrow> (- 1, [])
      | Some protocol_version \<Rightarrow>
          (case dp_cmd packet of
             CHIAKI_DISCOVERY_CMD_SRCH \<Rightarrow>
               c_snprintf buf_size
                 (ascii ''SRCH * HTTP/1.1'' @ [LF] @ ascii ''device-discovery-protocol-version:'' @ protocol_version @ [LF])
           | CHIAKI_DISCOVERY_CMD_WAKEUP \<Rightarrow>
               c_snprintf buf_size
                 (ascii ''WAKEUP * HTTP/1.1'' @ [LF] @ ascii ''client-type:vr'' @ [LF] @ ascii ''auth-type:R'' @ [LF] @
                  ascii ''model:w'' @ [LF] @ ascii ''app-type:r'' @ [LF] @
                  ascii ''user-credential:'' @ decimal (unat (dp_user_credential packet)) @ [LF] @
                  ascii ''device-discovery-protocol-version:'' @ protocol_version @ [LF])))"

section \<open>Answers\<close>

text \<open>\<open>strtoul\<close> with base 0 for an \<open>unsigned long\<close> of 64 bits: the prefix decides on the base.\<close>

definition strtoul_digits :: "nat \<Rightarrow> bytes \<Rightarrow> nat" where
  "strtoul_digits base s =
     fold (\<lambda>d n. n * base + nat (nibble_value d)) (takeWhile (\<lambda>d. 0 \<le> nibble_value d \<and> nibble_value d < int base) s) 0"

definition strtoul0 :: "bytes \<Rightarrow> nat" where
  "strtoul0 s =
     (let s = dropWhile c_isspace s;
          neg = (s \<noteq> [] \<and> hd s = 0x2d);
          s = (if s \<noteq> [] \<and> (hd s = 0x2d \<or> hd s = 0x2b) then tl s else s);
          n = (if take 2 s = [0x30, 0x78] \<or> take 2 s = [0x30, 0x58] then strtoul_digits 16 (drop 2 s)
            else if take 1 s = [0x30] then strtoul_digits 8 s
            else strtoul_digits 10 s)
      in if n \<ge> 2 ^ 64 then 2 ^ 64 - 1 else if neg \<and> n > 0 then 2 ^ 64 - n else n)"

definition sockaddr_str :: "(sockaddr \<Rightarrow> bytes option) \<Rightarrow> sockaddr \<Rightarrow> bytes option" where
  "sockaddr_str inet_ntop addr = (if sa_family addr = AF_INET \<or> sa_family addr = AF_INET6 then inet_ntop addr else None)"

definition discovery_response_header :: "bytes \<times> bytes \<Rightarrow> discovery_host \<Rightarrow> discovery_host" where
  "discovery_response_header header r =
     (case header of (key, val) \<Rightarrow>
        if key = ascii ''system-version'' then r\<lparr>dh_system_version := Some val\<rparr>
        else if key = ascii ''device-discovery-protocol-version'' then r\<lparr>dh_device_discovery_protocol_version := Some val\<rparr>
        else if key = ascii ''host-request-port'' then r\<lparr>dh_host_request_port := of_nat (strtoul0 val)\<rparr>
        else if key = ascii ''host-name'' then r\<lparr>dh_host_name := Some val\<rparr>
        else if key = ascii ''host-type'' then r\<lparr>dh_host_type := Some val\<rparr>
        else if key = ascii ''host-id'' then r\<lparr>dh_host_id := Some val\<rparr>
        else if key = ascii ''running-app-titleid'' then r\<lparr>dh_running_app_titleid := Some val\<rparr>
        else if key = ascii ''running-app-name'' then r\<lparr>dh_running_app_name := Some val\<rparr>
        else r)"

definition discovery_response_state :: "int \<Rightarrow> ChiakiDiscoveryHostState" where
  "discovery_response_state code =
     (if code = 200 then CHIAKI_DISCOVERY_HOST_STATE_READY
      else if code = 620 then CHIAKI_DISCOVERY_HOST_STATE_STANDBY
      else CHIAKI_DISCOVERY_HOST_STATE_UNKNOWN)"

text \<open>\<open>mallocs\<close> is the number of headers that can be allocated. The response is only assigned on success.\<close>

definition chiaki_discovery_srch_response_parse ::
  "(sockaddr \<Rightarrow> bytes option) \<Rightarrow> nat \<Rightarrow> sockaddr \<Rightarrow> bytes \<Rightarrow> ChiakiErrorCode \<times> discovery_host option" where
  "chiaki_discovery_srch_response_parse inet_ntop mallocs addr buf =
     (case chiaki_http_response_parse mallocs buf of (err, code, buf, header) \<Rightarrow>
        if err \<noteq> CHIAKI_ERR_SUCCESS then (err, None)
        else let response = discovery_host_zero\<lparr>dh_host_addr := sockaddr_str inet_ntop addr, dh_state := discovery_response_state code\<rparr>
          in (CHIAKI_ERR_SUCCESS, Some (fold discovery_response_header (header_strings buf header) response)))"

section \<open>The socket\<close>

text \<open>
  The attempts to bind: the port (zero: any) and whether the last attempt succeeds. \<open>bind_ok\<close> tells for which ports \<open>bind\<close> does.
\<close>

function discovery_bind :: "(u16 \<Rightarrow> bool) \<Rightarrow> u16 \<Rightarrow> u16 \<times> bool" where
  "discovery_bind bind_ok port =
     (if bind_ok port \<or> port = 0 then (port, bind_ok port)
      else if port = CHIAKI_DISCOVERY_PORT_LOCAL_MAX then discovery_bind bind_ok 0
      else discovery_bind bind_ok (port + 1))"
  by pat_completeness auto
termination
proof (relation "measure (\<lambda>(_, port). if port = 0 then 0 else if unat port \<le> 9319 then 9321 - unat port else 65537 - unat port)")
  show "wf (measure (\<lambda>(_, port). if port = 0 then 0 else if unat port \<le> 9319 then 9321 - unat port else 65537 - unat port))" by (rule wf_measure)
next
  fix bind_ok :: "u16 \<Rightarrow> bool" and port :: u16
  assume "\<not> (bind_ok port \<or> port = 0)" "port = CHIAKI_DISCOVERY_PORT_LOCAL_MAX"
  then show "((bind_ok, 0), bind_ok, port) \<in> measure (\<lambda>(_, port). if port = 0 then 0 else if unat port \<le> 9319 then 9321 - unat port else 65537 - unat port)"
    by simp
next
  fix bind_ok :: "u16 \<Rightarrow> bool" and port :: u16
  assume a: "\<not> (bind_ok port \<or> port = 0)" "port \<noteq> CHIAKI_DISCOVERY_PORT_LOCAL_MAX"
  have b: "unat port < 65536" using unat_bound [of port] by simp
  have "unat port \<noteq> unat CHIAKI_DISCOVERY_PORT_LOCAL_MAX" using a(2) word_unat_eq_iff by blast
  then have n: "unat port \<noteq> 9319" by simp
  have p: "port + 1 = 0 \<or> unat (port + 1) = unat port + 1" using unatSuc [of port] by (cases "1 + port = 0") (simp_all add: add.commute)
  then show "((bind_ok, port + 1), bind_ok, port) \<in> measure (\<lambda>(_, port). if port = 0 then 0 else if unat port \<le> 9319 then 9321 - unat port else 65537 - unat port)"
    using a b n p by auto
qed

declare discovery_bind.simps [simp del]

text \<open>What happens to sockets: creation, closing, and a datagram sent to a port.\<close>

datatype discovery_out = Disc_Open | Disc_Close | Disc_Sent u16 bytes

text \<open>
  The error code and \<open>local_addr\<close>. \<open>socket_ok\<close>: there is a socket. \<open>None\<close>: the address of a \<open>sockaddr_in6\<close>, which ends 24 bytes
  from its start, is written into a \<open>sockaddr\<close> of 16 bytes.
\<close>

definition chiaki_discovery_init ::
  "bool \<Rightarrow> (u16 \<Rightarrow> bool) \<Rightarrow> sa_family \<Rightarrow> (ChiakiErrorCode \<times> sockaddr option \<times> discovery_out list) option" where
  "chiaki_discovery_init socket_ok bind_ok family =
     (if family \<noteq> AF_INET \<and> family \<noteq> AF_INET6 then Some (CHIAKI_ERR_INVALID_DATA, None, [])
      else if \<not> socket_ok then Some (CHIAKI_ERR_NETWORK, None, [])
      else if family = AF_INET6 then None
      else case discovery_bind bind_ok CHIAKI_DISCOVERY_PORT_LOCAL_MIN of (port, ok) \<Rightarrow>
        if \<not> ok then Some (CHIAKI_ERR_NETWORK, None, [Disc_Open, Disc_Close])
        else Some (CHIAKI_ERR_SUCCESS, Some \<lparr>sa_family = family, sin_port = port, sin6_port = 0\<rparr>, [Disc_Open]))"

definition chiaki_discovery_fini :: "discovery_out list" where
  "chiaki_discovery_fini = [Disc_Close]"

definition sockaddr_port :: "sockaddr \<Rightarrow> u16" where
  "sockaddr_port addr = (if sa_family addr = AF_INET6 then sin6_port addr else sin_port addr)"

text \<open>\<open>sendto_ok\<close>: \<open>sendto\<close> does not fail. The terminating zero is sent too.\<close>

definition chiaki_discovery_send :: "bool \<Rightarrow> sockaddr \<Rightarrow> discovery_packet \<Rightarrow> sockaddr \<Rightarrow> ChiakiErrorCode \<times> discovery_out list" where
  "chiaki_discovery_send sendto_ok local_addr packet addr =
     (if sa_family addr \<noteq> sa_family local_addr then (CHIAKI_ERR_INVALID_DATA, [])
      else case chiaki_discovery_packet_fmt 512 packet of (len, buf) \<Rightarrow>
        if len < 0 then (CHIAKI_ERR_UNKNOWN, [])
        else if nat len \<ge> 512 then (CHIAKI_ERR_BUF_TOO_SMALL, [])
        else if \<not> sendto_ok then (CHIAKI_ERR_NETWORK, [])
        else (CHIAKI_ERR_SUCCESS, [Disc_Sent (sockaddr_port addr) (take (nat len + 1) buf)]))"

section \<open>The receiving thread\<close>

text \<open>
  For a turn of the loop: the results of \<open>select\<close> on the stop pipe and of \<open>recvfrom\<close> (\<open>None\<close>: it fails), the sender, and the number
  of headers that can be allocated.
\<close>

record discovery_input =
  di_select :: ChiakiErrorCode
  di_recv :: "bytes option"
  di_addr :: sockaddr
  di_mallocs :: nat

text \<open>A turn ends the thread, or goes on with a host for the callback or without.\<close>

datatype discovery_step = Disc_End | Disc_Next "discovery_host option"

definition discovery_turn :: "(sockaddr \<Rightarrow> bytes option) \<Rightarrow> discovery_input \<Rightarrow> discovery_step" where
  "discovery_turn inet_ntop i =
     (if di_select i = CHIAKI_ERR_CANCELED then Disc_End
      else if di_select i \<noteq> CHIAKI_ERR_SUCCESS then Disc_End
      else case di_recv i of
        None \<Rightarrow> Disc_End
      | Some d \<Rightarrow>
          let buf = take 511 d in
          if buf = [] then Disc_Next None
          else case chiaki_discovery_srch_response_parse inet_ntop (di_mallocs i) (di_addr i) buf of
            (err, response) \<Rightarrow> if err \<noteq> CHIAKI_ERR_SUCCESS then Disc_Next None else Disc_Next response)"

text \<open>The hosts for the callback, and whether the thread has ended.\<close>

fun discovery_thread_func :: "(sockaddr \<Rightarrow> bytes option) \<Rightarrow> discovery_input list \<Rightarrow> discovery_host list \<times> bool" where
  "discovery_thread_func inet_ntop [] = ([], False)"
| "discovery_thread_func inet_ntop (i # inputs) =
     (case discovery_turn inet_ntop i of
        Disc_End \<Rightarrow> ([], True)
      | Disc_Next h \<Rightarrow> (case discovery_thread_func inet_ntop inputs of (hosts, ended) \<Rightarrow> (opt_list h @ hosts, ended)))"

text \<open>The error code and, if it started, whether the stop pipe is left open.\<close>

definition chiaki_discovery_thread_start :: "int \<Rightarrow> int \<Rightarrow> ChiakiErrorCode \<Rightarrow> ChiakiErrorCode \<times> stop_pipe option" where
  "chiaki_discovery_thread_start pipe_r fcntl_r thread_r =
     (case chiaki_stop_pipe_init pipe_r fcntl_r of (err, pipe) \<Rightarrow>
        if err \<noteq> CHIAKI_ERR_SUCCESS then (err, None)
        else if thread_r \<noteq> CHIAKI_ERR_SUCCESS then (thread_r, None)
        else (CHIAKI_ERR_SUCCESS, Some pipe))"

text \<open>The stop pipe while the thread is joined, and the error code of the join; the pipe is then closed if that succeeds.\<close>

definition chiaki_discovery_thread_stop :: "stop_pipe \<Rightarrow> ChiakiErrorCode \<Rightarrow> stop_pipe \<times> ChiakiErrorCode \<times> bool" where
  "chiaki_discovery_thread_stop pipe join_r = (chiaki_stop_pipe_stop pipe, join_r, join_r = CHIAKI_ERR_SUCCESS)"

section \<open>Waking a console up\<close>

text \<open>
  \<open>addrs\<close>: what \<open>getaddrinfo\<close> finds, each with its size, if it does not fail; \<open>discovery\<close>: the local address of the given
  discovery, if there is one; the others are for a temporary one.
\<close>

definition chiaki_discovery_wakeup ::
  "(sockaddr \<times> nat) list option \<Rightarrow> bool \<Rightarrow> (u16 \<Rightarrow> bool) \<Rightarrow> bool \<Rightarrow> sockaddr option \<Rightarrow> u64 \<Rightarrow> bool \<Rightarrow>
   (ChiakiErrorCode \<times> discovery_out list) option" where
  "chiaki_discovery_wakeup addrs socket_ok bind_ok sendto_ok discovery user_credential ps5 =
     (case addrs of
        None \<Rightarrow> Some (CHIAKI_ERR_NETWORK, [])
      | Some addrinfos \<Rightarrow>
          (case find (\<lambda>(a, l). sa_family a = AF_INET \<and> \<not> l > 16) addrinfos of
             None \<Rightarrow> Some (CHIAKI_ERR_UNKNOWN, [])
           | Some (addr, addr_len) \<Rightarrow>
               if addr_len = 0 then Some (CHIAKI_ERR_UNKNOWN, [])
               else let addr = addr\<lparr>sin_port := (if ps5 then CHIAKI_DISCOVERY_PORT_PS5 else CHIAKI_DISCOVERY_PORT_PS4)\<rparr>;
                        packet = \<lparr>dp_cmd = CHIAKI_DISCOVERY_CMD_WAKEUP,
                          dp_protocol_version = Some (if ps5 then CHIAKI_DISCOVERY_PROTOCOL_VERSION_PS5 else CHIAKI_DISCOVERY_PROTOCOL_VERSION_PS4),
                          dp_user_credential = user_credential\<rparr>
                 in case discovery of
                      Some local_addr \<Rightarrow> Some (chiaki_discovery_send sendto_ok local_addr packet addr)
                    | None \<Rightarrow> do {
                        (err, local_addr, outs) \<leftarrow> chiaki_discovery_init socket_ok bind_ok AF_INET;
                        case local_addr of
                          None \<Rightarrow> Some (err, outs)
                        | Some local_addr \<Rightarrow>
                            (case chiaki_discovery_send sendto_ok local_addr packet addr of
                               (err, sent) \<Rightarrow> Some (err, outs @ sent @ chiaki_discovery_fini)) }))"

section \<open>Facts\<close>

text \<open>The ports are tried in order, and any port at last.\<close>

lemma discovery_bind_from:
  "k \<le> 16 \<Longrightarrow> discovery_bind bind_ok (of_nat (9319 - k)) =
     (case find bind_ok (map of_nat [9319 - k..<9320]) of Some port \<Rightarrow> (port, True) | None \<Rightarrow> (0, bind_ok 0))"
proof (induction k)
  case 0
  have "[9319..<9320::nat] = [9319]" by (simp add: upt_rec)
  then show ?case by (simp add: discovery_bind.simps)
next
  case (Suc k)
  let ?p = "of_nat (9319 - Suc k) :: u16"
  have u: "unat ?p = 9319 - Suc k" using Suc.prems by (intro unat_of_nat_len) simp
  have "?p \<noteq> w" if "unat w = 0 \<or> unat w = 9319" for w
    proof
    assume "?p = w"
    then have "unat w = 9319 - Suc k" using u by (simp only:)
    then show False using that Suc.prems by linarith
  qed
  from this [of 0] this [of 9319] have "?p \<noteq> 0" "?p \<noteq> CHIAKI_DISCOVERY_PORT_LOCAL_MAX" by simp_all
  moreover have "?p + 1 = of_nat (9319 - k)" using Suc.prems by (simp add: Suc_diff_Suc flip: of_nat_Suc)
  moreover have "[9319 - Suc k..<9320] = (9319 - Suc k) # [9319 - k..<9320]"
  proof -
    have "Suc (9319 - Suc k) = 9319 - k" "9319 - Suc k < 9320" using Suc.prems by linarith+
    then show ?thesis by (subst upt_rec) (simp only: if_True)
  qed
  ultimately show ?case
    using Suc.IH Suc.prems by (subst discovery_bind.simps) simp
qed

lemma discovery_bind_ports:
  "discovery_bind bind_ok CHIAKI_DISCOVERY_PORT_LOCAL_MIN =
     (case find bind_ok (map of_nat [9303..<9320]) of Some port \<Rightarrow> (port, True) | None \<Rightarrow> (0, bind_ok 0))"
  using discovery_bind_from [of 16 bind_ok] by simp

text \<open>Decimal numbers are read back.\<close>

lemma digits_value_snoc: "digits_value (ds @ [d]) = digits_value ds * 10 + int (unat d - 0x30)"
  by (simp add: digits_value_def)

lemma decimal_digits:
  "(\<forall>d \<in> set (decimal n). c_isdigit d) \<and> digits_value (decimal n) = int n \<and> decimal n \<noteq> [] \<and> (0 < n \<longrightarrow> hd (decimal n) \<noteq> 0x30)"
proof (induction n rule: decimal.induct)
  case (1 n)
  have d: "c_isdigit (of_nat (0x30 + m)) \<and> unat (of_nat (0x30 + m) :: u8) = 0x30 + m" if "m < 10" for m
    using that by (auto simp: c_isdigit_def word_le_nat_alt unat_of_nat_len simp del: of_nat_add)
  show ?case
  proof (cases "n < 10")
    case True
    have "of_nat (0x30 + n) \<noteq> (0x30 :: u8)" if "0 < n" proof
      assume "of_nat (0x30 + n) = (0x30 :: u8)"
      then have "unat (of_nat (0x30 + n) :: u8) = 0x30" by (simp only:) simp
      then show False using d [OF True] that by linarith
    qed
    then show ?thesis
      using True d [OF True] by (subst (1 2 3 4) decimal.simps) (simp add: digits_value_def del: of_nat_add)
  next
    case False
    then have e: "decimal n = decimal (n div 10) @ [of_nat (0x30 + n mod 10)]" by (subst decimal.simps) simp
    have "n mod 10 < 10" by simp
    note d = d [OF this]
    have "int (n div 10) * 10 + int (n mod 10) = int n" using div_mult_mod_eq [of n 10] by linarith
    then show ?thesis
      using "1" [OF False] False d by (simp add: e digits_value_snoc del: of_nat_add)
  qed
qed

lemma nibble_value_digit: "c_isdigit d \<Longrightarrow> nibble_value d = int (unat d - 0x30) \<and> 0 \<le> nibble_value d \<and> nibble_value d < 10"
proof -
  assume d: "c_isdigit d"
  have "uint d = int (unat d)" by simp
  moreover have "48 \<le> unat d" "unat d \<le> 57" using d by (simp_all add: c_isdigit_def word_le_nat_alt)
  ultimately have "48 \<le> uint d" "uint d \<le> 57" "int (unat d - 48) = uint d - 48" by linarith+
  then show ?thesis using d by (simp add: c_isdigit_def nibble_value_def)
qed

lemma strtoul_digits_decimal:
  assumes "\<forall>d \<in> set ds. c_isdigit d"
  shows "strtoul_digits 10 ds = nat (digits_value ds)"
  using assms
proof (induction ds rule: rev_induct)
  case (snoc d ds)
  have all: "\<forall>d \<in> set ds'. c_isdigit d \<Longrightarrow> takeWhile (\<lambda>d. 0 \<le> nibble_value d \<and> nibble_value d < 10) ds' = ds'" for ds'
    using nibble_value_digit by (intro takeWhile_eq_all_conv [THEN iffD2]) blast
  have t: "takeWhile (\<lambda>d. 0 \<le> nibble_value d \<and> nibble_value d < 10) ds = ds"
      "takeWhile (\<lambda>d. 0 \<le> nibble_value d \<and> nibble_value d < 10) (ds @ [d]) = ds @ [d]"
    using all [of ds] all [of "ds @ [d]"] snoc.prems by simp_all
  have "strtoul_digits 10 (ds @ [d]) = strtoul_digits 10 ds * 10 + nat (nibble_value d)"
    unfolding strtoul_digits_def of_nat_numeral t by simp
  then show ?case
    using snoc nibble_value_digit [of d] digits_value_nonneg [of ds] by (simp add: digits_value_snoc nat_add_distrib nat_mult_distrib)
qed (simp add: strtoul_digits_def digits_value_def)

lemma strtoul0_decimal: "n < 2 ^ 64 \<Longrightarrow> strtoul0 (decimal n) = n"
proof -
  assume n: "n < 2 ^ 64"
  show ?thesis
  proof (cases "n = 0")
    case True
    then show ?thesis by (simp add: decimal.simps strtoul0_def strtoul_digits_def nibble_value_def c_isspace_def)
  next
    case False
    obtain e es where e: "decimal n = e # es" using decimal_digits [of n] by (cases "decimal n") auto
    have d: "\<forall>d \<in> set (decimal n). c_isdigit d" and v: "digits_value (decimal n) = int n" and h: "e \<noteq> 0x30" "c_isdigit e"
      using decimal_digits [of n] False e by auto
    have "\<not> c_isspace e" "e \<noteq> 0x2d" "e \<noteq> 0x2b" using digit_not_special [OF h(2)] by auto
    then show ?thesis
      using strtoul_digits_decimal [OF d] v n h(1) by (simp add: strtoul0_def e)
  qed
qed

text \<open>The host that the header lines describe: of lines with the same key the first counts.\<close>

definition described_host :: "ChiakiDiscoveryHostState \<Rightarrow> bytes option \<Rightarrow> (bytes \<times> bytes) list \<Rightarrow> discovery_host" where
  "described_host state addr hs =
     \<lparr>dh_state = state,
      dh_host_request_port = (case map_of hs (ascii ''host-request-port'') of None \<Rightarrow> 0 | Some v \<Rightarrow> of_nat (strtoul0 v)),
      dh_host_addr = addr,
      dh_system_version = map_of hs (ascii ''system-version''),
      dh_device_discovery_protocol_version = map_of hs (ascii ''device-discovery-protocol-version''),
      dh_host_name = map_of hs (ascii ''host-name''),
      dh_host_type = map_of hs (ascii ''host-type''),
      dh_host_id = map_of hs (ascii ''host-id''),
      dh_running_app_titleid = map_of hs (ascii ''running-app-titleid''),
      dh_running_app_name = map_of hs (ascii ''running-app-name'')\<rparr>"

lemma ascii_inject: "ascii s = ascii t \<longleftrightarrow> s = t"
proof -
  have "inj (of_char :: char \<Rightarrow> u8)"
  proof (rule injI)
    fix c d :: char
    assume "of_char c = (of_char d :: u8)"
    then have "unat (of_char c :: u8) = unat (of_char d :: u8)" by simp
    moreover have "unat (of_char c :: u8) = of_char c" for c
      by (cases c) (simp add: unat_of_nat_len of_char_def)
    ultimately have "(of_char c :: nat) = of_char d" by simp
    then show "c = d" by simp
  qed
  then show ?thesis by (simp add: ascii_def inj_map_eq_map)
qed

lemma discovery_response_header_eq:
  "discovery_response_header (k, v) (described_host state addr hs) = described_host state addr ((k, v) # hs)"
proof -
  consider "k = ascii ''system-version''" | "k = ascii ''device-discovery-protocol-version''" | "k = ascii ''host-request-port''" | "k = ascii ''host-name''" | "k = ascii ''host-type''" | "k = ascii ''host-id''" | "k = ascii ''running-app-titleid''" | "k = ascii ''running-app-name''"
    | "k \<noteq> ascii ''system-version''" "k \<noteq> ascii ''device-discovery-protocol-version''" "k \<noteq> ascii ''host-request-port''" "k \<noteq> ascii ''host-name''" "k \<noteq> ascii ''host-type''" "k \<noteq> ascii ''host-id''" "k \<noteq> ascii ''running-app-titleid''" "k \<noteq> ascii ''running-app-name''"
    by blast
  then show ?thesis
    by cases (simp_all add: discovery_response_header_def described_host_def ascii_inject del: ascii_simps)
qed

lemma described_host_fold:
  "fold discovery_response_header (rev hs) (discovery_host_zero\<lparr>dh_host_addr := addr, dh_state := state\<rparr>) = described_host state addr hs"
proof (induction hs)
  case Nil
  then show ?case by (simp add: described_host_def discovery_host_zero_def)
next
  case (Cons h hs)
  then show ?case by (cases h) (simp add: discovery_response_header_eq)
qed

lemma srch_response_parsed:
  assumes "\<forall>h \<in> set hs. header_ok h" "length hs \<le> mallocs"
    and "\<forall>d \<in> set digits. c_isdigit d" "0 < digits_value digits" "digits_value digits < 2 ^ 31" "LF \<notin> set reason"
  shows "chiaki_discovery_srch_response_parse inet_ntop mallocs addr (response_text digits reason hs) =
     (CHIAKI_ERR_SUCCESS, Some (described_host (discovery_response_state (digits_value digits)) (sockaddr_str inet_ntop addr) hs))"
proof -
  obtain buf entries where "chiaki_http_response_parse mallocs (response_text digits reason hs) = (CHIAKI_ERR_SUCCESS, digits_value digits, buf, entries)"
      "header_strings buf entries = rev hs"
    using http_response_parsed [OF assms] by blast
  then show ?thesis
    by (simp add: chiaki_discovery_srch_response_parse_def described_host_fold)
qed

text \<open>Waking up sends at most one packet, and a socket that is opened for it is closed.\<close>

lemma discovery_wakeup_closes:
  assumes "chiaki_discovery_wakeup addrs socket_ok bind_ok sendto_ok discovery user_credential ps5 = Some (err, outs)"
  shows "outs \<in> {[], [Disc_Open, Disc_Close]} \<or>
     (\<exists>text. outs \<in> {[Disc_Sent (if ps5 then CHIAKI_DISCOVERY_PORT_PS5 else CHIAKI_DISCOVERY_PORT_PS4) text],
       [Disc_Open, Disc_Sent (if ps5 then CHIAKI_DISCOVERY_PORT_PS5 else CHIAKI_DISCOVERY_PORT_PS4) text, Disc_Close]} \<and> err = CHIAKI_ERR_SUCCESS)"
proof -
  have sent: "\<exists>text. r = (CHIAKI_ERR_SUCCESS, [Disc_Sent port text]) \<or> snd r = []"
    if "r = chiaki_discovery_send sendto_ok local_addr packet (addr\<lparr>sin_port := port\<rparr>)" "sa_family addr = AF_INET" for r local_addr packet addr port
    using that by (auto simp: chiaki_discovery_send_def sockaddr_port_def split: prod.split)
  show ?thesis
  proof (cases addrs)
    case None
    then show ?thesis using assms by (simp add: chiaki_discovery_wakeup_def)
  next
    case (Some as)
    show ?thesis
    proof (cases "find (\<lambda>(a, l). sa_family a = AF_INET \<and> \<not> l > 16) as")
      case None
      then show ?thesis using assms by (simp add: chiaki_discovery_wakeup_def Some)
    next
      case (Some a)
      obtain addr len where a: "a = (addr, len)" by fastforce
      have f: "sa_family addr = AF_INET" using Some by (auto simp: find_Some_iff a)
      let ?packet = "\<lparr>dp_cmd = CHIAKI_DISCOVERY_CMD_WAKEUP,
          dp_protocol_version = Some (if ps5 then CHIAKI_DISCOVERY_PROTOCOL_VERSION_PS5 else CHIAKI_DISCOVERY_PROTOCOL_VERSION_PS4),
          dp_user_credential = user_credential\<rparr>"
      note s = sent [OF refl f, of _ ?packet "if ps5 then CHIAKI_DISCOVERY_PORT_PS5 else CHIAKI_DISCOVERY_PORT_PS4"]
      obtain port ok where b: "discovery_bind bind_ok CHIAKI_DISCOVERY_PORT_LOCAL_MIN = (port, ok)" by fastforce
      show ?thesis
      proof (cases discovery)
        case None
        then show ?thesis
          using assms s [of "\<lparr>sa_family = AF_INET, sin_port = port, sin6_port = 0\<rparr>"]
          by (auto simp: chiaki_discovery_wakeup_def \<open>addrs = Some as\<close> Some a chiaki_discovery_init_def b chiaki_discovery_fini_def
              simp del: ascii_simps split: if_split_asm prod.split_asm)
      next
        case (Some local_addr)
        then show ?thesis
          using assms s [of local_addr]
          by (auto simp: chiaki_discovery_wakeup_def \<open>addrs = Some as\<close> \<open>find _ as = Some a\<close> a simp del: ascii_simps split: if_split_asm)
      qed
    qed
  qed
qed

text \<open>
  C33. An answer is read. A datagram of at most 511 bytes that is a response with a status code, header lines that have a key
  without a colon and a value, neither of them empty nor with a line break or a zero byte, makes a turn of the receiving thread
  hand over exactly the host that the lines describe: ready for status 200, in standby for 620, with the first line of each
  key, the sender's address and, printed in decimal, the port for requests.
\<close>

theorem discovery_answer_read:
  assumes "\<forall>h \<in> set hs. header_ok h" "length hs \<le> di_mallocs i"
    and "\<forall>d \<in> set digits. c_isdigit d" "0 < digits_value digits" "digits_value digits < 2 ^ 31" "LF \<notin> set reason"
    and "di_select i = CHIAKI_ERR_SUCCESS" "di_recv i = Some (response_text digits reason hs)" "length (response_text digits reason hs) \<le> 511"
    and "map_of hs (ascii ''host-request-port'') = Some (decimal (unat port))"
  shows "discovery_turn inet_ntop i = Disc_Next (Some
     \<lparr>dh_state = (if digits_value digits = 200 then CHIAKI_DISCOVERY_HOST_STATE_READY
        else if digits_value digits = 620 then CHIAKI_DISCOVERY_HOST_STATE_STANDBY else CHIAKI_DISCOVERY_HOST_STATE_UNKNOWN),
      dh_host_request_port = port,
      dh_host_addr = sockaddr_str inet_ntop (di_addr i),
      dh_system_version = map_of hs (ascii ''system-version''),
      dh_device_discovery_protocol_version = map_of hs (ascii ''device-discovery-protocol-version''),
      dh_host_name = map_of hs (ascii ''host-name''),
      dh_host_type = map_of hs (ascii ''host-type''),
      dh_host_id = map_of hs (ascii ''host-id''),
      dh_running_app_titleid = map_of hs (ascii ''running-app-titleid''),
      dh_running_app_name = map_of hs (ascii ''running-app-name'')\<rparr>)"
proof -
  have "unat port < 2 ^ 64" using unat_bound [of port] by simp
  then have p: "of_nat (strtoul0 (decimal (unat port))) = port" by (simp add: strtoul0_decimal)
  have t: "take 511 (response_text digits reason hs) = response_text digits reason hs" "response_text digits reason hs \<noteq> []"
    using assms(9) by (simp_all add: response_text_def)
  show ?thesis
    using srch_response_parsed [OF assms(1-6), of inet_ntop "di_addr i"] p
    by (simp add: discovery_turn_def assms(7,8,10) t discovery_response_state_def described_host_def del: ascii_simps)
qed

definition example_answer :: "(bytes \<times> bytes) list" where
  "example_answer =
     [(ascii ''host-id'', ascii ''5C8766''), (ascii ''host-type'', ascii ''PS5''), (ascii ''host-request-port'', ascii ''997''),
      (ascii ''device-discovery-protocol-version'', ascii ''00030010''), (ascii ''system-version'', ascii ''04500007'')]"

theorem discovery_answer_read_witness:
  "discovery_turn (\<lambda>_. Some (ascii ''10.0.0.7''))
     \<lparr>di_select = CHIAKI_ERR_SUCCESS, di_recv = Some (response_text (ascii ''620'') (ascii ''Standby'') example_answer),
      di_addr = \<lparr>sa_family = AF_INET, sin_port = 9302, sin6_port = 0\<rparr>, di_mallocs = 5\<rparr> = Disc_Next (Some
     \<lparr>dh_state = CHIAKI_DISCOVERY_HOST_STATE_STANDBY, dh_host_request_port = 997, dh_host_addr = Some (ascii ''10.0.0.7''),
      dh_system_version = Some (ascii ''04500007''), dh_device_discovery_protocol_version = Some (ascii ''00030010''),
      dh_host_name = None, dh_host_type = Some (ascii ''PS5''), dh_host_id = Some (ascii ''5C8766''),
      dh_running_app_titleid = None, dh_running_app_name = None\<rparr>)"
proof -
  let ?hs = example_answer
  let ?i = "\<lparr>di_select = CHIAKI_ERR_SUCCESS, di_recv = Some (response_text (ascii ''620'') (ascii ''Standby'') ?hs),
      di_addr = \<lparr>sa_family = AF_INET, sin_port = 9302, sin6_port = 0\<rparr>, di_mallocs = 5\<rparr>"
  have "\<forall>h \<in> set ?hs. header_ok h" "length ?hs \<le> di_mallocs ?i" by (simp_all add: example_answer_def header_ok_def)
  moreover have "\<forall>d \<in> set (ascii ''620''). c_isdigit d" "0 < digits_value (ascii ''620'')" "digits_value (ascii ''620'') < 2 ^ 31"
      "LF \<notin> set (ascii ''Standby'')"
    by (simp_all add: c_isdigit_def digits_value_def)
  moreover have "length (response_text (ascii ''620'') (ascii ''Standby'') ?hs) \<le> 511"
    by (simp add: response_text_def example_answer_def http_version_def header_line_def)
  moreover have "map_of ?hs (ascii ''host-request-port'') = Some (decimal (unat (997 :: u16)))"
    by (simp add: example_answer_def decimal.simps)
  ultimately show ?thesis
    using discovery_answer_read [of ?hs ?i "ascii ''620''" "ascii ''Standby''" 997 "\<lambda>_. Some (ascii ''10.0.0.7'')"]
    by (simp add: digits_value_def sockaddr_str_def) (simp add: example_answer_def)
qed

end
