(* ===== verification/Discovery_Service.thy ===== *)
theory Discovery_Service
  imports Discovery
begin

text \<open>
  \<open>lib/src/discoveryservice.c\<close>: a thread that searches for consoles at regular intervals and keeps a table of those that answer.
  The table is two arrays of \<open>hosts_max\<close> slots, of which the first \<open>hosts_count\<close> are in use; strings are compared and copied by
  their contents, so that freeing them does not appear.
\<close>

section \<open>State\<close>

record discovery_service =
  ds_hosts_max :: nat
  ds_host_drop_pings :: u64
  ds_send_addr :: sockaddr
  ds_local_addr :: sockaddr
  ds_ping_index :: u64
  ds_hosts :: "discovery_host list"
  ds_infos :: "u64 list"
  ds_hosts_count :: u64

text \<open>Reports to the callback and packets.\<close>

datatype service_out = Ds_Report "discovery_host list" | Ds_Packet discovery_out

definition discovery_service_report_state :: "discovery_service \<Rightarrow> service_out list" where
  "discovery_service_report_state s = [Ds_Report (take (unat (ds_hosts_count s)) (ds_hosts s))]"

section \<open>Dropping hosts\<close>

text \<open>\<open>memmove\<close> of \<open>n\<close> elements in an array; \<open>None\<close>: outside of it.\<close>

definition c_memmove :: "nat \<Rightarrow> nat \<Rightarrow> nat \<Rightarrow> 'a list \<Rightarrow> 'a list option" where
  "c_memmove dst src n xs =
     (if src + n \<le> length xs \<and> dst + n \<le> length xs then Some (take dst xs @ take n (drop src xs) @ drop (dst + n) xs) else None)"

definition discovery_service_remove :: "u64 \<Rightarrow> discovery_service \<Rightarrow> discovery_service option" where
  "discovery_service_remove i s =
     (if i < ds_hosts_count s - 1 then do {
        infos \<leftarrow> c_memmove (unat i) (unat i + 1) (unat (ds_hosts_count s - i - 1)) (ds_infos s);
        hosts \<leftarrow> c_memmove (unat i) (unat i + 1) (unat (ds_hosts_count s - i - 1)) (ds_hosts s);
        Some (s\<lparr>ds_infos := infos, ds_hosts := hosts\<rparr>) }
      else Some s)"

lemma word_lt_Suc: "i < (n :: u64) \<Longrightarrow> unat (i + 1) = unat i + 1"
proof -
  assume "i < n"
  have "1 + i \<noteq> 0"
  proof
    assume "1 + i = 0"
    then have "i = - 1" by (simp add: eq_neg_iff_add_eq_0 add.commute)
    with \<open>i < n\<close> show False using word_n1_ge [of n] by simp
  qed
  then show ?thesis using unatSuc [of i] by (simp add: add.commute)
qed

lemma word_pred: "i < (n :: u64) \<Longrightarrow> unat (n - 1) = unat n - 1"
proof -
  assume "i < n"
  then have "n \<noteq> 0" by auto
  then have "1 \<le> n" by (simp add: word_le_nat_alt Suc_le_eq unat_gt_0)
  then show ?thesis by (simp add: unat_sub)
qed

text \<open>The loop over the hosts; when a host is removed, \<open>i--\<close> wraps for the first one and the \<open>i++\<close> of the loop undoes it.\<close>

function discovery_service_drop_loop :: "u64 \<Rightarrow> bool \<Rightarrow> discovery_service \<Rightarrow> (bool \<times> discovery_service) option" where
  "discovery_service_drop_loop i change s =
     (if \<not> i < ds_hosts_count s then Some (change, s)
      else if \<not> unat i < length (ds_infos s) \<or> \<not> unat i < length (ds_hosts s) then None
      else if ds_infos s ! unat i + ds_host_drop_pings s \<ge> ds_ping_index s
      then discovery_service_drop_loop (i + 1) change s
      else case discovery_service_remove i s of
          None \<Rightarrow> None
        | Some s' \<Rightarrow> discovery_service_drop_loop (i - 1 + 1) True (s'\<lparr>ds_hosts_count := ds_hosts_count s - 1\<rparr>))"
  by pat_completeness auto

termination
proof (relation "measure (\<lambda>(i, change, s). unat (ds_hosts_count s) - unat i)")
  show "wf (measure (\<lambda>(i, change, s). unat (ds_hosts_count s) - unat i))" by (rule wf_measure)
next
  fix i change s
  assume "\<not> \<not> i < ds_hosts_count s"
  then show "((i + 1, change, s), i, change, s) \<in> measure (\<lambda>(i, change, s). unat (ds_hosts_count s) - unat i)"
    using word_lt_Suc [of i "ds_hosts_count s"] by (simp add: word_less_nat_alt)
next
  fix i change s s'
  assume "\<not> \<not> i < ds_hosts_count s"
  then show "((i - 1 + 1, True, s'\<lparr>ds_hosts_count := ds_hosts_count s - 1\<rparr>), i, change, s) \<in>
      measure (\<lambda>(i, change, s). unat (ds_hosts_count s) - unat i)"
    using word_pred [of i "ds_hosts_count s"] by (simp add: word_less_nat_alt)
qed

declare discovery_service_drop_loop.simps [simp del]

definition discovery_service_drop_old_hosts :: "discovery_service \<Rightarrow> (discovery_service \<times> service_out list) option" where
  "discovery_service_drop_old_hosts s = do {
     (change, s) \<leftarrow> discovery_service_drop_loop 0 False s;
     Some (s, if change then discovery_service_report_state s else []) }"

section \<open>Pings\<close>

definition service_search :: "bool \<Rightarrow> bytes \<Rightarrow> discovery_service \<Rightarrow> service_out list" where
  "service_search sendto_ok version s =
     map Ds_Packet (snd (chiaki_discovery_send sendto_ok (ds_local_addr s)
       \<lparr>dp_cmd = CHIAKI_DISCOVERY_CMD_SRCH, dp_protocol_version = Some version, dp_user_credential = 0\<rparr> (ds_send_addr s)))"

definition set_send_port :: "u16 \<Rightarrow> discovery_service \<Rightarrow> discovery_service" where
  "set_send_port port s = s\<lparr>ds_send_addr := snd (set_port (ds_send_addr s) port)\<rparr>"

text \<open>\<open>send4\<close> and \<open>send5\<close> tell whether \<open>sendto\<close> succeeds.\<close>

definition discovery_service_ping :: "bool \<Rightarrow> bool \<Rightarrow> discovery_service \<Rightarrow> (discovery_service \<times> service_out list) option" where
  "discovery_service_ping send4 send5 s = do {
     (s, outs) \<leftarrow> discovery_service_drop_old_hosts (s\<lparr>ds_ping_index := ds_ping_index s + 1\<rparr>);
     if sa_family (ds_send_addr s) \<noteq> AF_INET \<and> sa_family (ds_send_addr s) \<noteq> AF_INET6 then Some (s, outs)
     else let s4 = set_send_port CHIAKI_DISCOVERY_PORT_PS4 s;
              s5 = set_send_port CHIAKI_DISCOVERY_PORT_PS5 s4
       in Some (s5, outs @ service_search send4 CHIAKI_DISCOVERY_PROTOCOL_VERSION_PS4 s4 @
                service_search send5 CHIAKI_DISCOVERY_PROTOCOL_VERSION_PS5 s5) }"

section \<open>Answers\<close>

text \<open>A member of the slot and whether it changes; \<open>alloc\<close>: \<open>strdup\<close> succeeds.\<close>

definition update_string :: "bool \<Rightarrow> bytes option \<Rightarrow> bytes option \<Rightarrow> bool \<times> bytes option" where
  "update_string alloc slot host =
     (if slot \<noteq> None \<and> host \<noteq> None \<and> the slot = the host then (False, slot)
      else if slot = None \<and> host = None then (False, slot)
      else (True, case host of Some name \<Rightarrow> if alloc then Some name else None | None \<Rightarrow> None))"

text \<open>The slot after an answer, and whether it has changed. The argument of \<open>alloc\<close> is the number of the member.\<close>

definition discovery_slot_update :: "(nat \<Rightarrow> bool) \<Rightarrow> discovery_host \<Rightarrow> discovery_host \<Rightarrow> bool \<times> discovery_host" where
  "discovery_slot_update alloc slot host =
     (let u0 = update_string (alloc 0) (dh_host_addr slot) (dh_host_addr host);
          u1 = update_string (alloc 1) (dh_system_version slot) (dh_system_version host);
          u2 = update_string (alloc 2) (dh_device_discovery_protocol_version slot) (dh_device_discovery_protocol_version host);
          u3 = update_string (alloc 3) (dh_host_name slot) (dh_host_name host);
          u4 = update_string (alloc 4) (dh_host_type slot) (dh_host_type host);
          u5 = update_string (alloc 5) (dh_host_id slot) (dh_host_id host);
          u6 = update_string (alloc 6) (dh_running_app_titleid slot) (dh_running_app_titleid host);
          u7 = update_string (alloc 7) (dh_running_app_name slot) (dh_running_app_name host)
      in (dh_state slot \<noteq> dh_state host \<or> dh_host_request_port slot \<noteq> dh_host_request_port host \<or>
            fst u0 \<or> fst u1 \<or> fst u2 \<or> fst u3 \<or> fst u4 \<or> fst u5 \<or> fst u6 \<or> fst u7,
          \<lparr>dh_state = dh_state host, dh_host_request_port = dh_host_request_port host, dh_host_addr = snd u0,
           dh_system_version = snd u1, dh_device_discovery_protocol_version = snd u2, dh_host_name = snd u3,
           dh_host_type = snd u4, dh_host_id = snd u5, dh_running_app_titleid = snd u6, dh_running_app_name = snd u7\<rparr>))"

fun discovery_find_host :: "bytes \<Rightarrow> nat \<Rightarrow> discovery_host list \<Rightarrow> nat option" where
  "discovery_find_host host_id i [] = None"
| "discovery_find_host host_id i (h # hosts) =
     (case dh_host_id h of
        None \<Rightarrow> discovery_find_host host_id (i + 1) hosts
      | Some x \<Rightarrow> if x = host_id then Some i else discovery_find_host host_id (i + 1) hosts)"

text \<open>The rest of the handler, for the slot of the host. \<open>None\<close>: outside of the arrays.\<close>

definition discovery_service_update ::
  "(nat \<Rightarrow> bool) \<Rightarrow> nat \<Rightarrow> discovery_host \<Rightarrow> bool \<Rightarrow> discovery_service \<Rightarrow> (discovery_service \<times> service_out list) option" where
  "discovery_service_update alloc index host change s =
     (if \<not> index < length (ds_infos s) \<or> \<not> index < length (ds_hosts s) then None
      else case discovery_slot_update alloc (ds_hosts s ! index) host of (updated, slot) \<Rightarrow>
        let s = s\<lparr>ds_infos := (ds_infos s)[index := ds_ping_index s], ds_hosts := (ds_hosts s)[index := slot]\<rparr>
        in Some (s, if change \<or> updated then discovery_service_report_state s else []))"

definition discovery_service_host_received ::
  "(nat \<Rightarrow> bool) \<Rightarrow> discovery_host \<Rightarrow> discovery_service \<Rightarrow> (discovery_service \<times> service_out list) option" where
  "discovery_service_host_received alloc host s =
     (case dh_host_id host of
        None \<Rightarrow> Some (s, [])
      | Some host_id \<Rightarrow>
          if \<not> unat (ds_hosts_count s) \<le> length (ds_hosts s) then None
          else case discovery_find_host host_id 0 (take (unat (ds_hosts_count s)) (ds_hosts s)) of
            Some index \<Rightarrow> discovery_service_update alloc index host False s
          | None \<Rightarrow>
              if unat (ds_hosts_count s) = ds_hosts_max s then Some (s, [])
              else let index = unat (ds_hosts_count s)
                in discovery_service_update alloc index host True
                     (s\<lparr>ds_hosts_count := ds_hosts_count s + 1, ds_hosts := (ds_hosts s)[index := discovery_host_zero]\<rparr>))"

section \<open>The thread\<close>

text \<open>
  What happens, in order: the wait of the thread ends with an error code, and in case of a ping \<open>sendto\<close> succeeds or not; an answer is handed
  over by the receiving thread. After any code but \<open>CHIAKI_ERR_TIMEOUT\<close> the receiving thread is stopped. The result tells whether the thread has ended.
\<close>

datatype service_event = Ev_Wait ChiakiErrorCode bool bool | Ev_Host "nat \<Rightarrow> bool" discovery_host

fun discovery_service_loop :: "service_event list \<Rightarrow> discovery_service \<Rightarrow> (bool \<times> discovery_service \<times> service_out list) option" where
  "discovery_service_loop [] s = Some (False, s, [])"
| "discovery_service_loop (Ev_Wait err send4 send5 # evs) s =
     (if err \<noteq> CHIAKI_ERR_TIMEOUT then Some (True, s, [])
      else do {
        (s, outs) \<leftarrow> discovery_service_ping send4 send5 s;
        (ended, s, outs') \<leftarrow> discovery_service_loop evs s;
        Some (ended, s, outs @ outs') })"
| "discovery_service_loop (Ev_Host alloc host # evs) s = do {
     (s, outs) \<leftarrow> discovery_service_host_received alloc host s;
     (ended, s, outs') \<leftarrow> discovery_service_loop evs s;
     Some (ended, s, outs @ outs') }"

definition discovery_service_thread_func ::
  "ChiakiErrorCode \<Rightarrow> ChiakiErrorCode \<Rightarrow> service_event list \<Rightarrow> discovery_service \<Rightarrow> (bool \<times> discovery_service \<times> service_out list) option" where
  "discovery_service_thread_func lock_r start_r evs s =
     (if lock_r \<noteq> CHIAKI_ERR_SUCCESS then Some (True, s, [])
      else if start_r \<noteq> CHIAKI_ERR_SUCCESS then Some (True, s, [])
      else discovery_service_loop evs s)"

section \<open>Initialisation\<close>

datatype service_resource = SR_Hosts | SR_Infos | SR_Mutex | SR_Addr | SR_Discovery | SR_Cond | SR_Thread

text \<open>What the calls return, in their order.\<close>

record service_env =
  se_hosts :: bool
  se_infos :: bool
  se_mutex :: ChiakiErrorCode
  se_addr :: bool
  se_socket :: bool
  se_bind :: "u16 \<Rightarrow> bool"
  se_cond :: ChiakiErrorCode
  se_thread :: ChiakiErrorCode

text \<open>The labels at the end, from the given one on.\<close>

definition service_cleanup :: "service_resource list" where
  "service_cleanup = [SR_Cond, SR_Discovery, SR_Addr, SR_Mutex, SR_Infos, SR_Hosts]"

definition cleanup_from :: "service_resource \<Rightarrow> service_resource list" where
  "cleanup_from r = dropWhile (\<lambda>x. x \<noteq> r) service_cleanup"

text \<open>The error code, the service, what is acquired and what is released. \<open>None\<close>: see \<open>chiaki_discovery_init\<close>.\<close>

definition chiaki_discovery_service_init ::
  "service_env \<Rightarrow> nat \<Rightarrow> u64 \<Rightarrow> sockaddr \<Rightarrow>
   (ChiakiErrorCode \<times> discovery_service option \<times> service_resource list \<times> service_resource list) option" where
  "chiaki_discovery_service_init e hosts_max host_drop_pings send_addr =
     (if \<not> se_hosts e then Some (CHIAKI_ERR_MEMORY, None, [], [])
      else if \<not> se_infos e then Some (CHIAKI_ERR_MEMORY, None, [SR_Hosts], cleanup_from SR_Hosts)
      else if se_mutex e \<noteq> CHIAKI_ERR_SUCCESS then Some (se_mutex e, None, [SR_Hosts, SR_Infos], cleanup_from SR_Infos)
      else if \<not> se_addr e then Some (CHIAKI_ERR_MEMORY, None, [SR_Hosts, SR_Infos, SR_Mutex], cleanup_from SR_Mutex)
      else do {
        (err, local_addr, _) \<leftarrow> chiaki_discovery_init (se_socket e) (se_bind e) (sa_family send_addr);
        case local_addr of
          None \<Rightarrow> Some (err, None, [SR_Hosts, SR_Infos, SR_Mutex, SR_Addr], cleanup_from SR_Addr)
        | Some local_addr \<Rightarrow>
            if se_cond e \<noteq> CHIAKI_ERR_SUCCESS
            then Some (se_cond e, None, [SR_Hosts, SR_Infos, SR_Mutex, SR_Addr, SR_Discovery], cleanup_from SR_Discovery)
            else if se_thread e \<noteq> CHIAKI_ERR_SUCCESS
            then Some (se_thread e, None, [SR_Hosts, SR_Infos, SR_Mutex, SR_Addr, SR_Discovery, SR_Cond], cleanup_from SR_Cond)
            else Some (CHIAKI_ERR_SUCCESS,
              Some \<lparr>ds_hosts_max = hosts_max, ds_host_drop_pings = host_drop_pings, ds_send_addr = send_addr, ds_local_addr = local_addr,
                ds_ping_index = 0, ds_hosts = replicate hosts_max discovery_host_zero, ds_infos = replicate hosts_max 0, ds_hosts_count = 0\<rparr>,
              [SR_Hosts, SR_Infos, SR_Mutex, SR_Addr, SR_Discovery, SR_Cond, SR_Thread], []) })"

definition chiaki_discovery_service_fini :: "service_resource list" where
  "chiaki_discovery_service_fini = [SR_Thread, SR_Cond, SR_Discovery, SR_Mutex, SR_Addr, SR_Infos, SR_Hosts]"

end
