(* ===== verification/Discovery_Service_Ends.thy ===== *)
theory Discovery_Service_Ends
  imports Discovery_Service
begin

text \<open>
  What the table of the discovery service holds after any sequence of pings and answers, what the callback is told, and that the
  initialisation releases what it has acquired when it fails.
\<close>

section \<open>The table\<close>

definition service_table :: "discovery_service \<Rightarrow> (discovery_host \<times> u64) list" where
  "service_table s = zip (take (unat (ds_hosts_count s)) (ds_hosts s)) (take (unat (ds_hosts_count s)) (ds_infos s))"

definition service_ok :: "discovery_service \<Rightarrow> bool" where
  "service_ok s \<longleftrightarrow>
     length (ds_hosts s) = ds_hosts_max s \<and> length (ds_infos s) = ds_hosts_max s \<and> unat (ds_hosts_count s) \<le> ds_hosts_max s \<and>
     ds_hosts_max s < 2 ^ 64"

abbreviation service_hosts :: "discovery_service \<Rightarrow> discovery_host list" where
  "service_hosts s \<equiv> map fst (service_table s)"

lemma service_hosts_eq: "service_ok s \<Longrightarrow> take (unat (ds_hosts_count s)) (ds_hosts s) = service_hosts s"
  by (simp add: service_table_def service_ok_def)

lemma length_service_table: "service_ok s \<Longrightarrow> length (service_table s) = unat (ds_hosts_count s)"
  by (simp add: service_table_def service_ok_def)

lemma service_table_nth:
  "service_ok s \<Longrightarrow> i < unat (ds_hosts_count s) \<Longrightarrow> service_table s ! i = (ds_hosts s ! i, ds_infos s ! i)"
  by (simp add: service_table_def service_ok_def)

lemma c_memmove_remove:
  assumes "i < n" "n \<le> length xs"
  shows "\<exists>ys. c_memmove i (i + 1) (n - i - 1) xs = Some ys \<and> length ys = length xs \<and> take (n - 1) ys = take i xs @ drop (i + 1) (take n xs)"
proof -
  let ?ys = "take i xs @ take (n - i - 1) (drop (i + 1) xs) @ drop (i + (n - i - 1)) xs"
  have "c_memmove i (i + 1) (n - i - 1) xs = Some ?ys" using assms by (simp add: c_memmove_def)
  moreover have "length ?ys = length xs" using assms by simp
  moreover have "take (n - 1) ?ys = take i xs @ drop (i + 1) (take n xs)"
    using assms by (simp add: drop_take)
  ultimately show ?thesis by blast
qed

lemma zip_remove:
  assumes "i \<le> length xs" "length xs = length ys"
  shows "zip (take i xs @ drop (i + 1) xs) (take i ys @ drop (i + 1) ys) = take i (zip xs ys) @ drop (i + 1) (zip xs ys)"
  using assms by (simp add: take_zip drop_zip)

lemma service_remove:
  assumes "service_ok s" "i < ds_hosts_count s"
  shows "\<exists>hs ls. discovery_service_remove i s = Some (s\<lparr>ds_hosts := hs, ds_infos := ls\<rparr>) \<and>
     (let s' = s\<lparr>ds_hosts := hs, ds_infos := ls, ds_hosts_count := ds_hosts_count s - 1\<rparr>
      in service_ok s' \<and> service_table s' = take (unat i) (service_table s) @ drop (unat i + 1) (service_table s))"
proof -
  let ?n = "unat (ds_hosts_count s)"
  have i: "unat i < ?n" using assms(2) by (simp add: word_less_nat_alt)
  have n: "?n \<le> length (ds_hosts s)" "?n \<le> length (ds_infos s)" "length (ds_hosts s) = length (ds_infos s)"
    using assms(1) by (simp_all add: service_ok_def)
  have c: "unat (ds_hosts_count s - 1) = ?n - 1" using word_pred [OF assms(2)] .
  have m: "?n - 1 \<le> ds_hosts_max s" using assms(1) by (simp add: service_ok_def le_diff_conv)
  show ?thesis
  proof (cases "i < ds_hosts_count s - 1")
    case True
    have d: "unat (ds_hosts_count s - i - 1) = ?n - unat i - 1"
    proof -
      have "unat (ds_hosts_count s - i) = ?n - unat i" using assms(2) by (simp add: unat_sub order_less_imp_le)
      moreover have "0 < ds_hosts_count s - i" using i by (simp add: word_less_nat_alt calculation)
      ultimately show ?thesis using word_pred [of 0 "ds_hosts_count s - i"] by simp
    qed
    obtain hs where hs: "c_memmove (unat i) (unat i + 1) (?n - unat i - 1) (ds_hosts s) = Some hs" "length hs = length (ds_hosts s)"
        "take (?n - 1) hs = take (unat i) (ds_hosts s) @ drop (unat i + 1) (take ?n (ds_hosts s))"
      using c_memmove_remove [OF i n(1)] by blast
    obtain ls where ls: "c_memmove (unat i) (unat i + 1) (?n - unat i - 1) (ds_infos s) = Some ls" "length ls = length (ds_infos s)"
        "take (?n - 1) ls = take (unat i) (ds_infos s) @ drop (unat i + 1) (take ?n (ds_infos s))"
      using c_memmove_remove [OF i n(2)] by blast
    have t: "take (unat i) (ds_hosts s) = take (unat i) (take ?n (ds_hosts s))" "take (unat i) (ds_infos s) = take (unat i) (take ?n (ds_infos s))"
      using i by (simp_all add: min_def)
    have "discovery_service_remove i s = Some (s\<lparr>ds_hosts := hs, ds_infos := ls\<rparr>)"
      using True by (simp add: discovery_service_remove_def d hs(1) [simplified] ls(1) [simplified])
    moreover have "zip (take (?n - 1) hs) (take (?n - 1) ls) = take (unat i) (service_table s) @ drop (unat i + 1) (service_table s)"
      unfolding hs(3) ls(3) t service_table_def using i n by (intro zip_remove) simp_all
    ultimately show ?thesis
      using hs(2) ls(2) assms(1) c m by (intro exI [of _ hs] exI [of _ ls]) (simp add: service_ok_def service_table_def)
  next
    case False
    then have l: "unat i = ?n - 1" using i c by (simp add: word_less_nat_alt)
    have "zip (take (?n - 1) (ds_hosts s)) (take (?n - 1) (ds_infos s)) = take (?n - 1) (service_table s)"
      by (simp add: service_table_def take_zip)
    moreover have "drop (unat i + 1) (service_table s) = []" using l i length_service_table [OF assms(1)] by simp
    ultimately show ?thesis
      using False assms(1) c l m
      by (intro exI [of _ "ds_hosts s"] exI [of _ "ds_infos s"]) (simp add: discovery_service_remove_def service_ok_def service_table_def)
  qed
qed

section \<open>Dropping\<close>

definition service_keeps :: "discovery_service \<Rightarrow> discovery_host \<times> u64 \<Rightarrow> bool" where
  "service_keeps s e \<longleftrightarrow> snd e + ds_host_drop_pings s \<ge> ds_ping_index s"

lemma drop_loop_filter:
  assumes "service_ok s" "i \<le> ds_hosts_count s"
  shows "\<exists>hs ls n. let s' = s\<lparr>ds_hosts := hs, ds_infos := ls, ds_hosts_count := n\<rparr>; rest = drop (unat i) (service_table s) in
     discovery_service_drop_loop i change s = Some (change \<or> (\<exists>e \<in> set rest. \<not> service_keeps s e), s') \<and>
     service_ok s' \<and> service_table s' = take (unat i) (service_table s) @ filter (service_keeps s) rest"
  using assms
proof (induction i change s rule: discovery_service_drop_loop.induct)
  case (1 i change s)
  let ?t = "service_table s" and ?n = "unat (ds_hosts_count s)"
  note len = length_service_table [OF "1.prems"(1)]
  show ?case
  proof (cases "i < ds_hosts_count s")
    case False
    then have "unat i = ?n" using "1.prems"(2) by (simp add: word_less_nat_alt word_le_nat_alt)
    then show ?thesis
      using "1.prems"(1) False len
      by (intro exI [of _ "ds_hosts s"] exI [of _ "ds_infos s"] exI [of _ "ds_hosts_count s"]) (simp add: discovery_service_drop_loop.simps)
  next
    case True
    then have i: "unat i < ?n" by (simp add: word_less_nat_alt)
    then have b: "unat i < length (ds_infos s)" "unat i < length (ds_hosts s)" using "1.prems"(1) by (simp_all add: service_ok_def)
    have e: "?t ! unat i = (ds_hosts s ! unat i, ds_infos s ! unat i)" using service_table_nth [OF "1.prems"(1) i] .
    have dr: "drop (unat i) ?t = ?t ! unat i # drop (unat i + 1) ?t" using i len by (simp add: Cons_nth_drop_Suc)
    note loop = discovery_service_drop_loop.simps [of i change s]
    show ?thesis
    proof (cases "service_keeps s (?t ! unat i)")
      case keep: True
      then have k: "ds_infos s ! unat i + ds_host_drop_pings s \<ge> ds_ping_index s" by (simp add: service_keeps_def e)
      have "i + 1 \<le> ds_hosts_count s" "unat (i + 1) = unat i + 1"
        using word_lt_Suc [OF True] i by (simp_all add: word_le_nat_alt)
      then obtain hs ls n where "let s' = s\<lparr>ds_hosts := hs, ds_infos := ls, ds_hosts_count := n\<rparr>; rest = drop (unat i + 1) ?t in
          discovery_service_drop_loop (i + 1) change s = Some (change \<or> (\<exists>e \<in> set rest. \<not> service_keeps s e), s') \<and>
          service_ok s' \<and> service_table s' = take (unat i + 1) ?t @ filter (service_keeps s) rest"
        using "1.IH"(1) [OF _ _ k] True b "1.prems"(1) by auto
      then show ?thesis
        using True b k keep i len
        by (intro exI [of _ hs] exI [of _ ls] exI [of _ n]) (simp add: Let_def loop dr take_Suc_conv_app_nth)
    next
      case drop: False
      then have k: "\<not> ds_infos s ! unat i + ds_host_drop_pings s \<ge> ds_ping_index s" by (simp add: service_keeps_def e)
      obtain hs ls where r: "discovery_service_remove i s = Some (s\<lparr>ds_hosts := hs, ds_infos := ls\<rparr>)"
          and s': "service_ok (s\<lparr>ds_hosts := hs, ds_infos := ls, ds_hosts_count := ds_hosts_count s - 1\<rparr>)"
            "service_table (s\<lparr>ds_hosts := hs, ds_infos := ls, ds_hosts_count := ds_hosts_count s - 1\<rparr>) =
               take (unat i) ?t @ drop (unat i + 1) ?t"
        using service_remove [OF "1.prems"(1) True] unfolding Let_def by blast
      let ?s' = "s\<lparr>ds_hosts := hs, ds_infos := ls, ds_hosts_count := ds_hosts_count s - 1\<rparr>"
      have "i \<le> ds_hosts_count s - 1" using word_pred [OF True] i by (simp add: word_le_nat_alt)
      then obtain hs' ls' n where "let s'' = ?s'\<lparr>ds_hosts := hs', ds_infos := ls', ds_hosts_count := n\<rparr>; rest = drop (unat i) (service_table ?s') in
          discovery_service_drop_loop (i - 1 + 1) True ?s' = Some (True \<or> (\<exists>e \<in> set rest. \<not> service_keeps ?s' e), s'') \<and>
          service_ok s'' \<and> service_table s'' = take (unat i) (service_table ?s') @ filter (service_keeps ?s') rest"
        using "1.IH"(2) [OF _ _ k r] True b s'(1) by auto
      moreover have "service_keeps ?s' = service_keeps s" by (simp add: service_keeps_def fun_eq_iff)
      ultimately show ?thesis
        using True b k drop i len r s'
        by (intro exI [of _ hs'] exI [of _ ls'] exI [of _ n]) (simp add: Let_def loop dr)
    qed
  qed
qed

text \<open>The fields that the operations leave alone.\<close>

definition service_same :: "discovery_service \<Rightarrow> discovery_service \<Rightarrow> bool" where
  "service_same s s' \<longleftrightarrow>
     ds_hosts_max s' = ds_hosts_max s \<and> ds_host_drop_pings s' = ds_host_drop_pings s \<and> ds_ping_index s' = ds_ping_index s \<and>
     sa_family (ds_send_addr s') = sa_family (ds_send_addr s)"

fun service_reports :: "service_out list \<Rightarrow> discovery_host list list" where
  "service_reports [] = []"
| "service_reports (Ds_Report hosts # outs) = hosts # service_reports outs"
| "service_reports (Ds_Packet _ # outs) = service_reports outs"

lemma service_reports_append [simp]: "service_reports (outs @ outs') = service_reports outs @ service_reports outs'"
  by (induction outs rule: service_reports.induct) auto

lemma service_reports_packets [simp]: "service_reports (map Ds_Packet ps) = []"
  by (induction ps) auto

lemma service_report_state: "service_ok s \<Longrightarrow> discovery_service_report_state s = [Ds_Report (service_hosts s)]"
  by (simp add: discovery_service_report_state_def service_hosts_eq)

lemma filter_unchanged: "map f (filter P xs) = map f xs \<longleftrightarrow> (\<forall>x \<in> set xs. P x)"
proof
  assume "map f (filter P xs) = map f xs"
  then have "length (filter P xs) = length xs" by (metis length_map)
  then show "\<forall>x \<in> set xs. P x" by (metis length_filter_less less_irrefl)
qed simp

lemma drop_old_hosts_filter:
  assumes "service_ok s"
  shows "\<exists>s' outs. discovery_service_drop_old_hosts s = Some (s', outs) \<and> service_ok s' \<and> service_same s s' \<and> ds_send_addr s' = ds_send_addr s \<and>
     service_table s' = filter (service_keeps s) (service_table s) \<and>
     service_reports outs = (if service_hosts s' = service_hosts s then [] else [service_hosts s'])"
proof -
  obtain hs ls n where "let s' = s\<lparr>ds_hosts := hs, ds_infos := ls, ds_hosts_count := n\<rparr> in
     discovery_service_drop_loop 0 False s = Some (\<exists>e \<in> set (service_table s). \<not> service_keeps s e, s') \<and>
     service_ok s' \<and> service_table s' = filter (service_keeps s) (service_table s)"
    using drop_loop_filter [OF assms, of 0 False] by (auto simp: Let_def)
  then show ?thesis
    using filter_unchanged [of fst "service_keeps s" "service_table s"]
    by (auto simp: discovery_service_drop_old_hosts_def Let_def service_same_def service_report_state)
qed

section \<open>Answers\<close>

lemma update_string_copy: "update_string True slot host = (slot \<noteq> host, host)"
  by (cases slot; cases host) (auto simp: update_string_def)

lemma slot_update_copy: "(\<forall>i. alloc i) \<Longrightarrow> discovery_slot_update alloc slot host = (slot \<noteq> host, host)"
  by (cases slot; cases host) (simp add: discovery_slot_update_def update_string_copy Let_def; blast)

lemma find_host_cases:
  "case discovery_find_host host_id i hosts of
     None \<Rightarrow> Some host_id \<notin> set (map dh_host_id hosts)
   | Some j \<Rightarrow> i \<le> j \<and> j - i < length hosts \<and> dh_host_id (hosts ! (j - i)) = Some host_id"
proof (induction host_id i hosts rule: discovery_find_host.induct)
  case (2 host_id i h hosts)
  show ?case
  proof (cases "dh_host_id h = Some host_id")
    case False
    then have "discovery_find_host host_id i (h # hosts) = discovery_find_host host_id (i + 1) hosts" by (auto split: option.split)
    moreover have "case discovery_find_host host_id (i + 1) hosts of
        None \<Rightarrow> Some host_id \<notin> set (map dh_host_id hosts)
      | Some j \<Rightarrow> i + 1 \<le> j \<and> j - (i + 1) < length hosts \<and> dh_host_id (hosts ! (j - (i + 1))) = Some host_id"
      using 2 False by (cases "dh_host_id h") auto
    ultimately show ?thesis using False by (auto simp: nth_Cons' split: option.splits)
  qed simp
qed simp

text \<open>The table after an answer of a host with an identifier.\<close>

definition table_answer :: "nat \<Rightarrow> discovery_host \<Rightarrow> 'l \<Rightarrow> (discovery_host \<times> 'l) list \<Rightarrow> (discovery_host \<times> 'l) list" where
  "table_answer hosts_max host now t =
     (if dh_host_id host \<in> set (map (dh_host_id \<circ> fst) t)
      then map (\<lambda>e. if dh_host_id (fst e) = dh_host_id host then (host, now) else e) t
      else if length t = hosts_max then t
      else t @ [(host, now)])"

lemma update_at_key:
  assumes "distinct (map f xs)" "i < length xs"
  shows "xs[i := y] = map (\<lambda>x. if f x = f (xs ! i) then y else x) xs"
proof (rule nth_equalityI)
  fix j
  assume "j < length (xs[i := y])"
  then show "xs[i := y] ! j = map (\<lambda>x. if f x = f (xs ! i) then y else x) xs ! j"
    using assms by (auto simp: nth_list_update distinct_conv_nth)
qed simp

lemma service_update_slot:
  assumes "service_ok s" "index < unat (ds_hosts_count s)" "\<forall>i. alloc i"
  shows "\<exists>s' outs. discovery_service_update alloc index host change s = Some (s', outs) \<and> service_ok s' \<and> service_same s s' \<and>
     service_table s' = (service_table s)[index := (host, ds_ping_index s)] \<and>
     service_reports outs = (if change \<or> fst (service_table s ! index) \<noteq> host then [service_hosts s'] else [])"
proof -
  let ?s' = "s\<lparr>ds_infos := (ds_infos s)[index := ds_ping_index s], ds_hosts := (ds_hosts s)[index := host]\<rparr>"
  have b: "index < length (ds_infos s)" "index < length (ds_hosts s)" using assms(1,2) by (simp_all add: service_ok_def)
  have ok: "service_ok ?s'" using assms(1) by (simp add: service_ok_def)
  have "service_table ?s' = (service_table s)[index := (host, ds_ping_index s)]"
    using assms(2) by (simp add: service_table_def zip_update take_update_swap)
  moreover have "discovery_service_update alloc index host change s =
      Some (?s', if change \<or> ds_hosts s ! index \<noteq> host then discovery_service_report_state ?s' else [])"
    using b assms(3) by (simp add: discovery_service_update_def slot_update_copy Let_def)
  ultimately show ?thesis
    using ok service_table_nth [OF assms(1,2)] by (simp add: service_same_def service_report_state)
qed

lemma map_fst_update: "i < length t \<Longrightarrow> map fst (t[i := (h, l)]) = map fst t \<longleftrightarrow> fst (t ! i) = h"
  by (metis fst_conv length_map list_update_id map_update nth_list_update_eq nth_map)

lemma host_received_table:
  assumes "service_ok s" "\<forall>i. alloc i" "dh_host_id host = Some host_id" "distinct (map (dh_host_id \<circ> fst) (service_table s))"
  shows "\<exists>s' outs. discovery_service_host_received alloc host s = Some (s', outs) \<and> service_ok s' \<and> service_same s s' \<and>
     service_table s' = table_answer (ds_hosts_max s) host (ds_ping_index s) (service_table s) \<and>
     service_reports outs = (if service_hosts s' = service_hosts s then [] else [service_hosts s'])"
proof -
  let ?t = "service_table s" and ?n = "unat (ds_hosts_count s)"
  have l: "?n \<le> length (ds_hosts s)" using assms(1) by (simp add: service_ok_def)
  note len = length_service_table [OF assms(1)]
  have find: "case discovery_find_host host_id 0 (service_hosts s) of
      None \<Rightarrow> Some host_id \<notin> set (map (dh_host_id \<circ> fst) ?t)
    | Some j \<Rightarrow> j < length ?t \<and> dh_host_id (fst (?t ! j)) = Some host_id"
    using find_host_cases [where host_id = host_id and i = 0 and hosts = "service_hosts s"] by (auto split: option.splits)
  show ?thesis
  proof (cases "discovery_find_host host_id 0 (service_hosts s)")
    case (Some j)
    then have j: "j < length ?t" "dh_host_id (fst (?t ! j)) = Some host_id" using find by simp_all
    then have "dh_host_id host \<in> set (map (dh_host_id \<circ> fst) ?t)"
      unfolding assms(3) by (metis comp_apply length_map nth_map nth_mem)
    then have "table_answer (ds_hosts_max s) host (ds_ping_index s) ?t = ?t[j := (host, ds_ping_index s)]"
      using update_at_key [OF assms(4) j(1)] j(2) assms(3) by (simp add: table_answer_def cong: map_cong)
    moreover obtain s' outs where "discovery_service_update alloc j host False s = Some (s', outs)" "service_ok s'" "service_same s s'"
        "service_table s' = ?t[j := (host, ds_ping_index s)]"
        "service_reports outs = (if fst (?t ! j) \<noteq> host then [service_hosts s'] else [])"
      using service_update_slot [OF assms(1) _ assms(2), where index = j and host = host and change = False] j(1) len by auto
    ultimately show ?thesis
      using Some l j(1) by (simp add: discovery_service_host_received_def assms(3) service_hosts_eq [OF assms(1)] map_fst_update)
  next
    case None
    then have new: "Some host_id \<notin> set (map (dh_host_id \<circ> fst) ?t)" using find by simp
    show ?thesis
    proof (cases "?n = ds_hosts_max s")
      case True
      then show ?thesis
        using None l new assms(1) len
        by (intro exI [of _ s] exI [of _ "[]"])
          (simp add: discovery_service_host_received_def assms(3) service_hosts_eq [OF assms(1), unfolded True] table_answer_def service_same_def)
    next
      case False
      let ?s1 = "s\<lparr>ds_hosts_count := ds_hosts_count s + 1, ds_hosts := (ds_hosts s)[?n := discovery_host_zero]\<rparr>"
      have n: "?n < ds_hosts_max s" "?n + 1 < 2 ^ 64" using False assms(1) by (simp_all add: service_ok_def)
      then have c: "unat (ds_hosts_count s + 1) = ?n + 1" by (simp add: unat_word_ariths)
      have ok1: "service_ok ?s1" using assms(1) n c by (simp add: service_ok_def)
      have "take (Suc ?n) ((ds_hosts s)[?n := discovery_host_zero]) = take ?n (ds_hosts s) @ [discovery_host_zero]"
          "take (Suc ?n) (ds_infos s) = take ?n (ds_infos s) @ [ds_infos s ! ?n]"
        using assms(1) n(1) by (simp_all add: service_ok_def take_Suc_conv_app_nth)
      then have t1: "service_table ?s1 = ?t @ [(discovery_host_zero, ds_infos s ! ?n)]"
        using assms(1) n(1) by (simp add: service_table_def c service_ok_def)
      obtain s' outs where u: "discovery_service_update alloc ?n host True ?s1 = Some (s', outs)" "service_ok s'" "service_same ?s1 s'"
          "service_table s' = (service_table ?s1)[?n := (host, ds_ping_index s)]" "service_reports outs = [service_hosts s']"
        using service_update_slot [OF ok1 _ assms(2), where index = ?n and host = host and change = True] c by auto
      have t: "service_table s' = ?t @ [(host, ds_ping_index s)]"
        using u(4) t1 len by (simp add: list_update_append)
      then have "service_hosts s' \<noteq> service_hosts s" by simp
      moreover have "service_same s s'" using u(3) by (simp add: service_same_def)
      moreover have "discovery_service_host_received alloc host s = Some (s', outs)"
        using u(1) None l False by (simp add: discovery_service_host_received_def assms(3) service_hosts_eq [OF assms(1)] Let_def)
      moreover have "table_answer (ds_hosts_max s) host (ds_ping_index s) ?t = ?t @ [(host, ds_ping_index s)]"
        using new False len by (simp add: table_answer_def assms(3))
      ultimately show ?thesis
        using u(2,5) t by (intro exI [of _ s'] exI [of _ outs]) simp
    qed
  qed
qed

section \<open>Pings\<close>

lemma set_send_port_table [simp]:
  "service_table (set_send_port port s) = service_table s" "service_ok (set_send_port port s) = service_ok s"
  "service_same s (set_send_port port s')= service_same s s'"
  by (auto simp: set_send_port_def service_table_def service_ok_def service_same_def set_port_def)

lemma ping_table:
  assumes "service_ok s"
  shows "\<exists>s' outs. discovery_service_ping send4 send5 s = Some (s', outs) \<and> service_ok s' \<and>
     service_same (s\<lparr>ds_ping_index := ds_ping_index s + 1\<rparr>) s' \<and>
     service_table s' = filter (service_keeps (s\<lparr>ds_ping_index := ds_ping_index s + 1\<rparr>)) (service_table s) \<and>
     service_reports outs = (if service_hosts s' = service_hosts s then [] else [service_hosts s'])"
proof -
  let ?s1 = "s\<lparr>ds_ping_index := ds_ping_index s + 1\<rparr>"
  have t: "service_table ?s1 = service_table s" "service_ok ?s1" using assms by (simp_all add: service_table_def service_ok_def)
  obtain s' outs where "discovery_service_drop_old_hosts ?s1 = Some (s', outs)" "service_ok s'" "service_same ?s1 s'"
      "service_table s' = filter (service_keeps ?s1) (service_table s)"
      "service_reports outs = (if service_hosts s' = service_hosts s then [] else [service_hosts s'])"
    using drop_old_hosts_filter [OF t(2)] t(1) by auto
  then show ?thesis
    by (simp add: discovery_service_ping_def service_search_def Let_def del: ascii_simps)
qed

section \<open>What has been seen\<close>

text \<open>The last answer of a host in a sequence of events, the latest first, and the number of pings since.\<close>

fun last_answer :: "bytes \<Rightarrow> service_event list \<Rightarrow> (discovery_host \<times> nat) option" where
  "last_answer host_id [] = None"
| "last_answer host_id (Ev_Wait _ _ _ # evs) = map_option (\<lambda>(h, age). (h, age + 1)) (last_answer host_id evs)"
| "last_answer host_id (Ev_Host _ h # evs) = (if dh_host_id h = Some host_id then Some (h, 0) else last_answer host_id evs)"

fun service_pings :: "service_event list \<Rightarrow> nat" where
  "service_pings [] = 0"
| "service_pings (Ev_Wait _ _ _ # evs) = service_pings evs + 1"
| "service_pings (Ev_Host _ _ # evs) = service_pings evs"

fun answered_ids :: "service_event list \<Rightarrow> bytes set" where
  "answered_ids [] = {}"
| "answered_ids (Ev_Wait _ _ _ # evs) = answered_ids evs"
| "answered_ids (Ev_Host _ h # evs) = set_option (dh_host_id h) \<union> answered_ids evs"

fun service_event_ok :: "service_event \<Rightarrow> bool" where
  "service_event_ok (Ev_Wait err _ _) \<longleftrightarrow> err = CHIAKI_ERR_TIMEOUT"
| "service_event_ok (Ev_Host alloc _) \<longleftrightarrow> (\<forall>i. alloc i)"

definition service_ages :: "discovery_service \<Rightarrow> (discovery_host \<times> nat) list" where
  "service_ages s = map (\<lambda>(h, l). (h, unat (ds_ping_index s) - unat l)) (service_table s)"

definition recent :: "nat \<Rightarrow> service_event list \<Rightarrow> (discovery_host \<times> nat) set" where
  "recent n hist = {(h, age). \<exists>host_id. last_answer host_id hist = Some (h, age) \<and> age \<le> n}"

definition service_seen :: "service_event list \<Rightarrow> discovery_service \<Rightarrow> bool" where
  "service_seen hist s \<longleftrightarrow>
     service_ok s \<and> unat (ds_ping_index s) = service_pings hist \<and> (\<forall>(h, l) \<in> set (service_table s). l \<le> ds_ping_index s) \<and>
     set (service_ages s) = recent (unat (ds_host_drop_pings s)) hist \<and> distinct (map (dh_host_id \<circ> fst) (service_table s))"

lemma last_answer_id: "last_answer host_id hist = Some (h, age) \<Longrightarrow> dh_host_id h = Some host_id"
  by (induction hist arbitrary: age rule: answered_ids.induct) (auto split: if_splits)

lemma last_answer_answered: "last_answer host_id hist = Some e \<Longrightarrow> host_id \<in> answered_ids hist"
  by (induction hist arbitrary: e rule: answered_ids.induct) (auto split: if_splits)

lemma recent_ping:
  "recent n (Ev_Wait err a b # hist) = {e \<in> (\<lambda>(h, age). (h, age + 1)) ` recent n hist. snd e \<le> n}"
proof (rule set_eqI)
  fix e :: "discovery_host \<times> nat"
  obtain h age where e: "e = (h, age)" by fastforce
  have "e \<in> recent n (Ev_Wait err a b # hist) \<longleftrightarrow> (\<exists>host_id old. last_answer host_id hist = Some (h, old) \<and> age = old + 1 \<and> age \<le> n)"
    by (auto simp: recent_def e)
  also have "\<dots> \<longleftrightarrow> e \<in> {e \<in> (\<lambda>(h, age). (h, age + 1)) ` recent n hist. snd e \<le> n}"
    by (auto simp: recent_def e image_def)
  finally show "e \<in> recent n (Ev_Wait err a b # hist) \<longleftrightarrow> e \<in> {e \<in> (\<lambda>(h, age). (h, age + 1)) ` recent n hist. snd e \<le> n}" .
qed

lemma recent_answer:
  assumes "dh_host_id host = Some host_id"
  shows "recent n (Ev_Host alloc host # hist) = insert (host, 0) {e \<in> recent n hist. dh_host_id (fst e) \<noteq> Some host_id}"
proof (rule set_eqI)
  fix e :: "discovery_host \<times> nat"
  obtain h age where e: "e = (h, age)" by fastforce
  have "e \<in> recent n (Ev_Host alloc host # hist) \<longleftrightarrow>
      h = host \<and> age = 0 \<or> (\<exists>x. x \<noteq> host_id \<and> last_answer x hist = Some (h, age) \<and> age \<le> n)"
  proof -
    have l: "last_answer x (Ev_Host alloc host # hist) = (if x = host_id then Some (host, 0) else last_answer x hist)" for x
      using assms by auto
    have "e \<in> recent n (Ev_Host alloc host # hist) \<longleftrightarrow> (\<exists>x. (if x = host_id then Some (host, 0) else last_answer x hist) = Some (h, age) \<and> age \<le> n)"
      unfolding recent_def e l by simp
    also have "\<dots> \<longleftrightarrow> h = host \<and> age = 0 \<or> (\<exists>x. x \<noteq> host_id \<and> last_answer x hist = Some (h, age) \<and> age \<le> n)"
      by (auto split: if_split_asm) 
    finally show ?thesis .
  qed
  also have "\<dots> \<longleftrightarrow> e = (host, 0) \<or> (\<exists>x. last_answer x hist = Some (h, age) \<and> age \<le> n) \<and> dh_host_id h \<noteq> Some host_id"
  proof -
    have id: "x \<noteq> host_id \<longleftrightarrow> dh_host_id h \<noteq> Some host_id" if "last_answer x hist = Some (h, age)" for x
      using last_answer_id [OF that] by simp
    have "(\<exists>x. x \<noteq> host_id \<and> last_answer x hist = Some (h, age) \<and> age \<le> n) \<longleftrightarrow>
        (\<exists>x. last_answer x hist = Some (h, age) \<and> age \<le> n) \<and> dh_host_id h \<noteq> Some host_id"
      using id by blast
    then show ?thesis by (simp only: e prod.inject)
  qed
  finally show "e \<in> recent n (Ev_Host alloc host # hist) \<longleftrightarrow> e \<in> insert (host, 0) {e \<in> recent n hist. dh_host_id (fst e) \<noteq> Some host_id}"
    by (simp add: recent_def e)
qed

lemma recent_nameless: "dh_host_id host = None \<Longrightarrow> recent n (Ev_Host alloc host # hist) = recent n hist"
  by (auto simp: recent_def)

lemma keeps_age:
  assumes "l \<le> p" "unat p + 1 + unat d < 2 ^ 64"
  shows "l + d \<ge> (p + 1 :: u64) \<longleftrightarrow> unat (p + 1) - unat l \<le> unat d"
proof -
  have "unat l \<le> unat p" using assms(1) by (simp add: word_le_nat_alt)
  then have "unat (l + d) = unat l + unat d" "unat (p + 1) = unat p + 1"
    using assms(2) by (simp_all add: unat_word_ariths)
  then show ?thesis by (auto simp: word_le_nat_alt)
qed

lemma service_ages_fst: "map f (map fst (service_ages s)) = map (f \<circ> fst) (service_table s)"
  by (simp add: service_ages_def comp_def case_prod_beta)

lemma image_filter_cong:
  "(\<And>e. e \<in> A \<Longrightarrow> f e = g e \<and> (P e \<longleftrightarrow> Q (g e))) \<Longrightarrow> f ` {e \<in> A. P e} = {y \<in> g ` A. Q y}"
  by (auto simp: image_iff)

lemma seen_ping:
  assumes "service_seen hist s" "service_pings hist + 1 + unat (ds_host_drop_pings s) < 2 ^ 64"
    and s': "service_ok s'" "service_same (s\<lparr>ds_ping_index := ds_ping_index s + 1\<rparr>) s'"
      "service_table s' = filter (service_keeps (s\<lparr>ds_ping_index := ds_ping_index s + 1\<rparr>)) (service_table s)"
  shows "service_seen (Ev_Wait err a b # hist) s'"
proof -
  let ?p = "ds_ping_index s" and ?d = "ds_host_drop_pings s"
  have p: "unat ?p + 1 + unat ?d < 2 ^ 64" "unat ?p = service_pings hist" "\<forall>(h, l) \<in> set (service_table s). l \<le> ?p"
    using assms(1,2) by (simp_all add: service_seen_def)
  then have p1: "unat (?p + 1) = unat ?p + 1" by (simp add: unat_word_ariths)
  have age: "unat (?p + 1) - unat l = (unat ?p - unat l) + 1" "l \<le> ?p + 1"
      "service_keeps (s\<lparr>ds_ping_index := ?p + 1\<rparr>) (h, l) \<longleftrightarrow> unat ?p - unat l + 1 \<le> unat ?d"
    if "(h, l) \<in> set (service_table s)" for h l
  proof -
    have l: "l \<le> ?p" using p(3) that by auto
    then show "unat (?p + 1) - unat l = (unat ?p - unat l) + 1" "l \<le> ?p + 1" using p1 by (simp_all add: word_le_nat_alt)
    then show "service_keeps (s\<lparr>ds_ping_index := ?p + 1\<rparr>) (h, l) \<longleftrightarrow> unat ?p - unat l + 1 \<le> unat ?d"
      using keeps_age [OF l p(1)] by (simp add: service_keeps_def)
  qed
  have "set (service_ages s') = {e \<in> (\<lambda>(h, age). (h, age + 1)) ` set (service_ages s). snd e \<le> unat ?d}"
  proof -
    have "set (service_ages s') = (\<lambda>(h, l). (h, unat (?p + 1) - unat l)) ` {e \<in> set (service_table s). service_keeps (s\<lparr>ds_ping_index := ?p + 1\<rparr>) e}"
      using s'(2,3) by (simp add: service_ages_def service_same_def)
    also have "\<dots> = {e \<in> (\<lambda>(h, l). (h, unat ?p - unat l + 1)) ` set (service_table s). snd e \<le> unat ?d}"
      using age by (intro image_filter_cong) auto
    finally show ?thesis by (simp add: service_ages_def image_image case_prod_beta)
  qed
  moreover have "distinct (map (dh_host_id \<circ> fst) (service_table s'))"
    using assms(1) s'(3) by (simp add: service_seen_def distinct_map_filter)
  ultimately show ?thesis
    using assms(1) s' p p1 age(2) by (auto simp: service_seen_def service_same_def recent_ping)
qed

lemma seen_answer:
  assumes "service_seen hist s" "dh_host_id host = Some host_id"
    and space: "length (service_table s) < ds_hosts_max s \<or> Some host_id \<in> set (map (dh_host_id \<circ> fst) (service_table s))"
    and s': "service_ok s'" "service_same s s'" "service_table s' = table_answer (ds_hosts_max s) host (ds_ping_index s) (service_table s)"
  shows "service_seen (Ev_Host alloc host # hist) s'"
proof -
  let ?t = "service_table s" and ?p = "ds_ping_index s"
  have t: "service_table s' = (if Some host_id \<in> set (map (dh_host_id \<circ> fst) ?t)
      then map (\<lambda>e. if dh_host_id (fst e) = Some host_id then (host, ?p) else e) ?t else ?t @ [(host, ?p)])"
    using s'(3) space assms(2) by (auto simp: table_answer_def)
  have d: "distinct (map (dh_host_id \<circ> fst) ?t)" using assms(1) by (simp add: service_seen_def)
  have "set (service_table s') = insert (host, ?p) {e \<in> set ?t. dh_host_id (fst e) \<noteq> Some host_id}"
    by (auto simp: t image_iff)
  then have "set (service_ages s') = insert (host, 0) {e \<in> set (service_ages s). dh_host_id (fst e) \<noteq> Some host_id}"
    using s'(2) by (auto simp: service_ages_def service_same_def)
  moreover have "map (dh_host_id \<circ> fst) (map (\<lambda>e. if dh_host_id (fst e) = Some host_id then (host, ?p) else e) ?t) = map (dh_host_id \<circ> fst) ?t"
    using assms(2) by simp
  then have "distinct (map (dh_host_id \<circ> fst) (service_table s'))"
    using d assms(2) by (auto simp: t simp del: map_map)
  moreover have "\<forall>(h, l) \<in> set (service_table s'). l \<le> ?p"
    using assms(1) by (auto simp: t service_seen_def)
  ultimately show ?thesis
    using assms(1) s'(1,2) by (simp add: service_seen_def service_same_def recent_answer [OF assms(2)])
qed

text \<open>There is space for a new host as long as the identifiers are not more than the slots.\<close>

lemma seen_space:
  assumes "service_seen hist s" "Some host_id \<notin> set (map (dh_host_id \<circ> fst) (service_table s))"
    and "finite ids" "answered_ids hist \<subseteq> ids" "host_id \<in> ids" "card ids \<le> ds_hosts_max s"
  shows "length (service_table s) < ds_hosts_max s"
proof -
  let ?k = "map (dh_host_id \<circ> fst) (service_table s)"
  have "Some host_id \<notin> set ?k" "distinct ?k" using assms(1,2) by (simp_all add: service_seen_def)
  moreover have "set ?k \<subseteq> Some ` ids"
  proof
    fix k assume "k \<in> set ?k"
    then obtain h l where "(h, l) \<in> set (service_table s)" "k = dh_host_id h" by auto
    then have "(h, unat (ds_ping_index s) - unat l) \<in> recent (unat (ds_host_drop_pings s)) hist"
      using assms(1) by (force simp: service_seen_def service_ages_def)
    then obtain x where "last_answer x hist = Some (h, unat (ds_ping_index s) - unat l)" by (auto simp: recent_def)
    then show "k \<in> Some ` ids"
      using last_answer_id last_answer_answered assms(4) \<open>k = dh_host_id h\<close> by blast
  qed
  moreover have "card (set ?k) = length ?k" using calculation(2) by (rule distinct_card)
  ultimately have "card (insert (Some host_id) (set ?k)) = length ?k + 1" "insert (Some host_id) (set ?k) \<subseteq> Some ` ids"
    using assms(5) by (simp_all del: set_map)
  then have "length ?k + 1 \<le> card (Some ` ids)" using assms(3) by (metis card_mono finite_imageI)
  also have "\<dots> \<le> ds_hosts_max s" using assms(6) card_image_le [OF assms(3), of Some] by linarith
  finally show ?thesis by simp
qed

section \<open>Runs\<close>

lemma service_event_step:
  assumes "service_seen hist s" "service_event_ok e" "service_pings (e # hist) + unat (ds_host_drop_pings s) < 2 ^ 64"
    and "finite ids" "answered_ids (e # hist) \<subseteq> ids" "card ids \<le> ds_hosts_max s"
  shows "\<exists>s' outs. (\<forall>evs. discovery_service_loop (e # evs) s =
       (case discovery_service_loop evs s' of None \<Rightarrow> None | Some (ended, t, outs') \<Rightarrow> Some (ended, t, outs @ outs'))) \<and>
     service_seen (e # hist) s' \<and> ds_hosts_max s' = ds_hosts_max s \<and> ds_host_drop_pings s' = ds_host_drop_pings s \<and>
     service_reports outs = (if service_hosts s' = service_hosts s then [] else [service_hosts s'])"
proof (cases e)
  case (Ev_Wait err a b)
  have ok: "service_ok s" using assms(1) by (simp add: service_seen_def)
  have err: "err = CHIAKI_ERR_TIMEOUT" using assms(2) Ev_Wait by simp
  obtain s' outs where p: "discovery_service_ping a b s = Some (s', outs)"
      and s': "service_ok s'" "service_same (s\<lparr>ds_ping_index := ds_ping_index s + 1\<rparr>) s'"
        "service_table s' = filter (service_keeps (s\<lparr>ds_ping_index := ds_ping_index s + 1\<rparr>)) (service_table s)"
      and r: "service_reports outs = (if service_hosts s' = service_hosts s then [] else [service_hosts s'])"
    using ping_table [OF ok, of a b] by blast
  have "service_seen (e # hist) s'"
    unfolding Ev_Wait using assms(3) by (intro seen_ping [OF assms(1) _ s']) (simp add: Ev_Wait)
  then show ?thesis
    using p s'(2) r err
    by (intro exI [of _ s'] exI [of _ outs]) (simp add: Ev_Wait service_same_def split: option.split Option.bind_split)
next
  case (Ev_Host alloc host)
  have ok: "service_ok s" "distinct (map (dh_host_id \<circ> fst) (service_table s))" "\<forall>i. alloc i"
    using assms(1,2) Ev_Host by (simp_all add: service_seen_def)
  show ?thesis
  proof (cases "dh_host_id host")
    case None
    then show ?thesis
      using assms(1)
      by (intro exI [of _ s] exI [of _ "[]"])
        (simp add: Ev_Host discovery_service_host_received_def service_seen_def recent_nameless split: option.split Option.bind_split)
  next
    case (Some host_id)
    obtain s' outs where p: "discovery_service_host_received alloc host s = Some (s', outs)"
        and s': "service_ok s'" "service_same s s'" "service_table s' = table_answer (ds_hosts_max s) host (ds_ping_index s) (service_table s)"
        and r: "service_reports outs = (if service_hosts s' = service_hosts s then [] else [service_hosts s'])"
      using host_received_table [OF ok(1,3) Some ok(2)] by blast
    have "answered_ids hist \<subseteq> ids" "host_id \<in> ids" using assms(5) Some by (simp_all add: Ev_Host)
    then have "length (service_table s) < ds_hosts_max s \<or> Some host_id \<in> set (map (dh_host_id \<circ> fst) (service_table s))"
      using seen_space [OF assms(1) _ assms(4) _ _ assms(6)] by blast
    then have "service_seen (e # hist) s'"
      unfolding Ev_Host by (rule seen_answer [OF assms(1) Some _ s'])
    then show ?thesis
      using p s'(2) r
      by (intro exI [of _ s'] exI [of _ outs]) (simp add: Ev_Host service_same_def split: option.split Option.bind_split)
  qed
qed

lemma service_run:
  assumes "service_seen hist s" "\<forall>e \<in> set evs. service_event_ok e"
    and "service_pings hist + service_pings evs + unat (ds_host_drop_pings s) < 2 ^ 64"
    and "finite ids" "answered_ids hist \<union> answered_ids evs \<subseteq> ids" "card ids \<le> ds_hosts_max s"
  shows "\<exists>s' outs. discovery_service_loop evs s = Some (False, s', outs) \<and> service_seen (rev evs @ hist) s' \<and>
     ds_host_drop_pings s' = ds_host_drop_pings s \<and>
     last (service_hosts s # service_reports outs) = service_hosts s' \<and> distinct_adj (service_hosts s # service_reports outs)"
  using assms(1-3,5,6)
proof (induction evs arbitrary: hist s)
  case (Cons e evs)
  have e: "service_pings (e # hist) + service_pings evs = service_pings hist + service_pings (e # evs)"
      "answered_ids (e # hist) \<union> answered_ids evs = answered_ids hist \<union> answered_ids (e # evs)"
    by (cases e; auto)+
  then have "service_pings (e # hist) + unat (ds_host_drop_pings s) < 2 ^ 64" "answered_ids (e # hist) \<subseteq> ids"
    using Cons.prems(3,4) by auto
  then obtain s' outs where s': "discovery_service_loop (e # evs) s =
        (case discovery_service_loop evs s' of None \<Rightarrow> None | Some (ended, t, outs') \<Rightarrow> Some (ended, t, outs @ outs'))"
      "service_seen (e # hist) s'" "ds_hosts_max s' = ds_hosts_max s" "ds_host_drop_pings s' = ds_host_drop_pings s"
      "service_reports outs = (if service_hosts s' = service_hosts s then [] else [service_hosts s'])"
    using service_event_step [OF Cons.prems(1) _ _ assms(4) _ Cons.prems(5), of e] Cons.prems(2) by auto
  moreover obtain t outs' where t: "discovery_service_loop evs s' = Some (False, t, outs')" "service_seen (rev evs @ e # hist) t"
      "ds_host_drop_pings t = ds_host_drop_pings s'" "last (service_hosts s' # service_reports outs') = service_hosts t"
      "distinct_adj (service_hosts s' # service_reports outs')"
    using Cons.IH [OF s'(2)] Cons.prems(2-5) s'(3,4) e by auto
  ultimately show ?case
    by (intro exI [of _ t] exI [of _ "outs @ outs'"]) (cases "service_hosts s' = service_hosts s"; simp)
qed simp

text \<open>The initialisation releases exactly what it has acquired when it fails, the last first; success leaves an empty table.\<close>

lemma service_init_cleanup:
  assumes "chiaki_discovery_service_init e hosts_max host_drop_pings send_addr = Some (err, s, acquired, released)"
  shows "if err = CHIAKI_ERR_SUCCESS then s \<noteq> None \<and> released = [] else s = None \<and> released = rev acquired"
  using assms
  by (auto simp: chiaki_discovery_service_init_def cleanup_from_def service_cleanup_def chiaki_discovery_init_def
      split: if_split_asm option.split_asm prod.split_asm bind_splits)

lemma service_init_seen:
  assumes "chiaki_discovery_service_init e hosts_max host_drop_pings send_addr = Some (err, Some s, acquired, released)" "hosts_max < 2 ^ 64"
  shows "service_seen [] s \<and> service_hosts s = [] \<and> ds_hosts_max s = hosts_max \<and> ds_host_drop_pings s = host_drop_pings"
  using assms
  by (auto simp: chiaki_discovery_service_init_def service_seen_def service_ok_def service_table_def service_ages_def recent_def
      split: if_split_asm option.split_asm prod.split_asm bind_splits)

lemma finite_answered_ids [simp]: "finite (answered_ids evs)"
  by (induction evs rule: answered_ids.induct) auto

text \<open>
  C16. The table is up to date. After any sequence of pings and answers from the initialisation on, if all allocations succeed and
  no more different consoles answer than there are slots (a console that finds no slot is dropped), the table of the service holds exactly the last answers of the consoles that have
  answered within the last \<open>host_drop_pings\<close> pings, each console once; the callback has been told this table last, and
  no table twice in succession.
\<close>

theorem discovery_service_up_to_date:
  assumes "chiaki_discovery_service_init e hosts_max host_drop_pings send_addr = Some (err, Some s, acquired, released)" "hosts_max < 2 ^ 64"
    and "\<forall>ev \<in> set evs. service_event_ok ev" "service_pings evs + unat host_drop_pings < 2 ^ 64" "card (answered_ids evs) \<le> hosts_max"
  shows "\<exists>s' outs. discovery_service_thread_func CHIAKI_ERR_SUCCESS CHIAKI_ERR_SUCCESS evs s = Some (False, s', outs) \<and>
     (let hosts = take (unat (ds_hosts_count s')) (ds_hosts s') in
       set hosts = {h. \<exists>host_id age. last_answer host_id (rev evs) = Some (h, age) \<and> age \<le> unat host_drop_pings} \<and>
       distinct (map dh_host_id hosts) \<and> last ([] # service_reports outs) = hosts \<and> distinct_adj ([] # service_reports outs))"
proof -
  have i: "service_seen [] s" "service_hosts s = []" "ds_hosts_max s = hosts_max" "ds_host_drop_pings s = host_drop_pings"
    using service_init_seen [OF assms(1,2)] by simp_all
  obtain s' outs where r: "discovery_service_loop evs s = Some (False, s', outs)" "service_seen (rev evs) s'"
      "ds_host_drop_pings s' = host_drop_pings" "last ([] # service_reports outs) = service_hosts s'" "distinct_adj ([] # service_reports outs)"
    using service_run [OF i(1) assms(3), of "answered_ids evs"] assms(4,5) i(2-4) by auto
  have ok: "service_ok s'" and ages: "set (service_ages s') = recent (unat host_drop_pings) (rev evs)"
      and d: "distinct (map (dh_host_id \<circ> fst) (service_table s'))"
    using r(2,3) by (simp_all add: service_seen_def)
  have "set (service_hosts s') = fst ` set (service_ages s')" by (simp add: service_ages_def image_image case_prod_beta)
  also have "\<dots> = {h. \<exists>host_id age. last_answer host_id (rev evs) = Some (h, age) \<and> age \<le> unat host_drop_pings}"
    unfolding ages recent_def by (simp add: set_eq_iff image_iff) blast
  finally show ?thesis
    using r d by (simp add: discovery_service_thread_func_def service_hosts_eq [OF ok] Let_def)
qed

definition example_service :: discovery_service where
  "example_service =
     \<lparr>ds_hosts_max = 2, ds_host_drop_pings = 1, ds_send_addr = \<lparr>sa_family = AF_INET, sin_port = 0, sin6_port = 0\<rparr>,
      ds_local_addr = \<lparr>sa_family = AF_INET, sin_port = 9303, sin6_port = 0\<rparr>, ds_ping_index = 0,
      ds_hosts = [discovery_host_zero, discovery_host_zero], ds_infos = [0, 0], ds_hosts_count = 0\<rparr>"

definition example_host :: "bytes \<Rightarrow> ChiakiDiscoveryHostState \<Rightarrow> discovery_host" where
  "example_host host_id state = discovery_host_zero\<lparr>dh_host_id := Some host_id, dh_state := state\<rparr>"

text \<open>One console stops answering, another one wakes up.\<close>

theorem discovery_service_up_to_date_witness:
  "\<exists>s' outs. discovery_service_thread_func CHIAKI_ERR_SUCCESS CHIAKI_ERR_SUCCESS
       [Ev_Host (\<lambda>_. True) (example_host [1] CHIAKI_DISCOVERY_HOST_STATE_READY), Ev_Wait CHIAKI_ERR_TIMEOUT True True,
        Ev_Host (\<lambda>_. True) (example_host [2] CHIAKI_DISCOVERY_HOST_STATE_STANDBY), Ev_Wait CHIAKI_ERR_TIMEOUT True False,
        Ev_Host (\<lambda>_. True) (example_host [2] CHIAKI_DISCOVERY_HOST_STATE_READY)] example_service = Some (False, s', outs) \<and>
     set (take (unat (ds_hosts_count s')) (ds_hosts s')) = {example_host [2] CHIAKI_DISCOVERY_HOST_STATE_READY}"
proof -
  let ?e = "\<lparr>se_hosts = True, se_infos = True, se_mutex = CHIAKI_ERR_SUCCESS, se_addr = True, se_socket = True, se_bind = \<lambda>_. True,
      se_cond = CHIAKI_ERR_SUCCESS, se_thread = CHIAKI_ERR_SUCCESS\<rparr>"
  let ?evs = "[Ev_Host (\<lambda>_. True) (example_host [1] CHIAKI_DISCOVERY_HOST_STATE_READY), Ev_Wait CHIAKI_ERR_TIMEOUT True True,
        Ev_Host (\<lambda>_. True) (example_host [2] CHIAKI_DISCOVERY_HOST_STATE_STANDBY), Ev_Wait CHIAKI_ERR_TIMEOUT True False,
        Ev_Host (\<lambda>_. True) (example_host [2] CHIAKI_DISCOVERY_HOST_STATE_READY)]"
  have i: "chiaki_discovery_service_init ?e 2 1 \<lparr>sa_family = AF_INET, sin_port = 0, sin6_port = 0\<rparr> =
      Some (CHIAKI_ERR_SUCCESS, Some example_service, [SR_Hosts, SR_Infos, SR_Mutex, SR_Addr, SR_Discovery, SR_Cond, SR_Thread], [])"
    by (simp add: chiaki_discovery_service_init_def chiaki_discovery_init_def discovery_bind.simps example_service_def numeral_2_eq_2)
  have "{h. \<exists>host_id age. last_answer host_id (rev ?evs) = Some (h, age) \<and> age \<le> 1} = {example_host [2] CHIAKI_DISCOVERY_HOST_STATE_READY}"
    by (auto simp: example_host_def split: if_splits intro!: exI [of _ "[2]"])
  then show ?thesis
    using discovery_service_up_to_date [OF i, of ?evs] by (auto simp: Let_def example_host_def)
qed

end
