(* ===== verification/Takion_Pb.thy ===== *)
theory Takion_Pb
  imports Session_Types Takion
begin

text \<open>
  \<open>lib/protobuf/takion.proto\<close>: the messages that the network test and the stream connection send and receive, with the fields that
  their code reads or sets, and \<open>lib/src/pb_utils.h\<close>. Their encoding is that of nanopb, a parameter of the model.
\<close>

datatype pb_payload_type =
    PB_BIG | PB_BANG | PB_INFO | PB_HEARTBEAT | PB_PACKETLOSS | PB_CORRUPTFRAME | PB_CURSOR | PB_TIMER | PB_DISCONNECT | PB_LOG
  | PB_HEADERREQUEST | PB_DEBUG | PB_SENKUSHA | PB_STREAMINFO | PB_STREAMINFOACK | PB_CONTROLLERCONNECTION | PB_OTHER nat

record big_payload =
  bp_client_version :: u32
  bp_session_key :: bytes
  bp_launch_spec :: bytes
  bp_encrypted_key :: bytes
  bp_ecdh_pub_key :: "bytes option"
  bp_ecdh_sig :: "bytes option"

record bang_payload =
  ba_encrypted_key_accepted :: bool
  ba_version_accepted :: bool
  ba_ecdh_pub_key :: "bytes option"
  ba_ecdh_sig :: "bytes option"

datatype senkusha_command = ECHO_COMMAND | MTU_COMMAND | BANDWIDTH_COMMAND | CLIENT_MTU_COMMAND

record mtu_command =
  mc_id :: u32
  mc_mtu_req :: u32
  mc_has_num :: bool
  mc_num :: u32

record client_mtu_command =
  cm_id :: u32
  cm_mtu_req :: u32
  cm_state :: bool
  cm_has_mtu_down :: bool
  cm_mtu_down :: u32

record senkusha_payload =
  sp_command :: senkusha_command
  sp_echo_command :: "bool option"
  sp_mtu_command :: "mtu_command option"
  sp_client_mtu_command :: "client_mtu_command option"

record resolution_payload =
  re_width :: u32
  re_height :: u32
  re_video_header :: bytes

record stream_info_payload =
  si_resolution :: "resolution_payload list"
  si_audio_header :: bytes

datatype controller_type = CONTROLLER_DUALSHOCK4 | CONTROLLER_DUALSENSE

text \<open>A payload that is present is \<open>Some\<close>.\<close>

record takion_pb =
  pb_type :: pb_payload_type
  pb_big :: "big_payload option"
  pb_bang :: "bang_payload option"
  pb_corrupt :: "(u32 \<times> u32) option"
  pb_disconnect :: "bytes option"
  pb_senkusha :: "senkusha_payload option"
  pb_stream_info :: "stream_info_payload option"
  pb_controller_connection :: "(bool \<times> controller_type) option"

definition pb_message :: "pb_payload_type \<Rightarrow> takion_pb" where
  "pb_message t =
     \<lparr>pb_type = t, pb_big = None, pb_bang = None, pb_corrupt = None, pb_disconnect = None, pb_senkusha = None,
      pb_stream_info = None, pb_controller_connection = None\<rparr>"

text \<open>The functions of nanopb: the encoding of a message, and the message that bytes decode to, if they do.\<close>

record nanopb =
  pb_enc :: "takion_pb \<Rightarrow> bytes"
  pb_dec :: "bytes \<Rightarrow> takion_pb option"

definition nanopb_ok :: "nanopb \<Rightarrow> bool" where
  "nanopb_ok pb \<longleftrightarrow> (\<forall>m. pb_dec pb (pb_enc pb m) = Some m)"

text \<open>Encoding into a buffer of the given size.\<close>

definition pb_encode :: "nanopb \<Rightarrow> nat \<Rightarrow> takion_pb \<Rightarrow> bytes option" where
  "pb_encode pb buf_size msg = (if length (pb_enc pb msg) \<le> buf_size then Some (pb_enc pb msg) else None)"

definition chiaki_pb_encode_string :: "bytes \<Rightarrow> bytes" where
  "chiaki_pb_encode_string str = takeWhile (\<lambda>b. b \<noteq> 0) str"

text \<open>A field decoded into a buffer; \<open>None\<close>: it does not fit and decoding fails. A field that is absent leaves the size at zero.\<close>

definition chiaki_pb_decode_buf :: "nat \<Rightarrow> bytes option \<Rightarrow> bytes option" where
  "chiaki_pb_decode_buf max_size field =
     (case field of None \<Rightarrow> Some [] | Some d \<Rightarrow> if length d > max_size then None else Some d)"

text \<open>A field decoded into allocated memory.\<close>

definition chiaki_pb_decode_buf_alloc :: "bool \<Rightarrow> bytes \<Rightarrow> bytes option" where
  "chiaki_pb_decode_buf_alloc alloc d = (if alloc then Some d else None)"

end
