(* ===== verification/Senkusha.thy ===== *)
theory Senkusha
  imports Takion_Pb
begin

text \<open>
  \<open>lib/src/senkusha.c\<close>: the test of the network before a stream: a Takion connection of its own measures the round trip time and
  the largest packets that pass in both directions. Arguments are what the calls of Takion return and, for every wait, what the
  Takion thread hands to the callback meanwhile. \<open>None\<close> is a failed assertion, a read outside of a buffer, or a wait that has not
  ended.
\<close>

section \<open>State\<close>

datatype senkusha_state =
    SK_IDLE | SK_TAKION_CONNECT | SK_EXPECT_BANG | SK_EXPECT_DATA_ACK | SK_EXPECT_PONG | SK_EXPECT_MTU | SK_EXPECT_CLIENT_MTU_COMMAND

record senkusha =
  sk_state :: senkusha_state
  sk_state_finished :: bool
  sk_state_failed :: bool
  sk_should_stop :: bool
  sk_data_ack_seq_num_expected :: u32
  sk_pong_time_us :: u64
  sk_ping_test_index :: u16
  sk_ping_index :: u16
  sk_ping_tag :: u32
  sk_mtu_id :: u32

abbreviation "SENKUSHA_PORT \<equiv> 9297 :: u16"
abbreviation "SK_EXPECT_TIMEOUT_MS \<equiv> 5000 :: nat"
abbreviation "SENKUSHA_PING_COUNT_DEFAULT \<equiv> 10 :: nat"
abbreviation "EXPECT_PONG_TIMEOUT_MS \<equiv> 1000 :: nat"
abbreviation "MTU_UDP_PACKET_ADD \<equiv> 0x1c :: nat"
abbreviation "MTU_AV_PACKET_ADD \<equiv> 0x12 :: nat"

text \<open>The fields that \<open>chiaki_senkusha_init\<close> leaves unset are zero here. The error code, and the state on success.\<close>

definition chiaki_senkusha_init :: "ChiakiErrorCode \<Rightarrow> ChiakiErrorCode \<Rightarrow> ChiakiErrorCode \<times> senkusha option" where
  "chiaki_senkusha_init mutex_r cond_r =
     (if mutex_r \<noteq> CHIAKI_ERR_SUCCESS then (mutex_r, None)
      else if cond_r \<noteq> CHIAKI_ERR_SUCCESS then (cond_r, None)
      else (CHIAKI_ERR_SUCCESS, Some
        \<lparr>sk_state = SK_IDLE, sk_state_finished = False, sk_state_failed = False, sk_should_stop = False,
         sk_data_ack_seq_num_expected = 0, sk_pong_time_us = 0, sk_ping_test_index = 0, sk_ping_index = 0, sk_ping_tag = 0, sk_mtu_id = 0\<rparr>))"

definition sk_expect :: "senkusha_state \<Rightarrow> senkusha \<Rightarrow> senkusha" where
  "sk_expect st s = s\<lparr>sk_state := st, sk_state_finished := False, sk_state_failed := False\<rparr>"

definition state_finished_cond_check :: "senkusha \<Rightarrow> bool" where
  "state_finished_cond_check s \<longleftrightarrow> sk_state_finished s \<or> sk_should_stop s"

section \<open>The callback\<close>

definition senkusha_is_client_mtu :: "takion_pb \<Rightarrow> u32 \<Rightarrow> bool" where
  "senkusha_is_client_mtu msg mtu_id \<longleftrightarrow>
     pb_type msg = PB_SENKUSHA \<and>
     (case pb_senkusha msg of
        None \<Rightarrow> False
      | Some p \<Rightarrow> sp_command p = CLIENT_MTU_COMMAND \<and> (case sp_client_mtu_command p of None \<Rightarrow> False | Some c \<Rightarrow> cm_id c = mtu_id))"

definition senkusha_takion_data :: "nanopb \<Rightarrow> u8 \<Rightarrow> bytes \<Rightarrow> senkusha \<Rightarrow> senkusha" where
  "senkusha_takion_data pb data_type buf s =
     (if data_type \<noteq> CHIAKI_TAKION_MESSAGE_DATA_TYPE_PROTOBUF then s
      else case pb_dec pb buf of
        None \<Rightarrow> s
      | Some msg \<Rightarrow>
          if sk_state s = SK_EXPECT_BANG then
            (if pb_type msg \<noteq> PB_BANG \<or> pb_bang msg = None then s else s\<lparr>sk_state_finished := True\<rparr>)
          else if sk_state s = SK_EXPECT_CLIENT_MTU_COMMAND then
            (if \<not> senkusha_is_client_mtu msg (sk_mtu_id s) then s else s\<lparr>sk_state_finished := True\<rparr>)
          else s)"

definition senkusha_takion_data_ack :: "u32 \<Rightarrow> senkusha \<Rightarrow> senkusha" where
  "senkusha_takion_data_ack seq_num s =
     (if sk_state s = SK_EXPECT_DATA_ACK \<and> sk_data_ack_seq_num_expected s = seq_num then s\<lparr>sk_state_finished := True\<rparr> else s)"

definition senkusha_takion_av :: "u64 \<Rightarrow> av_packet \<Rightarrow> senkusha \<Rightarrow> senkusha option" where
  "senkusha_takion_av time_us packet s =
     (if sk_state s = SK_EXPECT_PONG then
        if is_video packet \<or> frame_index packet \<noteq> sk_ping_test_index s \<or> unit_index packet \<noteq> sk_ping_index s \<or> av_data_size packet < 8
        then Some s
        else do {
          tag \<leftarrow> load32be (av_data packet) 4;
          Some (if tag \<noteq> sk_ping_tag s then s else s\<lparr>sk_pong_time_us := time_us, sk_state_finished := True\<rparr>) }
      else if sk_state s = SK_EXPECT_MTU then
        if \<not> is_video packet \<or> ucast (frame_index packet) \<noteq> sk_mtu_id s then Some s
        else Some (s\<lparr>sk_state_finished := True\<rparr>)
      else Some s)"

text \<open>An event of Takion with the time at which the callback reads the clock.\<close>

type_synonym sk_event = "takion_event \<times> u64"

fun senkusha_takion_cb :: "nanopb \<Rightarrow> sk_event \<Rightarrow> senkusha \<Rightarrow> senkusha option" where
  "senkusha_takion_cb pb (TE_CONNECTED, _) s =
     Some (if sk_state s = SK_TAKION_CONNECT then s\<lparr>sk_state_finished := True, sk_state_failed := False\<rparr> else s)"
| "senkusha_takion_cb pb (TE_DISCONNECT, _) s =
     Some (if sk_state s = SK_TAKION_CONNECT then s\<lparr>sk_state_finished := False, sk_state_failed := True\<rparr> else s)"
| "senkusha_takion_cb pb (TE_DATA data_type buf, _) s = Some (senkusha_takion_data pb data_type buf s)"
| "senkusha_takion_cb pb (TE_DATA_ACK seq_num, _) s = Some (senkusha_takion_data_ack seq_num s)"
| "senkusha_takion_cb pb (TE_AV packet, time_us) s = senkusha_takion_av time_us packet s"

section \<open>Waiting\<close>

text \<open>A wait: the time at its start and its wakeups, each after the events that came since the one before.\<close>

type_synonym sk_wait = "timespec \<times> (wakeup \<times> sk_event list) list"

fun sk_wakeups :: "nanopb \<Rightarrow> (wakeup \<times> sk_event list) list \<Rightarrow> senkusha \<Rightarrow> (wakeup \<times> senkusha) list option" where
  "sk_wakeups pb [] s = Some []"
| "sk_wakeups pb ((w, evs) # ws) s = do {
     s' \<leftarrow> fold_opt (senkusha_takion_cb pb) evs s;
     rest \<leftarrow> sk_wakeups pb ws s';
     Some ((w, s') # rest) }"

definition senkusha_wait :: "nanopb \<Rightarrow> sk_wait \<Rightarrow> nat \<Rightarrow> senkusha \<Rightarrow> (ChiakiErrorCode \<times> senkusha) option" where
  "senkusha_wait pb w timeout_ms s = do {
     wakeups \<leftarrow> sk_wakeups pb (snd w) s;
     (err, s) \<leftarrow> chiaki_cond_timedwait_pred (fst w) timeout_ms state_finished_cond_check s wakeups;
     if err = CHIAKI_ERR_SUCCESS \<or> err = CHIAKI_ERR_TIMEOUT then Some (err, s) else None }"

section \<open>Sending\<close>

text \<open>What is handed to Takion: a data message on a channel, or a packet as it is; and the end of the connection.\<close>

datatype sk_out = Sk_Data nat bytes | Sk_Raw bytes | Sk_Close

text \<open>A message encoded into a buffer of the given size and sent; \<open>send_r\<close> is the result of Takion.\<close>

definition sk_send :: "nanopb \<Rightarrow> nat \<Rightarrow> nat \<Rightarrow> takion_pb \<Rightarrow> ChiakiErrorCode \<Rightarrow> ChiakiErrorCode \<times> sk_out list" where
  "sk_send pb buf_size channel msg send_r =
     (case pb_encode pb buf_size msg of None \<Rightarrow> (CHIAKI_ERR_UNKNOWN, []) | Some buf \<Rightarrow> (send_r, [Sk_Data channel buf]))"

definition senkusha_big :: takion_pb where
  "senkusha_big = (pb_message PB_BIG)\<lparr>pb_big := Some
     \<lparr>bp_client_version = 7, bp_session_key = chiaki_pb_encode_string [], bp_launch_spec = chiaki_pb_encode_string [],
      bp_encrypted_key = chiaki_pb_encode_string [], bp_ecdh_pub_key = None, bp_ecdh_sig = None\<rparr>\<rparr>"

definition senkusha_send_big :: "nanopb \<Rightarrow> ChiakiErrorCode \<Rightarrow> ChiakiErrorCode \<times> sk_out list" where
  "senkusha_send_big pb send_r = sk_send pb 12 1 senkusha_big send_r"

definition client_disconnecting :: takion_pb where
  "client_disconnecting = (pb_message PB_DISCONNECT)\<lparr>pb_disconnect := Some (chiaki_pb_encode_string (ascii ''Client Disconnecting''))\<rparr>"

definition senkusha_send_disconnect :: "nanopb \<Rightarrow> ChiakiErrorCode \<Rightarrow> ChiakiErrorCode \<times> sk_out list" where
  "senkusha_send_disconnect pb send_r = sk_send pb 26 1 client_disconnecting send_r"

text \<open>The wait for the acknowledgement: the result of Takion, with the sequence number that it assigns, and the wait.\<close>

record ack_env =
  ak_send :: ChiakiErrorCode
  ak_seq_num :: u32
  ak_wait :: sk_wait

definition senkusha_send_data_wait_for_ack ::
  "nanopb \<Rightarrow> ack_env \<Rightarrow> bytes \<Rightarrow> senkusha \<Rightarrow> (ChiakiErrorCode \<times> senkusha \<times> sk_out list) option" where
  "senkusha_send_data_wait_for_ack pb e buf s =
     (let s = sk_expect SK_EXPECT_DATA_ACK s in
      if ak_send e \<noteq> CHIAKI_ERR_SUCCESS then Some (ak_send e, s, [Sk_Data 8 buf])
      else do {
        (err, s) \<leftarrow> senkusha_wait pb (ak_wait e) SK_EXPECT_TIMEOUT_MS (s\<lparr>sk_data_ack_seq_num_expected := ak_seq_num e\<rparr>);
        Some (if \<not> sk_state_finished s \<and> sk_should_stop s then CHIAKI_ERR_CANCELED else err, s, [Sk_Data 8 buf]) })"

definition senkusha_message :: "senkusha_command \<Rightarrow> bool option \<Rightarrow> mtu_command option \<Rightarrow> client_mtu_command option \<Rightarrow> takion_pb" where
  "senkusha_message command echo mtu client =
     (pb_message PB_SENKUSHA)\<lparr>pb_senkusha := Some
       \<lparr>sp_command = command, sp_echo_command = echo, sp_mtu_command = mtu, sp_client_mtu_command = client\<rparr>\<rparr>"

definition senkusha_send_echo_command :: "nanopb \<Rightarrow> ack_env \<Rightarrow> bool \<Rightarrow> senkusha \<Rightarrow> (ChiakiErrorCode \<times> senkusha \<times> sk_out list) option" where
  "senkusha_send_echo_command pb e enable s =
     (case pb_encode pb 0x10 (senkusha_message ECHO_COMMAND (Some enable) None None) of
        None \<Rightarrow> Some (CHIAKI_ERR_UNKNOWN, s, [])
      | Some buf \<Rightarrow> senkusha_send_data_wait_for_ack pb e buf s)"

definition senkusha_send_mtu_command :: "nanopb \<Rightarrow> mtu_command \<Rightarrow> ChiakiErrorCode \<Rightarrow> ChiakiErrorCode \<times> sk_out list" where
  "senkusha_send_mtu_command pb command send_r = sk_send pb 0x20 8 (senkusha_message MTU_COMMAND None (Some command) None) send_r"

definition senkusha_send_client_mtu_command ::
  "nanopb \<Rightarrow> ack_env \<Rightarrow> client_mtu_command \<Rightarrow> bool \<Rightarrow> senkusha \<Rightarrow> (ChiakiErrorCode \<times> senkusha \<times> sk_out list) option" where
  "senkusha_send_client_mtu_command pb e command wait_for_ack s =
     (case pb_encode pb 0x20 (senkusha_message CLIENT_MTU_COMMAND None None (Some command)) of
        None \<Rightarrow> Some (CHIAKI_ERR_UNKNOWN, s, [])
      | Some buf \<Rightarrow>
          if \<not> wait_for_ack then Some (ak_send e, s, [Sk_Data 8 buf])
          else senkusha_send_data_wait_for_ack pb e buf s)"

section \<open>The round trip time\<close>

text \<open>For a ping: the random tag, the time before it is sent, the result of sending and the wait.\<close>

record ping_env =
  pe_tag :: u32
  pe_start_us :: u64
  pe_send :: ChiakiErrorCode
  pe_wait :: sk_wait

definition ping_packet :: "u16 \<Rightarrow> u16 \<Rightarrow> av_packet" where
  "ping_packet ping_test_index ping_index =
     av_packet_zero\<lparr>av_codec := 0xff, is_video := False, frame_index := ping_test_index, unit_index := ping_index, units_in_frame_total := 0x800\<rparr>"

text \<open>The accumulated time and the number of pongs; the loop ends early with an error code.\<close>

fun senkusha_pings ::
  "nanopb \<Rightarrow> (nat \<Rightarrow> ping_env) \<Rightarrow> u16 \<Rightarrow> nat list \<Rightarrow> u64 \<times> u64 \<Rightarrow> senkusha \<Rightarrow> ((ChiakiErrorCode + u64 \<times> u64) \<times> senkusha \<times> sk_out list) option" where
  "senkusha_pings pb env ping_test_index [] acc s = Some (Inr acc, s, [])"
| "senkusha_pings pb env ping_test_index (ping_index # rest) acc s = do {
     let e = env ping_index;
     (err, header_size, data) \<leftarrow>
       chiaki_takion_v7_av_packet_format_header (replicate 0x224 0) (ping_packet ping_test_index (of_nat ping_index));
     if err \<noteq> CHIAKI_ERR_SUCCESS then Some (Inl err, s, [])
     else do {
       data \<leftarrow> store_bytes data (header_size + 4) (htonl_bytes (pe_tag e));
       let s = (sk_expect SK_EXPECT_PONG s)\<lparr>sk_ping_test_index := ping_test_index, sk_ping_index := of_nat ping_index, sk_ping_tag := pe_tag e\<rparr>;
       if pe_send e \<noteq> CHIAKI_ERR_SUCCESS then Some (Inl (pe_send e), s, [Sk_Raw data])
       else do {
         (err, s) \<leftarrow> senkusha_wait pb (pe_wait e) EXPECT_PONG_TIMEOUT_MS s;
         if \<not> sk_state_finished s \<and> sk_should_stop s then Some (Inl CHIAKI_ERR_CANCELED, s, [Sk_Raw data])
         else do {
           let acc = (if \<not> sk_state_finished s then acc else (fst acc + (sk_pong_time_us s - pe_start_us e), snd acc + 1));
           (r, s, outs) \<leftarrow> senkusha_pings pb env ping_test_index rest acc s;
           Some (r, s, Sk_Raw data # outs) } } } }"

record rtt_env =
  rt_echo_on :: ack_env
  rt_pings :: "nat \<Rightarrow> ping_env"
  rt_echo_off :: ack_env

text \<open>The error code, \<open>*rtt_us\<close> if it is assigned, the state and what is sent.\<close>

definition senkusha_run_rtt_test ::
  "nanopb \<Rightarrow> rtt_env \<Rightarrow> u16 \<Rightarrow> nat \<Rightarrow> senkusha \<Rightarrow> (ChiakiErrorCode \<times> u64 option \<times> senkusha \<times> sk_out list) option" where
  "senkusha_run_rtt_test pb e ping_test_index ping_count s = do {
     (err, s, outs1) \<leftarrow> senkusha_send_echo_command pb (rt_echo_on e) True s;
     if err \<noteq> CHIAKI_ERR_SUCCESS then Some (err, None, s, outs1)
     else do {
       (r, s, outs2) \<leftarrow> senkusha_pings pb (rt_pings e) ping_test_index [0..<ping_count] (0, 0) s;
       case r of
         Inl err \<Rightarrow> Some (err, None, s, outs1 @ outs2)
       | Inr (rtt_us_acc, pings_successful) \<Rightarrow> do {
           (err, s, outs3) \<leftarrow> senkusha_send_echo_command pb (rt_echo_off e) False s;
           if err \<noteq> CHIAKI_ERR_SUCCESS then Some (err, None, s, outs1 @ outs2 @ outs3)
           else if pings_successful < 1 then Some (CHIAKI_ERR_UNKNOWN, None, s, outs1 @ outs2 @ outs3)
           else Some (CHIAKI_ERR_SUCCESS, Some (rtt_us_acc div pings_successful), s, outs1 @ outs2 @ outs3) } } }"

section \<open>The largest packets from the console\<close>

text \<open>What happens on a request with an identifier for packets of a size: the result of sending and the wait.\<close>

record mtu_env =
  mt_send :: ChiakiErrorCode
  mt_wait :: sk_wait

datatype mtu_result = Mtu_Success | Mtu_Timeout | Mtu_Error ChiakiErrorCode

text \<open>The attempts for a size, with the identifier of the last request.\<close>

fun mtu_in_attempts ::
  "nanopb \<Rightarrow> (u32 \<Rightarrow> u32 \<Rightarrow> mtu_env) \<Rightarrow> nat \<Rightarrow> u32 \<Rightarrow> nat \<Rightarrow> u32 \<Rightarrow> senkusha \<Rightarrow> (mtu_result \<times> (u32 \<times> senkusha) \<times> sk_out list) option" where
  "mtu_in_attempts pb env timeout_ms cur 0 request_id s = Some (Mtu_Timeout, (request_id, s), [])"
| "mtu_in_attempts pb env timeout_ms cur (Suc attempts) request_id s =
     (let request_id = request_id + 1;
          s = (sk_expect SK_EXPECT_MTU s)\<lparr>sk_mtu_id := request_id\<rparr>;
          e = env request_id cur in
      case senkusha_send_mtu_command pb \<lparr>mc_id = request_id, mc_mtu_req = cur, mc_has_num = False, mc_num = 1\<rparr> (mt_send e) of
        (err, outs) \<Rightarrow>
          if err \<noteq> CHIAKI_ERR_SUCCESS then Some (Mtu_Error err, (request_id, s), outs)
          else do {
            (err, s) \<leftarrow> senkusha_wait pb (mt_wait e) timeout_ms s;
            if \<not> sk_state_finished s \<and> err = CHIAKI_ERR_TIMEOUT then do {
              (r, st, outs') \<leftarrow> mtu_in_attempts pb env timeout_ms cur attempts request_id s;
              Some (r, st, outs @ outs') }
            else if \<not> sk_state_finished s \<and> sk_should_stop s then Some (Mtu_Error CHIAKI_ERR_CANCELED, (request_id, s), outs)
            else Some (Mtu_Success, (request_id, s), outs) })"

text \<open>
  The search that both tests contain, between the bounds \<open>lo\<close> (\<open>min\<close>) and \<open>hi\<close> (\<open>max\<close>) from \<open>cur\<close> on; \<open>attempts\<close> are those for a size, on the rest of
  the state. The result is the error code, \<open>min\<close>, \<open>max\<close> and the state at the end and what is sent. \<open>None\<close> also if the search never ends.
\<close>

partial_function (option) mtu_search ::
  "(u32 \<Rightarrow> 'st \<Rightarrow> (mtu_result \<times> 'st \<times> sk_out list) option) \<Rightarrow> u32 \<Rightarrow> u32 \<Rightarrow> u32 \<Rightarrow> 'st \<Rightarrow>
   (ChiakiErrorCode \<times> u32 \<times> u32 \<times> 'st \<times> sk_out list) option" where
  "mtu_search attempts lo hi cur st =
     (if \<not> hi - lo > 1 then Some (CHIAKI_ERR_SUCCESS, lo, hi, st, [])
      else Option.bind (attempts cur st) (\<lambda>(r, st, outs).
        case r of
          Mtu_Error err \<Rightarrow> Some (err, lo, hi, st, outs)
        | Mtu_Success \<Rightarrow>
            Option.bind (mtu_search attempts cur hi (cur + (hi - cur) div 2) st) (\<lambda>(err, l, h, st, outs').
              Some (err, l, h, st, outs @ outs'))
        | Mtu_Timeout \<Rightarrow>
            Option.bind (mtu_search attempts lo cur (lo + (cur - lo) div 2) st) (\<lambda>(err, l, h, st, outs').
              Some (err, l, h, st, outs @ outs'))))"

text \<open>\<open>*mtu\<close> is assigned on success only.\<close>

definition senkusha_run_mtu_in_test ::
  "nanopb \<Rightarrow> (u32 \<Rightarrow> u32 \<Rightarrow> mtu_env) \<Rightarrow> u32 \<Rightarrow> u32 \<Rightarrow> nat \<Rightarrow> nat \<Rightarrow> senkusha \<Rightarrow>
   (ChiakiErrorCode \<times> u32 option \<times> senkusha \<times> sk_out list) option" where
  "senkusha_run_mtu_in_test pb env lo hi retries timeout_ms s = do {
     (err, m, _, (_, s), outs) \<leftarrow> mtu_search (\<lambda>cur (request_id, s). mtu_in_attempts pb env timeout_ms cur retries request_id s) lo hi hi (0, s);
     Some (err, if err = CHIAKI_ERR_SUCCESS then Some m else None, s, outs) }"

section \<open>The largest packets to the console\<close>

text \<open>For a ping of a size: the tag, the result of sending and the wait.\<close>

record mtu_out_env =
  mo_tag :: u32
  mo_send :: ChiakiErrorCode
  mo_wait :: sk_wait

definition mtu_padding :: "nat \<Rightarrow> u8" where
  "mtu_padding i = [0x43, 0x48, 0x49, 0x41, 0x4b, 0x49] ! (i mod 6)"

definition mtu_packet_buf :: "nat \<Rightarrow> bytes" where
  "mtu_packet_buf packet_buf_size =
     replicate (MTU_AV_PACKET_ADD + 8) 0 @ map mtu_padding [0..<packet_buf_size - (MTU_AV_PACKET_ADD + 8)]"

text \<open>The header and the tag written into the buffer; the error code of the former.\<close>

definition mtu_out_packet :: "u32 \<Rightarrow> u16 \<Rightarrow> u16 \<Rightarrow> bytes \<Rightarrow> (ChiakiErrorCode \<times> bytes) option" where
  "mtu_out_packet tag ping_test_index ping_index packet_buf = do {
     (err, header_size, packet_buf) \<leftarrow> chiaki_takion_v7_av_packet_format_header packet_buf (ping_packet ping_test_index ping_index);
     if err \<noteq> CHIAKI_ERR_SUCCESS then Some (err, packet_buf)
     else if header_size \<noteq> MTU_AV_PACKET_ADD then None
     else do {
       packet_buf \<leftarrow> store_bytes packet_buf MTU_AV_PACKET_ADD [0, 0, 0, 0];
       packet_buf \<leftarrow> store_bytes packet_buf (MTU_AV_PACKET_ADD + 4) (htonl_bytes tag);
       Some (CHIAKI_ERR_SUCCESS, packet_buf) } }"

text \<open>
  The attempts for a size from the given number on. \<open>cur - MTU_UDP_PACKET_ADD\<close> bytes of the buffer are sent; an error in sending counts as a
  timeout. \<open>env\<close> is given the number of pings sent before.
\<close>

fun mtu_out_attempts ::
  "nanopb \<Rightarrow> (nat \<Rightarrow> u32 \<Rightarrow> mtu_out_env) \<Rightarrow> nat \<Rightarrow> u32 \<Rightarrow> nat list \<Rightarrow> nat \<Rightarrow> bytes \<Rightarrow> senkusha \<Rightarrow>
   (mtu_result \<times> (nat \<times> bytes \<times> senkusha) \<times> sk_out list) option" where
  "mtu_out_attempts pb env timeout_ms cur [] n packet_buf s = Some (Mtu_Timeout, (n, packet_buf, s), [])"
| "mtu_out_attempts pb env timeout_ms cur (attempt # rest) n packet_buf s = do {
     let e = env n cur;
     let s = (sk_expect SK_EXPECT_PONG s)\<lparr>sk_ping_tag := mo_tag e, sk_ping_test_index := 0, sk_ping_index := of_nat attempt\<rparr>;
     (err, packet_buf) \<leftarrow> mtu_out_packet (mo_tag e) 0 (of_nat attempt) packet_buf;
     if err \<noteq> CHIAKI_ERR_SUCCESS then Some (Mtu_Error err, (n + 1, packet_buf, s), [])
     else do {
       sent \<leftarrow> load_bytes packet_buf 0 (unat (cur - of_nat MTU_UDP_PACKET_ADD));
       (err, s) \<leftarrow> (if mo_send e \<noteq> CHIAKI_ERR_SUCCESS then Some (CHIAKI_ERR_TIMEOUT, s) else senkusha_wait pb (mo_wait e) timeout_ms s);
       if \<not> sk_state_finished s \<and> err = CHIAKI_ERR_TIMEOUT then do {
         (r, st, outs) \<leftarrow> mtu_out_attempts pb env timeout_ms cur rest (n + 1) packet_buf s;
         Some (r, st, Sk_Raw sent # outs) }
       else if \<not> sk_state_finished s \<and> sk_should_stop s then Some (Mtu_Error CHIAKI_ERR_CANCELED, (n + 1, packet_buf, s), [Sk_Raw sent])
       else Some (Mtu_Success, (n + 1, packet_buf, s), [Sk_Raw sent]) } }"

text \<open>
  The first and the last command to the console with its acknowledgements, the wait for the command from the console, whether the buffer
  can be allocated, and the pings.
\<close>

record mtu_out_test_env =
  mx_command :: ack_env
  mx_wait :: sk_wait
  mx_alloc :: bool
  mx_pings :: "nat \<Rightarrow> u32 \<Rightarrow> mtu_out_env"
  mx_final :: ack_env

definition senkusha_run_mtu_out_test ::
  "nanopb \<Rightarrow> mtu_out_test_env \<Rightarrow> u32 \<Rightarrow> u32 \<Rightarrow> u32 \<Rightarrow> nat \<Rightarrow> nat \<Rightarrow> senkusha \<Rightarrow>
   (ChiakiErrorCode \<times> u32 option \<times> senkusha \<times> sk_out list) option" where
  "senkusha_run_mtu_out_test pb e mtu_in lo hi retries timeout_ms s =
     (if lo < of_nat (8 + (MTU_UDP_PACKET_ADD + MTU_AV_PACKET_ADD)) \<or> hi < lo \<or> mtu_in < lo \<or> mtu_in > hi
      then Some (CHIAKI_ERR_INVALID_DATA, None, s, [])
      else do {
        (err, s, outs1) \<leftarrow> senkusha_send_client_mtu_command pb (mx_command e)
          \<lparr>cm_id = 1, cm_mtu_req = mtu_in, cm_state = True, cm_has_mtu_down = True, cm_mtu_down = mtu_in\<rparr> False
          ((sk_expect SK_EXPECT_CLIENT_MTU_COMMAND s)\<lparr>sk_mtu_id := 1\<rparr>);
        if err \<noteq> CHIAKI_ERR_SUCCESS then Some (err, None, s, outs1)
        else do {
          (err, s) \<leftarrow> senkusha_wait pb (mx_wait e) SK_EXPECT_TIMEOUT_MS s;
          if \<not> sk_state_finished s then
            Some (if err = CHIAKI_ERR_TIMEOUT then err else if sk_should_stop s then CHIAKI_ERR_CANCELED else CHIAKI_ERR_UNKNOWN, None, s, outs1)
          else if \<not> mx_alloc e then Some (CHIAKI_ERR_MEMORY, None, s, outs1)
          else do {
            let packet_buf_size = unat (hi - of_nat MTU_UDP_PACKET_ADD);
            (err, m, hi, (_, _, s), outs2) \<leftarrow> mtu_search (\<lambda>cur (n, packet_buf, s). mtu_out_attempts pb (mx_pings e) timeout_ms cur [0..<retries] n packet_buf s)
              lo hi mtu_in (0, mtu_packet_buf packet_buf_size, s);
            if err \<noteq> CHIAKI_ERR_SUCCESS then Some (err, None, s, outs1 @ outs2)
            else do {
              (err, s, outs3) \<leftarrow> senkusha_send_client_mtu_command pb (mx_final e)
                \<lparr>cm_id = 2, cm_mtu_req = hi, cm_state = False, cm_has_mtu_down = True, cm_mtu_down = mtu_in\<rparr> True s;
              Some (err, Some m, s, outs1 @ outs2 @ outs3) } } } })"

section \<open>The test\<close>

record senkusha_env =
  sr_alloc :: bool
  sr_family :: sa_family
  sr_connect :: ChiakiErrorCode
  sr_connect_wait :: sk_wait
  sr_big :: ChiakiErrorCode
  sr_bang_wait :: sk_wait
  sr_rtt :: rtt_env
  sr_mtu_in :: "u32 \<Rightarrow> u32 \<Rightarrow> mtu_env"
  sr_mtu_out :: mtu_out_test_env
  sr_disconnect :: ChiakiErrorCode

text \<open>The error code, whether \<open>state_mutex\<close> is left locked, and \<open>*mtu_in\<close>, \<open>*mtu_out\<close> and \<open>*rtt_us\<close> where they are assigned.\<close>

record senkusha_result =
  sr_err :: ChiakiErrorCode
  sr_locked :: bool
  sr_mtu_in_out :: "u32 option"
  sr_mtu_out_out :: "u32 option"
  sr_rtt_out :: "u64 option"

definition senkusha_failed :: "ChiakiErrorCode \<Rightarrow> bool \<Rightarrow> senkusha_result" where
  "senkusha_failed err locked = \<lparr>sr_err = err, sr_locked = locked, sr_mtu_in_out = None, sr_mtu_out_out = None, sr_rtt_out = None\<rparr>"

definition mtu_timeout :: "u64 \<Rightarrow> nat" where
  "mtu_timeout rtt_us =
     (let mtu_timeout_ms = unat ((rtt_us * 5) div 1000);
          mtu_timeout_ms = (if mtu_timeout_ms < 5 then 5 else mtu_timeout_ms)
      in if mtu_timeout_ms > 500 then 500 else mtu_timeout_ms)"

text \<open>The three tests, up to the label \<open>disconnect\<close>.\<close>

definition senkusha_tests :: "nanopb \<Rightarrow> senkusha_env \<Rightarrow> senkusha \<Rightarrow> (senkusha_result \<times> senkusha \<times> sk_out list) option" where
  "senkusha_tests pb e s = do {
     (err, rtt, s, outs1) \<leftarrow> senkusha_run_rtt_test pb (sr_rtt e) 0 SENKUSHA_PING_COUNT_DEFAULT s;
     case rtt of
       None \<Rightarrow> Some (senkusha_failed err False, s, outs1)
     | Some rtt_us \<Rightarrow> do {
         (err, m_in, s, outs2) \<leftarrow> senkusha_run_mtu_in_test pb (sr_mtu_in e) 576 1454 3 (mtu_timeout rtt_us) s;
         case m_in of
           None \<Rightarrow> Some ((senkusha_failed err False)\<lparr>sr_rtt_out := rtt\<rparr>, s, outs1 @ outs2)
         | Some mtu_in \<Rightarrow> do {
             (err, m_out, s, outs3) \<leftarrow> senkusha_run_mtu_out_test pb (sr_mtu_out e) mtu_in 576 1454 3 (mtu_timeout rtt_us) s;
             Some (\<lparr>sr_err = err, sr_locked = False, sr_mtu_in_out = m_in, sr_mtu_out_out = m_out, sr_rtt_out = rtt\<rparr>, s, outs1 @ outs2 @ outs3) } } }"

definition chiaki_senkusha_run :: "nanopb \<Rightarrow> senkusha_env \<Rightarrow> senkusha \<Rightarrow> (senkusha_result \<times> senkusha \<times> sk_out list) option" where
  "chiaki_senkusha_run pb e s =
     (if sk_should_stop s then Some (senkusha_failed CHIAKI_ERR_CANCELED True, s, [])
      else if \<not> sr_alloc e then Some (senkusha_failed CHIAKI_ERR_MEMORY False, s, [])
      else if fst (set_port \<lparr>sa_family = sr_family e, sin_port = 0, sin6_port = 0\<rparr> SENKUSHA_PORT) \<noteq> CHIAKI_ERR_SUCCESS then None
      else let s = sk_expect SK_TAKION_CONNECT s in
        if sr_connect e \<noteq> CHIAKI_ERR_SUCCESS then Some (senkusha_failed (sr_connect e) False, s, [])
        else do {
          (err, s) \<leftarrow> senkusha_wait pb (sr_connect_wait e) SK_EXPECT_TIMEOUT_MS s;
          if \<not> sk_state_finished s then
            Some (senkusha_failed (if sk_should_stop s then CHIAKI_ERR_CANCELED else err) False, s, [Sk_Close])
          else let s = sk_expect SK_EXPECT_BANG s in
            case senkusha_send_big pb (sr_big e) of (err, outs1) \<Rightarrow>
              if err \<noteq> CHIAKI_ERR_SUCCESS then Some (senkusha_failed err False, s, outs1 @ [Sk_Close])
              else do {
                (err, s) \<leftarrow> senkusha_wait pb (sr_bang_wait e) SK_EXPECT_TIMEOUT_MS s;
                if \<not> sk_state_finished s then
                  Some (senkusha_failed (if sk_should_stop s then CHIAKI_ERR_CANCELED else err) False, s, outs1 @ [Sk_Close])
                else do {
                  (r, s, outs2) \<leftarrow> senkusha_tests pb e s;
                  Some (r, s, outs1 @ outs2 @ snd (senkusha_send_disconnect pb (sr_disconnect e)) @ [Sk_Close]) } } })"

end
