(* ===== verification/Senkusha_Ends.thy ===== *)
theory Senkusha_Ends
  imports Senkusha
begin

text \<open>
  What the test of the network finds: the largest packets that a path carries in each direction. The contract between the callback and
  a wait, an expectation that some events meet, is the locale \<open>sk_expectation\<close>; each state of the test is an interpretation.
\<close>

section \<open>Expectations\<close>

text \<open>Audio and video packets come with as many bytes as they claim.\<close>

fun sk_event_ok :: "sk_event \<Rightarrow> bool" where
  "sk_event_ok (TE_AV p, _) \<longleftrightarrow> av_data_size p \<le> length (av_data p)"
| "sk_event_ok _ \<longleftrightarrow> True"

text \<open>Whether a wait for an event with the property \<open>m\<close> is answered; \<open>None\<close> while it is still waiting.\<close>

fun wait_answered :: "(sk_event \<Rightarrow> bool) \<Rightarrow> (wakeup \<times> sk_event list) list \<Rightarrow> bool option" where
  "wait_answered m [] = None"
| "wait_answered m ((w, evs) # ws) =
     (if \<exists>e \<in> set evs. m e then Some True else case w of Wake_Timeout \<Rightarrow> Some False | Wake_Signal \<Rightarrow> wait_answered m ws)"

definition wait_ok :: "(sk_event \<Rightarrow> bool) \<Rightarrow> nat \<Rightarrow> sk_wait \<Rightarrow> bool" where
  "wait_ok ok timeout_ms w \<longleftrightarrow> snd (set_timeout (fst w) timeout_ms) < 1000000000 \<and> (\<forall>(_, evs) \<in> set (snd w). \<forall>e \<in> set evs. ok e)"

definition sk_answers :: "(sk_event \<Rightarrow> bool) \<Rightarrow> sk_wait \<Rightarrow> bool \<Rightarrow> bool" where
  "sk_answers m w b \<longleftrightarrow> wait_answered m (snd w) = Some b"

text \<open>It is answered with a wakeup by the signal.\<close>

fun wait_signaled :: "(sk_event \<Rightarrow> bool) \<Rightarrow> (wakeup \<times> sk_event list) list \<Rightarrow> bool" where
  "wait_signaled m [] \<longleftrightarrow> False"
| "wait_signaled m ((w, evs) # ws) \<longleftrightarrow> w = Wake_Signal \<and> ((\<exists>e \<in> set evs. m e) \<or> wait_signaled m ws)"

lemma signaled_answered: "wait_signaled m ws \<Longrightarrow> wait_answered m ws = Some True"
  by (induction m ws rule: wait_signaled.induct) auto

locale sk_expectation =
  fixes pb :: nanopb and ok :: "sk_event \<Rightarrow> bool" and P :: "senkusha \<Rightarrow> bool" and m :: "sk_event \<Rightarrow> bool"
  assumes step: "P s \<Longrightarrow> ok e \<Longrightarrow>
      \<exists>s'. senkusha_takion_cb pb e s = Some s' \<and> P s' \<and> sk_state_finished s' = (sk_state_finished s \<or> m e)"
    and running: "P s \<Longrightarrow> \<not> sk_should_stop s"
begin

lemma events:
  "P s \<Longrightarrow> \<forall>e \<in> set evs. ok e \<Longrightarrow>
   \<exists>s'. fold_opt (senkusha_takion_cb pb) evs s = Some s' \<and> P s' \<and> sk_state_finished s' = (sk_state_finished s \<or> (\<exists>e \<in> set evs. m e))"
proof (induction evs arbitrary: s)
  case (Cons e evs)
  obtain s1 where s1: "senkusha_takion_cb pb e s = Some s1" "P s1" "sk_state_finished s1 = (sk_state_finished s \<or> m e)"
    using step [of s e] Cons.prems by auto
  obtain s2 where "fold_opt (senkusha_takion_cb pb) evs s1 = Some s2" "P s2"
      "sk_state_finished s2 = (sk_state_finished s1 \<or> (\<exists>e \<in> set evs. m e))"
    using Cons.IH [OF s1(2)] Cons.prems(2) by auto
  then show ?case using s1 by auto
qed auto

lemma check: "P s \<Longrightarrow> state_finished_cond_check s = sk_state_finished s"
  using running [of s] by (simp add: state_finished_cond_check_def)

lemma wakeups:
  assumes "P s" "\<not> sk_state_finished s" "\<forall>(_, evs) \<in> set ws. \<forall>e \<in> set evs. ok e" "wait_answered m ws = Some b"
  shows "\<exists>l err s'. sk_wakeups pb ws s = Some l \<and> wait_until state_finished_cond_check l = Some (err, s') \<and> P s' \<and>
     sk_state_finished s' = b \<and> (err = CHIAKI_ERR_TIMEOUT \<or> err = CHIAKI_ERR_SUCCESS \<and> b) \<and> (wait_signaled m ws \<longrightarrow> err = CHIAKI_ERR_SUCCESS)"
  using assms
proof (induction ws arbitrary: s)
  case (Cons we ws)
  obtain w evs where we: "we = (w, evs)" by fastforce
  obtain s1 where s1: "fold_opt (senkusha_takion_cb pb) evs s = Some s1" "P s1" "sk_state_finished s1 = (\<exists>e \<in> set evs. m e)"
    using events [OF Cons.prems(1), of evs] Cons.prems(2,3) we by auto
  have total: "\<exists>l. sk_wakeups pb ws s1 = Some l" if "P s1" "\<forall>(_, evs) \<in> set ws. \<forall>e \<in> set evs. ok e" for s1 ws
    using that
  proof (induction ws arbitrary: s1)
    case (Cons we ws)
    obtain w evs where we: "we = (w, evs)" by fastforce
    then obtain s2 where s2: "fold_opt (senkusha_takion_cb pb) evs s1 = Some s2" "P s2"
      using events [OF Cons.prems(1), of evs] Cons.prems(2) by auto
    then show ?case using Cons.IH [OF s2(2)] Cons.prems(2) by (auto simp: we)
  qed simp
  have oks: "\<forall>(_, evs) \<in> set ws. \<forall>e \<in> set evs. ok e" using Cons.prems(3) by simp
  obtain l where l: "sk_wakeups pb ws s1 = Some l" using total [OF s1(2) oks] by blast
  have cons: "sk_wakeups pb (we # ws) s = Some ((w, s1) # l)" using s1(1) l by (simp add: we)
  show ?case
  proof (cases "w = Wake_Timeout \<or> (\<exists>e \<in> set evs. m e)")
    case True
    then have "b = (\<exists>e \<in> set evs. m e)" using Cons.prems(4) by (auto simp: we split: if_splits wakeup.splits)
    then show ?thesis using cons s1 True by (cases w) (auto simp: check we)
  next
    case False
    then have w: "w = Wake_Signal" "\<not> sk_state_finished s1" using s1(3) by (auto intro: wakeup.exhaust)
    then obtain l' err s' where "sk_wakeups pb ws s1 = Some l'" "wait_until state_finished_cond_check l' = Some (err, s')" "P s'"
        "sk_state_finished s' = b" "err = CHIAKI_ERR_TIMEOUT \<or> err = CHIAKI_ERR_SUCCESS \<and> b" "wait_signaled m ws \<longrightarrow> err = CHIAKI_ERR_SUCCESS"
      using Cons.IH [OF s1(2) _ oks] Cons.prems(4) False by (auto simp: we)
    then show ?thesis using cons l w False by (auto simp: check [OF s1(2)] we)
  qed
qed simp

text \<open>A wait ends, with the state finished exactly if it is answered.\<close>

lemma wait_ends:
  assumes "P s" "\<not> sk_state_finished s" "wait_ok ok timeout_ms w" "sk_answers m w b"
  shows "\<exists>err s'. senkusha_wait pb w timeout_ms s = Some (err, s') \<and> P s' \<and> sk_state_finished s' = b \<and>
     (err = CHIAKI_ERR_TIMEOUT \<or> err = CHIAKI_ERR_SUCCESS \<and> b) \<and> (wait_signaled m (snd w) \<longrightarrow> err = CHIAKI_ERR_SUCCESS)"
proof -
  obtain l err s' where l: "sk_wakeups pb (snd w) s = Some l" "wait_until state_finished_cond_check l = Some (err, s')" "P s'"
      "sk_state_finished s' = b" "err = CHIAKI_ERR_TIMEOUT \<or> err = CHIAKI_ERR_SUCCESS \<and> b" "wait_signaled m (snd w) \<longrightarrow> err = CHIAKI_ERR_SUCCESS"
    using wakeups [OF assms(1,2), of "snd w" b] assms(3,4) by (auto simp: wait_ok_def sk_answers_def)
  have "snd (set_timeout (fst w) timeout_ms) < 1000000000" "\<not> state_finished_cond_check s"
    using assms(1-3) by (simp_all add: wait_ok_def check)
  then have "chiaki_cond_timedwait_pred (fst w) timeout_ms state_finished_cond_check s l = wait_until state_finished_cond_check l"
    by (simp add: chiaki_cond_timedwait_pred_def timedwait_pred_loop_valid)
  then show ?thesis
    using l by (intro exI [of _ err] exI [of _ s']) (auto simp: senkusha_wait_def)
qed

end

text \<open>The states of the test.\<close>

definition expecting :: "senkusha_state \<Rightarrow> senkusha \<Rightarrow> bool" where
  "expecting st s \<longleftrightarrow> sk_state s = st \<and> \<not> sk_should_stop s"

fun is_mtu_response :: "u32 \<Rightarrow> sk_event \<Rightarrow> bool" where
  "is_mtu_response mtu_id (TE_AV p, _) \<longleftrightarrow> is_video p \<and> ucast (frame_index p) = mtu_id"
| "is_mtu_response mtu_id _ \<longleftrightarrow> False"

interpretation expect_mtu: sk_expectation pb sk_event_ok "\<lambda>s. expecting SK_EXPECT_MTU s \<and> sk_mtu_id s = mtu_id" "is_mtu_response mtu_id" for pb mtu_id
proof
  fix s e
  assume "expecting SK_EXPECT_MTU s \<and> sk_mtu_id s = mtu_id" "sk_event_ok e"
  then show "\<exists>s'. senkusha_takion_cb pb e s = Some s' \<and> (expecting SK_EXPECT_MTU s' \<and> sk_mtu_id s' = mtu_id) \<and>
      sk_state_finished s' = (sk_state_finished s \<or> is_mtu_response mtu_id e)"
    by (cases "(pb, e, s)" rule: senkusha_takion_cb.cases)
      (auto simp: expecting_def senkusha_takion_data_def senkusha_takion_data_ack_def senkusha_takion_av_def split: option.split)
qed (simp add: expecting_def)

fun is_pong :: "u32 \<Rightarrow> u16 \<Rightarrow> u16 \<Rightarrow> sk_event \<Rightarrow> bool" where
  "is_pong tag test_index ping_index (TE_AV p, _) \<longleftrightarrow>
     \<not> is_video p \<and> frame_index p = test_index \<and> unit_index p = ping_index \<and> \<not> av_data_size p < 8 \<and> load32be (av_data p) 4 = Some tag"
| "is_pong tag test_index ping_index _ \<longleftrightarrow> False"

interpretation expect_pong: sk_expectation pb sk_event_ok
  "\<lambda>s. expecting SK_EXPECT_PONG s \<and> sk_ping_tag s = tag \<and> sk_ping_test_index s = test_index \<and> sk_ping_index s = ping_index"
  "is_pong tag test_index ping_index" for pb tag test_index ping_index
proof
  fix s e
  assume a: "expecting SK_EXPECT_PONG s \<and> sk_ping_tag s = tag \<and> sk_ping_test_index s = test_index \<and> sk_ping_index s = ping_index" "sk_event_ok e"
  have "\<exists>w. load32be (av_data p) 4 = Some w" if "e = (TE_AV p, t)" "\<not> av_data_size p < 8" for p t
    using a(2) that by (intro load32be_defined) auto
  then show "\<exists>s'. senkusha_takion_cb pb e s = Some s' \<and>
      (expecting SK_EXPECT_PONG s' \<and> sk_ping_tag s' = tag \<and> sk_ping_test_index s' = test_index \<and> sk_ping_index s' = ping_index) \<and>
      sk_state_finished s' = (sk_state_finished s \<or> is_pong tag test_index ping_index e)"
    using a(1)
    by (cases "(pb, e, s)" rule: senkusha_takion_cb.cases)
      (auto simp: expecting_def senkusha_takion_data_def senkusha_takion_data_ack_def senkusha_takion_av_def split: option.split)
qed (simp add: expecting_def)

fun is_data_ack :: "u32 \<Rightarrow> sk_event \<Rightarrow> bool" where
  "is_data_ack seq_num (TE_DATA_ACK n, _) \<longleftrightarrow> n = seq_num"
| "is_data_ack seq_num _ \<longleftrightarrow> False"

interpretation expect_ack: sk_expectation pb sk_event_ok
  "\<lambda>s. expecting SK_EXPECT_DATA_ACK s \<and> sk_data_ack_seq_num_expected s = seq_num" "is_data_ack seq_num" for pb seq_num
proof
  fix s e
  assume "expecting SK_EXPECT_DATA_ACK s \<and> sk_data_ack_seq_num_expected s = seq_num" "sk_event_ok e"
  then show "\<exists>s'. senkusha_takion_cb pb e s = Some s' \<and>
      (expecting SK_EXPECT_DATA_ACK s' \<and> sk_data_ack_seq_num_expected s' = seq_num) \<and>
      sk_state_finished s' = (sk_state_finished s \<or> is_data_ack seq_num e)"
    by (cases "(pb, e, s)" rule: senkusha_takion_cb.cases)
      (auto simp: expecting_def senkusha_takion_data_def senkusha_takion_data_ack_def senkusha_takion_av_def split: option.split)
qed (simp add: expecting_def)

text \<open>A message that nanopb decodes.\<close>

fun is_message :: "nanopb \<Rightarrow> (takion_pb \<Rightarrow> bool) \<Rightarrow> sk_event \<Rightarrow> bool" where
  "is_message pb m (TE_DATA data_type buf, _) \<longleftrightarrow>
     data_type = CHIAKI_TAKION_MESSAGE_DATA_TYPE_PROTOBUF \<and> (case pb_dec pb buf of None \<Rightarrow> False | Some msg \<Rightarrow> m msg)"
| "is_message pb m _ \<longleftrightarrow> False"

abbreviation is_bang :: "takion_pb \<Rightarrow> bool" where
  "is_bang msg \<equiv> pb_type msg = PB_BANG \<and> pb_bang msg \<noteq> None"

interpretation expect_bang: sk_expectation pb sk_event_ok "expecting SK_EXPECT_BANG" "is_message pb is_bang" for pb
proof
  fix s e
  assume "expecting SK_EXPECT_BANG s" "sk_event_ok e"
  then show "\<exists>s'. senkusha_takion_cb pb e s = Some s' \<and> expecting SK_EXPECT_BANG s' \<and>
      sk_state_finished s' = (sk_state_finished s \<or> is_message pb is_bang e)"
    by (cases "(pb, e, s)" rule: senkusha_takion_cb.cases)
      (auto simp: expecting_def senkusha_takion_data_def senkusha_takion_data_ack_def senkusha_takion_av_def split: option.split)
qed (simp add: expecting_def)

interpretation expect_client_mtu: sk_expectation pb sk_event_ok
  "\<lambda>s. expecting SK_EXPECT_CLIENT_MTU_COMMAND s \<and> sk_mtu_id s = mtu_id" "is_message pb (\<lambda>msg. senkusha_is_client_mtu msg mtu_id)" for pb mtu_id
proof
  fix s e
  assume "expecting SK_EXPECT_CLIENT_MTU_COMMAND s \<and> sk_mtu_id s = mtu_id" "sk_event_ok e"
  then show "\<exists>s'. senkusha_takion_cb pb e s = Some s' \<and> (expecting SK_EXPECT_CLIENT_MTU_COMMAND s' \<and> sk_mtu_id s' = mtu_id) \<and>
      sk_state_finished s' = (sk_state_finished s \<or> is_message pb (\<lambda>msg. senkusha_is_client_mtu msg mtu_id) e)"
    by (cases "(pb, e, s)" rule: senkusha_takion_cb.cases)
      (auto simp: expecting_def senkusha_takion_data_def senkusha_takion_data_ack_def senkusha_takion_av_def split: option.split)
qed (simp add: expecting_def)

text \<open>While it connects, a disconnection undoes a connection, so that there must be none.\<close>

definition no_disconnect :: "sk_event \<Rightarrow> bool" where
  "no_disconnect e \<longleftrightarrow> sk_event_ok e \<and> fst e \<noteq> TE_DISCONNECT"

interpretation expect_connect: sk_expectation pb no_disconnect "expecting SK_TAKION_CONNECT" "\<lambda>e. fst e = TE_CONNECTED" for pb
proof
  fix s e
  assume "expecting SK_TAKION_CONNECT s" "no_disconnect e"
  then show "\<exists>s'. senkusha_takion_cb pb e s = Some s' \<and> expecting SK_TAKION_CONNECT s' \<and>
      sk_state_finished s' = (sk_state_finished s \<or> fst e = TE_CONNECTED)"
    by (cases "(pb, e, s)" rule: senkusha_takion_cb.cases)
      (auto simp: expecting_def no_disconnect_def senkusha_takion_data_def senkusha_takion_data_ack_def senkusha_takion_av_def split: option.split)
qed (simp add: expecting_def)

section \<open>The search\<close>

text \<open>
  Below the mean of the bounds. \<open>Inv k\<close> holds in a state from which \<open>k\<close> more sizes can be tried; a size passes exactly if it is at most \<open>M\<close>.
\<close>

lemma word_mean:
  assumes "unat (lo :: u32) \<le> unat hi"
  shows "unat (lo + (hi - lo) div 2) = unat lo + (unat hi - unat lo) div 2" "unat (hi - lo) = unat hi - unat lo"
proof -
  show d: "unat (hi - lo) = unat hi - unat lo" using assms by (simp add: unat_sub word_le_nat_alt)
  have "unat ((hi - lo) div 2) = (unat hi - unat lo) div 2" by (simp add: unat_div d)
  moreover have "unat lo + (unat hi - unat lo) div 2 \<le> unat hi" using assms by simp
  then have "unat lo + (unat hi - unat lo) div 2 < 2 ^ 32" using unat_bound [of hi] by simp
  ultimately show "unat (lo + (hi - lo) div 2) = unat lo + (unat hi - unat lo) div 2"
    by (simp add: unat_word_ariths)
qed

lemma mtu_search_mean:
  assumes attempts: "\<And>k cur st. Inv (Suc k) st \<Longrightarrow> low \<le> unat cur \<Longrightarrow> unat cur < bound \<Longrightarrow>
      \<exists>st' outs. attempts cur st = Some (if unat cur \<le> M then Mtu_Success else Mtu_Timeout, st', outs) \<and> Inv k st'"
  shows "low \<le> unat lo \<Longrightarrow> unat lo < unat hi \<Longrightarrow> unat hi \<le> bound \<Longrightarrow> unat hi - unat lo \<le> 2 ^ k \<Longrightarrow> M < unat hi \<Longrightarrow> Inv k st \<Longrightarrow>
    \<exists>m h st' outs i. mtu_search attempts lo hi (lo + (hi - lo) div 2) st = Some (CHIAKI_ERR_SUCCESS, m, h, st', outs) \<and>
      unat m = max (unat lo) M \<and> Inv i st'"
proof (induction k arbitrary: lo hi st)
  case 0
  then have "unat hi - unat lo = 1" by simp
  then have "\<not> hi - lo > 1" using word_mean(2) [of lo hi] "0.prems"(2) by (simp add: word_less_nat_alt)
  then show ?case using 0 by (subst mtu_search.simps) (auto simp: max_def)
next
  case (Suc k)
  let ?cur = "lo + (hi - lo) div 2"
  note mean = word_mean [OF less_imp_le [OF Suc.prems(2)]]
  show ?case
  proof (cases "unat hi - unat lo > 1")
    case False
    then have "\<not> hi - lo > 1" using mean(2) by (simp add: word_less_nat_alt)
    moreover have "max (unat lo) M = unat lo" using False Suc.prems(2,5) by simp
    ultimately show ?thesis
      using Suc.prems(6) by (intro exI [of _ lo] exI [of _ hi] exI [of _ st] exI [of _ "[]"] exI [of _ "Suc k"]) (subst mtu_search.simps, simp)
  next
    case True
    then have g: "hi - lo > 1" using mean(2) by (simp add: word_less_nat_alt)
    have c: "unat lo < unat ?cur" "unat ?cur < unat hi" "unat ?cur - unat lo \<le> 2 ^ k" "unat hi - unat ?cur \<le> 2 ^ k"
      using True Suc.prems(2,4) mean(1) by auto
    obtain st' outs where at: "attempts ?cur st = Some (if unat ?cur \<le> M then Mtu_Success else Mtu_Timeout, st', outs)" "Inv k st'"
      using attempts [OF Suc.prems(6), of ?cur] c(1,2) Suc.prems(1,3) by auto
    show ?thesis
    proof (cases "unat ?cur \<le> M")
      case True
      obtain m h t outs' i where "mtu_search attempts ?cur hi (?cur + (hi - ?cur) div 2) st' = Some (CHIAKI_ERR_SUCCESS, m, h, t, outs')"
          "unat m = max (unat ?cur) M" "Inv i t"
        using Suc.IH [OF _ c(2) Suc.prems(3) c(4) Suc.prems(5) at(2)] c(1) Suc.prems(1) by fastforce
      then show ?thesis
        using True at(1) g c(1) by (subst mtu_search.simps) (auto simp: max_def)
    next
      case False
      obtain m h t outs' i where "mtu_search attempts lo ?cur (lo + (?cur - lo) div 2) st' = Some (CHIAKI_ERR_SUCCESS, m, h, t, outs')"
          "unat m = max (unat lo) M" "Inv i t"
        using Suc.IH [OF Suc.prems(1) c(1) _ c(3) _ at(2)] Suc.prems(3) c(2) False by fastforce
      then show ?thesis
        using False at(1) g by (subst mtu_search.simps) auto
    qed
  qed
qed

section \<open>From the console\<close>

text \<open>
  A path that carries packets of at most \<open>M\<close> bytes from the console: requests are sent, every wait ends, larger packets do not arrive
  and of three requests in succession for a size that passes one is answered.
\<close>

definition mtu_in_answered :: "(u32 \<Rightarrow> u32 \<Rightarrow> mtu_env) \<Rightarrow> u32 \<Rightarrow> u32 \<Rightarrow> bool \<Rightarrow> bool" where
  "mtu_in_answered env request_id cur b = sk_answers (is_mtu_response request_id) (mt_wait (env request_id cur)) b"

definition mtu_waits_ok :: "sk_wait \<Rightarrow> bool" where
  "mtu_waits_ok w \<longleftrightarrow> (\<forall>t. 5 \<le> t \<and> t \<le> 500 \<longrightarrow> wait_ok sk_event_ok t w)"

definition path_in :: "nanopb \<Rightarrow> (u32 \<Rightarrow> u32 \<Rightarrow> mtu_env) \<Rightarrow> nat \<Rightarrow> bool" where
  "path_in pb env M \<longleftrightarrow>
     (\<forall>request_id cur. mt_send (env request_id cur) = CHIAKI_ERR_SUCCESS \<and> mtu_waits_ok (mt_wait (env request_id cur)) \<and>
        (\<exists>b. mtu_in_answered env request_id cur b) \<and> (mtu_in_answered env request_id cur True \<longrightarrow> unat cur \<le> M) \<and>
        length (pb_enc pb (senkusha_message MTU_COMMAND None (Some \<lparr>mc_id = request_id, mc_mtu_req = cur, mc_has_num = False, mc_num = 1\<rparr>) None)) \<le> 0x20) \<and>
     (\<forall>request_id cur. unat request_id \<le> 30 \<and> unat cur \<le> M \<longrightarrow>
        (\<exists>j. 1 \<le> j \<and> j \<le> 3 \<and> mtu_in_answered env (request_id + of_nat j) cur True))"

lemma answered_unique: "mtu_in_answered env request_id cur b \<Longrightarrow> mtu_in_answered env request_id cur b' \<Longrightarrow> b = b'"
  by (simp add: mtu_in_answered_def sk_answers_def)

lemma mtu_in_attempts_answered:
  assumes "path_in pb env M" "5 \<le> t" "t \<le> 500"
  shows "\<not> sk_should_stop s \<Longrightarrow>
     \<exists>j s' outs. mtu_in_attempts pb env t cur k request_id s =
         Some (if \<exists>i. 1 \<le> i \<and> i \<le> k \<and> mtu_in_answered env (request_id + of_nat i) cur True then Mtu_Success else Mtu_Timeout,
           (request_id + of_nat j, s'), outs) \<and>
       \<not> sk_should_stop s' \<and> j \<le> k"
proof (induction k arbitrary: request_id s)
  case 0
  then show ?case by (intro exI [of _ 0] exI [of _ s] exI [of _ "[]"]) simp
next
  case (Suc k)
  let ?id = "request_id + 1" and ?s = "(sk_expect SK_EXPECT_MTU s)\<lparr>sk_mtu_id := request_id + 1\<rparr>"
  let ?m = "senkusha_message MTU_COMMAND None (Some \<lparr>mc_id = ?id, mc_mtu_req = cur, mc_has_num = False, mc_num = 1\<rparr>) None"
  have send: "senkusha_send_mtu_command pb \<lparr>mc_id = ?id, mc_mtu_req = cur, mc_has_num = False, mc_num = 1\<rparr> (mt_send (env ?id cur)) =
      (CHIAKI_ERR_SUCCESS, [Sk_Data 8 (pb_enc pb ?m)])"
    using assms(1) by (simp add: path_in_def senkusha_send_mtu_command_def sk_send_def pb_encode_def)
  obtain b where b: "mtu_in_answered env ?id cur b" using assms(1) unfolding path_in_def by blast
  have w: "wait_ok sk_event_ok t (mt_wait (env ?id cur))" using assms by (simp add: path_in_def mtu_waits_ok_def)
  obtain err s1 where s1: "senkusha_wait pb (mt_wait (env ?id cur)) t ?s = Some (err, s1)" "expecting SK_EXPECT_MTU s1" "sk_state_finished s1 = b"
      "err = CHIAKI_ERR_TIMEOUT \<or> err = CHIAKI_ERR_SUCCESS \<and> b"
    using expect_mtu.wait_ends [of ?s ?id t _ b pb, OF _ _ w] b Suc.prems
    by (auto simp: expecting_def sk_expect_def mtu_in_answered_def)
  show ?case
  proof (cases b)
    case True
    have yes: "\<exists>i. 1 \<le> i \<and> i \<le> Suc k \<and> mtu_in_answered env (request_id + of_nat i) cur True"
      using b True by (intro exI [of _ 1]) simp
    have "mtu_in_attempts pb env t cur (Suc k) request_id s = Some (Mtu_Success, (request_id + of_nat 1, s1), [Sk_Data 8 (pb_enc pb ?m)])"
      using send s1(1,3) True by (simp add: Let_def)
    then show ?thesis
      using yes s1(2) by (intro exI [of _ 1] exI [of _ s1]) (simp add: expecting_def)
  next
    case False
    then have e: "err = CHIAKI_ERR_TIMEOUT" using s1(4) by simp
    have no: "\<not> mtu_in_answered env ?id cur True" using answered_unique [OF b] False by auto
    obtain j s2 outs where j: "mtu_in_attempts pb env t cur k ?id s1 =
        Some (if \<exists>i. 1 \<le> i \<and> i \<le> k \<and> mtu_in_answered env (?id + of_nat i) cur True then Mtu_Success else Mtu_Timeout,
          (?id + of_nat j, s2), outs)" "\<not> sk_should_stop s2" "j \<le> k"
      using Suc.IH [of s1 ?id] s1(2) by (auto simp: expecting_def)
    have ex: "(\<exists>i. 1 \<le> i \<and> i \<le> Suc k \<and> mtu_in_answered env (request_id + of_nat i) cur True) \<longleftrightarrow>
        (\<exists>i. 1 \<le> i \<and> i \<le> k \<and> mtu_in_answered env (?id + of_nat i) cur True)"
    proof
      assume "\<exists>i. 1 \<le> i \<and> i \<le> Suc k \<and> mtu_in_answered env (request_id + of_nat i) cur True"
      then obtain i where i: "1 \<le> i" "i \<le> Suc k" "mtu_in_answered env (request_id + of_nat i) cur True" by blast
      then have "i \<noteq> 1" using no by auto
      then show "\<exists>i. 1 \<le> i \<and> i \<le> k \<and> mtu_in_answered env (?id + of_nat i) cur True"
        using i by (intro exI [of _ "i - 1"]) (auto simp: of_nat_diff)
    next
      assume "\<exists>i. 1 \<le> i \<and> i \<le> k \<and> mtu_in_answered env (?id + of_nat i) cur True"
      then obtain i where "1 \<le> i" "i \<le> k" "mtu_in_answered env (?id + of_nat i) cur True" by blast
      then show "\<exists>i. 1 \<le> i \<and> i \<le> Suc k \<and> mtu_in_answered env (request_id + of_nat i) cur True"
        by (intro exI [of _ "Suc i"]) (simp add: add.assoc)
    qed
    have "mtu_in_attempts pb env t cur (Suc k) request_id s =
        Some (if \<exists>i. 1 \<le> i \<and> i \<le> Suc k \<and> mtu_in_answered env (request_id + of_nat i) cur True then Mtu_Success else Mtu_Timeout,
          (request_id + of_nat (Suc j), s2), Sk_Data 8 (pb_enc pb ?m) # outs)"
      unfolding ex using send s1(1,3) False e j(1) by (simp add: Let_def add.assoc)
    then show ?thesis using j(2,3) by (intro exI [of _ "Suc j"] exI [of _ s2]) simp
  qed
qed

lemma mtu_in_size:
  assumes "path_in pb env M" "5 \<le> t" "t \<le> 500" "\<not> sk_should_stop s" "unat request_id \<le> 30"
  shows "\<exists>request_id' s' outs. mtu_in_attempts pb env t cur 3 request_id s =
       Some (if unat cur \<le> M then Mtu_Success else Mtu_Timeout, (request_id', s'), outs) \<and>
     \<not> sk_should_stop s' \<and> unat request_id' \<le> unat request_id + 3"
proof -
  have "(\<exists>i. 1 \<le> i \<and> i \<le> 3 \<and> mtu_in_answered env (request_id + of_nat i) cur True) \<longleftrightarrow> unat cur \<le> M"
    using assms(1,5) unfolding path_in_def by blast
  moreover have "unat (request_id + of_nat j) \<le> unat request_id + 3" if "j \<le> 3" for j
    using that assms(5) by (simp add: unat_word_ariths unat_of_nat_len)
  ultimately show ?thesis
    using mtu_in_attempts_answered [OF assms(1-4), of cur 3 request_id] by fastforce
qed

lemma mtu_in_test_finds:
  assumes "path_in pb env M" "5 \<le> t" "t \<le> 500" "\<not> sk_should_stop s"
  shows "\<exists>m s' outs. senkusha_run_mtu_in_test pb env 576 1454 3 t s = Some (CHIAKI_ERR_SUCCESS, Some m, s', outs) \<and>
     unat m = min 1454 (max 576 M) \<and> \<not> sk_should_stop s'"
proof -
  let ?a = "\<lambda>cur (request_id, s). mtu_in_attempts pb env t cur 3 request_id s"
  let ?Inv = "\<lambda>k (request_id :: u32, s). \<not> sk_should_stop s \<and> unat request_id + 3 * k \<le> 33"
  have at: "\<exists>st' outs. ?a cur st = Some (if unat cur \<le> M then Mtu_Success else Mtu_Timeout, st', outs) \<and> ?Inv k st'"
    if "?Inv (Suc k) st" for k cur st
  proof -
    obtain request_id s where st: "st = (request_id, s)" by fastforce
    then have "\<not> sk_should_stop s" "unat request_id \<le> 30" using that by auto
    from mtu_in_size [OF assms(1-3) this, of cur] show ?thesis using that by (fastforce simp: st)
  qed
  obtain st1 outs1 where first: "?a 1454 (0, s) = Some (if 1454 \<le> M then Mtu_Success else Mtu_Timeout, st1, outs1)" "?Inv 10 st1"
    using at [of 10 "(0, s)" 1454] assms(4) by auto
  have "\<exists>m h st outs i. mtu_search ?a 576 1454 1454 (0, s) = Some (CHIAKI_ERR_SUCCESS, m, h, st, outs) \<and> unat m = min 1454 (max 576 M) \<and> ?Inv i st"
  proof (cases "1454 \<le> M")
    case True
    have "mtu_search ?a 1454 1454 c st1 = Some (CHIAKI_ERR_SUCCESS, 1454, 1454, st1, [])" for c
      by (subst mtu_search.simps) simp
    then have "mtu_search ?a 576 1454 1454 (0, s) = Some (CHIAKI_ERR_SUCCESS, 1454, 1454, st1, outs1)"
      using True first(1) by (subst mtu_search.simps) simp
    then show ?thesis
      using True first(2) by (intro exI [of _ 1454] exI [of _ st1] exI [of _ outs1] exI [of _ 10]) auto
  next
    case False
    obtain m h st outs i where "mtu_search ?a 576 1454 (576 + (1454 - 576) div 2) st1 = Some (CHIAKI_ERR_SUCCESS, m, h, st, outs)"
        "unat m = max (unat (576 :: u32)) M" "?Inv i st"
      using mtu_search_mean [where Inv = ?Inv and low = 576 and bound = 1454 and attempts = ?a and M = M and lo = 576 and hi = 1454 and k = 10 and st = st1] at first(2) False by (auto simp: case_prod_beta)
    then show ?thesis
      using False first(1) by (subst mtu_search.simps) auto
  qed
  then show ?thesis by (auto simp: senkusha_run_mtu_in_test_def)
qed

section \<open>To the console\<close>

lemma ping_header:
  assumes "26 \<le> length buf" "a < 10"
  shows "\<exists>buf'. chiaki_takion_v7_av_packet_format_header buf (ping_packet 0 (of_nat a)) = Some (CHIAKI_ERR_SUCCESS, 18, buf') \<and> length buf' = length buf"
proof -
  have "unat (of_nat a :: u16) = a" using assms(2) by (simp add: unat_of_nat_len)
  then have u: "\<not> 2147483648 \<le> unat (of_nat a :: u16) * 2097152" using assms(2) by linarith
  let ?p = "ping_packet 0 (of_nat a)"
  have "is_video ?p = False" "uses_nalu_info_structs ?p = False" "unit_index ?p = of_nat a" "packet_index ?p = 0" "frame_index ?p = 0"
    by (simp_all add: ping_packet_def av_packet_zero_def)
  then show ?thesis
    using assms(1) u
    by (simp add: chiaki_takion_v7_av_packet_format_header_def v7_header_size_def Let_def store_bytes_def host32_bytes_def)
qed

lemma mtu_out_packet_ok:
  assumes "26 \<le> length buf" "a < 3"
  shows "\<exists>buf'. mtu_out_packet tag 0 (of_nat a) buf = Some (CHIAKI_ERR_SUCCESS, buf') \<and> length buf' = length buf"
  using ping_header [OF assms(1), of a] assms by (auto simp: mtu_out_packet_def store_bytes_def)

definition mtu_out_answered :: "mtu_out_env \<Rightarrow> nat \<Rightarrow> bool \<Rightarrow> bool" where
  "mtu_out_answered e attempt b = sk_answers (is_pong (mo_tag e) 0 (of_nat attempt)) (mo_wait e) b"

text \<open>The same in the other direction; a ping that cannot be sent counts as lost.\<close>

definition path_out :: "(nat \<Rightarrow> u32 \<Rightarrow> mtu_out_env) \<Rightarrow> nat \<Rightarrow> bool" where
  "path_out env M \<longleftrightarrow>
     (\<forall>n cur. mtu_waits_ok (mo_wait (env n cur)) \<and>
        (\<forall>a < 3. (\<exists>b. mtu_out_answered (env n cur) a b) \<and>
           (mo_send (env n cur) = CHIAKI_ERR_SUCCESS \<and> mtu_out_answered (env n cur) a True \<longrightarrow> unat cur \<le> M)) \<and>
        (unat cur \<le> M \<longrightarrow> (\<exists>a < 3. mo_send (env (n + a) cur) = CHIAKI_ERR_SUCCESS \<and> mtu_out_answered (env (n + a) cur) a True)))"

lemma mtu_out_attempts_answered:
  assumes "path_out env M" "5 \<le> t" "t \<le> 500" "unat cur < 2 ^ 31" "28 \<le> unat cur"
  shows "\<not> sk_should_stop s \<Longrightarrow> unat cur - 28 \<le> length buf \<Longrightarrow> 26 \<le> length buf \<Longrightarrow> a \<le> 3 \<Longrightarrow>
     \<exists>n' buf' s' outs. mtu_out_attempts pb env t cur [a..<3] n buf s =
         Some (if \<exists>i. a \<le> i \<and> i < 3 \<and> mo_send (env (n + (i - a)) cur) = CHIAKI_ERR_SUCCESS \<and> mtu_out_answered (env (n + (i - a)) cur) i True
           then Mtu_Success else Mtu_Timeout, (n', buf', s'), outs) \<and>
       \<not> sk_should_stop s' \<and> length buf' = length buf"
proof (induction "3 - a" arbitrary: a n buf s)
  case 0
  then have "\<not> (a \<le> i \<and> i < 3)" for i by auto
  then show ?case using 0 by (intro exI [of _ n] exI [of _ buf] exI [of _ s] exI [of _ "[]"]) auto
next
  case (Suc k)
  then have a: "a < 3" "[a..<3] = a # [Suc a..<3]" by (simp_all add: upt_rec)
  let ?e = "env n cur"
  let ?s = "(sk_expect SK_EXPECT_PONG s)\<lparr>sk_ping_tag := mo_tag ?e, sk_ping_test_index := 0, sk_ping_index := of_nat a\<rparr>"
  obtain buf1 where b1: "mtu_out_packet (mo_tag ?e) 0 (of_nat a) buf = Some (CHIAKI_ERR_SUCCESS, buf1)" "length buf1 = length buf"
    using mtu_out_packet_ok [OF Suc.prems(3) a(1)] by blast
  have "unat (cur - 28) = unat cur - 28" using assms(5) by (simp add: unat_sub word_le_nat_alt)
  then obtain sent where sent: "load_bytes buf1 0 (unat (cur - 28)) = Some sent"
    using Suc.prems(2) b1(2) by (simp add: load_bytes_def)
  let ?ans = "\<lambda>a n i. a \<le> i \<and> i < 3 \<and> mo_send (env (n + (i - a)) cur) = CHIAKI_ERR_SUCCESS \<and> mtu_out_answered (env (n + (i - a)) cur) i True"
  obtain b where b: "mtu_out_answered ?e a b" using assms(1) a(1) unfolding path_out_def by blast
  have w: "wait_ok sk_event_ok t (mo_wait ?e)" using assms(1-3) by (simp add: path_out_def mtu_waits_ok_def)
  obtain err s1 where wait: "senkusha_wait pb (mo_wait ?e) t ?s = Some (err, s1)" "\<not> sk_should_stop s1" "sk_state_finished s1 = b"
      "err = CHIAKI_ERR_TIMEOUT \<or> err = CHIAKI_ERR_SUCCESS \<and> b"
    using expect_pong.wait_ends [of ?s "mo_tag ?e" 0 "of_nat a" t _ b pb, OF _ _ w] b Suc.prems(1)
    by (auto simp: expecting_def sk_expect_def mtu_out_answered_def)
  show ?case
  proof (cases "mo_send ?e = CHIAKI_ERR_SUCCESS \<and> b")
    case True
    have "mtu_out_attempts pb env t cur [a..<3] n buf s = Some (Mtu_Success, (n + 1, buf1, s1), [Sk_Raw sent])"
      unfolding a(2) using b1(1) sent wait True by (simp add: Let_def)
    moreover have "\<exists>i. ?ans a n i" using True b a(1) by (intro exI [of _ a]) simp
    ultimately show ?thesis using wait(2) b1(2) by auto
  next
    case False
    define s2 where "s2 = (if mo_send ?e = CHIAKI_ERR_SUCCESS then s1 else ?s)"
    have s2: "\<not> sk_should_stop s2" using wait(2) Suc.prems(1) by (simp add: s2_def sk_expect_def)
    have "\<not> mtu_out_answered ?e a True" if "mo_send ?e = CHIAKI_ERR_SUCCESS"
      using b that False by (auto simp: mtu_out_answered_def sk_answers_def)
    then have no: "\<not> ?ans a n a" by simp
    have ex: "(\<exists>i. ?ans a n i) \<longleftrightarrow> (\<exists>i. ?ans (Suc a) (n + 1) i)"
    proof
      assume "\<exists>i. ?ans a n i"
      then obtain i where i: "?ans a n i" by blast
      then have "i \<noteq> a" using no by blast
      then have "Suc a \<le> i" "n + (i - a) = n + 1 + (i - Suc a)" using i by auto
      then have "?ans (Suc a) (n + 1) i" using i by (simp only:)
      then show "\<exists>i. ?ans (Suc a) (n + 1) i" by blast
    next
      assume "\<exists>i. ?ans (Suc a) (n + 1) i"
      then obtain i where i: "?ans (Suc a) (n + 1) i" by blast
      then have "a \<le> i" "n + 1 + (i - Suc a) = n + (i - a)" by auto
      then have "?ans a n i" using i by (simp only:)
      then show "\<exists>i. ?ans a n i" by blast
    qed
    obtain n' buf' s' outs where rec: "mtu_out_attempts pb env t cur [Suc a..<3] (n + 1) buf1 s2 =
         Some (if \<exists>i. ?ans (Suc a) (n + 1) i then Mtu_Success else Mtu_Timeout, (n', buf', s'), outs)"
        "\<not> sk_should_stop s'" "length buf' = length buf"
    proof -
      have k: "k = 3 - Suc a" using Suc.hyps(2) by simp
      have "\<exists>n' buf' s' outs. mtu_out_attempts pb env t cur [Suc a..<3] (n + 1) buf1 s2 =
           Some (if \<exists>i. ?ans (Suc a) (n + 1) i then Mtu_Success else Mtu_Timeout, (n', buf', s'), outs) \<and>
         \<not> sk_should_stop s' \<and> length buf' = length buf1"
        by (rule Suc.hyps(1) [OF k s2]) (use Suc.prems(2,3) a(1) b1(2) in simp_all)
      then show ?thesis using that unfolding b1(2) by blast
    qed
    have "mtu_out_attempts pb env t cur [a..<3] n buf s =
        Some (if \<exists>i. ?ans (Suc a) (n + 1) i then Mtu_Success else Mtu_Timeout, (n', buf', s'), Sk_Raw sent # outs)"
    proof (cases "mo_send ?e = CHIAKI_ERR_SUCCESS")
      case True
      then show ?thesis
        unfolding a(2) using b1(1) sent wait False rec(1) by (simp add: Let_def s2_def)
    next
      case no: False
      then show ?thesis
        unfolding a(2) using b1(1) sent rec(1) by (simp add: Let_def s2_def sk_expect_def)
    qed
    then show ?thesis unfolding ex using rec(2,3) by blast
  qed
qed

lemma mtu_out_size:
  assumes "path_out env M" "5 \<le> t" "t \<le> 500" "28 \<le> unat cur" "unat cur \<le> 1454" "\<not> sk_should_stop s" "length buf = 1426"
  shows "\<exists>n' buf' s' outs. mtu_out_attempts pb env t cur [0..<3] n buf s =
       Some (if unat cur \<le> M then Mtu_Success else Mtu_Timeout, (n', buf', s'), outs) \<and> \<not> sk_should_stop s' \<and> length buf' = 1426"
proof -
  have "(\<exists>i. 0 \<le> i \<and> i < 3 \<and> mo_send (env (n + (i - 0)) cur) = CHIAKI_ERR_SUCCESS \<and> mtu_out_answered (env (n + (i - 0)) cur) i True) \<longleftrightarrow> unat cur \<le> M"
    using assms(1) unfolding path_out_def by auto
  then show ?thesis
    using mtu_out_attempts_answered [OF assms(1-3) _ assms(4,6), of buf 0 pb n] assms(5,7) by simp
qed

text \<open>A command that the console acknowledges in time.\<close>

definition ack_ok :: "ack_env \<Rightarrow> bool" where
  "ack_ok e \<longleftrightarrow> ak_send e = CHIAKI_ERR_SUCCESS \<and> wait_ok sk_event_ok SK_EXPECT_TIMEOUT_MS (ak_wait e) \<and>
     wait_signaled (is_data_ack (ak_seq_num e)) (snd (ak_wait e))"

lemma wait_for_ack_ok:
  assumes "ack_ok e" "\<not> sk_should_stop s"
  shows "\<exists>s'. senkusha_send_data_wait_for_ack pb e buf s = Some (CHIAKI_ERR_SUCCESS, s', [Sk_Data 8 buf]) \<and> \<not> sk_should_stop s'"
proof -
  let ?s = "(sk_expect SK_EXPECT_DATA_ACK s)\<lparr>sk_data_ack_seq_num_expected := ak_seq_num e\<rparr>"
  have "sk_answers (is_data_ack (ak_seq_num e)) (ak_wait e) True"
    using assms(1) signaled_answered by (simp add: ack_ok_def sk_answers_def)
  then obtain err s' where "senkusha_wait pb (ak_wait e) SK_EXPECT_TIMEOUT_MS ?s = Some (err, s')" "expecting SK_EXPECT_DATA_ACK s'" "sk_state_finished s'"
      "err = CHIAKI_ERR_SUCCESS"
    using expect_ack.wait_ends [of ?s "ak_seq_num e" SK_EXPECT_TIMEOUT_MS "ak_wait e" True pb] assms
    by (auto simp: expecting_def sk_expect_def ack_ok_def)
  then show ?thesis
    using assms(1) by (simp add: senkusha_send_data_wait_for_ack_def ack_ok_def expecting_def Let_def)
qed

text \<open>A console that takes part in the test of the packets to it.\<close>

definition mtu_out_console :: "nanopb \<Rightarrow> mtu_out_test_env \<Rightarrow> nat \<Rightarrow> bool" where
  "mtu_out_console pb e M \<longleftrightarrow>
     ak_send (mx_command e) = CHIAKI_ERR_SUCCESS \<and> wait_ok sk_event_ok SK_EXPECT_TIMEOUT_MS (mx_wait e) \<and>
     sk_answers (is_message pb (\<lambda>msg. senkusha_is_client_mtu msg 1)) (mx_wait e) True \<and> mx_alloc e \<and> path_out (mx_pings e) M \<and> ack_ok (mx_final e) \<and>
     (\<forall>c. length (pb_enc pb (senkusha_message CLIENT_MTU_COMMAND None None (Some c))) \<le> 0x20)"

text \<open>What is found: the largest size itself is only tried if it is the one that was found in the other direction.\<close>

definition mtu_out_found :: "nat \<Rightarrow> nat \<Rightarrow> nat" where
  "mtu_out_found mtu_in M = (if mtu_in \<le> M then if mtu_in = 1454 then 1454 else min 1453 M else max 576 M)"

lemma mtu_out_test_finds:
  assumes "mtu_out_console pb e M" "5 \<le> t" "t \<le> 500" "\<not> sk_should_stop s" "576 \<le> unat mtu_in" "unat mtu_in \<le> 1454"
  shows "\<exists>m s' outs. senkusha_run_mtu_out_test pb e mtu_in 576 1454 3 t s = Some (CHIAKI_ERR_SUCCESS, Some m, s', outs) \<and>
     unat m = mtu_out_found (unat mtu_in) M \<and> \<not> sk_should_stop s'"
proof -
  define A where "A = (\<lambda>cur (n, packet_buf, s :: senkusha). mtu_out_attempts pb (mx_pings e) t cur [0..<3] n packet_buf s)"
  define Inv where "Inv = (\<lambda>(k :: nat) (n :: nat, buf :: bytes, s :: senkusha). \<not> sk_should_stop s \<and> length buf = 1426)"
  have path: "path_out (mx_pings e) M" using assms(1) by (simp add: mtu_out_console_def)
  have at: "\<exists>st' outs. A cur st = Some (if unat cur \<le> M then Mtu_Success else Mtu_Timeout, st', outs) \<and> Inv k st'"
    if "Inv (Suc k) st" "28 \<le> unat cur" "unat cur \<le> 1454" for k cur st
  proof -
    obtain n buf s where st: "st = (n, buf, s)" by (metis prod_cases3)
    then show ?thesis
      using mtu_out_size [OF path assms(2,3) that(2,3), where s = s and buf = buf and pb = pb and n = n] that(1) unfolding A_def Inv_def st by fastforce
  qed
  have at': "\<exists>st' outs. A cur st = Some (if unat cur \<le> M' then Mtu_Success else Mtu_Timeout, st', outs) \<and> Inv k st'"
    if "Inv (Suc k) st" "28 \<le> unat cur" "unat cur < 1454" "M' = M \<or> M' = min 1453 M" for k cur st M'
  proof -
    have "unat cur \<le> M' \<longleftrightarrow> unat cur \<le> M" using that(3,4) by auto
    then show ?thesis using at [OF that(1,2)] that(3) by simp
  qed
  let ?c = "\<lparr>cm_id = 1, cm_mtu_req = mtu_in, cm_state = True, cm_has_mtu_down = True, cm_mtu_down = mtu_in\<rparr>"
  have enc: "length (pb_enc pb (senkusha_message CLIENT_MTU_COMMAND None None (Some c))) \<le> 0x20" for c
    using assms(1) by (simp add: mtu_out_console_def)
  let ?s0 = "(sk_expect SK_EXPECT_CLIENT_MTU_COMMAND s)\<lparr>sk_mtu_id := 1\<rparr>"
  obtain err1 s1 where s1: "senkusha_wait pb (mx_wait e) SK_EXPECT_TIMEOUT_MS ?s0 = Some (err1, s1)" "\<not> sk_should_stop s1" "sk_state_finished s1"
    using expect_client_mtu.wait_ends [where s = ?s0 and mtu_id = 1 and timeout_ms = SK_EXPECT_TIMEOUT_MS and w = "mx_wait e" and b = True and pb = pb] assms(1,4)
    by (auto simp: expecting_def sk_expect_def mtu_out_console_def)
  let ?st = "(0, mtu_packet_buf 1426, s1)"
  have "Inv 11 ?st" using s1(2) by (simp add: Inv_def mtu_packet_buf_def)
  then obtain st2 outs2 where first: "A mtu_in ?st = Some (if unat mtu_in \<le> M then Mtu_Success else Mtu_Timeout, st2, outs2)" "Inv 10 st2"
    using at [of 10 ?st mtu_in] assms(5,6) by auto
  have search: "\<exists>m h st outs. mtu_search A 576 1454 mtu_in ?st = Some (CHIAKI_ERR_SUCCESS, m, h, st, outs) \<and> unat m = mtu_out_found (unat mtu_in) M \<and> Inv 0 st"
  proof (cases "unat mtu_in \<le> M")
    case True
    show ?thesis
    proof (cases "unat mtu_in = 1454")
      case top: True
      then have "mtu_in = 1454" by (simp add: word_unat_eq_iff)
      moreover have "mtu_search A 1454 1454 c st2 = Some (CHIAKI_ERR_SUCCESS, 1454, 1454, st2, [])" for c
        by (subst mtu_search.simps) simp
      ultimately have "mtu_search A 576 1454 mtu_in ?st = Some (CHIAKI_ERR_SUCCESS, 1454, 1454, st2, outs2)"
        using True first(1) by (subst mtu_search.simps) simp
      then show ?thesis
        using True top first(2) by (intro exI [of _ 1454] exI [of _ st2] exI [of _ outs2]) (simp add: mtu_out_found_def Inv_def)
    next
      case False
      have "\<exists>m h st outs i. mtu_search A mtu_in 1454 (mtu_in + (1454 - mtu_in) div 2) st2 = Some (CHIAKI_ERR_SUCCESS, m, h, st, outs) \<and>
          unat m = max (unat mtu_in) (min 1453 M) \<and> Inv i st"
        by (rule mtu_search_mean [where low = 28 and bound = 1454 and k = 10, OF at'])
          (use first(2) False assms(5,6) in simp_all)
      then obtain m h st outs i where "mtu_search A mtu_in 1454 (mtu_in + (1454 - mtu_in) div 2) st2 = Some (CHIAKI_ERR_SUCCESS, m, h, st, outs)"
          "unat m = max (unat mtu_in) (min 1453 M)" "Inv i st" by blast
      note t = this
      have "mtu_search A 576 1454 mtu_in ?st = Some (CHIAKI_ERR_SUCCESS, m, h, st, outs2 @ outs)"
        using True first(1) t(1) by (subst mtu_search.simps) simp
      moreover have "unat m = mtu_out_found (unat mtu_in) M" using t(2) True False assms(6) by (simp add: mtu_out_found_def)
      moreover have "Inv 0 st" using t(3) by (simp add: Inv_def)
      ultimately show ?thesis by blast
    qed
  next
    case False
    have tail: "\<exists>m h st outs i. mtu_search A 576 mtu_in (576 + (mtu_in - 576) div 2) st2 = Some (CHIAKI_ERR_SUCCESS, m, h, st, outs) \<and>
        unat m = max 576 M \<and> Inv i st"
    proof (cases "unat mtu_in = 576")
      case True
      then have "mtu_in = 576" by (simp add: word_unat_eq_iff)
      moreover have "mtu_search A 576 576 c st2 = Some (CHIAKI_ERR_SUCCESS, 576, 576, st2, [])" for c
        by (subst mtu_search.simps) simp
      ultimately show ?thesis using False first(2) by (auto intro!: exI [of _ st2] exI [of _ "576 :: u32"])
    next
      case lt: False
      show ?thesis
        using mtu_search_mean [where low = 28 and bound = 1454 and k = 10 and lo = 576 and hi = mtu_in and st = st2, OF at'] first(2) False lt assms(5,6)
        by simp
    qed
    then obtain m h st outs i where t: "mtu_search A 576 mtu_in (576 + (mtu_in - 576) div 2) st2 = Some (CHIAKI_ERR_SUCCESS, m, h, st, outs)"
        "unat m = max 576 M" "Inv i st" by blast
    have "mtu_search A 576 1454 mtu_in ?st = Some (CHIAKI_ERR_SUCCESS, m, h, st, outs2 @ outs)"
      using False first(1) t(1) by (subst mtu_search.simps) simp
    moreover have "unat m = mtu_out_found (unat mtu_in) M" using t(2) False by (simp add: mtu_out_found_def)
    moreover have "Inv 0 st" using t(3) by (simp add: Inv_def)
    ultimately show ?thesis by blast
  qed
  obtain m h st outs where r: "mtu_search A 576 1454 mtu_in ?st = Some (CHIAKI_ERR_SUCCESS, m, h, st, outs)"
      "unat m = mtu_out_found (unat mtu_in) M" "Inv 0 st"
    using search by blast
  obtain n buf s3 where st: "st = (n, buf, s3)" by (metis prod_cases3)
  have s3: "\<not> sk_should_stop s3" using r(3) by (simp add: Inv_def st)
  let ?d = "\<lparr>cm_id = 2, cm_mtu_req = h, cm_state = False, cm_has_mtu_down = True, cm_mtu_down = mtu_in\<rparr>"
  let ?buf = "pb_enc pb (senkusha_message CLIENT_MTU_COMMAND None None (Some ?d))"
  have "ack_ok (mx_final e)" using assms(1) by (simp add: mtu_out_console_def)
  from wait_for_ack_ok [OF this s3, of pb ?buf] obtain s4 where
    s4: "senkusha_send_data_wait_for_ack pb (mx_final e) ?buf s3 = Some (CHIAKI_ERR_SUCCESS, s4, [Sk_Data 8 ?buf])" "\<not> sk_should_stop s4" by blast
  have command: "ak_send (mx_command e) = CHIAKI_ERR_SUCCESS" "mx_alloc e" using assms(1) by (simp_all add: mtu_out_console_def)
  have guard: "\<not> ((576 :: u32) < of_nat (8 + (MTU_UDP_PACKET_ADD + MTU_AV_PACKET_ADD)) \<or> (1454 :: u32) < 576 \<or> mtu_in < 576 \<or> mtu_in > 1454)"
    using assms(5,6) by (simp add: word_less_nat_alt)
  have "unat (1454 - of_nat MTU_UDP_PACKET_ADD :: u32) = 1426" by simp
  then have "senkusha_run_mtu_out_test pb e mtu_in 576 1454 3 t s =
      Some (CHIAKI_ERR_SUCCESS, Some m, s4, [Sk_Data 8 (pb_enc pb (senkusha_message CLIENT_MTU_COMMAND None None (Some ?c)))] @ outs @ [Sk_Data 8 ?buf])"
    unfolding senkusha_run_mtu_out_test_def if_not_P [OF guard] senkusha_send_client_mtu_command_def
    using command s1 r(1) s4(1) enc by (simp add: pb_encode_def A_def st Let_def)
  then show ?thesis using r(2) s4(2) by blast
qed

section \<open>The round trip time\<close>

text \<open>A console that echoes: every wait for a pong ends, and at least one of the pings is answered.\<close>

definition ping_answered :: "ping_env \<Rightarrow> nat \<Rightarrow> bool \<Rightarrow> bool" where
  "ping_answered e i b = sk_answers (is_pong (pe_tag e) 0 (of_nat i)) (pe_wait e) b"

definition pings_ok :: "(nat \<Rightarrow> ping_env) \<Rightarrow> bool" where
  "pings_ok env \<longleftrightarrow>
     (\<forall>i < 10. pe_send (env i) = CHIAKI_ERR_SUCCESS \<and> wait_ok sk_event_ok EXPECT_PONG_TIMEOUT_MS (pe_wait (env i)) \<and> (\<exists>b. ping_answered (env i) i b))"

definition rtt_console :: "nanopb \<Rightarrow> rtt_env \<Rightarrow> bool" where
  "rtt_console pb e \<longleftrightarrow>
     (\<forall>b. length (pb_enc pb (senkusha_message ECHO_COMMAND (Some b) None None)) \<le> 0x10) \<and> ack_ok (rt_echo_on e) \<and> ack_ok (rt_echo_off e) \<and>
     pings_ok (rt_pings e) \<and> (\<exists>i < 10. ping_answered (rt_pings e i) i True)"

text \<open>The pings that are answered are counted.\<close>

lemma senkusha_pings_count:
  assumes "pings_ok env"
  shows "\<not> sk_should_stop s \<Longrightarrow> \<forall>i \<in> set is. i < 10 \<Longrightarrow>
    \<exists>us s' outs. senkusha_pings pb env 0 is acc s =
        Some (Inr (us, snd acc + of_nat (length (filter (\<lambda>i. ping_answered (env i) i True) is))), s', outs) \<and> \<not> sk_should_stop s'"
proof (induction "is" arbitrary: acc s)
  case (Cons i rest)
  let ?e = "env i"
  let ?s = "(sk_expect SK_EXPECT_PONG s)\<lparr>sk_ping_test_index := 0, sk_ping_index := of_nat i, sk_ping_tag := pe_tag ?e\<rparr>"
  have i: "i < 10" using Cons.prems(2) by simp
  obtain data where d: "chiaki_takion_v7_av_packet_format_header (replicate 0x224 0) (ping_packet 0 (of_nat i)) = Some (CHIAKI_ERR_SUCCESS, 18, data)"
      "length data = 0x224"
    using ping_header [of "replicate 0x224 0" i] i by auto
  obtain data' where data': "store_bytes data (18 + 4) (htonl_bytes (pe_tag ?e)) = Some data'"
    using d(2) by (simp add: store_bytes_def)
  obtain b where b: "ping_answered ?e i b" using assms i by (auto simp: pings_ok_def)
  have e: "pe_send ?e = CHIAKI_ERR_SUCCESS" "wait_ok sk_event_ok EXPECT_PONG_TIMEOUT_MS (pe_wait ?e)"
    using assms i by (auto simp: pings_ok_def)
  obtain err s1 where wait: "senkusha_wait pb (pe_wait ?e) EXPECT_PONG_TIMEOUT_MS ?s = Some (err, s1)" "\<not> sk_should_stop s1" "sk_state_finished s1 = b"
    using expect_pong.wait_ends [of ?s "pe_tag ?e" 0 "of_nat i" EXPECT_PONG_TIMEOUT_MS _ b pb, OF _ _ e(2)] b Cons.prems(1)
    by (auto simp: expecting_def sk_expect_def ping_answered_def)
  have ans: "ping_answered ?e i True \<longleftrightarrow> b" using b by (auto simp: ping_answered_def sk_answers_def)
  define acc' where "acc' = (if \<not> b then acc else (fst acc + (sk_pong_time_us s1 - pe_start_us ?e), snd acc + 1))"
  obtain us s2 outs where rec: "senkusha_pings pb env 0 rest acc' s1 =
        Some (Inr (us, snd acc' + of_nat (length (filter (\<lambda>i. ping_answered (env i) i True) rest))), s2, outs)" "\<not> sk_should_stop s2"
    using Cons.IH [OF wait(2), of acc'] Cons.prems(2) by auto
  have "senkusha_pings pb env 0 (i # rest) acc s =
      Some (Inr (us, snd acc' + of_nat (length (filter (\<lambda>i. ping_answered (env i) i True) rest))), s2, Sk_Raw data' # outs)"
    using d(1) data' e(1) wait rec(1) by (simp add: Let_def acc'_def)
  then show ?case
    using rec(2) ans by (intro exI [of _ us] exI [of _ s2] exI [of _ "Sk_Raw data' # outs"]) (auto simp: acc'_def)
qed auto

lemma echo_command_ok:
  assumes "rtt_console pb e" "ack_ok a" "\<not> sk_should_stop s"
  shows "\<exists>s' outs. senkusha_send_echo_command pb a enable s = Some (CHIAKI_ERR_SUCCESS, s', outs) \<and> \<not> sk_should_stop s'"
proof -
  have "length (pb_enc pb (senkusha_message ECHO_COMMAND (Some enable) None None)) \<le> 0x10" using assms(1) by (simp add: rtt_console_def)
  then have "senkusha_send_echo_command pb a enable s =
      senkusha_send_data_wait_for_ack pb a (pb_enc pb (senkusha_message ECHO_COMMAND (Some enable) None None)) s"
    by (simp add: senkusha_send_echo_command_def pb_encode_def)
  then show ?thesis using wait_for_ack_ok [OF assms(2,3)] by metis
qed

lemma rtt_test_measures:
  assumes "rtt_console pb e" "\<not> sk_should_stop s"
  shows "\<exists>us s' outs. senkusha_run_rtt_test pb e 0 SENKUSHA_PING_COUNT_DEFAULT s = Some (CHIAKI_ERR_SUCCESS, Some us, s', outs) \<and> \<not> sk_should_stop s'"
proof -
  have c: "ack_ok (rt_echo_on e)" "ack_ok (rt_echo_off e)" "pings_ok (rt_pings e)" using assms(1) by (simp_all add: rtt_console_def)
  obtain i where i: "i < 10" "ping_answered (rt_pings e i) i True" using assms(1) by (auto simp: rtt_console_def)
  obtain s1 outs1 where on: "senkusha_send_echo_command pb (rt_echo_on e) True s = Some (CHIAKI_ERR_SUCCESS, s1, outs1)" "\<not> sk_should_stop s1"
    using echo_command_ok [OF assms(1) c(1) assms(2)] by blast
  define n where "n = length (filter (\<lambda>i. ping_answered (rt_pings e i) i True) [0..<10])"
  obtain us s2 outs2 where pings: "senkusha_pings pb (rt_pings e) 0 [0..<SENKUSHA_PING_COUNT_DEFAULT] (0, 0) s1 = Some (Inr (us, of_nat n), s2, outs2)"
      "\<not> sk_should_stop s2"
    using senkusha_pings_count [OF c(3) on(2), of "[0..<10]" pb "(0, 0)"] unfolding n_def by auto
  obtain s3 outs3 where off: "senkusha_send_echo_command pb (rt_echo_off e) False s2 = Some (CHIAKI_ERR_SUCCESS, s3, outs3)" "\<not> sk_should_stop s3"
    using echo_command_ok [OF assms(1) c(2) pings(2)] by blast
  have "n \<noteq> 0" using i unfolding n_def by (auto simp: filter_empty_conv)
  moreover have "n \<le> 10" using length_filter_le [of "\<lambda>i. ping_answered (rt_pings e i) i True" "[0..<10]"] by (simp add: n_def)
  ultimately have n: "\<not> (of_nat n :: u64) < 1" by (simp add: word_less_nat_alt unat_of_nat_len)
  have "senkusha_run_rtt_test pb e 0 SENKUSHA_PING_COUNT_DEFAULT s =
      Some (CHIAKI_ERR_SUCCESS, Some (us div of_nat n), s3, outs1 @ outs2 @ outs3)"
    unfolding senkusha_run_rtt_test_def using on(1) pings(1) off(1) n by simp
  then show ?thesis using off(2) by blast
qed

section \<open>The test\<close>

text \<open>A console that takes part in the whole test, over a path for packets of at most \<open>M_in\<close> and \<open>M_out\<close> bytes.\<close>

definition senkusha_console :: "nanopb \<Rightarrow> senkusha_env \<Rightarrow> nat \<Rightarrow> nat \<Rightarrow> bool" where
  "senkusha_console pb e M_in M_out \<longleftrightarrow>
     sr_alloc e \<and> sr_family e \<in> {AF_INET, AF_INET6} \<and> sr_connect e = CHIAKI_ERR_SUCCESS \<and>
     wait_ok no_disconnect SK_EXPECT_TIMEOUT_MS (sr_connect_wait e) \<and> sk_answers (\<lambda>e. fst e = TE_CONNECTED) (sr_connect_wait e) True \<and>
     sr_big e = CHIAKI_ERR_SUCCESS \<and> length (pb_enc pb senkusha_big) \<le> 12 \<and>
     wait_ok sk_event_ok SK_EXPECT_TIMEOUT_MS (sr_bang_wait e) \<and> sk_answers (is_message pb is_bang) (sr_bang_wait e) True \<and>
     rtt_console pb (sr_rtt e) \<and> path_in pb (sr_mtu_in e) M_in \<and> mtu_out_console pb (sr_mtu_out e) M_out"

lemma mtu_timeout_bounds: "5 \<le> mtu_timeout rtt" "mtu_timeout rtt \<le> 500"
  by (simp_all add: mtu_timeout_def Let_def)

lemma senkusha_tests_measure:
  assumes "senkusha_console pb e M_in M_out" "\<not> sk_should_stop s"
  shows "\<exists>m_in m_out rtt s' outs. senkusha_tests pb e s =
       Some (\<lparr>sr_err = CHIAKI_ERR_SUCCESS, sr_locked = False, sr_mtu_in_out = Some m_in, sr_mtu_out_out = Some m_out, sr_rtt_out = Some rtt\<rparr>, s', outs) \<and>
     unat m_in = min 1454 (max 576 M_in) \<and> unat m_out = mtu_out_found (unat m_in) M_out"
proof -
  have c: "rtt_console pb (sr_rtt e)" "path_in pb (sr_mtu_in e) M_in" "mtu_out_console pb (sr_mtu_out e) M_out"
    using assms(1) by (simp_all add: senkusha_console_def)
  obtain rtt s1 outs1 where r: "senkusha_run_rtt_test pb (sr_rtt e) 0 SENKUSHA_PING_COUNT_DEFAULT s = Some (CHIAKI_ERR_SUCCESS, Some rtt, s1, outs1)"
      "\<not> sk_should_stop s1"
    using rtt_test_measures [OF c(1) assms(2)] by blast
  note t = mtu_timeout_bounds [of rtt]
  obtain m_in s2 outs2 where i: "senkusha_run_mtu_in_test pb (sr_mtu_in e) 576 1454 3 (mtu_timeout rtt) s1 = Some (CHIAKI_ERR_SUCCESS, Some m_in, s2, outs2)"
      "unat m_in = min 1454 (max 576 M_in)" "\<not> sk_should_stop s2"
    using mtu_in_test_finds [OF c(2) t r(2)] by blast
  have b: "576 \<le> unat m_in" "unat m_in \<le> 1454" using i(2) by auto
  obtain m_out s3 outs3 where o: "senkusha_run_mtu_out_test pb (sr_mtu_out e) m_in 576 1454 3 (mtu_timeout rtt) s2 = Some (CHIAKI_ERR_SUCCESS, Some m_out, s3, outs3)"
      "unat m_out = mtu_out_found (unat m_in) M_out"
    using mtu_out_test_finds [OF c(3) t i(3) b] by blast
  have "senkusha_tests pb e s =
      Some (\<lparr>sr_err = CHIAKI_ERR_SUCCESS, sr_locked = False, sr_mtu_in_out = Some m_in, sr_mtu_out_out = Some m_out, sr_rtt_out = Some rtt\<rparr>,
        s3, outs1 @ outs2 @ outs3)"
    unfolding senkusha_tests_def using r(1) i(1) o(1) by simp
  then show ?thesis using i(2) o(2) by blast
qed

lemma senkusha_run_measures:
  assumes "senkusha_console pb e M_in M_out" "\<not> sk_should_stop s"
  shows "\<exists>m_in m_out rtt s' outs. chiaki_senkusha_run pb e s =
       Some (\<lparr>sr_err = CHIAKI_ERR_SUCCESS, sr_locked = False, sr_mtu_in_out = Some m_in, sr_mtu_out_out = Some m_out, sr_rtt_out = Some rtt\<rparr>,
         s', outs @ [Sk_Close]) \<and>
     unat m_in = min 1454 (max 576 M_in) \<and> unat m_out = mtu_out_found (unat m_in) M_out"
proof -
  have c: "sr_alloc e" "sr_family e = AF_INET \<or> sr_family e = AF_INET6" "sr_connect e = CHIAKI_ERR_SUCCESS"
      "wait_ok no_disconnect SK_EXPECT_TIMEOUT_MS (sr_connect_wait e)" "sk_answers (\<lambda>e. fst e = TE_CONNECTED) (sr_connect_wait e) True"
      "sr_big e = CHIAKI_ERR_SUCCESS" "length (pb_enc pb senkusha_big) \<le> 12"
      "wait_ok sk_event_ok SK_EXPECT_TIMEOUT_MS (sr_bang_wait e)" "sk_answers (is_message pb is_bang) (sr_bang_wait e) True"
    using assms(1) by (simp_all add: senkusha_console_def)
  let ?s = "sk_expect SK_TAKION_CONNECT s"
  obtain err1 s1 where w1: "senkusha_wait pb (sr_connect_wait e) SK_EXPECT_TIMEOUT_MS ?s = Some (err1, s1)" "\<not> sk_should_stop s1" "sk_state_finished s1"
    using expect_connect.wait_ends [of ?s SK_EXPECT_TIMEOUT_MS _ True pb, OF _ _ c(4,5)] assms(2) by (auto simp: expecting_def sk_expect_def)
  let ?s1 = "sk_expect SK_EXPECT_BANG s1"
  obtain err2 s2 where w2: "senkusha_wait pb (sr_bang_wait e) SK_EXPECT_TIMEOUT_MS ?s1 = Some (err2, s2)" "\<not> sk_should_stop s2" "sk_state_finished s2"
    using expect_bang.wait_ends [of ?s1 SK_EXPECT_TIMEOUT_MS _ pb True, OF _ _ c(8,9)] w1(2) by (auto simp: expecting_def sk_expect_def)
  have big: "senkusha_send_big pb (sr_big e) = (CHIAKI_ERR_SUCCESS, [Sk_Data 1 (pb_enc pb senkusha_big)])"
    using c(6,7) by (simp add: senkusha_send_big_def sk_send_def pb_encode_def)
  have port: "fst (set_port \<lparr>sa_family = sr_family e, sin_port = 0, sin6_port = 0\<rparr> SENKUSHA_PORT) = CHIAKI_ERR_SUCCESS"
    using c(2) by (auto simp: set_port_def)
  obtain m_in m_out rtt s3 outs where t: "senkusha_tests pb e s2 =
       Some (\<lparr>sr_err = CHIAKI_ERR_SUCCESS, sr_locked = False, sr_mtu_in_out = Some m_in, sr_mtu_out_out = Some m_out, sr_rtt_out = Some rtt\<rparr>, s3, outs)"
      "unat m_in = min 1454 (max 576 M_in)" "unat m_out = mtu_out_found (unat m_in) M_out"
    using senkusha_tests_measure [OF assms(1) w2(2)] by blast
  have "chiaki_senkusha_run pb e s =
       Some (\<lparr>sr_err = CHIAKI_ERR_SUCCESS, sr_locked = False, sr_mtu_in_out = Some m_in, sr_mtu_out_out = Some m_out, sr_rtt_out = Some rtt\<rparr>,
         s3, ([Sk_Data 1 (pb_enc pb senkusha_big)] @ outs @ snd (senkusha_send_disconnect pb (sr_disconnect e))) @ [Sk_Close])"
    unfolding chiaki_senkusha_run_def using assms(2) c(1,3) port w1(1,3) big w2(1,3) t(1) by (simp add: Let_def)
  then show ?thesis using t(2,3) by blast
qed

text \<open>
  C17. With a console that takes part, over a path that carries packets of at most \<open>M_in\<close> bytes from it and \<open>M_out\<close> bytes to it, the test of the
  network ends with success and the mutex free, closes its connection last and reports a round trip time. For packets from the console it reports the largest
  size that passes, but at least 576, whether that passes or not, and at most 1454. For packets to the console it reports the largest size that passes, at
  least 576, and at most 1454 if it has found that size in the other direction, at most 1453 otherwise.
\<close>

theorem senkusha_measures_path:
  assumes "senkusha_console pb e M_in M_out" "\<not> sk_should_stop s"
  shows "\<exists>m_in m_out rtt s' outs. chiaki_senkusha_run pb e s =
       Some (\<lparr>sr_err = CHIAKI_ERR_SUCCESS, sr_locked = False, sr_mtu_in_out = Some m_in, sr_mtu_out_out = Some m_out, sr_rtt_out = Some rtt\<rparr>,
         s', outs @ [Sk_Close]) \<and>
     unat m_in = min 1454 (max 576 M_in) \<and> unat m_out = mtu_out_found (unat m_in) M_out"
  using assms by (rule senkusha_run_measures)

text \<open>A path for 1000 bytes from the console and 800 to it, on which every second ping is lost.\<close>

definition sample_wait :: "sk_event list \<Rightarrow> sk_wait" where
  "sample_wait evs = ((0, 0), [(Wake_Signal, evs), (Wake_Timeout, [])])"

definition sample_pb :: nanopb where
  "sample_pb = \<lparr>pb_enc = (\<lambda>m. [if pb_type m = PB_BIG then 1 else 2]),
     pb_dec = (\<lambda>b. Some (if b = [1] then (pb_message PB_BANG)\<lparr>pb_bang := Some \<lparr>ba_encrypted_key_accepted = True, ba_version_accepted = True, ba_ecdh_pub_key = None, ba_ecdh_sig = None\<rparr>\<rparr>
       else senkusha_message CLIENT_MTU_COMMAND None None (Some \<lparr>cm_id = 1, cm_mtu_req = 1454, cm_state = True, cm_has_mtu_down = False, cm_mtu_down = 0\<rparr>)))\<rparr>"

definition sample_pong :: "nat \<Rightarrow> sk_event" where
  "sample_pong i = (TE_AV (av_packet_zero\<lparr>is_video := False, frame_index := 0, unit_index := of_nat i, av_data := [0, 0, 0, 0, 0, 0, 0, 7], av_data_size := 8\<rparr>), 100)"

definition sample_mtu_response :: "u32 \<Rightarrow> sk_event" where
  "sample_mtu_response i = (TE_AV (av_packet_zero\<lparr>is_video := True, frame_index := ucast i, av_data := [], av_data_size := 0\<rparr>), 0)"

definition sample_ack :: ack_env where
  "sample_ack = \<lparr>ak_send = CHIAKI_ERR_SUCCESS, ak_seq_num = 5, ak_wait = sample_wait [(TE_DATA_ACK 5, 0)]\<rparr>"

definition sample_senkusha :: senkusha_env where
  "sample_senkusha =
     \<lparr>sr_alloc = True, sr_family = AF_INET, sr_connect = CHIAKI_ERR_SUCCESS, sr_connect_wait = sample_wait [(TE_CONNECTED, 0)], sr_big = CHIAKI_ERR_SUCCESS,
      sr_bang_wait = sample_wait [(TE_DATA CHIAKI_TAKION_MESSAGE_DATA_TYPE_PROTOBUF [1], 0)],
      sr_rtt = \<lparr>rt_echo_on = sample_ack,
        rt_pings = (\<lambda>i. \<lparr>pe_tag = 7, pe_start_us = 20, pe_send = CHIAKI_ERR_SUCCESS, pe_wait = sample_wait (if even i then [sample_pong i] else [])\<rparr>),
        rt_echo_off = sample_ack\<rparr>,
      sr_mtu_in = (\<lambda>i cur. \<lparr>mt_send = CHIAKI_ERR_SUCCESS, mt_wait = sample_wait (if unat cur \<le> 1000 then [sample_mtu_response i] else [])\<rparr>),
      sr_mtu_out = \<lparr>mx_command = sample_ack, mx_wait = sample_wait [(TE_DATA CHIAKI_TAKION_MESSAGE_DATA_TYPE_PROTOBUF [2], 0)], mx_alloc = True,
        mx_pings = (\<lambda>n cur. \<lparr>mo_tag = 7, mo_send = CHIAKI_ERR_SUCCESS, mo_wait = sample_wait (if unat cur \<le> 800 then map sample_pong [0..<3] else [])\<rparr>),
        mx_final = sample_ack\<rparr>,
      sr_disconnect = CHIAKI_ERR_SUCCESS\<rparr>"

lemma sample_answers: "sk_answers m (sample_wait evs) b \<longleftrightarrow> b = (\<exists>e \<in> set evs. m e)"
  by (auto simp: sk_answers_def sample_wait_def)

lemma sample_signaled: "wait_signaled m (snd (sample_wait evs)) \<longleftrightarrow> (\<exists>e \<in> set evs. m e)"
  by (auto simp: sample_wait_def)

lemma sample_wait_ok: "t \<le> 500 \<or> t = 1000 \<or> t = 5000 \<Longrightarrow> wait_ok ok t (sample_wait evs) \<longleftrightarrow> (\<forall>e \<in> set evs. ok e)"
  by (auto simp: wait_ok_def sample_wait_def set_timeout_def Let_def)

lemma sample_mtu_waits_ok: "mtu_waits_ok (sample_wait evs) \<longleftrightarrow> (\<forall>e \<in> set evs. sk_event_ok e)"
proof -
  have "mtu_waits_ok (sample_wait evs) \<longleftrightarrow> (\<forall>t :: nat. 5 \<le> t \<and> t \<le> 500 \<longrightarrow> (\<forall>e \<in> set evs. sk_event_ok e))"
    by (auto simp: mtu_waits_ok_def sample_wait_ok)
  then show ?thesis by (auto dest: spec [of _ "5 :: nat"])
qed

lemmas sample_simps = sample_senkusha_def sample_answers sample_signaled sample_wait_ok sample_mtu_waits_ok

lemma sample_ack_ok: "ack_ok sample_ack"
  by (simp add: ack_ok_def sample_ack_def sample_simps)

lemma sample_pong_ok: "sk_event_ok (sample_pong i)" "is_pong 7 0 (of_nat i) (sample_pong i)"
proof -
  have "load32be [0, 0, 0, 0, 0, 0, 0, 7] 4 = Some 7" by code_simp
  then show "sk_event_ok (sample_pong i)" "is_pong 7 0 (of_nat i) (sample_pong i)" by (simp_all add: sample_pong_def)
qed

lemma sample_path_in: "path_in sample_pb (sr_mtu_in sample_senkusha) 1000"
proof -
  have ok: "sk_event_ok (sample_mtu_response i)" for i by (simp add: sample_mtu_response_def)
  have resp: "is_mtu_response (i + 1) (sample_mtu_response (i + 1))" if "unat i \<le> 30" for i
  proof -
    have u: "unat (i + 1) < 2 ^ 16" using that by (simp add: unat_word_ariths)
    have "unat (ucast (ucast (i + 1) :: u16) :: u32) = unat (i + 1)" using u by (simp add: unsigned_ucast_eq unsigned_take_bit_eq take_bit_nat_eq_self)
    then have "(ucast (ucast (i + 1) :: u16) :: u32) = i + 1" by (rule word_unat_eq_iff [THEN iffD2])
    then show ?thesis by (simp add: sample_mtu_response_def)
  qed
  have "\<exists>j. 1 \<le> j \<and> j \<le> 3 \<and> mtu_in_answered (sr_mtu_in sample_senkusha) (i + of_nat j) cur True" if "unat i \<le> 30" "unat cur \<le> 1000" for i cur
    using that resp [OF that(1)] by (intro exI [of _ 1]) (simp add: mtu_in_answered_def sample_simps)
  then show ?thesis
    using ok by (auto simp: path_in_def mtu_in_answered_def sample_simps sample_pb_def)
qed

lemma sample_path_out: "path_out (mx_pings (sr_mtu_out sample_senkusha)) 800"
proof -
  have "\<exists>a<3. \<exists>x\<in>{0..<3}. is_pong 7 0 (of_nat a) (sample_pong x)"
    using sample_pong_ok(2) [of 0] by (intro exI [of _ 0] conjI bexI [of _ 0]) simp_all
  then show ?thesis
    using sample_pong_ok by (auto simp: path_out_def mtu_out_answered_def sample_simps)
qed

lemma sample_senkusha_console: "senkusha_console sample_pb sample_senkusha 1000 800"
proof -
  have "\<exists>i < 10. ping_answered (rt_pings (sr_rtt sample_senkusha) i) i True"
    using sample_pong_ok(2) [of 0] by (intro exI [of _ 0]) (simp add: ping_answered_def sample_simps)
  then have rtt: "rtt_console sample_pb (sr_rtt sample_senkusha)"
    using sample_ack_ok sample_pong_ok(1)
    by (auto simp: rtt_console_def pings_ok_def ping_answered_def sample_simps sample_pb_def)
  have out: "mtu_out_console sample_pb (sr_mtu_out sample_senkusha) 800"
    using sample_path_out sample_ack_ok
    by (auto simp: mtu_out_console_def sample_simps sample_pb_def sample_ack_def senkusha_is_client_mtu_def senkusha_message_def pb_message_def)
  show ?thesis
    using rtt out sample_path_in
    by (auto simp: senkusha_console_def sample_simps sample_pb_def pb_message_def no_disconnect_def)
qed

theorem senkusha_measures_path_witness:
  "\<exists>m_in m_out rtt s' outs s. chiaki_senkusha_init CHIAKI_ERR_SUCCESS CHIAKI_ERR_SUCCESS = (CHIAKI_ERR_SUCCESS, Some s) \<and>
     chiaki_senkusha_run sample_pb sample_senkusha s =
       Some (\<lparr>sr_err = CHIAKI_ERR_SUCCESS, sr_locked = False, sr_mtu_in_out = Some m_in, sr_mtu_out_out = Some m_out, sr_rtt_out = Some rtt\<rparr>,
         s', outs @ [Sk_Close]) \<and>
     unat m_in = 1000 \<and> unat m_out = 800"
proof -
  obtain s where s: "chiaki_senkusha_init CHIAKI_ERR_SUCCESS CHIAKI_ERR_SUCCESS = (CHIAKI_ERR_SUCCESS, Some s)" "\<not> sk_should_stop s"
    by (simp add: chiaki_senkusha_init_def)
  from senkusha_measures_path [OF sample_senkusha_console s(2)] obtain m_in m_out rtt s' outs where
    "chiaki_senkusha_run sample_pb sample_senkusha s =
       Some (\<lparr>sr_err = CHIAKI_ERR_SUCCESS, sr_locked = False, sr_mtu_in_out = Some m_in, sr_mtu_out_out = Some m_out, sr_rtt_out = Some rtt\<rparr>,
         s', outs @ [Sk_Close])"
    "unat m_in = min 1454 (max 576 1000)" "unat m_out = mtu_out_found (unat m_in) 800" by blast
  moreover from this(2) have "unat m_in = 1000" by simp
  ultimately show ?thesis using s(1) by (auto simp: mtu_out_found_def)
qed

text \<open>
  How it ends otherwise: whenever the test returns, the mutex is left locked exactly if it was to stop before it began, and a connection that was opened
  is closed as the last step.
\<close>

lemma senkusha_run_ends:
  assumes "chiaki_senkusha_run pb e s = Some (r, s', outs)"
  shows "(sr_locked r \<longleftrightarrow> sk_should_stop s) \<and>
     (if sk_should_stop s \<or> \<not> sr_alloc e \<or> sr_connect e \<noteq> CHIAKI_ERR_SUCCESS then outs = [] else \<exists>outs'. outs = outs' @ [Sk_Close])"
proof -
  have "sr_locked r' = False" if "senkusha_tests pb e s0 = Some (r', s1, o1)" for r' s0 s1 o1
    using that by (auto simp: senkusha_tests_def senkusha_failed_def split: option.splits Option.bind_splits)
  then show ?thesis
    using assms by (auto simp: chiaki_senkusha_run_def senkusha_failed_def Let_def split: if_splits option.splits Option.bind_splits prod.splits)
qed

end
