(* ===== verification/Launch_Spec.thy ===== *)
theory Launch_Spec
  imports Discovery Ctrl_Connect_Ends Takion
begin

text \<open>
  \<open>lib/src/launchspec.c\<close>: the description of the stream that is wanted, a text in JSON that the stream connection sends encrypted. It
  always fits into its buffer.
\<close>

record launch_spec =
  ls_target :: ChiakiTarget
  ls_mtu :: u32
  ls_rtt :: u32
  ls_handshake_key :: bytes
  ls_width :: u32
  ls_height :: u32
  ls_max_fps :: u32
  ls_codec :: ChiakiCodec
  ls_bw_kbps_sent :: u32

text \<open>The format, divided at its conversions.\<close>

definition launchspec_fmt :: "string list" where
  \<open>launchspec_fmt =
    [''{"sessionId":"sessionId4321","streamResolutions":[{"resolution":{"width":'',
     '',"height":'',
     ''},"maxFps":'',
     '',"score":10}],"network":{"bwKbpsSent":'',
     '',"bwLoss":0.001000,"mtu":'',
     '',"rtt":'',
     ('',"ports":[53,2053]},"slotId":1,"appSpecification":{"minFps":30,"minBandwidth":0,"extTitleId":"ps3",'' @
      ''"version":1,"timeLimit":1,"startTimeout":100,"afkTimeout":100,"afkTimeoutDisconnect":100},'' @
      ''"konan":{"ps3AccessToken":"accessToken","ps3RefreshToken":"refreshToken"},'' @
      ''"requestGameSpecification":{"model":"bravia_tv","platform":"android","audioChannels":"5.1",'' @
      ''"language":"sp","acceptButton":"X","connectedControllers":["xinput","ds3","ds4"],'' @
      ''"yuvCoefficient":"bt601","videoEncoderProfile":"hw4.1","audioEncoderProfile":"audio1"''),
     ''},"userProfile":{"onlineId":"psnId","npId":"npId","region":"US","languagesUsed":["en","jp"]},'',
     '''',
     ''"handshakeKey":"'',
     ''"}'']\<close>

fun printf :: "string list \<Rightarrow> bytes list \<Rightarrow> bytes" where
  "printf (f # fs) (a # as) = ascii f @ a @ printf fs as"
| "printf fs _ = concat (map ascii fs)"

definition launchspec_extras :: "launch_spec \<Rightarrow> string list" where
  \<open>launchspec_extras spec =
     (if chiaki_target_is_ps5 (ls_target spec)
      then ['',"adaptiveStreamMode": "resize"'',
        if chiaki_codec_is_h265 (ls_codec spec) then ''"videoCodec":"hevc",'' else ''"videoCodec":"avc",'',
        if chiaki_codec_is_hdr (ls_codec spec) then ''"dynamicRange":"HDR",'' else ''"dynamicRange":"SDR",'']
      else ['''', '''', ''''])\<close>

definition launchspec_args :: "launch_spec \<Rightarrow> bytes \<Rightarrow> bytes list" where
  "launchspec_args spec handshake_key_b64 =
     map (\<lambda>w. decimal (unat w)) [ls_width spec, ls_height spec, ls_max_fps spec, ls_bw_kbps_sent spec, ls_mtu spec, ls_rtt spec] @
     map ascii (launchspec_extras spec) @ [handshake_key_b64]"

text \<open>The result and what is in the buffer.\<close>

definition chiaki_launchspec_format :: "nat \<Rightarrow> launch_spec \<Rightarrow> (int \<times> bytes) option" where
  "chiaki_launchspec_format buf_size spec = do {
     key \<leftarrow> load_bytes (ls_handshake_key spec) 0 CHIAKI_HANDSHAKE_KEY_SIZE;
     let (err, b64) = chiaki_base64_encode key (CHIAKI_HANDSHAKE_KEY_SIZE * 2);
     if err \<noteq> CHIAKI_ERR_SUCCESS then Some (- 1, [])
     else let (written, buf) = c_snprintf buf_size (printf launchspec_fmt (launchspec_args spec (c_string b64 0))) in
       Some (if written < 0 \<or> written \<ge> int buf_size then - 1 else written, buf) }"

section \<open>It fits\<close>

lemma length_decimal: "n < 10 ^ k \<Longrightarrow> 0 < k \<Longrightarrow> length (decimal n) \<le> k"
proof (induction k arbitrary: n)
  case (Suc k)
  then have "length (decimal (n div 10)) \<le> k" if "10 \<le> n" using that by (cases k) auto
  then show ?case by (subst decimal.simps) auto
qed simp

lemma length_decimal_u32: "length (decimal (unat (w :: u32))) \<le> 10"
  using unat_bound [of w] by (intro length_decimal) auto

text \<open>The text, with the key in base64.\<close>

definition launchspec_json :: "launch_spec \<Rightarrow> bytes" where
  "launchspec_json spec = printf launchspec_fmt (launchspec_args spec (base64_text (take CHIAKI_HANDSHAKE_KEY_SIZE (ls_handshake_key spec))))"

lemma length_launchspec_json:
  assumes "16 \<le> length (ls_handshake_key spec)"
  shows "length (launchspec_json spec) \<le> 951"
  using assms length_decimal_u32 [of "ls_width spec"] length_decimal_u32 [of "ls_height spec"] length_decimal_u32 [of "ls_max_fps spec"]
    length_decimal_u32 [of "ls_bw_kbps_sent spec"] length_decimal_u32 [of "ls_mtu spec"] length_decimal_u32 [of "ls_rtt spec"]
  by (simp add: launchspec_json_def launchspec_fmt_def launchspec_args_def launchspec_extras_def length_base64_text del: ascii_simps)

lemma launchspec_format_ok:
  assumes "16 \<le> length (ls_handshake_key spec)" "951 < n"
  shows "chiaki_launchspec_format n spec = Some (int (length (launchspec_json spec)), launchspec_json spec @ [0])"
proof -
  let ?key = "take 16 (ls_handshake_key spec)"
  have "load_bytes (ls_handshake_key spec) 0 16 = Some ?key" using assms(1) by (simp add: load_bytes_def)
  moreover have "chiaki_base64_encode ?key 32 = (CHIAKI_ERR_SUCCESS, base64_text ?key @ [0])"
    using assms(1) by (simp add: base64_encode_result length_base64_text)
  moreover have "c_string (base64_text ?key @ [0]) 0 = base64_text ?key"
    using base64_text_plain [of ?key] by (intro c_string_text) auto
  ultimately show ?thesis
    using length_launchspec_json [OF assms(1)] assms(2)
    by (auto simp: chiaki_launchspec_format_def c_snprintf_def launchspec_json_def)
qed

end
