(* ===== verification/ECDH.thy ===== *)
theory ECDH
  imports Takion
begin

text \<open>
  \<open>lib/src/ecdh.c\<close> with OpenSSL: the exchange of the keys from which a secret is derived. The curve is a parameter; its points are of the type
  \<open>'p\<close>.
\<close>

abbreviation "CHIAKI_ECDH_SECRET_SIZE \<equiv> 32 :: nat"

text \<open>
  \<open>ec_mul\<close>: the public key of a private one. \<open>ec_point2oct\<close>, \<open>ec_oct2point\<close>: the uncompressed form of a point. \<open>ec_shared\<close>: the
  secret of a private key and the public key of another. \<open>ec_hmac\<close>: HMAC-SHA256.
\<close>

record 'p ec_curve =
  ec_mul :: "nat \<Rightarrow> 'p"
  ec_point2oct :: "'p \<Rightarrow> bytes"
  ec_oct2point :: "bytes \<Rightarrow> 'p option"
  ec_shared :: "nat \<Rightarrow> 'p \<Rightarrow> bytes option"
  ec_hmac :: "bytes \<Rightarrow> bytes \<Rightarrow> bytes option"

text \<open>\<open>key_local\<close>.\<close>

record 'p ecdh =
  ec_private :: "nat option"
  ec_public :: "'p option"

text \<open>Which calls of OpenSSL succeed, and the private key that is generated.\<close>

record ecdh_init_env =
  ei_group :: bool
  ei_key :: bool
  ei_set_group :: bool
  ei_generate :: "nat option"

definition chiaki_ecdh_init :: "'p ec_curve \<Rightarrow> ecdh_init_env \<Rightarrow> ChiakiErrorCode \<times> 'p ecdh option" where
  "chiaki_ecdh_init ec e =
     (if \<not> ei_group e then (CHIAKI_ERR_UNKNOWN, None)
      else if \<not> ei_key e then (CHIAKI_ERR_UNKNOWN, None)
      else if \<not> ei_set_group e then (CHIAKI_ERR_UNKNOWN, None)
      else case ei_generate e of
        None \<Rightarrow> (CHIAKI_ERR_UNKNOWN, None)
      | Some d \<Rightarrow> (CHIAKI_ERR_SUCCESS, Some \<lparr>ec_private = Some d, ec_public = Some (ec_mul ec d)\<rparr>))"

definition BN_bin2bn :: "bytes \<Rightarrow> nat" where
  "BN_bin2bn bs = fold (\<lambda>b n. 256 * n + unat b) bs 0"

record ecdh_set_env =
  es_bn :: bool
  es_point :: bool
  es_private :: bool
  es_public :: bool

definition chiaki_ecdh_set_local_key :: "'p ec_curve \<Rightarrow> ecdh_set_env \<Rightarrow> 'p ecdh \<Rightarrow> bytes \<Rightarrow> bytes \<Rightarrow> ChiakiErrorCode \<times> 'p ecdh" where
  "chiaki_ecdh_set_local_key ec e ecdh private_key public_key =
     (if \<not> es_bn e then (CHIAKI_ERR_UNKNOWN, ecdh)
      else if \<not> es_point e then (CHIAKI_ERR_UNKNOWN, ecdh)
      else case ec_oct2point ec public_key of
        None \<Rightarrow> (CHIAKI_ERR_UNKNOWN, ecdh)
      | Some p \<Rightarrow>
          if \<not> es_private e then (CHIAKI_ERR_UNKNOWN, ecdh)
          else let ecdh = ecdh\<lparr>ec_private := Some (BN_bin2bn private_key)\<rparr> in
            if \<not> es_public e then (CHIAKI_ERR_UNKNOWN, ecdh) else (CHIAKI_ERR_SUCCESS, ecdh\<lparr>ec_public := Some p\<rparr>))"

text \<open>The public key in a buffer of the given size, and its signature, which must have room for 32 bytes.\<close>

definition chiaki_ecdh_get_local_pub_key :: "'p ec_curve \<Rightarrow> 'p ecdh \<Rightarrow> nat \<Rightarrow> bytes \<Rightarrow> (ChiakiErrorCode + bytes \<times> bytes) option" where
  "chiaki_ecdh_get_local_pub_key ec ecdh key_out_size handshake_key =
     (case ec_public ecdh of
        None \<Rightarrow> Some (Inl CHIAKI_ERR_UNKNOWN)
      | Some p \<Rightarrow>
          let key = ec_point2oct ec p in
          if length key = 0 \<or> length key > key_out_size then Some (Inl CHIAKI_ERR_UNKNOWN)
          else do {
            hk \<leftarrow> load_bytes handshake_key 0 CHIAKI_HANDSHAKE_KEY_SIZE;
            Some (case ec_hmac ec hk key of None \<Rightarrow> Inl CHIAKI_ERR_UNKNOWN | Some sig \<Rightarrow> Inr (key, sig)) })"

text \<open>
  \<open>ECDH_compute_key\<close> writes at most as many bytes as the buffer holds and returns their number. The handshake key and the signature are not used.
\<close>

definition chiaki_ecdh_derive_secret :: "'p ec_curve \<Rightarrow> bool \<Rightarrow> 'p ecdh \<Rightarrow> bytes \<Rightarrow> bytes \<Rightarrow> bytes \<Rightarrow> ChiakiErrorCode + bytes" where
  "chiaki_ecdh_derive_secret ec point_ok ecdh remote_key handshake_key remote_sig =
     (if \<not> point_ok then Inl CHIAKI_ERR_UNKNOWN
      else case ec_oct2point ec remote_key of
        None \<Rightarrow> Inl CHIAKI_ERR_UNKNOWN
      | Some p \<Rightarrow>
          case Option.bind (ec_private ecdh) (\<lambda>d. ec_shared ec d p) of
            None \<Rightarrow> Inl CHIAKI_ERR_UNKNOWN
          | Some secret \<Rightarrow>
              let out = take CHIAKI_ECDH_SECRET_SIZE secret in
              if length out \<noteq> CHIAKI_ECDH_SECRET_SIZE then Inl CHIAKI_ERR_UNKNOWN else Inr out)"

section \<open>Facts\<close>

text \<open>What is documented of the curve: points are read back, have 65 bytes, both sides compute the same secret of 32 bytes; a signature has 32.\<close>

definition ec_ok :: "'p ec_curve \<Rightarrow> bool" where
  "ec_ok ec \<longleftrightarrow> (\<forall>p. ec_oct2point ec (ec_point2oct ec p) = Some p \<and> length (ec_point2oct ec p) = 65) \<and>
     (\<forall>a b. ec_shared ec a (ec_mul ec b) = ec_shared ec b (ec_mul ec a)) \<and>
     (\<forall>a p. \<exists>s. ec_shared ec a p = Some s \<and> length s = 32) \<and> (\<forall>k m. \<exists>h. ec_hmac ec k m = Some h \<and> length h = 32)"

definition ecdh_key :: "'p ec_curve \<Rightarrow> nat \<Rightarrow> 'p ecdh" where
  "ecdh_key ec d = \<lparr>ec_private = Some d, ec_public = Some (ec_mul ec d)\<rparr>"

lemma ecdh_pub_key:
  assumes "ec_ok ec" "16 \<le> length hk" "65 \<le> n"
  shows "\<exists>sig. chiaki_ecdh_get_local_pub_key ec (ecdh_key ec d) n hk = Some (Inr (ec_point2oct ec (ec_mul ec d), sig)) \<and> length sig = 32"
proof -
  obtain sig where s: "ec_hmac ec (take 16 hk) (ec_point2oct ec (ec_mul ec d)) = Some sig" "length sig = 32"
    using assms(1) unfolding ec_ok_def by blast
  have l: "length (ec_point2oct ec (ec_mul ec d)) = 65" using assms(1) unfolding ec_ok_def by blast
  show ?thesis
    using s l assms(2,3) by (auto simp: chiaki_ecdh_get_local_pub_key_def ecdh_key_def load_bytes_def Let_def)
qed

text \<open>Both sides derive the same secret, whatever signatures came with the keys.\<close>

lemma ecdh_agreement:
  assumes "ec_ok ec"
  shows "\<exists>secret. chiaki_ecdh_derive_secret ec True (ecdh_key ec a) (ec_point2oct ec (ec_mul ec b)) hk1 sig1 = Inr secret \<and>
     chiaki_ecdh_derive_secret ec True (ecdh_key ec b) (ec_point2oct ec (ec_mul ec a)) hk2 sig2 = Inr secret \<and> length secret = 32"
proof -
  obtain s where s: "ec_shared ec a (ec_mul ec b) = Some s" "length s = 32" using assms unfolding ec_ok_def by blast
  have r: "ec_oct2point ec (ec_point2oct ec p) = Some p" for p using assms by (simp add: ec_ok_def)
  have t: "ec_shared ec b (ec_mul ec a) = Some s" using assms s(1) by (simp add: ec_ok_def)
  show ?thesis
    by (intro exI [of _ s]) (simp add: chiaki_ecdh_derive_secret_def ecdh_key_def r s t)
qed

text \<open>A remote key is accepted with any signature.\<close>

lemma ecdh_signature_ignored:
  "chiaki_ecdh_derive_secret ec point_ok ecdh remote_key hk sig = chiaki_ecdh_derive_secret ec point_ok ecdh remote_key hk' sig'"
  by (simp add: chiaki_ecdh_derive_secret_def)

end
