(* ===== verification/Stream_Connection.thy ===== *)
theory Stream_Connection
  imports Launch_Spec ECDH Takion_Pb Audio Video_Receiver Senkusha
begin

text \<open>
  \<open>lib/src/streamconnection.c\<close>: what the stream connection sends and what its callback does with the events of Takion. The receivers, the ciphers and
  the statistics of packets are those of their components. \<open>None\<close> is a failed assertion or the access to a null pointer.
\<close>

section \<open>State\<close>

datatype stream_connection_state = SC_IDLE | SC_TAKION_CONNECT | SC_EXPECT_BANG | SC_EXPECT_STREAMINFO

text \<open>The statistics that the receivers point to are the field \<open>sc_packet_stats\<close>. Takion and the feedback sender are not part of it.\<close>

record stream_connection =
  sc_ecdh_secret :: "bytes option"
  sc_gkcrypt_local :: "gkcrypt option"
  sc_gkcrypt_remote :: "gkcrypt option"
  sc_packet_stats :: packet_stats
  sc_audio_receiver :: "audio_receiver option"
  sc_video_receiver :: "video_receiver option"
  sc_haptics_receiver :: "audio_receiver option"
  sc_feedback_sender_active :: bool
  sc_state :: stream_connection_state
  sc_state_finished :: bool
  sc_state_failed :: bool
  sc_should_stop :: bool
  sc_remote_disconnected :: bool
  sc_remote_disconnect_reason :: "bytes option"

definition sc_expect :: "stream_connection_state \<Rightarrow> stream_connection \<Rightarrow> stream_connection" where
  "sc_expect st s = s\<lparr>sc_state := st, sc_state_finished := False, sc_state_failed := False\<rparr>"

datatype sc_resource = SC_State_Mutex | SC_State_Cond | SC_Packet_Stats | SC_Feedback_Sender_Mutex

text \<open>
  The result with what is initialised in the end; \<open>feedback_sender_active\<close> keeps what the memory held, which the session has set to zero.
\<close>

definition chiaki_stream_connection_init ::
  "ChiakiErrorCode \<Rightarrow> ChiakiErrorCode \<Rightarrow> ChiakiErrorCode \<Rightarrow> ChiakiErrorCode \<Rightarrow> ChiakiErrorCode \<times> stream_connection option \<times> sc_resource list" where
  "chiaki_stream_connection_init mutex_r cond_r stats_r feedback_mutex_r =
     (if mutex_r \<noteq> CHIAKI_ERR_SUCCESS then (mutex_r, None, [])
      else if cond_r \<noteq> CHIAKI_ERR_SUCCESS then (cond_r, None, removeAll SC_State_Mutex [SC_State_Mutex])
      else if stats_r \<noteq> CHIAKI_ERR_SUCCESS then (stats_r, None, removeAll SC_State_Mutex (removeAll SC_State_Cond [SC_State_Mutex, SC_State_Cond]))
      else if feedback_mutex_r \<noteq> CHIAKI_ERR_SUCCESS then
        (feedback_mutex_r, None,
         removeAll SC_State_Mutex (removeAll SC_State_Cond (removeAll SC_Packet_Stats [SC_State_Mutex, SC_State_Cond, SC_Packet_Stats])))
      else (CHIAKI_ERR_SUCCESS, Some
        \<lparr>sc_ecdh_secret = None, sc_gkcrypt_local = None, sc_gkcrypt_remote = None, sc_packet_stats = chiaki_packet_stats_init,
         sc_audio_receiver = None, sc_video_receiver = None, sc_haptics_receiver = None, sc_feedback_sender_active = False,
         sc_state = SC_IDLE, sc_state_finished = False, sc_state_failed = False, sc_should_stop = False, sc_remote_disconnected = False,
         sc_remote_disconnect_reason = None\<rparr>,
        [SC_State_Mutex, SC_State_Cond, SC_Packet_Stats, SC_Feedback_Sender_Mutex]))"

definition chiaki_stream_connection_stop :: "stream_connection \<Rightarrow> stream_connection" where
  "chiaki_stream_connection_stop s = s\<lparr>sc_should_stop := True\<rparr>"

definition sc_finished_cond_check :: "stream_connection \<Rightarrow> bool" where
  "sc_finished_cond_check s \<longleftrightarrow> sc_state_finished s \<or> sc_should_stop s \<or> sc_remote_disconnected s"

text \<open>
  What does not change while it runs: the session, the curve with the key of the session, nanopb, the ciphers and which callbacks for audio are set.
\<close>

record 'p sc_config =
  sg_session :: session
  sg_curve :: "'p ec_curve"
  sg_ecdh :: "'p ecdh"
  sg_pb :: nanopb
  sg_rp_crypto :: rp_crypto
  sg_crypto :: crypto
  sg_sinks :: audio_sinks

text \<open>
  What it does: data messages on a channel (with the result of Takion), the ciphers that Takion is given, what the callbacks of the session are called
  with, what is started and stopped, and resources of a cipher that stay behind when its memory is released.
\<close>

datatype sc_out =
    SC_Data nat bytes
  | SC_Set_Crypt
  | SC_Event ChiakiEvent
  | SC_Audio audio_event
  | SC_Video bytes
  | SC_Lost_GK "gk_resource list"
  | SC_Connect
  | SC_Close
  | SC_Congestion_Start
  | SC_Congestion_Stop
  | SC_Feedback_Start
  | SC_Feedback_Stop

definition sc_send :: "nanopb \<Rightarrow> nat \<Rightarrow> nat \<Rightarrow> takion_pb \<Rightarrow> ChiakiErrorCode \<Rightarrow> ChiakiErrorCode \<times> sc_out list" where
  "sc_send pb buf_size channel msg send_r =
     (case pb_encode pb buf_size msg of None \<Rightarrow> (CHIAKI_ERR_UNKNOWN, []) | Some buf \<Rightarrow> (send_r, [SC_Data channel buf]))"

section \<open>Messages to the console\<close>

abbreviation "LAUNCH_SPEC_JSON_BUF_SIZE \<equiv> 1024 :: nat"

definition takion_protocol_version :: "ChiakiTarget \<Rightarrow> u32" where
  "takion_protocol_version target = (if chiaki_target_is_ps5 target then 12 else 9)"

definition sc_launch_spec :: "session \<Rightarrow> launch_spec" where
  "sc_launch_spec s =
     \<lparr>ls_target = s_target s, ls_mtu = s_mtu_in s, ls_rtt = ucast (s_rtt_us s div 1000), ls_handshake_key = s_handshake_key s,
      ls_width = of_nat (connect_video_profile.vp_width (s_video_profile s)), ls_height = of_nat (connect_video_profile.vp_height (s_video_profile s)),
      ls_max_fps = of_nat (vp_max_fps (s_video_profile s)), ls_codec = vp_codec (s_video_profile s),
      ls_bw_kbps_sent = of_nat (vp_bitrate (s_video_profile s))\<rparr>"

text \<open>
  The launch spec with its zero, combined with the key stream of the session (the encryption of zeros), in base64; the array for the former
  has 1024 bytes.
\<close>

definition sc_launch_spec_b64 :: "rp_crypto \<Rightarrow> session \<Rightarrow> (ChiakiErrorCode + bytes) option" where
  "sc_launch_spec_b64 cr s = do {
     (json_size, json) \<leftarrow> chiaki_launchspec_format LAUNCH_SPEC_JSON_BUF_SIZE (sc_launch_spec s);
     if json_size < 0 then Some (Inl CHIAKI_ERR_UNKNOWN)
     else do {
       let size = nat (json_size + 1);
       enc_r \<leftarrow> chiaki_rpcrypt_encrypt cr (s_rpcrypt s) 0 (replicate size 0) size;
       case enc_r of
         Inl err \<Rightarrow> Some (Inl err)
       | Inr key_stream \<Rightarrow> do {
           enc \<leftarrow> xor_bytes key_stream json size;
           case chiaki_base64_encode enc (LAUNCH_SPEC_JSON_BUF_SIZE * 2) of (err, b64) \<Rightarrow>
             Some (if err \<noteq> CHIAKI_ERR_SUCCESS then Inl err else Inr (c_string b64 0)) } } }"

definition sc_big :: "session \<Rightarrow> bytes \<Rightarrow> bytes \<Rightarrow> bytes \<Rightarrow> takion_pb" where
  "sc_big s launch_spec_b64 key sig =
     (pb_message PB_BIG)\<lparr>pb_big := Some
       \<lparr>bp_client_version = takion_protocol_version (s_target s), bp_session_key = chiaki_pb_encode_string (s_session_id s),
        bp_launch_spec = launch_spec_b64, bp_encrypted_key = [0, 0, 0, 0], bp_ecdh_pub_key = Some key, bp_ecdh_sig = Some sig\<rparr>\<rparr>"

definition stream_connection_send_big :: "'p sc_config \<Rightarrow> ChiakiErrorCode \<Rightarrow> (ChiakiErrorCode \<times> sc_out list) option" where
  "stream_connection_send_big g send_r = do {
     spec_r \<leftarrow> sc_launch_spec_b64 (sg_rp_crypto g) (sg_session g);
     case spec_r of
       Inl err \<Rightarrow> Some (err, [])
     | Inr spec \<Rightarrow> do {
         key_r \<leftarrow> chiaki_ecdh_get_local_pub_key (sg_curve g) (sg_ecdh g) 128 (s_handshake_key (sg_session g));
         case key_r of
           Inl err \<Rightarrow> Some (err, [])
         | Inr (key, sig) \<Rightarrow> Some (sc_send (sg_pb g) 2048 1 (sc_big (sg_session g) spec key sig) send_r) } }"

definition sc_controller_connection :: "bool \<Rightarrow> takion_pb" where
  "sc_controller_connection dualsense =
     (pb_message PB_CONTROLLERCONNECTION)\<lparr>pb_controller_connection := Some (True, if dualsense then CONTROLLER_DUALSENSE else CONTROLLER_DUALSHOCK4)\<rparr>"

definition stream_connection_send_controller_connection :: "'p sc_config \<Rightarrow> ChiakiErrorCode \<Rightarrow> ChiakiErrorCode \<times> sc_out list" where
  "stream_connection_send_controller_connection g send_r =
     sc_send (sg_pb g) 2048 1 (sc_controller_connection (s_enable_dualsense (sg_session g))) send_r"

definition stream_connection_send_streaminfo_ack :: "'p sc_config \<Rightarrow> ChiakiErrorCode \<Rightarrow> ChiakiErrorCode \<times> sc_out list" where
  "stream_connection_send_streaminfo_ack g send_r = sc_send (sg_pb g) 3 9 (pb_message PB_STREAMINFOACK) send_r"

definition stream_connection_send_disconnect :: "'p sc_config \<Rightarrow> ChiakiErrorCode \<Rightarrow> ChiakiErrorCode \<times> sc_out list" where
  "stream_connection_send_disconnect g send_r = sc_send (sg_pb g) 26 1 client_disconnecting send_r"

definition stream_connection_send_heartbeat :: "'p sc_config \<Rightarrow> ChiakiErrorCode \<Rightarrow> ChiakiErrorCode \<times> sc_out list" where
  "stream_connection_send_heartbeat g send_r = sc_send (sg_pb g) 8 1 (pb_message PB_HEARTBEAT) send_r"

definition stream_connection_send_corrupt_frame :: "'p sc_config \<Rightarrow> u16 \<Rightarrow> u16 \<Rightarrow> ChiakiErrorCode \<Rightarrow> ChiakiErrorCode \<times> sc_out list" where
  "stream_connection_send_corrupt_frame g start lst send_r =
     sc_send (sg_pb g) 0x10 2 ((pb_message PB_CORRUPTFRAME)\<lparr>pb_corrupt := Some (ucast start, ucast lst)\<rparr>) send_r"

section \<open>The callback\<close>

text \<open>What the calls that an event leads to return. \<open>gn_alloc\<close> is for the structure, the others as for \<open>chiaki_gkcrypt_init\<close>.\<close>

record gk_new_env =
  gn_alloc :: bool
  gn_buf :: bool
  gn_mutex :: ChiakiErrorCode
  gn_cond :: ChiakiErrorCode
  gn_thread :: ChiakiErrorCode

record sc_cb_env =
  ce_strdup :: bool
  ce_secret :: bool
  ce_point :: bool
  ce_gk_local :: gk_new_env
  ce_gk_remote :: gk_new_env
  ce_send :: ChiakiErrorCode
  ce_header :: "nat \<Rightarrow> bool"
  ce_padded :: "nat \<Rightarrow> bool"
  ce_decrypt :: bool
  ce_video :: vr_env

definition gkcrypt_zero :: gkcrypt where
  "gkcrypt_zero = \<lparr>gk_index = 0, key_buf = None, key_buf_size = 0, key_buf_populated = 0, key_buf_key_pos_min = 0, key_buf_start_offset = 0,
     last_key_pos = 0, key_buf_thread_stop = False, gk_iv = [], key_base = [], key_gmac_base = [], key_gmac_current = [], key_gmac_index_current = 0\<rparr>"

text \<open>A new cipher with the resources that it holds, if there is one.\<close>

definition chiaki_gkcrypt_new :: "crypto \<Rightarrow> gk_new_env \<Rightarrow> nat \<Rightarrow> u8 \<Rightarrow> bytes \<Rightarrow> bytes \<Rightarrow> (gkcrypt \<times> gk_resource list) option option" where
  "chiaki_gkcrypt_new cr e key_buf_chunks index handshake_key ecdh_secret =
     (if \<not> gn_alloc e then Some None
      else do {
        (err, gk, res) \<leftarrow> chiaki_gkcrypt_init cr (gn_buf e) (gn_mutex e) (gn_cond e) (gn_thread e) gkcrypt_zero key_buf_chunks index handshake_key ecdh_secret;
        Some (if err \<noteq> CHIAKI_ERR_SUCCESS then None else Some (gk, res)) })"

abbreviation "CHIAKI_GKCRYPT_KEY_BUF_BLOCKS_DEFAULT \<equiv> 0x20 :: nat"

text \<open>If there is no second cipher the first is released without being finished: what it holds is lost.\<close>

definition stream_connection_init_crypt ::
  "'p sc_config \<Rightarrow> sc_cb_env \<Rightarrow> bytes \<Rightarrow> stream_connection \<Rightarrow> (ChiakiErrorCode \<times> stream_connection \<times> sc_out list) option" where
  "stream_connection_init_crypt g e secret s = do {
     let new = (\<lambda>gn index. chiaki_gkcrypt_new (sg_crypto g) gn CHIAKI_GKCRYPT_KEY_BUF_BLOCKS_DEFAULT index (s_handshake_key (sg_session g)) secret);
     local \<leftarrow> new (ce_gk_local e) 2;
     case local of
       None \<Rightarrow> Some (CHIAKI_ERR_UNKNOWN, s\<lparr>sc_gkcrypt_local := None\<rparr>, [])
     | Some (local, res) \<Rightarrow> do {
         remote \<leftarrow> new (ce_gk_remote e) 3;
         case remote of
           None \<Rightarrow> Some (CHIAKI_ERR_UNKNOWN, s\<lparr>sc_gkcrypt_local := None, sc_gkcrypt_remote := None\<rparr>, [SC_Lost_GK res])
         | Some (remote, _) \<Rightarrow>
             Some (CHIAKI_ERR_SUCCESS, s\<lparr>sc_gkcrypt_local := Some local, sc_gkcrypt_remote := Some remote\<rparr>, [SC_Set_Crypt]) } }"

text \<open>The reason is decoded into a buffer of 255 bytes and copied as a string.\<close>

definition stream_connection_takion_data_handle_disconnect :: "nanopb \<Rightarrow> sc_cb_env \<Rightarrow> bytes \<Rightarrow> stream_connection \<Rightarrow> stream_connection" where
  "stream_connection_takion_data_handle_disconnect pb e buf s =
     (case pb_dec pb buf of
        None \<Rightarrow> s
      | Some msg \<Rightarrow> case chiaki_pb_decode_buf 255 (pb_disconnect msg) of
          None \<Rightarrow> s
        | Some reason \<Rightarrow>
            s\<lparr>sc_remote_disconnected := True,
              sc_remote_disconnect_reason := if ce_strdup e then Some (c_string (reason @ [0]) 0) else None\<rparr>)"

definition stream_connection_takion_data_idle :: "nanopb \<Rightarrow> sc_cb_env \<Rightarrow> bytes \<Rightarrow> stream_connection \<Rightarrow> stream_connection" where
  "stream_connection_takion_data_idle pb e buf s =
     (case pb_dec pb buf of
        None \<Rightarrow> s
      | Some msg \<Rightarrow> if pb_type msg = PB_DISCONNECT then stream_connection_takion_data_handle_disconnect pb e buf s else s)"

text \<open>The bytes of the key and the signature that a bang brings, both of which are decoded into buffers.\<close>

definition bang_keys :: "takion_pb \<Rightarrow> (bytes \<times> bytes) option" where
  "bang_keys msg = do {
     key \<leftarrow> chiaki_pb_decode_buf 128 (Option.bind (pb_bang msg) ba_ecdh_pub_key);
     sig \<leftarrow> chiaki_pb_decode_buf 32 (Option.bind (pb_bang msg) ba_ecdh_sig);
     Some (key, sig) }"

definition stream_connection_takion_data_expect_bang ::
  "'p sc_config \<Rightarrow> sc_cb_env \<Rightarrow> bytes \<Rightarrow> stream_connection \<Rightarrow> (stream_connection \<times> sc_out list) option" where
  "stream_connection_takion_data_expect_bang g e buf s =
     (let failed = (\<lambda>s. s\<lparr>sc_state_failed := True\<rparr>) in
      case pb_dec (sg_pb g) buf of
        None \<Rightarrow> Some (s, [])
      | Some msg \<Rightarrow> case bang_keys msg of
          None \<Rightarrow> Some (s, [])
        | Some (key, sig) \<Rightarrow>
            if pb_type msg \<noteq> PB_BANG \<or> pb_bang msg = None then
              Some (if pb_type msg = PB_DISCONNECT then stream_connection_takion_data_handle_disconnect (sg_pb g) e buf s else s, [])
            else if \<not> ba_version_accepted (the (pb_bang msg)) then Some (failed s, [])
            else if \<not> ba_encrypted_key_accepted (the (pb_bang msg)) then Some (failed s, [])
            else if length key = 0 then Some (failed s, [])
            else if length sig = 0 then Some (failed s, [])
            else if sc_ecdh_secret s \<noteq> None then None
            else if \<not> ce_secret e then Some (failed s, [])
            else case chiaki_ecdh_derive_secret (sg_curve g) (ce_point e) (sg_ecdh g) key (s_handshake_key (sg_session g)) sig of
                Inl _ \<Rightarrow> Some (failed s, [])
              | Inr secret \<Rightarrow> do {
                  (err, s, outs) \<leftarrow> stream_connection_init_crypt g e secret (s\<lparr>sc_ecdh_secret := Some secret\<rparr>);
                  if err \<noteq> CHIAKI_ERR_SUCCESS then Some (failed s, outs)
                  else let s = s\<lparr>sc_state_finished := True\<rparr> in
                    case stream_connection_send_controller_connection g (ce_send e) of (err, outs') \<Rightarrow>
                      Some (if err \<noteq> CHIAKI_ERR_SUCCESS then failed s else s, outs @ outs') })"

text \<open>
  The resolutions as they are decoded, the \<open>i\<close>-th of them with its two allocations: the profiles, or \<open>None\<close> if the first allocation fails, which
  ends the decoding.
\<close>

fun pb_decode_resolutions :: "sc_cb_env \<Rightarrow> nat \<Rightarrow> resolution_payload list \<Rightarrow> video_profile list \<Rightarrow> video_profile list option" where
  "pb_decode_resolutions e i [] profs = Some profs"
| "pb_decode_resolutions e i (r # rs) profs = do {
     header \<leftarrow> chiaki_pb_decode_buf_alloc (ce_header e i) (re_video_header r);
     pb_decode_resolutions e (i + 1) rs
       (if \<not> ce_padded e i \<or> length profs \<ge> CHIAKI_VIDEO_PROFILES_MAX then profs
        else profs @ [\<lparr>video_profile.vp_width = re_width r, vp_height = re_height r, vp_header = header\<rparr>]) }"

abbreviation "CHIAKI_AUDIO_HEADER_SIZE \<equiv> 0xe :: nat"

definition stream_connection_takion_data_expect_streaminfo ::
  "'p sc_config \<Rightarrow> sc_cb_env \<Rightarrow> bytes \<Rightarrow> stream_connection \<Rightarrow> (stream_connection \<times> sc_out list) option" where
  "stream_connection_takion_data_expect_streaminfo g e buf s =
     (case pb_dec (sg_pb g) buf of
        None \<Rightarrow> Some (s, [])
      | Some msg \<Rightarrow>
          case (chiaki_pb_decode_buf CHIAKI_AUDIO_HEADER_SIZE (map_option si_audio_header (pb_stream_info msg)),
                pb_decode_resolutions e 0 (case pb_stream_info msg of None \<Rightarrow> [] | Some si \<Rightarrow> si_resolution si) []) of
            (Some audio_header, Some profs) \<Rightarrow>
              if pb_type msg \<noteq> PB_STREAMINFO \<or> pb_stream_info msg = None then
                Some (if pb_type msg = PB_DISCONNECT then stream_connection_takion_data_handle_disconnect (sg_pb g) e buf s else s, [])
              else if length audio_header \<noteq> CHIAKI_AUDIO_HEADER_SIZE then Some (s\<lparr>sc_state_failed := True\<rparr>, [])
              else do {
                h \<leftarrow> chiaki_audio_header_load audio_header;
                _ \<leftarrow> sc_audio_receiver s;
                vr \<leftarrow> Option.bind (sc_video_receiver s) (\<lambda>vr. chiaki_video_receiver_stream_info vr profs);
                Some (s\<lparr>sc_video_receiver := Some vr, sc_state_finished := True\<rparr>,
                  map SC_Audio (chiaki_audio_receiver_stream_info (sg_sinks g) h) @ snd (stream_connection_send_streaminfo_ack g (ce_send e))) }
          | _ \<Rightarrow> Some (s, []))"

definition stream_connection_takion_data_protobuf ::
  "'p sc_config \<Rightarrow> sc_cb_env \<Rightarrow> bytes \<Rightarrow> stream_connection \<Rightarrow> (stream_connection \<times> sc_out list) option" where
  "stream_connection_takion_data_protobuf g e buf s =
     (case sc_state s of
        SC_EXPECT_BANG \<Rightarrow> stream_connection_takion_data_expect_bang g e buf s
      | SC_EXPECT_STREAMINFO \<Rightarrow> stream_connection_takion_data_expect_streaminfo g e buf s
      | _ \<Rightarrow> Some (stream_connection_takion_data_idle (sg_pb g) e buf s, []))"

definition stream_connection_takion_data_rumble :: "bytes \<Rightarrow> sc_out list" where
  "stream_connection_takion_data_rumble buf =
     (if length buf < 3 then [] else [SC_Event (CHIAKI_EVENT_RUMBLE (buf ! 0) (buf ! 1) (buf ! 2))])"

definition stream_connection_takion_data_trigger_effects :: "bytes \<Rightarrow> sc_out list" where
  "stream_connection_takion_data_trigger_effects buf =
     (if length buf < 25 then []
      else [SC_Event (CHIAKI_EVENT_TRIGGER_EFFECTS (buf ! 1) (buf ! 2) (take 10 (drop 5 buf)) (take 10 (drop 15 buf)))])"

definition stream_connection_takion_data ::
  "'p sc_config \<Rightarrow> sc_cb_env \<Rightarrow> u8 \<Rightarrow> bytes \<Rightarrow> stream_connection \<Rightarrow> (stream_connection \<times> sc_out list) option" where
  "stream_connection_takion_data g e data_type buf s =
     (if data_type = CHIAKI_TAKION_MESSAGE_DATA_TYPE_PROTOBUF then stream_connection_takion_data_protobuf g e buf s
      else if data_type = CHIAKI_TAKION_MESSAGE_DATA_TYPE_RUMBLE then Some (s, stream_connection_takion_data_rumble buf)
      else if data_type = CHIAKI_TAKION_MESSAGE_DATA_TYPE_TRIGGER_EFFECTS then Some (s, stream_connection_takion_data_trigger_effects buf)
      else Some (s, []))"

text \<open>What the video receiver does: samples, and frames that it reports as corrupt.\<close>

fun sc_video_out :: "'p sc_config \<Rightarrow> sc_cb_env \<Rightarrow> vr_event \<Rightarrow> sc_out list" where
  "sc_video_out g e (VR_Sample buf) = [SC_Video buf]"
| "sc_video_out g e (VR_Corrupt start lst) = snd (stream_connection_send_corrupt_frame g start lst (ce_send e))"

text \<open>A packet is decrypted in place, if that succeeds, and given to its receiver. Only the receiver for haptics has no statistics.\<close>

definition stream_connection_takion_av ::
  "'p sc_config \<Rightarrow> sc_cb_env \<Rightarrow> av_packet \<Rightarrow> stream_connection \<Rightarrow> (stream_connection \<times> sc_out list) option" where
  "stream_connection_takion_av g e packet s = do {
     gk \<leftarrow> sc_gkcrypt_remote s;
     data \<leftarrow> load_bytes (av_data packet) 0 (av_data_size packet);
     (_, buf, gk) \<leftarrow> chiaki_gkcrypt_decrypt (sg_crypto g) (ce_decrypt e) gk (unat (av_key_pos packet + 0x10)) data;
     let s = s\<lparr>sc_gkcrypt_remote := Some gk\<rparr>;
     let packet = packet\<lparr>av_data := buf @ drop (av_data_size packet) (av_data packet)\<rparr>;
     if is_video packet then do {
       vr \<leftarrow> sc_video_receiver s;
       (vr, evs) \<leftarrow> chiaki_video_receiver_av_packet (ce_video e) (vr\<lparr>vr_packet_stats := Some (sc_packet_stats s)\<rparr>) packet;
       Some (s\<lparr>sc_video_receiver := Some vr, sc_packet_stats := the (vr_packet_stats vr)\<rparr>, concat (map (sc_video_out g e) evs)) }
     else if is_haptics packet then do {
       ar \<leftarrow> sc_haptics_receiver s;
       (ar, evs) \<leftarrow> chiaki_audio_receiver_av_packet (sg_sinks g) ar packet;
       Some (s\<lparr>sc_haptics_receiver := Some ar\<rparr>, map SC_Audio evs) }
     else do {
       ar \<leftarrow> sc_audio_receiver s;
       (ar, evs) \<leftarrow> chiaki_audio_receiver_av_packet (sg_sinks g) (ar\<lparr>ar_packet_stats := Some (sc_packet_stats s)\<rparr>) packet;
       Some (s\<lparr>sc_audio_receiver := Some ar, sc_packet_stats := the (ar_packet_stats ar)\<rparr>, map SC_Audio evs) } }"

fun stream_connection_takion_cb :: "'p sc_config \<Rightarrow> sc_cb_env \<Rightarrow> takion_event \<Rightarrow> stream_connection \<Rightarrow> (stream_connection \<times> sc_out list) option" where
  "stream_connection_takion_cb g e TE_CONNECTED s =
     Some (if sc_state s = SC_TAKION_CONNECT then s\<lparr>sc_state_finished := True, sc_state_failed := False\<rparr> else s, [])"
| "stream_connection_takion_cb g e TE_DISCONNECT s =
     Some (if sc_state s = SC_TAKION_CONNECT then s\<lparr>sc_state_finished := False, sc_state_failed := True\<rparr> else s, [])"
| "stream_connection_takion_cb g e (TE_DATA data_type buf) s = stream_connection_takion_data g e data_type buf s"
| "stream_connection_takion_cb g e (TE_DATA_ACK _) s = Some (s, [])"
| "stream_connection_takion_cb g e (TE_AV packet) s = stream_connection_takion_av g e packet s"

end
