(* ===== verification/Stream_Run.thy ===== *)
theory Stream_Run
  imports Stream_Connection Feedback_Sender
begin

text \<open>
  \<open>chiaki_stream_connection_run\<close>: the stream connection from the connection of Takion to its end. The events of Takion and the stop that another thread
  requests come while it waits and while it does not hold \<open>state_mutex\<close>.
\<close>

abbreviation "STREAM_CONNECTION_PORT \<equiv> 9296 :: u16"
abbreviation "SC_EXPECT_TIMEOUT_MS \<equiv> 5000 :: nat"
abbreviation "HEARTBEAT_INTERVAL_MS \<equiv> 1000 :: nat"

section \<open>Waiting\<close>

datatype sc_event = SC_Takion takion_event sc_cb_env | SC_Stop

text \<open>The state with what has been done so far.\<close>

type_synonym sc_st = "stream_connection \<times> sc_out list"

fun sc_step :: "'p sc_config \<Rightarrow> sc_event \<Rightarrow> sc_st \<Rightarrow> sc_st option" where
  "sc_step g (SC_Takion ev e) (s, outs) = map_option (\<lambda>(s, outs'). (s, outs @ outs')) (stream_connection_takion_cb g e ev s)"
| "sc_step g SC_Stop (s, outs) = Some (chiaki_stream_connection_stop s, outs)"

type_synonym sc_wait = "timespec \<times> (wakeup \<times> sc_event list) list"

fun sc_wakeups :: "'p sc_config \<Rightarrow> (wakeup \<times> sc_event list) list \<Rightarrow> sc_st \<Rightarrow> (wakeup \<times> sc_st) list option" where
  "sc_wakeups g [] st = Some []"
| "sc_wakeups g ((w, evs) # ws) st = do {
     st \<leftarrow> fold_opt (sc_step g) evs st;
     rest \<leftarrow> sc_wakeups g ws st;
     Some ((w, st) # rest) }"

definition stream_wait :: "'p sc_config \<Rightarrow> sc_wait \<Rightarrow> nat \<Rightarrow> sc_st \<Rightarrow> (ChiakiErrorCode \<times> sc_st) option" where
  "stream_wait g w timeout_ms st = do {
     wakeups \<leftarrow> sc_wakeups g (snd w) st;
     chiaki_cond_timedwait_pred (fst w) timeout_ms (\<lambda>(s, _). sc_finished_cond_check s) st wakeups }"

text \<open>The waits of the handshake, after which there is an assertion.\<close>

definition stream_wait_checked :: "'p sc_config \<Rightarrow> sc_wait \<Rightarrow> sc_st \<Rightarrow> (ChiakiErrorCode \<times> sc_st) option" where
  "stream_wait_checked g w st = do {
     (err, st) \<leftarrow> stream_wait g w SC_EXPECT_TIMEOUT_MS st;
     if err = CHIAKI_ERR_SUCCESS \<or> err = CHIAKI_ERR_TIMEOUT then Some (err, st) else None }"

section \<open>The run\<close>

text \<open>
  \<open>su_audio\<close>, \<open>su_haptics\<close>: whether the structure can be allocated and the result of its mutex. \<open>su_feedback\<close>: the result of
  \<open>chiaki_feedback_sender_init\<close>. \<open>su_unlocked\<close>: the events while \<open>CHIAKI_EVENT_CONNECTED\<close> is reported; \<open>su_beats\<close>: the waits between the heartbeats, with the
  results of sending these; \<open>su_closing\<close>: the events before Takion is closed.
\<close>

record sc_run_env =
  su_malloc :: bool
  su_family :: sa_family
  su_audio :: "bool \<times> ChiakiErrorCode"
  su_haptics :: "bool \<times> ChiakiErrorCode"
  su_video :: bool
  su_connect :: ChiakiErrorCode
  su_congestion :: "ChiakiErrorCode \<times> ChiakiErrorCode"
  su_connect_wait :: sc_wait
  su_big :: ChiakiErrorCode
  su_bang_wait :: sc_wait
  su_streaminfo_wait :: sc_wait
  su_feedback :: ChiakiErrorCode
  su_unlocked :: "sc_event list"
  su_beats :: "(sc_wait \<times> ChiakiErrorCode) list"
  su_disconnect :: ChiakiErrorCode
  su_closing :: "sc_event list"

text \<open>The error code, and whether \<open>state_mutex\<close> is left locked and the copy of the address is not freed.\<close>

record sc_run_result =
  rr_err :: ChiakiErrorCode
  rr_locked :: bool
  rr_sa_lost :: bool

definition chiaki_audio_receiver_new :: "bool \<times> ChiakiErrorCode \<Rightarrow> packet_stats option \<Rightarrow> audio_receiver option" where
  "chiaki_audio_receiver_new e stats =
     (if \<not> fst e then None
      else case chiaki_audio_receiver_init stats (snd e) of (err, ar) \<Rightarrow> if err \<noteq> CHIAKI_ERR_SUCCESS then None else Some ar)"

definition chiaki_video_receiver_new :: "bool \<Rightarrow> packet_stats option \<Rightarrow> video_receiver option" where
  "chiaki_video_receiver_new alloc stats = (if alloc then Some (chiaki_video_receiver_init stats) else None)"

definition sc_free_receivers :: "stream_connection \<Rightarrow> stream_connection" where
  "sc_free_receivers s = s\<lparr>sc_video_receiver := None, sc_haptics_receiver := None, sc_audio_receiver := None\<rparr>"

text \<open>From the label \<open>close_takion\<close> on.\<close>

definition sc_close_takion :: "'p sc_config \<Rightarrow> sc_run_env \<Rightarrow> ChiakiErrorCode \<Rightarrow> sc_st \<Rightarrow> (sc_run_result \<times> sc_st) option" where
  "sc_close_takion g e err st = do {
     (s, outs) \<leftarrow> fold_opt (sc_step g) (su_closing e) st;
     Some (\<lparr>rr_err = err, rr_locked = False, rr_sa_lost = False\<rparr>, sc_free_receivers s, outs @ [SC_Close]) }"

text \<open>From the label \<open>disconnect\<close> on.\<close>

definition sc_disconnect :: "'p sc_config \<Rightarrow> sc_run_env \<Rightarrow> ChiakiErrorCode \<Rightarrow> sc_st \<Rightarrow> (sc_run_result \<times> sc_st) option" where
  "sc_disconnect g e err st =
     (case st of (s, outs) \<Rightarrow>
        sc_close_takion g e
          (if sc_should_stop s then CHIAKI_ERR_CANCELED else if sc_remote_disconnected s then CHIAKI_ERR_DISCONNECTED else err)
          (s, outs @ snd (stream_connection_send_disconnect g (su_disconnect e)) @ [SC_Congestion_Stop]))"

text \<open>The loop ends with the first wait that does not time out.\<close>

fun sc_heartbeats :: "'p sc_config \<Rightarrow> (sc_wait \<times> ChiakiErrorCode) list \<Rightarrow> sc_st \<Rightarrow> sc_st option" where
  "sc_heartbeats g [] st = None"
| "sc_heartbeats g ((w, send_r) # beats) st = do {
     (err, s, outs) \<leftarrow> stream_wait g w HEARTBEAT_INTERVAL_MS st;
     if err \<noteq> CHIAKI_ERR_TIMEOUT then Some (s, outs)
     else sc_heartbeats g beats (s, outs @ snd (stream_connection_send_heartbeat g send_r)) }"

text \<open>
  After the handshake. The call of \<open>chiaki_feedback_sender_set_controller_state\<close> that follows the start of the feedback sender is left out: it changes only the
  feedback sender, whose state is that of theory \<open>Feedback_Sender\<close>, not the one here.
\<close>

definition sc_stream :: "'p sc_config \<Rightarrow> sc_run_env \<Rightarrow> sc_st \<Rightarrow> (sc_run_result \<times> sc_st) option" where
  "sc_stream g e st =
     (case st of (s, outs) \<Rightarrow>
        if su_feedback e \<noteq> CHIAKI_ERR_SUCCESS then sc_disconnect g e (su_feedback e) (s, outs)
        else do {
          st \<leftarrow> fold_opt (sc_step g) (su_unlocked e)
            (sc_expect SC_IDLE (s\<lparr>sc_feedback_sender_active := True\<rparr>), outs @ [SC_Feedback_Start, SC_Event CHIAKI_EVENT_CONNECTED]);
          (s, outs) \<leftarrow> sc_heartbeats g (su_beats e) st;
          sc_disconnect g e CHIAKI_ERR_SUCCESS (s\<lparr>sc_feedback_sender_active := False\<rparr>, outs @ [SC_Feedback_Stop]) })"

text \<open>The handshake: after the bang, after the connection of Takion, and from the start of the congestion control on.\<close>

definition sc_after_bang :: "'p sc_config \<Rightarrow> sc_run_env \<Rightarrow> sc_st \<Rightarrow> (sc_run_result \<times> sc_st) option" where
  "sc_after_bang g e st =
     (case st of (s, outs) \<Rightarrow> do {
        (err, s, outs) \<leftarrow> stream_wait_checked g (su_streaminfo_wait e) (sc_expect SC_EXPECT_STREAMINFO s, outs);
        if sc_should_stop s then sc_disconnect g e err (s, outs)
        else if \<not> sc_state_finished s then sc_disconnect g e CHIAKI_ERR_UNKNOWN (s, outs)
        else sc_stream g e (s, outs) })"

definition sc_after_connect :: "'p sc_config \<Rightarrow> sc_run_env \<Rightarrow> sc_st \<Rightarrow> (sc_run_result \<times> sc_st) option" where
  "sc_after_connect g e st =
     (case st of (s, outs) \<Rightarrow> do {
        let s = sc_expect SC_EXPECT_BANG s;
        (err, outs') \<leftarrow> stream_connection_send_big g (su_big e);
        let outs = outs @ outs';
        if err \<noteq> CHIAKI_ERR_SUCCESS then sc_disconnect g e err (s, outs)
        else do {
          (err, s, outs) \<leftarrow> stream_wait_checked g (su_bang_wait e) (s, outs);
          if sc_should_stop s then sc_disconnect g e err (s, outs)
          else if \<not> sc_state_finished s then sc_disconnect g e CHIAKI_ERR_UNKNOWN (s, outs)
          else sc_after_bang g e (s, outs) } })"

definition sc_handshake :: "'p sc_config \<Rightarrow> sc_run_env \<Rightarrow> sc_st \<Rightarrow> (sc_run_result \<times> sc_st) option" where
  "sc_handshake g e st = do {
     (err, s, outs) \<leftarrow> stream_wait_checked g (su_connect_wait e) st;
     if sc_should_stop s then sc_close_takion g e err (s, outs)
     else if err \<noteq> CHIAKI_ERR_SUCCESS then sc_close_takion g e err (s, outs @ [SC_Congestion_Stop])
     else sc_after_connect g e (s, outs) }"

definition sc_failed :: "ChiakiErrorCode \<Rightarrow> bool \<Rightarrow> stream_connection \<Rightarrow> sc_run_result \<times> sc_st" where
  "sc_failed err locked s = (\<lparr>rr_err = err, rr_locked = locked, rr_sa_lost = locked\<rparr>, s, [])"

definition chiaki_stream_connection_run :: "'p sc_config \<Rightarrow> sc_run_env \<Rightarrow> stream_connection \<Rightarrow> (sc_run_result \<times> sc_st) option" where
  "chiaki_stream_connection_run g e s =
     (if \<not> su_malloc e then Some (sc_failed CHIAKI_ERR_MEMORY False s)
      else if fst (set_port \<lparr>sa_family = su_family e, sin_port = 0, sin6_port = 0\<rparr> STREAM_CONNECTION_PORT) \<noteq> CHIAKI_ERR_SUCCESS then None
      else case chiaki_audio_receiver_new (su_audio e) (Some (sc_packet_stats s)) of
        None \<Rightarrow> Some (sc_failed CHIAKI_ERR_UNKNOWN True (s\<lparr>sc_audio_receiver := None\<rparr>))
      | Some audio \<Rightarrow> case chiaki_audio_receiver_new (su_haptics e) None of
          None \<Rightarrow> Some (sc_failed CHIAKI_ERR_UNKNOWN True (s\<lparr>sc_haptics_receiver := None, sc_audio_receiver := None\<rparr>))
        | Some haptics \<Rightarrow> case chiaki_video_receiver_new (su_video e) (Some (sc_packet_stats s)) of
            None \<Rightarrow> Some (sc_failed CHIAKI_ERR_UNKNOWN True (sc_free_receivers s))
          | Some video \<Rightarrow>
              let s = sc_expect SC_TAKION_CONNECT
                (s\<lparr>sc_audio_receiver := Some audio, sc_haptics_receiver := Some haptics, sc_video_receiver := Some video\<rparr>) in
              if su_connect e \<noteq> CHIAKI_ERR_SUCCESS then Some (sc_failed (su_connect e) False (sc_free_receivers s))
              else case chiaki_congestion_control_start (fst (su_congestion e)) (snd (su_congestion e)) of (err, _) \<Rightarrow>
                if err \<noteq> CHIAKI_ERR_SUCCESS then sc_close_takion g e err (s, [SC_Connect])
                else sc_handshake g e (s, [SC_Connect, SC_Congestion_Start]))"

text \<open>Freed in the end: the reason, the ciphers and the secret; what is left of the state.\<close>

definition chiaki_stream_connection_fini :: "stream_connection \<Rightarrow> stream_connection" where
  "chiaki_stream_connection_fini s =
     s\<lparr>sc_remote_disconnect_reason := None, sc_gkcrypt_remote := None, sc_gkcrypt_local := None, sc_ecdh_secret := None\<rparr>"

section \<open>The state of the controller\<close>

text \<open>
  \<open>chiaki_session_set_controller_state\<close> of \<open>session.c\<close>: the state is stored in the session and, while there is a feedback sender, given to it. \<open>lock_r\<close>:
  the result of locking \<open>feedback_sender_mutex\<close>.
\<close>

definition chiaki_session_set_controller_state ::
  "('f, 'd) float_ops \<Rightarrow> ChiakiErrorCode \<Rightarrow> ChiakiErrorCode \<Rightarrow> stream_connection \<Rightarrow> 'f controller_state \<Rightarrow>
   'f controller_state \<times> 'f feedback_sender \<Rightarrow> ChiakiErrorCode \<times> 'f controller_state \<times> 'f feedback_sender" where
  "chiaki_session_set_controller_state fp lock_r sender_r s st cs =
     (if lock_r \<noteq> CHIAKI_ERR_SUCCESS then (lock_r, cs)
      else (CHIAKI_ERR_SUCCESS, st,
        if sc_feedback_sender_active s then snd (chiaki_feedback_sender_set_controller_state fp sender_r (snd cs) st) else snd cs))"

end
