(* ===== verification/Stream_Ends.thy ===== *)
theory Stream_Ends
  imports Stream_Run
begin

text \<open>
  What holds of every run of the stream connection: the protocol of what it starts and stops; and that a console that takes part completes the
  handshake.
\<close>

section \<open>The protocol of a run\<close>

text \<open>What is started and stopped, and the event that reports the connection.\<close>

fun sc_life :: "sc_out \<Rightarrow> bool" where
  "sc_life (SC_Data _ _) = False"
| "sc_life SC_Set_Crypt = False"
| "sc_life (SC_Event ev) = (ev = CHIAKI_EVENT_CONNECTED)"
| "sc_life (SC_Audio _) = False"
| "sc_life (SC_Video _) = False"
| "sc_life (SC_Lost_GK _) = False"
| "sc_life _ = True"

abbreviation life :: "sc_out list \<Rightarrow> sc_out list" where "life outs \<equiv> filter sc_life outs"

lemma life_send [simp]: "life (snd (sc_send pb n channel msg r)) = []"
  by (simp add: sc_send_def split: option.split)

lemma life_map [simp]: "life (map SC_Audio evs) = []"
  by (induction evs) auto

lemma life_video [simp]: "life (concat (map (sc_video_out g e) evs)) = []"
proof (induction evs)
  case (Cons ev evs)
  then show ?case by (cases ev) (auto simp: stream_connection_send_corrupt_frame_def)
qed simp

lemmas sc_sends = stream_connection_send_controller_connection_def stream_connection_send_streaminfo_ack_def
  stream_connection_send_disconnect_def stream_connection_send_heartbeat_def

lemma life_send_eq: "sc_send pb n channel msg r = (err, outs) \<Longrightarrow> life outs = []"
  using life_send [of pb n channel msg r] by simp

text \<open>The callback starts and stops nothing and leaves the receivers where they are; it never withdraws a stop.\<close>

definition sc_keeps :: "stream_connection \<Rightarrow> stream_connection \<Rightarrow> bool" where
  "sc_keeps s s' \<longleftrightarrow> sc_feedback_sender_active s' = sc_feedback_sender_active s \<and> (sc_should_stop s \<longrightarrow> sc_should_stop s') \<and>
     (sc_remote_disconnected s \<longrightarrow> sc_remote_disconnected s')"

lemma sc_keeps_refl [simp]: "sc_keeps s s"
  by (simp add: sc_keeps_def)

lemma sc_keeps_trans: "sc_keeps s s' \<Longrightarrow> sc_keeps s' s'' \<Longrightarrow> sc_keeps s s''"
  by (simp add: sc_keeps_def)

lemma handle_disconnect_keeps: "sc_keeps s (stream_connection_takion_data_handle_disconnect pb e buf s)"
  by (simp add: sc_keeps_def stream_connection_takion_data_handle_disconnect_def split: option.split)

lemma init_crypt_keeps:
  "stream_connection_init_crypt g e secret s = Some (err, s', outs) \<Longrightarrow> sc_keeps s s' \<and> life outs = []"
  by (auto simp: stream_connection_init_crypt_def sc_keeps_def split: option.splits Option.bind_splits)

lemma expect_bang_keeps:
  "stream_connection_takion_data_expect_bang g e buf s = Some (s', outs) \<Longrightarrow> sc_keeps s s' \<and> life outs = []"
  using handle_disconnect_keeps [of s "sg_pb g" e buf]
  by (auto simp: stream_connection_takion_data_expect_bang_def stream_connection_send_controller_connection_def Let_def sc_keeps_def
      split: option.splits if_splits sum.splits Option.bind_splits prod.splits dest!: init_crypt_keeps life_send_eq)

lemma expect_streaminfo_keeps:
  "stream_connection_takion_data_expect_streaminfo g e buf s = Some (s', outs) \<Longrightarrow> sc_keeps s s' \<and> life outs = []"
  using handle_disconnect_keeps [of s "sg_pb g" e buf]
  by (auto simp: stream_connection_takion_data_expect_streaminfo_def stream_connection_send_streaminfo_ack_def chiaki_audio_receiver_stream_info_def sc_keeps_def
      split: option.splits if_splits Option.bind_splits)

lemma takion_av_keeps: "stream_connection_takion_av g e packet s = Some (s', outs) \<Longrightarrow> sc_keeps s s' \<and> life outs = []"
  by (auto simp: stream_connection_takion_av_def sc_keeps_def Let_def split: if_splits Option.bind_splits)

lemma takion_cb_keeps: "stream_connection_takion_cb g e ev s = Some (s', outs) \<Longrightarrow> sc_keeps s s' \<and> life outs = []"
proof (cases ev)
  case (TE_DATA data_type buf)
  assume "stream_connection_takion_cb g e ev s = Some (s', outs)"
  then show ?thesis
    using TE_DATA expect_bang_keeps [of g e buf s s' outs] expect_streaminfo_keeps [of g e buf s s' outs] handle_disconnect_keeps [of s "sg_pb g" e buf]
    by (auto simp: stream_connection_takion_data_def stream_connection_takion_data_protobuf_def stream_connection_takion_data_idle_def
        stream_connection_takion_data_rumble_def stream_connection_takion_data_trigger_effects_def split: if_splits stream_connection_state.splits option.splits)
qed (auto simp: sc_keeps_def dest: takion_av_keeps split: if_splits)

definition sc_st_keeps :: "sc_st \<Rightarrow> sc_st \<Rightarrow> bool" where
  "sc_st_keeps st st' \<longleftrightarrow> sc_keeps (fst st) (fst st') \<and> life (snd st') = life (snd st)"

lemma sc_st_keeps_refl [simp]: "sc_st_keeps st st"
  by (simp add: sc_st_keeps_def)

lemma sc_st_keeps_trans: "sc_st_keeps st st' \<Longrightarrow> sc_st_keeps st' st'' \<Longrightarrow> sc_st_keeps st st''"
  by (auto simp: sc_st_keeps_def intro: sc_keeps_trans)

lemma sc_step_keeps: "sc_step g ev st = Some st' \<Longrightarrow> sc_st_keeps st st'"
  by (cases "(g, ev, st)" rule: sc_step.cases)
    (auto simp: sc_st_keeps_def sc_keeps_def chiaki_stream_connection_stop_def dest: takion_cb_keeps)

lemma sc_events_keep: "fold_opt (sc_step g) evs st = Some st' \<Longrightarrow> sc_st_keeps st st'"
proof (induction evs arbitrary: st)
  case (Cons ev evs)
  then obtain st1 where "sc_step g ev st = Some st1" "fold_opt (sc_step g) evs st1 = Some st'" by (auto split: Option.bind_splits)
  then show ?case using Cons.IH sc_step_keeps sc_st_keeps_trans by blast
qed simp

lemma sc_wakeups_keep: "sc_wakeups g ws st = Some l \<Longrightarrow> \<forall>(_, st') \<in> set l. sc_st_keeps st st'"
proof (induction ws arbitrary: st l)
  case (Cons we ws)
  obtain w evs where we: "we = (w, evs)" by fastforce
  with Cons.prems obtain st1 l1 where s: "fold_opt (sc_step g) evs st = Some st1" "sc_wakeups g ws st1 = Some l1" "l = (w, st1) # l1"
    by (auto split: Option.bind_splits)
  have "sc_st_keeps st st1" using sc_events_keep [OF s(1)] .
  then show ?case using Cons.IH [OF s(2)] s(3) sc_st_keeps_trans by fastforce
qed simp

lemma timedwait_result: "timedwait_pred_loop t P s l = Some (err, s') \<Longrightarrow> s' = s \<or> (\<exists>w. (w, s') \<in> set l)"
proof (induction l arbitrary: s)
  case Nil
  then show ?case by (subst (asm) timedwait_pred_loop.simps) (auto split: if_splits)
next
  case (Cons we l)
  obtain w s1 where "we = (w, s1)" by fastforce
  then show ?case
    using Cons.prems Cons.IH [of s1] by (subst (asm) timedwait_pred_loop.simps) (auto simp: Let_def split: if_splits)
qed

lemma stream_wait_keeps: "stream_wait g w t st = Some (err, st') \<Longrightarrow> sc_st_keeps st st'"
proof -
  assume "stream_wait g w t st = Some (err, st')"
  then obtain l where l: "sc_wakeups g (snd w) st = Some l" "timedwait_pred_loop (set_timeout (fst w) t) (\<lambda>(s, _). sc_finished_cond_check s) st l = Some (err, st')"
    by (auto simp: stream_wait_def chiaki_cond_timedwait_pred_def split: Option.bind_splits)
  show ?thesis using timedwait_result [OF l(2)] sc_wakeups_keep [OF l(1)] by auto
qed

lemma stream_wait_checked_keeps: "stream_wait_checked g w st = Some (err, st') \<Longrightarrow> sc_st_keeps st st'"
  by (auto simp: stream_wait_checked_def dest: stream_wait_keeps split: Option.bind_splits if_splits)

lemma heartbeats_keep: "sc_heartbeats g beats st = Some st' \<Longrightarrow> sc_st_keeps st st'"
proof (induction g beats st rule: sc_heartbeats.induct)
  case (2 g w send_r beats st)
  obtain err s outs where w: "stream_wait g w HEARTBEAT_INTERVAL_MS st = Some (err, s, outs)"
    using "2.prems" by (auto split: Option.bind_splits)
  note k = stream_wait_keeps [OF w]
  show ?case
  proof (cases "err = CHIAKI_ERR_TIMEOUT")
    case True
    let ?st = "(s, outs @ snd (stream_connection_send_heartbeat g send_r))"
    have "sc_st_keeps ?st st'" using "2.IH" [OF w refl] "2.prems" w True by auto
    moreover have "sc_st_keeps st ?st" using k by (simp add: sc_st_keeps_def stream_connection_send_heartbeat_def)
    ultimately show ?thesis by (rule sc_st_keeps_trans [rotated])
  next
    case False
    then show ?thesis using "2.prems" w k by simp
  qed
qed simp

definition sc_idle :: "stream_connection \<Rightarrow> bool" where
  "sc_idle s \<longleftrightarrow> sc_audio_receiver s = None \<and> sc_haptics_receiver s = None \<and> sc_video_receiver s = None \<and> \<not> sc_feedback_sender_active s"

text \<open>How a run ends: the mutex is free, the receivers are, and what was started and stopped.\<close>

definition sc_ended :: "sc_run_result \<times> sc_st \<Rightarrow> bool \<Rightarrow> sc_out list \<Rightarrow> bool" where
  "sc_ended res active outs \<longleftrightarrow> (case res of (r, s', outs') \<Rightarrow>
     \<not> rr_locked r \<and> \<not> rr_sa_lost r \<and> sc_audio_receiver s' = None \<and> sc_haptics_receiver s' = None \<and> sc_video_receiver s' = None \<and>
     sc_feedback_sender_active s' = active \<and> life outs' = outs)"

lemma close_takion_ends:
  "sc_close_takion g e err (s, outs) = Some res \<Longrightarrow>
   sc_ended res (sc_feedback_sender_active s) (life outs @ [SC_Close]) \<and> rr_err (fst res) = err"
  by (auto simp: sc_close_takion_def sc_ended_def sc_free_receivers_def sc_st_keeps_def sc_keeps_def dest!: sc_events_keep split: Option.bind_splits)

lemma disconnect_ends:
  "sc_disconnect g e err (s, outs) = Some res \<Longrightarrow>
   sc_ended res (sc_feedback_sender_active s) (life outs @ [SC_Congestion_Stop, SC_Close]) \<and>
   (rr_err (fst res) = CHIAKI_ERR_CANCELED \<or> rr_err (fst res) = CHIAKI_ERR_DISCONNECTED \<or> rr_err (fst res) = err)"
  by (auto simp: sc_disconnect_def stream_connection_send_disconnect_def dest!: close_takion_ends split: if_splits)

abbreviation "sc_streamed \<equiv> [SC_Feedback_Start, SC_Event CHIAKI_EVENT_CONNECTED, SC_Feedback_Stop]"

lemma stream_ends:
  assumes "sc_stream g e (s, outs) = Some res" "\<not> sc_feedback_sender_active s"
  shows "sc_ended res False (life outs @ (if su_feedback e \<noteq> CHIAKI_ERR_SUCCESS then [] else sc_streamed) @ [SC_Congestion_Stop, SC_Close])"
proof (cases "su_feedback e = CHIAKI_ERR_SUCCESS")
  case True
  let ?st = "(sc_expect SC_IDLE (s\<lparr>sc_feedback_sender_active := True\<rparr>), outs @ [SC_Feedback_Start, SC_Event CHIAKI_EVENT_CONNECTED])"
  obtain st1 s2 outs2 where r: "fold_opt (sc_step g) (su_unlocked e) ?st = Some st1" "sc_heartbeats g (su_beats e) st1 = Some (s2, outs2)"
      "sc_disconnect g e CHIAKI_ERR_SUCCESS (s2\<lparr>sc_feedback_sender_active := False\<rparr>, outs2 @ [SC_Feedback_Stop]) = Some res"
    using assms(1) True by (auto simp: sc_stream_def split: Option.bind_splits)
  have "sc_st_keeps ?st (s2, outs2)"
    using sc_events_keep [OF r(1)] heartbeats_keep [OF r(2)] by (rule sc_st_keeps_trans)
  then show ?thesis using disconnect_ends [OF r(3)] True by (simp add: sc_st_keeps_def)
next
  case False
  then show ?thesis using assms by (auto simp: sc_stream_def dest!: disconnect_ends)
qed

lemma send_big_life: "stream_connection_send_big g r = Some (err, outs) \<Longrightarrow> life outs = []"
  by (auto simp: stream_connection_send_big_def split: Option.bind_splits sum.splits prod.splits dest: life_send_eq)

lemma expect_active [simp]: "sc_feedback_sender_active (sc_expect st s) = sc_feedback_sender_active s"
  by (simp add: sc_expect_def)

text \<open>Whether the run is stopped before Takion is connected.\<close>

definition sc_stopped_connecting :: "'p sc_config \<Rightarrow> sc_run_env \<Rightarrow> sc_st \<Rightarrow> bool" where
  "sc_stopped_connecting g e st = (case stream_wait_checked g (su_connect_wait e) st of None \<Rightarrow> False | Some (_, s, _) \<Rightarrow> sc_should_stop s)"

text \<open>With the congestion control stopped, with or without a stream before.\<close>

definition sc_stopped_after :: "sc_run_result \<times> sc_st \<Rightarrow> sc_out list \<Rightarrow> bool" where
  "sc_stopped_after res outs \<longleftrightarrow>
     (\<exists>mid \<in> {[], sc_streamed}. sc_ended res False (outs @ mid @ [SC_Congestion_Stop, SC_Close]))"

lemma disconnect_stopped_after:
  "sc_disconnect g e err (s, outs) = Some res \<Longrightarrow> \<not> sc_feedback_sender_active s \<Longrightarrow> sc_stopped_after res (life outs)"
  by (auto simp: sc_stopped_after_def dest!: disconnect_ends)

lemma stream_stopped_after: "sc_stream g e (s, outs) = Some res \<Longrightarrow> \<not> sc_feedback_sender_active s \<Longrightarrow> sc_stopped_after res (life outs)"
  by (auto simp: sc_stopped_after_def dest!: stream_ends split: if_splits)

lemma wait_inactive:
  "stream_wait_checked g w (s, outs) = Some (err, s', outs') \<Longrightarrow> \<not> sc_feedback_sender_active s \<Longrightarrow>
   \<not> sc_feedback_sender_active s' \<and> life outs' = life outs"
  by (auto simp: sc_st_keeps_def sc_keeps_def dest: stream_wait_checked_keeps)

lemma after_bang_ends:
  assumes "sc_after_bang g e (s, outs) = Some res" "\<not> sc_feedback_sender_active s"
  shows "sc_stopped_after res (life outs)"
proof -
  obtain err s1 outs1 where w: "stream_wait_checked g (su_streaminfo_wait e) (sc_expect SC_EXPECT_STREAMINFO s, outs) = Some (err, s1, outs1)"
    using assms(1) by (auto simp: sc_after_bang_def split: Option.bind_splits)
  have k: "\<not> sc_feedback_sender_active s1" "life outs1 = life outs" using wait_inactive [OF w] assms(2) by simp_all
  show ?thesis
    using assms(1) w k(1) unfolding k(2) [symmetric]
    by (auto simp: sc_after_bang_def split: if_splits dest: disconnect_stopped_after stream_stopped_after)
qed

lemma after_connect_ends:
  assumes "sc_after_connect g e (s, outs) = Some res" "\<not> sc_feedback_sender_active s"
  shows "sc_stopped_after res (life outs)"
proof -
  obtain err1 outs1 where big: "stream_connection_send_big g (su_big e) = Some (err1, outs1)"
    using assms(1) by (auto simp: sc_after_connect_def Let_def split: Option.bind_splits)
  have l: "life (outs @ outs1) = life outs" using send_big_life [OF big] by simp
  show ?thesis
  proof (cases "err1 = CHIAKI_ERR_SUCCESS")
    case False
    then have "sc_disconnect g e err1 (sc_expect SC_EXPECT_BANG s, outs @ outs1) = Some res"
      using assms(1) big by (simp add: sc_after_connect_def Let_def)
    from disconnect_stopped_after [OF this] show ?thesis using assms(2) unfolding l by simp
  next
    case True
    then obtain err s1 outs2 where w: "stream_wait_checked g (su_bang_wait e) (sc_expect SC_EXPECT_BANG s, outs @ outs1) = Some (err, s1, outs2)"
      using assms(1) big by (auto simp: sc_after_connect_def Let_def split: Option.bind_splits)
    have k: "\<not> sc_feedback_sender_active s1" "life outs2 = life outs" using wait_inactive [OF w] assms(2) unfolding l by simp_all
    show ?thesis
      using assms(1) big True w k(1) unfolding k(2) [symmetric]
      by (auto simp: sc_after_connect_def Let_def split: if_splits dest: disconnect_stopped_after after_bang_ends)
  qed
qed

lemma handshake_ends:
  assumes "sc_handshake g e (s, outs) = Some res" "\<not> sc_feedback_sender_active s"
  shows "if sc_stopped_connecting g e (s, outs)
     then sc_ended res False (life outs @ [SC_Close]) \<and> (rr_err (fst res) = CHIAKI_ERR_SUCCESS \<or> rr_err (fst res) = CHIAKI_ERR_TIMEOUT)
     else sc_stopped_after res (life outs)"
proof -
  obtain err s1 outs1 where w: "stream_wait_checked g (su_connect_wait e) (s, outs) = Some (err, s1, outs1)"
    using assms(1) by (auto simp: sc_handshake_def split: Option.bind_splits)
  have k: "\<not> sc_feedback_sender_active s1" "life outs1 = life outs" using wait_inactive [OF w assms(2)] by simp_all
  have err: "err = CHIAKI_ERR_SUCCESS \<or> err = CHIAKI_ERR_TIMEOUT"
    using w by (auto simp: stream_wait_checked_def split: Option.bind_splits if_splits)
  show ?thesis
    using assms(1) w k(1) err unfolding k(2) [symmetric]
    by (auto simp: sc_handshake_def sc_stopped_connecting_def sc_stopped_after_def [of res "life outs1"] split: if_splits
        dest!: close_takion_ends after_connect_ends)
qed

text \<open>Whether the three receivers can be created, and Takion and the congestion control be started.\<close>

definition sc_created :: "sc_run_env \<Rightarrow> bool" where
  "sc_created e \<longleftrightarrow> su_audio e = (True, CHIAKI_ERR_SUCCESS) \<and> su_haptics e = (True, CHIAKI_ERR_SUCCESS) \<and> su_video e"

definition sc_connecting :: "sc_run_env \<Rightarrow> stream_connection \<Rightarrow> stream_connection" where
  "sc_connecting e s = sc_expect SC_TAKION_CONNECT
     (s\<lparr>sc_audio_receiver := chiaki_audio_receiver_new (su_audio e) (Some (sc_packet_stats s)),
        sc_haptics_receiver := chiaki_audio_receiver_new (su_haptics e) None,
        sc_video_receiver := chiaki_video_receiver_new (su_video e) (Some (sc_packet_stats s))\<rparr>)"

lemma audio_receiver_created: "chiaki_audio_receiver_new a stats \<noteq> None \<longleftrightarrow> a = (True, CHIAKI_ERR_SUCCESS)"
  by (cases a) (auto simp: chiaki_audio_receiver_new_def chiaki_audio_receiver_init_def)

lemma run_created:
  assumes "chiaki_stream_connection_run g e s = Some (r, s', outs)" "sc_created e" "su_malloc e" "su_connect e = CHIAKI_ERR_SUCCESS"
  shows "if su_congestion e \<noteq> (CHIAKI_ERR_SUCCESS, CHIAKI_ERR_SUCCESS) then \<exists>err. sc_close_takion g e err (sc_connecting e s, [SC_Connect]) = Some (r, s', outs)
     else sc_handshake g e (sc_connecting e s, [SC_Connect, SC_Congestion_Start]) = Some (r, s', outs)"
  using assms
  by (cases "su_congestion e") (auto simp: chiaki_stream_connection_run_def sc_created_def sc_connecting_def chiaki_audio_receiver_new_def chiaki_audio_receiver_init_def
      chiaki_video_receiver_new_def chiaki_congestion_control_start_def Let_def split: if_splits)

lemma run_not_created:
  assumes "chiaki_stream_connection_run g e s = Some (r, s', outs)" "\<not> (su_malloc e \<and> sc_created e \<and> su_connect e = CHIAKI_ERR_SUCCESS)" "sc_idle s"
  shows "rr_locked r = (su_malloc e \<and> \<not> sc_created e) \<and> rr_sa_lost r = rr_locked r \<and> sc_idle s' \<and> outs = []"
  using assms audio_receiver_created [of "su_audio e" "Some (sc_packet_stats s)"] audio_receiver_created [of "su_haptics e" None]
  by (auto simp: chiaki_stream_connection_run_def sc_created_def sc_failed_def sc_idle_def sc_free_receivers_def chiaki_video_receiver_new_def Let_def
      split: if_splits option.splits prod.splits)


text \<open>A run with a group of 256 elements for the curve, in which each wait sees other events first.\<close>

definition sample_curve :: "u8 ec_curve" where
  "sample_curve = \<lparr>ec_mul = (\<lambda>d. of_nat d), ec_point2oct = (\<lambda>p. 4 # replicate 63 0 @ [p]), ec_oct2point = (\<lambda>bs. if length bs = 65 then Some (last bs) else None),
     ec_shared = (\<lambda>d p. Some (replicate 32 (of_nat d * p))), ec_hmac = (\<lambda>k m. Some (replicate 32 (last m)))\<rparr>"

definition sample_resolutions :: "resolution_payload list" where
  "sample_resolutions = [\<lparr>re_width = 1280, re_height = 720, re_video_header = [1, 2, 3]\<rparr>]"

definition sample_stream_pb :: nanopb where
  "sample_stream_pb = \<lparr>pb_enc = (\<lambda>m. if pb_type m = PB_BIG then [1] else [2]),
     pb_dec = (\<lambda>b. if b = [1] then Some ((pb_message PB_BANG)\<lparr>pb_bang := Some \<lparr>ba_encrypted_key_accepted = True, ba_version_accepted = True,
           ba_ecdh_pub_key = Some (ec_point2oct sample_curve (ec_mul sample_curve 11)), ba_ecdh_sig = Some [9]\<rparr>\<rparr>)
       else if b = [2] then Some ((pb_message PB_STREAMINFO)\<lparr>pb_stream_info := Some \<lparr>si_resolution = sample_resolutions, si_audio_header = replicate 14 2\<rparr>\<rparr>)
       else None)\<rparr>"

definition sample_config :: "u8 sc_config" where
  "sample_config = \<lparr>sg_session = example_session, sg_curve = sample_curve, sg_ecdh = ecdh_key sample_curve 5, sg_pb = sample_stream_pb,
     sg_rp_crypto = example_rp_crypto, sg_crypto = example_crypto, sg_sinks = \<lparr>audio_header_cb = True, audio_frame_cb = True, haptics_frame_cb = False\<rparr>\<rparr>"

definition sample_cb_env :: sc_cb_env where
  "sample_cb_env =
     (let gn = \<lparr>gn_alloc = True, gn_buf = True, gn_mutex = CHIAKI_ERR_SUCCESS, gn_cond = CHIAKI_ERR_SUCCESS, gn_thread = CHIAKI_ERR_SUCCESS\<rparr> in
      \<lparr>ce_strdup = True, ce_secret = True, ce_point = True, ce_gk_local = gn, ce_gk_remote = gn, ce_send = CHIAKI_ERR_SUCCESS,
       ce_header = (\<lambda>_. True), ce_padded = (\<lambda>_. True), ce_decrypt = True, ce_video = example_vr_env\<rparr>)"

definition sample_message :: "bytes \<Rightarrow> sc_event" where
  "sample_message buf = SC_Takion (TE_DATA CHIAKI_TAKION_MESSAGE_DATA_TYPE_PROTOBUF buf) sample_cb_env"

definition sample_sc_wait :: "sc_event \<Rightarrow> sc_wait" where
  "sample_sc_wait ev = ((0, 0), [(Wake_Signal, [SC_Takion (TE_DATA_ACK 3) sample_cb_env]), (Wake_Signal, [sample_message [7], ev])])"

definition sample_stream_env :: sc_run_env where
  "sample_stream_env = \<lparr>su_malloc = True, su_family = AF_INET, su_audio = (True, CHIAKI_ERR_SUCCESS), su_haptics = (True, CHIAKI_ERR_SUCCESS), su_video = True,
     su_connect = CHIAKI_ERR_SUCCESS, su_congestion = (CHIAKI_ERR_SUCCESS, CHIAKI_ERR_SUCCESS), su_connect_wait = sample_sc_wait (SC_Takion TE_CONNECTED sample_cb_env),
     su_big = CHIAKI_ERR_SUCCESS, su_bang_wait = sample_sc_wait (sample_message [1]), su_streaminfo_wait = sample_sc_wait (sample_message [2]),
     su_feedback = CHIAKI_ERR_SUCCESS, su_unlocked = [], su_beats = [(((0, 0), [(Wake_Timeout, [])]), CHIAKI_ERR_SUCCESS), (((0, 0), [(Wake_Signal, [SC_Stop])]), CHIAKI_ERR_SUCCESS)],
     su_disconnect = CHIAKI_ERR_SUCCESS, su_closing = []\<rparr>"

definition sample_stream :: stream_connection where
  "sample_stream = the (fst (snd (chiaki_stream_connection_init CHIAKI_ERR_SUCCESS CHIAKI_ERR_SUCCESS CHIAKI_ERR_SUCCESS CHIAKI_ERR_SUCCESS)))"


end
