(* ===== verification/Stream_Handshake.thy ===== *)
theory Stream_Handshake
  imports Stream_Ends
begin

text \<open>
  The handshake of the stream connection with a console that takes part: what the console reads in the first message, and that both
  sides then have the same secret.
\<close>

section \<open>What the console reads\<close>

lemma xor_map2_cancel: "length (xs :: u8 list) = length ys \<Longrightarrow> map2 (XOR) (map2 (XOR) xs ys) xs = ys"
proof (induction xs ys rule: list_induct2)
  case (Cons x xs y ys)
  have "(x XOR y) XOR x = y" by (simp add: xor.commute [of "x XOR y" x] flip: xor.assoc)
  then show ?case using Cons.IH by simp
qed simp

text \<open>
  A text read from the launch spec of a message: decoded from base64 and combined with the key stream, which the console
  computes with the keys of the session, it is the description in JSON with its zero.
\<close>

definition launch_spec_reads :: "rp_crypto \<Rightarrow> session \<Rightarrow> bytes \<Rightarrow> bytes \<Rightarrow> bool" where
  "launch_spec_reads cr s spec json \<longleftrightarrow>
     (\<exists>data key_stream. chiaki_base64_decode spec 1024 = Some (CHIAKI_ERR_SUCCESS, data, length data) \<and>
        chiaki_rpcrypt_encrypt cr (s_rpcrypt s) 0 (replicate (length data) 0) (length data) = Some (Inr key_stream) \<and>
        xor_bytes data key_stream (length data) = Some (json @ [0]))"

lemma launch_spec_b64_read:
  assumes "rp_crypto_ok cr" "16 \<le> length (s_handshake_key s)"
  shows "\<exists>spec. sc_launch_spec_b64 cr s = Some (Inr spec) \<and> launch_spec_reads cr s spec (launchspec_json (sc_launch_spec s)) \<and> length spec \<le> 1272"
proof -
  define json where "json = launchspec_json (sc_launch_spec s)"
  have key: "16 \<le> length (ls_handshake_key (sc_launch_spec s))" using assms(2) by (simp add: sc_launch_spec_def)
  note fmt = launchspec_format_ok [OF key, of 1024, folded json_def]
  have len: "length json \<le> 951" using length_launchspec_json [OF key] by (simp add: json_def)
  define n where "n = length json + 1"
  have n: "n \<le> 952" "nat (int (length json) + 1) = n" "length (json @ [0]) = n" using len by (simp_all add: n_def)
  obtain ks where ks: "chiaki_rpcrypt_encrypt cr (s_rpcrypt s) 0 (replicate n 0) n = Some (Inr ks)" "length ks = n"
    using crypt_roundtrip [OF assms(1), of "replicate n 0" "s_rpcrypt s" 0] n(1) by auto
  define enc where "enc = map2 (XOR) ks (json @ [0])"
  have enc: "xor_bytes ks (json @ [0]) n = Some enc" "length enc = n"
    using ks(2) n(3) by (simp_all add: xor_bytes_defined enc_def)
  have b64: "chiaki_base64_encode enc 2048 = (CHIAKI_ERR_SUCCESS, base64_text enc @ [0])"
    using enc(2) n(1) by (simp add: base64_encode_result length_base64_text)
  have str: "c_string (base64_text enc @ [0]) 0 = base64_text enc"
    using base64_text_plain [of enc] by (intro c_string_text) auto
  have "sc_launch_spec_b64 cr s = Some (Inr (base64_text enc))"
    using fmt ks(1) enc(1) b64 n(2) str by (simp add: sc_launch_spec_b64_def Let_def)
  moreover have "chiaki_base64_decode (base64_text enc) 1024 = Some (CHIAKI_ERR_SUCCESS, enc, length enc)"
    using enc(2) n(1) by (intro base64_decode_text) simp
  moreover have "xor_bytes enc ks n = Some (json @ [0])"
    using enc(2) ks(2) n(3) xor_map2_cancel [of ks "json @ [0]"] by (simp add: xor_bytes_defined enc_def)
  moreover have "length (base64_text enc) \<le> 1272" using enc(2) n(1) by (simp add: length_base64_text)
  ultimately show ?thesis
    using ks(1) enc(2) unfolding launch_spec_reads_def json_def [symmetric] by blast
qed

section \<open>Events of the handshake\<close>

text \<open>Events that do not matter for the handshake: acknowledgements, effects for the controller and messages of other types.\<close>

fun sc_quiet :: "nanopb \<Rightarrow> sc_event \<Rightarrow> bool" where
  "sc_quiet pb (SC_Takion (TE_DATA data_type buf) e) =
     (data_type \<noteq> CHIAKI_TAKION_MESSAGE_DATA_TYPE_PROTOBUF \<or>
      (case pb_dec pb buf of None \<Rightarrow> True | Some msg \<Rightarrow> pb_type msg \<notin> {PB_BANG, PB_STREAMINFO, PB_DISCONNECT}))"
| "sc_quiet pb (SC_Takion (TE_DATA_ACK _) e) = True"
| "sc_quiet pb _ = False"

lemma quiet_protobuf:
  assumes "pb_dec (sg_pb g) buf = None \<or> pb_dec (sg_pb g) buf = Some msg \<and> pb_type msg \<notin> {PB_BANG, PB_STREAMINFO, PB_DISCONNECT}"
  shows "stream_connection_takion_data_protobuf g e buf s = Some (s, [])"
proof -
  have "stream_connection_takion_data_expect_bang g e buf s = Some (s, [])"
    using assms by (cases "bang_keys msg") (auto simp: stream_connection_takion_data_expect_bang_def Let_def)
  moreover have "stream_connection_takion_data_expect_streaminfo g e buf s = Some (s, [])"
    using assms by (auto simp: stream_connection_takion_data_expect_streaminfo_def split: option.split)
  moreover have "stream_connection_takion_data_idle (sg_pb g) e buf s = s"
    using assms by (auto simp: stream_connection_takion_data_idle_def)
  ultimately show ?thesis by (simp add: stream_connection_takion_data_protobuf_def split: stream_connection_state.split)
qed

lemma quiet_step:
  assumes "sc_quiet (sg_pb g) ev"
  shows "\<exists>o1. sc_step g ev (s, outs) = Some (s, outs @ o1)"
proof (cases ev)
  case (SC_Takion tev e)
  show ?thesis
  proof (cases tev)
    case (TE_DATA data_type buf)
    show ?thesis
    proof (cases "data_type = CHIAKI_TAKION_MESSAGE_DATA_TYPE_PROTOBUF")
      case True
      have "stream_connection_takion_data_protobuf g e buf s = Some (s, [])"
        using assms SC_Takion TE_DATA True by (intro quiet_protobuf [of _ _ "the (pb_dec (sg_pb g) buf)"]) (auto split: option.splits)
      then show ?thesis using SC_Takion TE_DATA True by (simp add: stream_connection_takion_data_def)
    qed (simp add: SC_Takion TE_DATA stream_connection_takion_data_def)
  qed (use assms SC_Takion in auto)
qed (use assms in auto)

lemma quiet_events:
  "\<forall>ev \<in> set evs. sc_quiet (sg_pb g) ev \<Longrightarrow> \<exists>o1. fold_opt (sc_step g) evs (s, outs) = Some (s, outs @ o1)"
proof (induction evs arbitrary: outs)
  case (Cons ev evs)
  have "sc_quiet (sg_pb g) ev" "\<forall>ev \<in> set evs. sc_quiet (sg_pb g) ev" using Cons.prems by simp_all
  obtain o1 where o1: "sc_step g ev (s, outs) = Some (s, outs @ o1)" using quiet_step [OF \<open>sc_quiet (sg_pb g) ev\<close>] by blast
  obtain o2 where "fold_opt (sc_step g) evs (s, outs @ o1) = Some (s, (outs @ o1) @ o2)"
    using Cons.IH [OF \<open>\<forall>ev \<in> set evs. sc_quiet (sg_pb g) ev\<close>] by blast
  then show ?case using o1 by (intro exI [of _ "o1 @ o2"]) simp
qed simp

lemma quiet_wakeups:
  "\<forall>(_, evs) \<in> set ws. \<forall>ev \<in> set evs. sc_quiet (sg_pb g) ev \<Longrightarrow>
   \<exists>l. sc_wakeups g ws (s, outs) = Some l \<and> map fst l = map fst ws \<and> (\<forall>(_, st) \<in> set l. \<exists>o1. st = (s, outs @ o1))"
proof (induction ws arbitrary: outs)
  case (Cons we ws)
  obtain w evs where we: "we = (w, evs)" by fastforce
  have q: "\<forall>ev \<in> set evs. sc_quiet (sg_pb g) ev" "\<forall>(_, evs) \<in> set ws. \<forall>ev \<in> set evs. sc_quiet (sg_pb g) ev"
    using Cons.prems by (simp_all add: we)
  obtain o1 where o1: "fold_opt (sc_step g) evs (s, outs) = Some (s, outs @ o1)" using quiet_events [OF q(1)] by blast
  obtain l where l: "sc_wakeups g ws (s, outs @ o1) = Some l" "map fst l = map fst ws" "\<forall>(_, st) \<in> set l. \<exists>o2. st = (s, (outs @ o1) @ o2)"
    using Cons.IH [OF q(2)] by blast
  have "sc_wakeups g (we # ws) (s, outs) = Some ((w, (s, outs @ o1)) # l)" using o1 l(1) by (simp add: we)
  moreover have "\<forall>(_, st) \<in> set ((w, (s, outs @ o1)) # l). \<exists>o1. st = (s, outs @ o1)" using l(3) by auto
  ultimately show ?case using l(2) by (intro exI [of _ "(w, (s, outs @ o1)) # l"]) (simp add: we)
qed simp

text \<open>A wait in which, after quiet wakeups by the signal, an event arrives among quiet ones.\<close>

definition sc_answered :: "nanopb \<Rightarrow> sc_event \<Rightarrow> sc_wait \<Rightarrow> bool" where
  "sc_answered pb ans w \<longleftrightarrow> snd (set_timeout (fst w) SC_EXPECT_TIMEOUT_MS) < 1000000000 \<and>
     (\<exists>ws1 evs1 evs2 ws2. snd w = ws1 @ (Wake_Signal, evs1 @ ans # evs2) # ws2 \<and> (\<forall>(w, _) \<in> set ws1. w = Wake_Signal) \<and>
        (\<forall>(_, evs) \<in> set (ws1 @ ws2) \<union> {(Wake_Signal, evs1), (Wake_Signal, evs2)}. \<forall>ev \<in> set evs. sc_quiet pb ev))"

lemma sc_wakeups_append:
  "sc_wakeups g (ws1 @ ws2) st =
     Option.bind (sc_wakeups g ws1 st) (\<lambda>l1. Option.bind (sc_wakeups g ws2 (if l1 = [] then st else snd (last l1))) (\<lambda>l2. Some (l1 @ l2)))"
proof (induction ws1 arbitrary: st)
  case (Cons we ws1)
  obtain w evs where we: "we = (w, evs)" by fastforce
  show ?case
  proof (cases "fold_opt (sc_step g) evs st")
    case (Some st')
    show ?thesis
    proof (cases "sc_wakeups g ws1 st'")
      case (Some l1)
      then show ?thesis using \<open>fold_opt (sc_step g) evs st = Some st'\<close> Cons.IH [of st'] by (simp add: we)
    qed (simp add: we Some Cons.IH [of st'])
  qed (simp add: we)
qed (simp split: Option.bind_split)

lemma wait_until_quiet:
  "\<forall>(w, st) \<in> set l. w = Wake_Signal \<and> \<not> P st \<Longrightarrow> P st' \<Longrightarrow> wait_until P (l @ (Wake_Signal, st') # rest) = Some (CHIAKI_ERR_SUCCESS, st')"
  by (induction l) auto

lemma answered_wakeups:
  assumes "sc_answered (sg_pb g) ans w" "\<And>outs. sc_step g ans (s, outs) = Some (s', outs @ o1)"
  shows "\<exists>l1 o2 l2. sc_wakeups g (snd w) (s, outs) = Some (l1 @ (Wake_Signal, (s', outs @ o2)) # l2) \<and> set o1 \<subseteq> set o2 \<and>
     (\<forall>(w, st) \<in> set l1. w = Wake_Signal \<and> fst st = s)"
proof -
  obtain ws1 evs1 evs2 ws2 where w: "snd w = ws1 @ (Wake_Signal, evs1 @ ans # evs2) # ws2" "\<forall>(w, _) \<in> set ws1. w = Wake_Signal"
      "\<forall>(_, evs) \<in> set (ws1 @ ws2) \<union> {(Wake_Signal, evs1), (Wake_Signal, evs2)}. \<forall>ev \<in> set evs. sc_quiet (sg_pb g) ev"
    using assms(1) unfolding sc_answered_def by blast
  obtain l1 where l1: "sc_wakeups g ws1 (s, outs) = Some l1" "map fst l1 = map fst ws1" "\<forall>(_, st) \<in> set l1. \<exists>o2. st = (s, outs @ o2)"
    using quiet_wakeups [of ws1 g s outs] w(3) by auto
  obtain o3 where o3: "(if l1 = [] then (s, outs) else snd (last l1)) = (s, outs @ o3)"
    using l1(3) last_in_set [of l1] by (cases "l1 = []") fastforce+
  obtain o4 where o4: "fold_opt (sc_step g) evs1 (s, outs @ o3) = Some (s, (outs @ o3) @ o4)" using quiet_events [of evs1 g s "outs @ o3"] w(3) by auto
  obtain o5 where o5: "fold_opt (sc_step g) evs2 (s', ((outs @ o3) @ o4) @ o1) = Some (s', (((outs @ o3) @ o4) @ o1) @ o5)"
    using quiet_events [of evs2 g s' "((outs @ o3) @ o4) @ o1"] w(3) by auto
  have ans: "fold_opt (sc_step g) (evs1 @ ans # evs2) (s, outs @ o3) = Some (s', outs @ (o3 @ o4 @ o1 @ o5))"
    using o4 o5 assms(2) by (simp add: fold_opt_append)
  obtain l2 where l2: "sc_wakeups g ws2 (s', outs @ (o3 @ o4 @ o1 @ o5)) = Some l2" using quiet_wakeups [of ws2 g s' "outs @ (o3 @ o4 @ o1 @ o5)"] w(3) by auto
  have "sc_wakeups g (snd w) (s, outs) = Some (l1 @ (Wake_Signal, (s', outs @ (o3 @ o4 @ o1 @ o5))) # l2)"
    using l1(1) o3 ans l2 by (simp add: w(1) sc_wakeups_append)
  moreover have "\<forall>(w, st) \<in> set l1. w = Wake_Signal \<and> fst st = s"
  proof -
    have "w = Wake_Signal" if "(w, st) \<in> set l1" for w st
      using that l1(2) w(2) by (metis (mono_tags, lifting) case_prodD fst_conv image_eqI image_iff list.set_map prod.collapse)
    then show ?thesis using l1(3) by fastforce
  qed
  ultimately show ?thesis by (intro exI [of _ l1] exI [of _ "o3 @ o4 @ o1 @ o5"] exI [of _ l2]) auto
qed

lemma answered_wait:
  assumes "sc_answered (sg_pb g) ans w" "\<not> sc_finished_cond_check s" "\<And>outs. sc_step g ans (s, outs) = Some (s', outs @ o1)" "sc_state_finished s'"
  shows "\<exists>o2. stream_wait_checked g w (s, outs) = Some (CHIAKI_ERR_SUCCESS, s', outs @ o2) \<and> set o1 \<subseteq> set o2"
proof -
  let ?P = "\<lambda>(s, _ :: sc_out list). sc_finished_cond_check s"
  obtain l1 o2 l2 where l: "sc_wakeups g (snd w) (s, outs) = Some (l1 @ (Wake_Signal, (s', outs @ o2)) # l2)" "set o1 \<subseteq> set o2"
      "\<forall>(w, st) \<in> set l1. w = Wake_Signal \<and> fst st = s"
    using answered_wakeups [OF assms(1,3)] by blast
  have t: "snd (set_timeout (fst w) SC_EXPECT_TIMEOUT_MS) < 1000000000" using assms(1) by (simp add: sc_answered_def)
  have "wait_until ?P (l1 @ (Wake_Signal, (s', outs @ o2)) # l2) = Some (CHIAKI_ERR_SUCCESS, (s', outs @ o2))"
    using l(3) assms(2,4) by (intro wait_until_quiet) (auto simp: sc_finished_cond_check_def)
  moreover have "\<not> ?P (s, outs)" using assms(2) by simp
  ultimately have "stream_wait g w SC_EXPECT_TIMEOUT_MS (s, outs) = Some (CHIAKI_ERR_SUCCESS, (s', outs @ o2))"
    using l(1) timedwait_pred_loop_valid [OF t, of ?P "(s, outs)"] by (simp add: stream_wait_def chiaki_cond_timedwait_pred_def)
  then show ?thesis using l(2) by (simp add: stream_wait_checked_def)
qed

section \<open>The steps of the handshake\<close>

definition gk_new_ok :: "gk_new_env \<Rightarrow> bool" where
  "gk_new_ok e \<longleftrightarrow> gn_alloc e \<and> gn_buf e \<and> gn_mutex e = CHIAKI_ERR_SUCCESS \<and> gn_cond e = CHIAKI_ERR_SUCCESS \<and> gn_thread e = CHIAKI_ERR_SUCCESS"

definition cr_hash_ok :: "crypto \<Rightarrow> bool" where
  "cr_hash_ok cr \<longleftrightarrow> sha256_ok cr \<and> (\<forall>k d. \<exists>h. cr_hmac cr k d = Some h \<and> length h = 32)"

lemma gkcrypt_new_ok:
  assumes "cr_hash_ok cr" "gk_new_ok e"
  shows "\<exists>gk res. chiaki_gkcrypt_new cr e CHIAKI_GKCRYPT_KEY_BUF_BLOCKS_DEFAULT index hk secret = Some (Some (gk, res))"
proof -
  obtain h where h: "cr_hmac cr secret ([1, index, 0] @ take CHIAKI_HANDSHAKE_KEY_SIZE hk @ [1, 0]) = Some h" "length h = 32"
    using assms(1) unfolding cr_hash_ok_def by blast
  have key: "\<exists>gk'. gkcrypt_gen_key_iv cr gk index hk secret = Some (CHIAKI_ERR_SUCCESS, gk')" for gk
    using h by (simp add: gkcrypt_gen_key_iv_def)
  have gmac: "\<exists>k. chiaki_gkcrypt_gen_gmac_key cr 0 kb iv = Some k" for kb iv
    using assms(1) by (simp add: chiaki_gkcrypt_gen_gmac_key_def cr_hash_ok_def sha256_ok_def Let_def xor_bytes_defined)
  have "\<exists>gk' res. chiaki_gkcrypt_init cr True CHIAKI_ERR_SUCCESS CHIAKI_ERR_SUCCESS CHIAKI_ERR_SUCCESS gk CHIAKI_GKCRYPT_KEY_BUF_BLOCKS_DEFAULT index hk secret
      = Some (CHIAKI_ERR_SUCCESS, gk', res)" for gk
  proof -
    obtain gk1 where k1: "gkcrypt_gen_key_iv cr (gk\<lparr>gk_index := index, key_buf_size := CHIAKI_GKCRYPT_KEY_BUF_BLOCKS_DEFAULT * KEY_BUF_CHUNK_SIZE mod 2 ^ 64,
                  key_buf_populated := 0, key_buf_key_pos_min := 0, key_buf_start_offset := 0,
                  last_key_pos := 0, key_buf_thread_stop := False,
                  key_buf := Some (replicate (CHIAKI_GKCRYPT_KEY_BUF_BLOCKS_DEFAULT * KEY_BUF_CHUNK_SIZE mod 2 ^ 64) 0)\<rparr>) index hk secret = Some (CHIAKI_ERR_SUCCESS, gk1)"
      using key by blast
    obtain k where "chiaki_gkcrypt_gen_gmac_key cr 0 (key_base gk1) (gk_iv gk1) = Some k" using gmac by blast
    then show ?thesis using k1 by (simp add: chiaki_gkcrypt_init_def Let_def)
  qed
  then obtain gk' res where "chiaki_gkcrypt_init cr True CHIAKI_ERR_SUCCESS CHIAKI_ERR_SUCCESS CHIAKI_ERR_SUCCESS gkcrypt_zero CHIAKI_GKCRYPT_KEY_BUF_BLOCKS_DEFAULT index hk secret
      = Some (CHIAKI_ERR_SUCCESS, gk', res)" by blast
  then show ?thesis using assms(2) by (simp add: chiaki_gkcrypt_new_def gk_new_ok_def)
qed

text \<open>A bang that accepts version and key and brings the public key of \<open>b\<close>, with any signature.\<close>

definition good_bang :: "'p sc_config \<Rightarrow> nat \<Rightarrow> sc_event \<Rightarrow> bool" where
  "good_bang g b ev \<longleftrightarrow>
     (\<exists>buf ce msg ba sig. ev = SC_Takion (TE_DATA CHIAKI_TAKION_MESSAGE_DATA_TYPE_PROTOBUF buf) ce \<and> pb_dec (sg_pb g) buf = Some msg \<and>
        pb_type msg = PB_BANG \<and> pb_bang msg = Some ba \<and> ba_version_accepted ba \<and> ba_encrypted_key_accepted ba \<and>
        ba_ecdh_pub_key ba = Some (ec_point2oct (sg_curve g) (ec_mul (sg_curve g) b)) \<and> ba_ecdh_sig ba = Some sig \<and> sig \<noteq> [] \<and> length sig \<le> 32 \<and>
        ce_secret ce \<and> ce_point ce \<and> gk_new_ok (ce_gk_local ce) \<and> gk_new_ok (ce_gk_remote ce) \<and> ce_send ce = CHIAKI_ERR_SUCCESS \<and>
        length (pb_enc (sg_pb g) (sc_controller_connection (s_enable_dualsense (sg_session g)))) \<le> 2048)"

text \<open>The ciphers for sending and receiving, from a secret.\<close>

definition sc_ciphers :: "'p sc_config \<Rightarrow> bytes \<Rightarrow> gkcrypt \<Rightarrow> gkcrypt \<Rightarrow> bool" where
  "sc_ciphers g secret local remote \<longleftrightarrow> (\<exists>e1 e2 r1 r2.
     chiaki_gkcrypt_new (sg_crypto g) e1 CHIAKI_GKCRYPT_KEY_BUF_BLOCKS_DEFAULT 2 (s_handshake_key (sg_session g)) secret = Some (Some (local, r1)) \<and>
     chiaki_gkcrypt_new (sg_crypto g) e2 CHIAKI_GKCRYPT_KEY_BUF_BLOCKS_DEFAULT 3 (s_handshake_key (sg_session g)) secret = Some (Some (remote, r2)))"

lemma bang_step:
  assumes "good_bang g b ev" "ec_ok (sg_curve g)" "sg_ecdh g = ecdh_key (sg_curve g) a" "cr_hash_ok (sg_crypto g)"
    "sc_state s = SC_EXPECT_BANG" "sc_ecdh_secret s = None"
  shows "\<exists>secret local remote o1. (\<forall>outs. sc_step g ev (s, outs) = Some (s\<lparr>sc_ecdh_secret := Some secret, sc_gkcrypt_local := Some local,
        sc_gkcrypt_remote := Some remote, sc_state_finished := True\<rparr>, outs @ o1)) \<and> SC_Set_Crypt \<in> set o1 \<and> sc_ciphers g secret local remote \<and>
     (\<forall>hk sig. chiaki_ecdh_derive_secret (sg_curve g) True (ecdh_key (sg_curve g) b) (ec_point2oct (sg_curve g) (ec_mul (sg_curve g) a)) hk sig = Inr secret)"
proof -
  let ?ec = "sg_curve g" and ?hk = "s_handshake_key (sg_session g)"
  obtain buf ce msg ba sig where m: "ev = SC_Takion (TE_DATA CHIAKI_TAKION_MESSAGE_DATA_TYPE_PROTOBUF buf) ce" "pb_dec (sg_pb g) buf = Some msg"
      "pb_type msg = PB_BANG" "pb_bang msg = Some ba" "ba_version_accepted ba" "ba_encrypted_key_accepted ba"
      "ba_ecdh_pub_key ba = Some (ec_point2oct ?ec (ec_mul ?ec b))" "ba_ecdh_sig ba = Some sig" "sig \<noteq> []" "length sig \<le> 32"
    and e: "ce_secret ce" "ce_point ce" "gk_new_ok (ce_gk_local ce)" "gk_new_ok (ce_gk_remote ce)" "ce_send ce = CHIAKI_ERR_SUCCESS"
      "length (pb_enc (sg_pb g) (sc_controller_connection (s_enable_dualsense (sg_session g)))) \<le> 2048"
    using assms(1) unfolding good_bang_def by blast
  have l: "length (ec_point2oct ?ec (ec_mul ?ec b)) = 65" using assms(2) by (simp add: ec_ok_def)
  have keys: "bang_keys msg = Some (ec_point2oct ?ec (ec_mul ?ec b), sig)"
    using m(4,7,8,10) l by (simp add: bang_keys_def chiaki_pb_decode_buf_def)
  obtain secret where sec: "chiaki_ecdh_derive_secret ?ec True (ecdh_key ?ec a) (ec_point2oct ?ec (ec_mul ?ec b)) ?hk sig = Inr secret"
      "chiaki_ecdh_derive_secret ?ec True (ecdh_key ?ec b) (ec_point2oct ?ec (ec_mul ?ec a)) ?hk sig = Inr secret"
    using ecdh_agreement [OF assms(2)] by blast
  obtain local r1 where loc: "chiaki_gkcrypt_new (sg_crypto g) (ce_gk_local ce) CHIAKI_GKCRYPT_KEY_BUF_BLOCKS_DEFAULT 2 ?hk secret = Some (Some (local, r1))"
    using gkcrypt_new_ok [OF assms(4) e(3)] by blast
  obtain remote r2 where rem: "chiaki_gkcrypt_new (sg_crypto g) (ce_gk_remote ce) CHIAKI_GKCRYPT_KEY_BUF_BLOCKS_DEFAULT 3 ?hk secret = Some (Some (remote, r2))"
    using gkcrypt_new_ok [OF assms(4) e(4)] by blast
  let ?msg = "pb_enc (sg_pb g) (sc_controller_connection (s_enable_dualsense (sg_session g)))"
  let ?s = "s\<lparr>sc_ecdh_secret := Some secret, sc_gkcrypt_local := Some local, sc_gkcrypt_remote := Some remote, sc_state_finished := True\<rparr>"
  have "length (ec_point2oct ?ec (ec_mul ?ec b)) \<noteq> 0" "length sig \<noteq> 0" using l m(9) by simp_all
  moreover have "stream_connection_init_crypt g ce secret (s\<lparr>sc_ecdh_secret := Some secret\<rparr>) = Some (CHIAKI_ERR_SUCCESS,
      s\<lparr>sc_ecdh_secret := Some secret, sc_gkcrypt_local := Some local, sc_gkcrypt_remote := Some remote\<rparr>, [SC_Set_Crypt])"
    using loc rem by (simp add: stream_connection_init_crypt_def Let_def)
  moreover have "stream_connection_send_controller_connection g (ce_send ce) = (CHIAKI_ERR_SUCCESS, [SC_Data 1 ?msg])"
    using e(5,6) by (simp add: stream_connection_send_controller_connection_def sc_send_def pb_encode_def)
  ultimately have "stream_connection_takion_data_expect_bang g ce buf s = Some (?s, [SC_Set_Crypt, SC_Data 1 ?msg])"
    using m(2-6) keys e(1,2) assms(3,6) sec(1) by (simp add: stream_connection_takion_data_expect_bang_def Let_def del: length_0_conv)
  then have "\<forall>outs. sc_step g ev (s, outs) = Some (?s, outs @ [SC_Set_Crypt, SC_Data 1 ?msg])"
    using assms(5) by (simp add: m(1) stream_connection_takion_data_def stream_connection_takion_data_protobuf_def)
  moreover have "sc_ciphers g secret local remote" using loc rem unfolding sc_ciphers_def by blast
  moreover have "\<forall>hk sig. chiaki_ecdh_derive_secret ?ec True (ecdh_key ?ec b) (ec_point2oct ?ec (ec_mul ?ec a)) hk sig = Inr secret"
    using sec(2) ecdh_signature_ignored by metis
  ultimately show ?thesis by (intro exI [of _ secret] exI [of _ local] exI [of _ remote] exI [of _ "[SC_Set_Crypt, SC_Data 1 ?msg]"]) simp
qed

text \<open>Stream information with a header for audio and resolutions, for all of which there is memory.\<close>

definition good_streaminfo :: "'p sc_config \<Rightarrow> resolution_payload list \<Rightarrow> sc_event \<Rightarrow> bool" where
  "good_streaminfo g rs ev \<longleftrightarrow>
     (\<exists>buf ce msg si. ev = SC_Takion (TE_DATA CHIAKI_TAKION_MESSAGE_DATA_TYPE_PROTOBUF buf) ce \<and> pb_dec (sg_pb g) buf = Some msg \<and>
        pb_type msg = PB_STREAMINFO \<and> pb_stream_info msg = Some si \<and> length (si_audio_header si) = CHIAKI_AUDIO_HEADER_SIZE \<and>
        si_resolution si = rs \<and> length rs \<le> CHIAKI_VIDEO_PROFILES_MAX \<and> (\<forall>i < length rs. ce_header ce i \<and> ce_padded ce i))"

definition resolution_profile :: "resolution_payload \<Rightarrow> video_profile" where
  "resolution_profile r = \<lparr>video_profile.vp_width = re_width r, vp_height = re_height r, vp_header = re_video_header r\<rparr>"

lemma resolutions_decoded:
  "\<forall>i < length rs. ce_header e (n + i) \<and> ce_padded e (n + i) \<Longrightarrow> length profs + length rs \<le> CHIAKI_VIDEO_PROFILES_MAX \<Longrightarrow>
   pb_decode_resolutions e n rs profs = Some (profs @ map resolution_profile rs)"
proof (induction rs arbitrary: n profs)
  case (Cons r rs)
  have h: "ce_header e n" "ce_padded e n" using Cons.prems(1) [rule_format, of 0] by simp_all
  have "\<forall>i < length rs. ce_header e (n + 1 + i) \<and> ce_padded e (n + 1 + i)"
    using Cons.prems(1) by (metis Suc_eq_plus1 add.assoc add.commute length_Cons not_less_eq plus_1_eq_Suc)
  then have "pb_decode_resolutions e (n + 1) rs (profs @ [resolution_profile r]) = Some ((profs @ [resolution_profile r]) @ map resolution_profile rs)"
    using Cons.prems(2) by (intro Cons.IH) simp_all
  then show ?case using h Cons.prems(2) by (simp add: chiaki_pb_decode_buf_alloc_def resolution_profile_def)
qed simp

lemma audio_header_defined: "length h = CHIAKI_AUDIO_HEADER_SIZE \<Longrightarrow> \<exists>a. chiaki_audio_header_load h = Some a"
  by (simp add: chiaki_audio_header_load_def load32be_def load8_def)

lemma streaminfo_step:
  assumes "good_streaminfo g rs ev" "sc_state s = SC_EXPECT_STREAMINFO" "sc_audio_receiver s \<noteq> None" "sc_video_receiver s = Some vr" "profiles vr = []"
  shows "\<exists>o1. \<forall>outs. sc_step g ev (s, outs) =
     Some (s\<lparr>sc_video_receiver := Some (vr\<lparr>profiles := map resolution_profile rs\<rparr>), sc_state_finished := True\<rparr>, outs @ o1)"
proof -
  obtain buf ce msg si where m: "ev = SC_Takion (TE_DATA CHIAKI_TAKION_MESSAGE_DATA_TYPE_PROTOBUF buf) ce" "pb_dec (sg_pb g) buf = Some msg"
      "pb_type msg = PB_STREAMINFO" "pb_stream_info msg = Some si" "length (si_audio_header si) = CHIAKI_AUDIO_HEADER_SIZE"
      "si_resolution si = rs" "length rs \<le> CHIAKI_VIDEO_PROFILES_MAX" "\<forall>i < length rs. ce_header ce i \<and> ce_padded ce i"
    using assms(1) unfolding good_streaminfo_def by blast
  obtain a where a: "chiaki_audio_header_load (si_audio_header si) = Some a" using audio_header_defined [OF m(5)] by blast
  have rs: "pb_decode_resolutions ce 0 rs [] = Some (map resolution_profile rs)" using resolutions_decoded [of rs ce 0 "[]"] m(7,8) by simp
  have "chiaki_pb_decode_buf CHIAKI_AUDIO_HEADER_SIZE (Some (si_audio_header si)) = Some (si_audio_header si)"
    using m(5) by (simp add: chiaki_pb_decode_buf_def)
  then have "stream_connection_takion_data_expect_streaminfo g ce buf s = Some
      (s\<lparr>sc_video_receiver := Some (vr\<lparr>profiles := map resolution_profile rs\<rparr>), sc_state_finished := True\<rparr>,
       map SC_Audio (chiaki_audio_receiver_stream_info (sg_sinks g) a) @ snd (stream_connection_send_streaminfo_ack g (ce_send ce)))"
    using m a rs assms(3-5) by (auto simp: stream_connection_takion_data_expect_streaminfo_def chiaki_video_receiver_stream_info_def)
  then show ?thesis
    using assms(2) by (auto simp: m(1) stream_connection_takion_data_def stream_connection_takion_data_protobuf_def)
qed

text \<open>A second bang before the thread of the run has gone on fails the assertion that there is no secret yet.\<close>

lemma second_bang_aborts:
  assumes "good_bang g b ev" "ec_ok (sg_curve g)" "sc_state s = SC_EXPECT_BANG" "sc_ecdh_secret s \<noteq> None"
  shows "sc_step g ev (s, outs) = None"
proof -
  obtain buf ce msg ba sig where m: "ev = SC_Takion (TE_DATA CHIAKI_TAKION_MESSAGE_DATA_TYPE_PROTOBUF buf) ce" "pb_dec (sg_pb g) buf = Some msg"
      "pb_type msg = PB_BANG" "pb_bang msg = Some ba" "ba_version_accepted ba" "ba_encrypted_key_accepted ba"
      "ba_ecdh_pub_key ba = Some (ec_point2oct (sg_curve g) (ec_mul (sg_curve g) b))" "ba_ecdh_sig ba = Some sig" "sig \<noteq> []" "length sig \<le> 32"
    using assms(1) unfolding good_bang_def by blast
  have l: "length (ec_point2oct (sg_curve g) (ec_mul (sg_curve g) b)) = 65" using assms(2) by (simp add: ec_ok_def)
  then have "bang_keys msg = Some (ec_point2oct (sg_curve g) (ec_mul (sg_curve g) b), sig)" "ec_point2oct (sg_curve g) (ec_mul (sg_curve g) b) \<noteq> []"
    using m(4,7,8,10) by (auto simp: bang_keys_def chiaki_pb_decode_buf_def)
  then show ?thesis
    using m assms(3,4) by (simp add: stream_connection_takion_data_def stream_connection_takion_data_protobuf_def stream_connection_takion_data_expect_bang_def Let_def)
qed

text \<open>If the second cipher cannot be created, the thread of the first goes on and works in memory that has been freed.\<close>

lemma first_cipher_lost:
  assumes "chiaki_gkcrypt_new (sg_crypto g) (ce_gk_local e) CHIAKI_GKCRYPT_KEY_BUF_BLOCKS_DEFAULT 2 (s_handshake_key (sg_session g)) secret = Some (Some (local, res))"
    "chiaki_gkcrypt_new (sg_crypto g) (ce_gk_remote e) CHIAKI_GKCRYPT_KEY_BUF_BLOCKS_DEFAULT 3 (s_handshake_key (sg_session g)) secret = Some None"
  shows "\<exists>s'. stream_connection_init_crypt g e secret s = Some (CHIAKI_ERR_UNKNOWN, s', [SC_Lost_GK res]) \<and> GK_Thread \<in> set res"
proof -
  have "GK_Thread \<in> set res"
    using assms(1) by (auto simp: chiaki_gkcrypt_new_def chiaki_gkcrypt_init_def Let_def split: if_splits Option.bind_splits)
  then show ?thesis using assms by (simp add: stream_connection_init_crypt_def Let_def)
qed

section \<open>The handshake\<close>

text \<open>
  A console with the private key \<open>b\<close> that takes part, while nothing fails on the side of the client, whose private key is \<open>a\<close>. The sizes are those that
  the fields of the first message can have.
\<close>

definition sc_console :: "'p sc_config \<Rightarrow> sc_run_env \<Rightarrow> nat \<Rightarrow> nat \<Rightarrow> resolution_payload list \<Rightarrow> bool" where
  "sc_console g e a b rs \<longleftrightarrow>
     ec_ok (sg_curve g) \<and> sg_ecdh g = ecdh_key (sg_curve g) a \<and> rp_crypto_ok (sg_rp_crypto g) \<and> cr_hash_ok (sg_crypto g) \<and>
     16 \<le> length (s_handshake_key (sg_session g)) \<and>
     (\<forall>spec key sig. length spec \<le> 1272 \<and> length key = 65 \<and> length sig = 32 \<longrightarrow> length (pb_enc (sg_pb g) (sc_big (sg_session g) spec key sig)) \<le> 2048) \<and>
     su_malloc e \<and> su_family e \<in> {AF_INET, AF_INET6} \<and> sc_created e \<and> su_connect e = CHIAKI_ERR_SUCCESS \<and>
     su_congestion e = (CHIAKI_ERR_SUCCESS, CHIAKI_ERR_SUCCESS) \<and> su_big e = CHIAKI_ERR_SUCCESS \<and>
     (\<exists>ce. sc_answered (sg_pb g) (SC_Takion TE_CONNECTED ce) (su_connect_wait e)) \<and>
     (\<exists>ev. good_bang g b ev \<and> sc_answered (sg_pb g) ev (su_bang_wait e)) \<and>
     (\<exists>ev. good_streaminfo g rs ev \<and> sc_answered (sg_pb g) ev (su_streaminfo_wait e))"

definition sc_fresh :: "stream_connection \<Rightarrow> bool" where
  "sc_fresh s \<longleftrightarrow> \<not> sc_should_stop s \<and> \<not> sc_remote_disconnected s \<and> sc_ecdh_secret s = None"

lemma send_big_ok:
  assumes "sc_console g e a b rs"
  shows "\<exists>spec sig. stream_connection_send_big g CHIAKI_ERR_SUCCESS =
       Some (CHIAKI_ERR_SUCCESS, [SC_Data 1 (pb_enc (sg_pb g) (sc_big (sg_session g) spec (ec_point2oct (sg_curve g) (ec_mul (sg_curve g) a)) sig))]) \<and>
     launch_spec_reads (sg_rp_crypto g) (sg_session g) spec (launchspec_json (sc_launch_spec (sg_session g)))"
proof -
  let ?ec = "sg_curve g"
  have c: "ec_ok ?ec" "sg_ecdh g = ecdh_key ?ec a" "rp_crypto_ok (sg_rp_crypto g)" "16 \<le> length (s_handshake_key (sg_session g))"
      "\<And>spec key sig. length spec \<le> 1272 \<and> length key = 65 \<and> length sig = 32 \<Longrightarrow> length (pb_enc (sg_pb g) (sc_big (sg_session g) spec key sig)) \<le> 2048"
    using assms by (simp_all add: sc_console_def)
  obtain spec where spec: "sc_launch_spec_b64 (sg_rp_crypto g) (sg_session g) = Some (Inr spec)" "length spec \<le> 1272"
      "launch_spec_reads (sg_rp_crypto g) (sg_session g) spec (launchspec_json (sc_launch_spec (sg_session g)))"
    using launch_spec_b64_read [OF c(3,4)] by blast
  obtain sig where sig: "chiaki_ecdh_get_local_pub_key ?ec (ecdh_key ?ec a) 128 (s_handshake_key (sg_session g)) =
      Some (Inr (ec_point2oct ?ec (ec_mul ?ec a), sig))" "length sig = 32"
    using ecdh_pub_key [OF c(1,4), of 128 a] by auto
  have "length (ec_point2oct ?ec (ec_mul ?ec a)) = 65" using c(1) by (simp add: ec_ok_def)
  then have "length (pb_enc (sg_pb g) (sc_big (sg_session g) spec (ec_point2oct ?ec (ec_mul ?ec a)) sig)) \<le> 2048" using c(5) spec(2) sig(2) by blast
  then show ?thesis
    using spec(1,3) sig(1) c(2) by (intro exI [of _ spec] exI [of _ sig]) (simp add: stream_connection_send_big_def sc_send_def pb_encode_def)
qed

lemma run_handshake:
  assumes "sc_console g e a b rs"
  shows "chiaki_stream_connection_run g e s = sc_handshake g e (sc_connecting e s, [SC_Connect, SC_Congestion_Start])"
proof -
  have c: "su_malloc e" "su_family e = AF_INET \<or> su_family e = AF_INET6" "sc_created e" "su_connect e = CHIAKI_ERR_SUCCESS"
      "su_congestion e = (CHIAKI_ERR_SUCCESS, CHIAKI_ERR_SUCCESS)"
    using assms by (auto simp: sc_console_def)
  then show ?thesis
    by (auto simp: chiaki_stream_connection_run_def set_port_def sc_created_def sc_connecting_def chiaki_audio_receiver_new_def
        chiaki_audio_receiver_init_def chiaki_video_receiver_new_def chiaki_congestion_control_start_def Let_def)
qed

text \<open>The state of a run that goes on: not stopped, with its receivers, of which the one for video has no profiles.\<close>

definition sc_going :: "stream_connection \<Rightarrow> bool" where
  "sc_going s \<longleftrightarrow> \<not> sc_should_stop s \<and> \<not> sc_remote_disconnected s \<and> sc_audio_receiver s \<noteq> None \<and>
     (\<exists>vr. sc_video_receiver s = Some vr \<and> profiles vr = [])"

lemma expect_going [simp]: "sc_going (sc_expect st s) = sc_going s" "sc_going (s\<lparr>sc_state_finished := b\<rparr>) = sc_going s"
  by (simp_all add: sc_going_def sc_expect_def)

lemma going_waits: "sc_going s \<Longrightarrow> \<not> sc_finished_cond_check (sc_expect st s)"
  by (simp add: sc_going_def sc_expect_def sc_finished_cond_check_def)

lemma after_bang_goes_on:
  assumes "good_streaminfo g rs ev" "sc_answered (sg_pb g) ev (su_streaminfo_wait e)" "sc_going s"
  shows "\<exists>vr o1. sc_after_bang g e (s, outs) =
     sc_stream g e ((sc_expect SC_EXPECT_STREAMINFO s)\<lparr>sc_video_receiver := Some vr, sc_state_finished := True\<rparr>, outs @ o1) \<and>
     profiles vr = map resolution_profile rs"
proof -
  let ?s = "sc_expect SC_EXPECT_STREAMINFO s"
  obtain vr where v: "sc_video_receiver ?s = Some vr" "profiles vr = []" "sc_audio_receiver ?s \<noteq> None" "sc_state ?s = SC_EXPECT_STREAMINFO"
    using assms(3) by (auto simp: sc_going_def sc_expect_def)
  let ?vr = "vr\<lparr>profiles := map resolution_profile rs\<rparr>"
  define s' where "s' = ?s\<lparr>sc_video_receiver := Some ?vr, sc_state_finished := True\<rparr>"
  have s': "sc_state_finished s'" "\<not> sc_should_stop s'" using assms(3) by (simp_all add: s'_def sc_going_def sc_expect_def)
  obtain oi where info: "\<And>outs. sc_step g ev (?s, outs) = Some (s', outs @ oi)"
    using streaminfo_step [OF assms(1) v(4,3,1,2)] unfolding s'_def by blast
  obtain o1 where "stream_wait_checked g (su_streaminfo_wait e) (?s, outs) = Some (CHIAKI_ERR_SUCCESS, s', outs @ o1)"
    using answered_wait [OF assms(2) going_waits [OF assms(3)] info s'(1), of outs] by blast
  then have "sc_after_bang g e (s, outs) = sc_stream g e (s', outs @ o1)" using s' by (simp add: sc_after_bang_def)
  then show ?thesis unfolding s'_def by (intro exI [of _ ?vr] exI [of _ o1]) simp
qed

text \<open>What the console has got in the first message, with which both sides have the same secret.\<close>

definition sc_agreed :: "'p sc_config \<Rightarrow> nat \<Rightarrow> nat \<Rightarrow> stream_connection \<Rightarrow> sc_out list \<Rightarrow> bool" where
  "sc_agreed g a b s outs \<longleftrightarrow> (\<exists>spec sig secret local remote.
     SC_Data 1 (pb_enc (sg_pb g) (sc_big (sg_session g) spec (ec_point2oct (sg_curve g) (ec_mul (sg_curve g) a)) sig)) \<in> set outs \<and>
     launch_spec_reads (sg_rp_crypto g) (sg_session g) spec (launchspec_json (sc_launch_spec (sg_session g))) \<and>
     (\<forall>hk sig. chiaki_ecdh_derive_secret (sg_curve g) True (ecdh_key (sg_curve g) b) (ec_point2oct (sg_curve g) (ec_mul (sg_curve g) a)) hk sig = Inr secret) \<and>
     sc_ecdh_secret s = Some secret \<and> sc_gkcrypt_local s = Some local \<and> sc_gkcrypt_remote s = Some remote \<and> sc_ciphers g secret local remote \<and>
     SC_Set_Crypt \<in> set outs)"

lemma after_connect_goes_on:
  assumes "sc_console g e a b rs" "sc_going s" "sc_ecdh_secret s = None"
  shows "\<exists>s' o1. sc_after_connect g e (s, outs) = sc_after_bang g e (s', outs @ o1) \<and> sc_going s' \<and> sc_agreed g a b s' o1"
proof -
  let ?ec = "sg_curve g" and ?ok = "CHIAKI_ERR_SUCCESS" and ?s = "sc_expect SC_EXPECT_BANG s"
  have c: "ec_ok ?ec" "sg_ecdh g = ecdh_key ?ec a" "cr_hash_ok (sg_crypto g)" "su_big e = ?ok"
    using assms(1) by (simp_all add: sc_console_def)
  obtain ev where ev: "good_bang g b ev" "sc_answered (sg_pb g) ev (su_bang_wait e)" using assms(1) unfolding sc_console_def by blast
  obtain spec sig where big: "stream_connection_send_big g ?ok =
       Some (?ok, [SC_Data 1 (pb_enc (sg_pb g) (sc_big (sg_session g) spec (ec_point2oct ?ec (ec_mul ?ec a)) sig))])"
     "launch_spec_reads (sg_rp_crypto g) (sg_session g) spec (launchspec_json (sc_launch_spec (sg_session g)))"
    using send_big_ok [OF assms(1)] by blast
  define ob where "ob = [SC_Data 1 (pb_enc (sg_pb g) (sc_big (sg_session g) spec (ec_point2oct ?ec (ec_mul ?ec a)) sig))]"
  have s: "sc_state ?s = SC_EXPECT_BANG" "sc_ecdh_secret ?s = None" using assms(3) by (simp_all add: sc_expect_def)
  obtain secret local remote oc where bang: "\<And>outs. sc_step g ev (?s, outs) = Some (?s\<lparr>sc_ecdh_secret := Some secret, sc_gkcrypt_local := Some local,
        sc_gkcrypt_remote := Some remote, sc_state_finished := True\<rparr>, outs @ oc)" "SC_Set_Crypt \<in> set oc" "sc_ciphers g secret local remote"
     "\<forall>hk sig. chiaki_ecdh_derive_secret ?ec True (ecdh_key ?ec b) (ec_point2oct ?ec (ec_mul ?ec a)) hk sig = Inr secret"
    using bang_step [OF ev(1) c(1-3) s] by blast
  define s' where "s' = ?s\<lparr>sc_ecdh_secret := Some secret, sc_gkcrypt_local := Some local, sc_gkcrypt_remote := Some remote, sc_state_finished := True\<rparr>"
  have s': "sc_state_finished s'" "\<not> sc_should_stop s'" "sc_going s'" using assms(2) by (simp_all add: s'_def sc_going_def sc_expect_def)
  obtain o1 where w: "stream_wait_checked g (su_bang_wait e) (?s, outs @ ob) = Some (?ok, s', (outs @ ob) @ o1)" "set oc \<subseteq> set o1"
    using answered_wait [OF ev(2) going_waits [OF assms(2)] bang(1), of "outs @ ob"] by (auto simp: s'_def)
  have "sc_after_connect g e (s, outs) = sc_after_bang g e (s', outs @ (ob @ o1))"
    using big(1) c(4) w(1) s' unfolding sc_after_connect_def ob_def [symmetric] by simp
  moreover have "sc_agreed g a b s' (ob @ o1)"
  proof -
    have "SC_Set_Crypt \<in> set (ob @ o1)" using w(2) bang(2) by auto
    moreover have "sc_ecdh_secret s' = Some secret" "sc_gkcrypt_local s' = Some local" "sc_gkcrypt_remote s' = Some remote" by (simp_all add: s'_def)
    moreover have "SC_Data 1 (pb_enc (sg_pb g) (sc_big (sg_session g) spec (ec_point2oct ?ec (ec_mul ?ec a)) sig)) \<in> set (ob @ o1)" by (simp add: ob_def)
    ultimately show ?thesis using big(2) bang(3,4) unfolding sc_agreed_def by blast
  qed
  ultimately show ?thesis using s'(3) by blast
qed

lemma agreed_later:
  "sc_agreed g a b s outs \<Longrightarrow> sc_ecdh_secret s' = sc_ecdh_secret s \<Longrightarrow> sc_gkcrypt_local s' = sc_gkcrypt_local s \<Longrightarrow>
   sc_gkcrypt_remote s' = sc_gkcrypt_remote s \<Longrightarrow> set outs \<subseteq> set outs' \<Longrightarrow> sc_agreed g a b s' outs'"
  by (simp only: sc_agreed_def) blast

lemma stream_run_agrees:
  assumes "sc_console g e a b rs" "sc_fresh s"
  shows "\<exists>s' outs vr. chiaki_stream_connection_run g e s = sc_stream g e (s', outs) \<and> sc_agreed g a b s' outs \<and>
     sc_video_receiver s' = Some vr \<and> profiles vr = map resolution_profile rs"
proof -
  let ?o0 = "[SC_Connect, SC_Congestion_Start]"
  obtain ce where w: "sc_answered (sg_pb g) (SC_Takion TE_CONNECTED ce) (su_connect_wait e)" using assms(1) unfolding sc_console_def by blast
  obtain ev where ev: "good_streaminfo g rs ev" "sc_answered (sg_pb g) ev (su_streaminfo_wait e)" using assms(1) unfolding sc_console_def by blast
  define s0 where "s0 = sc_connecting e s"
  define s1 where "s1 = s0\<lparr>sc_state_finished := True\<rparr>"
  have "sc_created e" using assms(1) by (simp add: sc_console_def)
  then have s0: "sc_state s0 = SC_TAKION_CONNECT" "\<not> sc_finished_cond_check s0" "\<not> sc_state_failed s0" "sc_ecdh_secret s1 = None" "sc_going s1" "\<not> sc_should_stop s1"
    using assms(2) by (auto simp: s1_def s0_def sc_connecting_def sc_expect_def sc_finished_cond_check_def sc_fresh_def sc_going_def sc_created_def
        chiaki_audio_receiver_new_def chiaki_audio_receiver_init_def chiaki_video_receiver_new_def chiaki_video_receiver_init_def)
  have "sc_step g (SC_Takion TE_CONNECTED ce) (s0, outs) = Some (s1, outs @ [])" for outs using s0(1,3) by (simp add: s1_def)
  then obtain o1 where r: "stream_wait_checked g (su_connect_wait e) (s0, ?o0) = Some (CHIAKI_ERR_SUCCESS, s1, ?o0 @ o1)"
    using answered_wait [OF w s0(2), of s1 "[]" ?o0] by (auto simp: s1_def)
  obtain s2 o2 where bang: "sc_after_connect g e (s1, ?o0 @ o1) = sc_after_bang g e (s2, (?o0 @ o1) @ o2)" "sc_going s2" "sc_agreed g a b s2 o2"
    using after_connect_goes_on [OF assms(1) s0(5,4)] by blast
  obtain vr o3 where info: "sc_after_bang g e (s2, (?o0 @ o1) @ o2) =
      sc_stream g e ((sc_expect SC_EXPECT_STREAMINFO s2)\<lparr>sc_video_receiver := Some vr, sc_state_finished := True\<rparr>, ((?o0 @ o1) @ o2) @ o3)"
      "profiles vr = map resolution_profile rs"
    using after_bang_goes_on [OF ev bang(2)] by blast
  let ?s3 = "(sc_expect SC_EXPECT_STREAMINFO s2)\<lparr>sc_video_receiver := Some vr, sc_state_finished := True\<rparr>"
  have "chiaki_stream_connection_run g e s = sc_stream g e (?s3, ((?o0 @ o1) @ o2) @ o3)"
    using r s0(6) bang(1) info(1) by (simp add: run_handshake [OF assms(1)] sc_handshake_def s0_def [symmetric])
  moreover have "sc_agreed g a b ?s3 (((?o0 @ o1) @ o2) @ o3)"
    using bang(3) by (rule agreed_later) (auto simp: sc_expect_def)
  ultimately show ?thesis using info(2) by (intro exI [of _ ?s3] exI [of _ "((?o0 @ o1) @ o2) @ o3"] exI [of _ vr]) simp
qed

text \<open>
  C2. With a console that takes part the handshake succeeds and the run goes on with the stream. Before, the client has sent a message with its
  public key in which the console reads, with the keys of the session, the description of the wanted stream; both sides have derived the same secret,
  of which the ciphers are made that Takion is given; and the video receiver has the profiles that the console announced. The signature
  of the key of the console does not matter.
\<close>

theorem stream_handshake:
  assumes "sc_console g e a b rs" "sc_fresh s"
  shows "\<exists>s' outs vr. chiaki_stream_connection_run g e s = sc_stream g e (s', outs) \<and> sc_agreed g a b s' outs \<and>
     sc_video_receiver s' = Some vr \<and> profiles vr = map resolution_profile rs"
  using assms by (rule stream_run_agrees)

text \<open>Both waits for messages of the sample run see other events first.\<close>

lemma sample_curve_ok: "ec_ok sample_curve"
  by (simp add: ec_ok_def sample_curve_def mult.commute)

lemma sample_answered: "sc_answered sample_stream_pb ev (sample_sc_wait ev)"
proof -
  let ?ws1 = "[(Wake_Signal, [SC_Takion (TE_DATA_ACK 3) sample_cb_env])]"
  have "snd (sample_sc_wait ev) = ?ws1 @ (Wake_Signal, [sample_message [7]] @ ev # []) # []" by (simp add: sample_sc_wait_def)
  moreover have "\<forall>(_, evs) \<in> set (?ws1 @ []) \<union> {(Wake_Signal, [sample_message [7]]), (Wake_Signal, [])}. \<forall>ev \<in> set evs. sc_quiet sample_stream_pb ev"
    by (simp add: sample_message_def sample_stream_pb_def)
  moreover have "snd (set_timeout (fst (sample_sc_wait ev)) SC_EXPECT_TIMEOUT_MS) < 1000000000" by (simp add: sample_sc_wait_def set_timeout_def)
  ultimately show ?thesis unfolding sc_answered_def by fastforce
qed

lemma sample_hash_ok: "cr_hash_ok example_crypto"
  by (simp add: cr_hash_ok_def example_crypto_sha) (simp add: example_crypto_def)

lemma sample_bang: "good_bang sample_config 11 (sample_message [1])"
  by (simp add: good_bang_def sample_message_def sample_config_def sample_stream_pb_def sample_cb_env_def gk_new_ok_def pb_message_def Let_def)

lemma sample_info: "good_streaminfo sample_config sample_resolutions (sample_message [2])"
  by (simp add: good_streaminfo_def sample_message_def sample_config_def sample_stream_pb_def sample_cb_env_def sample_resolutions_def pb_message_def Let_def)

lemma sample_console: "sc_console sample_config sample_stream_env 5 11 sample_resolutions"
proof -
  have rp: "rp_crypto_ok example_rp_crypto" using example_env_ok by (simp add: env_ok_def example_ctrl_env_def)
  have pb: "sg_pb sample_config = sample_stream_pb" by (simp add: sample_config_def)
  have "\<exists>ce. sc_answered sample_stream_pb (SC_Takion TE_CONNECTED ce) (su_connect_wait sample_stream_env)"
    using sample_answered by (auto simp: sample_stream_env_def)
  moreover have "\<exists>ev. good_bang sample_config 11 ev \<and> sc_answered sample_stream_pb ev (su_bang_wait sample_stream_env)"
    using sample_answered [of "sample_message [1]"] sample_bang by (auto simp: sample_stream_env_def)
  moreover have "\<exists>ev. good_streaminfo sample_config sample_resolutions ev \<and> sc_answered sample_stream_pb ev (su_streaminfo_wait sample_stream_env)"
    using sample_answered [of "sample_message [2]"] sample_info by (auto simp: sample_stream_env_def)
  moreover have "length (pb_enc sample_stream_pb m) \<le> 2048" for m by (simp add: sample_stream_pb_def)
  ultimately show ?thesis
    using sample_curve_ok sample_hash_ok rp
    by (simp add: sc_console_def pb sc_created_def) (simp add: sample_config_def sample_stream_env_def example_session_def)
qed

theorem stream_handshake_witness:
  "\<exists>s' outs vr. chiaki_stream_connection_run sample_config sample_stream_env sample_stream = sc_stream sample_config sample_stream_env (s', outs) \<and>
     sc_agreed sample_config 5 11 s' outs \<and> sc_video_receiver s' = Some vr \<and>
     profiles vr = [\<lparr>video_profile.vp_width = 1280, vp_height = 720, vp_header = [1, 2, 3]\<rparr>]"
proof -
  have "sc_fresh sample_stream" by (simp add: sc_fresh_def sample_stream_def chiaki_stream_connection_init_def)
  from stream_handshake [OF sample_console this] show ?thesis by (simp add: sample_resolutions_def resolution_profile_def)
qed

end
