(* ===== verification/Platform.thy ===== *)
theory Platform
  imports Common
begin

text \<open>
  \<open>lib/src/random.c\<close> (OpenSSL build), \<open>lib/src/time.c\<close> and \<open>lib/src/sock.c\<close> (POSIX): small functions around calls of the platform, whose results are
  arguments.
\<close>

section \<open>Random numbers\<close>

text \<open>\<open>r\<close> is the result of \<open>RAND_bytes\<close>.\<close>

definition chiaki_random_bytes_crypt :: "int \<Rightarrow> ChiakiErrorCode" where
  "chiaki_random_bytes_crypt r = (if r = 0 then CHIAKI_ERR_UNKNOWN else CHIAKI_ERR_SUCCESS)"

text \<open>\<open>RAND_bytes\<close> returns 1 on success, 0 on failure, and -1 if it is not supported, which counts as success.\<close>

lemma random_unsupported_succeeds: "chiaki_random_bytes_crypt (- 1) = CHIAKI_ERR_SUCCESS"
  by (simp add: chiaki_random_bytes_crypt_def)

text \<open>\<open>rand_r\<close> is the result of \<open>rand\<close>.\<close>

definition chiaki_random_32 :: "int \<Rightarrow> u32" where
  "chiaki_random_32 rand_r = word_of_int rand_r mod 0xffffffff"

text \<open>With a \<open>RAND_MAX\<close> of 31 bits the highest bit is never set.\<close>

lemma random_32_value:
  assumes "0 \<le> r" "r < 2 ^ 31"
  shows "chiaki_random_32 r = word_of_int r" "chiaki_random_32 r < 0x80000000"
proof -
  have u: "uint (word_of_int r :: u32) = r" using assms by (simp add: take_bit_int_eq_self unsigned_of_int)
  then have "uint (chiaki_random_32 r) = r" using assms by (simp add: chiaki_random_32_def uint_mod)
  then show e: "chiaki_random_32 r = word_of_int r" using u by (metis word_uint_eqI)
  show "chiaki_random_32 r < 0x80000000" using u assms by (simp add: e word_less_def)
qed

section \<open>Time\<close>

text \<open>Seconds and nanoseconds of the monotonic clock; the arithmetic is that of \<open>long\<close>.\<close>

definition chiaki_time_now_monotonic_us :: "int \<times> int \<Rightarrow> u64" where
  "chiaki_time_now_monotonic_us time = word_of_int (fst time * 1000000 + snd time div 1000)"

definition chiaki_time_now_monotonic_ms :: "int \<times> int \<Rightarrow> u64" where
  "chiaki_time_now_monotonic_ms time = chiaki_time_now_monotonic_us time div 1000"

text \<open>The milliseconds are those of the clock, for some hundred thousand years.\<close>

lemma time_now_monotonic_ms_value:
  assumes "0 \<le> s" "s < 2 ^ 43" "0 \<le> ns" "ns < 1000000000"
  shows "uint (chiaki_time_now_monotonic_ms (s, ns)) = (s * 1000000000 + ns) div 1000000"
proof -
  define us where "us = s * 1000000 + ns div 1000"
  have n: "0 \<le> ns div 1000" "ns div 1000 < 1000000" using assms(3,4) by (simp_all add: pos_imp_zdiv_nonneg_iff div_less_iff_less_mult)
  then have "0 \<le> us" "us < 2 ^ 64" using assms(1,2) by (simp_all add: us_def)
  then have u: "uint (chiaki_time_now_monotonic_us (s, ns)) = us"
    by (simp add: chiaki_time_now_monotonic_us_def take_bit_int_eq_self unsigned_of_int del: of_int_add of_int_mult flip: us_def)
  have "(s * 1000000000 + ns) div 1000000 = (s * 1000000000 + ns) div 1000 div 1000" by (simp add: zdiv_zmult2_eq [symmetric])
  also have "(s * 1000000000 + ns) div 1000 = us" by (simp add: us_def)
  finally show ?thesis using u by (simp add: chiaki_time_now_monotonic_ms_def uint_div)
qed

section \<open>Sockets\<close>

abbreviation "O_NONBLOCK \<equiv> 0x800 :: u32"

text \<open>\<open>flags\<close> is the result of \<open>F_GETFL\<close> (\<open>None\<close>: -1) and \<open>setfl_ok\<close> tells whether \<open>F_SETFL\<close> succeeds; the second result is what it is given.\<close>

definition chiaki_socket_set_nonblock :: "bool \<Rightarrow> u32 option \<Rightarrow> bool \<Rightarrow> ChiakiErrorCode \<times> u32 option" where
  "chiaki_socket_set_nonblock nonblock flags setfl_ok =
     (case flags of
        None \<Rightarrow> (CHIAKI_ERR_UNKNOWN, None)
      | Some flags \<Rightarrow>
          let flags = (if nonblock then flags OR O_NONBLOCK else flags AND NOT O_NONBLOCK)
          in (if setfl_ok then CHIAKI_ERR_SUCCESS else CHIAKI_ERR_UNKNOWN, Some flags))"

text \<open>Only the one flag changes.\<close>

lemma set_nonblock_flag:
  "chiaki_socket_set_nonblock nonblock (Some flags) True = (CHIAKI_ERR_SUCCESS, Some new) \<Longrightarrow>
   bit new n = (if n = 11 then nonblock else bit flags n)"
proof -
  have "O_NONBLOCK = push_bit 11 1" by simp
  then have b: "bit O_NONBLOCK n \<longleftrightarrow> n = 11" by (simp only: bit_push_bit_iff) (auto simp: bit_simps)
  assume "chiaki_socket_set_nonblock nonblock (Some flags) True = (CHIAKI_ERR_SUCCESS, Some new)"
  then have "new = (if nonblock then flags OR O_NONBLOCK else flags AND NOT O_NONBLOCK)" by (simp add: chiaki_socket_set_nonblock_def)
  then show ?thesis using b by (auto simp: bit_simps dest: bit_imp_le_length)
qed

end
