(* ===== verification/Session_Stream.thy ===== *)
theory Session_Stream
  imports Session_Ends Senkusha_Ends Stream_Handshake Platform
begin

text \<open>
  The part of \<open>session_thread_func\<close> (\<open>lib/src/session.c\<close>) that puts the network test, the key exchange and the stream connection together. \<open>Session\<close> has it
  with the results of these as arguments; here it calls their models.
\<close>

section \<open>Definitions\<close>

text \<open>
  What the parts need: their environments, the result of \<open>RAND_bytes\<close> with the bytes, and what the other threads do to the session during the stream.
  The nanopb of the test and that of the stream are separate arguments.
\<close>

record 'p session_parts =
  sp_senkusha_pb :: nanopb
  sp_senkusha_init :: "ChiakiErrorCode \<times> ChiakiErrorCode"
  sp_senkusha :: senkusha_env
  sp_random :: "int \<times> bytes"
  sp_curve :: "'p ec_curve"
  sp_ecdh :: ecdh_init_env
  sp_pb :: nanopb
  sp_rp_crypto :: rp_crypto
  sp_crypto :: crypto
  sp_sinks :: audio_sinks
  sp_stream :: sc_run_env
  sp_during :: "ctrl_state \<Rightarrow> ctrl_state"

datatype parts_out = Part_Senkusha sk_out | Part_Stream sc_out

text \<open>The results of the test that are stored in the session; those of a test that fails are replaced.\<close>

definition session_measured :: "senkusha_result \<Rightarrow> session \<Rightarrow> session" where
  "session_measured r s =
     s\<lparr>s_mtu_in := (case sr_mtu_in_out r of None \<Rightarrow> s_mtu_in s | Some m \<Rightarrow> m),
       s_mtu_out := (case sr_mtu_out_out r of None \<Rightarrow> s_mtu_out s | Some m \<Rightarrow> m),
       s_rtt_us := (case sr_rtt_out r of None \<Rightarrow> s_rtt_us s | Some t \<Rightarrow> t)\<rparr>"

definition session_fallback :: "session \<Rightarrow> session" where
  "session_fallback s = s\<lparr>s_mtu_in := 1454, s_mtu_out := 1454, s_rtt_us := 1000\<rparr>"

definition session_sc_config :: "'p session_parts \<Rightarrow> session \<Rightarrow> 'p ecdh \<Rightarrow> 'p sc_config" where
  "session_sc_config p s ecdh =
     \<lparr>sg_session = s, sg_curve = sp_curve p, sg_ecdh = ecdh, sg_pb = sp_pb p, sg_rp_crypto = sp_rp_crypto p, sg_crypto = sp_crypto p, sg_sinks = sp_sinks p\<rparr>"

text \<open>The reason to quit, from the result of the stream. \<open>None\<close>: a null pointer is copied as the reason of the console.\<close>

definition session_stream_result :: "ChiakiErrorCode \<Rightarrow> stream_connection \<Rightarrow> session \<Rightarrow> session option" where
  "session_stream_result err sc s =
     (if err = CHIAKI_ERR_DISCONNECTED then
        map_option (\<lambda>reason. s\<lparr>s_quit_reason := CHIAKI_QUIT_REASON_STREAM_CONNECTION_REMOTE_DISCONNECTED, s_quit_reason_str := Some reason\<rparr>)
          (sc_remote_disconnect_reason sc)
      else if err \<noteq> CHIAKI_ERR_SUCCESS \<and> err \<noteq> CHIAKI_ERR_CANCELED then Some (s\<lparr>s_quit_reason := CHIAKI_QUIT_REASON_STREAM_CONNECTION_UNKNOWN\<rparr>)
      else Some (s\<lparr>s_quit_reason := CHIAKI_QUIT_REASON_STOPPED\<rparr>))"

definition session_parts_end :: "'p session_parts \<Rightarrow> ctrl_state \<Rightarrow> parts_out list \<Rightarrow> (sc_run_result \<times> sc_st) option \<Rightarrow> (ctrl_state \<times> parts_out list) option" where
  "session_parts_end p st outs run = do {
     (rr, sc, outs') \<leftarrow> run;
     case sp_during p st of (c, s) \<Rightarrow> do {
       s \<leftarrow> session_stream_result (rr_err rr) sc s;
       Some ((c, s), outs @ map Part_Stream outs') } }"

text \<open>From the random bytes on.\<close>

definition session_parts_stream :: "'p session_parts \<Rightarrow> stream_connection \<Rightarrow> ctrl_state \<Rightarrow> parts_out list \<Rightarrow> (ctrl_state \<times> parts_out list) option" where
  "session_parts_stream p sc st outs =
     (case st of (c, s) \<Rightarrow>
        if chiaki_random_bytes_crypt (fst (sp_random p)) \<noteq> CHIAKI_ERR_SUCCESS then Some ((c, s), outs)
        else let s = s\<lparr>s_handshake_key := snd (sp_random p)\<rparr> in
          case chiaki_ecdh_init (sp_curve p) (sp_ecdh p) of (err, ecdh) \<Rightarrow>
            if err \<noteq> CHIAKI_ERR_SUCCESS then Some ((c, s), outs)
            else session_parts_end p (c, s) outs (chiaki_stream_connection_run (session_sc_config p s (the ecdh)) (sp_stream p) sc))"

definition session_parts_run :: "'p session_parts \<Rightarrow> stream_connection \<Rightarrow> ctrl_state \<Rightarrow> (ctrl_state \<times> parts_out list) option" where
  "session_parts_run p sc st =
     (case st of (c, s) \<Rightarrow>
        case chiaki_senkusha_init (fst (sp_senkusha_init p)) (snd (sp_senkusha_init p)) of (err, senkusha) \<Rightarrow>
          if err \<noteq> CHIAKI_ERR_SUCCESS then Some ((c, s), [])
          else do {
            (r, _, outs) \<leftarrow> chiaki_senkusha_run (sp_senkusha_pb p) (sp_senkusha p) (the senkusha);
            let outs = map Part_Senkusha outs;
            let s = session_measured r s;
            if sr_err r = CHIAKI_ERR_CANCELED then Some ((c, s), outs)
            else session_parts_stream p sc (c, if sr_err r = CHIAKI_ERR_SUCCESS then s else session_fallback s) outs })"

section \<open>It is the abstract one\<close>

text \<open>The arguments of \<open>session_stream\<close> that are the results of the parts.\<close>

definition parts_results ::
  "'p session_parts \<Rightarrow> senkusha_result \<Rightarrow> ChiakiErrorCode \<Rightarrow> bytes \<Rightarrow> session \<Rightarrow> session_env \<Rightarrow> session_env" where
  "parts_results p r run_err reason s env =
     env\<lparr>se_senkusha_init := fst (chiaki_senkusha_init (fst (sp_senkusha_init p)) (snd (sp_senkusha_init p))),
       se_senkusha_run := (sr_err r, s_mtu_in (session_measured r s), s_mtu_out (session_measured r s), s_rtt_us (session_measured r s)),
       se_random := (chiaki_random_bytes_crypt (fst (sp_random p)), snd (sp_random p)),
       se_ecdh_init := fst (chiaki_ecdh_init (sp_curve p) (sp_ecdh p)),
       se_stream_during := sp_during p, se_stream_run := run_err, se_remote_disconnect_reason := reason\<rparr>"

text \<open>
  Whatever the parts do, the state in which the thread goes on is the one that \<open>session_stream\<close> gives for their results, among them that of the network test.
\<close>

definition session_stream_quit :: "ChiakiErrorCode \<Rightarrow> bytes \<Rightarrow> session \<Rightarrow> session" where
  "session_stream_quit err reason s =
     (if err = CHIAKI_ERR_DISCONNECTED
      then s\<lparr>s_quit_reason := CHIAKI_QUIT_REASON_STREAM_CONNECTION_REMOTE_DISCONNECTED, s_quit_reason_str := Some reason\<rparr>
      else if err \<noteq> CHIAKI_ERR_SUCCESS \<and> err \<noteq> CHIAKI_ERR_CANCELED
      then s\<lparr>s_quit_reason := CHIAKI_QUIT_REASON_STREAM_CONNECTION_UNKNOWN\<rparr>
      else s\<lparr>s_quit_reason := CHIAKI_QUIT_REASON_STOPPED\<rparr>)"

lemma stream_result_cases: "session_stream_result err sc s = Some s' \<Longrightarrow> \<exists>reason. s' = session_stream_quit err reason s"
  by (auto simp: session_stream_result_def session_stream_quit_def split: if_split_asm)

lemma parts_end_cases:
  assumes "session_parts_end p st outs run = Some (st', outs')"
  shows "\<exists>err reason. st' = map_prod id (session_stream_quit err reason) (sp_during p st)"
proof -
  obtain rr sc outs2 where run: "run = Some (rr, sc, outs2)" using assms by (cases run) (auto simp: session_parts_end_def)
  obtain c s where d: "sp_during p st = (c, s)" by fastforce
  obtain s' where r: "session_stream_result (rr_err rr) sc s = Some s'" "st' = (c, s')"
    using assms unfolding run session_parts_end_def d by (auto split: Option.bind_split_asm)
  obtain reason where "s' = session_stream_quit (rr_err rr) reason s" using stream_result_cases [OF r(1)] by blast
  then show ?thesis unfolding d r(2) by (intro exI [of _ "rr_err rr"] exI [of _ reason]) simp
qed

lemma session_parts_refine:
  assumes "session_parts_run p sc (c, s) = Some (st, outs)"
  shows "\<exists>r run_err reason. session_stream (parts_results p r run_err reason s env) (c, s) = st \<and>
     (\<forall>senkusha. chiaki_senkusha_init (fst (sp_senkusha_init p)) (snd (sp_senkusha_init p)) = (CHIAKI_ERR_SUCCESS, Some senkusha) \<longrightarrow>
        map_option fst (chiaki_senkusha_run (sp_senkusha_pb p) (sp_senkusha p) senkusha) = Some r)"
proof -
  obtain err senkusha where i: "chiaki_senkusha_init (fst (sp_senkusha_init p)) (snd (sp_senkusha_init p)) = (err, senkusha)" by fastforce
  show ?thesis
  proof (cases "err = CHIAKI_ERR_SUCCESS")
    case False
    then show ?thesis
      using assms i by (intro exI [of _ "senkusha_failed CHIAKI_ERR_UNKNOWN False"]) (auto simp: session_parts_run_def session_stream_def parts_results_def)
  next
    case True
    then obtain r sk outs1 where r: "chiaki_senkusha_run (sp_senkusha_pb p) (sp_senkusha p) (the senkusha) = Some (r, sk, outs1)"
      using assms i by (auto simp: session_parts_run_def split: Option.bind_split_asm)
    define s1 where "s1 = (if sr_err r = CHIAKI_ERR_SUCCESS then session_measured r s else session_fallback s)"
    have m: "session_fallback (session_measured r s) = session_fallback s" by (simp add: session_fallback_def session_measured_def)
    show ?thesis
    proof (cases "sr_err r = CHIAKI_ERR_CANCELED")
      case True
      then show ?thesis
        using assms i r \<open>err = CHIAKI_ERR_SUCCESS\<close>
        by (intro exI [of _ r]) (auto simp: session_parts_run_def session_stream_def parts_results_def session_measured_def)
    next
      case False
      have p: "session_parts_stream p sc (c, s1) (map Part_Senkusha outs1) = Some (st, outs)"
        using assms i r \<open>err = CHIAKI_ERR_SUCCESS\<close> False m by (simp add: session_parts_run_def s1_def Let_def split: if_split_asm)
      have a: "session_stream (parts_results p r run_err reason s env) (c, s) =
          (if chiaki_random_bytes_crypt (fst (sp_random p)) \<noteq> CHIAKI_ERR_SUCCESS then (c, s1)
           else let s = s1\<lparr>s_handshake_key := snd (sp_random p)\<rparr> in
             if fst (chiaki_ecdh_init (sp_curve p) (sp_ecdh p)) \<noteq> CHIAKI_ERR_SUCCESS then (c, s)
             else map_prod id (session_stream_quit run_err reason) (sp_during p (c, s)))" for run_err reason
        using i \<open>err = CHIAKI_ERR_SUCCESS\<close> False
        by (simp add: session_stream_def parts_results_def s1_def session_measured_def session_fallback_def session_stream_quit_def Let_def split: prod.split)
      show ?thesis
      proof (cases "chiaki_random_bytes_crypt (fst (sp_random p)) = CHIAKI_ERR_SUCCESS \<and> fst (chiaki_ecdh_init (sp_curve p) (sp_ecdh p)) = CHIAKI_ERR_SUCCESS")
        case True
        obtain ecdh where e: "chiaki_ecdh_init (sp_curve p) (sp_ecdh p) = (CHIAKI_ERR_SUCCESS, ecdh)" using True by (metis prod.collapse)
        have "\<exists>run_err reason. session_stream (parts_results p r run_err reason s env) (c, s) = st"
          using p True e unfolding a by (auto simp: session_parts_stream_def Let_def dest!: parts_end_cases)
        then show ?thesis using i r \<open>err = CHIAKI_ERR_SUCCESS\<close> by (intro exI [of _ r]) auto
      next
        case False
        have "session_stream (parts_results p r run_err reason s env) (c, s) = st" for run_err reason
          using p False unfolding a by (auto simp: session_parts_stream_def Let_def split: if_split_asm prod.split_asm)
        then show ?thesis using i r \<open>err = CHIAKI_ERR_SUCCESS\<close> by (intro exI [of _ r]) auto
      qed
    qed
  qed
qed

section \<open>A session with a console that takes part\<close>

text \<open>What the session holds when the stream begins.\<close>

definition session_measured_as :: "u32 \<Rightarrow> u32 \<Rightarrow> u64 \<Rightarrow> bytes \<Rightarrow> session \<Rightarrow> session" where
  "session_measured_as mtu_in mtu_out rtt_us key s = s\<lparr>s_mtu_in := mtu_in, s_mtu_out := mtu_out, s_rtt_us := rtt_us, s_handshake_key := key\<rparr>"

text \<open>
  The console takes part in the test over a path of at most \<open>M_in\<close> and \<open>M_out\<close> bytes, and in the handshake of the stream with the private key \<open>b\<close>,
  whatever has been measured; the initialisations succeed, with the private key \<open>a\<close> of the client.
\<close>

definition parts_console :: "'p session_parts \<Rightarrow> nat \<Rightarrow> nat \<Rightarrow> nat \<Rightarrow> nat \<Rightarrow> resolution_payload list \<Rightarrow> session \<Rightarrow> bool" where
  "parts_console p M_in M_out a b rs s \<longleftrightarrow>
     sp_senkusha_init p = (CHIAKI_ERR_SUCCESS, CHIAKI_ERR_SUCCESS) \<and> senkusha_console (sp_senkusha_pb p) (sp_senkusha p) M_in M_out \<and>
     fst (sp_random p) = 1 \<and> chiaki_ecdh_init (sp_curve p) (sp_ecdh p) = (CHIAKI_ERR_SUCCESS, Some (ecdh_key (sp_curve p) a)) \<and>
     (\<forall>m_in m_out rtt. sc_console (session_sc_config p (session_measured_as m_in m_out rtt (snd (sp_random p)) s) (ecdh_key (sp_curve p) a)) (sp_stream p) a b rs)"


definition sample_parts :: "u8 session_parts" where
  "sample_parts =
     \<lparr>sp_senkusha_pb = sample_pb, sp_senkusha_init = (CHIAKI_ERR_SUCCESS, CHIAKI_ERR_SUCCESS), sp_senkusha = sample_senkusha, sp_random = (1, replicate 16 7),
      sp_curve = sample_curve, sp_ecdh = \<lparr>ei_group = True, ei_key = True, ei_set_group = True, ei_generate = Some 5\<rparr>, sp_pb = sample_stream_pb,
      sp_rp_crypto = example_rp_crypto, sp_crypto = example_crypto, sp_sinks = sg_sinks sample_config, sp_stream = sample_stream_env, sp_during = (\<lambda>st. st)\<rparr>"

lemma sample_parts_console: "parts_console sample_parts 1000 800 5 11 sample_resolutions example_session"
proof -
  let ?g = "\<lambda>s. session_sc_config sample_parts s (ecdh_key sample_curve 5)"
  have g: "?g s = sample_config\<lparr>sg_session := s\<rparr>" for s by (simp add: session_sc_config_def sample_parts_def sample_config_def)
  have pb: "sg_pb sample_config = sample_stream_pb" by (simp add: sample_config_def)
  have len: "length (pb_enc sample_stream_pb m) \<le> 2048" for m by (simp add: sample_stream_pb_def)
  have same: "good_bang (sample_config\<lparr>sg_session := s\<rparr>) 11 ev = good_bang sample_config 11 ev"
      "good_streaminfo (sample_config\<lparr>sg_session := s\<rparr>) sample_resolutions ev = good_streaminfo sample_config sample_resolutions ev" for s ev
    by (simp_all add: good_bang_def good_streaminfo_def pb len)
  have "sc_console (sample_config\<lparr>sg_session := s\<rparr>) sample_stream_env 5 11 sample_resolutions" if "length (s_handshake_key s) = 16" for s
    using sample_console that by (simp add: sc_console_def same pb len)
  moreover have "chiaki_ecdh_init (sp_curve sample_parts) (sp_ecdh sample_parts) = (CHIAKI_ERR_SUCCESS, Some (ecdh_key (sp_curve sample_parts) 5))"
    by (simp add: chiaki_ecdh_init_def sample_parts_def ecdh_key_def)
  ultimately show ?thesis
    using sample_senkusha_console unfolding parts_console_def
    by (simp add: g [unfolded sample_parts_def] session_measured_as_def) (simp add: sample_parts_def g [unfolded sample_parts_def])
qed


end
