(* ===== verification/Regist.thy ===== *)
theory Regist
  imports Discovery
begin

text \<open>
  \<open>lib/src/regist.c\<close>: the registration with a console: the search for it, the encrypted request with the identity of the user and the PIN, the
  reading of the response with the keys of later sessions, and the thread that does this once. A string is the list of its bytes, a null pointer
  \<open>None\<close>; a field of the registered host has all the bytes of its array.
\<close>

section \<open>Data\<close>

abbreviation "CHIAKI_PSN_ACCOUNT_ID_SIZE \<equiv> 8 :: nat"
abbreviation "REGIST_PORT \<equiv> 9295 :: u16"
abbreviation "SEARCH_REQUEST_SLEEP_MS \<equiv> 100 :: nat"
abbreviation "REGIST_SEARCH_TIMEOUT_MS \<equiv> 3000 :: nat"

record regist_info =
  ri_target :: ChiakiTarget
  ri_host :: bytes
  ri_broadcast :: bool
  ri_psn_online_id :: "bytes option"
  ri_psn_account_id :: bytes
  ri_pin :: u32

record registered_host =
  rh_target :: ChiakiTarget
  rh_ap_ssid :: bytes
  rh_ap_bssid :: bytes
  rh_ap_key :: bytes
  rh_ap_name :: bytes
  rh_server_mac :: bytes
  rh_server_nickname :: bytes
  rh_rp_regist_key :: bytes
  rh_rp_key_type :: u32
  rh_rp_key :: bytes

definition registered_host_zero :: "ChiakiTarget \<Rightarrow> registered_host" where
  "registered_host_zero target =
     \<lparr>rh_target = target, rh_ap_ssid = replicate 0x30 0, rh_ap_bssid = replicate 0x20 0, rh_ap_key = replicate 0x50 0,
      rh_ap_name = replicate 0x20 0, rh_server_mac = replicate 6 0, rh_server_nickname = replicate 0x20 0,
      rh_rp_regist_key = replicate 0x10 0, rh_rp_key_type = 0, rh_rp_key = replicate 0x10 0\<rparr>"

datatype ChiakiRegistEvent =
    CHIAKI_REGIST_EVENT_TYPE_FINISHED_CANCELED
  | CHIAKI_REGIST_EVENT_TYPE_FINISHED_FAILED
  | CHIAKI_REGIST_EVENT_TYPE_FINISHED_SUCCESS registered_host

text \<open>What the thread does: sockets, the list of addresses, what is sent, and the callback.\<close>

datatype regist_out =
    Reg_Udp_Open | Reg_Udp_Close | Reg_Udp_Sent sockaddr bytes
  | Reg_Tcp_Open sockaddr | Reg_Tcp_Close | Reg_Tcp_Sent bytes
  | Reg_Addrinfos | Reg_Free_Addrinfos | Reg_Event ChiakiRegistEvent

section \<open>Starting and ending\<close>

record regist =
  re_info :: regist_info
  re_stop_pipe :: stop_pipe

datatype regist_resource = Reg_Host | Reg_Online_Id | Reg_Pipe | Reg_Thread

text \<open>
  \<open>host_ok\<close> and \<open>id_ok\<close>: the strings can be copied. The results are the error code, the registration, and the resources acquired and, in their
  order, released.
\<close>

definition chiaki_regist_start ::
  "regist_info \<Rightarrow> bool \<Rightarrow> bool \<Rightarrow> int \<Rightarrow> int \<Rightarrow> ChiakiErrorCode \<Rightarrow> ChiakiErrorCode \<times> regist \<times> regist_resource list \<times> regist_resource list" where
  "chiaki_regist_start info host_ok id_ok pipe_r fcntl_r thread_r =
     (let regist = \<lparr>re_info = info, re_stop_pipe = 0\<rparr>;
          id = (if ri_psn_online_id info = None then [] else [Reg_Online_Id]) in
      if \<not> host_ok then (CHIAKI_ERR_MEMORY, regist, [], [])
      else if ri_psn_online_id info \<noteq> None \<and> \<not> id_ok then (CHIAKI_ERR_MEMORY, regist, [Reg_Host], [Reg_Host])
      else case chiaki_stop_pipe_init pipe_r fcntl_r of (err, pipe) \<Rightarrow>
        if err \<noteq> CHIAKI_ERR_SUCCESS then (err, regist, Reg_Host # id, id @ [Reg_Host])
        else let regist = regist\<lparr>re_stop_pipe := pipe\<rparr> in
          if thread_r \<noteq> CHIAKI_ERR_SUCCESS then (thread_r, regist, Reg_Host # id @ [Reg_Pipe], Reg_Pipe # id @ [Reg_Host])
          else (CHIAKI_ERR_SUCCESS, regist, Reg_Host # id @ [Reg_Pipe, Reg_Thread], []))"

definition chiaki_regist_fini :: "regist \<Rightarrow> regist_resource list" where
  "chiaki_regist_fini regist =
     [Reg_Thread, Reg_Pipe] @ (if ri_psn_online_id (re_info regist) = None then [] else [Reg_Online_Id]) @ [Reg_Host]"

definition chiaki_regist_stop :: "regist \<Rightarrow> regist" where
  "chiaki_regist_stop regist = regist\<lparr>re_stop_pipe := chiaki_stop_pipe_stop (re_stop_pipe regist)\<rparr>"

section \<open>The request\<close>

fun regist_request_path :: "ChiakiTarget \<Rightarrow> string" where
  "regist_request_path CHIAKI_TARGET_PS5_UNKNOWN = ''/sie/ps5/rp/sess/rgst''"
| "regist_request_path CHIAKI_TARGET_PS5_1 = ''/sie/ps5/rp/sess/rgst''"
| "regist_request_path CHIAKI_TARGET_PS4_8 = ''/sce/rp/regist''"
| "regist_request_path CHIAKI_TARGET_PS4_9 = ''/sce/rp/regist''"
| "regist_request_path _ = ''/sie/ps4/rp/sess/rgst''"

definition request_head :: "ChiakiTarget \<Rightarrow> nat \<Rightarrow> bytes" where
  "request_head target payload_size =
     ascii ''POST '' @ ascii (regist_request_path target) @ ascii '' HTTP/1.1'' @ [CR, LF] @ ascii '' HTTP/1.1'' @ [CR, LF] @
     ascii ''HOST: 10.0.2.15'' @ [CR, LF] @
     ascii ''User-Agent: remoteplay Windows'' @ [CR, LF] @
     ascii ''Connection: close'' @ [CR, LF] @
     ascii ''Content-Length: '' @ decimal payload_size @ [CR, LF]"

definition request_rp_version :: "string \<Rightarrow> bytes" where
  "request_rp_version version = ascii ''RP-Version: '' @ ascii version @ [CR, LF]"

text \<open>
  The result and the buffer. \<open>None\<close>: a target without version, whose null pointer is printed, or writing beyond the buffer, as two of the checks
  compare with \<open>payload_size\<close>.
\<close>

definition request_header_format :: "nat \<Rightarrow> nat \<Rightarrow> ChiakiTarget \<Rightarrow> (int \<times> bytes) option" where
  "request_header_format buf_size payload_size target =
     (case c_snprintf buf_size (request_head target payload_size) of (cur, buf) \<Rightarrow>
        if cur \<ge> int payload_size then Some (- 1, buf)
        else do {
          (ok, cur, buf) \<leftarrow>
            (if target \<ge> CHIAKI_TARGET_PS4_9 then
               if nat cur > buf_size then None
               else do {
                 rp_version_str \<leftarrow> chiaki_rp_version_string target;
                 let s = buf_size - nat cur;
                 case c_snprintf s (request_rp_version rp_version_str) of (r, text) \<Rightarrow>
                   Some (if r \<ge> int s then (False, cur, take (nat cur) buf @ text) else (True, cur + r, take (nat cur) buf @ text)) }
             else Some (True, cur, buf));
          if \<not> ok then Some (- 1, buf)
          else if cur + 3 > int payload_size then Some (- 1, buf)
          else if cur + 3 > int buf_size then None
          else Some (cur + 2, take (nat cur) buf @ [CR, LF, 0]) })"

definition client_type :: bytes where
  "client_type = ascii ''dabfa2ec873de5839bee8d3f4c0239c4282c07c25c6077a2931afcf0adc0d34f''"

definition client_type_ps4_pre10 :: bytes where
  "client_type_ps4_pre10 = ascii ''Windows''"

definition request_inner_account_id :: "bytes \<Rightarrow> bytes \<Rightarrow> bytes" where
  "request_inner_account_id client account = ascii ''Client-Type: '' @ client @ [CR, LF] @ ascii ''Np-AccountId: '' @ account @ [CR, LF]"

definition request_inner_online_id :: "bytes \<Rightarrow> bytes" where
  "request_inner_online_id online_id = ascii ''Client-Type: Windows'' @ [CR, LF] @ ascii ''Np-Online-Id: '' @ online_id @ [CR, LF]"

abbreviation "inner_header_off \<equiv> 0x1e0 :: nat"

text \<open>The first part of the payload, which hides the ambassador, and the keys.\<close>

definition regist_payload_keys :: "ChiakiTarget \<Rightarrow> bytes \<Rightarrow> u32 \<Rightarrow> (ChiakiErrorCode + bytes \<times> rpcrypt) option" where
  "regist_payload_keys target ambassador pin =
     (let buf = replicate inner_header_off 0x41 in
      if target < CHIAKI_TARGET_PS4_10 then
        let crypt = chiaki_rpcrypt_init_regist_ps4_pre10 ambassador pin in do {
          buf \<leftarrow> store_bytes buf 0x11c (chiaki_rpcrypt_aeropause_ps4_pre10 (rp_ambassador crypt));
          Some (Inr (buf, crypt)) }
      else
        let key_0_off = unat (buf ! 0x18d AND 0x1f); key_1_off = unat (drop_bit 3 (buf ! 0)) in do {
          r \<leftarrow> chiaki_rpcrypt_init_regist target ambassador key_0_off pin;
          case r of
            Inl err \<Rightarrow> Some (Inl err)
          | Inr crypt \<Rightarrow> do {
              r \<leftarrow> chiaki_rpcrypt_aeropause target key_1_off (rp_ambassador crypt);
              case r of
                Inl err \<Rightarrow> Some (Inl err)
              | Inr aeropause \<Rightarrow> do {
                  buf \<leftarrow> store_bytes buf 0xc7 (drop 8 aeropause);
                  buf \<leftarrow> store_bytes buf 0x191 (take 8 aeropause);
                  Some (Inr (buf, crypt)) } } })"

text \<open>The text with the identity of the user.\<close>

definition regist_inner_header :: "ChiakiTarget \<Rightarrow> bytes option \<Rightarrow> bytes option \<Rightarrow> ChiakiErrorCode + bytes" where
  "regist_inner_header target psn_online_id psn_account_id =
     (case (if target < CHIAKI_TARGET_PS4_10 then psn_online_id else None) of
        Some online_id \<Rightarrow> Inr (request_inner_online_id online_id)
      | None \<Rightarrow>
          (case psn_account_id of
             None \<Rightarrow> Inl CHIAKI_ERR_INVALID_DATA
           | Some account_id \<Rightarrow>
               (case chiaki_base64_encode (take CHIAKI_PSN_ACCOUNT_ID_SIZE account_id) (CHIAKI_PSN_ACCOUNT_ID_SIZE * 2) of (err, b64) \<Rightarrow>
                  if err \<noteq> CHIAKI_ERR_SUCCESS then Inl err
                  else Inr (request_inner_account_id (if target < CHIAKI_TARGET_PS4_10 then client_type_ps4_pre10 else client_type)
                         (c_string b64 0)))))"

text \<open>The payload of \<open>*buf_size\<close> bytes and the keys; what a failure leaves in the buffer is not represented.\<close>

definition chiaki_regist_request_payload_format ::
  "rp_crypto \<Rightarrow> ChiakiTarget \<Rightarrow> bytes \<Rightarrow> nat \<Rightarrow> bytes option \<Rightarrow> bytes option \<Rightarrow> u32 \<Rightarrow> (ChiakiErrorCode + bytes \<times> rpcrypt) option" where
  "chiaki_regist_request_payload_format cr target ambassador buf_size psn_online_id psn_account_id pin =
     (if buf_size < inner_header_off then Some (Inl CHIAKI_ERR_BUF_TOO_SMALL)
      else do {
        r \<leftarrow> regist_payload_keys target ambassador pin;
        case r of
          Inl err \<Rightarrow> Some (Inl err)
        | Inr (buf, crypt) \<Rightarrow>
            (case regist_inner_header target psn_online_id psn_account_id of
               Inl err \<Rightarrow> Some (Inl err)
             | Inr inner_header \<Rightarrow>
                 let inner_header_size = fst (c_snprintf (buf_size - inner_header_off) inner_header) in
                 if inner_header_size \<ge> int (buf_size - inner_header_off) then Some (Inl CHIAKI_ERR_BUF_TOO_SMALL)
                 else do {
                   r \<leftarrow> chiaki_rpcrypt_encrypt cr crypt 0 inner_header (nat inner_header_size);
                   Some (case r of Inl err \<Rightarrow> Inl err | Inr encrypted \<Rightarrow> Inr (buf @ encrypted, crypt)) }) })"

section \<open>The search\<close>

text \<open>An address of the console and which of the calls for it succeed.\<close>

record search_addr =
  sd_addr :: sockaddr
  sd_addrlen :: nat
  sd_socket :: bool
  sd_setsockopt :: bool
  sd_bind :: bool
  sd_connect :: bool

text \<open>The address that is sent to, if there is a socket; \<open>len\<close> is \<open>*send_addr_len\<close>.\<close>

fun regist_search_connect :: "bool \<Rightarrow> search_addr list \<Rightarrow> nat \<Rightarrow> sockaddr option \<times> regist_out list" where
  "regist_search_connect broadcast [] len = (None, [])"
| "regist_search_connect broadcast (ai # addrinfos) len =
     (if sa_family (sd_addr ai) \<noteq> AF_INET then regist_search_connect broadcast addrinfos len
      else if sd_addrlen ai > len then regist_search_connect broadcast addrinfos len
      else let send_addr = snd (set_port (sd_addr ai) REGIST_PORT); len = sd_addrlen ai in
        if \<not> sd_socket ai then regist_search_connect broadcast addrinfos len
        else if (if broadcast then sd_setsockopt ai \<and> sd_bind ai else sd_connect ai) then (Some send_addr, [Reg_Udp_Open])
        else map_prod id (\<lambda>outs. Reg_Udp_Open # Reg_Udp_Close # outs) (regist_search_connect broadcast addrinfos len))"

text \<open>A turn of the loop: the time, the stop pipe, what the wait returns and what is received from where (\<open>None\<close>: an error).\<close>

record search_input =
  si_now :: nat
  si_pipe :: stop_pipe
  si_select :: int
  si_ready :: bool
  si_recv :: "(bytes \<times> sockaddr) option"

text \<open>The error code and, on success, who has answered; \<open>None\<close>: still waiting.\<close>

fun regist_search_loop :: "bytes \<Rightarrow> nat \<Rightarrow> search_input list \<Rightarrow> (ChiakiErrorCode \<times> sockaddr option) option" where
  "regist_search_loop res timeout_abs_ms [] = None"
| "regist_search_loop res timeout_abs_ms (i # inputs) =
     (let err = (if si_now i > timeout_abs_ms then CHIAKI_ERR_TIMEOUT
        else chiaki_stop_pipe_select_single (si_pipe i) (si_select i) (Some (si_ready i))) in
      if err \<noteq> CHIAKI_ERR_SUCCESS then Some (err, None)
      else case si_recv i of
        None \<Rightarrow> Some (CHIAKI_ERR_NETWORK, None)
      | Some (buf, recv_addr) \<Rightarrow>
          let buf = take 0xff buf in
          if buf = [] then Some (CHIAKI_ERR_NETWORK, None)
          else if length buf \<ge> length res \<and> take (length res) buf = res then Some (CHIAKI_ERR_SUCCESS, Some recv_addr)
          else regist_search_loop res timeout_abs_ms inputs)"

definition regist_search ::
  "regist_info \<Rightarrow> search_addr list \<Rightarrow> bool \<Rightarrow> nat \<Rightarrow> search_input list \<Rightarrow> (ChiakiErrorCode \<times> sockaddr option) option \<times> regist_out list" where
  "regist_search info addrinfos send_ok start_ms inputs =
     (case regist_search_connect (ri_broadcast info) addrinfos 16 of
        (None, outs) \<Rightarrow> (Some (CHIAKI_ERR_NETWORK, None), outs)
      | (Some send_addr, outs) \<Rightarrow>
          let src = (if chiaki_target_is_ps5 (ri_target info) then ascii ''SRC3'' else ascii ''SRC2'');
              res = (if chiaki_target_is_ps5 (ri_target info) then ascii ''RES3'' else ascii ''RES2'') in
          if \<not> send_ok then (Some (CHIAKI_ERR_NETWORK, None), outs @ [Reg_Udp_Close])
          else case regist_search_loop res (start_ms + REGIST_SEARCH_TIMEOUT_MS) inputs of
            None \<Rightarrow> (None, outs @ [Reg_Udp_Sent send_addr (src @ [0])])
          | Some r \<Rightarrow> (Some r, outs @ [Reg_Udp_Sent send_addr (src @ [0]), Reg_Udp_Close]))"

text \<open>\<open>connect_ok\<close>: the connection to the address is made.\<close>

definition regist_request_connect :: "bool \<Rightarrow> bool \<Rightarrow> sockaddr \<Rightarrow> bool \<times> regist_out list" where
  "regist_request_connect socket_ok connect_ok addr =
     (if \<not> socket_ok then (False, [])
      else if \<not> connect_ok then (False, [Reg_Tcp_Open addr, Reg_Tcp_Close])
      else (True, [Reg_Tcp_Open addr]))"

section \<open>The response\<close>

text \<open>\<open>COPY_STRING\<close>: \<open>sz\<close> is the size of the array \<open>old\<close>; a longer value is left out.\<close>

definition copy_string :: "nat \<Rightarrow> bytes \<Rightarrow> bytes \<Rightarrow> bytes" where
  "copy_string sz val old = (if length val \<ge> sz then old else val @ 0 # drop (length val + 1) old)"

record regist_parsed =
  pa_host :: registered_host
  pa_mac_found :: bool
  pa_regist_key_found :: bool
  pa_key_found :: bool

definition regist_payload_header :: "bool \<Rightarrow> bytes \<times> bytes \<Rightarrow> regist_parsed \<Rightarrow> regist_parsed" where
  "regist_payload_header ps5 header p =
     (case header of (key, val) \<Rightarrow>
        let host = pa_host p in
        if key = ascii ''AP-Ssid'' then p\<lparr>pa_host := host\<lparr>rh_ap_ssid := copy_string 0x30 val (rh_ap_ssid host)\<rparr>\<rparr>
        else if key = ascii ''AP-Bssid'' then p\<lparr>pa_host := host\<lparr>rh_ap_bssid := copy_string 0x20 val (rh_ap_bssid host)\<rparr>\<rparr>
        else if key = ascii ''AP-Key'' then p\<lparr>pa_host := host\<lparr>rh_ap_key := copy_string 0x50 val (rh_ap_key host)\<rparr>\<rparr>
        else if key = ascii ''AP-Name'' then p\<lparr>pa_host := host\<lparr>rh_ap_name := copy_string 0x20 val (rh_ap_name host)\<rparr>\<rparr>
        else if key = (if ps5 then ascii ''PS5-Nickname'' else ascii ''PS4-Nickname'')
        then p\<lparr>pa_host := host\<lparr>rh_server_nickname := copy_string 0x20 val (rh_server_nickname host)\<rparr>\<rparr>
        else if key = (if ps5 then ascii ''PS5-RegistKey'' else ascii ''PS4-RegistKey'') then
          (case parse_hex 0x10 val of (err, out, _) \<Rightarrow>
             if err \<noteq> CHIAKI_ERR_SUCCESS then p\<lparr>pa_host := host\<lparr>rh_rp_regist_key := replicate 0x10 0\<rparr>\<rparr>
             else p\<lparr>pa_host := host\<lparr>rh_rp_regist_key := out @ replicate (0x10 - length out) 0\<rparr>, pa_regist_key_found := True\<rparr>)
        else if key = ascii ''RP-KeyType'' then p\<lparr>pa_host := host\<lparr>rh_rp_key_type := of_nat (strtoul0 val)\<rparr>\<rparr>
        else if key = ascii ''RP-Key'' then
          (case parse_hex 0x10 val of (err, out, n) \<Rightarrow>
             if err \<noteq> CHIAKI_ERR_SUCCESS \<or> n \<noteq> 0x10 then p\<lparr>pa_host := host\<lparr>rh_rp_key := replicate 0x10 0\<rparr>\<rparr>
             else p\<lparr>pa_host := host\<lparr>rh_rp_key := out\<rparr>, pa_key_found := True\<rparr>)
        else if key = (if ps5 then ascii ''PS5-Mac'' else ascii ''PS4-Mac'') then
          (case parse_hex 6 val of (err, out, n) \<Rightarrow>
             if err \<noteq> CHIAKI_ERR_SUCCESS \<or> n \<noteq> 6 then p\<lparr>pa_host := host\<lparr>rh_server_mac := replicate 6 0\<rparr>\<rparr>
             else p\<lparr>pa_host := host\<lparr>rh_server_mac := out\<rparr>, pa_mac_found := True\<rparr>)
        else p)"

text \<open>\<open>mallocs\<close> is the number of headers that can be allocated; the host is not written when the headers cannot be read.\<close>

definition regist_parse_response_payload :: "ChiakiTarget \<Rightarrow> nat \<Rightarrow> bytes \<Rightarrow> ChiakiErrorCode \<times> registered_host option" where
  "regist_parse_response_payload target mallocs buf =
     (case chiaki_http_header_parse mallocs buf of (err, buf, headers) \<Rightarrow>
        if err \<noteq> CHIAKI_ERR_SUCCESS then (err, None)
        else let p = fold (regist_payload_header (chiaki_target_is_ps5 target)) (header_strings buf headers)
                   \<lparr>pa_host = registered_host_zero target, pa_mac_found = False, pa_regist_key_found = False, pa_key_found = False\<rparr> in
          (if \<not> pa_regist_key_found p then CHIAKI_ERR_INVALID_RESPONSE
           else if \<not> pa_key_found p then CHIAKI_ERR_INVALID_RESPONSE
           else if \<not> pa_mac_found p then CHIAKI_ERR_INVALID_RESPONSE
           else CHIAKI_ERR_SUCCESS, Some (pa_host p)))"

definition regist_content_size :: "(bytes \<times> bytes) list \<Rightarrow> nat" where
  "regist_content_size headers = fold (\<lambda>(key, val) n. if key = ascii ''Content-Length'' then strtoul0 val else n) headers 0"

abbreviation "REGIST_BUF_SIZE \<equiv> 0x200 :: nat"

text \<open>The content until \<open>full_size\<close> bytes are there; inputs and results are as for a header.\<close>

fun regist_content_loop :: "nat \<Rightarrow> (ChiakiErrorCode \<times> bytes option) list \<Rightarrow> bytes \<Rightarrow> http_recv" where
  "regist_content_loop full_size inputs buf =
     (if \<not> length buf < full_size then Http_Done CHIAKI_ERR_SUCCESS buf (length buf)
      else case inputs of
        [] \<Rightarrow> Http_Waiting buf
      | (select_r, recv_r) # inputs \<Rightarrow>
          if select_r \<noteq> CHIAKI_ERR_SUCCESS then Http_Done select_r buf (length buf)
          else case recv_r of
            None \<Rightarrow> Http_Done CHIAKI_ERR_NETWORK buf (length buf)
          | Some received \<Rightarrow>
              let received = take (full_size - length buf) received in
              if received = [] then Http_Done CHIAKI_ERR_NETWORK buf (length buf)
              else regist_content_loop full_size inputs (buf @ received))"

declare regist_content_loop.simps [simp del]

text \<open>
  \<open>inputs\<close> is what arrives for the header and \<open>content_inputs\<close> what arrives afterwards. The error code (\<open>None\<close>: still waiting) and, on success, the
  host. The result of the decryption is not looked at: the bytes stay as they are when it fails.
\<close>

definition regist_recv_response ::
  "rp_crypto \<Rightarrow> ChiakiTarget \<Rightarrow> nat \<Rightarrow> nat \<Rightarrow> (ChiakiErrorCode \<times> bytes option) list \<Rightarrow> (ChiakiErrorCode \<times> bytes option) list \<Rightarrow> rpcrypt \<Rightarrow>
   (ChiakiErrorCode option \<times> registered_host option) option" where
  "regist_recv_response cr target mallocs payload_mallocs inputs content_inputs rpcrypt = do {
     r \<leftarrow> chiaki_recv_http_header True REGIST_BUF_SIZE inputs;
     case r of
       Http_Waiting _ \<Rightarrow> Some (None, None)
     | Http_Done err received header_size \<Rightarrow>
         if err \<noteq> CHIAKI_ERR_SUCCESS then Some (Some err, None)
         else case chiaki_http_response_parse mallocs (take header_size received) of (err, code, buf, header) \<Rightarrow>
           if err \<noteq> CHIAKI_ERR_SUCCESS then Some (Some err, None)
           else if code \<noteq> 200 then Some (Some CHIAKI_ERR_UNKNOWN, None)
           else let content_size = regist_content_size (header_strings buf header); full_size = u64_add content_size header_size in
             if content_size = 0 then Some (Some CHIAKI_ERR_INVALID_RESPONSE, None)
             else if full_size > REGIST_BUF_SIZE then Some (Some CHIAKI_ERR_BUF_TOO_SMALL, None)
             else case regist_content_loop full_size content_inputs received of
               Http_Waiting _ \<Rightarrow> Some (None, None)
             | Http_Done err buf _ \<Rightarrow>
                 if err \<noteq> CHIAKI_ERR_SUCCESS then Some (Some err, None)
                 else let payload = drop header_size buf in do {
                   r \<leftarrow> chiaki_rpcrypt_decrypt cr rpcrypt 0 payload (length payload);
                   let payload = (case r of Inl _ \<Rightarrow> payload | Inr decrypted \<Rightarrow> decrypted);
                   case regist_parse_response_payload target payload_mallocs payload of (err, host) \<Rightarrow>
                     Some (Some err, if err = CHIAKI_ERR_SUCCESS then host else None) } }"

section \<open>The thread\<close>

text \<open>
  What the calls of the platform return: random bytes, the addresses (\<open>None\<close>: an error), the search, the stop pipe and the wait of the pause, the
  connection, how many bytes are sent, if it does not fail, and what the waits and \<open>recv\<close> return.
\<close>

record regist_env =
  rg_crypto :: rp_crypto
  rg_random :: "ChiakiErrorCode \<times> bytes"
  rg_addrinfos :: "search_addr list option"
  rg_search_send :: bool
  rg_search_start :: nat
  rg_search_inputs :: "search_input list"
  rg_sleep :: "stop_pipe \<times> int"
  rg_socket :: bool
  rg_connect :: bool
  rg_send_header :: "nat option"
  rg_send_payload :: "nat option"
  rg_mallocs :: nat
  rg_payload_mallocs :: nat
  rg_inputs :: "(ChiakiErrorCode \<times> bytes option) list"
  rg_content_inputs :: "(ChiakiErrorCode \<times> bytes option) list"

datatype regist_status = Reg_Waiting | Reg_Canceled | Reg_Failed | Reg_Success registered_host

text \<open>From the connection for the request to the label \<open>fail_socket\<close> and the closing of the socket.\<close>

definition regist_request ::
  "regist_env \<Rightarrow> ChiakiTarget \<Rightarrow> bytes \<Rightarrow> bytes \<Rightarrow> rpcrypt \<Rightarrow> sockaddr \<Rightarrow> (regist_status \<times> regist_out list) option" where
  "regist_request env target request_header payload crypt recv_addr =
     (case regist_request_connect (rg_socket env) (rg_connect env) recv_addr of (connected, outs) \<Rightarrow>
        if \<not> connected then Some (Reg_Failed, outs)
        else case rg_send_header env of
          None \<Rightarrow> Some (Reg_Failed, outs @ [Reg_Tcp_Close])
        | Some n \<Rightarrow>
            case rg_send_payload env of
              None \<Rightarrow> Some (Reg_Failed, outs @ [Reg_Tcp_Sent (take n request_header), Reg_Tcp_Close])
            | Some m \<Rightarrow>
                let outs = outs @ [Reg_Tcp_Sent (take n request_header), Reg_Tcp_Sent (take m payload)] in do {
                  (err, host) \<leftarrow> regist_recv_response (rg_crypto env) target (rg_mallocs env) (rg_payload_mallocs env)
                    (rg_inputs env) (rg_content_inputs env) crypt;
                  Some (if err = None then (Reg_Waiting, outs)
                    else if err = Some CHIAKI_ERR_CANCELED then (Reg_Canceled, outs @ [Reg_Tcp_Close])
                    else if err \<noteq> Some CHIAKI_ERR_SUCCESS then (Reg_Failed, outs @ [Reg_Tcp_Close])
                    else (Reg_Success (the host), outs @ [Reg_Tcp_Close])) })"

text \<open>From the search to the label \<open>fail_addrinfos\<close>.\<close>

definition regist_search_request ::
  "regist_info \<Rightarrow> regist_env \<Rightarrow> bytes \<Rightarrow> bytes \<Rightarrow> rpcrypt \<Rightarrow> search_addr list \<Rightarrow> (regist_status \<times> regist_out list) option" where
  "regist_search_request info env request_header payload crypt addrinfos =
     (case regist_search info addrinfos (rg_search_send env) (rg_search_start env) (rg_search_inputs env) of
        (None, outs) \<Rightarrow> Some (Reg_Waiting, outs)
      | (Some (err, recv_addr), outs) \<Rightarrow>
          if err = CHIAKI_ERR_CANCELED then Some (Reg_Canceled, outs)
          else if err \<noteq> CHIAKI_ERR_SUCCESS then Some (Reg_Failed, outs)
          else if chiaki_stop_pipe_sleep (fst (rg_sleep env)) (snd (rg_sleep env)) \<noteq> CHIAKI_ERR_TIMEOUT then Some (Reg_Canceled, outs)
          else do {
            (status, outs') \<leftarrow> regist_request env (ri_target info) request_header payload crypt (the recv_addr);
            Some (status, outs @ outs') })"

text \<open>The label \<open>fail\<close>: the callback.\<close>

fun regist_finish :: "regist_status \<Rightarrow> regist_out list" where
  "regist_finish Reg_Waiting = []"
| "regist_finish Reg_Canceled = [Reg_Event CHIAKI_REGIST_EVENT_TYPE_FINISHED_CANCELED]"
| "regist_finish Reg_Failed = [Reg_Event CHIAKI_REGIST_EVENT_TYPE_FINISHED_FAILED]"
| "regist_finish (Reg_Success host) = [Reg_Event (CHIAKI_REGIST_EVENT_TYPE_FINISHED_SUCCESS host)]"

definition regist_thread_func :: "regist_info \<Rightarrow> regist_env \<Rightarrow> (regist_status \<times> regist_out list) option" where
  "regist_thread_func info env =
     (let fail = Some (Reg_Failed, regist_finish Reg_Failed) in
      case rg_random env of (err, ambassador) \<Rightarrow>
        if err \<noteq> CHIAKI_ERR_SUCCESS then fail
        else do {
          r \<leftarrow> chiaki_regist_request_payload_format (rg_crypto env) (ri_target info) ambassador 0x400
            (ri_psn_online_id info) (Some (ri_psn_account_id info)) (ri_pin info);
          case r of
            Inl err \<Rightarrow> fail
          | Inr (payload, crypt) \<Rightarrow> do {
              (request_header_size, request_header) \<leftarrow> request_header_format 0x100 (length payload) (ri_target info);
              if request_header_size < 0 \<or> request_header_size \<ge> 0x100 then fail
              else case rg_addrinfos env of
                None \<Rightarrow> fail
              | Some addrinfos \<Rightarrow> do {
                  (status, outs) \<leftarrow> regist_search_request info env (take (nat request_header_size) request_header) payload crypt addrinfos;
                  Some (status, Reg_Addrinfos # outs @ (if status = Reg_Waiting then [] else Reg_Free_Addrinfos # regist_finish status)) } } })"

end
