(* ===== verification/Hex_Facts.thy ===== *)
theory Hex_Facts
  imports Hex_Utils
begin

text \<open>
  Correct hexadecimal, which \<open>parse_hex\<close> of \<open>lib/src/utils.h\<close> reads: consoles and \<open>lib/src/log.c\<close> write it, unlike \<open>format_hex\<close>.
\<close>

text \<open>Two lower-case digits for every byte.\<close>

definition hex_digit :: "u8 \<Rightarrow> u8" where
  "hex_digit v = (if v < 0xa then 0x30 + v else 0x57 + v)"

definition hex_text :: "bytes \<Rightarrow> bytes" where
  "hex_text bs = concat (map (\<lambda>v. [hex_digit (drop_bit 4 v), hex_digit (v AND 0xf)]) bs)"

lemma nibble_value_hex_digit_all: "list_all (\<lambda>v. nibble_value (hex_digit v) = uint v) (map of_nat [0..<16])"
  by (simp add: upt_rec nibble_value_def hex_digit_def)

lemma nibble_value_hex_digit: "v \<le> 0xf \<Longrightarrow> nibble_value (hex_digit v) = uint v"
  using nibble_value_hex_digit_all nibble_cases unfolding list_all_iff by blast

lemma parse_hex_loop_text: "parse_hex_loop (hex_text bs) out = (CHIAKI_ERR_SUCCESS, out @ bs)"
proof (induction bs arbitrary: out)
  case (Cons v bs)
  then show ?case
    using byte_join [of v] by (simp add: hex_text_def nibble_value_hex_digit byte_nibbles Let_def)
qed (simp add: hex_text_def)

lemma parse_hex_text: "length bs \<le> n \<Longrightarrow> parse_hex n (hex_text bs) = (CHIAKI_ERR_SUCCESS, bs, length bs)"
proof -
  have "length (hex_text bs) = 2 * length bs" unfolding hex_text_def by (induction bs) simp_all
  then show "length bs \<le> n \<Longrightarrow> parse_hex n (hex_text bs) = (CHIAKI_ERR_SUCCESS, bs, length bs)"
    by (simp add: parse_hex_def parse_hex_loop_text)
qed

lemma length_hex_text: "length (hex_text bs) = 2 * length bs"
  unfolding hex_text_def by (induction bs) simp_all

end
