(* ===== verification/Regist_Ends.thy ===== *)
theory Regist_Ends
  imports Regist Ctrl_Connect_Ends Hex_Facts
begin

text \<open>
  Facts on the registration: what is sent to the console, what its response makes of the host, and how the thread ends.
\<close>

section \<open>The request\<close>

definition regist_request_text :: "ChiakiTarget \<Rightarrow> nat \<Rightarrow> bytes" where
  "regist_request_text target payload_size =
     request_head target payload_size @
     (case chiaki_rp_version_string target of
        Some version \<Rightarrow> if target \<ge> CHIAKI_TARGET_PS4_9 then request_rp_version version else []
      | None \<Rightarrow> []) @ [CR, LF]"

lemma length_request_path: "length (regist_request_path target) \<le> 21"
  by (cases target) simp_all

lemma length_decimal_payload: "n \<le> 0x400 \<Longrightarrow> length (decimal n) \<le> 4"
proof -
  assume "n \<le> 0x400"
  then have "n < 10000" by simp
  then show ?thesis by (simp add: decimal.simps [of n] decimal.simps [of "n div 10"] decimal.simps [of "n div 10 div 10"] decimal.simps [of "n div 10 div 10 div 10"])
qed

lemma length_request_head: "n \<le> 0x400 \<Longrightarrow> length (request_head target n) \<le> 200"
  using length_request_path [of target] length_decimal_payload [of n] by (simp add: request_head_def)

lemma length_request_rp_version: "chiaki_rp_version_string target = Some v \<Longrightarrow> length (request_rp_version v) \<le> 18"
  by (cases target) (auto simp: request_rp_version_def)

lemma request_header_formatted:
  assumes "target \<noteq> CHIAKI_TARGET_PS5_UNKNOWN" "inner_header_off \<le> n" "n \<le> 0x400"
  shows "request_header_format 0x100 n target = Some (int (length (regist_request_text target n)), regist_request_text target n @ [0])"
    and "length (regist_request_text target n) < 0x100"
proof -
  have h: "length (request_head target n) \<le> 200" by (rule length_request_head [OF assms(3)])
  have "target = CHIAKI_TARGET_PS4_UNKNOWN \<or> target = CHIAKI_TARGET_PS4_8 \<or>
      \<not> \<not> (target \<ge> CHIAKI_TARGET_PS4_9) \<and> (\<exists>v. chiaki_rp_version_string target = Some v)"
    using assms(1) by (cases target) (simp_all add: target_order)
  then consider "\<not> target \<ge> CHIAKI_TARGET_PS4_9" | v where "target \<ge> CHIAKI_TARGET_PS4_9" "chiaki_rp_version_string target = Some v"
    by (auto simp: target_order)
  then have "request_header_format 0x100 n target = Some (int (length (regist_request_text target n)), regist_request_text target n @ [0]) \<and>
      length (regist_request_text target n) < 0x100"
  proof cases
    case 1
    then show ?thesis
      using h assms(2) by (simp add: request_header_format_def regist_request_text_def c_snprintf_def split: option.split)
  next
    case 2
    have v: "length (request_rp_version v) \<le> 18" by (rule length_request_rp_version [OF 2(2)])
    then show ?thesis
      using h assms(2) 2 by (simp add: request_header_format_def regist_request_text_def c_snprintf_def Let_def)
  qed
  then show "request_header_format 0x100 n target = Some (int (length (regist_request_text target n)), regist_request_text target n @ [0])"
    "length (regist_request_text target n) < 0x100" by blast+
qed

lemma request_header_unknown:
  assumes "inner_header_off \<le> n" "n \<le> 0x400"
  shows "request_header_format 0x100 n CHIAKI_TARGET_PS5_UNKNOWN = None"
  using length_request_head [OF assms(2), of CHIAKI_TARGET_PS5_UNKNOWN] assms(1)
  by (simp add: request_header_format_def c_snprintf_def target_order)

text \<open>Who the user is, as the console reads it.\<close>

definition regist_identity :: "regist_info \<Rightarrow> bytes" where
  "regist_identity info =
     (if ri_target info < CHIAKI_TARGET_PS4_10 \<and> ri_psn_online_id info \<noteq> None then request_inner_online_id (the (ri_psn_online_id info))
      else request_inner_account_id (if ri_target info < CHIAKI_TARGET_PS4_10 then client_type_ps4_pre10 else client_type)
             (base64_text (ri_psn_account_id info)))"

lemma base64_text_nonzero: "0 \<notin> set (base64_text bs)"
proof -
  have c: "0 \<notin> set base64chars" by (simp add: base64chars_ascii)
  have d: "base64_digit n s \<noteq> 0" for n s
  proof -
    have "(63 :: u8) = 2 ^ 6 - 1" by simp
    then have "unat ((ucast (drop_bit s n) :: u8) AND 63) < 64" by (simp only: unat_and_mask) simp
    then have "base64_digit n s \<in> set base64chars" unfolding base64_digit_def by (intro nth_mem) (simp add: length_base64chars)
    then show ?thesis using c by metis
  qed
  have "0 \<notin> set (base64_digits bs)"
    by (induction bs rule: base64_digits.induct) (simp_all add: Let_def d not_sym [OF d])
  then show ?thesis by (auto simp: base64_text_def)
qed

lemma regist_inner_header_eq:
  assumes "length (ri_psn_account_id info) = CHIAKI_PSN_ACCOUNT_ID_SIZE"
  shows "regist_inner_header (ri_target info) (ri_psn_online_id info) (Some (ri_psn_account_id info)) = Inr (regist_identity info)"
proof -
  let ?t = "base64_text (ri_psn_account_id info)"
  have "length ?t = 12" using assms by (simp add: length_base64_text)
  then have "chiaki_base64_encode (ri_psn_account_id info) 16 = (CHIAKI_ERR_SUCCESS, ?t @ [0])" by (simp add: base64_encode_result)
  moreover have "c_string (?t @ [0]) 0 = ?t" using c_string_at [OF base64_text_nonzero, of 0 "[]" "ri_psn_account_id info" "[]"] by simp
  ultimately show ?thesis using assms by (auto simp: regist_inner_header_def regist_identity_def split: option.split)
qed

lemma regist_payload_keys_defined:
  assumes "length ambassador = 0x10"
  shows "\<exists>front crypt. regist_payload_keys target ambassador pin = Some (Inr (front, crypt)) \<and> length front = inner_header_off"
proof (cases "target < CHIAKI_TARGET_PS4_10")
  case True
  then show ?thesis
    by (simp add: regist_payload_keys_def Let_def store_bytes_def chiaki_rpcrypt_aeropause_ps4_pre10_def)
next
  case False
  have o: "unat (0x41 AND 0x1f :: u8) = 1" "unat (drop_bit 3 (0x41 :: u8)) = 8" by (simp_all add: drop_bit_eq_div)
  obtain crypt where c: "chiaki_rpcrypt_init_regist target ambassador 1 pin = Some (Inr crypt)"
    using init_regist_defined [of target ambassador 1 pin] False by (auto simp: chiaki_rpcrypt_init_regist_def split: Option.bind_splits)
  obtain aero where a: "chiaki_rpcrypt_aeropause target 8 (rp_ambassador crypt) = Some (Inr aero)" "length aero = 0x10"
    using aeropause_defined_iff [of target 8 "rp_ambassador crypt"] False by (auto simp: chiaki_rpcrypt_aeropause_def Let_def split: Option.bind_splits)
  show ?thesis using False c a by (simp add: regist_payload_keys_def Let_def o store_bytes_def)
qed

lemma regist_payload_formatted:
  assumes "rp_crypto_ok cr" "regist_payload_keys (ri_target info) ambassador (ri_pin info) = Some (Inr (front, crypt))"
    and "length (ri_psn_account_id info) = CHIAKI_PSN_ACCOUNT_ID_SIZE" "length (regist_identity info) < n - inner_header_off" "n < 2 ^ 31"
  shows "\<exists>encrypted. chiaki_regist_request_payload_format cr (ri_target info) ambassador n (ri_psn_online_id info) (Some (ri_psn_account_id info)) (ri_pin info) =
       Some (Inr (front @ encrypted, crypt)) \<and>
     length encrypted = length (regist_identity info) \<and>
     chiaki_rpcrypt_decrypt cr crypt 0 encrypted (length encrypted) = Some (Inr (regist_identity info))"
proof -
  have "length (regist_identity info) < 2 ^ 31" using assms(4,5) by linarith
  then obtain c where c: "chiaki_rpcrypt_encrypt cr crypt 0 (regist_identity info) (length (regist_identity info)) = Some (Inr c)"
      "length c = length (regist_identity info)"
      "chiaki_rpcrypt_decrypt cr crypt 0 c (length (regist_identity info)) = Some (Inr (regist_identity info))"
    using crypt_roundtrip [OF assms(1), of "regist_identity info" crypt 0] by blast
  then show ?thesis
    using assms(2,4) regist_inner_header_eq [OF assms(3)]
    by (simp add: chiaki_regist_request_payload_format_def c_snprintf_def Let_def)
qed

section \<open>The response\<close>

text \<open>What the lines of a payload say, each key occurring once: a string that is too long is left out.\<close>

definition padded :: "nat \<Rightarrow> bytes option \<Rightarrow> bytes" where
  "padded n v = (case v of None \<Rightarrow> replicate n 0 | Some v \<Rightarrow> if length v < n then v @ replicate (n - length v) 0 else replicate n 0)"

definition described_hex :: "nat \<Rightarrow> bytes option \<Rightarrow> bytes option" where
  "described_hex n v = (case v of None \<Rightarrow> None | Some v \<Rightarrow>
     (case parse_hex n v of (err, out, _) \<Rightarrow> if err = CHIAKI_ERR_SUCCESS then Some out else None))"

definition nickname_key :: "bool \<Rightarrow> bytes" where
  "nickname_key ps5 = (if ps5 then ascii ''PS5-Nickname'' else ascii ''PS4-Nickname'')"

definition regist_key_key :: "bool \<Rightarrow> bytes" where
  "regist_key_key ps5 = (if ps5 then ascii ''PS5-RegistKey'' else ascii ''PS4-RegistKey'')"

definition mac_key :: "bool \<Rightarrow> bytes" where
  "mac_key ps5 = (if ps5 then ascii ''PS5-Mac'' else ascii ''PS4-Mac'')"

definition exactly :: "nat \<Rightarrow> bytes option \<Rightarrow> bytes option" where
  "exactly n v = (case v of Some v \<Rightarrow> if length v = n then Some v else None | None \<Rightarrow> None)"

definition described_parsed :: "ChiakiTarget \<Rightarrow> (bytes \<times> bytes) list \<Rightarrow> regist_parsed" where
  "described_parsed target hs =
     (let ps5 = chiaki_target_is_ps5 target;
          regist_key = described_hex 0x10 (map_of hs (regist_key_key ps5));
          key = exactly 0x10 (described_hex 0x10 (map_of hs (ascii ''RP-Key'')));
          mac = exactly 6 (described_hex 6 (map_of hs (mac_key ps5)))
      in \<lparr>pa_host =
            \<lparr>rh_target = target,
             rh_ap_ssid = padded 0x30 (map_of hs (ascii ''AP-Ssid'')),
             rh_ap_bssid = padded 0x20 (map_of hs (ascii ''AP-Bssid'')),
             rh_ap_key = padded 0x50 (map_of hs (ascii ''AP-Key'')),
             rh_ap_name = padded 0x20 (map_of hs (ascii ''AP-Name'')),
             rh_server_mac = (case mac of Some m \<Rightarrow> m | None \<Rightarrow> replicate 6 0),
             rh_server_nickname = padded 0x20 (map_of hs (nickname_key ps5)),
             rh_rp_regist_key = (case regist_key of Some k \<Rightarrow> k @ replicate (0x10 - length k) 0 | None \<Rightarrow> replicate 0x10 0),
             rh_rp_key_type = (case map_of hs (ascii ''RP-KeyType'') of Some v \<Rightarrow> of_nat (strtoul0 v) | None \<Rightarrow> 0),
             rh_rp_key = (case key of Some k \<Rightarrow> k | None \<Rightarrow> replicate 0x10 0)\<rparr>,
          pa_mac_found = (mac \<noteq> None), pa_regist_key_found = (regist_key \<noteq> None), pa_key_found = (key \<noteq> None)\<rparr>)"

lemma copy_string_padded: "copy_string n v (replicate n 0) = padded n (Some v)"
  by (auto simp: copy_string_def padded_def simp flip: replicate_Suc intro!: arg_cong [of _ _ "\<lambda>k. replicate k 0"])

lemma parse_hex_size: "parse_hex n v = (CHIAKI_ERR_SUCCESS, out, m) \<Longrightarrow> m = length out"
proof -
  have loop: "parse_hex_loop v out0 = (CHIAKI_ERR_SUCCESS, out) \<Longrightarrow> length out = length out0 + length v div 2" for out0 out
    by (induction v out0 rule: parse_hex_loop.induct) (auto simp: Let_def split: if_splits)
  assume "parse_hex n v = (CHIAKI_ERR_SUCCESS, out, m)"
  then show "m = length out" using loop [of "[]"] by (auto simp: parse_hex_def split: if_splits prod.splits)
qed

lemma regist_payload_header_eq:
  assumes "map_of hs k = None"
  shows "regist_payload_header (chiaki_target_is_ps5 target) (k, v) (described_parsed target hs) = described_parsed target ((k, v) # hs)"
proof -
  note defs = regist_payload_header_def described_parsed_def Let_def nickname_key_def regist_key_key_def mac_key_def ascii_inject
  obtain err out n where h: "parse_hex 0x10 v = (err, out, n)" by (metis prod_cases3)
  obtain err' out' n' where h': "parse_hex 6 v = (err', out', n')" by (metis prod_cases3)
  have n: "err = CHIAKI_ERR_SUCCESS \<longrightarrow> n = length out" "err' = CHIAKI_ERR_SUCCESS \<longrightarrow> n' = length out'"
    using parse_hex_size h h' by blast+
  consider "k = ascii ''AP-Ssid''" | "k = ascii ''AP-Bssid''" | "k = ascii ''AP-Key''" | "k = ascii ''AP-Name''"
    | "k = nickname_key (chiaki_target_is_ps5 target)" | "k = regist_key_key (chiaki_target_is_ps5 target)"
    | "k = ascii ''RP-KeyType''" | "k = ascii ''RP-Key''" | "k = mac_key (chiaki_target_is_ps5 target)"
    | "k \<noteq> ascii ''AP-Ssid''" "k \<noteq> ascii ''AP-Bssid''" "k \<noteq> ascii ''AP-Key''" "k \<noteq> ascii ''AP-Name''"
      "k \<noteq> nickname_key (chiaki_target_is_ps5 target)" "k \<noteq> regist_key_key (chiaki_target_is_ps5 target)"
      "k \<noteq> ascii ''RP-KeyType''" "k \<noteq> ascii ''RP-Key''" "k \<noteq> mac_key (chiaki_target_is_ps5 target)"
    by blast
  then show ?thesis
    using assms h h' n
    by cases (cases "chiaki_target_is_ps5 target"; auto simp: defs copy_string_padded described_hex_def exactly_def padded_def [of _ None] simp del: ascii_simps)+
qed

lemma described_parsed_fold:
  assumes "distinct (map fst hs)"
  shows "fold (regist_payload_header (chiaki_target_is_ps5 target)) (rev hs)
       \<lparr>pa_host = registered_host_zero target, pa_mac_found = False, pa_regist_key_found = False, pa_key_found = False\<rparr> = described_parsed target hs"
  using assms
proof (induction hs)
  case Nil
  then show ?case by (simp add: described_parsed_def Let_def registered_host_zero_def padded_def described_hex_def exactly_def)
next
  case (Cons h hs)
  moreover have "map_of hs (fst h) = None" using Cons.prems by (simp add: map_of_eq_None_iff)
  ultimately show ?case using regist_payload_header_eq [of hs "fst h" target "snd h"] by simp
qed

text \<open>The host of a registration with the key \<open>rk\<close>, the encryption key \<open>key\<close> and the address \<open>mac\<close>, its names being those of the lines.\<close>

definition registered_as :: "ChiakiTarget \<Rightarrow> (bytes \<times> bytes) list \<Rightarrow> bytes \<Rightarrow> bytes \<Rightarrow> bytes \<Rightarrow> registered_host" where
  "registered_as target hs rk key mac =
     \<lparr>rh_target = target,
      rh_ap_ssid = padded 0x30 (map_of hs (ascii ''AP-Ssid'')),
      rh_ap_bssid = padded 0x20 (map_of hs (ascii ''AP-Bssid'')),
      rh_ap_key = padded 0x50 (map_of hs (ascii ''AP-Key'')),
      rh_ap_name = padded 0x20 (map_of hs (ascii ''AP-Name'')),
      rh_server_mac = mac,
      rh_server_nickname = padded 0x20 (map_of hs (nickname_key (chiaki_target_is_ps5 target))),
      rh_rp_regist_key = rk @ replicate (0x10 - length rk) 0,
      rh_rp_key_type = (case map_of hs (ascii ''RP-KeyType'') of Some v \<Rightarrow> of_nat (strtoul0 v) | None \<Rightarrow> 0),
      rh_rp_key = key\<rparr>"

text \<open>Lines that name the three of them.\<close>

definition registration_lines :: "ChiakiTarget \<Rightarrow> (bytes \<times> bytes) list \<Rightarrow> bytes \<Rightarrow> bytes \<Rightarrow> bytes \<Rightarrow> bool" where
  "registration_lines target hs rk key mac \<longleftrightarrow>
     (\<forall>h \<in> set hs. header_ok h) \<and> distinct (map fst hs) \<and>
     map_of hs (regist_key_key (chiaki_target_is_ps5 target)) = Some (hex_text rk) \<and> length rk \<le> 0x10 \<and>
     map_of hs (ascii ''RP-Key'') = Some (hex_text key) \<and> length key = 0x10 \<and>
     map_of hs (mac_key (chiaki_target_is_ps5 target)) = Some (hex_text mac) \<and> length mac = 6"

definition lines_text :: "(bytes \<times> bytes) list \<Rightarrow> bytes" where
  "lines_text hs = concat (map header_line hs) @ [CR, LF]"

lemma registration_parsed:
  assumes "registration_lines target hs rk key mac" "length hs \<le> mallocs"
  shows "regist_parse_response_payload target mallocs (lines_text hs) = (CHIAKI_ERR_SUCCESS, Some (registered_as target hs rk key mac))"
proof -
  note l = assms(1) [unfolded registration_lines_def]
  obtain es where "http_header_loop mallocs (lines_text hs) 0 0 None [] = (CHIAKI_ERR_SUCCESS, concat (map parsed_line hs) @ [CR, LF], es)"
      "header_strings (concat (map parsed_line hs) @ [CR, LF]) es = rev hs"
    using parse_lines [of hs mallocs "[]" "[]"] l assms(2) by (auto simp: lines_text_def)
  moreover have "described_parsed target hs =
      \<lparr>pa_host = registered_as target hs rk key mac, pa_mac_found = True, pa_regist_key_found = True, pa_key_found = True\<rparr>"
    using l by (simp add: described_parsed_def registered_as_def Let_def described_hex_def exactly_def parse_hex_text del: ascii_simps)
  ultimately show ?thesis
    using l by (simp add: regist_parse_response_payload_def chiaki_http_header_parse_def described_parsed_fold)
qed

lemma regist_content_size_rev:
  "regist_content_size (rev hs) = (case map_of hs (ascii ''Content-Length'') of None \<Rightarrow> 0 | Some v \<Rightarrow> strtoul0 v)"
proof (induction hs)
  case (Cons h hs)
  then show ?case by (cases h) (simp add: regist_content_size_def del: ascii_simps)
qed (simp add: regist_content_size_def)

lemma regist_content_received:
  "\<forall>e \<in> set es. e \<noteq> [] \<Longrightarrow> length buf + length (concat es) = n \<Longrightarrow>
   regist_content_loop n (map recv_ok es) buf = Http_Done CHIAKI_ERR_SUCCESS (buf @ concat es) n"
proof (induction es arbitrary: buf)
  case Nil
  then show ?case by (simp add: regist_content_loop.simps)
next
  case (Cons e es)
  then have "regist_content_loop n (map recv_ok es) (buf @ e) = Http_Done CHIAKI_ERR_SUCCESS ((buf @ e) @ concat es) n" by auto
  moreover have "length buf < n" "take (n - length buf) e = e" "e \<noteq> []" using Cons.prems by (cases e; auto)+
  ultimately show ?case by (subst regist_content_loop.simps) (simp add: recv_ok_def)
qed

text \<open>A response and its content in any parts, the last of \<open>ds\<close> being the one with the end of the header.\<close>

definition response_parts :: "bytes \<Rightarrow> bytes \<Rightarrow> bytes list \<Rightarrow> bytes list \<Rightarrow> bool" where
  "response_parts response content ds es \<longleftrightarrow>
     (\<forall>d \<in> set (ds @ es). d \<noteq> []) \<and> concat ds @ concat es = response @ content \<and>
     length (concat (butlast ds)) < length response \<and> length response \<le> length (concat ds)"

lemma response_parts_header:
  assumes "response_parts (response_text digits reason rhs) content ds es" "length (response_text digits reason rhs @ content) \<le> n"
    and "\<forall>h \<in> set rhs. header_ok h" "\<forall>d \<in> set digits. c_isdigit d" "LF \<notin> set reason"
  shows "chiaki_recv_http_header stop n (map recv_ok ds) = Some (Http_Done CHIAKI_ERR_SUCCESS (concat ds) (length (response_text digits reason rhs)))"
proof -
  define r where "r = response_text digits reason rhs"
  note p = assms(1) [unfolded response_parts_def, folded r_def]
  obtain more where more: "concat ds = r @ more" using p longer_prefix [of "concat ds" "concat es" r content] by auto
  have n: "length (concat ds) \<le> n" using p assms(2) by (metis r_def length_append le_add1 le_trans)
  obtain j more' where j: "j < length ds" "r @ more' = concat (take (Suc j) ds)"
      "chiaki_recv_http_header stop n (map recv_ok ds) = Some (Http_Done CHIAKI_ERR_SUCCESS (r @ more') (length r))"
    using recv_response [OF assms(3-5), of ds n more stop] p n more unfolding r_def by auto
  have "Suc j = length ds"
  proof (rule ccontr)
    assume "Suc j \<noteq> length ds"
    then have "take (Suc j) ds = take (Suc j) (butlast ds)" using j(1) by (simp add: take_butlast)
    then have "concat (butlast ds) = (r @ more') @ concat (drop (Suc j) (butlast ds))"
      by (metis j(2) append_take_drop_id concat_append)
    then show False using p by simp
  qed
  then show ?thesis using j by (simp add: r_def)
qed

text \<open>The answer of a console: status 200 and the length of the content in decimal.\<close>

definition regist_response :: "bytes \<Rightarrow> (bytes \<times> bytes) list \<Rightarrow> bytes \<Rightarrow> bytes \<Rightarrow> bool" where
  "regist_response reason rhs content response \<longleftrightarrow>
     response = response_text (ascii ''200'') reason rhs \<and> LF \<notin> set reason \<and> (\<forall>h \<in> set rhs. header_ok h) \<and>
     map_of rhs (ascii ''Content-Length'') = Some (decimal (length content)) \<and> length (response @ content) \<le> REGIST_BUF_SIZE"

lemma regist_response_received:
  assumes "regist_response reason rhs content response" "response_parts response content ds es"
    and "chiaki_rpcrypt_decrypt cr crypt 0 content (length content) = Some (Inr (lines_text hs))" "content \<noteq> []"
    and "registration_lines target hs rk key mac" "length rhs \<le> mallocs" "length hs \<le> mallocs'"
  shows "regist_recv_response cr target mallocs mallocs' (map recv_ok ds) (map recv_ok es) crypt =
     Some (Some CHIAKI_ERR_SUCCESS, Some (registered_as target hs rk key mac))"
proof -
  note r = assms(1) [unfolded regist_response_def]
  note p = assms(2) [unfolded response_parts_def]
  have d: "\<forall>d \<in> set (ascii ''200''). c_isdigit d" "digits_value (ascii ''200'') = 200"
    by (simp_all add: c_isdigit_def digits_value_def)
  have h: "chiaki_recv_http_header True REGIST_BUF_SIZE (map recv_ok ds) = Some (Http_Done CHIAKI_ERR_SUCCESS (concat ds) (length response))"
    using response_parts_header [of "ascii ''200''" reason rhs content ds es REGIST_BUF_SIZE True] assms(2) r d(1) by blast
  have t: "take (length response) (concat ds) = response"
    using p by (metis append_eq_conv_conj take_append take_all_iff diff_is_0_eq take_0 append_Nil2)
  obtain buf entries where e: "chiaki_http_response_parse mallocs response = (CHIAKI_ERR_SUCCESS, 200, buf, entries)"
      "header_strings buf entries = rev rhs"
    using http_response_parsed [of rhs mallocs "ascii ''200''" reason] r d assms(6) by auto
  have "length response + length content \<le> REGIST_BUF_SIZE" using r by (metis length_append)
  then have s: "length content < 2 ^ 64" "length response + length content < 2 ^ 64" "length response + length content \<le> REGIST_BUF_SIZE"
    by simp_all
  have c: "regist_content_size (header_strings buf entries) = length content"
    using r s(1) by (simp add: e(2) regist_content_size_rev strtoul0_decimal)
  have "length (concat ds) + length (concat es) = length (response @ content)" using p by (metis length_append)
  then have l: "regist_content_loop (length content + length response) (map recv_ok es) (concat ds) =
      Http_Done CHIAKI_ERR_SUCCESS (response @ content) (length content + length response)"
    using regist_content_received [of es "concat ds" "length content + length response"] p by simp
  show ?thesis
    using h t e(1) c s l assms(3,4) registration_parsed [OF assms(5,7)]
    by (simp add: regist_recv_response_def Let_def u64_add_small)
qed

section \<open>The thread\<close>

text \<open>
  A console answers the search: an address can be used, and within the time its answer follows other packets.
\<close>

definition search_packet :: "nat \<Rightarrow> search_input \<Rightarrow> (bytes \<times> sockaddr) \<Rightarrow> bool" where
  "search_packet end_ms i packet \<longleftrightarrow>
     si_now i \<le> end_ms \<and> si_pipe i = 0 \<and> 0 \<le> si_select i \<and> si_ready i \<and> si_recv i = Some packet \<and> fst packet \<noteq> []"

definition search_name :: "ChiakiTarget \<Rightarrow> string \<Rightarrow> bytes" where
  "search_name target s = ascii s @ (if chiaki_target_is_ps5 target then ascii ''3'' else ascii ''2'')"

definition console_answers :: "regist_info \<Rightarrow> regist_env \<Rightarrow> sockaddr \<Rightarrow> sockaddr \<Rightarrow> bool" where
  "console_answers info env addr peer \<longleftrightarrow>
     (\<exists>ai more. rg_addrinfos env = Some (ai # more) \<and> sd_addr ai = addr \<and> sa_family addr = AF_INET \<and> sd_addrlen ai \<le> 16 \<and> sd_socket ai \<and>
        (if ri_broadcast info then sd_setsockopt ai \<and> sd_bind ai else sd_connect ai)) \<and>
     rg_search_send env \<and>
     (\<exists>others answer later rest. rg_search_inputs env = others @ answer # later \<and>
        (\<forall>i \<in> set others. \<exists>packet. search_packet (rg_search_start env + REGIST_SEARCH_TIMEOUT_MS) i packet \<and>
           take 4 (fst packet) \<noteq> search_name (ri_target info) ''RES'') \<and>
        search_packet (rg_search_start env + REGIST_SEARCH_TIMEOUT_MS) answer (search_name (ri_target info) ''RES'' @ rest, peer))"

lemma regist_search_answered:
  assumes "\<forall>i \<in> set others. \<exists>packet. search_packet end_ms i packet \<and> take 4 (fst packet) \<noteq> res" "search_packet end_ms answer (res @ rest, peer)"
    and "length res = 4"
  shows "regist_search_loop res end_ms (others @ answer # later) = Some (CHIAKI_ERR_SUCCESS, Some peer)"
  using assms
proof (induction others)
  case Nil
  then show ?case by (auto simp: search_packet_def chiaki_stop_pipe_select_single_def)
next
  case (Cons i others)
  from Cons.prems(1) obtain buf addr where i: "search_packet end_ms i (buf, addr)" "take 4 buf \<noteq> res" by auto
  then have "take 4 (take 0xff buf) \<noteq> res" by simp
  then show ?case
    using Cons i(1) by (auto simp: search_packet_def chiaki_stop_pipe_select_single_def Let_def)
qed

lemma console_answers_search:
  assumes "console_answers info env addr peer"
  shows "\<exists>addrinfos. rg_addrinfos env = Some addrinfos \<and>
     regist_search info addrinfos (rg_search_send env) (rg_search_start env) (rg_search_inputs env) =
       (Some (CHIAKI_ERR_SUCCESS, Some peer),
        [Reg_Udp_Open, Reg_Udp_Sent (addr\<lparr>sin_port := REGIST_PORT\<rparr>) (search_name (ri_target info) ''SRC'' @ [0]), Reg_Udp_Close])"
proof -
  from assms obtain ai more others answer later rest where
    a: "rg_addrinfos env = Some (ai # more)" "sd_addr ai = addr" "sa_family addr = AF_INET" "sd_addrlen ai \<le> 16" "sd_socket ai"
      "if ri_broadcast info then sd_setsockopt ai \<and> sd_bind ai else sd_connect ai" and s: "rg_search_send env"
    and i: "rg_search_inputs env = others @ answer # later"
      "\<forall>i \<in> set others. \<exists>packet. search_packet (rg_search_start env + REGIST_SEARCH_TIMEOUT_MS) i packet \<and> take 4 (fst packet) \<noteq> search_name (ri_target info) ''RES''"
      "search_packet (rg_search_start env + REGIST_SEARCH_TIMEOUT_MS) answer (search_name (ri_target info) ''RES'' @ rest, peer)"
    unfolding console_answers_def by blast
  have n: "(if chiaki_target_is_ps5 (ri_target info) then ascii ''SRC3'' else ascii ''SRC2'') = search_name (ri_target info) ''SRC''"
    "(if chiaki_target_is_ps5 (ri_target info) then ascii ''RES3'' else ascii ''RES2'') = search_name (ri_target info) ''RES''"
    by (simp_all add: search_name_def)
  have "length (search_name (ri_target info) ''RES'') = 4" by (simp add: search_name_def)
  from regist_search_answered [OF i(2,3) this, of later] show ?thesis
    using a s by (simp add: regist_search_def n i(1) set_port_def)
qed

text \<open>The console is connected to and everything is sent.\<close>

definition request_sent :: "regist_info \<Rightarrow> regist_env \<Rightarrow> bool" where
  "request_sent info env \<longleftrightarrow>
     fst (rg_sleep env) = 0 \<and> 0 \<le> snd (rg_sleep env) \<and> rg_socket env \<and> rg_connect env \<and>
     (let n = inner_header_off + length (regist_identity info)
      in rg_send_header env = Some (length (regist_request_text (ri_target info) n)) \<and> rg_send_payload env = Some n)"

text \<open>
  C9. A registration succeeds. For every target but the unknown PS5 and an identity that fits into the payload, if a console answers the search in time,
  accepts the connection and sends a response of at most 512 bytes, in any parts, whose content encrypts lines with a registration key, a key
  and its address, with the keys that follow from the ambassador and the PIN, then the thread finds the console with one packet, sends it a request
  and a payload of which it can decrypt the identity of the user, releases everything and reports success with exactly the host that the lines describe.
\<close>

theorem regist_registers:
  assumes "rp_crypto_ok (rg_crypto env)" "ri_target info \<noteq> CHIAKI_TARGET_PS5_UNKNOWN"
    and "length (ri_psn_account_id info) = CHIAKI_PSN_ACCOUNT_ID_SIZE" "length (regist_identity info) < 0x220"
    and "rg_random env = (CHIAKI_ERR_SUCCESS, ambassador)"
    and "regist_payload_keys (ri_target info) ambassador (ri_pin info) = Some (Inr (front, crypt))" "length front = inner_header_off"
    and "console_answers info env addr peer" "request_sent info env"
    and "chiaki_rpcrypt_encrypt (rg_crypto env) crypt 0 (lines_text hs) (length (lines_text hs)) = Some (Inr content)"
    and "registration_lines (ri_target info) hs rk key mac" "regist_response reason rhs content response" "response_parts response content ds es"
    and "rg_inputs env = map recv_ok ds" "rg_content_inputs env = map recv_ok es" "length rhs \<le> rg_mallocs env" "length hs \<le> rg_payload_mallocs env"
    and "length (lines_text hs) \<le> REGIST_BUF_SIZE"
  shows "\<exists>encrypted. chiaki_rpcrypt_decrypt (rg_crypto env) crypt 0 encrypted (length encrypted) = Some (Inr (regist_identity info)) \<and>
     regist_thread_func info env = Some (Reg_Success (registered_as (ri_target info) hs rk key mac),
       [Reg_Addrinfos, Reg_Udp_Open, Reg_Udp_Sent (addr\<lparr>sin_port := REGIST_PORT\<rparr>) (search_name (ri_target info) ''SRC'' @ [0]), Reg_Udp_Close,
        Reg_Tcp_Open peer, Reg_Tcp_Sent (regist_request_text (ri_target info) (inner_header_off + length (regist_identity info))),
        Reg_Tcp_Sent (front @ encrypted), Reg_Tcp_Close, Reg_Free_Addrinfos,
        Reg_Event (CHIAKI_REGIST_EVENT_TYPE_FINISHED_SUCCESS (registered_as (ri_target info) hs rk key mac))])"
proof -
  define n where "n = inner_header_off + length (regist_identity info)"
  define host where "host = registered_as (ri_target info) hs rk key mac"
  have n: "inner_header_off \<le> n" "n \<le> 0x400" using assms(4) by (simp_all add: n_def)
  note sent = assms(9) [unfolded request_sent_def Let_def, folded n_def]
  obtain encrypted where p: "chiaki_regist_request_payload_format (rg_crypto env) (ri_target info) ambassador 0x400 (ri_psn_online_id info)
       (Some (ri_psn_account_id info)) (ri_pin info) = Some (Inr (front @ encrypted, crypt))"
      "length encrypted = length (regist_identity info)"
      "chiaki_rpcrypt_decrypt (rg_crypto env) crypt 0 encrypted (length encrypted) = Some (Inr (regist_identity info))"
    using regist_payload_formatted [OF assms(1,6,3), of "0x400"] assms(4) by auto
  have ln: "length (front @ encrypted) = n" using p(2) assms(7) by (simp add: n_def)
  note header = request_header_formatted [OF assms(2) n]
  obtain addrinfos where s: "rg_addrinfos env = Some addrinfos"
      "regist_search info addrinfos (rg_search_send env) (rg_search_start env) (rg_search_inputs env) =
        (Some (CHIAKI_ERR_SUCCESS, Some peer),
         [Reg_Udp_Open, Reg_Udp_Sent (addr\<lparr>sin_port := REGIST_PORT\<rparr>) (search_name (ri_target info) ''SRC'' @ [0]), Reg_Udp_Close])"
    using console_answers_search [OF assms(8)] by blast
  have "length (lines_text hs) < 2 ^ 31" using assms(18) by simp
  then have lc: "length content = length (lines_text hs)" "chiaki_rpcrypt_decrypt (rg_crypto env) crypt 0 content (length content) = Some (Inr (lines_text hs))"
    using crypt_roundtrip [OF assms(1), of "lines_text hs" crypt 0] assms(10) by auto
  have ne: "content \<noteq> []" using lc(1) by (auto simp: lines_text_def)
  have r: "regist_recv_response (rg_crypto env) (ri_target info) (rg_mallocs env) (rg_payload_mallocs env) (rg_inputs env) (rg_content_inputs env) crypt =
      Some (Some CHIAKI_ERR_SUCCESS, Some host)"
    unfolding host_def assms(14,15) using regist_response_received [OF assms(12,13) lc(2) ne assms(11,16,17)] .
  have q: "regist_request env (ri_target info) (regist_request_text (ri_target info) n) (front @ encrypted) crypt peer = Some (Reg_Success host,
      [Reg_Tcp_Open peer, Reg_Tcp_Sent (regist_request_text (ri_target info) n), Reg_Tcp_Sent (front @ encrypted), Reg_Tcp_Close])"
    using sent r ln by (simp add: regist_request_def regist_request_connect_def)
  have z: "chiaki_stop_pipe_sleep (fst (rg_sleep env)) (snd (rg_sleep env)) = CHIAKI_ERR_TIMEOUT"
    using sent by (simp add: chiaki_stop_pipe_sleep_def chiaki_stop_pipe_select_single_def)
  have t: "regist_search_request info env (regist_request_text (ri_target info) n) (front @ encrypted) crypt addrinfos = Some (Reg_Success host,
      [Reg_Udp_Open, Reg_Udp_Sent (addr\<lparr>sin_port := REGIST_PORT\<rparr>) (search_name (ri_target info) ''SRC'' @ [0]), Reg_Udp_Close,
       Reg_Tcp_Open peer, Reg_Tcp_Sent (regist_request_text (ri_target info) n), Reg_Tcp_Sent (front @ encrypted), Reg_Tcp_Close])"
    using q z by (simp add: regist_search_request_def s(2))
  have "regist_thread_func info env = Some (Reg_Success host,
       [Reg_Addrinfos, Reg_Udp_Open, Reg_Udp_Sent (addr\<lparr>sin_port := REGIST_PORT\<rparr>) (search_name (ri_target info) ''SRC'' @ [0]), Reg_Udp_Close,
        Reg_Tcp_Open peer, Reg_Tcp_Sent (regist_request_text (ri_target info) n),
        Reg_Tcp_Sent (front @ encrypted), Reg_Tcp_Close, Reg_Free_Addrinfos, Reg_Event (CHIAKI_REGIST_EVENT_TYPE_FINISHED_SUCCESS host)])"
    using p(1) header ln s(1) t by (simp add: regist_thread_func_def assms(5) Let_def)
  then show ?thesis using p(3) unfolding host_def n_def by blast
qed

text \<open>An example: a PS4 with the version 9.0 whose response arrives in three parts.\<close>

definition example_regist_info :: regist_info where
  "example_regist_info = \<lparr>ri_target = CHIAKI_TARGET_PS4_9, ri_host = ascii ''ps4'', ri_broadcast = False, ri_psn_online_id = Some (ascii ''me''),
     ri_psn_account_id = replicate 8 0, ri_pin = 12345678\<rparr>"

definition example_lines :: "(bytes \<times> bytes) list" where
  "example_lines = [(ascii ''PS4-RegistKey'', hex_text [0x1f, 0xa2]), (ascii ''RP-Key'', hex_text (replicate 0x10 0xbc)),
     (ascii ''PS4-Mac'', hex_text [1, 2, 3, 4, 5, 0xff]), (ascii ''PS4-Nickname'', ascii ''home'')]"

definition example_content :: bytes where
  "example_content = map (\<lambda>b. b XOR 0x55) (lines_text example_lines)"

definition example_regist_headers :: "(bytes \<times> bytes) list" where
  "example_regist_headers = [(ascii ''Content-Length'', decimal (length example_content))]"

definition example_regist_response :: bytes where
  "example_regist_response = response_text (ascii ''200'') (ascii ''OK'') example_regist_headers"

definition example_regist_parts :: "bytes list \<times> bytes list" where
  "example_regist_parts = ([take 10 example_regist_response, drop 10 example_regist_response @ take 7 example_content], [drop 7 example_content])"

definition example_ipv4 :: "u16 \<Rightarrow> sockaddr" where
  "example_ipv4 port = \<lparr>sa_family = AF_INET, sin_port = port, sin6_port = 0\<rparr>"

definition example_regist_env :: regist_env where
  "example_regist_env =
     \<lparr>rg_crypto = example_rp_crypto, rg_random = (CHIAKI_ERR_SUCCESS, replicate 0x10 7),
      rg_addrinfos = Some [\<lparr>sd_addr = example_ipv4 0, sd_addrlen = 16, sd_socket = True, sd_setsockopt = False, sd_bind = False, sd_connect = True\<rparr>],
      rg_search_send = True, rg_search_start = 1000,
      rg_search_inputs = [\<lparr>si_now = 1200, si_pipe = 0, si_select = 1, si_ready = True, si_recv = Some (ascii ''RES2'', example_ipv4 9295)\<rparr>],
      rg_sleep = (0, 0), rg_socket = True, rg_connect = True,
      rg_send_header = Some (length (regist_request_text CHIAKI_TARGET_PS4_9 (inner_header_off + length (regist_identity example_regist_info)))),
      rg_send_payload = Some (inner_header_off + length (regist_identity example_regist_info)), rg_mallocs = 5, rg_payload_mallocs = 5,
      rg_inputs = map recv_ok (fst example_regist_parts), rg_content_inputs = map recv_ok (snd example_regist_parts)\<rparr>"

lemma length_example_content: "length example_content = 108"
  by (simp add: example_content_def lines_text_def example_lines_def header_line_def length_hex_text)

lemma example_lines_ok: "registration_lines CHIAKI_TARGET_PS4_9 example_lines [0x1f, 0xa2] (replicate 0x10 0xbc) [1, 2, 3, 4, 5, 0xff]"
  by (simp add: registration_lines_def example_lines_def header_ok_def hex_text_def hex_digit_def regist_key_key_def mac_key_def target_is_ps5_iff
      drop_bit_eq_div)

lemma example_response_ok: "regist_response (ascii ''OK'') example_regist_headers example_content example_regist_response"
  by (simp add: regist_response_def example_regist_response_def response_text_def http_version_def header_line_def example_regist_headers_def
      length_example_content decimal.simps header_ok_def)

lemma example_parts_ok: "response_parts example_regist_response example_content (fst example_regist_parts) (snd example_regist_parts)"
proof -
  have "length example_regist_response = 40"
    by (simp add: example_regist_response_def response_text_def http_version_def header_line_def example_regist_headers_def
      length_example_content decimal.simps)
  moreover have "example_content \<noteq> []" using length_example_content by auto
  ultimately show ?thesis
    using length_example_content by (auto simp: response_parts_def example_regist_parts_def)
qed

lemma example_console_answers: "console_answers example_regist_info example_regist_env (example_ipv4 0) (example_ipv4 9295)"
proof -
  have n: "search_name (ri_target example_regist_info) ''RES'' = ascii ''RES2''"
    by (simp add: example_regist_info_def search_name_def target_is_ps5_iff)
  have p: "search_packet 4000 (hd (rg_search_inputs example_regist_env)) (ascii ''RES2'' @ [], example_ipv4 9295)"
    by (simp add: example_regist_env_def search_packet_def)
  have i: "rg_search_inputs example_regist_env = [] @ hd (rg_search_inputs example_regist_env) # []" "rg_search_start example_regist_env + REGIST_SEARCH_TIMEOUT_MS = 4000"
    "rg_search_send example_regist_env" "ri_broadcast example_regist_info = False"
    by (simp_all add: example_regist_env_def example_regist_info_def)
  have a: "\<exists>ai more. rg_addrinfos example_regist_env = Some (ai # more) \<and> sd_addr ai = example_ipv4 0 \<and> sa_family (example_ipv4 0) = AF_INET \<and>
      sd_addrlen ai \<le> 16 \<and> sd_socket ai \<and> sd_connect ai"
    by (simp add: example_regist_env_def example_ipv4_def)
  show ?thesis
    unfolding console_answers_def n i(2,4) using a p i(1,3) by (metis empty_iff list.set(1))
qed

theorem regist_registers_witness:
  "\<exists>outs. regist_thread_func example_regist_info example_regist_env = Some (Reg_Success
      (registered_as CHIAKI_TARGET_PS4_9 example_lines [0x1f, 0xa2] (replicate 0x10 0xbc) [1, 2, 3, 4, 5, 0xff]), outs)"
proof -
  let ?i = example_regist_info and ?e = example_regist_env
  have t: "ri_target ?i = CHIAKI_TARGET_PS4_9" by (simp add: example_regist_info_def)
  have cr: "rg_crypto ?e = example_rp_crypto" "rp_crypto_ok (rg_crypto ?e)"
    using example_env_ok by (simp_all add: env_ok_def example_ctrl_env_def example_regist_env_def)
  obtain front crypt where keys: "regist_payload_keys (ri_target ?i) (replicate 0x10 7) (ri_pin ?i) = Some (Inr (front, crypt))"
      "length front = inner_header_off"
    using regist_payload_keys_defined [OF length_replicate, of "ri_target ?i" 7 "ri_pin ?i"] by (elim exE conjE) (rule that)
  have "ri_psn_account_id ?i = replicate 8 0" "regist_identity ?i = request_inner_online_id (ascii ''me'')"
    unfolding example_regist_info_def regist_identity_def by (simp_all add: target_order)
  then have id: "length (ri_psn_account_id ?i) = CHIAKI_PSN_ACCOUNT_ID_SIZE" "length (regist_identity ?i) < 0x220"
    by (simp_all only: length_replicate) (simp add: request_inner_online_id_def)
  have ans: "console_answers ?i ?e (example_ipv4 0) (example_ipv4 9295)" by (rule example_console_answers)
  have sent: "request_sent ?i ?e" by (simp add: request_sent_def example_regist_env_def Let_def t)
  have ll: "length (lines_text example_lines) = 108" using length_example_content by (simp add: example_content_def)
  have enc: "chiaki_rpcrypt_encrypt (rg_crypto ?e) crypt 0 (lines_text example_lines) (length (lines_text example_lines)) = Some (Inr example_content)"
    using example_crypt [of 108 "lines_text example_lines" crypt 0] by (simp add: cr(1) ll example_content_def)
  have inp: "rg_inputs ?e = map recv_ok (fst example_regist_parts)" "rg_content_inputs ?e = map recv_ok (snd example_regist_parts)"
    "length example_regist_headers \<le> rg_mallocs ?e" "length example_lines \<le> rg_payload_mallocs ?e" "rg_random ?e = (CHIAKI_ERR_SUCCESS, replicate 0x10 7)"
    by (simp_all add: example_regist_env_def example_regist_headers_def example_lines_def)
  have "ri_target ?i \<noteq> CHIAKI_TARGET_PS5_UNKNOWN" "length (lines_text example_lines) \<le> REGIST_BUF_SIZE" by (simp_all add: t ll)
  from regist_registers [OF cr(2) this(1) id inp(5) keys ans sent enc example_lines_ok [folded t] example_response_ok example_parts_ok inp(1-4) this(2)]
  show ?thesis unfolding t by blast
qed

section \<open>How it ends\<close>

text \<open>
  What is held: the list of addresses, the socket of the search and that of the request. Nothing is opened twice, used or closed without being open,
  and the callback comes when everything has been released.
\<close>

fun regist_holds :: "regist_out \<Rightarrow> bool \<times> bool \<times> bool \<Rightarrow> (bool \<times> bool \<times> bool) option" where
  "regist_holds Reg_Addrinfos (a, u, t) = (if a then None else Some (True, u, t))"
| "regist_holds Reg_Free_Addrinfos (a, u, t) = (if a \<and> \<not> u \<and> \<not> t then Some (False, u, t) else None)"
| "regist_holds Reg_Udp_Open (a, u, t) = (if a \<and> \<not> u then Some (a, True, t) else None)"
| "regist_holds Reg_Udp_Close (a, u, t) = (if u then Some (a, False, t) else None)"
| "regist_holds (Reg_Udp_Sent addr bs) (a, u, t) = (if u then Some (a, u, t) else None)"
| "regist_holds (Reg_Tcp_Open addr) (a, u, t) = (if \<not> t then Some (a, u, True) else None)"
| "regist_holds Reg_Tcp_Close (a, u, t) = (if t then Some (a, u, False) else None)"
| "regist_holds (Reg_Tcp_Sent bs) (a, u, t) = (if t then Some (a, u, t) else None)"
| "regist_holds (Reg_Event e) (a, u, t) = (if a \<or> u \<or> t then None else Some (a, u, t))"

definition no_event :: "regist_out list \<Rightarrow> bool" where
  "no_event outs \<longleftrightarrow> (\<forall>e. Reg_Event e \<notin> set outs)"

lemma search_connect_holds:
  "regist_search_connect broadcast addrinfos len = (r, outs) \<Longrightarrow>
   fold_opt regist_holds outs (True, False, False) = Some (True, r \<noteq> None, False) \<and> no_event outs"
proof (induction broadcast addrinfos len arbitrary: r outs rule: regist_search_connect.induct)
  case (2 broadcast ai addrinfos len)
  show ?case
  proof (cases "regist_search_connect broadcast addrinfos (sd_addrlen ai)")
    case (Pair r' outs')
    then show ?thesis using 2 by (auto simp: Let_def no_event_def split: if_splits)
  qed
qed (simp add: no_event_def)

lemma regist_search_holds:
  assumes "regist_search info addrinfos send_ok start_ms inputs = (r, outs)"
  shows "fold_opt regist_holds outs (True, False, False) = Some (True, r = None, False) \<and> no_event outs"
proof -
  obtain c outs' where c: "regist_search_connect (ri_broadcast info) addrinfos 16 = (c, outs')" by fastforce
  from search_connect_holds [OF c] show ?thesis
    using assms c by (cases c; cases r) (auto simp: regist_search_def Let_def fold_opt_append no_event_def split: if_split_asm option.split_asm)
qed

lemma regist_recv_status: "regist_recv_response cr target m m' inputs contents crypt = Some (err, host) \<Longrightarrow> err = Some CHIAKI_ERR_SUCCESS \<Longrightarrow> host \<noteq> None"
  by (auto simp: regist_recv_response_def Let_def regist_parse_response_payload_def
      split: Option.bind_split_asm http_recv.split_asm prod.split_asm if_split_asm)

lemma regist_request_holds:
  assumes "regist_request env target header payload crypt addr = Some (status, outs)"
  shows "fold_opt regist_holds outs (True, False, False) = Some (True, False, status = Reg_Waiting) \<and> no_event outs \<and>
     (status \<noteq> Reg_Failed \<longrightarrow> (\<exists>h p. prefix h header \<and> prefix p payload \<and>
        outs = [Reg_Tcp_Open addr, Reg_Tcp_Sent h, Reg_Tcp_Sent p] @ (if status = Reg_Waiting then [] else [Reg_Tcp_Close])))"
  using assms
  by (auto simp: regist_request_def regist_request_connect_def Let_def no_event_def take_is_prefix
      split: if_split_asm option.split_asm Option.bind_split_asm)

lemma regist_search_request_holds:
  assumes "regist_search_request info env header payload crypt addrinfos = Some (status, outs)"
  shows "(\<exists>st. fold_opt regist_holds outs (True, False, False) = Some st \<and> (status \<noteq> Reg_Waiting \<longrightarrow> st = (True, False, False))) \<and> no_event outs"
proof -
  obtain r o1 where s: "regist_search info addrinfos (rg_search_send env) (rg_search_start env) (rg_search_inputs env) = (r, o1)" by fastforce
  note h = regist_search_holds [OF s]
  show ?thesis
  proof (cases r)
    case None
    then show ?thesis using assms s h by (auto simp: regist_search_request_def)
  next
    case (Some ea)
    obtain err addr where ea: "ea = (err, addr)" by fastforce
    show ?thesis
    proof (cases "\<exists>outs'. regist_request env (ri_target info) header payload crypt (the addr) = Some (status, outs') \<and> outs = o1 @ outs'")
      case True
      then obtain outs' where q: "regist_request env (ri_target info) header payload crypt (the addr) = Some (status, outs')" "outs = o1 @ outs'" by blast
      then show ?thesis using h Some regist_request_holds [OF q(1)] by (auto simp: fold_opt_append no_event_def)
    next
      case False
      then have "outs = o1" "status \<noteq> Reg_Waiting"
        using assms s Some ea by (auto simp: regist_search_request_def split: if_split_asm Option.bind_split_asm)
      then show ?thesis using h Some by auto
    qed
  qed
qed

text \<open>When the thread leaves defined behaviour.\<close>

lemma regist_payload_defined:
  assumes "length ambassador = 0x10"
  shows "case chiaki_regist_request_payload_format cr target ambassador 0x400 online_id account_id pin of
       None \<Rightarrow> False
     | Some (Inl err) \<Rightarrow> True
     | Some (Inr (payload, crypt)) \<Rightarrow> inner_header_off \<le> length payload \<and> length payload \<le> 0x400"
proof -
  obtain front crypt where k: "regist_payload_keys target ambassador pin = Some (Inr (front, crypt))" "length front = inner_header_off"
    using regist_payload_keys_defined [OF assms] by blast
  show ?thesis
  proof (cases "regist_inner_header target online_id account_id")
    case (Inl err)
    then show ?thesis by (simp add: chiaki_regist_request_payload_format_def k)
  next
    case (Inr inner)
    show ?thesis
    proof (cases "length inner < 0x220")
      case True
      then have d: "chiaki_rpcrypt_crypt cr crypt 0 inner (length inner) True \<noteq> None" by (intro crypt_defined) simp_all
      then obtain x where x: "chiaki_rpcrypt_crypt cr crypt 0 inner (length inner) True = Some x" by blast
      show ?thesis
      proof (cases x)
        case (Inr enc)
        then have "length enc = length inner" using crypt_length x True by simp
        then show ?thesis
          using True k \<open>regist_inner_header target online_id account_id = Inr inner\<close> x Inr
          by (simp add: chiaki_regist_request_payload_format_def chiaki_rpcrypt_encrypt_def c_snprintf_def Let_def)
      qed (use True k Inr x in \<open>simp add: chiaki_regist_request_payload_format_def chiaki_rpcrypt_encrypt_def c_snprintf_def Let_def\<close>)
    qed (use k Inr in \<open>simp add: chiaki_regist_request_payload_format_def c_snprintf_def Let_def\<close>)
  qed
qed

lemma regist_content_length:
  "length buf \<le> m \<Longrightarrow> n \<le> m \<Longrightarrow> regist_content_loop n inputs buf = Http_Done err buf' k \<Longrightarrow> length buf' \<le> m"
proof (induction n inputs buf rule: regist_content_loop.induct)
  case (1 n inputs buf)
  show ?case
  proof (cases "length buf < n \<and> (\<exists>r inputs'. inputs = (CHIAKI_ERR_SUCCESS, Some r) # inputs' \<and> take (n - length buf) r \<noteq> [])")
    case True
    then obtain r inputs' where r: "length buf < n" "inputs = (CHIAKI_ERR_SUCCESS, Some r) # inputs'" "take (n - length buf) r \<noteq> []" by blast
    then have "regist_content_loop n inputs' (buf @ take (n - length buf) r) = Http_Done err buf' k"
      using 1(4) by (subst (asm) regist_content_loop.simps) simp
    moreover have "length (buf @ take (n - length buf) r) \<le> m" using r(1) 1(3) by simp
    ultimately show ?thesis using 1(1) r 1(3) by simp
  next
    case False
    then have "buf' = buf"
      using 1(4) by (subst (asm) regist_content_loop.simps) (auto simp: Let_def split: list.split_asm prod.split_asm option.split_asm if_split_asm)
    then show ?thesis using 1(2) by simp
  qed
qed

lemma recv_header_length:
  "length received \<le> n \<Longrightarrow> recv_http_header_loop stop n inputs s received = Some (Http_Done err buf k) \<Longrightarrow> length buf \<le> n"
  by (induction stop n inputs s received rule: recv_http_header_loop.induct)
    (auto simp: Let_def split: if_split_asm option.split_asm prod.split_asm)

lemma regist_recv_defined:
  assumes "chiaki_recv_http_header True REGIST_BUF_SIZE inputs \<noteq> None"
  shows "regist_recv_response cr target m m' inputs contents crypt \<noteq> None"
proof
  assume n: "regist_recv_response cr target m m' inputs contents crypt = None"
  from n obtain received k n' buf h where r: "chiaki_recv_http_header True REGIST_BUF_SIZE inputs = Some (Http_Done CHIAKI_ERR_SUCCESS received k)"
    and b: "regist_content_loop n' contents received = Http_Done CHIAKI_ERR_SUCCESS buf h"
      "chiaki_rpcrypt_decrypt cr crypt 0 (drop k buf) (length (drop k buf)) = None" and n': "\<not> REGIST_BUF_SIZE < n'"
    using assms
    by (auto simp: regist_recv_response_def Let_def split: Option.bind_split_asm http_recv.split_asm prod.split_asm if_split_asm)
  have "length received \<le> REGIST_BUF_SIZE" using recv_header_length [of "[]" REGIST_BUF_SIZE] r by (auto simp: chiaki_recv_http_header_def)
  from regist_content_length [OF this _ b(1)] n' have "length (drop k buf) < 2 ^ 31" by simp
  then show False using b(2) crypt_defined unfolding chiaki_rpcrypt_decrypt_def by blast
qed

lemma regist_search_request_defined:
  "chiaki_recv_http_header True REGIST_BUF_SIZE (rg_inputs env) \<noteq> None \<Longrightarrow>
   regist_search_request info env header payload crypt addrinfos \<noteq> None"
  using regist_recv_defined [of "rg_inputs env"]
  by (auto simp: regist_search_request_def regist_request_def Let_def split: option.splits prod.splits Option.bind_splits simp del: not_None_eq)

text \<open>
  C18. A registration ends once and leaves nothing behind. Whatever the network, the console and the platform do, with a known target and a response whose
  header does not overrun the buffer the thread stays within defined behaviour; it opens, uses and closes its sockets and the list of addresses in order,
  and unless it still waits it has released all of them before it calls the callback, exactly once and with the result of the registration.
\<close>

theorem regist_thread_protocol:
  assumes "length (snd (rg_random env)) = 0x10"
  shows "case regist_thread_func info env of
       None \<Rightarrow> ri_target info = CHIAKI_TARGET_PS5_UNKNOWN \<or> chiaki_recv_http_header True REGIST_BUF_SIZE (rg_inputs env) = None
     | Some (status, outs) \<Rightarrow>
         (\<exists>st. fold_opt regist_holds outs (False, False, False) = Some st \<and> (status \<noteq> Reg_Waiting \<longrightarrow> st = (False, False, False))) \<and>
         (\<exists>body. outs = body @ regist_finish status \<and> no_event body)"
proof -
  let ?T = "\<lambda>r. case r of
       None \<Rightarrow> ri_target info = CHIAKI_TARGET_PS5_UNKNOWN \<or> chiaki_recv_http_header True REGIST_BUF_SIZE (rg_inputs env) = None
     | Some (status, outs) \<Rightarrow>
         (\<exists>st. fold_opt regist_holds outs (False, False, False) = Some st \<and> (status \<noteq> Reg_Waiting \<longrightarrow> st = (False, False, False))) \<and>
         (\<exists>body. outs = body @ regist_finish status \<and> no_event body)"
  have fail: "?T (Some (Reg_Failed, regist_finish Reg_Failed))" by (auto simp: no_event_def)
  obtain err ambassador where r: "rg_random env = (err, ambassador)" by fastforce
  define format where "format = chiaki_regist_request_payload_format (rg_crypto env) (ri_target info) ambassador 0x400
     (ri_psn_online_id info) (Some (ri_psn_account_id info)) (ri_pin info)"
  have f: "case format of None \<Rightarrow> False | Some (Inl err) \<Rightarrow> True
     | Some (Inr (payload, crypt)) \<Rightarrow> inner_header_off \<le> length payload \<and> length payload \<le> 0x400"
    unfolding format_def by (rule regist_payload_defined) (use assms r in simp)
  show ?thesis
  proof (cases "\<exists>payload crypt. err = CHIAKI_ERR_SUCCESS \<and> format = Some (Inr (payload, crypt)) \<and> ri_target info \<noteq> CHIAKI_TARGET_PS5_UNKNOWN \<and> rg_addrinfos env \<noteq> None")
    case True
    then obtain payload crypt addrinfos where p: "err = CHIAKI_ERR_SUCCESS" "format = Some (Inr (payload, crypt))"
        "ri_target info \<noteq> CHIAKI_TARGET_PS5_UNKNOWN" "rg_addrinfos env = Some addrinfos" by blast
    define header where "header = regist_request_text (ri_target info) (length payload)"
    have len: "inner_header_off \<le> length payload" "length payload \<le> 0x400" using f p(2) by simp_all
    note h = request_header_formatted [OF p(3) len, folded header_def]
    have t: "regist_thread_func info env = do {
        (status, outs) \<leftarrow> regist_search_request info env header payload crypt addrinfos;
        Some (status, Reg_Addrinfos # outs @ (if status = Reg_Waiting then [] else Reg_Free_Addrinfos # regist_finish status)) }"
      using h p by (simp add: regist_thread_func_def r Let_def flip: format_def)
    show ?thesis
    proof (cases "regist_search_request info env header payload crypt addrinfos")
      case None
      then have "chiaki_recv_http_header True REGIST_BUF_SIZE (rg_inputs env) = None" using regist_search_request_defined by blast
      then show ?thesis using t None by simp
    next
      case (Some so)
      obtain status outs where so: "so = (status, outs)" by fastforce
      obtain a u x where st: "fold_opt regist_holds outs (True, False, False) = Some (a, u, x)" "status \<noteq> Reg_Waiting \<longrightarrow> a \<and> \<not> u \<and> \<not> x" "no_event outs"
        using regist_search_request_holds [OF Some [unfolded so]] by auto
      have "no_event (Reg_Addrinfos # outs)" "no_event (Reg_Addrinfos # outs @ [Reg_Free_Addrinfos])" using st(3) by (simp_all add: no_event_def)
      then show ?thesis
        using t Some so st
        by (cases status) (auto simp: fold_opt_append intro: exI [of _ "Reg_Addrinfos # outs @ [Reg_Free_Addrinfos]"])
    qed
  next
    case False
    have "regist_thread_func info env = Some (Reg_Failed, regist_finish Reg_Failed) \<or>
        regist_thread_func info env = None \<and> ri_target info = CHIAKI_TARGET_PS5_UNKNOWN"
    proof (cases "\<exists>payload crypt. err = CHIAKI_ERR_SUCCESS \<and> format = Some (Inr (payload, crypt))")
      case True
      then obtain payload crypt where p: "err = CHIAKI_ERR_SUCCESS" "format = Some (Inr (payload, crypt))" by blast
      have len: "inner_header_off \<le> length payload" "length payload \<le> 0x400" using f p(2) by simp_all
      show ?thesis
      proof (cases "ri_target info = CHIAKI_TARGET_PS5_UNKNOWN")
        case True
        have "regist_thread_func info env = None"
          using p request_header_unknown [OF len, folded True] by (simp add: regist_thread_func_def r Let_def flip: format_def)
        then show ?thesis using True by blast
      next
        case known: False
        then have "rg_addrinfos env = None" using False p by blast
        then show ?thesis
          using p request_header_formatted [OF known len] by (simp add: regist_thread_func_def r Let_def flip: format_def)
      qed
    next
      case False
      then have "err \<noteq> CHIAKI_ERR_SUCCESS \<or> (\<exists>e. format = Some (Inl e))"
        using f by (auto split: option.split_asm sum.split_asm)
      then show ?thesis by (elim disjE exE) (simp_all add: regist_thread_func_def r Let_def flip: format_def)
    qed
    then show ?thesis using fail by (elim disjE) (simp_all only: option.case simp_thms)
  qed
qed

lemma example_digits: "\<forall>d \<in> set (ascii ''200''). c_isdigit d"
  by (simp add: c_isdigit_def)

theorem regist_thread_protocol_witness:
  "\<exists>status outs body. regist_thread_func example_regist_info example_regist_env = Some (status, outs) \<and>
     outs = body @ regist_finish status \<and> no_event body \<and> fold_opt regist_holds outs (False, False, False) \<noteq> None"
proof -
  have "chiaki_recv_http_header True REGIST_BUF_SIZE (map recv_ok (fst example_regist_parts)) =
      Some (Http_Done CHIAKI_ERR_SUCCESS (concat (fst example_regist_parts)) (length example_regist_response))"
    using response_parts_header [of "ascii ''200''" "ascii ''OK''" example_regist_headers example_content "fst example_regist_parts" "snd example_regist_parts"
      REGIST_BUF_SIZE True] example_parts_ok example_response_ok
    unfolding regist_response_def by (metis example_digits)
  then have h: "chiaki_recv_http_header True REGIST_BUF_SIZE (rg_inputs example_regist_env) \<noteq> None" by (simp add: example_regist_env_def)
  have t: "ri_target example_regist_info \<noteq> CHIAKI_TARGET_PS5_UNKNOWN" by (simp add: example_regist_info_def)
  have "snd (rg_random example_regist_env) = replicate 0x10 7" by (simp add: example_regist_env_def)
  then have "length (snd (rg_random example_regist_env)) = 0x10" by (simp only: length_replicate)
  from regist_thread_protocol [OF this, of example_regist_info] show ?thesis
    using h t by (cases "regist_thread_func example_regist_info example_regist_env") auto
qed

end
