(* ===== verification/Threads.thy ===== *)
theory Threads
  imports Stop_Pipe
begin

text \<open>
  The rest of \<open>lib/src/thread.c\<close> (POSIX): threads, mutexes and condition variables, which translate the results of the thread library (arguments here,
  zero being success), the wait for a predicate, and the condition variable with a flag, whose wakeups are not lost.
\<close>

section \<open>Results of the thread library\<close>

abbreviation "EBUSY \<equiv> 16 :: int"
abbreviation "PTHREAD_ETIMEDOUT \<equiv> 110 :: int"

definition chiaki_thread_create :: "int \<Rightarrow> ChiakiErrorCode" where
  "chiaki_thread_create r = (if r \<noteq> 0 then CHIAKI_ERR_THREAD else CHIAKI_ERR_SUCCESS)"

definition chiaki_thread_join :: "int \<Rightarrow> ChiakiErrorCode" where
  "chiaki_thread_join r = (if r \<noteq> 0 then CHIAKI_ERR_THREAD else CHIAKI_ERR_SUCCESS)"

definition chiaki_thread_set_name :: "int \<Rightarrow> ChiakiErrorCode" where
  "chiaki_thread_set_name r = (if r \<noteq> 0 then CHIAKI_ERR_THREAD else CHIAKI_ERR_SUCCESS)"

definition chiaki_mutex_init :: "int \<Rightarrow> int \<Rightarrow> ChiakiErrorCode" where
  "chiaki_mutex_init attr_r init_r = (if attr_r \<noteq> 0 then CHIAKI_ERR_UNKNOWN else if init_r \<noteq> 0 then CHIAKI_ERR_UNKNOWN else CHIAKI_ERR_SUCCESS)"

definition chiaki_mutex_fini :: "int \<Rightarrow> ChiakiErrorCode" where
  "chiaki_mutex_fini r = (if r \<noteq> 0 then CHIAKI_ERR_UNKNOWN else CHIAKI_ERR_SUCCESS)"

definition chiaki_mutex_lock :: "int \<Rightarrow> ChiakiErrorCode" where
  "chiaki_mutex_lock r = (if r \<noteq> 0 then CHIAKI_ERR_UNKNOWN else CHIAKI_ERR_SUCCESS)"

definition chiaki_mutex_trylock :: "int \<Rightarrow> ChiakiErrorCode" where
  "chiaki_mutex_trylock r =
     (if r = EBUSY then CHIAKI_ERR_MUTEX_LOCKED else if r \<noteq> 0 then CHIAKI_ERR_UNKNOWN else CHIAKI_ERR_SUCCESS)"

definition chiaki_mutex_unlock :: "int \<Rightarrow> ChiakiErrorCode" where
  "chiaki_mutex_unlock r = (if r \<noteq> 0 then CHIAKI_ERR_UNKNOWN else CHIAKI_ERR_SUCCESS)"

text \<open>The error code and whether the attributes are destroyed.\<close>

definition chiaki_cond_init :: "int \<Rightarrow> int \<Rightarrow> int \<Rightarrow> ChiakiErrorCode \<times> bool" where
  "chiaki_cond_init attr_r clock_r init_r =
     (if attr_r \<noteq> 0 then (CHIAKI_ERR_UNKNOWN, False)
      else if clock_r \<noteq> 0 then (CHIAKI_ERR_UNKNOWN, True)
      else if init_r \<noteq> 0 then (CHIAKI_ERR_UNKNOWN, True)
      else (CHIAKI_ERR_SUCCESS, True))"

definition chiaki_cond_fini :: "int \<Rightarrow> ChiakiErrorCode" where
  "chiaki_cond_fini r = (if r \<noteq> 0 then CHIAKI_ERR_UNKNOWN else CHIAKI_ERR_SUCCESS)"

definition chiaki_cond_wait :: "int \<Rightarrow> ChiakiErrorCode" where
  "chiaki_cond_wait r = (if r \<noteq> 0 then CHIAKI_ERR_UNKNOWN else CHIAKI_ERR_SUCCESS)"

definition chiaki_cond_signal :: "int \<Rightarrow> ChiakiErrorCode" where
  "chiaki_cond_signal r = (if r \<noteq> 0 then CHIAKI_ERR_UNKNOWN else CHIAKI_ERR_SUCCESS)"

definition chiaki_cond_broadcast :: "int \<Rightarrow> ChiakiErrorCode" where
  "chiaki_cond_broadcast r = (if r \<noteq> 0 then CHIAKI_ERR_UNKNOWN else CHIAKI_ERR_SUCCESS)"

definition chiaki_cond_timedwait :: "timespec \<Rightarrow> nat \<Rightarrow> wakeup \<Rightarrow> ChiakiErrorCode" where
  "chiaki_cond_timedwait now timeout_ms w = chiaki_cond_timedwait_abs (set_timeout now timeout_ms) w"

section \<open>Waiting for a predicate\<close>

text \<open>Each wait comes with its result and the state that the other threads leave; \<open>None\<close>: still waiting.\<close>

fun chiaki_cond_wait_pred :: "('s \<Rightarrow> bool) \<Rightarrow> 's \<Rightarrow> (int \<times> 's) list \<Rightarrow> (ChiakiErrorCode \<times> 's) option" where
  "chiaki_cond_wait_pred check_pred s waits =
     (if check_pred s then Some (CHIAKI_ERR_SUCCESS, s)
      else case waits of
        [] \<Rightarrow> None
      | (r, s') # waits \<Rightarrow>
          let err = chiaki_cond_wait r in
          if err \<noteq> CHIAKI_ERR_SUCCESS then Some (err, s') else chiaki_cond_wait_pred check_pred s' waits)"

declare chiaki_cond_wait_pred.simps [simp del]

text \<open>When the wait succeeds the predicate holds, and a state in which it holds ends the wait.\<close>

lemma cond_wait_pred_holds: "chiaki_cond_wait_pred check_pred s waits = Some (CHIAKI_ERR_SUCCESS, s') \<Longrightarrow> check_pred s'"
proof (induction check_pred s waits rule: chiaki_cond_wait_pred.induct)
  case (1 check_pred s waits)
  then show ?case
    by (subst (asm) (2) chiaki_cond_wait_pred.simps) (auto simp: Let_def split: if_split_asm list.split_asm)
qed

lemma cond_wait_pred_ends:
  assumes "s' \<in> insert s (snd ` set waits)" "check_pred s'"
  shows "chiaki_cond_wait_pred check_pred s waits \<noteq> None"
  using assms
proof (induction check_pred s waits rule: chiaki_cond_wait_pred.induct)
  case (1 check_pred s waits)
  show ?case
  proof (cases waits)
    case (Cons w waits')
    obtain r t where w: "w = (r, t)" by fastforce
    show ?thesis
    proof (cases "check_pred s \<or> chiaki_cond_wait r \<noteq> CHIAKI_ERR_SUCCESS")
      case False
      then have "s' \<in> insert t (snd ` set waits')" using 1(2,3) Cons w by auto
      then show ?thesis using 1(1) [OF _ Cons w [symmetric] refl] False 1(3) Cons w by (subst chiaki_cond_wait_pred.simps) simp
    qed (use Cons w in \<open>auto simp: chiaki_cond_wait_pred.simps\<close>)
  qed (use 1 in \<open>simp add: chiaki_cond_wait_pred.simps\<close>)
qed

section \<open>A flag with its condition variable\<close>

text \<open>The error code and which of mutex and condition variable are left initialised.\<close>

definition chiaki_bool_pred_cond_init :: "ChiakiErrorCode \<Rightarrow> ChiakiErrorCode \<Rightarrow> ChiakiErrorCode \<times> bool \<times> bool" where
  "chiaki_bool_pred_cond_init mutex_r cond_r =
     (if mutex_r \<noteq> CHIAKI_ERR_SUCCESS then (mutex_r, False, False)
      else if cond_r \<noteq> CHIAKI_ERR_SUCCESS then (cond_r, False, False)
      else (CHIAKI_ERR_SUCCESS, True, True))"

definition chiaki_bool_pred_cond_fini :: "ChiakiErrorCode \<Rightarrow> ChiakiErrorCode \<Rightarrow> ChiakiErrorCode \<times> bool \<times> bool" where
  "chiaki_bool_pred_cond_fini cond_r mutex_r =
     (if cond_r \<noteq> CHIAKI_ERR_SUCCESS then (cond_r, True, True)
      else if mutex_r \<noteq> CHIAKI_ERR_SUCCESS then (mutex_r, True, False)
      else (CHIAKI_ERR_SUCCESS, False, False))"

text \<open>A flag that is set under the mutex: \<open>signal_r\<close> is the result of the call at the end, and the flag afterwards.\<close>

definition chiaki_bool_pred_cond_signal :: "int \<Rightarrow> int \<Rightarrow> int \<Rightarrow> bool \<Rightarrow> ChiakiErrorCode \<times> bool" where
  "chiaki_bool_pred_cond_signal lock_r unlock_r signal_r pred =
     (let err = chiaki_mutex_lock lock_r in
      if err \<noteq> CHIAKI_ERR_SUCCESS then (err, pred)
      else let pred = True; err = chiaki_mutex_unlock unlock_r in
        if err \<noteq> CHIAKI_ERR_SUCCESS then (err, pred)
        else (chiaki_cond_signal signal_r, pred))"

definition chiaki_bool_pred_cond_broadcast :: "int \<Rightarrow> int \<Rightarrow> int \<Rightarrow> bool \<Rightarrow> ChiakiErrorCode \<times> bool" where
  "chiaki_bool_pred_cond_broadcast lock_r unlock_r broadcast_r pred =
     (let err = chiaki_mutex_lock lock_r in
      if err \<noteq> CHIAKI_ERR_SUCCESS then (err, pred)
      else let pred = True; err = chiaki_mutex_unlock unlock_r in
        if err \<noteq> CHIAKI_ERR_SUCCESS then (err, pred)
        else (chiaki_cond_broadcast broadcast_r, pred))"

definition chiaki_bool_pred_cond_wait :: "bool \<Rightarrow> (int \<times> bool) list \<Rightarrow> (ChiakiErrorCode \<times> bool) option" where
  "chiaki_bool_pred_cond_wait pred waits = chiaki_cond_wait_pred (\<lambda>pred. pred) pred waits"

definition chiaki_bool_pred_cond_timedwait :: "timespec \<Rightarrow> nat \<Rightarrow> bool \<Rightarrow> (wakeup \<times> bool) list \<Rightarrow> (ChiakiErrorCode \<times> bool) option" where
  "chiaki_bool_pred_cond_timedwait now timeout_ms pred wakeups = chiaki_cond_timedwait_pred now timeout_ms (\<lambda>pred. pred) pred wakeups"

subsection \<open>Wakeups are not lost\<close>

text \<open>
  The steps of a thread that waits, from its lock to its unlock, and of one that signals. A blocked thread has given up the mutex; woken, it has to get
  it again. \<open>bc_owner\<close> is whether the waiting (\<open>True\<close>) or the signalling thread holds the mutex.
\<close>

datatype waiter = W_Start | W_Check | W_Blocked | W_Woken | W_Done

datatype signaller = S_Start | S_Set | S_Unlock | S_Signal | S_Done

record bool_cond =
  bc_pred :: bool
  bc_owner :: "bool option"
  bc_waiter :: waiter
  bc_signaller :: signaller

definition bool_cond_start :: bool_cond where
  "bool_cond_start = \<lparr>bc_pred = False, bc_owner = None, bc_waiter = W_Start, bc_signaller = S_Start\<rparr>"

inductive bool_cond_step :: "bool_cond \<Rightarrow> bool_cond \<Rightarrow> bool" where
  wait_lock: "bc_waiter c = W_Start \<Longrightarrow> bc_owner c = None \<Longrightarrow> bool_cond_step c (c\<lparr>bc_owner := Some True, bc_waiter := W_Check\<rparr>)"
| wait_true: "bc_waiter c = W_Check \<Longrightarrow> bc_pred c \<Longrightarrow> bool_cond_step c (c\<lparr>bc_owner := None, bc_waiter := W_Done\<rparr>)"
| wait_block: "bc_waiter c = W_Check \<Longrightarrow> \<not> bc_pred c \<Longrightarrow> bool_cond_step c (c\<lparr>bc_owner := None, bc_waiter := W_Blocked\<rparr>)"
| wait_spurious: "bc_waiter c = W_Blocked \<Longrightarrow> bool_cond_step c (c\<lparr>bc_waiter := W_Woken\<rparr>)"
| wait_relock: "bc_waiter c = W_Woken \<Longrightarrow> bc_owner c = None \<Longrightarrow> bool_cond_step c (c\<lparr>bc_owner := Some True, bc_waiter := W_Check\<rparr>)"
| signal_lock: "bc_signaller c = S_Start \<Longrightarrow> bc_owner c = None \<Longrightarrow> bool_cond_step c (c\<lparr>bc_owner := Some False, bc_signaller := S_Set\<rparr>)"
| signal_set: "bc_signaller c = S_Set \<Longrightarrow> bool_cond_step c (c\<lparr>bc_pred := True, bc_signaller := S_Unlock\<rparr>)"
| signal_unlock: "bc_signaller c = S_Unlock \<Longrightarrow> bool_cond_step c (c\<lparr>bc_owner := None, bc_signaller := S_Signal\<rparr>)"
| signal_wake: "bc_signaller c = S_Signal \<Longrightarrow>
    bool_cond_step c (c\<lparr>bc_waiter := (if bc_waiter c = W_Blocked then W_Woken else bc_waiter c), bc_signaller := S_Done\<rparr>)"

inductive_cases bool_cond_stepE: "bool_cond_step c c'"

definition bool_cond_inv :: "bool_cond \<Rightarrow> bool" where
  "bool_cond_inv c \<longleftrightarrow>
     (bc_owner c = Some True \<longleftrightarrow> bc_waiter c = W_Check) \<and>
     (bc_owner c = Some False \<longleftrightarrow> bc_signaller c \<in> {S_Set, S_Unlock}) \<and>
     (bc_pred c \<longleftrightarrow> bc_signaller c \<in> {S_Unlock, S_Signal, S_Done}) \<and>
     (bc_waiter c = W_Blocked \<longrightarrow> bc_signaller c \<noteq> S_Done) \<and>
     (bc_waiter c = W_Done \<longrightarrow> bc_pred c)"

lemma bool_cond_inv_step: "bool_cond_step c c' \<Longrightarrow> bool_cond_inv c \<Longrightarrow> bool_cond_inv c'"
  by (elim bool_cond_stepE) (auto simp: bool_cond_inv_def)

lemma bool_cond_inv_reachable: "bool_cond_step\<^sup>*\<^sup>* bool_cond_start c \<Longrightarrow> bool_cond_inv c"
proof (induction rule: rtranclp_induct)
  case base
  show ?case by (simp add: bool_cond_start_def bool_cond_inv_def)
next
  case (step c c')
  from step(2,3) show ?case by (rule bool_cond_inv_step)
qed

text \<open>
  However the two threads are interleaved, with spurious wakeups: the waiting thread only goes on when the flag has been set, and after the signal it
  is never blocked, so that it ends after at most three steps of its own.
\<close>

theorem bool_cond_wakeup_not_lost:
  assumes "bool_cond_step\<^sup>*\<^sup>* bool_cond_start c"
  shows "(bc_waiter c = W_Done \<longrightarrow> bc_pred c) \<and>
     (bc_signaller c = S_Done \<longrightarrow> bc_waiter c \<noteq> W_Blocked \<and> (\<exists>c'. bool_cond_step\<^sup>*\<^sup>* c c' \<and> bc_waiter c' = W_Done))"
proof -
  note inv = bool_cond_inv_reachable [OF assms, unfolded bool_cond_inv_def]
  have "\<exists>c'. bool_cond_step\<^sup>*\<^sup>* c c' \<and> bc_waiter c' = W_Done" if s: "bc_signaller c = S_Done"
  proof -
    have p: "bc_pred c" "bc_waiter c \<noteq> W_Blocked" using inv s by auto
    have check: "\<exists>c'. bool_cond_step\<^sup>*\<^sup>* d c' \<and> bc_waiter c' = W_Done" if "bc_waiter d = W_Check" "bc_pred d" for d
      by (rule exI [of _ "d\<lparr>bc_owner := None, bc_waiter := W_Done\<rparr>"]) (simp add: that r_into_rtranclp bool_cond_step.wait_true)
    have lock: "\<exists>c'. bool_cond_step\<^sup>*\<^sup>* c c' \<and> bc_waiter c' = W_Done" if "bc_waiter c \<in> {W_Start, W_Woken}"
    proof -
      have "bc_owner c \<noteq> Some True" "bc_owner c \<noteq> Some False" using inv that s by auto
      then have "bc_owner c = None" by (cases "bc_owner c") auto
      then have "bool_cond_step c (c\<lparr>bc_owner := Some True, bc_waiter := W_Check\<rparr>)"
        using that bool_cond_step.wait_lock bool_cond_step.wait_relock by blast
      then show ?thesis using check [of "c\<lparr>bc_owner := Some True, bc_waiter := W_Check\<rparr>"] p(1) by (auto intro: converse_rtranclp_into_rtranclp)
    qed
    show ?thesis using check [of c] lock p by (cases "bc_waiter c") auto
  qed
  then show ?thesis using inv by blast
qed

end
