(* ===== verification/Log.thy ===== *)
theory Log
  imports Hex_Facts Session_Types
begin

text \<open>
  \<open>lib/src/log.c\<close>: messages with a level, dumps of bytes, and the sniffer, which collects messages and forwards them. The text that \<open>vsnprintf\<close>
  produces is an argument (\<open>None\<close>: it fails); a level is any value of the enumeration's type.
\<close>

section \<open>Messages\<close>

abbreviation "CHIAKI_LOG_DEBUG \<equiv> 0x10 :: u32"
abbreviation "CHIAKI_LOG_VERBOSE \<equiv> 0x08 :: u32"
abbreviation "CHIAKI_LOG_INFO \<equiv> 0x04 :: u32"
abbreviation "CHIAKI_LOG_WARNING \<equiv> 0x02 :: u32"
abbreviation "CHIAKI_LOG_ERROR \<equiv> 0x01 :: u32"
abbreviation "CHIAKI_LOG_ALL \<equiv> 0x1f :: u32"

text \<open>The characters \<open>V\<close>, \<open>D\<close>, \<open>I\<close>, \<open>W\<close>, \<open>E\<close> and a question mark.\<close>

definition chiaki_log_level_char :: "u32 \<Rightarrow> u8" where
  "chiaki_log_level_char level =
     (if level = CHIAKI_LOG_VERBOSE then 0x56
      else if level = CHIAKI_LOG_DEBUG then 0x44
      else if level = CHIAKI_LOG_INFO then 0x49
      else if level = CHIAKI_LOG_WARNING then 0x57
      else if level = CHIAKI_LOG_ERROR then 0x45
      else 0x3f)"

text \<open>The callback: none, that of the sniffer or one of the application.\<close>

datatype log_cb = Log_Cb_Null | Log_Cb_Sniffer | Log_Cb_User

record log =
  lg_level_mask :: u32
  lg_cb :: log_cb

definition chiaki_log_init :: "u32 \<Rightarrow> log_cb \<Rightarrow> log" where
  "chiaki_log_init level_mask cb = \<lparr>lg_level_mask = level_mask, lg_cb = cb\<rparr>"

text \<open>What is printed.\<close>

definition chiaki_log_cb_print :: "u32 \<Rightarrow> bytes \<Rightarrow> bytes" where
  "chiaki_log_cb_print level msg =
     (let c = chiaki_log_level_char level;
          color = (if level = CHIAKI_LOG_DEBUG then Some [0x33, 0x34]
            else if level = CHIAKI_LOG_WARNING then Some [0x33, 0x33]
            else if level = CHIAKI_LOG_ERROR then Some [0x33, 0x31]
            else None) in
      (case color of None \<Rightarrow> [] | Some digits \<Rightarrow> 0x1b # ascii ''[38;5;'' @ digits @ ascii ''m'') @
      [0x5b, c, 0x5d, 0x20] @
      (if color = None then [] else 0x1b # ascii ''[0m'') @
      msg @ [0x0a])"

text \<open>
  The callback that is called (\<open>Log_Cb_Null\<close>: \<open>chiaki_log_cb_print\<close>) with the level and the message; \<open>malloc_ok\<close>: there is memory for a message of 256
  bytes or more. A \<open>log\<close> that is \<open>None\<close> is a null pointer.
\<close>

definition chiaki_log :: "log option \<Rightarrow> bool \<Rightarrow> u32 \<Rightarrow> bytes option \<Rightarrow> (log_cb \<times> u32 \<times> bytes) option" where
  "chiaki_log log malloc_ok level text =
     (if \<exists>l. log = Some l \<and> lg_level_mask l AND level = 0 then None
      else case text of
        None \<Rightarrow> None
      | Some msg \<Rightarrow>
          if length msg \<ge> 0x100 \<and> \<not> malloc_ok then None
          else Some (case log of None \<Rightarrow> Log_Cb_Null | Some l \<Rightarrow> lg_cb l, level, msg))"

section \<open>Dumps\<close>

abbreviation "HEXDUMP_WIDTH \<equiv> 0x10 :: nat"

definition hex_char :: bytes where
  "hex_char = [0x30, 0x31, 0x32, 0x33, 0x34, 0x35, 0x36, 0x37, 0x38, 0x39, 0x61, 0x62, 0x63, 0x64, 0x65, 0x66]"

text \<open>A number in hexadecimal, without leading zeros, and as \<open>%6x\<close> prints it.\<close>

fun hexadecimal :: "nat \<Rightarrow> bytes" where
  "hexadecimal n = (if n < 16 then [hex_char ! n] else hexadecimal (n div 16) @ [hex_char ! (n mod 16)])"

declare hexadecimal.simps [simp del]

definition hexadecimal6 :: "nat \<Rightarrow> bytes" where
  "hexadecimal6 n = replicate (6 - length (hexadecimal n)) 0x20 @ hexadecimal n"

text \<open>The two buffers for the next bytes, of which there may be fewer than sixteen.\<close>

definition hexdump_hex :: "bytes \<Rightarrow> bytes" where
  "hexdump_hex buf = concat (map (\<lambda>i.
     if i < length buf then [hex_char ! unat (drop_bit 4 (buf ! i)), hex_char ! unat (buf ! i AND 0xf), 0x20] else [0x20, 0x20, 0x20]) [0..<HEXDUMP_WIDTH])"

definition hexdump_ascii :: "bytes \<Rightarrow> bytes" where
  "hexdump_ascii buf = map (\<lambda>i. if i < length buf then (if buf ! i > 0x20 \<and> buf ! i < 0x7f then buf ! i else 0x2e) else 0x20) [0..<HEXDUMP_WIDTH]"

text \<open>The lines of the loop; \<open>%x\<close> takes 32 bits of the offset.\<close>

function hexdump_lines :: "nat \<Rightarrow> bytes \<Rightarrow> bytes list" where
  "hexdump_lines offset buf =
     (if buf = [] then []
      else (hexadecimal6 (unat (of_nat offset :: u32)) @ [0x20] @ hexdump_hex buf @ hexdump_ascii buf) #
        (if length buf > HEXDUMP_WIDTH then hexdump_lines (offset + HEXDUMP_WIDTH) (drop HEXDUMP_WIDTH buf) else []))"
  by pat_completeness auto
termination
  by (relation "measure (\<lambda>(offset, buf). length buf)") auto

declare hexdump_lines.simps [simp del]

definition hexdump_title :: bytes where
  "hexdump_title = ascii ''offset 0  1  2  3  4  5  6  7  8  9  a  b  c  d  e  f  0123456789abcdef''"

definition chiaki_log_hexdump :: "log option \<Rightarrow> u32 \<Rightarrow> bytes \<Rightarrow> (log_cb \<times> u32 \<times> bytes) list" where
  "chiaki_log_hexdump log level buf =
     (if \<exists>l. log = Some l \<and> lg_level_mask l AND level = 0 then []
      else List.map_filter (\<lambda>line. chiaki_log log True level (Some line)) (hexdump_title # hexdump_lines 0 buf))"

text \<open>\<open>str_ok\<close> and \<open>malloc_ok\<close>: the two allocations succeed.\<close>

definition chiaki_log_hexdump_raw :: "log option \<Rightarrow> bool \<Rightarrow> bool \<Rightarrow> u32 \<Rightarrow> bytes \<Rightarrow> (log_cb \<times> u32 \<times> bytes) option" where
  "chiaki_log_hexdump_raw log str_ok malloc_ok level buf =
     (if \<exists>l. log = Some l \<and> lg_level_mask l AND level = 0 then None
      else if \<not> str_ok then None
      else chiaki_log log malloc_ok level (Some (concat (map (\<lambda>v. [hex_char ! unat (drop_bit 4 v), hex_char ! unat (v AND 0xf)]) buf))))"

section \<open>The sniffer\<close>

text \<open>\<open>sn_buf\<close>: the contents of the allocated array, if there is one.\<close>

record log_sniffer =
  sn_forward_log :: "log option"
  sn_sniff_log :: log
  sn_sniff_level_mask :: u32
  sn_buf :: "bytes option"
  sn_buf_len :: nat

definition chiaki_log_sniffer_init :: "bool \<Rightarrow> u32 \<Rightarrow> log option \<Rightarrow> log_sniffer" where
  "chiaki_log_sniffer_init calloc_ok level_mask forward_log =
     \<lparr>sn_forward_log = forward_log, sn_sniff_log = chiaki_log_init CHIAKI_LOG_ALL Log_Cb_Sniffer, sn_sniff_level_mask = level_mask,
      sn_buf = (if calloc_ok then Some [0] else None), sn_buf_len = 0\<rparr>"

definition log_sniffer_push :: "bool \<Rightarrow> u32 \<Rightarrow> bytes \<Rightarrow> log_sniffer \<Rightarrow> log_sniffer" where
  "log_sniffer_push realloc_ok level msg sniffer =
     (if msg = [] then sniffer
      else if \<not> realloc_ok then sniffer
      else let nl = sn_buf_len sniffer \<noteq> 0;
               text = (case sn_buf sniffer of None \<Rightarrow> [] | Some buf \<Rightarrow> take (sn_buf_len sniffer) buf) @ (if nl then [0x0a] else []) @
                 [0x5b, chiaki_log_level_char level, 0x5d, 0x20] @ msg
        in sniffer\<lparr>sn_buf := Some (text @ [0]), sn_buf_len := length text\<rparr>)"

text \<open>The sniffer and what the log behind it is given.\<close>

definition log_sniffer_cb :: "bool \<Rightarrow> bool \<Rightarrow> u32 \<Rightarrow> bytes \<Rightarrow> log_sniffer \<Rightarrow> log_sniffer \<times> (log_cb \<times> u32 \<times> bytes) option" where
  "log_sniffer_cb realloc_ok malloc_ok level msg sniffer =
     (let sniffer = (if level AND sn_sniff_level_mask sniffer \<noteq> 0 then log_sniffer_push realloc_ok level msg sniffer else sniffer)
      in (sniffer, if sn_forward_log sniffer = None then None else chiaki_log (sn_forward_log sniffer) malloc_ok level (Some msg)))"

text \<open>A message to the log of the sniffer: the memory for it, for the collected text and for forwarding it.\<close>

definition sniffer_message :: "bool \<times> bool \<times> bool \<Rightarrow> u32 \<Rightarrow> bytes option \<Rightarrow> log_sniffer \<Rightarrow> log_sniffer \<times> (log_cb \<times> u32 \<times> bytes) option" where
  "sniffer_message mem level text sniffer =
     (case mem of (log_ok, realloc_ok, malloc_ok) \<Rightarrow>
        case chiaki_log (Some (sn_sniff_log sniffer)) log_ok level text of
          None \<Rightarrow> (sniffer, None)
        | Some (_, level, msg) \<Rightarrow> log_sniffer_cb realloc_ok malloc_ok level msg sniffer)"

fun sniffer_run :: "((bool \<times> bool \<times> bool) \<times> u32 \<times> bytes option) list \<Rightarrow> log_sniffer \<Rightarrow> log_sniffer \<times> (log_cb \<times> u32 \<times> bytes) list" where
  "sniffer_run [] sniffer = (sniffer, [])"
| "sniffer_run ((mem, level, text) # messages) sniffer =
     (case sniffer_message mem level text sniffer of (sniffer, out) \<Rightarrow>
        case sniffer_run messages sniffer of (sniffer, outs) \<Rightarrow> (sniffer, opt_list out @ outs))"

section \<open>Facts: dumps\<close>

lemma hex_char_digit: "v \<le> 0xf \<Longrightarrow> hex_char ! unat v = hex_digit v"
proof -
  have "list_all (\<lambda>v. hex_char ! unat v = hex_digit v) (map of_nat [0..<16])"
    by (simp add: upt_rec hex_char_def hex_digit_def)
  then show "v \<le> 0xf \<Longrightarrow> hex_char ! unat v = hex_digit v" using nibble_cases unfolding list_all_iff by blast
qed

lemma hexdump_raw_text: "concat (map (\<lambda>v. [hex_char ! unat (drop_bit 4 v), hex_char ! unat (v AND 0xf)]) buf) = hex_text buf"
  by (simp add: hex_text_def hex_char_digit byte_nibbles)

text \<open>A raw dump is read back by the hexadecimal codec.\<close>

theorem log_hexdump_raw_read_back:
  "\<exists>txt. chiaki_log_hexdump_raw None True True level buf = Some (Log_Cb_Null, level, txt) \<and>
     parse_hex (length buf) txt = (CHIAKI_ERR_SUCCESS, buf, length buf)"
  by (simp add: chiaki_log_hexdump_raw_def chiaki_log_def hexdump_raw_text parse_hex_text)

text \<open>The bytes that a line of a dump shows.\<close>

fun hexdump_columns :: "bytes \<Rightarrow> bytes" where
  "hexdump_columns (a # b # c # rest) = (if a = 0x20 then [] else snd (parse_hex_loop [a, b] []) @ hexdump_columns rest)"
| "hexdump_columns _ = []"

lemma hexdump_columns_hex:
  "hexdump_columns (concat (map (\<lambda>v. [hex_digit (drop_bit 4 v), hex_digit (v AND 0xf), 0x20]) bs) @ concat (replicate k [0x20, 0x20, 0x20])) = bs"
proof (induction bs)
  case Nil
  then show ?case by (cases k) simp_all
next
  case (Cons v bs)
  have "nibble_value 0x20 = - 1" by (simp add: nibble_value_def)
  then have "hex_digit (drop_bit 4 v) = 0x20 \<Longrightarrow> uint (drop_bit 4 v) = - 1"
    using nibble_value_hex_digit [OF byte_nibbles(1), of v] by simp
  then have "hex_digit (drop_bit 4 v) \<noteq> 0x20"
    using unsigned_greater_eq [of "drop_bit 4 v", where 'a = int] by linarith
  moreover have "parse_hex_loop [hex_digit (drop_bit 4 v), hex_digit (v AND 0xf)] [] = (CHIAKI_ERR_SUCCESS, [v])"
    using parse_hex_loop_text [of "[v]" "[]"] by (simp add: hex_text_def)
  ultimately show ?case using Cons by simp
qed

lemma hexdump_hex_text:
  "length buf \<le> 16 \<Longrightarrow> hexdump_hex buf =
     concat (map (\<lambda>v. [hex_digit (drop_bit 4 v), hex_digit (v AND 0xf), 0x20]) buf) @ concat (replicate (16 - length buf) [0x20, 0x20, 0x20])"
proof -
  assume l: "length buf \<le> 16"
  have u: "[0..<HEXDUMP_WIDTH] = [0..<length buf] @ [length buf..<16]" using upt_add_eq_append [of 0 "length buf" "16 - length buf"] l by simp
  have a: "map (\<lambda>i. if i < length buf then f (buf ! i) else z) [0..<length buf] = map f buf" for f :: "u8 \<Rightarrow> bytes" and z
    by (rule nth_equalityI) simp_all
  have b: "map (\<lambda>i. if i < length buf then f (buf ! i) else z) [length buf..<16] = replicate (16 - length buf) z" for f :: "u8 \<Rightarrow> bytes" and z
    by (rule nth_equalityI) simp_all
  have m: "map (\<lambda>i. if i < length buf then f (buf ! i) else z) [0..<HEXDUMP_WIDTH] = map f buf @ replicate (16 - length buf) z"
    for f :: "u8 \<Rightarrow> bytes" and z unfolding u map_append a b by (rule refl)
  show ?thesis
    unfolding hexdump_hex_def hex_char_digit [OF byte_nibbles(1)] hex_char_digit [OF byte_nibbles(2)]
      m [of "\<lambda>v. [hex_digit (drop_bit 4 v), hex_digit (v AND 0xf), 0x20]" "[0x20, 0x20, 0x20]"] concat_append by (rule refl)
qed

lemma hexdump_hex_take: "hexdump_hex buf = hexdump_hex (take 16 buf)"
  unfolding hexdump_hex_def by (rule arg_cong [of _ _ concat], rule map_cong) auto

lemma length_take_16: "length (take 16 buf) \<le> 16"
  by simp

lemma length_hexadecimal6: "n < 16 ^ 6 \<Longrightarrow> length (hexadecimal6 n) = 6"
proof -
  have "n < 16 ^ k \<Longrightarrow> 0 < k \<Longrightarrow> length (hexadecimal n) \<le> k" for k
  proof (induction n arbitrary: k rule: hexadecimal.induct)
    case (1 n)
    then obtain j where j: "k = Suc j" by (cases k) auto
    show ?case
    proof (cases "n < 16")
      case False
      then have "0 < j" using 1(2) j by (cases j) auto
      moreover have "n div 16 < 16 ^ j" using 1(2) j by (simp add: less_mult_imp_div_less)
      ultimately show ?thesis using 1(1) [OF False] False j by (subst hexadecimal.simps) simp
    qed (simp add: j hexadecimal.simps)
  qed
  then show "n < 16 ^ 6 \<Longrightarrow> length (hexadecimal6 n) = 6" by (simp add: hexadecimal6_def)
qed

text \<open>A dump of less than 16 MB shows all its bytes, in order, behind the seven characters of the offset.\<close>

theorem log_hexdump_shows:
  assumes "offset + length buf \<le> 16 ^ 6"
  shows "concat (map (\<lambda>line. hexdump_columns (take 48 (drop 7 line))) (hexdump_lines offset buf)) = buf"
  using assms
proof (induction offset buf rule: hexdump_lines.induct)
  case (1 offset buf)
  show ?case
  proof (cases "buf = []")
    case False
    have o: "unat (of_nat offset :: u32) = offset" using 1(2) False by (intro unat_of_nat_len) simp
    have l: "length (hexdump_hex buf) = 48" by (simp add: hexdump_hex_def upt_rec)
    have h: "hexdump_columns (hexdump_hex buf) = take 16 buf"
      unfolding hexdump_hex_take [of buf] hexdump_hex_text [OF length_take_16] by (rule hexdump_columns_hex)
    have "0 < length buf" using False by simp
    then have "offset < 16 ^ 6" using 1(2) by linarith
    then have "length (hexadecimal6 offset) = 6" by (rule length_hexadecimal6)
    then have "take 48 (drop 7 (hexadecimal6 offset @ [0x20] @ x @ hexdump_ascii buf)) = x" if "length x = 48" for x using that by simp
    then have "hexdump_columns (take 48 (drop 7 (hexadecimal6 offset @ [0x20] @ hexdump_hex buf @ hexdump_ascii buf))) = take 16 buf"
      using l h by simp
    then show ?thesis
      using 1 False o by (subst hexdump_lines.simps) (cases "16 < length buf"; simp)
  qed (simp add: hexdump_lines.simps)
qed

section \<open>Facts: the sniffer\<close>

text \<open>The lines of a text that is collected.\<close>

definition sniffed_line :: "u32 \<times> bytes \<Rightarrow> bytes" where
  "sniffed_line m = [0x5b, chiaki_log_level_char (fst m), 0x5d, 0x20] @ snd m"

fun join_lines :: "bytes list \<Rightarrow> bytes" where
  "join_lines [] = []"
| "join_lines [l] = l"
| "join_lines (l # ls) = l @ 0x0a # join_lines ls"

definition sniffed :: "u32 \<Rightarrow> (u32 \<times> bytes) list \<Rightarrow> bytes" where
  "sniffed level_mask messages = join_lines (map sniffed_line (filter (\<lambda>(level, msg). level AND level_mask \<noteq> 0 \<and> msg \<noteq> []) messages))"

lemma join_lines_append: "ls \<noteq> [] \<Longrightarrow> join_lines (ls @ [l]) = join_lines ls @ 0x0a # l"
  by (induction ls rule: join_lines.induct) auto

lemma sniffed_line_ne: "join_lines (map sniffed_line ms) = [] \<longleftrightarrow> ms = []"
  by (cases "map sniffed_line ms" rule: join_lines.cases) (auto simp: sniffed_line_def)

lemma log_level_and_all:
  "level \<in> {CHIAKI_LOG_DEBUG, CHIAKI_LOG_VERBOSE, CHIAKI_LOG_INFO, CHIAKI_LOG_WARNING, CHIAKI_LOG_ERROR} \<Longrightarrow> CHIAKI_LOG_ALL AND level \<noteq> 0"
  by auto

text \<open>A sniffer that has collected \<open>messages\<close>: the text is terminated and its length is that of the text.\<close>

definition sniffer_holds :: "log_sniffer \<Rightarrow> u32 \<Rightarrow> log option \<Rightarrow> (u32 \<times> bytes) list \<Rightarrow> bool" where
  "sniffer_holds sniffer level_mask forward messages \<longleftrightarrow>
     sn_buf sniffer = Some (sniffed level_mask messages @ [0]) \<and> sn_buf_len sniffer = length (sniffed level_mask messages) \<and>
     sn_forward_log sniffer = forward \<and> sn_sniff_level_mask sniffer = level_mask \<and> sn_sniff_log sniffer = chiaki_log_init CHIAKI_LOG_ALL Log_Cb_Sniffer"

lemma sniffed_snoc:
  "sniffed level_mask (messages @ [(level, msg)]) =
     (if level AND level_mask = 0 \<or> msg = [] then sniffed level_mask messages
      else sniffed level_mask messages @ (if sniffed level_mask messages = [] then [] else [0x0a]) @ sniffed_line (level, msg))"
proof -
  let ?ms = "filter (\<lambda>(level, msg). level AND level_mask \<noteq> 0 \<and> msg \<noteq> []) messages"
  have "sniffed level_mask messages = [] \<longleftrightarrow> ?ms = []" unfolding sniffed_def by (rule sniffed_line_ne)
  then show ?thesis using join_lines_append [of "map sniffed_line ?ms" "sniffed_line (level, msg)"] by (auto simp: sniffed_def)
qed

lemma sniffer_message_holds:
  assumes "sniffer_holds sniffer level_mask forward messages"
    and "level \<in> {CHIAKI_LOG_DEBUG, CHIAKI_LOG_VERBOSE, CHIAKI_LOG_INFO, CHIAKI_LOG_WARNING, CHIAKI_LOG_ERROR}"
  shows "\<exists>sniffer'. sniffer_message (True, True, True) level (Some msg) sniffer =
       (sniffer', if forward = None then None else chiaki_log forward True level (Some msg)) \<and>
     sniffer_holds sniffer' level_mask forward (messages @ [(level, msg)])"
proof -
  note h = assms(1) [unfolded sniffer_holds_def]
  have "chiaki_log (Some (sn_sniff_log sniffer)) True level (Some msg) = Some (Log_Cb_Sniffer, level, msg)"
    using h log_level_and_all [OF assms(2)] by (simp add: chiaki_log_def chiaki_log_init_def)
  then show ?thesis
    using h by (auto simp: sniffer_message_def log_sniffer_cb_def Let_def log_sniffer_push_def sniffer_holds_def sniffed_snoc sniffed_line_def)
qed

text \<open>
  The sniffer collects exactly the non-empty messages with a level of its mask, one line each, and every message, whatever its level, is passed on to
  the log behind it, which applies its own mask.
\<close>

theorem sniffer_collects:
  assumes "\<forall>(level, msg) \<in> set messages. level \<in> {CHIAKI_LOG_DEBUG, CHIAKI_LOG_VERBOSE, CHIAKI_LOG_INFO, CHIAKI_LOG_WARNING, CHIAKI_LOG_ERROR}"
  shows "\<exists>sniffer. sniffer_run (map (\<lambda>(level, msg). ((True, True, True), level, Some msg)) messages) (chiaki_log_sniffer_init True level_mask forward) =
       (sniffer, if forward = None then [] else List.map_filter (\<lambda>(level, msg). chiaki_log forward True level (Some msg)) messages) \<and>
     sniffer_holds sniffer level_mask forward messages"
proof -
  have run: "sniffer_holds sniffer level_mask forward before \<Longrightarrow>
      \<exists>sniffer'. sniffer_run (map (\<lambda>(level, msg). ((True, True, True), level, Some msg)) messages) sniffer =
         (sniffer', if forward = None then [] else List.map_filter (\<lambda>(level, msg). chiaki_log forward True level (Some msg)) messages) \<and>
       sniffer_holds sniffer' level_mask forward (before @ messages)" for sniffer before
    using assms
  proof (induction messages arbitrary: sniffer before)
    case (Cons m messages)
    obtain level msg where m: "m = (level, msg)" by fastforce
    have l: "level \<in> {CHIAKI_LOG_DEBUG, CHIAKI_LOG_VERBOSE, CHIAKI_LOG_INFO, CHIAKI_LOG_WARNING, CHIAKI_LOG_ERROR}" using Cons.prems(2) m by simp
    obtain s where s: "sniffer_message (True, True, True) level (Some msg) sniffer =
        (s, if forward = None then None else chiaki_log forward True level (Some msg))" "sniffer_holds s level_mask forward (before @ [m])"
      using sniffer_message_holds [OF Cons.prems(1) l] m by blast
    from Cons.IH [OF s(2)] Cons.prems(2) obtain s' where
      "sniffer_run (map (\<lambda>(level, msg). ((True, True, True), level, Some msg)) messages) s =
         (s', if forward = None then [] else List.map_filter (\<lambda>(level, msg). chiaki_log forward True level (Some msg)) messages)"
      "sniffer_holds s' level_mask forward ((before @ [m]) @ messages)" by auto
    then show ?case using s(1) by (simp add: m List.map_filter_simps split: option.split)
  qed (simp add: List.map_filter_simps)
  have "sniffer_holds (chiaki_log_sniffer_init True level_mask forward) level_mask forward []"
    by (simp add: sniffer_holds_def chiaki_log_sniffer_init_def sniffed_def)
  from run [OF this] show ?thesis by simp
qed

end
