(* ===== verification/Orientation.thy ===== *)
theory Orientation
  imports Controller Complex_Main
begin

text \<open>
  \<open>lib/src/orientation.c\<close>: the orientation of a controller as a quaternion, from its gyroscope and accelerometer. The operations on floating point
  numbers are a parameter; the facts are those of exact arithmetic.
\<close>

section \<open>Operations\<close>

text \<open>Further operations of \<open>float\<close> and \<open>double\<close>: negation, comparison, conversion, literals, the square root.\<close>

record ('f, 'd) orientation_ops = "('f, 'd) float_ops" +
  f_neg :: "'f \<Rightarrow> 'f"
  f_eq :: "'f \<Rightarrow> 'f \<Rightarrow> bool"
  f_of_u64 :: "u64 \<Rightarrow> 'f"
  d_lit :: "int \<Rightarrow> nat \<Rightarrow> 'd"
  d_sub :: "'d \<Rightarrow> 'd \<Rightarrow> 'd"
  d_sqrt :: "'d \<Rightarrow> 'd"

record 'f orientation =
  or_x :: 'f
  or_y :: 'f
  or_z :: 'f
  or_w :: 'f

definition SIN_1_4_PI :: "('f, 'd) orientation_ops \<Rightarrow> 'd" where
  "SIN_1_4_PI fp = d_lit fp 7071067811865475 (10 ^ 16)"

definition SIN_NEG_1_4_PI :: "('f, 'd) orientation_ops \<Rightarrow> 'd" where
  "SIN_NEG_1_4_PI fp = d_neg fp (d_lit fp 7071067811865475 (10 ^ 16))"

definition COS_1_4_PI :: "('f, 'd) orientation_ops \<Rightarrow> 'd" where
  "COS_1_4_PI fp = d_lit fp 7071067811865476 (10 ^ 16)"

definition COS_NEG_1_4_PI :: "('f, 'd) orientation_ops \<Rightarrow> 'd" where
  "COS_NEG_1_4_PI fp = d_lit fp 7071067811865476 (10 ^ 16)"

definition chiaki_orientation_init :: "('f, 'd) orientation_ops \<Rightarrow> 'f orientation" where
  "chiaki_orientation_init fp =
     \<lparr>or_x = d_to_f fp (SIN_1_4_PI fp), or_y = f_lit fp 0 1, or_z = f_lit fp 0 1, or_w = d_to_f fp (COS_1_4_PI fp)\<rparr>"

definition inv_sqrt :: "('f, 'd) orientation_ops \<Rightarrow> 'f \<Rightarrow> 'f" where
  "inv_sqrt fp x = d_to_f fp (d_div fp (f_to_d fp (f_lit fp 1 1)) (d_sqrt fp (f_to_d fp x)))"

text \<open>The rate of change, from the gyroscope.\<close>

definition orientation_rate :: "('f, 'd) orientation_ops \<Rightarrow> 'f orientation \<Rightarrow> 'f \<Rightarrow> 'f \<Rightarrow> 'f \<Rightarrow> 'f \<times> 'f \<times> 'f \<times> 'f" where
  "orientation_rate fp orient gx gy gz =
     (let q0 = or_w orient; q1 = or_x orient; q2 = or_y orient; q3 = or_z orient;
          add = f_add fp; sub = f_sub fp; mul = f_mul fp; half = f_lit fp 1 2
      in (mul half (sub (sub (mul (f_neg fp q1) gx) (mul q2 gy)) (mul q3 gz)),
          mul half (sub (add (mul q0 gx) (mul q2 gz)) (mul q3 gy)),
          mul half (add (sub (mul q0 gy) (mul q1 gz)) (mul q3 gx)),
          mul half (sub (add (mul q0 gz) (mul q1 gy)) (mul q2 gx))))"

text \<open>The step of the gradient descent, from the accelerometer, which is normalised.\<close>

definition orientation_step :: "('f, 'd) orientation_ops \<Rightarrow> 'f orientation \<Rightarrow> 'f \<Rightarrow> 'f \<Rightarrow> 'f \<Rightarrow> 'f \<times> 'f \<times> 'f \<times> 'f" where
  "orientation_step fp orient ax ay az =
     (let q0 = or_w orient; q1 = or_x orient; q2 = or_y orient; q3 = or_z orient;
          add = f_add fp; sub = f_sub fp; mul = f_mul fp;
          two = f_lit fp 2 1; four = f_lit fp 4 1; eight = f_lit fp 8 1;
          x2q0 = mul two q0; x2q1 = mul two q1; x2q2 = mul two q2; x2q3 = mul two q3;
          x4q0 = mul four q0; x4q1 = mul four q1; x4q2 = mul four q2; x8q1 = mul eight q1; x8q2 = mul eight q2;
          q0q0 = mul q0 q0; q1q1 = mul q1 q1; q2q2 = mul q2 q2; q3q3 = mul q3 q3
      in (sub (add (add (mul x4q0 q2q2) (mul x2q2 ax)) (mul x4q0 q1q1)) (mul x2q1 ay),
          add (add (add (sub (sub (add (sub (mul x4q1 q3q3) (mul x2q3 ax)) (mul (mul four q0q0) q1)) (mul x2q0 ay)) x4q1)
            (mul x8q1 q1q1)) (mul x8q1 q2q2)) (mul x4q1 az),
          add (add (add (sub (sub (add (add (mul (mul four q0q0) q2) (mul x2q0 ax)) (mul x4q2 q3q3)) (mul x2q3 ay)) x4q2)
            (mul x8q2 q1q1)) (mul x8q2 q2q2)) (mul x4q2 az),
          sub (add (sub (mul (mul four q1q1) q3) (mul x2q1 ax)) (mul (mul four q2q2) q3)) (mul x2q2 ay)))"

definition f_sum_squares :: "('f, 'd) orientation_ops \<Rightarrow> 'f \<times> 'f \<times> 'f \<times> 'f \<Rightarrow> 'f" where
  "f_sum_squares fp v = (case v of (a, b, c, d) \<Rightarrow>
     f_add fp (f_add fp (f_add fp (f_mul fp a a) (f_mul fp b b)) (f_mul fp c c)) (f_mul fp d d))"

definition orientation_corrected ::
  "('f, 'd) orientation_ops \<Rightarrow> 'f orientation \<Rightarrow> 'f \<Rightarrow> 'f \<Rightarrow> 'f \<Rightarrow> 'f \<Rightarrow> 'f \<times> 'f \<times> 'f \<times> 'f \<Rightarrow> 'f \<times> 'f \<times> 'f \<times> 'f" where
  "orientation_corrected fp orient ax ay az beta q_dot =
     (let mul = f_mul fp; zero = f_lit fp 0 1 in
      if f_eq fp ax zero \<and> f_eq fp ay zero \<and> f_eq fp az zero then q_dot
      else let recip_norm = inv_sqrt fp (f_add fp (f_add fp (mul ax ax) (mul ay ay)) (mul az az));
               s = orientation_step fp orient (mul ax recip_norm) (mul ay recip_norm) (mul az recip_norm);
               recip_norm = f_sum_squares fp s in
        if f_less fp (f_lit fp 1 1000000) recip_norm then
          let recip_norm = inv_sqrt fp recip_norm in
          (case s of (s0, s1, s2, s3) \<Rightarrow> case q_dot of (q_dot1, q_dot2, q_dot3, q_dot4) \<Rightarrow>
             (f_sub fp q_dot1 (mul beta (mul s0 recip_norm)), f_sub fp q_dot2 (mul beta (mul s1 recip_norm)),
              f_sub fp q_dot3 (mul beta (mul s2 recip_norm)), f_sub fp q_dot4 (mul beta (mul s3 recip_norm))))
        else q_dot)"

text \<open>The quaternion is \<open>q0\<close> to \<open>q3\<close>.\<close>

definition orientation_normalised :: "('f, 'd) orientation_ops \<Rightarrow> 'f \<times> 'f \<times> 'f \<times> 'f \<Rightarrow> 'f orientation" where
  "orientation_normalised fp q =
     (let recip_norm = inv_sqrt fp (f_sum_squares fp q) in
      case q of (q0, q1, q2, q3) \<Rightarrow>
        \<lparr>or_x = f_mul fp q1 recip_norm, or_y = f_mul fp q2 recip_norm, or_z = f_mul fp q3 recip_norm, or_w = f_mul fp q0 recip_norm\<rparr>)"

definition chiaki_orientation_update ::
  "('f, 'd) orientation_ops \<Rightarrow> 'f \<Rightarrow> 'f \<Rightarrow> 'f \<Rightarrow> 'f \<Rightarrow> 'f \<Rightarrow> 'f \<Rightarrow> 'f \<Rightarrow> 'f \<Rightarrow> 'f orientation \<Rightarrow> 'f orientation" where
  "chiaki_orientation_update fp gx gy gz ax ay az beta time_step_sec orient =
     (case orientation_corrected fp orient ax ay az beta (orientation_rate fp orient gx gy gz) of (q_dot1, q_dot2, q_dot3, q_dot4) \<Rightarrow>
        orientation_normalised fp
          (f_add fp (or_w orient) (f_mul fp q_dot1 time_step_sec), f_add fp (or_x orient) (f_mul fp q_dot2 time_step_sec),
           f_add fp (or_y orient) (f_mul fp q_dot3 time_step_sec), f_add fp (or_z orient) (f_mul fp q_dot4 time_step_sec)))"

section \<open>The tracker\<close>

record 'f orientation_tracker =
  ot_gyro_x :: 'f
  ot_gyro_y :: 'f
  ot_gyro_z :: 'f
  ot_accel_x :: 'f
  ot_accel_y :: 'f
  ot_accel_z :: 'f
  ot_orient :: "'f orientation"
  ot_timestamp :: u64
  ot_sample_index :: u64

definition chiaki_orientation_tracker_init :: "('f, 'd) orientation_ops \<Rightarrow> 'f orientation_tracker" where
  "chiaki_orientation_tracker_init fp =
     \<lparr>ot_gyro_x = f_lit fp 0 1, ot_gyro_y = f_lit fp 0 1, ot_gyro_z = f_lit fp 0 1,
      ot_accel_x = f_lit fp 0 1, ot_accel_y = f_lit fp 1 1, ot_accel_z = f_lit fp 0 1,
      ot_orient = chiaki_orientation_init fp, ot_timestamp = 0, ot_sample_index = 0\<rparr>"

abbreviation "WARMUP_SAMPLES_COUNT \<equiv> 30 :: u64"

text \<open>The time since the last sample: a smaller time stamp has wrapped at 32 bits.\<close>

definition orientation_delta :: "u64 \<Rightarrow> u64 \<Rightarrow> u64" where
  "orientation_delta timestamp timestamp_us =
     (let delta_us = timestamp_us;
          delta_us = (if delta_us < timestamp then delta_us + push_bit 32 1 else delta_us)
      in delta_us - timestamp)"

definition chiaki_orientation_tracker_update ::
  "('f, 'd) orientation_ops \<Rightarrow> 'f \<Rightarrow> 'f \<Rightarrow> 'f \<Rightarrow> 'f \<Rightarrow> 'f \<Rightarrow> 'f \<Rightarrow> u64 \<Rightarrow> 'f orientation_tracker \<Rightarrow> 'f orientation_tracker" where
  "chiaki_orientation_tracker_update fp gx gy gz ax ay az timestamp_us tracker =
     (let tracker = tracker\<lparr>ot_gyro_x := gx, ot_gyro_y := gy, ot_gyro_z := gz, ot_accel_x := ax, ot_accel_y := ay, ot_accel_z := az,
            ot_sample_index := ot_sample_index tracker + 1\<rparr> in
      if ot_sample_index tracker \<le> 1 then tracker\<lparr>ot_timestamp := timestamp_us\<rparr>
      else let delta_us = orientation_delta (ot_timestamp tracker) timestamp_us;
               tracker = tracker\<lparr>ot_timestamp := timestamp_us\<rparr>
        in tracker\<lparr>ot_orient := chiaki_orientation_update fp gx gy gz ax ay az
             (if ot_sample_index tracker < WARMUP_SAMPLES_COUNT then f_lit fp 20 1 else f_lit fp 1 20)
             (f_div fp (f_of_u64 fp delta_us) (f_lit fp 1000000 1)) (ot_orient tracker)\<rparr>)"

definition chiaki_orientation_tracker_apply_to_controller_state ::
  "('f, 'd) orientation_ops \<Rightarrow> 'f orientation_tracker \<Rightarrow> 'f controller_state \<Rightarrow> 'f controller_state" where
  "chiaki_orientation_tracker_apply_to_controller_state fp tracker state =
     (let d = f_to_d fp; orient = ot_orient tracker; c = COS_NEG_1_4_PI fp; s = SIN_NEG_1_4_PI fp in
      state\<lparr>gyro_x := ot_gyro_x tracker, gyro_y := ot_gyro_y tracker, gyro_z := ot_gyro_z tracker,
        accel_x := ot_accel_x tracker, accel_y := ot_accel_y tracker, accel_z := ot_accel_z tracker,
        orient_w := d_to_f fp (d_sub fp (d_mul fp c (d (or_w orient))) (d_mul fp s (d (or_x orient)))),
        orient_x := d_to_f fp (d_add fp (d_mul fp c (d (or_x orient))) (d_mul fp s (d (or_w orient)))),
        orient_y := d_to_f fp (d_sub fp (d_mul fp c (d (or_y orient))) (d_mul fp s (d (or_z orient)))),
        orient_z := d_to_f fp (d_add fp (d_mul fp c (d (or_z orient))) (d_mul fp s (d (or_y orient))))\<rparr>)"

section \<open>Facts: time\<close>

text \<open>Time stamps of a clock with 32 bits: the time is right whether or not the clock has wrapped.\<close>

lemma orientation_delta_wraps:
  assumes "t < 2 ^ 64" "delta < 2 ^ 32"
  shows "orientation_delta (of_nat (t mod 2 ^ 32)) (of_nat ((t + delta) mod 2 ^ 32)) = of_nat delta"
proof -
  define a where "a = t mod 2 ^ 32"
  have a: "a < 2 ^ 32" by (simp add: a_def)
  have m: "(t + delta) mod 2 ^ 32 = (if a + delta < 2 ^ 32 then a + delta else a + delta - 2 ^ 32)"
  proof -
    have "(t + delta) mod 2 ^ 32 = (a + delta) mod 2 ^ 32" unfolding a_def by (rule mod_add_left_eq [symmetric])
    also have "\<dots> = (if a + delta < 2 ^ 32 then a + delta else a + delta - 2 ^ 32)"
      using a assms(2) by (simp add: le_mod_geq)
    finally show ?thesis .
  qed
  have u: "unat (of_nat n :: u64) = n" if "n < 2 ^ 33" for n using that by (intro unat_of_nat_len) simp
  have p: "(push_bit 32 1 :: u64) = of_nat (2 ^ 32)" by simp
  show ?thesis
  proof (cases "a + delta < 2 ^ 32")
    case True
    then have "\<not> (of_nat (a + delta) :: u64) < of_nat a" using a by (simp add: word_less_nat_alt u del: of_nat_add)
    then show ?thesis unfolding m if_P [OF True] a_def [symmetric] by (simp add: orientation_delta_def)
  next
    case False
    define b where "b = a + delta - 2 ^ 32"
    have b: "a + delta = b + 2 ^ 32" "b < a" using False assms(2) by (simp_all add: b_def)
    have "(of_nat b :: u64) < of_nat a" using b a by (simp add: word_less_nat_alt u)
    moreover have "(of_nat b :: u64) + of_nat (2 ^ 32) = of_nat a + of_nat delta" using b(1) by (metis of_nat_add)
    ultimately show ?thesis using False unfolding m if_not_P [OF False] by (simp only: orientation_delta_def Let_def p if_True flip: a_def b_def) simp
  qed
qed

section \<open>Facts: exact arithmetic\<close>

definition real_ops :: "(real, real) orientation_ops" where
  "real_ops = \<lparr>f_lit = \<lambda>a b. of_int a / of_nat b, f_add = (+), f_sub = (-), f_mul = (*), f_div = (/), f_less = (<),
     f_to_u16 = \<lambda>x. word_of_int \<lfloor>x\<rfloor>, f_to_u32 = \<lambda>x. word_of_int \<lfloor>x\<rfloor>, f_to_d = id, d_to_f = id, d_sqrt1_2 = sqrt (1 / 2),
     d_zero = 0, d_neg = uminus, d_abs = abs, d_add = (+), d_mul = (*), d_div = (/), d_less = (<),
     f_neg = uminus, f_eq = (=), f_of_u64 = \<lambda>w. of_nat (unat w), d_lit = \<lambda>a b. of_int a / of_nat b, d_sub = (-), d_sqrt = sqrt\<rparr>"

definition orientation_norm :: "real orientation \<Rightarrow> real" where
  "orientation_norm q = (or_w q)\<^sup>2 + (or_x q)\<^sup>2 + (or_y q)\<^sup>2 + (or_z q)\<^sup>2"

lemma inv_sqrt_real: "inv_sqrt real_ops x = 1 / sqrt x"
  by (simp add: inv_sqrt_def real_ops_def)

lemma sum_squares_real: "f_sum_squares real_ops (a, b, c, d) = a\<^sup>2 + b\<^sup>2 + c\<^sup>2 + d\<^sup>2"
  by (simp add: f_sum_squares_def real_ops_def power2_eq_square)

text \<open>After an update the quaternion is a rotation, unless it has become zero.\<close>

lemma orientation_normalised_unit:
  assumes "(q0, q1, q2, q3) \<noteq> (0, 0, 0, 0 :: real)"
  shows "orientation_norm (orientation_normalised real_ops (q0, q1, q2, q3)) = 1"
proof -
  define n where "n = q0\<^sup>2 + q1\<^sup>2 + q2\<^sup>2 + q3\<^sup>2"
  have "0 \<le> n" "n \<noteq> 0" using assms by (auto simp: n_def add_nonneg_eq_0_iff)
  then have n: "0 < n" by simp
  have m: "f_mul real_ops = (*)" by (simp add: real_ops_def)
  have "orientation_norm (orientation_normalised real_ops (q0, q1, q2, q3)) = n / n"
    using n by (simp add: orientation_normalised_def orientation_norm_def m inv_sqrt_real sum_squares_real power_divide add_divide_distrib flip: n_def)
      (simp add: n_def flip: add_divide_distrib)
  then show ?thesis using n by simp
qed

lemma orientation_update_unit:
  "orientation_norm (chiaki_orientation_update real_ops gx gy gz ax ay az beta dt q) = 1 \<or>
   (\<exists>q_dot1 q_dot2 q_dot3 q_dot4. orientation_corrected real_ops q ax ay az beta (orientation_rate real_ops q gx gy gz) = (q_dot1, q_dot2, q_dot3, q_dot4) \<and>
      or_w q = - (q_dot1 * dt) \<and> or_x q = - (q_dot2 * dt) \<and> or_y q = - (q_dot3 * dt) \<and> or_z q = - (q_dot4 * dt))"
proof -
  obtain q_dot1 q_dot2 q_dot3 q_dot4 where
    c: "orientation_corrected real_ops q ax ay az beta (orientation_rate real_ops q gx gy gz) = (q_dot1, q_dot2, q_dot3, q_dot4)"
    by (metis prod_cases4)
  have o: "f_add real_ops = (+)" "f_mul real_ops = (*)" by (simp_all add: real_ops_def)
  show ?thesis
  proof (cases "(or_w q + q_dot1 * dt, or_x q + q_dot2 * dt, or_y q + q_dot3 * dt, or_z q + q_dot4 * dt) = (0, 0, 0, 0)")
    case True
    then show ?thesis using c by (intro disjI2 exI conjI) (assumption | simp)+
  next
    case False
    from orientation_normalised_unit [OF False] show ?thesis by (simp add: chiaki_orientation_update_def c o)
  qed
qed

text \<open>The direction in which a controller at rest with the orientation \<open>q\<close> feels gravity.\<close>

definition gravity :: "real orientation \<Rightarrow> real \<times> real \<times> real" where
  "gravity q = (2 * (or_x q * or_z q - or_w q * or_y q), 2 * (or_w q * or_x q + or_y q * or_z q), 1 - 2 * (or_x q)\<^sup>2 - 2 * (or_y q)\<^sup>2)"

lemma gravity_unit:
  assumes "orientation_norm q = 1" "gravity q = (ax, ay, az)"
  shows "ax\<^sup>2 + ay\<^sup>2 + az\<^sup>2 = 1"
proof -
  define a b c d where q: "a = or_w q" "b = or_x q" "c = or_y q" "d = or_z q"
  have n: "a\<^sup>2 + b\<^sup>2 + c\<^sup>2 + d\<^sup>2 = 1" using assms(1) by (simp add: orientation_norm_def q)
  have "az = a\<^sup>2 - b\<^sup>2 - c\<^sup>2 + d\<^sup>2" using n assms(2) by (simp add: gravity_def flip: q)
  moreover have "ax = 2 * (b * d - a * c)" "ay = 2 * (a * b + c * d)" using assms(2) by (simp_all add: gravity_def flip: q)
  ultimately have "ax\<^sup>2 + ay\<^sup>2 + az\<^sup>2 = (a\<^sup>2 + b\<^sup>2 + c\<^sup>2 + d\<^sup>2)\<^sup>2" by algebra
  then show ?thesis using n by simp
qed

lemma orientation_step_gravity:
  assumes "gravity q = (ax, ay, az)"
  shows "orientation_step real_ops q ax ay az = (0, 0, 0, 0)"
proof -
  define a b c d where q: "a = or_w q" "b = or_x q" "c = or_y q" "d = or_z q"
  have "ax = 2 * (b * d - a * c)" "ay = 2 * (a * b + c * d)" "az = 1 - 2 * b\<^sup>2 - 2 * c\<^sup>2" using assms by (simp_all add: gravity_def flip: q)
  moreover have o: "f_add real_ops = (+)" "f_sub real_ops = (-)" "f_mul real_ops = (*)" "f_lit real_ops x 1 = of_int x" for x
    by (simp_all add: real_ops_def)
  ultimately show ?thesis
    unfolding orientation_step_def Let_def o by (simp add: power2_eq_square algebra_simps flip: q) (intro conjI; algebra)
qed

text \<open>
  A controller at rest keeps its orientation: in exact arithmetic, without rotation and with an acceleration of any size in the direction of gravity an
  update leaves a unit quaternion as it is.
\<close>

theorem orientation_rest:
  assumes "orientation_norm q = 1" "gravity q = (ax, ay, az)" "0 < g"
  shows "chiaki_orientation_update real_ops 0 0 0 (g * ax) (g * ay) (g * az) beta dt q = q"
proof -
  have o: "f_add real_ops = (+)" "f_sub real_ops = (-)" "f_mul real_ops = (*)" "f_neg real_ops = uminus" "f_eq real_ops = (=)" "f_less real_ops = (<)"
    "f_lit real_ops x n = of_int x / of_nat n" for x n
    by (simp_all add: real_ops_def)
  note u = gravity_unit [OF assms(1,2)]
  have "(g * ax)\<^sup>2 + (g * ay)\<^sup>2 + (g * az)\<^sup>2 = g\<^sup>2 * (ax\<^sup>2 + ay\<^sup>2 + az\<^sup>2)" by (simp add: power_mult_distrib algebra_simps)
  then have s: "inv_sqrt real_ops (g * ax * (g * ax) + g * ay * (g * ay) + g * az * (g * az)) = 1 / g"
    using u assms(3) by (simp add: inv_sqrt_real flip: power2_eq_square)
  have r: "orientation_rate real_ops q 0 0 0 = (0, 0, 0, 0)" by (simp add: orientation_rate_def o)
  have "orientation_corrected real_ops q (g * ax) (g * ay) (g * az) beta (0, 0, 0, 0) = (0, 0, 0, 0)"
    using orientation_step_gravity [OF assms(2)] assms(3) s by (simp add: orientation_corrected_def o Let_def sum_squares_real)
  moreover have "orientation_normalised real_ops (or_w q, or_x q, or_y q, or_z q) = q"
    using assms(1) by (simp add: orientation_normalised_def o sum_squares_real inv_sqrt_real orientation_norm_def)
  ultimately show ?thesis by (simp add: chiaki_orientation_update_def r o)
qed

end
